(* ===== verification/GoPrelude.thy ===== *)
theory GoPrelude
  imports Main "HOL-Library.AList" "HOL-Library.Char_ord" "HOL-Library.List_Lexorder" "HOL-Library.Multiset" "HOL-Library.Sublist"
begin

text \<open>
  The vocabulary the component theories share.

  \<^item> A Go map is an association list with distinct keys. The order of the list is the order in
    which \<open>range\<close> happens to visit the map, so a theorem that holds for every such list holds for
    every iteration order of the Go runtime.
  \<^item> A fallible Go function returns \<open>error + value\<close>; a function that returns only an \<open>error\<close>
    returns an \<open>error option\<close>, with \<open>None\<close> for \<open>nil\<close>.
  \<^item> \<open>errors.Join\<close> is the list of the joined errors; \<open>nil\<close> is the empty list.
  \<^item> \<open>first_error\<close>, \<open>map_res\<close> and \<open>fold_res\<close> are the three shapes of a Go loop with an early
    return.
\<close>

named_theorems res_iff "when a fallible loop succeeds"
named_theorems keep "facts that an operation leaves unchanged"

type_synonym ('k, 'v) gomap = "('k \<times> 'v) list"

abbreviation keys :: "('k, 'v) gomap \<Rightarrow> 'k list" where
  "keys m \<equiv> map fst m"

definition lookup_or :: "'v \<Rightarrow> ('k, 'v) gomap \<Rightarrow> 'k \<Rightarrow> 'v" where
  "lookup_or d m k = (case map_of m k of None \<Rightarrow> d | Some v \<Rightarrow> v)"

lemma lookup_or_simps [simp]:
  "lookup_or d [] k = d"
  "lookup_or d ((k', v) # m) k = (if k = k' then v else lookup_or d m k)"
  by (simp_all add: lookup_or_def)

lemma lookup_or_absent: "k \<notin> set (keys m) \<Longrightarrow> lookup_or d m k = d"
  by (simp add: lookup_or_def map_of_eq_None_iff [THEN iffD2])

lemma map_of_Some_in_keys: "map_of m k = Some v \<Longrightarrow> k \<in> set (keys m)"
  by (metis map_of_eq_None_iff option.distinct(1) set_map)

lemma in_keys_map_of: "k \<in> set (keys m) \<Longrightarrow> \<exists>v. map_of m k = Some v"
  by (metis map_of_eq_None_iff option.exhaust set_map)

section \<open>Errors\<close>

text \<open>
  A Go error made by \<open>fmt.Errorf\<close> or \<open>errors.Join\<close>: what is reported (a short English name of
  the format string), the values it is formatted with, and the errors it wraps.
\<close>

datatype go_error = Errorf string "string list" "go_error list"

abbreviation joined :: "go_error list \<Rightarrow> go_error" where
  "joined es \<equiv> Errorf ''errors.Join'' [] es"

text \<open>\<open>errors.Join\<close> of errors that are not \<open>nil\<close>: \<open>nil\<close> when there are none.\<close>

definition errors_join :: "go_error list \<Rightarrow> go_error option" where
  "errors_join es = (if es = [] then None else Some (joined es))"

lemma errors_join_None [simp]: "errors_join es = None \<longleftrightarrow> es = []"
  by (simp add: errors_join_def)

section \<open>Loops with an early return\<close>

fun first_error :: "('a \<Rightarrow> 'e option) \<Rightarrow> 'a list \<Rightarrow> 'e option" where
  "first_error f [] = None"
| "first_error f (x # xs) = (case f x of Some e \<Rightarrow> Some e | None \<Rightarrow> first_error f xs)"

fun map_res :: "('a \<Rightarrow> 'e + 'b) \<Rightarrow> 'a list \<Rightarrow> 'e + 'b list" where
  "map_res f [] = Inr []"
| "map_res f (x # xs) =
     (case f x of Inl e \<Rightarrow> Inl e
      | Inr y \<Rightarrow> (case map_res f xs of Inl e \<Rightarrow> Inl e | Inr ys \<Rightarrow> Inr (y # ys)))"

fun fold_res :: "('a \<Rightarrow> 's \<Rightarrow> 'e + 's) \<Rightarrow> 'a list \<Rightarrow> 's \<Rightarrow> 'e + 's" where
  "fold_res f [] s = Inr s"
| "fold_res f (x # xs) s = (case f x s of Inl e \<Rightarrow> Inl e | Inr s' \<Rightarrow> fold_res f xs s')"

lemma first_error_None_iff [res_iff]: "first_error f xs = None \<longleftrightarrow> (\<forall>x \<in> set xs. f x = None)"
  by (induction xs) (auto split: option.splits)

lemma first_error_Some: "first_error f xs = Some e \<Longrightarrow> \<exists>x \<in> set xs. f x = Some e"
  by (induction xs) (auto split: option.splits)

lemma first_error_append:
  "first_error f (xs @ ys) = (case first_error f xs of Some e \<Rightarrow> Some e | None \<Rightarrow> first_error f ys)"
  by (induction xs) (auto split: option.splits)

lemma map_res_Inr_iff [res_iff]:
  "map_res f xs = Inr ys \<longleftrightarrow> list_all2 (\<lambda>x y. f x = Inr y) xs ys"
proof (induction xs arbitrary: ys)
  case (Cons x xs)
  show ?case
    by (auto simp: list_all2_Cons1 Cons.IH [symmetric] split: sum.splits)
qed auto

lemma map_res_InrD: "map_res f xs = Inr ys \<Longrightarrow> y \<in> set ys \<Longrightarrow> \<exists>x \<in> set xs. f x = Inr y"
  by (induction xs arbitrary: ys) (auto split: sum.splits)

lemma map_res_Inr_in: "map_res f xs = Inr ys \<Longrightarrow> x \<in> set xs \<Longrightarrow> \<exists>y \<in> set ys. f x = Inr y"
  by (induction xs arbitrary: ys) (auto split: sum.splits)

lemma map_res_Inl: "map_res f xs = Inl e \<Longrightarrow> \<exists>x \<in> set xs. f x = Inl e"
  by (induction xs) (auto split: sum.splits)

lemma map_res_length: "map_res f xs = Inr ys \<Longrightarrow> length ys = length xs"
  by (auto simp: map_res_Inr_iff dest: list_all2_lengthD)

lemma fold_res_append:
  "fold_res f (xs @ ys) s = (case fold_res f xs s of Inl e \<Rightarrow> Inl e | Inr t \<Rightarrow> fold_res f ys t)"
  by (induction xs arbitrary: s) (auto split: sum.splits)

lemma fold_res_Inl:
  "fold_res f xs s = Inl e \<Longrightarrow>
   \<exists>ys x zs t. xs = ys @ x # zs \<and> fold_res f ys s = Inr t \<and> f x t = Inl e"
proof (induction xs arbitrary: s)
  case (Cons x xs)
  show ?case
  proof (cases "f x s")
    case (Inl e')
    with Cons.prems show ?thesis by (intro exI [of _ "[]"] exI [of _ x] exI [of _ xs]) simp
  next
    case (Inr s')
    with Cons obtain ys z zs t
      where "xs = ys @ z # zs" "fold_res f ys s' = Inr t" "f z t = Inl e" by fastforce
    with Inr show ?thesis
      by (intro exI [of _ "x # ys"] exI [of _ z] exI [of _ zs] exI [of _ t]) simp
  qed
qed simp

lemma fold_res_invariant:
  assumes "fold_res f xs s = Inr t" and "P s"
    and "\<And>x s s'. x \<in> set xs \<Longrightarrow> P s \<Longrightarrow> f x s = Inr s' \<Longrightarrow> P s'"
  shows "P t"
  using assms
proof (induction xs arbitrary: s)
  case (Cons x xs)
  then obtain s' where "f x s = Inr s'" and "fold_res f xs s' = Inr t"
    by (auto split: sum.splits)
  with Cons show ?case by (metis list.set_intros)
qed simp

section \<open>Lists\<close>

lemma concat_map_nil: "(\<And>x. x \<in> set xs \<Longrightarrow> f x = []) \<Longrightarrow> concat (map f xs) = []"
  by (induction xs) auto

lemma sorted_wrt_set_sort: "set (sort xs) = set xs"
  by simp

lemma list_all2_in: "list_all2 Q xs ys \<Longrightarrow> x \<in> set xs \<Longrightarrow> \<exists>y \<in> set ys. Q x y"
  by (induction rule: list_all2_induct) auto

lemma perm_upt: "mset s = mset [0..<n] \<longleftrightarrow> distinct s \<and> set s = {..<n}"
proof
  assume "mset s = mset [0..<n]"
  then show "distinct s \<and> set s = {..<n}"
    by (metis atLeast_upt distinct_upt mset_eq_imp_distinct_iff mset_eq_setD)
next
  assume "distinct s \<and> set s = {..<n}"
  then show "mset s = mset [0..<n]"
    by (metis atLeast_upt distinct_upt set_eq_iff_mset_eq_distinct)
qed

end
