(* ===== verification/GoStrings.thy ===== *)
theory GoStrings
  imports GoPrelude
begin

text \<open>
  The functions of Go's packages \<open>strings\<close> and \<open>strconv\<close> that the program calls, on byte strings
  (\<open>char list\<close>). White space is ASCII white space: the Unicode spaces U+0085 and U+00A0, which Go's
  \<open>TrimSpace\<close> also strips, are not recognised. A regular expression of the program that is applied
  with \<open>ReplaceAllStringFunc\<close> or \<open>FindAllString\<close> is given by the length of its match at the start
  of a string (0 for no match); \<open>replace_matches\<close> and \<open>find_matches\<close> are the leftmost,
  non-overlapping scan of the string.
\<close>

section \<open>Prefixes, suffixes, substrings\<close>

abbreviation has_prefix :: "string \<Rightarrow> string \<Rightarrow> bool" where
  "has_prefix s p \<equiv> prefix p s"

abbreviation has_suffix :: "string \<Rightarrow> string \<Rightarrow> bool" where
  "has_suffix s p \<equiv> suffix p s"

abbreviation contains_str :: "string \<Rightarrow> string \<Rightarrow> bool" where
  "contains_str s p \<equiv> sublist p s"

definition trim_prefix :: "string \<Rightarrow> string \<Rightarrow> string" where
  "trim_prefix s p = (if prefix p s then drop (length p) s else s)"

definition trim_suffix :: "string \<Rightarrow> string \<Rightarrow> string" where
  "trim_suffix s p = (if suffix p s then take (length s - length p) s else s)"

definition contains_any :: "string \<Rightarrow> string \<Rightarrow> bool" where
  "contains_any s cs = (\<exists>c \<in> set s. c \<in> set cs)"

lemma trim_prefix_append [simp]: "trim_prefix (p @ s) p = s"
  by (simp add: trim_prefix_def)

lemma trim_suffix_append [simp]: "trim_suffix (s @ p) p = s"
  by (simp add: trim_suffix_def suffix_def)

lemma trim_suffix_id: "\<not> suffix p s \<Longrightarrow> trim_suffix s p = s"
  by (simp add: trim_suffix_def)

lemma set_trim_prefix: "set (trim_prefix s p) \<subseteq> set s"
  by (auto simp: trim_prefix_def dest: in_set_dropD)

section \<open>White space and trimming\<close>

definition is_space :: "char \<Rightarrow> bool" where
  "is_space c = (c = CHR '' '' \<or> c = CHR 0x09 \<or> c = CHR 0x0A \<or> c = CHR 0x0B \<or> c = CHR 0x0C \<or> c = CHR 0x0D)"

definition trim_left :: "(char \<Rightarrow> bool) \<Rightarrow> string \<Rightarrow> string" where
  "trim_left P s = dropWhile P s"

definition trim_right :: "(char \<Rightarrow> bool) \<Rightarrow> string \<Rightarrow> string" where
  "trim_right P s = rev (dropWhile P (rev s))"

definition trim_space :: "string \<Rightarrow> string" where
  "trim_space s = trim_right is_space (trim_left is_space s)"

lemma trim_left_id: "s = [] \<or> \<not> P (hd s) \<Longrightarrow> trim_left P s = s"
  by (cases s) (auto simp: trim_left_def)

lemma trim_right_id: "s = [] \<or> \<not> P (last s) \<Longrightarrow> trim_right P s = s"
  by (cases s rule: rev_cases) (auto simp: trim_right_def)

lemma trim_space_no_space: "(\<And>c. c \<in> set s \<Longrightarrow> \<not> is_space c) \<Longrightarrow> trim_space s = s"
  by (cases "s = []") (auto simp: trim_space_def trim_left_id trim_right_id)

lemma trim_right_snoc [simp]: "trim_right P (s @ [c]) = (if P c then trim_right P s else s @ [c])"
  by (simp add: trim_right_def)

lemma set_trim_space: "set (trim_space s) \<subseteq> set s"
  by (auto simp: trim_space_def trim_left_def trim_right_def dest!: set_dropWhileD)

text \<open>The class \<open>\s\<close> of Go's regular expressions.\<close>

definition re_space :: "char \<Rightarrow> bool" where
  "re_space c = (c = CHR '' '' \<or> c = CHR 0x09 \<or> c = CHR 0x0A \<or> c = CHR 0x0C \<or> c = CHR 0x0D)"

text \<open>The upper case and the lower case of an ASCII letter.\<close>

definition upper_char :: "char \<Rightarrow> char" where
  "upper_char c = (if CHR ''a'' \<le> c \<and> c \<le> CHR ''z'' then char_of (of_char c - 32 :: nat) else c)"

definition lower_char :: "char \<Rightarrow> char" where
  "lower_char c = (if CHR ''A'' \<le> c \<and> c \<le> CHR ''Z'' then char_of (of_char c + 32 :: nat) else c)"

section \<open>Splitting and joining\<close>

fun split_by :: "(char \<Rightarrow> bool) \<Rightarrow> string \<Rightarrow> string list" where
  "split_by P [] = [[]]"
| "split_by P (x # xs) =
     (if P x then [] # split_by P xs
      else (case split_by P xs of [] \<Rightarrow> [[x]] | y # ys \<Rightarrow> (x # y) # ys))"

abbreviation split_char :: "char \<Rightarrow> string \<Rightarrow> string list" where
  "split_char c \<equiv> split_by (\<lambda>x. x = c)"

fun join_with :: "string \<Rightarrow> string list \<Rightarrow> string" where
  "join_with sep [] = []"
| "join_with sep [x] = x"
| "join_with sep (x # y # ys) = x @ sep @ join_with sep (y # ys)"

definition cut_char :: "char \<Rightarrow> string \<Rightarrow> (string \<times> string) option" where
  "cut_char c s =
     (case dropWhile (\<lambda>x. x \<noteq> c) s of [] \<Rightarrow> None | _ # after \<Rightarrow> Some (takeWhile (\<lambda>x. x \<noteq> c) s, after))"

definition str_fields :: "string \<Rightarrow> string list" where
  "str_fields s = filter (\<lambda>w. w \<noteq> []) (split_by is_space s)"

lemma split_by_nonempty [simp]: "split_by P s \<noteq> []"
  by (induction s) (auto split: list.splits)

lemma split_by_none: "(\<And>x. x \<in> set s \<Longrightarrow> \<not> P x) \<Longrightarrow> split_by P s = [s]"
  by (induction s) auto

lemma split_by_parts: "p \<in> set (split_by P s) \<Longrightarrow> x \<in> set p \<Longrightarrow> \<not> P x \<and> x \<in> set s"
  by (induction s arbitrary: p) (fastforce split: list.splits if_splits)+

lemma split_by_append:
  "(\<And>y. y \<in> set x \<Longrightarrow> \<not> P y) \<Longrightarrow> P c \<Longrightarrow> split_by P (x @ c # s) = x # split_by P s"
  by (induction x) auto

lemma split_char_no_sep: "c \<notin> set s \<Longrightarrow> split_char c s = [s]"
  by (rule split_by_none) auto

lemma split_char_parts: "p \<in> set (split_char c s) \<Longrightarrow> c \<notin> set p"
  using split_by_parts by blast

lemma split_char_append: "c \<notin> set x \<Longrightarrow> split_char c (x @ c # s) = x # split_char c s"
  by (rule split_by_append) auto

lemma join_with_Cons: "xs \<noteq> [] \<Longrightarrow> join_with sep (x # xs) = x @ sep @ join_with sep xs"
  by (cases xs) auto

lemma join_with_head: "join_with sep ((x # y) # ys) = x # join_with sep (y # ys)"
  by (cases ys) auto

lemma join_split [simp]: "join_with [c] (split_char c s) = s"
proof (induction s)
  case (Cons x s)
  then show ?case
    by (cases "split_char c s") (auto simp: join_with_Cons join_with_head)
qed simp

lemma split_join:
  assumes "xs \<noteq> []" and "\<And>x. x \<in> set xs \<Longrightarrow> c \<notin> set x"
  shows "split_char c (join_with [c] xs) = xs"
  using assms
proof (induction "[c]" xs rule: join_with.induct)
  case (2 x)
  then show ?case by (simp add: split_char_no_sep)
next
  case (3 x y ys)
  then show ?case by (simp add: split_char_append)
qed simp

lemma set_join_with: "set (join_with sep xs) \<subseteq> \<Union> (set ` set xs) \<union> set sep"
  by (induction sep xs rule: join_with.induct) auto

lemma cut_char_Some_iff: "cut_char c s = Some (a, b) \<longleftrightarrow> s = a @ c # b \<and> c \<notin> set a"
proof
  assume "cut_char c s = Some (a, b)"
  then obtain x where d: "dropWhile (\<lambda>x. x \<noteq> c) s = x # b" and a: "a = takeWhile (\<lambda>x. x \<noteq> c) s"
    by (auto simp: cut_char_def split: list.splits)
  from d have "x = c" using hd_dropWhile [of "\<lambda>x. x \<noteq> c" s] by auto
  moreover have "s = a @ dropWhile (\<lambda>x. x \<noteq> c) s" by (simp add: a)
  moreover have "c \<notin> set a" using a by (auto dest: set_takeWhileD)
  ultimately show "s = a @ c # b \<and> c \<notin> set a" using d by simp
next
  assume h: "s = a @ c # b \<and> c \<notin> set a"
  then have "\<And>x. x \<in> set a \<Longrightarrow> x \<noteq> c" by auto
  with h show "cut_char c s = Some (a, b)"
    by (simp add: cut_char_def dropWhile_append2 takeWhile_append2)
qed

lemma str_fields_parts: "p \<in> set (str_fields s) \<Longrightarrow> p \<noteq> [] \<and> (\<forall>c \<in> set p. \<not> is_space c)"
  by (auto simp: str_fields_def dest: split_by_parts)

lemma str_fields_word: "w \<noteq> [] \<Longrightarrow> (\<And>c. c \<in> set w \<Longrightarrow> \<not> is_space c) \<Longrightarrow> str_fields w = [w]"
  by (simp add: str_fields_def split_by_none)

section \<open>Scanning for a pattern\<close>

text \<open>\<open>m s\<close> is the length of the pattern's match at the start of \<open>s\<close>, 0 when it does not match.\<close>

function replace_matches :: "(string \<Rightarrow> nat) \<Rightarrow> (string \<Rightarrow> string) \<Rightarrow> string \<Rightarrow> string" where
  "replace_matches m f [] = []"
| "replace_matches m f (c # cs) =
     (if m (c # cs) = 0 then c # replace_matches m f cs
      else f (take (m (c # cs)) (c # cs)) @ replace_matches m f (drop (m (c # cs)) (c # cs)))"
  by pat_completeness auto
termination by (relation "measure (\<lambda>(m, f, s). length s)") auto

function find_matches :: "(string \<Rightarrow> nat) \<Rightarrow> string \<Rightarrow> string list" where
  "find_matches m [] = []"
| "find_matches m (c # cs) =
     (if m (c # cs) = 0 then find_matches m cs
      else take (m (c # cs)) (c # cs) # find_matches m (drop (m (c # cs)) (c # cs)))"
  by pat_completeness auto
termination by (relation "measure (\<lambda>(m, s). length s)") auto

lemma replace_matches_none: "find_matches m s = [] \<Longrightarrow> replace_matches m f s = s"
  by (induction m s rule: find_matches.induct) (auto split: if_splits)

lemma replace_matches_id: "(\<And>x. x \<in> set (find_matches m s) \<Longrightarrow> f x = x) \<Longrightarrow> replace_matches m f s = s"
proof (induction m s rule: find_matches.induct)
  case (2 m c cs)
  then show ?case
    using append_take_drop_id [of "m (c # cs)" "c # cs"] by (cases "m (c # cs) = 0") auto
qed simp

lemma find_matches_match:
  assumes "x \<in> set (find_matches m s)"
  shows "\<exists>t u. s = t @ u \<and> 0 < m u \<and> x = take (m u) u"
  using assms
proof (induction m s rule: find_matches.induct)
  case (2 m c cs)
  show ?case
  proof (cases "m (c # cs) = 0")
    case True
    with "2.prems" "2.IH"(1) obtain t u where "cs = t @ u \<and> 0 < m u \<and> x = take (m u) u"
      by auto
    then show ?thesis by (intro exI [of _ "c # t"] exI [of _ u]) simp
  next
    case False
    with "2.prems" consider "x = take (m (c # cs)) (c # cs)"
      | "x \<in> set (find_matches m (drop (m (c # cs)) (c # cs)))" by auto
    then show ?thesis
    proof cases
      case 1
      with False show ?thesis by (intro exI [of _ "[]"] exI [of _ "c # cs"]) simp
    next
      case 2
      let ?n = "m (c # cs)"
      from 2 "2.IH"(2) False obtain t u
        where tu: "drop ?n (c # cs) = t @ u" "0 < m u \<and> x = take (m u) u" by blast
      have "c # cs = (take ?n (c # cs) @ t) @ u"
        unfolding append_assoc tu(1) [symmetric] by (rule append_take_drop_id [symmetric])
      with tu(2) show ?thesis by blast
    qed
  qed
qed simp

lemma find_matches_empty:
  "(\<And>t u. s = t @ u \<Longrightarrow> m u = 0) \<Longrightarrow> find_matches m s = []"
  by (metis find_matches_match list.set_intros(1) neq_Nil_conv less_irrefl)

text \<open>\<open>strings.NewReplacer\<close> and \<open>strings.ReplaceAll\<close>, for non-empty search strings.\<close>

definition replacer_len :: "(string \<times> string) list \<Rightarrow> string \<Rightarrow> nat" where
  "replacer_len ps s = (case find (\<lambda>(p, _). prefix p s) ps of None \<Rightarrow> 0 | Some (p, _) \<Rightarrow> length p)"

definition replacer :: "(string \<times> string) list \<Rightarrow> string \<Rightarrow> string" where
  "replacer ps = replace_matches (replacer_len ps) (\<lambda>x. lookup_or x ps x)"

definition replace_all :: "string \<Rightarrow> string \<Rightarrow> string \<Rightarrow> string" where
  "replace_all p r = replacer [(p, r)]"

section \<open>Decimal numbers\<close>

definition is_digit :: "char \<Rightarrow> bool" where
  "is_digit c = (CHR ''0'' \<le> c \<and> c \<le> CHR ''9'')"

definition digit_val :: "char \<Rightarrow> nat" where
  "digit_val c = of_char c - 48"

definition digit_char :: "nat \<Rightarrow> char" where
  "digit_char d = char_of (48 + d)"

definition parse_digits :: "string \<Rightarrow> nat option" where
  "parse_digits s =
     (if s \<noteq> [] \<and> list_all is_digit s then Some (foldl (\<lambda>n c. 10 * n + digit_val c) 0 s) else None)"

fun format_nat :: "nat \<Rightarrow> string" where
  "format_nat n = (if n < 10 then [digit_char n] else format_nat (n div 10) @ [digit_char (n mod 10)])"

declare format_nat.simps [simp del]

definition format_int :: "int \<Rightarrow> string" where
  "format_int i = (if i < 0 then CHR ''-'' # format_nat (nat (- i)) else format_nat (nat i))"

text \<open>The same on integers, which are evaluated faster than natural numbers.\<close>

function format_digits :: "int \<Rightarrow> string" where
  "format_digits i = (if i < 10 then [digit_char (nat i)] else format_digits (i div 10) @ [digit_char (nat (i mod 10))])"
  by pat_completeness auto
termination by (relation "measure nat") auto

declare format_digits.simps [simp del]

lemma format_digits_nat: "0 \<le> i \<Longrightarrow> format_digits i = format_nat (nat i)"
proof (induction i rule: format_digits.induct)
  case (1 i)
  have "nat i < 10 \<longleftrightarrow> i < 10" using 1 by auto
  with 1 show ?case
    by (simp add: format_digits.simps [of i] format_nat.simps [of "nat i"] nat_div_distrib nat_mod_distrib)
qed

lemma format_int_code [code]: "format_int i = (if i < 0 then CHR ''-'' # format_digits (- i) else format_digits i)"
  by (simp add: format_int_def format_digits_nat)

text \<open>\<open>strconv.ParseUint (s, 10, 64)\<close> and \<open>strconv.ParseInt (s, 10, 64)\<close>: an optional sign for the
  latter, at least one digit, and a range check.\<close>

definition parse_uint64 :: "string \<Rightarrow> nat option" where
  "parse_uint64 s = (case parse_digits s of Some n \<Rightarrow> (if n < 2 ^ 64 then Some n else None) | None \<Rightarrow> None)"

definition parse_int64 :: "string \<Rightarrow> int option" where
  "parse_int64 s =
     (case s of
        c # t \<Rightarrow>
          (if c = CHR ''-'' then
             (case parse_digits t of Some n \<Rightarrow> (if n \<le> 2 ^ 63 then Some (- int n) else None) | None \<Rightarrow> None)
           else
             (case parse_digits (if c = CHR ''+'' then t else s) of
                Some n \<Rightarrow> (if n < 2 ^ 63 then Some (int n) else None) | None \<Rightarrow> None))
      | [] \<Rightarrow> None)"

lemma parse_int64_code [code]:
  "parse_int64 s =
     (case s of
        c # t \<Rightarrow>
          (if c = CHR ''-'' then
             (case parse_digits t of Some n \<Rightarrow> (if int n \<le> 9223372036854775808 then Some (- int n) else None) | None \<Rightarrow> None)
           else
             (case parse_digits (if c = CHR ''+'' then t else s) of
                Some n \<Rightarrow> (if int n < 9223372036854775808 then Some (int n) else None) | None \<Rightarrow> None))
      | [] \<Rightarrow> None)"
  by (auto simp: parse_int64_def split: list.splits option.splits)

lemma parse_uint64_code [code]:
  "parse_uint64 s =
     (case parse_digits s of Some n \<Rightarrow> (if int n < 18446744073709551616 then Some n else None) | None \<Rightarrow> None)"
  by (auto simp: parse_uint64_def split: option.splits)

lemma of_char_digit_char: "d < 10 \<Longrightarrow> (of_char (digit_char d) :: nat) = 48 + d"
  by (simp add: digit_char_def)

lemma is_digit_iff: "is_digit c \<longleftrightarrow> 48 \<le> (of_char c :: nat) \<and> (of_char c :: nat) \<le> 57"
  by (simp add: is_digit_def less_eq_char_def)

lemma is_digit_digit_char [simp]: "d < 10 \<Longrightarrow> is_digit (digit_char d)"
  by (simp add: is_digit_iff of_char_digit_char)

lemma digit_val_digit_char [simp]: "d < 10 \<Longrightarrow> digit_val (digit_char d) = d"
  by (simp add: digit_val_def of_char_digit_char)

lemma format_nat_digits: "format_nat n \<noteq> [] \<and> list_all is_digit (format_nat n)"
proof (induction n rule: format_nat.induct)
  case (1 n)
  then show ?case
    by (cases "n < 10") (auto simp: format_nat.simps [of n])
qed

lemma foldl_format_nat: "foldl (\<lambda>n c. 10 * n + digit_val c) 0 (format_nat n) = n"
proof (induction n rule: format_nat.induct)
  case (1 n)
  then show ?case
    by (cases "n < 10") (auto simp: format_nat.simps [of n])
qed

lemma parse_format_nat [simp]: "parse_digits (format_nat n) = Some n"
  by (simp add: parse_digits_def format_nat_digits foldl_format_nat)

lemma parse_uint64_format [simp]: "n < 2 ^ 64 \<Longrightarrow> parse_uint64 (format_nat n) = Some n"
  by (simp add: parse_uint64_def)

lemma format_nat_hd: "is_digit (hd (format_nat n))"
  using format_nat_digits [of n] by (cases "format_nat n") auto

lemma parse_int64_format:
  assumes "- (2 ^ 63) \<le> i" and "i < 2 ^ 63"
  shows "parse_int64 (format_int i) = Some i"
proof (cases "i < 0")
  case True
  with assms have "nat (- i) \<le> 2 ^ 63" by auto
  with True show ?thesis by (simp add: parse_int64_def format_int_def)
next
  case False
  obtain c t where s: "format_nat (nat i) = c # t" and d: "is_digit c"
    using format_nat_digits [of "nat i"] by (cases "format_nat (nat i)") auto
  have "c \<noteq> CHR ''-''" and "c \<noteq> CHR ''+''" using d by (auto simp: is_digit_iff)
  moreover have "parse_digits (c # t) = Some (nat i)" using parse_format_nat [of "nat i"] s by simp
  moreover have "nat i < 2 ^ 63" using assms False by auto
  ultimately show ?thesis using False by (simp add: parse_int64_def format_int_def s)
qed

section \<open>Errors as text\<close>

text \<open>\<open>err.Error ()\<close> of a structured error: its name and its values.\<close>

definition error_text :: "go_error \<Rightarrow> string" where
  "error_text e = (case e of Errorf f args inner \<Rightarrow> f @ '' '' @ join_with '' '' args)"

section \<open>JSON values\<close>

text \<open>A decoded JSON value; a number keeps the text it is written with.\<close>

datatype json = JNull | JBool bool | JNum string | JStr string | JArr "json list" | JObj "(string, json) gomap"

end
