(* ===== verification/GoPath.thy ===== *)
theory GoPath
  imports GoStrings
begin

text \<open>
  The functions of Go's packages \<open>path\<close> and \<open>path/filepath\<close> (on Unix) that the program calls:
  \<open>Clean\<close>, \<open>IsAbs\<close>, \<open>Base\<close>, \<open>Dir\<close>, \<open>Join\<close>, \<open>Ext\<close>, \<open>Abs\<close>, and the facts about lexical
  normalisation from which the path checks of the deployment tool draw their meaning. A path is
  normalised with a stack of components, the last component on top.
\<close>

definition is_abs :: "string \<Rightarrow> bool" where
  "is_abs p = prefix ''/'' p"

definition clean_step :: "bool \<Rightarrow> string \<Rightarrow> string list \<Rightarrow> string list" where
  "clean_step rooted c st =
     (if c = [] \<or> c = ''.'' then st
      else if c = ''..'' then
        (case st of [] \<Rightarrow> (if rooted then [] else [''..''])
         | t # ts \<Rightarrow> (if t = ''..'' then ''..'' # st else ts))
      else c # st)"

definition clean_comps :: "bool \<Rightarrow> string \<Rightarrow> string list" where
  "clean_comps rooted p = rev (fold (clean_step rooted) (split_char (CHR ''/'') p) [])"

definition clean :: "string \<Rightarrow> string" where
  "clean p =
     (if is_abs p then CHR ''/'' # join_with ''/'' (clean_comps True p)
      else if clean_comps False p = [] then ''.'' else join_with ''/'' (clean_comps False p))"

definition path_base :: "string \<Rightarrow> string" where
  "path_base p =
     (if p = [] then ''.''
      else let t = trim_right (\<lambda>c. c = CHR ''/'') p
           in if t = [] then ''/'' else last (split_char (CHR ''/'') t))"

definition path_dir :: "string \<Rightarrow> string" where
  "path_dir p = clean (rev (dropWhile (\<lambda>c. c \<noteq> CHR ''/'') (rev p)))"

definition path_join :: "string list \<Rightarrow> string" where
  "path_join es =
     (case dropWhile (\<lambda>e. e = []) es of [] \<Rightarrow> [] | x # xs \<Rightarrow> clean (join_with ''/'' (x # xs)))"

definition path_ext :: "string \<Rightarrow> string" where
  "path_ext p =
     (let b = last (split_char (CHR ''/'') p)
      in if CHR ''.'' \<in> set b then CHR ''.'' # last (split_char (CHR ''.'') b) else [])"

definition abs_path :: "string option \<Rightarrow> string \<Rightarrow> string option" where
  "abs_path cwd p =
     (if is_abs p then Some (clean p)
      else (case cwd of None \<Rightarrow> None | Some d \<Rightarrow> Some (path_join [d, p])))"

section \<open>Normal components\<close>

definition normal_comp :: "string \<Rightarrow> bool" where
  "normal_comp c \<longleftrightarrow> c \<noteq> [] \<and> c \<noteq> ''.'' \<and> CHR ''/'' \<notin> set c"

lemma clean_step_normal:
  "CHR ''/'' \<notin> set c \<Longrightarrow> \<forall>x \<in> set st. normal_comp x \<Longrightarrow> \<forall>x \<in> set (clean_step r c st). normal_comp x"
  by (cases st) (simp_all add: clean_step_def normal_comp_def)

lemma fold_clean_normal:
  "\<forall>c \<in> set cs. CHR ''/'' \<notin> set c \<Longrightarrow> \<forall>x \<in> set st. normal_comp x \<Longrightarrow>
   \<forall>x \<in> set (fold (clean_step r) cs st). normal_comp x"
proof (induction cs arbitrary: st)
  case (Cons c cs)
  have "\<forall>x \<in> set (clean_step r c st). normal_comp x"
    by (rule clean_step_normal) (use Cons.prems in auto)
  moreover have "\<forall>d \<in> set cs. CHR ''/'' \<notin> set d" using Cons.prems(1) by simp
  ultimately have "\<forall>x \<in> set (fold (clean_step r) cs (clean_step r c st)). normal_comp x"
    by (intro Cons.IH)
  then show ?case by simp
qed simp

lemma clean_comps_normal: "x \<in> set (clean_comps r p) \<Longrightarrow> normal_comp x"
  using fold_clean_normal [of "split_char (CHR ''/'') p" "[]" r] split_char_parts
  by (auto simp: clean_comps_def)

lemma fold_clean_rooted: "''..'' \<notin> set st \<Longrightarrow> ''..'' \<notin> set (fold (clean_step True) cs st)"
proof (induction cs arbitrary: st)
  case (Cons c cs)
  have "''..'' \<notin> set (clean_step True c st)"
    using Cons.prems by (auto simp: clean_step_def split: list.splits)
  then show ?case using Cons.IH by simp
qed simp

lemma clean_comps_rooted: "''..'' \<notin> set (clean_comps True p)"
  by (simp add: clean_comps_def fold_clean_rooted)

lemma clean_step_dots: "''..'' \<in> set st \<Longrightarrow> ''..'' \<in> set (clean_step False c st)"
  by (auto simp: clean_step_def split: list.splits)

text \<open>
  A relative path whose normal form has no \<open>..\<close> never leaves the directory it is resolved in:
  normalising it on top of any stack gives that stack with the path's own components added.
\<close>

lemma fold_clean_below:
  "''..'' \<notin> set (fold (clean_step False) cs st) \<Longrightarrow>
   ''..'' \<notin> set st \<and> fold (clean_step r) cs (st @ base) = fold (clean_step False) cs st @ base"
proof (induction cs arbitrary: st)
  case (Cons c cs)
  from Cons.prems Cons.IH [of "clean_step False c st"]
  have no: "''..'' \<notin> set (clean_step False c st)"
    and eq: "fold (clean_step r) cs (clean_step False c st @ base)
      = fold (clean_step False) cs (clean_step False c st) @ base"
    by auto
  have st: "''..'' \<notin> set st" using no clean_step_dots by blast
  have "clean_step r c (st @ base) = clean_step False c st @ base"
    using no st by (cases st) (auto simp: clean_step_def split: if_splits)
  with st eq show ?case by simp
qed simp

lemma fold_clean_normal_id:
  "\<forall>c \<in> set cs. normal_comp c \<and> c \<noteq> ''..'' \<Longrightarrow> fold (clean_step r) cs st = rev cs @ st"
  by (induction cs arbitrary: st) (auto simp: clean_step_def normal_comp_def)

lemma split_by_join_comps:
  "cs \<noteq> [] \<Longrightarrow> \<forall>c \<in> set cs. CHR ''/'' \<notin> set c \<Longrightarrow> split_char (CHR ''/'') (join_with ''/'' cs) = cs"
  by (rule split_join) auto

lemma split_clean_abs:
  assumes "is_abs p"
  shows "split_char (CHR ''/'') (clean p) = [] # (if clean_comps True p = [] then [[]] else clean_comps True p)"
  using assms clean_comps_normal [of _ True p]
  by (auto simp: clean_def normal_comp_def split_by_join_comps)

lemma clean_comps_abs_Cons: "clean_comps r (CHR ''/'' # p) = clean_comps r p"
  by (simp add: clean_comps_def clean_step_def)

lemma clean_abs_idem: "is_abs p \<Longrightarrow> clean (clean p) = clean p"
proof -
  assume p: "is_abs p"
  have id: "fold (clean_step True) (clean_comps True p) [] = rev (clean_comps True p)"
    using fold_clean_normal_id [of "clean_comps True p" True "[]"] clean_comps_normal clean_comps_rooted
    by (metis append_Nil2)
  have "clean_comps True (clean p) = clean_comps True p"
    by (simp add: clean_comps_def [of True "clean p"] split_clean_abs [OF p] clean_step_def id)
  then show ?thesis using p by (auto simp: clean_def is_abs_def)
qed

lemma join_with_append:
  "xs \<noteq> [] \<Longrightarrow> ys \<noteq> [] \<Longrightarrow> join_with sep (xs @ ys) = join_with sep xs @ sep @ join_with sep ys"
proof (induction xs)
  case (Cons x xs)
  then show ?case by (cases "xs = []") (auto simp: join_with_Cons)
qed simp

lemma fold_clean_split_slash:
  "fold (clean_step r) (split_char (CHR ''/'') (a @ CHR ''/'' # b)) st
   = fold (clean_step r) (split_char (CHR ''/'') b) (fold (clean_step r) (split_char (CHR ''/'') a) st)"
proof (induction a arbitrary: st)
  case (Cons x a)
  show ?case
  proof (cases "split_char (CHR ''/'') a")
    case Nil
    then show ?thesis using split_by_nonempty by metis
  next
    case (Cons y ys)
    have "split_char (CHR ''/'') (a @ CHR ''/'' # b) = y # ys @ split_char (CHR ''/'') b"
    proof -
      have "split_char (CHR ''/'') (a @ CHR ''/'' # b) = split_char (CHR ''/'') a @ split_char (CHR ''/'') b"
      proof (induction a)
        case (Cons z zs)
        then show ?case by (cases "split_char (CHR ''/'') zs") (auto split: list.splits)
      qed simp
      then show ?thesis using Cons by simp
    qed
    then show ?thesis using Cons by simp
  qed
qed (simp add: clean_step_def)

text \<open>Joining an absolute directory and such a relative path stays below the directory.\<close>

lemma path_join_below:
  assumes root: "is_abs root" and rel: "\<not> is_abs p" and no: "''..'' \<notin> set (clean_comps False p)"
  shows "clean_comps True (root @ ''/'' @ p) = clean_comps True root @ clean_comps False p"
proof -
  let ?f = "\<lambda>b q st. fold (clean_step b) (split_char (CHR ''/'') q) st"
  have "?f True (root @ ''/'' @ p) [] = ?f True p (?f True root [])"
    by (simp add: fold_clean_split_slash)
  also have "\<dots> = ?f False p [] @ ?f True root []"
    using fold_clean_below [of "split_char (CHR ''/'') p" "[]" True "?f True root []"] no
    by (simp add: clean_comps_def)
  finally show ?thesis by (simp add: clean_comps_def)
qed

lemma path_base_no_slash: "path_base p = p \<Longrightarrow> p \<noteq> ''/'' \<Longrightarrow> CHR ''/'' \<notin> set p"
proof -
  assume eq: "path_base p = p" and ne: "p \<noteq> ''/''"
  then have p: "p \<noteq> []" and "p \<noteq> []" by (auto simp: path_base_def)
  let ?t = "trim_right (\<lambda>c. c = CHR ''/'') p"
  have "?t \<noteq> []" using eq ne p by (auto simp: path_base_def Let_def)
  then have "p = last (split_char (CHR ''/'') ?t)" using eq p by (simp add: path_base_def Let_def)
  moreover have "last (split_char (CHR ''/'') ?t) \<in> set (split_char (CHR ''/'') ?t)" by simp
  ultimately show ?thesis using split_char_parts by metis
qed

end
