(* ===== verification/GoPlaceholder.thy ===== *)
theory GoPlaceholder
  imports GoStrings
begin

text \<open>
  The placeholders that the declarations of \<open>deployctl\<close> and \<open>measurectl\<close> share: the regular expression
  \<open>\{(lit1|lit2|..|var:[A-Za-z0-9_]+)\}\<close>, as the length of its match at the start of a string.
\<close>

section \<open>The pattern\<close>

definition word_char :: "char \<Rightarrow> bool" where
  "word_char c =
     ((CHR ''A'' \<le> c \<and> c \<le> CHR ''Z'') \<or> (CHR ''a'' \<le> c \<and> c \<le> CHR ''z'') \<or> is_digit c \<or> c = CHR ''_'')"

text \<open>The length of a match of \<open>\{(lit1|lit2|..|var:[A-Za-z0-9_]+)\}\<close> at the start of a string.\<close>

definition var_len :: "string \<Rightarrow> nat" where
  "var_len s =
     (if prefix ''{var:'' s then
        (let n = takeWhile word_char (drop 5 s); r = dropWhile word_char (drop 5 s)
         in if n \<noteq> [] \<and> prefix ''}'' r then 6 + length n else 0)
      else 0)"

definition placeholder_len :: "string list \<Rightarrow> string \<Rightarrow> nat" where
  "placeholder_len lits s = (case find (\<lambda>l. prefix l s) lits of Some l \<Rightarrow> length l | None \<Rightarrow> var_len s)"

definition var_key :: "string \<Rightarrow> string" where
  "var_key m = trim_suffix (trim_prefix m ''{var:'') ''}''"

section \<open>Where it cannot match\<close>

lemma placeholder_len_pos:
  assumes "0 < placeholder_len lits s"
  shows "(\<exists>l \<in> set lits. prefix l s) \<or> prefix ''{var:'' s"
  using assms
  by (auto simp: placeholder_len_def var_len_def find_Some_iff split: option.splits if_splits)

lemma no_placeholder:
  assumes "\<not> sublist ''{var:'' s" and "\<And>l. l \<in> set lits \<Longrightarrow> \<not> sublist l s"
  shows "find_matches (placeholder_len lits) s = []"
proof (rule find_matches_empty)
  fix t u assume s: "s = t @ u"
  show "placeholder_len lits u = 0"
  proof (rule ccontr)
    assume "placeholder_len lits u \<noteq> 0"
    then have "(\<exists>l \<in> set lits. prefix l u) \<or> prefix ''{var:'' u"
      by (intro placeholder_len_pos) simp
    moreover have "prefix l u \<Longrightarrow> sublist l s" for l
      using s by (auto simp: prefix_def sublist_def)
    ultimately show False using assms by blast
  qed
qed

end
