(* ===== verification/DeployConfig.thy ===== *)
theory DeployConfig
  imports GoPath GoPlaceholder
begin

text \<open>
  The declarations of \<open>deployctl\<close> (tools/deployctl/config.go): the configuration records, the
  placeholder expander, the local path check, the recursive \<open>include\<close> reader, the validation of a
  loaded configuration and the depth-first search for dependency cycles.

  Parameters: \<open>yaml\<close> stands for the third-party YAML decoder, \<open>files\<close> for the readable files by
  absolute path, \<open>cwd\<close> for the working directory.
\<close>

section \<open>Data\<close>

record upload =
  u_label :: string
  u_role :: string
  u_local :: string
  u_remote :: string
  u_delete :: bool
  u_excludes :: "string list"
  u_validate :: string
  u_verify_required :: bool

record activation =
  a_label :: string
  a_role :: string
  a_script :: string

record deployment =
  d_uploads :: "upload list"
  d_activations :: "activation list"

record plan_deployment =
  pd_needs :: "string list"

record plan =
  p_deployments :: "(string, plan_deployment) gomap"

record config =
  c_include :: "string list"
  c_deployments :: "(string, deployment) gomap"
  c_plans :: "(string, plan) gomap"

text \<open>The errors of the package. The last one has no counterpart in the code: it is the model's
  \<open>out of fuel\<close>, which \<open>validate_plan_fuel\<close> shows never to occur.\<close>

abbreviation AbsFailed :: "string \<Rightarrow> go_error" where
  "AbsFailed a \<equiv> Errorf ''cannot resolve the declaration path'' [a] []"

abbreviation IncludeCycle :: "string \<Rightarrow> go_error" where
  "IncludeCycle a \<equiv> Errorf ''include cycle'' [a] []"

abbreviation ReadFailed :: "string \<Rightarrow> go_error" where
  "ReadFailed a \<equiv> Errorf ''cannot read the declaration'' [a] []"

abbreviation YamlFailed :: "string \<Rightarrow> go_error" where
  "YamlFailed a \<equiv> Errorf ''cannot parse the declaration'' [a] []"

abbreviation NoDeployments :: "string \<Rightarrow> go_error" where
  "NoDeployments a \<equiv> Errorf ''no deployments'' [a] []"

abbreviation BadDeploymentName :: "string \<Rightarrow> go_error" where
  "BadDeploymentName a \<equiv> Errorf ''invalid deployment name'' [a] []"

abbreviation EmptyDeployment :: "string \<Rightarrow> go_error" where
  "EmptyDeployment a \<equiv> Errorf ''deployment needs uploads or activations'' [a] []"

abbreviation UploadFieldMissing :: "string \<Rightarrow> go_error" where
  "UploadFieldMissing a \<equiv> Errorf ''upload lacks a field'' [a] []"

abbreviation LocalPathOutside :: "string \<Rightarrow> go_error" where
  "LocalPathOutside a \<equiv> Errorf ''local path is not a relative path inside the repository'' [a] []"

abbreviation NodeWebapp :: "go_error" where
  "NodeWebapp \<equiv> Errorf ''webapp/node cannot be deployed'' [] []"

abbreviation DeleteNeedsSlash :: "string \<Rightarrow> string \<Rightarrow> go_error" where
  "DeleteNeedsSlash a b \<equiv> Errorf ''delete needs directories with a trailing slash'' [a, b] []"

abbreviation ActivationFieldMissing :: "string \<Rightarrow> go_error" where
  "ActivationFieldMissing a \<equiv> Errorf ''activation lacks a field'' [a] []"

abbreviation BadPlanName :: "string \<Rightarrow> go_error" where
  "BadPlanName a \<equiv> Errorf ''invalid plan name'' [a] []"

abbreviation EmptyPlan :: "string \<Rightarrow> go_error" where
  "EmptyPlan a \<equiv> Errorf ''plan needs deployments'' [a] []"

abbreviation UnknownDeployment :: "string \<Rightarrow> string \<Rightarrow> go_error" where
  "UnknownDeployment a b \<equiv> Errorf ''plan names an unknown deployment'' [a, b] []"

abbreviation UnknownDependency :: "string \<Rightarrow> string \<Rightarrow> string \<Rightarrow> go_error" where
  "UnknownDependency a b c \<equiv> Errorf ''plan needs a deployment outside the plan'' [a, b, c] []"

abbreviation CyclicPlan :: "string \<Rightarrow> string \<Rightarrow> go_error" where
  "CyclicPlan a b \<equiv> Errorf ''plan has a dependency cycle'' [a, b] []"

abbreviation Unspecified :: "string list \<Rightarrow> go_error" where
  "Unspecified ms \<equiv> Errorf ''unresolved placeholders'' ms []"

abbreviation Uninterpreted :: "string \<Rightarrow> go_error" where
  "Uninterpreted s \<equiv> Errorf ''uninterpretable placeholder'' [s] []"

abbreviation InUpload :: "string \<Rightarrow> string \<Rightarrow> go_error \<Rightarrow> go_error" where
  "InUpload d u e \<equiv> Errorf ''deployment upload'' [d, u] [e]"

abbreviation SearchFuel :: go_error where
  "SearchFuel \<equiv> Errorf ''out of fuel'' [] []"

section \<open>Names, values and placeholders\<close>

definition name_char :: "char \<Rightarrow> bool" where
  "name_char c = (word_char c \<or> c = CHR ''.'' \<or> c = CHR ''-'')"

definition name_ok :: "string \<Rightarrow> bool" where
  "name_ok s = (s \<noteq> [] \<and> list_all name_char s)"

definition value_ok :: "string \<Rightarrow> bool" where
  "value_ok s = (s \<noteq> [] \<and> list_all (\<lambda>c. name_char c \<or> c = CHR ''/'' \<or> c = CHR '','' \<or> c = CHR '':'') s)"

definition remote_path_ok :: "string \<Rightarrow> bool" where
  "remote_path_ok s =
     (case s of [] \<Rightarrow> False
      | c # t \<Rightarrow> c = CHR ''/'' \<and> t \<noteq> [] \<and> list_all (\<lambda>c. name_char c \<or> c = CHR ''/'') t)"

abbreviation deploy_ph :: "string \<Rightarrow> nat" where
  "deploy_ph \<equiv> placeholder_len [''{host}'']"

record expander =
  e_host :: string
  e_vars :: "(string, string) gomap"

definition ph_value :: "expander \<Rightarrow> string \<Rightarrow> string option" where
  "ph_value e m =
     (if m = ''{host}'' then (if e_host e = [] then None else Some (e_host e))
      else map_of (e_vars e) (var_key m))"

definition expand :: "expander \<Rightarrow> string \<Rightarrow> go_error + string" where
  "expand e value =
     (let missing = filter (\<lambda>m. ph_value e m = None) (find_matches deploy_ph value);
          expanded = replace_matches deploy_ph (\<lambda>m. case ph_value e m of None \<Rightarrow> m | Some v \<Rightarrow> v) value
      in if missing \<noteq> [] then Inl (Unspecified missing)
         else if contains_str expanded ''{var:'' \<or> contains_str expanded ''{host}''
         then Inl (Uninterpreted expanded) else Inr expanded)"

lemma expand_clean:
  "\<not> sublist ''{var:'' s \<Longrightarrow> \<not> sublist ''{host}'' s \<Longrightarrow> expand e s = Inr s"
  using no_placeholder [of s "[''{host}'']"]
  by (simp add: expand_def replace_matches_none)

lemma expand_result: "expand e s = Inr t \<Longrightarrow> \<not> sublist ''{var:'' t \<and> \<not> sublist ''{host}'' t"
  by (auto simp: expand_def Let_def split: if_splits)

section \<open>Local paths\<close>

fun has_adjacent :: "string \<Rightarrow> string \<Rightarrow> string list \<Rightarrow> bool" where
  "has_adjacent a b (x # y # ys) = ((x = a \<and> y = b) \<or> has_adjacent a b (y # ys))"
| "has_adjacent a b _ = False"

definition validate_local_path :: "string \<Rightarrow> go_error option" where
  "validate_local_path v =
     (let expanded = replace_matches deploy_ph (\<lambda>_. ''placeholder'') v; c = clean expanded
      in if is_abs c \<or> c = ''.'' \<or> c = ''..'' \<or> prefix ''../'' c then Some (LocalPathOutside v)
         else if has_adjacent ''webapp'' ''node'' (split_char (CHR ''/'') c) then Some NodeWebapp
         else None)"

text \<open>\<open>..\<close> components of a relative normal form are all in front.\<close>

definition dots_first :: "string list \<Rightarrow> bool" where
  "dots_first cs \<longleftrightarrow> (\<exists>n ds. cs = replicate n ''..'' @ ds \<and> ''..'' \<notin> set ds)"

lemma dots_first_hd: "dots_first cs \<Longrightarrow> ''..'' \<in> set cs \<Longrightarrow> \<exists>ds. cs = ''..'' # ds"
  unfolding dots_first_def
proof (elim exE conjE)
  fix n ds assume "''..'' \<in> set cs" "cs = replicate n ''..'' @ ds" "''..'' \<notin> set ds"
  then show "\<exists>ds. cs = ''..'' # ds" by (cases n) auto
qed

lemma clean_step_dots_first:
  assumes "dots_first (rev st)"
  shows "dots_first (rev (clean_step False c st))"
proof -
  from assms obtain n ds where st: "rev st = replicate n ''..'' @ ds" and no: "''..'' \<notin> set ds"
    by (auto simp: dots_first_def)
  have st': "st = rev ds @ replicate n ''..''"
    using arg_cong [OF st, of rev] by simp
  show ?thesis
  proof (cases "c = [] \<or> c = ''.''")
    case True
    then show ?thesis using assms by (simp add: clean_step_def)
  next
    case keep: False
    show ?thesis
    proof (cases "c = ''..''")
      case False
      then have "rev (clean_step False c st) = replicate n ''..'' @ (ds @ [c])"
        using keep st by (simp add: clean_step_def)
      then show ?thesis using no False unfolding dots_first_def
        by (intro exI [of _ n] exI [of _ "ds @ [c]"]) auto
    next
      case True
      show ?thesis
      proof (cases ds rule: rev_cases)
        case Nil
        then have "clean_step False c st = replicate (Suc n) ''..''"
          using True st' by (cases n) (auto simp: clean_step_def)
        then show ?thesis unfolding dots_first_def
          by (intro exI [of _ "Suc n"] exI [of _ "[]"]) (simp add: replicate_append_same)
      next
        case (snoc es d)
        then have "rev (clean_step False c st) = replicate n ''..'' @ es"
          using True st' no by (auto simp: clean_step_def)
        then show ?thesis using no snoc unfolding dots_first_def by auto
      qed
    qed
  qed
qed

lemma clean_comps_dots_first: "dots_first (clean_comps False p)"
proof -
  have "dots_first (rev st) \<Longrightarrow> dots_first (rev (fold (clean_step False) cs st))" for cs st
    by (induction cs arbitrary: st) (auto intro: clean_step_dots_first)
  from this [of "[]"] show ?thesis by (simp add: clean_comps_def dots_first_def)
qed

lemma validate_local_path_rel:
  assumes ok: "validate_local_path v = None" and plain: "find_matches deploy_ph v = []"
  shows "\<not> is_abs v" and "clean_comps False v \<noteq> []" and "''..'' \<notin> set (clean_comps False v)"
proof -
  have e: "replace_matches deploy_ph (\<lambda>_. ''placeholder'') v = v"
    by (rule replace_matches_none [OF plain])
  from ok have c: "\<not> is_abs (clean v)" "clean v \<noteq> ''.''" "clean v \<noteq> ''..''" "\<not> prefix ''../'' (clean v)"
    by (auto simp: validate_local_path_def e Let_def split: if_splits)
  show a: "\<not> is_abs v" using c(1) by (auto simp: clean_def is_abs_def)
  show n: "clean_comps False v \<noteq> []" using c(2) a by (auto simp: clean_def)
  show "''..'' \<notin> set (clean_comps False v)"
  proof
    assume "''..'' \<in> set (clean_comps False v)"
    then obtain ds where ds: "clean_comps False v = ''..'' # ds"
      using dots_first_hd [OF clean_comps_dots_first] by blast
    then show False using a c(3,4) by (cases ds) (auto simp: clean_def)
  qed
qed

section \<open>Reading and merging declarations\<close>

definition merge_map :: "('k, 'v) gomap \<Rightarrow> ('k, 'v) gomap \<Rightarrow> ('k, 'v) gomap" where
  "merge_map dst src = fold (\<lambda>(k, v) m. AList.update k v m) src dst"

definition merge_config :: "config \<Rightarrow> config \<Rightarrow> config" where
  "merge_config dst src =
     dst\<lparr>c_deployments := merge_map (c_deployments dst) (c_deployments src),
         c_plans := merge_map (c_plans dst) (c_plans src)\<rparr>"

definition empty_config :: config where
  "empty_config = \<lparr>c_include = [], c_deployments = [], c_plans = []\<rparr>"

record loader =
  l_files :: "(string, string) gomap"
  l_cwd :: "string option"
  l_yaml :: "string \<Rightarrow> config option"

lemma card_unread_less:
  assumes "map_of fs r = Some b" and "r \<notin> A"
  shows "card (fst ` set fs - insert r A) < card (fst ` set fs - A)"
proof (rule psubset_card_mono)
  have "r \<in> fst ` set fs" using map_of_Some_in_keys [OF assms(1)] by simp
  with assms(2) show "fst ` set fs - insert r A \<subset> fst ` set fs - A" by blast
qed simp

text \<open>
  The two functions follow \<open>readConfig\<close> and its loop over \<open>cfg.Include\<close>. They are total: every
  nested read adds a readable path to the ancestors, so only finitely many reads can be nested.
\<close>

function (sequential)
  read_config :: "loader \<Rightarrow> string \<Rightarrow> string list \<Rightarrow> go_error + config" and
  read_includes :: "loader \<Rightarrow> string \<Rightarrow> string list \<Rightarrow> string list \<Rightarrow> config \<Rightarrow> go_error + config"
where
  "read_config l filename ancestors =
     (case abs_path (l_cwd l) filename of
        None \<Rightarrow> Inl (AbsFailed filename)
      | Some resolved \<Rightarrow>
          if resolved \<in> set ancestors then Inl (IncludeCycle filename)
          else (case map_of (l_files l) resolved of
              None \<Rightarrow> Inl (ReadFailed filename)
            | Some body \<Rightarrow>
                (case l_yaml l body of
                   None \<Rightarrow> Inl (YamlFailed filename)
                 | Some cfg \<Rightarrow>
                     (case read_includes l filename (c_include cfg) (ancestors @ [resolved]) empty_config of
                        Inl e \<Rightarrow> Inl e
                      | Inr merged \<Rightarrow> Inr (merge_config merged cfg)))))"
| "read_includes l filename [] ancestors merged = Inr merged"
| "read_includes l filename (i # is) ancestors merged =
     (case read_config l (path_join [path_dir filename, i]) ancestors of
        Inl e \<Rightarrow> Inl e
      | Inr included \<Rightarrow> read_includes l filename is ancestors (merge_config merged included))"
  by pat_completeness auto
termination
  by (relation "measures
        [\<lambda>x. case x of Inl (l, f, a) \<Rightarrow> card (set (keys (l_files l)) - set a)
                | Inr (l, f, is, a, m) \<Rightarrow> card (set (keys (l_files l)) - set a),
         \<lambda>x. case x of Inl _ \<Rightarrow> 0 | Inr (l, f, is, a, m) \<Rightarrow> Suc (length is)]")
     (auto simp: card_unread_less)

declare read_config.simps [simp del]

lemma map_of_merge_map:
  "distinct (keys src) \<Longrightarrow>
   map_of (merge_map dst src) k = (case map_of src k of Some v \<Rightarrow> Some v | None \<Rightarrow> map_of dst k)"
  unfolding merge_map_def
proof (induction src arbitrary: dst)
  case (Cons p src)
  then show ?case
    by (cases p) (auto simp: update_conv' map_of_eq_None_iff split: option.splits, force+)
qed simp

lemma distinct_merge_map: "distinct (keys dst) \<Longrightarrow> distinct (keys (merge_map dst src))"
  unfolding merge_map_def
proof (induction src arbitrary: dst)
  case (Cons p src)
  then show ?case by (cases p) (simp add: distinct_update)
qed simp

lemma distinct_merge_config:
  "distinct (keys (c_deployments d)) \<Longrightarrow> distinct (keys (c_deployments (merge_config d s)))"
  "distinct (keys (c_plans d)) \<Longrightarrow> distinct (keys (c_plans (merge_config d s)))"
  by (simp_all add: merge_config_def distinct_merge_map)

lemma read_includes_distinct:
  "read_includes l f is a m = Inr c \<Longrightarrow> distinct (keys (c_deployments m)) \<Longrightarrow> distinct (keys (c_plans m)) \<Longrightarrow>
   distinct (keys (c_deployments c)) \<and> distinct (keys (c_plans c))"
  by (induction "is" arbitrary: m) (auto split: sum.splits simp: distinct_merge_config)

lemma read_config_distinct:
  assumes "read_config l f a = Inr c"
  shows "distinct (keys (c_deployments c)) \<and> distinct (keys (c_plans c))"
proof -
  from assms obtain r b cfg m where
    m: "read_includes l f (c_include cfg) (a @ [r]) empty_config = Inr m" and c: "c = merge_config m cfg"
    by (subst (asm) read_config.simps) (auto split: option.splits sum.splits if_splits)
  from read_includes_distinct [OF m] show ?thesis
    by (simp add: c empty_config_def distinct_merge_config)
qed

section \<open>The cycle search\<close>

datatype color = Visiting | Visited

datatype visit_error = CycleAt string | OutOfFuel

definition needs_of :: "plan \<Rightarrow> string \<Rightarrow> string list" where
  "needs_of p n = (case map_of (p_deployments p) n of None \<Rightarrow> [] | Some d \<Rightarrow> pd_needs d)"

primrec visit :: "nat \<Rightarrow> (string \<Rightarrow> string list) \<Rightarrow> string \<Rightarrow> (string \<rightharpoonup> color) \<Rightarrow> visit_error + (string \<rightharpoonup> color)" where
  "visit 0 needs n st = Inl OutOfFuel"
| "visit (Suc k) needs n st =
     (case st n of
        Some Visiting \<Rightarrow> Inl (CycleAt n)
      | Some Visited \<Rightarrow> Inr st
      | None \<Rightarrow>
          (case fold_res (visit k needs) (needs n) (st(n \<mapsto> Visiting)) of
             Inl e \<Rightarrow> Inl e
           | Inr st' \<Rightarrow> Inr (st'(n \<mapsto> Visited))))"

definition plan_nodes :: "plan \<Rightarrow> string list" where
  "plan_nodes p = keys (p_deployments p) @ concat (map (\<lambda>(_, d). pd_needs d) (p_deployments p))"

definition validate_plan_acyclic :: "string \<Rightarrow> plan \<Rightarrow> go_error option" where
  "validate_plan_acyclic name p =
     (case fold_res (visit (Suc (length (plan_nodes p))) (needs_of p)) (keys (p_deployments p)) Map.empty of
        Inl (CycleAt n) \<Rightarrow> Some (CyclicPlan name n)
      | Inl OutOfFuel \<Rightarrow> Some SearchFuel
      | Inr _ \<Rightarrow> None)"

text \<open>The edges of the search: from a deployment to each of its dependencies.\<close>

definition edges :: "(string \<Rightarrow> string list) \<Rightarrow> (string \<times> string) set" where
  "edges needs = {(n, d). d \<in> set (needs n)}"

definition visiting :: "(string \<rightharpoonup> color) \<Rightarrow> string set" where
  "visiting st = {x. st x = Some Visiting}"

definition visited_edges :: "(string \<Rightarrow> string list) \<Rightarrow> (string \<rightharpoonup> color) \<Rightarrow> (string \<times> string) set" where
  "visited_edges needs st = {(x, d). st x = Some Visited \<and> d \<in> set (needs x)}"

text \<open>What the search has established: dependencies of visited nodes are visited, without a cycle.\<close>

definition explored :: "(string \<Rightarrow> string list) \<Rightarrow> (string \<rightharpoonup> color) \<Rightarrow> bool" where
  "explored needs st \<longleftrightarrow>
     (\<forall>(x, d) \<in> visited_edges needs st. st d = Some Visited) \<and> acyclic (visited_edges needs st)"

definition search_step :: "(string \<Rightarrow> string list) \<Rightarrow> (string \<rightharpoonup> color) \<Rightarrow> (string \<rightharpoonup> color) \<Rightarrow> bool" where
  "search_step needs st st' \<longleftrightarrow>
     (explored needs st \<longrightarrow> explored needs st') \<and> visiting st' = visiting st \<and>
     (\<forall>x. st x = Some Visited \<longrightarrow> st' x = Some Visited)"

lemma search_step_refl: "search_step needs st st"
  by (simp add: search_step_def)

lemma search_step_trans: "search_step needs a b \<Longrightarrow> search_step needs b c \<Longrightarrow> search_step needs a c"
  by (simp add: search_step_def)

lemma acyclic_add_source:
  assumes "acyclic E" and "n \<notin> Range E" and "n \<notin> D"
  shows "acyclic (E \<union> {n} \<times> D)"
proof (rule acyclicI, intro allI notI)
  let ?E = "E \<union> {n} \<times> D"
  have into: "b \<noteq> n" if "(a, b) \<in> ?E\<^sup>+" for a b
    using that assms by (induction rule: trancl_induct) auto
  have old: "(a, b) \<in> E\<^sup>+" if "(a, b) \<in> ?E\<^sup>+" and "a \<noteq> n" for a b
    using that
  proof (induction rule: trancl_induct)
    case (step b c)
    from into [OF step.hyps(1)] step.hyps(2) have "(b, c) \<in> E" by auto
    with step show ?case by (meson trancl.trancl_into_trancl)
  qed auto
  fix x assume x: "(x, x) \<in> ?E\<^sup>+"
  from old [OF x into [OF x]] assms(1) show False by (simp add: acyclic_def)
qed

lemma fold_visit_step:
  assumes "fold_res (visit k needs) ds st = Inr st'"
    and "\<And>d s s'. visit k needs d s = Inr s' \<Longrightarrow> search_step needs s s' \<and> s' d = Some Visited"
  shows "search_step needs st st' \<and> (\<forall>d \<in> set ds. st' d = Some Visited)"
  using assms(1)
proof (induction ds arbitrary: st)
  case Nil
  then show ?case by (simp add: search_step_refl)
next
  case (Cons d ds)
  then obtain s where s: "visit k needs d st = Inr s" "fold_res (visit k needs) ds s = Inr st'"
    by (auto split: sum.splits)
  from assms(2) [OF s(1)] Cons.IH [OF s(2)] show ?case
    by (auto intro: search_step_trans simp: search_step_def [of needs s st'])
qed

lemma visit_step:
  "visit k needs n st = Inr st' \<Longrightarrow> search_step needs st st' \<and> st' n = Some Visited"
proof (induction k arbitrary: n st st')
  case (Suc k)
  show ?case
  proof (cases "st n")
    case (Some c)
    with Suc.prems show ?thesis by (cases c) (auto simp: search_step_refl)
  next
    case None
    with Suc.prems obtain s
      where f: "fold_res (visit k needs) (needs n) (st(n \<mapsto> Visiting)) = Inr s"
        and st': "st' = s(n \<mapsto> Visited)" by (auto split: sum.splits)
    from fold_visit_step [OF f Suc.IH]
    have step: "search_step needs (st(n \<mapsto> Visiting)) s" and all: "\<forall>d \<in> set (needs n). s d = Some Visited"
      by auto
    have vis: "visiting s = insert n (visiting st)"
      using step by (auto simp: search_step_def visiting_def)
    then have n: "s n = Some Visiting" by (auto simp: visiting_def)
    have start: "explored needs st \<Longrightarrow> explored needs (st(n \<mapsto> Visiting))"
    proof -
      have same: "visited_edges needs (st(n \<mapsto> Visiting)) = visited_edges needs st"
        using None by (auto simp: visited_edges_def split: if_splits)
      show "explored needs st \<Longrightarrow> explored needs (st(n \<mapsto> Visiting))"
        using None by (auto simp: explored_def same split: if_splits)
    qed
    have fin: "explored needs s \<Longrightarrow> explored needs st'"
    proof -
      assume ex: "explored needs s"
      have split: "visited_edges needs st' = visited_edges needs s \<union> {n} \<times> set (needs n)"
        using n by (auto simp: visited_edges_def st' split: if_splits)
      have "n \<notin> Range (visited_edges needs s)" using ex n by (auto simp: explored_def)
      moreover have "n \<notin> set (needs n)" using all n by auto
      ultimately have "acyclic (visited_edges needs st')"
        unfolding split using ex by (intro acyclic_add_source) (auto simp: explored_def)
      moreover have "\<forall>(x, d) \<in> visited_edges needs st'. st' d = Some Visited"
        unfolding split using ex all by (auto simp: explored_def st')
      ultimately show "explored needs st'" by (simp add: explored_def)
    qed
    have "visiting st' = visiting st" using vis None by (auto simp: st' visiting_def)
    moreover have "explored needs st \<Longrightarrow> explored needs st'"
      using step start fin by (simp add: search_step_def)
    moreover have "\<forall>x. st x = Some Visited \<longrightarrow> st' x = Some Visited"
      using step None by (auto simp: search_step_def st')
    moreover have "st' n = Some Visited" by (simp add: st')
    ultimately show ?thesis unfolding search_step_def by blast
  qed
qed simp

lemma fold_visit:
  "fold_res (visit k needs) ds st = Inr st' \<Longrightarrow>
   search_step needs st st' \<and> (\<forall>d \<in> set ds. st' d = Some Visited)"
  by (rule fold_visit_step [OF _ visit_step])

lemma visit_cycle:
  "visit k needs n st = Inl (CycleAt m) \<Longrightarrow>
   (\<And>v. v \<in> visiting st \<Longrightarrow> (v, n) \<in> (edges needs)\<^sup>+) \<Longrightarrow> (m, m) \<in> (edges needs)\<^sup>+"
proof (induction k arbitrary: n st)
  case (Suc k)
  show ?case
  proof (cases "st n")
    case (Some c)
    with Suc.prems show ?thesis by (cases c) (auto simp: visiting_def)
  next
    case None
    with Suc.prems(1) have "fold_res (visit k needs) (needs n) (st(n \<mapsto> Visiting)) = Inl (CycleAt m)"
      by (auto split: sum.splits)
    from fold_res_Inl [OF this] obtain ds d es s where ds: "needs n = ds @ d # es"
      and f: "fold_res (visit k needs) ds (st(n \<mapsto> Visiting)) = Inr s"
      and v: "visit k needs d s = Inl (CycleAt m)"
      by blast
    have "visiting s = insert n (visiting st)"
      using fold_visit [OF f] by (auto simp: search_step_def visiting_def)
    moreover have "(n, d) \<in> edges needs" using ds by (simp add: edges_def)
    ultimately have "\<And>u. u \<in> visiting s \<Longrightarrow> (u, d) \<in> (edges needs)\<^sup>+"
      using Suc.prems(2) by (auto intro: trancl.trancl_into_trancl)
    with Suc.IH [OF v] show ?thesis by blast
  qed
qed simp

lemma visit_fuel:
  assumes "finite N" and closed: "\<And>x d. x \<in> N \<Longrightarrow> d \<in> set (needs x) \<Longrightarrow> d \<in> N"
  shows "n \<in> N \<Longrightarrow> visiting st \<subseteq> N \<Longrightarrow> card N - card (visiting st) < k \<Longrightarrow>
    visit k needs n st \<noteq> Inl OutOfFuel"
proof (induction k arbitrary: n st)
  case (Suc k)
  show ?case
  proof (cases "st n")
    case (Some c)
    then show ?thesis by (cases c) auto
  next
    case None
    let ?st = "st(n \<mapsto> Visiting)"
    have vis: "visiting ?st = insert n (visiting st)" using None by (auto simp: visiting_def)
    have fin: "finite (visiting st)" using Suc.prems(2) assms(1) by (rule finite_subset)
    have "n \<notin> visiting st" using None by (simp add: visiting_def)
    then have card: "card (visiting ?st) = Suc (card (visiting st))" using fin by (simp add: vis)
    have sub: "visiting ?st \<subseteq> N" using Suc.prems by (simp add: vis)
    then have "card (visiting ?st) \<le> card N" using assms(1) by (rule card_mono [rotated])
    then have lt: "card N - card (visiting ?st) < k" using Suc.prems(3) card by linarith
    have "fold_res (visit k needs) (needs n) ?st \<noteq> Inl OutOfFuel"
    proof
      assume "fold_res (visit k needs) (needs n) ?st = Inl OutOfFuel"
      from fold_res_Inl [OF this] obtain ds d es s where ds: "needs n = ds @ d # es"
        and f: "fold_res (visit k needs) ds ?st = Inr s" and v: "visit k needs d s = Inl OutOfFuel"
        by blast
      have "visiting s = visiting ?st"
        using fold_visit [OF f] by (simp add: search_step_def)
      with sub lt have "visit k needs d s \<noteq> Inl OutOfFuel"
        using closed [OF Suc.prems(1)] ds by (intro Suc.IH) auto
      with v show False by simp
    qed
    with None show ?thesis by (auto split: sum.splits)
  qed
qed simp

lemma needs_of_Some: "d \<in> set (needs_of p n) \<Longrightarrow> \<exists>e. map_of (p_deployments p) n = Some e \<and> d \<in> set (pd_needs e)"
  by (cases "map_of (p_deployments p) n") (auto simp: needs_of_def)

lemma needs_of_nodes: "d \<in> set (needs_of p n) \<Longrightarrow> d \<in> set (plan_nodes p)"
proof -
  assume "d \<in> set (needs_of p n)"
  from needs_of_Some [OF this] obtain e where e: "map_of (p_deployments p) n = Some e" "d \<in> set (pd_needs e)"
    by blast
  from e(1) have "(n, e) \<in> set (p_deployments p)" by (rule map_of_SomeD)
  with e(2) show "d \<in> set (plan_nodes p)" by (auto simp: plan_nodes_def)
qed

lemma needs_of_key: "d \<in> set (needs_of p n) \<Longrightarrow> n \<in> set (keys (p_deployments p))"
  by (metis needs_of_Some map_of_Some_in_keys)

lemma validate_plan_fuel: "validate_plan_acyclic name p \<noteq> Some SearchFuel"
proof -
  let ?v = "visit (Suc (length (plan_nodes p))) (needs_of p)"
  have "fold_res ?v (keys (p_deployments p)) Map.empty \<noteq> Inl OutOfFuel"
  proof
    assume "fold_res ?v (keys (p_deployments p)) Map.empty = Inl OutOfFuel"
    from fold_res_Inl [OF this] obtain ns n ms s where ns: "keys (p_deployments p) = ns @ n # ms"
      and f: "fold_res ?v ns Map.empty = Inr s" and v: "?v n s = Inl OutOfFuel"
      by blast
    have "search_step (needs_of p) Map.empty s"
      using fold_visit [OF f] by blast
    then have "visiting s = {}" by (simp add: search_step_def visiting_def)
    moreover have "n \<in> set (plan_nodes p)"
      using ns by (simp add: plan_nodes_def)
    moreover have "card (set (plan_nodes p)) < Suc (length (plan_nodes p))"
      using card_length [of "plan_nodes p"] by simp
    ultimately have "?v n s \<noteq> Inl OutOfFuel"
      by (intro visit_fuel [of "set (plan_nodes p)"]) (auto dest: needs_of_nodes)
    with v show False by simp
  qed
  then show ?thesis by (auto simp: validate_plan_acyclic_def split: sum.splits visit_error.splits)
qed

lemma validate_plan_ok_iff:
  "validate_plan_acyclic name p = None \<longleftrightarrow> acyclic (edges (needs_of p))"
proof
  let ?v = "visit (Suc (length (plan_nodes p))) (needs_of p)"
  assume "validate_plan_acyclic name p = None"
  then obtain st where f: "fold_res ?v (keys (p_deployments p)) Map.empty = Inr st"
    by (auto simp: validate_plan_acyclic_def split: sum.splits visit_error.splits)
  have "search_step (needs_of p) Map.empty st"
    and all: "\<forall>d \<in> set (keys (p_deployments p)). st d = Some Visited"
    using fold_visit [OF f] by blast+
  moreover have "explored (needs_of p) Map.empty"
    by (simp add: explored_def visited_edges_def acyclic_def)
  ultimately have "acyclic (visited_edges (needs_of p) st)"
    by (simp add: search_step_def explored_def)
  moreover have "edges (needs_of p) = visited_edges (needs_of p) st"
    using all needs_of_key by (fastforce simp: edges_def visited_edges_def)
  ultimately show "acyclic (edges (needs_of p))" by simp
next
  let ?v = "visit (Suc (length (plan_nodes p))) (needs_of p)"
  assume acyc: "acyclic (edges (needs_of p))"
  have "fold_res ?v (keys (p_deployments p)) Map.empty \<noteq> Inl (CycleAt m)" for m
  proof
    assume "fold_res ?v (keys (p_deployments p)) Map.empty = Inl (CycleAt m)"
    from fold_res_Inl [OF this] obtain ns n s
      where f: "fold_res ?v ns Map.empty = Inr s" and v: "?v n s = Inl (CycleAt m)" by blast
    have "search_step (needs_of p) Map.empty s"
      using fold_visit [OF f] by blast
    then have "visiting s = {}" by (simp add: search_step_def visiting_def)
    with visit_cycle [OF v] have "(m, m) \<in> (edges (needs_of p))\<^sup>+" by blast
    with acyc show False by (simp add: acyclic_def)
  qed
  then show "validate_plan_acyclic name p = None"
    using validate_plan_fuel [of name p]
    by (auto simp: validate_plan_acyclic_def split: sum.splits visit_error.splits)
qed

section \<open>Loading a declaration\<close>

definition check_upload :: "string \<Rightarrow> upload \<Rightarrow> go_error option" where
  "check_upload name u =
     (if u_label u = [] \<or> u_role u = [] \<or> u_local u = [] \<or> u_remote u = [] then Some (UploadFieldMissing name)
      else (case validate_local_path (u_local u) of
          Some e \<Rightarrow> Some (InUpload name (u_label u) e)
        | None \<Rightarrow>
            if u_delete u \<and> (\<not> has_suffix (u_local u) ''/'' \<or> \<not> has_suffix (u_remote u) ''/'')
            then Some (DeleteNeedsSlash name (u_label u)) else None))"

definition check_activation :: "string \<Rightarrow> activation \<Rightarrow> go_error option" where
  "check_activation name a =
     (if a_label a = [] \<or> a_role a = [] \<or> trim_space (a_script a) = []
      then Some (ActivationFieldMissing name) else None)"

definition check_deployment :: "string \<times> deployment \<Rightarrow> go_error option" where
  "check_deployment nd =
     (case nd of (name, d) \<Rightarrow>
        if \<not> name_ok name then Some (BadDeploymentName name)
        else if d_uploads d = [] \<and> d_activations d = [] then Some (EmptyDeployment name)
        else (case first_error (check_upload name) (d_uploads d) of
            Some e \<Rightarrow> Some e
          | None \<Rightarrow> first_error (check_activation name) (d_activations d)))"

definition check_node :: "config \<Rightarrow> string \<Rightarrow> plan \<Rightarrow> string \<times> plan_deployment \<Rightarrow> go_error option" where
  "check_node cfg name p dn =
     (case dn of (d, node) \<Rightarrow>
        if d \<notin> set (keys (c_deployments cfg)) then Some (UnknownDeployment name d)
        else first_error
          (\<lambda>dep. if dep \<in> set (keys (p_deployments p)) then None else Some (UnknownDependency name d dep))
          (pd_needs node))"

definition check_plan :: "config \<Rightarrow> string \<times> plan \<Rightarrow> go_error option" where
  "check_plan cfg np =
     (case np of (name, p) \<Rightarrow>
        if \<not> name_ok name then Some (BadPlanName name)
        else if p_deployments p = [] then Some (EmptyPlan name)
        else (case first_error (check_node cfg name p) (p_deployments p) of
            Some e \<Rightarrow> Some e
          | None \<Rightarrow> validate_plan_acyclic name p))"

definition load_config :: "loader \<Rightarrow> string \<Rightarrow> go_error + config" where
  "load_config l filename =
     (case read_config l filename [] of
        Inl e \<Rightarrow> Inl e
      | Inr cfg \<Rightarrow>
          if c_deployments cfg = [] then Inl (NoDeployments filename)
          else (case first_error check_deployment (c_deployments cfg) of
              Some e \<Rightarrow> Inl e
            | None \<Rightarrow>
                (case first_error (check_plan cfg) (c_plans cfg) of
                   Some e \<Rightarrow> Inl e
                 | None \<Rightarrow> Inr cfg)))"

text \<open>What the activation of a plan relies on: the graph is acyclic and closed.\<close>

definition plan_ok :: "config \<Rightarrow> plan \<Rightarrow> bool" where
  "plan_ok cfg p \<longleftrightarrow>
     acyclic (edges (needs_of p)) \<and>
     (\<forall>(n, node) \<in> set (p_deployments p).
        n \<in> set (keys (c_deployments cfg)) \<and> set (pd_needs node) \<subseteq> set (keys (p_deployments p)))"

lemma check_plan_ok:
  assumes "check_plan cfg (name, p) = None"
  shows "plan_ok cfg p"
proof -
  from assms have nodes: "\<And>x. x \<in> set (p_deployments p) \<Longrightarrow> check_node cfg name p x = None"
    and acyc: "validate_plan_acyclic name p = None"
    by (auto simp: check_plan_def first_error_None_iff split: if_splits option.splits)
  have "n \<in> set (keys (c_deployments cfg)) \<and> set (pd_needs node) \<subseteq> set (keys (p_deployments p))"
    if "(n, node) \<in> set (p_deployments p)" for n node
    using nodes [OF that] by (auto simp: check_node_def first_error_None_iff split: if_splits)
  with acyc show ?thesis by (auto simp: plan_ok_def validate_plan_ok_iff)
qed

lemma load_config_plan_ok:
  assumes "load_config l f = Inr cfg" and "map_of (c_plans cfg) name = Some p"
  shows "plan_ok cfg p"
proof -
  from assms(1) have "first_error (check_plan cfg) (c_plans cfg) = None"
    by (auto simp: load_config_def split: sum.splits if_splits option.splits)
  moreover have "(name, p) \<in> set (c_plans cfg)" using assms(2) by (rule map_of_SomeD)
  ultimately show ?thesis using check_plan_ok by (auto simp: first_error_None_iff)
qed

lemma plan_ok_closed:
  assumes "plan_ok cfg p" and "d \<in> set (needs_of p n)"
  shows "d \<in> set (keys (p_deployments p))"
proof -
  from needs_of_Some [OF assms(2)] obtain e where "map_of (p_deployments p) n = Some e" "d \<in> set (pd_needs e)"
    by blast
  with assms(1) show ?thesis by (force simp: plan_ok_def dest: map_of_SomeD)
qed

end
