(* ===== verification/GoParallel.thy ===== *)
theory GoParallel
  imports GoPrelude
begin

text \<open>
  The two concurrent loops of the program: \<open>runParallel\<close> of \<open>deployctl\<close> (one goroutine per job, a
  buffered channel as a semaphore, results by job index) and \<open>parallel\<close> / \<open>parallelIndex\<close> of
  \<open>measurectl\<close> (one goroutine per job, errors appended under a mutex).

  The program's state is a value of an arbitrary type; a job maps the state to a result and a new
  state. The transition system \<open>pool_step\<close> has one rule for a goroutine that gets a semaphore slot
  and one for a goroutine that runs its job and gives the slot back. A job's effects are one step:
  jobs of one phase act on different hosts and files, so their interleaving inside a job is not
  observable by another job. \<open>run_parallel\<close> runs the jobs one after the other in the order of a
  schedule; \<open>pool_refines_schedule\<close> shows that every complete execution of the goroutines is
  such a run, and the component theories reason about all schedules.
\<close>

type_synonym ('j, 's, 'r) job_fn = "'j \<Rightarrow> 's \<Rightarrow> 'r \<times> 's"

definition valid_schedule :: "nat list \<Rightarrow> nat \<Rightarrow> bool" where
  "valid_schedule sched n \<longleftrightarrow> distinct sched \<and> set sched = {..<n}"

section \<open>Results by index\<close>

fun run_sched :: "('j, 's, 'r) job_fn \<Rightarrow> 'j list \<Rightarrow> nat list \<Rightarrow> 'r list \<Rightarrow> 's \<Rightarrow> 'r list \<times> 's" where
  "run_sched fn jobs [] rs s = (rs, s)"
| "run_sched fn jobs (i # is) rs s =
     (case fn (jobs ! i) s of (r, s') \<Rightarrow> run_sched fn jobs is (rs[i := r]) s')"

definition run_parallel :: "'r \<Rightarrow> nat list \<Rightarrow> ('j, 's, 'r) job_fn \<Rightarrow> 'j list \<Rightarrow> 's \<Rightarrow> 'r list \<times> 's" where
  "run_parallel zero sched fn jobs s = run_sched fn jobs sched (replicate (length jobs) zero) s"

lemma run_sched_append:
  "run_sched fn jobs (is @ js) rs s =
     (case run_sched fn jobs is rs s of (rs', s') \<Rightarrow> run_sched fn jobs js rs' s')"
  by (induction fn jobs "is" rs s rule: run_sched.induct) (auto split: prod.splits)

lemma run_sched_length: "length (fst (run_sched fn jobs is rs s)) = length rs"
  by (induction fn jobs "is" rs s rule: run_sched.induct) (auto split: prod.splits)

text \<open>The rule for a phase: what every job keeps holds after it, and what every job's result
  satisfies holds of all results.\<close>

lemma run_sched_rule:
  assumes "Inv s" and "set is \<subseteq> {..<length jobs}" and "length rs = length jobs"
    and step: "\<And>j t. j \<in> set jobs \<Longrightarrow> Inv t \<Longrightarrow> Inv (snd (fn j t)) \<and> Q j (fst (fn j t))"
    and "\<And>i. i \<in> D \<Longrightarrow> i < length jobs \<Longrightarrow> Q (jobs ! i) (rs ! i)"
  shows "Inv (snd (run_sched fn jobs is rs s)) \<and>
    (\<forall>i < length jobs. i \<in> D \<union> set is \<longrightarrow> Q (jobs ! i) (fst (run_sched fn jobs is rs s) ! i))"
  using assms(1-3,5)
proof (induction "is" arbitrary: rs s D)
  case (Cons i "is")
  obtain r s' where f: "fn (jobs ! i) s = (r, s')" by (cases "fn (jobs ! i) s")
  have i: "i < length jobs" using Cons.prems(2) by simp
  with step [OF nth_mem Cons.prems(1)] f have s': "Inv s'" "Q (jobs ! i) r" by (metis fst_conv snd_conv)+
  have "Inv (snd (run_sched fn jobs is (rs[i := r]) s')) \<and>
    (\<forall>k < length jobs. k \<in> insert i D \<union> set is \<longrightarrow>
       Q (jobs ! k) (fst (run_sched fn jobs is (rs[i := r]) s') ! k))"
  proof (rule Cons.IH)
    show "\<And>k. k \<in> insert i D \<Longrightarrow> k < length jobs \<Longrightarrow> Q (jobs ! k) (rs[i := r] ! k)"
      using Cons.prems(3,4) s'(2) i by (auto simp: nth_list_update)
  qed (use Cons.prems s' in auto)
  then show ?case by (simp add: f)
qed simp

section \<open>The interface the callers rely on\<close>

locale job_pool =
  fixes run :: "('j, 's, 'r) job_fn \<Rightarrow> 'j list \<Rightarrow> 's \<Rightarrow> 'r list \<times> 's"
  assumes run_rule:
    "Inv s \<Longrightarrow> (\<And>j t. j \<in> set jobs \<Longrightarrow> Inv t \<Longrightarrow> Inv (snd (fn j t)) \<and> Q j (fst (fn j t))) \<Longrightarrow>
     Inv (snd (run fn jobs s)) \<and> list_all2 Q jobs (fst (run fn jobs s))"
    and run_sum:
    "(\<And>j t. j \<in> set jobs \<Longrightarrow> w (snd (fn j t)) = (w t :: nat) + d j) \<Longrightarrow>
     w (snd (run fn jobs s)) = w s + sum_list (map d jobs)"
begin

lemma run_invariant:
  assumes "Inv s" and "\<And>j t. j \<in> set jobs \<Longrightarrow> Inv t \<Longrightarrow> Inv (snd (fn j t))"
  shows "Inv (snd (run fn jobs s))"
  using run_rule [of Inv s jobs fn "\<lambda>_ _. True"] assms by simp

lemma run_results:
  assumes "\<And>j t. j \<in> set jobs \<Longrightarrow> Q j (fst (fn j t))"
  shows "list_all2 Q jobs (fst (run fn jobs s))"
  using run_rule [of "\<lambda>_. True" s jobs fn Q] assms by simp

lemma run_length: "length (fst (run fn jobs s)) = length jobs"
  using run_results [of jobs "\<lambda>_ _. True" fn s] by (auto dest: list_all2_lengthD)

lemma run_pure:
  assumes "\<And>j t. j \<in> set jobs \<Longrightarrow> fst (fn j t) = f j"
  shows "fst (run fn jobs s) = map f jobs"
  using run_results [of jobs "\<lambda>j r. r = f j" fn s] assms
  by (auto simp: list_all2_conv_all_nth intro: nth_equalityI)

end

definition sched_run :: "'r \<Rightarrow> (nat \<Rightarrow> nat list) \<Rightarrow> ('j, 's, 'r) job_fn \<Rightarrow> 'j list \<Rightarrow> 's \<Rightarrow> 'r list \<times> 's" where
  "sched_run zero sch fn jobs s =
     run_parallel zero (if valid_schedule (sch (length jobs)) (length jobs) then sch (length jobs)
       else [0..<length jobs]) fn jobs s"

lemma run_parallel_rule:
  assumes "valid_schedule sched (length jobs)" and "Inv s"
    and "\<And>j t. j \<in> set jobs \<Longrightarrow> Inv t \<Longrightarrow> Inv (snd (fn j t)) \<and> Q j (fst (fn j t))"
  shows "Inv (snd (run_parallel zero sched fn jobs s)) \<and> list_all2 Q jobs (fst (run_parallel zero sched fn jobs s))"
proof -
  have "set sched \<subseteq> {..<length jobs}" and all: "set sched = {..<length jobs}"
    using assms(1) by (auto simp: valid_schedule_def)
  from run_sched_rule [of Inv s sched jobs "replicate (length jobs) zero" fn Q "{}"] this(1) assms(2,3)
  show ?thesis
    by (auto simp: run_parallel_def list_all2_conv_all_nth run_sched_length all)
qed

lemma sched_run_rule:
  assumes "Inv s"
    and "\<And>j t. j \<in> set jobs \<Longrightarrow> Inv t \<Longrightarrow> Inv (snd (fn j t)) \<and> Q j (fst (fn j t))"
  shows "Inv (snd (sched_run zero sch fn jobs s)) \<and> list_all2 Q jobs (fst (sched_run zero sch fn jobs s))"
  unfolding sched_run_def
  by (rule run_parallel_rule [where Inv = Inv]) (use assms in \<open>auto simp: valid_schedule_def\<close>)

text \<open>Every job runs exactly once: what the jobs add to a counter is added once for each job.\<close>

lemma run_sched_sum:
  "set is \<subseteq> {..<length jobs} \<Longrightarrow> (\<And>j t. j \<in> set jobs \<Longrightarrow> w (snd (fn j t)) = (w t :: nat) + d j) \<Longrightarrow>
   w (snd (run_sched fn jobs is rs s)) = w s + sum_list (map (\<lambda>i. d (jobs ! i)) is)"
proof (induction "is" arbitrary: rs s)
  case (Cons i "is")
  obtain r s' where f: "fn (jobs ! i) s = (r, s')" by (cases "fn (jobs ! i) s")
  have "w s' = w s + d (jobs ! i)" using Cons.prems f by (metis insert_subset lessThan_iff list.simps(15) nth_mem snd_conv)
  moreover have "w (snd (run_sched fn jobs is (rs[i := r]) s')) = w s' + sum_list (map (\<lambda>i. d (jobs ! i)) is)"
    using Cons.prems by (intro Cons.IH) auto
  ultimately show ?case by (simp add: f)
qed simp

lemma sched_run_sum:
  assumes "\<And>j t. j \<in> set jobs \<Longrightarrow> w (snd (fn j t)) = (w t :: nat) + d j"
  shows "w (snd (sched_run zero sch fn jobs s)) = w s + sum_list (map d jobs)"
proof -
  let ?is = "if valid_schedule (sch (length jobs)) (length jobs) then sch (length jobs) else [0..<length jobs]"
  have v: "valid_schedule ?is (length jobs)" by (auto simp: valid_schedule_def)
  then have "mset ?is = mset [0..<length jobs]" unfolding perm_upt valid_schedule_def .
  then have "mset (map (\<lambda>i. d (jobs ! i)) ?is) = mset (map (\<lambda>i. d (jobs ! i)) [0..<length jobs])"
    by (simp only: mset_map)
  also have "map (\<lambda>i. d (jobs ! i)) [0..<length jobs] = map d jobs"
    by (rule nth_equalityI) auto
  finally have "sum_list (map (\<lambda>i. d (jobs ! i)) ?is) = sum_list (map d jobs)"
    by (metis sum_mset_sum_list)
  moreover have "set ?is \<subseteq> {..<length jobs}" using v by (simp add: valid_schedule_def)
  ultimately show ?thesis
    using run_sched_sum [of ?is jobs w fn d] assms unfolding sched_run_def run_parallel_def by metis
qed

interpretation sp: job_pool "sched_run zero sch" for zero sch
  by unfold_locales (rule sched_run_rule, assumption, assumption, rule sched_run_sum)

section \<open>The goroutines and the semaphore\<close>

datatype job_status = Waiting | Running | Finished

record ('r, 's) pool =
  pool_stats :: "job_status list"
  pool_results :: "'r list"
  pool_state :: 's

definition pool_init :: "'r \<Rightarrow> nat \<Rightarrow> 's \<Rightarrow> ('r, 's) pool" where
  "pool_init zero n s =
     \<lparr>pool_stats = replicate n Waiting, pool_results = replicate n zero, pool_state = s\<rparr>"

definition slots :: "int \<Rightarrow> nat" where
  "slots limit = (if limit < 1 then 1 else nat limit)"

inductive pool_step :: "int \<Rightarrow> ('j, 's, 'r) job_fn \<Rightarrow> 'j list \<Rightarrow> ('r, 's) pool \<Rightarrow> ('r, 's) pool \<Rightarrow> bool"
  for limit fn jobs where
  acquire: "i < length (pool_stats p) \<Longrightarrow> pool_stats p ! i = Waiting \<Longrightarrow>
     count_list (pool_stats p) Running < slots limit \<Longrightarrow>
     pool_step limit fn jobs p (p\<lparr>pool_stats := (pool_stats p)[i := Running]\<rparr>)"
| finish: "i < length (pool_stats p) \<Longrightarrow> pool_stats p ! i = Running \<Longrightarrow>
     fn (jobs ! i) (pool_state p) = (r, s) \<Longrightarrow>
     pool_step limit fn jobs p
       (p\<lparr>pool_stats := (pool_stats p)[i := Finished], pool_results := (pool_results p)[i := r],
          pool_state := s\<rparr>)"

inductive_cases pool_stepE: "pool_step limit fn jobs p q"

inductive pool_reach :: "int \<Rightarrow> ('j, 's, 'r) job_fn \<Rightarrow> 'j list \<Rightarrow> ('r, 's) pool \<Rightarrow> ('r, 's) pool \<Rightarrow> bool"
  for limit fn jobs p0 where
  pool_start: "pool_reach limit fn jobs p0 p0"
| pool_next: "pool_reach limit fn jobs p0 p \<Longrightarrow> pool_step limit fn jobs p q \<Longrightarrow> pool_reach limit fn jobs p0 q"

definition pool_done :: "('r, 's) pool \<Rightarrow> bool" where
  "pool_done p \<longleftrightarrow> (\<forall>st \<in> set (pool_stats p). st = Finished)"

definition pool_work :: "('r, 's) pool \<Rightarrow> nat" where
  "pool_work p = 2 * count_list (pool_stats p) Waiting + count_list (pool_stats p) Running"

lemma count_list_update:
  "i < length xs \<Longrightarrow>
   count_list (xs[i := y]) x + (if xs ! i = x then 1 else 0) = count_list xs x + (if y = x then 1 else 0)"
proof (induction xs arbitrary: i)
  case (Cons a xs)
  show ?case
  proof (cases i)
    case (Suc k)
    with Cons.prems have "k < length xs" by simp
    from Cons.IH [OF this] Suc show ?thesis by (simp split: if_splits)
  qed simp
qed simp

lemma pool_step_work: "pool_step limit fn jobs p q \<Longrightarrow> pool_work q < pool_work p"
proof (erule pool_stepE)
  fix i assume "q = p\<lparr>pool_stats := (pool_stats p)[i := Running]\<rparr>"
    and i: "i < length (pool_stats p)" "pool_stats p ! i = Waiting"
  then show ?thesis
    using count_list_update [OF i(1), of Running Waiting] count_list_update [OF i(1), of Running Running]
    by (simp add: pool_work_def)
next
  fix i r s
  assume "q = p\<lparr>pool_stats := (pool_stats p)[i := Finished], pool_results := (pool_results p)[i := r],
      pool_state := s\<rparr>"
    and i: "i < length (pool_stats p)" "pool_stats p ! i = Running"
  then show ?thesis
    using count_list_update [OF i(1), of Finished Waiting] count_list_update [OF i(1), of Finished Running]
    by (simp add: pool_work_def)
qed

lemma pool_limit:
  assumes "pool_reach limit fn jobs (pool_init zero n s) p"
  shows "count_list (pool_stats p) Running \<le> slots limit"
  using assms
proof induction
  case pool_start
  have "count_list (replicate n Waiting) Running = 0" by (induction n) auto
  then show ?case by (simp add: pool_init_def)
next
  case (pool_next p q)
  from pool_next(2) show ?case
  proof (rule pool_stepE)
    fix i assume "q = p\<lparr>pool_stats := (pool_stats p)[i := Running]\<rparr>" "i < length (pool_stats p)"
      "pool_stats p ! i = Waiting" "count_list (pool_stats p) Running < slots limit"
    then show ?thesis using count_list_update [of i "pool_stats p" Running Running] by simp
  next
    fix i r s assume "q = p\<lparr>pool_stats := (pool_stats p)[i := Finished],
        pool_results := (pool_results p)[i := r], pool_state := s\<rparr>" "i < length (pool_stats p)"
    then show ?thesis using count_list_update [of i "pool_stats p" Finished Running] pool_next.IH
      by (simp split: if_splits)
  qed
qed

lemma pool_progress:
  assumes "\<not> pool_done p"
  shows "\<exists>q. pool_step limit fn jobs p q"
proof -
  from assms obtain i where i: "i < length (pool_stats p)" "pool_stats p ! i \<noteq> Finished"
    by (auto simp: pool_done_def in_set_conv_nth)
  show ?thesis
  proof (cases "\<exists>k < length (pool_stats p). pool_stats p ! k = Running")
    case True
    then obtain k where "k < length (pool_stats p)" "pool_stats p ! k = Running" by blast
    then show ?thesis by (meson pool_step.finish surj_pair)
  next
    case False
    then have "count_list (pool_stats p) Running = 0"
      by (metis count_list_0_iff in_set_conv_nth)
    moreover have "pool_stats p ! i = Waiting" using i False by (cases "pool_stats p ! i") auto
    moreover have "0 < slots limit" by (simp add: slots_def)
    ultimately have "pool_step limit fn jobs p (p\<lparr>pool_stats := (pool_stats p)[i := Running]\<rparr>)"
      using i(1) by (intro pool_step.acquire) auto
    then show ?thesis by blast
  qed
qed

text \<open>Every reachable pool is a prefix of a schedule: the finished jobs in the order in which they
  finished.\<close>

definition pool_inv :: "('j, 's, 'r) job_fn \<Rightarrow> 'j list \<Rightarrow> 'r \<Rightarrow> 's \<Rightarrow> ('r, 's) pool \<Rightarrow> bool" where
  "pool_inv fn jobs zero s p \<longleftrightarrow>
     length (pool_stats p) = length jobs \<and>
     (\<exists>ord. distinct ord \<and> set ord = {i. i < length jobs \<and> pool_stats p ! i = Finished} \<and>
        run_sched fn jobs ord (replicate (length jobs) zero) s = (pool_results p, pool_state p))"

lemma pool_step_inv: "pool_step limit fn jobs p q \<Longrightarrow> pool_inv fn jobs zero s p \<Longrightarrow> pool_inv fn jobs zero s q"
proof (erule pool_stepE)
  fix i assume q: "q = p\<lparr>pool_stats := (pool_stats p)[i := Running]\<rparr>"
    and i: "i < length (pool_stats p)" "pool_stats p ! i = Waiting" and inv: "pool_inv fn jobs zero s p"
  have len: "length (pool_stats p) = length jobs" using inv by (simp add: pool_inv_def)
  have "{k. k < length jobs \<and> (pool_stats p)[i := Running] ! k = Finished}
    = {k. k < length jobs \<and> pool_stats p ! k = Finished}"
    using i len by (auto simp: nth_list_update)
  with inv q show ?thesis by (simp add: pool_inv_def)
next
  fix i r t assume q: "q = p\<lparr>pool_stats := (pool_stats p)[i := Finished],
      pool_results := (pool_results p)[i := r], pool_state := t\<rparr>"
    and i: "i < length (pool_stats p)" "pool_stats p ! i = Running"
    and f: "fn (jobs ! i) (pool_state p) = (r, t)" and inv: "pool_inv fn jobs zero s p"
  from inv obtain ord where len: "length (pool_stats p) = length jobs" and d: "distinct ord"
    and set: "set ord = {k. k < length jobs \<and> pool_stats p ! k = Finished}"
    and run: "run_sched fn jobs ord (replicate (length jobs) zero) s = (pool_results p, pool_state p)"
    by (auto simp: pool_inv_def)
  have "distinct (ord @ [i])" using d set i by simp
  moreover have "set (ord @ [i]) = {k. k < length jobs \<and> (pool_stats p)[i := Finished] ! k = Finished}"
    using set i len by (auto simp: nth_list_update)
  moreover have "run_sched fn jobs (ord @ [i]) (replicate (length jobs) zero) s
      = ((pool_results p)[i := r], t)"
    by (simp add: run_sched_append run f)
  ultimately have "\<exists>ord. distinct ord \<and>
      set ord = {k. k < length jobs \<and> (pool_stats p)[i := Finished] ! k = Finished} \<and>
      run_sched fn jobs ord (replicate (length jobs) zero) s = ((pool_results p)[i := r], t)"
    by blast
  then show ?thesis using len by (simp add: pool_inv_def q)
qed

lemma pool_inv_init: "pool_inv fn jobs zero s (pool_init zero (length jobs) s)"
  by (auto simp: pool_inv_def pool_init_def intro!: exI [of _ "[]"])

lemma pool_reach_inv:
  "pool_reach limit fn jobs (pool_init zero (length jobs) s) p \<Longrightarrow> pool_inv fn jobs zero s p"
  by (induction rule: pool_reach.induct) (auto intro: pool_inv_init pool_step_inv)

lemma pool_refines_schedule:
  assumes "pool_reach limit fn jobs (pool_init zero (length jobs) s) p" and "pool_done p"
  shows "\<exists>sched. valid_schedule sched (length jobs) \<and>
    run_parallel zero sched fn jobs s = (pool_results p, pool_state p)"
proof -
  from pool_reach_inv [OF assms(1)] obtain ord where ord: "distinct ord"
    "set ord = {i. i < length jobs \<and> pool_stats p ! i = Finished}"
    "run_sched fn jobs ord (replicate (length jobs) zero) s = (pool_results p, pool_state p)"
    and len: "length (pool_stats p) = length jobs"
    by (auto simp: pool_inv_def)
  have "set ord = {..<length jobs}"
    using ord(2) assms(2) len by (auto simp: pool_done_def)
  with ord show ?thesis by (auto simp: valid_schedule_def run_parallel_def)
qed

section \<open>Errors in completion order\<close>

fun collect_errors :: "('j, 's, go_error option) job_fn \<Rightarrow> 'j list \<Rightarrow> nat list \<Rightarrow> 's \<Rightarrow> go_error list \<times> 's" where
  "collect_errors fn jobs [] s = ([], s)"
| "collect_errors fn jobs (i # is) s =
     (case fn (jobs ! i) s of (e, s') \<Rightarrow>
        (case collect_errors fn jobs is s' of (es, t) \<Rightarrow>
           ((case e of None \<Rightarrow> es | Some x \<Rightarrow> x # es), t)))"

definition parallel :: "nat list \<Rightarrow> ('j, 's, go_error option) job_fn \<Rightarrow> 'j list \<Rightarrow> 's \<Rightarrow> go_error option \<times> 's" where
  "parallel sched fn jobs s = (case collect_errors fn jobs sched s of (es, t) \<Rightarrow> (errors_join es, t))"

definition sched_parallel :: "(nat \<Rightarrow> nat list) \<Rightarrow> ('j, 's, go_error option) job_fn \<Rightarrow> 'j list \<Rightarrow> 's \<Rightarrow> go_error option \<times> 's" where
  "sched_parallel sch fn jobs s =
     parallel (if valid_schedule (sch (length jobs)) (length jobs) then sch (length jobs) else [0..<length jobs]) fn jobs s"

section \<open>The interface of the loop that joins its errors\<close>

text \<open>
  Three laws: what every job keeps is kept; if the loop reports no error, every job succeeded and what
  its success established (and no other job undoes) still holds; and a quantity to which every job adds
  grows by the sum over all jobs, whatever fails.
\<close>

locale error_pool =
  fixes run :: "('j, 's, go_error option) job_fn \<Rightarrow> 'j list \<Rightarrow> 's \<Rightarrow> go_error option \<times> 's"
  assumes run_keeps:
    "Inv s \<Longrightarrow> (\<And>j t. j \<in> set jobs \<Longrightarrow> Inv t \<Longrightarrow> Inv (snd (fn j t))) \<Longrightarrow> Inv (snd (run fn jobs s))"
    and run_success:
    "run fn jobs s = (None, s') \<Longrightarrow>
     (\<And>j t t'. j \<in> set jobs \<Longrightarrow> fn j t = (None, t') \<Longrightarrow> Q j t') \<Longrightarrow>
     (\<And>j k t. j \<in> set jobs \<Longrightarrow> k \<in> set jobs \<Longrightarrow> Q j t \<Longrightarrow> Q j (snd (fn k t))) \<Longrightarrow>
     \<forall>j \<in> set jobs. Q j s'"
    and run_adds:
    "(\<And>j t. j \<in> set jobs \<Longrightarrow> w (snd (fn j t)) = (w t :: nat) + d j) \<Longrightarrow>
     w (snd (run fn jobs s)) = w s + sum_list (map d jobs)"
begin

lemma run_unchanged:
  assumes "\<And>j t. j \<in> set jobs \<Longrightarrow> f (snd (fn j t)) = f t"
  shows "f (snd (run fn jobs s)) = f s"
  using run_keeps [of "\<lambda>t. f t = f s" s jobs fn] assms by simp

lemma run_counts:
  assumes "\<And>j t. j \<in> set jobs \<Longrightarrow> w (snd (fn j t)) = (w t :: nat) + (if j = x then 1 else 0)"
  shows "w (snd (run fn jobs s)) = w s + count_list jobs x"
proof -
  have "sum_list (map (\<lambda>j. if j = x then 1 else 0 :: nat) jobs) = count_list jobs x"
    by (induction jobs) auto
  with run_adds [of jobs w fn "\<lambda>j. if j = x then 1 else 0" s] assms show ?thesis by simp
qed

end

lemma collect_errors_keeps:
  assumes "Inv s" and "set is \<subseteq> {..<length jobs}"
    and "\<And>j t. j \<in> set jobs \<Longrightarrow> Inv t \<Longrightarrow> Inv (snd (fn j t))"
  shows "Inv (snd (collect_errors fn jobs is s))"
  using assms(1,2)
proof (induction "is" arbitrary: s)
  case (Cons i "is")
  obtain e s' where f: "fn (jobs ! i) s = (e, s')" by fastforce
  have "Inv s'" using assms(3) [of "jobs ! i" s] Cons.prems f by simp
  with Cons.IH [of s'] Cons.prems f show ?case by (simp add: split_beta)
qed simp

lemma collect_errors_success:
  assumes "collect_errors fn jobs is s = ([], s')" and "set is \<subseteq> {..<length jobs}"
    and "\<And>j t t'. j \<in> set jobs \<Longrightarrow> fn j t = (None, t') \<Longrightarrow> Q j t'"
    and "\<And>j k t. j \<in> set jobs \<Longrightarrow> k \<in> set jobs \<Longrightarrow> Q j t \<Longrightarrow> Q j (snd (fn k t))"
  shows "\<forall>i \<in> set is. Q (jobs ! i) s'"
  using assms(1,2)
proof (induction "is" arbitrary: s)
  case (Cons i "is")
  obtain e s1 where f: "fn (jobs ! i) s = (e, s1)" by fastforce
  obtain es s2 where r: "collect_errors fn jobs is s1 = (es, s2)" by fastforce
  from Cons.prems f r have ok: "e = None" "es = []" "s2 = s'" by (auto split: option.splits)
  have i: "jobs ! i \<in> set jobs" using Cons.prems(2) by simp
  have "Q (jobs ! i) s1" using assms(3) [OF i] f ok by simp
  then have "Q (jobs ! i) (snd (collect_errors fn jobs is s1))"
    using collect_errors_keeps [of "Q (jobs ! i)" s1 "is" jobs fn] assms(4) [OF i] Cons.prems(2) by simp
  then show ?case using Cons.IH [of s1] r ok Cons.prems(2) by simp
qed simp

lemma collect_errors_adds:
  assumes "set is \<subseteq> {..<length jobs}"
    and "\<And>j t. j \<in> set jobs \<Longrightarrow> w (snd (fn j t)) = (w t :: nat) + d j"
  shows "w (snd (collect_errors fn jobs is s)) = w s + sum_list (map (\<lambda>i. d (jobs ! i)) is)"
  using assms(1)
proof (induction "is" arbitrary: s)
  case (Cons i "is")
  obtain e s1 where f: "fn (jobs ! i) s = (e, s1)" by fastforce
  have "w s1 = w s + d (jobs ! i)" using assms(2) [of "jobs ! i" s] Cons.prems f by simp
  then show ?case using Cons.IH [of s1] Cons.prems f by (simp add: split_beta)
qed simp

lemma sched_parallel_order:
  obtains sched where "valid_schedule sched (length jobs)" "sched_parallel sch fn jobs s = parallel sched fn jobs s"
proof -
  have "valid_schedule [0..<length jobs] (length jobs)" by (auto simp: valid_schedule_def)
  then show thesis using that unfolding sched_parallel_def by metis
qed

lemma sum_list_schedule:
  assumes "valid_schedule sched (length jobs)"
  shows "sum_list (map (\<lambda>i. d (jobs ! i)) sched) = sum_list (map d jobs :: nat list)"
proof -
  have "mset sched = mset [0..<length jobs]" using assms perm_upt [of sched "length jobs"] unfolding valid_schedule_def by blast
  then have "mset (map (\<lambda>i. d (jobs ! i)) sched) = mset (map (\<lambda>i. d (jobs ! i)) [0..<length jobs])"
    by (simp only: mset_map)
  also have "map (\<lambda>i. d (jobs ! i)) [0..<length jobs] = map d jobs" by (rule nth_equalityI) simp_all
  finally have "sum_mset (mset (map (\<lambda>i. d (jobs ! i)) sched)) = sum_mset (mset (map d jobs))" by (rule arg_cong)
  then show ?thesis by (simp only: sum_mset_sum_list)
qed

interpretation ep: error_pool "sched_parallel sch" for sch
proof unfold_locales
  fix Inv and s :: 's and jobs :: "'j list" and fn :: "('j, 's, go_error option) job_fn"
  assume i: "Inv s" and k: "\<And>j t. j \<in> set jobs \<Longrightarrow> Inv t \<Longrightarrow> Inv (snd (fn j t))"
  obtain sched where v: "valid_schedule sched (length jobs)" "sched_parallel sch fn jobs s = parallel sched fn jobs s"
    by (rule sched_parallel_order)
  have "Inv (snd (collect_errors fn jobs sched s))"
    using collect_errors_keeps [of Inv s sched jobs fn] i k v(1) by (simp add: valid_schedule_def)
  then show "Inv (snd (sched_parallel sch fn jobs s))" using v(2) by (simp add: parallel_def split: prod.splits)
next
  fix fn :: "('j, 's, go_error option) job_fn" and jobs :: "'j list" and s s' :: 's and Q
  assume r: "sched_parallel sch fn jobs s = (None, s')"
    and q: "\<And>j t t'. j \<in> set jobs \<Longrightarrow> fn j t = (None, t') \<Longrightarrow> Q j t'"
    and k: "\<And>j k t. j \<in> set jobs \<Longrightarrow> k \<in> set jobs \<Longrightarrow> Q j t \<Longrightarrow> Q j (snd (fn k t))"
  obtain sched where v: "valid_schedule sched (length jobs)" "sched_parallel sch fn jobs s = parallel sched fn jobs s"
    by (rule sched_parallel_order)
  have "collect_errors fn jobs sched s = ([], s')" using r v(2) by (simp add: parallel_def split: prod.splits)
  then have "\<forall>i \<in> set sched. Q (jobs ! i) s'"
    using collect_errors_success [of fn jobs sched s s' Q] q k v(1) by (simp add: valid_schedule_def)
  then show "\<forall>j \<in> set jobs. Q j s'" using v(1) by (auto simp: valid_schedule_def in_set_conv_nth)
next
  fix jobs :: "'j list" and w and fn :: "('j, 's, go_error option) job_fn" and d s
  assume a: "\<And>j t. j \<in> set jobs \<Longrightarrow> w (snd (fn j t)) = (w t :: nat) + d j"
  obtain sched where v: "valid_schedule sched (length jobs)" "sched_parallel sch fn jobs s = parallel sched fn jobs s"
    by (rule sched_parallel_order)
  have "w (snd (collect_errors fn jobs sched s)) = w s + sum_list (map (\<lambda>i. d (jobs ! i)) sched)"
    using collect_errors_adds [of sched jobs w fn d s] a v(1) by (simp add: valid_schedule_def)
  then show "w (snd (sched_parallel sch fn jobs s)) = w s + sum_list (map d jobs)"
    using v by (simp add: parallel_def sum_list_schedule split: prod.splits)
qed

end
