(* ===== verification/GoExec.thy ===== *)
theory GoExec
  imports GoStrings
begin

text \<open>
  Running external commands: a command with its arguments and standard input, and the state that
  records the commands in the order in which they were run. What a command does is a parameter, an
  arbitrary function from a command and the state of the outside world to its output, its error and
  the new state.
\<close>

section \<open>Commands\<close>

datatype cmd = Cmd (cmd_name: string) (cmd_args: "string list") (cmd_stdin: string)

type_synonym 'w executor = "cmd \<Rightarrow> 'w \<Rightarrow> (string \<times> go_error option) \<times> 'w"

record 'w sys =
  sys_trace :: "cmd list"
  sys_world :: 'w

definition exec_run :: "'w executor \<Rightarrow> cmd \<Rightarrow> 'w sys \<Rightarrow> (string \<times> go_error option) \<times> 'w sys" where
  "exec_run ex c s =
     (case ex c (sys_world s) of (r, w) \<Rightarrow> (r, s\<lparr>sys_trace := sys_trace s @ [c], sys_world := w\<rparr>))"

lemma exec_run_trace [simp]: "sys_trace (snd (exec_run ex c s)) = sys_trace s @ [c]"
  by (simp add: exec_run_def split: prod.splits)

section \<open>Shell scripts\<close>

abbreviation nl :: string where
  "nl \<equiv> [CHR 0x0A]"

abbreviation sq :: "string \<Rightarrow> string" where
  "sq s \<equiv> CHR 0x27 # s @ [CHR 0x27]"

definition script_lines :: "string list \<Rightarrow> string" where
  "script_lines ls = concat (map (\<lambda>l. l @ nl) ls)"

end
