(* ===== verification/DeployRun.thy ===== *)
theory DeployRun
  imports DeployConfig GoParallel GoExec
begin

text \<open>
  The deployment runner of \<open>deployctl\<close> (tools/deployctl/deploy.go): expanding a deployment into
  upload and activation jobs, the remote path check, the guarded upload with its backup, restore
  and cleanup, and the two phases of \<open>apply\<close>.

  The commands that the program runs are executed by a parameter \<open>ex\<close>, an arbitrary function from
  a command and the state of the outside world to the command's output, its error and the new
  state. The state of the model records the commands in the order in which they were run. Standard
  output and durations are not modelled; the text of a dry run is.
\<close>

section \<open>The runner and its jobs\<close>

record deploy_runner =
  dr_user :: string
  dr_opts :: "string list"
  dr_roles :: "(string, string list) gomap"
  dr_vars :: "(string, string) gomap"
  dr_dry :: bool
  dr_parallel :: int
  dr_worktree :: string
  dr_commit :: string

record upload_job =
  uj_u :: upload
  uj_host :: string
  uj_local :: string
  uj_remote :: string

record activation_job =
  aj_a :: activation
  aj_host :: string
  aj_script :: string

record job_result =
  jr_label :: string
  jr_host :: string
  jr_output :: string
  jr_err :: "go_error option"

definition zero_result :: job_result where
  "zero_result = \<lparr>jr_label = [], jr_host = [], jr_output = [], jr_err = None\<rparr>"

abbreviation InUploadPart :: "string \<Rightarrow> string \<Rightarrow> go_error \<Rightarrow> go_error" where
  "InUploadPart u part e \<equiv> Errorf ''upload'' [u, part] [e]"

abbreviation UploadRole :: "string \<Rightarrow> string \<Rightarrow> go_error" where
  "UploadRole u role \<equiv> Errorf ''no hosts given for the role of the upload'' [u, role] []"

abbreviation ActivationRole :: "string \<Rightarrow> string \<Rightarrow> go_error" where
  "ActivationRole a role \<equiv> Errorf ''no hosts given for the role of the activation'' [a, role] []"

section \<open>Remote paths\<close>

definition last_slash :: "string \<Rightarrow> bool" where
  "last_slash s = has_suffix s ''/''"

definition extra_ok :: "string \<Rightarrow> bool" where
  "extra_ok extra =
     (let normalized = clean extra
      in remote_path_ok extra \<and> normalized \<noteq> ''/'' \<and>
         2 \<le> length (split_char (CHR ''/'')
           (trim_right (\<lambda>c. c = CHR ''/'') (trim_left (\<lambda>c. c = CHR ''/'') normalized))) \<and>
         trim_suffix extra ''/'' = normalized)"

definition extra_allows :: "string \<Rightarrow> string \<Rightarrow> bool" where
  "extra_allows remote extra = (remote = extra \<or> (last_slash extra \<and> has_prefix remote extra))"

definition base_allowed :: "string \<Rightarrow> bool" where
  "base_allowed remote =
     (remote = ''/etc/sysctl.conf'' \<or>
      has_prefix remote ''/home/isucon/'' \<or>
      has_prefix remote ''/etc/systemd/system/'' \<or>
      has_prefix remote ''/etc/nginx/'' \<or>
      has_prefix remote ''/etc/mysql/'' \<or>
      has_prefix remote ''/usr/local/bin/'')"

definition validate_remote_path :: "string \<Rightarrow> bool \<Rightarrow> string list \<Rightarrow> go_error option" where
  "validate_remote_path remote delete extras =
     (if \<not> remote_path_ok remote then Some (Errorf ''remote path is not a permitted absolute path'' [remote] [])
      else if (last_slash remote \<and> clean remote @ ''/'' \<noteq> remote) \<or> (\<not> last_slash remote \<and> clean remote \<noteq> remote)
      then Some (Errorf ''remote path is not normalised'' [remote] [])
      else
        (let entries = filter (\<lambda>e. e \<noteq> []) extras
         in case find (\<lambda>e. \<not> extra_ok e) entries of
              Some e \<Rightarrow> Some (Errorf ''invalid allowed_remote_paths entry'' [e] [])
            | None \<Rightarrow>
                if \<not> (base_allowed remote \<or> (\<exists>e \<in> set entries. extra_allows remote e))
                then Some (Errorf ''remote path is outside the permitted paths'' [remote] [])
                else if delete \<and> \<not> last_slash remote
                then Some (Errorf ''delete needs a remote path that ends in a slash'' [remote] [])
                else None))"

section \<open>Expanding the declarations\<close>

definition upload_job_for :: "deploy_runner \<Rightarrow> (string \<Rightarrow> bool) \<Rightarrow> upload \<Rightarrow> string \<Rightarrow> go_error + upload_job" where
  "upload_job_for r stat u host =
     (let e = \<lparr>e_host = host, e_vars = dr_vars r\<rparr> in
      case expand e (u_local u) of Inl x \<Rightarrow> Inl (InUploadPart (u_label u) ''local'' x)
      | Inr local \<Rightarrow>
     (case validate_local_path local of Some x \<Rightarrow> Inl (InUploadPart (u_label u) [] x)
      | None \<Rightarrow>
     (if \<not> stat (trim_suffix local ''/'')
      then Inl (Errorf ''cannot stat the local path of the upload'' [u_label u] [])
      else
     (case expand e (u_remote u) of Inl x \<Rightarrow> Inl (InUploadPart (u_label u) ''remote'' x)
      | Inr remote \<Rightarrow>
     (case validate_remote_path remote (u_delete u)
             (split_char (CHR '','') (lookup_or [] (dr_vars r) ''allowed_remote_paths'')) of
        Some x \<Rightarrow> Inl (InUploadPart (u_label u) [] x)
      | None \<Rightarrow>
     (case expand e (u_validate u) of Inl x \<Rightarrow> Inl (InUploadPart (u_label u) ''validation'' x)
      | Inr v \<Rightarrow>
          Inr \<lparr>uj_u = u\<lparr>u_validate := v\<rparr>, uj_host = host, uj_local = local, uj_remote = remote\<rparr>))))))"

definition upload_jobs :: "deploy_runner \<Rightarrow> (string \<Rightarrow> bool) \<Rightarrow> upload list \<Rightarrow> go_error + upload_job list" where
  "upload_jobs r stat us =
     (case map_res
         (\<lambda>u. case map_of (dr_roles r) (u_role u) of
                None \<Rightarrow> Inl (UploadRole (u_label u) (u_role u))
              | Some hosts \<Rightarrow> map_res (upload_job_for r stat u) hosts) us of
        Inl e \<Rightarrow> Inl e
      | Inr jss \<Rightarrow> Inr (concat jss))"

definition activation_job_for :: "deploy_runner \<Rightarrow> activation \<Rightarrow> string \<Rightarrow> go_error + activation_job" where
  "activation_job_for r a host =
     (case expand \<lparr>e_host = host, e_vars = dr_vars r\<rparr> (a_script a) of
        Inl x \<Rightarrow> Inl (Errorf ''activation'' [a_label a] [x])
      | Inr script \<Rightarrow> Inr \<lparr>aj_a = a, aj_host = host, aj_script = script\<rparr>)"

definition activation_jobs :: "deploy_runner \<Rightarrow> activation list \<Rightarrow> go_error + activation_job list" where
  "activation_jobs r as =
     (case map_res
         (\<lambda>a. case map_of (dr_roles r) (a_role a) of
                None \<Rightarrow> Inl (ActivationRole (a_label a) (a_role a))
              | Some hosts \<Rightarrow> map_res (activation_job_for r a) hosts) as of
        Inl e \<Rightarrow> Inl e
      | Inr jss \<Rightarrow> Inr (concat jss))"

section \<open>Command lines and scripts\<close>

definition ssh_base :: "deploy_runner \<Rightarrow> string list" where
  "ssh_base r = [''-o'', ''RequestTTY=no'', ''-o'', ''LogLevel=ERROR''] @ dr_opts r"

definition ssh_target :: "deploy_runner \<Rightarrow> string \<Rightarrow> string" where
  "ssh_target r host = dr_user r @ ''@'' @ host"

definition rsync_args :: "deploy_runner \<Rightarrow> upload_job \<Rightarrow> string list" where
  "rsync_args r j =
     [''-az'', ''--rsync-path=sudo rsync'', ''-e'', join_with '' '' (''ssh'' # ssh_base r)] @
     (if u_delete (uj_u j) then [''--delete''] else []) @
     map (\<lambda>x. ''--exclude='' @ x) (u_excludes (uj_u j)) @
     [uj_local j, ssh_target r (uj_host j) @ '':'' @ uj_remote j]"

definition config_backup_script :: "string \<Rightarrow> string \<Rightarrow> string" where
  "config_backup_script remote backup =
     (let destination = trim_suffix remote ''/'' in script_lines
       [''set -eu'',
        ''if sudo test -L '' @ sq destination @ ''; then'',
        ''  echo '' @ sq ''validated upload requires a non-symlink destination'' @ '' >&2'',
        ''  exit 1'',
        ''fi'',
        ''sudo mkdir -m 0700 -- '' @ sq backup,
        ''if sudo test -e '' @ sq destination @ ''; then'',
        ''  sudo cp -a -- '' @ sq destination @ '' '' @ sq (backup @ ''/original''),
        ''  sudo touch '' @ sq (backup @ ''/existed''),
        ''fi''])"

definition config_restore_script :: "string \<Rightarrow> string \<Rightarrow> string" where
  "config_restore_script remote backup =
     (let destination = trim_suffix remote ''/'' in script_lines
       [''set -eu'',
        ''sudo rm -rf -- '' @ sq destination,
        ''if sudo test -f '' @ sq (backup @ ''/existed'') @ ''; then'',
        ''  sudo cp -a -- '' @ sq (backup @ ''/original'') @ '' '' @ sq destination,
        ''fi''])"

definition cleanup_script :: "string \<Rightarrow> string" where
  "cleanup_script backup = ''sudo rm -rf -- '' @ sq backup @ nl"

definition validation_script :: "upload_job \<Rightarrow> string" where
  "validation_script j = ''set -eu'' @ nl @ u_validate (uj_u j) @ nl"

definition remote_cmd :: "deploy_runner \<Rightarrow> string \<Rightarrow> string \<Rightarrow> cmd" where
  "remote_cmd r host script = Cmd ''ssh'' (ssh_base r @ [ssh_target r host, ''sh -s'']) script"

definition rsync_cmd :: "deploy_runner \<Rightarrow> upload_job \<Rightarrow> cmd" where
  "rsync_cmd r j = Cmd ''rsync'' (rsync_args r j) []"

section \<open>One upload\<close>

text \<open>
  What the upload takes from outside: the random name of a backup (\<open>None\<close> when the random source
  fails), the fingerprint of the local tree, and the script that leaves the stamp for a job and its
  fingerprint.
\<close>

record deploy_env =
  de_stat :: "string \<Rightarrow> bool"
  de_nonce :: "upload_job \<Rightarrow> string option"
  de_fingerprint :: "string \<Rightarrow> string list \<Rightarrow> go_error + string"
  de_stamp :: "upload_job \<Rightarrow> string \<Rightarrow> go_error + string"

definition job_result_of :: "upload_job \<Rightarrow> string list \<Rightarrow> go_error option \<Rightarrow> job_result" where
  "job_result_of j output err =
     \<lparr>jr_label = u_label (uj_u j), jr_host = uj_host j,
      jr_output = trim_space (join_with nl output), jr_err = err\<rparr>"

definition run_remote :: "'w executor \<Rightarrow> deploy_runner \<Rightarrow> upload_job \<Rightarrow> string \<Rightarrow> 'w sys \<Rightarrow>
    (string \<times> go_error option) \<times> 'w sys" where
  "run_remote ex r j script s =
     (case exec_run ex (remote_cmd r (uj_host j) script) s of ((out, err), s') \<Rightarrow> ((trim_space out, err), s'))"

text \<open>The transfer, the validation and the stamp: \<open>rsync\<close>, then the next step only after success.\<close>

definition transfer :: "'w executor \<Rightarrow> deploy_env \<Rightarrow> deploy_runner \<Rightarrow> upload_job \<Rightarrow> string \<Rightarrow> 'w sys \<Rightarrow>
    (string list \<times> go_error option) \<times> 'w sys" where
  "transfer ex env r j fingerprint s =
     (case exec_run ex (rsync_cmd r j) s of ((o1, e1), s1) \<Rightarrow>
        (case e1 of
           Some e \<Rightarrow> (([trim_space o1], Some (Errorf ''rsync'' [] [e])), s1)
         | None \<Rightarrow>
             (case (if u_validate (uj_u j) \<noteq> [] then run_remote ex r j (validation_script j) s1
                    else (([], None), s1)) of ((o2, e2), s2) \<Rightarrow>
               (let out2 = [trim_space o1] @ (if u_validate (uj_u j) \<noteq> [] then [o2] else []) in
                case e2 of
                  Some e \<Rightarrow> ((out2, Some (Errorf ''configuration validation failed'' [] [e])), s2)
                | None \<Rightarrow>
                    (case de_stamp env j fingerprint of
                       Inl e \<Rightarrow> ((out2, Some (Errorf ''deploy stamp'' [] [e])), s2)
                     | Inr script \<Rightarrow>
                         (case run_remote ex r j script s2 of ((o3, e3), s3) \<Rightarrow>
                            ((out2 @ [o3],
                              (case e3 of Some e \<Rightarrow> Some (Errorf ''deploy stamp'' [] [e]) | None \<Rightarrow> None)),
                             s3)))))))"

definition settle :: "'w executor \<Rightarrow> deploy_runner \<Rightarrow> upload_job \<Rightarrow> string \<Rightarrow> string list \<Rightarrow> go_error option \<Rightarrow>
    'w sys \<Rightarrow> job_result \<times> 'w sys" where
  "settle ex r j backup out err s =
     (let cleanup = (\<lambda>out s.
        (case run_remote ex r j (cleanup_script backup) s of ((ot, e), s') \<Rightarrow>
          (job_result_of j (out @ [ot])
             (case e of None \<Rightarrow> err
              | Some c \<Rightarrow> errors_join ((case err of Some x \<Rightarrow> [x] | None \<Rightarrow> []) @
                  [Errorf ''backup cleanup failed'' [backup] [c]])), s')))
      in case err of
           None \<Rightarrow> cleanup out s
         | Some x \<Rightarrow>
             (case run_remote ex r j (config_restore_script (uj_remote j) backup) s of ((ot, e), s') \<Rightarrow>
                (case e of
                   Some f \<Rightarrow> (job_result_of j (out @ [ot])
                     (errors_join [x, Errorf ''restore failed; backup retained'' [backup] [f]]), s')
                 | None \<Rightarrow> cleanup (out @ [ot, ''previous configuration restored'']) s')))"

definition run_upload :: "'w executor \<Rightarrow> deploy_env \<Rightarrow> deploy_runner \<Rightarrow> upload_job \<Rightarrow> 'w sys \<Rightarrow>
    job_result \<times> 'w sys" where
  "run_upload ex env r j s =
     (if u_validate (uj_u j) \<noteq> [] then
        (case de_nonce env j of
           None \<Rightarrow> (job_result_of j [] (Some (Errorf ''random source failed'' [] [])), s)
         | Some nonce \<Rightarrow>
             (let backup = ''/tmp/isucon-deployctl-'' @ nonce in
              case run_remote ex r j (config_backup_script (uj_remote j) backup) s of ((ot, e), s1) \<Rightarrow>
                (let out = [''configuration backup: '' @ backup, ot] in
                 case e of
                   Some x \<Rightarrow> (job_result_of j out
                     (Some (Errorf ''backup failed; upload was not started'' [backup] [x])), s1)
                 | None \<Rightarrow>
                     (case de_fingerprint env (uj_local j) (u_excludes (uj_u j)) of
                        Inl x \<Rightarrow> (job_result_of j out (Some (Errorf ''fingerprint local source'' [] [x])), s1)
                      | Inr fp \<Rightarrow>
                          (case transfer ex env r j fp s1 of ((o2, err), s2) \<Rightarrow>
                             settle ex r j backup (out @ o2) err s2)))))
      else
        (case de_fingerprint env (uj_local j) (u_excludes (uj_u j)) of
           Inl x \<Rightarrow> (job_result_of j [] (Some (Errorf ''fingerprint local source'' [] [x])), s)
         | Inr fp \<Rightarrow>
             (case transfer ex env r j fp s of ((o2, err), s2) \<Rightarrow> (job_result_of j o2 err, s2))))"

definition run_activation :: "'w executor \<Rightarrow> deploy_runner \<Rightarrow> activation_job \<Rightarrow> 'w sys \<Rightarrow> job_result \<times> 'w sys" where
  "run_activation ex r j s =
     (case exec_run ex (remote_cmd r (aj_host j) (aj_script j)) s of ((out, err), s') \<Rightarrow>
        (\<lparr>jr_label = a_label (aj_a j), jr_host = aj_host j, jr_output = trim_space out,
          jr_err = (case err of None \<Rightarrow> None | Some e \<Rightarrow> Some (Errorf ''ssh'' [] [e]))\<rparr>, s'))"

section \<open>Reports and the two phases\<close>

definition report_results :: "job_result list \<Rightarrow> go_error option" where
  "report_results rs =
     errors_join (concat (map (\<lambda>x. case jr_err x of None \<Rightarrow> []
       | Some e \<Rightarrow> [Errorf ''job'' [jr_host x, jr_label x] [e]]) rs))"

definition shell_special :: string where
  "shell_special = [CHR '' '', CHR 0x09, CHR 0x0A, CHR 0x27] @
     [CHR 0x22, CHR ''*'', CHR ''?'', CHR ''['', CHR '']'', CHR ''$'', CHR '';'', CHR ''&'', CHR ''|'',
      CHR ''('', CHR '')'', CHR ''<'', CHR ''>'', CHR 0x5C]"

text \<open>\<open>quote\<close> stands for \<open>fmt\<close>'s \<open>%q\<close>.\<close>

definition format_command :: "(string \<Rightarrow> string) \<Rightarrow> string \<Rightarrow> string list \<Rightarrow> string" where
  "format_command quote name args =
     join_with '' '' (map (\<lambda>p. if contains_any p shell_special then quote p else p) (name # args))"

definition dry_upload :: "(string \<Rightarrow> string) \<Rightarrow> deploy_runner \<Rightarrow> upload_job \<Rightarrow> string list" where
  "dry_upload quote r j =
     (if u_validate (uj_u j) \<noteq> []
      then [''[dry-run] backup '' @ uj_host j @ '':'' @ uj_remote j @
            '' before upload; restore on transfer/validation failure''] else []) @
     [''[dry-run] '' @ format_command quote ''rsync'' (rsync_args r j)] @
     (if u_validate (uj_u j) \<noteq> []
      then [''[dry-run] validate '' @ uj_host j @ '': '' @ u_validate (uj_u j)] else [])"

definition dry_activation :: "(string \<Rightarrow> string) \<Rightarrow> deploy_runner \<Rightarrow> activation_job \<Rightarrow> string list" where
  "dry_activation quote r j =
     [''[dry-run] '' @ format_command quote ''ssh'' (ssh_base r @ [ssh_target r (aj_host j), ''sh -s'']) @
      '' <<'' @ sq ''EOF'', aj_script j @ ''EOF'']"

text \<open>The result of \<open>apply\<close>: the text of a dry run, and the error.\<close>

definition apply_deployment :: "(string \<Rightarrow> string) \<Rightarrow> 'w executor \<Rightarrow> deploy_env \<Rightarrow> (nat \<Rightarrow> nat \<Rightarrow> nat list) \<Rightarrow>
    deploy_runner \<Rightarrow> deployment \<Rightarrow> 'w sys \<Rightarrow> (string list \<times> go_error option) \<times> 'w sys" where
  "apply_deployment quote ex env sch r d s =
     (case upload_jobs r (de_stat env) (d_uploads d) of
        Inl e \<Rightarrow> (([], Some e), s)
      | Inr uploads \<Rightarrow>
     (case activation_jobs r (d_activations d) of
        Inl e \<Rightarrow> (([], Some e), s)
      | Inr activations \<Rightarrow>
          if dr_dry r
          then ((concat (map (dry_upload quote r) uploads) @ concat (map (dry_activation quote r) activations),
                 None), s)
          else
            (case sched_run zero_result (sch 0) (run_upload ex env r) uploads s of (results, s1) \<Rightarrow>
              (case report_results results of
                 Some e \<Rightarrow> (([], Some (Errorf ''upload phase failed; activation was not started'' [] [e])), s1)
               | None \<Rightarrow>
                   if activations = [] then (([], None), s1)
                   else
                     (case sched_run zero_result (sch 1) (run_activation ex r) activations s1 of (results2, s2) \<Rightarrow>
                        (([], (case report_results results2 of
                           Some e \<Rightarrow> Some (Errorf ''activation phase failed'' [] [e]) | None \<Rightarrow> None)), s2))))))"

end
