(* ===== verification/DeployRunFacts.thy ===== *)
theory DeployRunFacts
  imports DeployRun
begin

text \<open>
  What the runner guarantees: the paths it lets through, the command sequence of one upload on every
  branch, and the barrier between the two phases of \<open>apply\<close>.
\<close>

section \<open>Remote paths\<close>

abbreviation slash :: char where
  "slash \<equiv> CHR ''/''"

lemma count_slash_join:
  "cs \<noteq> [] \<Longrightarrow> \<forall>c \<in> set cs. slash \<notin> set c \<Longrightarrow> count_list (join_with ''/'' cs) slash = length cs - 1"
proof (induction "''/'' :: string" cs rule: join_with.induct)
  case (2 x)
  then show ?case by (simp add: count_list_0_iff)
next
  case (3 x y ys)
  then have "count_list x slash = 0" by (simp add: count_list_0_iff)
  with 3 show ?case by simp
qed simp

lemma count_slash_clean:
  assumes "is_abs p"
  shows "count_list (clean p) slash = max 1 (length (clean_comps True p))"
proof (cases "clean_comps True p = []")
  case False
  have "\<forall>c \<in> set (clean_comps True p). slash \<notin> set c"
    using clean_comps_normal by (auto simp: normal_comp_def)
  then have "count_list (join_with ''/'' (clean_comps True p)) slash = length (clean_comps True p) - 1"
    by (rule count_slash_join [OF False])
  with False assms show ?thesis by (cases "clean_comps True p") (auto simp: clean_def)
qed (use assms in \<open>simp add: clean_def\<close>)

lemma count_list_prefix: "prefix p s \<Longrightarrow> count_list p c \<le> count_list s c"
  by (auto simp: prefix_def)

lemma length_split_char: "length (split_char c s) = Suc (count_list s c)"
  by (induction s) (auto split: list.splits)

definition path_normal :: "string \<Rightarrow> bool" where
  "path_normal remote \<longleftrightarrow> (if last_slash remote then clean remote @ ''/'' = remote else clean remote = remote)"

lemma path_normal_count:
  assumes "is_abs remote" and "path_normal remote"
  shows "count_list remote slash = max 1 (length (clean_comps True remote)) + (if last_slash remote then 1 else 0)"
proof (cases "last_slash remote")
  case True
  then have "remote = clean remote @ ''/''" using assms(2) by (simp add: path_normal_def)
  then have "count_list remote slash = count_list (clean remote) slash + 1"
    by (metis count_list.simps count_list_append One_nat_def add.commute plus_1_eq_Suc add_0)
  with True count_slash_clean [OF assms(1)] show ?thesis by simp
next
  case False
  with assms count_slash_clean [OF assms(1)] show ?thesis by (simp add: path_normal_def)
qed

lemma remote_path_ok_abs: "remote_path_ok p \<Longrightarrow> is_abs p"
  by (auto simp: remote_path_ok_def is_abs_def split: list.splits)

lemma validate_remote_pathD:
  assumes "validate_remote_path remote delete extras = None"
  shows "remote_path_ok remote" "path_normal remote" "delete \<longrightarrow> last_slash remote"
    "base_allowed remote \<or> (\<exists>e \<in> set extras. extra_ok e \<and> extra_allows remote e)"
  using assms
  by (auto simp: validate_remote_path_def path_normal_def Let_def find_None_iff split: if_splits option.splits)

lemma path_normal_split:
  assumes "is_abs remote" and "path_normal remote"
  shows "set (split_char slash remote) \<subseteq> insert [] (set (clean_comps True remote))"
proof -
  have s: "set (split_char slash (clean remote)) \<subseteq> insert [] (set (clean_comps True remote))"
    using split_clean_abs [OF assms(1)] by auto
  show ?thesis
  proof (cases "last_slash remote")
    case True
    then have r: "remote = clean remote @ slash # []" using assms(2) by (simp add: path_normal_def)
    have "split_char c (a @ c # b) = split_char c a @ split_char c b" for c :: char and a b
    proof (induction a)
      case (Cons z zs)
      then show ?case by (cases "split_char c zs") (auto split: list.splits)
    qed simp
    then have "split_char slash remote = split_char slash (clean remote) @ [[]]"
      by (metis r split_by.simps(1))
    with s show ?thesis by auto
  next
    case False
    with s assms(2) show ?thesis by (simp add: path_normal_def)
  qed
qed

lemma path_normal_no_dots:
  assumes "is_abs remote" and "path_normal remote" and "c \<in> set (split_char slash remote)"
  shows "c \<noteq> ''.'' \<and> c \<noteq> ''..''"
proof -
  from path_normal_split [OF assms(1,2)] assms(3) have "c = [] \<or> c \<in> set (clean_comps True remote)" by blast
  then show ?thesis using clean_comps_normal [of c True remote] clean_comps_rooted [of remote]
    by (auto simp: normal_comp_def)
qed

lemma trim_clean:
  assumes "is_abs p" and "clean_comps True p \<noteq> []"
  shows "trim_right (\<lambda>c. c = slash) (trim_left (\<lambda>c. c = slash) (clean p)) = join_with ''/'' (clean_comps True p)"
proof -
  let ?cs = "clean_comps True p" and ?j = "join_with ''/'' (clean_comps True p)"
  have n: "c \<noteq> [] \<and> slash \<notin> set c" if "c \<in> set ?cs" for c
    using clean_comps_normal [OF that] by (simp add: normal_comp_def)
  obtain c cs where "?cs = c # cs" using assms(2) by (cases ?cs) auto
  moreover from this n have "c \<noteq> []" "slash \<notin> set c" by auto
  ultimately have hd: "?j \<noteq> [] \<and> hd ?j \<noteq> slash" by (cases cs; cases c) auto
  obtain d ds where "?cs = ds @ [d]" using assms(2) by (cases ?cs rule: rev_cases) auto
  moreover from this n have "d \<noteq> []" "slash \<notin> set d" by auto
  moreover from this have "last d \<noteq> slash" using last_in_set by metis
  ultimately have "last ?j \<noteq> slash" by (cases "ds = []") (auto simp: join_with_append)
  with hd assms(1) show ?thesis
    by (simp add: clean_def trim_left_def dropWhile_eq_self_iff [THEN iffD2] trim_right_id)
qed

lemma extra_ok_comps:
  assumes "extra_ok e"
  shows "is_abs e" "path_normal e" "2 \<le> length (clean_comps True e)"
proof -
  let ?n = "clean e"
  have ok: "remote_path_ok e" and ne: "?n \<noteq> ''/''" and ts: "trim_suffix e ''/'' = ?n"
    and l: "2 \<le> length (split_char slash (trim_right (\<lambda>c. c = slash) (trim_left (\<lambda>c. c = slash) ?n)))"
    using assms by (auto simp: extra_ok_def Let_def)
  show a: "is_abs e" using ok by (rule remote_path_ok_abs)
  show "path_normal e"
  proof (cases "last_slash e")
    case True
    then obtain t where "e = t @ ''/''" by (auto simp: last_slash_def suffix_def)
    with ts True show ?thesis by (simp add: path_normal_def)
  next
    case False
    with ts show ?thesis by (simp add: path_normal_def last_slash_def trim_suffix_id)
  qed
  have c: "clean_comps True e \<noteq> []" using ne a by (auto simp: clean_def)
  have "\<forall>c \<in> set (clean_comps True e). slash \<notin> set c"
    using clean_comps_normal by (auto simp: normal_comp_def)
  with l show "2 \<le> length (clean_comps True e)"
    by (simp add: trim_clean [OF a c] split_by_join_comps c)
qed

lemma base_allowed_count: "base_allowed remote \<Longrightarrow> remote = ''/etc/sysctl.conf'' \<or> 3 \<le> count_list remote slash"
  by (auto simp: base_allowed_def dest!: count_list_prefix [where c = slash])

lemma remote_depth:
  assumes "validate_remote_path remote delete extras = None"
  shows "2 \<le> length (clean_comps True remote)"
proof -
  note v = validate_remote_pathD [OF assms]
  have a: "is_abs remote" using v(1) by (rule remote_path_ok_abs)
  have deep: "2 \<le> length (clean_comps True remote)" if "3 \<le> count_list remote slash"
    using path_normal_count [OF a v(2)] that by (auto split: if_splits)
  consider "base_allowed remote" | e where "extra_ok e" "extra_allows remote e" using v(4) by blast
  then show ?thesis
  proof cases
    case 1
    have "2 \<le> length (clean_comps True ''/etc/sysctl.conf'')"
      by (simp add: clean_comps_def clean_step_def)
    then show ?thesis using deep base_allowed_count [OF 1] by blast
  next
    case 2
    note e = extra_ok_comps [OF 2(1)]
    show ?thesis
    proof (cases "remote = e")
      case False
      with 2(2) have p: "last_slash e" "prefix e remote" by (auto simp: extra_allows_def)
      have "3 \<le> count_list e slash" using path_normal_count [OF e(1,2)] e(3) p(1) by simp
      then show ?thesis using count_list_prefix [OF p(2), of slash] deep by simp
    qed (use e in simp)
  qed
qed

section \<open>The jobs of a deployment\<close>

lemma expand_no_matches: "expand e s = Inr t \<Longrightarrow> find_matches deploy_ph t = []"
  using expand_result [of e s t] no_placeholder [of t "[''{host}'']"] by simp

definition job_safe :: "deploy_runner \<Rightarrow> (string \<Rightarrow> bool) \<Rightarrow> upload_job \<Rightarrow> bool" where
  "job_safe r stat j \<longleftrightarrow>
     validate_remote_path (uj_remote j) (u_delete (uj_u j))
       (split_char (CHR '','') (lookup_or [] (dr_vars r) ''allowed_remote_paths'')) = None \<and>
     validate_local_path (uj_local j) = None \<and> stat (trim_suffix (uj_local j) ''/'') \<and>
     (\<forall>s \<in> {uj_local j, uj_remote j, u_validate (uj_u j)}. \<not> sublist ''{var:'' s \<and> \<not> sublist ''{host}'' s)"

lemma upload_job_for_safe:
  assumes "upload_job_for r stat u host = Inr j"
  shows "job_safe r stat j \<and> uj_host j = host \<and> u_label (uj_u j) = u_label u \<and> u_role (uj_u j) = u_role u"
  using assms
  by (auto simp: upload_job_for_def job_safe_def Let_def expand_result split: sum.splits option.splits if_splits)

lemma upload_jobs_safe:
  assumes "upload_jobs r stat us = Inr js" and "j \<in> set js"
  shows "job_safe r stat j \<and> (\<exists>hosts. map_of (dr_roles r) (u_role (uj_u j)) = Some hosts \<and> uj_host j \<in> set hosts)"
proof -
  let ?f = "\<lambda>u. case map_of (dr_roles r) (u_role u) of
      None \<Rightarrow> Inl (UploadRole (u_label u) (u_role u))
    | Some hosts \<Rightarrow> map_res (upload_job_for r stat u) hosts"
  from assms(1) obtain jss where m: "map_res ?f us = Inr jss" and js: "js = concat jss"
    by (auto simp: upload_jobs_def split: sum.splits)
  from assms(2) js obtain js' where "js' \<in> set jss" and j: "j \<in> set js'" by auto
  from map_res_InrD [OF m this(1)] obtain u hosts where h: "map_of (dr_roles r) (u_role u) = Some hosts"
    and mj: "map_res (upload_job_for r stat u) hosts = Inr js'"
    by (auto split: option.splits)
  from map_res_InrD [OF mj j] obtain host where "host \<in> set hosts" "upload_job_for r stat u host = Inr j" by blast
  with upload_job_for_safe [OF this(2)] h show ?thesis by auto
qed

lemma upload_jobs_count:
  assumes "upload_jobs r stat us = Inr js"
  shows "map (\<lambda>j. (u_label (uj_u j), uj_host j)) js =
    concat (map (\<lambda>u. map (Pair (u_label u)) (lookup_or [] (dr_roles r) (u_role u))) us)"
proof -
  let ?f = "\<lambda>u. case map_of (dr_roles r) (u_role u) of
      None \<Rightarrow> Inl (UploadRole (u_label u) (u_role u))
    | Some hosts \<Rightarrow> map_res (upload_job_for r stat u) hosts"
  let ?k = "\<lambda>j. (u_label (uj_u j), uj_host j)"
  from assms obtain jss where m: "map_res ?f us = Inr jss" and js: "js = concat jss"
    by (auto simp: upload_jobs_def split: sum.splits)
  have one: "map_res (upload_job_for r stat u) hosts = Inr js' \<Longrightarrow> map ?k js' = map (Pair (u_label u)) hosts"
    for u hosts js'
    by (induction hosts arbitrary: js') (auto split: sum.splits dest!: upload_job_for_safe)
  have row: "?f u = Inr js' \<Longrightarrow> map ?k js' = map (Pair (u_label u)) (lookup_or [] (dr_roles r) (u_role u))" for u js'
    by (auto simp: lookup_or_def split: option.splits dest: one)
  from m have "concat (map (map ?k) jss) =
      concat (map (\<lambda>u. map (Pair (u_label u)) (lookup_or [] (dr_roles r) (u_role u))) us)"
  proof (induction us arbitrary: jss)
    case (Cons u us)
    then obtain y ys where y: "?f u = Inr y" "map_res ?f us = Inr ys" "jss = y # ys"
      by (auto split: sum.splits)
    with row [OF y(1)] Cons.IH [OF y(2)] show ?case by simp
  qed simp
  then show ?thesis by (simp add: js map_concat)
qed

section \<open>The commands of one upload\<close>

definition backup_of :: "string \<Rightarrow> string" where
  "backup_of nonce = ''/tmp/isucon-deployctl-'' @ nonce"

definition backup_cmd :: "deploy_runner \<Rightarrow> upload_job \<Rightarrow> string \<Rightarrow> cmd" where
  "backup_cmd r j b = remote_cmd r (uj_host j) (config_backup_script (uj_remote j) b)"

definition restore_cmd :: "deploy_runner \<Rightarrow> upload_job \<Rightarrow> string \<Rightarrow> cmd" where
  "restore_cmd r j b = remote_cmd r (uj_host j) (config_restore_script (uj_remote j) b)"

definition cleanup_cmd :: "deploy_runner \<Rightarrow> upload_job \<Rightarrow> string \<Rightarrow> cmd" where
  "cleanup_cmd r j b = remote_cmd r (uj_host j) (cleanup_script b)"

text \<open>The commands after the transfer when nothing fails: the validation and the stamp.\<close>

definition confirm_cmds :: "deploy_env \<Rightarrow> deploy_runner \<Rightarrow> upload_job \<Rightarrow> string \<Rightarrow> cmd list" where
  "confirm_cmds env r j fp =
     (if u_validate (uj_u j) \<noteq> [] then [remote_cmd r (uj_host j) (validation_script j)] else []) @
     (case de_stamp env j fp of Inl _ \<Rightarrow> [] | Inr script \<Rightarrow> [remote_cmd r (uj_host j) script])"

lemma run_remote_trace: "run_remote ex r j script s = (x, t) \<Longrightarrow>
    sys_trace t = sys_trace s @ [remote_cmd r (uj_host j) script]"
  by (auto simp: run_remote_def exec_run_def split: prod.splits)

lemma exec_run_traceD: "exec_run ex c s = (x, t) \<Longrightarrow> sys_trace t = sys_trace s @ [c]"
  by (auto simp: exec_run_def split: prod.splits)

lemma transfer_trace:
  assumes "transfer ex env r j fp s = ((out, err), t)"
  shows "\<exists>mid. sys_trace t = sys_trace s @ rsync_cmd r j # mid \<and> prefix mid (confirm_cmds env r j fp) \<and>
    (err = None \<longrightarrow> mid = confirm_cmds env r j fp \<and> (\<exists>sc. de_stamp env j fp = Inr sc))"
  using assms
  by (auto simp: transfer_def confirm_cmds_def Let_def dest!: run_remote_trace exec_run_traceD
      split: prod.splits option.splits sum.splits if_splits)

lemma settle_trace:
  assumes "settle ex r j b out err s = (res, t)"
  shows "(err = None \<and> sys_trace t = sys_trace s @ [cleanup_cmd r j b]) \<or>
    (err \<noteq> None \<and> jr_err res \<noteq> None \<and>
      (sys_trace t = sys_trace s @ [restore_cmd r j b] \<or>
       sys_trace t = sys_trace s @ [restore_cmd r j b, cleanup_cmd r j b]))"
  using assms
  by (auto simp: settle_def Let_def cleanup_cmd_def restore_cmd_def job_result_of_def errors_join_def
      dest!: run_remote_trace split: prod.splits option.splits)

text \<open>The branches of \<open>runUpload\<close>, as the rule the facts below are proved with.\<close>

lemma run_upload_cases:
  assumes "run_upload ex env r j s = (res, t)"
  obtains
    (no_nonce) "u_validate (uj_u j) \<noteq> []" "de_nonce env j = None" "jr_err res \<noteq> None" "t = s"
  | (no_backup) n o1 e where "u_validate (uj_u j) \<noteq> []" "de_nonce env j = Some n"
      "run_remote ex r j (config_backup_script (uj_remote j) (backup_of n)) s = ((o1, Some e), t)"
      "jr_err res \<noteq> None"
  | (no_print) n o1 where "u_validate (uj_u j) \<noteq> []" "de_nonce env j = Some n"
      "run_remote ex r j (config_backup_script (uj_remote j) (backup_of n)) s = ((o1, None), t)"
      "jr_err res \<noteq> None"
  | (guarded) n o1 s1 fp o2 err s2 out where "u_validate (uj_u j) \<noteq> []" "de_nonce env j = Some n"
      "run_remote ex r j (config_backup_script (uj_remote j) (backup_of n)) s = ((o1, None), s1)"
      "de_fingerprint env (uj_local j) (u_excludes (uj_u j)) = Inr fp"
      "transfer ex env r j fp s1 = ((o2, err), s2)"
      "settle ex r j (backup_of n) out err s2 = (res, t)"
  | (plain_no_print) "u_validate (uj_u j) = []" "jr_err res \<noteq> None" "t = s"
  | (plain) fp o2 where "u_validate (uj_u j) = []"
      "de_fingerprint env (uj_local j) (u_excludes (uj_u j)) = Inr fp"
      "transfer ex env r j fp s = ((o2, jr_err res), t)"
proof (cases "u_validate (uj_u j) = []")
  case True
  with assms that(5,6) show ?thesis
    by (auto simp: run_upload_def job_result_of_def split: sum.splits prod.splits)
next
  case False
  show ?thesis
  proof (cases "de_nonce env j")
    case None
    with assms False that(1) show ?thesis by (auto simp: run_upload_def job_result_of_def)
  next
    case (Some n)
    obtain o1 e1 s1 where b: "run_remote ex r j (config_backup_script (uj_remote j) (backup_of n)) s = ((o1, e1), s1)"
      by (metis prod.collapse)
    have run: "run_upload ex env r j s =
        (let out = [''configuration backup: '' @ backup_of n, o1] in
         case e1 of
           Some x \<Rightarrow> (job_result_of j out
             (Some (Errorf ''backup failed; upload was not started'' [backup_of n] [x])), s1)
         | None \<Rightarrow>
             (case de_fingerprint env (uj_local j) (u_excludes (uj_u j)) of
                Inl x \<Rightarrow> (job_result_of j out (Some (Errorf ''fingerprint local source'' [] [x])), s1)
              | Inr fp \<Rightarrow>
                  (case transfer ex env r j fp s1 of ((o2, err), s2) \<Rightarrow>
                     settle ex r j (backup_of n) (out @ o2) err s2)))"
      by (simp only: run_upload_def Let_def False not_False_eq_True if_True Some option.case backup_of_def [symmetric] b prod.case simp_thms)
    show ?thesis
    proof (cases e1)
      case (Some x)
      with run assms that(2) [OF False \<open>de_nonce env j = Some n\<close>] b show ?thesis
        by (auto simp: job_result_of_def)
    next
      case None
      note b' = b [unfolded None]
      show ?thesis
      proof (cases "de_fingerprint env (uj_local j) (u_excludes (uj_u j))")
        case (Inl x)
        have "res = job_result_of j [''configuration backup: '' @ backup_of n, o1]
            (Some (Errorf ''fingerprint local source'' [] [x]))" and t: "s1 = t"
          using run assms by (simp_all add: None Inl Let_def)
        then have "jr_err res \<noteq> None" by (simp add: job_result_of_def)
        with that(3) [OF False Some b' [unfolded t]] show ?thesis .
      next
        case (Inr fp)
        obtain o2 err s2 where tr: "transfer ex env r j fp s1 = ((o2, err), s2)" by (metis prod.collapse)
        have "settle ex r j (backup_of n) ([''configuration backup: '' @ backup_of n, o1] @ o2) err s2 = (res, t)"
          using run assms by (simp add: None Inr Let_def tr)
        with that(4) [OF False Some b' Inr tr] show ?thesis .
      qed
    qed
  qed
qed

lemma upload_success_cmds:
  assumes "run_upload ex env r j s = (res, t)" and "jr_err res = None"
  shows "\<exists>fp. de_fingerprint env (uj_local j) (u_excludes (uj_u j)) = Inr fp \<and> (\<exists>sc. de_stamp env j fp = Inr sc) \<and>
    (if u_validate (uj_u j) \<noteq> []
     then \<exists>n. de_nonce env j = Some n \<and>
       sys_trace t = sys_trace s @ [backup_cmd r j (backup_of n), rsync_cmd r j] @ confirm_cmds env r j fp @
         [cleanup_cmd r j (backup_of n)]
     else sys_trace t = sys_trace s @ rsync_cmd r j # confirm_cmds env r j fp)"
  using assms(1)
proof (cases rule: run_upload_cases)
  case (guarded n o1 s1 fp o2 err s2 out)
  have "err = None" and t: "sys_trace t = sys_trace s2 @ [cleanup_cmd r j (backup_of n)]"
    using settle_trace [OF guarded(6)] assms(2) by auto
  with transfer_trace [OF guarded(5)] run_remote_trace [OF guarded(3)] guarded show ?thesis
    by (auto simp: backup_cmd_def)
next
  case (plain fp o2)
  with transfer_trace [OF plain(3)] assms(2) show ?thesis by auto
qed (use assms(2) in auto)

lemma upload_failure_cmds:
  assumes "run_upload ex env r j s = (res, t)" and "jr_err res \<noteq> None" and "u_validate (uj_u j) \<noteq> []"
  shows "\<exists>cmds. sys_trace t = sys_trace s @ cmds \<and>
    (cmds = [] \<or>
     (\<exists>n. de_nonce env j = Some n \<and>
       (cmds = [backup_cmd r j (backup_of n)] \<or>
        (\<exists>fp mid fin. de_fingerprint env (uj_local j) (u_excludes (uj_u j)) = Inr fp \<and>
           cmds = [backup_cmd r j (backup_of n), rsync_cmd r j] @ mid @ fin \<and>
           prefix mid (confirm_cmds env r j fp) \<and>
           (fin = [restore_cmd r j (backup_of n)] \<or>
            fin = [restore_cmd r j (backup_of n), cleanup_cmd r j (backup_of n)] \<or>
            (fin = [cleanup_cmd r j (backup_of n)] \<and> mid = confirm_cmds env r j fp))))))"
  using assms(1)
proof (cases rule: run_upload_cases)
  case (guarded n o1 s1 fp o2 err s2 out)
  obtain mid where mid: "sys_trace s2 = sys_trace s1 @ rsync_cmd r j # mid" "prefix mid (confirm_cmds env r j fp)"
      "err = None \<longrightarrow> mid = confirm_cmds env r j fp"
    using transfer_trace [OF guarded(5)] by blast
  obtain fin where fin: "sys_trace t = sys_trace s2 @ fin" and f: "fin = [restore_cmd r j (backup_of n)] \<or>
            fin = [restore_cmd r j (backup_of n), cleanup_cmd r j (backup_of n)] \<or>
            (fin = [cleanup_cmd r j (backup_of n)] \<and> mid = confirm_cmds env r j fp)"
    using settle_trace [OF guarded(6)] mid(3) by auto
  have "sys_trace t = sys_trace s @ ([backup_cmd r j (backup_of n), rsync_cmd r j] @ mid @ fin)"
    using fin mid(1) run_remote_trace [OF guarded(3)] by (simp add: backup_cmd_def)
  with guarded(2,4) mid(2) f show ?thesis by blast
next
  case (no_backup n o1 e)
  with run_remote_trace [OF no_backup(3)] show ?thesis by (auto simp: backup_cmd_def)
next
  case (no_print n o1)
  with run_remote_trace [OF no_print(3)] show ?thesis by (auto simp: backup_cmd_def)
qed (use assms in auto)

definition upload_cmd_set :: "deploy_env \<Rightarrow> deploy_runner \<Rightarrow> upload_job \<Rightarrow> cmd set" where
  "upload_cmd_set env r j =
     insert (rsync_cmd r j)
       (\<Union>n. {backup_cmd r j (backup_of n), restore_cmd r j (backup_of n), cleanup_cmd r j (backup_of n)}) \<union>
     (\<Union>fp. set (confirm_cmds env r j fp))"

lemma upload_cmd_setI [simp, intro]:
  "rsync_cmd r j \<in> upload_cmd_set env r j"
  "backup_cmd r j (backup_of n) \<in> upload_cmd_set env r j"
  "restore_cmd r j (backup_of n) \<in> upload_cmd_set env r j"
  "cleanup_cmd r j (backup_of n) \<in> upload_cmd_set env r j"
  by (auto simp: upload_cmd_set_def)

lemma transfer_cmd_set:
  assumes "transfer ex env r j fp s = ((out, err), t)"
  shows "\<exists>cmds. sys_trace t = sys_trace s @ cmds \<and> set cmds \<subseteq> upload_cmd_set env r j"
proof -
  obtain mid where "sys_trace t = sys_trace s @ rsync_cmd r j # mid" "prefix mid (confirm_cmds env r j fp)"
    using transfer_trace [OF assms] by blast
  moreover from this(2) have "set mid \<subseteq> set (confirm_cmds env r j fp)" by (rule set_mono_prefix)
  ultimately show ?thesis unfolding upload_cmd_set_def
    by (intro exI [of _ "rsync_cmd r j # mid"]) auto
qed

lemma run_upload_cmd_set:
  assumes "run_upload ex env r j s = (res, t)"
  shows "\<exists>cmds. sys_trace t = sys_trace s @ cmds \<and> set cmds \<subseteq> upload_cmd_set env r j"
  using assms
proof (cases rule: run_upload_cases)
  case (guarded n o1 s1 fp o2 err s2 out)
  obtain mid where mid: "sys_trace s2 = sys_trace s1 @ mid" "set mid \<subseteq> upload_cmd_set env r j"
    using transfer_cmd_set [OF guarded(5)] by blast
  obtain fin where "sys_trace t = sys_trace s2 @ fin" "set fin \<subseteq> upload_cmd_set env r j"
    using settle_trace [OF guarded(6)] by auto
  with mid run_remote_trace [OF guarded(3)] show ?thesis
    by (intro exI [of _ "backup_cmd r j (backup_of n) # mid @ fin"])
      (auto simp: backup_cmd_def [symmetric])
next
  case (plain fp o2)
  then show ?thesis by (intro transfer_cmd_set)
next
  case (no_backup n o1 e)
  with run_remote_trace [OF no_backup(3)] show ?thesis by (auto simp: backup_cmd_def [symmetric])
next
  case (no_print n o1)
  with run_remote_trace [OF no_print(3)] show ?thesis by (auto simp: backup_cmd_def [symmetric])
qed auto

lemma upload_phase_cmds:
  "\<exists>cmds. sys_trace (snd (sched_run zero_result sch (run_upload ex env r) uploads s)) = sys_trace s @ cmds \<and>
    set cmds \<subseteq> (\<Union>j \<in> set uploads. upload_cmd_set env r j)"
  for s :: "'w sys"
proof (rule sp.run_invariant [where Inv = "\<lambda>t. \<exists>cmds. sys_trace t = sys_trace s @ cmds \<and>
    set cmds \<subseteq> (\<Union>j \<in> set uploads. upload_cmd_set env r j)"])
  fix j and t :: "'w sys" assume j: "j \<in> set uploads"
    and "\<exists>cmds. sys_trace t = sys_trace s @ cmds \<and> set cmds \<subseteq> (\<Union>j \<in> set uploads. upload_cmd_set env r j)"
  then obtain cs where cs: "sys_trace t = sys_trace s @ cs"
      "set cs \<subseteq> (\<Union>j \<in> set uploads. upload_cmd_set env r j)" by blast
  obtain ds where "sys_trace (snd (run_upload ex env r j t)) = sys_trace t @ ds" "set ds \<subseteq> upload_cmd_set env r j"
    using run_upload_cmd_set [of ex env r j t] by (metis prod.collapse)
  with cs j show "\<exists>cmds. sys_trace (snd (run_upload ex env r j t)) = sys_trace s @ cmds \<and>
      set cmds \<subseteq> (\<Union>j \<in> set uploads. upload_cmd_set env r j)"
    by (intro exI [of _ "cs @ ds"]) auto
qed simp

lemma report_results_None [res_iff]: "report_results rs = None \<longleftrightarrow> (\<forall>x \<in> set rs. jr_err x = None)"
  by (auto simp: report_results_def split: option.splits)

section \<open>The previous configuration survives\<close>

text \<open>
  What the remote shell is relied on for, with \<open>dest\<close> the destination of an upload and \<open>saved\<close> the
  copy in the backup directory: the backup script copies the destination and leaves it alone, the
  restore script brings the copy back, a command of the transfer does not touch the backup
  directory, and the clean-up does not touch the destination.
\<close>

definition host_laws :: "'w executor \<Rightarrow> deploy_env \<Rightarrow> deploy_runner \<Rightarrow> upload_job \<Rightarrow> string \<Rightarrow>
    ('w \<Rightarrow> 'c) \<Rightarrow> ('w \<Rightarrow> 'c option) \<Rightarrow> bool" where
  "host_laws ex env r j b dest saved \<longleftrightarrow>
     (\<forall>w. dest (snd (ex (backup_cmd r j b) w)) = dest w) \<and>
     (\<forall>w. snd (fst (ex (backup_cmd r j b) w)) = None \<longrightarrow> saved (snd (ex (backup_cmd r j b) w)) = Some (dest w)) \<and>
     (\<forall>w fp c. c \<in> set (rsync_cmd r j # restore_cmd r j b # confirm_cmds env r j fp) \<longrightarrow>
        saved (snd (ex c w)) = saved w) \<and>
     (\<forall>w x. snd (fst (ex (restore_cmd r j b) w)) = None \<longrightarrow> saved w = Some x \<longrightarrow>
        dest (snd (ex (restore_cmd r j b) w)) = x) \<and>
     (\<forall>w. dest (snd (ex (cleanup_cmd r j b) w)) = dest w)"

lemma run_remote_world:
  "run_remote ex r j sc s = ((ot, err), t) \<Longrightarrow>
   snd (fst (ex (remote_cmd r (uj_host j) sc) (sys_world s))) = err \<and>
   sys_world t = snd (ex (remote_cmd r (uj_host j) sc) (sys_world s))"
  by (auto simp: run_remote_def exec_run_def split: prod.splits)

lemma exec_run_world: "sys_world (snd (exec_run ex c s)) = snd (ex c (sys_world s))"
  by (simp add: exec_run_def split: prod.splits)

text \<open>What every command of the transfer keeps, the transfer keeps.\<close>

lemma transfer_keeps:
  assumes "transfer ex env r j fp s = ((out, err), t)"
    and keeps: "\<And>c w. c \<in> set (rsync_cmd r j # confirm_cmds env r j fp) \<Longrightarrow> f (snd (ex c w)) = f w"
  shows "f (sys_world t) = f (sys_world s)"
proof -
  obtain o1 e1 s1 where 1: "exec_run ex (rsync_cmd r j) s = ((o1, e1), s1)" by (metis prod.collapse)
  have s1: "f (sys_world s1) = f (sys_world s)"
    using exec_run_world [of ex "rsync_cmd r j" s] keeps [of "rsync_cmd r j"] 1 by simp
  obtain o2 e2 s2 where 2: "(if u_validate (uj_u j) \<noteq> [] then run_remote ex r j (validation_script j) s1
      else (([], None), s1)) = ((o2, e2), s2)" by (metis prod.collapse)
  have s2: "f (sys_world s2) = f (sys_world s1)"
  proof (cases "u_validate (uj_u j) = []")
    case False
    with 2 have "run_remote ex r j (validation_script j) s1 = ((o2, e2), s2)" by simp
    from run_remote_world [OF this] keeps [of "remote_cmd r (uj_host j) (validation_script j)"] False
    show ?thesis by (simp add: confirm_cmds_def)
  qed (use 2 in auto)
  note run = assms(1) [unfolded transfer_def 1 2 prod.case]
  show ?thesis
  proof (cases "e1 = None \<and> e2 = None \<and> (\<exists>sc. de_stamp env j fp = Inr sc)")
    case True
    then obtain sc where sc: "de_stamp env j fp = Inr sc" and e: "e1 = None" "e2 = None" by blast
    obtain o3 e3 s3 where 3: "run_remote ex r j sc s2 = ((o3, e3), s3)" by (metis prod.collapse)
    have "f (sys_world s3) = f (sys_world s2)"
      using run_remote_world [OF 3] keeps [of "remote_cmd r (uj_host j) sc"] sc
      by (simp add: confirm_cmds_def)
    moreover have "t = s3" using run by (simp add: e sc 3)
    ultimately show ?thesis using s1 s2 by simp
  next
    case False
    then have "t = s1 \<or> t = s2"
      using run by (auto simp: Let_def split: option.splits sum.splits)
    with s1 s2 show ?thesis by auto
  qed
qed

lemma upload_keeps_configuration:
  assumes laws: "host_laws ex env r j (backup_of n) dest saved" and n: "de_nonce env j = Some n"
    and v: "u_validate (uj_u j) \<noteq> []" and run: "run_upload ex env r j s = (res, t)" and err: "jr_err res \<noteq> None"
  shows "dest (sys_world t) = dest (sys_world s) \<or> saved (sys_world t) = Some (dest (sys_world s)) \<or>
    (\<exists>fp. sys_trace t = sys_trace s @ [backup_cmd r j (backup_of n), rsync_cmd r j] @ confirm_cmds env r j fp @
       [cleanup_cmd r j (backup_of n)])"
  using run
proof (cases rule: run_upload_cases)
  case (guarded n' o1 s1 fp o2 e2 s2 out)
  have n': "n' = n" using guarded(2) n by simp
  let ?b = "backup_of n"
  have b: "saved (sys_world s1) = Some (dest (sys_world s))"
    using run_remote_world [OF guarded(3)] laws by (simp add: host_laws_def n' backup_cmd_def [symmetric])
  have saved2: "saved (sys_world s2) = Some (dest (sys_world s))"
  proof -
    have "saved (snd (ex c w)) = saved w" if "c \<in> set (rsync_cmd r j # confirm_cmds env r j fp)" for c w
      using laws that by (auto simp: host_laws_def)
    from transfer_keeps [OF guarded(5), of saved, OF this] b show ?thesis by simp
  qed
  show ?thesis
  proof (cases e2)
    case None
    with settle_trace [OF guarded(6)] transfer_trace [OF guarded(5)] run_remote_trace [OF guarded(3)]
    show ?thesis by (auto simp: n' backup_cmd_def)
  next
    case (Some x)
    obtain o3 e3 s3 where r3: "run_remote ex r j (config_restore_script (uj_remote j) ?b) s2 = ((o3, e3), s3)"
      by (metis prod.collapse)
    note w3 = run_remote_world [OF r3, folded restore_cmd_def]
    show ?thesis
    proof (cases e3)
      case None
      have d3: "dest (sys_world s3) = dest (sys_world s)"
        using w3 laws saved2 by (simp add: host_laws_def None)
      obtain o4 e4 s4 where r4: "run_remote ex r j (cleanup_script ?b) s3 = ((o4, e4), s4)"
        by (metis prod.collapse)
      have "t = s4" using guarded(6) by (auto simp: settle_def Some n' r3 None r4 Let_def)
      moreover have "dest (sys_world s4) = dest (sys_world s3)"
        using run_remote_world [OF r4, folded cleanup_cmd_def] laws by (simp add: host_laws_def)
      ultimately show ?thesis using d3 by simp
    next
      case (Some f)
      have "t = s3" using guarded(6) \<open>e2 = Some x\<close> by (auto simp: settle_def n' r3 Some Let_def)
      moreover have "saved (sys_world s3) = saved (sys_world s2)"
        using w3 laws by (simp add: host_laws_def)
      ultimately show ?thesis using saved2 by simp
    qed
  qed
next
  case (no_backup n' o1 e)
  with run_remote_world [OF no_backup(3)] laws n show ?thesis
    by (simp add: host_laws_def backup_cmd_def [symmetric])
next
  case (no_print n' o1)
  with run_remote_world [OF no_print(3)] laws n show ?thesis
    by (simp add: host_laws_def backup_cmd_def [symmetric])
qed (use n v in auto)

end
