(* ===== verification/DeployPlan.thy ===== *)
theory DeployPlan
  imports DeployRun
begin

text \<open>
  Applying a plan (tools/deployctl/plan.go): the jobs of all its deployments are resolved first, all
  uploads run in one phase, and then the activations run in rounds along the dependency graph. A
  round first skips every pending deployment that depends on a failed one, in the order of the
  sorted names, and then runs the activations of all deployments whose dependencies have
  succeeded. The Go maps \<open>pending\<close>, \<open>succeeded\<close> and \<open>failed\<close> are lists of names.
\<close>

section \<open>The jobs of a plan\<close>

definition plan_names :: "plan \<Rightarrow> string list" where
  "plan_names p = sort (keys (p_deployments p))"

definition zero_deployment :: deployment where
  "zero_deployment = \<lparr>d_uploads = [], d_activations = []\<rparr>"

definition label_upload :: "string \<Rightarrow> upload_job \<Rightarrow> upload_job" where
  "label_upload name j = j\<lparr>uj_u := (uj_u j)\<lparr>u_label := name @ ''/'' @ u_label (uj_u j)\<rparr>\<rparr>"

definition label_activation :: "string \<Rightarrow> activation_job \<Rightarrow> activation_job" where
  "label_activation name j = j\<lparr>aj_a := (aj_a j)\<lparr>a_label := name @ ''/'' @ a_label (aj_a j)\<rparr>\<rparr>"

definition deployment_jobs :: "deploy_runner \<Rightarrow> deploy_env \<Rightarrow> config \<Rightarrow> string \<Rightarrow>
    go_error + (upload_job list \<times> string \<times> activation_job list)" where
  "deployment_jobs r env cfg name =
     (let d = lookup_or zero_deployment (c_deployments cfg) name in
      case upload_jobs r (de_stat env) (d_uploads d) of
        Inl e \<Rightarrow> Inl (Errorf ''deployment'' [name] [e])
      | Inr us \<Rightarrow>
          (case activation_jobs r (d_activations d) of
             Inl e \<Rightarrow> Inl (Errorf ''deployment'' [name] [e])
           | Inr as \<Rightarrow> Inr (map (label_upload name) us, name, map (label_activation name) as)))"

section \<open>The rounds\<close>

datatype plan_event =
    UploadPhase nat
  | Skipped string "string list"
  | ActivationPhase "string list" nat

record 'w plan_state =
  ps_pending :: "string list"
  ps_succeeded :: "string list"
  ps_failed :: "string list"
  ps_errors :: "go_error list"
  ps_log :: "plan_event list"
  ps_round :: nat
  ps_sys :: "'w sys"

abbreviation SkippedBecause :: "string \<Rightarrow> string list \<Rightarrow> go_error" where
  "SkippedBecause name by \<equiv> Errorf ''deployment skipped because dependencies failed'' (name # by) []"

abbreviation NoProgress :: go_error where
  "NoProgress \<equiv> Errorf ''plan activation graph made no progress'' [] []"

definition skip_one :: "plan \<Rightarrow> string \<Rightarrow> 'w plan_state \<Rightarrow> 'w plan_state" where
  "skip_one p name st =
     (if name \<notin> set (ps_pending st) then st
      else
        (let blocked = filter (\<lambda>d. d \<in> set (ps_failed st)) (needs_of p name) in
         if blocked = [] then st
         else st\<lparr>ps_pending := removeAll name (ps_pending st),
                 ps_failed := name # ps_failed st,
                 ps_errors := ps_errors st @ [SkippedBecause name blocked],
                 ps_log := ps_log st @ [Skipped name blocked]\<rparr>))"

definition skip_blocked :: "plan \<Rightarrow> 'w plan_state \<Rightarrow> 'w plan_state" where
  "skip_blocked p st = fold (skip_one p) (plan_names p) st"

definition ready_names :: "plan \<Rightarrow> 'w plan_state \<Rightarrow> string list" where
  "ready_names p st =
     filter (\<lambda>n. n \<in> set (ps_pending st) \<and> list_all (\<lambda>d. d \<in> set (ps_succeeded st)) (needs_of p n))
       (plan_names p)"

definition round_jobs :: "(string, activation_job list) gomap \<Rightarrow> string list \<Rightarrow> (string \<times> activation_job) list" where
  "round_jobs acts ready = concat (map (\<lambda>n. map (Pair n) (lookup_or [] acts n)) ready)"

definition round_errors :: "(string \<times> activation_job) list \<Rightarrow> job_result list \<Rightarrow> (string \<times> go_error) list" where
  "round_errors jobs results =
     concat (map (\<lambda>(j, x). case jr_err x of None \<Rightarrow> []
       | Some e \<Rightarrow> [(fst j, Errorf ''deployment'' [fst j, jr_host x, jr_label x] [e])]) (zip jobs results))"

definition run_round :: "'w executor \<Rightarrow> (nat \<Rightarrow> nat \<Rightarrow> nat list) \<Rightarrow> deploy_runner \<Rightarrow>
    (string, activation_job list) gomap \<Rightarrow> string list \<Rightarrow> 'w plan_state \<Rightarrow> 'w plan_state" where
  "run_round ex sch r acts ready st =
     (let jobs = round_jobs acts ready in
      case sched_run zero_result (sch (ps_round st)) (\<lambda>j. run_activation ex r (snd j)) jobs (ps_sys st) of
        (results, s) \<Rightarrow>
          (let errs = round_errors jobs results; bad = map fst errs in
           st\<lparr>ps_pending := filter (\<lambda>n. n \<notin> set ready) (ps_pending st),
              ps_succeeded := filter (\<lambda>n. n \<notin> set bad) ready @ ps_succeeded st,
              ps_failed := filter (\<lambda>n. n \<in> set bad) ready @ ps_failed st,
              ps_errors := ps_errors st @ map snd errs,
              ps_log := ps_log st @ [ActivationPhase ready (length jobs)],
              ps_round := Suc (ps_round st),
              ps_sys := s\<rparr>))"

lemma skip_one_pending: "set (ps_pending (skip_one p n st)) \<subseteq> set (ps_pending st) \<and>
    length (ps_pending (skip_one p n st)) \<le> length (ps_pending st)"
  by (auto simp: skip_one_def Let_def)

lemma fold_skip_pending: "length (ps_pending (fold (skip_one p) ns st)) \<le> length (ps_pending st)"
proof (induction ns arbitrary: st)
  case (Cons n ns)
  show ?case using Cons.IH [of "skip_one p n st"] skip_one_pending [of p n st] by simp
qed simp

lemma skip_blocked_pending: "length (ps_pending (skip_blocked p st)) \<le> length (ps_pending st)"
  by (simp add: skip_blocked_def fold_skip_pending)

lemma run_round_pending: "ps_pending (run_round ex sch r acts ready st) = filter (\<lambda>n. n \<notin> set ready) (ps_pending st)"
  by (simp add: run_round_def Let_def split: prod.splits)

lemma ready_names_pending: "n \<in> set (ready_names p st) \<Longrightarrow> n \<in> set (ps_pending st)"
  by (simp add: ready_names_def)

function plan_loop :: "'w executor \<Rightarrow> (nat \<Rightarrow> nat \<Rightarrow> nat list) \<Rightarrow> deploy_runner \<Rightarrow> plan \<Rightarrow>
    (string, activation_job list) gomap \<Rightarrow> 'w plan_state \<Rightarrow> go_error option \<times> 'w plan_state" where
  "plan_loop ex sch r p acts st =
     (if ps_pending st = [] then (errors_join (ps_errors st), st)
      else
        (let st1 = skip_blocked p st; ready = ready_names p st1 in
         if ready = [] then
           (if length (ps_pending st1) < length (ps_pending st) then plan_loop ex sch r p acts st1
            else (errors_join (ps_errors st1 @ [NoProgress]), st1))
         else plan_loop ex sch r p acts (run_round ex sch r acts ready st1)))"
  by pat_completeness auto
termination
proof (relation "measure (\<lambda>(ex, sch, r, p, acts, st). length (ps_pending st))", goal_cases)
  case (3 ex sch r p acts st st1 ready)
  from 3(4) obtain n where n: "n \<in> set ready" by (cases ready) auto
  then have "n \<in> set (ps_pending st1)" using 3(3) ready_names_pending by simp
  with n have "length (filter (\<lambda>n. n \<notin> set ready) (ps_pending st1)) < length (ps_pending st1)"
    by (intro length_filter_less) auto
  also have "\<dots> \<le> length (ps_pending st)" unfolding 3(2) by (rule skip_blocked_pending)
  finally show ?case by (simp add: run_round_pending)
qed auto

declare plan_loop.simps [simp del]

definition plan_start :: "plan \<Rightarrow> 'w sys \<Rightarrow> plan_event list \<Rightarrow> 'w plan_state" where
  "plan_start p s log =
     \<lparr>ps_pending = plan_names p, ps_succeeded = [], ps_failed = [], ps_errors = [], ps_log = log,
      ps_round = 1, ps_sys = s\<rparr>"

definition dry_plan :: "(string \<Rightarrow> string) \<Rightarrow> deploy_runner \<Rightarrow> plan \<Rightarrow> upload_job list \<Rightarrow>
    (string, activation_job list) gomap \<Rightarrow> string list" where
  "dry_plan quote r p uploads acts =
     [''plan upload phase: '' @ format_nat (length uploads) @ '' jobs''] @
     concat (map (dry_upload quote r) uploads) @ [''plan activation graph:''] @
     concat (map (\<lambda>(name, js).
       (let needs = join_with '','' (needs_of p name) in
        (''[dry-run] deployment='' @ name @ '' needs='' @ (if needs = [] then ''-'' else needs) @
         '' jobs='' @ format_nat (length js)) # concat (map (dry_activation quote r) js))) acts)"

text \<open>The outcome of \<open>applyPlan\<close>: the text of a dry run, the error and the final bookkeeping.\<close>

record 'w plan_outcome =
  po_text :: "string list"
  po_err :: "go_error option"
  po_state :: "'w plan_state"

definition apply_plan :: "(string \<Rightarrow> string) \<Rightarrow> 'w executor \<Rightarrow> deploy_env \<Rightarrow> (nat \<Rightarrow> nat \<Rightarrow> nat list) \<Rightarrow>
    deploy_runner \<Rightarrow> config \<Rightarrow> plan \<Rightarrow> 'w sys \<Rightarrow> 'w plan_outcome" where
  "apply_plan quote ex env sch r cfg p s =
     (case map_res (deployment_jobs r env cfg) (plan_names p) of
        Inl e \<Rightarrow> \<lparr>po_text = [], po_err = Some e, po_state = plan_start p s []\<rparr>
      | Inr djs \<Rightarrow>
          (let uploads = concat (map fst djs); acts = map snd djs in
           if dr_dry r
           then \<lparr>po_text = dry_plan quote r p uploads acts, po_err = None, po_state = plan_start p s []\<rparr>
           else
             (let log = (if uploads = [] then [] else [UploadPhase (length uploads)]) in
              case (if uploads = [] then ([], s)
                    else sched_run zero_result (sch 0) (run_upload ex env r) uploads s) of (results, s1) \<Rightarrow>
                (case report_results results of
                   Some e \<Rightarrow>
                     \<lparr>po_text = [],
                      po_err = Some (Errorf ''plan upload phase failed; no activation was started'' [] [e]),
                      po_state = plan_start p s1 log\<rparr>
                 | None \<Rightarrow>
                     (case plan_loop ex sch r p acts (plan_start p s1 log) of (err, st) \<Rightarrow>
                        \<lparr>po_text = [], po_err = err, po_state = st\<rparr>)))))"

end
