(* ===== verification/DeployPlanFacts.thy ===== *)
theory DeployPlanFacts
  imports DeployPlan
begin

text \<open>
  What the rounds of \<open>applyPlan\<close> establish. \<open>plan_inv\<close> is the bookkeeping invariant of the loop:
  every deployment of the plan is in exactly one of the three sets, a deployment is activated only
  in a phase after the phases of its dependencies, a skipped deployment has a failed dependency
  and a failed one is skipped or has an error of its own. Progress comes from the acyclic graph.
\<close>

section \<open>The log of a run\<close>

fun started :: "plan_event list \<Rightarrow> string list" where
  "started [] = []"
| "started (ActivationPhase ns k # es) = ns @ started es"
| "started (e # es) = started es"

fun skipped :: "plan_event list \<Rightarrow> string list" where
  "skipped [] = []"
| "skipped (Skipped n ds # es) = n # skipped es"
| "skipped (e # es) = skipped es"

text \<open>The dependencies of the deployments of a phase have been activated in earlier phases.\<close>

fun deps_before :: "(string \<Rightarrow> string list) \<Rightarrow> string set \<Rightarrow> plan_event list \<Rightarrow> bool" where
  "deps_before needs seen [] = True"
| "deps_before needs seen (ActivationPhase ns k # es) =
     ((\<forall>n \<in> set ns. set (needs n) \<subseteq> seen) \<and> deps_before needs (seen \<union> set ns) es)"
| "deps_before needs seen (e # es) = deps_before needs seen es"

lemma started_append [simp]: "started (xs @ ys) = started xs @ started ys"
  by (induction xs rule: started.induct) auto

lemma skipped_append [simp]: "skipped (xs @ ys) = skipped xs @ skipped ys"
  by (induction xs rule: skipped.induct) auto

lemma deps_before_append:
  "deps_before needs seen (xs @ ys) \<longleftrightarrow>
   deps_before needs seen xs \<and> deps_before needs (seen \<union> set (started xs)) ys"
  by (induction needs seen xs rule: deps_before.induct) (auto simp: Un_assoc)

section \<open>The commands of a round\<close>

definition activation_cmd :: "deploy_runner \<Rightarrow> activation_job \<Rightarrow> cmd" where
  "activation_cmd r j = remote_cmd r (aj_host j) (aj_script j)"

definition activation_cmds :: "deploy_runner \<Rightarrow> (string, activation_job list) gomap \<Rightarrow> string list \<Rightarrow> cmd list" where
  "activation_cmds r acts names = map (\<lambda>j. activation_cmd r (snd j)) (round_jobs acts names)"

lemma run_activation_trace:
  "sys_trace (snd (run_activation ex r j s)) = sys_trace s @ [activation_cmd r j]"
  by (simp add: run_activation_def activation_cmd_def exec_run_def split: prod.splits)

lemma count_list_map: "count_list (map f xs) c = sum_list (map (\<lambda>x. if f x = c then 1 else 0) xs)"
  by (induction xs) auto

lemma round_jobs_append [simp]: "round_jobs acts (xs @ ys) = round_jobs acts xs @ round_jobs acts ys"
  by (simp add: round_jobs_def)

lemma activation_cmds_append [simp]:
  "activation_cmds r acts (xs @ ys) = activation_cmds r acts xs @ activation_cmds r acts ys"
  by (simp add: activation_cmds_def)

lemma run_round_trace:
  "count_list (sys_trace (ps_sys (run_round ex sch r acts ready st))) c
   = count_list (sys_trace (ps_sys st)) c + count_list (activation_cmds r acts ready) c"
proof -
  let ?jobs = "round_jobs acts ready" and ?fn = "\<lambda>j. run_activation ex r (snd j)"
  have "count_list (sys_trace (snd (sched_run zero_result (sch (ps_round st)) ?fn ?jobs (ps_sys st)))) c
    = count_list (sys_trace (ps_sys st)) c
      + sum_list (map (\<lambda>j. if activation_cmd r (snd j) = c then 1 else 0) ?jobs)"
    by (rule sp.run_sum [where w = "\<lambda>s. count_list (sys_trace s) c"])
      (simp add: run_activation_trace)
  then show ?thesis
    by (auto simp: run_round_def Let_def activation_cmds_def count_list_map split: prod.splits)
qed

section \<open>The invariant\<close>

abbreviation job_error :: "string \<Rightarrow> string \<Rightarrow> string \<Rightarrow> go_error \<Rightarrow> go_error" where
  "job_error n h l e \<equiv> Errorf ''deployment'' [n, h, l] [e]"

definition sets_inv :: "plan \<Rightarrow> 'w plan_state \<Rightarrow> bool" where
  "sets_inv p st \<longleftrightarrow>
     set (ps_pending st) \<union> set (ps_succeeded st) \<union> set (ps_failed st) = set (plan_names p) \<and>
     set (ps_pending st) \<inter> set (ps_succeeded st) = {} \<and>
     set (ps_pending st) \<inter> set (ps_failed st) = {} \<and>
     set (ps_succeeded st) \<inter> set (ps_failed st) = {} \<and>
     (\<forall>n \<in> set (ps_succeeded st). set (needs_of p n) \<subseteq> set (ps_succeeded st))"

definition log_inv :: "plan \<Rightarrow> 'w plan_state \<Rightarrow> bool" where
  "log_inv p st \<longleftrightarrow>
     deps_before (needs_of p) {} (ps_log st) \<and>
     distinct (started (ps_log st) @ skipped (ps_log st)) \<and>
     set (started (ps_log st)) \<union> set (skipped (ps_log st)) = set (ps_succeeded st) \<union> set (ps_failed st) \<and>
     set (ps_succeeded st) \<subseteq> set (started (ps_log st)) \<and>
     (\<forall>n \<in> set (started (ps_log st)). set (needs_of p n) \<subseteq> set (ps_succeeded st)) \<and>
     (\<forall>n \<in> set (skipped (ps_log st)). \<exists>d \<in> set (needs_of p n). d \<in> set (ps_failed st))"

definition error_inv :: "'w plan_state \<Rightarrow> bool" where
  "error_inv st \<longleftrightarrow>
     (ps_failed st = [] \<longleftrightarrow> ps_errors st = []) \<and>
     (\<forall>n. (\<exists>h l e. job_error n h l e \<in> set (ps_errors st)) \<longleftrightarrow>
        n \<in> set (started (ps_log st)) \<and> n \<in> set (ps_failed st))"

definition plan_inv :: "plan \<Rightarrow> 'w plan_state \<Rightarrow> bool" where
  "plan_inv p st \<longleftrightarrow> sets_inv p st \<and> log_inv p st \<and> error_inv st"

lemma plan_start_inv: "plan_inv p (plan_start p s log)" if "started log = []" "skipped log = []" "deps_before (needs_of p) {} log"
  using that by (simp add: plan_inv_def sets_inv_def log_inv_def error_inv_def plan_start_def)

lemma skip_one_inv:
  assumes "plan_inv p st" shows "plan_inv p (skip_one p n st)"
proof (cases "n \<in> set (ps_pending st) \<and> filter (\<lambda>d. d \<in> set (ps_failed st)) (needs_of p n) \<noteq> []")
  case True
  let ?b = "filter (\<lambda>d. d \<in> set (ps_failed st)) (needs_of p n)"
  have eq: "skip_one p n st = st\<lparr>ps_pending := removeAll n (ps_pending st), ps_failed := n # ps_failed st,
      ps_errors := ps_errors st @ [SkippedBecause n ?b], ps_log := ps_log st @ [Skipped n ?b]\<rparr>"
    using True by (simp add: skip_one_def Let_def)
  from True obtain d where d: "d \<in> set (needs_of p n)" "d \<in> set (ps_failed st)"
    by (auto simp: filter_empty_conv)
  have sets: "sets_inv p st" and log: "log_inv p st" and err: "error_inv st"
    using assms by (auto simp: plan_inv_def)
  have fresh: "n \<notin> set (started (ps_log st))" "n \<notin> set (skipped (ps_log st))"
    using sets log True unfolding sets_inv_def log_inv_def by blast+
  have "sets_inv p (skip_one p n st)"
    using sets True unfolding eq sets_inv_def by auto
  moreover have "log_inv p (skip_one p n st)"
    using log fresh d unfolding eq log_inv_def by (auto simp: deps_before_append)
  moreover have "error_inv (skip_one p n st)"
    using err fresh unfolding eq error_inv_def by auto
  ultimately show ?thesis by (simp add: plan_inv_def)
next
  case False
  then have "skip_one p n st = st" by (auto simp: skip_one_def Let_def)
  then show ?thesis using assms by simp
qed

lemma skip_blocked_inv:
  assumes "plan_inv p st" shows "plan_inv p (skip_blocked p st)"
proof -
  have "plan_inv p st \<Longrightarrow> plan_inv p (fold (skip_one p) ns st)" for ns
    by (induction ns arbitrary: st) (auto intro: skip_one_inv)
  then show ?thesis using assms by (simp add: skip_blocked_def)
qed

lemma round_errors_names:
  "(n, e) \<in> set (round_errors (round_jobs acts ready) rs) \<Longrightarrow> n \<in> set ready \<and> (\<exists>h l x. e = job_error n h l x)"
  by (auto simp: round_errors_def round_jobs_def dest!: set_zip_leftD split: option.splits)

lemma plan_names_set [simp]: "set (plan_names p) = set (keys (p_deployments p))"
  by (simp add: plan_names_def)

lemma ready_names_distinct: "distinct (keys (p_deployments p)) \<Longrightarrow> distinct (ready_names p st)"
  by (simp add: ready_names_def plan_names_def)

lemma ready_names_needs: "n \<in> set (ready_names p st) \<Longrightarrow> set (needs_of p n) \<subseteq> set (ps_succeeded st)"
  by (auto simp: ready_names_def list_all_iff)

lemma run_round_fields:
  obtains errs where
    "ps_pending (run_round ex sch r acts ready st) = filter (\<lambda>n. n \<notin> set ready) (ps_pending st)"
    "ps_succeeded (run_round ex sch r acts ready st)
       = filter (\<lambda>n. n \<notin> fst ` set errs) ready @ ps_succeeded st"
    "ps_failed (run_round ex sch r acts ready st)
       = filter (\<lambda>n. n \<in> fst ` set errs) ready @ ps_failed st"
    "ps_errors (run_round ex sch r acts ready st) = ps_errors st @ map snd errs"
    "ps_log (run_round ex sch r acts ready st)
       = ps_log st @ [ActivationPhase ready (length (round_jobs acts ready))]"
    "\<And>n e. (n, e) \<in> set errs \<Longrightarrow> n \<in> set ready \<and> (\<exists>h l x. e = job_error n h l x)"
proof -
  obtain rs s where run: "sched_run zero_result (sch (ps_round st)) (\<lambda>j. run_activation ex r (snd j))
      (round_jobs acts ready) (ps_sys st) = (rs, s)" by fastforce
  show ?thesis
    by (rule that [of "round_errors (round_jobs acts ready) rs"])
      (simp_all add: run_round_def Let_def run round_errors_names)
qed

lemma run_round_inv:
  assumes inv: "plan_inv p st" and keys: "distinct (keys (p_deployments p))"
  shows "plan_inv p (run_round ex sch r acts (ready_names p st) st)"
proof -
  let ?ready = "ready_names p st" and ?st = "run_round ex sch r acts (ready_names p st) st"
  from inv have sets: "sets_inv p st" and log: "log_inv p st" and err: "error_inv st"
    by (auto simp: plan_inv_def)
  obtain errs where f: "ps_pending ?st = filter (\<lambda>n. n \<notin> set ?ready) (ps_pending st)"
      "ps_succeeded ?st = filter (\<lambda>n. n \<notin> fst ` set errs) ?ready @ ps_succeeded st"
      "ps_failed ?st = filter (\<lambda>n. n \<in> fst ` set errs) ?ready @ ps_failed st"
      "ps_errors ?st = ps_errors st @ map snd errs"
      "ps_log ?st = ps_log st @ [ActivationPhase ?ready (length (round_jobs acts ?ready))]"
    and errs: "\<And>n e. (n, e) \<in> set errs \<Longrightarrow> n \<in> set ?ready \<and> (\<exists>h l x. e = job_error n h l x)"
    by (rule run_round_fields) blast
  have pend: "set ?ready \<subseteq> set (ps_pending st)" using ready_names_pending by blast
  have needs: "\<And>n. n \<in> set ?ready \<Longrightarrow> set (needs_of p n) \<subseteq> set (ps_succeeded st)"
    by (rule ready_names_needs)
  have fresh: "set ?ready \<inter> set (started (ps_log st)) = {}" "set ?ready \<inter> set (skipped (ps_log st)) = {}"
  proof -
    have "set ?ready \<inter> (set (ps_succeeded st) \<union> set (ps_failed st)) = {}"
      using pend sets by (auto simp: sets_inv_def)
    then have "set ?ready \<inter> (set (started (ps_log st)) \<union> set (skipped (ps_log st))) = {}"
      using log by (simp add: log_inv_def)
    then show "set ?ready \<inter> set (started (ps_log st)) = {}" "set ?ready \<inter> set (skipped (ps_log st)) = {}"
      by blast+
  qed
  have succ_started: "set (ps_succeeded st) \<subseteq> set (started (ps_log st))"
    using log by (simp add: log_inv_def)
  have bad: "fst ` set errs \<subseteq> set ?ready" using errs by force
  have S: "set (ps_pending ?st) = set (ps_pending st) - set ?ready"
      "set (ps_succeeded ?st) = (set ?ready - fst ` set errs) \<union> set (ps_succeeded st)"
      "set (ps_failed ?st) = (set ?ready \<inter> fst ` set errs) \<union> set (ps_failed st)"
    unfolding f by auto
  have "sets_inv p ?st"
  proof -
    have "set (ps_pending ?st) \<union> set (ps_succeeded ?st) \<union> set (ps_failed ?st) = set (plan_names p)"
      using sets pend unfolding sets_inv_def S by blast
    moreover have "set (ps_pending ?st) \<inter> set (ps_succeeded ?st) = {}"
      using sets unfolding sets_inv_def S by blast
    moreover have "set (ps_pending ?st) \<inter> set (ps_failed ?st) = {}"
      using sets unfolding sets_inv_def S by blast
    moreover have "set (ps_succeeded ?st) \<inter> set (ps_failed ?st) = {}"
      using sets pend unfolding sets_inv_def S by blast
    moreover have "\<forall>n \<in> set (ps_succeeded ?st). set (needs_of p n) \<subseteq> set (ps_succeeded ?st)"
      using sets needs unfolding sets_inv_def S by blast
    ultimately show ?thesis by (simp add: sets_inv_def)
  qed
  moreover have "log_inv p ?st"
  proof -
    have "deps_before (needs_of p) {} (ps_log ?st)"
      using log needs succ_started unfolding log_inv_def f by (simp add: deps_before_append) blast
    moreover have "distinct (started (ps_log ?st) @ skipped (ps_log ?st))"
      using log fresh ready_names_distinct [OF keys, of st] unfolding log_inv_def f by (simp) blast
    moreover have "set (started (ps_log ?st)) \<union> set (skipped (ps_log ?st)) = set (ps_succeeded ?st) \<union> set (ps_failed ?st)"
      using log unfolding log_inv_def f by (simp) blast
    moreover have "set (ps_succeeded ?st) \<subseteq> set (started (ps_log ?st))"
      using succ_started unfolding f by auto
    moreover have "\<forall>n \<in> set (started (ps_log ?st)). set (needs_of p n) \<subseteq> set (ps_succeeded ?st)"
      using log needs unfolding log_inv_def f by (simp) blast
    moreover have "\<forall>n \<in> set (skipped (ps_log ?st)). \<exists>d \<in> set (needs_of p n). d \<in> set (ps_failed ?st)"
      using log unfolding log_inv_def f by (simp) blast
    ultimately show ?thesis by (simp add: log_inv_def)
  qed
  moreover have "error_inv ?st"
  proof -
    have own: "(\<exists>h l e. job_error n h l e \<in> snd ` set errs) \<longleftrightarrow> n \<in> set ?ready \<and> n \<in> fst ` set errs" for n
      using errs by force
    have fail: "filter (\<lambda>n. n \<in> fst ` set errs) ?ready = [] \<longleftrightarrow> errs = []"
      using bad by (cases errs) (auto simp: filter_empty_conv)
    have old: "n \<notin> set (ps_failed st)" if "n \<in> set ?ready" for n
      using that pend sets by (auto simp: sets_inv_def)
    have started: "n \<in> set (started (ps_log st)) \<Longrightarrow> n \<notin> set ?ready" for n using fresh by blast
    have "ps_failed ?st = [] \<longleftrightarrow> ps_errors ?st = []"
      using err fail unfolding error_inv_def f by auto
    moreover have "(\<exists>h l e. job_error n h l e \<in> set (ps_errors ?st)) \<longleftrightarrow>
        n \<in> set (started (ps_log ?st)) \<and> n \<in> set (ps_failed ?st)" for n
    proof -
      have "(\<exists>h l e. job_error n h l e \<in> set (ps_errors ?st)) \<longleftrightarrow>
          (\<exists>h l e. job_error n h l e \<in> set (ps_errors st)) \<or> (\<exists>h l e. job_error n h l e \<in> snd ` set errs)"
        unfolding f set_append set_map by blast
      also have "\<dots> \<longleftrightarrow> (n \<in> set (started (ps_log st)) \<and> n \<in> set (ps_failed st)) \<or>
          (n \<in> set ?ready \<and> n \<in> fst ` set errs)"
        unfolding own using err by (simp add: error_inv_def)
      also have "\<dots> \<longleftrightarrow> n \<in> set (started (ps_log ?st)) \<and> n \<in> set (ps_failed ?st)"
        unfolding f using old started by auto
      finally show ?thesis .
    qed
    ultimately show ?thesis by (simp add: error_inv_def)
  qed
  ultimately show ?thesis by (simp add: plan_inv_def)
qed

section \<open>Progress\<close>

lemma fold_skip_same:
  "length (ps_pending (fold (skip_one p) ns st)) = length (ps_pending st) \<Longrightarrow>
   fold (skip_one p) ns st = st \<and>
   (\<forall>n \<in> set ns. n \<in> set (ps_pending st) \<longrightarrow> (\<forall>d \<in> set (needs_of p n). d \<notin> set (ps_failed st)))"
proof (induction ns arbitrary: st)
  case (Cons n ns)
  let ?b = "filter (\<lambda>d. d \<in> set (ps_failed st)) (needs_of p n)"
  show ?case
  proof (cases "n \<in> set (ps_pending st) \<and> ?b \<noteq> []")
    case True
    then have "ps_pending (skip_one p n st) = removeAll n (ps_pending st)"
      by (simp add: skip_one_def Let_def)
    then have "length (ps_pending (skip_one p n st)) < length (ps_pending st)"
      using True length_removeAll_less by fastforce
    with Cons.prems fold_skip_pending [of p ns "skip_one p n st"] show ?thesis by simp
  next
    case False
    then have "skip_one p n st = st" by (auto simp: skip_one_def Let_def)
    with Cons False show ?thesis by (auto simp: filter_empty_conv)
  qed
qed simp

definition graph_ok :: "plan \<Rightarrow> bool" where
  "graph_ok p \<longleftrightarrow> distinct (keys (p_deployments p)) \<and> acyclic (edges (needs_of p)) \<and>
     (\<forall>n d. d \<in> set (needs_of p n) \<longrightarrow> d \<in> set (keys (p_deployments p)))"

lemma finite_edges: "finite (edges (needs_of p))"
proof (rule finite_subset)
  show "edges (needs_of p) \<subseteq> set (plan_nodes p) \<times> set (plan_nodes p)"
    using needs_of_key needs_of_nodes by (fastforce simp: edges_def plan_nodes_def)
qed simp

lemma minimal_pending:
  assumes "acyclic (edges (needs_of p))" and "P \<noteq> {}"
  shows "\<exists>n \<in> P. \<forall>d \<in> set (needs_of p n). d \<notin> P"
proof -
  have "wf ((edges (needs_of p))\<inverse>)"
    using finite_edges assms(1) by (rule finite_acyclic_wf_converse)
  moreover from assms(2) obtain x where "x \<in> P" by blast
  ultimately obtain z where "z \<in> P" "\<And>y. (y, z) \<in> (edges (needs_of p))\<inverse> \<Longrightarrow> y \<notin> P"
    by (rule wfE_min) blast
  then show ?thesis by (auto simp: edges_def)
qed

lemma round_progress:
  assumes inv: "plan_inv p st" and ok: "graph_ok p" and pend: "ps_pending st \<noteq> []"
    and same: "length (ps_pending (skip_blocked p st)) = length (ps_pending st)"
  shows "ready_names p (skip_blocked p st) \<noteq> []"
proof -
  from inv have sets: "sets_inv p st" by (simp add: plan_inv_def)
  have names: "set (ps_pending st) \<subseteq> set (plan_names p)" using sets unfolding sets_inv_def by blast
  from same fold_skip_same [of p "plan_names p" st] have st: "skip_blocked p st = st"
    and free: "\<And>n d. n \<in> set (plan_names p) \<Longrightarrow> n \<in> set (ps_pending st) \<Longrightarrow> d \<in> set (needs_of p n) \<Longrightarrow>
      d \<notin> set (ps_failed st)"
    by (auto simp: skip_blocked_def)
  obtain n where n: "n \<in> set (ps_pending st)" "\<And>d. d \<in> set (needs_of p n) \<Longrightarrow> d \<notin> set (ps_pending st)"
    using minimal_pending [of p "set (ps_pending st)"] ok pend by (auto simp: graph_ok_def)
  have "d \<in> set (ps_succeeded st)" if d: "d \<in> set (needs_of p n)" for d
  proof -
    have "d \<in> set (plan_names p)" using ok d by (simp add: graph_ok_def)
    then show ?thesis using sets n(2) [OF d] free [OF _ n(1) d] names n(1) unfolding sets_inv_def by blast
  qed
  then have "n \<in> set (ready_names p st)"
    using n(1) names by (auto simp: ready_names_def list_all_iff)
  then show ?thesis using st by auto
qed

theorem plan_loop_complete:
  assumes "plan_inv p st" and "graph_ok p" and "plan_loop ex sch r p acts st = (err, st')"
  shows "plan_inv p st' \<and> ps_pending st' = [] \<and> err = errors_join (ps_errors st')"
  using assms
proof (induction ex sch r p acts st rule: plan_loop.induct)
  case (1 ex sch r p acts st)
  let ?st1 = "skip_blocked p st"
  have inv1: "plan_inv p ?st1" using "1.prems"(1) by (rule skip_blocked_inv)
  have keys: "distinct (keys (p_deployments p))" using "1.prems"(2) by (simp add: graph_ok_def)
  note run = "1.prems"(3) [unfolded plan_loop.simps [of ex sch r p acts st] Let_def]
  show ?case
  proof (cases "ps_pending st = []")
    case True
    then show ?thesis using run "1.prems"(1) by auto
  next
    case pend: False
    show ?thesis
    proof (cases "ready_names p ?st1 = []")
      case True
      then have "length (ps_pending ?st1) < length (ps_pending st)"
        using round_progress [OF "1.prems"(1,2) pend] skip_blocked_pending [of p st] by linarith
      with "1.IH"(1) pend True run inv1 "1.prems"(2) show ?thesis by simp
    next
      case False
      with "1.IH"(2) pend run run_round_inv [OF inv1 keys] "1.prems"(2) show ?thesis by simp
    qed
  qed
qed

section \<open>The commands of the whole loop\<close>

lemma skip_one_log:
  "started (ps_log (skip_one p n st)) = started (ps_log st) \<and> ps_sys (skip_one p n st) = ps_sys st"
  by (simp add: skip_one_def Let_def)

lemma skip_blocked_log [keep]:
  "started (ps_log (skip_blocked p st)) = started (ps_log st)" "ps_sys (skip_blocked p st) = ps_sys st"
proof -
  have "started (ps_log (fold (skip_one p) ns st)) = started (ps_log st) \<and>
      ps_sys (fold (skip_one p) ns st) = ps_sys st" for ns
    by (induction ns arbitrary: st) (auto simp: skip_one_log)
  then show "started (ps_log (skip_blocked p st)) = started (ps_log st)"
    "ps_sys (skip_blocked p st) = ps_sys st" by (auto simp: skip_blocked_def)
qed

lemma run_round_log: "started (ps_log (run_round ex sch r acts ready st)) = started (ps_log st) @ ready"
  by (simp add: run_round_def Let_def split: prod.splits)

lemma plan_loop_trace:
  "plan_loop ex sch r p acts st = (err, st') \<Longrightarrow>
   count_list (sys_trace (ps_sys st')) c + count_list (activation_cmds r acts (started (ps_log st))) c
   = count_list (sys_trace (ps_sys st)) c + count_list (activation_cmds r acts (started (ps_log st'))) c"
proof (induction ex sch r p acts st rule: plan_loop.induct)
  case (1 ex sch r p acts st)
  let ?st1 = "skip_blocked p st" and ?cnt = "\<lambda>st. count_list (sys_trace (ps_sys st)) c"
  let ?new = "\<lambda>st. count_list (activation_cmds r acts (started (ps_log st))) c"
  note run = "1.prems" [unfolded plan_loop.simps [of ex sch r p acts st] Let_def]
  show ?case
  proof (cases "ps_pending st = []")
    case True
    with run show ?thesis by simp
  next
    case pend: False
    show ?thesis
    proof (cases "ready_names p ?st1 = []")
      case True
      with "1.IH"(1) pend run show ?thesis by (auto simp: skip_blocked_log split: if_splits)
    next
      case False
      let ?st2 = "run_round ex sch r acts (ready_names p ?st1) ?st1"
      have "?cnt st' + ?new ?st2 = ?cnt ?st2 + ?new st'"
        using "1.IH"(2) pend False run by simp
      then show ?thesis by (simp add: run_round_trace run_round_log skip_blocked_log)
    qed
  qed
qed

end
