(* ===== verification/DeployProperties.thy ===== *)
theory DeployProperties
  imports DeployRunFacts DeployPlanFacts
begin

text \<open>
  The properties of \<open>deployctl\<close>'s configuration, upload and plan components. The witnesses run the
  model on a plan of two deployments, \<open>a\<close> and \<open>b\<close>, where \<open>b\<close> needs \<open>a\<close>.
\<close>

section \<open>Applying a plan\<close>

lemma check_plan_graph_ok:
  assumes "check_plan cfg (name, p) = None" and "distinct (keys (p_deployments p))"
  shows "graph_ok p"
  using check_plan_ok [OF assms(1)] plan_ok_closed [OF check_plan_ok [OF assms(1)]] assms(2)
  by (auto simp: graph_ok_def plan_ok_def)


text \<open>The three ways through \<open>applyPlan\<close>, for a run that is not a dry run.\<close>

lemma apply_plan_cases:
  assumes "\<not> dr_dry r"
  obtains
    (jobs) e where "apply_plan quote ex env sch r cfg p s = \<lparr>po_text = [], po_err = Some e, po_state = plan_start p s []\<rparr>"
      "map_res (deployment_jobs r env cfg) (plan_names p) = Inl e"
  | (upload) djs e t where "map_res (deployment_jobs r env cfg) (plan_names p) = Inr djs"
      "t = (if concat (map fst djs) = [] then s else snd (sched_run zero_result (sch 0) (run_upload ex env r) (concat (map fst djs)) s))"
      "apply_plan quote ex env sch r cfg p s =
         \<lparr>po_text = [], po_err = Some (Errorf ''plan upload phase failed; no activation was started'' [] [e]),
          po_state = plan_start p t (if concat (map fst djs) = [] then [] else [UploadPhase (length (concat (map fst djs)))])\<rparr>"
  | (activated) djs rs t err st where "map_res (deployment_jobs r env cfg) (plan_names p) = Inr djs"
      "(if concat (map fst djs) = [] then ([], s) else sched_run zero_result (sch 0) (run_upload ex env r) (concat (map fst djs)) s) = (rs, t)"
      "\<forall>x \<in> set rs. jr_err x = None"
      "plan_loop ex sch r p (map snd djs)
         (plan_start p t (if concat (map fst djs) = [] then [] else [UploadPhase (length (concat (map fst djs)))])) = (err, st)"
      "apply_plan quote ex env sch r cfg p s = \<lparr>po_text = [], po_err = err, po_state = st\<rparr>"
proof (cases "map_res (deployment_jobs r env cfg) (plan_names p)")
  case (Inl e)
  then show ?thesis using that(1) by (simp add: apply_plan_def)
next
  case (Inr djs)
  let ?us = "concat (map fst djs)"
  obtain rs t where up: "(if ?us = [] then ([], s) else sched_run zero_result (sch 0) (run_upload ex env r) ?us s) = (rs, t)"
    by (metis prod.collapse)
  have t: "t = (if ?us = [] then s else snd (sched_run zero_result (sch 0) (run_upload ex env r) ?us s))"
    using up by (metis snd_conv)
  show ?thesis
  proof (cases "report_results rs")
    case (Some e)
    then have "apply_plan quote ex env sch r cfg p s =
         \<lparr>po_text = [], po_err = Some (Errorf ''plan upload phase failed; no activation was started'' [] [e]),
          po_state = plan_start p t (if ?us = [] then [] else [UploadPhase (length ?us)])\<rparr>"
      by (simp only: apply_plan_def Inr sum.case Let_def assms if_False up prod.case option.case)
    with that(2) [OF Inr t] show ?thesis .
  next
    case None
    obtain err st where loop: "plan_loop ex sch r p (map snd djs)
        (plan_start p t (if ?us = [] then [] else [UploadPhase (length ?us)])) = (err, st)" by fastforce
    have "apply_plan quote ex env sch r cfg p s = \<lparr>po_text = [], po_err = err, po_state = st\<rparr>"
      by (simp only: apply_plan_def Inr sum.case Let_def assms if_False up prod.case option.case None loop)
    moreover have "\<forall>x \<in> set rs. jr_err x = None" using None by (simp add: report_results_None)
    ultimately show ?thesis using that(3) [OF Inr up _ loop] by blast
  qed
qed

lemma plan_start_log_inv:
  "plan_inv p (plan_start p t (if us = [] then [] else [UploadPhase k]))"
  by (rule plan_start_inv) auto

lemma plan_loop_start:
  assumes "graph_ok p"
    and "plan_loop ex sch r p acts (plan_start p t (if us = [] then [] else [UploadPhase k])) = (err, st)"
  shows "plan_inv p st \<and> ps_pending st = [] \<and> err = errors_join (ps_errors st)"
  by (rule plan_loop_complete [OF plan_start_log_inv assms])

text \<open>The final state of every run satisfies the invariant.\<close>

lemma apply_plan_inv:
  assumes "graph_ok p" and "\<not> dr_dry r"
  shows "plan_inv p (po_state (apply_plan quote ex env sch r cfg p s))"
  using assms(2)
proof (cases rule: apply_plan_cases [of r quote ex env sch cfg p s])
  case (activated djs rs t err st)
  with plan_loop_start [OF assms(1) activated(4)] show ?thesis by simp
qed (simp_all add: plan_start_inv)


section \<open>A concrete plan\<close>

definition demo_up :: upload where
  "demo_up = \<lparr>u_label = ''conf'', u_role = ''web'', u_local = ''etc/x.conf'', u_remote = ''/etc/nginx/x.conf'',
     u_delete = False, u_excludes = [], u_validate = ''nginx -t'', u_verify_required = True\<rparr>"

definition demo_cfg :: config where
  "demo_cfg = \<lparr>c_include = [],
     c_deployments = [(''b'', \<lparr>d_uploads = [], d_activations = [\<lparr>a_label = ''go'', a_role = ''web'', a_script = ''run b''\<rparr>]\<rparr>),
                      (''a'', \<lparr>d_uploads = [demo_up], d_activations = [\<lparr>a_label = ''go'', a_role = ''web'', a_script = ''run a''\<rparr>]\<rparr>)],
     c_plans = [(''all'', \<lparr>p_deployments = [(''b'', \<lparr>pd_needs = [''a'']\<rparr>), (''a'', \<lparr>pd_needs = []\<rparr>)]\<rparr>)]\<rparr>"

definition demo_plan :: plan where
  "demo_plan = \<lparr>p_deployments = [(''b'', \<lparr>pd_needs = [''a'']\<rparr>), (''a'', \<lparr>pd_needs = []\<rparr>)]\<rparr>"

definition demo_runner :: deploy_runner where
  "demo_runner = \<lparr>dr_user = ''isucon'', dr_opts = [], dr_roles = [(''web'', [''h1''])], dr_vars = [],
     dr_dry = False, dr_parallel = 2, dr_worktree = ''/w'', dr_commit = ''c''\<rparr>"

definition demo_env :: deploy_env where
  "demo_env = \<lparr>de_stat = (\<lambda>_. True), de_nonce = (\<lambda>_. Some ''00''), de_fingerprint = (\<lambda>_ _. Inr ''f''),
     de_stamp = (\<lambda>_ _. Inr ''stamp'')\<rparr>"

text \<open>The demonstration host: every command succeeds, except that the activation \<open>run a\<close> fails when the
  flag of the world is set; the world counts the commands.\<close>

definition demo_ex :: "bool \<Rightarrow> nat executor" where
  "demo_ex bad c w = (([], if bad \<and> cmd_stdin c = ''run a'' then Some (Errorf ''exit status'' [] []) else None), Suc w)"

definition demo_sys :: "nat sys" where
  "demo_sys = \<lparr>sys_trace = [], sys_world = 0\<rparr>"

definition demo_apply :: "bool \<Rightarrow> nat plan_outcome" where
  "demo_apply bad = apply_plan (\<lambda>x. x) (demo_ex bad) demo_env (\<lambda>_ n. [0..<n]) demo_runner demo_cfg demo_plan demo_sys"

lemma demo_checked: "check_plan demo_cfg (''all'', demo_plan) = None" "distinct (keys (p_deployments demo_plan))"
  "\<not> dr_dry demo_runner"
  by code_simp+


lemma count_list_mset: "count_list xs c = count (mset xs) c"
  by (induction xs) auto

lemma plan_start_fields: "ps_log (plan_start p s log) = log" "ps_sys (plan_start p s log) = s"
  by (simp_all add: plan_start_def)

lemma activation_cmds_Nil: "activation_cmds r acts [] = []"
  by (simp add: activation_cmds_def round_jobs_def)

section \<open>Properties\<close>




text \<open>
  C5. Once the uploads have succeeded, the rounds of a loaded plan come to an end with no deployment
  left pending: each is in exactly one of \<open>succeeded\<close> and \<open>failed\<close>, the error is \<open>nil\<close> exactly when
  none failed, and the error \<open>plan activation graph made no progress\<close> is never reported.
\<close>

theorem plan_settles:
  assumes "check_plan cfg (name, p) = None" and "distinct (keys (p_deployments p))"
  shows "case plan_loop ex sch r p acts (plan_start p s []) of (err, st) \<Rightarrow>
    ps_pending st = [] \<and>
    set (ps_succeeded st) \<union> set (ps_failed st) = set (keys (p_deployments p)) \<and>
    set (ps_succeeded st) \<inter> set (ps_failed st) = {} \<and>
    err = errors_join (ps_errors st) \<and> (err = None \<longleftrightarrow> ps_failed st = [])"
proof -
  obtain err st where run: "plan_loop ex sch r p acts (plan_start p s []) = (err, st)" by fastforce
  have "plan_inv p st \<and> ps_pending st = [] \<and> err = errors_join (ps_errors st)"
    by (rule plan_loop_complete [OF plan_start_inv check_plan_graph_ok [OF assms] run]) simp_all
  then have "sets_inv p st" "error_inv st" "ps_pending st = []" "err = errors_join (ps_errors st)"
    by (simp_all add: plan_inv_def)
  then show ?thesis by (simp add: run sets_inv_def error_inv_def)
qed

theorem plan_settles_witness:
  "case plan_loop (demo_ex True) (\<lambda>_ n. [0..<n]) demo_runner demo_plan [] (plan_start demo_plan demo_sys []) of
    (err, st) \<Rightarrow> ps_pending st = [] \<and> set (ps_succeeded st) \<union> set (ps_failed st) = {''a'', ''b''}"
  using plan_settles [OF demo_checked(1,2), of "demo_ex True" "\<lambda>_ n. [0..<n]" demo_runner "[]" demo_sys]
  by (auto simp: demo_plan_def split: prod.splits)

text \<open>
  C4. Activations respect the dependency graph: a deployment is activated in a phase after the phases
  in which all its dependencies were activated, all of these have succeeded, and no deployment is
  activated twice or both activated and skipped.
\<close>

theorem plan_order:
  assumes "check_plan cfg (name, p) = None" and "distinct (keys (p_deployments p))" and "\<not> dr_dry r"
  shows "deps_before (needs_of p) {} (ps_log (po_state (apply_plan quote ex env sch r cfg p s))) \<and>
    (\<forall>n \<in> set (started (ps_log (po_state (apply_plan quote ex env sch r cfg p s)))).
       set (needs_of p n) \<subseteq> set (ps_succeeded (po_state (apply_plan quote ex env sch r cfg p s)))) \<and>
    distinct (started (ps_log (po_state (apply_plan quote ex env sch r cfg p s))) @
       skipped (ps_log (po_state (apply_plan quote ex env sch r cfg p s))))"
  using apply_plan_inv [OF check_plan_graph_ok [OF assms(1,2)] assms(3), of quote ex env sch cfg s]
  unfolding plan_inv_def log_inv_def by (elim conjE) (intro conjI)

lemma demo_log:
  "ps_log (po_state (demo_apply False)) = [UploadPhase 1, ActivationPhase [''a''] 1, ActivationPhase [''b''] 1]"
  by code_simp

theorem plan_order_witness:
  "deps_before (needs_of demo_plan) {} [UploadPhase 1, ActivationPhase [''a''] 1, ActivationPhase [''b''] 1]"
  using plan_order [OF demo_checked, of "\<lambda>x. x" "demo_ex False" demo_env "\<lambda>_ n. [0..<n]" demo_sys] demo_log
  by (simp only: demo_apply_def)

text \<open>
  A deployment of a loaded plan fails only for a reason: it was skipped and one of its
  dependencies has failed, or it was activated and one of its own jobs returned an error that is
  part of the reported error. Conversely a job error or a failed dependency makes it fail.
\<close>

theorem plan_failure_cause:
  assumes "check_plan cfg (name, p) = None" and "distinct (keys (p_deployments p))" and "\<not> dr_dry r"
    and "n \<in> set (keys (p_deployments p))"
    and "started (ps_log (po_state (apply_plan quote ex env sch r cfg p s))) \<noteq> []"
  shows "n \<in> set (ps_failed (po_state (apply_plan quote ex env sch r cfg p s))) \<longleftrightarrow>
    (\<exists>h l e. job_error n h l e \<in> set (ps_errors (po_state (apply_plan quote ex env sch r cfg p s)))) \<or>
    (\<exists>d \<in> set (needs_of p n). d \<in> set (ps_failed (po_state (apply_plan quote ex env sch r cfg p s))))"
  using assms(3)
proof (cases rule: apply_plan_cases [of r quote ex env sch cfg p s])
  case (activated djs rs t err st)
  have inv: "plan_inv p st" "ps_pending st = []"
    using plan_loop_start [OF check_plan_graph_ok [OF assms(1,2)] activated(4)] by auto
  have n: "n \<in> set (ps_succeeded st) \<or> n \<in> set (ps_failed st)"
    using inv assms(4) by (auto simp: plan_inv_def sets_inv_def)
  have succ: "n \<in> set (ps_succeeded st) \<Longrightarrow> n \<notin> set (ps_failed st) \<and>
      (\<forall>d \<in> set (needs_of p n). d \<in> set (ps_succeeded st) \<and> d \<notin> set (ps_failed st))"
    using inv by (auto simp: plan_inv_def sets_inv_def)
  have err: "(\<exists>h l e. job_error n h l e \<in> set (ps_errors st)) \<longleftrightarrow>
      n \<in> set (started (ps_log st)) \<and> n \<in> set (ps_failed st)"
    using inv by (auto simp: plan_inv_def error_inv_def)
  have skip: "n \<in> set (ps_failed st) \<Longrightarrow> n \<notin> set (started (ps_log st)) \<Longrightarrow>
      \<exists>d \<in> set (needs_of p n). d \<in> set (ps_failed st)"
    using inv by (auto simp: plan_inv_def log_inv_def)
  have "n \<in> set (ps_failed st) \<longleftrightarrow> (\<exists>h l e. job_error n h l e \<in> set (ps_errors st)) \<or>
      (\<exists>d \<in> set (needs_of p n). d \<in> set (ps_failed st))"
    unfolding err using n succ skip by blast
  then show ?thesis by (simp add: activated(5))
qed (use assms(5) in \<open>simp_all add: plan_start_def split: if_splits\<close>)

lemma demo_fail:
  "ps_failed (po_state (demo_apply True)) = [''b'', ''a''] \<and> started (ps_log (po_state (demo_apply True))) = [''a'']"
  by code_simp

theorem plan_failure_cause_witness:
  "''b'' \<in> set (ps_failed (po_state (demo_apply True))) \<and>
   ((\<exists>h l e. job_error ''b'' h l e \<in> set (ps_errors (po_state (demo_apply True)))) \<or>
    (\<exists>d \<in> set (needs_of demo_plan ''b''). d \<in> set (ps_failed (po_state (demo_apply True)))))"
proof -
  have "''b'' \<in> set (keys (p_deployments demo_plan))" by code_simp
  from plan_failure_cause [OF demo_checked this, of "\<lambda>x. x" "demo_ex True" demo_env "\<lambda>_ n. [0..<n]" demo_sys,
      folded demo_apply_def] demo_fail
  show ?thesis by simp
qed

text \<open>
  The rounds run each activation script of a deployment that they activate exactly once, and no
  other command: the commands added to the trace are, as a multiset, the activation commands of the
  activated deployments.
\<close>

theorem plan_runs_once:
  "mset (sys_trace (ps_sys (snd (plan_loop ex sch r p acts (plan_start p s []))))) =
   mset (sys_trace s) + mset (activation_cmds r acts
     (started (ps_log (snd (plan_loop ex sch r p acts (plan_start p s []))))))"
proof (rule multiset_eqI)
  fix c
  have "plan_loop ex sch r p acts (plan_start p s []) =
      (fst (plan_loop ex sch r p acts (plan_start p s [])), snd (plan_loop ex sch r p acts (plan_start p s [])))"
    by simp
  from plan_loop_trace [OF this, of c]
  show "count (mset (sys_trace (ps_sys (snd (plan_loop ex sch r p acts (plan_start p s [])))))) c =
      count (mset (sys_trace s) + mset (activation_cmds r acts
        (started (ps_log (snd (plan_loop ex sch r p acts (plan_start p s []))))))) c"
    by (simp add: count_list_mset plan_start_fields activation_cmds_Nil del: mset_map)
qed

text \<open>
  The barrier of \<open>apply\<close>: when an upload of the deployment fails, the result is an error, and every
  command that was run is a command of one of its uploads, so no activation script was started.
\<close>

theorem apply_barrier:
  assumes "\<not> dr_dry r" and "upload_jobs r (de_stat env) (d_uploads d) = Inr uploads"
    and "activation_jobs r (d_activations d) = Inr activations"
    and "x \<in> set (fst (sched_run zero_result (sch 0) (run_upload ex env r) uploads s))" and "jr_err x \<noteq> None"
  shows "snd (fst (apply_deployment quote ex env sch r d s)) \<noteq> None \<and>
    (\<exists>cmds. sys_trace (snd (apply_deployment quote ex env sch r d s)) = sys_trace s @ cmds \<and>
       set cmds \<subseteq> (\<Union>j \<in> set uploads. upload_cmd_set env r j))"
proof -
  let ?run = "sched_run zero_result (sch 0) (run_upload ex env r) uploads s"
  have "report_results (fst ?run) \<noteq> None"
    using assms(4,5) by (auto simp: report_results_None)
  then obtain e where e: "report_results (fst ?run) = Some e" by blast
  have "apply_deployment quote ex env sch r d s =
      (([], Some (Errorf ''upload phase failed; activation was not started'' [] [e])), snd ?run)"
    using e assms(1-3) by (cases ?run) (simp add: apply_deployment_def)
  then show ?thesis using upload_phase_cmds [of "sch 0" ex env r uploads s] by simp
qed

definition demo_bad_ex :: "nat executor" where
  "demo_bad_ex c w = (([], if cmd_name c = ''rsync'' then Some (Errorf ''exit status'' [] []) else None), Suc w)"

definition demo_deployment :: deployment where
  "demo_deployment = \<lparr>d_uploads = [demo_up], d_activations = [\<lparr>a_label = ''go'', a_role = ''web'', a_script = ''run a''\<rparr>]\<rparr>"

definition demo_job :: upload_job where
  "demo_job = \<lparr>uj_u = demo_up, uj_host = ''h1'', uj_local = ''etc/x.conf'', uj_remote = ''/etc/nginx/x.conf''\<rparr>"

definition demo_activation :: activation_job where
  "demo_activation = \<lparr>aj_a = \<lparr>a_label = ''go'', a_role = ''web'', a_script = ''run a''\<rparr>, aj_host = ''h1'', aj_script = ''run a''\<rparr>"

lemma demo_jobs:
  "\<not> dr_dry demo_runner"
  "upload_jobs demo_runner (de_stat demo_env) (d_uploads demo_deployment) = Inr [demo_job]"
  "activation_jobs demo_runner (d_activations demo_deployment) = Inr [demo_activation]"
  by code_simp+

theorem apply_barrier_witness:
  "snd (fst (apply_deployment (\<lambda>x. x) demo_bad_ex demo_env (\<lambda>_ n. [0..<n]) demo_runner demo_deployment demo_sys)) \<noteq> None"
proof -
  let ?run = "sched_run zero_result ((\<lambda>_ n. [0..<n]) (0::nat)) (run_upload demo_bad_ex demo_env demo_runner) [demo_job] demo_sys"
  have "jr_err (hd (fst ?run)) \<noteq> None" by code_simp
  moreover have "hd (fst ?run) \<in> set (fst ?run)" by code_simp
  ultimately show ?thesis
    using apply_barrier [OF demo_jobs, of "hd (fst ?run)" "\<lambda>_ n. [0..<n]" demo_bad_ex demo_sys] by blast
qed

text \<open>
  C6. The cycle search of the loader is exact and total: it accepts a plan exactly when the graph of
  its \<open>needs\<close> has no cycle, and the bound on its recursion (one level per name of the plan) is never
  reached.
\<close>

theorem cycle_search_exact:
  "(validate_plan_acyclic name p = None \<longleftrightarrow> acyclic (edges (needs_of p))) \<and>
   validate_plan_acyclic name p \<noteq> Some SearchFuel"
  using validate_plan_ok_iff validate_plan_fuel by blast


definition demo_loader :: loader where
  "demo_loader = \<lparr>l_files = [(''/w/deploy.yaml'', ''x'')], l_cwd = Some ''/w'', l_yaml = (\<lambda>_. Some demo_cfg)\<rparr>"


text \<open>
  A remote path that the runner accepts is an absolute path without \<open>.\<close> and \<open>..\<close> components
  and without a quote, at least two directories deep, and lies under one of the built-in paths or a
  declared extra path; a synchronisation with deletion needs a directory path.
\<close>

theorem remote_path_safe:
  assumes "validate_remote_path remote delete extras = None"
  shows "is_abs remote \<and> CHR 0x27 \<notin> set remote \<and>
    list_all (\<lambda>c. c \<noteq> ''.'' \<and> c \<noteq> ''..'') (split_char (CHR ''/'') remote) \<and>
    2 \<le> length (clean_comps True remote) \<and>
    (base_allowed remote \<or> (\<exists>e. e \<in> set extras \<and> extra_ok e \<and> extra_allows remote e)) \<and>
    (\<not> delete \<or> last_slash remote)"
proof -
  note v = validate_remote_pathD [OF assms]
  have a: "is_abs remote" using v(1) by (rule remote_path_ok_abs)
  have "CHR 0x27 \<notin> set remote"
    using v(1) by (auto simp: remote_path_ok_def name_char_def word_char_def is_digit_def list_all_iff
        less_eq_char_def split: list.splits)
  moreover have "list_all (\<lambda>c. c \<noteq> ''.'' \<and> c \<noteq> ''..'') (split_char (CHR ''/'') remote)"
    using path_normal_no_dots [OF a v(2)] by (auto simp: list_all_iff)
  ultimately show ?thesis using a v remote_depth [OF assms] by auto
qed

theorem remote_path_safe_witness:
  "validate_remote_path ''/opt/app/data/'' True [''/opt/app/''] = None \<and> 2 \<le> length (clean_comps True ''/opt/app/data/'')"
proof -
  have "validate_remote_path ''/opt/app/data/'' True [''/opt/app/''] = None" by code_simp
  with remote_path_safe [OF this] show ?thesis by blast
qed

text \<open>
  Every upload job of a deployment goes to a host of its role and reads from inside the
  repository: joined to the root of the worktree, its local path keeps the root as a prefix of its
  components; its remote path is accepted and no placeholder is left in it.
\<close>

theorem upload_jobs_contained:
  assumes "upload_jobs r stat us = Inr js" and "j \<in> set js" and "is_abs root"
  shows "(\<exists>hosts. map_of (dr_roles r) (u_role (uj_u j)) = Some hosts \<and> uj_host j \<in> set hosts) \<and>
    clean_comps True (root @ ''/'' @ uj_local j) = clean_comps True root @ clean_comps False (uj_local j) \<and>
    clean_comps False (uj_local j) \<noteq> [] \<and> stat (trim_suffix (uj_local j) ''/'') \<and>
    validate_remote_path (uj_remote j) (u_delete (uj_u j))
      (split_char (CHR '','') (lookup_or [] (dr_vars r) ''allowed_remote_paths'')) = None \<and>
    find_matches deploy_ph (uj_remote j) = []"
proof -
  have safe: "job_safe r stat j" and
    h: "\<exists>hosts. map_of (dr_roles r) (u_role (uj_u j)) = Some hosts \<and> uj_host j \<in> set hosts"
    using upload_jobs_safe [OF assms(1,2)] by auto
  have plain: "find_matches deploy_ph s = []" if "s \<in> {uj_local j, uj_remote j, u_validate (uj_u j)}" for s
    using safe that no_placeholder [of s "[''{host}'']"] by (auto simp: job_safe_def)
  have loc: "validate_local_path (uj_local j) = None" using safe by (simp add: job_safe_def)
  note rel = validate_local_path_rel [OF loc plain]
  from path_join_below [OF assms(3) rel(1,3)] rel(2) safe plain [of "uj_remote j"] h
  show ?thesis by (simp add: job_safe_def)
qed

theorem upload_jobs_contained_witness:
  "clean_comps True (''/w'' @ ''/'' @ uj_local demo_job) = [''w'', ''etc'', ''x.conf'']"
proof -
  have "demo_job \<in> set [demo_job]" and "is_abs ''/w''" by (simp_all add: is_abs_def)
  from upload_jobs_contained [OF demo_jobs(2) this]
  have "clean_comps True (''/w'' @ ''/'' @ uj_local demo_job) = clean_comps True ''/w'' @ clean_comps False (uj_local demo_job)"
    by blast
  also have "\<dots> = [''w'', ''etc'', ''x.conf'']" by code_simp
  finally show ?thesis .
qed

text \<open>
  A guarded upload that reports success has run exactly these commands, in this order: the
  backup, the transfer, the validation, the stamp, and the removal of the backup.
\<close>

theorem guarded_upload_success:
  assumes "u_validate (uj_u j) \<noteq> []" and "jr_err (fst (run_upload ex env r j s)) = None"
  shows "\<exists>n fp script. de_nonce env j = Some n \<and> de_fingerprint env (uj_local j) (u_excludes (uj_u j)) = Inr fp \<and>
    de_stamp env j fp = Inr script \<and>
    sys_trace (snd (run_upload ex env r j s)) = sys_trace s @
      [backup_cmd r j (backup_of n), rsync_cmd r j, remote_cmd r (uj_host j) (validation_script j),
       remote_cmd r (uj_host j) script, cleanup_cmd r j (backup_of n)]"
proof -
  obtain res t where run: "run_upload ex env r j s = (res, t)" by fastforce
  from upload_success_cmds [OF this] assms run show ?thesis by (auto simp: confirm_cmds_def)
qed

theorem guarded_upload_success_witness:
  "length (sys_trace (snd (run_upload (demo_ex False) demo_env demo_runner demo_job demo_sys))) = 5"
proof -
  have "u_validate (uj_u demo_job) \<noteq> []"
    and "jr_err (fst (run_upload (demo_ex False) demo_env demo_runner demo_job demo_sys)) = None" by code_simp+
  from guarded_upload_success [OF this] show ?thesis by (auto simp: demo_sys_def)
qed

text \<open>
  A guarded upload that fails has run nothing, or only the backup, or the backup and the transfer
  followed by an initial part of validation and stamp and then the restore script (with or without
  the removal of the backup); only when the whole transfer succeeded is the restore left out.
\<close>

theorem guarded_upload_failure:
  assumes "u_validate (uj_u j) \<noteq> []" and "jr_err (fst (run_upload ex env r j s)) \<noteq> None"
  shows "\<exists>cmds. sys_trace (snd (run_upload ex env r j s)) = sys_trace s @ cmds \<and>
    (cmds = [] \<or>
     (\<exists>n. de_nonce env j = Some n \<and>
       (cmds = [backup_cmd r j (backup_of n)] \<or>
        (\<exists>fp mid fin. de_fingerprint env (uj_local j) (u_excludes (uj_u j)) = Inr fp \<and>
           cmds = [backup_cmd r j (backup_of n), rsync_cmd r j] @ mid @ fin \<and>
           prefix mid (confirm_cmds env r j fp) \<and>
           (fin = [restore_cmd r j (backup_of n)] \<or>
            fin = [restore_cmd r j (backup_of n), cleanup_cmd r j (backup_of n)] \<or>
            (fin = [cleanup_cmd r j (backup_of n)] \<and> mid = confirm_cmds env r j fp))))))"
proof -
  obtain res t where run: "run_upload ex env r j s = (res, t)" by fastforce
  from upload_failure_cmds [OF this _ assms(1)] assms(2) run show ?thesis by simp
qed

theorem guarded_upload_failure_witness:
  "\<exists>cmds. sys_trace (snd (run_upload demo_bad_ex demo_env demo_runner demo_job demo_sys)) = cmds \<and>
    length cmds = 4 \<and> hd cmds = backup_cmd demo_runner demo_job (backup_of ''00'')"
proof -
  have v: "u_validate (uj_u demo_job) \<noteq> []"
    and e: "jr_err (fst (run_upload demo_bad_ex demo_env demo_runner demo_job demo_sys)) \<noteq> None" by code_simp+
  have l: "length (sys_trace (snd (run_upload demo_bad_ex demo_env demo_runner demo_job demo_sys))) = 4"
    and n: "de_nonce demo_env demo_job = Some ''00''" by code_simp+
  from guarded_upload_failure [OF v e] l n show ?thesis by (auto simp: demo_sys_def)
qed

text \<open>
  C2. The previous configuration survives a guarded upload that fails: on a host where the backup,
  restore and clean-up scripts do their work, the destination afterwards holds what it held before,
  or the retained backup still does; the exception is a transfer that succeeded completely and only
  failed to remove its backup.
\<close>

theorem guarded_upload_keeps:
  assumes "host_laws ex env r j (backup_of n) dest saved" and "de_nonce env j = Some n"
    and "u_validate (uj_u j) \<noteq> []" and "jr_err (fst (run_upload ex env r j s)) \<noteq> None"
  shows "dest (sys_world (snd (run_upload ex env r j s))) = dest (sys_world s) \<or>
    saved (sys_world (snd (run_upload ex env r j s))) = Some (dest (sys_world s)) \<or>
    (\<exists>fp. sys_trace (snd (run_upload ex env r j s)) = sys_trace s @
       [backup_cmd r j (backup_of n), rsync_cmd r j] @ confirm_cmds env r j fp @ [cleanup_cmd r j (backup_of n)])"
proof -
  obtain res t where run: "run_upload ex env r j s = (res, t)" by fastforce
  from upload_keeps_configuration [OF assms(1-3) run] assms(4) run show ?thesis by simp
qed

text \<open>The witness's host: the content of the destination and of the backup; the transfer writes 7 and
  then fails.\<close>

definition demo_host :: "(nat \<times> nat option) executor" where
  "demo_host c w =
     (if c = backup_cmd demo_runner demo_job (backup_of ''00'') then (([], None), (fst w, Some (fst w)))
      else if c = restore_cmd demo_runner demo_job (backup_of ''00'')
      then (([], None), (case snd w of Some x \<Rightarrow> (x, snd w) | None \<Rightarrow> w))
      else if c = cleanup_cmd demo_runner demo_job (backup_of ''00'') then (([], None), (fst w, None))
      else (([], Some (Errorf ''exit status'' [] [])), (7, snd w)))"

lemma demo_cmds:
  "backup_cmd demo_runner demo_job (backup_of ''00'') \<noteq> restore_cmd demo_runner demo_job (backup_of ''00'')"
  "backup_cmd demo_runner demo_job (backup_of ''00'') \<noteq> cleanup_cmd demo_runner demo_job (backup_of ''00'')"
  "restore_cmd demo_runner demo_job (backup_of ''00'') \<noteq> cleanup_cmd demo_runner demo_job (backup_of ''00'')"
  "list_all (\<lambda>c. c \<noteq> backup_cmd demo_runner demo_job (backup_of ''00'') \<and>
      c \<noteq> cleanup_cmd demo_runner demo_job (backup_of ''00'')) (rsync_cmd demo_runner demo_job # confirm_cmds demo_env demo_runner demo_job ''f'')"
  by code_simp+

lemma demo_host_laws: "host_laws demo_host demo_env demo_runner demo_job (backup_of ''00'') fst snd"
proof -
  have same: "confirm_cmds demo_env demo_runner demo_job fp = confirm_cmds demo_env demo_runner demo_job ''f''" for fp
    by (simp add: confirm_cmds_def demo_env_def)
  have other: "c \<noteq> backup_cmd demo_runner demo_job (backup_of ''00'') \<and> c \<noteq> cleanup_cmd demo_runner demo_job (backup_of ''00'')"
    if "c \<in> set (rsync_cmd demo_runner demo_job # confirm_cmds demo_env demo_runner demo_job fp)" for c fp
    using demo_cmds(4) that unfolding same [of fp] list_all_iff by blast
  have kept: "snd (snd (demo_host c w)) = snd w"
    if "c \<noteq> backup_cmd demo_runner demo_job (backup_of ''00'')" "c \<noteq> cleanup_cmd demo_runner demo_job (backup_of ''00'')" for c w
    using that by (simp add: demo_host_def split: option.splits)
  have "snd (snd (demo_host c w)) = snd w"
    if "c \<in> set (rsync_cmd demo_runner demo_job # restore_cmd demo_runner demo_job (backup_of ''00'') #
          confirm_cmds demo_env demo_runner demo_job fp)" for c w fp
    using that other [of c fp] demo_cmds(1,3) by (intro kept) auto
  then show ?thesis using demo_cmds(1-3)
    by (simp add: host_laws_def demo_host_def)
qed

theorem guarded_upload_keeps_witness:
  "fst (sys_world (snd (run_upload demo_host demo_env demo_runner demo_job \<lparr>sys_trace = [], sys_world = (3, None)\<rparr>))) = 3 \<or>
   snd (sys_world (snd (run_upload demo_host demo_env demo_runner demo_job \<lparr>sys_trace = [], sys_world = (3, None)\<rparr>))) = Some 3"
proof -
  let ?s = "\<lparr>sys_trace = [], sys_world = (3, None)\<rparr> :: (nat \<times> nat option) sys"
  have v: "u_validate (uj_u demo_job) \<noteq> []" and n: "de_nonce demo_env demo_job = Some ''00''" by code_simp+
  have e: "jr_err (fst (run_upload demo_host demo_env demo_runner demo_job ?s)) \<noteq> None" by code_simp
  have l: "length (sys_trace (snd (run_upload demo_host demo_env demo_runner demo_job ?s))) = 4" by code_simp
  have "length (confirm_cmds demo_env demo_runner demo_job fp) = 2" for fp
    by (simp add: confirm_cmds_def demo_env_def demo_job_def demo_up_def)
  with guarded_upload_keeps [OF demo_host_laws n v e] l show ?thesis by (auto simp: demo_sys_def)
qed



text \<open>
  Includes: a file's own deployments and plans override those it includes, for every name it
  declares, and a name that it does not declare keeps the definition of the included files.
\<close>

theorem own_declarations_win:
  assumes "read_config l f anc = Inr c" and "abs_path (l_cwd l) f = Some rp"
    and "map_of (l_files l) rp = Some body" and "l_yaml l body = Some own"
    and "distinct (keys (c_deployments own))"
  shows "\<exists>inc. read_includes l f (c_include own) (anc @ [rp]) empty_config = Inr inc \<and>
    map_of (c_deployments c) = map_of (c_deployments inc) ++ map_of (c_deployments own)"
proof -
  from assms obtain inc where inc: "read_includes l f (c_include own) (anc @ [rp]) empty_config = Inr inc"
    and c: "c = merge_config inc own"
    by (subst (asm) read_config.simps) (auto split: sum.splits if_splits)
  have "map_of (c_deployments c) = map_of (c_deployments inc) ++ map_of (c_deployments own)"
    by (rule ext) (simp add: c merge_config_def map_of_merge_map [OF assms(5)] map_add_def)
  with inc show ?thesis by blast
qed

theorem own_declarations_win_witness:
  "\<exists>c (inc :: config). read_config demo_loader ''deploy.yaml'' [] = Inr c \<and>
     map_of (c_deployments c) = map_of (c_deployments inc) ++ map_of (c_deployments demo_cfg)"
proof -
  have "(case read_config demo_loader ''deploy.yaml'' [] of Inl _ \<Rightarrow> False | Inr _ \<Rightarrow> True)" by code_simp
  then obtain c where c: "read_config demo_loader ''deploy.yaml'' [] = Inr c"
    by (cases "read_config demo_loader ''deploy.yaml'' []") auto
  have h: "abs_path (l_cwd demo_loader) ''deploy.yaml'' = Some ''/w/deploy.yaml''"
    "map_of (l_files demo_loader) ''/w/deploy.yaml'' = Some ''x''"
    "distinct (keys (c_deployments demo_cfg))" by code_simp+
  have "l_yaml demo_loader ''x'' = Some demo_cfg" by (simp add: demo_loader_def)
  from own_declarations_win [OF c h(1,2) this h(3)] c show ?thesis
    by (elim exE conjE) (intro exI conjI)
qed

text \<open>
  A backup that is left behind: when the fingerprint of the local tree cannot be computed after the
  backup was made, the upload ends with an error after that one command, without a clean-up.
\<close>

lemma fingerprint_error_leaves_backup:
  assumes "u_validate (uj_u j) \<noteq> []" and "de_nonce env j = Some n"
    and "snd (fst (ex (backup_cmd r j (backup_of n)) (sys_world s))) = None"
    and "de_fingerprint env (uj_local j) (u_excludes (uj_u j)) = Inl e"
  shows "sys_trace (snd (run_upload ex env r j s)) = sys_trace s @ [backup_cmd r j (backup_of n)]"
  using assms
  by (auto simp: run_upload_def run_remote_def exec_run_def backup_cmd_def backup_of_def Let_def split: prod.splits)

end
