(* ===== verification/GoMatch.thy ===== *)
theory GoMatch
  imports GoStrings
begin

text \<open>
  Shell patterns: \<open>glob\<close> is the language of \<open>path.Match\<close> on single-byte characters; a malformed pattern
  matches nothing.
\<close>

section \<open>Patterns\<close>

definition get_esc :: "string \<Rightarrow> (char \<times> string) option" where
  "get_esc s =
     (case s of
        [] \<Rightarrow> None
      | c # t \<Rightarrow>
          if c = CHR ''-'' \<or> c = CHR '']'' then None
          else if c = CHR 0x5C then (case t of d # (e # u) \<Rightarrow> Some (d, e # u) | _ \<Rightarrow> None)
          else (case t of [] \<Rightarrow> None | _ # _ \<Rightarrow> Some (c, t)))"

lemma get_esc_shorter: "get_esc s = Some (c, t) \<Longrightarrow> length t < length s"
  by (auto simp: get_esc_def split: list.splits if_splits)

text \<open>One range of a character class; then the ranges up to the closing bracket: whether one of them
  contains \<open>r\<close>, and what follows the class.\<close>

definition class_range :: "string \<Rightarrow> ((char \<times> char) \<times> string) option" where
  "class_range s =
     (case get_esc s of
        Some (lo, d # u) \<Rightarrow>
          if d = CHR ''-'' then (case get_esc u of None \<Rightarrow> None | Some (hi, t) \<Rightarrow> Some ((lo, hi), t))
          else Some ((lo, lo), d # u)
      | _ \<Rightarrow> None)"

lemma class_range_shorter: "class_range s = Some (x, t) \<Longrightarrow> length t < length s"
  by (auto simp: class_range_def split: option.splits list.splits if_splits dest!: get_esc_shorter)

function class_match :: "bool \<Rightarrow> char \<Rightarrow> string \<Rightarrow> bool \<Rightarrow> (bool \<times> string) option" where
  "class_match first r s found =
     (if \<not> first \<and> has_prefix s '']'' then Some (found, drop 1 s)
      else
        (case class_range s of
           None \<Rightarrow> None
         | Some ((lo, hi), t) \<Rightarrow> class_match False r t (found \<or> (lo \<le> r \<and> r \<le> hi))))"
  by pat_completeness auto
termination
  by (relation "measure (\<lambda>(f, r, s, b). length s)") (auto dest: class_range_shorter)

declare class_match.simps [simp del]

lemma class_match_shorter: "class_match f r s b = Some (m, t) \<Longrightarrow> length t < length s"
proof (induction f r s b rule: class_match.induct)
  case (1 f r s b)
  show ?case
  proof (cases "\<not> f \<and> has_prefix s '']''")
    case True
    have "class_match f r s b = Some (b, drop 1 s)"
      by (subst class_match.simps) (use True in simp)
    with "1.prems" True show ?thesis by (cases s) auto
  next
    case False
    with "1.prems" obtain lo hi u where c: "class_range s = Some ((lo, hi), u)"
      and m: "class_match False r u (b \<or> (lo \<le> r \<and> r \<le> hi)) = Some (m, t)"
      by (auto simp: class_match.simps [of f r s b] split: option.splits)
    from "1.IH" [OF False c refl refl m] class_range_shorter [OF c] show ?thesis by simp
  qed
qed

function glob :: "string \<Rightarrow> string \<Rightarrow> bool" where
  "glob [] s = (s = [])"
| "glob (p # ps) s =
     (if p = CHR ''*'' then
        glob ps s \<or> (case s of [] \<Rightarrow> False | c # t \<Rightarrow> c \<noteq> CHR ''/'' \<and> glob (p # ps) t)
      else
        (case s of
           [] \<Rightarrow> False
         | c # t \<Rightarrow>
             if p = CHR ''?'' then c \<noteq> CHR ''/'' \<and> glob ps t
             else if p = CHR ''['' then
               (let neg = has_prefix ps ''^''; chunk = (if neg then drop 1 ps else ps) in
                case class_match True c chunk False of
                  None \<Rightarrow> False
                | Some (m, rest) \<Rightarrow> m \<noteq> neg \<and> glob rest t)
             else if p = CHR 0x5C then (case ps of [] \<Rightarrow> False | q # qs \<Rightarrow> c = q \<and> glob qs t)
             else c = p \<and> glob ps t))"
  by pat_completeness auto
termination
proof (relation "measures [\<lambda>(p, s). length p, \<lambda>(p, s). length s]", goal_cases)
  case (5 p ps s c t neg chunk mr m rest)
  then show ?case by (auto dest!: class_match_shorter split: if_splits)
qed auto

declare glob.simps [simp del]

section \<open>Malformed patterns\<close>

text \<open>\<open>path.Match\<close> and \<open>filepath.Glob\<close> report a pattern whose classes are not closed or whose last
  character is a backslash.\<close>

function pattern_ok :: "string \<Rightarrow> bool" where
  "pattern_ok [] = True"
| "pattern_ok (p # ps) =
     (if p = CHR ''['' then
        (case class_match True (CHR ''a'') (if has_prefix ps ''^'' then drop 1 ps else ps) False of
           None \<Rightarrow> False
         | Some (m, rest) \<Rightarrow> pattern_ok rest)
      else if p = CHR 0x5C then (case ps of [] \<Rightarrow> False | q # qs \<Rightarrow> pattern_ok qs)
      else pattern_ok ps)"
  by pat_completeness auto
termination
  by (relation "measure length") (auto dest!: class_match_shorter split: if_splits)

declare pattern_ok.simps [simp del]

text \<open>\<open>filepath.Glob\<close>: the matching files in order, or the error of a malformed pattern.\<close>

definition glob_result :: "string \<Rightarrow> (string, 'v) gomap \<Rightarrow> go_error + string list" where
  "glob_result pattern f =
     (if pattern_ok pattern then Inr (sort (remdups (filter (glob pattern) (keys f))))
      else Inl (Errorf ''syntax error in pattern'' [] []))"

end
