(* ===== verification/DeployStamp.thy ===== *)
theory DeployStamp
  imports DeployRun GoMatch
begin

text \<open>
  Deployment stamps (tools/deployctl/stamp.go): the fingerprint of a local tree, the exclude
  patterns, the script that leaves a stamp on a host, and the verification of the stamps against
  the declarations of the worktree.

  The local file system is a tree of nodes that does not change during a run; a node that cannot be
  read carries \<open>None\<close>. The hash function, the JSON encoder and decoder and the clock are parameters.
  A malformed exclude pattern matches nothing, as \<open>ok, _ :=\<close> has it.
\<close>

section \<open>Excludes\<close>

definition excluded :: "string \<Rightarrow> bool \<Rightarrow> string list \<Rightarrow> bool" where
  "excluded rel dir patterns =
     (\<exists>p \<in> set patterns.
        (let pat = trim_suffix p ''/'' in
         (has_suffix p ''/'' \<longrightarrow> dir) \<and>
         (if contains_str pat ''/'' then glob (trim_prefix pat ''/'') rel else glob pat (path_base rel))))"

section \<open>Fingerprints\<close>

text \<open>A node of the local file system with the mode bits that are hashed (type and permissions).\<close>

datatype fs_node =
    Regular nat "string option"
  | Symlink nat "string option"
  | Directory nat "fs_entry list option"
  | Special nat
and fs_entry = Entry (entry_name: string) (entry_node: fs_node)

definition node_mode :: "fs_node \<Rightarrow> nat" where
  "node_mode n = (case n of Regular m _ \<Rightarrow> m | Symlink m _ \<Rightarrow> m | Directory m _ \<Rightarrow> m | Special m \<Rightarrow> m)"

definition is_dir :: "fs_node \<Rightarrow> bool" where
  "is_dir n = (case n of Directory _ _ \<Rightarrow> True | _ \<Rightarrow> False)"

fun format_oct :: "nat \<Rightarrow> string" where
  "format_oct n = (if n < 8 then [digit_char n] else format_oct (n div 8) @ [digit_char (n mod 8)])"

declare format_oct.simps [simp del]

definition hash_node :: "string \<Rightarrow> fs_node \<Rightarrow> go_error + string" where
  "hash_node rel n =
     (let header = rel @ [CHR 0x00] @ format_oct (node_mode n) @ [CHR 0x00] in
      case n of
        Symlink _ None \<Rightarrow> Inl (Errorf ''readlink'' [rel] [])
      | Regular _ None \<Rightarrow> Inl (Errorf ''open'' [rel] [])
      | Symlink _ (Some t) \<Rightarrow> Inr (header @ t @ [CHR 0x00])
      | Regular _ (Some b) \<Rightarrow> Inr (header @ b @ [CHR 0x00])
      | _ \<Rightarrow> Inr (header @ [CHR 0x00]))"

text \<open>\<open>filepath.WalkDir\<close> below the root: the relative paths that are not excluded; an excluded directory
  is not entered.\<close>

fun walk_node :: "string list \<Rightarrow> string \<Rightarrow> fs_node \<Rightarrow> go_error + (string \<times> fs_node) list"
  and walk_entries :: "string list \<Rightarrow> string \<Rightarrow> fs_entry list \<Rightarrow> go_error + (string \<times> fs_node) list" where
  "walk_node excludes rel (Directory m entries) =
     (if excluded rel True excludes then Inr []
      else (case entries of
          None \<Rightarrow> Inl (Errorf ''readdir'' [rel] [])
        | Some es \<Rightarrow>
            (case walk_entries excludes (rel @ ''/'') es of
               Inl e \<Rightarrow> Inl e | Inr xs \<Rightarrow> Inr ((rel, Directory m entries) # xs))))"
| "walk_node excludes rel n = (if excluded rel False excludes then Inr [] else Inr [(rel, n)])"
| "walk_entries excludes pre [] = Inr []"
| "walk_entries excludes pre (Entry name n # es) =
     (case walk_node excludes (pre @ name) n of
        Inl e \<Rightarrow> Inl e
      | Inr xs \<Rightarrow> (case walk_entries excludes pre es of Inl e \<Rightarrow> Inl e | Inr ys \<Rightarrow> Inr (xs @ ys)))"

text \<open>\<open>lstat\<close> finds the node of a path; \<open>hash\<close> is the hexadecimal SHA-256 of a byte string.\<close>

definition local_fingerprint :: "(string \<Rightarrow> fs_node option) \<Rightarrow> (string \<Rightarrow> string) \<Rightarrow> string \<Rightarrow> string list \<Rightarrow>
    go_error + string" where
  "local_fingerprint lstat hash local excludes =
     (let root = trim_suffix local ''/'' in
      case lstat root of
        None \<Rightarrow> Inl (Errorf ''lstat'' [root] [])
      | Some n \<Rightarrow>
          (case n of
             Directory m entries \<Rightarrow>
               (case entries of
                  None \<Rightarrow> Inl (Errorf ''readdir'' [root] [])
                | Some es \<Rightarrow>
                    (case walk_entries excludes [] es of
                       Inl e \<Rightarrow> Inl e
                     | Inr rels \<Rightarrow>
                         (case map_res (\<lambda>(rel, x). hash_node rel x) (sort_key fst rels) of
                            Inl e \<Rightarrow> Inl e | Inr parts \<Rightarrow> Inr (hash (concat parts)))))
           | _ \<Rightarrow> (case hash_node (path_base root) n of Inl e \<Rightarrow> Inl e | Inr part \<Rightarrow> Inr (hash part))))"

section \<open>Stamps\<close>

record stamp =
  sm_remote :: string
  sm_local :: string
  sm_fingerprint :: string
  sm_worktree :: string
  sm_commit :: string
  sm_deployed_at :: string

text \<open>What the stamps take from outside: the file system, SHA-256 (as a byte string), the hexadecimal
  form of the first eight bytes of a hash, the JSON encoder and decoder, and the clock.\<close>

record stamp_env =
  sv_lstat :: "string \<Rightarrow> fs_node option"
  sv_hash :: "string \<Rightarrow> string"
  sv_key :: "string \<Rightarrow> string"
  sv_marshal :: "stamp \<Rightarrow> go_error + string"
  sv_unmarshal :: "string \<Rightarrow> go_error + stamp"
  sv_now :: string

definition stamp_of :: "stamp_env \<Rightarrow> deploy_runner \<Rightarrow> upload_job \<Rightarrow> string \<Rightarrow> stamp" where
  "stamp_of V r j fp =
     \<lparr>sm_remote = uj_remote j, sm_local = uj_local j, sm_fingerprint = fp, sm_worktree = dr_worktree r,
      sm_commit = dr_commit r, sm_deployed_at = sv_now V\<rparr>"

definition stamp_script :: "stamp_env \<Rightarrow> deploy_runner \<Rightarrow> upload_job \<Rightarrow> string \<Rightarrow> go_error + string" where
  "stamp_script V r j fp =
     (case sv_marshal V (stamp_of V r j fp) of
        Inl e \<Rightarrow> Inl e
      | Inr body \<Rightarrow>
          Inr (script_lines
            [''set -eu'',
             ''mkdir -p '' @ [CHR 0x22] @ ''$HOME/.isucon-deploy'' @ [CHR 0x22],
             ''cat > '' @ [CHR 0x22] @ ''$HOME/.isucon-deploy/'' @ sv_key V (uj_remote j) @ ''.json'' @ [CHR 0x22] @
               '' <<'' @ sq ''STAMP'',
             body,
             ''STAMP'']))"

text \<open>The environment of an upload, with the fingerprint and the stamp of this file.\<close>

definition upload_env :: "stamp_env \<Rightarrow> deploy_runner \<Rightarrow> (string \<Rightarrow> bool) \<Rightarrow> (upload_job \<Rightarrow> string option) \<Rightarrow> deploy_env" where
  "upload_env V r stat nonce =
     \<lparr>de_stat = stat, de_nonce = nonce, de_fingerprint = local_fingerprint (sv_lstat V) (sv_hash V),
      de_stamp = stamp_script V r\<rparr>"

section \<open>Verification\<close>

record declared_upload =
  du_local :: string
  du_excludes :: "string list"
  du_required :: bool

type_synonym declared = "(string, (string, declared_upload list) gomap) gomap"

definition declare_upload :: "deploy_runner \<Rightarrow> string \<Rightarrow> upload \<Rightarrow> string \<Rightarrow> declared \<Rightarrow> go_error + declared" where
  "declare_upload r name u host decl =
     (let e = \<lparr>e_host = host, e_vars = dr_vars r\<rparr> in
      case expand e (u_local u) of
        Inl x \<Rightarrow> Inl (Errorf ''deployment upload local'' [name, u_label u] [x])
      | Inr local \<Rightarrow>
          (case expand e (u_remote u) of
             Inl x \<Rightarrow> Inl (Errorf ''deployment upload remote'' [name, u_label u] [x])
           | Inr remote \<Rightarrow>
               (let of_host = lookup_or [] decl host;
                    d = \<lparr>du_local = local, du_excludes = u_excludes u, du_required = u_verify_required u\<rparr>
                in Inr (AList.update host (AList.update remote (lookup_or [] of_host remote @ [d]) of_host) decl))))"

definition declared_uploads :: "deploy_runner \<Rightarrow> config \<Rightarrow> go_error + declared" where
  "declared_uploads r cfg =
     fold_res (\<lambda>name. fold_res (\<lambda>u. fold_res (declare_upload r name u) (lookup_or [] (dr_roles r) (u_role u)))
         (case map_of (c_deployments cfg) name of None \<Rightarrow> [] | Some d \<Rightarrow> d_uploads d))
       (sort (keys (c_deployments cfg))) []"

text \<open>The fingerprints are cached by local path and excludes, errors are not.\<close>

definition cache_key :: "declared_upload \<Rightarrow> string" where
  "cache_key u = du_local u @ [CHR 0x00] @ join_with [CHR 0x00] (du_excludes u)"

definition cached_fingerprint :: "stamp_env \<Rightarrow> declared_upload \<Rightarrow> (string, string) gomap \<Rightarrow>
    (go_error + string) \<times> (string, string) gomap" where
  "cached_fingerprint V u cache =
     (case map_of cache (cache_key u) of
        Some v \<Rightarrow> (Inr v, cache)
      | None \<Rightarrow>
          (case local_fingerprint (sv_lstat V) (sv_hash V) (du_local u) (du_excludes u) of
             Inl e \<Rightarrow> (Inl e, cache)
           | Inr v \<Rightarrow> (Inr v, AList.update (cache_key u) v cache)))"

text \<open>The bookkeeping of one host: the problems, the number of checked uploads, the pairs of remote and
  local path that have been seen, and the cache shared by all hosts.\<close>

record check_state =
  ck_problems :: "go_error list"
  ck_checked :: nat
  ck_seen :: "string list"
  ck_cache :: "(string, string) gomap"

definition seen_key :: "string \<Rightarrow> string \<Rightarrow> string" where
  "seen_key remote local = remote @ [CHR 0x00] @ local"

definition check_upload_stamp :: "stamp_env \<Rightarrow> deploy_runner \<Rightarrow> stamp \<Rightarrow> declared_upload \<Rightarrow> check_state \<Rightarrow> check_state" where
  "check_upload_stamp V r sm u st =
     (if du_local u \<noteq> sm_local sm then st
      else
        (case cached_fingerprint V u (ck_cache st) of (fp, cache) \<Rightarrow>
          st\<lparr>ck_checked := Suc (ck_checked st),
             ck_seen := seen_key (sm_remote sm) (du_local u) # ck_seen st,
             ck_cache := cache,
             ck_problems := ck_problems st @
               (case fp of
                  Inl e \<Rightarrow> [Errorf ''cannot read local'' [sm_remote sm, sm_local sm] [e]]
                | Inr v \<Rightarrow>
                    if v \<noteq> sm_fingerprint sm
                    then [Errorf ''differs from local'' [sm_remote sm, sm_local sm,
                       (if sm_worktree sm \<noteq> dr_worktree r then sm_worktree sm else ''this worktree''),
                       take 12 (sm_commit sm), sm_deployed_at sm] []]
                    else [])\<rparr>))"

definition check_line :: "stamp_env \<Rightarrow> deploy_runner \<Rightarrow> (string, declared_upload list) gomap \<Rightarrow> string \<Rightarrow> check_state \<Rightarrow>
    check_state" where
  "check_line V r of_host line st =
     (if trim_space line = [] then st
      else
        (case sv_unmarshal V line of
           Inl e \<Rightarrow> st\<lparr>ck_problems := ck_problems st @ [Errorf ''unreadable stamp'' [] [e]]\<rparr>
         | Inr sm \<Rightarrow> fold (check_upload_stamp V r sm) (lookup_or [] of_host (sm_remote sm)) st))"

definition missing_stamps :: "(string, declared_upload list) gomap \<Rightarrow> string list \<Rightarrow> go_error list" where
  "missing_stamps of_host seen =
     concat (map (\<lambda>(remote, us).
       map (\<lambda>u. Errorf ''missing deployment stamp'' [remote, du_local u] [])
         (filter (\<lambda>u. du_required u \<and> seen_key remote (du_local u) \<notin> set seen) us)) of_host)"

definition cat_stamps :: string where
  "cat_stamps = script_lines [''cat '' @ [CHR 0x22] @ ''$HOME/.isucon-deploy'' @ [CHR 0x22] @ ''/*.json 2>/dev/null || true'']"

definition verify_result :: "string \<Rightarrow> string \<Rightarrow> go_error option \<Rightarrow> job_result" where
  "verify_result host output err =
     \<lparr>jr_label = ''deployed content matches this worktree'', jr_host = host, jr_output = output, jr_err = err\<rparr>"

definition verify_host :: "'w executor \<Rightarrow> stamp_env \<Rightarrow> deploy_runner \<Rightarrow> declared \<Rightarrow> string \<Rightarrow>
    'w sys \<times> (string, string) gomap \<Rightarrow> job_result \<times> 'w sys \<times> (string, string) gomap" where
  "verify_host ex V r decl host sc =
     (case exec_run ex (remote_cmd r host cat_stamps) (fst sc) of ((out, err), s1) \<Rightarrow>
        (case err of
           Some e \<Rightarrow> (verify_result host (trim_space out) (Some (Errorf ''ssh'' [] [e])), s1, snd sc)
         | None \<Rightarrow>
             (let of_host = lookup_or [] decl host;
                  st = fold (check_line V r of_host) (split_char (CHR 0x0A) out)
                    \<lparr>ck_problems = [], ck_checked = 0, ck_seen = [], ck_cache = snd sc\<rparr>;
                  problems = ck_problems st @ missing_stamps of_host (ck_seen st)
              in (verify_result host (format_nat (ck_checked st) @ '' stamped destination(s) match'')
                    (if problems = [] then None
                     else Some (Errorf ''deployed destinations do not match this worktree'' [] problems)),
                  s1, ck_cache st))))"

definition verify_deployed :: "'w executor \<Rightarrow> stamp_env \<Rightarrow> (nat \<Rightarrow> nat list) \<Rightarrow> deploy_runner \<Rightarrow> config \<Rightarrow> 'w sys \<Rightarrow>
    go_error option \<times> 'w sys" where
  "verify_deployed ex V sch r cfg s =
     (case declared_uploads r cfg of
        Inl e \<Rightarrow> (Some e, s)
      | Inr decl \<Rightarrow>
          (case sched_run zero_result sch (verify_host ex V r decl) (sort (keys decl)) (s, []) of (results, s', _) \<Rightarrow>
             (report_results results, s')))"

end
