(* ===== verification/DeployCli.thy ===== *)
theory DeployCli
  imports DeployPlan DeployStamp
begin

text \<open>
  The command line of \<open>deployctl\<close> (tools/deployctl/main.go and check_roles.go): the values of
  \<open>-role\<close> and \<open>-var\<close>, the four commands and the role check.

  The package \<open>flag\<close> is a parameter: \<open>raw_flags\<close> is what it found, in particular the arguments of
  \<open>-role\<close> and \<open>-var\<close> in the order in which it calls \<open>Set\<close>, and the parse error after them.
\<close>

section \<open>Flag values\<close>

definition role_set :: "string \<Rightarrow> (string, string list) gomap \<Rightarrow> go_error + (string, string list) gomap" where
  "role_set value roles =
     (case cut_char (CHR ''='') value of
        None \<Rightarrow> Inl (Errorf ''invalid role'' [value] [])
      | Some (name, raw) \<Rightarrow>
          if \<not> name_ok name then Inl (Errorf ''invalid role'' [value] [])
          else if raw = [] then Inr (AList.update name [] roles)
          else
            (case fold_res
                (\<lambda>h (seen, m).
                  let host = trim_space h in
                  if \<not> name_ok host then Inl (Errorf ''invalid host in role'' [name, host] [])
                  else if host \<in> set seen then Inr (seen, m)
                  else Inr (host # seen, AList.update name (lookup_or [] m name @ [host]) m))
                (split_char (CHR '','') raw) ([], roles) of
               Inl e \<Rightarrow> Inl e
             | Inr (_, m) \<Rightarrow> Inr m))"

definition var_set :: "string \<Rightarrow> (string, string) gomap \<Rightarrow> go_error + (string, string) gomap" where
  "var_set value vars =
     (case cut_char (CHR ''='') value of
        None \<Rightarrow> Inl (Errorf ''invalid variable'' [value] [])
      | Some (name, raw) \<Rightarrow>
          if \<not> name_ok name \<or> (raw \<noteq> [] \<and> \<not> value_ok raw) then Inl (Errorf ''invalid variable'' [value] [])
          else Inr (AList.update name raw vars))"

datatype setting = SetRole string | SetVar string

record raw_flags =
  rf_config :: string
  rf_user :: string
  rf_opts :: string
  rf_state_file :: string
  rf_parallel :: int
  rf_dry :: bool
  rf_settings :: "setting list"
  rf_error :: "go_error option"
  rf_rest :: "string list"

definition apply_setting :: "setting \<Rightarrow> (string, string list) gomap \<times> (string, string) gomap \<Rightarrow>
    go_error + ((string, string list) gomap \<times> (string, string) gomap)" where
  "apply_setting s rv =
     (case s of
        SetRole v \<Rightarrow> (case role_set v (fst rv) of Inl e \<Rightarrow> Inl e | Inr m \<Rightarrow> Inr (m, snd rv))
      | SetVar v \<Rightarrow> (case var_set v (snd rv) of Inl e \<Rightarrow> Inl e | Inr m \<Rightarrow> Inr (fst rv, m)))"

definition parse_settings :: "raw_flags \<Rightarrow> go_error + ((string, string list) gomap \<times> (string, string) gomap)" where
  "parse_settings f =
     (case fold_res apply_setting (rf_settings f) ([], []) of
        Inl e \<Rightarrow> Inl e
      | Inr rv \<Rightarrow>
          (case rf_error f of
             Some e \<Rightarrow> Inl e
           | None \<Rightarrow> if rf_rest f \<noteq> [] then Inl (Errorf ''unexpected arguments'' (rf_rest f) []) else Inr rv))"

text \<open>\<open>provenance\<close>: the worktree and the commit that git reports, or \<open>unknown\<close>.\<close>

definition git_output :: "string option \<Rightarrow> string" where
  "git_output out = (case out of None \<Rightarrow> ''unknown'' | Some s \<Rightarrow> trim_space s)"

definition new_deploy_runner :: "string option \<times> string option \<Rightarrow> raw_flags \<Rightarrow> bool \<Rightarrow>
    (string, string list) gomap \<times> (string, string) gomap \<Rightarrow> deploy_runner" where
  "new_deploy_runner git f dry rv =
     \<lparr>dr_user = rf_user f, dr_opts = str_fields (rf_opts f), dr_roles = fst rv, dr_vars = snd rv,
      dr_dry = dry, dr_parallel = rf_parallel f, dr_worktree = git_output (fst git), dr_commit = git_output (snd git)\<rparr>"

section \<open>Role check\<close>

definition role_check_script :: "string \<Rightarrow> bool \<Rightarrow> bool \<Rightarrow> bool \<Rightarrow> string" where
  "role_check_script service app nginx mysql =
     (let expected = (\<lambda>b. if b then ''active'' else ''inactive''); q = [CHR 0x22] in script_lines
       [''set -eu'',
        ''check_unit() {'',
        ''  unit=$1'',
        ''  expected=$2'',
        ''  actual=$(systemctl is-active '' @ q @ ''$unit'' @ q @ '' 2>/dev/null || true)'',
        ''  if [ '' @ q @ ''$expected'' @ q @ '' = active ]; then'',
        ''    [ '' @ q @ ''$actual'' @ q @ '' = active ] || { echo '' @ q @
          ''$unit: expected active, got ${actual:-missing}'' @ q @ '' >&2; exit 1; }'',
        ''  else'',
        ''    [ '' @ q @ ''$actual'' @ q @ '' != active ] || { echo '' @ q @
          ''$unit: expected inactive, got active'' @ q @ '' >&2; exit 1; }'',
        ''  fi'',
        ''}'',
        ''check_unit '' @ sq service @ '' '' @ expected app,
        ''check_unit nginx '' @ expected nginx,
        ''check_unit mysql '' @ expected mysql,
        ''echo '' @ sq ''roles OK''])"

text \<open>The units and roles of \<open>extra_service_roles\<close>; a later entry of a unit replaces an earlier one.\<close>

definition extra_units :: "deploy_runner \<Rightarrow> (string, string) gomap" where
  "extra_units r =
     fold (\<lambda>pair m. case cut_char (CHR '':'') pair of
         Some (unit, role) \<Rightarrow> AList.update unit role m | None \<Rightarrow> AList.update pair [] m)
       (filter (\<lambda>p. p \<noteq> []) (split_char (CHR '','') (lookup_or [] (dr_vars r) ''extra_service_roles''))) []"

definition role_script_for :: "deploy_runner \<Rightarrow> string \<Rightarrow> string \<Rightarrow> string" where
  "role_script_for r service host =
     role_check_script service (host \<in> set (lookup_or [] (dr_roles r) ''app''))
       (host \<in> set (lookup_or [] (dr_roles r) ''nginx'')) (host \<in> set (lookup_or [] (dr_roles r) ''mysql'')) @
     concat (map (\<lambda>unit. ''check_unit '' @ sq unit @ '' '' @
         (if host \<in> set (lookup_or [] (dr_roles r) (lookup_or [] (extra_units r) unit)) then ''active'' else ''inactive'') @ nl)
       (sort (keys (extra_units r))))"

definition run_role_check :: "'w executor \<Rightarrow> deploy_runner \<Rightarrow> string \<times> string \<Rightarrow> 'w sys \<Rightarrow> job_result \<times> 'w sys" where
  "run_role_check ex r job s =
     (case exec_run ex (remote_cmd r (fst job) (snd job)) s of ((out, err), s') \<Rightarrow>
        (\<lparr>jr_label = ''roles'', jr_host = fst job, jr_output = trim_space out,
          jr_err = (case err of None \<Rightarrow> None | Some e \<Rightarrow> Some (Errorf ''ssh'' [] [e]))\<rparr>, s'))"

definition check_roles :: "(string \<Rightarrow> string) \<Rightarrow> 'w executor \<Rightarrow> (nat \<Rightarrow> nat list) \<Rightarrow> deploy_runner \<Rightarrow> string \<Rightarrow> 'w sys \<Rightarrow>
    (string list \<times> go_error option) \<times> 'w sys" where
  "check_roles quote ex sch r service s =
     (let jobs = map (\<lambda>h. (h, role_script_for r service h)) (lookup_or [] (dr_roles r) ''all'') in
      if dr_dry r then
        ((concat (map (\<lambda>j. [''[dry-run] '' @ format_command quote ''ssh'' (ssh_base r @ [ssh_target r (fst j), ''sh -s'']) @
            '' <<'' @ sq ''EOF'', snd j @ ''EOF'']) jobs), None), s)
      else (case sched_run zero_result sch (run_role_check ex r) jobs s of (results, s') \<Rightarrow>
        (([], report_results results), s')))"

definition check_extra :: "(string, string list) gomap \<Rightarrow> string \<Rightarrow> go_error option" where
  "check_extra roles pair =
     (if pair = [] then None
      else (case cut_char (CHR '':'') pair of
          None \<Rightarrow> Some (Errorf ''invalid extra_service_roles entry'' [pair] [])
        | Some (unit, role) \<Rightarrow>
            if \<not> name_ok unit \<or> \<not> name_ok role \<or> role \<notin> set (keys roles)
            then Some (Errorf ''invalid extra_service_roles entry'' [pair] []) else None))"

definition check_role_flags :: "(string, string list) gomap \<times> (string, string) gomap \<Rightarrow> raw_flags \<Rightarrow> go_error + string" where
  "check_role_flags rv f =
     (let service = lookup_or [] (snd rv) ''service'' in
      if rf_parallel f < 1 then Inl (Errorf ''-parallel must be at least 1'' [] [])
      else if \<not> name_ok (rf_user f) then Inl (Errorf ''invalid SSH user'' [rf_user f] [])
      else if service = [] \<or> \<not> name_ok service then Inl (Errorf ''-var service=<systemd-unit> is required'' [] [])
      else (case first_error (\<lambda>role. if lookup_or [] (fst rv) role = [] then Some (Errorf ''role has no hosts'' [role] []) else None)
            [''all'', ''app'', ''nginx''] of
          Some e \<Rightarrow> Inl e
        | None \<Rightarrow>
            if ''mysql'' \<notin> set (keys (fst rv)) then Inl (Errorf ''mysql role must be declared, even when empty'' [] [])
            else (case first_error (check_extra (fst rv))
                  (split_char (CHR '','') (lookup_or [] (snd rv) ''extra_service_roles'')) of
                Some e \<Rightarrow> Inl e
              | None \<Rightarrow> Inr service)))"

section \<open>Commands\<close>

text \<open>What the commands take from outside; \<open>cl_flags\<close> is the flag parser of a command and \<open>cl_state\<close> the
  result of \<open>os.Stat\<close> on the marker of an active run: present, absent or an error.\<close>

datatype marker = Present | Absent | StatError go_error

record 'w cli_env =
  cl_ex :: "'w executor"
  cl_stamps :: stamp_env
  cl_loader :: loader
  cl_flags :: "string \<Rightarrow> string list \<Rightarrow> raw_flags"
  cl_state :: "string \<Rightarrow> marker"
  cl_git :: "string option \<times> string option"
  cl_stat :: "string \<Rightarrow> bool"
  cl_nonce :: "upload_job \<Rightarrow> string option"
  cl_quote :: "string \<Rightarrow> string"
  cl_sched :: "nat \<Rightarrow> nat \<Rightarrow> nat list"

definition run_check_roles :: "'w cli_env \<Rightarrow> string list \<Rightarrow> 'w sys \<Rightarrow> go_error option \<times> 'w sys" where
  "run_check_roles E args s =
     (let f = cl_flags E ''check-roles'' args in
      case parse_settings f of
        Inl e \<Rightarrow> (Some e, s)
      | Inr rv \<Rightarrow>
          (case check_role_flags rv f of
             Inl e \<Rightarrow> (Some e, s)
           | Inr service \<Rightarrow>
               (case check_roles (cl_quote E) (cl_ex E) (cl_sched E 0)
                   (new_deploy_runner (cl_git E) f (rf_dry f) rv) service s of ((_, err), s') \<Rightarrow> (err, s'))))"

definition run_verify :: "'w cli_env \<Rightarrow> string list \<Rightarrow> 'w sys \<Rightarrow> go_error option \<times> 'w sys" where
  "run_verify E args s =
     (let f = cl_flags E ''verify'' args in
      case parse_settings f of
        Inl e \<Rightarrow> (Some e, s)
      | Inr rv \<Rightarrow>
          if \<not> name_ok (rf_user f) then (Some (Errorf ''invalid SSH user'' [rf_user f] []), s)
          else (case load_config (cl_loader E) (rf_config f) of
              Inl e \<Rightarrow> (Some e, s)
            | Inr cfg \<Rightarrow>
                verify_deployed (cl_ex E) (cl_stamps E) (cl_sched E 0) (new_deploy_runner (cl_git E) f False rv) cfg s))"

definition check_apply_flags :: "'w cli_env \<Rightarrow> raw_flags \<Rightarrow> go_error option" where
  "check_apply_flags E f =
     (if rf_parallel f < 1 then Some (Errorf ''-parallel must be at least 1'' [] [])
      else if \<not> name_ok (rf_user f) then Some (Errorf ''invalid SSH user'' [rf_user f] [])
      else if rf_state_file f = [] then Some (Errorf ''-run-state-file must not be empty'' [] [])
      else if rf_dry f then None
      else (case cl_state E (rf_state_file f) of
          Present \<Rightarrow> Some (Errorf ''active benchmark run exists'' [rf_state_file f] [])
        | Absent \<Rightarrow> None
        | StatError e \<Rightarrow> Some (Errorf ''cannot inspect benchmark state'' [rf_state_file f] [e])))"

definition run_apply :: "'w cli_env \<Rightarrow> string \<Rightarrow> string \<Rightarrow> string list \<Rightarrow> 'w sys \<Rightarrow> go_error option \<times> 'w sys" where
  "run_apply E command name args s =
     (let f = cl_flags E (command @ '' '' @ name) args in
      case parse_settings f of
        Inl e \<Rightarrow> (Some e, s)
      | Inr rv \<Rightarrow>
     (case check_apply_flags E f of
        Some e \<Rightarrow> (Some e, s)
      | None \<Rightarrow>
     (case load_config (cl_loader E) (rf_config f) of
        Inl e \<Rightarrow> (Some e, s)
      | Inr cfg \<Rightarrow>
          (let r = new_deploy_runner (cl_git E) f (rf_dry f) rv;
               env = upload_env (cl_stamps E) r (cl_stat E) (cl_nonce E)
           in if command = ''apply'' then
                (case map_of (c_deployments cfg) name of
                   None \<Rightarrow> (Some (Errorf ''unknown deployment'' (name # sort (keys (c_deployments cfg))) []), s)
                 | Some d \<Rightarrow>
                     (case apply_deployment (cl_quote E) (cl_ex E) env (cl_sched E) r d s of ((_, err), s') \<Rightarrow> (err, s')))
              else
                (case map_of (c_plans cfg) name of
                   None \<Rightarrow> (Some (Errorf ''unknown plan'' (name # sort (keys (c_plans cfg))) []), s)
                 | Some p \<Rightarrow>
                     (let res = apply_plan (cl_quote E) (cl_ex E) env (cl_sched E) r cfg p s
                      in (po_err res, ps_sys (po_state res))))))))"

definition run_deployctl :: "'w cli_env \<Rightarrow> string list \<Rightarrow> 'w sys \<Rightarrow> go_error option \<times> 'w sys" where
  "run_deployctl E args s =
     (case args of
        [] \<Rightarrow> (None, s)
      | a # rest \<Rightarrow>
          if a \<in> set [''-h'', ''--help'', ''help''] then (None, s)
          else if a = ''check-roles'' then run_check_roles E rest s
          else if a = ''verify'' then run_verify E rest s
          else (case rest of
              [] \<Rightarrow> (Some (Errorf ''usage'' [] []), s)
            | name # flags \<Rightarrow>
                if a \<noteq> ''apply'' \<and> a \<noteq> ''apply-plan'' then (Some (Errorf ''usage'' [] []), s)
                else run_apply E a name flags s))"

end
