(* ===== verification/DeployCliProperties.thy ===== *)
theory DeployCliProperties
  imports DeployCli DeployRunFacts
begin

text \<open>
  The properties of the command line and of the stamps of \<open>deployctl\<close>: dry runs and the guard of an
  active benchmark run, the values of the flags, the meaning of a successful verification and the
  independence of a fingerprint from what is excluded.
\<close>

section \<open>Fingerprints ignore what is excluded\<close>

text \<open>The tree without its excluded nodes.\<close>

fun prune_node :: "string list \<Rightarrow> string \<Rightarrow> fs_node \<Rightarrow> fs_node option"
  and prune_entries :: "string list \<Rightarrow> string \<Rightarrow> fs_entry list \<Rightarrow> fs_entry list" where
  "prune_node ex rel (Directory m entries) =
     (if excluded rel True ex then None
      else Some (Directory m (case entries of None \<Rightarrow> None | Some es \<Rightarrow> Some (prune_entries ex (rel @ ''/'') es))))"
| "prune_node ex rel n = (if excluded rel False ex then None else Some n)"
| "prune_entries ex pre [] = []"
| "prune_entries ex pre (Entry name n # es) =
     (case prune_node ex (pre @ name) n of None \<Rightarrow> prune_entries ex pre es
      | Some n' \<Rightarrow> Entry name n' # prune_entries ex pre es)"

text \<open>What the hash sees of a node: a directory's entries are not part of it.\<close>

definition same_hash :: "string \<times> fs_node \<Rightarrow> string \<times> fs_node \<Rightarrow> bool" where
  "same_hash a b \<longleftrightarrow> fst a = fst b \<and> hash_node (fst a) (snd a) = hash_node (fst b) (snd b)"

lemma hash_directory: "hash_node rel (Directory m a) = hash_node rel (Directory m b)"
  by (simp add: hash_node_def node_mode_def)

definition res_rel :: "('a \<Rightarrow> 'b \<Rightarrow> bool) \<Rightarrow> go_error + 'a list \<Rightarrow> go_error + 'b list \<Rightarrow> bool" where
  "res_rel R x y = (case (x, y) of (Inl e, Inl f) \<Rightarrow> e = f | (Inr a, Inr b) \<Rightarrow> list_all2 R a b | _ \<Rightarrow> False)"

lemma res_rel_cases:
  "res_rel R x y \<longleftrightarrow> (\<exists>e. x = Inl e \<and> y = Inl e) \<or> (\<exists>a b. x = Inr a \<and> y = Inr b \<and> list_all2 R a b)"
  by (auto simp: res_rel_def split: sum.splits)

lemma prune_same:
  "(case prune_node ex rel n of
      None \<Rightarrow> walk_node ex rel n = Inr []
    | Some n' \<Rightarrow> res_rel same_hash (walk_node ex rel n) (walk_node ex rel n'))"
  "res_rel same_hash (walk_entries ex pre es) (walk_entries ex pre (prune_entries ex pre es))"
proof (induction ex rel n and ex pre es rule: prune_node_prune_entries.induct)
  case (1 ex rel m entries)
  show ?case
  proof (cases entries)
    case (Some es)
    show ?thesis
    proof (cases "excluded rel True ex")
      case False
      have "same_hash (rel, Directory m a) (rel, Directory m b)" for a b
        by (simp add: same_hash_def hash_directory)
      with 1 Some False show ?thesis by (auto simp: res_rel_cases)
    qed (simp add: Some)
  qed (simp add: res_rel_cases)
next
  case (4 ex pre name n es)
  then show ?case
    by (auto simp: res_rel_cases split: option.splits intro: list_all2_appendI)
qed (auto simp: res_rel_cases same_hash_def)

lemma insort_same:
  assumes "list_all2 same_hash xs ys" and "same_hash x y"
  shows "list_all2 same_hash (insort_key fst x xs) (insort_key fst y ys)"
  using assms(1)
proof (induction rule: list_all2_induct)
  case (Cons a as b bs)
  moreover from Cons have "fst a = fst b" by (simp add: same_hash_def)
  moreover have "fst x = fst y" using assms(2) by (simp add: same_hash_def)
  ultimately show ?case using assms(2) by simp
qed (use assms(2) in simp)

lemma sort_same: "list_all2 same_hash xs ys \<Longrightarrow> list_all2 same_hash (sort_key fst xs) (sort_key fst ys)"
  by (induction rule: list_all2_induct) (auto intro: insort_same)

lemma map_res_same:
  "list_all2 same_hash xs ys \<Longrightarrow> map_res (\<lambda>(rel, x). hash_node rel x) xs = map_res (\<lambda>(rel, x). hash_node rel x) ys"
proof (induction rule: list_all2_induct)
  case (Cons a as b bs)
  from Cons(1) have "hash_node (fst a) (snd a) = hash_node (fst b) (snd b)" unfolding same_hash_def by blast
  with Cons(3) show ?case by (simp only: map_res.simps case_prod_beta)
qed simp

lemma walk_prune_parts:
  "(case walk_entries ex [] es of Inl e \<Rightarrow> Inl e
    | Inr rels \<Rightarrow> map_res (\<lambda>(rel, x). hash_node rel x) (sort_key fst rels)) =
   (case walk_entries ex [] (prune_entries ex [] es) of Inl e \<Rightarrow> Inl e
    | Inr rels \<Rightarrow> map_res (\<lambda>(rel, x). hash_node rel x) (sort_key fst rels))"
  using prune_same(2) [of ex "[]" es] map_res_same [OF sort_same]
  by (auto simp: res_rel_cases)

section \<open>The cache of fingerprints\<close>

text \<open>Declarations whose cache keys are distinct: no NUL character and no empty pattern.\<close>

definition plain_decl :: "declared_upload \<Rightarrow> bool" where
  "plain_decl u \<longleftrightarrow> CHR 0x00 \<notin> set (du_local u) \<and> (\<forall>x \<in> set (du_excludes u). x \<noteq> [] \<and> CHR 0x00 \<notin> set x)"

definition own_fingerprint :: "stamp_env \<Rightarrow> declared_upload \<Rightarrow> go_error + string" where
  "own_fingerprint V u = local_fingerprint (sv_lstat V) (sv_hash V) (du_local u) (du_excludes u)"

definition cache_ok :: "stamp_env \<Rightarrow> (string, string) gomap \<Rightarrow> bool" where
  "cache_ok V cache \<longleftrightarrow> (\<forall>u v. plain_decl u \<longrightarrow> map_of cache (cache_key u) = Some v \<longrightarrow> own_fingerprint V u = Inr v)"

lemma cache_key_inj:
  assumes "plain_decl u" and "plain_decl v" and "cache_key u = cache_key v"
  shows "du_local u = du_local v \<and> du_excludes u = du_excludes v"
proof -
  have split: "split_char (CHR 0x00) (cache_key w) = du_local w # (if du_excludes w = [] then [[]] else du_excludes w)"
    if "plain_decl w" for w
  proof -
    have "split_char (CHR 0x00) (cache_key w) = du_local w # split_char (CHR 0x00) (join_with [CHR 0x00] (du_excludes w))"
      unfolding cache_key_def append_Cons append_Nil using that by (intro split_char_append) (simp add: plain_decl_def)
    then show ?thesis using that by (auto simp: plain_decl_def split_join)
  qed
  from split [OF assms(1)] split [OF assms(2)] assms(3)
  have e: "du_local u # (if du_excludes u = [] then [[]] else du_excludes u)
      = du_local v # (if du_excludes v = [] then [[]] else du_excludes v)" by simp
  have "[] \<notin> set (du_excludes u)" "[] \<notin> set (du_excludes v)" using assms(1,2) by (auto simp: plain_decl_def)
  with e show ?thesis by (cases "du_excludes u"; cases "du_excludes v") auto
qed

lemma cached_fingerprint_ok:
  assumes "cache_ok V cache" and "plain_decl u" and "cached_fingerprint V u cache = (fp, cache')"
  shows "fp = own_fingerprint V u \<and> cache_ok V cache'"
proof (cases "map_of cache (cache_key u)")
  case (Some v)
  then have "fp = Inr v" "cache' = cache" using assms(3) by (auto simp: cached_fingerprint_def)
  with Some assms(1,2) show ?thesis unfolding cache_ok_def by auto
next
  case None
  show ?thesis
  proof (cases "own_fingerprint V u")
    case (Inl e)
    with None assms show ?thesis by (auto simp: cached_fingerprint_def own_fingerprint_def)
  next
    case (Inr v)
    then have c: "fp = Inr v" "cache' = AList.update (cache_key u) v cache"
      using None assms(3) by (auto simp: cached_fingerprint_def own_fingerprint_def)
    have "own_fingerprint V w = Inr x" if "plain_decl w" "map_of cache' (cache_key w) = Some x" for w x
    proof (cases "cache_key w = cache_key u")
      case True
      then have "du_local w = du_local u \<and> du_excludes w = du_excludes u"
        using that(1) assms(2) by (intro cache_key_inj)
      with Inr that(2) True show ?thesis by (simp add: c(2) update_conv' own_fingerprint_def)
    next
      case False
      with that assms(1) show ?thesis by (simp add: c(2) update_conv' cache_ok_def)
    qed
    then show ?thesis using c Inr by (simp add: cache_ok_def)
  qed
qed

section \<open>What a successful verification means\<close>

lemma check_upload_stamp_step:
  assumes "cache_ok V (ck_cache st)" and "plain_decl u"
  shows "cache_ok V (ck_cache (check_upload_stamp V r sm u st)) \<and>
    (\<exists>ps. ck_problems (check_upload_stamp V r sm u st) = ck_problems st @ ps \<and>
      (ps = [] \<longrightarrow> du_local u = sm_local sm \<longrightarrow> own_fingerprint V u = Inr (sm_fingerprint sm))) \<and>
    set (ck_seen (check_upload_stamp V r sm u st)) =
      set (ck_seen st) \<union> (if du_local u = sm_local sm then {seen_key (sm_remote sm) (du_local u)} else {})"
proof (cases "du_local u = sm_local sm")
  case True
  obtain fp cache where c: "cached_fingerprint V u (ck_cache st) = (fp, cache)" by fastforce
  from cached_fingerprint_ok [OF assms c] have ok: "fp = own_fingerprint V u" "cache_ok V cache" by auto
  show ?thesis
    using True ok by (auto simp: check_upload_stamp_def c split: sum.splits)
qed (use assms in \<open>simp add: check_upload_stamp_def\<close>)

lemma check_uploads_fold:
  assumes "cache_ok V (ck_cache st)" and "\<forall>u \<in> set us. plain_decl u"
  shows "cache_ok V (ck_cache (fold (check_upload_stamp V r sm) us st)) \<and>
    (\<exists>ps. ck_problems (fold (check_upload_stamp V r sm) us st) = ck_problems st @ ps \<and>
      (ps = [] \<longrightarrow> (\<forall>u \<in> set us. du_local u = sm_local sm \<longrightarrow> own_fingerprint V u = Inr (sm_fingerprint sm)))) \<and>
    set (ck_seen (fold (check_upload_stamp V r sm) us st)) =
      set (ck_seen st) \<union> (if \<exists>u \<in> set us. du_local u = sm_local sm then {seen_key (sm_remote sm) (sm_local sm)} else {})"
  using assms
proof (induction us arbitrary: st)
  case (Cons u us)
  let ?st = "check_upload_stamp V r sm u st"
  have p: "plain_decl u" "\<forall>u \<in> set us. plain_decl u" using Cons.prems(2) by auto
  from check_upload_stamp_step [OF Cons.prems(1) p(1), of r sm] obtain ps where
    1: "cache_ok V (ck_cache ?st)" "ck_problems ?st = ck_problems st @ ps"
      "ps = [] \<longrightarrow> du_local u = sm_local sm \<longrightarrow> own_fingerprint V u = Inr (sm_fingerprint sm)"
      "set (ck_seen ?st) = set (ck_seen st) \<union> (if du_local u = sm_local sm then {seen_key (sm_remote sm) (du_local u)} else {})"
    by blast
  from Cons.IH [OF 1(1) p(2)] obtain qs where
    2: "cache_ok V (ck_cache (fold (check_upload_stamp V r sm) us ?st))"
      "ck_problems (fold (check_upload_stamp V r sm) us ?st) = ck_problems ?st @ qs"
      "qs = [] \<longrightarrow> (\<forall>u \<in> set us. du_local u = sm_local sm \<longrightarrow> own_fingerprint V u = Inr (sm_fingerprint sm))"
      "set (ck_seen (fold (check_upload_stamp V r sm) us ?st)) = set (ck_seen ?st) \<union>
         (if \<exists>u \<in> set us. du_local u = sm_local sm then {seen_key (sm_remote sm) (sm_local sm)} else {})"
    by blast
  have "ck_problems (fold (check_upload_stamp V r sm) (u # us) st) = ck_problems st @ (ps @ qs)"
    using 1(2) 2(2) by simp
  moreover have "ps @ qs = [] \<longrightarrow> (\<forall>v \<in> set (u # us). du_local v = sm_local sm \<longrightarrow> own_fingerprint V v = Inr (sm_fingerprint sm))"
    using 1(3) 2(3) by simp
  moreover have "set (ck_seen (fold (check_upload_stamp V r sm) (u # us) st)) = set (ck_seen st) \<union>
      (if \<exists>u \<in> set (u # us). du_local u = sm_local sm then {seen_key (sm_remote sm) (sm_local sm)} else {})"
    using 1(4) 2(4) by (auto split: if_splits)
  ultimately show ?case using 2(1) by auto
qed simp

text \<open>A line of the stamps of a host, and what is checked of it.\<close>

definition line_ok :: "stamp_env \<Rightarrow> (string, declared_upload list) gomap \<Rightarrow> string \<Rightarrow> bool" where
  "line_ok V of_host line \<longleftrightarrow> trim_space line = [] \<or>
     (\<exists>sm. sv_unmarshal V line = Inr sm \<and>
       (\<forall>u \<in> set (lookup_or [] of_host (sm_remote sm)). du_local u = sm_local sm \<longrightarrow>
          own_fingerprint V u = Inr (sm_fingerprint sm)))"

definition stamped :: "stamp_env \<Rightarrow> string list \<Rightarrow> string \<Rightarrow> string \<Rightarrow> bool" where
  "stamped V lines remote local \<longleftrightarrow>
     (\<exists>line \<in> set lines. \<exists>sm. sv_unmarshal V line = Inr sm \<and> sm_remote sm = remote \<and> sm_local sm = local)"

definition plain_host :: "(string, declared_upload list) gomap \<Rightarrow> bool" where
  "plain_host of_host \<longleftrightarrow> (\<forall>(remote, us) \<in> set of_host. CHR 0x00 \<notin> set remote \<and> (\<forall>u \<in> set us. plain_decl u))"

lemma plain_host_lookup:
  assumes "plain_host h" and "u \<in> set (lookup_or [] h remote)"
  shows "plain_decl u \<and> CHR 0x00 \<notin> set remote"
proof (cases "map_of h remote")
  case (Some us)
  from map_of_SomeD [OF this] assms Some show ?thesis by (auto simp: plain_host_def lookup_or_def)
qed (use assms in \<open>simp add: lookup_or_def\<close>)

definition seen_by :: "stamp_env \<Rightarrow> (string, declared_upload list) gomap \<Rightarrow> string \<Rightarrow> string \<Rightarrow> bool" where
  "seen_by V h line k \<longleftrightarrow>
     (\<exists>sm u. sv_unmarshal V line = Inr sm \<and> u \<in> set (lookup_or [] h (sm_remote sm)) \<and>
        du_local u = sm_local sm \<and> k = seen_key (sm_remote sm) (sm_local sm))"

lemma check_line_step:
  assumes "cache_ok V (ck_cache st)" and plain: "plain_host h"
  shows "cache_ok V (ck_cache (check_line V r h line st)) \<and>
    (\<exists>ps. ck_problems (check_line V r h line st) = ck_problems st @ ps \<and> (ps = [] \<longrightarrow> line_ok V h line)) \<and>
    (\<forall>k \<in> set (ck_seen (check_line V r h line st)). k \<in> set (ck_seen st) \<or>
       seen_by V h line k)"
proof (cases "trim_space line = []")
  case True
  then show ?thesis using assms by (simp add: check_line_def line_ok_def)
next
  case False
  show ?thesis
  proof (cases "sv_unmarshal V line")
    case (Inl e)
    then show ?thesis using assms False by (simp add: check_line_def)
  next
    case (Inr sm)
    have "\<forall>u \<in> set (lookup_or [] h (sm_remote sm)). plain_decl u" using plain_host_lookup [OF plain] by blast
    from check_uploads_fold [OF assms(1) this, of r sm] obtain ps where
      f: "cache_ok V (ck_cache (check_line V r h line st))" "ck_problems (check_line V r h line st) = ck_problems st @ ps"
        "ps = [] \<longrightarrow> (\<forall>u \<in> set (lookup_or [] h (sm_remote sm)). du_local u = sm_local sm \<longrightarrow>
           own_fingerprint V u = Inr (sm_fingerprint sm))"
        "set (ck_seen (check_line V r h line st)) = set (ck_seen st) \<union>
           (if \<exists>u \<in> set (lookup_or [] h (sm_remote sm)). du_local u = sm_local sm
            then {seen_key (sm_remote sm) (sm_local sm)} else {})"
      using False Inr by (auto simp: check_line_def)
    from f(3) have "ps = [] \<longrightarrow> line_ok V h line" using Inr by (auto simp: line_ok_def)
    moreover have "seen_by V h line k"
      if "k \<in> set (ck_seen (check_line V r h line st))" "k \<notin> set (ck_seen st)" for k
      using that Inr unfolding f(4) seen_by_def by (auto split: if_splits)
    ultimately show ?thesis using f(1,2) by blast
  qed
qed

lemma check_lines_fold:
  assumes "cache_ok V (ck_cache st)" and "plain_host h"
  shows "cache_ok V (ck_cache (fold (check_line V r h) lines st)) \<and>
    (\<exists>ps. ck_problems (fold (check_line V r h) lines st) = ck_problems st @ ps \<and>
       (ps = [] \<longrightarrow> (\<forall>line \<in> set lines. line_ok V h line))) \<and>
    (\<forall>k \<in> set (ck_seen (fold (check_line V r h) lines st)). k \<in> set (ck_seen st) \<or>
       (\<exists>line \<in> set lines. seen_by V h line k))"
  using assms(1)
proof (induction lines arbitrary: st)
  case (Cons line lines)
  let ?st = "check_line V r h line st"
  from check_line_step [OF Cons.prems assms(2), of r line] obtain ps where
    1: "cache_ok V (ck_cache ?st)" "ck_problems ?st = ck_problems st @ ps" "ps = [] \<longrightarrow> line_ok V h line"
      "\<forall>k \<in> set (ck_seen ?st). k \<in> set (ck_seen st) \<or>
       seen_by V h line k" by blast
  from Cons.IH [OF 1(1)] obtain qs where
    2: "cache_ok V (ck_cache (fold (check_line V r h) lines ?st))"
      "ck_problems (fold (check_line V r h) lines ?st) = ck_problems ?st @ qs"
      "qs = [] \<longrightarrow> (\<forall>line \<in> set lines. line_ok V h line)"
      "\<forall>k \<in> set (ck_seen (fold (check_line V r h) lines ?st)). k \<in> set (ck_seen ?st) \<or>
       (\<exists>line \<in> set lines. seen_by V h line k)" by blast
  have "ck_problems (fold (check_line V r h) (line # lines) st) = ck_problems st @ (ps @ qs)"
    using 1(2) 2(2) by simp
  moreover have "ps @ qs = [] \<longrightarrow> (\<forall>l \<in> set (line # lines). line_ok V h l)" using 1(3) 2(3) by simp
  moreover have "\<forall>k \<in> set (ck_seen (fold (check_line V r h) (line # lines) st)). k \<in> set (ck_seen st) \<or>
       (\<exists>l \<in> set (line # lines). seen_by V h l k)"
  proof
    fix k assume "k \<in> set (ck_seen (fold (check_line V r h) (line # lines) st))"
    then consider "k \<in> set (ck_seen ?st)"
      | "\<exists>l \<in> set lines. seen_by V h l k" using 2(4) by auto
    then show "k \<in> set (ck_seen st) \<or> (\<exists>l \<in> set (line # lines). seen_by V h l k)"
      using 1(4) by cases auto
  qed
  ultimately show ?case using 2(1) by simp
qed simp

lemma seen_key_inj:
  assumes "seen_key a b = seen_key c d" and "CHR 0x00 \<notin> set a" "CHR 0x00 \<notin> set c"
  shows "a = c \<and> b = d"
proof -
  have cut: "cut_char (CHR 0x00) (seen_key x y) = Some (x, y)" if "CHR 0x00 \<notin> set x" for x y
    using that cut_char_Some_iff [of "CHR 0x00" "seen_key x y" x y] by (simp add: seen_key_def)
  have "Some (a, b) = Some (c, d)"
    using cut [OF assms(2), of b] cut [OF assms(3), of d] assms(1) by (simp only:)
  then show ?thesis by simp
qed

text \<open>The contract of the check of one host.\<close>

definition host_verified :: "stamp_env \<Rightarrow> (string, declared_upload list) gomap \<Rightarrow> string \<Rightarrow> bool" where
  "host_verified V h output \<longleftrightarrow>
     (\<forall>line \<in> set (split_char (CHR 0x0A) output). line_ok V h line) \<and>
     (\<forall>(remote, us) \<in> set h. \<forall>u \<in> set us. du_required u \<longrightarrow> stamped V (split_char (CHR 0x0A) output) remote (du_local u))"

lemma verify_host_rule:
  assumes cache: "cache_ok V (snd sc)" and plain: "plain_host (lookup_or [] decl host)"
    and run: "verify_host ex V r decl host sc = (res, sc')"
  shows "cache_ok V (snd sc') \<and>
    (jr_err res = None \<longrightarrow>
      (\<exists>w out. fst (ex (remote_cmd r host cat_stamps) w) = (out, None) \<and> host_verified V (lookup_or [] decl host) out))"
proof -
  let ?h = "lookup_or [] decl host"
  obtain out err s1 where e: "exec_run ex (remote_cmd r host cat_stamps) (fst sc) = ((out, err), s1)"
    by (metis prod.collapse)
  have w: "fst (ex (remote_cmd r host cat_stamps) (sys_world (fst sc))) = (out, err)"
    using e by (auto simp: exec_run_def split: prod.splits)
  show ?thesis
  proof (cases err)
    case (Some x)
    with run e cache show ?thesis by (auto simp: verify_host_def verify_result_def)
  next
    case None
    let ?init = "\<lparr>ck_problems = [], ck_checked = 0, ck_seen = [], ck_cache = snd sc\<rparr>"
    let ?lines = "split_char (CHR 0x0A) out" and ?st = "fold (check_line V r ?h) (split_char (CHR 0x0A) out) ?init"
    have c0: "cache_ok V (ck_cache ?init)" using cache by simp
    note F = check_lines_fold [OF c0 plain, of r ?lines]
    have cache': "snd sc' = ck_cache ?st"
      and err': "jr_err res = None \<longleftrightarrow> ck_problems ?st @ missing_stamps ?h (ck_seen ?st) = []"
      using run by (auto simp: verify_host_def e None Let_def verify_result_def split: if_splits)
    have "host_verified V ?h out" if ok: "jr_err res = None"
    proof -
      have p: "ck_problems ?st = []" and m: "missing_stamps ?h (ck_seen ?st) = []" using ok err' by auto
      have lines: "\<forall>line \<in> set ?lines. line_ok V ?h line" using F p by auto
      have "stamped V ?lines remote (du_local u)"
        if h: "(remote, us) \<in> set ?h" "u \<in> set us" "du_required u" for remote us u
      proof -
        have "seen_key remote (du_local u) \<in> set (ck_seen ?st)"
          using m h by (force simp: missing_stamps_def filter_empty_conv)
        with F obtain line sm v where l: "line \<in> set ?lines" "sv_unmarshal V line = Inr sm"
          and v: "v \<in> set (lookup_or [] ?h (sm_remote sm))"
          and k: "seen_key remote (du_local u) = seen_key (sm_remote sm) (sm_local sm)"
          unfolding seen_by_def by fastforce
        have "CHR 0x00 \<notin> set remote" using h(1) plain by (auto simp: plain_host_def)
        moreover have "CHR 0x00 \<notin> set (sm_remote sm)" using plain_host_lookup [OF plain v] by simp
        ultimately have "remote = sm_remote sm \<and> du_local u = sm_local sm" using k by (intro seen_key_inj)
        with l show ?thesis unfolding stamped_def by metis
      qed
      with lines show ?thesis unfolding host_verified_def by blast
    qed
    then show ?thesis using F cache' w None by auto
  qed
qed

lemma verify_deployed_ok:
  fixes s :: "'w sys"
  assumes "declared_uploads r cfg = Inr decl" and "\<forall>(host, h) \<in> set decl. plain_host h"
    and "fst (verify_deployed ex V sch r cfg s) = None" and "host \<in> set (keys decl)"
  shows "\<exists>w out. fst (ex (remote_cmd r host cat_stamps) w) = (out, None) \<and> host_verified V (lookup_or [] decl host) out"
proof -
  let ?jobs = "sort (keys decl)" and ?fn = "verify_host ex V r decl"
  let ?Q = "\<lambda>host res. jr_err res = None \<longrightarrow>
      (\<exists>w out. fst (ex (remote_cmd r host cat_stamps) w) = (out, None) \<and> host_verified V (lookup_or [] decl host) out)"
  have plain: "plain_host (lookup_or [] decl host)" for host
  proof (cases "map_of decl host")
    case (Some h)
    from map_of_SomeD [OF this] assms(2) Some show ?thesis by (auto simp: lookup_or_def)
  qed (simp add: lookup_or_def plain_host_def)
  obtain results s' cache where run: "sched_run zero_result sch ?fn ?jobs (s, []) = (results, s', cache)"
    by (metis prod.collapse)
  have "cache_ok V (snd (snd (sched_run zero_result sch ?fn ?jobs (s, [])))) \<and>
      list_all2 ?Q ?jobs (fst (sched_run zero_result sch ?fn ?jobs (s, [])))"
  proof (rule sp.run_rule [where Inv = "\<lambda>sc. cache_ok V (snd sc)"])
    show "cache_ok V (snd (s, []))" by (simp add: cache_ok_def)
    fix j and sc :: "'w sys \<times> (string, string) gomap" assume "cache_ok V (snd sc)"
    from verify_host_rule [OF this plain, of ex r j] show "cache_ok V (snd (snd (?fn j sc))) \<and> ?Q j (fst (?fn j sc))"
      by (metis prod.collapse)
  qed
  then have "list_all2 ?Q ?jobs results" by (simp only: run fst_conv)
  moreover have "host \<in> set ?jobs" using assms(4) by simp
  ultimately obtain y where y: "y \<in> set results" and q: "?Q host y"
    by (rule list_all2_in [THEN bexE])
  have "report_results results = None" using assms(3) by (simp add: verify_deployed_def assms(1) run)
  then have "jr_err y = None" using y by (simp add: report_results_None)
  with q show ?thesis by blast
qed

section \<open>Role flags\<close>

abbreviation add_host :: "string \<Rightarrow> string \<Rightarrow> string list \<times> (string, string list) gomap \<Rightarrow>
    go_error + (string list \<times> (string, string list) gomap)" where
  "add_host name \<equiv> (\<lambda>h (seen, m).
     let host = trim_space h in
     if \<not> name_ok host then Inl (Errorf ''invalid host in role'' [name, host] [])
     else if host \<in> set seen then Inr (seen, m)
     else Inr (host # seen, AList.update name (lookup_or [] m name @ [host]) m))"

lemma lookup_update: "lookup_or d (AList.update k v m) j = (if j = k then v else lookup_or d m j)"
  by (simp add: lookup_or_def update_conv')

lemma add_hosts:
  "fold_res (add_host name) raw (seen, m) = Inr (seen', m') \<Longrightarrow>
   \<exists>hs. lookup_or [] m' name = lookup_or [] m name @ hs \<and> distinct hs \<and> set hs \<inter> set seen = {} \<and>
     list_all name_ok hs \<and> set (map trim_space raw) \<subseteq> set hs \<union> set seen \<and> set hs \<subseteq> set (map trim_space raw) \<and>
     (\<forall>k. k \<noteq> name \<longrightarrow> lookup_or [] m' k = lookup_or [] m k)"
proof (induction raw arbitrary: seen m)
  case (Cons h raw)
  let ?h = "trim_space h"
  have ok: "name_ok ?h" using Cons.prems by (auto simp: Let_def split: if_splits)
  show ?case
  proof (cases "?h \<in> set seen")
    case True
    then have "fold_res (add_host name) raw (seen, m) = Inr (seen', m')"
      using Cons.prems ok by (simp add: Let_def)
    from Cons.IH [OF this] True show ?thesis by auto
  next
    case False
    then have "fold_res (add_host name) raw (?h # seen, AList.update name (lookup_or [] m name @ [?h]) m) = Inr (seen', m')"
      using Cons.prems ok by (simp add: Let_def)
    from Cons.IH [OF this] obtain hs where
      hs: "lookup_or [] m' name = lookup_or [] m name @ [?h] @ hs" "distinct hs" "set hs \<inter> set (?h # seen) = {}"
        "list_all name_ok hs" "set (map trim_space raw) \<subseteq> set hs \<union> set (?h # seen)" "set hs \<subseteq> set (map trim_space raw)"
        "\<forall>k. k \<noteq> name \<longrightarrow> lookup_or [] m' k = lookup_or [] m k"
      by (auto simp: lookup_update)
    then show ?thesis using ok False by (intro exI [of _ "?h # hs"]) auto
  qed
qed simp

section \<open>A concrete command line\<close>

definition demo_upload :: upload where
  "demo_upload = \<lparr>u_label = ''conf'', u_role = ''web'', u_local = ''etc/x.conf'', u_remote = ''/etc/nginx/x.conf'',
     u_delete = False, u_excludes = [], u_validate = [], u_verify_required = True\<rparr>"

definition demo_decls :: config where
  "demo_decls = \<lparr>c_include = [], c_deployments = [(''a'', \<lparr>d_uploads = [demo_upload], d_activations = []\<rparr>)], c_plans = []\<rparr>"

definition demo_stamps :: stamp_env where
  "demo_stamps = \<lparr>sv_lstat = (\<lambda>_. Some (Regular 420 (Some ''x''))), sv_hash = (\<lambda>_. ''f''), sv_key = (\<lambda>_. ''k''),
     sv_marshal = (\<lambda>_. Inr ''j''),
     sv_unmarshal = (\<lambda>_. Inr \<lparr>sm_remote = ''/etc/nginx/x.conf'', sm_local = ''etc/x.conf'', sm_fingerprint = ''f'',
       sm_worktree = ''/w'', sm_commit = ''c'', sm_deployed_at = ''t''\<rparr>), sv_now = ''t''\<rparr>"

definition demo_flags :: "bool \<Rightarrow> raw_flags" where
  "demo_flags dry = \<lparr>rf_config = ''d.yaml'', rf_user = ''isucon'', rf_opts = [], rf_state_file = ''raw/current-run-id'',
     rf_parallel = 8, rf_dry = dry, rf_settings = [SetRole ''web=h1''], rf_error = None, rf_rest = []\<rparr>"

definition demo_cli :: "bool \<Rightarrow> nat cli_env" where
  "demo_cli dry = \<lparr>cl_ex = (\<lambda>c w. ((''j'', None), Suc w)), cl_stamps = demo_stamps,
     cl_loader = \<lparr>l_files = [], l_cwd = None, l_yaml = (\<lambda>_. None)\<rparr>, cl_flags = (\<lambda>_ _. demo_flags dry),
     cl_state = (\<lambda>_. Present), cl_git = (None, None), cl_stat = (\<lambda>_. True), cl_nonce = (\<lambda>_. Some ''00''),
     cl_quote = (\<lambda>s. s), cl_sched = (\<lambda>_ n. [0..<n])\<rparr>"

definition demo_verifier :: deploy_runner where
  "demo_verifier = new_deploy_runner (Some ''/w'', Some ''c'') (demo_flags False) False ([(''web'', [''h1''])], [])"

section \<open>Properties\<close>

text \<open>
  A dry run of \<open>apply\<close> or \<open>apply-plan\<close> runs no command: the outside world and the trace stay as they
  are, on every path, also when the declaration does not load or a check fails.
\<close>

theorem dry_run_inert:
  assumes "rf_dry (cl_flags E (command @ '' '' @ name) args)"
  shows "snd (run_apply E command name args s) = s"
proof -
  have dry: "dr_dry (new_deploy_runner (cl_git E) (cl_flags E (command @ '' '' @ name) args)
      (rf_dry (cl_flags E (command @ '' '' @ name) args)) rv)" for rv
    using assms by (simp add: new_deploy_runner_def)
  have a: "snd (apply_deployment (cl_quote E) ex env sch r d s) = s" if "dr_dry r" for ex env sch r d
    using that by (simp add: apply_deployment_def split: sum.splits)
  have p: "ps_sys (po_state (apply_plan (cl_quote E) ex env sch r cfg p s)) = s" if "dr_dry r" for ex env sch r cfg p
    using that by (simp add: apply_plan_def plan_start_def Let_def split: sum.splits)
  show ?thesis
    using a [OF dry] p [OF dry]
    by (auto simp: run_apply_def Let_def split: sum.splits option.splits prod.splits) (metis snd_conv)+
qed

theorem dry_run_inert_witness:
  "snd (run_apply (demo_cli True) ''apply'' ''a'' [] \<lparr>sys_trace = [], sys_world = 0\<rparr>) = \<lparr>sys_trace = [], sys_world = 0\<rparr>"
  by (rule dry_run_inert) (simp add: demo_cli_def demo_flags_def)


text \<open>
  While the marker of an active benchmark run exists, \<open>apply\<close> and \<open>apply-plan\<close> that are not dry runs
  refuse to deploy: the result is an error and no command is run.
\<close>

theorem active_run_guard:
  assumes "command \<in> {''apply'', ''apply-plan''}"
    and "\<not> rf_dry (cl_flags E (command @ '' '' @ name) args)"
    and "cl_state E (rf_state_file (cl_flags E (command @ '' '' @ name) args)) = Present"
  shows "fst (run_deployctl E (command # name # args) s) \<noteq> None \<and> snd (run_deployctl E (command # name # args) s) = s"
proof -
  have "run_deployctl E (command # name # args) s = run_apply E command name args s"
    using assms(1) by (auto simp: run_deployctl_def)
  then show ?thesis
    using assms(2,3) by (auto simp: run_apply_def check_apply_flags_def Let_def split: sum.splits)
qed

theorem active_run_guard_witness:
  "fst (run_deployctl (demo_cli False) [''apply'', ''a''] \<lparr>sys_trace = [], sys_world = 0\<rparr>) \<noteq> None"
  using active_run_guard [of "''apply''" "demo_cli False" "''a''" "[]" "\<lparr>sys_trace = [], sys_world = 0\<rparr>"]
  by (simp add: demo_cli_def demo_flags_def)


text \<open>
  A value of \<open>-role\<close> that is accepted has the form \<open>name=hosts\<close>, adds exactly its hosts to the
  role, each once and each with a valid name, or empties the role, and leaves the other roles alone.
\<close>

theorem role_set_ok:
  assumes "role_set value roles = Inr roles'"
  shows "\<exists>name raw hs. value = name @ CHR ''='' # raw \<and> name_ok name \<and> distinct hs \<and> list_all name_ok hs \<and>
    (raw = [] \<or> set hs = set (map trim_space (split_char (CHR '','') raw))) \<and>
    lookup_or [] roles' name = (if raw = [] then [] else lookup_or [] roles name @ hs) \<and>
    (\<forall>k. k = name \<or> lookup_or [] roles' k = lookup_or [] roles k)"
proof -
  from assms obtain name raw where c: "cut_char (CHR ''='') value = Some (name, raw)" and n: "name_ok name"
    by (auto simp: role_set_def split: option.splits if_splits)
  have v: "value = name @ CHR ''='' # raw" using c by (simp add: cut_char_Some_iff)
  show ?thesis
  proof (cases "raw = []")
    case True
    then have "roles' = AList.update name [] roles" using assms c n by (simp add: role_set_def)
    then show ?thesis using v n True
      by (intro exI [of _ name] exI [of _ raw] exI [of _ "[]"]) (simp add: lookup_update)
  next
    case False
    then obtain seen where "fold_res (add_host name) (split_char (CHR '','') raw) ([], roles) = Inr (seen, roles')"
      using assms c n by (auto simp: role_set_def split: sum.splits)
    from add_hosts [OF this] obtain hs where
      "lookup_or [] roles' name = lookup_or [] roles name @ hs" "distinct hs" "list_all name_ok hs"
      "set (map trim_space (split_char (CHR '','') raw)) \<subseteq> set hs" "set hs \<subseteq> set (map trim_space (split_char (CHR '','') raw))"
      "\<forall>k. k \<noteq> name \<longrightarrow> lookup_or [] roles' k = lookup_or [] roles k"
      by auto
    with v n False show ?thesis by (intro exI [of _ name] exI [of _ raw] exI [of _ hs]) auto
  qed
qed

theorem role_set_ok_witness:
  "\<exists>name raw hs. ''app=h1, h2,h1'' = name @ CHR ''='' # raw \<and> distinct hs \<and> lookup_or [] [(''app'', [''h1'', ''h2''])] name = hs"
proof -
  have "role_set ''app=h1, h2,h1'' [] = Inr [(''app'', [''h1'', ''h2''])]" by code_simp
  from role_set_ok [OF this] obtain name raw hs where
    r: "''app=h1, h2,h1'' = name @ CHR ''='' # raw" "distinct hs"
      "lookup_or [] [(''app'', [''h1'', ''h2''])] name = (if raw = [] then [] else lookup_or [] [] name @ hs)" by blast
  show ?thesis
  proof (cases "raw = []")
    case True
    with r show ?thesis by (intro exI [of _ name] exI [of _ raw] exI [of _ "[]"]) simp
  next
    case False
    with r show ?thesis by (intro exI [of _ name] exI [of _ raw] exI [of _ hs]) simp
  qed
qed


text \<open>The duplicate check is per value: a role that is given twice can hold a host twice.\<close>

lemma role_given_twice:
  "fold_res role_set [''app=h1'', ''app=h1''] [] = Inr [(''app'', [''h1'', ''h1''])]"
  by code_simp

text \<open>
  C3. A verification that succeeds has read the stamps of every host with a declared upload; every
  stamp of a declared destination carries the fingerprint of the local tree of this worktree, and
  every upload that requires verification has a stamp for its destination and source. The fingerprint
  cache that the hosts share does not change this.
\<close>

theorem verified_deployment:
  assumes "declared_uploads r cfg = Inr decl" and "\<forall>(host, h) \<in> set decl. plain_host h"
    and "fst (verify_deployed ex V sch r cfg s) = None" and "host \<in> set (keys decl)"
  shows "\<exists>w out. fst (ex (remote_cmd r host cat_stamps) w) = (out, None) \<and> host_verified V (lookup_or [] decl host) out"
  using assms by (rule verify_deployed_ok)

theorem verified_deployment_witness:
  "\<exists>decl. declared_uploads demo_verifier demo_decls = Inr decl \<and>
     (\<exists>out. host_verified demo_stamps (lookup_or [] decl ''h1'') out)"
proof -
  let ?decl = "[(''h1'', [(''/etc/nginx/x.conf'', [\<lparr>du_local = ''etc/x.conf'', du_excludes = [], du_required = True\<rparr>])])]"
  have d: "declared_uploads demo_verifier demo_decls = Inr ?decl" by code_simp
  have p: "\<forall>(host, h) \<in> set ?decl. plain_host h" by (simp add: plain_host_def plain_decl_def)
  have v: "fst (verify_deployed (cl_ex (demo_cli False)) demo_stamps (\<lambda>n. [0..<n]) demo_verifier demo_decls
      \<lparr>sys_trace = [], sys_world = 0\<rparr>) = None" by code_simp
  have "''h1'' \<in> set (keys ?decl)" by simp
  from verified_deployment [OF d p v this] d show ?thesis by blast
qed


text \<open>
  The fingerprint of a directory depends only on what the upload sends: removing every excluded
  file and directory from the tree does not change it.
\<close>

theorem fingerprint_ignores_excluded:
  assumes "lstat (trim_suffix local ''/'') = Some (Directory m (Some es))"
  shows "local_fingerprint (lstat(trim_suffix local ''/'' \<mapsto> Directory m (Some (prune_entries excludes [] es)))) hash local excludes
    = local_fingerprint lstat hash local excludes"
  using walk_prune_parts [of excludes es] assms
  by (auto simp: local_fingerprint_def Let_def split: sum.splits)

theorem fingerprint_ignores_excluded_witness:
  "local_fingerprint [''d'' \<mapsto> Directory 0 (Some [Entry ''a'' (Special 1)])] (\<lambda>s. s) ''d/'' [''*.log'']
   = local_fingerprint [''d'' \<mapsto> Directory 0 (Some [Entry ''a'' (Special 1), Entry ''b.log'' (Special 2)])] (\<lambda>s. s) ''d/'' [''*.log'']"
proof -
  let ?es = "[Entry ''a'' (Special 1), Entry ''b.log'' (Special 2)]"
  have e: "prune_entries [''*.log''] [] ?es = [Entry ''a'' (Special 1)]" and t: "trim_suffix ''d/'' ''/'' = ''d''" by code_simp+
  have "[''d'' \<mapsto> Directory 0 (Some ?es)] (trim_suffix ''d/'' ''/'') = Some (Directory 0 (Some ?es))" by (simp add: t)
  from fingerprint_ignores_excluded [where lstat = "[''d'' \<mapsto> Directory 0 (Some ?es)]" and local = "''d/''", OF this,
      of "[''*.log'']" "\<lambda>s. s"]
  show ?thesis unfolding e t fun_upd_upd .
qed

end
