(* ===== verification/PortalProto.thy ===== *)
theory PortalProto
  imports GoStrings "HOL-Library.Word"
begin

unbundle bit_operations_syntax

text \<open>
  The protobuf reader of \<open>portal-bench\<close> (tools/portal-bench/decode.go): base-128 varints, the
  scan of a message into its fields, paths of field numbers, and the selection of a scalar; with
  them the encoder behind the template function \<open>protoUint\<close> (config.go) and the parts of
  \<open>encoding/base64\<close> and \<open>unicode/utf8\<close> that it calls. Bytes are characters; integers are 64-bit
  words, as in the code.
\<close>

section \<open>Varints\<close>

abbreviation byte :: "char \<Rightarrow> 64 word" where
  "byte c \<equiv> word_of_nat (of_char c)"

text \<open>\<open>binary.Uvarint\<close>: the value and the number of bytes read; 0 when the buffer ends too soon, a
  negative number when the value overflows 64 bits.\<close>

fun uvarint_from :: "nat \<Rightarrow> 64 word \<Rightarrow> string \<Rightarrow> 64 word \<times> int" where
  "uvarint_from i x [] = (0, 0)"
| "uvarint_from i x (b # bs) =
     (if i = 10 then (0, - int (i + 1))
      else if of_char b < (0x80 :: nat) then
        (if i = 9 \<and> 1 < (of_char b :: nat) then (0, - int (i + 1))
         else (x OR push_bit (7 * i) (byte b), int (i + 1)))
      else uvarint_from (i + 1) (x OR push_bit (7 * i) (byte b AND 0x7F)) bs)"

definition uvarint :: "string \<Rightarrow> 64 word \<times> int" where
  "uvarint bs = uvarint_from 0 0 bs"

text \<open>\<open>binary.AppendUvarint\<close>.\<close>

function append_uvarint :: "64 word \<Rightarrow> string" where
  "append_uvarint x =
     (if x < 0x80 then [char_of (unat x)]
      else char_of (unat (x AND 0xFF OR 0x80)) # append_uvarint (drop_bit 7 x))"
  by pat_completeness auto
termination
proof (relation "measure unat", goal_cases)
  case (2 x)
  then have "128 \<le> unat x" by (simp add: word_less_nat_alt not_less)
  then show ?case by (simp add: drop_bit_eq_div unat_div)
qed simp

declare append_uvarint.simps [simp del]

lemma uvarint_from_bounds:
  "uvarint_from i x bs = (v, n) \<Longrightarrow> 0 < n \<Longrightarrow> i \<le> 10 \<Longrightarrow> int i < n \<and> n \<le> int (i + length bs) \<and> n \<le> 10"
proof (induction i x bs rule: uvarint_from.induct)
  case (2 i x b bs)
  show ?case
  proof (cases "i = 10 \<or> of_char b < (0x80 :: nat)")
    case True
    with "2.prems" show ?thesis by (auto split: if_splits)
  next
    case False
    with 2 show ?thesis by auto
  qed
qed simp

lemma uvarint_bounds: "uvarint bs = (v, n) \<Longrightarrow> 0 < n \<Longrightarrow> n \<le> int (length bs) \<and> n \<le> 10"
  using uvarint_from_bounds [of 0 0 bs v n] by (simp add: uvarint_def)

section \<open>The varint round trip\<close>

lemma of_char_small: "k < 256 \<Longrightarrow> of_char (char_of k) = (k :: nat)"
  by simp

lemma word_of_unat: "word_of_nat (unat w) = (w :: 64 word)"
  by simp

lemma byte_small: "unat n < 256 \<Longrightarrow> byte (char_of (unat n)) = n"
  by simp

lemma byte_masks: "(0xFF :: 64 word) = mask 8" "(0x7F :: 64 word) = mask 7"
  by (simp_all add: mask_eq_exp_minus_1)

lemma bit_0x80: "bit (0x80 :: 64 word) k \<longleftrightarrow> k = 7"
proof -
  have "(0x80 :: 64 word) = 2 ^ 7" by simp
  then show ?thesis by (auto simp only: bit_exp_iff) (simp_all add: bit_simps)
qed

lemma low_byte_eq: "(n AND 0xFF OR 0x80 :: 64 word) = take_bit 8 (n OR 0x80)"
  unfolding byte_masks by (rule bit_word_eqI) (auto simp: bit_simps bit_0x80)

lemma low_byte_less: "unat (n AND 0xFF OR 0x80 :: 64 word) < 256"
proof -
  have "unat (take_bit 8 (n OR 0x80)) < 2 ^ 8"
    unfolding unsigned_take_bit_eq by (rule take_bit_nat_less_exp)
  then show ?thesis by (simp add: low_byte_eq)
qed

lemma low_byte_high: "128 \<le> unat (n AND 0xFF OR 0x80 :: 64 word)"
proof (rule ccontr)
  assume "\<not> 128 \<le> unat (n AND 0xFF OR 0x80 :: 64 word)"
  then have "take_bit 7 (unat (n AND 0xFF OR 0x80 :: 64 word)) = unat (n AND 0xFF OR 0x80 :: 64 word)"
    by (simp add: take_bit_nat_eq_self_iff)
  then have "take_bit 7 (n AND 0xFF OR 0x80 :: 64 word) = (n AND 0xFF OR 0x80 :: 64 word)"
    by (metis unsigned_take_bit_eq word_unat_eq_iff)
  moreover have "bit (n AND 0xFF OR 0x80 :: 64 word) 7" unfolding byte_masks by (simp add: bit_simps bit_0x80)
  moreover have "\<not> bit (take_bit 7 (n AND 0xFF OR 0x80 :: 64 word)) 7" by (simp add: bit_simps)
  ultimately show False by simp
qed

lemma low_byte_payload: "(n AND 0xFF OR 0x80 :: 64 word) AND 0x7F = n AND 0x7F"
  unfolding byte_masks
  by (rule bit_word_eqI) (auto simp only: bit_and_iff bit_or_iff bit_mask_iff bit_0x80)

lemma split_shift: "push_bit s (n AND 0x7F) OR push_bit (s + 7) (drop_bit 7 n) = push_bit s (n :: 64 word)"
  unfolding byte_masks
proof (rule bit_word_eqI)
  fix k assume "k < LENGTH(64)"
  then show "bit (push_bit s (n AND mask 7) OR push_bit (s + 7) (drop_bit 7 n)) k = bit (push_bit s n) k"
    by (cases "s + 7 \<le> k") (auto simp: bit_simps not_le)
qed

lemma uvarint_from_append:
  "i < 10 \<Longrightarrow> unat n < 2 ^ (64 - 7 * i) \<Longrightarrow>
   uvarint_from i x (append_uvarint n @ rest) = (x OR push_bit (7 * i) n, int (i + length (append_uvarint n)))"
proof (induction n arbitrary: i x rule: append_uvarint.induct)
  case (1 n)
  show ?case
  proof (cases "n < 0x80")
    case True
    then have n: "unat n < 128" by (simp add: word_less_nat_alt)
    have "i = 9 \<Longrightarrow> unat n < 2" using "1.prems"(2) by simp
    then have "uvarint_from i x (char_of (unat n) # rest) = (x OR push_bit (7 * i) n, int (i + 1))"
    proof -
      have b: "of_char (char_of (unat n)) = unat n" by (rule of_char_small) (use n in simp)
      have "i \<noteq> 10" and "\<not> (i = 9 \<and> 1 < unat n)"
        using "1.prems"(1) \<open>i = 9 \<Longrightarrow> unat n < 2\<close> by auto
      then show ?thesis unfolding uvarint_from.simps b using n by (simp only: if_False if_True word_of_unat)
    qed
    moreover have "append_uvarint n = [char_of (unat n)]" using True by (simp add: append_uvarint.simps)
    ultimately show ?thesis by simp
  next
    case False
    let ?b = "n AND 0xFF OR 0x80" and ?m = "drop_bit 7 n"
    have n: "128 \<le> unat n" using False by (simp add: word_less_nat_alt not_less)
    have i: "i < 9"
    proof (rule ccontr)
      assume "\<not> i < 9"
      then have "i = 9" using "1.prems"(1) by simp
      with "1.prems"(2) n show False by simp
    qed
    have b: "of_char (char_of (unat ?b)) = unat ?b" using low_byte_less by (rule of_char_small)
    have m: "unat ?m < 2 ^ (64 - 7 * (i + 1))"
    proof -
      have e: "64 - 7 * i = (64 - 7 * (i + 1)) + 7" using i by simp
      have "unat n < 2 ^ (64 - 7 * (i + 1)) * 128"
        using "1.prems"(2) unfolding e power_add by simp
      moreover have "unat ?m = unat n div 128" by (simp add: drop_bit_eq_div unat_div)
      ultimately show ?thesis by (simp only: less_mult_imp_div_less)
    qed
    have "uvarint_from i x (append_uvarint n @ rest)
        = uvarint_from (i + 1) (x OR push_bit (7 * i) (n AND 0x7F)) (append_uvarint ?m @ rest)"
    proof -
      have e: "append_uvarint n = char_of (unat ?b) # append_uvarint ?m"
        using False by (simp add: append_uvarint.simps)
      have "\<not> unat ?b < 128" using low_byte_high [of n] by linarith
      moreover have "byte (char_of (unat ?b)) AND 0x7F = n AND 0x7F"
        unfolding b by (simp only: word_of_unat low_byte_payload)
      ultimately show ?thesis
        using i unfolding e append_Cons uvarint_from.simps b by simp
    qed
    also have "\<dots> = ((x OR push_bit (7 * i) (n AND 0x7F)) OR push_bit (7 * (i + 1)) ?m, int (i + 1 + length (append_uvarint ?m)))"
      using i m by (intro "1.IH" [OF False]) auto
    also have "(x OR push_bit (7 * i) (n AND 0x7F)) OR push_bit (7 * (i + 1)) ?m = x OR push_bit (7 * i) n"
      using split_shift [of "7 * i" n] by (simp add: or.assoc algebra_simps)
    finally show ?thesis using False append_uvarint.simps [of n] by simp
  qed
qed

lemma uvarint_append [simp]: "uvarint (append_uvarint n @ rest) = (n, int (length (append_uvarint n)))"
proof -
  have "unat n < 2 ^ 64" using unsigned_less [of n] by simp
  then show ?thesis using uvarint_from_append [of 0 n 0 rest] by (simp add: uvarint_def)
qed

section \<open>Base 64\<close>

definition b64_char :: "nat \<Rightarrow> char" where
  "b64_char k = (if k < 26 then char_of (65 + k) else if k < 52 then char_of (71 + k)
     else if k < 62 then char_of (k - 4) else if k = 62 then CHR ''+'' else CHR ''/'')"

definition b64_val :: "char \<Rightarrow> nat option" where
  "b64_val c = (let n = (of_char c :: nat) in
     if 65 \<le> n \<and> n \<le> 90 then Some (n - 65) else if 97 \<le> n \<and> n \<le> 122 then Some (n - 71)
     else if 48 \<le> n \<and> n \<le> 57 then Some (n + 4) else if n = 43 then Some 62 else if n = 47 then Some 63 else None)"

fun base64_encode :: "string \<Rightarrow> string" where
  "base64_encode [] = []"
| "base64_encode [a] =
     (let n = of_char a * 16 in [b64_char (n div 64), b64_char (n mod 64), CHR ''='', CHR ''=''])"
| "base64_encode [a, b] =
     (let n = (of_char a * 256 + of_char b) * 4 in
      [b64_char (n div 4096), b64_char (n div 64 mod 64), b64_char (n mod 64), CHR ''=''])"
| "base64_encode (a # b # c # cs) =
     (let n = of_char a * 65536 + of_char b * 256 + of_char c in
      b64_char (n div 262144) # b64_char (n div 4096 mod 64) # b64_char (n div 64 mod 64) # b64_char (n mod 64) #
      base64_encode cs)"

text \<open>\<open>StdEncoding.DecodeString\<close>: line ends are skipped, the trailing bits of a padded group ignored.\<close>

fun base64_groups :: "string \<Rightarrow> string option" where
  "base64_groups [] = Some []"
| "base64_groups (a # b # c # d # cs) =
     (case (b64_val a, b64_val b) of
        (Some x, Some y) \<Rightarrow>
          (if c = CHR ''='' then
             (if d = CHR ''='' \<and> cs = [] then Some [char_of ((x * 64 + y) div 16)] else None)
           else
             (case b64_val c of
                None \<Rightarrow> None
              | Some z \<Rightarrow>
                  (if d = CHR ''='' then
                     (if cs = [] then
                        (let n = (x * 4096 + y * 64 + z) div 4 in Some [char_of (n div 256), char_of (n mod 256)])
                      else None)
                   else
                     (case (b64_val d, base64_groups cs) of
                        (Some w, Some rest) \<Rightarrow>
                          (let n = x * 262144 + y * 4096 + z * 64 + w in
                           Some (char_of (n div 65536) # char_of (n div 256 mod 256) # char_of (n mod 256) # rest))
                      | _ \<Rightarrow> None))))
      | _ \<Rightarrow> None)"
| "base64_groups _ = None"

definition base64_decode :: "string \<Rightarrow> string option" where
  "base64_decode s = base64_groups (filter (\<lambda>c. c \<noteq> CHR 0x0A \<and> c \<noteq> CHR 0x0D) s)"

lemma of_char_b64_char:
  "k < 64 \<Longrightarrow> of_char (b64_char k) = (if k < 26 then 65 + k else if k < 52 then 71 + k
     else if k < 62 then k - 4 else if k = 62 then 43 else 47 :: nat)"
  by (simp add: b64_char_def)

lemma b64_val_char [simp]: "k < 64 \<Longrightarrow> b64_val (b64_char k) = Some k"
  by (auto simp: b64_val_def of_char_b64_char Let_def split: if_splits)

lemma b64_char_other:
  assumes "k < 64" and "of_char c \<in> {10, 13, 61 :: nat}"
  shows "b64_char k \<noteq> c"
  using of_char_b64_char [OF assms(1)] assms by (auto split: if_splits)

lemma b64_char_pad [simp]: "k < 64 \<Longrightarrow> b64_char k \<noteq> CHR ''=''"
  and b64_char_line [simp]: "k < 64 \<Longrightarrow> b64_char k \<noteq> CHR 0x0A \<and> b64_char k \<noteq> CHR 0x0D"
  by (simp_all add: b64_char_other)

lemma of_char_less: "(of_char c :: nat) < 256"
  by (metis char_of_mod_256 char_of_char mod_less_divisor of_char_of zero_less_numeral)

lemma of_char_le: "(of_char c :: nat) \<le> 255"
proof -
  have e: "Suc 255 = (256 :: nat)" by simp
  have "(of_char c :: nat) < Suc 255" unfolding e by (rule of_char_less)
  then show ?thesis by (rule less_Suc_eq_le [THEN iffD1])
qed

lemma three_digits:
  fixes a b c :: nat
  assumes "b < 256" and "c < 256"
  shows "(a * 65536 + b * 256 + c) div 65536 = a" "(a * 65536 + b * 256 + c) div 256 mod 256 = b"
    "(a * 65536 + b * 256 + c) mod 256 = c"
proof -
  have n: "a * 65536 + b * 256 + c = (a * 256 + b) * 256 + c" by simp
  show "(a * 65536 + b * 256 + c) mod 256 = c" unfolding n using assms(2) by (simp only: mod_mult_self3 mod_less)
  have d: "(a * 65536 + b * 256 + c) div 256 = a * 256 + b" unfolding n using assms(2) by simp
  then show "(a * 65536 + b * 256 + c) div 256 mod 256 = b" using assms(1) by simp
  have "(a * 65536 + b * 256 + c) div 65536 = (a * 65536 + b * 256 + c) div 256 div 256"
    by (simp only: div_mult2_eq [symmetric]) simp
  then show "(a * 65536 + b * 256 + c) div 65536 = a" unfolding d using assms(1) by simp
qed

lemma four_digits:
  fixes n :: nat
  shows "n div 262144 * 262144 + n div 4096 mod 64 * 4096 + n div 64 mod 64 * 64 + n mod 64 = n"
proof -
  have d: "n div 4096 = n div 64 div 64" "n div 262144 = n div 64 div 64 div 64"
    by (simp_all only: div_mult2_eq [symmetric]) simp_all
  define x y z where "x = n div 64" and "y = x div 64" and "z = y div 64"
  have "n = x * 64 + n mod 64" and "x = y * 64 + x mod 64" and "y = z * 64 + y mod 64"
    by (simp_all add: x_def y_def z_def)
  then show ?thesis unfolding d x_def [symmetric] y_def [symmetric] z_def [symmetric] by linarith
qed

lemma pair_digits:
  fixes x y :: nat
  shows "(x * 16) div 64 * 64 + (x * 16) mod 64 = x * 16"
    "(y * 4) div 4096 * 4096 + (y * 4) div 64 mod 64 * 64 + (y * 4) mod 64 = y * 4"
proof -
  have "(y * 4) div 4096 = (y * 4) div 64 div 64" by (simp only: div_mult2_eq [symmetric]) simp
  moreover have "(y * 4) div 64 = (y * 4) div 64 div 64 * 64 + (y * 4) div 64 mod 64"
    "y * 4 = (y * 4) div 64 * 64 + (y * 4) mod 64" by (rule div_mult_mod_eq [symmetric])+
  ultimately show "(y * 4) div 4096 * 4096 + (y * 4) div 64 mod 64 * 64 + (y * 4) mod 64 = y * 4" by linarith
qed (rule div_mult_mod_eq)

lemma digit_bounds:
  fixes n :: nat
  shows "n < 16777216 \<Longrightarrow> n div 262144 < 64" "n < 262144 \<Longrightarrow> n div 4096 < 64" "n < 4096 \<Longrightarrow> n div 64 < 64"
    "n div k mod 64 < 64" "n mod 64 < 64"
  by (simp_all add: less_mult_imp_div_less)

lemma base64_groups_encode: "base64_groups (base64_encode s) = Some s"
proof (induction s rule: base64_encode.induct)
  case (2 a)
  let ?n = "of_char a * 16 :: nat"
  have "?n < 4096" using of_char_less [of a] by simp
  note d = digit_bounds(3) [OF this] digit_bounds(5) [of ?n]
  have "(?n div 64 * 64 + ?n mod 64) div 16 = of_char a" unfolding pair_digits by simp
  with d show ?case
    by (simp only: base64_encode.simps Let_def base64_groups.simps b64_val_char option.case prod.case
        if_True simp_thms char_of_char)
next
  case (3 a b)
  let ?n = "(of_char a * 256 + of_char b) * 4 :: nat"
  have a: "of_char a \<le> (255 :: nat)" and b: "(of_char b :: nat) < 256"
    by (rule of_char_le of_char_less)+
  have "?n < (255 * 256 + 256) * 4" by (intro mult_strict_right_mono add_le_less_mono mult_right_mono a b) simp_all
  then have "?n < 262144" by simp
  note d = digit_bounds(2) [OF this] digit_bounds(4) [of ?n 64] digit_bounds(5) [of ?n]
  have e: "(?n div 4096 * 4096 + ?n div 64 mod 64 * 64 + ?n mod 64) div 4 = of_char a * 256 + of_char b"
    unfolding pair_digits by simp
  have f: "(of_char a * 256 + of_char b) div 256 = (of_char a :: nat)"
    "(of_char a * 256 + of_char b) mod 256 = (of_char b :: nat)" using b by auto
  show ?case using d
    by (simp only: base64_encode.simps Let_def base64_groups.simps b64_val_char option.case prod.case
        b64_char_pad if_False if_True simp_thms e f char_of_char)
next
  case (4 a b c cs)
  let ?n = "of_char a * 65536 + of_char b * 256 + of_char c :: nat"
  have a: "of_char a \<le> (255 :: nat)" and b': "of_char b \<le> (255 :: nat)"
    and b: "(of_char b :: nat) < 256" and c: "(of_char c :: nat) < 256"
    by (rule of_char_le of_char_less)+
  have "?n < 255 * 65536 + 255 * 256 + 256" by (intro add_le_less_mono add_mono mult_right_mono a b' c) simp_all
  then have "?n < 16777216" by simp
  note d = digit_bounds(1) [OF this] digit_bounds(4) [of ?n 4096] digit_bounds(4) [of ?n 64] digit_bounds(5) [of ?n]
  have IH: "base64_groups (base64_encode cs) = Some cs" by (rule 4) simp
  show ?case using d
    by (simp only: base64_encode.simps Let_def base64_groups.simps b64_val_char option.case prod.case
        b64_char_pad if_False IH four_digits three_digits [OF b c] char_of_char)
qed simp

lemma base64_encode_chars: "c \<in> set (base64_encode s) \<Longrightarrow> c = CHR ''='' \<or> (\<exists>k < 64. c = b64_char k)"
proof (induction s rule: base64_encode.induct)
  case (2 a)
  let ?n = "of_char a * 16 :: nat"
  have "?n < 4096" using of_char_less [of a] by simp
  then have "?n div 64 < 64" by (rule digit_bounds)
  with 2 digit_bounds(5) [of ?n] show ?case by (auto simp only: base64_encode.simps Let_def list.set)
next
  case (3 a b)
  let ?n = "(of_char a * 256 + of_char b) * 4 :: nat"
  have "?n < (255 * 256 + 256) * 4"
    by (intro mult_strict_right_mono add_le_less_mono mult_right_mono of_char_le of_char_less) simp_all
  then have "?n div 4096 < 64" by (intro digit_bounds) simp
  with 3 digit_bounds(4) [of ?n 64] digit_bounds(5) [of ?n] show ?case by (auto simp only: base64_encode.simps Let_def list.set)
next
  case (4 a b c cs)
  let ?n = "of_char a * 65536 + of_char b * 256 + of_char c :: nat"
  have "?n < 255 * 65536 + 255 * 256 + 256"
    by (intro add_le_less_mono add_mono mult_right_mono of_char_le of_char_less) simp_all
  then have "?n div 262144 < 64" by (intro digit_bounds) simp
  with 4 digit_bounds(4) [of ?n 4096] digit_bounds(4) [of ?n 64] digit_bounds(5) [of ?n] show ?case
    by (auto simp only: base64_encode.simps Let_def list.set)
qed simp

lemma base64_decode_encode [simp]: "base64_decode (base64_encode s) = Some s"
proof -
  have "filter (\<lambda>c. c \<noteq> CHR 0x0A \<and> c \<noteq> CHR 0x0D) (base64_encode s) = base64_encode s"
  proof (rule filter_True, rule ballI)
    fix c assume "c \<in> set (base64_encode s)"
    from base64_encode_chars [OF this] show "c \<noteq> CHR 0x0A \<and> c \<noteq> CHR 0x0D"
      using b64_char_line by auto
  qed
  then show ?thesis by (simp add: base64_decode_def base64_groups_encode)
qed

section \<open>UTF-8\<close>

definition cont :: "nat \<Rightarrow> bool" where
  "cont n = (0x80 \<le> n \<and> n \<le> 0xBF)"

text \<open>\<open>utf8.Valid\<close>: no overlong encoding, no surrogate, nothing above U+10FFFF.\<close>

function utf8_valid :: "nat list \<Rightarrow> bool" where
  "utf8_valid [] = True"
| "utf8_valid (a # s) =
     (if a < 0x80 then utf8_valid s
      else if 0xC2 \<le> a \<and> a \<le> 0xDF then (case s of b # t \<Rightarrow> cont b \<and> utf8_valid t | _ \<Rightarrow> False)
      else if 0xE0 \<le> a \<and> a \<le> 0xEF then
        (case s of b # c # t \<Rightarrow>
           cont b \<and> cont c \<and> (a = 0xE0 \<longrightarrow> 0xA0 \<le> b) \<and> (a = 0xED \<longrightarrow> b \<le> 0x9F) \<and> utf8_valid t
         | _ \<Rightarrow> False)
      else if 0xF0 \<le> a \<and> a \<le> 0xF4 then
        (case s of b # c # d # t \<Rightarrow>
           cont b \<and> cont c \<and> cont d \<and> (a = 0xF0 \<longrightarrow> 0x90 \<le> b) \<and> (a = 0xF4 \<longrightarrow> b \<le> 0x8F) \<and> utf8_valid t
         | _ \<Rightarrow> False)
      else False)"
  by pat_completeness auto
termination by (relation "measure length") auto

section \<open>Messages\<close>

record proto_value =
  pv_wire :: nat
  pv_number :: "64 word"
  pv_data :: string

definition le_word :: "string \<Rightarrow> 64 word" where
  "le_word bs = foldr (\<lambda>b acc. byte b OR push_bit 8 acc) bs 0"

text \<open>One field: its value and the rest of the message, after the tag.\<close>

definition proto_field :: "nat \<Rightarrow> string \<Rightarrow> go_error + (proto_value \<times> string)" where
  "proto_field wire body =
     (if wire = 0 then
        (case uvarint body of (x, n) \<Rightarrow>
           if n \<le> 0 then Inl (Errorf ''invalid protobuf varint'' [] [])
           else Inr (\<lparr>pv_wire = wire, pv_number = x, pv_data = []\<rparr>, drop (nat n) body))
      else if wire = 1 then
        (if length body < 8 then Inl (Errorf ''truncated fixed64'' [] [])
         else Inr (\<lparr>pv_wire = wire, pv_number = le_word (take 8 body), pv_data = []\<rparr>, drop 8 body))
      else if wire = 2 then
        (case uvarint body of (len, n) \<Rightarrow>
           if n \<le> 0 \<or> len > word_of_nat (length body - nat n) then Inl (Errorf ''truncated protobuf bytes'' [] [])
           else Inr (\<lparr>pv_wire = wire, pv_number = 0, pv_data = take (unat len) (drop (nat n) body)\<rparr>,
             drop (nat n + unat len) body))
      else if wire = 5 then
        (if length body < 4 then Inl (Errorf ''truncated fixed32'' [] [])
         else Inr (\<lparr>pv_wire = wire, pv_number = le_word (take 4 body), pv_data = []\<rparr>, drop 4 body))
      else Inl (Errorf ''unsupported protobuf wire type'' [format_nat wire] []))"

lemma proto_field_shorter: "proto_field w body = Inr (v, rest) \<Longrightarrow> length rest \<le> length body"
  by (auto simp: proto_field_def split: if_splits prod.splits)

function proto_scan :: "string \<Rightarrow> (nat, proto_value list) gomap \<Rightarrow> go_error + (nat, proto_value list) gomap" where
  "proto_scan body fs =
     (if body = [] then Inr fs
      else
        (case uvarint body of (tag, n) \<Rightarrow>
           if n \<le> 0 \<or> drop_bit 3 tag = 0 \<or> drop_bit 3 tag \<ge> push_bit 29 1
           then Inl (Errorf ''invalid protobuf tag'' [] [])
           else
             (case proto_field (unat (tag AND 7)) (drop (nat n) body) of
                Inl e \<Rightarrow> Inl e
              | Inr (v, rest) \<Rightarrow>
                  (let k = unat (drop_bit 3 tag) in
                   proto_scan rest (AList.update k (lookup_or [] fs k @ [v]) fs)))))"
  by pat_completeness auto
termination
proof (relation "measure (\<lambda>(body, _). length body)", goal_cases)
  case (2 body fs tag n vr v rest k)
  then have "length rest \<le> length (drop (nat n) body)" using proto_field_shorter by metis
  with 2 show ?case by (cases body) auto
qed simp

declare proto_scan.simps [simp del]

definition proto_fields :: "string \<Rightarrow> go_error + (nat, proto_value list) gomap" where
  "proto_fields body = proto_scan body []"

section \<open>Paths\<close>

record proto_step =
  st_number :: nat
  st_index :: nat

definition parse_step :: "string \<Rightarrow> string \<Rightarrow> go_error + proto_step" where
  "parse_step path part =
     (let d = takeWhile is_digit part; r = dropWhile is_digit part;
          i = takeWhile is_digit (drop 1 r); e = dropWhile is_digit (drop 1 r)
      in if d = [] \<or> hd d = CHR ''0'' \<or> (r \<noteq> [] \<and> (hd r \<noteq> CHR ''['' \<or> i = [] \<or> e \<noteq> '']''))
         then Inl (Errorf ''invalid protobuf path'' [path] [])
         else (case parse_int64 d of
             None \<Rightarrow> Inl (Errorf ''invalid protobuf field number'' [] [])
           | Some n \<Rightarrow>
               if n \<ge> 2 ^ 29 then Inl (Errorf ''invalid protobuf field number'' [] [])
               else if r = [] then Inr \<lparr>st_number = nat n, st_index = 0\<rparr>
               else (case parse_int64 i of
                   None \<Rightarrow> Inl (Errorf ''value out of range'' [i] [])
                 | Some k \<Rightarrow> Inr \<lparr>st_number = nat n, st_index = nat k\<rparr>)))"

definition parse_proto_path :: "string \<Rightarrow> go_error + proto_step list" where
  "parse_proto_path path = map_res (parse_step path) (split_char (CHR ''.'') path)"

section \<open>Selecting a scalar\<close>

fun proto_walk :: "string \<Rightarrow> proto_step list \<Rightarrow> proto_value \<Rightarrow> go_error + proto_value option" where
  "proto_walk body [] v = Inr (Some v)"
| "proto_walk body (s # ss) v =
     (case proto_fields body of
        Inl e \<Rightarrow> Inl e
      | Inr fs \<Rightarrow>
          (let vs = lookup_or [] fs (st_number s) in
           if st_index s \<ge> length vs then Inr None
           else (let w = vs ! st_index s in
             if ss \<noteq> [] \<and> pv_wire w \<noteq> 2 then Inl (Errorf ''nested field is not a message'' [] [])
             else proto_walk (pv_data w) ss w)))"

definition zero_value :: proto_value where
  "zero_value = \<lparr>pv_wire = 0, pv_number = 0, pv_data = []\<rparr>"

text \<open>\<open>float w bits\<close> stands for \<open>strconv.FormatFloat (.., 'g', -1, w)\<close> of the float with these bits.\<close>

definition proto_scalar :: "(nat \<Rightarrow> 64 word \<Rightarrow> string) \<Rightarrow> string \<Rightarrow> proto_value \<Rightarrow> go_error + string" where
  "proto_scalar float typ0 v =
     (let typ = (if typ0 = [] \<or> typ0 = ''auto'' then (if pv_wire v = 2 then ''string'' else ''uint'') else typ0);
          n = pv_number v;
          mismatch = Inl (Errorf ''type does not match wire type'' [typ, format_nat (pv_wire v)] [])
      in if pv_wire v = 2 then
           (if typ = ''string'' then
              (if utf8_valid (map of_char (pv_data v)) then Inr (pv_data v) else Inl (Errorf ''invalid UTF-8 string'' [] []))
            else if typ = ''bytes'' then Inr (base64_encode (pv_data v))
            else mismatch)
         else if typ = ''uint'' then Inr (format_nat (unat n))
         else if typ = ''int'' then Inr (format_int (sint n))
         else if typ = ''sint'' then Inr (format_int (sint (drop_bit 1 n XOR - (n AND 1))))
         else if typ = ''bool'' then Inr (if n \<noteq> 0 then ''true'' else ''false'')
         else if typ = ''float32'' \<and> pv_wire v = 5 then Inr (float 32 n)
         else if typ = ''float64'' \<and> pv_wire v = 1 then Inr (float 64 n)
         else mismatch)"

definition proto_select :: "(nat \<Rightarrow> 64 word \<Rightarrow> string) \<Rightarrow> string \<Rightarrow> string \<Rightarrow> string \<Rightarrow> go_error + string option" where
  "proto_select float body path typ =
     (case parse_proto_path path of
        Inl e \<Rightarrow> Inl e
      | Inr steps \<Rightarrow>
          (case proto_walk body steps zero_value of
             Inl e \<Rightarrow> Inl e
           | Inr None \<Rightarrow> Inr None
           | Inr (Some v) \<Rightarrow> (case proto_scalar float typ v of Inl e \<Rightarrow> Inl e | Inr x \<Rightarrow> Inr (Some x))))"

text \<open>The template function \<open>protoUint\<close>: one varint field, encoded in base 64.\<close>

definition proto_uint :: "int \<Rightarrow> string \<Rightarrow> go_error + string" where
  "proto_uint field value =
     (if field \<le> 0 \<or> field \<ge> 2 ^ 29 then Inl (Errorf ''invalid field number'' [] [])
      else (case parse_uint64 value of
          None \<Rightarrow> Inl (Errorf ''invalid unsigned integer'' [] [])
        | Some n \<Rightarrow>
            Inr (base64_encode (append_uvarint (push_bit 3 (word_of_int field)) @ append_uvarint (word_of_nat n)))))"

section \<open>Reading back what was encoded\<close>

definition varint_field :: "nat \<Rightarrow> 64 word \<Rightarrow> string" where
  "varint_field k n = append_uvarint (push_bit 3 (word_of_nat k)) @ append_uvarint n"

definition varint_value :: "64 word \<Rightarrow> proto_value" where
  "varint_value n = \<lparr>pv_wire = 0, pv_number = n, pv_data = []\<rparr>"

definition add_value :: "nat \<Rightarrow> proto_value \<Rightarrow> (nat, proto_value list) gomap \<Rightarrow> (nat, proto_value list) gomap" where
  "add_value k v fs = AList.update k (lookup_or [] fs k @ [v]) fs"

lemma lookup_add_value: "lookup_or [] (add_value k v fs) j = lookup_or [] fs j @ (if j = k then [v] else [])"
  by (simp add: lookup_or_def add_value_def update_conv')

lemma tag_parts:
  assumes "k < 2 ^ 29"
  shows "drop_bit 3 (push_bit 3 (word_of_nat k :: 64 word)) = word_of_nat k"
    "push_bit 3 (word_of_nat k :: 64 word) AND 7 = 0"
    "unat (word_of_nat k :: 64 word) = k"
proof -
  show u: "unat (word_of_nat k :: 64 word) = k" using assms by (simp add: unat_of_nat)
  have seven: "(7 :: 64 word) = mask 3" by (simp add: mask_eq_exp_minus_1)
  show "push_bit 3 (word_of_nat k :: 64 word) AND 7 = 0"
    unfolding seven by (rule bit_word_eqI) (auto simp: bit_simps)
  have "unat (drop_bit 3 (push_bit 3 (word_of_nat k :: 64 word))) = k"
    using assms u by (simp add: drop_bit_eq_div push_bit_eq_mult unat_div unat_word_ariths)
  then show "drop_bit 3 (push_bit 3 (word_of_nat k :: 64 word)) = word_of_nat k"
    by (metis word_of_unat)
qed

lemma append_uvarint_nonempty [simp]: "append_uvarint n \<noteq> []"
  by (subst append_uvarint.simps) simp

lemma proto_scan_varint:
  assumes "0 < k" and "k < 2 ^ 29"
  shows "proto_scan (varint_field k n @ rest) fs = proto_scan rest (add_value k (varint_value n) fs)"
proof -
  let ?tag = "push_bit 3 (word_of_nat k :: 64 word)"
  note t = tag_parts [OF assms(2)]
  have lt: "\<not> 0x20000000 \<le> (word_of_nat k :: 64 word)"
    using assms(2) t(3) by (simp add: word_le_nat_alt)
  have ne: "(word_of_nat k :: 64 word) \<noteq> 0" using assms(1) t(3) by auto
  have f: "proto_field 0 (append_uvarint n @ rest) = Inr (varint_value n, rest)"
    by (simp add: proto_field_def varint_value_def)
  show ?thesis
    unfolding varint_field_def append_assoc
    by (subst proto_scan.simps) (simp add: t lt ne f add_value_def [symmetric] del: push_bit_eq_mult)
qed

lemma proto_fields_varints:
  assumes "\<forall>(k, n) \<in> set kns. 0 < k \<and> k < 2 ^ 29"
  shows "\<exists>fs. proto_fields (concat (map (\<lambda>(k, n). varint_field k n) kns)) = Inr fs \<and>
    (\<forall>j. lookup_or [] fs j = map (\<lambda>(k, n). varint_value n) (filter (\<lambda>(k, n). k = j) kns))"
proof -
  have "\<exists>fs. proto_scan (concat (map (\<lambda>(k, n). varint_field k n) kns)) acc = Inr fs \<and>
    (\<forall>j. lookup_or [] fs j = lookup_or [] acc j @ map (\<lambda>(k, n). varint_value n) (filter (\<lambda>(k, n). k = j) kns))"
    for acc
    using assms
  proof (induction kns arbitrary: acc)
    case Nil
    then show ?case by (simp add: proto_scan.simps)
  next
    case (Cons kn kns)
    obtain k n where kn: "kn = (k, n)" by fastforce
    have k: "0 < k" "k < 2 ^ 29" using Cons.prems kn by auto
    from Cons.IH [of "add_value k (varint_value n) acc"] Cons.prems
    show ?case by (auto simp: kn proto_scan_varint [OF k] lookup_add_value)
  qed
  from this [of "[]"] show ?thesis by (simp add: proto_fields_def)
qed

lemma format_nat_first: "0 < k \<Longrightarrow> hd (format_nat k) \<noteq> CHR ''0''"
proof (induction k rule: format_nat.induct)
  case (1 k)
  show ?case
  proof (cases "k < 10")
    case True
    with "1.prems" show ?thesis
      using of_char_digit_char [of k] by (auto simp: format_nat.simps [of k])
  next
    case False
    with "1.IH" format_nat_digits [of "k div 10"] show ?thesis by (simp add: format_nat.simps [of k])
  qed
qed

lemma format_nat_digit_chars: "c \<in> set (format_nat k) \<Longrightarrow> is_digit c"
  using format_nat_digits [of k] by (simp add: list_all_iff)

lemma parse_proto_path_number:
  assumes "0 < k" and "k < 2 ^ 29"
  shows "parse_proto_path (format_nat k) = Inr [\<lparr>st_number = k, st_index = 0\<rparr>]"
proof -
  let ?d = "format_nat k"
  have all: "takeWhile is_digit ?d = ?d" "dropWhile is_digit ?d = []"
    using format_nat_digit_chars by (auto simp: takeWhile_eq_all_conv)
  have "parse_int64 (format_int (int k)) = Some (int k)"
    using assms(2) by (intro parse_int64_format) auto
  then have p: "parse_int64 ?d = Some (int k)" by (simp add: format_int_def)
  have "?d \<noteq> []" using format_nat_digits [of k] by simp
  then have "parse_step ?d ?d = Inr \<lparr>st_number = k, st_index = 0\<rparr>"
    using format_nat_first [OF assms(1)] assms(2) by (simp add: parse_step_def all p)
  moreover have "split_char (CHR ''.'') ?d = [?d]"
    by (rule split_char_no_sep) (use format_nat_digit_chars [of "CHR ''.''" k] in \<open>auto simp: is_digit_iff\<close>)
  ultimately show ?thesis by (simp add: parse_proto_path_def)
qed

lemma proto_uint_select:
  assumes "proto_uint field value = Inr s"
  shows "\<exists>body n. base64_decode s = Some body \<and> parse_uint64 value = Some n \<and>
    proto_select float body (format_nat (nat field)) ''uint'' = Inr (Some (format_nat n))"
proof -
  from assms obtain n where f: "0 < field" "field < 2 ^ 29" and n: "parse_uint64 value = Some n"
    and s: "s = base64_encode (varint_field (nat field) (word_of_nat n))"
    by (auto simp: proto_uint_def varint_field_def split: if_splits option.splits)
  let ?k = "nat field" and ?b = "varint_field (nat field) (word_of_nat n)"
  have k: "0 < ?k" "?k < 2 ^ 29" using f by auto
  obtain fs where fs: "proto_fields ?b = Inr fs"
    and l: "lookup_or [] fs ?k = [varint_value (word_of_nat n)]"
    using proto_fields_varints [of "[(?k, word_of_nat n)]"] k by auto
  have "n < 2 ^ 64" using n by (auto simp: parse_uint64_def split: option.splits if_splits)
  then have "unat (word_of_nat n :: 64 word) = n" by (simp add: unat_of_nat)
  then have "proto_select float ?b (format_nat ?k) ''uint'' = Inr (Some (format_nat n))"
    by (simp add: proto_select_def parse_proto_path_number [OF k] fs l proto_scalar_def varint_value_def Let_def)
  then show ?thesis using n s by simp
qed

end
