(* ===== verification/PortalConfig.thy ===== *)
theory PortalConfig
  imports PortalProto GoPath
begin

text \<open>
  The workflow configuration of \<open>portal-bench\<close> (tools/portal-bench/config.go), the construction of
  a request (\<open>makeRequest\<close> of runner.go) and the extraction of fields from a response
  (decode.go).

  Parameters, collected in \<open>portal_lib\<close>: the template engine with the process environment
  (\<open>render\<close>), \<open>time.ParseDuration\<close>, \<open>net/url\<close>, \<open>regexp\<close>, \<open>exec.LookPath\<close>, the JSON decoder,
  \<open>html.UnescapeString\<close>, float formatting and parsing, header canonicalisation and the check of
  \<open>http.NewRequest\<close>. A regular expression is a number of groups with its search and its
  replacement; the two fixed expressions of the HTML filter are written out.
\<close>

section \<open>Data\<close>

record selector =
  se_path :: string
  se_type :: string
  se_default :: "string option"
  se_trim :: bool
  se_replace :: "(string \<times> string) list"

record response =
  rs_format :: string
  rs_fields :: "(string, selector) gomap"

record http_action =
  ha_method :: string
  ha_url :: string
  ha_headers :: "(string, string) gomap"
  ha_body :: string
  ha_body64 :: string

record action =
  ac_http :: "http_action option"
  ac_command :: "string list"
  ac_env :: "(string, string) gomap"
  ac_response :: response

record outcome =
  oc_status :: string
  oc_done :: "string list"
  oc_failed :: "string list"
  oc_pass :: string
  oc_pass_values :: "string list"
  oc_fail_values :: "string list"
  oc_score :: string
  oc_logs :: "string list"

record portal_config =
  pc_base_url :: string
  pc_vars :: "(string, string) gomap"
  pc_headers :: "(string, string) gomap"
  pc_timeout :: string
  pc_request_timeout :: string
  pc_poll_interval :: string
  pc_poll_retries :: int
  pc_start :: action
  pc_poll :: action
  pc_result :: "action option"
  pc_outcome :: outcome

section \<open>The libraries\<close>

datatype json_reply = BadJson | TrailingJson | Document json

datatype config_file = CannotOpen go_error | CannotDecode go_error | ExtraJson | Decoded portal_config

record web_url =
  url_scheme :: string
  url_host :: string
  url_user :: bool
  url_text :: string

record regex =
  rx_groups :: nat
  rx_find :: "string \<Rightarrow> string option"
  rx_replace :: "string \<Rightarrow> string \<Rightarrow> string"

record portal_lib =
  pl_render :: "string \<Rightarrow> (string, string) gomap \<Rightarrow> go_error + string"
  pl_duration :: "string \<Rightarrow> int option"
  pl_url :: "string \<Rightarrow> web_url option"
  pl_resolve :: "web_url \<Rightarrow> web_url \<Rightarrow> web_url"
  pl_regex :: "string \<Rightarrow> regex option"
  pl_lookpath :: "string \<Rightarrow> bool"
  pl_json :: "string \<Rightarrow> json_reply"
  pl_unescape :: "string \<Rightarrow> string"
  pl_float :: "nat \<Rightarrow> 64 word \<Rightarrow> string"
  pl_finite :: "string \<Rightarrow> bool"
  pl_canonical :: "string \<Rightarrow> string"
  pl_request_ok :: "string \<Rightarrow> string \<Rightarrow> bool"

section \<open>Loading\<close>

definition load_portal :: "config_file \<Rightarrow> go_error + portal_config" where
  "load_portal f =
     (case f of
        CannotOpen e \<Rightarrow> Inl e
      | CannotDecode e \<Rightarrow> Inl e
      | ExtraJson \<Rightarrow> Inl (Errorf ''config must contain one JSON object'' [] [])
      | Decoded c \<Rightarrow>
          Inr (c\<lparr>pc_timeout := (if pc_timeout c = [] then ''20m'' else pc_timeout c),
                 pc_request_timeout := (if pc_request_timeout c = [] then ''30s'' else pc_request_timeout c),
                 pc_poll_interval := (if pc_poll_interval c = [] then ''5s'' else pc_poll_interval c)\<rparr>))"

definition positive_duration :: "portal_lib \<Rightarrow> string \<Rightarrow> go_error + int" where
  "positive_duration L s =
     (case pl_duration L s of
        Some d \<Rightarrow> if d \<le> 0 then Inl (Errorf ''invalid positive duration'' [s] []) else Inr d
      | None \<Rightarrow> Inl (Errorf ''invalid positive duration'' [s] []))"

text \<open>The duration that the runner works with after the check: 0 when it does not parse.\<close>

definition duration :: "portal_lib \<Rightarrow> string \<Rightarrow> int" where
  "duration L s = (case positive_duration L s of Inl _ \<Rightarrow> 0 | Inr d \<Rightarrow> d)"

section \<open>Variables\<close>

definition web_ok :: "web_url \<Rightarrow> bool" where
  "web_ok u = ((url_scheme u = ''http'' \<or> url_scheme u = ''https'') \<and> url_host u \<noteq> [] \<and> \<not> url_user u)"

definition add_variable :: "portal_lib \<Rightarrow> string \<times> string \<Rightarrow> (string, string) gomap \<Rightarrow> go_error + (string, string) gomap" where
  "add_variable L kv vs =
     (case kv of (k, value) \<Rightarrow>
        if k = ''base_url'' \<or> k = ''job_id'' then Inl (Errorf ''reserved variable'' [k] [])
        else (case pl_render L value [] of
            Inl e \<Rightarrow> Inl (Errorf ''variable'' [k] [e])
          | Inr x \<Rightarrow> Inr (AList.update k x vs)))"

definition portal_variables :: "portal_lib \<Rightarrow> portal_config \<Rightarrow> go_error + (string, string) gomap" where
  "portal_variables L c =
     (case fold_res (add_variable L) (pc_vars c) [] of
        Inl e \<Rightarrow> Inl e
      | Inr vs \<Rightarrow>
          (case pl_render L (pc_base_url c) vs of
             Inl e \<Rightarrow> Inl e
           | Inr base \<Rightarrow>
               if base \<noteq> [] \<and> (case pl_url L base of None \<Rightarrow> True | Some u \<Rightarrow> \<not> web_ok u)
               then Inl (Errorf ''base_url must be an HTTP(S) URL without userinfo'' [] [])
               else Inr (AList.update ''base_url'' (trim_right (\<lambda>c. c = CHR ''/'') base) vs)))"

section \<open>Requests\<close>

record request =
  rq_method :: string
  rq_url :: string
  rq_headers :: "(string, string) gomap"
  rq_body :: string

definition merged_headers :: "portal_lib \<Rightarrow> (string, string) gomap \<Rightarrow> (string, string) gomap \<Rightarrow> (string, string) gomap" where
  "merged_headers L common own = fold (\<lambda>(k, v). AList.update (pl_canonical L k) v) (common @ own) []"

definition set_header :: "portal_lib \<Rightarrow> (string, string) gomap \<Rightarrow> string \<times> string \<Rightarrow> go_error + (string \<times> string)" where
  "set_header L vars nv =
     (case pl_render L (snd nv) vars of
        Inl e \<Rightarrow> Inl e
      | Inr v \<Rightarrow>
          if contains_any v [CHR 0x0D, CHR 0x0A] \<or> contains_any (fst nv) [CHR 0x0D, CHR 0x0A, CHR '' '', CHR '':'', CHR 0x09]
          then Inl (Errorf ''invalid HTTP header'' [] []) else Inr (fst nv, v))"

definition target_url :: "portal_lib \<Rightarrow> string \<Rightarrow> (string, string) gomap \<Rightarrow> go_error + web_url" where
  "target_url L address vars =
     (case pl_url L address of
        None \<Rightarrow> Inl (Errorf ''invalid request URL'' [] [])
      | Some u \<Rightarrow>
          (case (if url_scheme u \<noteq> [] then Some u
                 else (case pl_url L (lookup_or [] vars ''base_url'') of
                   None \<Rightarrow> None | Some base \<Rightarrow> Some (pl_resolve L base u))) of
             None \<Rightarrow> Inl (Errorf ''invalid base URL'' [] [])
           | Some t \<Rightarrow>
               if web_ok t then Inr t
               else Inl (Errorf ''request URL must use HTTP(S) without userinfo'' [] [])))"

definition request_body :: "portal_lib \<Rightarrow> http_action \<Rightarrow> (string, string) gomap \<Rightarrow> go_error + string" where
  "request_body L h vars =
     (case pl_render L (ha_body h) vars of
        Inl e \<Rightarrow> Inl e
      | Inr text \<Rightarrow>
          if ha_body64 h = [] then Inr text
          else (case pl_render L (ha_body64 h) vars of
              Inl e \<Rightarrow> Inl e
            | Inr encoded \<Rightarrow>
                (case base64_decode encoded of
                   None \<Rightarrow> Inl (Errorf ''invalid body_base64'' [] []) | Some b \<Rightarrow> Inr b)))"

definition make_request :: "portal_lib \<Rightarrow> http_action \<Rightarrow> (string, string) gomap \<Rightarrow> (string, string) gomap \<Rightarrow>
    go_error + request" where
  "make_request L h headers vars =
     (case pl_render L (ha_url h) vars of
        Inl e \<Rightarrow> Inl e
      | Inr address \<Rightarrow>
     (case target_url L address vars of
        Inl e \<Rightarrow> Inl e
      | Inr u \<Rightarrow>
     (case request_body L h vars of
        Inl e \<Rightarrow> Inl e
      | Inr body \<Rightarrow>
          if \<not> pl_request_ok L (ha_method h) (url_text u) then Inl (Errorf ''invalid HTTP request'' [] [])
          else (case map_res (set_header L vars) (merged_headers L headers (ha_headers h)) of
              Inl e \<Rightarrow> Inl e
            | Inr hs \<Rightarrow> Inr \<lparr>rq_method = ha_method h, rq_url = url_text u, rq_headers = hs, rq_body = body\<rparr>))))"

section \<open>Validation\<close>

definition check_selector :: "portal_lib \<Rightarrow> string \<Rightarrow> string \<times> selector \<Rightarrow> go_error option" where
  "check_selector L fmt ns =
     (case ns of (name, s) \<Rightarrow>
        if name = ''base_url'' then Some (Errorf ''cannot extract reserved field base_url'' [] [])
        else
          (case (if fmt = ''protobuf'' then
                   (case parse_proto_path (se_path s) of
                      Inl e \<Rightarrow> Some e
                    | Inr _ \<Rightarrow>
                        if se_type s \<notin> set [[], ''auto'', ''string'', ''bytes'', ''uint'', ''int'', ''sint'', ''bool'', ''float32'', ''float64'']
                        then Some (Errorf ''unsupported protobuf type'' [se_type s] []) else None)
                 else if fmt = ''json'' \<and> se_path s \<noteq> [] \<and> \<not> has_prefix (se_path s) ''/''
                 then Some (Errorf ''JSON paths must be JSON pointers'' [] []) else None) of
             Some e \<Rightarrow> Some e
           | None \<Rightarrow>
               if fmt = ''regex'' \<and> (case pl_regex L (se_path s) of None \<Rightarrow> True | Some r \<Rightarrow> rx_groups r \<noteq> 1)
               then Some (Errorf ''regex field requires a valid pattern with one capture group'' [name] [])
               else first_error
                 (\<lambda>(p, _). if pl_regex L p = None then Some (Errorf ''invalid replacement pattern'' [name] []) else None)
                 (se_replace s)))"

definition render_error :: "portal_lib \<Rightarrow> (string, string) gomap \<Rightarrow> string \<Rightarrow> go_error option" where
  "render_error L vars s = (case pl_render L s vars of Inl e \<Rightarrow> Some e | Inr _ \<Rightarrow> None)"

definition check_command :: "portal_lib \<Rightarrow> action \<Rightarrow> (string, string) gomap \<Rightarrow> go_error option" where
  "check_command L a vars =
     (case ac_command a of
        [] \<Rightarrow> None
      | c # _ \<Rightarrow>
          (case pl_render L c vars of
             Inl e \<Rightarrow> Some e
           | Inr program \<Rightarrow>
               if pl_lookpath L program then None
               else Some (Errorf ''configured command executable is unavailable'' [] [])))"

definition check_http :: "portal_lib \<Rightarrow> action \<Rightarrow> (string, string) gomap \<Rightarrow> (string, string) gomap \<Rightarrow> go_error option" where
  "check_http L a headers vars =
     (case ac_http a of
        None \<Rightarrow> None
      | Some h \<Rightarrow>
          if ha_method h = [] \<or> ha_url h = [] then Some (Errorf ''http requires method and url'' [] [])
          else if ha_body h \<noteq> [] \<and> ha_body64 h \<noteq> [] then Some (Errorf ''body and body_base64 are mutually exclusive'' [] [])
          else (case make_request L h headers vars of
              Inl e \<Rightarrow> Some e
            | Inr _ \<Rightarrow>
                if ha_body64 h = [] then None
                else (case pl_render L (ha_body64 h) vars of
                    Inl e \<Rightarrow> Some e
                  | Inr s \<Rightarrow> if base64_decode s = None then Some (Errorf ''invalid body_base64'' [] []) else None)))"

definition action_values :: "action \<Rightarrow> (string, string) gomap \<Rightarrow> string list" where
  "action_values a headers =
     ac_command a @ map snd (ac_env a) @
     (case ac_http a of None \<Rightarrow> []
      | Some h \<Rightarrow> [ha_url h, ha_body h, ha_body64 h] @ map snd headers @ map snd (ha_headers h))"

definition validate_action :: "portal_lib \<Rightarrow> action \<Rightarrow> (string, string) gomap \<Rightarrow> (string, string) gomap \<Rightarrow> go_error option" where
  "validate_action L a headers vars =
     (if (ac_http a = None) = (ac_command a = []) then Some (Errorf ''specify exactly one of http or command'' [] [])
      else if rs_format (ac_response a) \<notin> set [''json'', ''protobuf'', ''text'', ''regex'']
      then Some (Errorf ''response.format must be json, protobuf, text, or regex'' [] [])
      else (case first_error (check_selector L (rs_format (ac_response a))) (rs_fields (ac_response a)) of
          Some e \<Rightarrow> Some e
        | None \<Rightarrow>
            (case check_command L a vars of
               Some e \<Rightarrow> Some e
             | None \<Rightarrow>
                 (case check_http L a headers vars of
                    Some e \<Rightarrow> Some e
                  | None \<Rightarrow> first_error (render_error L vars) (action_values a headers)))))"

definition extracted :: "portal_config \<Rightarrow> string list" where
  "extracted c =
     keys (rs_fields (ac_response (pc_poll c))) @
     (case pc_result c of None \<Rightarrow> [] | Some a \<Rightarrow> keys (rs_fields (ac_response a)))"

definition check_outcome :: "portal_config \<Rightarrow> go_error option" where
  "check_outcome c =
     (let oc = pc_outcome c in
      case first_error
        (\<lambda>k. if k \<noteq> [] \<and> k \<notin> set (extracted c) then Some (Errorf ''outcome field is not extracted'' [k] []) else None)
        (oc_logs oc @ [oc_score oc, oc_pass oc]) of
        Some e \<Rightarrow> Some e
      | None \<Rightarrow>
          if oc_pass oc \<noteq> [] \<and> length (oc_pass_values oc) + length (oc_fail_values oc) = 0
          then Some (Errorf ''outcome.pass requires pass_values or fail_values'' [] [])
          else first_error
            (\<lambda>v. if v \<in> set (oc_fail_values oc) then Some (Errorf ''overlapping pass/fail values'' [] []) else None)
            (oc_pass_values oc))"

text \<open>\<open>poll_first\<close> is the order in which the runtime visits the map of the two actions.\<close>

definition validate_portal :: "portal_lib \<Rightarrow> bool \<Rightarrow> portal_config \<Rightarrow> go_error option" where
  "validate_portal L poll_first c =
     (case first_error (\<lambda>s. case positive_duration L s of Inl e \<Rightarrow> Some e | Inr _ \<Rightarrow> None)
         [pc_timeout c, pc_request_timeout c, pc_poll_interval c] of
        Some e \<Rightarrow> Some e
      | None \<Rightarrow>
     (if pc_poll_retries c < 0 then Some (Errorf ''poll_retries must be nonnegative'' [] [])
      else
     (case portal_variables L c of
        Inl e \<Rightarrow> Some e
      | Inr v0 \<Rightarrow>
          (let v = fold (\<lambda>k. AList.update k ''1'')
                (''job_id'' # keys (rs_fields (ac_response (pc_start c))) @ keys (rs_fields (ac_response (pc_poll c)))) v0;
               phases = [(''start'', pc_start c), (''poll'', pc_poll c)]
           in case first_error
               (\<lambda>(n, a). case validate_action L a (pc_headers c) v of None \<Rightarrow> None | Some e \<Rightarrow> Some (Errorf n [] [e]))
               (if poll_first then rev phases else phases) of
              Some e \<Rightarrow> Some e
            | None \<Rightarrow>
                if ''job_id'' \<notin> set (keys (rs_fields (ac_response (pc_start c))))
                then Some (Errorf ''start must extract job_id'' [] [])
                else if oc_status (pc_outcome c) = [] \<or> oc_done (pc_outcome c) = [] \<or> oc_logs (pc_outcome c) = []
                then Some (Errorf ''outcome requires status, done_values, and logs'' [] [])
                else if oc_status (pc_outcome c) \<notin> set (keys (rs_fields (ac_response (pc_poll c))))
                then Some (Errorf ''poll must extract outcome.status'' [] [])
                else (case (case pc_result c of None \<Rightarrow> None | Some a \<Rightarrow> validate_action L a (pc_headers c) v) of
                    Some e \<Rightarrow> Some (Errorf ''result'' [] [e])
                  | None \<Rightarrow> check_outcome c)))))"

section \<open>Extraction\<close>

definition json_token :: "string \<Rightarrow> string" where
  "json_token t = replace_all ''~0'' ''~'' (replace_all ''~1'' ''/'' t)"

fun json_walk :: "json \<Rightarrow> string list \<Rightarrow> json option" where
  "json_walk v [] = (if v = JNull then None else Some v)"
| "json_walk v (t # ts) =
     (case v of
        JObj m \<Rightarrow>
          (case map_of m (json_token t) of
             None \<Rightarrow> None
           | Some w \<Rightarrow> if w = JNull then None else json_walk w ts)
      | JArr xs \<Rightarrow>
          (case parse_int64 (json_token t) of
             None \<Rightarrow> None
           | Some i \<Rightarrow> if i < 0 \<or> i \<ge> int (length xs) then None else json_walk (xs ! nat i) ts)
      | _ \<Rightarrow> None)"

definition json_pointer :: "json \<Rightarrow> string \<Rightarrow> go_error + json option" where
  "json_pointer root path =
     (if path = [] then Inr (if root = JNull then None else Some root)
      else if \<not> has_prefix path ''/'' then Inl (Errorf ''invalid JSON pointer'' [] [])
      else Inr (json_walk root (split_char (CHR ''/'') (drop 1 path))))"

definition scalar_string :: "json \<Rightarrow> go_error + string" where
  "scalar_string v =
     (case v of
        JStr s \<Rightarrow> Inr s
      | JNum s \<Rightarrow> Inr s
      | JBool b \<Rightarrow> Inr (if b then ''true'' else ''false'')
      | _ \<Rightarrow> Inl (Errorf ''selected value must be a string, number, or boolean'' [] []))"

text \<open>The matches of \<open>(?i)<br\s*/?>\<close> and \<open>(?s)<[^>]*>\<close>.\<close>

definition br_len :: "string \<Rightarrow> nat" where
  "br_len s =
     (case s of
        a # b # r # t \<Rightarrow>
          if a = CHR ''<'' \<and> b \<in> set ''bB'' \<and> r \<in> set ''rR'' then
            (let sp = length (takeWhile re_space t); u = drop sp t in
             if has_prefix u ''/>'' then 5 + sp else if has_prefix u ''>'' then 4 + sp else 0)
          else 0
      | _ \<Rightarrow> 0)"

definition tag_len :: "string \<Rightarrow> nat" where
  "tag_len s =
     (case s of
        c # t \<Rightarrow> if c = CHR ''<'' \<and> CHR ''>'' \<in> set t then 2 + length (takeWhile (\<lambda>x. x \<noteq> CHR ''>'') t) else 0
      | [] \<Rightarrow> 0)"

definition html_text :: "portal_lib \<Rightarrow> string \<Rightarrow> string" where
  "html_text L v =
     pl_unescape L (replace_matches tag_len (\<lambda>_. []) (replace_matches br_len (\<lambda>_. [CHR 0x0A]) v))"

definition raw_field :: "portal_lib \<Rightarrow> string \<Rightarrow> json \<Rightarrow> string \<Rightarrow> string \<Rightarrow> selector \<Rightarrow> go_error + string option" where
  "raw_field L body document fmt name s =
     (case
       (if fmt = ''json'' then
          (case json_pointer document (se_path s) of
             Inl e \<Rightarrow> Inl (Errorf ''field'' [name] [e])
           | Inr None \<Rightarrow> Inr None
           | Inr (Some v) \<Rightarrow>
               (case scalar_string v of Inl e \<Rightarrow> Inl (Errorf ''field'' [name] [e]) | Inr x \<Rightarrow> Inr (Some x)))
        else if fmt = ''protobuf'' then
          (case proto_select (pl_float L) body (se_path s) (se_type s) of
             Inl e \<Rightarrow> Inl (Errorf ''field'' [name] [e]) | Inr x \<Rightarrow> Inr x)
        else if fmt = ''text'' then Inr (Some body)
        else if fmt = ''regex'' then
          (case pl_regex L (se_path s) of
             None \<Rightarrow> Inl (Errorf ''error parsing regexp'' [se_path s] [])
           | Some r \<Rightarrow> Inr (if rx_groups r = 1 then rx_find r body else None))
        else Inl (Errorf ''unsupported response format'' [] [])) of
        Inl e \<Rightarrow> Inl e
      | Inr (Some x) \<Rightarrow> Inr (Some x)
      | Inr None \<Rightarrow>
          (case se_default s of
             None \<Rightarrow> Inl (Errorf ''required field is missing'' [name] []) | Some d \<Rightarrow> Inr (Some d)))"

definition apply_replacement :: "portal_lib \<Rightarrow> string \<times> string \<Rightarrow> string \<Rightarrow> go_error + string" where
  "apply_replacement L pv v =
     (case pl_regex L (fst pv) of
        None \<Rightarrow> Inl (Errorf ''error parsing regexp'' [fst pv] []) | Some r \<Rightarrow> Inr (rx_replace r (snd pv) v))"

definition extract_field :: "portal_lib \<Rightarrow> string \<Rightarrow> json \<Rightarrow> string \<Rightarrow> string \<times> selector \<Rightarrow> go_error + (string \<times> string)" where
  "extract_field L body document fmt ns =
     (case raw_field L body document fmt (fst ns) (snd ns) of
        Inl e \<Rightarrow> Inl e
      | Inr raw \<Rightarrow>
          (let v = (case raw of None \<Rightarrow> [] | Some x \<Rightarrow> x);
               h = (if se_type (snd ns) = ''html_text'' then html_text L v else v)
           in case fold_res (apply_replacement L) (se_replace (snd ns)) h of
                Inl e \<Rightarrow> Inl e
              | Inr x \<Rightarrow> Inr (fst ns, if se_trim (snd ns) then trim_space x else x)))"

definition extract_fields :: "portal_lib \<Rightarrow> string \<Rightarrow> response \<Rightarrow> go_error + (string, string) gomap" where
  "extract_fields L body r =
     (case (if rs_format r = ''json'' then pl_json L body else Document JNull) of
        BadJson \<Rightarrow> Inl (Errorf ''invalid JSON response'' [] [])
      | TrailingJson \<Rightarrow> Inl (Errorf ''trailing JSON data'' [] [])
      | Document d \<Rightarrow> map_res (extract_field L body d (rs_format r)) (rs_fields r))"

end
