(* ===== verification/PortalRunner.thy ===== *)
theory PortalRunner
  imports PortalConfig
begin

text \<open>
  The benchmark runner of \<open>portal-bench\<close> (tools/portal-bench/runner.go and main.go): one phase is
  executed as an HTTP request or a command, a job is started at most once, polled until its status
  is final, and its result is reported with normalised markers.

  Time is an integer number of nanoseconds; the run has a deadline, a request takes the time the
  outside world says, and the wait between two polls ends at the deadline at the latest. The
  parameters \<open>pe_http\<close>, \<open>pe_cmd\<close>, \<open>pe_signal\<close> and \<open>pe_save\<close> stand for the HTTP client, the
  processes, the signals and the file system; each acts on an arbitrary outside world. The recursion
  of the polling loop is bounded by fuel; \<open>poll_fuel\<close> shows the fuel of \<open>run_portal\<close> to suffice.
\<close>

section \<open>State\<close>

datatype http_reply = HttpError | HttpReply int "string option"

datatype phase = Start | Poll | Result

text \<open>A line of the log of a run: a phase and whether it succeeded.\<close>

type_synonym phase_log = "(phase \<times> bool) list"

record 'w portal_env =
  pe_lib :: portal_lib
  pe_http :: "request \<Rightarrow> int \<Rightarrow> 'w \<Rightarrow> http_reply \<times> nat \<times> 'w"
  pe_cmd :: "string list \<Rightarrow> (string, string) gomap \<Rightarrow> int \<Rightarrow> 'w \<Rightarrow> (bool \<times> string) \<times> nat \<times> 'w"
  pe_signal :: "'w \<Rightarrow> bool"
  pe_wait :: "'w \<Rightarrow> 'w"
  pe_mkdir :: "string \<Rightarrow> 'w \<Rightarrow> bool"
  pe_save :: "string \<Rightarrow> string \<Rightarrow> 'w \<Rightarrow> bool \<times> 'w"
  pe_quote :: "string \<Rightarrow> string"

record 'w portal_state =
  pt_now :: int
  pt_out :: "string list"
  pt_err :: "string list"
  pt_log :: phase_log
  pt_world :: 'w

definition say :: "string \<Rightarrow> 'w portal_state \<Rightarrow> 'w portal_state" where
  "say s st = st\<lparr>pt_out := pt_out st @ [s]\<rparr>"

definition warn :: "string \<Rightarrow> 'w portal_state \<Rightarrow> 'w portal_state" where
  "warn s st = st\<lparr>pt_err := pt_err st @ [s]\<rparr>"

text \<open>\<open>ctx.Err () \<noteq> nil\<close>: the deadline has passed or a signal has arrived.\<close>

definition ctx_done :: "'w portal_env \<Rightarrow> int \<Rightarrow> 'w portal_state \<Rightarrow> bool" where
  "ctx_done E deadline st = (deadline \<le> pt_now st \<or> pe_signal E (pt_world st))"

section \<open>One phase\<close>

datatype exec_error = Retryable string | Fatal go_error

definition plain_error :: "exec_error \<Rightarrow> go_error" where
  "plain_error e = (case e of Retryable m \<Rightarrow> Errorf m [] [] | Fatal g \<Rightarrow> g)"

definition max_response :: nat where
  "max_response = 64 * 2 ^ 20"

definition http_body :: "'w portal_env \<Rightarrow> action \<Rightarrow> http_action \<Rightarrow> portal_config \<Rightarrow> (string, string) gomap \<Rightarrow> int \<Rightarrow>
    'w portal_state \<Rightarrow> (exec_error + string) \<times> 'w portal_state" where
  "http_body E a h c vars deadline st =
     (case make_request (pe_lib E) h (pc_headers c) vars of
        Inl e \<Rightarrow> (Inl (Fatal e), st)
      | Inr rq \<Rightarrow>
          (let limit = min deadline (pt_now st + duration (pe_lib E) (pc_request_timeout c)) in
           case pe_http E rq limit (pt_world st) of (reply, spent, w) \<Rightarrow>
             (let st' = st\<lparr>pt_now := pt_now st + int spent, pt_world := w\<rparr> in
              case reply of
                HttpError \<Rightarrow>
                  (Inl (Retryable (if ctx_done E limit st' then ''request timed out or was cancelled''
                     else ''HTTP request failed'')), st')
              | HttpReply status content \<Rightarrow>
                  if status = 429 \<or> status \<ge> 500
                  then (Inl (Retryable (''HTTP status '' @ format_int status)), st')
                  else if status < 200 \<or> status \<ge> 300
                  then (Inl (Fatal (Errorf ''HTTP status'' [format_int status] [])), st')
                  else (case content of
                      None \<Rightarrow> (Inl (Retryable ''HTTP response read failed''), st')
                    | Some b \<Rightarrow>
                        if length b > max_response
                        then (Inl (Fatal (Errorf ''HTTP response exceeds size limit'' [] [])), st')
                        else (Inr b, st')))))"

definition render_env :: "portal_lib \<Rightarrow> (string, string) gomap \<Rightarrow> string \<times> string \<Rightarrow> go_error + (string \<times> string)" where
  "render_env L vars nv = (case pl_render L (snd nv) vars of Inl e \<Rightarrow> Inl e | Inr v \<Rightarrow> Inr (fst nv, v))"

definition command_body :: "'w portal_env \<Rightarrow> action \<Rightarrow> portal_config \<Rightarrow> (string, string) gomap \<Rightarrow> int \<Rightarrow>
    'w portal_state \<Rightarrow> (exec_error + string) \<times> 'w portal_state" where
  "command_body E a c vars deadline st =
     (case map_res (\<lambda>x. pl_render (pe_lib E) x vars) (ac_command a) of
        Inl e \<Rightarrow> (Inl (Fatal e), st)
      | Inr args \<Rightarrow>
          (case map_res (render_env (pe_lib E) vars) (ac_env a) of
             Inl e \<Rightarrow> (Inl (Fatal e), st)
           | Inr env \<Rightarrow>
               (let limit = min deadline (pt_now st + duration (pe_lib E) (pc_request_timeout c)) in
                case pe_cmd E args env limit (pt_world st) of ((ok, output), spent, w) \<Rightarrow>
                  (let st' = st\<lparr>pt_now := pt_now st + int spent, pt_world := w\<rparr> in
                   if \<not> ok \<or> length output > max_response
                   then (Inl (Fatal (Errorf ''configured command failed'' [] [])), st') else (Inr output, st')))))"

definition execute :: "'w portal_env \<Rightarrow> phase \<Rightarrow> action \<Rightarrow> portal_config \<Rightarrow> (string, string) gomap \<Rightarrow> int \<Rightarrow>
    'w portal_state \<Rightarrow> (exec_error + (string, string) gomap) \<times> 'w portal_state" where
  "execute E ph a c vars deadline st =
     (case (case ac_http a of
              Some h \<Rightarrow> http_body E a h c vars deadline st
            | None \<Rightarrow> command_body E a c vars deadline st) of (body, st') \<Rightarrow>
        (let res = (case body of
               Inl e \<Rightarrow> Inl e
             | Inr b \<Rightarrow> (case extract_fields (pe_lib E) b (ac_response a) of Inl e \<Rightarrow> Inl (Fatal e) | Inr fs \<Rightarrow> Inr fs))
         in (res, st'\<lparr>pt_log := pt_log st' @ [(ph, case res of Inl _ \<Rightarrow> False | Inr _ \<Rightarrow> True)]\<rparr>)))"

text \<open>\<open>waitInterval\<close>: true when the context ended first.\<close>

definition wait_interval :: "'w portal_env \<Rightarrow> int \<Rightarrow> int \<Rightarrow> 'w portal_state \<Rightarrow> bool \<times> 'w portal_state" where
  "wait_interval E deadline d st =
     (if ctx_done E deadline st then (True, st)
      else if pt_now st + d \<ge> deadline then (True, st\<lparr>pt_now := deadline\<rparr>)
      else (let w = pe_wait E (pt_world st); st' = st\<lparr>pt_now := pt_now st + d, pt_world := w\<rparr> in
            (pe_signal E w, st')))"

section \<open>Reporting\<close>

definition joined_log :: "outcome \<Rightarrow> (string, string) gomap \<Rightarrow> string" where
  "joined_log oc vars =
     concat (map (\<lambda>name. let v = lookup_or [] vars name in
       if v = [] then [] else if has_suffix v [CHR 0x0A] then v else v @ [CHR 0x0A]) (oc_logs oc))"

definition save_log :: "'w portal_env \<Rightarrow> string \<Rightarrow> string \<Rightarrow> 'w portal_state \<Rightarrow> go_error option \<times> 'w portal_state" where
  "save_log E dir log st =
     (if dir = [] then (None, st)
      else (case pe_save E (path_join [dir, ''benchmark-result.txt'']) log (pt_world st) of (ok, w) \<Rightarrow>
        (if ok then None else Some (Errorf ''write benchmark-result.txt'' [] []), st\<lparr>pt_world := w\<rparr>)))"

abbreviation benchmark_failed :: go_error where
  "benchmark_failed \<equiv> Errorf ''benchmark failed'' [] []"

definition set_all :: "(string, string) gomap \<Rightarrow> (string, string) gomap \<Rightarrow> (string, string) gomap" where
  "set_all fs vars = fold (\<lambda>(k, v). AList.update k v) fs vars"

abbreviation newline :: string where
  "newline \<equiv> [CHR 0x0A]"

definition report :: "portal_lib \<Rightarrow> outcome \<Rightarrow> bool \<Rightarrow> (string, string) gomap \<Rightarrow> string \<Rightarrow> 'w portal_state \<Rightarrow>
    go_error option \<times> 'w portal_state" where
  "report L oc failed vars log st =
     (let st1 = say log st; score = lookup_or [] vars (oc_score oc); scored = (oc_score oc \<noteq> [] \<and> score \<noteq> []) in
      if scored \<and> (\<not> pl_finite L score \<or> contains_any score [CHR 0x0D, CHR 0x0A])
      then (Some (Errorf ''invalid score'' [] []), st1)
      else
        (let st2 = (if scored then say (''SCORE: '' @ score @ newline) st1 else st1);
             verdict = lookup_or [] vars (oc_pass oc);
             bad = (failed \<or> (oc_pass oc \<noteq> [] \<and> verdict \<in> set (oc_fail_values oc)))
         in if bad then (Some benchmark_failed, say (''BENCHMARK_FAIL'' @ newline) st2)
            else if oc_pass oc \<noteq> [] \<and> verdict \<in> set (oc_pass_values oc)
            then (None, say (''BENCHMARK_PASS'' @ newline) st2)
            else (None, st2)))"

text \<open>The deferred print of the log that has not been reported.\<close>

definition leave :: "string \<Rightarrow> go_error option \<times> 'w portal_state \<Rightarrow> go_error option \<times> 'w portal_state" where
  "leave log r = (if log = [] then r else (fst r, say log (snd r)))"

section \<open>A job\<close>

text \<open>The end of a job whose status is final.\<close>

definition settle_job :: "'w portal_env \<Rightarrow> portal_config \<Rightarrow> string \<Rightarrow> string \<Rightarrow> int \<Rightarrow> bool \<Rightarrow> (string, string) gomap \<Rightarrow>
    string \<Rightarrow> 'w portal_state \<Rightarrow> go_error option \<times> 'w portal_state" where
  "settle_job E c dir job deadline failed vars log st =
     (case pc_result c of
        None \<Rightarrow> report (pe_lib E) (pc_outcome c) failed vars log st
      | Some a \<Rightarrow>
          (case execute E Result a c vars deadline st of
             (Inl e, st1) \<Rightarrow> leave log (Some (Errorf ''result'' [] [plain_error e]), st1)
           | (Inr fs, st1) \<Rightarrow>
               (case map_of fs ''job_id'' of
                  Some got \<Rightarrow>
                    if got \<noteq> job then leave log (Some (Errorf ''result returned a different job_id'' [] []), st1)
                    else (let vars1 = set_all fs vars; log1 = joined_log (pc_outcome c) vars1 in
                      case save_log E dir log1 st1 of
                        (Some e, st2) \<Rightarrow> leave log1 (Some e, st2)
                      | (None, st2) \<Rightarrow> report (pe_lib E) (pc_outcome c) failed vars1 log1 st2)
                | None \<Rightarrow>
                    (let vars1 = set_all fs vars; log1 = joined_log (pc_outcome c) vars1 in
                     case save_log E dir log1 st1 of
                       (Some e, st2) \<Rightarrow> leave log1 (Some e, st2)
                     | (None, st2) \<Rightarrow> report (pe_lib E) (pc_outcome c) failed vars1 log1 st2))))"

primrec poll_loop :: "nat \<Rightarrow> 'w portal_env \<Rightarrow> portal_config \<Rightarrow> string \<Rightarrow> string \<Rightarrow> int \<Rightarrow> int \<Rightarrow> (string, string) gomap \<Rightarrow>
    string \<Rightarrow> int \<Rightarrow> string \<Rightarrow> 'w portal_state \<Rightarrow> (go_error option \<times> 'w portal_state) option" where
  "poll_loop 0 E c dir job deadline interval vars previous retries log st = None"
| "poll_loop (Suc k) E c dir job deadline interval vars previous retries log st =
     (case execute E Poll (pc_poll c) c vars deadline st of
        (Inl e, st1) \<Rightarrow>
          (case (if ctx_done E deadline st1 then None else (case e of Retryable m \<Rightarrow> Some m | Fatal _ \<Rightarrow> None)) of
             Some m \<Rightarrow>
               if retries < pc_poll_retries c then
                 (case wait_interval E deadline interval
                     (warn (''portal poll retry '' @ format_int (retries + 1) @ '': '' @ m @ newline) st1) of
                    (True, st2) \<Rightarrow> Some (leave log (Some (Errorf ''context ended'' [] []), st2))
                  | (False, st2) \<Rightarrow>
                      poll_loop k E c dir job deadline interval vars previous (retries + 1) log st2)
               else Some (leave log (Some (Errorf ''poll job'' [job] [plain_error e]), st1))
           | None \<Rightarrow> Some (leave log (Some (Errorf ''poll job'' [job] [plain_error e]), st1)))
      | (Inr fs, st1) \<Rightarrow>
          if (case map_of fs ''job_id'' of None \<Rightarrow> False | Some got \<Rightarrow> got \<noteq> job)
          then Some (leave log (Some (Errorf ''poll returned a different job_id'' [] []), st1))
          else
            (let vars1 = set_all fs vars; status = lookup_or [] fs (oc_status (pc_outcome c));
                 st2 = (if status \<noteq> previous then warn (''PORTAL_STATUS: '' @ pe_quote E status @ newline) st1 else st1);
                 log1 = joined_log (pc_outcome c) vars1
             in case save_log E dir log1 st2 of
                  (Some e, st3) \<Rightarrow> Some (leave log1 (Some e, st3))
                | (None, st3) \<Rightarrow>
                    (let failed = (status \<in> set (oc_failed (pc_outcome c))) in
                     if status \<in> set (oc_done (pc_outcome c)) \<or> failed
                     then Some (settle_job E c dir job deadline failed vars1 log1 st3)
                     else
                       (case wait_interval E deadline interval st3 of
                          (True, st4) \<Rightarrow> Some (leave log1 (Some (Errorf ''waiting for job'' [job] []), st4))
                        | (False, st4) \<Rightarrow>
                            poll_loop k E c dir job deadline interval vars1 status 0 log1 st4))))"

text \<open>The start phase: the job that is given, or the one that the portal returns.\<close>

definition start_job :: "'w portal_env \<Rightarrow> portal_config \<Rightarrow> string \<Rightarrow> int \<Rightarrow> (string, string) gomap \<Rightarrow> 'w portal_state \<Rightarrow>
    (go_error + (string \<times> (string, string) gomap)) \<times> 'w portal_state" where
  "start_job E c job deadline vars st =
     (case (if job \<noteq> [] then (Inr (job, vars), st)
            else (case execute E Start (pc_start c) c vars deadline st of
                (Inl e, st1) \<Rightarrow>
                  (Inl (Errorf ''start failed (not retried; check portal before submitting again)'' [] [plain_error e]), st1)
              | (Inr fs, st1) \<Rightarrow> (Inr (lookup_or [] (set_all fs vars) ''job_id'', set_all fs vars), st1))) of
        (Inl e, st1) \<Rightarrow> (Inl e, st1)
      | (Inr (j, vs), st1) \<Rightarrow>
          if j = [] \<or> contains_any j [CHR 0x0D, CHR 0x0A] then (Inl (Errorf ''empty or invalid job_id'' [] []), st1)
          else (Inr (j, AList.update ''job_id'' j vs), warn (''PORTAL_JOB_ID: '' @ j @ newline) st1))"

definition run_portal :: "'w portal_env \<Rightarrow> bool \<Rightarrow> portal_config \<Rightarrow> string \<Rightarrow> string \<Rightarrow> 'w portal_state \<Rightarrow>
    (go_error option \<times> 'w portal_state) option" where
  "run_portal E poll_first c dir job st =
     (case validate_portal (pe_lib E) poll_first c of
        Some e \<Rightarrow> Some (Some e, st)
      | None \<Rightarrow>
     (case portal_variables (pe_lib E) c of
        Inl e \<Rightarrow> Some (Some e, st)
      | Inr vars \<Rightarrow>
          if dir \<noteq> [] \<and> \<not> pe_mkdir E dir (pt_world st)
          then Some (Some (Errorf ''output directory is not writable'' [dir] []), st)
          else
            (let timeout = duration (pe_lib E) (pc_timeout c); deadline = pt_now st + timeout;
                 interval = duration (pe_lib E) (pc_poll_interval c) in
             case start_job E c job deadline vars st of
               (Inl e, st1) \<Rightarrow> Some (Some e, st1)
             | (Inr (j, vars1), st1) \<Rightarrow>
                 poll_loop (nat timeout + 1) E c dir j deadline interval vars1 [] 0 [] st1)))"

text \<open>The exit status of the program.\<close>

record cli_flags =
  fl_parse :: "go_error option"
  fl_help :: bool
  fl_config :: string
  fl_args :: "string list"
  fl_base :: string
  fl_output :: string
  fl_job :: string
  fl_check :: bool

definition portal_cli :: "'w portal_env \<Rightarrow> bool \<Rightarrow> (string \<Rightarrow> config_file) \<Rightarrow> cli_flags \<Rightarrow> 'w portal_state \<Rightarrow>
    (int \<times> 'w portal_state) option" where
  "portal_cli E poll_first files fl st =
     (if fl_parse fl \<noteq> None then Some (if fl_help fl then 0 else 2, st)
      else if fl_config fl = [] \<or> fl_args fl \<noteq> []
      then Some (2, warn (''-config is required; positional arguments are not supported'' @ newline) st)
      else (case load_portal (files (fl_config fl)) of
          Inl e \<Rightarrow> Some (2, st)
        | Inr c0 \<Rightarrow>
            (let c = (if fl_base fl \<noteq> [] then c0\<lparr>pc_base_url := fl_base fl\<rparr> else c0) in
             if validate_portal (pe_lib E) poll_first c \<noteq> None then Some (2, st)
             else if fl_check fl then Some (0, say (''portal configuration is valid'' @ newline) st)
             else (case run_portal E poll_first c (fl_output fl) (fl_job fl) st of
                 None \<Rightarrow> None
               | Some (None, st') \<Rightarrow> Some (0, st')
               | Some (Some e, st') \<Rightarrow> Some (if e = benchmark_failed then 1 else 2, st')))))"

end
