(* ===== verification/PortalProperties.thy ===== *)
theory PortalProperties
  imports PortalRunner
begin

text \<open>
  The properties of \<open>portal-bench\<close>: what a valid configuration guarantees, termination of the polling
  loop, the bound on retries, the single submission of a job, the markers of the result, and the
  round trips of the JSON pointer escape and of \<open>protoUint\<close>.
\<close>

section \<open>Time\<close>

lemma http_body_now: "pt_now (snd (http_body E a h c vars dl st)) \<ge> pt_now st"
  by (simp add: http_body_def Let_def split: sum.splits prod.splits http_reply.splits option.splits if_splits)

lemma command_body_now: "pt_now (snd (command_body E a c vars dl st)) \<ge> pt_now st"
  by (simp add: command_body_def Let_def split: sum.splits prod.splits if_splits)

lemma execute_now: "execute E ph a c vars dl st = (r, st') \<Longrightarrow> pt_now st \<le> pt_now st'"
  using http_body_now [of st E a _ c vars dl] command_body_now [of st E a c vars dl]
  by (auto simp: execute_def Let_def split: option.splits prod.splits) (metis snd_conv)+

lemma save_log_now: "save_log E dir log st = (r, st') \<Longrightarrow> pt_now st' = pt_now st"
  by (auto simp: save_log_def split: if_splits prod.splits)

lemma wait_interval_now:
  "wait_interval E dl d st = (False, st') \<Longrightarrow> pt_now st' = pt_now st + d \<and> pt_now st' < dl"
  by (auto simp: wait_interval_def Let_def split: if_splits)

lemma warn_now [simp]: "pt_now (warn s st) = pt_now st"
  by (simp add: warn_def)

lemma poll_fuel:
  "0 < interval \<Longrightarrow> nat (dl - pt_now st) < k \<Longrightarrow>
   poll_loop k E c dir job dl interval vars previous retries log st \<noteq> None"
proof (induction k arbitrary: vars previous retries log st)
  case (Suc k)
  have next_round: "nat (dl - pt_now st2) < k"
    if "pt_now st \<le> pt_now st1" "wait_interval E dl interval st1 = (False, st2)" for st1 st2
    using wait_interval_now [OF that(2)] that(1) Suc.prems by linarith
  obtain r st1 where ex: "execute E Poll (pc_poll c) c vars dl st = (r, st1)" by fastforce
  note now1 = execute_now [OF ex]
  show ?case
  proof (cases r)
    case (Inl e)
    show ?thesis
      using Suc.IH [OF Suc.prems(1) next_round] now1
      by (simp add: ex Inl split: option.splits prod.splits bool.splits)
        (metis warn_now)
  next
    case (Inr fs)
    let ?vars = "set_all fs vars" and ?status = "lookup_or [] fs (oc_status (pc_outcome c))"
    let ?st2 = "if ?status \<noteq> previous then warn (''PORTAL_STATUS: '' @ pe_quote E ?status @ newline) st1 else st1"
    obtain e st3 where save: "save_log E dir (joined_log (pc_outcome c) ?vars) ?st2 = (e, st3)" by fastforce
    have now3: "pt_now st \<le> pt_now st3" using save_log_now [OF save] now1 by (simp split: if_splits)
    obtain w st4 where wait: "wait_interval E dl interval st3 = (w, st4)" by fastforce
    show ?thesis
    proof (cases w)
      case True
      then show ?thesis
        by (simp add: ex Inr Let_def save wait split: option.splits)
    next
      case False
      with Suc.IH [OF Suc.prems(1) next_round [OF now3], of st4] wait show ?thesis
        by (simp add: ex Inr Let_def save split: option.splits)
    qed
  qed
qed simp

section \<open>The phases that were run\<close>

text \<open>No more than \<open>m + 1\<close> polls in a row fail; \<open>n\<close> have failed immediately before the log.\<close>

fun retry_ok :: "nat \<Rightarrow> nat \<Rightarrow> phase_log \<Rightarrow> bool" where
  "retry_ok m n [] = True"
| "retry_ok m n (x # l) = (if x = (Poll, False) then n \<le> m \<and> retry_ok m (Suc n) l else retry_ok m 0 l)"

lemma http_body_log [keep]: "pt_log (snd (http_body E a h c vars dl st)) = pt_log st"
  by (simp add: http_body_def Let_def split: sum.splits prod.splits http_reply.splits option.splits if_splits)

lemma command_body_log [keep]: "pt_log (snd (command_body E a c vars dl st)) = pt_log st"
  by (simp add: command_body_def Let_def split: sum.splits prod.splits if_splits)

lemma execute_log:
  assumes "execute E ph a c vars dl st = (r, st')"
  shows "pt_log st' = pt_log st @ [(ph, case r of Inl _ \<Rightarrow> False | Inr _ \<Rightarrow> True)]"
proof -
  obtain b st1 where b: "(case ac_http a of Some h \<Rightarrow> http_body E a h c vars dl st
      | None \<Rightarrow> command_body E a c vars dl st) = (b, st1)" by fastforce
  have "pt_log st1 = pt_log st"
    using b http_body_log [of E a _ c vars dl st] command_body_log [of E a c vars dl st]
    by (auto split: option.splits) (metis snd_conv)+
  then show ?thesis using assms by (auto simp: execute_def Let_def b)
qed

lemma log_kept [keep]:
  "pt_log (warn s st) = pt_log st" "pt_log (say s st) = pt_log st"
  "pt_log (snd (save_log E dir log st)) = pt_log st" "pt_log (snd (wait_interval E dl d st)) = pt_log st"
  "pt_log (snd (leave log (r, st))) = pt_log st" "pt_log (snd (report L oc failed vars log st)) = pt_log st"
  by (simp_all add: warn_def say_def save_log_def wait_interval_def leave_def report_def Let_def split: prod.splits)

lemma leave_logD: "leave log (a, st) = (r, st') \<Longrightarrow> pt_log st' = pt_log st"
  using log_kept(5) [of log a st] by simp

lemma settle_job_log:
  "\<exists>l. pt_log (snd (settle_job E c dir job dl failed vars log st)) = pt_log st @ l \<and>
     (l = [] \<or> (\<exists>b. l = [(Result, b)]))"
proof (cases "pc_result c")
  case None
  then show ?thesis by (simp add: settle_job_def keep)
next
  case (Some a)
  obtain r st1 where ex: "execute E Result a c vars dl st = (r, st1)" by fastforce
  have "pt_log (snd (settle_job E c dir job dl failed vars log st)) = pt_log st1"
  proof (cases r)
    case (Inl e)
    then show ?thesis by (simp add: settle_job_def Some ex keep)
  next
    case (Inr fs)
    let ?v = "set_all fs vars"
    obtain e st2 where save: "save_log E dir (joined_log (pc_outcome c) ?v) st1 = (e, st2)" by fastforce
    have "pt_log st2 = pt_log st1" using log_kept(3) [of E dir "joined_log (pc_outcome c) ?v" st1] save by simp
    then show ?thesis by (simp add: settle_job_def Some ex Inr Let_def save keep split: option.splits)
  qed
  with execute_log [OF ex] show ?thesis by simp
qed

lemma poll_loop_log:
  "poll_loop k E c dir job dl interval vars previous retries log st = Some (r, st') \<Longrightarrow>
   0 \<le> retries \<Longrightarrow> retries \<le> pc_poll_retries c \<Longrightarrow>
   \<exists>l. pt_log st' = pt_log st @ l \<and> (\<forall>b. (Start, b) \<notin> set l) \<and> retry_ok (nat (pc_poll_retries c)) (nat retries) l"
proof (induction k arbitrary: vars previous retries log st)
  case (Suc k)
  obtain x st1 where ex: "execute E Poll (pc_poll c) c vars dl st = (x, st1)" by fastforce
  note log1 = execute_log [OF ex]
  show ?case
  proof (cases x)
    case (Inl e)
    have fail: "nat retries \<le> nat (pc_poll_retries c)" using Suc.prems by simp
    show ?thesis
    proof (cases "retries < pc_poll_retries c")
      case True
      have suc: "nat (retries + 1) = Suc (nat retries)" using Suc.prems(2) by simp
      let ?w = "\<lambda>m. warn (''portal poll retry '' @ format_int (retries + 1) @ '': '' @ m @ newline) st1"
      consider "pt_log st' = pt_log st1"
        | m st2 where "wait_interval E dl interval (?w m) = (False, st2)"
          "poll_loop k E c dir job dl interval vars previous (retries + 1) log st2 = Some (r, st')"
        using Suc.prems(1) True log_kept(4) [of E dl interval]
        by (auto simp: ex Inl keep split: option.splits prod.splits bool.splits if_splits) (metis keep snd_conv)+
      then show ?thesis
      proof cases
        case 1
        then show ?thesis using log1 fail by (simp add: Inl)
      next
        case 2
        have "pt_log st2 = pt_log st1"
          using log_kept(4) [of E dl interval "?w m"] unfolding 2(1) log_kept(1) by simp
        moreover obtain l where "pt_log st' = pt_log st2 @ l" "\<forall>b. (Start, b) \<notin> set l"
            "retry_ok (nat (pc_poll_retries c)) (nat (retries + 1)) l"
          using Suc.IH [OF 2(2)] Suc.prems(2) True by auto
        ultimately show ?thesis using log1 fail suc by (simp add: Inl)
      qed
    next
      case False
      then have "pt_log st' = pt_log st1"
        using Suc.prems(1) by (auto simp: ex Inl split: option.splits dest!: leave_logD)
      then show ?thesis using log1 fail by (simp add: Inl)
    qed
  next
    case (Inr fs)
    let ?vars = "set_all fs vars" and ?status = "lookup_or [] fs (oc_status (pc_outcome c))"
    let ?st2 = "if ?status \<noteq> previous then warn (''PORTAL_STATUS: '' @ pe_quote E ?status @ newline) st1 else st1"
    let ?log = "joined_log (pc_outcome c) ?vars"
    obtain e st3 where save: "save_log E dir ?log ?st2 = (e, st3)" by fastforce
    have log3: "pt_log st3 = pt_log st1"
      using log_kept(3) [of E dir ?log ?st2] save by (simp add: keep split: if_splits)
    obtain w st4 where wait: "wait_interval E dl interval st3 = (w, st4)" by fastforce
    have log4: "pt_log st4 = pt_log st1" using log_kept(4) [of E dl interval st3] wait log3 by simp
    note run = Suc.prems(1) [unfolded poll_loop.simps ex prod.case Inr sum.case Let_def save wait]
    consider "pt_log st' = pt_log st1"
      | failed where "settle_job E c dir job dl failed ?vars ?log st3 = (r, st')"
      | "poll_loop k E c dir job dl interval ?vars ?status 0 ?log st4 = Some (r, st')"
      using run log3 log4 by (auto split: option.splits if_splits bool.splits dest!: leave_logD)
    then show ?thesis
    proof cases
      case 1
      then show ?thesis using log1 by (simp add: Inr)
    next
      case 2
      then show ?thesis
        using log1 log3 settle_job_log [of E c dir job dl failed ?vars ?log st3]
        by (auto simp: Inr)
    next
      case 3
      from Suc.IH [OF 3] Suc.prems(2,3) log1 log4 show ?thesis by (auto simp: Inr)
    qed
  qed
qed simp

section \<open>Valid configurations\<close>

lemma validate_positive:
  assumes "validate_portal L pf c = None" and "s \<in> {pc_timeout c, pc_request_timeout c, pc_poll_interval c}"
  shows "0 < duration L s"
proof -
  have "first_error (\<lambda>s. case positive_duration L s of Inl e \<Rightarrow> Some e | Inr _ \<Rightarrow> None)
      [pc_timeout c, pc_request_timeout c, pc_poll_interval c] = None"
    using assms(1) unfolding validate_portal_def by (simp split: option.splits)
  then obtain d where d: "positive_duration L s = Inr d"
    using assms(2) unfolding first_error_None_iff by (fastforce split: sum.splits)
  then show ?thesis by (auto simp: duration_def positive_duration_def split: option.splits if_splits)
qed

lemma start_job_now: "start_job E c job dl vars st = (r, st') \<Longrightarrow> pt_now st \<le> pt_now st'"
  by (auto simp: start_job_def split: if_splits prod.splits sum.splits dest!: execute_now)

lemma start_job_log:
  "start_job E c job dl vars st = (r, st') \<Longrightarrow>
   pt_log st' = pt_log st \<or> (job = [] \<and> (\<exists>b. pt_log st' = pt_log st @ [(Start, b)]))"
  by (auto simp: start_job_def keep split: if_splits prod.splits sum.splits dest!: execute_log)

lemma retry_ok_Start: "retry_ok m 0 l \<Longrightarrow> retry_ok m 0 ((Start, b) # l)"
  by simp

lemma no_Start: "(\<forall>b. (Start, b) \<notin> set l) \<Longrightarrow> filter (\<lambda>x. fst x = Start) l = []"
  by (auto simp: filter_empty_conv)

section \<open>The escape of JSON pointers\<close>

text \<open>The escape of a key in a JSON pointer (RFC 6901).\<close>

definition pointer_escape :: "string \<Rightarrow> string" where
  "pointer_escape k = concat (map (\<lambda>c. if c = CHR ''~'' then ''~0'' else if c = CHR ''/'' then ''~1'' else [c]) k)"

definition half_escape :: "string \<Rightarrow> string" where
  "half_escape k = concat (map (\<lambda>c. if c = CHR ''~'' then ''~0'' else [c]) k)"

lemma replacer_len_skip: "c \<noteq> CHR ''~'' \<Longrightarrow> replacer_len [(CHR ''~'' # p, r)] (c # s) = 0"
  by (simp add: replacer_len_def)

lemma replace_all_Nil [simp]: "replace_all p r [] = []"
  by (simp add: replace_all_def replacer_def)

lemma replace_all_other: "c \<noteq> CHR ''~'' \<Longrightarrow> replace_all (CHR ''~'' # p) r (c # s) = c # replace_all (CHR ''~'' # p) r s"
  by (simp add: replace_all_def replacer_def replacer_len_skip)

lemma replace_all_tilde:
  "replace_all ''~1'' r (CHR ''~'' # CHR ''0'' # s) = CHR ''~'' # CHR ''0'' # replace_all ''~1'' r s"
  "replace_all ''~1'' r (CHR ''~'' # CHR ''1'' # s) = r @ replace_all ''~1'' r s"
  "replace_all ''~0'' r (CHR ''~'' # CHR ''0'' # s) = r @ replace_all ''~0'' r s"
  by (simp_all add: replace_all_def replacer_def replacer_len_def)

lemma unescape_slash: "replace_all ''~1'' ''/'' (pointer_escape k) = half_escape k"
  by (induction k) (auto simp: pointer_escape_def half_escape_def replace_all_tilde replace_all_other)

lemma unescape_tilde: "replace_all ''~0'' ''~'' (half_escape k) = k"
  by (induction k) (auto simp: half_escape_def replace_all_tilde replace_all_other)

lemma json_token_escape: "json_token (pointer_escape k) = k"
  by (simp add: json_token_def unescape_slash unescape_tilde)

lemma pointer_escape_no_slash: "CHR ''/'' \<notin> set (pointer_escape k)"
  by (auto simp: pointer_escape_def)

fun object_path :: "json \<Rightarrow> string list \<Rightarrow> json option" where
  "object_path v [] = (if v = JNull then None else Some v)"
| "object_path v (k # ks) =
     (case v of JObj m \<Rightarrow> (case map_of m k of None \<Rightarrow> None | Some w \<Rightarrow> object_path w ks) | _ \<Rightarrow> None)"

lemma object_path_Null: "object_path JNull ks = None"
  by (cases ks) auto

fun objects_only :: "json \<Rightarrow> string list \<Rightarrow> bool" where
  "objects_only v [] = True"
| "objects_only v (k # ks) =
     (case v of JObj m \<Rightarrow> (case map_of m k of None \<Rightarrow> True | Some w \<Rightarrow> objects_only w ks) | JArr _ \<Rightarrow> False | _ \<Rightarrow> True)"

lemma json_walk_objects: "objects_only v ks \<Longrightarrow> json_walk v (map pointer_escape ks) = object_path v ks"
  by (induction v ks rule: object_path.induct)
    (auto simp: json_token_escape object_path_Null split: json.splits option.splits)

section \<open>A concrete portal\<close>

definition demo_lib :: portal_lib where
  "demo_lib = \<lparr>pl_render = (\<lambda>s _. Inr s), pl_duration = (\<lambda>_. Some 10),
     pl_url = (\<lambda>s. Some \<lparr>url_scheme = ''http'', url_host = ''h'', url_user = False, url_text = s\<rparr>),
     pl_resolve = (\<lambda>_ u. u), pl_regex = (\<lambda>_. None), pl_lookpath = (\<lambda>_. True), pl_json = (\<lambda>_. BadJson),
     pl_unescape = (\<lambda>s. s), pl_float = (\<lambda>_ _. []), pl_finite = (\<lambda>_. True), pl_canonical = (\<lambda>s. s),
     pl_request_ok = (\<lambda>_ _. True)\<rparr>"

definition demo_http :: http_action where
  "demo_http = \<lparr>ha_method = ''GET'', ha_url = ''http://h/'', ha_headers = [], ha_body = [], ha_body64 = []\<rparr>"

definition demo_action :: "string list \<Rightarrow> action" where
  "demo_action fs = \<lparr>ac_http = Some demo_http, ac_command = [], ac_env = [],
     ac_response = \<lparr>rs_format = ''text'', rs_fields = map (\<lambda>f. (f, \<lparr>se_path = [], se_type = [], se_default = None,
       se_trim = False, se_replace = []\<rparr>)) fs\<rparr>\<rparr>"

definition demo_portal :: portal_config where
  "demo_portal = \<lparr>pc_base_url = ''http://h'', pc_vars = [], pc_headers = [], pc_timeout = ''1'', pc_request_timeout = ''1'',
     pc_poll_interval = ''1'', pc_poll_retries = 1, pc_start = demo_action [''job_id''], pc_poll = demo_action [''status''],
     pc_result = None, pc_outcome = \<lparr>oc_status = ''status'', oc_done = [''ok''], oc_failed = [], oc_pass = [],
       oc_pass_values = [], oc_fail_values = [], oc_score = [], oc_logs = [''status'']\<rparr>\<rparr>"

text \<open>A portal that answers every request with an error.\<close>

definition demo_down :: "unit portal_env" where
  "demo_down = \<lparr>pe_lib = demo_lib, pe_http = (\<lambda>_ _ w. (HttpError, 1, w)), pe_cmd = (\<lambda>_ _ _ w. ((False, []), 1, w)),
     pe_signal = (\<lambda>_. False), pe_wait = (\<lambda>w. w), pe_mkdir = (\<lambda>_ _. True), pe_save = (\<lambda>_ _ w. (True, w)),
     pe_quote = (\<lambda>s. s)\<rparr>"

section \<open>Properties\<close>

text \<open>
  C7. A run of the benchmark always ends: whatever the portal answers and however slow it is, the
  polling loop stops at the deadline, and the fuel of the model (one round per nanosecond of the
  timeout) is never used up.
\<close>

theorem run_portal_ends: "run_portal E pf c dir job st \<noteq> None"
proof (cases "validate_portal (pe_lib E) pf c")
  case None
  let ?T = "duration (pe_lib E) (pc_timeout c)" and ?i = "duration (pe_lib E) (pc_poll_interval c)"
  have i: "0 < ?i" using validate_positive [OF None] by simp
  show ?thesis
  proof (cases "portal_variables (pe_lib E) c")
    case (Inr vars)
    obtain r st1 where start: "start_job E c job (pt_now st + ?T) vars st = (r, st1)" by fastforce
    have "pt_now st \<le> pt_now st1" using start by (rule start_job_now)
    then have fuel: "nat (pt_now st + ?T - pt_now st1) < nat ?T + 1" by linarith
    show ?thesis
      using poll_fuel [OF i fuel] by (auto simp: run_portal_def None Inr Let_def start split: sum.splits)
  qed (simp add: run_portal_def None)
qed (simp add: run_portal_def)

text \<open>
  C8. A job is submitted at most once in a run, and never when a job id was given; and no more than
  \<open>poll_retries + 1\<close> polls in a row fail before the run gives up.
\<close>

theorem submitted_once:
  "case run_portal E pf c dir job st of
     None \<Rightarrow> False
   | Some (r, st') \<Rightarrow>
       (\<exists>l. pt_log st' = pt_log st @ l \<and>
          length (filter (\<lambda>x. fst x = Start) l) \<le> (if job = [] then 1 else 0) \<and>
          retry_ok (nat (pc_poll_retries c)) 0 l)"
proof -
  obtain r st' where run: "run_portal E pf c dir job st = Some (r, st')"
    using run_portal_ends [of E pf c dir job st] by (metis not_None_eq prod.collapse)
  let ?goal = "\<exists>l. pt_log st' = pt_log st @ l \<and>
      length (filter (\<lambda>x. fst x = Start) l) \<le> (if job = [] then 1 else 0) \<and> retry_ok (nat (pc_poll_retries c)) 0 l"
  have same: "pt_log st' = pt_log st \<Longrightarrow> ?goal" by (intro exI [of _ "[]"]) simp
  have ?goal
  proof (cases "validate_portal (pe_lib E) pf c")
    case None
    have retries: "0 \<le> pc_poll_retries c"
      using None unfolding validate_portal_def by (simp split: option.splits if_splits)
    show ?thesis
    proof (cases "portal_variables (pe_lib E) c")
      case (Inr vars)
      let ?T = "duration (pe_lib E) (pc_timeout c)" and ?i = "duration (pe_lib E) (pc_poll_interval c)"
      obtain x st1 where start: "start_job E c job (pt_now st + ?T) vars st = (x, st1)" by fastforce
      consider "pt_log st' = pt_log st"
        | (ended) "pt_log st' = pt_log st1"
        | (polled) j vs where "poll_loop (nat ?T + 1) E c dir j (pt_now st + ?T) ?i vs [] 0 [] st1 = Some (r, st')"
        using run by (auto simp: run_portal_def None Inr Let_def start split: sum.splits if_splits)
      then show ?thesis
      proof cases
        case ended
        from start_job_log [OF start] show ?thesis
        proof (elim disjE conjE exE)
          fix b assume "job = []" "pt_log st1 = pt_log st @ [(Start, b)]"
          with ended show ?thesis by (intro exI [of _ "[(Start, b)]"]) simp
        qed (use ended same in simp)
      next
        case polled
        from poll_loop_log [OF polled] retries obtain l where l: "pt_log st' = pt_log st1 @ l"
            "\<forall>b. (Start, b) \<notin> set l" "retry_ok (nat (pc_poll_retries c)) 0 l" by auto
        from start_job_log [OF start] show ?thesis
        proof (elim disjE conjE exE)
          assume "pt_log st1 = pt_log st"
          with l no_Start [OF l(2)] show ?thesis by (intro exI [of _ l]) simp
        next
          fix b assume "job = []" "pt_log st1 = pt_log st @ [(Start, b)]"
          with l no_Start [OF l(2)] show ?thesis by (intro exI [of _ "(Start, b) # l"]) simp
        qed
      qed (rule same)
    qed (use run same in \<open>simp add: run_portal_def None\<close>)
  qed (use run same in \<open>simp add: run_portal_def\<close>)
  with run show ?thesis by simp
qed

text \<open>
  The report of a finished job prints the log first, then at most one score line and one verdict:
  \<open>BENCHMARK_FAIL\<close> exactly when the result is the error \<open>benchmark failed\<close>, and \<open>BENCHMARK_PASS\<close> only when
  the result is \<open>nil\<close>, the status was not a failure and the pass field is not a failure value.
\<close>

theorem report_markers:
  "\<exists>ms. pt_out (snd (report L oc failed vars log st)) = pt_out st @ log # ms \<and> length ms \<le> 2 \<and>
     (''BENCHMARK_FAIL'' @ newline \<in> set ms \<longleftrightarrow> fst (report L oc failed vars log st) = Some benchmark_failed) \<and>
     (''BENCHMARK_PASS'' @ newline \<notin> set ms \<or>
      (fst (report L oc failed vars log st) = None \<and> \<not> failed \<and> oc_pass oc \<noteq> [] \<and>
       lookup_or [] vars (oc_pass oc) \<in> set (oc_pass_values oc) \<and>
       lookup_or [] vars (oc_pass oc) \<notin> set (oc_fail_values oc)))"
  by (auto simp: report_def say_def Let_def)

theorem report_markers_witness:
  "\<exists>ms. [''log'', ''BENCHMARK_FAIL'' @ newline] = ''log'' # ms \<and> ''BENCHMARK_FAIL'' @ newline \<in> set ms"
proof -
  let ?oc = "\<lparr>oc_status = ''s'', oc_done = [], oc_failed = [], oc_pass = [], oc_pass_values = [], oc_fail_values = [],
     oc_score = [], oc_logs = []\<rparr>"
  let ?st = "\<lparr>pt_now = 0, pt_out = [], pt_err = [], pt_log = [], pt_world = ()\<rparr>"
  have "pt_out (snd (report demo_lib ?oc True [] ''log'' ?st)) = [''log'', ''BENCHMARK_FAIL'' @ newline]"
    and "fst (report demo_lib ?oc True [] ''log'' ?st) = Some benchmark_failed" by code_simp+
  with report_markers [of demo_lib ?oc True "[]" "''log''" ?st] show ?thesis by auto
qed

text \<open>
  What a valid configuration guarantees: the three durations are positive, the number of retries
  is not negative, the start phase extracts a job id, the poll phase the status, every field of the
  outcome is extracted, and no value means both pass and fail.
\<close>

theorem valid_portal:
  assumes "validate_portal L pf c = None"
  shows "list_all (\<lambda>s. 0 < duration L s) [pc_timeout c, pc_request_timeout c, pc_poll_interval c] \<and>
    0 \<le> pc_poll_retries c \<and> ''job_id'' \<in> set (keys (rs_fields (ac_response (pc_start c)))) \<and>
    oc_status (pc_outcome c) \<in> set (keys (rs_fields (ac_response (pc_poll c)))) \<and>
    oc_done (pc_outcome c) \<noteq> [] \<and> oc_logs (pc_outcome c) \<noteq> [] \<and>
    list_all (\<lambda>k. k = [] \<or> k \<in> set (extracted c)) (oc_logs (pc_outcome c) @ [oc_score (pc_outcome c), oc_pass (pc_outcome c)]) \<and>
    set (oc_pass_values (pc_outcome c)) \<inter> set (oc_fail_values (pc_outcome c)) = {}"
proof -
  have d: "list_all (\<lambda>s. 0 < duration L s) [pc_timeout c, pc_request_timeout c, pc_poll_interval c]"
    using validate_positive [OF assms] by simp
  have "0 \<le> pc_poll_retries c \<and> ''job_id'' \<in> set (keys (rs_fields (ac_response (pc_start c)))) \<and>
    oc_status (pc_outcome c) \<in> set (keys (rs_fields (ac_response (pc_poll c)))) \<and>
    oc_done (pc_outcome c) \<noteq> [] \<and> oc_logs (pc_outcome c) \<noteq> []" and o: "check_outcome c = None"
    using assms unfolding validate_portal_def Let_def by (auto split: option.splits if_splits sum.splits)
  moreover have "list_all (\<lambda>k. k = [] \<or> k \<in> set (extracted c)) (oc_logs (pc_outcome c) @ [oc_score (pc_outcome c), oc_pass (pc_outcome c)])"
  proof -
    have "first_error (\<lambda>k. if k \<noteq> [] \<and> k \<notin> set (extracted c) then Some (Errorf ''outcome field is not extracted'' [k] []) else None)
        (oc_logs (pc_outcome c) @ [oc_score (pc_outcome c), oc_pass (pc_outcome c)]) = None"
      using o unfolding check_outcome_def Let_def by (simp split: option.splits)
    then show ?thesis unfolding first_error_None_iff list_all_iff by (metis option.distinct(1))
  qed
  moreover have "set (oc_pass_values (pc_outcome c)) \<inter> set (oc_fail_values (pc_outcome c)) = {}"
    using o unfolding check_outcome_def Let_def
    by (auto simp: first_error_None_iff split: option.splits if_splits)
  ultimately show ?thesis using d by blast
qed

theorem valid_portal_witness: "validate_portal demo_lib False demo_portal = None \<and> 0 < duration demo_lib (pc_poll_interval demo_portal)"
proof -
  have "validate_portal demo_lib False demo_portal = None" by code_simp
  from valid_portal [OF this] this show ?thesis by simp
qed

text \<open>
  A request that is built goes to an HTTP or HTTPS URL with a host and without user information,
  and no header name or value contains a line end, so a variable cannot inject a header.
\<close>

theorem request_safe:
  assumes "make_request L h headers vars = Inr rq"
  shows "(\<exists>u. rq_url rq = url_text u \<and> web_ok u) \<and>
    list_all (\<lambda>(n, v). \<not> contains_any n [CHR 0x0D, CHR 0x0A] \<and> \<not> contains_any v [CHR 0x0D, CHR 0x0A]) (rq_headers rq)"
proof -
  from assms obtain address u hs where u: "target_url L address vars = Inr u" and url: "rq_url rq = url_text u"
    and hs: "map_res (set_header L vars) (merged_headers L headers (ha_headers h)) = Inr hs" and rq: "rq_headers rq = hs"
    by (auto simp: make_request_def split: sum.splits if_splits)
  have "web_ok u" using u by (auto simp: target_url_def split: option.splits if_splits)
  moreover have "list_all (\<lambda>(n, v). \<not> contains_any n [CHR 0x0D, CHR 0x0A] \<and> \<not> contains_any v [CHR 0x0D, CHR 0x0A]) hs"
    unfolding list_all_iff
  proof
    fix nv assume "nv \<in> set hs"
    from map_res_InrD [OF hs this] obtain kv where "set_header L vars kv = Inr nv" by blast
    then show "case nv of (n, v) \<Rightarrow> \<not> contains_any n [CHR 0x0D, CHR 0x0A] \<and> \<not> contains_any v [CHR 0x0D, CHR 0x0A]"
      by (auto simp: set_header_def contains_any_def split: sum.splits if_splits)
  qed
  ultimately show ?thesis using url rq by auto
qed

theorem request_safe_witness:
  "\<exists>rq. make_request demo_lib demo_http [(''X'', ''1'')] [] = Inr rq \<and> (\<exists>u. rq_url rq = url_text u \<and> web_ok u)"
proof -
  have "(case make_request demo_lib demo_http [(''X'', ''1'')] [] of Inl _ \<Rightarrow> False | Inr _ \<Rightarrow> True)" by code_simp
  then obtain rq where "make_request demo_lib demo_http [(''X'', ''1'')] [] = Inr rq"
    by (cases "make_request demo_lib demo_http [(''X'', ''1'')] []") auto
  with request_safe [OF this] show ?thesis by blast
qed

text \<open>
  Only an HTTP phase can end in an error that the poll retries; a command that fails, a status
  outside 2xx other than 429 and 5xx, a response over the size limit and a response without the
  required fields end the run.
\<close>

theorem retryable_only_http:
  assumes "execute E ph a c vars dl st = (Inl (Retryable m), st')"
  shows "\<exists>h rq limit reply spent w. ac_http a = Some h \<and> make_request (pe_lib E) h (pc_headers c) vars = Inr rq \<and>
    pe_http E rq limit (pt_world st) = (reply, spent, w) \<and>
    (reply = HttpError \<or> (\<exists>status content. reply = HttpReply status content \<and>
       (status = 429 \<or> 500 \<le> status \<or> (200 \<le> status \<and> status < 300 \<and> content = None))))"
proof (cases "ac_http a")
  case None
  with assms show ?thesis
    by (auto simp: execute_def command_body_def Let_def split: sum.splits prod.splits if_splits)
next
  case (Some h)
  obtain b st1 where b: "http_body E a h c vars dl st = (b, st1)" by fastforce
  have e: "b = Inl (Retryable m)"
    using assms by (auto simp: execute_def Some b Let_def split: sum.splits)
  then obtain rq where rq: "make_request (pe_lib E) h (pc_headers c) vars = Inr rq"
    using b by (auto simp: http_body_def split: sum.splits)
  let ?limit = "min dl (pt_now st + duration (pe_lib E) (pc_request_timeout c))"
  obtain reply spent w where p: "pe_http E rq ?limit (pt_world st) = (reply, spent, w)" by (metis prod.collapse)
  have "reply = HttpError \<or> (\<exists>status content. reply = HttpReply status content \<and>
       (status = 429 \<or> 500 \<le> status \<or> (200 \<le> status \<and> status < 300 \<and> content = None)))"
    using b unfolding e by (auto simp: http_body_def rq p Let_def split: http_reply.splits if_splits option.splits)
  with Some rq p show ?thesis by blast
qed

theorem retryable_only_http_witness:
  "\<exists>h. ac_http (pc_poll demo_portal) = Some h"
proof -
  let ?st = "\<lparr>pt_now = 0, pt_out = [], pt_err = [], pt_log = [], pt_world = ()\<rparr>"
  have "(case fst (execute demo_down Poll (pc_poll demo_portal) demo_portal [] 5 ?st) of
      Inl (Retryable _) \<Rightarrow> True | _ \<Rightarrow> False)" by code_simp
  then obtain m where "fst (execute demo_down Poll (pc_poll demo_portal) demo_portal [] 5 ?st) = Inl (Retryable m)"
    by (auto split: sum.splits exec_error.splits)
  then obtain st' where "execute demo_down Poll (pc_poll demo_portal) demo_portal [] 5 ?st = (Inl (Retryable m), st')"
    by (metis prod.collapse)
  from retryable_only_http [OF this] show ?thesis by blast
qed

text \<open>
  C18. The template function \<open>protoUint\<close> and the protobuf reader agree: the message that it encodes
  in base 64 decodes, and selecting its field as \<open>uint\<close> gives back the number.
\<close>

theorem proto_uint_roundtrip:
  assumes "proto_uint field value = Inr s"
  shows "\<exists>body n. base64_decode s = Some body \<and> parse_uint64 value = Some n \<and>
    proto_select float body (format_nat (nat field)) ''uint'' = Inr (Some (format_nat n))"
  using assms by (rule proto_uint_select)

theorem proto_uint_roundtrip_witness:
  "\<exists>body. proto_select (\<lambda>_ _. []) body (format_nat 3) ''uint'' = Inr (Some (format_nat 300))"
proof -
  have u: "proto_uint 3 (format_nat 300) = Inr (base64_encode (append_uvarint (push_bit 3 (word_of_int 3)) @
      append_uvarint (word_of_nat 300)))"
    by (simp add: proto_uint_def)
  have n: "parse_uint64 (format_nat 300) = Some 300" by simp
  from proto_uint_roundtrip [OF u, of "\<lambda>_ _. []"] show ?thesis by (auto simp: n)
qed

text \<open>
  The scan of a message finds the values of each field in the order in which they were encoded,
  for any sequence of varint fields with legal numbers and any 64-bit values.
\<close>

theorem proto_scan_complete:
  assumes "\<forall>(k, n) \<in> set kns. 0 < k \<and> k < 2 ^ 29"
  shows "\<exists>fs. proto_fields (concat (map (\<lambda>(k, n). varint_field k n) kns)) = Inr fs \<and>
    (\<forall>j. lookup_or [] fs j = map (\<lambda>(k, n). varint_value n) (filter (\<lambda>(k, n). k = j) kns))"
  using assms by (rule proto_fields_varints)

theorem proto_scan_complete_witness:
  "\<exists>fs. proto_fields (varint_field 1 7 @ varint_field 2 300 @ varint_field 1 8) = Inr fs \<and>
     lookup_or [] fs 1 = [varint_value 7, varint_value 8]"
proof -
  have "\<forall>(k, n) \<in> set [(1, 7), (2, 300), (1, 8 :: 64 word)]. (0 :: nat) < k \<and> k < 2 ^ 29" by simp
  from proto_scan_complete [OF this] show ?thesis by auto
qed

text \<open>
  A JSON pointer made of escaped keys selects the value under exactly these keys, including
  keys with \<open>/\<close> and \<open>~\<close>, in a document of nested objects; \<open>null\<close> counts as missing.
\<close>

theorem json_pointer_escape:
  assumes "ks \<noteq> []" and "objects_only root ks"
  shows "json_pointer root (concat (map (\<lambda>k. CHR ''/'' # pointer_escape k) ks)) = Inr (object_path root ks)"
proof -
  have join: "concat (map (\<lambda>k. CHR ''/'' # pointer_escape k) ks) = CHR ''/'' # join_with ''/'' (map pointer_escape ks)"
    using assms(1)
  proof (induction ks)
    case (Cons k ks)
    then show ?case by (cases ks) auto
  qed simp
  have "split_char (CHR ''/'') (join_with ''/'' (map pointer_escape ks)) = map pointer_escape ks"
    using assms(1) pointer_escape_no_slash by (intro split_by_join_comps) auto
  then show ?thesis by (simp add: json_pointer_def join json_walk_objects [OF assms(2)])
qed

theorem json_pointer_escape_witness:
  "json_pointer (JObj [(''a/b'', JObj [(''~'', JNum ''7'')])]) ''/a~1b/~0'' = Inr (Some (JNum ''7''))"
proof -
  let ?ks = "[''a/b'', ''~'']" and ?root = "JObj [(''a/b'', JObj [(''~'', JNum ''7'')])]"
  have "?ks \<noteq> []" and "objects_only ?root ?ks" by simp_all
  from json_pointer_escape [OF this]
  show ?thesis by (simp add: pointer_escape_def)
qed

end
