(* ===== verification/MeasureLifecycle.thy ===== *)
theory MeasureLifecycle
  imports GoPath
begin

text \<open>
  The life of a RUN (tools/measurectl/lifecycle.go): \<open>begin\<close> checks the hosts, records the manifest,
  writes the marker of the active RUN and starts the collectors; \<open>finalize\<close> stops them, digests,
  finishes the manifest and archives the marker.

  The state holds the files that this component reads and writes, by path, and the log of its calls
  to the other components; the calls themselves (\<open>runCollect\<close>, \<open>runDigest\<close>, the manifest and git) are
  fields of \<open>life_env\<close> that act on the rest of the world, as they are fields of \<open>lifecycleRunner\<close> in
  the code. The outcome of a file operation (\<open>MkdirAll\<close>, the temporary file, \<open>Rename\<close>) is a parameter
  too, so that every error branch is one of the model.
\<close>

section \<open>State\<close>

datatype call =
    Collect "string list"
  | Digest "string list"
  | ManifestBegin "string list"
  | ManifestFinalize "string list"
  | CommitChanges string
  | CommitRun string string

record 'w life_state =
  lf_files :: "string \<rightharpoonup> string"
  lf_calls :: "call list"
  lf_world :: 'w

record 'w life_env =
  le_call :: "call \<Rightarrow> 'w \<Rightarrow> go_error option \<times> 'w"
  le_stat :: "string \<Rightarrow> go_error option"
  le_mkdir :: "string \<Rightarrow> go_error option"
  le_tmp :: "string \<Rightarrow> go_error option"
  le_rename :: "string \<Rightarrow> string \<Rightarrow> go_error option"
  le_worktree :: "go_error + string"

record life_options =
  lo_profiles :: bool
  lo_auto_commit :: bool
  lo_commit_changes :: bool
  lo_run_id :: string
  lo_results :: string
  lo_raw :: string
  lo_state_file :: string
  lo_scores :: string
  lo_score :: string
  lo_collectors :: string
  lo_digesters :: string
  lo_collector_flags :: string
  lo_digester_flags :: string
  lo_user :: string
  lo_opts :: string
  lo_roles :: "(string, string list) gomap"
  lo_vars :: "(string, string) gomap"

definition do_call :: "'w life_env \<Rightarrow> call \<Rightarrow> 'w life_state \<Rightarrow> go_error option \<times> 'w life_state" where
  "do_call E c st =
     (case le_call E c (lf_world st) of (e, w) \<Rightarrow> (e, st\<lparr>lf_calls := lf_calls st @ [c], lf_world := w\<rparr>))"

section \<open>Arguments\<close>

definition remote_args :: "life_options \<Rightarrow> string list" where
  "remote_args opts =
     [''-ssh-user'', lo_user opts, ''-ssh-opts'', lo_opts opts] @
     concat (map (\<lambda>n. [''-role'', n @ ''='' @ join_with '','' (lookup_or [] (lo_roles opts) n)]) (sort (keys (lo_roles opts)))) @
     concat (map (\<lambda>n. [''-var'', n @ ''='' @ lookup_or [] (lo_vars opts) n]) (sort (keys (lo_vars opts))))"

definition collect_args :: "bool \<Rightarrow> life_options \<Rightarrow> string list" where
  "collect_args configured opts =
     [''-config'', lo_collectors opts] @ remote_args opts @ (if configured then str_fields (lo_collector_flags opts) else [])"

text \<open>\<open>strconv.ParseBool\<close>.\<close>

definition parse_bool :: "string \<Rightarrow> bool option" where
  "parse_bool s =
     (if s \<in> set [''1'', ''t'', ''T'', ''true'', ''TRUE'', ''True''] then Some True
      else if s \<in> set [''0'', ''f'', ''F'', ''false'', ''FALSE'', ''False''] then Some False
      else None)"

definition format_bool :: "bool \<Rightarrow> string" where
  "format_bool b = (if b then ''true'' else ''false'')"

text \<open>Whether the collector flags disable the collectors; the last such flag counts.\<close>

definition disabled_step :: "string \<Rightarrow> bool \<Rightarrow> go_error + bool" where
  "disabled_step token disabled =
     (let t = trim_prefix (trim_prefix token ''-'') ''-'';
          name = (case cut_char (CHR ''='') t of None \<Rightarrow> t | Some (n, _) \<Rightarrow> n)
      in if name \<noteq> ''no-collectors'' then Inr disabled
         else (case cut_char (CHR ''='') t of
             None \<Rightarrow> Inr True
           | Some (_, value) \<Rightarrow>
               (case parse_bool value of
                  None \<Rightarrow> Inl (Errorf ''invalid no-collectors flag'' [value] []) | Some b \<Rightarrow> Inr b)))"

definition fixed_roles :: "string list" where
  "fixed_roles = [''app'', ''app_traffic'', ''nginx'', ''entry'', ''mysql'']"

definition manifest_begin_args :: "life_options \<Rightarrow> string \<Rightarrow> go_error + string list" where
  "manifest_begin_args opts run_dir =
     (let hosts = lookup_or [] (lo_roles opts) in
      case hosts ''entry'' of
        [] \<Rightarrow> Inl (Errorf ''role has no hosts'' [''entry''] [])
      | entry # _ \<Rightarrow>
          (case fold_res disabled_step (str_fields (lo_collector_flags opts)) False of
             Inl e \<Rightarrow> Inl e
           | Inr disabled \<Rightarrow>
               Inr ([''-dir'', run_dir, ''-collector-clean'', ''-capture-contract'',
                     ''-profiles-enabled='' @ format_bool (lo_profiles opts),
                     ''-collectors'', lo_collectors opts, ''-digesters'', lo_digesters opts,
                     ''-app'', join_with '','' (hosts ''app''), ''-app-traffic'', join_with '','' (hosts ''app_traffic''),
                     ''-nginx'', join_with '','' (hosts ''nginx''), ''-entry'', entry,
                     ''-mysql'', (case hosts ''mysql'' of [] \<Rightarrow> [] | m # _ \<Rightarrow> m)] @
                    (if disabled then [''-collectors-disabled''] else []) @
                    concat (map (\<lambda>n. [''-role'', n @ ''='' @ join_with '','' (hosts n)])
                      (sort (filter (\<lambda>n. n \<notin> set fixed_roles) (keys (lo_roles opts))))))))"

section \<open>The marker of the active RUN\<close>

definition marker_body :: "string \<Rightarrow> string \<Rightarrow> string" where
  "marker_body run_id owner = run_id @ [CHR 0x0A] @ owner @ [CHR 0x0A]"

definition write_run_state :: "'w life_env \<Rightarrow> string \<Rightarrow> string \<Rightarrow> 'w life_state \<Rightarrow> go_error option \<times> 'w life_state" where
  "write_run_state E path run_id st =
     (case le_worktree E of
        Inl e \<Rightarrow> (Some e, st)
      | Inr owner \<Rightarrow>
     (case le_mkdir E (path_dir path) of
        Some e \<Rightarrow> (Some e, st)
      | None \<Rightarrow>
     (case le_tmp E (path_dir path) of
        Some e \<Rightarrow> (Some e, st)
      | None \<Rightarrow>
     (case le_rename E (path_dir path) path of
        Some e \<Rightarrow> (Some e, st)
      | None \<Rightarrow> (None, st\<lparr>lf_files := (lf_files st)(path \<mapsto> marker_body run_id owner)\<rparr>)))))"

definition read_run_state :: "'w life_env \<Rightarrow> string \<Rightarrow> 'w life_state \<Rightarrow> go_error + string" where
  "read_run_state E path st =
     (case lf_files st path of
        None \<Rightarrow> Inl (Errorf ''read active RUN state'' [path] [])
      | Some body \<Rightarrow>
          (case split_char (CHR 0x0A) (trim_suffix body [CHR 0x0A]) of
             [run_id, owner] \<Rightarrow>
               if \<not> is_abs owner then Inl (Errorf ''missing or invalid worktree owner'' [path] [])
               else if run_id = [] \<or> path_base run_id \<noteq> run_id then Inl (Errorf ''invalid active RUN ID'' [run_id] [])
               else (case le_worktree E of
                   Inl e \<Rightarrow> Inl e
                 | Inr current \<Rightarrow>
                     if owner \<noteq> current then Inl (Errorf ''RUN belongs to another worktree'' [run_id, owner] [])
                     else Inr run_id)
           | _ \<Rightarrow> Inl (Errorf ''missing or invalid worktree owner'' [path] [])))"

definition archive_run_state :: "'w life_env \<Rightarrow> string \<Rightarrow> string \<Rightarrow> 'w life_state \<Rightarrow> go_error option \<times> 'w life_state" where
  "archive_run_state E path name st =
     (case read_run_state E path st of
        Inl e \<Rightarrow> (Some e, st)
      | Inr _ \<Rightarrow>
          (let dest = path_join [path_dir path, name] in
           case le_rename E path dest of
             Some e \<Rightarrow> (Some e, st)
           | None \<Rightarrow> (None, st\<lparr>lf_files := (lf_files st)(path := None, dest := lf_files st path)\<rparr>)))"

section \<open>Begin\<close>

definition begin_cleanup :: "'w life_env \<Rightarrow> life_options \<Rightarrow> go_error \<Rightarrow> 'w life_state \<Rightarrow> go_error option \<times> 'w life_state" where
  "begin_cleanup E opts cause st =
     (case do_call E (Collect (''sweep'' # collect_args True opts)) st of (sweep, st1) \<Rightarrow>
        (case archive_run_state E (lo_state_file opts) ''aborted-run-id'' st1 of (arch, st2) \<Rightarrow>
           (errors_join ([cause] @ (case sweep of None \<Rightarrow> [] | Some e \<Rightarrow> [e]) @ (case arch of None \<Rightarrow> [] | Some e \<Rightarrow> [e])), st2)))"

definition begin_collectors :: "'w life_env \<Rightarrow> life_options \<Rightarrow> 'w life_state \<Rightarrow> go_error option \<times> 'w life_state" where
  "begin_collectors E opts st =
     (case do_call E (Collect (''prepare'' # collect_args True opts)) st of
        (Some e, st1) \<Rightarrow> begin_cleanup E opts e st1
      | (None, st1) \<Rightarrow>
          (case do_call E (Collect ([''start'', ''-run-id'', lo_run_id opts] @ collect_args True opts)) st1 of
             (Some e, st2) \<Rightarrow> begin_cleanup E opts e st2
           | (None, st2) \<Rightarrow> (None, st2)))"

definition begin_run :: "'w life_env \<Rightarrow> life_options \<Rightarrow> 'w life_state \<Rightarrow> go_error option \<times> 'w life_state" where
  "begin_run E opts st =
     (if lo_run_id opts = [] \<or> path_base (lo_run_id opts) \<noteq> lo_run_id opts
      then (Some (Errorf ''-run-id must be one basename'' [lo_run_id opts] []), st)
      else if lf_files st (lo_state_file opts) \<noteq> None
      then (Some (Errorf ''unfinished RUN exists'' [lo_state_file opts] []), st)
      else
     (case le_stat E (lo_state_file opts) of
        Some e \<Rightarrow> (Some e, st)
      | None \<Rightarrow>
     (case (if lo_commit_changes opts then do_call E (CommitChanges (lo_run_id opts)) st else (None, st)) of
        (Some e, st1) \<Rightarrow> (Some e, st1)
      | (None, st1) \<Rightarrow>
     (case do_call E (Collect (''check-clean'' # collect_args True opts)) st1 of
        (Some e, st2) \<Rightarrow> (Some e, st2)
      | (None, st2) \<Rightarrow>
          (let run_dir = path_join [lo_results opts, lo_run_id opts] in
           case le_mkdir E run_dir of
             Some e \<Rightarrow> (Some e, st2)
           | None \<Rightarrow>
          (case manifest_begin_args opts run_dir of
             Inl e \<Rightarrow> (Some e, st2)
           | Inr args \<Rightarrow>
          (case do_call E (ManifestBegin args) st2 of
             (Some e, st3) \<Rightarrow> (Some e, st3)
           | (None, st3) \<Rightarrow>
          (case write_run_state E (lo_state_file opts) (lo_run_id opts) st3 of
             (Some e, st4) \<Rightarrow> (Some e, st4)
           | (None, st4) \<Rightarrow> begin_collectors E opts st4))))))))"

section \<open>Finalize\<close>

definition stop_args :: "life_options \<Rightarrow> string \<Rightarrow> string \<Rightarrow> string list" where
  "stop_args opts run_id run_dir =
     [''stop'', ''-run-id'', run_id, ''-run-dir'', run_dir] @ collect_args True opts"

definition digest_args :: "life_options \<Rightarrow> string \<Rightarrow> string list" where
  "digest_args opts run_dir =
     [''-config'', lo_digesters opts, ''-run-dir'', run_dir, ''-raw-dir'', lo_raw opts] @ remote_args opts @
     str_fields (lo_digester_flags opts)"

definition manifest_finalize_args :: "life_options \<Rightarrow> string \<Rightarrow> string list" where
  "manifest_finalize_args opts run_dir =
     [''-dir'', run_dir, ''-scores'', lo_scores opts, ''-score'', lo_score opts,
      ''-collectors'', lo_collectors opts, ''-digesters'', lo_digesters opts]"

definition finalize_run :: "'w life_env \<Rightarrow> life_options \<Rightarrow> 'w life_state \<Rightarrow> go_error option \<times> 'w life_state" where
  "finalize_run E opts st =
     (case read_run_state E (lo_state_file opts) st of
        Inl e \<Rightarrow> (Some e, st)
      | Inr run_id \<Rightarrow>
          (let run_dir = path_join [lo_results opts, run_id] in
           case do_call E (Collect (stop_args opts run_id run_dir)) st of (_, st1) \<Rightarrow>
          (case do_call E (Digest (digest_args opts run_dir)) st1 of (_, st2) \<Rightarrow>
          (case do_call E (ManifestFinalize (manifest_finalize_args opts run_dir)) st2 of
             (Some e, st3) \<Rightarrow> (Some e, st3)
           | (None, st3) \<Rightarrow>
          (case archive_run_state E (lo_state_file opts) ''last-run-id'' st3 of
             (Some e, st4) \<Rightarrow> (Some e, st4)
           | (None, st4) \<Rightarrow>
               if lo_auto_commit opts then do_call E (CommitRun run_dir (lo_scores opts)) st4 else (None, st4))))))"

text \<open>\<open>runLifecycle\<close>; \<open>parse\<close> stands for the flag parser.\<close>

definition run_lifecycle :: "'w life_env \<Rightarrow> (string list \<Rightarrow> go_error + (life_options \<times> string list)) \<Rightarrow> string list \<Rightarrow>
    'w life_state \<Rightarrow> go_error option \<times> 'w life_state" where
  "run_lifecycle E parse args st =
     (case args of
        [] \<Rightarrow> (Some (Errorf ''run requires begin or finalize'' [] []), st)
      | action # rest \<Rightarrow>
          if action \<noteq> ''begin'' \<and> action \<noteq> ''finalize''
          then (Some (Errorf ''run requires begin or finalize'' [] []), st)
          else (case parse rest of
              Inl e \<Rightarrow> (Some e, st)
            | Inr (opts, extra) \<Rightarrow>
                if extra \<noteq> [] then (Some (Errorf ''unexpected run arguments'' extra []), st)
                else if action = ''begin'' then begin_run E opts st else finalize_run E opts st))"

end
