(* ===== verification/MeasureLifecycleFacts.thy ===== *)
theory MeasureLifecycleFacts
  imports MeasureLifecycle
begin

text \<open>
  The contract of the marker of the active RUN as a locale, its interpretation on the functions of
  lifecycle.go, and the properties of the RUN's life that follow from it.
\<close>

section \<open>The contract of the marker\<close>

locale run_marker =
  fixes put :: "'i \<Rightarrow> 's \<Rightarrow> go_error option \<times> 's"
    and get :: "'s \<Rightarrow> go_error + 'i"
    and archive :: "'s \<Rightarrow> go_error option \<times> 's"
    and present :: "'s \<Rightarrow> bool"
    and valid :: "'i \<Rightarrow> bool"
    and apart :: bool
  assumes put_get: "put i s = (None, s') \<Longrightarrow> valid i \<Longrightarrow> get s' = Inr i"
    and put_present: "put i s = (None, s') \<Longrightarrow> present s'"
    and put_failed: "put i s = (Some e, s') \<Longrightarrow> s' = s"
    and get_present: "get s = Inr i \<Longrightarrow> present s"
    and archive_gone: "archive s = (None, s') \<Longrightarrow> apart \<Longrightarrow> \<not> present s'"
    and archive_read: "archive s = (None, s') \<Longrightarrow> \<exists>i. get s = Inr i"
    and archive_failed: "archive s = (Some e, s') \<Longrightarrow> s' = s"
begin

lemma put_archive:
  assumes "put i s = (None, s1)" and "valid i" and "archive s1 = (e, s2)" and "apart"
  shows "e = None \<and> \<not> present s2 \<or> e \<noteq> None \<and> get s2 = Inr i"
proof (cases e)
  case None
  with assms show ?thesis using archive_gone by blast
next
  case (Some x)
  with assms(3) have "s2 = s1" using archive_failed by blast
  with assms(1,2) Some show ?thesis using put_get by blast
qed

lemma archive_iff: "archive s = (e, s') \<Longrightarrow> apart \<Longrightarrow> present s \<Longrightarrow> e = None \<longleftrightarrow> \<not> present s'"
  using archive_gone [of s s'] archive_failed [of s _ s'] by (cases e) auto

end

text \<open>An id that the marker can carry, given the worktree of the environment.\<close>

definition marker_ok :: "'w life_env \<Rightarrow> string \<Rightarrow> bool" where
  "marker_ok E i \<longleftrightarrow> i \<noteq> [] \<and> path_base i = i \<and> CHR 0x0A \<notin> set i \<and>
     (case le_worktree E of Inl _ \<Rightarrow> False | Inr w \<Rightarrow> is_abs w \<and> CHR 0x0A \<notin> set w)"

lemma split_marker:
  assumes "CHR 0x0A \<notin> set i" and "CHR 0x0A \<notin> set w"
  shows "split_char (CHR 0x0A) (trim_suffix (marker_body i w) [CHR 0x0A]) = [i, w]"
proof -
  have "marker_body i w = (i @ CHR 0x0A # w) @ [CHR 0x0A]" by (simp add: marker_body_def)
  then have "trim_suffix (marker_body i w) [CHR 0x0A] = i @ CHR 0x0A # w" by (simp only: trim_suffix_append)
  then show ?thesis using assms by (simp add: split_char_append split_char_no_sep)
qed

lemma write_read_state:
  assumes "write_run_state E path i st = (None, st')" and "marker_ok E i"
  shows "read_run_state E path st' = Inr i"
proof -
  from assms obtain w where w: "le_worktree E = Inr w" and f: "lf_files st' path = Some (marker_body i w)"
    by (auto simp: write_run_state_def split: sum.splits option.splits)
  with assms(2) show ?thesis by (simp add: read_run_state_def split_marker marker_ok_def)
qed

lemma write_run_state_None: "write_run_state E path i st = (None, st') \<Longrightarrow> lf_files st' path \<noteq> None"
  by (auto simp: write_run_state_def split: sum.splits option.splits)

lemma write_run_state_Some: "write_run_state E path i st = (Some e, st') \<Longrightarrow> st' = st"
  by (auto simp: write_run_state_def split: sum.splits option.splits)

lemma read_run_state_present: "read_run_state E path st = Inr i \<Longrightarrow> lf_files st path \<noteq> None"
  by (auto simp: read_run_state_def split: option.splits)

lemma archive_run_state_None:
  "archive_run_state E path name st = (None, st') \<Longrightarrow>
   (\<exists>i. read_run_state E path st = Inr i) \<and>
   lf_files st' = (lf_files st)(path := None, path_join [path_dir path, name] := lf_files st path) \<and>
   lf_calls st' = lf_calls st"
  by (auto simp: archive_run_state_def Let_def split: sum.splits option.splits)

lemma archive_run_state_Some: "archive_run_state E path name st = (Some e, st') \<Longrightarrow> st' = st"
  by (auto simp: archive_run_state_def Let_def split: sum.splits option.splits)

interpretation rm: run_marker "write_run_state E path" "read_run_state E path" "archive_run_state E path name"
  "\<lambda>st. lf_files st path \<noteq> None" "marker_ok E" "path_join [path_dir path, name] \<noteq> path" for E path name
proof unfold_locales
  show "write_run_state E path i st = (None, st') \<Longrightarrow> marker_ok E i \<Longrightarrow> read_run_state E path st' = Inr i" for i st st'
    by (rule write_read_state)
  show "write_run_state E path i st = (None, st') \<Longrightarrow> lf_files st' path \<noteq> None" for i st st'
    by (rule write_run_state_None)
  show "write_run_state E path i st = (Some e, st') \<Longrightarrow> st' = st" for i st e st'
    by (rule write_run_state_Some)
  show "read_run_state E path st = Inr i \<Longrightarrow> lf_files st path \<noteq> None" for st i
    by (rule read_run_state_present)
  show "archive_run_state E path name st = (None, st') \<Longrightarrow> path_join [path_dir path, name] \<noteq> path \<Longrightarrow>
      \<not> lf_files st' path \<noteq> None" for st st'
    using archive_run_state_None [of E path name st st'] by simp
  show "archive_run_state E path name st = (None, st') \<Longrightarrow> \<exists>i. read_run_state E path st = Inr i" for st st'
    using archive_run_state_None [of E path name st st'] by simp
  show "archive_run_state E path name st = (Some e, st') \<Longrightarrow> st' = st" for st e st'
    by (rule archive_run_state_Some)
qed

section \<open>Calls keep the files\<close>

lemma do_call_files: "do_call E c st = (e, st') \<Longrightarrow> lf_files st' = lf_files st \<and> lf_calls st' = lf_calls st @ [c]"
  by (auto simp: do_call_def split: prod.splits)

lemma write_run_state_calls: "write_run_state E path i st = (e, st') \<Longrightarrow> lf_calls st' = lf_calls st"
  by (auto simp: write_run_state_def split: sum.splits option.splits)

lemma read_run_state_cong: "lf_files st path = lf_files st' path \<Longrightarrow> read_run_state E path st = read_run_state E path st'"
  by (simp add: read_run_state_def)

text \<open>\<open>begin\<close> up to the marker, and what follows it.\<close>

lemma begin_run_cases:
  assumes "begin_run E opts st = (r, st')"
  obtains
    (before) "r \<noteq> None" "lf_files st' = lf_files st"
  | (marked) st3 st4 where "write_run_state E (lo_state_file opts) (lo_run_id opts) st3 = (None, st4)"
      "begin_collectors E opts st4 = (r, st')" "lf_files st (lo_state_file opts) = None"
      "path_base (lo_run_id opts) = lo_run_id opts" "lo_run_id opts \<noteq> []"
proof (cases r)
  case None
  with assms that(2) show thesis unfolding begin_run_def Let_def
    by (auto split: if_splits option.splits prod.splits sum.splits)
next
  case (Some e)
  with assms that show thesis unfolding begin_run_def Let_def
    by (auto split: if_splits option.splits prod.splits sum.splits dest!: do_call_files write_run_state_Some)
qed

end
