(* ===== verification/MeasureProperties.thy ===== *)
theory MeasureProperties
  imports MeasureLifecycleFacts
begin

text \<open>
  The properties of the RUN's life (tools/measurectl/lifecycle.go): what \<open>begin\<close> and \<open>finalize\<close> leave of
  the marker, in which order they call the other components, and that the two fit together.
\<close>

section \<open>A concrete environment\<close>

text \<open>Every call succeeds, unless the world is \<open>False\<close>: then starting the collectors fails.\<close>

definition demo_life :: "bool life_env" where
  "demo_life = \<lparr>
     le_call = (\<lambda>c ok. case c of
         Collect (a # _) \<Rightarrow> (if a = ''start'' \<and> \<not> ok then Some (Errorf ''start'' [] []) else None, ok)
       | _ \<Rightarrow> (None, ok)),
     le_stat = (\<lambda>_. None), le_mkdir = (\<lambda>_. None), le_tmp = (\<lambda>_. None), le_rename = (\<lambda>_ _. None),
     le_worktree = Inr ''/work''\<rparr>"

definition demo_opts :: life_options where
  "demo_opts = \<lparr>lo_profiles = False, lo_auto_commit = False, lo_commit_changes = False, lo_run_id = ''r1'',
     lo_results = ''runs'', lo_raw = ''raw'', lo_state_file = ''raw/current-run-id'', lo_scores = ''s'', lo_score = ''1'',
     lo_collectors = ''c'', lo_digesters = ''d'', lo_collector_flags = [], lo_digester_flags = [],
     lo_user = ''u'', lo_opts = [], lo_roles = [(''entry'', [''h''])], lo_vars = []\<rparr>"

definition demo_start :: "bool \<Rightarrow> bool life_state" where
  "demo_start ok = \<lparr>lf_files = (\<lambda>_. None), lf_calls = [], lf_world = ok\<rparr>"

definition demo_begun :: "bool life_state" where
  "demo_begun = snd (begin_run demo_life demo_opts (demo_start True))"

lemma demo_marker: "marker_ok demo_life (lo_run_id demo_opts)"
  by code_simp

lemma demo_apart:
  "path_join [path_dir (lo_state_file demo_opts), ''aborted-run-id''] \<noteq> lo_state_file demo_opts"
  "path_join [path_dir (lo_state_file demo_opts), ''last-run-id''] \<noteq> lo_state_file demo_opts"
  by code_simp+


lemma demo_begin_ok: "begin_run demo_life demo_opts (demo_start True) = (None, demo_begun)"
proof -
  have "fst (begin_run demo_life demo_opts (demo_start True)) = None" by code_simp
  then show ?thesis unfolding demo_begun_def by (metis prod.collapse)
qed

lemma demo_begin_read: "read_run_state demo_life (lo_state_file demo_opts) demo_begun = Inr ''r1''"
  by code_simp

section \<open>Begin\<close>

definition clean_call :: "life_options \<Rightarrow> call" where
  "clean_call opts = Collect (''check-clean'' # collect_args True opts)"

definition prepare_call :: "life_options \<Rightarrow> call" where
  "prepare_call opts = Collect (''prepare'' # collect_args True opts)"

definition start_call :: "life_options \<Rightarrow> call" where
  "start_call opts = Collect ([''start'', ''-run-id'', lo_run_id opts] @ collect_args True opts)"

definition sweep_call :: "life_options \<Rightarrow> call" where
  "sweep_call opts = Collect (''sweep'' # collect_args True opts)"

definition commit_calls :: "life_options \<Rightarrow> call list" where
  "commit_calls opts = (if lo_commit_changes opts then [CommitChanges (lo_run_id opts)] else [])"

lemmas begin_call_defs = clean_call_def prepare_call_def start_call_def sweep_call_def commit_calls_def

lemma archive_run_state_calls: "archive_run_state E path name st = (e, st') \<Longrightarrow> lf_calls st' = lf_calls st"
  by (auto simp: archive_run_state_def Let_def split: sum.splits option.splits)

lemma errors_join_Cons: "errors_join (e # es) \<noteq> None"
  by (simp add: errors_join_def)

text \<open>What the clean-up after a failed start leaves.\<close>

lemma begin_cleanup_facts:
  assumes "begin_cleanup E opts cause st = (r, st')"
  shows "r \<noteq> None" and "lf_calls st' = lf_calls st @ [sweep_call opts]"
    and "\<exists>e st1. archive_run_state E (lo_state_file opts) ''aborted-run-id'' st1 = (e, st') \<and> lf_files st1 = lf_files st"
proof -
  obtain sw st1 where s: "do_call E (Collect (''sweep'' # collect_args True opts)) st = (sw, st1)" by fastforce
  obtain ar st2 where a: "archive_run_state E (lo_state_file opts) ''aborted-run-id'' st1 = (ar, st2)" by fastforce
  from assms s a have r: "r = errors_join ([cause] @ (case sw of None \<Rightarrow> [] | Some e \<Rightarrow> [e]) @ (case ar of None \<Rightarrow> [] | Some e \<Rightarrow> [e]))"
    and st': "st' = st2" by (simp_all add: begin_cleanup_def)
  from r show "r \<noteq> None" using errors_join_Cons by simp
  show "lf_calls st' = lf_calls st @ [sweep_call opts]"
    using do_call_files [OF s] archive_run_state_calls [OF a] st' by (simp add: sweep_call_def)
  show "\<exists>e st1. archive_run_state E (lo_state_file opts) ''aborted-run-id'' st1 = (e, st') \<and> lf_files st1 = lf_files st"
    using a st' do_call_files [OF s] by blast
qed

lemma begin_collectors_cases:
  assumes "begin_collectors E opts st = (r, st')"
  obtains
    (started) "r = None" "lf_files st' = lf_files st" "lf_calls st' = lf_calls st @ [prepare_call opts, start_call opts]"
  | (aborted) cause st1 more where "begin_cleanup E opts cause st1 = (r, st')" "lf_files st1 = lf_files st"
      "lf_calls st1 = lf_calls st @ prepare_call opts # more" "more = [] \<or> more = [start_call opts]"
proof -
  obtain p st1 where p: "do_call E (prepare_call opts) st = (p, st1)" by fastforce
  obtain s st2 where s: "do_call E (start_call opts) st1 = (s, st2)" by fastforce
  note f = do_call_files [OF p] do_call_files [OF s]
  show thesis
  proof (cases p)
    case (Some e)
    with assms p have "begin_cleanup E opts e st1 = (r, st')" by (simp add: begin_collectors_def prepare_call_def)
    then show thesis using aborted [of e st1 "[]"] f by simp
  next
    case None
    note pN = this
    show thesis
    proof (cases s)
      case (Some e)
      with assms p s pN have "begin_cleanup E opts e st2 = (r, st')"
        by (simp add: begin_collectors_def prepare_call_def start_call_def)
      then show thesis using aborted [of e st2 "[start_call opts]"] f by simp
    next
      case None
      with assms p s pN have "r = None" "st' = st2"
        by (simp_all add: begin_collectors_def prepare_call_def start_call_def)
      then show thesis using started f by simp
    qed
  qed
qed



lemma write_run_state_calls_None: "write_run_state E path i st = (None, st') \<Longrightarrow> lf_calls st' = lf_calls st"
  by (rule write_run_state_calls)

lemma begin_run_calls:
  assumes "begin_run E opts st = (r, st')"
  obtains
    (before) new where "r \<noteq> None" "lf_calls st' = lf_calls st @ new"
      "\<forall>c \<in> set new. c = clean_call opts \<or> (\<exists>a. c = ManifestBegin a) \<or> (\<exists>a. c = CommitChanges a)"
  | (marked) args st4 where "begin_collectors E opts st4 = (r, st')"
      "manifest_begin_args opts (path_join [lo_results opts, lo_run_id opts]) = Inr args"
      "lf_calls st4 = lf_calls st @ commit_calls opts @ [clean_call opts, ManifestBegin args]"
proof -
  obtain c st1 where c: "(if lo_commit_changes opts then do_call E (CommitChanges (lo_run_id opts)) st else (None, st)) = (c, st1)"
    by fastforce
  then have c1: "lf_calls st1 = lf_calls st @ commit_calls opts"
    by (auto simp: commit_calls_def dest!: do_call_files split: if_splits)
  have c2: "\<forall>x \<in> set (commit_calls opts). \<exists>a. x = CommitChanges a" by (simp add: commit_calls_def)
  obtain k st2 where k: "do_call E (clean_call opts) st1 = (k, st2)" by fastforce
  note k1 = do_call_files [OF k]
  show thesis
  proof (cases "c = None \<and> k = None")
    case False
    then have "r \<noteq> None \<and> (st' = st \<or> st' = st1 \<or> st' = st2)"
      using assms c k unfolding begin_run_def Let_def clean_call_def
        by (cases r) (auto split: if_splits option.splits)
    then show thesis using before [of "[]"] before [of "commit_calls opts"] before [of "commit_calls opts @ [clean_call opts]"]
      c1 c2 k1 by auto
  next
    case True
    show thesis
    proof (cases "manifest_begin_args opts (path_join [lo_results opts, lo_run_id opts])")
      case (Inl e)
      then have "r \<noteq> None \<and> (st' = st \<or> st' = st2)"
        using assms c k True unfolding begin_run_def Let_def clean_call_def
        by (cases r) (auto split: if_splits option.splits)
      then show thesis using before [of "[]"] before [of "commit_calls opts @ [clean_call opts]"] c1 c2 k1 by auto
    next
      case (Inr args)
      obtain m st3 where m: "do_call E (ManifestBegin args) st2 = (m, st3)" by fastforce
      note m1 = do_call_files [OF m]
      obtain v st4 where v: "write_run_state E (lo_state_file opts) (lo_run_id opts) st3 = (v, st4)" by fastforce
      note v1 = write_run_state_calls [OF v]
      have "r \<noteq> None \<and> (st' = st \<or> st' = st2 \<or> st' = st3 \<or> st' = st4) \<or> begin_collectors E opts st4 = (r, st')"
        using assms c k m v True Inr unfolding begin_run_def Let_def clean_call_def
        by (cases r) (auto split: if_splits option.splits)
      then show thesis
        using before [of "[]"] before [of "commit_calls opts @ [clean_call opts]"]
          before [of "commit_calls opts @ [clean_call opts, ManifestBegin args]"] marked [of st4 args] c1 c2 k1 m1 v1 Inr
        by auto
    qed
  qed
qed

lemma begin_calls_distinct [simp]:
  "clean_call opts \<noteq> prepare_call opts" "clean_call opts \<noteq> start_call opts" "prepare_call opts \<noteq> start_call opts"
  "prepare_call opts \<noteq> ManifestBegin a" "start_call opts \<noteq> ManifestBegin a"
  "prepare_call opts \<noteq> CommitChanges a'" "start_call opts \<noteq> CommitChanges a'"
  by (simp_all add: begin_call_defs)

text \<open>
  The order of \<open>begin\<close>: a \<open>begin\<close> that succeeds commits (when asked), checks that the hosts are
  clean, opens the manifest, prepares and starts the collectors, each exactly once and in this order; a
  \<open>begin\<close> that fails after it touched the collectors ends with a sweep of the hosts, and one that fails
  before never prepares or starts a collector.
\<close>

theorem begin_order:
  assumes "begin_run E opts st = (r, st')"
  shows "\<exists>new. lf_calls st' = lf_calls st @ new \<and>
    (if r \<noteq> None \<and> prepare_call opts \<notin> set new then start_call opts \<notin> set new
     else \<exists>args. manifest_begin_args opts (path_join [lo_results opts, lo_run_id opts]) = Inr args \<and>
       (let opened = commit_calls opts @ [clean_call opts, ManifestBegin args, prepare_call opts] in
        if r = None then new = opened @ [start_call opts]
        else new \<in> {opened @ [sweep_call opts], opened @ [start_call opts, sweep_call opts]}))"
  using assms
proof (cases rule: begin_run_calls)
  case (before new)
  then have "prepare_call opts \<notin> set new" "start_call opts \<notin> set new" by (auto simp: begin_call_defs)
  with before show ?thesis by auto
next
  case (marked args st4)
  let ?opened = "commit_calls opts @ [clean_call opts, ManifestBegin args, prepare_call opts]"
  from marked(1) show ?thesis
  proof (cases rule: begin_collectors_cases)
    case started
    then show ?thesis using marked by (intro exI [of _ "?opened @ [start_call opts]"]) simp
  next
    case (aborted cause st1 more)
    note c = begin_cleanup_facts(1,2) [OF aborted(1)]
    then show ?thesis using marked aborted(3,4)
      by (intro exI [of _ "?opened @ more @ [sweep_call opts]"]) (auto simp: Let_def)
  qed
qed

theorem begin_order_witness:
  "lf_calls (snd (begin_run demo_life demo_opts (demo_start True))) =
     [clean_call demo_opts, ManifestBegin (projr (manifest_begin_args demo_opts ''runs/r1'')),
      prepare_call demo_opts, start_call demo_opts]"
proof -
  have r: "fst (begin_run demo_life demo_opts (demo_start True)) = None" by code_simp
  have d: "path_join [lo_results demo_opts, lo_run_id demo_opts] = ''runs/r1''" by code_simp
  have c: "commit_calls demo_opts = []" by code_simp
  have n: "lf_calls (demo_start True) = []" by (simp add: demo_start_def)
  show ?thesis using begin_order [OF prod.collapse [symmetric], of demo_life demo_opts "demo_start True"]
    unfolding r d c n by auto
qed

section \<open>Finalize\<close>

definition stop_call :: "life_options \<Rightarrow> string \<Rightarrow> call" where
  "stop_call opts run_id = Collect (stop_args opts run_id (path_join [lo_results opts, run_id]))"

definition digest_call :: "life_options \<Rightarrow> string \<Rightarrow> call" where
  "digest_call opts run_id = Digest (digest_args opts (path_join [lo_results opts, run_id]))"

definition finish_call :: "life_options \<Rightarrow> string \<Rightarrow> call" where
  "finish_call opts run_id = ManifestFinalize (manifest_finalize_args opts (path_join [lo_results opts, run_id]))"

definition commit_run_calls :: "life_options \<Rightarrow> string \<Rightarrow> call list" where
  "commit_run_calls opts run_id =
     (if lo_auto_commit opts then [CommitRun (path_join [lo_results opts, run_id]) (lo_scores opts)] else [])"

lemmas finalize_call_defs = stop_call_def digest_call_def finish_call_def commit_run_calls_def

text \<open>
  \<open>finalize\<close> on a readable marker stops the collectors of that RUN, digests and finishes its
  manifest, in this order and whatever the first two report; the marker is archived as \<open>last-run-id\<close>
  exactly when the manifest is finished and the rename succeeds, and stays readable otherwise, so that
  \<open>finalize\<close> can be repeated; the RUN is committed (when asked) only after that.
\<close>

theorem finalize_settles:
  assumes marker: "read_run_state E (lo_state_file opts) st = Inr run_id"
    and run: "finalize_run E opts st = (r, st')"
    and apart: "path_join [path_dir (lo_state_file opts), ''last-run-id''] \<noteq> lo_state_file opts"
  shows "\<exists>done. lf_calls st' = lf_calls st @ [stop_call opts run_id, digest_call opts run_id, finish_call opts run_id] @ done \<and>
    (if lf_files st' (lo_state_file opts) = None
     then done = commit_run_calls opts run_id \<and> (done = [] \<longrightarrow> r = None) \<and>
       lf_files st' (path_join [path_dir (lo_state_file opts), ''last-run-id'']) = lf_files st (lo_state_file opts)
     else done = [] \<and> r \<noteq> None \<and> read_run_state E (lo_state_file opts) st' = Inr run_id)"
proof -
  obtain a st1 where a: "do_call E (stop_call opts run_id) st = (a, st1)" by fastforce
  obtain b st2 where b: "do_call E (digest_call opts run_id) st1 = (b, st2)" by fastforce
  obtain c st3 where c: "do_call E (finish_call opts run_id) st2 = (c, st3)" by fastforce
  note f = do_call_files [OF a] do_call_files [OF b] do_call_files [OF c]
  have m3: "read_run_state E (lo_state_file opts) st3 = Inr run_id"
    using marker f read_run_state_cong [of st3 "lo_state_file opts" st E] by simp
  show ?thesis
  proof (cases c)
    case (Some e)
    then have "r = Some e \<and> st' = st3" using run marker a b c by (simp add: finalize_run_def finalize_call_defs)
    moreover have "lf_files st3 (lo_state_file opts) \<noteq> None" using rm.get_present [OF m3] .
    ultimately show ?thesis using f m3 by (intro exI [of _ "[]"]) simp
  next
    case None
    obtain d st4 where d: "archive_run_state E (lo_state_file opts) ''last-run-id'' st3 = (d, st4)" by fastforce
    show ?thesis
    proof (cases d)
      case (Some e)
      then have "r = Some e \<and> st' = st3" using run marker a b c d None archive_run_state_Some [of E _ _ st3 e st4]
        by (simp add: finalize_run_def finalize_call_defs)
      moreover have "lf_files st3 (lo_state_file opts) \<noteq> None" using rm.get_present [OF m3] .
      ultimately show ?thesis using f m3 by (intro exI [of _ "[]"]) simp
    next
      case dN: None
      have st4: "lf_files st4 = (lf_files st3)(lo_state_file opts := None,
          path_join [path_dir (lo_state_file opts), ''last-run-id''] := lf_files st3 (lo_state_file opts))"
        "lf_calls st4 = lf_calls st3"
        using archive_run_state_None [of E "lo_state_file opts" "''last-run-id''" st3 st4] d dN by simp_all
      have "(r, st') = (if lo_auto_commit opts
          then do_call E (CommitRun (path_join [lo_results opts, run_id]) (lo_scores opts)) st4 else (None, st4))"
        using run marker a b c d None dN by (simp add: finalize_run_def finalize_call_defs)
      then have "lf_calls st' = lf_calls st4 @ commit_run_calls opts run_id" "lf_files st' = lf_files st4"
        "commit_run_calls opts run_id = [] \<longrightarrow> r = None"
        using do_call_files [of E _ st4 r st'] by (auto simp: commit_run_calls_def split: if_splits)
      then show ?thesis using f st4 apart by (intro exI [of _ "commit_run_calls opts run_id"]) simp
    qed
  qed
qed

theorem finalize_settles_witness:
  "\<exists>done. lf_calls (snd (finalize_run demo_life demo_opts demo_begun)) =
     lf_calls demo_begun @ [stop_call demo_opts ''r1'', digest_call demo_opts ''r1'', finish_call demo_opts ''r1''] @ done"
  using finalize_settles [OF demo_begin_read prod.collapse [symmetric] demo_apart(2)] by blast

text \<open>
  A \<open>begin\<close> that succeeds and the \<open>finalize\<close> that follows it act on the same RUN: with the same
  state file and results directory, and whatever the other options, \<open>finalize\<close> stops the collectors with
  the id that \<open>begin\<close> started them with, over the run directory that \<open>begin\<close> opened the manifest in; and
  once it succeeds the next \<open>begin\<close> is not refused for an unfinished RUN.
\<close>

theorem begin_finalize_cycle:
  assumes first: "begin_run E opts st = (None, st1)"
    and second: "finalize_run E' opts' st1 = (r, st2)"
    and same: "lo_state_file opts' = lo_state_file opts" "lo_results opts' = lo_results opts" "le_worktree E' = le_worktree E"
    and id: "marker_ok E (lo_run_id opts)"
    and apart: "path_join [path_dir (lo_state_file opts), ''last-run-id''] \<noteq> lo_state_file opts"
  shows "(\<exists>rest. lf_calls st2 = lf_calls st1 @ stop_call opts' (lo_run_id opts) # rest) \<and>
    (r = None \<longrightarrow> lf_files st2 (lo_state_file opts) = None)"
proof -
  have "read_run_state E (lo_state_file opts) st1 = Inr (lo_run_id opts)"
    using first
  proof (cases rule: begin_run_cases)
    case (marked st3 st4)
    from marked(2) show ?thesis
    proof (cases rule: begin_collectors_cases)
      case started
      then show ?thesis using rm.put_get [OF marked(1) id] read_run_state_cong [of st1 "lo_state_file opts" st4 E] by simp
    next
      case (aborted cause st5 more)
      then show ?thesis using begin_cleanup_facts(1) [OF aborted(1)] by simp
    qed
  qed simp
  then have m: "read_run_state E' (lo_state_file opts') st1 = Inr (lo_run_id opts)"
    unfolding read_run_state_def same .
  obtain a s1 where a: "do_call E' (stop_call opts' (lo_run_id opts)) st1 = (a, s1)" by fastforce
  obtain b s2 where b: "do_call E' (digest_call opts' (lo_run_id opts)) s1 = (b, s2)" by fastforce
  obtain c s3 where c: "do_call E' (finish_call opts' (lo_run_id opts)) s2 = (c, s3)" by fastforce
  obtain d s4 where d: "archive_run_state E' (lo_state_file opts') ''last-run-id'' s3 = (d, s4)" by fastforce
  note f = do_call_files [OF a] do_call_files [OF b] do_call_files [OF c]
  note eq = second m a b c d
  have "c = None \<and> d = None \<Longrightarrow> lf_files s4 (lo_state_file opts) = None"
    using rm.archive_gone [of E' "lo_state_file opts'" "''last-run-id''" s3 s4] d apart same by simp
  moreover have "(c \<noteq> None \<longrightarrow> r = c \<and> st2 = s3) \<and> (c = None \<and> d \<noteq> None \<longrightarrow> r = d \<and> st2 = s4) \<and>
      (c = None \<and> d = None \<longrightarrow> (\<exists>es. lf_calls st2 = lf_calls s4 @ es) \<and> lf_files st2 = lf_files s4)"
    using eq by (auto simp: finalize_run_def finalize_call_defs dest!: do_call_files split: if_splits)
  ultimately show ?thesis using f archive_run_state_calls [OF d]
    by (cases c; cases d) auto
qed

theorem begin_finalize_cycle_witness:
  "lf_files (snd (finalize_run demo_life demo_opts demo_begun)) ''raw/current-run-id'' = None"
proof -
  have r: "fst (finalize_run demo_life demo_opts demo_begun) = None" by code_simp
  show ?thesis
    using begin_finalize_cycle [OF demo_begin_ok prod.collapse [symmetric] refl refl refl demo_marker demo_apart(2)] r
    by (simp add: demo_opts_def)
qed

section \<open>Ids that the check of begin lets through\<close>

text \<open>
  \<open>filepath.Base\<close> maps \<open>..\<close> and \<open>.\<close> to themselves, so the check "must be one basename" accepts them, and
  it accepts an id with a line break, for which the marker that \<open>begin\<close> writes cannot be read again.
\<close>

lemma begin_accepts_dots: "path_base ''..'' = ''..''" "path_base ''.'' = ''.''"
  by code_simp+

lemma begin_accepts_line_break:
  "path_base (''a'' @ [CHR 0x0A] @ ''b'') = ''a'' @ [CHR 0x0A] @ ''b''"
  "split_char (CHR 0x0A) (trim_suffix (marker_body (''a'' @ [CHR 0x0A] @ ''b'') ''/w'') [CHR 0x0A]) = [''a'', ''b'', ''/w'']"
  by code_simp+

end
