(* ===== verification/MeasureConfig.thy ===== *)
theory MeasureConfig
  imports GoPath GoPlaceholder
begin

text \<open>
  The declarations of \<open>measurectl\<close> (tools/measurectl/config.go): collectors, prepare steps and oneshots
  of collectors.yaml, sources and digesters of digesters.yaml, their validation, the placeholder
  expander and the repeated flags \<open>-role\<close> and \<open>-var\<close>.

  The YAML decoder is a parameter: \<open>decl_file\<close> is what it makes of the file.
\<close>

section \<open>Data\<close>

record collector =
  cr_name :: string
  cr_label :: string
  cr_enabled :: "bool option"
  cr_hosts :: string
  cr_binary :: string
  cr_root :: string
  cr_stdout :: string
  cr_args :: string
  cr_outputs :: "(string, string) gomap"
  cr_stderr :: string

definition collector_enabled :: "collector \<Rightarrow> bool" where
  "collector_enabled c = (case cr_enabled c of None \<Rightarrow> True | Some b \<Rightarrow> b)"

record prepare_step =
  pr_name :: string
  pr_label :: string
  pr_hosts :: string
  pr_script :: string

record oneshot =
  os_group :: string
  os_ready :: string
  os_stop :: string
  os_name :: string
  os_label :: string
  os_enabled :: "bool option"
  os_hosts :: string
  os_delay :: string
  os_run :: string
  os_remote_out :: string
  os_output :: string

definition oneshot_enabled :: "oneshot \<Rightarrow> bool" where
  "oneshot_enabled x = (case os_enabled x of None \<Rightarrow> True | Some b \<Rightarrow> b)"

definition default_config_path :: "(string \<Rightarrow> bool) \<Rightarrow> string \<Rightarrow> string" where
  "default_config_path stat name =
     (let repository = ''tools/measurectl/'' @ name in if stat repository then repository else name)"

record collect_config =
  cc_prepare :: "prepare_step list"
  cc_collectors :: "collector list"
  cc_oneshots :: "oneshot list"

record source =
  so_name :: string
  so_role :: string
  so_remote :: string
  so_local :: string
  so_compress :: bool
  so_delay :: int

record remote_script =
  rm_role :: string
  rm_per_host :: bool
  rm_script :: string

record digest_output =
  do_file :: string
  do_run :: string
  do_header :: string
  do_on_error :: string
  do_on_skip :: string
  do_on_empty :: string

record digester =
  dg_per_host :: bool
  dg_enabled :: "bool option"
  dg_name :: string
  dg_label :: string
  dg_source :: string
  dg_remote :: "remote_script option"
  dg_stderr :: string
  dg_stdin :: string
  dg_timeout :: string
  dg_hint :: string
  dg_outputs :: "digest_output list"

definition digester_enabled :: "digester \<Rightarrow> bool" where
  "digester_enabled d = (case dg_enabled d of None \<Rightarrow> True | Some b \<Rightarrow> b)"

record digest_config =
  dc_sources :: "source list"
  dc_digesters :: "digester list"

datatype 'a decl_file = Unreadable go_error | BadYaml go_error | Declared 'a

section \<open>collectors.yaml\<close>

definition check_prepare :: "prepare_step \<Rightarrow> go_error option" where
  "check_prepare p =
     (if pr_name p = [] \<or> pr_hosts p = [] \<or> pr_script p = []
      then Some (Errorf ''prepare lacks name, hosts or script'' [pr_name p] []) else None)"

definition check_oneshot :: "oneshot \<Rightarrow> go_error option" where
  "check_oneshot x =
     (if os_name x = [] \<or> os_hosts x = [] \<or> os_run x = [] \<or> os_remote_out x = [] \<or> os_output x = []
      then Some (Errorf ''oneshot lacks name, hosts, run, remote_out or output'' [os_name x] []) else None)"

definition check_collector :: "collector \<Rightarrow> go_error option" where
  "check_collector c =
     (if cr_name c = [] \<or> cr_hosts c = [] \<or> cr_binary c = [] \<or> cr_root c = []
      then Some (Errorf ''collector lacks name, hosts, binary or remote_root'' [cr_name c] [])
      else if cr_outputs c = [] then Some (Errorf ''collector has no outputs'' [cr_name c] [])
      else if cr_stderr c = [] then Some (Errorf ''collector has no stderr'' [cr_name c] [])
      else None)"

definition load_collect_config :: "collect_config decl_file \<Rightarrow> go_error + collect_config" where
  "load_collect_config file =
     (case file of
        Unreadable e \<Rightarrow> Inl (Errorf ''cannot read the collector declarations'' [] [e])
      | BadYaml e \<Rightarrow> Inl (Errorf ''cannot decode the collector declarations'' [] [e])
      | Declared cfg \<Rightarrow>
          if cc_collectors cfg = [] \<and> cc_prepare cfg = [] \<and> cc_oneshots cfg = []
          then Inl (Errorf ''no prepare, collectors or oneshots'' [] [])
          else
            (case first_error check_prepare (cc_prepare cfg) of Some e \<Rightarrow> Inl e | None \<Rightarrow>
            (case first_error check_oneshot (cc_oneshots cfg) of Some e \<Rightarrow> Inl e | None \<Rightarrow>
            (case first_error check_collector (cc_collectors cfg) of Some e \<Rightarrow> Inl e | None \<Rightarrow> Inr cfg))))"

section \<open>digesters.yaml\<close>

definition find_source :: "digest_config \<Rightarrow> string \<Rightarrow> source option" where
  "find_source cfg name = find (\<lambda>s. so_name s = name) (dc_sources cfg)"

definition check_source :: "source \<Rightarrow> go_error option" where
  "check_source s =
     (if so_name s = [] \<or> so_role s = [] \<or> so_remote s = [] \<or> so_local s = []
      then Some (Errorf ''source lacks name, role, remote or local'' [so_name s] [])
      else if so_delay s < 0 then Some (Errorf ''fetch_delay must not be negative'' [so_name s] [])
      else None)"

definition check_host_outputs :: "digester \<Rightarrow> go_error option" where
  "check_host_outputs d =
     first_error (\<lambda>x. if contains_str (do_file x) ''{host}'' then None
       else Some (Errorf ''per-host output lacks {host}'' [dg_name d, do_file x] [])) (dg_outputs d)"

definition check_input :: "digest_config \<Rightarrow> digester \<Rightarrow> go_error option" where
  "check_input cfg d =
     (if dg_source d \<noteq> [] \<and> dg_remote d \<noteq> None
      then Some (Errorf ''digester names both source and remote'' [dg_name d] [])
      else if dg_source d \<noteq> [] then
        (case find_source cfg (dg_source d) of
           None \<Rightarrow> Some (Errorf ''digester names an unknown source'' [dg_name d, dg_source d] [])
         | Some src \<Rightarrow>
             if dg_per_host d then
               (if \<not> contains_str (so_local src) ''{host}''
                then Some (Errorf ''per-host source lacks {host}'' [dg_name d, dg_source d] [])
                else check_host_outputs d)
             else None)
      else
        (case dg_remote d of
           None \<Rightarrow> Some (Errorf ''digester has neither source nor remote'' [dg_name d] [])
         | Some r \<Rightarrow>
             if rm_role r = [] \<or> rm_script r = []
             then Some (Errorf ''remote lacks role or script'' [dg_name d] [])
             else if dg_per_host d then Some (Errorf ''per_host cannot be combined with remote'' [dg_name d] [])
             else if rm_per_host r then check_host_outputs d
             else None))"

definition check_output :: "digester \<Rightarrow> digest_output \<Rightarrow> go_error option" where
  "check_output d x =
     (if do_file x = [] then Some (Errorf ''output lacks file'' [dg_name d] [])
      else if dg_remote d = None \<and> do_run x = [] then Some (Errorf ''output lacks run'' [dg_name d] [])
      else None)"

definition check_digester :: "digest_config \<Rightarrow> digester \<Rightarrow> go_error option" where
  "check_digester cfg d =
     (if dg_name d = [] then Some (Errorf ''digester lacks name'' [] [])
      else (case check_input cfg d of
          Some e \<Rightarrow> Some e
        | None \<Rightarrow>
            if dg_outputs d = [] then Some (Errorf ''digester has no outputs'' [dg_name d] [])
            else first_error (check_output d) (dg_outputs d)))"

definition load_digest_config :: "digest_config decl_file \<Rightarrow> go_error + digest_config" where
  "load_digest_config file =
     (case file of
        Unreadable e \<Rightarrow> Inl (Errorf ''cannot read the digest declarations'' [] [e])
      | BadYaml e \<Rightarrow> Inl (Errorf ''cannot decode the digest declarations'' [] [e])
      | Declared cfg \<Rightarrow>
          if dc_digesters cfg = [] then Inl (Errorf ''no digesters'' [] [])
          else
            (case first_error check_source (dc_sources cfg) of Some e \<Rightarrow> Inl e | None \<Rightarrow>
            (case first_error (check_digester cfg) (dc_digesters cfg) of Some e \<Rightarrow> Inl e | None \<Rightarrow> Inr cfg)))"

section \<open>Placeholders\<close>

record expansion =
  ex_dir :: string
  ex_out :: string
  ex_host :: string
  ex_run :: string
  ex_vars :: "(string, string) gomap"

abbreviation measure_ph :: "string \<Rightarrow> nat" where
  "measure_ph \<equiv> placeholder_len [''{remote_dir}'', ''{remote_out}'', ''{host}'', ''{run_id}'']"

definition brace :: "char \<Rightarrow> bool" where
  "brace c = (c = CHR ''{'' \<or> c = CHR ''}'')"

definition expansion_of :: "expansion \<Rightarrow> string \<Rightarrow> string" where
  "expansion_of e m =
     (let key = trim_right brace (trim_left brace m) in
      if key = ''remote_dir'' then ex_dir e
      else if key = ''remote_out'' then ex_out e
      else if key = ''host'' then ex_host e
      else if key = ''run_id'' then ex_run e
      else (case map_of (ex_vars e) (trim_prefix key ''var:'') of Some v \<Rightarrow> v | None \<Rightarrow> m))"

definition expand_ph :: "expansion \<Rightarrow> string \<Rightarrow> string" where
  "expand_ph e s = replace_matches measure_ph (expansion_of e) s"

definition unresolved :: "string \<Rightarrow> string list" where
  "unresolved s = sort (find_matches measure_ph s)"

section \<open>Repeated flags\<close>

definition key_values_set :: "string \<Rightarrow> (string, string list) gomap \<Rightarrow> go_error + (string, string list) gomap" where
  "key_values_set v kv =
     (case cut_char (CHR ''='') v of
        None \<Rightarrow> Inl (Errorf ''expected KEY=VALUE'' [v] [])
      | Some (n, value) \<Rightarrow>
          (let name = trim_space n in
           if name = [] then Inl (Errorf ''empty key'' [v] [])
           else Inr (AList.update name (filter (\<lambda>p. p \<noteq> []) (map trim_space (split_char (CHR '','') value))) kv)))"

definition key_value_set :: "string \<Rightarrow> (string, string) gomap \<Rightarrow> go_error + (string, string) gomap" where
  "key_value_set v kv =
     (case cut_char (CHR ''='') v of
        None \<Rightarrow> Inl (Errorf ''expected KEY=VALUE'' [v] [])
      | Some (n, value) \<Rightarrow>
          (let name = trim_space n in
           if name = [] then Inl (Errorf ''empty key'' [v] []) else Inr (AList.update name value kv)))"

end
