(* ===== verification/MeasureCollect.thy ===== *)
theory MeasureCollect
  imports MeasureConfig GoParallel GoExec
begin

text \<open>
  The collectors of \<open>measurectl\<close> (tools/measurectl/collect.go): selecting what an action applies to,
  preparing the hosts, starting and stopping a collector on a host, the oneshots, the check and the
  sweep of all hosts, and the ssh and rsync commands they come down to.

  The state holds the local files by path, the commands run so far, the lines printed and the rest of
  the world. What ssh and rsync do is a parameter: ssh acts on the world, rsync on the world and on the
  local files; so are the outcomes of \<open>MkdirAll\<close>, \<open>MkdirTemp\<close> and \<open>Rename\<close>, the duration parser and the
  schedule of the goroutines. Waiting is not modelled. Only what \<open>os.Stat\<close> finds counts as a file, so
  directories need no entry of their own.
\<close>

section \<open>State\<close>

type_synonym files = "string \<rightharpoonup> string"

record 'w collect_state =
  cs_trace :: "cmd list"
  cs_out :: "string list"
  cs_files :: files
  cs_world :: 'w

record 'w collect_env =
  ce_ssh :: "cmd \<Rightarrow> 'w \<Rightarrow> (string \<times> go_error option) \<times> 'w"
  ce_rsync :: "cmd \<Rightarrow> files \<times> 'w \<Rightarrow> (string \<times> go_error option) \<times> (files \<times> 'w)"
  ce_mkdir :: "string \<Rightarrow> go_error option"
  ce_mktemp :: "string \<Rightarrow> files \<Rightarrow> go_error + string"
  ce_rename :: "string \<Rightarrow> string \<Rightarrow> go_error option"
  ce_duration :: "string \<Rightarrow> go_error + string"
  ce_sched :: "nat \<Rightarrow> nat list"

record collect_runner =
  rn_cfg :: collect_config
  rn_id :: string
  rn_dir :: string
  rn_user :: string
  rn_opts :: "string list"
  rn_roles :: "(string, string list) gomap"
  rn_vars :: "(string, string) gomap"
  rn_dry :: bool
  rn_only :: "string list option"

definition print_line :: "string \<Rightarrow> 'w collect_state \<Rightarrow> 'w collect_state" where
  "print_line line st = st\<lparr>cs_out := cs_out st @ [line]\<rparr>"

definition bracket :: "string \<Rightarrow> string" where
  "bracket host = ''['' @ host @ ''] ''"

abbreviation InHost :: "string \<Rightarrow> string \<Rightarrow> go_error \<Rightarrow> go_error" where
  "InHost host name e \<equiv> Errorf ''[host] name'' [host, name] [e]"

abbreviation NoRole :: "string \<Rightarrow> string \<Rightarrow> string \<Rightarrow> go_error" where
  "NoRole kind name role \<equiv> Errorf ''no hosts given for the role'' [kind, name, role] []"

definition print_lines :: "string \<Rightarrow> string \<Rightarrow> 'w collect_state \<Rightarrow> 'w collect_state" where
  "print_lines host out st =
     fold (\<lambda>line. print_line (bracket host @ line)) (filter (\<lambda>l. l \<noteq> []) (split_char (CHR 0x0A) (trim_space out))) st"

section \<open>ssh and rsync\<close>

text \<open>Single quotes for the shell: a quote inside is written as \<open>'\\''\<close>.\<close>

definition shq :: "string \<Rightarrow> string" where
  "shq s = [CHR 0x27] @ replace_all [CHR 0x27] [CHR 0x27, CHR 0x5C, CHR 0x27, CHR 0x27] s @ [CHR 0x27]"

definition collect_ssh_base :: "collect_runner \<Rightarrow> string list" where
  "collect_ssh_base r = [''-o'', ''RequestTTY=no'', ''-o'', ''LogLevel=ERROR''] @ rn_opts r"

definition call_ssh :: "'w collect_env \<Rightarrow> cmd \<Rightarrow> 'w collect_state \<Rightarrow> (string \<times> go_error option) \<times> 'w collect_state" where
  "call_ssh E c st =
     (case ce_ssh E c (cs_world st) of (res, w) \<Rightarrow> (res, st\<lparr>cs_trace := cs_trace st @ [c], cs_world := w\<rparr>))"

definition call_rsync :: "'w collect_env \<Rightarrow> cmd \<Rightarrow> 'w collect_state \<Rightarrow> (string \<times> go_error option) \<times> 'w collect_state" where
  "call_rsync E c st =
     (case ce_rsync E c (cs_files st, cs_world st) of
        (res, f, w) \<Rightarrow> (res, st\<lparr>cs_trace := cs_trace st @ [c], cs_files := f, cs_world := w\<rparr>))"

definition ssh :: "'w collect_env \<Rightarrow> collect_runner \<Rightarrow> string \<Rightarrow> string \<Rightarrow> 'w collect_state \<Rightarrow>
    go_error option \<times> 'w collect_state" where
  "ssh E r host remote st =
     (let args = collect_ssh_base r @ [rn_user r @ ''@'' @ host, remote] in
      if rn_dry r then (None, print_line (''[dry-run] ssh '' @ join_with '' '' args) st)
      else (case call_ssh E (Cmd ''ssh'' args []) st of
          ((out, None), st1) \<Rightarrow> (None, st1)
        | ((out, Some e), st1) \<Rightarrow> (Some (Errorf ''ssh'' [trim_space out] [e]), st1)))"

definition ssh_script :: "'w collect_env \<Rightarrow> collect_runner \<Rightarrow> string \<Rightarrow> string \<Rightarrow> 'w collect_state \<Rightarrow>
    (go_error + string) \<times> 'w collect_state" where
  "ssh_script E r host script st =
     (let args = collect_ssh_base r @ [rn_user r @ ''@'' @ host, ''sh -s''] in
      if rn_dry r then
        (Inr [], print_line (''[dry-run] ssh '' @ join_with '' '' args @ '' <<'' @ sq ''EOF'' @ nl @ script @ ''EOF'') st)
      else (case call_ssh E (Cmd ''ssh'' args script) st of
          ((out, None), st1) \<Rightarrow> (Inr out, st1)
        | ((out, Some e), st1) \<Rightarrow> (Inl (Errorf ''ssh'' [] [e]), st1)))"

definition collect_rsync_args :: "collect_runner \<Rightarrow> string list" where
  "collect_rsync_args r =
     [''-az'', ''--rsync-path=sudo rsync'', ''-e'', ''ssh '' @ join_with '' '' (collect_ssh_base r)]"

definition run_rsync :: "'w collect_env \<Rightarrow> cmd \<Rightarrow> 'w collect_state \<Rightarrow> go_error option \<times> 'w collect_state" where
  "run_rsync E c st =
     (case call_rsync E c st of
        ((out, None), st1) \<Rightarrow> (None, st1)
      | ((out, Some e), st1) \<Rightarrow> (Some (Errorf ''rsync'' [trim_space out] [e]), st1))"

definition rsync :: "'w collect_env \<Rightarrow> collect_runner \<Rightarrow> string list \<Rightarrow> 'w collect_state \<Rightarrow>
    go_error option \<times> 'w collect_state" where
  "rsync E r args st =
     (if rn_dry r then (None, print_line (''[dry-run] rsync '' @ join_with '' '' args) st)
      else run_rsync E (Cmd ''rsync'' args []) st)"

definition rsync_to :: "'w collect_env \<Rightarrow> collect_runner \<Rightarrow> string \<Rightarrow> string \<Rightarrow> string \<Rightarrow> 'w collect_state \<Rightarrow>
    go_error option \<times> 'w collect_state" where
  "rsync_to E r local host remote =
     rsync E r (collect_rsync_args r @ [local, rn_user r @ ''@'' @ host @ '':'' @ remote])"

definition rsync_from :: "'w collect_env \<Rightarrow> collect_runner \<Rightarrow> string \<Rightarrow> string \<Rightarrow> string \<Rightarrow> 'w collect_state \<Rightarrow>
    go_error option \<times> 'w collect_state" where
  "rsync_from E r host remote local st =
     (case (if rn_dry r then None else ce_mkdir E (path_dir local)) of
        Some e \<Rightarrow> (Some e, st)
      | None \<Rightarrow> rsync E r (collect_rsync_args r @ [rn_user r @ ''@'' @ host @ '':'' @ remote, local]) st)"

definition rsync_files_from :: "'w collect_env \<Rightarrow> collect_runner \<Rightarrow> string \<Rightarrow> string \<Rightarrow> string list \<Rightarrow> string \<Rightarrow>
    'w collect_state \<Rightarrow> go_error option \<times> 'w collect_state" where
  "rsync_files_from E r host remote_dir names local_dir st =
     (let args = collect_rsync_args r @
            [''--files-from=-'', rn_user r @ ''@'' @ host @ '':'' @ trim_suffix remote_dir ''/'' @ ''/'',
             trim_suffix local_dir ''/'' @ ''/'']
      in if rn_dry r
         then (None, print_line (''[dry-run] rsync '' @ join_with '' '' args @ '' (files: '' @ join_with '','' names @ '')'') st)
         else run_rsync E (Cmd ''rsync'' args (join_with nl names @ nl)) st)"

section \<open>Fetching several files\<close>

definition rename_file :: "string \<Rightarrow> string \<Rightarrow> files \<Rightarrow> files" where
  "rename_file src dst f = (f(src := None))(dst := f src)"

definition remove_all :: "string \<Rightarrow> files \<Rightarrow> files" where
  "remove_all dir f = (\<lambda>p. if p = dir \<or> has_prefix p (dir @ ''/'') then None else f p)"

text \<open>One name: saved (with its local path) or failed.\<close>

definition move_file :: "'w collect_env \<Rightarrow> string \<Rightarrow> (string, string) gomap \<Rightarrow> string \<Rightarrow>
    (string list \<times> string list) \<times> files \<Rightarrow> (string list \<times> string list) \<times> files" where
  "move_file E staging fs name sff =
     (case sff of ((saved, failed), f) \<Rightarrow>
        (let staged = path_join [staging, name]; local = lookup_or [] fs name in
         if f staged = None then ((saved, failed @ [name]), f)
         else if ce_mkdir E (path_dir local) \<noteq> None then ((saved, failed @ [name]), f)
         else if ce_rename E staged local \<noteq> None then ((saved, failed @ [name]), f)
         else ((saved @ [local], failed), rename_file staged local f)))"

definition rsync_from_many :: "'w collect_env \<Rightarrow> collect_runner \<Rightarrow> string \<Rightarrow> string \<Rightarrow> (string, string) gomap \<Rightarrow>
    'w collect_state \<Rightarrow> ((string list \<times> string list) \<times> go_error option) \<times> 'w collect_state" where
  "rsync_from_many E r host remote_dir fs st =
     (let names = sort (keys fs) in
      if rn_dry r then
        (case rsync_files_from E r host remote_dir names ''<staging-dir>'' st of
           (Some e, st1) \<Rightarrow> ((([], names), Some e), st1)
         | (None, st1) \<Rightarrow> (((map (lookup_or [] fs) names, []), None), st1))
      else
        (case ce_mkdir E (rn_dir r) of
           Some e \<Rightarrow> ((([], names), Some e), st)
         | None \<Rightarrow>
        (case ce_mktemp E (rn_dir r) (cs_files st) of
           Inl e \<Rightarrow> ((([], names), Some e), st)
         | Inr staging \<Rightarrow>
             (case rsync_files_from E r host remote_dir names staging st of (err, st1) \<Rightarrow>
             (case fold (move_file E staging fs) names (([], []), cs_files st1) of (sf, f) \<Rightarrow>
                ((sf, err), st1\<lparr>cs_files := remove_all staging f\<rparr>))))))"

section \<open>The remote scripts\<close>

abbreviation dq :: "string \<Rightarrow> string" where
  "dq s \<equiv> CHR 0x22 # s @ [CHR 0x22]"

definition start_script :: "string \<Rightarrow> string \<Rightarrow> string" where
  "start_script dir launch = script_lines
       [''set -e'',
        ''dir='' @ shq dir,
        ''if [ -f '' @ dq ''$dir/collector.pid'' @ '' ]; then'',
        ''  pid=$(sudo cat '' @ dq ''$dir/collector.pid'' @ '' 2>/dev/null || true)'',
        ''  case '' @ dq ''$pid'' @ '' in'',
        ''    '' @ sq [] @ ''|*[!0-9]*) ;;'',
        ''    *) if sudo kill -0 '' @ dq ''$pid'' @ '' 2>/dev/null; then'',
        ''         echo '' @ dq ''collector is already running (pid $pid)'' @ '' >&2'',
        ''         exit 1'',
        ''       fi ;;'',
        ''  esac'',
        ''fi'',
        ''sudo -n sh -c '' @ shq launch,
        ''sudo cat '' @ dq ''$dir/collector.pid'']"

definition terminate_script :: "string \<Rightarrow> string" where
  "terminate_script dir = script_lines
       [''dir='' @ shq dir,
        ''pid=$(sudo cat '' @ dq ''$dir/collector.pid'' @ '' 2>/dev/null || true)'',
        ''case '' @ dq ''$pid'' @ '' in'',
        ''  '' @ sq [] @ ''|*[!0-9]*) echo gone; exit 0 ;;'',
        ''esac'',
        ''sudo kill -TERM '' @ dq ''$pid'' @ '' >/dev/null 2>&1 || true'',
        ''for _ in 1 2 3 4 5; do'',
        ''  sudo kill -0 '' @ dq ''$pid'' @ '' >/dev/null 2>&1 || { echo stopped; exit 0; }'',
        ''  sleep 0.2'',
        ''done'',
        ''echo '' @ dq ''running $pid'']"

definition check_clean_script :: "string list \<Rightarrow> string" where
  "check_clean_script roots = script_lines
       [''found=0'',
        ''for root in '' @ join_with '' '' roots @ ''; do'',
        ''  for cmdline in /proc/[0-9]*/cmdline; do'',
        ''    [ -r '' @ dq ''$cmdline'' @ '' ] || continue'',
        ''    if tr '' @ sq ([CHR 0x5C] @ ''0'') @ '' '' @ sq '' '' @ '' < '' @ dq ''$cmdline'' @ '' | grep -qF '' @ dq ''$root/'' @ ''; then'',
        ''      pid=${cmdline#/proc/}'',
        ''      pid=${pid%/*}'',
        ''      echo '' @ dq ''running collector residue: pid=$pid root=$root'' @ '' >&2'',
        ''      found=1'',
        ''    fi'',
        ''  done'',
        ''  [ -d '' @ dq ''$root'' @ '' ] || continue'',
        ''  for d in '' @ dq ''$root'' @ ''/*/; do'',
        ''    [ -d '' @ dq ''$d'' @ '' ] || continue'',
        ''    echo '' @ dq ''collector work directory residue: $d'' @ '' >&2'',
        ''    found=1'',
        ''  done'',
        ''done'',
        ''if [ '' @ dq ''$found'' @ '' -ne 0 ]; then'',
        ''  echo '' @ dq (''collector residue detected; run '' @ [CHR 0x27] @ ''task abort-run'' @ [CHR 0x27] @ '' before starting a benchmark'') @ '' >&2'',
        ''  exit 1'',
        ''fi'']"

definition sweep_script :: "string list \<Rightarrow> string" where
  "sweep_script roots = script_lines
       [''terminate_collector() {'',
        ''  pid=$1'',
        ''  sudo kill -0 '' @ dq ''$pid'' @ '' 2>/dev/null || return 1'',
        ''  pgid=$(ps -o pgid= -p '' @ dq ''$pid'' @ '' 2>/dev/null | tr -d '' @ sq '' '' @ '')'',
        ''  case '' @ dq ''$pgid'' @ '' in'',
        ''    '' @ sq [] @ ''|*[!0-9]*) pgid= ;;'',
        ''  esac'',
        ''  shell_pgid=$(ps -o pgid= -p $$ 2>/dev/null | tr -d '' @ sq '' '' @ '')'',
        ''  if [ -n '' @ dq ''$pgid'' @ '' ] && [ '' @ dq ''$pgid'' @ '' != '' @ dq ''$shell_pgid'' @ '' ]; then'',
        ''    sudo kill -TERM -- '' @ dq ''-$pgid'' @ '' 2>/dev/null || true'',
        ''  else'',
        ''    sudo kill -TERM '' @ dq ''$pid'' @ '' 2>/dev/null || true'',
        ''  fi'',
        ''  for _ in 1 2 3 4 5; do'',
        ''    sudo kill -0 '' @ dq ''$pid'' @ '' 2>/dev/null || break'',
        ''    sleep 0.2'',
        ''  done'',
        ''  if sudo kill -0 '' @ dq ''$pid'' @ '' 2>/dev/null; then'',
        ''    if [ -n '' @ dq ''$pgid'' @ '' ] && [ '' @ dq ''$pgid'' @ '' != '' @ dq ''$shell_pgid'' @ '' ]; then'',
        ''      sudo kill -KILL -- '' @ dq ''-$pgid'' @ '' 2>/dev/null || true'',
        ''    else'',
        ''      sudo kill -KILL '' @ dq ''$pid'' @ '' 2>/dev/null || true'',
        ''    fi'',
        ''  fi'',
        ''}'',
        [],
        ''for root in '' @ join_with '' '' roots @ ''; do'',
        ''  killed=0'',
        ''  # A collector can outlive a removed work directory. Find it by the root in'',
        ''  # its command line before walking the remaining directories.'',
        ''  for cmdline in /proc/[0-9]*/cmdline; do'',
        ''    [ -r '' @ dq ''$cmdline'' @ '' ] || continue'',
        ''    if tr '' @ sq ([CHR 0x5C] @ ''0'') @ '' '' @ sq '' '' @ '' < '' @ dq ''$cmdline'' @ '' | grep -qF '' @ dq ''$root/'' @ ''; then'',
        ''      pid=${cmdline#/proc/}'',
        ''      pid=${pid%/*}'',
        ''      if terminate_collector '' @ dq ''$pid'' @ ''; then'',
        ''        killed=$((killed + 1))'',
        ''        echo '' @ dq ''killed $pid (cmdline under $root)'',
        ''      fi'',
        ''    fi'',
        ''  done'',
        ''  [ -d '' @ dq ''$root'' @ '' ] || {'',
        ''    [ '' @ dq ''$killed'' @ '' -eq 0 ] || echo '' @ dq (''$root '' @ [CHR 0xE3, CHR 0x81, CHR 0xAE, CHR 0xE6, CHR 0xAE, CHR 0x8B, CHR 0xE7, CHR 0x95, CHR 0x99, CHR 0xE3, CHR 0x83, CHR 0x97, CHR 0xE3, CHR 0x83, CHR 0xAD, CHR 0xE3, CHR 0x82, CHR 0xBB, CHR 0xE3, CHR 0x82, CHR 0xB9, CHR 0xE3, CHR 0x82, CHR 0x92, CHR 0xE6, CHR 0x8E, CHR 0x83, CHR 0xE9, CHR 0x99, CHR 0xA4] @ '' (kill ${killed}'' @ [CHR 0xE4, CHR 0xBB, CHR 0xB6] @ '')''),
        ''    continue'',
        ''  }'',
        ''  for d in '' @ dq ''$root'' @ ''/*/; do'',
        ''    [ -d '' @ dq ''$d'' @ '' ] || continue'',
        ''    pid=$(sudo cat '' @ dq ''$d/collector.pid'' @ '' 2>/dev/null || true)'',
        ''    case '' @ dq ''$pid'' @ '' in'',
        ''      '' @ sq [] @ ''|*[!0-9]*) continue ;;'',
        ''    esac'',
        ''    [ -r '' @ dq ''/proc/$pid/cmdline'' @ '' ] || continue'',
        ''    if tr '' @ sq ([CHR 0x5C] @ ''0'') @ '' '' @ sq '' '' @ '' < '' @ dq ''/proc/$pid/cmdline'' @ '' | grep -qF '' @ dq ''$d'' @ ''; then'',
        ''      if terminate_collector '' @ dq ''$pid'' @ ''; then'',
        ''        killed=$((killed + 1))'',
        ''        echo '' @ dq ''killed $pid ($d)'',
        ''      fi'',
        ''    fi'',
        ''  done'',
        ''  freed=$(sudo du -sh '' @ dq ''$root'' @ '' 2>/dev/null | cut -f1)'',
        ''  sudo rm -rf '' @ dq ''$root'',
        ''  echo '' @ dq (''$root '' @ [CHR 0xE3, CHR 0x82, CHR 0x92, CHR 0xE6, CHR 0x8E, CHR 0x83, CHR 0xE9, CHR 0x99, CHR 0xA4] @ '' (kill ${killed}'' @ [CHR 0xE4, CHR 0xBB, CHR 0xB6] @ '', ${freed:-0} '' @ [CHR 0xE8, CHR 0xA7, CHR 0xA3, CHR 0xE6, CHR 0x94, CHR 0xBE] @ '')''),
        ''done'']"

section \<open>Names\<close>

text \<open>A \<open>map[string]bool\<close> built from names is the list of them; a nil map is \<open>None\<close>.\<close>

definition parse_names :: "string \<Rightarrow> string list option" where
  "parse_names value =
     (if trim_space value = [] then None
      else (let names = filter (\<lambda>n. n \<noteq> []) (map trim_space (split_char (CHR '','') value))
            in if names = [] then None else Some (remdups names)))"

definition names_of :: "string list option \<Rightarrow> string list" where
  "names_of m = (case m of None \<Rightarrow> [] | Some ns \<Rightarrow> ns)"

definition wanted :: "string list option \<Rightarrow> string \<Rightarrow> bool" where
  "wanted only name = (only = None \<or> name \<in> set (names_of only))"

definition validate_only_names :: "string \<Rightarrow> string list \<Rightarrow> string list \<Rightarrow> go_error option" where
  "validate_only_names kind want known =
     (case find (\<lambda>n. n \<notin> set known) want of
        Some n \<Rightarrow> Some (Errorf ''-only matches nothing'' [kind, n] []) | None \<Rightarrow> None)"

definition prepare_names :: "prepare_step list \<Rightarrow> string list" where
  "prepare_names all = map pr_name all"

definition oneshot_names :: "oneshot list \<Rightarrow> string list" where
  "oneshot_names all = map os_name all"

definition filter_collectors :: "collector list \<Rightarrow> string list \<Rightarrow> go_error + collector list" where
  "filter_collectors all want =
     (case validate_only_names ''collector'' want (map cr_name all) of
        Some e \<Rightarrow> Inl e | None \<Rightarrow> Inr (filter (\<lambda>c. cr_name c \<in> set want) all))"

definition enabled_collectors :: "collector list \<Rightarrow> string list option \<Rightarrow> go_error + collector list" where
  "enabled_collectors all include =
     (case find (\<lambda>n. n \<notin> set (map cr_name all)) (names_of include) of
        Some n \<Rightarrow> Inl (Errorf ''-include matches no collector'' [n] [])
      | None \<Rightarrow> Inr (filter (\<lambda>c. collector_enabled c \<or> cr_name c \<in> set (names_of include)) all))"

definition enabled_oneshots :: "oneshot list \<Rightarrow> string list option \<Rightarrow> go_error + oneshot list" where
  "enabled_oneshots all include =
     (case find (\<lambda>n. n \<notin> set (oneshot_names all)) (names_of include) of
        Some n \<Rightarrow> Inl (Errorf ''-include matches no oneshot'' [n] [])
      | None \<Rightarrow> Inr (filter (\<lambda>x. oneshot_enabled x \<or> os_name x \<in> set (names_of include)) all))"

definition enabled_in_group :: "oneshot list \<Rightarrow> string \<Rightarrow> go_error + oneshot list" where
  "enabled_in_group all g =
     (if \<forall>x \<in> set all. os_group x \<noteq> g then Inl (Errorf ''unknown oneshot group'' [g] [])
      else Inr (filter (\<lambda>x. os_group x = g \<and> oneshot_enabled x) all))"

section \<open>Jobs over roles\<close>

text \<open>Every item on every host of its role; an unknown role fails before anything runs.\<close>

definition role_jobs :: "collect_runner \<Rightarrow> string \<Rightarrow> ('a \<Rightarrow> string) \<Rightarrow> ('a \<Rightarrow> string) \<Rightarrow> 'a list \<Rightarrow> go_error + ('a \<times> string) list" where
  "role_jobs r kind name role items =
     (case map_res (\<lambda>x. case map_of (rn_roles r) (role x) of
           None \<Rightarrow> Inl (NoRole kind (name x) (role x))
         | Some hosts \<Rightarrow> Inr (map (Pair x) hosts)) items of
        Inl e \<Rightarrow> Inl e | Inr jss \<Rightarrow> Inr (concat jss))"

definition targets :: "collect_runner \<Rightarrow> go_error + (collector \<times> string) list" where
  "targets r = role_jobs r ''collector'' cr_name cr_hosts (cc_collectors (rn_cfg r))"

definition each :: "'w collect_env \<Rightarrow> collect_runner \<Rightarrow>
    (collector \<Rightarrow> string \<Rightarrow> 'w collect_state \<Rightarrow> go_error option \<times> 'w collect_state) \<Rightarrow>
    'w collect_state \<Rightarrow> go_error option \<times> 'w collect_state" where
  "each E r fn st =
     (case targets r of
        Inl e \<Rightarrow> (Some e, st)
      | Inr ts \<Rightarrow>
          sched_parallel (ce_sched E)
            (\<lambda>(c, host) s. case fn c host s of
               (None, s') \<Rightarrow> (None, s') | (Some e, s') \<Rightarrow> (Some (InHost host (cr_label c) e), s')) ts st)"

section \<open>Prepare\<close>

definition prepare_job :: "'w collect_env \<Rightarrow> collect_runner \<Rightarrow> prepare_step \<times> string \<Rightarrow> 'w collect_state \<Rightarrow>
    go_error option \<times> 'w collect_state" where
  "prepare_job E r ph st =
     (case ph of (p, host) \<Rightarrow>
        (case ssh_script E r host (pr_script p) st of
           (Inl e, st1) \<Rightarrow> (Some (InHost host (pr_name p) e), st1)
         | (Inr out, st1) \<Rightarrow> (None, print_lines host out st1)))"

definition prepare_all :: "'w collect_env \<Rightarrow> collect_runner \<Rightarrow> 'w collect_state \<Rightarrow> go_error option \<times> 'w collect_state" where
  "prepare_all E r st =
     (case role_jobs r ''prepare'' pr_name pr_hosts (filter (\<lambda>p. wanted (rn_only r) (pr_name p)) (cc_prepare (rn_cfg r))) of
        Inl e \<Rightarrow> (Some e, st)
      | Inr jobs \<Rightarrow> sched_parallel (ce_sched E) (prepare_job E r) jobs st)"

section \<open>Oneshots\<close>

definition oneshot_exec :: "'w collect_env \<Rightarrow> collect_runner \<Rightarrow> oneshot \<Rightarrow> string \<Rightarrow> 'w collect_state \<Rightarrow>
    go_error option \<times> 'w collect_state" where
  "oneshot_exec E r x host st =
     (let exp0 = \<lparr>ex_dir = [], ex_out = os_remote_out x, ex_host = host, ex_run = rn_id r, ex_vars = rn_vars r\<rparr>;
          e = exp0\<lparr>ex_out := expand_ph exp0 (os_remote_out x)\<rparr>;
          d = expand_ph e (os_delay x)
      in case (if d = [] then Inr st
               else (case ce_duration E d of
                   Inl x \<Rightarrow> Inl (Errorf ''cannot parse delay'' [] [x])
                 | Inr delay \<Rightarrow> Inr (if rn_dry r then print_line (''[dry-run] sleep '' @ delay) st else st))) of
        Inl x \<Rightarrow> (Some x, st)
      | Inr st1 \<Rightarrow>
          (let run = expand_ph e (os_run x) in
           if unresolved run \<noteq> [] then (Some (Errorf ''unresolved placeholders in the command'' (unresolved run) []), st1)
           else
          (case ssh E r host run st1 of
             (Some x, st2) \<Rightarrow> (Some x, st2)
           | (None, st2) \<Rightarrow>
               (let local = path_join [rn_dir r, expand_ph e (os_output x)] in
                case rsync_from E r host (ex_out e) local st2 of
                  (Some x, st3) \<Rightarrow> (Some x, st3)
                | (None, st3) \<Rightarrow>
                    (None, if rn_dry r then st3 else print_line (bracket host @ local @ '' fetched'') st3)))))"

definition oneshot_all :: "'w collect_env \<Rightarrow> collect_runner \<Rightarrow> 'w collect_state \<Rightarrow> go_error option \<times> 'w collect_state" where
  "oneshot_all E r st =
     (case role_jobs r ''oneshot'' os_name os_hosts (filter (\<lambda>x. wanted (rn_only r) (os_name x)) (cc_oneshots (rn_cfg r))) of
        Inl e \<Rightarrow> (Some e, st)
      | Inr jobs \<Rightarrow>
          sched_parallel (ce_sched E)
            (\<lambda>(x, host) s. case oneshot_exec E r x host s of
               (None, s') \<Rightarrow> (None, s') | (Some e, s') \<Rightarrow> (Some (InHost host (os_name x) e), s')) jobs st)"

definition control_command :: "string \<Rightarrow> oneshot \<Rightarrow> string" where
  "control_command action x = (if action = ''stop'' then os_stop x else os_ready x)"

definition control_jobs :: "collect_runner \<Rightarrow> string \<Rightarrow> oneshot \<Rightarrow> go_error + (string \<times> string \<times> string) list" where
  "control_jobs r action x =
     (if \<not> wanted (rn_only r) (os_name x) \<or> control_command action x = [] then Inr []
      else if lookup_or [] (rn_roles r) (os_hosts x) = [] then Inl (Errorf ''oneshot has no hosts'' [os_name x] [])
      else map_res (\<lambda>host.
          let e = \<lparr>ex_dir = [], ex_out = [], ex_host = host, ex_run = rn_id r, ex_vars = rn_vars r\<rparr>;
              script = expand_ph e (control_command action x)
          in if unresolved script \<noteq> [] then Inl (Errorf ''unresolved placeholders'' (action # unresolved script) [])
             else Inr (script, host, os_name x)) (lookup_or [] (rn_roles r) (os_hosts x)))"

definition oneshot_control_all :: "'w collect_env \<Rightarrow> collect_runner \<Rightarrow> string \<Rightarrow> 'w collect_state \<Rightarrow>
    go_error option \<times> 'w collect_state" where
  "oneshot_control_all E r action st =
     (case map_res (control_jobs r action) (cc_oneshots (rn_cfg r)) of
        Inl e \<Rightarrow> (Some e, st)
      | Inr jss \<Rightarrow>
          sched_parallel (ce_sched E)
            (\<lambda>(script, host, name) s. case ssh E r host script s of
               (None, s') \<Rightarrow> (None, s')
             | (Some e, s') \<Rightarrow> (Some (InHost host (name @ '' '' @ action) e), s')) (concat jss) st)"

definition ready_all :: "'w collect_env \<Rightarrow> collect_runner \<Rightarrow> 'w collect_state \<Rightarrow> go_error option \<times> 'w collect_state" where
  "ready_all E r = oneshot_control_all E r ''ready''"

section \<open>Starting and stopping a collector\<close>

definition collector_dir :: "collect_runner \<Rightarrow> collector \<Rightarrow> string" where
  "collector_dir r c = path_join [cr_root c, rn_id r]"

definition collector_expansion :: "collect_runner \<Rightarrow> collector \<Rightarrow> string \<Rightarrow> expansion" where
  "collector_expansion r c host =
     \<lparr>ex_dir = collector_dir r c, ex_out = [], ex_host = host, ex_run = rn_id r, ex_vars = rn_vars r\<rparr>"

definition launch_line :: "string \<Rightarrow> string \<Rightarrow> string \<Rightarrow> string \<Rightarrow> string" where
  "launch_line dir binary args stdout =
     ''nohup '' @ binary @ '' '' @ args @ '' >'' @ stdout @ '' 2>'' @ path_join [dir, ''collector.stderr''] @
     '' </dev/null & echo $! >'' @ path_join [dir, ''collector.pid'']"

definition start_collector :: "'w collect_env \<Rightarrow> collect_runner \<Rightarrow> collector \<Rightarrow> string \<Rightarrow> 'w collect_state \<Rightarrow>
    go_error option \<times> 'w collect_state" where
  "start_collector E r c host st =
     (let dir = collector_dir r c;
          e = collector_expansion r c host;
          args = expand_ph e (cr_args c);
          stdout = (if expand_ph e (cr_stdout c) = [] then ''/dev/null'' else expand_ph e (cr_stdout c));
          binary = path_join [dir, path_base (cr_binary c)]
      in if unresolved args \<noteq> [] then (Some (Errorf ''unresolved placeholders in the arguments'' (unresolved args) []), st)
         else
        (case ssh E r host (''sudo mkdir -p '' @ shq dir) st of
           (Some x, st1) \<Rightarrow> (Some x, st1)
         | (None, st1) \<Rightarrow>
        (case rsync_to E r (cr_binary c) host binary st1 of
           (Some x, st2) \<Rightarrow> (Some (Errorf ''cannot deliver the binary'' [] [x]), st2)
         | (None, st2) \<Rightarrow>
        (case ssh_script E r host (start_script dir (launch_line dir binary args stdout)) st2 of
           (Inl x, st3) \<Rightarrow> (Some x, st3)
         | (Inr out, st3) \<Rightarrow>
             (None, if rn_dry r then st3
               else print_line (bracket host @ cr_label c @ '' collector '' @ trim_space out @ '' started'') st3)))))"

definition all_exist :: "files \<Rightarrow> (string, string) gomap \<Rightarrow> bool" where
  "all_exist f paths = (paths \<noteq> [] \<and> list_all (\<lambda>(_, p). f p \<noteq> None) paths)"

definition terminate_collector :: "'w collect_env \<Rightarrow> collect_runner \<Rightarrow> string \<Rightarrow> string \<Rightarrow> 'w collect_state \<Rightarrow>
    bool \<times> 'w collect_state" where
  "terminate_collector E r host dir st =
     (case ssh_script E r host (terminate_script dir) st of
        (Inl _, st1) \<Rightarrow> (False, st1)
      | (Inr out, st1) \<Rightarrow> (\<not> has_prefix (trim_space out) ''running'', st1))"

definition output_locals :: "collect_runner \<Rightarrow> collector \<Rightarrow> string \<Rightarrow> (string, string) gomap" where
  "output_locals r c host =
     map (\<lambda>(remote, local). (remote, path_join [rn_dir r, expand_ph (collector_expansion r c host) local])) (cr_outputs c)"

definition stderr_local :: "collect_runner \<Rightarrow> collector \<Rightarrow> string \<Rightarrow> string" where
  "stderr_local r c host = path_join [rn_dir r, expand_ph (collector_expansion r c host) (cr_stderr c)]"

definition stop_collector :: "'w collect_env \<Rightarrow> collect_runner \<Rightarrow> collector \<Rightarrow> string \<Rightarrow> 'w collect_state \<Rightarrow>
    go_error option \<times> 'w collect_state" where
  "stop_collector E r c host st =
     (let dir = collector_dir r c; locals = output_locals r c host in
      if all_exist (cs_files st) locals then (None, print_line (bracket host @ cr_label c @ '' already saved'') st)
      else
     (case terminate_collector E r host dir st of (stopped, st1) \<Rightarrow>
     (case rsync_from_many E r host dir (AList.update ''collector.stderr'' (stderr_local r c host) locals) st1 of
        (((saved, failed), fetch), st2) \<Rightarrow>
          if \<not> stopped \<or> failed \<noteq> [] \<or> fetch \<noteq> None
          then (Some (Errorf ''collection failed'' failed (case fetch of None \<Rightarrow> [] | Some x \<Rightarrow> [x])), st2)
          else
            (case ssh E r host (''sudo rm -rf '' @ shq dir @ '' 2>/dev/null || true'') st2 of (_, st3) \<Rightarrow>
               (None, if rn_dry r then st3
                 else print_line (bracket host @ cr_label c @ '': '' @ join_with '' '' saved @ '' saved'') st3)))))"

section \<open>All hosts\<close>

definition collector_roots :: "collect_runner \<Rightarrow> string list" where
  "collector_roots r = sort (remdups (map cr_root (cc_collectors (rn_cfg r))))"

definition all_hosts :: "collect_runner \<Rightarrow> go_error + string list" where
  "all_hosts r =
     (let hosts = filter (\<lambda>h. h \<noteq> []) (lookup_or [] (rn_roles r) ''all'') in
      if hosts = [] then Inl (Errorf ''role all is empty'' [] []) else Inr (sort (remdups hosts)))"

definition host_job :: "'w collect_env \<Rightarrow> collect_runner \<Rightarrow> string \<Rightarrow> string \<Rightarrow> string \<Rightarrow> 'w collect_state \<Rightarrow>
    go_error option \<times> 'w collect_state" where
  "host_job E r label script host st =
     (case ssh_script E r host script st of
        (Inl e, st1) \<Rightarrow> (Some (InHost host label e), st1)
      | (Inr out, st1) \<Rightarrow> (None, print_lines host out st1))"

definition run_on_all_hosts :: "'w collect_env \<Rightarrow> collect_runner \<Rightarrow> string \<Rightarrow> string \<Rightarrow> 'w collect_state \<Rightarrow>
    go_error option \<times> 'w collect_state" where
  "run_on_all_hosts E r label script st =
     (case all_hosts r of
        Inl e \<Rightarrow> (Some e, st)
      | Inr hosts \<Rightarrow> sched_parallel (ce_sched E) (host_job E r label script) hosts st)"

definition check_clean_all :: "'w collect_env \<Rightarrow> collect_runner \<Rightarrow> 'w collect_state \<Rightarrow> go_error option \<times> 'w collect_state" where
  "check_clean_all E r =
     run_on_all_hosts E r ''collector clean check'' (check_clean_script (map shq (collector_roots r)))"

definition sweep_all :: "'w collect_env \<Rightarrow> collect_runner \<Rightarrow> 'w collect_state \<Rightarrow> go_error option \<times> 'w collect_state" where
  "sweep_all E r = run_on_all_hosts E r ''collector sweep'' (sweep_script (map shq (collector_roots r)))"

section \<open>The command\<close>

record collect_flags =
  cf_run_id :: string
  cf_run_dir :: string
  cf_user :: string
  cf_opts :: string
  cf_only :: string
  cf_group :: string
  cf_include :: string
  cf_no_collectors :: bool
  cf_dry :: bool
  cf_roles :: "(string, string list) gomap"
  cf_vars :: "(string, string) gomap"

definition oneshot_action :: "string \<Rightarrow> bool" where
  "oneshot_action a = (a \<in> set [''oneshot'', ''ready'', ''oneshot-stop''])"

definition select_group :: "string \<Rightarrow> collect_flags \<Rightarrow> collect_config \<Rightarrow> go_error + collect_config" where
  "select_group action f cfg =
     (if cf_group f = [] then Inr cfg
      else if \<not> oneshot_action action \<or> parse_names (cf_only f) \<noteq> None \<or> parse_names (cf_include f) \<noteq> None \<or> cf_no_collectors f
      then Inl (Errorf ''-group cannot be combined'' [action] [])
      else (case enabled_in_group (cc_oneshots cfg) (cf_group f) of
          Inl e \<Rightarrow> Inl e | Inr xs \<Rightarrow> Inr (cfg\<lparr>cc_oneshots := xs\<rparr>)))"

definition select_only :: "string \<Rightarrow> string list \<Rightarrow> collect_config \<Rightarrow> go_error + collect_config" where
  "select_only action want cfg =
     (let unchanged = (\<lambda>v. case v of None \<Rightarrow> Inr cfg | Some e \<Rightarrow> Inl e) in
      if action \<in> set [''start'', ''stop''] then
        (case filter_collectors (cc_collectors cfg) want of
           Inl e \<Rightarrow> Inl e | Inr cs \<Rightarrow> Inr (cfg\<lparr>cc_collectors := cs\<rparr>))
      else if action = ''prepare'' then unchanged (validate_only_names ''prepare'' want (prepare_names (cc_prepare cfg)))
      else if oneshot_action action
      then unchanged (validate_only_names ''oneshot'' want (oneshot_names (cc_oneshots cfg)))
      else Inr cfg)"

definition select_enabled :: "string \<Rightarrow> string list option \<Rightarrow> collect_config \<Rightarrow> go_error + collect_config" where
  "select_enabled action include cfg =
     (if oneshot_action action then
        (case enabled_oneshots (cc_oneshots cfg) include of
           Inl e \<Rightarrow> Inl e | Inr xs \<Rightarrow> Inr (cfg\<lparr>cc_oneshots := xs\<rparr>))
      else
        (case enabled_collectors (cc_collectors cfg) include of
           Inl e \<Rightarrow> Inl e | Inr cs \<Rightarrow> Inr (cfg\<lparr>cc_collectors := cs\<rparr>)))"

definition select_config :: "string \<Rightarrow> collect_flags \<Rightarrow> collect_config \<Rightarrow> go_error + collect_config" where
  "select_config action f cfg0 =
     (case select_group action f cfg0 of
        Inl e \<Rightarrow> Inl e
      | Inr cfg \<Rightarrow>
          if cf_no_collectors f \<and> (parse_names (cf_only f) \<noteq> None \<or> parse_names (cf_include f) \<noteq> None)
          then Inl (Errorf ''-no-collectors cannot be combined'' [] [])
          else if action \<in> set [''sweep'', ''check-clean''] then Inr cfg
          else if cf_no_collectors f then Inr (cfg\<lparr>cc_collectors := []\<rparr>)
          else (case parse_names (cf_only f) of
              Some want \<Rightarrow> select_only action want cfg
            | None \<Rightarrow> select_enabled action (parse_names (cf_include f)) cfg))"

definition make_runner :: "collect_flags \<Rightarrow> collect_config \<Rightarrow> collect_runner" where
  "make_runner f cfg =
     \<lparr>rn_cfg = cfg, rn_id = cf_run_id f, rn_dir = cf_run_dir f, rn_user = cf_user f, rn_opts = str_fields (cf_opts f),
      rn_roles = cf_roles f, rn_vars = cf_vars f, rn_dry = cf_dry f, rn_only = parse_names (cf_only f)\<rparr>"

definition dispatch :: "'w collect_env \<Rightarrow> string \<Rightarrow> collect_runner \<Rightarrow> 'w collect_state \<Rightarrow> go_error option \<times> 'w collect_state" where
  "dispatch E action r st =
     (let missing = (\<lambda>what. (Some (Errorf ''required flag'' [what] []), st)) in
      if action = ''prepare'' then prepare_all E r st
      else if action = ''start'' then (if rn_id r = [] then missing ''-run-id'' else each E r (start_collector E r) st)
      else if action = ''stop'' then
        (if rn_id r = [] \<or> rn_dir r = [] then missing ''-run-id -run-dir'' else each E r (stop_collector E r) st)
      else if action = ''oneshot'' then (if rn_dir r = [] then missing ''-run-dir'' else oneshot_all E r st)
      else if action = ''ready'' then (if rn_id r = [] then missing ''-run-id'' else ready_all E r st)
      else if action = ''oneshot-stop'' then
        (if rn_id r = [] then missing ''-run-id'' else oneshot_control_all E r ''stop'' st)
      else if action = ''check-clean'' then check_clean_all E r st
      else if action = ''sweep'' then sweep_all E r st
      else (Some (Errorf ''unknown action'' [action] []), st))"

text \<open>\<open>runCollect\<close>; \<open>parse\<close> stands for the flag parser, \<open>file\<close> for the declaration that \<open>-config\<close> names.\<close>

definition run_collect :: "'w collect_env \<Rightarrow> (string list \<Rightarrow> go_error + collect_flags) \<Rightarrow> collect_config decl_file \<Rightarrow>
    string list \<Rightarrow> 'w collect_state \<Rightarrow> go_error option \<times> 'w collect_state" where
  "run_collect E parse file args st =
     (case args of
        [] \<Rightarrow> (Some (Errorf ''collect needs an action'' [] []), st)
      | action # rest \<Rightarrow>
          (case parse rest of
             Inl e \<Rightarrow> (Some e, st)
           | Inr f \<Rightarrow>
          (case load_collect_config file of
             Inl e \<Rightarrow> (Some e, st)
           | Inr cfg0 \<Rightarrow>
          (case select_config action f cfg0 of
             Inl e \<Rightarrow> (Some e, st)
           | Inr cfg \<Rightarrow> dispatch E action (make_runner f cfg) st))))"

end
