(* ===== verification/MeasureCollectFacts.thy ===== *)
theory MeasureCollectFacts
  imports MeasureCollect
begin

text \<open>
  Lemmas on the operations of collect.go: what a dry run touches, the commands of a job, and how the
  files change while several files are fetched.
\<close>

section \<open>What an operation leaves unchanged\<close>

definition same_world :: "'w collect_state \<Rightarrow> 'w collect_state \<Rightarrow> bool" where
  "same_world st st' \<longleftrightarrow> cs_trace st' = cs_trace st \<and> cs_files st' = cs_files st \<and> cs_world st' = cs_world st"

lemma same_world_refl [simp]: "same_world st st"
  by (simp add: same_world_def)

lemma same_world_trans: "same_world a b \<Longrightarrow> same_world b c \<Longrightarrow> same_world a c"
  by (simp add: same_world_def)

lemma print_line_same [simp]: "same_world st (print_line l st)"
  by (simp add: same_world_def print_line_def)

lemma print_line_fields [simp]:
  "cs_trace (print_line l st) = cs_trace st" "cs_files (print_line l st) = cs_files st" "cs_world (print_line l st) = cs_world st"
  by (simp_all add: print_line_def)

lemma fold_print_fields [simp]:
  "cs_trace (fold (\<lambda>l. print_line (f l)) ls st) = cs_trace st"
  "cs_files (fold (\<lambda>l. print_line (f l)) ls st) = cs_files st"
  "cs_world (fold (\<lambda>l. print_line (f l)) ls st) = cs_world st"
  by (induction ls arbitrary: st) simp_all

lemma print_lines_fields [simp]:
  "cs_trace (print_lines h out st) = cs_trace st" "cs_files (print_lines h out st) = cs_files st"
  "cs_world (print_lines h out st) = cs_world st"
  by (simp_all add: print_lines_def)

lemma print_lines_same [simp]: "same_world st (print_lines h out st)"
  by (simp add: same_world_def)

section \<open>Dry runs\<close>

named_theorems dry "how an operation runs in a dry run"

lemma ssh_dry [dry]: "rn_dry r \<Longrightarrow> \<exists>l. ssh E r h c st = (None, print_line l st)"
  by (auto simp: ssh_def Let_def)

lemma ssh_script_dry [dry]: "rn_dry r \<Longrightarrow> \<exists>l. ssh_script E r h c st = (Inr [], print_line l st)"
  by (auto simp: ssh_script_def Let_def)

lemma rsync_dry [dry]: "rn_dry r \<Longrightarrow> \<exists>l. rsync E r args st = (None, print_line l st)"
  by (auto simp: rsync_def)

lemma rsync_to_dry [dry]: "rn_dry r \<Longrightarrow> \<exists>l. rsync_to E r a h b st = (None, print_line l st)"
  by (simp add: rsync_to_def rsync_dry)

lemma rsync_from_dry [dry]: "rn_dry r \<Longrightarrow> \<exists>l. rsync_from E r h a b st = (None, print_line l st)"
  by (simp add: rsync_from_def rsync_dry)

lemma rsync_from_many_dry [dry]: "rn_dry r \<Longrightarrow> \<exists>l s. rsync_from_many E r h d fs st = (((s, []), None), print_line l st)"
  by (auto simp: rsync_from_many_def rsync_files_from_def Let_def)

lemma prepare_job_dry: "rn_dry r \<Longrightarrow> same_world st (snd (prepare_job E r ph st))"
  using ssh_script_dry [of r E "snd ph" "pr_script (fst ph)" st]
  by (auto simp: prepare_job_def same_world_def split: prod.splits)

lemma host_job_dry: "rn_dry r \<Longrightarrow> same_world st (snd (host_job E r l s h st))"
  using ssh_script_dry [of r E h s st] by (auto simp: host_job_def same_world_def)

lemma start_collector_dry: "rn_dry r \<Longrightarrow> same_world st (snd (start_collector E r c h st))"
proof -
  assume d: "rn_dry r"
  let ?dir = "collector_dir r c" and ?e = "collector_expansion r c h"
  let ?out = "if expand_ph ?e (cr_stdout c) = [] then ''/dev/null'' else expand_ph ?e (cr_stdout c)"
  let ?bin = "path_join [?dir, path_base (cr_binary c)]"
  obtain a where a: "ssh E r h (''sudo mkdir -p '' @ shq ?dir) st = (None, print_line a st)"
    using ssh_dry [OF d] by blast
  obtain b where b: "rsync_to E r (cr_binary c) h ?bin (print_line a st) = (None, print_line b (print_line a st))"
    using rsync_to_dry [OF d] by blast
  obtain l where l: "ssh_script E r h (start_script ?dir (launch_line ?dir ?bin (expand_ph ?e (cr_args c)) ?out))
      (print_line b (print_line a st)) = (Inr [], print_line l (print_line b (print_line a st)))"
    using ssh_script_dry [OF d] by blast
  show ?thesis
  proof (cases "unresolved (expand_ph ?e (cr_args c)) = []")
    case True
    then show ?thesis unfolding start_collector_def Let_def a b l using d
      by (simp only: simp_thms if_False if_True option.case sum.case prod.case a b l)
        (simp add: same_world_def)
  next
    case False
    then show ?thesis by (simp add: start_collector_def Let_def)
  qed
qed

lemma stop_collector_dry: "rn_dry r \<Longrightarrow> same_world st (snd (stop_collector E r c h st))"
proof -
  assume d: "rn_dry r"
  let ?dir = "collector_dir r c"
  obtain a where a: "ssh_script E r h (terminate_script ?dir) st = (Inr [], print_line a st)"
    using ssh_script_dry [OF d] by blast
  then have t: "terminate_collector E r h ?dir st = (True, print_line a st)"
    by (simp add: terminate_collector_def trim_space_def trim_left_def trim_right_def)
  obtain b s where b: "rsync_from_many E r h ?dir (AList.update ''collector.stderr'' (stderr_local r c h) (output_locals r c h))
      (print_line a st) = (((s, []), None), print_line b (print_line a st))"
    using rsync_from_many_dry [OF d] by blast
  obtain l where l: "ssh E r h (''sudo rm -rf '' @ shq ?dir @ '' 2>/dev/null || true'') (print_line b (print_line a st)) =
      (None, print_line l (print_line b (print_line a st)))"
    using ssh_dry [OF d] by blast
  show ?thesis
  proof (cases "all_exist (cs_files st) (output_locals r c h)")
    case True
    then show ?thesis by (simp add: stop_collector_def Let_def)
  next
    case False
    then show ?thesis unfolding stop_collector_def Let_def t using d
      by (simp only: simp_thms if_False if_True option.case sum.case prod.case b l) (simp add: same_world_def)
  qed
qed

lemma oneshot_exec_dry: "rn_dry r \<Longrightarrow> same_world st (snd (oneshot_exec E r x h st))"
proof -
  assume d: "rn_dry r"
  have a: "same_world st t \<Longrightarrow> \<exists>l. ssh E r h y t = (None, print_line l t) \<and> same_world st (print_line l t)" for t y
    using ssh_dry [OF d, of E h y t] by (auto simp: same_world_def)
  have b: "same_world st t \<Longrightarrow> \<exists>l. rsync_from E r h m p t = (None, print_line l t) \<and> same_world st (print_line l t)" for t m p
    using rsync_from_dry [OF d, of E h m p t] by (auto simp: same_world_def)
  let ?e0 = "\<lparr>ex_dir = [], ex_out = os_remote_out x, ex_host = h, ex_run = rn_id r, ex_vars = rn_vars r\<rparr>"
  let ?e = "?e0\<lparr>ex_out := expand_ph ?e0 (os_remote_out x)\<rparr>"
  let ?tail = "\<lambda>t. case ssh E r h (expand_ph ?e (os_run x)) t of
      (Some y, t1) \<Rightarrow> (Some y, t1)
    | (None, t1) \<Rightarrow>
        (case rsync_from E r h (ex_out ?e) (path_join [rn_dir r, expand_ph ?e (os_output x)]) t1 of
           (Some y, t2) \<Rightarrow> (Some y, t2)
         | (None, t2) \<Rightarrow> (None, if rn_dry r then t2
             else print_line (bracket h @ path_join [rn_dir r, expand_ph ?e (os_output x)] @ '' fetched'') t2))"
  have tail: "same_world st (snd (?tail t))" if same: "same_world st t" for t
  proof -
    obtain l where l: "ssh E r h (expand_ph ?e (os_run x)) t = (None, print_line l t)" "same_world st (print_line l t)"
      using a [OF same] by blast
    obtain k where k: "rsync_from E r h (ex_out ?e) (path_join [rn_dir r, expand_ph ?e (os_output x)]) (print_line l t) =
        (None, print_line k (print_line l t))" "same_world st (print_line k (print_line l t))"
      using b [OF l(2)] by blast
    show ?thesis using d k(2) unfolding l(1) by (simp only: option.case prod.case k(1) if_True snd_conv)
  qed
  have pre: "same_world st (print_line l st)" for l by simp
  show ?thesis
    using tail [OF same_world_refl] tail [OF pre] d unfolding oneshot_exec_def Let_def
    by (auto split: sum.splits)
qed

lemma pool_dry:
  fixes fn :: "('j, 'w collect_state, go_error option) job_fn"
  assumes "\<And>j t. j \<in> set jobs \<Longrightarrow> same_world t (snd (fn j t))"
  shows "same_world st (snd (sched_parallel sch fn jobs st))"
  by (rule ep.run_keeps [of "same_world st"]) (auto intro: same_world_trans assms)

lemma job_dry: "same_world t (snd p) \<Longrightarrow>
    same_world t (snd (case p of (None, s') \<Rightarrow> (None, s') | (Some e, s') \<Rightarrow> (Some (f e), s')))"
  by (auto split: prod.splits option.splits)

lemma each_dry: "(\<And>c h t. same_world t (snd (fn c h t))) \<Longrightarrow> same_world st (snd (each E r fn st))"
  by (auto simp: each_def intro!: pool_dry job_dry split: sum.splits)

lemma prepare_all_dry: "rn_dry r \<Longrightarrow> same_world st (snd (prepare_all E r st))"
  by (auto simp: prepare_all_def intro!: pool_dry prepare_job_dry split: sum.splits)

lemma oneshot_all_dry: "rn_dry r \<Longrightarrow> same_world st (snd (oneshot_all E r st))"
  by (auto simp: oneshot_all_def intro!: pool_dry job_dry oneshot_exec_dry split: sum.splits)

lemma ssh_same: "rn_dry r \<Longrightarrow> same_world st (snd (ssh E r h c st))"
  using ssh_dry [of r E h c st] by auto

lemma oneshot_control_all_dry: "rn_dry r \<Longrightarrow> same_world st (snd (oneshot_control_all E r a st))"
  by (auto simp: oneshot_control_all_def intro!: pool_dry job_dry ssh_same split: sum.splits)

lemma run_on_all_hosts_dry: "rn_dry r \<Longrightarrow> same_world st (snd (run_on_all_hosts E r l s st))"
  by (auto simp: run_on_all_hosts_def intro!: pool_dry host_job_dry split: sum.splits)

lemma dispatch_dry: "rn_dry r \<Longrightarrow> same_world st (snd (dispatch E a r st))"
  unfolding dispatch_def Let_def
  by (simp add: prepare_all_dry each_dry start_collector_dry stop_collector_dry oneshot_all_dry ready_all_def
      oneshot_control_all_dry check_clean_all_def sweep_all_def run_on_all_hosts_dry)

section \<open>Commands of the operations\<close>

definition script_cmd :: "collect_runner \<Rightarrow> string \<Rightarrow> string \<Rightarrow> cmd" where
  "script_cmd r host script = Cmd ''ssh'' (collect_ssh_base r @ [rn_user r @ ''@'' @ host, ''sh -s'']) script"

definition shell_cmd :: "collect_runner \<Rightarrow> string \<Rightarrow> string \<Rightarrow> cmd" where
  "shell_cmd r host remote = Cmd ''ssh'' (collect_ssh_base r @ [rn_user r @ ''@'' @ host, remote]) []"

lemma call_ssh_fields:
  "call_ssh E c st = (v, st') \<Longrightarrow> cs_trace st' = cs_trace st @ [c] \<and> cs_files st' = cs_files st"
  by (auto simp: call_ssh_def split: prod.splits)

lemma call_rsync_fields:
  "call_rsync E c st = (v, st') \<Longrightarrow> cs_trace st' = cs_trace st @ [c] \<and>
   (\<exists>w. ce_rsync E c (cs_files st, cs_world st) = (v, cs_files st', w))"
  by (auto simp: call_rsync_def split: prod.splits)

lemma ssh_runs:
  "\<not> rn_dry r \<Longrightarrow> ssh E r host c st = (v, st') \<Longrightarrow>
   cs_trace st' = cs_trace st @ [shell_cmd r host c] \<and> cs_files st' = cs_files st"
  by (auto simp: ssh_def shell_cmd_def Let_def dest!: call_ssh_fields split: prod.splits option.splits)

lemma ssh_script_runs:
  "\<not> rn_dry r \<Longrightarrow> ssh_script E r host c st = (v, st') \<Longrightarrow>
   cs_trace st' = cs_trace st @ [script_cmd r host c] \<and> cs_files st' = cs_files st"
  by (auto simp: ssh_script_def script_cmd_def Let_def dest!: call_ssh_fields split: prod.splits option.splits)

lemma rsync_files_from_runs:
  "\<not> rn_dry r \<Longrightarrow> rsync_files_from E r host d ns l st = (v, st') \<Longrightarrow>
   \<exists>c w x. cmd_name c = ''rsync'' \<and> cs_trace st' = cs_trace st @ [c] \<and>
     ce_rsync E c (cs_files st, cs_world st) = (x, cs_files st', w)"
  by (auto simp: rsync_files_from_def run_rsync_def Let_def dest!: call_rsync_fields split: prod.splits option.splits)

lemma rsync_to_runs:
  "\<not> rn_dry r \<Longrightarrow> rsync_to E r l host m st = (v, st') \<Longrightarrow>
   cs_trace st' = cs_trace st @ [Cmd ''rsync'' (collect_rsync_args r @ [l, rn_user r @ ''@'' @ host @ '':'' @ m]) []]"
  by (auto simp: rsync_to_def rsync_def run_rsync_def dest!: call_rsync_fields split: prod.splits option.splits)

section \<open>Moving the fetched files\<close>

definition below :: "string \<Rightarrow> string \<Rightarrow> bool" where
  "below dir p = (p = dir \<or> has_prefix p (dir @ ''/''))"

lemma remove_all_other: "\<not> below d p \<Longrightarrow> remove_all d f p = f p"
  by (simp add: remove_all_def below_def)

text \<open>The staging directory is a place of its own: fetched names end up below it, saved files do not.\<close>

definition staging_apart :: "'w collect_env \<Rightarrow> collect_runner \<Rightarrow> string set \<Rightarrow> string set \<Rightarrow> bool" where
  "staging_apart E r names locals \<longleftrightarrow>
     (\<forall>f d. ce_mktemp E (rn_dir r) f = Inr d \<longrightarrow>
        (\<forall>n \<in> names. below d (path_join [d, n])) \<and> (\<forall>p \<in> locals. \<not> below d p))"

lemma move_file_keeps:
  assumes "f p \<noteq> None" and "p \<noteq> path_join [d, n]"
  shows "snd (move_file E d fs n (sf, f)) p \<noteq> None"
  using assms by (auto simp: move_file_def rename_file_def Let_def split: prod.splits)

lemma fold_move_keeps:
  assumes "f p \<noteq> None" and "\<forall>n \<in> set ns. p \<noteq> path_join [d, n]"
  shows "snd (fold (move_file E d fs) ns (sf, f)) p \<noteq> None"
  using assms
proof (induction ns arbitrary: sf f)
  case (Cons n ns)
  obtain sf1 f1 where m: "move_file E d fs n (sf, f) = (sf1, f1)" by fastforce
  have "f1 p \<noteq> None" using move_file_keeps [of f p d n E fs sf] Cons.prems m by simp
  with Cons.IH [of f1 sf1] Cons.prems m show ?case by simp
qed simp

lemma move_file_failed: "snd (fst (move_file E d fs n ((sv, fl), f))) = [] \<Longrightarrow>
    fl = [] \<and> snd (move_file E d fs n ((sv, fl), f)) (lookup_or [] fs n) \<noteq> None"
  by (auto simp: move_file_def rename_file_def Let_def split: if_splits)

lemma move_file_failed_mono: "fl \<noteq> [] \<Longrightarrow> snd (fst (move_file E d fs n ((sv, fl), f))) \<noteq> []"
  by (auto simp: move_file_def Let_def)

lemma fold_move_failed_mono: "snd sv \<noteq> [] \<Longrightarrow> snd (fst (fold (move_file E d fs) ns (sv, f))) \<noteq> []"
proof (induction ns arbitrary: sv f)
  case (Cons n ns)
  obtain sf1 f1 where m: "move_file E d fs n (sv, f) = (sf1, f1)" by fastforce
  have "snd sf1 \<noteq> []" using move_file_failed_mono [of "snd sv" E d fs n "fst sv" f] Cons.prems m by simp
  with Cons.IH m show ?case by simp
qed simp

lemma fold_move_saves:
  assumes "snd (fst (fold (move_file E d fs) ns (sf, f))) = []"
    and "\<And>n m. n \<in> set ns \<Longrightarrow> m \<in> set ns \<Longrightarrow> lookup_or [] fs n \<noteq> path_join [d, m]"
  shows "\<forall>n \<in> set ns. snd (fold (move_file E d fs) ns (sf, f)) (lookup_or [] fs n) \<noteq> None"
  using assms
proof (induction ns arbitrary: sf f)
  case (Cons n ns)
  obtain sf1 f1 where m: "move_file E d fs n (sf, f) = (sf1, f1)" by fastforce
  have e: "fold (move_file E d fs) (n # ns) (sf, f) = fold (move_file E d fs) ns (sf1, f1)" by (simp add: m)
  have "snd sf1 = []" using Cons.prems(1) fold_move_failed_mono [of sf1] unfolding e by blast
  then have "f1 (lookup_or [] fs n) \<noteq> None"
    using move_file_failed [of E d fs n "fst sf" "snd sf" f] m by simp
  then have "snd (fold (move_file E d fs) ns (sf1, f1)) (lookup_or [] fs n) \<noteq> None"
    by (rule fold_move_keeps) (use Cons.prems(2) in auto)
  moreover have "\<forall>k \<in> set ns. snd (fold (move_file E d fs) ns (sf1, f1)) (lookup_or [] fs k) \<noteq> None"
    by (rule Cons.IH) (use Cons.prems m in auto)
  ultimately show ?case unfolding e by simp
qed simp

text \<open>rsync without \<open>--delete\<close> removes no local file.\<close>

definition rsync_adds :: "'w collect_env \<Rightarrow> bool" where
  "rsync_adds E \<longleftrightarrow> (\<forall>c f w res f' w' p. ce_rsync E c (f, w) = (res, f', w') \<longrightarrow> f p \<noteq> None \<longrightarrow> f' p \<noteq> None)"

lemma rsync_from_many_cases:
  assumes "\<not> rn_dry r" and "rsync_from_many E r host dir fs st = (((saved, failed), err), st')"
  obtains (unfetched) "err \<noteq> None" "st' = st"
  | (fetched) staging st1 f where "ce_mktemp E (rn_dir r) (cs_files st) = Inr staging"
      "rsync_files_from E r host dir (sort (keys fs)) staging st = (err, st1)"
      "fold (move_file E staging fs) (sort (keys fs)) (([], []), cs_files st1) = ((saved, failed), f)"
      "st' = st1\<lparr>cs_files := remove_all staging f\<rparr>"
proof (cases "ce_mkdir E (rn_dir r)")
  case (Some e)
  with assms have "err = Some e" "st' = st" by (simp_all add: rsync_from_many_def Let_def)
  then show thesis by (intro unfetched) simp_all
next
  case None
  note mk = this
  show thesis
  proof (cases "ce_mktemp E (rn_dir r) (cs_files st)")
    case (Inl e)
    with assms mk have "err = Some e" "st' = st" by (simp_all add: rsync_from_many_def Let_def)
    then show thesis by (intro unfetched) simp_all
  next
    case (Inr staging)
    obtain err1 st1 where r: "rsync_files_from E r host dir (sort (keys fs)) staging st = (err1, st1)" by fastforce
    obtain sf f where m: "fold (move_file E staging fs) (sort (keys fs)) (([], []), cs_files st1) = (sf, f)" by fastforce
    from assms mk Inr r m have "sf = (saved, failed)" "err1 = err" "st' = st1\<lparr>cs_files := remove_all staging f\<rparr>"
      by (simp_all add: rsync_from_many_def Let_def)
    then show thesis using fetched [of staging st1 f] Inr r m by simp
  qed
qed

lemma rsync_from_many_keeps:
  assumes "\<not> rn_dry r" and "rsync_adds E" and "staging_apart E r (set (keys fs)) {p}"
    and "cs_files st p \<noteq> None"
  shows "cs_files (snd (rsync_from_many E r host dir fs st)) p \<noteq> None"
proof -
  obtain saved failed err st' where x: "rsync_from_many E r host dir fs st = (((saved, failed), err), st')"
    by (metis surj_pair)
  from assms(1) x show ?thesis
  proof (cases rule: rsync_from_many_cases)
    case (fetched staging st1 f)
    obtain c w y where "ce_rsync E c (cs_files st, cs_world st) = (y, cs_files st1, w)"
      using rsync_files_from_runs [OF assms(1) fetched(2)] by blast
    then have "cs_files st1 p \<noteq> None" using assms(2,4) unfolding rsync_adds_def by blast
    moreover have a: "\<forall>n \<in> set (keys fs). below staging (path_join [staging, n])" "\<not> below staging p"
      using assms(3) fetched(1) unfolding staging_apart_def by blast+
    then have "\<forall>n \<in> set (sort (keys fs)). p \<noteq> path_join [staging, n]" by auto
    ultimately have "f p \<noteq> None"
      using fold_move_keeps [of "cs_files st1" p "sort (keys fs)" staging E fs "([], [])"] fetched(3) by simp
    then show ?thesis using fetched(4) a(2) x by (simp add: remove_all_other)
  qed (use x assms(4) in simp)
qed

lemma rsync_from_many_saves:
  assumes "\<not> rn_dry r" and "rsync_from_many E r host dir fs st = (((saved, []), None), st')"
    and "staging_apart E r (set (keys fs)) (lookup_or [] fs ` set (keys fs))"
  shows "\<forall>n \<in> set (keys fs). cs_files st' (lookup_or [] fs n) \<noteq> None"
  using assms(1,2)
proof (cases rule: rsync_from_many_cases)
  case (fetched staging st1 f)
  have a: "below staging (path_join [staging, n])" "\<not> below staging (lookup_or [] fs n)" if "n \<in> set (keys fs)" for n
    using assms(3) fetched(1) that unfolding staging_apart_def by blast+
  have "\<forall>n \<in> set (sort (keys fs)). f (lookup_or [] fs n) \<noteq> None"
  proof -
    have "lookup_or [] fs n \<noteq> path_join [staging, m]" if "n \<in> set (sort (keys fs))" "m \<in> set (sort (keys fs))" for n m
      using a [of n] a [of m] that by auto
    then show ?thesis
      using fold_move_saves [of E staging fs "sort (keys fs)" "([], [])" "cs_files st1"] fetched(3) by simp
  qed
  then show ?thesis using fetched(4) a by (simp add: remove_all_other)
qed simp

end
