(* ===== verification/MeasureCollectProperties.thy ===== *)
theory MeasureCollectProperties
  imports MeasureCollectFacts
begin

text \<open>
  The properties of the collectors (tools/measurectl/collect.go and config.go): what a dry run does,
  that a host's work directory is removed only after its outputs are saved, the steps of a start, whom
  the check and the sweep reach, how an action selects its collectors, and the quoting for the shell.
\<close>

section \<open>A concrete environment\<close>

text \<open>One collector on one host; rsync delivers its two files into the staging directory.\<close>

definition demo_lab :: "nat collect_env" where
  "demo_lab = \<lparr>
     ce_ssh = (\<lambda>c n. ((''7'', None), n + 1)),
     ce_rsync = (\<lambda>c (f, n). ((''ok'', None), f(''/run/t/out'' \<mapsto> ''data'', ''/run/t/collector.stderr'' \<mapsto> []), n + 1)),
     ce_mkdir = (\<lambda>_. None), ce_mktemp = (\<lambda>_ _. Inr ''/run/t''), ce_rename = (\<lambda>_ _. None),
     ce_duration = Inr, ce_sched = (\<lambda>n. [0..<n])\<rparr>"

definition demo_collector :: collector where
  "demo_collector = \<lparr>cr_name = ''proc'', cr_label = ''proc'', cr_enabled = None, cr_hosts = ''app'', cr_binary = ''bin/proc'',
     cr_root = ''/tmp/proc'', cr_stdout = [], cr_args = ''-id {run_id}'', cr_outputs = [(''out'', ''{host}.tsv'')], cr_stderr = ''{host}.err''\<rparr>"

definition demo_declared :: collect_config where
  "demo_declared = \<lparr>cc_prepare = [], cc_collectors = [demo_collector], cc_oneshots = []\<rparr>"

definition demo_collect_flags :: collect_flags where
  "demo_collect_flags = \<lparr>cf_run_id = ''r1'', cf_run_dir = ''/run'', cf_user = ''u'', cf_opts = [], cf_only = [], cf_group = [],
     cf_include = [], cf_no_collectors = False, cf_dry = False, cf_roles = [(''app'', [''h1'']), (''all'', [''h1'', ''h1''])], cf_vars = []\<rparr>"

definition demo_rn :: collect_runner where
  "demo_rn = make_runner demo_collect_flags demo_declared"

definition demo_quiet :: "nat collect_state" where
  "demo_quiet = \<lparr>cs_trace = [], cs_out = [], cs_files = (\<lambda>_. None), cs_world = 0\<rparr>"

lemma demo_rn_live: "\<not> rn_dry demo_rn"
  by (simp add: demo_rn_def make_runner_def demo_collect_flags_def)

section \<open>Dry runs\<close>

text \<open>
  With \<open>-dry-run\<close> no action of \<open>collect\<close> runs a command or touches a local file, on any path; it
  only prints.
\<close>

theorem collect_dry_run:
  assumes "parse rest = Inr f" and "cf_dry f"
  shows "cs_trace (snd (run_collect E parse file (action # rest) st)) = cs_trace st \<and>
    cs_files (snd (run_collect E parse file (action # rest) st)) = cs_files st \<and>
    cs_world (snd (run_collect E parse file (action # rest) st)) = cs_world st"
proof -
  have "same_world st (snd (dispatch E action (make_runner f cfg) st))" for cfg
    by (rule dispatch_dry) (simp add: make_runner_def assms(2))
  then show ?thesis using assms(1) by (auto simp: run_collect_def same_world_def split: sum.splits)
qed

theorem collect_dry_run_witness:
  "cs_trace (snd (run_collect demo_lab (\<lambda>_. Inr (demo_collect_flags\<lparr>cf_dry := True\<rparr>)) (Declared demo_declared) [''stop''] demo_quiet)) = []"
  using collect_dry_run [of "\<lambda>_. Inr (demo_collect_flags\<lparr>cf_dry := True\<rparr>)" "[]" "demo_collect_flags\<lparr>cf_dry := True\<rparr>"
      demo_lab "Declared demo_declared" "''stop''" demo_quiet]
  by (simp add: demo_quiet_def)

section \<open>Stopping a collector\<close>

definition remove_cmd :: "collect_runner \<Rightarrow> collector \<Rightarrow> string \<Rightarrow> cmd" where
  "remove_cmd r c host = shell_cmd r host (''sudo rm -rf '' @ shq (collector_dir r c) @ '' 2>/dev/null || true'')"

definition saved_files :: "collect_runner \<Rightarrow> collector \<Rightarrow> string \<Rightarrow> (string, string) gomap" where
  "saved_files r c host = AList.update ''collector.stderr'' (stderr_local r c host) (output_locals r c host)"

definition plain_outputs :: "collector \<Rightarrow> bool" where
  "plain_outputs c \<longleftrightarrow> distinct (keys (cr_outputs c)) \<and> ''collector.stderr'' \<notin> set (keys (cr_outputs c))"

lemma output_locals_keys [simp]: "keys (output_locals r c host) = keys (cr_outputs c)"
  by (simp add: output_locals_def split_beta comp_def)

lemma output_locals_names [simp]: "fst ` set (output_locals r c host) = fst ` set (cr_outputs c)"
  by (simp add: output_locals_def image_image split_beta)

lemma output_locals_nil [simp]: "output_locals r c host = [] \<longleftrightarrow> cr_outputs c = []"
  by (simp add: output_locals_def)

lemma saved_files_keys: "set (keys (saved_files r c host)) = insert ''collector.stderr'' (set (keys (cr_outputs c)))"
  using dom_update [of "''collector.stderr''" "stderr_local r c host" "output_locals r c host"]
  by (simp add: saved_files_def)

lemma saved_files_stderr [simp]: "lookup_or [] (saved_files r c host) ''collector.stderr'' = stderr_local r c host"
  by (simp add: saved_files_def lookup_or_def update_conv')

lemma saved_files_output:
  assumes "plain_outputs c" and "(n, p) \<in> set (output_locals r c host)"
  shows "lookup_or [] (saved_files r c host) n = p" and "n \<in> set (keys (saved_files r c host))"
proof -
  have n: "n \<in> set (keys (output_locals r c host))" using imageI [OF assms(2), of fst] by simp
  then have "n \<noteq> ''collector.stderr''" using assms(1) unfolding plain_outputs_def output_locals_keys by blast
  moreover have "map_of (output_locals r c host) n = Some p"
    by (rule map_of_is_SomeI) (use assms in \<open>simp_all add: plain_outputs_def\<close>)
  ultimately show "lookup_or [] (saved_files r c host) n = p" by (simp add: saved_files_def lookup_or_def update_conv')
  show "n \<in> set (keys (saved_files r c host))" using n saved_files_keys [of r c host] by simp
qed

lemma stop_commands_distinct: "remove_cmd r c host \<noteq> script_cmd r host s"
  by (simp add: remove_cmd_def shell_cmd_def script_cmd_def)

definition local_of :: "collect_runner \<Rightarrow> collector \<Rightarrow> string \<Rightarrow> string set" where
  "local_of r c host = insert (stderr_local r c host) (snd ` set (output_locals r c host))"

definition remote_names :: "collector \<Rightarrow> string set" where
  "remote_names c = insert ''collector.stderr'' (set (keys (cr_outputs c)))"

lemma stop_collector_cases:
  assumes "\<not> rn_dry r" and "stop_collector E r c host st = (v, st')"
  obtains (already) "v = None" "all_exist (cs_files st) (output_locals r c host)" "cs_trace st' = cs_trace st"
      "cs_files st' = cs_files st"
  | (failed) st1 new where "v \<noteq> None" "cs_files st1 = cs_files st"
      "cs_files st' = cs_files (snd (rsync_from_many E r host (collector_dir r c) (saved_files r c host) st1))"
      "cs_trace st' = cs_trace st @ script_cmd r host (terminate_script (collector_dir r c)) # new" "remove_cmd r c host \<notin> set new"
  | (removed) st1 st2 saved new where "v = None" "cs_files st1 = cs_files st"
      "rsync_from_many E r host (collector_dir r c) (saved_files r c host) st1 = (((saved, []), None), st2)"
      "cs_files st' = cs_files st2"
      "cs_trace st' = cs_trace st @ script_cmd r host (terminate_script (collector_dir r c)) # new @ [remove_cmd r c host]"
proof (cases "all_exist (cs_files st) (output_locals r c host)")
  case True
  then show thesis using assms by (intro already) (auto simp: stop_collector_def Let_def)
next
  case False
  let ?dir = "collector_dir r c"
  obtain o1 st1 where o1: "ssh_script E r host (terminate_script ?dir) st = (o1, st1)" by fastforce
  note s1 = ssh_script_runs [OF assms(1) o1]
  obtain stopped where t: "terminate_collector E r host ?dir st = (stopped, st1)"
    using o1 by (cases o1) (auto simp: terminate_collector_def)
  obtain saved lost fetch st2 where m: "rsync_from_many E r host ?dir (saved_files r c host) st1 = (((saved, lost), fetch), st2)"
    by (metis surj_pair)
  have "\<exists>new. cs_trace st2 = cs_trace st1 @ new \<and> remove_cmd r c host \<notin> set new"
    using assms(1) m
  proof (cases rule: rsync_from_many_cases)
    case unfetched
    then show ?thesis by (intro exI [of _ "[]"]) simp
  next
    case (fetched staging st3 f)
    obtain k where k: "cmd_name k = ''rsync''" "cs_trace st3 = cs_trace st1 @ [k]"
      using rsync_files_from_runs [OF assms(1) fetched(2)] by blast
    then have "k \<noteq> remove_cmd r c host" by (auto simp: remove_cmd_def shell_cmd_def)
    then show ?thesis using k(2) fetched(4) by (intro exI [of _ "[k]"]) simp
  qed
  then obtain new where new: "cs_trace st2 = cs_trace st1 @ new" "remove_cmd r c host \<notin> set new" by blast
  show thesis
  proof (cases "stopped \<and> lost = [] \<and> fetch = None")
    case True
    obtain o3 st3 where o3: "ssh E r host (''sudo rm -rf '' @ shq ?dir @ '' 2>/dev/null || true'') st2 = (o3, st3)" by fastforce
    have "v = None \<and> cs_trace st' = cs_trace st3 \<and> cs_files st' = cs_files st3"
      using assms False t m o3 True by (auto simp: stop_collector_def saved_files_def Let_def)
    then show thesis using ssh_runs [OF assms(1) o3] s1 new m True
      by (intro removed [of st1 saved st2 new]) (simp_all add: remove_cmd_def)
  next
    case lost: False
    then have "v \<noteq> None \<and> st' = st2"
      using assms False t m by (auto simp: stop_collector_def saved_files_def Let_def)
    then show thesis using s1 new m by (intro failed [of st1 new]) simp_all
  qed
qed

lemma stop_saved:
  assumes "\<not> rn_dry r" and "plain_outputs c" and "cr_outputs c \<noteq> []"
    and "staging_apart E r (remote_names c) (local_of r c host)"
    and "rsync_from_many E r host dir (saved_files r c host) st = (((saved, []), None), st')"
  shows "all_exist (cs_files st') (output_locals r c host)" and "cs_files st' (stderr_local r c host) \<noteq> None"
proof -
  let ?fs = "saved_files r c host"
  have k: "set (keys ?fs) = remote_names c" by (simp only: saved_files_keys remote_names_def)
  have l: "lookup_or [] ?fs ` set (keys ?fs) \<subseteq> local_of r c host"
  proof
    fix p assume "p \<in> lookup_or [] ?fs ` set (keys ?fs)"
    then obtain n where n: "n \<in> remote_names c" "p = lookup_or [] ?fs n" unfolding k by blast
    show "p \<in> local_of r c host"
    proof (cases "n = ''collector.stderr''")
      case False
      then have "n \<in> set (keys (output_locals r c host))" using n(1) by (simp add: remote_names_def)
      then obtain q where q: "(n, q) \<in> set (output_locals r c host)" using in_keys_map_of map_of_SomeD by metis
      then show ?thesis using saved_files_output(1) [OF assms(2) q] n(2) imageI [OF q, of snd] by (simp add: local_of_def)
    qed (use n in \<open>simp add: local_of_def\<close>)
  qed
  have "staging_apart E r (set (keys ?fs)) (lookup_or [] ?fs ` set (keys ?fs))"
    using assms(4) l unfolding staging_apart_def k by blast
  from rsync_from_many_saves [OF assms(1,5) this]
  have here: "cs_files st' (lookup_or [] ?fs n) \<noteq> None" if "n \<in> set (keys ?fs)" for n using that by (rule bspec)
  show "cs_files st' (stderr_local r c host) \<noteq> None"
    using here [of "''collector.stderr''"] saved_files_keys [of r c host] by simp
  have "cs_files st' p \<noteq> None" if "(n, p) \<in> set (output_locals r c host)" for n p
    using here [OF saved_files_output(2) [OF assms(2) that]] saved_files_output(1) [OF assms(2) that] by simp
  then show "all_exist (cs_files st') (output_locals r c host)"
    using output_locals_nil [of r c host] assms(3) by (auto simp: all_exist_def list_all_iff)
qed

lemma stop_saves:
  assumes "\<not> rn_dry r" and "plain_outputs c" and "cr_outputs c \<noteq> []"
    and "staging_apart E r (remote_names c) (local_of r c host)" and "stop_collector E r c host st = (None, st')"
  shows "all_exist (cs_files st') (output_locals r c host)"
  using assms(1,5)
proof (cases rule: stop_collector_cases)
  case (removed st1 st2 saved new)
  then show ?thesis using stop_saved(1) [OF assms(1-4) removed(3)] by simp
qed simp_all

text \<open>
  C16. Nothing is thrown away before it is saved: when \<open>stop\<close> runs the command that removes the
  collector's work directory on the host, every declared output and the collector's stderr are local
  files; it then reports success, and a further \<open>stop\<close> finds the outputs and does nothing. When it
  reports success without having removed the directory, the outputs were there before.
\<close>

theorem stop_saves_first:
  assumes "\<not> rn_dry r" and "plain_outputs c" and "cr_outputs c \<noteq> []"
    and "staging_apart E r (remote_names c) (local_of r c host)" and "stop_collector E r c host st = (v, st')"
  shows "\<exists>new. cs_trace st' = cs_trace st @ new \<and>
    (remove_cmd r c host \<in> set new \<longrightarrow> v = None \<and> cs_files st' (stderr_local r c host) \<noteq> None) \<and>
    (v = None \<longrightarrow> (remove_cmd r c host \<in> set new \<or> new = []) \<and> all_exist (cs_files st') (output_locals r c host) \<and>
       cs_trace (snd (stop_collector E r c host st')) = cs_trace st')"
proof -
  have again: "cs_trace (snd (stop_collector E r c host st')) = cs_trace st'"
    if "all_exist (cs_files st') (output_locals r c host)" using that by (simp add: stop_collector_def Let_def)
  have saved: "v = None \<Longrightarrow> all_exist (cs_files st') (output_locals r c host)"
    using stop_saves [OF assms(1-4)] assms(5) by simp
  from assms(1,5) show ?thesis
  proof (cases rule: stop_collector_cases)
    case already
    then show ?thesis using saved again by (intro exI [of _ "[]"]) simp
  next
    case (failed st1 new)
    then show ?thesis using stop_commands_distinct by (intro exI [of _ "_ # new"] conjI) auto
  next
    case (removed st1 st2 kept new)
    then show ?thesis using saved again stop_saved(2) [OF assms(1-4) removed(3)]
      by (intro exI [of _ "_ # new @ [remove_cmd r c host]"]) simp
  qed
qed

lemma demo_plain: "plain_outputs demo_collector" "cr_outputs demo_collector \<noteq> []"
  by (simp_all add: plain_outputs_def demo_collector_def)

lemma demo_apart_files: "staging_apart demo_lab demo_rn (remote_names demo_collector) (local_of demo_rn demo_collector ''h1'')"
proof -
  have n: "remote_names demo_collector = {''collector.stderr'', ''out''}" by (simp add: remote_names_def demo_collector_def)
  have l: "stderr_local demo_rn demo_collector ''h1'' = ''/run/h1.err''"
    "output_locals demo_rn demo_collector ''h1'' = [(''out'', ''/run/h1.tsv'')]" by code_simp+
  have b: "below ''/run/t'' (path_join [''/run/t'', ''collector.stderr''])" "below ''/run/t'' (path_join [''/run/t'', ''out''])"
    "\<not> below ''/run/t'' ''/run/h1.err''" "\<not> below ''/run/t'' ''/run/h1.tsv''" by code_simp+
  show ?thesis using b unfolding staging_apart_def n local_of_def l by (simp add: demo_lab_def)
qed

theorem stop_saves_first_witness:
  "fst (stop_collector demo_lab demo_rn demo_collector ''h1'' demo_quiet) = None \<and>
   all_exist (cs_files (snd (stop_collector demo_lab demo_rn demo_collector ''h1'' demo_quiet)))
     (output_locals demo_rn demo_collector ''h1'')"
proof -
  have v: "fst (stop_collector demo_lab demo_rn demo_collector ''h1'' demo_quiet) = None" by code_simp
  show ?thesis
    using stop_saves_first [OF demo_rn_live demo_plain demo_apart_files prod.collapse [symmetric], of demo_quiet] v by blast
qed

section \<open>Stopping all collectors\<close>

lemma role_jobs_in:
  assumes "role_jobs r kind name role items = Inr js" and "t \<in> set js"
  shows "fst t \<in> set items \<and> (\<exists>hosts. map_of (rn_roles r) (role (fst t)) = Some hosts \<and> snd t \<in> set hosts)"
proof -
  obtain jss where m: "map_res (\<lambda>x. case map_of (rn_roles r) (role x) of
        None \<Rightarrow> Inl (NoRole kind (name x) (role x)) | Some hosts \<Rightarrow> Inr (map (Pair x) hosts)) items = Inr jss" and "js = concat jss"
    using assms(1) by (auto simp: role_jobs_def split: sum.splits)
  then obtain ts where "ts \<in> set jss" "t \<in> set ts" using assms(2) by auto
  with map_res_InrD [OF m] show ?thesis by (fastforce split: option.splits)
qed

text \<open>What \<open>stop\<close> establishes for a target, and that no other target undoes it.\<close>

definition outputs_saved :: "collect_runner \<Rightarrow> collector \<times> string \<Rightarrow> 'w collect_state \<Rightarrow> bool" where
  "outputs_saved r t st = list_all (\<lambda>(_, p). cs_files st p \<noteq> None) (output_locals r (fst t) (snd t))"

lemma stop_collector_keeps:
  assumes "\<not> rn_dry r" and "rsync_adds E" and "staging_apart E r (remote_names c) {p}" and "cs_files st p \<noteq> None"
  shows "cs_files (snd (stop_collector E r c host st)) p \<noteq> None"
proof -
  obtain v st' where x: "stop_collector E r c host st = (v, st')" by fastforce
  have a: "staging_apart E r (set (keys (saved_files r c host))) {p}"
    using assms(3) unfolding saved_files_keys remote_names_def .
  from assms(1) x show ?thesis
  proof (cases rule: stop_collector_cases)
    case already
    then show ?thesis using x assms(4) by simp
  next
    case (failed st1 new)
    then show ?thesis using x rsync_from_many_keeps [OF assms(1,2) a, of st1 host "collector_dir r c"] assms(4) by simp
  next
    case (removed st1 st2 saved new)
    then show ?thesis using x rsync_from_many_keeps [OF assms(1,2) a, of st1 host "collector_dir r c"] assms(4) by simp
  qed
qed

text \<open>
  When \<open>stop\<close> reports no error, every declared output of every enabled collector is a local file
  for every host of the collector's role: the goroutines of the other targets neither skip a target nor
  undo it, in whatever order they run.
\<close>

theorem stop_all_saved:
  fixes st st' :: "'w collect_state"
  assumes "\<not> rn_dry r" and "each E r (stop_collector E r) st = (None, st')" and "targets r = Inr ts"
    and "list_all (\<lambda>c. plain_outputs c \<and> cr_outputs c \<noteq> []) (cc_collectors (rn_cfg r))"
    and "rsync_adds E"
    and "staging_apart E r (\<Union> (remote_names ` set (cc_collectors (rn_cfg r)))) (\<Union> ((\<lambda>t. local_of r (fst t) (snd t)) ` set ts))"
  shows "list_all (\<lambda>t. outputs_saved r t st') ts"
proof -
  have cs: "fst t \<in> set (cc_collectors (rn_cfg r))" if "t \<in> set ts" for t
    using role_jobs_in [OF assms(3) [unfolded targets_def] that] by simp
  have apart: "staging_apart E r (remote_names (fst t)) (local_of r (fst u) (snd u))" if "t \<in> set ts" "u \<in> set ts" for t u
    using assms(6) cs [OF that(1)] that(2) unfolding staging_apart_def by blast
  let ?fn = "\<lambda>(c, host) s. case stop_collector E r c host s of
      (None, s') \<Rightarrow> (None, s') | (Some e, s') \<Rightarrow> (Some (InHost host (cr_label c) e), s')"
  have run: "sched_parallel (ce_sched E) ?fn ts st = (None, st')" using assms(2,3) by (simp add: each_def)
  have "\<forall>t \<in> set ts. outputs_saved r t st'"
  proof (rule ep.run_success [OF run])
    fix t and s s' :: "'w collect_state" assume t: "t \<in> set ts" and f: "?fn t s = (None, s')"
    obtain c host where ch: "t = (c, host)" by fastforce
    have x: "stop_collector E r c host s = (None, s')" using f ch by (auto split: prod.splits option.splits)
    have ok: "plain_outputs c" "cr_outputs c \<noteq> []" using assms(4) cs [OF t] ch by (auto simp: list_all_iff)
    have ap: "staging_apart E r (remote_names c) (local_of r c host)" using apart [OF t t] ch by simp
    show "outputs_saved r t s'"
      using stop_saves [OF assms(1) ok ap x] ch by (auto simp: outputs_saved_def all_exist_def)
  next
    fix t u and s :: "'w collect_state" assume t: "t \<in> set ts" and u: "u \<in> set ts" and saved: "outputs_saved r t s"
    obtain c host where ch: "u = (c, host)" by fastforce
    have one: "cs_files (snd (stop_collector E r c host s)) p \<noteq> None" if p: "(n, p) \<in> set (output_locals r (fst t) (snd t))" for n p
    proof (rule stop_collector_keeps [OF assms(1,5)])
      have "p \<in> local_of r (fst t) (snd t)" using imageI [OF p, of snd] by (simp add: local_of_def)
      then show "staging_apart E r (remote_names c) {p}" using apart [OF u t] ch unfolding staging_apart_def by simp
      show "cs_files s p \<noteq> None" using saved p by (auto simp: outputs_saved_def list_all_iff)
    qed
    have "snd (?fn u s) = snd (stop_collector E r c host s)" using ch by (simp split: prod.splits option.splits)
    then show "outputs_saved r t (snd (?fn u s))" using one by (auto simp: outputs_saved_def list_all_iff)
  qed
  then show ?thesis by (simp add: list_all_iff)
qed

theorem stop_all_saved_witness:
  "list_all (\<lambda>t. outputs_saved demo_rn t (snd (each demo_lab demo_rn (stop_collector demo_lab demo_rn) demo_quiet)))
     [(demo_collector, ''h1'')]"
proof (rule stop_all_saved [OF demo_rn_live])
  have "fst (each demo_lab demo_rn (stop_collector demo_lab demo_rn) demo_quiet) = None" by code_simp
  then show "each demo_lab demo_rn (stop_collector demo_lab demo_rn) demo_quiet =
      (None, snd (each demo_lab demo_rn (stop_collector demo_lab demo_rn) demo_quiet))" by (metis prod.collapse)
  show "targets demo_rn = Inr [(demo_collector, ''h1'')]" by code_simp
  have c: "cc_collectors (rn_cfg demo_rn) = [demo_collector]" by (simp add: demo_rn_def make_runner_def demo_declared_def)
  show "list_all (\<lambda>c. plain_outputs c \<and> cr_outputs c \<noteq> []) (cc_collectors (rn_cfg demo_rn))"
    using demo_plain by (simp add: c)
  show "rsync_adds demo_lab" by (auto simp: rsync_adds_def demo_lab_def split: if_splits)
  show "staging_apart demo_lab demo_rn (\<Union> (remote_names ` set (cc_collectors (rn_cfg demo_rn))))
      (\<Union> ((\<lambda>t. local_of demo_rn (fst t) (snd t)) ` set [(demo_collector, ''h1'')]))"
    using demo_apart_files by (simp add: c)
qed

section \<open>Starting a collector\<close>

definition start_cmds :: "collect_runner \<Rightarrow> collector \<Rightarrow> string \<Rightarrow> cmd list" where
  "start_cmds r c host =
     (let dir = collector_dir r c; e = collector_expansion r c host; out = expand_ph e (cr_stdout c);
          binary = path_join [dir, path_base (cr_binary c)]
      in [shell_cmd r host (''sudo mkdir -p '' @ shq dir),
          Cmd ''rsync'' (collect_rsync_args r @ [cr_binary c, rn_user r @ ''@'' @ host @ '':'' @ binary]) [],
          script_cmd r host (start_script dir (launch_line dir binary (expand_ph e (cr_args c))
            (if out = [] then ''/dev/null'' else out)))])"

text \<open>
  A start makes the work directory, delivers the binary and launches it, in this order, each step
  only after the one before has succeeded, and succeeds only when all three did; a collector whose
  arguments still contain a placeholder is refused before any command is run.
\<close>

theorem start_steps:
  assumes "\<not> rn_dry r" and "start_collector E r c host st = (v, st')"
  shows "\<exists>new. cs_trace st' = cs_trace st @ new \<and> prefix new (start_cmds r c host) \<and>
    (if v = None then new = start_cmds r c host \<and> unresolved (expand_ph (collector_expansion r c host) (cr_args c)) = []
     else unresolved (expand_ph (collector_expansion r c host) (cr_args c)) \<noteq> [] \<longrightarrow> new = [])"
proof -
  let ?dir = "collector_dir r c" and ?e = "collector_expansion r c host"
  let ?out = "if expand_ph ?e (cr_stdout c) = [] then ''/dev/null'' else expand_ph ?e (cr_stdout c)"
  let ?bin = "path_join [?dir, path_base (cr_binary c)]" and ?args = "expand_ph ?e (cr_args c)"
  obtain a st1 where a: "ssh E r host (''sudo mkdir -p '' @ shq ?dir) st = (a, st1)" by fastforce
  obtain b st2 where b: "rsync_to E r (cr_binary c) host ?bin st1 = (b, st2)" by fastforce
  obtain d st3 where d: "ssh_script E r host (start_script ?dir (launch_line ?dir ?bin ?args ?out)) st2 = (d, st3)" by fastforce
  note runs = ssh_runs [OF assms(1) a] rsync_to_runs [OF assms(1) b] ssh_script_runs [OF assms(1) d]
  show ?thesis
  proof (cases "unresolved ?args = []")
    case False
    then show ?thesis using assms by (intro exI [of _ "[]"]) (auto simp: start_collector_def Let_def)
  next
    case True
    consider "a \<noteq> None" "v \<noteq> None" "st' = st1" | "a = None" "b \<noteq> None" "v \<noteq> None" "st' = st2"
      | "a = None" "b = None" "cs_trace st' = cs_trace st3"
      using assms True a b d unfolding start_collector_def Let_def
      by (cases a; cases b; cases d) auto
    then show ?thesis
    proof cases
      case 1
      then show ?thesis using runs True by (intro exI [of _ "take 1 (start_cmds r c host)"]) (simp add: start_cmds_def Let_def)
    next
      case 2
      then show ?thesis using runs True by (intro exI [of _ "take 2 (start_cmds r c host)"]) (simp add: start_cmds_def Let_def)
    next
      case 3
      then show ?thesis using runs True by (intro exI [of _ "start_cmds r c host"]) (simp add: start_cmds_def Let_def)
    qed
  qed
qed

theorem start_steps_witness:
  "cs_trace (snd (start_collector demo_lab demo_rn demo_collector ''h1'' demo_quiet)) = start_cmds demo_rn demo_collector ''h1''"
proof -
  have "fst (start_collector demo_lab demo_rn demo_collector ''h1'' demo_quiet) = None" by code_simp
  then show ?thesis
    using start_steps [OF demo_rn_live prod.collapse [symmetric], of demo_lab demo_collector "''h1''" demo_quiet]
    by (auto simp: demo_quiet_def)
qed

section \<open>Check and sweep\<close>

definition all_hosts_cmds :: "collect_runner \<Rightarrow> string \<Rightarrow> string list \<Rightarrow> cmd list" where
  "all_hosts_cmds r script hosts = map (\<lambda>h. script_cmd r h script) hosts"

lemma script_cmd_inj: "script_cmd r h s = script_cmd r h' s \<longleftrightarrow> h = h'"
  by (simp add: script_cmd_def)

lemma run_on_all_hosts_cmds:
  assumes "\<not> rn_dry r" and "all_hosts r = Inr hosts"
  shows "mset (cs_trace (snd (run_on_all_hosts E r label script st))) =
    mset (cs_trace st) + mset (all_hosts_cmds r script hosts)"
proof (rule multiset_eqI)
  fix x
  let ?d = "\<lambda>h. if script_cmd r h script = x then 1 else 0 :: nat"
  have job: "count (mset (cs_trace (snd (host_job E r label script h t)))) x = count (mset (cs_trace t)) x + ?d h" for h t
  proof -
    obtain v t1 where v: "ssh_script E r h script t = (v, t1)" by fastforce
    have "cs_trace (snd (host_job E r label script h t)) = cs_trace t1" by (simp add: host_job_def v split: sum.splits)
    then show ?thesis using ssh_script_runs [OF assms(1) v] by simp
  qed
  have "count (mset (cs_trace (snd (sched_parallel (ce_sched E) (host_job E r label script) hosts st)))) x =
      count (mset (cs_trace st)) x + sum_list (map ?d hosts)"
    by (rule ep.run_adds [where w = "\<lambda>t. count (mset (cs_trace t)) x"]) (rule job)
  moreover have "sum_list (map ?d hs) = count (mset (all_hosts_cmds r script hs)) x" for hs
    by (induction hs) (simp_all add: all_hosts_cmds_def)
  ultimately show "count (mset (cs_trace (snd (run_on_all_hosts E r label script st)))) x =
      count (mset (cs_trace st) + mset (all_hosts_cmds r script hosts)) x"
    by (simp add: run_on_all_hosts_def assms(2))
qed

text \<open>
  The check and the sweep are complete: whatever the filters \<open>-only\<close> and \<open>-include\<close> say, \<open>check-clean\<close>
  and \<open>sweep\<close> send one script, over the remote roots of all declared collectors (also of disabled ones),
  exactly once to every host of the role \<open>all\<close>, without skipping a host because another one fails.
\<close>

theorem sweep_covers:
  assumes "action = ''sweep'' \<or> action = ''check-clean''"
    and "parse rest = Inr f" and "load_collect_config file = Inr cfg" and "\<not> cf_dry f" and "cf_group f = []"
    and "\<not> cf_no_collectors f" and "lookup_or [] (cf_roles f) ''all'' = hosts" and "filter (\<lambda>h. h \<noteq> []) hosts \<noteq> []"
  shows "\<exists>script hs. distinct hs \<and> set hs = {h. h \<in> set hosts \<and> h \<noteq> []} \<and>
    script = (if action = ''sweep'' then sweep_script else check_clean_script)
      (map shq (sort (remdups (map cr_root (cc_collectors cfg))))) \<and>
    mset (cs_trace (snd (run_collect E parse file (action # rest) st))) =
      mset (cs_trace st) + mset (map (\<lambda>h. script_cmd (make_runner f cfg) h script) hs)"
proof -
  let ?r = "make_runner f cfg" and ?hs = "sort (remdups (filter (\<lambda>h. h \<noteq> []) hosts))"
  let ?roots = "map shq (sort (remdups (map cr_root (cc_collectors cfg))))"
  let ?script = "(if action = ''sweep'' then sweep_script else check_clean_script) ?roots"
  have sel: "select_config action f cfg = Inr cfg"
    using assms(1,5,6) by (auto simp: select_config_def select_group_def)
  have hs: "all_hosts ?r = Inr ?hs" using assms(7,8) by (simp add: all_hosts_def make_runner_def Let_def)
  have nd: "\<not> rn_dry ?r" using assms(4) by (simp add: make_runner_def)
  have roots: "map shq (collector_roots ?r) = ?roots" by (simp add: collector_roots_def make_runner_def)
  have "run_collect E parse file (action # rest) st = dispatch E action ?r st"
    using assms(2,3) sel by (simp add: run_collect_def)
  also have "... = (if action = ''sweep'' then sweep_all E ?r st else check_clean_all E ?r st)"
    using assms(1) unfolding dispatch_def Let_def by (elim disjE) simp_all
  also have "... = run_on_all_hosts E ?r (if action = ''sweep'' then ''collector sweep'' else ''collector clean check'') ?script st"
    by (simp add: sweep_all_def check_clean_all_def roots)
  finally have "mset (cs_trace (snd (run_collect E parse file (action # rest) st))) =
      mset (cs_trace st) + mset (map (\<lambda>h. script_cmd ?r h ?script) ?hs)"
    using run_on_all_hosts_cmds [OF nd hs] unfolding all_hosts_cmds_def by (simp only:)
  then show ?thesis by (intro exI [of _ ?script] exI [of _ ?hs]) auto
qed

theorem sweep_covers_witness:
  "\<exists>script. mset (cs_trace (snd (run_collect demo_lab (\<lambda>_. Inr demo_collect_flags) (Declared demo_declared) [''sweep''] demo_quiet))) =
     {# script_cmd demo_rn ''h1'' script #}"
proof -
  have c: "load_collect_config (Declared demo_declared) = Inr demo_declared" by code_simp
  have f: "\<not> cf_dry demo_collect_flags" "cf_group demo_collect_flags = []" "\<not> cf_no_collectors demo_collect_flags"
    "lookup_or [] (cf_roles demo_collect_flags) ''all'' = [''h1'', ''h1'']" "filter (\<lambda>h. h \<noteq> []) [''h1'', ''h1''] \<noteq> []"
    by code_simp+
  have e: "{h. h \<in> set [''h1'', ''h1''] \<and> h \<noteq> []} = {''h1''}" by auto
  obtain script hs where x: "distinct hs" "set hs = {''h1''}"
    "mset (cs_trace (snd (run_collect demo_lab (\<lambda>_. Inr demo_collect_flags) (Declared demo_declared) [''sweep''] demo_quiet))) =
      mset (cs_trace demo_quiet) + mset (map (\<lambda>h. script_cmd demo_rn h script) hs)"
    using sweep_covers [OF disjI1 [OF refl] refl c f, of demo_lab "[]" demo_quiet] unfolding e demo_rn_def by blast
  have "hs = [''h1'']" using x(1,2) by (cases hs) (auto simp: subset_singleton_iff)
  then show ?thesis using x(3) by (auto simp: demo_quiet_def)
qed

section \<open>Selecting collectors\<close>

text \<open>
  \<open>start\<close> and \<open>stop\<close> with the same flags act on the same collectors, so none is started that the
  stop leaves out: those named by \<open>-only\<close>, or else those enabled by default and those named by
  \<open>-include\<close>; none with \<open>-no-collectors\<close>. A name that no collector has is an error.
\<close>

theorem collectors_selected:
  assumes "select_config ''start'' f cfg = Inr cfg'"
  shows "select_config ''stop'' f cfg = Inr cfg' \<and>
    cc_collectors cfg' = filter (\<lambda>c. \<not> cf_no_collectors f \<and>
      (case parse_names (cf_only f) of
         Some want \<Rightarrow> cr_name c \<in> set want
       | None \<Rightarrow> collector_enabled c \<or> cr_name c \<in> set (names_of (parse_names (cf_include f))))) (cc_collectors cfg) \<and>
    cc_prepare cfg' = cc_prepare cfg \<and>
    set (names_of (parse_names (if parse_names (cf_only f) = None then cf_include f else cf_only f))) \<subseteq>
      cr_name ` set (cc_collectors cfg)"
proof -
  have g: "select_group ''start'' f cfg = Inr cfg \<and> cf_group f = []"
    using assms by (auto simp: select_config_def select_group_def oneshot_action_def split: if_splits sum.splits)
  then have g': "select_group ''stop'' f cfg = Inr cfg" by (simp add: select_group_def)
  have n: "find P xs = None \<Longrightarrow> \<forall>x \<in> set xs. \<not> P x" for P :: "string \<Rightarrow> bool" and xs
    by (simp add: find_None_iff)
  show ?thesis
  proof (cases "cf_no_collectors f")
    case True
    then show ?thesis using assms g g' by (auto simp: select_config_def names_of_def split: if_splits option.splits)
  next
    case False
    show ?thesis
    proof (cases "parse_names (cf_only f)")
      case (Some want)
      then show ?thesis using assms g g' False
        by (auto simp: select_config_def select_only_def filter_collectors_def validate_only_names_def names_of_def Let_def
            dest!: n split: option.splits sum.splits)
    next
      case None
      then show ?thesis using assms g g' False
        by (auto simp: select_config_def select_enabled_def enabled_collectors_def oneshot_action_def names_of_def
            dest!: n split: option.splits sum.splits)
    qed
  qed
qed

theorem collectors_selected_witness:
  "select_config ''stop'' demo_collect_flags demo_declared = Inr demo_declared"
proof -
  have "select_config ''start'' demo_collect_flags demo_declared = Inr demo_declared" by code_simp
  from collectors_selected [OF this] show ?thesis by blast
qed

section \<open>Quoting for the shell\<close>

text \<open>How the shell reads one word: single quotes, the backslash, and characters that stand for themselves.\<close>

function sh_word :: "string \<Rightarrow> string option" where
  "sh_word [] = Some []"
| "sh_word (c # s) =
     (if c = CHR 0x27 then
        (case dropWhile (\<lambda>x. x \<noteq> CHR 0x27) s of
           [] \<Rightarrow> None
         | _ # rest \<Rightarrow> map_option (append (takeWhile (\<lambda>x. x \<noteq> CHR 0x27) s)) (sh_word rest))
      else if c = CHR 0x5C then
        (case s of [] \<Rightarrow> None | d # rest \<Rightarrow> map_option (Cons d) (sh_word rest))
      else if is_space c \<or> c \<in> set [CHR 0x22, CHR ''$'', CHR ''&'', CHR ''|'', CHR '';'', CHR ''<'', CHR ''>'', CHR ''('',
          CHR '')'', CHR 0x60, CHR ''*'', CHR ''?'', CHR ''['', CHR ''#'', CHR ''~'', CHR ''='', CHR ''%''] then None
      else map_option (Cons c) (sh_word s))"
  by pat_completeness auto
termination
proof (relation "measure length", goal_cases)
  case (2 c s x rest)
  then have "length (x # rest) \<le> length s" using length_dropWhile_le [of "\<lambda>x. x \<noteq> CHR 0x27" s] by simp
  then show ?case by simp
qed auto

lemma replace_all_char: "replace_all [c] r s = concat (map (\<lambda>x. if x = c then r else [x]) s)"
proof -
  have "replacer_len [([c], r)] (x # s) = (if x = c then 1 else 0)" for x s by (simp add: replacer_len_def)
  then show ?thesis unfolding replace_all_def replacer_def
    by (induction s) (auto simp: lookup_or_def)
qed

lemma sh_word_quote: "sh_word (CHR 0x27 # concat (map (\<lambda>x. if x = CHR 0x27 then [CHR 0x27, CHR 0x5C, CHR 0x27, CHR 0x27] else [x]) s) @ [CHR 0x27]) = Some s"
proof (induction s)
  case (Cons x s)
  then show ?case by (cases "x = CHR 0x27") (auto split: list.splits)
qed simp

text \<open>
  Quoting is complete: the shell reads the word that \<open>shq\<close> makes of any string, whatever characters it
  holds, as exactly that string.
\<close>

theorem shq_word: "sh_word (shq s) = Some s"
  unfolding shq_def replace_all_char using sh_word_quote [of s] by simp

end
