(* ===== verification/GoCsv.thy ===== *)
theory GoCsv
  imports GoStrings
begin

text \<open>
  The reader of \<open>encoding/csv\<close> as the program sets it up: the tab as the separator, strict quotes, no
  comments, any number of fields in a record. Records end at line breaks outside of quotes, a carriage
  return before a line break (or at the very end) is dropped, blank lines are skipped.
\<close>

abbreviation tab_char :: char where
  "tab_char \<equiv> CHR 0x09"

abbreviation quote_char :: char where
  "quote_char \<equiv> CHR 0x22"

abbreviation newline_char :: char where
  "newline_char \<equiv> CHR 0x0A"

section \<open>Lines\<close>

fun end_lines :: "string list \<Rightarrow> string list" where
  "end_lines [] = []"
| "end_lines [l] = (if l = [] then [] else [trim_suffix l [CHR 0x0D]])"
| "end_lines (l # ls) = (trim_suffix l [CHR 0x0D] @ [newline_char]) # end_lines ls"

definition csv_lines :: "string \<Rightarrow> string list" where
  "csv_lines s = end_lines (split_char newline_char s)"

section \<open>Fields\<close>

text \<open>A quoted field from after its opening quote: its text, the rest of its line when another field
  follows, and the lines that are left.\<close>

function csv_quoted :: "string \<Rightarrow> string list \<Rightarrow> string \<Rightarrow> (string \<times> string option \<times> string list) option" where
  "csv_quoted line more acc =
     (case cut_char quote_char line of
        Some (a, []) \<Rightarrow> Some (acc @ a, None, more)
      | Some (a, c # b) \<Rightarrow>
          if c = quote_char then csv_quoted b more (acc @ a @ [quote_char])
          else if c = tab_char then Some (acc @ a, Some b, more)
          else if c = newline_char \<and> b = [] then Some (acc @ a, None, more)
          else None
      | None \<Rightarrow>
          if line = [] then None
          else (case more of [] \<Rightarrow> None | l # ls \<Rightarrow> csv_quoted l ls (acc @ line)))"
  by pat_completeness auto
termination
  by (relation "measure (\<lambda>(line, more, acc). length line + sum_list (map (Suc \<circ> length) more))")
    (auto dest!: cut_char_Some_iff [THEN iffD1])

declare csv_quoted.simps [simp del]

lemma cut_char_NoneD: "cut_char c s = None \<Longrightarrow> c \<notin> set s"
  by (auto simp: cut_char_def split: list.splits)

lemma cut_char_shorter: "cut_char c s = Some (a, b) \<Longrightarrow> length b < length s"
  by (auto simp: cut_char_Some_iff)

lemma csv_quoted_more: "csv_quoted line more acc = Some (f, rest, more') \<Longrightarrow> suffix more' more"
proof (induction line more acc rule: csv_quoted.induct)
  case (1 line more acc)
  show ?case
  proof (cases "cut_char quote_char line")
    case None
    with 1(3) obtain l ls where m: "line \<noteq> []" "more = l # ls" "csv_quoted l ls (acc @ line) = Some (f, rest, more')"
      by (subst (asm) csv_quoted.simps) (auto split: if_splits list.splits)
    from 1(1) [OF None m] m(2) show ?thesis by (simp add: suffix_ConsI)
  next
    case (Some x)
    obtain a t where x: "x = (a, t)" by fastforce
    show ?thesis
    proof (cases "\<exists>u. t = quote_char # u")
      case True
      then obtain u where t: "t = quote_char # u" by blast
      with 1(3) Some x have "csv_quoted u more (acc @ a @ [quote_char]) = Some (f, rest, more')"
        by (subst (asm) csv_quoted.simps) simp
      from 1(2) [OF Some x [symmetric] t refl this] show ?thesis .
    next
      case False
      with 1(3) Some x have "more' = more"
        by (subst (asm) csv_quoted.simps) (auto split: list.splits if_splits)
      then show ?thesis by simp
    qed
  qed
qed

lemma csv_quoted_rest:
  "csv_quoted line more acc = Some (f, Some b, more') \<Longrightarrow>
   length b + sum_list (map (Suc \<circ> length) more') < Suc (length line + sum_list (map (Suc \<circ> length) more))"
proof (induction line more acc rule: csv_quoted.induct)
  case (1 line more acc)
  show ?case
  proof (cases "cut_char quote_char line")
    case None
    with 1(3) obtain l ls where m: "line \<noteq> []" "more = l # ls" "csv_quoted l ls (acc @ line) = Some (f, Some b, more')"
      by (subst (asm) csv_quoted.simps) (auto split: if_splits list.splits)
    from 1(1) [OF None m] m(2) show ?thesis by simp
  next
    case (Some x)
    obtain a t where x: "x = (a, t)" by fastforce
    have s: "length t < length line" using Some x by (simp add: cut_char_shorter)
    from 1(3) Some x obtain c u where t: "t = c # u"
      by (subst (asm) csv_quoted.simps) (auto split: list.splits)
    show ?thesis
    proof (cases "c = quote_char")
      case True
      with 1(3) Some x t have "csv_quoted u more (acc @ a @ [quote_char]) = Some (f, Some b, more')"
        by (subst (asm) csv_quoted.simps) simp
      from 1(2) [OF Some x [symmetric] t True this] s t show ?thesis by simp
    next
      case False
      with 1(3) Some x t have "b = u \<and> more' = more"
        by (subst (asm) csv_quoted.simps) (auto split: if_splits)
      with s t show ?thesis by simp
    qed
  qed
qed

text \<open>The fields of a record from a position in its first line on, with the lines after the record.\<close>

function csv_fields :: "string \<Rightarrow> string list \<Rightarrow> (string list \<times> string list) option" where
  "csv_fields line more =
     (case line of
        c # t \<Rightarrow>
          if c = quote_char then
            (case csv_quoted t more [] of
               None \<Rightarrow> None
             | Some (f, None, more') \<Rightarrow> Some ([f], more')
             | Some (f, Some b, more') \<Rightarrow> map_option (\<lambda>(fs, m). (f # fs, m)) (csv_fields b more'))
          else
            (case cut_char tab_char line of
               None \<Rightarrow>
                 (let f = trim_suffix line [newline_char] in
                  if quote_char \<in> set f then None else Some ([f], more))
             | Some (f, b) \<Rightarrow>
                 if quote_char \<in> set f then None
                 else map_option (\<lambda>(fs, m). (f # fs, m)) (csv_fields b more))
      | [] \<Rightarrow> Some ([[]], more))"
  by pat_completeness auto
termination
  by (relation "measure (\<lambda>(line, more). length line + sum_list (map (Suc \<circ> length) more))")
    (auto dest: cut_char_shorter csv_quoted_rest)

declare csv_fields.simps [simp del]

lemma csv_fields_more: "csv_fields line more = Some (fs, more') \<Longrightarrow> suffix more' more"
proof (induction line more arbitrary: fs rule: csv_fields.induct)
  case (1 line more)
  show ?case
  proof (cases line)
    case (Cons c t)
    show ?thesis
    proof (cases "c = quote_char")
      case True
      with 1(3) Cons obtain f rest m where q: "csv_quoted t more [] = Some (f, rest, m)"
        and r: "case rest of None \<Rightarrow> m = more' | Some b \<Rightarrow> \<exists>gs. csv_fields b m = Some (gs, more')"
        by (subst (asm) csv_fields.simps) (auto split: option.splits)
      have "suffix more' m"
      proof (cases rest)
        case (Some b)
        with r obtain gs where g: "csv_fields b m = Some (gs, more')" by auto
        from 1(1) [OF Cons True q refl refl Some g] show ?thesis .
      qed (use r in simp)
      with csv_quoted_more [OF q] show ?thesis using suffix_order.trans by blast
    next
      case False
      note nq = False
      show ?thesis
      proof (cases "cut_char tab_char line")
        case None
        with 1(3) Cons nq show ?thesis
          by (subst (asm) csv_fields.simps) (auto simp: Let_def split: if_splits)
      next
        case (Some p)
        obtain f b where p: "p = (f, b)" by fastforce
        from 1(3) Cons nq Some p obtain gs where g: "quote_char \<notin> set f" "csv_fields b more = Some (gs, more')"
          by (subst (asm) csv_fields.simps) (auto split: if_splits)
        from 1(2) [OF Cons nq Some p [symmetric] g] show ?thesis .
      qed
    qed
  qed (use 1(3) in \<open>simp add: csv_fields.simps\<close>)
qed

section \<open>Records\<close>

text \<open>The records in their order; the second component says that the reader stopped at an error.\<close>

function csv_records :: "string list \<Rightarrow> string list list \<times> bool" where
  "csv_records [] = ([], False)"
| "csv_records (l # ls) =
     (if l = [] \<or> l = [newline_char] then csv_records ls
      else (case csv_fields l ls of
          None \<Rightarrow> ([], True)
        | Some (fs, rest) \<Rightarrow> (case csv_records rest of (rs, bad) \<Rightarrow> (fs # rs, bad))))"
  by pat_completeness auto
termination
  by (relation "measure length") (auto dest!: csv_fields_more suffix_length_le)

definition csv_parse :: "string \<Rightarrow> string list list \<times> bool" where
  "csv_parse s = csv_records (csv_lines s)"

section \<open>Plain text\<close>

text \<open>Text without quotes and control characters is read back as it was written.\<close>

definition plain_cell :: "string \<Rightarrow> bool" where
  "plain_cell = list_all (\<lambda>c. c \<notin> {tab_char, quote_char, newline_char, CHR 0x0D})"

definition plain_record :: "string list \<Rightarrow> bool" where
  "plain_record fs = (fs \<noteq> [] \<and> fs \<noteq> [[]] \<and> list_all plain_cell fs)"

definition tsv_line :: "string list \<Rightarrow> string" where
  "tsv_line fs = join_with [tab_char] fs @ [newline_char]"

definition tsv_text :: "string list list \<Rightarrow> string" where
  "tsv_text rs = concat (map tsv_line rs)"

lemma plain_cell_simps [simp]: "plain_cell []" "plain_cell (c # s) \<longleftrightarrow> c \<notin> {tab_char, quote_char, newline_char, CHR 0x0D} \<and> plain_cell s"
  by (simp_all add: plain_cell_def)

lemma plain_cell_chars: "plain_cell s \<Longrightarrow> tab_char \<notin> set s \<and> quote_char \<notin> set s \<and> newline_char \<notin> set s \<and> CHR 0x0D \<notin> set s"
  by (induction s) auto

lemma plain_join_chars:
  "list_all plain_cell fs \<Longrightarrow> quote_char \<notin> set (join_with [tab_char] fs) \<and> newline_char \<notin> set (join_with [tab_char] fs) \<and>
     CHR 0x0D \<notin> set (join_with [tab_char] fs)"
proof (induction fs)
  case (Cons f fs)
  then show ?case using plain_cell_chars [of f] by (cases fs) auto
qed simp

lemma csv_fields_plain:
  "fs \<noteq> [] \<Longrightarrow> list_all plain_cell fs \<Longrightarrow> csv_fields (tsv_line fs) more = Some (fs, more)"
proof (induction fs)
  case (Cons f fs)
  have f: "tab_char \<notin> set f" "quote_char \<notin> set f" "newline_char \<notin> set f"
    using plain_cell_chars [of f] Cons.prems by auto
  show ?case
  proof (cases fs)
    case Nil
    have c: "cut_char tab_char (f @ [newline_char]) = None"
    proof (rule ccontr)
      assume "cut_char tab_char (f @ [newline_char]) \<noteq> None"
      then obtain a b where "f @ [newline_char] = a @ tab_char # b" by (auto simp: cut_char_Some_iff)
      then have "tab_char \<in> set (f @ [newline_char])" by (metis in_set_conv_decomp)
      with f(1) show False by simp
    qed
    show ?thesis
      using f c Nil trim_suffix_append [of f "[newline_char]"]
      by (cases f) (auto simp: tsv_line_def csv_fields.simps [of "_ # _"])
  next
    case (Cons g gs)
    have l: "tsv_line (f # fs) = f @ tab_char # tsv_line fs" using Cons by (simp add: tsv_line_def)
    have c: "cut_char tab_char (tsv_line (f # fs)) = Some (f, tsv_line fs)" using l f(1) by (simp add: cut_char_Some_iff)
    have h: "\<exists>x t. tsv_line (f # fs) = x # t \<and> x \<noteq> quote_char" using l f(2) by (cases f) auto
    from Cons.IH Cons.prems Cons have "csv_fields (tsv_line fs) more = Some (fs, more)" by simp
    with c h f(2) show ?thesis by (subst csv_fields.simps) auto
  qed
qed simp

lemma split_tsv_text:
  "list_all (list_all plain_cell) rs \<Longrightarrow> split_char newline_char (tsv_text rs) = map (join_with [tab_char]) rs @ [[]]"
proof (induction rs)
  case (Cons r rs)
  then have "newline_char \<notin> set (join_with [tab_char] r)" using plain_join_chars by simp
  with Cons split_char_append [of newline_char "join_with [tab_char] r" "tsv_text rs"] show ?case
    by (simp add: tsv_text_def tsv_line_def)
qed (simp add: tsv_text_def)

lemma csv_lines_tsv_text: "list_all (list_all plain_cell) rs \<Longrightarrow> csv_lines (tsv_text rs) = map tsv_line rs"
proof -
  have "end_lines (map (join_with [tab_char]) rs @ [[]]) = map tsv_line rs" if "list_all (list_all plain_cell) rs"
    using that
  proof (induction rs)
    case (Cons r rs)
    have "trim_suffix (join_with [tab_char] r) [CHR 0x0D] = join_with [tab_char] r"
      using plain_join_chars [of r] Cons.prems by (intro trim_suffix_id) (auto simp: suffix_def)
    with Cons show ?case by (cases rs) (simp_all add: tsv_line_def)
  qed simp
  moreover assume "list_all (list_all plain_cell) rs"
  ultimately show ?thesis by (simp add: csv_lines_def split_tsv_text)
qed

lemma csv_parse_plain: "list_all plain_record rs \<Longrightarrow> csv_parse (tsv_text rs) = (rs, False)"
proof -
  have "csv_records (map tsv_line rs) = (rs, False)" if "list_all plain_record rs"
    using that
  proof (induction rs)
    case (Cons r rs)
    then have r: "r \<noteq> []" "r \<noteq> [[]]" "list_all plain_cell r" by (simp_all add: plain_record_def)
    have "tsv_line r \<noteq> [newline_char]" using r by (cases r; cases "tl r") (auto simp: tsv_line_def)
    moreover have "tsv_line r \<noteq> []" by (simp add: tsv_line_def)
    ultimately show ?case using Cons csv_fields_plain [OF r(1,3)] by simp
  qed simp
  moreover assume p: "list_all plain_record rs"
  moreover from p have "list_all (list_all plain_cell) rs" by (auto simp: list_all_iff plain_record_def)
  ultimately show ?thesis by (simp add: csv_parse_def csv_lines_tsv_text)
qed

section \<open>Writing\<close>

text \<open>The writer of \<open>encoding/csv\<close> with the tab as the separator: which fields it quotes, and how.\<close>

definition unicode_spaces :: "string list" where
  "unicode_spaces =
     [[CHR 0xC2, CHR 0x85], [CHR 0xC2, CHR 0xA0], [CHR 0xE1, CHR 0x9A, CHR 0x80], [CHR 0xE2, CHR 0x80, CHR 0xA8],
      [CHR 0xE2, CHR 0x80, CHR 0xA9], [CHR 0xE2, CHR 0x80, CHR 0xAF], [CHR 0xE2, CHR 0x81, CHR 0x9F], [CHR 0xE3, CHR 0x80, CHR 0x80]] @
     map (\<lambda>n. [CHR 0xE2, CHR 0x80, char_of (128 + n)]) [0..<11]"

definition needs_quotes :: "string \<Rightarrow> bool" where
  "needs_quotes f \<longleftrightarrow>
     f \<noteq> [] \<and>
     (f = [CHR 0x5C, CHR ''.''] \<or> list_ex (\<lambda>c. c \<in> {newline_char, CHR 0x0D, quote_char, tab_char}) f \<or>
      is_space (hd f) \<or> list_ex (has_prefix f) unicode_spaces)"

text \<open>A field that starts with an ASCII character cannot start with one of these spaces.\<close>

lemma unicode_spaces_hd: "list_ex (has_prefix (c # f)) unicode_spaces \<Longrightarrow> c \<in> {CHR 0xC2, CHR 0xE1, CHR 0xE2, CHR 0xE3}"
  by (auto simp: unicode_spaces_def list_ex_iff)

lemma needs_quotes_code [code]:
  "needs_quotes f =
     (case f of
        [] \<Rightarrow> False
      | c # t \<Rightarrow>
          f = [CHR 0x5C, CHR ''.''] \<or> list_ex (\<lambda>c. c \<in> {newline_char, CHR 0x0D, quote_char, tab_char}) f \<or> is_space c \<or>
          (c \<in> {CHR 0xC2, CHR 0xE1, CHR 0xE2, CHR 0xE3} \<and> list_ex (has_prefix f) unicode_spaces))"
proof (cases f)
  case (Cons c t)
  have "list_ex (has_prefix f) unicode_spaces \<longleftrightarrow>
      c \<in> {CHR 0xC2, CHR 0xE1, CHR 0xE2, CHR 0xE3} \<and> list_ex (has_prefix f) unicode_spaces"
    using unicode_spaces_hd [of c t] unfolding Cons by blast
  then show ?thesis unfolding needs_quotes_def Cons by (simp only: list.case list.sel list.simps simp_thms)
qed (simp add: needs_quotes_def)

fun escape_quotes :: "string \<Rightarrow> string" where
  "escape_quotes [] = []"
| "escape_quotes (c # s) = (if c = quote_char then quote_char # quote_char # escape_quotes s else c # escape_quotes s)"

definition csv_cell :: "string \<Rightarrow> string" where
  "csv_cell f = (if needs_quotes f then quote_char # escape_quotes f @ [quote_char] else f)"

definition csv_row :: "string list \<Rightarrow> string" where
  "csv_row fs = join_with [tab_char] (map csv_cell fs) @ [newline_char]"

definition csv_write :: "string list list \<Rightarrow> string" where
  "csv_write rows = concat (map csv_row rows)"

section \<open>What was written is read back\<close>

text \<open>Text without carriage returns that ends with a line break.\<close>

definition ended :: "string \<Rightarrow> bool" where
  "ended s \<longleftrightarrow> s \<noteq> [] \<and> last s = newline_char \<and> CHR 0x0D \<notin> set s"

lemma ended_Cons: "ended (c # s) \<longleftrightarrow> (s = [] \<and> c = newline_char) \<or> (c \<noteq> CHR 0x0D \<and> ended s)"
  by (auto simp: ended_def)

lemma csv_lines_Nil [simp]: "csv_lines [] = []"
  by (simp add: csv_lines_def)

lemma split_nonempty_Cons: "split_char c s \<noteq> []"
  by simp

lemma csv_lines_newline: "s = [] \<or> ended s \<Longrightarrow> csv_lines (newline_char # s) = [newline_char] # csv_lines s"
  by (cases "split_char newline_char s") (auto simp: csv_lines_def trim_suffix_def)

lemma csv_lines_char:
  assumes "ended s" and "c \<noteq> newline_char" and "c \<noteq> CHR 0x0D"
  shows "csv_lines (c # s) = (c # hd (csv_lines s)) # tl (csv_lines s) \<and> csv_lines s \<noteq> [] \<and> hd (csv_lines s) \<noteq> []"
proof -
  obtain l ls where s: "split_char newline_char s = l # ls" by (cases "split_char newline_char s") auto
  have "newline_char \<in> set s" using assms(1) last_in_set [of s] by (simp add: ended_def)
  have "ls \<noteq> []"
  proof
    assume "ls = []"
    then have "join_with [newline_char] [l] = s" using join_split [of newline_char s] s by simp
    then have "s = l" by simp
    moreover have "newline_char \<notin> set l" using split_char_parts [of l newline_char s] s by simp
    ultimately show False using \<open>newline_char \<in> set s\<close> by simp
  qed
  then obtain m ms where ls: "ls = m # ms" by (cases ls) auto
  have "set l \<subseteq> set s"
  proof
    fix x
    assume "x \<in> set l"
    then show "x \<in> set s" using split_by_parts [of l "\<lambda>x. x = newline_char" s x] s by simp
  qed
  then have "CHR 0x0D \<notin> set l" using assms(1) by (auto simp: ended_def)
  then have "trim_suffix l [CHR 0x0D] = l" "trim_suffix (c # l) [CHR 0x0D] = c # l"
    using assms(3) by (auto intro!: trim_suffix_id simp: suffix_def Cons_eq_append_conv)
  then show ?thesis using s ls assms(2) by (simp add: csv_lines_def)
qed

lemma cut_char_absent: "c \<notin> set s \<Longrightarrow> cut_char c s = None"
proof (rule ccontr)
  assume "c \<notin> set s" and "cut_char c s \<noteq> None"
  then obtain a b where "s = a @ c # b" by (auto simp: cut_char_Some_iff)
  with \<open>c \<notin> set s\<close> show False by simp
qed

lemma csv_quoted_char:
  assumes "c \<noteq> quote_char" and "line \<noteq> []"
  shows "csv_quoted (c # line) more acc = csv_quoted line more (acc @ [c])"
proof -
  have c: "cut_char quote_char (c # line) = map_option (\<lambda>(a, b). (c # a, b)) (cut_char quote_char line)"
  proof (cases "cut_char quote_char line")
    case None
    then have "quote_char \<notin> set (c # line)" using assms(1) cut_char_NoneD by auto
    then have "cut_char quote_char (c # line) = None" by (rule cut_char_absent)
    then show ?thesis by (simp add: None)
  next
    case (Some x)
    obtain a b where x: "x = (a, b)" by fastforce
    then have "cut_char quote_char (c # line) = Some (c # a, b)" using Some assms(1) by (simp add: cut_char_Some_iff)
    then show ?thesis by (simp add: Some x)
  qed
  show ?thesis
    by (subst (1 2) csv_quoted.simps) (use assms(2) c in \<open>auto split: option.splits list.splits\<close>)
qed

lemma ended_escape: "ended s \<Longrightarrow> CHR 0x0D \<notin> set f \<Longrightarrow> ended (escape_quotes f @ s)"
  by (induction f) (auto simp: ended_Cons)

lemma csv_quoted_nl: "csv_quoted (quote_char # [newline_char]) more acc = Some (acc, None, more)"
  by (subst csv_quoted.simps) (simp add: cut_char_def)

lemma csv_quoted_tab: "csv_quoted (quote_char # tab_char # b) more acc = Some (acc, Some b, more)"
  by (subst csv_quoted.simps) (simp add: cut_char_def)

lemma csv_quoted_twice: "csv_quoted (quote_char # quote_char # b) more acc = csv_quoted b more (acc @ [quote_char])"
  by (subst csv_quoted.simps) (simp add: cut_char_def)

lemma csv_quoted_break: "csv_quoted [newline_char] (l # ls) acc = csv_quoted l ls (acc @ [newline_char])"
  by (subst csv_quoted.simps) (simp add: cut_char_def)

lemma csv_lines_ended_Cons: "ended s \<Longrightarrow> csv_lines s = hd (csv_lines s) # tl (csv_lines s)"
proof (cases s)
  case (Cons c t)
  assume s: "ended s"
  show ?thesis
  proof (cases "c = newline_char")
    case True
    with s Cons have "t = [] \<or> ended t" by (auto simp: ended_Cons)
    then show ?thesis using csv_lines_newline [of t] True Cons by simp
  next
    case False
    with s Cons have "ended t" "c \<noteq> CHR 0x0D" by (auto simp: ended_Cons)
    then show ?thesis using csv_lines_char [of t c] False Cons by simp
  qed
qed (simp add: ended_def)

text \<open>A quoted field is read back, whether the record ends behind it or another field follows.\<close>

lemma csv_quoted_escaped:
  assumes "CHR 0x0D \<notin> set f" and "ended (quote_char # u)"
    and "u = newline_char # v \<and> res = (None, csv_lines v) \<or> u = tab_char # v \<and> ended v \<and> res = (Some (hd (csv_lines v)), tl (csv_lines v))"
  shows "csv_quoted (hd (csv_lines (escape_quotes f @ quote_char # u))) (tl (csv_lines (escape_quotes f @ quote_char # u))) acc = Some (acc @ f, res)"
  using assms(1)
proof (induction f arbitrary: acc)
  case Nil
  from assms(3) show ?case
  proof
    assume a: "u = newline_char # v \<and> res = (None, csv_lines v)"
    then have "v = [] \<or> ended v" "ended u" using assms(2) by (auto simp: ended_Cons)
    then have "csv_lines (quote_char # u) = [quote_char, newline_char] # csv_lines v"
      using csv_lines_char [of u quote_char] csv_lines_newline [of v] a by simp
    then show ?thesis using a by (simp add: csv_quoted_nl)
  next
    assume a: "u = tab_char # v \<and> ended v \<and> res = (Some (hd (csv_lines v)), tl (csv_lines v))"
    then have "ended u" by (simp add: ended_Cons)
    then have "csv_lines (quote_char # u) = (quote_char # tab_char # hd (csv_lines v)) # tl (csv_lines v)"
      using csv_lines_char [of u quote_char] csv_lines_char [of v tab_char] a by simp
    then show ?thesis using a by (simp add: csv_quoted_tab)
  qed
next
  case (Cons c f)
  define w where "w = escape_quotes f @ quote_char # u"
  have w: "ended w" using ended_escape [OF assms(2), of f] Cons.prems by (simp add: w_def)
  have ih: "csv_quoted (hd (csv_lines w)) (tl (csv_lines w)) a = Some (a @ f, res)" for a
    using Cons.IH Cons.prems unfolding w_def by simp
  consider "c = quote_char" | "c = newline_char" | "c \<noteq> quote_char" "c \<noteq> newline_char" "c \<noteq> CHR 0x0D" using Cons.prems by auto
  then show ?case
  proof cases
    case 1
    have "ended (quote_char # w)" using w by (simp add: ended_Cons)
    then have "csv_lines (quote_char # quote_char # w) = (quote_char # quote_char # hd (csv_lines w)) # tl (csv_lines w)"
      using csv_lines_char [of "quote_char # w" quote_char] csv_lines_char [OF w, of quote_char] by simp
    then show ?thesis using 1 ih by (simp add: csv_quoted_twice w_def [symmetric])
  next
    case 2
    have "csv_lines (newline_char # w) = [newline_char] # hd (csv_lines w) # tl (csv_lines w)"
      using csv_lines_newline [of w] w csv_lines_ended_Cons [OF w] by simp
    then show ?thesis using 2 ih by (simp add: csv_quoted_break w_def [symmetric])
  next
    case 3
    note l = csv_lines_char [OF w 3(2,3)]
    then show ?thesis using 3 ih by (simp add: csv_quoted_char w_def [symmetric])
  qed
qed

lemma csv_lines_prefix:
  "ended v \<Longrightarrow> newline_char \<notin> set f \<Longrightarrow> CHR 0x0D \<notin> set f \<Longrightarrow> csv_lines (f @ v) = (f @ hd (csv_lines v)) # tl (csv_lines v)"
proof (induction f)
  case Nil
  then show ?case using csv_lines_ended_Cons [of v] by simp
next
  case (Cons c f)
  have "ended (f @ v)" using Cons.prems by (auto simp: ended_def)
  then show ?case using csv_lines_char [of "f @ v" c] Cons by auto
qed

definition clean_cell :: "string \<Rightarrow> bool" where
  "clean_cell f \<longleftrightarrow> CHR 0x0D \<notin> set f"

lemma unquoted_plain: "\<not> needs_quotes f \<Longrightarrow> plain_cell f"
  by (cases "f = []") (auto simp: needs_quotes_def plain_cell_def list_all_iff list_ex_iff)

lemma set_escape: "set (escape_quotes f) = set f"
  by (induction f) auto

lemma ended_row: "fs \<noteq> [] \<Longrightarrow> list_all clean_cell fs \<Longrightarrow> s = [] \<or> ended s \<Longrightarrow> ended (csv_row fs @ s)"
proof -
  assume a: "fs \<noteq> []" "list_all clean_cell fs" "s = [] \<or> ended s"
  have "set (join_with [tab_char] (map csv_cell fs)) \<subseteq> \<Union> (set ` set (map csv_cell fs)) \<union> set [tab_char]"
    by (rule set_join_with)
  moreover have "CHR 0x0D \<notin> set (csv_cell f)" if "f \<in> set fs" for f
    using that a(2) by (auto simp: csv_cell_def set_escape clean_cell_def list_all_iff)
  ultimately have "CHR 0x0D \<notin> set (join_with [tab_char] (map csv_cell fs))" by fastforce
  then show ?thesis using a(3) by (auto simp: ended_def csv_row_def)
qed

lemma csv_fields_row:
  "fs \<noteq> [] \<Longrightarrow> list_all clean_cell fs \<Longrightarrow> s = [] \<or> ended s \<Longrightarrow>
   csv_fields (hd (csv_lines (csv_row fs @ s))) (tl (csv_lines (csv_row fs @ s))) = Some (fs, csv_lines s)"
proof (induction fs)
  case (Cons f fs)
  have cr: "CHR 0x0D \<notin> set f" using Cons.prems by (simp add: clean_cell_def)
  define v where "v = (if fs = [] then s else csv_row fs @ s)"
  define sep where "sep = (if fs = [] then newline_char else tab_char)"
  have row: "csv_row (f # fs) @ s = csv_cell f @ sep # v"
    by (cases fs) (simp_all add: csv_row_def v_def sep_def)
  have v: "fs \<noteq> [] \<Longrightarrow> ended v" "v = [] \<or> ended v" "ended (sep # v)"
    using ended_row [of fs s] Cons.prems by (auto simp: v_def sep_def ended_Cons)
  show ?case
  proof (cases "needs_quotes f")
    case True
    define res where "res = (if fs = [] then (None, csv_lines v) else (Some (hd (csv_lines v)), tl (csv_lines v)))"
    define w where "w = escape_quotes f @ quote_char # sep # v"
    have e: "ended (quote_char # sep # v)" using v(3) by (simp add: ended_Cons)
    have q: "csv_quoted (hd (csv_lines w)) (tl (csv_lines w)) [] = Some (f, res)"
      unfolding w_def using csv_quoted_escaped [OF cr e, of v res "[]"] v(1) by (simp add: res_def sep_def)
    have "ended w" using ended_escape [OF e cr] by (simp add: w_def)
    then have "csv_lines (csv_row (f # fs) @ s) = (quote_char # hd (csv_lines w)) # tl (csv_lines w)"
      using csv_lines_char [of w quote_char] row True by (simp add: csv_cell_def w_def)
    then show ?thesis
      using q Cons v(1) by (cases "fs = []") (simp_all add: csv_fields.simps [of "quote_char # _"] res_def v_def)
  next
    case False
    then have pl: "plain_cell f" by (rule unquoted_plain)
    note ch = plain_cell_chars [OF pl]
    show ?thesis
    proof (cases "fs = []")
      case True
      have "csv_lines (f @ newline_char # v) = (f @ [newline_char]) # csv_lines v"
        using csv_lines_prefix [of "newline_char # v" f] csv_lines_newline [OF v(2)] v(3) ch True by (simp add: sep_def)
      then show ?thesis
        using row False True csv_fields_plain [of "[f]" "csv_lines v"] pl by (simp add: csv_cell_def sep_def tsv_line_def v_def)
    next
      case F: False
      have e: "ended (tab_char # v)" using v(1) F by (simp add: ended_Cons)
      have l: "csv_lines (csv_row (f # fs) @ s) = (f @ tab_char # hd (csv_lines v)) # tl (csv_lines v)"
        using csv_lines_prefix [OF e, of f] csv_lines_char [of v tab_char] v(1) F ch row False by (simp add: csv_cell_def sep_def)
      have c: "cut_char tab_char (f @ tab_char # h) = Some (f, h)" for h using ch by (simp add: cut_char_Some_iff)
      have n: "\<exists>x t. f @ tab_char # h = x # t \<and> x \<noteq> quote_char" for h using ch by (cases f) auto
      have ih: "csv_fields (hd (csv_lines v)) (tl (csv_lines v)) = Some (fs, csv_lines s)"
        using Cons F by (simp add: v_def)
      show ?thesis
        unfolding l list.sel using c [of "hd (csv_lines v)"] n [of "hd (csv_lines v)"] ih ch by (subst csv_fields.simps) auto
    qed
  qed
qed simp

lemma row_not_blank:
  assumes "fs \<noteq> []" and "fs \<noteq> [[]]"
  shows "\<exists>c t. csv_row fs = c # t \<and> c \<noteq> newline_char"
proof -
  obtain f gs where fs: "fs = f # gs" using assms(1) by (cases fs) auto
  show ?thesis
  proof (cases "csv_cell f")
    case Nil
    then have "f = []" by (auto simp: csv_cell_def split: if_splits)
    then obtain g hs where "gs = g # hs" using assms(2) fs by (cases gs) auto
    then show ?thesis using Nil by (simp add: fs csv_row_def)
  next
    case (Cons c t)
    have "c \<noteq> newline_char"
      using Cons plain_cell_chars [OF unquoted_plain, of f] by (auto simp: csv_cell_def split: if_splits)
    then show ?thesis using Cons by (cases gs) (auto simp: fs csv_row_def)
  qed
qed

definition written_row :: "string list \<Rightarrow> bool" where
  "written_row fs \<longleftrightarrow> fs \<noteq> [] \<and> fs \<noteq> [[]] \<and> list_all clean_cell fs"

theorem csv_parse_write: "list_all written_row rows \<Longrightarrow> csv_parse (csv_write rows) = (rows, False)"
proof (induction rows)
  case (Cons r rows)
  then have r: "r \<noteq> []" "r \<noteq> [[]]" "list_all clean_cell r" by (simp_all add: written_row_def)
  define s where "s = csv_write rows"
  have "csv_write rows = [] \<or> ended (csv_write rows)"
    using Cons.prems
  proof (induction rows)
    case (Cons q rows)
    then show ?case using ended_row [of q "csv_write rows"] by (simp add: csv_write_def written_row_def)
  qed (simp add: csv_write_def)
  then have s: "s = [] \<or> ended s" by (simp add: s_def)
  have e: "ended (csv_row r @ s)" by (rule ended_row [OF r(1,3) s])
  have l: "csv_lines (csv_row r @ s) = hd (csv_lines (csv_row r @ s)) # tl (csv_lines (csv_row r @ s))"
    by (rule csv_lines_ended_Cons [OF e])
  obtain c t where ct: "csv_row r = c # t" "c \<noteq> newline_char" using row_not_blank [OF r(1,2)] by blast
  have "ended (t @ s)" "c \<noteq> CHR 0x0D" using e ct by (auto simp: ended_Cons)
  then have h: "hd (csv_lines (csv_row r @ s)) \<noteq> []" "hd (csv_lines (csv_row r @ s)) \<noteq> [newline_char]"
    using csv_lines_char [of "t @ s" c] ct by auto
  have "csv_parse (csv_write (r # rows)) = csv_records (csv_lines (csv_row r @ s))"
    by (simp add: csv_parse_def csv_write_def s_def)
  also have "\<dots> = (r # fst (csv_records (csv_lines s)), snd (csv_records (csv_lines s)))"
    by (subst l) (use csv_fields_row [OF r(1,3) s] h in \<open>simp split: prod.splits\<close>)
  also have "csv_records (csv_lines s) = (rows, False)" using Cons by (simp add: csv_parse_def s_def)
  finally show ?case by simp
qed (simp add: csv_parse_def csv_write_def)

end
