(* ===== verification/GoTime.thy ===== *)
theory GoTime
  imports GoStrings "HOL-Library.Signed_Division"
begin

text \<open>
  Instants and durations of package \<open>time\<close>, and 64-bit arithmetic. An instant is the number of
  nanoseconds since 1970 (unbounded, as Go's range of instants is larger than 64 bits), a duration a
  64-bit number of nanoseconds; the difference of two instants is cut off at its bounds. What an
  RFC 3339 string denotes, and how an instant is written, is a parameter.
\<close>

definition wrap64 :: "int \<Rightarrow> int" where
  "wrap64 i = (i + 2 ^ 63) mod 2 ^ 64 - 2 ^ 63"

lemma wrap64_id: "- (2 ^ 63) \<le> i \<Longrightarrow> i < 2 ^ 63 \<Longrightarrow> wrap64 i = i"
  by (simp add: wrap64_def)

lemma wrap64_range: "- (2 ^ 63) \<le> wrap64 i" "wrap64 i < 2 ^ 63"
  by (simp_all add: wrap64_def)

record time_codec =
  tc_parse :: "string \<Rightarrow> int option"
  tc_format :: "int \<Rightarrow> string"

text \<open>The zero value of \<open>time.Time\<close>, the first instant of the year 1.\<close>

definition zero_time :: int where
  "zero_time = -62135596800000000000"

definition time_sub :: "int \<Rightarrow> int \<Rightarrow> int" where
  "time_sub a b = max (- (2 ^ 63)) (min (2 ^ 63 - 1) (a - b))"

definition millis :: "int \<Rightarrow> int" where
  "millis d = d sdiv 1000000"

lemma time_sub_pos: "b < a \<Longrightarrow> 0 < time_sub a b"
  by (simp add: time_sub_def)

lemma time_sub_nonneg: "b \<le> a \<Longrightarrow> 0 \<le> time_sub a b"
  by (simp add: time_sub_def)

lemma time_sub_exact: "b \<le> a \<Longrightarrow> a - b < 2 ^ 63 \<Longrightarrow> time_sub a b = a - b"
  by (simp add: time_sub_def)

lemma millis_nonneg: "0 \<le> d \<Longrightarrow> millis d = d div 1000000"
  by (cases "d = 0") (simp_all add: millis_def signed_divide_int_def)

text \<open>\<open>UnixNano\<close> of an instant.\<close>

abbreviation unix_nano :: "int \<Rightarrow> int" where
  "unix_nano \<equiv> wrap64"

end
