(* ===== verification/MeasureQuality.thy ===== *)
theory MeasureQuality
  imports GoCsv GoTime GoPath Complex_Main
begin

text \<open>
  The quality of what a RUN recorded (tools/measurectl/quality.go): the load window between the markers
  of the benchmark's log, and the inspection of a periodic recording against it. The types of the
  manifest that they fill (tools/measurectl/manifest.go) are here too.

  Parameters: what a time string denotes and how an instant is written; what reading a file gives. The
  coverage in percent is the exact quotient, which the code rounds to a floating-point number.
\<close>

type_synonym tree = "(string, string) gomap"

type_synonym reader = "string \<Rightarrow> go_error + string"

section \<open>The load window\<close>

record load_window =
  lw_start :: string
  lw_end :: string
  lw_duration :: int
  lw_source :: string
  lw_status :: string
  lw_reason :: string

definition no_window :: load_window where
  "no_window = \<lparr>lw_start = [], lw_end = [], lw_duration = 0, lw_source = ''bench.log'', lw_status = ''unavailable'', lw_reason = []\<rparr>"

text \<open>One line of the log: the instants of the last start and the last end marker so far.\<close>

definition marker_step :: "time_codec \<Rightarrow> string \<Rightarrow> int \<times> int \<Rightarrow> int \<times> int" where
  "marker_step T line w =
     (let fields = split_char tab_char line in
      if length fields < 2 then w
      else (case tc_parse T (hd fields) of
          None \<Rightarrow> w
        | Some t \<Rightarrow>
            (let message = trim_space (last fields) in
             if contains_str message ''BENCHMARK_START'' then (t, snd w)
             else if contains_str message ''BENCHMARK_END'' then (fst w, t)
             else w)))"

definition load_markers :: "time_codec \<Rightarrow> string \<Rightarrow> int \<times> int" where
  "load_markers T body = fold (marker_step T) (split_char newline_char body) (zero_time, zero_time)"

definition resolve_load_window :: "time_codec \<Rightarrow> string \<Rightarrow> load_window" where
  "resolve_load_window T body =
     (case load_markers T body of (s, e) \<Rightarrow>
        if s = zero_time \<or> e = zero_time
        then no_window\<lparr>lw_reason := ''bench.log does not contain both load start and end markers''\<rparr>
        else if \<not> s < e then no_window\<lparr>lw_reason := ''load end is not after load start''\<rparr>
        else no_window\<lparr>lw_start := tc_format T s, lw_end := tc_format T e, lw_duration := millis (time_sub e s), lw_status := ''ok''\<rparr>)"

section \<open>Artifacts\<close>

record artifact_quality =
  aq_expected :: bool
  aq_status :: string
  aq_rows :: int
  aq_in_window :: int
  aq_expected_samples :: int
  aq_coverage :: rat
  aq_max_gap :: int
  aq_monotonic :: bool
  aq_finite :: bool
  aq_reason :: string

record artifact =
  af_name :: string
  af_bytes :: nat
  af_status :: string
  af_reason :: string
  af_quality :: artifact_quality

definition quality_of :: "bool \<Rightarrow> string \<Rightarrow> bool \<Rightarrow> artifact_quality" where
  "quality_of expected status good =
     \<lparr>aq_expected = expected, aq_status = status, aq_rows = 0, aq_in_window = 0, aq_expected_samples = 0, aq_coverage = 0,
      aq_max_gap = 0, aq_monotonic = good, aq_finite = good, aq_reason = []\<rparr>"

definition periodic_interval :: "string \<Rightarrow> int option" where
  "periodic_interval name =
     (if has_suffix name ''-proc-metrics.tsv'' \<or> has_suffix name ''-service-metrics.tsv'' \<or>
         has_suffix name ''-disk-metrics.tsv'' \<or> has_suffix name ''-sql-pool-metrics.tsv'' \<or>
         name = ''mysql-status.tsv'' \<or> has_suffix name ''-mysql-status.tsv''
      then Some 1000000000 else None)"

definition join_reasons :: "string list \<Rightarrow> string" where
  "join_reasons reasons = join_with ''; '' (filter (\<lambda>r. r \<noteq> []) (map trim_space reasons))"

section \<open>Periodic recordings\<close>

text \<open>\<open>strconv.ParseFloat\<close> accepts a word for infinity with a sign, and \<open>nan\<close> without one; a number that
  is too large is an error.\<close>

definition non_finite :: "string \<Rightarrow> bool" where
  "non_finite raw =
     (let s = map lower_char raw; unsigned = (if s \<noteq> [] \<and> hd s \<in> set ''+-'' then tl s else s)
      in unsigned = ''inf'' \<or> unsigned = ''infinity'' \<or> s = ''nan'')"

record tsv_scan =
  ts_rows :: int
  ts_monotonic :: bool
  ts_finite :: bool
  ts_previous :: int
  ts_points :: "(int, int) gomap"

definition scan_start :: tsv_scan where
  "scan_start = \<lparr>ts_rows = 0, ts_monotonic = True, ts_finite = True, ts_previous = zero_time, ts_points = []\<rparr>"

definition scan_row :: "time_codec \<Rightarrow> nat \<Rightarrow> int \<Rightarrow> int \<Rightarrow> string list \<Rightarrow> tsv_scan \<Rightarrow> tsv_scan" where
  "scan_row T col s e rec sc =
     (let sc1 = sc\<lparr>ts_rows := ts_rows sc + 1\<rparr> in
      case (if col < length rec then tc_parse T (rec ! col) else None) of
        None \<Rightarrow> sc1\<lparr>ts_monotonic := False\<rparr>
      | Some t \<Rightarrow>
          sc1\<lparr>ts_monotonic := ts_monotonic sc \<and> (ts_previous sc = zero_time \<or> ts_previous sc \<le> t),
              ts_previous := t,
              ts_points := (if s \<le> t \<and> t < e then AList.update (unix_nano t) t (ts_points sc) else ts_points sc),
              ts_finite := ts_finite sc \<and> \<not> list_ex non_finite rec\<rparr>)"

fun max_gap :: "int list \<Rightarrow> int \<Rightarrow> int" where
  "max_gap (a # b # ps) g = max_gap (b # ps) (max g (millis (time_sub b a)))"
| "max_gap ps g = g"

text \<open>The verdict over the rows.\<close>

definition judge_scan :: "int \<Rightarrow> int \<Rightarrow> int \<Rightarrow> tsv_scan \<Rightarrow> artifact_quality" where
  "judge_scan s e interval sc =
     (let points = sort (map snd (ts_points sc));
          seen = int (length points);
          expected = max 1 (time_sub e s sdiv interval);
          gap = max_gap points 0;
          reasons =
            (if seen < max 1 (expected - 1)
             then [''load window has '' @ format_int seen @ ''/'' @ format_int expected @ '' expected samples''] else []) @
            (if millis ((5 * interval) sdiv 2) < gap then [''maximum sample gap is '' @ format_int gap @ ''ms''] else []) @
            (if ts_monotonic sc then [] else [''timestamps are not monotonic'']) @
            (if ts_finite sc then [] else [''non-finite numeric value detected''])
      in \<lparr>aq_expected = True, aq_status = (if reasons = [] then ''valid'' else ''invalid''), aq_rows = ts_rows sc,
          aq_in_window = seen, aq_expected_samples = expected,
          aq_coverage = min 100 (of_int (seen * 100) / of_int expected), aq_max_gap = gap,
          aq_monotonic = ts_monotonic sc, aq_finite = ts_finite sc, aq_reason = join_with ''; '' reasons\<rparr>)"

fun index_of :: "'a \<Rightarrow> 'a list \<Rightarrow> nat option" where
  "index_of x [] = None"
| "index_of x (y # ys) = (if x = y then Some 0 else map_option Suc (index_of x ys))"

definition bad_quality :: "string \<Rightarrow> string \<Rightarrow> artifact_quality" where
  "bad_quality status reason = (quality_of True status True)\<lparr>aq_reason := reason\<rparr>"

definition inspect_rows :: "time_codec \<Rightarrow> string \<Rightarrow> int \<Rightarrow> int \<Rightarrow> int \<Rightarrow> artifact_quality" where
  "inspect_rows T body s e interval =
     (case csv_parse body of
        ([], bad) \<Rightarrow> bad_quality ''invalid'' (if bad then ''read header: malformed record'' else ''read header: EOF'')
      | (header # rows, bad) \<Rightarrow>
          (case index_of ''timestamp'' header of
             None \<Rightarrow> bad_quality ''invalid'' ''timestamp column is missing''
           | Some col \<Rightarrow>
               (let sc = fold (scan_row T col s e) rows scan_start in
                if bad then
                  (bad_quality ''invalid'' ''read row: malformed record'')
                    \<lparr>aq_rows := ts_rows sc, aq_monotonic := ts_monotonic sc, aq_finite := ts_finite sc\<rparr>
                else judge_scan s e interval sc)))"

definition window_bounds :: "time_codec \<Rightarrow> load_window \<Rightarrow> (int \<times> int) option" where
  "window_bounds T w =
     (case (tc_parse T (lw_start w), tc_parse T (lw_end w)) of
        (Some s, Some e) \<Rightarrow> if s < e then Some (s, e) else None
      | _ \<Rightarrow> None)"

definition inspect_periodic :: "time_codec \<Rightarrow> reader \<Rightarrow> string \<Rightarrow> load_window \<Rightarrow> int \<Rightarrow> artifact_quality" where
  "inspect_periodic T read path w interval =
     (if lw_status w \<noteq> ''ok'' then bad_quality ''unavailable'' ''load window is unavailable''
      else
        (case window_bounds T w of
           None \<Rightarrow> bad_quality ''unavailable'' ''load window timestamps are invalid''
         | Some (s, e) \<Rightarrow>
             (case read path of
                Inl err \<Rightarrow> bad_quality ''invalid'' (error_text err)
              | Inr body \<Rightarrow> inspect_rows T body s e interval)))"

definition assess_one :: "time_codec \<Rightarrow> reader \<Rightarrow> string \<Rightarrow> load_window \<Rightarrow> artifact \<Rightarrow> artifact" where
  "assess_one T read dir w a =
     (case periodic_interval (af_name a) of
        None \<Rightarrow>
          a\<lparr>af_quality := (let q = quality_of False ''not-applicable'' True in
              if af_status a \<noteq> ''ok'' then q\<lparr>aq_status := ''invalid'', aq_reason := af_reason a\<rparr> else q)\<rparr>
      | Some interval \<Rightarrow>
          (let q = inspect_periodic T read (path_join [dir, af_name a]) w interval in
           a\<lparr>af_quality := (if af_status a \<noteq> ''ok''
              then q\<lparr>aq_status := ''invalid'', aq_reason := join_reasons [aq_reason q, af_reason a]\<rparr> else q)\<rparr>))"

definition assess_quality :: "time_codec \<Rightarrow> reader \<Rightarrow> string \<Rightarrow> load_window \<Rightarrow> artifact list \<Rightarrow> artifact list" where
  "assess_quality T read dir w as = map (assess_one T read dir w) as"

end
