(* ===== verification/MeasureDigest.thy ===== *)
theory MeasureDigest
  imports MeasureConfig MeasureQuality GoParallel GoExec GoMatch
begin

text \<open>
  The digests of \<open>measurectl\<close> (tools/measurectl/digest.go): fetching the raw logs, running the
  aggregations over them (locally, per host, or as a script on a remote role), the fallbacks for what
  is skipped or fails, and compressing the logs afterwards.

  The local files are an association list from paths to contents. Parameters: ssh acts on the rest of
  the world, rsync and zstd also on the local files; \<open>dv_exec\<close> runs one aggregation command with its
  reader, once \<open>dv_start\<close> has started that, and reports what the code sees of it; the outcomes of \<open>MkdirAll\<close>, \<open>Remove\<close>, \<open>CreateTemp\<close>,
  \<open>Rename\<close>, \<open>WriteFile\<close> and \<open>OpenFile\<close>; the PATH; the duration parser; the schedules. Waiting is not
  modelled. \<open>filepath.Glob\<close> selects the existing files whose path matches; a malformed pattern selects
  none, which the callers treat as they treat its error.
\<close>

section \<open>State\<close>

record 'w digest_state =
  ds_files :: tree
  ds_trace :: "cmd list"
  ds_out :: "string list"
  ds_world :: 'w

record exec_call =
  xc_argv :: "string list"
  xc_reader :: "(string \<times> string list) option"
  xc_timeout :: "int option"

record exec_reply =
  xr_stdout :: string
  xr_stderr :: string
  xr_err :: "go_error option"
  xr_reader_err :: "go_error option"
  xr_timed_out :: bool

record 'w digest_env =
  dv_ssh :: "cmd \<Rightarrow> 'w \<Rightarrow> ((string \<times> string) \<times> go_error option) \<times> 'w"
  dv_tool :: "cmd \<Rightarrow> tree \<times> 'w \<Rightarrow> (string \<times> go_error option) \<times> (tree \<times> 'w)"
  dv_start :: "string \<Rightarrow> string list \<Rightarrow> go_error option"
  dv_exec :: "exec_call \<Rightarrow> 'w \<Rightarrow> exec_reply \<times> 'w"
  dv_mkdir :: "string \<Rightarrow> go_error option"
  dv_remove :: "string \<Rightarrow> go_error option"
  dv_temp :: "string \<Rightarrow> string \<Rightarrow> tree \<Rightarrow> go_error + string"
  dv_rename :: "string \<Rightarrow> string \<Rightarrow> go_error option"
  dv_write :: "string \<Rightarrow> go_error option"
  dv_append :: "string \<Rightarrow> go_error option"
  dv_look_path :: "string \<Rightarrow> bool"
  dv_duration :: "string \<Rightarrow> go_error + int"
  dv_sched :: "nat \<Rightarrow> nat list"

record digest_runner =
  dn_cfg :: digest_config
  dn_run_dir :: string
  dn_raw_dir :: string
  dn_user :: string
  dn_opts :: "string list"
  dn_roles :: "(string, string list) gomap"
  dn_vars :: "(string, string) gomap"
  dn_dry :: bool
  dn_window :: load_window

definition tell :: "string \<Rightarrow> 'w digest_state \<Rightarrow> 'w digest_state" where
  "tell line st = st\<lparr>ds_out := ds_out st @ [line]\<rparr>"

definition exists_file :: "tree \<Rightarrow> string \<Rightarrow> bool" where
  "exists_file f p = (map_of f p \<noteq> None)"

definition file_size :: "tree \<Rightarrow> string \<Rightarrow> nat" where
  "file_size f p = length (lookup_or [] f p)"

definition glob_files :: "string \<Rightarrow> tree \<Rightarrow> string list" where
  "glob_files pattern f = sort (remdups (filter (glob pattern) (keys f)))"

definition write_file :: "'w digest_env \<Rightarrow> string \<Rightarrow> string \<Rightarrow> 'w digest_state \<Rightarrow> go_error option \<times> 'w digest_state" where
  "write_file E p body st =
     (case dv_write E p of
        Some e \<Rightarrow> (Some e, st) | None \<Rightarrow> (None, st\<lparr>ds_files := AList.update p body (ds_files st)\<rparr>))"

definition call_tool :: "'w digest_env \<Rightarrow> cmd \<Rightarrow> 'w digest_state \<Rightarrow> (string \<times> go_error option) \<times> 'w digest_state" where
  "call_tool E c st =
     (case dv_tool E c (ds_files st, ds_world st) of
        (res, f, w) \<Rightarrow> (res, st\<lparr>ds_files := f, ds_trace := ds_trace st @ [c], ds_world := w\<rparr>))"

section \<open>Names and paths\<close>

definition unescape :: "string \<Rightarrow> string" where
  "unescape = replacer [([CHR 0x5C, CHR ''t''], [CHR 0x09]), ([CHR 0x5C, CHR ''n''], nl)]"

definition digest_expand :: "digest_runner \<Rightarrow> string \<Rightarrow> string \<Rightarrow> string" where
  "digest_expand r s host =
     replace_matches measure_ph
       (\<lambda>key. case map_of (dn_vars r) (var_key key) of Some v \<Rightarrow> v | None \<Rightarrow> key)
       (replacer [(''{run_dir}'', dn_run_dir r), (''{raw_dir}'', dn_raw_dir r), (''{host}'', host),
          (''{load_start}'', lw_start (dn_window r)), (''{load_end}'', lw_end (dn_window r))] s)"

definition inputs_for_host :: "digest_runner \<Rightarrow> source \<Rightarrow> string \<Rightarrow> tree \<Rightarrow> string list" where
  "inputs_for_host r s host f =
     (let pattern = digest_expand r (so_local s) host;
          plain = filter (\<lambda>m. 0 < file_size f m) (glob_files pattern f)
      in plain @ filter (\<lambda>m. trim_suffix m ''.zst'' \<notin> set plain \<and> 0 < file_size f m) (glob_files (pattern @ ''.zst'') f))"

definition inputs_for :: "digest_runner \<Rightarrow> source \<Rightarrow> tree \<Rightarrow> string list" where
  "inputs_for r s f = inputs_for_host r s ''*'' f"

definition build_argv :: "digest_runner \<Rightarrow> string \<Rightarrow> string list \<Rightarrow> string \<Rightarrow> string list" where
  "build_argv r run inputs host =
     concat (map (\<lambda>t. if t = ''{input}'' then inputs else [digest_expand r t host]) (str_fields run))"

definition append_stderr :: "'w digest_env \<Rightarrow> digest_runner \<Rightarrow> digester \<Rightarrow> string \<Rightarrow> string \<Rightarrow> 'w digest_state \<Rightarrow> 'w digest_state" where
  "append_stderr E r d msg host st =
     (if dg_stderr d = [] \<or> dn_dry r then st
      else
        (let p = path_join [dn_run_dir r, digest_expand r (dg_stderr d) host] in
         case dv_append E p of
           Some _ \<Rightarrow> st
         | None \<Rightarrow> st\<lparr>ds_files := AList.update p (lookup_or [] (ds_files st) p @ msg @ nl) (ds_files st)\<rparr>))"

definition output_path :: "digest_runner \<Rightarrow> digest_output \<Rightarrow> string \<Rightarrow> string" where
  "output_path r x host = path_join [dn_run_dir r, digest_expand r (do_file x) host]"

section \<open>Skipping\<close>

definition skip_body :: "digest_output \<Rightarrow> string" where
  "skip_body x = (let body = unescape (do_on_skip x) in if body = [] then [] else body @ nl)"

text \<open>Writing the outputs one after the other; the first error ends the loop.\<close>

fun write_outputs :: "'w digest_env \<Rightarrow> (digest_output \<Rightarrow> string) \<Rightarrow> (digest_output \<Rightarrow> string) \<Rightarrow>
    (digest_output \<Rightarrow> string list) \<Rightarrow> digest_output list \<Rightarrow> 'w digest_state \<Rightarrow> go_error option \<times> 'w digest_state" where
  "write_outputs E path body note [] st = (None, st)"
| "write_outputs E path body note (x # xs) st =
     (case write_file E (path x) (body x) st of
        (Some e, st1) \<Rightarrow> (Some e, st1)
      | (None, st1) \<Rightarrow> write_outputs E path body note xs (fold tell (note x) st1))"

definition skip_digest :: "'w digest_env \<Rightarrow> digest_runner \<Rightarrow> digester \<Rightarrow> string \<Rightarrow> 'w digest_state \<Rightarrow> go_error option \<times> 'w digest_state" where
  "skip_digest E r d reason st =
     (if dn_dry r then (None, tell (''[dry-run] skip '' @ dg_name d @ '': '' @ reason) st)
      else
        (case (if dg_stderr d = [] then (None, st)
               else write_file E (path_join [dn_run_dir r, dg_stderr d]) (reason @ nl) st) of
           (Some e, st1) \<Rightarrow> (Some e, st1)
         | (None, st1) \<Rightarrow>
             (case write_outputs E (\<lambda>x. path_join [dn_run_dir r, do_file x]) skip_body (\<lambda>_. []) (dg_outputs d) st1 of
                (Some e, st2) \<Rightarrow> (Some e, st2)
              | (None, st2) \<Rightarrow> (None, tell (dg_name d @ '' skipped ('' @ reason @ '')'') st2))))"

definition skip_outputs :: "'w digest_env \<Rightarrow> digest_runner \<Rightarrow> digester \<Rightarrow> string \<Rightarrow> string \<Rightarrow> string \<Rightarrow>
    'w digest_state \<Rightarrow> go_error option \<times> 'w digest_state" where
  "skip_outputs E r d host reason note st =
     (case write_outputs E (\<lambda>x. output_path r x host) skip_body (\<lambda>_. []) (dg_outputs d) (append_stderr E r d reason host st) of
        (Some e, st1) \<Rightarrow> (Some e, st1)
      | (None, st1) \<Rightarrow> (None, tell (dg_name d @ '' skipped ('' @ note @ '')'') st1))"

definition skip_host :: "'w digest_env \<Rightarrow> digest_runner \<Rightarrow> digester \<Rightarrow> string \<Rightarrow> string \<Rightarrow> 'w digest_state \<Rightarrow>
    go_error option \<times> 'w digest_state" where
  "skip_host E r d host reason st =
     (if dn_dry r then (None, tell (''[dry-run] skip '' @ dg_name d @ '' on '' @ host @ '': '' @ reason) st)
      else skip_outputs E r d host reason (reason @ '', host='' @ host) st)"

definition missing_tool :: "'w digest_env \<Rightarrow> digester \<Rightarrow> digest_output \<Rightarrow> string option" where
  "missing_tool E d x =
     (case str_fields (do_run x) of
        [] \<Rightarrow> None
      | bin # _ \<Rightarrow>
          if CHR ''/'' \<in> set bin \<or> dv_look_path E bin then None
          else Some (bin @ '' command not found in PATH'' @ (if dg_hint d = [] then [] else '' ('' @ dg_hint d @ '')'')))"

definition source_inputs :: "digest_runner \<Rightarrow> digester \<Rightarrow> source \<Rightarrow> string \<Rightarrow> tree \<Rightarrow> string list" where
  "source_inputs r d src host f = (if dg_per_host d then inputs_for_host r src host f else inputs_for r src f)"

definition skip_reason :: "'w digest_env \<Rightarrow> digest_runner \<Rightarrow> digester \<Rightarrow> source \<Rightarrow> string \<Rightarrow> tree \<Rightarrow> string" where
  "skip_reason E r d src host f =
     (if source_inputs r d src host f = [] then
        dg_name d @ '' skipped: '' @ so_name src @ '' not collected'' @ (if host = [] then [] else '' on '' @ host)
      else (case find (\<lambda>x. missing_tool E d x \<noteq> None) (dg_outputs d) of
          None \<Rightarrow> []
        | Some x \<Rightarrow> (case missing_tool E d x of None \<Rightarrow> [] | Some reason \<Rightarrow> reason)))"

section \<open>Running an aggregation\<close>

text \<open>\<open>exec\<close>: the error, whether the time was up, and the state with the output file written.\<close>

definition exec_output :: "'w digest_env \<Rightarrow> digest_runner \<Rightarrow> digester \<Rightarrow> int option \<Rightarrow> string list \<Rightarrow> string list \<Rightarrow> string \<Rightarrow>
    string \<Rightarrow> 'w digest_state \<Rightarrow> (go_error option \<times> bool) \<times> 'w digest_state" where
  "exec_output E r d timeout argv inputs path host st =
     (let reader = (if dg_stdin d = [] then None else Some (dg_stdin d, inputs)) in
      case (case reader of None \<Rightarrow> None | Some (c, args) \<Rightarrow> dv_start E c args) of
        Some e \<Rightarrow> ((Some e, False), st)
      | None \<Rightarrow>
     (case write_file E path [] st of
        (Some e, st1) \<Rightarrow> ((Some e, False), st1)
      | (None, st1) \<Rightarrow>
     (case dv_exec E \<lparr>xc_argv = argv, xc_reader = reader, xc_timeout = timeout\<rparr> (ds_world st1) of (reply, w) \<Rightarrow>
        (let st2 = st1\<lparr>ds_trace := ds_trace st1 @ [Cmd (hd argv) (tl argv) (dg_stdin d)], ds_world := w,
               ds_files := AList.update path (xr_stdout reply) (ds_files st1)\<rparr>;
             err = (case xr_err reply of
               Some e \<Rightarrow> Some e | None \<Rightarrow> (if reader = None then None else xr_reader_err reply))
         in ((err, xr_timed_out reply),
             if err \<noteq> None \<and> trim_space (xr_stderr reply) \<noteq> []
             then append_stderr E r d (trim_space (xr_stderr reply)) host st2 else st2)))))"

definition run_output :: "'w digest_env \<Rightarrow> digest_runner \<Rightarrow> digester \<Rightarrow> string list \<Rightarrow> string \<Rightarrow> digest_output \<Rightarrow>
    'w digest_state \<Rightarrow> go_error option \<times> 'w digest_state" where
  "run_output E r d inputs host x st =
     (let path = output_path r x host; argv = build_argv r (do_run x) inputs host in
      if argv = [] then (Some (Errorf ''run is empty'' [do_file x] []), st)
      else if dn_dry r then
        (None, tell (if dg_stdin d \<noteq> []
           then ''[dry-run] '' @ dg_stdin d @ '' '' @ join_with '' '' inputs @ '' | '' @ join_with '' '' argv @ '' > '' @ path
           else ''[dry-run] '' @ join_with '' '' argv @ '' > '' @ path) st)
      else
     (case (if dg_timeout d = [] then Inr None
            else (case dv_duration E (dg_timeout d) of Inl e \<Rightarrow> Inl e | Inr t \<Rightarrow> Inr (Some t))) of
        Inl e \<Rightarrow> (Some (Errorf ''cannot parse timeout'' [] [e]), st)
      | Inr timeout \<Rightarrow>
     (case exec_output E r d timeout argv inputs path host st of
        ((None, _), st1) \<Rightarrow>
          (if do_on_empty x \<noteq> [] then
             (case map_of (ds_files st1) path of
                None \<Rightarrow> (Some (Errorf ''stat'' [path] []), st1)
              | Some body \<Rightarrow>
                  if body \<noteq> [] then (None, tell (path @ '' done'') st1)
                  else (case write_file E path (unescape (do_on_empty x)) st1 of
                      (Some e, st2) \<Rightarrow> (Some e, st2) | (None, st2) \<Rightarrow> (None, tell (path @ '' done'') st2)))
           else (None, tell (path @ '' done'') st1))
      | ((Some e0, timed_out), st1) \<Rightarrow>
          (let e = (if timed_out then Errorf ''timed out'' [dg_timeout d] [] else e0);
               st2 = append_stderr E r d (path_base path @ '' failed: '' @ error_text e) host st1
           in if do_on_error x \<noteq> [] then write_file E path (unescape (do_on_error x)) st2
              else (Some (Errorf ''output'' [do_file x] [e]), st2)))))"

definition digest_source :: "'w digest_env \<Rightarrow> digest_runner \<Rightarrow> digester \<Rightarrow> source \<Rightarrow> string \<Rightarrow> 'w digest_state \<Rightarrow>
    go_error option \<times> 'w digest_state" where
  "digest_source E r d src host st =
     (let reason = skip_reason E r d src host (ds_files st) in
      if reason \<noteq> [] then (if dg_per_host d then skip_host E r d host reason st else skip_digest E r d reason st)
      else sched_parallel (dv_sched E) (run_output E r d (source_inputs r d src host (ds_files st)) host) (dg_outputs d) st)"

text \<open>\<open>parallelIndex\<close> runs a function on every index; its callers look the item up by the index.\<close>

definition parallel_index :: "'w digest_env \<Rightarrow> nat \<Rightarrow> (nat \<Rightarrow> 'w digest_state \<Rightarrow> go_error option \<times> 'w digest_state) \<Rightarrow>
    'w digest_state \<Rightarrow> go_error option \<times> 'w digest_state" where
  "parallel_index E n fn st = sched_parallel (dv_sched E) fn [0..<n] st"

section \<open>Remote aggregations\<close>

definition remote_body :: "digest_output \<Rightarrow> string \<Rightarrow> string" where
  "remote_body x out = (if do_header x = [] then out else unescape (do_header x) @ nl @ out)"

definition line_total :: "string \<Rightarrow> nat" where
  "line_total out = count_list (trim_space out) (CHR 0x0A) + 1"

definition digest_ssh :: "digest_runner \<Rightarrow> string \<Rightarrow> string \<Rightarrow> cmd" where
  "digest_ssh r host script =
     Cmd ''ssh'' ([''-o'', ''RequestTTY=no'', ''-o'', ''LogLevel=ERROR''] @ dn_opts r @ [dn_user r @ ''@'' @ host, ''sh -s'']) script"

definition remote_host :: "'w digest_env \<Rightarrow> digest_runner \<Rightarrow> digester \<Rightarrow> remote_script \<Rightarrow> string \<Rightarrow> 'w digest_state \<Rightarrow>
    go_error option \<times> 'w digest_state" where
  "remote_host E r d rs host st =
     (let script = digest_expand r (rm_script rs) host in
      if unresolved script \<noteq> [] then (Some (Errorf ''remote script has unresolved placeholders'' (host # unresolved script) []), st)
      else if dn_dry r then (None, tell (''[dry-run] ssh '' @ host @ '' sh -s <<'' @ sq ''EOF'' @ nl @ script @ ''EOF'') st)
      else
        (case dv_ssh E (digest_ssh r host script) (ds_world st) of
           (((out, err_out), e), w) \<Rightarrow>
             (let st1 = st\<lparr>ds_trace := ds_trace st @ [digest_ssh r host script], ds_world := w\<rparr> in
              case e of
                Some x \<Rightarrow>
                  (let reason = ''['' @ host @ ''] '' @ dg_name d @ '' skipped: '' @
                     (if trim_space err_out = [] then error_text x else trim_space err_out)
                   in skip_outputs E r d host reason reason st1)
              | None \<Rightarrow> write_outputs E (\<lambda>x. output_path r x host) (\<lambda>x. remote_body x out)
                  (\<lambda>x. [output_path r x host @ '' digested ('' @ format_nat (line_total out) @ '' lines)'']) (dg_outputs d) st1)))"

definition digest_remote :: "'w digest_env \<Rightarrow> digest_runner \<Rightarrow> digester \<Rightarrow> remote_script \<Rightarrow> 'w digest_state \<Rightarrow>
    go_error option \<times> 'w digest_state" where
  "digest_remote E r d rs st =
     (if (contains_str (rm_script rs) ''{load_start}'' \<or> contains_str (rm_script rs) ''{load_end}'') \<and> lw_status (dn_window r) \<noteq> ''ok''
      then (Some (Errorf ''requires a valid benchmark load window'' [dg_name d, lw_reason (dn_window r)] []), st)
      else (case lookup_or [] (dn_roles r) (rm_role rs) of
          [] \<Rightarrow> (Some (Errorf ''no hosts given for the role'' [rm_role rs] []), st)
        | h # hs \<Rightarrow>
            (let hosts = (if rm_per_host rs then h # hs else [h]) in
             parallel_index E (length hosts) (\<lambda>i. remote_host E r d rs (hosts ! i)) st)))"

definition digest_one :: "'w digest_env \<Rightarrow> digest_runner \<Rightarrow> digester \<Rightarrow> 'w digest_state \<Rightarrow> go_error option \<times> 'w digest_state" where
  "digest_one E r d st =
     (case dg_remote d of
        Some rs \<Rightarrow> digest_remote E r d rs st
      | None \<Rightarrow>
          (case find_source (dn_cfg r) (dg_source d) of
             None \<Rightarrow> (Some (Errorf ''source is not declared'' [dg_source d] []), st)
           | Some src \<Rightarrow>
               if dg_per_host d then
                 (case lookup_or [] (dn_roles r) (so_role src) of
                    [] \<Rightarrow> (Some (Errorf ''no hosts given for the role of the source'' [so_name src, so_role src] []), st)
                  | h # hs \<Rightarrow> parallel_index E (length (h # hs)) (\<lambda>i. digest_source E r d src ((h # hs) ! i)) st)
               else digest_source E r d src [] st))"

definition digest_all :: "'w digest_env \<Rightarrow> digest_runner \<Rightarrow> 'w digest_state \<Rightarrow> go_error option \<times> 'w digest_state" where
  "digest_all E r st =
     sched_parallel (dv_sched E)
       (\<lambda>d s. case digest_one E r d s of
          (None, s') \<Rightarrow> (None, s') | (Some e, s') \<Rightarrow> (Some (Errorf ''digester'' [dg_name d] [e]), s'))
       (dc_digesters (dn_cfg r)) st"

section \<open>Fetching the raw logs\<close>

definition digest_rsync_args :: "digest_runner \<Rightarrow> string \<Rightarrow> string \<Rightarrow> string list" where
  "digest_rsync_args r host remote =
     [''-az'', ''--rsync-path=sudo rsync'', ''-e'',
      ''ssh '' @ join_with '' '' ([''-o'', ''RequestTTY=no'', ''-o'', ''LogLevel=ERROR''] @ dn_opts r),
      dn_user r @ ''@'' @ host @ '':'' @ remote]"

definition digest_rsync :: "'w digest_env \<Rightarrow> digest_runner \<Rightarrow> string \<Rightarrow> string \<Rightarrow> string \<Rightarrow> 'w digest_state \<Rightarrow>
    go_error option \<times> 'w digest_state" where
  "digest_rsync E r host remote local st =
     (case (if dn_dry r then None else dv_mkdir E (path_dir local)) of
        Some e \<Rightarrow> (Some e, st)
      | None \<Rightarrow>
          (let args = digest_rsync_args r host remote @ [local]
           in if dn_dry r then (None, tell (''[dry-run] rsync '' @ join_with '' '' args) st)
              else (case call_tool E (Cmd ''rsync'' args []) st of
                  ((out, None), st1) \<Rightarrow> (None, st1)
                | ((out, Some e), st1) \<Rightarrow> (Some (Errorf ''rsync'' [trim_space out] [e]), st1))))"

definition remove_file :: "'w digest_env \<Rightarrow> string \<Rightarrow> 'w digest_state \<Rightarrow> go_error option \<times> 'w digest_state" where
  "remove_file E p st =
     (case dv_remove E p of
        Some e \<Rightarrow> (Some (Errorf ''cannot remove stale raw'' [] [e]), st)
      | None \<Rightarrow> (None, st\<lparr>ds_files := AList.delete p (ds_files st)\<rparr>))"

definition drop_temp :: "string \<Rightarrow> 'w digest_state \<Rightarrow> 'w digest_state" where
  "drop_temp p st = st\<lparr>ds_files := AList.delete p (ds_files st)\<rparr>"

definition fetch_source :: "'w digest_env \<Rightarrow> digest_runner \<Rightarrow> source \<Rightarrow> string \<Rightarrow> 'w digest_state \<Rightarrow> go_error option \<times> 'w digest_state" where
  "fetch_source E r src host st =
     (let local = digest_expand r (so_local src) host in
      if dn_dry r then
        digest_rsync E r host (so_remote src) local
          (if 0 < so_delay src then tell (''[dry-run] wait before fetching '' @ so_name src @ '' from '' @ host) st else st)
      else
     (case dv_mkdir E (path_dir local) of
        Some e \<Rightarrow> (Some e, st)
      | None \<Rightarrow>
     (case remove_file E local st of
        (Some e, st1) \<Rightarrow> (Some e, st1)
      | (None, st1) \<Rightarrow>
     (case remove_file E (local @ ''.zst'') st1 of
        (Some e, st2) \<Rightarrow> (Some e, st2)
      | (None, st2) \<Rightarrow>
     (case dv_temp E (path_dir local) (''.'' @ path_base local @ ''.fetch-*'') (ds_files st2) of
        Inl e \<Rightarrow> (Some e, st2)
      | Inr tmp \<Rightarrow>
          (let st3 = st2\<lparr>ds_files := AList.update tmp [] (ds_files st2)\<rparr> in
           case digest_rsync E r host (so_remote src) tmp st3 of
             (Some e, st4) \<Rightarrow> (Some e, drop_temp tmp st4)
           | (None, st4) \<Rightarrow>
               (case dv_rename E tmp local of
                  Some e \<Rightarrow> (Some (Errorf ''cannot rename raw'' [] [e]), drop_temp tmp st4)
                | None \<Rightarrow>
                    (None, st4\<lparr>ds_files := AList.update local (lookup_or [] (ds_files st4) tmp) (AList.delete tmp (ds_files st4))\<rparr>))))))))"

text \<open>What a failed fetch leaves for the digesters of the source: the reason, and empty outputs where
  there are none. Failing writes are ignored.\<close>

definition ensure_output :: "'w digest_env \<Rightarrow> digest_runner \<Rightarrow> digester \<Rightarrow> string \<Rightarrow> digest_output \<Rightarrow> 'w digest_state \<Rightarrow> 'w digest_state" where
  "ensure_output E r d host x st =
     (let p = (if dg_per_host d then output_path r x host else path_join [dn_run_dir r, do_file x]) in
      if exists_file (ds_files st) p then st else snd (write_file E p [] st))"

definition mark_fetch_failure :: "'w digest_env \<Rightarrow> digest_runner \<Rightarrow> source \<Rightarrow> string \<Rightarrow> go_error \<Rightarrow> 'w digest_state \<Rightarrow> 'w digest_state" where
  "mark_fetch_failure E r src host e st =
     (if dn_dry r then st
      else
        (let reason = so_name src @ '' source fetch failed on '' @ host @ '': '' @ error_text e in
         fold (\<lambda>d s. fold (ensure_output E r d host) (dg_outputs d)
             (append_stderr E r d reason (if dg_per_host d then host else []) s))
           (filter (\<lambda>d. dg_source d = so_name src) (dc_digesters (dn_cfg r))) st))"

definition fetch_job :: "'w digest_env \<Rightarrow> digest_runner \<Rightarrow> source \<times> string \<Rightarrow> 'w digest_state \<Rightarrow> go_error option \<times> 'w digest_state" where
  "fetch_job E r sh st =
     (case sh of (src, host) \<Rightarrow>
        (case fetch_source E r src host st of
           (Some e, st1) \<Rightarrow> (Some (Errorf ''[host] name'' [host, so_name src] [e]), mark_fetch_failure E r src host e st1)
         | (None, st1) \<Rightarrow>
             (None, if dn_dry r then st1
               else tell (''['' @ host @ ''] '' @ digest_expand r (so_local src) host @ '' saved'') st1)))"

definition fetch_all :: "'w digest_env \<Rightarrow> digest_runner \<Rightarrow> 'w digest_state \<Rightarrow> go_error option \<times> 'w digest_state" where
  "fetch_all E r st =
     (case map_res (\<lambda>s. case map_of (dn_roles r) (so_role s) of
           None \<Rightarrow> Inl (Errorf ''no hosts given for the role of the source'' [so_name s, so_role s] [])
         | Some hosts \<Rightarrow> Inr (map (Pair s) hosts)) (dc_sources (dn_cfg r)) of
        Inl e \<Rightarrow> (Some e, st)
      | Inr jss \<Rightarrow> sched_parallel (dv_sched E) (fetch_job E r) (concat jss) st)"

section \<open>Compressing\<close>

definition zstd_cmd :: "string \<Rightarrow> cmd" where
  "zstd_cmd f = Cmd ''zstd'' [''-q'', ''-3'', ''-T0'', ''--rm'', f] []"

definition compress_file :: "'w digest_env \<Rightarrow> digest_runner \<Rightarrow> string \<Rightarrow> go_error list \<times> 'w digest_state \<Rightarrow> go_error list \<times> 'w digest_state" where
  "compress_file E r f es =
     (case es of (errs, st) \<Rightarrow>
        if has_suffix f ''.zst'' then (errs, st)
        else if dn_dry r then (errs, tell (''[dry-run] zstd -q -3 -T0 --rm '' @ f) st)
        else (case call_tool E (zstd_cmd f) st of
            ((out, Some e), st1) \<Rightarrow> (errs @ [Errorf ''zstd'' [f, trim_space out] [e]], st1)
          | ((out, None), st1) \<Rightarrow>
              (errs, tell (path_base f @ ''.zst compressed ('' @ format_nat (file_size (ds_files st) f div 1048576) @ ''MB -> '' @
                 format_nat (file_size (ds_files st1) (f @ ''.zst'') div 1048576) @ ''MB)'') st1)))"

definition compress_all :: "'w digest_env \<Rightarrow> digest_runner \<Rightarrow> 'w digest_state \<Rightarrow> go_error option \<times> 'w digest_state" where
  "compress_all E r st =
     (case fold (\<lambda>s es. fold (compress_file E r) (glob_files (digest_expand r (so_local s) ''*'') (ds_files (snd es))) es)
         (filter so_compress (dc_sources (dn_cfg r))) ([], st) of
        (errs, st1) \<Rightarrow> (errors_join errs, st1))"

section \<open>The command\<close>

record digest_flags =
  df_run_dir :: string
  df_raw_dir :: string
  df_user :: string
  df_opts :: string
  df_only :: string
  df_skip_fetch :: bool
  df_dry :: bool
  df_roles :: "(string, string list) gomap"
  df_vars :: "(string, string) gomap"

definition filter_digesters :: "digester list \<Rightarrow> string list \<Rightarrow> digester list" where
  "filter_digesters all names =
     (let want = filter (\<lambda>n. n \<noteq> []) (map trim_space names) in filter (\<lambda>d. dg_name d \<in> set want) all)"

definition select_digesters :: "string \<Rightarrow> digest_config \<Rightarrow> go_error + digest_config" where
  "select_digesters only cfg =
     (if only \<noteq> [] then
        (let ds = filter_digesters (dc_digesters cfg) (split_char (CHR '','') only) in
         if ds = [] then Inl (Errorf ''-only matches no digester'' [] []) else Inr (cfg\<lparr>dc_digesters := ds\<rparr>))
      else Inr (cfg\<lparr>dc_digesters := filter digester_enabled (dc_digesters cfg)\<rparr>))"

definition make_digest_runner :: "digest_flags \<Rightarrow> digest_config \<Rightarrow> load_window \<Rightarrow> digest_runner" where
  "make_digest_runner f cfg window =
     \<lparr>dn_cfg = cfg, dn_run_dir = df_run_dir f, dn_raw_dir = df_raw_dir f, dn_user = df_user f,
      dn_opts = str_fields (df_opts f), dn_roles = df_roles f, dn_vars = df_vars f, dn_dry = df_dry f, dn_window = window\<rparr>"

text \<open>\<open>runDigest\<close>: a failing fetch or compression is only reported; the result is that of the digests.\<close>

definition run_digest :: "'w digest_env \<Rightarrow> (string list \<Rightarrow> go_error + digest_flags) \<Rightarrow> digest_config decl_file \<Rightarrow>
    time_codec \<Rightarrow> string list \<Rightarrow> 'w digest_state \<Rightarrow> go_error option \<times> 'w digest_state" where
  "run_digest E parse file T args st =
     (case parse args of
        Inl e \<Rightarrow> (Some e, st)
      | Inr f \<Rightarrow>
          if df_run_dir f = [] then (Some (Errorf ''-run-dir is required'' [] []), st)
          else
         (case load_digest_config file of
            Inl e \<Rightarrow> (Some e, st)
          | Inr cfg0 \<Rightarrow>
         (case select_digesters (df_only f) cfg0 of
            Inl e \<Rightarrow> (Some e, st)
          | Inr cfg \<Rightarrow>
              (let r = make_digest_runner f cfg
                     (resolve_load_window T (lookup_or [] (ds_files st) (path_join [df_run_dir f, ''bench.log''])))
               in case (if df_dry f then None else dv_mkdir E (df_run_dir f)) of
                    Some e \<Rightarrow> (Some e, st)
                  | None \<Rightarrow>
                      (let st1 = (if df_skip_fetch f then st else snd (fetch_all E r st)) in
                       case digest_all E r st1 of (err, st2) \<Rightarrow> (err, snd (compress_all E r st2)))))))"

end
