(* ===== verification/MeasureDigestProperties.thy ===== *)
theory MeasureDigestProperties
  imports MeasureDigest
begin

text \<open>
  The properties of the digests (tools/measurectl/digest.go): a fetched log is complete or absent, every
  log is read once, every declared output is there after a success, and compressing loses no log.
\<close>

section \<open>A small installation\<close>

text \<open>One source fetched from one host, one aggregation over it and one remote script.\<close>

definition demo_tools :: "cmd \<Rightarrow> tree \<times> nat \<Rightarrow> (string \<times> go_error option) \<times> (tree \<times> nat)" where
  "demo_tools c s =
     (let p = last (cmd_args c); f = fst s in
      if cmd_name c = ''rsync'' then (([], None), (AList.update p ''GET /'' f, snd s))
      else if map_of f p \<noteq> None \<and> map_of f (p @ ''.zst'') = None
      then (([], None), (AList.update (p @ ''.zst'') (CHR ''Z'' # lookup_or [] f p) (AList.delete p f), snd s))
      else ((''failed'', Some (Errorf ''exit'' [] [])), s))"

definition demo_digest_env :: "nat digest_env" where
  "demo_digest_env = \<lparr>
     dv_ssh = (\<lambda>c n. (((''1'', []), None), n + 1)),
     dv_tool = demo_tools,
     dv_start = (\<lambda>_ _. None),
     dv_exec = (\<lambda>c n. (\<lparr>xr_stdout = ''1 GET /'', xr_stderr = [], xr_err = None, xr_reader_err = None, xr_timed_out = False\<rparr>, n + 1)),
     dv_mkdir = (\<lambda>_. None), dv_remove = (\<lambda>_. None),
     dv_temp = (\<lambda>d pat f. if map_of f ''raw/tmp'' = None then Inr ''raw/tmp'' else Inl (Errorf ''exists'' [] [])),
     dv_rename = (\<lambda>_ _. None), dv_write = (\<lambda>_. None), dv_append = (\<lambda>_. None), dv_look_path = (\<lambda>_. True),
     dv_duration = (\<lambda>_. Inr 0), dv_sched = (\<lambda>n. rev [0..<n])\<rparr>"

definition demo_source :: source where
  "demo_source = \<lparr>so_name = ''nginx'', so_role = ''web'', so_remote = ''/var/log/a.log'', so_local = ''{raw_dir}/{host}.log'',
     so_compress = True, so_delay = 0\<rparr>"

definition demo_digesters :: "digester list" where
  "demo_digesters =
     [\<lparr>dg_per_host = False, dg_enabled = None, dg_name = ''alp'', dg_label = [], dg_source = ''nginx'', dg_remote = None,
       dg_stderr = ''alp.stderr'', dg_stdin = [], dg_timeout = [], dg_hint = [],
       dg_outputs = [\<lparr>do_file = ''alp.tsv'', do_run = ''alp {input}'', do_header = [], do_on_error = [], do_on_skip = [], do_on_empty = []\<rparr>]\<rparr>,
      \<lparr>dg_per_host = False, dg_enabled = None, dg_name = ''rows'', dg_label = [], dg_source = [],
       dg_remote = Some \<lparr>rm_role = ''web'', rm_per_host = True, rm_script = ''count''\<rparr>,
       dg_stderr = [], dg_stdin = [], dg_timeout = [], dg_hint = [],
       dg_outputs = [\<lparr>do_file = ''{host}-rows.tsv'', do_run = [], do_header = ''n'', do_on_error = [], do_on_skip = [], do_on_empty = []\<rparr>]\<rparr>]"

definition demo_digest :: digest_runner where
  "demo_digest = \<lparr>dn_cfg = \<lparr>dc_sources = [demo_source], dc_digesters = demo_digesters\<rparr>,
     dn_run_dir = ''runs/1'', dn_raw_dir = ''raw'', dn_user = ''u'', dn_opts = [], dn_roles = [(''web'', [''h1''])],
     dn_vars = [], dn_dry = False, dn_window = no_window\<rparr>"

definition demo_digest_state :: "tree \<Rightarrow> nat digest_state" where
  "demo_digest_state f = \<lparr>ds_files = f, ds_trace = [], ds_out = [], ds_world = 0\<rparr>"

lemma demo_digest_live: "\<not> dn_dry demo_digest"
  by (simp add: demo_digest_def)

section \<open>Files\<close>

lemma map_of_update [simp]: "map_of (AList.update k v m) = (map_of m)(k \<mapsto> v)"
  by (rule update_conv')

lemma map_of_delete [simp]: "map_of (AList.delete k m) = (map_of m)(k := None)"
  by (rule delete_conv')

lemma exists_update [simp]: "exists_file (AList.update k v m) p \<longleftrightarrow> p = k \<or> exists_file m p"
  by (simp add: exists_file_def)

lemma tell_simps [simp]:
  "ds_files (tell l st) = ds_files st" "ds_trace (tell l st) = ds_trace st" "ds_world (tell l st) = ds_world st"
  by (simp_all add: tell_def)

lemma fold_tell_files [simp]: "ds_files (fold tell ls st) = ds_files st"
  by (induction ls arbitrary: st) simp_all

lemma drop_temp_simps [simp]:
  "ds_files (drop_temp p st) = AList.delete p (ds_files st)" "ds_trace (drop_temp p st) = ds_trace st"
  by (simp_all add: drop_temp_def)

section \<open>Fetching\<close>

text \<open>
  What the code relies on: \<open>CreateTemp\<close> makes a new file, and its pattern gives it another name than the
  log's; rsync with one file as its destination changes no other file.
\<close>

definition temp_fresh :: "'w digest_env \<Rightarrow> string \<Rightarrow> bool" where
  "temp_fresh E local =
     (\<forall>pat f t. dv_temp E (path_dir local) pat f = Inr t \<longrightarrow> map_of f t = None \<and> t \<noteq> local \<and> t \<noteq> local @ ''.zst'')"

definition rsync_one_file :: "'w digest_env \<Rightarrow> bool" where
  "rsync_one_file E =
     (\<forall>args dest f w res f' w' p.
        dv_tool E (Cmd ''rsync'' (args @ [dest]) []) (f, w) = (res, f', w') \<and> p \<noteq> dest \<longrightarrow> map_of f' p = map_of f p)"

definition delivered :: "'w digest_env \<Rightarrow> cmd \<Rightarrow> string \<Rightarrow> bool" where
  "delivered E c body = (\<exists>s out f w. dv_tool E c s = ((out, None), f, w) \<and> body = lookup_or [] f (last (cmd_args c)))"

lemma digest_rsync_live:
  assumes "\<not> dn_dry r" and "rsync_one_file E" and "digest_rsync E r host remote dest st = (res, st')"
  shows "p \<noteq> dest \<Longrightarrow> map_of (ds_files st') p = map_of (ds_files st) p"
    and "res = None \<Longrightarrow> delivered E (last (ds_trace st')) (lookup_or [] (ds_files st') dest)"
    and "res = None \<Longrightarrow> \<exists>args. ds_trace st' = ds_trace st @ [Cmd ''rsync'' (args @ [dest]) []]"
proof -
  obtain out err f w where t: "dv_tool E (Cmd ''rsync'' (digest_rsync_args r host remote @ [dest]) []) (ds_files st, ds_world st) = ((out, err), f, w)"
    by (metis prod.collapse)
  have run: "digest_rsync E r host remote dest st =
      (case dv_mkdir E (path_dir dest) of Some e \<Rightarrow> (Some e, st)
       | None \<Rightarrow> (map_option (\<lambda>e. Errorf ''rsync'' [trim_space out] [e]) err,
           st\<lparr>ds_files := f, ds_trace := ds_trace st @ [Cmd ''rsync'' (digest_rsync_args r host remote @ [dest]) []], ds_world := w\<rparr>))"
    using assms(1) t by (cases err) (simp_all add: digest_rsync_def call_tool_def Let_def split: option.splits)
  show "p \<noteq> dest \<Longrightarrow> map_of (ds_files st') p = map_of (ds_files st) p"
    using run assms(2,3) t unfolding rsync_one_file_def by (fastforce split: option.splits)
  show "res = None \<Longrightarrow> delivered E (last (ds_trace st')) (lookup_or [] (ds_files st') dest)"
    using run assms(3) t by (auto simp: delivered_def split: option.splits intro!: exI)
  show "res = None \<Longrightarrow> \<exists>args. ds_trace st' = ds_trace st @ [Cmd ''rsync'' (args @ [dest]) []]"
    using run assms(3) by (auto split: option.splits)
qed

lemma remove_file_result:
  "remove_file E p st = (res, st') \<Longrightarrow>
   ds_trace st' = ds_trace st \<and> (\<forall>q. q \<noteq> p \<longrightarrow> map_of (ds_files st') q = map_of (ds_files st) q) \<and>
   (if res = None then map_of (ds_files st') p = None else st' = st)"
  by (auto simp: remove_file_def split: option.splits)

text \<open>The steps of a fetch from the creation of the temporary file on.\<close>

definition fetch_to_temp :: "'w digest_env \<Rightarrow> digest_runner \<Rightarrow> source \<Rightarrow> string \<Rightarrow> string \<Rightarrow> string \<Rightarrow> 'w digest_state \<Rightarrow>
    go_error option \<times> 'w digest_state" where
  "fetch_to_temp E r src host local tmp st =
     (case digest_rsync E r host (so_remote src) tmp (st\<lparr>ds_files := AList.update tmp [] (ds_files st)\<rparr>) of
        (Some e, st4) \<Rightarrow> (Some e, drop_temp tmp st4)
      | (None, st4) \<Rightarrow>
          (case dv_rename E tmp local of
             Some e \<Rightarrow> (Some (Errorf ''cannot rename raw'' [] [e]), drop_temp tmp st4)
           | None \<Rightarrow>
               (None, st4\<lparr>ds_files := AList.update local (lookup_or [] (ds_files st4) tmp) (AList.delete tmp (ds_files st4))\<rparr>)))"

lemma fetch_source_live:
  "\<not> dn_dry r \<Longrightarrow> local = digest_expand r (so_local src) host \<Longrightarrow>
   fetch_source E r src host st =
     (case dv_mkdir E (path_dir local) of Some e \<Rightarrow> (Some e, st) | None \<Rightarrow>
     (case remove_file E local st of (Some e, st1) \<Rightarrow> (Some e, st1) | (None, st1) \<Rightarrow>
     (case remove_file E (local @ ''.zst'') st1 of (Some e, st2) \<Rightarrow> (Some e, st2) | (None, st2) \<Rightarrow>
     (case dv_temp E (path_dir local) (''.'' @ path_base local @ ''.fetch-*'') (ds_files st2) of
        Inl e \<Rightarrow> (Some e, st2) | Inr tmp \<Rightarrow> fetch_to_temp E r src host local tmp st2))))"
  unfolding fetch_source_def fetch_to_temp_def Let_def by hypsubst simp

lemma fetch_to_temp_result:
  assumes "\<not> dn_dry r" and "rsync_one_file E" and "map_of (ds_files st) tmp = None" and "tmp \<noteq> local"
    and "fetch_to_temp E r src host local tmp st = (res, st')"
  shows "p \<noteq> local \<Longrightarrow> map_of (ds_files st') p = map_of (ds_files st) p"
    and "res \<noteq> None \<Longrightarrow> map_of (ds_files st') local = map_of (ds_files st) local"
    and "res = None \<Longrightarrow> \<exists>body. map_of (ds_files st') local = Some body \<and> delivered E (last (ds_trace st')) body"
proof -
  obtain e st4 where r: "digest_rsync E r host (so_remote src) tmp (st\<lparr>ds_files := AList.update tmp [] (ds_files st)\<rparr>) = (e, st4)"
    by fastforce
  note facts = digest_rsync_live [OF assms(1,2) r]
  have other: "q \<noteq> tmp \<Longrightarrow> map_of (ds_files st4) q = map_of (ds_files st) q" for q
    using facts(1) [of q] by simp
  have end_state: "fetch_to_temp E r src host local tmp st =
      (case e of Some x \<Rightarrow> (Some x, drop_temp tmp st4)
       | None \<Rightarrow> (case dv_rename E tmp local of
             Some x \<Rightarrow> (Some (Errorf ''cannot rename raw'' [] [x]), drop_temp tmp st4)
           | None \<Rightarrow> (None, st4\<lparr>ds_files := AList.update local (lookup_or [] (ds_files st4) tmp) (AList.delete tmp (ds_files st4))\<rparr>)))"
    using r by (simp add: fetch_to_temp_def)
  show "p \<noteq> local \<Longrightarrow> map_of (ds_files st') p = map_of (ds_files st) p"
    using end_state assms(3,5) other [of p] by (auto split: option.splits)
  show "res \<noteq> None \<Longrightarrow> map_of (ds_files st') local = map_of (ds_files st) local"
    using end_state assms(4,5) other [of local] by (auto split: option.splits)
  show "res = None \<Longrightarrow> \<exists>body. map_of (ds_files st') local = Some body \<and> delivered E (last (ds_trace st')) body"
    using end_state assms(4,5) facts(2) by (auto split: option.splits)
qed

text \<open>
  C15. A fetch is all or nothing: when it succeeds, the log holds exactly what rsync delivered and no
  compressed copy of an earlier run is left; when it fails, the log is absent or still the one of before,
  never a part of the transfer. In both cases no other file has changed and no temporary file stays.
\<close>

theorem fetch_atomic:
  assumes "\<not> dn_dry r" and local: "local = digest_expand r (so_local src) host"
    and "temp_fresh E local" and "rsync_one_file E"
    and "fetch_source E r src host st = (res, st')"
  shows "(\<forall>p. p \<noteq> local \<and> p \<noteq> local @ ''.zst'' \<longrightarrow> map_of (ds_files st') p = map_of (ds_files st) p) \<and>
    (res = None \<longrightarrow> map_of (ds_files st') (local @ ''.zst'') = None \<and>
       (\<exists>body. map_of (ds_files st') local = Some body \<and> delivered E (last (ds_trace st')) body)) \<and>
    (res \<noteq> None \<longrightarrow> map_of (ds_files st') local \<in> {None, map_of (ds_files st) local})"
proof (cases "dv_mkdir E (path_dir local)")
  case (Some e)
  then show ?thesis using assms(5) fetch_source_live [OF assms(1) local, of E st] by auto
next
  case None
  obtain e1 st1 where 1: "remove_file E local st = (e1, st1)" by fastforce
  obtain e2 st2 where 2: "remove_file E (local @ ''.zst'') st1 = (e2, st2)" by fastforce
  note r1 = remove_file_result [OF 1] and r2 = remove_file_result [OF 2]
  note live = fetch_source_live [OF assms(1) local, of E st]
  show ?thesis
  proof (cases "e1 = None \<and> e2 = None")
    case False
    then show ?thesis using live None 1 2 r1 r2 assms(5) by (auto split: if_splits)
  next
    case ok: True
    show ?thesis
    proof (cases "dv_temp E (path_dir local) (''.'' @ path_base local @ ''.fetch-*'') (ds_files st2)")
      case (Inl e)
      then show ?thesis using live None 1 2 ok r1 r2 assms(5) by auto
    next
      case (Inr tmp)
      then have f: "fetch_to_temp E r src host local tmp st2 = (res, st')"
        using live None 1 2 ok assms(5) by simp
      have t: "map_of (ds_files st2) tmp = None" "tmp \<noteq> local" using Inr assms(3) by (auto simp: temp_fresh_def)
      note facts = fetch_to_temp_result [OF assms(1,4) t f]
      show ?thesis using facts(2,3) facts(1) r1 r2 ok by auto
    qed
  qed
qed


lemma demo_temp_fresh: "temp_fresh demo_digest_env ''raw/h1.log''"
  by (auto simp: temp_fresh_def demo_digest_env_def split: if_splits)

lemma demo_rsync: "rsync_one_file demo_digest_env"
  by (auto simp: rsync_one_file_def demo_digest_env_def demo_tools_def)

theorem fetch_atomic_witness:
  "let st' = snd (fetch_source demo_digest_env demo_digest demo_source ''h1'' (demo_digest_state [(''raw/h1.log'', ''old''), (''raw/h1.log.zst'', ''Z'')]))
   in map_of (ds_files st') ''raw/tmp'' = None \<and> map_of (ds_files st') ''raw/h1.log.zst'' = None \<and>
      (\<exists>body. map_of (ds_files st') ''raw/h1.log'' = Some body \<and> delivered demo_digest_env (last (ds_trace st')) body)"
proof -
  define st where "st = demo_digest_state [(''raw/h1.log'', ''old''), (''raw/h1.log.zst'', ''Z'')]"
  have l: "''raw/h1.log'' = digest_expand demo_digest (so_local demo_source) ''h1''" by code_simp
  have f: "fetch_source demo_digest_env demo_digest demo_source ''h1'' st =
      (None, snd (fetch_source demo_digest_env demo_digest demo_source ''h1'' st))"
    unfolding st_def by code_simp
  from fetch_atomic [OF demo_digest_live l demo_temp_fresh demo_rsync f] show ?thesis
    by (simp add: st_def Let_def demo_digest_state_def)
qed

section \<open>The inputs of an aggregation\<close>

definition log_of :: "string \<Rightarrow> string" where
  "log_of m = trim_suffix m ''.zst''"

lemma glob_files_iff [simp]: "m \<in> set (glob_files pat f) \<longleftrightarrow> glob pat m \<and> exists_file f m"
  by (auto simp: glob_files_def exists_file_def map_of_eq_None_iff)

lemma distinct_glob_files [simp]: "distinct (glob_files pat f)"
  by (simp add: glob_files_def)

lemma exists_when_size [simp]: "0 < file_size f m \<Longrightarrow> exists_file f m"
  by (auto simp: file_size_def exists_file_def lookup_or_def split: option.splits)

lemma absent_size [simp]: "\<not> exists_file f m \<Longrightarrow> file_size f m = 0"
  using exists_when_size [of f m] by blast

lemma log_of_inj: "suffix ''.zst'' a \<Longrightarrow> suffix ''.zst'' b \<Longrightarrow> log_of a = log_of b \<Longrightarrow> a = b"
  by (auto simp: log_of_def suffix_def)

text \<open>
  An aggregation reads every log once: no log is among the inputs both as it is and compressed. What
  it reads are exactly the logs of which a file with some content was collected, and the compressed file
  only where there is no such uncompressed one. (The pattern of a source matches no compressed file, and
  with \<open>.zst\<close> appended matches nothing else.)
\<close>

theorem inputs_once:
  assumes "pat = digest_expand r (so_local s) host"
    and plain: "\<And>m. glob pat m \<Longrightarrow> \<not> suffix ''.zst'' m"
    and zst: "\<And>m. glob (pat @ ''.zst'') m \<Longrightarrow> suffix ''.zst'' m"
  shows "distinct (map log_of (inputs_for_host r s host f)) \<and>
    set (inputs_for_host r s host f) =
      {m. 0 < file_size f m \<and> (glob pat m \<or> glob (pat @ ''.zst'') m \<and> \<not> (glob pat (log_of m) \<and> 0 < file_size f (log_of m)))}"
proof -
  define ps where "ps = filter (\<lambda>m. 0 < file_size f m) (glob_files pat f)"
  define zs where "zs = filter (\<lambda>m. log_of m \<notin> set ps \<and> 0 < file_size f m) (glob_files (pat @ ''.zst'') f)"
  have i: "inputs_for_host r s host f = ps @ zs"
    using assms(1) by (simp add: inputs_for_host_def Let_def ps_def zs_def log_of_def)
  have p: "log_of m = m" if "m \<in> set ps" for m
    using that plain by (simp add: ps_def log_of_def trim_suffix_id)
  have "inj_on log_of (set zs)" using zst by (auto intro!: inj_onI log_of_inj simp: zs_def)
  moreover have "log_of ` set ps \<inter> log_of ` set zs = {}" using p by (auto simp: zs_def)
  moreover have "inj_on log_of (set ps)" using p by (auto intro!: inj_onI)
  ultimately have "distinct (map log_of (ps @ zs))"
    by (simp add: distinct_map) (simp add: ps_def zs_def)
  moreover have "set (ps @ zs) =
      {m. 0 < file_size f m \<and> (glob pat m \<or> glob (pat @ ''.zst'') m \<and> \<not> (glob pat (log_of m) \<and> 0 < file_size f (log_of m)))}"
    by (auto simp: ps_def zs_def)
  ultimately show ?thesis using i by simp
qed

text \<open>A pattern whose only special character is the star, with a literal end.\<close>

definition literal :: "string \<Rightarrow> bool" where
  "literal = list_all (\<lambda>c. c \<notin> {CHR ''*'', CHR ''?'', CHR ''['', CHR 0x5C})"

definition star_pattern :: "string \<Rightarrow> bool" where
  "star_pattern = list_all (\<lambda>c. c \<notin> {CHR ''?'', CHR ''['', CHR 0x5C})"

lemma glob_literal: "literal pat \<Longrightarrow> glob pat m \<Longrightarrow> m = pat"
  by (induction pat arbitrary: m) (auto simp: glob.simps literal_def split: list.splits if_splits)

lemma glob_end:
  assumes "literal ext"
  shows "star_pattern pat \<Longrightarrow> glob (pat @ ext) m \<Longrightarrow> suffix ext m"
proof (induction pat arbitrary: m)
  case Nil
  then show ?case using glob_literal [OF assms, of m] by simp
next
  case (Cons p ps)
  note outer = Cons.IH and ps = Cons.prems(1)
  from Cons.prems(2) show ?case
  proof (induction m)
    case Nil
    then show ?case using outer [of "[]"] ps by (auto simp: glob.simps star_pattern_def split: if_splits)
  next
    case (Cons c m)
    from Cons.prems ps consider "glob (ps @ ext) (c # m)" | "glob ((p # ps) @ ext) m" | "glob (ps @ ext) m"
      by (auto simp: glob.simps(2) [of p "ps @ ext" "c # m"] star_pattern_def split: if_splits)
    then show ?case using outer [of m] outer [of "c # m"] ps Cons.IH
      by cases (simp_all add: star_pattern_def suffix_Cons)
  qed
qed

theorem inputs_once_witness:
  "let f = [(''raw/h1.log'', ''GET''), (''raw/h1.log.zst'', ''Z''), (''raw/h2.log.zst'', ''Z''), (''raw/h3.log'', [])] in
   inputs_for_host demo_digest demo_source ''*'' f = [''raw/h1.log'', ''raw/h2.log.zst''] \<and>
   distinct (map log_of (inputs_for_host demo_digest demo_source ''*'' f))"
proof -
  define f where "f = [(''raw/h1.log'', ''GET''), (''raw/h1.log.zst'', ''Z''), (''raw/h2.log.zst'', ''Z''), (''raw/h3.log'', [])]"
  have pat: "''raw/*.log'' = digest_expand demo_digest (so_local demo_source) ''*''" by code_simp
  have 1: "\<not> suffix ''.zst'' m" if "glob ''raw/*.log'' m" for m
  proof -
    have "suffix ''.log'' m" by (rule glob_end [of _ "''raw/*''"]) (use that in \<open>simp_all add: literal_def star_pattern_def\<close>)
    then show ?thesis by (auto simp: suffix_def)
  qed
  have 2: "suffix ''.zst'' m" if "glob (''raw/*.log'' @ ''.zst'') m" for m
    by (rule glob_end [OF _ _ that]) (simp_all add: literal_def star_pattern_def)
  have "inputs_for_host demo_digest demo_source ''*'' f = [''raw/h1.log'', ''raw/h2.log.zst'']"
    unfolding f_def by code_simp
  with inputs_once [OF pat 1 2, of f] show ?thesis by (simp add: f_def Let_def)
qed

section \<open>Compressing\<close>

text \<open>
  What the code relies on: \<open>zstd --rm\<close> replaces a file by its compressed form when it succeeds, leaves all
  files as they are when it fails, and does not overwrite an existing compressed file.
\<close>

definition zstd_law :: "'w digest_env \<Rightarrow> (string \<Rightarrow> string) \<Rightarrow> bool" where
  "zstd_law E Z =
     (\<forall>p f w out e f' w'. dv_tool E (zstd_cmd p) (f, w) = ((out, e), f', w') \<longrightarrow>
        (if e = None
         then map_of f (p @ ''.zst'') = None \<and>
           (\<exists>c. map_of f p = Some c \<and> map_of f' = (map_of f)(p := None, p @ ''.zst'' \<mapsto> Z c))
         else map_of f' = map_of f))"

definition kept :: "(string \<Rightarrow> string) \<Rightarrow> tree \<Rightarrow> tree \<Rightarrow> bool" where
  "kept Z f f' =
     (\<forall>p c. map_of f p = Some c \<longrightarrow>
        map_of f' p = Some c \<or> \<not> suffix ''.zst'' p \<and> map_of f' (p @ ''.zst'') = Some (Z c))"

lemma compress_file_cases:
  assumes "compress_file E r p (errs, st) = (errs', st')"
  shows "ds_files st' = ds_files st \<or>
    \<not> suffix ''.zst'' p \<and>
      (\<exists>out e w. dv_tool E (zstd_cmd p) (ds_files st, ds_world st) = ((out, e), ds_files st', w))"
  using assms by (auto simp: compress_file_def call_tool_def split: if_splits option.splits prod.splits)

lemma compress_file_keeps:
  assumes "zstd_law E Z" and "kept Z f (ds_files (snd es))"
  shows "kept Z f (ds_files (snd (compress_file E r q es)))"
proof -
  obtain errs st where es: "es = (errs, st)" by fastforce
  obtain errs' st' where c: "compress_file E r q (errs, st) = (errs', st')" by fastforce
  consider "ds_files st' = ds_files st"
    | out e w where "\<not> suffix ''.zst'' q" "dv_tool E (zstd_cmd q) (ds_files st, ds_world st) = ((out, e), ds_files st', w)"
    using compress_file_cases [OF c] by blast
  then show ?thesis
  proof cases
    case 1
    then show ?thesis using assms(2) es c by simp
  next
    case 2
    show ?thesis
    proof (cases e)
      case None
      then obtain b where b: "map_of (ds_files st) (q @ ''.zst'') = None" "map_of (ds_files st) q = Some b"
          "map_of (ds_files st') = (map_of (ds_files st))(q := None, q @ ''.zst'' \<mapsto> Z b)"
        using assms(1) 2(2) unfolding zstd_law_def by fastforce
      have "map_of (ds_files st') x = Some d \<or> \<not> suffix ''.zst'' x \<and> map_of (ds_files st') (x @ ''.zst'') = Some (Z d)"
        if "map_of f x = Some d" for x d
      proof -
        have "map_of (ds_files st) x = Some d \<or> \<not> suffix ''.zst'' x \<and> map_of (ds_files st) (x @ ''.zst'') = Some (Z d)"
          using assms(2) es that by (simp add: kept_def)
        with b 2(1) show ?thesis by (cases "x = q") (auto simp: suffix_def)
      qed
      then show ?thesis using es c by (simp add: kept_def)
    next
      case (Some x)
      then have "map_of (ds_files st') = map_of (ds_files st)"
        using assms(1) 2(2) unfolding zstd_law_def by fastforce
      then show ?thesis using assms(2) es c by (simp add: kept_def)
    qed
  qed
qed

lemma fold_keeps: "(\<And>x s. P s \<Longrightarrow> P (g x s)) \<Longrightarrow> P s \<Longrightarrow> P (fold g xs s)"
  by (induction xs arbitrary: s) auto

text \<open>
  Compressing loses no log: afterwards every file is still there with its content, or, when it was not
  compressed before, in its compressed form under the name with \<open>.zst\<close> appended; whichever of the
  calls of zstd fail.
\<close>

theorem compress_keeps:
  assumes "zstd_law E Z" and "compress_all E r st = (res, st')" and "map_of (ds_files st) p = Some c"
  shows "map_of (ds_files st') p = Some c \<or> \<not> suffix ''.zst'' p \<and> map_of (ds_files st') (p @ ''.zst'') = Some (Z c)"
proof -
  have "kept Z (ds_files st) (ds_files (snd (fold (\<lambda>s es. fold (compress_file E r)
      (glob_files (digest_expand r (so_local s) ''*'') (ds_files (snd es))) es) (filter so_compress (dc_sources (dn_cfg r))) ([], st))))"
    by (rule fold_keeps [where P = "\<lambda>es. kept Z (ds_files st) (ds_files (snd es))"],
        rule fold_keeps [where P = "\<lambda>es. kept Z (ds_files st) (ds_files (snd es))"],
        rule compress_file_keeps [OF assms(1)]) (simp_all add: kept_def)
  then have "kept Z (ds_files st) (ds_files st')"
    using assms(2) by (auto simp: compress_all_def split: prod.splits)
  with assms(3) show ?thesis by (simp add: kept_def)
qed


lemma demo_zstd: "zstd_law demo_digest_env (\<lambda>c. CHR ''Z'' # c)"
  by (auto simp: zstd_law_def demo_digest_env_def demo_tools_def zstd_cmd_def Let_def lookup_or_def)

theorem compress_keeps_witness:
  "let st' = snd (compress_all demo_digest_env demo_digest (demo_digest_state [(''raw/h1.log'', ''GET'')]))
   in map_of (ds_files st') ''raw/h1.log'' = Some ''GET'' \<or>
      \<not> suffix ''.zst'' ''raw/h1.log'' \<and> map_of (ds_files st') (''raw/h1.log'' @ ''.zst'') = Some ''ZGET''"
  unfolding Let_def
  by (rule compress_keeps [OF demo_zstd surjective_pairing]) (simp add: demo_digest_state_def)

section \<open>The outputs\<close>

text \<open>Nothing but the fetch and the compression removes a file.\<close>

definition grows :: "'w digest_state \<Rightarrow> 'w digest_state \<Rightarrow> bool" where
  "grows st st' = (\<forall>p. exists_file (ds_files st) p \<longrightarrow> exists_file (ds_files st') p)"

lemma grows_refl [simp, intro]: "grows st st"
  by (simp add: grows_def)

lemma grows_trans: "grows a b \<Longrightarrow> grows b c \<Longrightarrow> grows a c"
  by (simp add: grows_def)

lemma grows_tell [simp]: "grows st (tell l st') \<longleftrightarrow> grows st st'"
  by (simp add: grows_def)

lemma grows_fold_tell [simp]: "grows st (fold tell ls st') \<longleftrightarrow> grows st st'"
  by (simp add: grows_def)

lemma write_file_result:
  "write_file E p body st = (e, st') \<Longrightarrow> grows st st' \<and> (e = None \<longrightarrow> exists_file (ds_files st') p)"
  by (auto simp: write_file_def grows_def split: option.splits)

lemma append_stderr_grows: "grows st (append_stderr E r d msg host st)"
  by (auto simp: append_stderr_def grows_def Let_def split: option.splits)

lemma write_outputs_result:
  "write_outputs E path body note xs st = (e, st') \<Longrightarrow>
   grows st st' \<and> (e = None \<longrightarrow> (\<forall>x \<in> set xs. exists_file (ds_files st') (path x)))"
proof (induction xs arbitrary: st)
  case (Cons x xs)
  obtain e1 st1 where w: "write_file E (path x) (body x) st = (e1, st1)" by fastforce
  note r = write_file_result [OF w]
  show ?case
  proof (cases e1)
    case None
    with Cons.prems w have t: "write_outputs E path body note xs (fold tell (note x) st1) = (e, st')" by simp
    from Cons.IH [OF t] r None show ?thesis by (auto intro: grows_trans simp: grows_def)
  qed (use Cons.prems w r in auto)
qed simp

lemma skip_digest_result:
  assumes "skip_digest E r d reason st = (e, st')"
  shows "grows st st'"
    and "\<not> dn_dry r \<Longrightarrow> e = None \<Longrightarrow> x \<in> set (dg_outputs d) \<Longrightarrow> exists_file (ds_files st') (path_join [dn_run_dir r, do_file x])"
  using assms by (auto simp: skip_digest_def split: if_splits prod.splits option.splits
      dest!: write_outputs_result write_file_result intro: grows_trans)

lemma skip_outputs_result:
  assumes "skip_outputs E r d host reason note st = (e, st')"
  shows "grows st st'"
    and "e = None \<Longrightarrow> x \<in> set (dg_outputs d) \<Longrightarrow> exists_file (ds_files st') (output_path r x host)"
  using assms by (auto simp: skip_outputs_def split: prod.splits option.splits
      dest!: write_outputs_result intro: grows_trans append_stderr_grows)

lemma exec_output_result:
  assumes "exec_output E r d t argv inputs path host st = ((e, out), st')"
  shows "grows st st'" and "e = None \<Longrightarrow> exists_file (ds_files st') path"
proof -
  have a: "exists_file (ds_files s) p \<Longrightarrow> exists_file (ds_files (append_stderr E r d m host s)) p" for s m p
    using append_stderr_grows [of s E r d m host] by (simp add: grows_def)
  define reader where "reader = (if dg_stdin d = [] then None else Some (dg_stdin d, inputs))"
  obtain e1 st1 where w: "write_file E path [] st = (e1, st1)" by fastforce
  obtain rep world where x: "dv_exec E \<lparr>xc_argv = argv, xc_reader = reader, xc_timeout = t\<rparr> (ds_world st1) = (rep, world)"
    by fastforce
  define st2 where "st2 = st1\<lparr>ds_trace := ds_trace st1 @ [Cmd (hd argv) (tl argv) (dg_stdin d)], ds_world := world,
      ds_files := AList.update path (xr_stdout rep) (ds_files st1)\<rparr>"
  have g: "grows st st1" "grows st1 st2" using write_file_result [OF w] by (auto simp: grows_def st2_def)
  have p: "exists_file (ds_files st2) path" by (simp add: st2_def)
  have run: "(st' = st \<and> e \<noteq> None) \<or> (st' = st1 \<and> e \<noteq> None) \<or> st' = st2 \<or> st' = append_stderr E r d (trim_space (xr_stderr rep)) host st2"
    using assms unfolding exec_output_def reader_def [symmetric] st2_def
    using w x by (cases reader) (auto simp: Let_def split: option.splits if_splits)
  show "grows st st'"
    using run g grows_trans [OF g] grows_trans append_stderr_grows by blast
  show "e = None \<Longrightarrow> exists_file (ds_files st') path"
    using run p a by blast
qed

lemma run_output_result:
  assumes "run_output E r d inputs host x st = (e, st')"
  shows "grows st st'" and "\<not> dn_dry r \<Longrightarrow> e = None \<Longrightarrow> exists_file (ds_files st') (output_path r x host)"
proof -
  have a: "grows s s' \<Longrightarrow> grows s (append_stderr E r d m host s')" for s s' m
    using append_stderr_grows grows_trans by blast
  show "grows st st'"
    using assms by (auto simp: run_output_def Let_def intro: grows_trans a split: if_splits prod.splits option.splits sum.splits
        dest!: write_file_result exec_output_result(1))
  show "\<not> dn_dry r \<Longrightarrow> e = None \<Longrightarrow> exists_file (ds_files st') (output_path r x host)"
    using assms by (auto simp: run_output_def Let_def split: if_splits prod.splits option.splits sum.splits
        dest!: write_file_result dest: exec_output_result(2))
qed


lemma digest_source_result:
  assumes "digest_source E r d src host st = (e, st')"
  shows "grows st st'"
    and "\<not> dn_dry r \<Longrightarrow> e = None \<Longrightarrow> x \<in> set (dg_outputs d) \<Longrightarrow>
      exists_file (ds_files st') (output_path r x host) \<or>
      \<not> dg_per_host d \<and> exists_file (ds_files st') (path_join [dn_run_dir r, do_file x])"
proof -
  define ins where "ins = source_inputs r d src host (ds_files st)"
  define reason where "reason = skip_reason E r d src host (ds_files st)"
  have run: "digest_source E r d src host st =
      (if reason \<noteq> [] then (if dg_per_host d then skip_host E r d host reason st else skip_digest E r d reason st)
       else sched_parallel (dv_sched E) (run_output E r d ins host) (dg_outputs d) st)"
    by (simp add: digest_source_def Let_def ins_def reason_def)
  have g: "grows s (snd (run_output E r d ins host y s))" for y s
    using run_output_result(1) [of E r d ins host y s] by (metis prod.collapse)
  have p: "grows st (snd (sched_parallel (dv_sched E) (run_output E r d ins host) (dg_outputs d) st))"
    by (rule ep.run_keeps) (auto intro: grows_trans g)
  show "grows st st'"
    using assms run p by (auto simp: skip_host_def split: if_splits
        dest!: skip_digest_result(1) skip_outputs_result(1))
  show "exists_file (ds_files st') (output_path r x host) \<or>
      \<not> dg_per_host d \<and> exists_file (ds_files st') (path_join [dn_run_dir r, do_file x])"
    if live: "\<not> dn_dry r" "e = None" "x \<in> set (dg_outputs d)"
  proof (cases "reason = []")
    case True
    then have ok: "sched_parallel (dv_sched E) (run_output E r d ins host) (dg_outputs d) st = (None, st')"
      using assms run live(2) by simp
    have "\<forall>y \<in> set (dg_outputs d). exists_file (ds_files st') (output_path r y host)"
      by (rule ep.run_success [OF ok]) (use g live(1) in \<open>auto simp: grows_def dest: run_output_result(2)\<close>)
    with live(3) show ?thesis by simp
  next
    case False
    then show ?thesis using assms run live
      by (auto simp: skip_host_def split: if_splits intro: skip_outputs_result(2) dest: skip_digest_result(2))
  qed
qed

lemma remote_host_result:
  assumes "remote_host E r d rs host st = (e, st')"
  shows "grows st st'"
    and "\<not> dn_dry r \<Longrightarrow> e = None \<Longrightarrow> x \<in> set (dg_outputs d) \<Longrightarrow> exists_file (ds_files st') (output_path r x host)"
proof -
  show "grows st st'"
    using assms by (auto simp: remote_host_def Let_def grows_def split: if_splits prod.splits option.splits
        dest!: write_outputs_result skip_outputs_result(1))
  show "\<not> dn_dry r \<Longrightarrow> e = None \<Longrightarrow> x \<in> set (dg_outputs d) \<Longrightarrow> exists_file (ds_files st') (output_path r x host)"
    using assms by (auto simp: remote_host_def Let_def split: if_splits prod.splits option.splits
        dest!: write_outputs_result intro: skip_outputs_result(2))
qed

definition digest_hosts :: "digest_runner \<Rightarrow> digester \<Rightarrow> string list" where
  "digest_hosts r d =
     (case dg_remote d of
        Some rs \<Rightarrow> (let hosts = lookup_or [] (dn_roles r) (rm_role rs) in if rm_per_host rs then hosts else take 1 hosts)
      | None \<Rightarrow>
          (case find_source (dn_cfg r) (dg_source d) of
             None \<Rightarrow> [] | Some src \<Rightarrow> if dg_per_host d then lookup_or [] (dn_roles r) (so_role src) else [[]]))"

definition outputs_there :: "digest_runner \<Rightarrow> digester \<Rightarrow> tree \<Rightarrow> bool" where
  "outputs_there r d f =
     list_all (\<lambda>host. list_all (\<lambda>x. exists_file f (output_path r x host)) (dg_outputs d)) (digest_hosts r d)"

lemma parallel_index_each:
  assumes "parallel_index E n fn st = (e, st')" and g: "\<And>i s. i < n \<Longrightarrow> grows s (snd (fn i s))"
  shows "grows st st'"
    and "e = None \<Longrightarrow> (\<And>i s s'. i < n \<Longrightarrow> fn i s = (None, s') \<Longrightarrow> exists_file (ds_files s') (p i)) \<Longrightarrow>
      i < n \<Longrightarrow> exists_file (ds_files st') (p i)"
proof -
  have "grows st (snd (parallel_index E n fn st))"
    unfolding parallel_index_def by (rule ep.run_keeps) (auto intro: grows_trans g)
  with assms(1) show "grows st st'" by simp
  assume ok: "e = None" and s: "\<And>i s s'. i < n \<Longrightarrow> fn i s = (None, s') \<Longrightarrow> exists_file (ds_files s') (p i)" and i: "i < n"
  have "sched_parallel (dv_sched E) fn [0..<n] st = (None, st')" using assms(1) ok by (simp add: parallel_index_def)
  then have "\<forall>i \<in> set [0..<n]. exists_file (ds_files st') (p i)"
    by (rule ep.run_success) (use s g in \<open>auto simp: grows_def\<close>)
  with i show "exists_file (ds_files st') (p i)" by simp
qed


text \<open>The digesters whose outputs have no placeholder, as a digest that is not per host needs them.\<close>

definition plain_files :: "digest_runner \<Rightarrow> digester \<Rightarrow> bool" where
  "plain_files r d =
     (dg_remote d \<noteq> None \<or> dg_per_host d \<or> list_all (\<lambda>x. digest_expand r (do_file x) [] = do_file x) (dg_outputs d))"

lemma digest_remote_result:
  assumes "digest_remote E r d rs st = (e, st')" and "dg_remote d = Some rs"
  shows "grows st st'" and "\<not> dn_dry r \<Longrightarrow> e = None \<Longrightarrow> outputs_there r d (ds_files st') \<and> digest_hosts r d \<noteq> []"
proof -
  define hosts where "hosts = digest_hosts r d"
  have g: "grows s (snd (remote_host E r d rs (hosts ! i) s))" for i s
    using remote_host_result(1) [of E r d rs "hosts ! i" s] by (metis prod.collapse)
  have h: "hosts = (let hs = lookup_or [] (dn_roles r) (rm_role rs) in if rm_per_host rs then hs else take 1 hs)"
    using assms(2) by (simp add: hosts_def digest_hosts_def)
  consider x where "e = Some x" "st' = st"
    | "hosts \<noteq> []" "parallel_index E (length hosts) (\<lambda>i. remote_host E r d rs (hosts ! i)) st = (e, st')"
    using assms(1) h by (auto simp: digest_remote_def Let_def split: if_splits list.splits)
  note c = this
  then show "grows st st'" by cases (auto intro: parallel_index_each(1) g)
  assume live: "\<not> dn_dry r" "e = None"
  show "outputs_there r d (ds_files st') \<and> digest_hosts r d \<noteq> []"
    using c
  proof cases
    case 2
    have "exists_file (ds_files st') (output_path r x (hosts ! i))" if "x \<in> set (dg_outputs d)" "i < length hosts" for x i
      using parallel_index_each(2) [OF 2(2) g live(2), of "\<lambda>i. output_path r x (hosts ! i)"] that live(1)
      by (blast intro: remote_host_result(2))
    then show ?thesis using 2(1) by (auto simp: outputs_there_def list_all_length hosts_def)
  qed (use live in simp)
qed

lemma digest_one_result:
  assumes "digest_one E r d st = (e, st')"
  shows "grows st st'"
    and "\<not> dn_dry r \<Longrightarrow> plain_files r d \<Longrightarrow> e = None \<Longrightarrow> outputs_there r d (ds_files st') \<and> digest_hosts r d \<noteq> []"
proof -
  consider (remote) rs where "dg_remote d = Some rs" "digest_remote E r d rs st = (e, st')"
    | (stop) x where "dg_remote d = None" "e = Some x" "st' = st"
    | (hosts) src where "dg_remote d = None" "find_source (dn_cfg r) (dg_source d) = Some src" "dg_per_host d"
        "digest_hosts r d \<noteq> []"
        "parallel_index E (length (digest_hosts r d)) (\<lambda>i. digest_source E r d src (digest_hosts r d ! i)) st = (e, st')"
    | (one) src where "dg_remote d = None" "find_source (dn_cfg r) (dg_source d) = Some src" "\<not> dg_per_host d"
        "digest_source E r d src [] st = (e, st')"
    using assms by (auto simp: digest_one_def digest_hosts_def split: option.splits if_splits list.splits)
  note c = this
  have g: "grows s (snd (digest_source E r d src h s))" for src h s
    using digest_source_result(1) [of E r d src h s] by (metis prod.collapse)
  from c show "grows st st'"
    by cases (auto intro: parallel_index_each(1) g digest_remote_result(1) digest_source_result(1))
  assume live: "\<not> dn_dry r" "plain_files r d" "e = None"
  show "outputs_there r d (ds_files st') \<and> digest_hosts r d \<noteq> []"
    using c
  proof cases
    case remote
    then show ?thesis using digest_remote_result(2) live by blast
  next
    case (hosts src)
    have "exists_file (ds_files st') (output_path r x (digest_hosts r d ! i))"
      if "x \<in> set (dg_outputs d)" "i < length (digest_hosts r d)" for x i
      using parallel_index_each(2) [OF hosts(5) g live(3), of "\<lambda>i. output_path r x (digest_hosts r d ! i)"] that live(1) hosts(3)
      by (blast dest: digest_source_result(2))
    then show ?thesis using hosts(4) by (auto simp: outputs_there_def list_all_length)
  next
    case (one src)
    then have h: "digest_hosts r d = [[]]" by (simp add: digest_hosts_def)
    have "exists_file (ds_files st') (output_path r x [])" if "x \<in> set (dg_outputs d)" for x
      using digest_source_result(2) [OF one(4)] live one(1,3) that
      by (auto simp: plain_files_def list_all_iff output_path_def)
    then show ?thesis by (simp add: outputs_there_def list_all_iff h)
  qed (use live in simp)
qed

text \<open>
  When the digests report no error, every output that any of them declares is a file of the RUN, for
  every host it is declared for: whether the aggregation ran, was skipped for a missing input or tool, or
  failed and was filled with its default, and in whatever order the digests run.
\<close>

theorem digest_outputs:
  assumes "\<not> dn_dry r" and "digest_all E r st = (None, st')"
    and "\<And>d. d \<in> set (dc_digesters (dn_cfg r)) \<Longrightarrow> plain_files r d"
    and "d \<in> set (dc_digesters (dn_cfg r))"
  shows "digest_hosts r d \<noteq> [] \<and>
    (\<forall>host \<in> set (digest_hosts r d). \<forall>x \<in> set (dg_outputs d). exists_file (ds_files st') (output_path r x host))"
proof -
  define fn where "fn = (\<lambda>d s. case digest_one E r d s of
      (None, s') \<Rightarrow> (None, s') | (Some e, s') \<Rightarrow> (Some (Errorf ''digester'' [dg_name d] [e]), s'))"
  have g: "grows s (snd (fn d s))" for d s
    using digest_one_result(1) [of E r d s] by (auto simp: fn_def split: prod.splits option.splits)
  have "sched_parallel (dv_sched E) fn (dc_digesters (dn_cfg r)) st = (None, st')"
    using assms(2) by (simp add: digest_all_def fn_def)
  then have "\<forall>d \<in> set (dc_digesters (dn_cfg r)). outputs_there r d (ds_files st') \<and> digest_hosts r d \<noteq> []"
  proof (rule ep.run_success)
    fix d s s' assume "d \<in> set (dc_digesters (dn_cfg r))" "fn d s = (None, s')"
    then show "outputs_there r d (ds_files s') \<and> digest_hosts r d \<noteq> []"
      using digest_one_result(2) [of E r d s None s'] assms(1,3) by (auto simp: fn_def split: prod.splits option.splits)
  next
    fix d k and s :: "'a digest_state" assume "outputs_there r d (ds_files s) \<and> digest_hosts r d \<noteq> []"
    then show "outputs_there r d (ds_files (snd (fn k s))) \<and> digest_hosts r d \<noteq> []"
      using g [of s k] by (auto simp: outputs_there_def list_all_iff grows_def)
  qed
  with assms(4) show ?thesis by (auto simp: outputs_there_def list_all_iff)
qed


theorem digest_outputs_witness:
  "list_all (\<lambda>d. digest_hosts demo_digest d \<noteq> [] \<and> outputs_there demo_digest d
      (ds_files (snd (digest_all demo_digest_env demo_digest (demo_digest_state [(''raw/h1.log'', ''GET'')])))))
    demo_digesters"
proof -
  define st where "st = demo_digest_state [(''raw/h1.log'', ''GET'')]"
  have ok: "digest_all demo_digest_env demo_digest st = (None, snd (digest_all demo_digest_env demo_digest st))"
    unfolding st_def by code_simp
  have "list_all (plain_files demo_digest) demo_digesters" by code_simp
  then have p: "plain_files demo_digest d" if "d \<in> set demo_digesters" for d using that by (simp add: list_all_iff)
  have c: "dc_digesters (dn_cfg demo_digest) = demo_digesters" by (simp add: demo_digest_def)
  show ?thesis using digest_outputs [OF demo_digest_live ok] p unfolding c st_def by (simp add: outputs_there_def list_all_iff)
qed

end
