(* ===== verification/MeasureQualityProperties.thy ===== *)
theory MeasureQualityProperties
  imports MeasureQuality
begin

text \<open>
  The properties of the quality checks (tools/measurectl/quality.go): which window the markers of the
  benchmark's log give, and what a valid periodic recording is.
\<close>

section \<open>A small example\<close>

text \<open>A clock whose times are written as seconds, a point and nanoseconds.\<close>

definition parse_signed :: "string \<Rightarrow> int option" where
  "parse_signed s =
     (case s of [] \<Rightarrow> None
      | c # t \<Rightarrow> if c = CHR ''-'' then map_option (\<lambda>n. - int n) (parse_digits t) else map_option int (parse_digits s))"

definition demo_clock :: time_codec where
  "demo_clock = \<lparr>
     tc_parse = (\<lambda>s. case cut_char (CHR ''.'') s of
         None \<Rightarrow> None
       | Some (sec, ns) \<Rightarrow>
           (case (parse_signed sec, parse_signed ns) of (Some a, Some b) \<Rightarrow> Some (1000000000 * a + b) | _ \<Rightarrow> None)),
     tc_format = (\<lambda>t. format_int (t div 1000000000) @ ''.'' @ format_int (t mod 1000000000))\<rparr>"

lemma parse_signed_format: "parse_signed (format_int t) = Some t"
proof (cases "t < 0")
  case True
  then show ?thesis by (simp add: parse_signed_def format_int_def)
next
  case False
  obtain c u where f: "format_nat (nat t) = c # u" using format_nat_digits [of "nat t"] by (cases "format_nat (nat t)") auto
  then have "c \<noteq> CHR ''-''" using format_nat_hd [of "nat t"] by (auto simp: is_digit_def)
  then show ?thesis using False f parse_format_nat [of "nat t"] by (simp add: parse_signed_def format_int_def)
qed

lemma demo_clock_law: "tc_parse demo_clock (tc_format demo_clock t) = Some t"
proof -
  have "list_all is_digit (format_nat n)" for n using format_nat_digits by blast
  then have "CHR ''.'' \<notin> set (format_nat n)" for n by (fastforce simp: list_all_iff is_digit_iff)
  then have "CHR ''.'' \<notin> set (format_int (t div 1000000000))" by (simp add: format_int_def)
  then have "cut_char (CHR ''.'') (tc_format demo_clock t) = Some (format_int (t div 1000000000), format_int (t mod 1000000000))"
    by (simp add: cut_char_Some_iff demo_clock_def)
  then show ?thesis by (simp add: demo_clock_def parse_signed_format)
qed

definition demo_log :: string where
  "demo_log = join_with [newline_char]
     [join_with [tab_char] [''1.0'', ''BENCHMARK_START''], ''hello'', join_with [tab_char] [''4.0'', ''x'', ''BENCHMARK_END'']]"

definition demo_tsv :: string where
  "demo_tsv = tsv_text [[''sample'', ''timestamp'', ''cpu''], [''0'', ''0.9'', ''1''], [''1'', ''1.0'', ''50.5''],
     [''2'', ''2.0'', ''50''], [''3'', ''3.0'', ''1'']]"

section \<open>The load window\<close>

text \<open>The instants of the lines that carry a marker; a line with both counts as a start.\<close>

definition line_mark :: "time_codec \<Rightarrow> string \<Rightarrow> (bool \<times> int) option" where
  "line_mark T line =
     (let fields = split_char tab_char line; message = trim_space (last fields) in
      if length fields < 2 then None
      else (case tc_parse T (hd fields) of
          None \<Rightarrow> None
        | Some t \<Rightarrow>
            if contains_str message ''BENCHMARK_START'' then Some (True, t)
            else if contains_str message ''BENCHMARK_END'' then Some (False, t) else None))"

definition marks :: "time_codec \<Rightarrow> bool \<Rightarrow> string \<Rightarrow> int list" where
  "marks T k body = map snd (filter (\<lambda>m. fst m = k) (List.map_filter (line_mark T) (split_char newline_char body)))"

lemma marker_step_mark:
  "marker_step T line w = (case line_mark T line of None \<Rightarrow> w | Some (k, t) \<Rightarrow> if k then (t, snd w) else (fst w, t))"
  by (simp add: marker_step_def line_mark_def Let_def split: option.splits)

lemma fold_marks:
  "fold (marker_step T) ls w =
     (let ms = List.map_filter (line_mark T) ls in
      (last (fst w # map snd (filter fst ms)), last (snd w # map snd (filter (\<lambda>m. \<not> fst m) ms))))"
proof (induction ls arbitrary: w)
  case (Cons l ls)
  show ?case
    by (cases "line_mark T l") (auto simp: marker_step_mark [of T l] Cons.IH List.map_filter_simps Let_def)
qed (simp add: List.map_filter_simps)

lemma load_markers_last:
  "load_markers T body = (last (zero_time # marks T True body), last (zero_time # marks T False body))"
  by (simp add: load_markers_def fold_marks marks_def Let_def)

lemma marks_read: "t \<in> set (marks T k body) \<Longrightarrow> \<exists>raw. tc_parse T raw = Some t"
  by (auto simp: marks_def List.map_filter_def line_mark_def Let_def split: if_splits option.splits)

text \<open>
  The load window is that between the last start marker and the last end marker of the log: it is
  reported exactly when both are there and the end is later, and then a reader of the times it is
  written with gets back just these two instants.
\<close>

theorem load_window_exact:
  assumes "\<And>raw t. tc_parse T raw = Some t \<Longrightarrow> tc_parse T (tc_format T t) = Some t"
    and "zero_time \<notin> set (marks T True body)" and "zero_time \<notin> set (marks T False body)"
  shows "(lw_status (resolve_load_window T body) = ''ok'' \<longleftrightarrow>
      marks T True body \<noteq> [] \<and> marks T False body \<noteq> [] \<and> last (marks T True body) < last (marks T False body)) \<and>
    (lw_status (resolve_load_window T body) = ''ok'' \<longrightarrow>
      window_bounds T (resolve_load_window T body) = Some (last (marks T True body), last (marks T False body)))"
proof -
  have z: "last (zero_time # ms) = zero_time \<longleftrightarrow> ms = []" if "zero_time \<notin> set ms" for ms
    using that last_in_set [of ms] by (cases ms) auto
  note z = z [OF assms(2)] z [OF assms(3)]
  have reads: "tc_parse T (tc_format T (last (marks T k body))) = Some (last (marks T k body))" if "marks T k body \<noteq> []" for k
    using marks_read [OF last_in_set [OF that]] assms(1) by blast
  show ?thesis
    using z reads [of True] reads [of False] by (auto simp: resolve_load_window_def load_markers_last no_window_def window_bounds_def)
qed


theorem load_window_exact_witness:
  "lw_status (resolve_load_window demo_clock demo_log) = ''ok'' \<and>
   window_bounds demo_clock (resolve_load_window demo_clock demo_log) = Some (1000000000, 4000000000)"
proof -
  have m: "marks demo_clock True demo_log = [1000000000]" "marks demo_clock False demo_log = [4000000000]"
    by code_simp+
  have z: "zero_time \<notin> set (marks demo_clock True demo_log)" "zero_time \<notin> set (marks demo_clock False demo_log)"
    by (simp_all add: m zero_time_def)
  from load_window_exact [of demo_clock, OF _ z] demo_clock_law show ?thesis by (simp add: m)
qed

section \<open>Periodic recordings\<close>

text \<open>What a valid recording is, over its rows: every row has its instant and only finite numbers, the
  instants never go back, and the distinct instants in the window are as many as expected but one and
  at most two and a half intervals apart.\<close>

definition row_time :: "time_codec \<Rightarrow> nat \<Rightarrow> string list \<Rightarrow> int option" where
  "row_time T col rec = (if col < length rec then tc_parse T (rec ! col) else None)"

definition row_times :: "time_codec \<Rightarrow> nat \<Rightarrow> string list list \<Rightarrow> int list" where
  "row_times T col rows = List.map_filter (row_time T col) rows"

definition in_window :: "int \<Rightarrow> int \<Rightarrow> int list \<Rightarrow> int list" where
  "in_window s e ts = sort (remdups (filter (\<lambda>t. s \<le> t \<and> t < e) ts))"

definition recording_ok :: "time_codec \<Rightarrow> nat \<Rightarrow> int \<Rightarrow> int \<Rightarrow> int \<Rightarrow> string list list \<Rightarrow> bool" where
  "recording_ok T col s e interval rows =
     (let points = in_window s e (row_times T col rows) in
      list_all (\<lambda>rec. row_time T col rec \<noteq> None \<and> \<not> list_ex non_finite rec) rows \<and>
      sorted (row_times T col rows) \<and>
      max 1 (max 1 (time_sub e s sdiv interval) - 1) \<le> int (length points) \<and>
      max_gap points 0 \<le> millis ((5 * interval) sdiv 2))"

lemma scan_row_time:
  "scan_row T col s e rec sc =
     (case row_time T col rec of
        None \<Rightarrow> sc\<lparr>ts_rows := ts_rows sc + 1, ts_monotonic := False\<rparr>
      | Some t \<Rightarrow>
          \<lparr>ts_rows = ts_rows sc + 1,
           ts_monotonic = (ts_monotonic sc \<and> (ts_previous sc = zero_time \<or> ts_previous sc \<le> t)),
           ts_finite = (ts_finite sc \<and> \<not> list_ex non_finite rec),
           ts_previous = t,
           ts_points = (if s \<le> t \<and> t < e then AList.update (unix_nano t) t (ts_points sc) else ts_points sc)\<rparr>)"
  by (cases sc) (simp add: scan_row_def row_time_def Let_def split: option.splits)

lemma row_times_snoc: "row_times T col (rows @ [rec]) =
    row_times T col rows @ (case row_time T col rec of None \<Rightarrow> [] | Some t \<Rightarrow> [t])"
  by (induction rows) (auto simp: row_times_def List.map_filter_simps split: option.splits)

lemma scan_previous: "ts_previous (fold (scan_row T col s e) rows scan_start) = last (zero_time # row_times T col rows)"
proof (induction rows rule: rev_induct)
  case (snoc rec rows)
  then show ?case by (cases "row_time T col rec") (auto simp: row_times_snoc scan_row_time [of T col s e rec])
qed (simp add: scan_start_def row_times_def List.map_filter_simps)

lemma scan_monotonic:
  assumes "zero_time \<notin> set (row_times T col rows)"
  shows "ts_monotonic (fold (scan_row T col s e) rows scan_start) \<longleftrightarrow>
    list_all (\<lambda>rec. row_time T col rec \<noteq> None) rows \<and> sorted (row_times T col rows)"
  using assms
proof (induction rows rule: rev_induct)
  case (snoc rec rows)
  have "last ts \<noteq> zero_time" if "zero_time \<notin> set ts" "ts \<noteq> []" for ts
    using that by (metis last_in_set)
  moreover have "sorted (ts @ [t]) \<longleftrightarrow> sorted ts \<and> (ts = [] \<or> last ts \<le> t)" for ts and t :: int
    by (cases ts rule: rev_cases) (auto simp: sorted_append)
  ultimately show ?case using snoc
    by (cases "row_time T col rec") (auto simp: row_times_snoc scan_row_time [of T col s e rec] scan_previous)
qed (simp add: scan_start_def row_times_def List.map_filter_simps)

lemma scan_finite:
  "list_all (\<lambda>rec. row_time T col rec \<noteq> None) rows \<Longrightarrow>
   ts_finite (fold (scan_row T col s e) rows scan_start) \<longleftrightarrow> list_all (\<lambda>rec. \<not> list_ex non_finite rec) rows"
proof (induction rows rule: rev_induct)
  case (snoc rec rows)
  then show ?case by (auto simp: scan_row_time [of T col s e rec])
qed (simp add: scan_start_def)

lemma scan_points:
  assumes "- (2 ^ 63) \<le> s" and "e \<le> 2 ^ 63"
  shows "distinct (keys (ts_points (fold (scan_row T col s e) rows scan_start))) \<and>
    map snd (ts_points (fold (scan_row T col s e) rows scan_start)) = keys (ts_points (fold (scan_row T col s e) rows scan_start)) \<and>
    set (keys (ts_points (fold (scan_row T col s e) rows scan_start))) = set (filter (\<lambda>t. s \<le> t \<and> t < e) (row_times T col rows))"
proof (induction rows rule: rev_induct)
  case (snoc rec rows)
  have u: "map snd ps = keys ps \<Longrightarrow> map snd (AList.update k k ps) = keys (AList.update k k ps)" for ps :: "(int \<times> int) list" and k
    by (induction ps) auto
  have w: "s \<le> t \<Longrightarrow> t < e \<Longrightarrow> unix_nano t = t" for t using assms by (intro wrap64_id) auto
  show ?case using snoc u w
    by (auto simp: scan_row_time [of T col s e rec] row_times_snoc distinct_update dom_update split: option.splits)
qed (simp add: scan_start_def row_times_def List.map_filter_simps)


lemma scan_in_window:
  assumes "- (2 ^ 63) \<le> s" and "e \<le> 2 ^ 63"
  shows "sort (map snd (ts_points (fold (scan_row T col s e) rows scan_start))) = in_window s e (row_times T col rows)"
proof -
  define ps where "ps = ts_points (fold (scan_row T col s e) rows scan_start)"
  have p: "distinct (keys ps)" "map snd ps = keys ps" "set (keys ps) = set (filter (\<lambda>t. s \<le> t \<and> t < e) (row_times T col rows))"
    using scan_points [OF assms, of T col rows] unfolding ps_def by blast+
  then have "distinct (map snd ps)" "set (map snd ps) = set (filter (\<lambda>t. s \<le> t \<and> t < e) (row_times T col rows))"
    by metis+
  then show ?thesis unfolding in_window_def ps_def [symmetric]
    by (intro sorted_distinct_set_unique) simp_all
qed

text \<open>
  C11. A periodic recording is judged valid exactly when it covers the load window: every row has an
  instant that is not before that of the row above, no cell is infinite or not a number, at most one of
  the expected distinct samples is missing from the window, and no two neighbours in it are more than two
  and a half intervals apart. In particular samples outside of the window and repeated ones do not count.
\<close>

theorem recording_valid_iff:
  assumes "lw_status w = ''ok''" and "window_bounds T w = Some (s, e)"
    and "read path = Inr body" and "csv_parse body = (header # rows, False)" and "index_of ''timestamp'' header = Some col"
    and "- (2 ^ 63) \<le> s" and "e \<le> 2 ^ 63" and "zero_time \<notin> set (row_times T col rows)"
  shows "aq_status (inspect_periodic T read path w interval) = ''valid'' \<longleftrightarrow> recording_ok T col s e interval rows"
proof -
  define sc where "sc = fold (scan_row T col s e) rows scan_start"
  have j: "inspect_periodic T read path w interval = judge_scan s e interval sc"
    using assms(1-5) by (simp add: inspect_periodic_def inspect_rows_def Let_def sc_def)
  have m: "ts_monotonic sc \<longleftrightarrow> list_all (\<lambda>rec. row_time T col rec \<noteq> None) rows \<and> sorted (row_times T col rows)"
    unfolding sc_def by (rule scan_monotonic [OF assms(8)])
  have f: "list_all (\<lambda>rec. row_time T col rec \<noteq> None) rows \<Longrightarrow> ts_finite sc \<longleftrightarrow> list_all (\<lambda>rec. \<not> list_ex non_finite rec) rows"
    unfolding sc_def by (rule scan_finite)
  have p: "sort (map snd (ts_points sc)) = in_window s e (row_times T col rows)"
    unfolding sc_def by (rule scan_in_window [OF assms(6,7)])
  have "aq_status (judge_scan s e interval sc) = ''valid'' \<longleftrightarrow>
      max 1 (max 1 (time_sub e s sdiv interval) - 1) \<le> int (length (in_window s e (row_times T col rows))) \<and>
      max_gap (in_window s e (row_times T col rows)) 0 \<le> millis ((5 * interval) sdiv 2) \<and> ts_monotonic sc \<and> ts_finite sc"
    by (auto simp add: judge_scan_def Let_def p not_less)
  with j m f show ?thesis unfolding recording_ok_def Let_def list_all_iff by auto
qed


theorem recording_valid_iff_witness:
  "aq_status (inspect_periodic demo_clock (\<lambda>_. Inr demo_tsv) ''mysql-status.tsv'' (resolve_load_window demo_clock demo_log) 1000000000)
     = ''valid''"
proof -
  define w where "w = resolve_load_window demo_clock demo_log"
  have w: "lw_status w = ''ok''" "window_bounds demo_clock w = Some (1000000000, 4000000000)" unfolding w_def by code_simp+
  define read :: reader where "read = (\<lambda>_. Inr demo_tsv)"
  have b: "read ''mysql-status.tsv'' = Inr demo_tsv" by (simp add: read_def)
  define rows where "rows = [[''0'', ''0.9'', ''1''], [''1'', ''1.0'', ''50.5''], [''2'', ''2.0'', ''50''], [''3'', ''3.0'', ''1'']]"
  have p: "csv_parse demo_tsv = ([''sample'', ''timestamp'', ''cpu''] # rows, False)"
    unfolding demo_tsv_def rows_def by (rule csv_parse_plain) code_simp
  have i: "index_of ''timestamp'' [''sample'', ''timestamp'', ''cpu''] = Some 1" by simp
  have t: "row_times demo_clock 1 rows = [9, 1000000000, 2000000000, 3000000000]" unfolding rows_def by code_simp
  have z: "zero_time \<notin> set (row_times demo_clock 1 rows)" unfolding t by (simp add: zero_time_def)
  have ok: "recording_ok demo_clock 1 1000000000 4000000000 1000000000 rows" unfolding rows_def by code_simp
  show ?thesis
    using recording_valid_iff [where read = read and path = "''mysql-status.tsv''" and interval = 1000000000, OF w b p i _ _ z] ok unfolding w_def [symmetric] read_def [symmetric] by simp
qed

end
