(* ===== verification/MeasureSeries.thy ===== *)
theory MeasureSeries
  imports GoTime
begin

text \<open>
  Recordings of profile snapshots (tools/measurement/profileseries/series.go): an archive of members and
  an index, read and validated as a whole.

  Parameters: the archive reader (\<open>untar\<close> gives the members of a file and the error that ended it, if
  any), the JSON decoder of the index, and the profile parser with its validity check (third party).
\<close>

record entry =
  en_name :: string
  en_captured :: int
  en_duration :: int

record series_index =
  ix_version :: int
  ix_started :: int
  ix_ended :: int
  ix_interval :: int
  ix_status :: string
  ix_error :: string
  ix_entries :: "entry list"

record profile =
  pf_time :: int
  pf_duration :: int
  pf_types :: "string option list"
  pf_samples :: nat

record tar_member =
  tm_name :: string
  tm_regular :: bool
  tm_size :: int
  tm_body :: "go_error + string"

record series_env =
  sn_untar :: "string \<Rightarrow> tar_member list \<times> go_error option"
  sn_index :: "string \<Rightarrow> go_error + series_index"
  sn_profile :: "string \<Rightarrow> go_error + profile"
  sn_check :: "profile \<Rightarrow> go_error option"

definition max_profile_bytes :: int where
  "max_profile_bytes = 8388608"

definition max_bundle_bytes :: int where
  "max_bundle_bytes = 67108864"

definition max_entries :: int where
  "max_entries = 4000"

text \<open>The pattern \<open>^([0-9]{6})-(go-heap|go-goroutine)\.pprof$\<close>; the kind is the second group.\<close>

definition snapshot_kind :: "string \<Rightarrow> string" where
  "snapshot_kind name =
     (if length (take 6 name) = 6 \<and> list_all is_digit (take 6 name) then
        (if drop 6 name = ''-go-heap.pprof'' then ''go-heap''
         else if drop 6 name = ''-go-goroutine.pprof'' then ''go-goroutine'' else [])
      else [])"

type_synonym 's visitor = "entry \<Rightarrow> profile \<Rightarrow> 's \<Rightarrow> go_error option \<times> 's"

text \<open>A snapshot: its profile, when it is one of the right kind.\<close>

definition read_snapshot :: "series_env \<Rightarrow> string \<Rightarrow> string \<Rightarrow> go_error + profile" where
  "read_snapshot N name body =
     (case sn_profile N body of
        Inl e \<Rightarrow> Inl (Errorf ''snapshot'' [name] [e])
      | Inr p \<Rightarrow>
          (case sn_check N p of
             Some e \<Rightarrow> Inl (Errorf ''snapshot'' [name] [e])
           | None \<Rightarrow>
               if pf_time p \<le> 0 then Inl (Errorf ''snapshot timestamp missing'' [] [])
               else
                 (let expected = (if snapshot_kind name = ''go-goroutine'' then ''goroutine'' else ''inuse_space'') in
                  if Some expected \<in> set (pf_types p) then Inr p
                  else Inl (Errorf ''snapshot lacks its sample type'' [name, expected] []))))"

fun read_members :: "series_env \<Rightarrow> 's visitor option \<Rightarrow> tar_member list \<Rightarrow> (string, int) gomap \<Rightarrow> series_index option \<Rightarrow> 's \<Rightarrow>
    (go_error + (string, int) gomap \<times> series_index option) \<times> 's" where
  "read_members N visit [] seen index s = (Inr (seen, index), s)"
| "read_members N visit (m # ms) seen index s =
     (if index \<noteq> None then (Inl (Errorf ''data after snapshot index'' [] []), s)
      else if \<not> tm_regular m \<or> tm_size m < 0 \<or> max_profile_bytes < tm_size m
      then (Inl (Errorf ''invalid snapshot member'' [tm_name m] []), s)
      else
        (case tm_body m of
           Inl e \<Rightarrow> (Inl e, s)
         | Inr body \<Rightarrow>
             if tm_name m = ''index.json'' then
               (case sn_index N body of Inl e \<Rightarrow> (Inl e, s) | Inr ix \<Rightarrow> read_members N visit ms seen (Some ix) s)
             else if snapshot_kind (tm_name m) = [] \<or> lookup_or 0 seen (tm_name m) \<noteq> 0 \<or> max_entries \<le> int (length seen)
             then (Inl (Errorf ''invalid or duplicate snapshot'' [tm_name m] []), s)
             else
               (case read_snapshot N (tm_name m) body of
                  Inl e \<Rightarrow> (Inl e, s)
                | Inr p \<Rightarrow>
                    (let seen1 = AList.update (tm_name m) (pf_time p) seen in
                     case visit of
                       None \<Rightarrow> read_members N visit ms seen1 index s
                     | Some v \<Rightarrow>
                         (case v \<lparr>en_name = tm_name m, en_captured = pf_time p, en_duration = 0\<rparr> p s of
                            (Some e, s1) \<Rightarrow> (Inl e, s1)
                          | (None, s1) \<Rightarrow> read_members N visit ms seen1 index s1)))))"

text \<open>The index against the members: every entry takes away the member that it names.\<close>

definition match_entry :: "series_index \<Rightarrow> entry \<Rightarrow> (string, int) gomap \<Rightarrow> go_error + (string, int) gomap" where
  "match_entry ix e seen =
     (if lookup_or 0 seen (en_name e) \<noteq> en_captured e \<or> en_captured e < ix_started ix \<or> ix_ended ix < en_captured e \<or>
         en_duration e < 0
      then Inl (Errorf ''snapshot index mismatch'' [en_name e] [])
      else Inr (AList.delete (en_name e) seen))"

text \<open>The observations of one kind: later than the one before and at most three intervals apart. \<open>previous\<close>
  is 0 before the first.\<close>

fun check_gaps :: "int \<Rightarrow> int list \<Rightarrow> int \<Rightarrow> go_error option" where
  "check_gaps interval [] previous = None"
| "check_gaps interval (t # ts) previous =
     (if previous \<noteq> 0 \<and> (t \<le> previous \<or> wrap64 (3 * interval) < wrap64 (t - previous))
      then Some (Errorf ''missing or non-monotonic snapshot observations'' [] [])
      else check_gaps interval ts t)"

definition kind_times :: "string \<Rightarrow> entry list \<Rightarrow> int list" where
  "kind_times kind es = map en_captured (filter (\<lambda>e. snapshot_kind (en_name e) = kind) es)"

definition check_kind :: "series_index \<Rightarrow> string \<Rightarrow> go_error option" where
  "check_kind ix kind =
     (let ts = kind_times kind (ix_entries ix) in
      case check_gaps (ix_interval ix) ts 0 of
        Some e \<Rightarrow> Some e
      | None \<Rightarrow> if length ts < 2 then Some (Errorf ''fewer than two snapshots'' [kind] []) else None)"

definition check_index :: "(string, int) gomap \<Rightarrow> series_index \<Rightarrow> go_error + series_index" where
  "check_index seen ix =
     (if ix_version ix \<noteq> 1 \<or> ix_status ix \<noteq> ''complete'' \<or> ix_error ix \<noteq> [] \<or> ix_interval ix \<le> 0 \<or>
         ix_ended ix \<le> ix_started ix \<or> ix_entries ix = [] \<or> length (ix_entries ix) \<noteq> length seen
      then Inl (Errorf ''incomplete snapshot recording'' [ix_status ix, ix_error ix] [])
      else
        (case fold_res (match_entry ix) (ix_entries ix) seen of
           Inl e \<Rightarrow> Inl e
         | Inr rest \<Rightarrow>
             if rest \<noteq> [] then Inl (Errorf ''snapshot index contains duplicate entries'' [] [])
             else (case first_error (check_kind ix) [''go-heap'', ''go-goroutine''] of Some e \<Rightarrow> Inl e | None \<Rightarrow> Inr ix)))"

definition read_series :: "series_env \<Rightarrow> 's visitor option \<Rightarrow> go_error + string \<Rightarrow> 's \<Rightarrow> (go_error + series_index) \<times> 's" where
  "read_series N visit file s =
     (case file of
        Inl e \<Rightarrow> (Inl e, s)
      | Inr content \<Rightarrow>
          if max_bundle_bytes < int (length content) then (Inl (Errorf ''snapshot archive exceeds byte limit'' [] []), s)
          else
            (case sn_untar N content of (members, stop) \<Rightarrow>
               (case read_members N visit members [] None s of
                  (Inl e, s1) \<Rightarrow> (Inl e, s1)
                | (Inr (seen, index), s1) \<Rightarrow>
                    (case stop of
                       Some e \<Rightarrow> (Inl e, s1)
                     | None \<Rightarrow>
                         (case index of
                            None \<Rightarrow> (Inl (Errorf ''incomplete snapshot recording'' [[], []] []), s1)
                          | Some ix \<Rightarrow> (check_index seen ix, s1))))))"

end
