(* ===== verification/MeasureSeriesProperties.thy ===== *)
theory MeasureSeriesProperties
  imports MeasureSeries
begin

text \<open>
  What a recording of profile snapshots guarantees once it has been read
  (tools/measurement/profileseries/series.go).
\<close>

section \<open>The members\<close>

text \<open>A member of the archive that is a snapshot taken at an instant.\<close>

definition snapshot_at :: "series_env \<Rightarrow> tar_member list \<Rightarrow> string \<Rightarrow> int \<Rightarrow> bool" where
  "snapshot_at N ms name t \<longleftrightarrow>
     (\<exists>m body p. m \<in> set ms \<and> tm_name m = name \<and> tm_body m = Inr body \<and> read_snapshot N name body = Inr p \<and> pf_time p = t)"

lemma read_snapshot_time: "read_snapshot N name body = Inr p \<Longrightarrow> 0 < pf_time p"
  by (auto simp: read_snapshot_def Let_def split: sum.splits option.splits if_splits)

lemma snapshot_at_Cons: "snapshot_at N ms name t \<Longrightarrow> snapshot_at N (m # ms) name t"
  by (auto simp: snapshot_at_def)

lemma snapshot_at_pos: "snapshot_at N ms name t \<Longrightarrow> 0 < t"
  by (auto simp: snapshot_at_def dest: read_snapshot_time)

text \<open>The members that have been read are those of the archive, each at its own instant.\<close>

definition members_read :: "series_env \<Rightarrow> tar_member list \<Rightarrow> (string, int) gomap \<Rightarrow> bool" where
  "members_read N ms seen \<longleftrightarrow> distinct (keys seen) \<and> (\<forall>n t. map_of seen n = Some t \<longrightarrow> snapshot_at N ms n t)"

lemma read_members_done:
  "read_members N visit ms seen (Some ix) s = (Inr (seen', index'), s') \<Longrightarrow> ms = [] \<and> seen' = seen \<and> index' = Some ix"
  by (cases ms) auto

lemma read_members_snapshots:
  assumes "read_members N visit ms seen None s = (Inr (seen', Some ix), s')"
    and "distinct (keys seen)"
  shows "distinct (keys seen') \<and>
    (\<forall>n t. map_of seen' n = Some t \<longrightarrow> map_of seen n = Some t \<or> snapshot_at N ms n t) \<and>
    set (keys seen') = set (keys seen) \<union> {tm_name m |m. m \<in> set ms \<and> tm_name m \<noteq> ''index.json''}"
  using assms
proof (induction ms arbitrary: seen s)
  case (Cons m ms)
  from Cons.prems(1) obtain body where b: "tm_body m = Inr body"
    by (auto split: if_splits sum.splits)
  show ?case
  proof (cases "tm_name m = ''index.json''")
    case True
    with Cons.prems(1) b obtain ix' where "read_members N visit ms seen (Some ix') s = (Inr (seen', Some ix), s')"
      by (auto split: if_splits sum.splits)
    from read_members_done [OF this] True Cons.prems(2) show ?thesis by auto
  next
    case False
    with Cons.prems(1) b obtain p s1 where p: "read_snapshot N (tm_name m) body = Inr p"
      and r: "read_members N visit ms (AList.update (tm_name m) (pf_time p) seen) None s1 = (Inr (seen', Some ix), s')"
      by (auto simp: Let_def split: if_splits sum.splits option.splits prod.splits)
    have here: "snapshot_at N (m # ms) (tm_name m) (pf_time p)" using b p by (auto simp: snapshot_at_def)
    have "distinct (keys (AList.update (tm_name m) (pf_time p) seen))" using Cons.prems(2) by (rule distinct_update)
    from Cons.IH [OF r this] show ?thesis
      using here False by (auto simp: update_conv' dom_update dest: snapshot_at_Cons split: if_splits)
  qed
qed simp

section \<open>The index\<close>

lemma delete_length:
  "distinct (keys m) \<Longrightarrow> length (AList.delete k m) = length m - (if k \<in> set (keys m) then 1 else 0)"
proof (induction m)
  case (Cons x m)
  then show ?case by (cases x; cases m) (auto simp: AList.delete_eq)
qed simp


lemma match_entry_step:
  "match_entry ix e seen = Inr rest \<Longrightarrow>
   lookup_or 0 seen (en_name e) = en_captured e \<and> ix_started ix \<le> en_captured e \<and> en_captured e \<le> ix_ended ix \<and>
   0 \<le> en_duration e \<and> rest = AList.delete (en_name e) seen"
  by (auto simp: match_entry_def split: if_splits)

lemma match_entries_length:
  "fold_res (match_entry ix) es seen = Inr rest \<Longrightarrow> distinct (keys seen) \<Longrightarrow> length seen \<le> length rest + length es"
proof (induction es arbitrary: seen)
  case (Cons e es)
  then obtain mid where m: "match_entry ix e seen = Inr mid" "fold_res (match_entry ix) es mid = Inr rest"
    by (auto split: sum.splits)
  from match_entry_step [OF m(1)] have "mid = AList.delete (en_name e) seen" by blast
  then have "distinct (keys mid)" "length seen \<le> Suc (length mid)"
    using Cons.prems(2) by (auto simp: delete_length distinct_delete)
  with Cons.IH [OF m(2)] show ?case by simp
qed simp

text \<open>When every entry has taken a member away, the entries name distinct members at their own instants.\<close>

lemma match_entries_exact:
  assumes "fold_res (match_entry ix) es seen = Inr rest" and "distinct (keys seen)" and "length rest + length es = length seen"
  shows "distinct (map en_name es) \<and>
    (\<forall>e \<in> set es. map_of seen (en_name e) = Some (en_captured e) \<and> ix_started ix \<le> en_captured e \<and>
       en_captured e \<le> ix_ended ix \<and> 0 \<le> en_duration e)"
  using assms
proof (induction es arbitrary: seen)
  case (Cons e es)
  then obtain mid where m: "match_entry ix e seen = Inr mid" "fold_res (match_entry ix) es mid = Inr rest"
    by (auto split: sum.splits)
  note step = match_entry_step [OF m(1)]
  then have d: "distinct (keys mid)" using Cons.prems(2) by (simp add: distinct_delete)
  have "en_name e \<in> set (keys seen)"
    using match_entries_length [OF m(2) d] Cons.prems(2,3) step by (simp add: delete_length split: if_splits)
  then have l: "length rest + length es = length mid" and k: "map_of seen (en_name e) = Some (en_captured e)"
    using Cons.prems(2,3) step by (auto simp: delete_length lookup_or_def dest: in_keys_map_of)
  from Cons.IH [OF m(2) d l] step k show ?case by (auto simp: delete_conv' split: if_splits)
qed simp

section \<open>The gaps\<close>

fun spaced :: "int \<Rightarrow> int list \<Rightarrow> bool" where
  "spaced d (a # b # ts) = (a < b \<and> b - a \<le> d \<and> spaced d (b # ts))"
| "spaced d ts = True"

lemma check_gaps_spaced:
  assumes "check_gaps interval ts previous = None" and "list_all (\<lambda>t. 0 < t \<and> t < 2 ^ 63) (previous # ts)"
    and "0 \<le> 3 * interval" and "3 * interval < 2 ^ 63"
  shows "spaced (3 * interval) (previous # ts)"
  using assms(1,2)
proof (induction ts arbitrary: previous)
  case (Cons t ts)
  have w: "wrap64 (3 * interval) = 3 * interval" using assms(3,4) by (intro wrap64_id) auto
  from Cons.prems have "previous < t" and g: "wrap64 (t - previous) \<le> 3 * interval" and r: "check_gaps interval ts t = None"
    by (auto simp: w split: if_splits)
  moreover have "wrap64 (t - previous) = t - previous" using Cons.prems(2) \<open>previous < t\<close> by (intro wrap64_id) auto
  ultimately show ?case using Cons.IH [OF r] Cons.prems(2) by simp
qed simp

lemma check_gaps_first:
  assumes "check_gaps interval ts 0 = None" and "list_all (\<lambda>t. 0 < t \<and> t < 2 ^ 63) ts"
    and "0 \<le> 3 * interval" and "3 * interval < 2 ^ 63"
  shows "spaced (3 * interval) ts"
  using assms check_gaps_spaced by (cases ts) auto

section \<open>A complete recording\<close>

definition snapshot_names :: "tar_member list \<Rightarrow> string set" where
  "snapshot_names ms = {tm_name m |m. m \<in> set ms \<and> tm_name m \<noteq> ''index.json''}"

definition complete_recording :: "series_env \<Rightarrow> tar_member list \<Rightarrow> series_index \<Rightarrow> bool" where
  "complete_recording N ms ix \<longleftrightarrow>
     distinct (map en_name (ix_entries ix)) \<and> set (map en_name (ix_entries ix)) = snapshot_names ms \<and>
     (\<forall>e \<in> set (ix_entries ix). snapshot_at N ms (en_name e) (en_captured e) \<and>
        ix_started ix \<le> en_captured e \<and> en_captured e \<le> ix_ended ix) \<and>
     (\<forall>kind \<in> {''go-heap'', ''go-goroutine''}.
        2 \<le> length (kind_times kind (ix_entries ix)) \<and> spaced (3 * ix_interval ix) (kind_times kind (ix_entries ix)))"

text \<open>
  A recording that is accepted is complete: its index names every snapshot of the archive exactly once,
  at the instant that is in the snapshot itself and within the recording; and of each of the two kinds
  there are at least two, one after the other and at most three intervals apart.
\<close>

theorem series_complete:
  assumes "read_series N visit (Inr content) s = (Inr ix, s')" and "sn_untar N content = (ms, stop)"
    and "ix_ended ix < 2 ^ 63" and "3 * ix_interval ix < 2 ^ 63"
  shows "complete_recording N ms ix"
proof -
  obtain seen where r: "read_members N visit ms [] None s = (Inr (seen, Some ix), s')" and c: "check_index seen ix = Inr ix"
  proof -
    from assms(1,2) obtain seen index s1 where m: "read_members N visit ms [] None s = (Inr (seen, index), s1)"
      by (auto simp: read_series_def split: if_splits prod.splits sum.splits)
    with assms(1,2) obtain ix1 where "index = Some ix1" "check_index seen ix1 = Inr ix" "s1 = s'"
      by (auto simp: read_series_def split: if_splits prod.splits sum.splits option.splits)
    moreover have "ix1 = ix" using \<open>check_index seen ix1 = Inr ix\<close>
      by (auto simp: check_index_def split: if_splits sum.splits option.splits)
    ultimately show thesis using that m by blast
  qed
  from read_members_snapshots [OF r] have seen: "distinct (keys seen)" "set (keys seen) = snapshot_names ms"
      "\<And>n t. map_of seen n = Some t \<Longrightarrow> snapshot_at N ms n t"
    by (auto simp: snapshot_names_def)
  from c have len: "length (ix_entries ix) = length seen" and pos: "0 < ix_interval ix"
    and f: "fold_res (match_entry ix) (ix_entries ix) seen = Inr []"
    by (auto simp: check_index_def split: if_splits sum.splits option.splits)
  from c have k: "check_kind ix kind = None" if "kind \<in> {''go-heap'', ''go-goroutine''}" for kind
    using that by (auto simp: check_index_def split: if_splits sum.splits option.splits)
  from match_entries_exact [OF f seen(1)] len have e: "distinct (map en_name (ix_entries ix))"
      "\<And>e. e \<in> set (ix_entries ix) \<Longrightarrow> map_of seen (en_name e) = Some (en_captured e) \<and> ix_started ix \<le> en_captured e \<and>
         en_captured e \<le> ix_ended ix"
    by auto
  have sub: "set (map en_name (ix_entries ix)) \<subseteq> set (keys seen)"
  proof
    fix n assume "n \<in> set (map en_name (ix_entries ix))"
    then obtain x where "x \<in> set (ix_entries ix)" "n = en_name x" by auto
    with e(2) [of x] show "n \<in> set (keys seen)" by (metis map_of_Some_in_keys)
  qed
  have "set (map en_name (ix_entries ix)) = set (keys seen)"
    by (rule card_subset_eq [OF _ sub]) (use distinct_card [OF e(1)] distinct_card [OF seen(1)] len in simp_all)
  moreover have "2 \<le> length (kind_times kind (ix_entries ix)) \<and> spaced (3 * ix_interval ix) (kind_times kind (ix_entries ix))"
    if kind: "kind \<in> {''go-heap'', ''go-goroutine''}" for kind
  proof -
    have "list_all (\<lambda>t. 0 < t \<and> t < 2 ^ 63) (kind_times kind (ix_entries ix))"
      using e(2) seen(3) assms(3) by (fastforce simp: kind_times_def list_all_iff dest: snapshot_at_pos)
    moreover have "check_gaps (ix_interval ix) (kind_times kind (ix_entries ix)) 0 = None" "2 \<le> length (kind_times kind (ix_entries ix))"
      using k [OF kind] by (auto simp: check_kind_def Let_def split: option.splits if_splits)
    ultimately show ?thesis using check_gaps_first pos assms(4) by auto
  qed
  ultimately show ?thesis using e seen unfolding complete_recording_def by blast
qed


text \<open>Two heap and two goroutine snapshots; the text of a snapshot is its instant.\<close>

definition demo_series :: series_env where
  "demo_series = \<lparr>
     sn_untar = (\<lambda>c. (map (\<lambda>(n, b). \<lparr>tm_name = n, tm_regular = True, tm_size = 2, tm_body = Inr b\<rparr>)
       [(''000001-go-heap.pprof'', ''10''), (''000002-go-goroutine.pprof'', ''11''), (''000003-go-heap.pprof'', ''12''),
        (''000004-go-goroutine.pprof'', ''13''), (''index.json'', [])], None)),
     sn_index = (\<lambda>b. Inr \<lparr>ix_version = 1, ix_started = 9, ix_ended = 20, ix_interval = 2, ix_status = ''complete'', ix_error = [],
       ix_entries = map (\<lambda>(n, t). \<lparr>en_name = n, en_captured = t, en_duration = 1\<rparr>)
         [(''000001-go-heap.pprof'', 10), (''000002-go-goroutine.pprof'', 11), (''000003-go-heap.pprof'', 12),
          (''000004-go-goroutine.pprof'', 13)]\<rparr>),
     sn_profile = (\<lambda>b. case parse_digits b of None \<Rightarrow> Inl (Errorf ''malformed'' [] [])
       | Some t \<Rightarrow> Inr \<lparr>pf_time = int t, pf_duration = 0, pf_types = [Some ''inuse_space'', Some ''goroutine''], pf_samples = 1\<rparr>),
     sn_check = (\<lambda>_. None)\<rparr>"

theorem series_complete_witness:
  "complete_recording demo_series (fst (sn_untar demo_series ''tar'')) (the (case sn_index demo_series [] of Inr ix \<Rightarrow> Some ix | _ \<Rightarrow> None))"
proof -
  define ix where "ix = the (case sn_index demo_series [] of Inr ix \<Rightarrow> Some ix | _ \<Rightarrow> None)"
  have r: "read_series demo_series None (Inr ''tar'') () = (Inr ix, ())" unfolding ix_def by code_simp
  have u: "sn_untar demo_series ''tar'' = (fst (sn_untar demo_series ''tar''), None)" by (simp add: demo_series_def)
  have b: "ix_ended ix < 2 ^ 63" "3 * ix_interval ix < 2 ^ 63" by (simp_all add: ix_def demo_series_def)
  show ?thesis using series_complete [OF r u b] unfolding ix_def .
qed

end
