(* ===== verification/MeasureArtifacts.thy ===== *)
theory MeasureArtifacts
  imports MeasureConfig MeasureQuality GoMatch GoExec
begin

text \<open>
  The artifacts of a RUN (tools/measurectl/artifacts.go): the files that the declarations say a RUN
  leaves, the check of a RUN's directory against them, and the check that the names used by the readers
  (the SQL of the analysis and the Go code of the dashboard) are among them.

  The local files are a tree from paths to contents. The iteration order of a collector's outputs is that
  of the association list; the list of specifications is sorted afterwards.
\<close>

section \<open>Specifications\<close>

record artifact_spec =
  as_pattern :: string
  as_producer :: string
  as_optional :: bool
  as_host_role :: string

abbreviation spec :: "string \<Rightarrow> string \<Rightarrow> bool \<Rightarrow> artifact_spec" where
  "spec pattern producer opt \<equiv> \<lparr>as_pattern = pattern, as_producer = producer, as_optional = opt, as_host_role = []\<rparr>"

definition host_glob :: "string \<Rightarrow> string" where
  "host_glob s = replace_all ''{host}'' ''*'' s"

definition new_artifact_spec :: "string \<Rightarrow> string \<Rightarrow> bool \<Rightarrow> string \<Rightarrow> artifact_spec" where
  "new_artifact_spec pattern producer opt role =
     \<lparr>as_pattern = host_glob pattern, as_producer = producer, as_optional = opt,
      as_host_role = (if contains_str pattern ''{host}'' then role else [])\<rparr>"

definition collector_specs :: "collector \<Rightarrow> artifact_spec list" where
  "collector_specs c =
     (let producer = ''collector:'' @ cr_name c in
      map (\<lambda>(_, local). new_artifact_spec local producer (\<not> collector_enabled c) (cr_hosts c)) (cr_outputs c) @
      [new_artifact_spec (cr_stderr c) producer True (cr_hosts c)])"

definition oneshot_specs :: "oneshot \<Rightarrow> artifact_spec list" where
  "oneshot_specs x = [new_artifact_spec (os_output x) (''oneshot:'' @ os_name x) (\<not> oneshot_enabled x) (os_hosts x)]"

text \<open>The producer of a log before it is compressed carries a note, in Japanese.\<close>

definition before_compression :: string where
  "before_compression =
     '' ('' @ [CHR 0xE5, CHR 0x9C, CHR 0xA7, CHR 0xE7, CHR 0xB8, CHR 0xAE, CHR 0xE5, CHR 0x89, CHR 0x8D] @ '')''"

definition source_specs :: "source \<Rightarrow> artifact_spec list" where
  "source_specs s =
     (let glob_path = host_glob (so_local s); producer = ''source:'' @ so_name s in
      if \<not> contains_str glob_path ''{run_dir}'' then []
      else
        (let local = trim_prefix (replace_all ''{run_dir}'' [] glob_path) ''/'' in
         if so_compress s then [spec (local @ ''.zst'') producer False, spec local (producer @ before_compression) True]
         else [spec local producer False]))"

definition digester_role :: "digest_config \<Rightarrow> digester \<Rightarrow> string" where
  "digester_role cfg d =
     (if dg_per_host d then (case find_source cfg (dg_source d) of None \<Rightarrow> [] | Some s \<Rightarrow> so_role s)
      else (case dg_remote d of Some r \<Rightarrow> (if rm_per_host r then rm_role r else []) | None \<Rightarrow> []))"

definition digester_specs :: "digest_config \<Rightarrow> digester \<Rightarrow> artifact_spec list" where
  "digester_specs cfg d =
     (let producer = ''digester:'' @ dg_name d; role = digester_role cfg d in
      map (\<lambda>x. new_artifact_spec (do_file x) producer (\<not> digester_enabled d) role) (dg_outputs d) @
      [new_artifact_spec (dg_stderr d) producer True role])"

definition own_specs :: "artifact_spec list" where
  "own_specs =
     [spec ''run.json'' ''measurectl:manifest'' False, spec ''bench.log'' ''bench'' False,
      spec ''benchmark-result.txt'' ''bench:portal'' True, spec ''scores.tsv'' ''measurectl:manifest'' True]"

definition sort_specs :: "artifact_spec list \<Rightarrow> artifact_spec list" where
  "sort_specs = sort_key (\<lambda>s. [as_pattern s, as_producer s])"

definition artifact_specs :: "collect_config \<Rightarrow> digest_config \<Rightarrow> artifact_spec list" where
  "artifact_specs cfg dcfg =
     sort_specs (concat (map collector_specs (cc_collectors cfg)) @ concat (map oneshot_specs (cc_oneshots cfg)) @
       concat (map source_specs (dc_sources dcfg)) @ concat (map (digester_specs dcfg) (dc_digesters dcfg)) @ own_specs)"

definition load_artifact_specs :: "collect_config decl_file \<Rightarrow> digest_config decl_file \<Rightarrow> go_error + artifact_spec list" where
  "load_artifact_specs collectors digesters =
     (case load_collect_config collectors of
        Inl e \<Rightarrow> Inl e
      | Inr cfg \<Rightarrow> (case load_digest_config digesters of Inl e \<Rightarrow> Inl e | Inr dcfg \<Rightarrow> Inr (artifact_specs cfg dcfg)))"

definition specs_for_collector_mode :: "artifact_spec list \<Rightarrow> bool \<Rightarrow> artifact_spec list" where
  "specs_for_collector_mode specs disabled =
     (if disabled then map (\<lambda>s. if has_prefix (as_producer s) ''collector:'' then s\<lparr>as_optional := True\<rparr> else s) specs else specs)"

section \<open>The directory of a RUN\<close>

text \<open>The format \<open>%-34s\<close> pads to 34 characters, not bytes.\<close>

definition rune_count :: "string \<Rightarrow> nat" where
  "rune_count s = length (filter (\<lambda>c. \<not> (CHR 0x80 \<le> c \<and> c \<le> CHR 0xBF)) s)"

definition pad_right :: "nat \<Rightarrow> string \<Rightarrow> string" where
  "pad_right n s = s @ replicate (n - rune_count s) (CHR '' '')"

definition missing_line :: "artifact_spec \<Rightarrow> string" where
  "missing_line s = ''  '' @ pad_right 34 (as_pattern s) @ '' '' @ as_producer s"

fun missing_specs :: "tree \<Rightarrow> string \<Rightarrow> artifact_spec list \<Rightarrow> go_error + artifact_spec list" where
  "missing_specs f dir [] = Inr []"
| "missing_specs f dir (s # ss) =
     (if as_optional s then missing_specs f dir ss
      else
        (case glob_result (path_join [dir, as_pattern s]) f of
           Inl e \<Rightarrow> Inl e
         | Inr ms \<Rightarrow>
             (case missing_specs f dir ss of
                Inl e \<Rightarrow> Inl e | Inr rest \<Rightarrow> Inr (if ms = [] then s # rest else rest))))"

definition check_run_dir :: "tree \<Rightarrow> string \<Rightarrow> artifact_spec list \<Rightarrow> go_error option \<times> string list" where
  "check_run_dir f dir specs =
     (case missing_specs f dir specs of
        Inl e \<Rightarrow> (Some e, [])
      | Inr [] \<Rightarrow> (None, [])
      | Inr ss \<Rightarrow>
          (Some (Errorf ''required artifacts are missing'' [] []),
           [dir @ '' lacks:'' @ nl @ join_with nl (map missing_line ss), nl @ ''see the artifacts of run.json'']))"

definition missing_artifact :: "artifact_spec \<Rightarrow> artifact" where
  "missing_artifact s =
     \<lparr>af_name = as_pattern s, af_bytes = 0, af_status = ''missing'',
      af_reason = as_producer s @ '' did not create a matching artifact'', af_quality = quality_of False [] False\<rparr>"

definition append_missing :: "tree \<Rightarrow> string \<Rightarrow> artifact list \<Rightarrow> artifact_spec list \<Rightarrow> go_error + artifact list" where
  "append_missing f dir as specs =
     (case missing_specs f dir (filter (\<lambda>s. as_pattern s \<noteq> ''run.json'') specs) of
        Inl e \<Rightarrow> Inl (Errorf ''invalid artifact pattern'' [] [e])
      | Inr ms \<Rightarrow> Inr (sort_key af_name (as @ map missing_artifact ms)))"

section \<open>The readers\<close>

definition reader_sources :: "(string \<times> string) list" where
  "reader_sources =
     [(''analysis(SQL)'', ''tools/analysis/schema/*.sql''), (''dashboard(Go)'', ''tools/dashboard/server/*.go'')]"

definition artifact_exts :: "string list" where
  "artifact_exts =
     [''.tsv'', ''.csv'', ''.json'', ''.log'', ''.txt'', ''.pprof'', ''.stderr'', ''.tar'', ''.zst'', ''.gz'', ''.bz2'', ''.xz'']"

text \<open>The two regular expressions for string literals, as the length of the match at the start of a text
  (0 for none): \<open>"([^"\\\n]|\\.)*"\<close> and \<open>'[^'\n]*'\<close>.\<close>

fun go_string_rest :: "string \<Rightarrow> nat option" where
  "go_string_rest [] = None"
| "go_string_rest (c # s) =
     (if c = CHR 0x22 then Some 1
      else if c = CHR 0x0A then None
      else if c = CHR 0x5C then
        (case s of [] \<Rightarrow> None | d # t \<Rightarrow> if d = CHR 0x0A then None else map_option (\<lambda>n. n + 2) (go_string_rest t))
      else map_option Suc (go_string_rest s))"

definition go_string_len :: "string \<Rightarrow> nat" where
  "go_string_len s =
     (case s of
        c # t \<Rightarrow> (if c = CHR 0x22 then (case go_string_rest t of Some n \<Rightarrow> n + 1 | None \<Rightarrow> 0) else 0)
      | [] \<Rightarrow> 0)"

definition sql_string_len :: "string \<Rightarrow> nat" where
  "sql_string_len s =
     (case s of
        c # t \<Rightarrow>
          (if c = CHR 0x27 then
             (let body = takeWhile (\<lambda>x. x \<noteq> CHR 0x27 \<and> x \<noteq> CHR 0x0A) t in
              if has_prefix (drop (length body) t) [CHR 0x27] then length body + 2 else 0)
           else 0)
      | [] \<Rightarrow> 0)"

definition quote_or_tick :: "char \<Rightarrow> bool" where
  "quote_or_tick c = (c = CHR 0x22 \<or> c = CHR 0x27)"

definition is_artifact_name :: "string \<Rightarrow> bool" where
  "is_artifact_name s =
     (if has_suffix s ''.md'' \<or> has_suffix s ''.sum'' \<or> has_suffix s ''.mod'' then False
      else if has_prefix s ''.'' then False
      else contains_any s ''-*.'')"

definition artifact_names_in :: "string \<Rightarrow> string \<Rightarrow> string list" where
  "artifact_names_in body ext =
     filter (\<lambda>name. path_ext name \<in> set artifact_exts \<and> is_artifact_name name)
       (map (\<lambda>lit. path_base (trim_right quote_or_tick (trim_left quote_or_tick lit)))
         (find_matches (if ext = ''.sql'' then sql_string_len else go_string_len) body))"

definition spec_matches :: "string \<Rightarrow> artifact_spec \<Rightarrow> bool" where
  "spec_matches name s =
     (let base = path_base (as_pattern s) in
      base = ''*-go-snapshots.tar'' \<and>
        trim_left (\<lambda>c. c = CHR ''*'' \<or> c = CHR ''-'') name \<in> set [''go-heap.pprof'', ''go-allocs.pprof'', ''go-goroutine.pprof''] \<or>
      base = name \<or> glob base name \<or> glob name base \<or>
      has_prefix base ''*-'' \<and> trim_prefix base ''*-'' = name)"

definition matches_any_spec :: "string \<Rightarrow> artifact_spec list \<Rightarrow> bool" where
  "matches_any_spec name specs = list_ex (spec_matches name) specs"

text \<open>The names that a reader uses, and the problems with them. A file that cannot be read ends the check.\<close>

definition names_used :: "reader \<Rightarrow> string list \<Rightarrow> go_error + string list" where
  "names_used read paths =
     (case map_res (\<lambda>p. case read p of Inl e \<Rightarrow> Inl e | Inr body \<Rightarrow> Inr (artifact_names_in body (path_ext p)))
         (filter (\<lambda>p. \<not> has_suffix p ''_test.go'') paths) of
        Inl e \<Rightarrow> Inl e
      | Inr nss \<Rightarrow> Inr (sort (remdups (concat nss))))"

definition reader_problems :: "tree \<Rightarrow> reader \<Rightarrow> artifact_spec list \<Rightarrow> string \<times> string \<Rightarrow> go_error + string list" where
  "reader_problems f read specs r =
     (case r of (name, pattern) \<Rightarrow>
        (case glob_result pattern f of
           Inl e \<Rightarrow> Inl e
         | Inr [] \<Rightarrow> Inr [''  '' @ name @ '': no sources found ('' @ pattern @ '')'']
         | Inr paths \<Rightarrow>
             (case names_used read paths of
                Inl e \<Rightarrow> Inl e
              | Inr names \<Rightarrow>
                  Inr (map (\<lambda>n. ''  '' @ name @ '' reads '' @ n @ '', which is not declared'')
                    (filter (\<lambda>n. \<not> matches_any_spec n specs) names)))))"

definition check_readers :: "tree \<Rightarrow> reader \<Rightarrow> artifact_spec list \<Rightarrow> go_error option \<times> string list" where
  "check_readers f read specs =
     (case map_res (reader_problems f read specs) reader_sources of
        Inl e \<Rightarrow> (Some e, [])
      | Inr pss \<Rightarrow>
          (let problems = concat pss in
           if problems = [] then (None, [''the declarations and the readers agree''])
           else (Some (Errorf ''declarations and readers differ'' [] []),
             [''the declarations and the readers differ:'', join_with nl problems, nl @ ''let the readers follow the declarations''])))"

end
