(* ===== verification/GoInput.thy ===== *)
theory GoInput
  imports GoCsv Complex_Main
begin

text \<open>
  Reading logs: the lines of a \<open>bufio.Scanner\<close> with a limit on their length, floating-point numbers as they
  come out of texts, and the sources of access logs (a file, or the output of \<open>zstdcat\<close>).

  A finite floating-point number is the rational number that its text denotes; the rounding to 64 bits is
  not modelled. What a text denotes (\<open>strconv.ParseFloat\<close>) is a parameter.
\<close>

section \<open>Lines\<close>

text \<open>The lines before the first one that does not fit into the buffer, and whether there is one.\<close>

definition scan_lines :: "int \<Rightarrow> string \<Rightarrow> string list \<times> bool" where
  "scan_lines limit body =
     (let parts = split_char newline_char body; ls = (if last parts = [] then butlast parts else parts) in
      (map (\<lambda>l. trim_suffix l [CHR 0x0D]) (takeWhile (\<lambda>l. int (length l) < limit) ls), list_ex (\<lambda>l. limit \<le> int (length l)) ls))"

definition too_long_line :: go_error where
  "too_long_line = Errorf ''bufio.Scanner: token too long'' [] []"

section \<open>Floating-point numbers\<close>

datatype fval = Fin rat | Infinite bool | Nan

type_synonym float_parser = "string \<Rightarrow> fval option"

text \<open>\<open>math.Round\<close>: to the nearest integer, half away from zero.\<close>

definition go_round :: "rat \<Rightarrow> int" where
  "go_round x = (if x < 0 then - \<lfloor>- x + 1 / 2\<rfloor> else \<lfloor>x + 1 / 2\<rfloor>)"

lemma go_round_mono: "0 \<le> x \<Longrightarrow> x \<le> y \<Longrightarrow> go_round x \<le> go_round y"
  by (simp add: go_round_def floor_mono)

lemma go_round_nonneg: "0 \<le> x \<Longrightarrow> 0 \<le> go_round x"
  by (simp add: go_round_def)

lemma go_round_of_int [simp]: "go_round (of_int i) = i"
  by (auto simp: go_round_def floor_eq_iff)

text \<open>A field of a JSON object that is a number, or a string with a number.\<close>

definition json_float :: "float_parser \<Rightarrow> json option \<Rightarrow> fval option" where
  "json_float pf v = (case v of Some (JNum s) \<Rightarrow> pf s | Some (JStr s) \<Rightarrow> pf s | _ \<Rightarrow> None)"

text \<open>Sums, multiples and averages of such numbers; \<open>Infinite True\<close> is the positive infinity.\<close>

fun fadd :: "fval \<Rightarrow> fval \<Rightarrow> fval" where
  "fadd (Fin a) (Fin b) = Fin (a + b)"
| "fadd (Fin a) (Infinite p) = Infinite p"
| "fadd (Infinite p) (Fin b) = Infinite p"
| "fadd (Infinite p) (Infinite q) = (if p = q then Infinite p else Nan)"
| "fadd Nan b = Nan"
| "fadd a Nan = Nan"

text \<open>The product with a positive rational.\<close>

fun fscale :: "rat \<Rightarrow> fval \<Rightarrow> fval" where
  "fscale k (Fin a) = Fin (k * a)"
| "fscale k (Infinite p) = Infinite p"
| "fscale k Nan = Nan"

lemma fadd_commute: "fadd a b = fadd b a"
  by (cases a; cases b) auto

lemma fadd_left_commute: "fadd a (fadd b c) = fadd b (fadd a c)"
  by (cases a; cases b; cases c) auto

text \<open>\<open>x >= 0\<close>.\<close>

definition fnonneg :: "fval \<Rightarrow> bool" where
  "fnonneg x = (case x of Fin a \<Rightarrow> 0 \<le> a | Infinite p \<Rightarrow> p | Nan \<Rightarrow> False)"

text \<open>\<open>strconv.FormatFloat (x, 'f', 3, 64)\<close>: three digits after the point, the nearest ones, a tie to the even
  one.\<close>

definition round_half_even :: "rat \<Rightarrow> int" where
  "round_half_even x =
     (let n = \<lfloor>x\<rfloor>; d = x - of_int n in
      if d < 1 / 2 \<or> (d = 1 / 2 \<and> even n) then n else n + 1)"

definition format_millis :: "int \<Rightarrow> string" where
  "format_millis n =
     format_int (n div 1000) @ ''.'' @
       [digit_char (nat (n mod 1000 div 100)), digit_char (nat (n mod 100 div 10)), digit_char (nat (n mod 10))]"

definition format_fixed3 :: "fval \<Rightarrow> string" where
  "format_fixed3 x =
     (case x of
        Fin a \<Rightarrow> (if a < 0 then ''-'' else []) @ format_millis (round_half_even (\<bar>a\<bar> * 1000))
      | Infinite p \<Rightarrow> if p then ''+Inf'' else ''-Inf''
      | Nan \<Rightarrow> ''NaN'')"

section \<open>Sources\<close>

text \<open>What opening a source gives: an error, or its content up to where reading it fails, the error of
  reading, and the error of closing it (for the output of a command, of waiting for the command).\<close>

record stream =
  in_body :: string
  in_read_err :: "go_error option"
  in_close_err :: "go_error option"

type_synonym opener = "string \<Rightarrow> go_error + stream"

text \<open>An access log: the standard input, a file, or the output of \<open>zstdcat\<close> with the error of waiting for the
  command.\<close>

record log_sources =
  lg_stdin :: stream
  lg_file :: opener
  lg_zstd :: "string \<Rightarrow> go_error + stream \<times> go_error option"

text \<open>The error that a scanner ends with.\<close>

definition scan_error :: "int \<Rightarrow> stream \<Rightarrow> go_error option" where
  "scan_error limit f = (if snd (scan_lines limit (in_body f)) then Some too_long_line else in_read_err f)"

text \<open>A loop over the lines of a source that may return early; then the error of the scanner.\<close>

definition scan_fold :: "int \<Rightarrow> (string \<Rightarrow> 's \<Rightarrow> go_error + 's) \<Rightarrow> stream \<Rightarrow> 's \<Rightarrow> go_error + 's" where
  "scan_fold limit f src s =
     (case fold_res f (fst (scan_lines limit (in_body src))) s of
        Inl e \<Rightarrow> Inl e
      | Inr s1 \<Rightarrow> (case scan_error limit src of Some e \<Rightarrow> Inl e | None \<Rightarrow> Inr s1))"

text \<open>The limit of a scanner without a buffer of its own.\<close>

definition token_limit :: int where
  "token_limit = 64 * 1024"

definition read_all :: "opener \<Rightarrow> string \<Rightarrow> go_error + string" where
  "read_all op path =
     (case op path of
        Inl e \<Rightarrow> Inl e
      | Inr f \<Rightarrow> (case in_read_err f of Some e \<Rightarrow> Inl e | None \<Rightarrow> Inr (in_body f)))"

lemma scan_foldD:
  "scan_fold limit f src s = Inr t \<Longrightarrow>
     fold_res f (fst (scan_lines limit (in_body src))) s = Inr t \<and> scan_error limit src = None"
  by (auto simp: scan_fold_def split: sum.splits option.splits)

text \<open>\<open>strconv.FormatFloat (x, 'f', k, 64)\<close> of a number that is finite.\<close>

definition format_decimals :: "nat \<Rightarrow> rat \<Rightarrow> string" where
  "format_decimals k x =
     (let n = round_half_even (\<bar>x\<bar> * 10 ^ k); f = format_nat (nat (n mod 10 ^ k)) in
      (if x < 0 then ''-'' else []) @ format_int (n div 10 ^ k) @ ''.'' @ replicate (k - length f) (CHR ''0'') @ f)"

lemma format_decimals_code [code]:
  "format_decimals k x =
     (let n = round_half_even (\<bar>x\<bar> * 10 ^ k); f = format_digits (n mod 10 ^ k) in
      (if x < 0 then ''-'' else []) @ format_int (n div 10 ^ k) @ ''.'' @ replicate (k - length f) (CHR ''0'') @ f)"
  by (simp add: format_decimals_def format_digits_nat)

text \<open>The same for any number, as \<open>fmt\<close> writes it, and the quotient of two numbers, the second one positive.\<close>

definition format_fixed :: "nat \<Rightarrow> fval \<Rightarrow> string" where
  "format_fixed k x =
     (case x of Fin a \<Rightarrow> format_decimals k a | Infinite p \<Rightarrow> if p then ''+Inf'' else ''-Inf'' | Nan \<Rightarrow> ''NaN'')"

definition fpositive :: "fval \<Rightarrow> bool" where
  "fpositive x = (case x of Fin a \<Rightarrow> 0 < a | Infinite p \<Rightarrow> p | Nan \<Rightarrow> False)"

fun fdiv :: "fval \<Rightarrow> fval \<Rightarrow> fval" where
  "fdiv (Fin a) (Fin b) = Fin (a / b)"
| "fdiv (Fin a) (Infinite q) = Fin 0"
| "fdiv (Infinite p) (Fin b) = Infinite p"
| "fdiv x y = Nan"

end
