(* ===== verification/MeasureCapture.thy ===== *)
theory MeasureCapture
  imports MeasureArtifacts MeasureSeries MeasureCollect GoInput
begin

text \<open>
  What a RUN has to capture (tools/measurectl/capture_artifacts.go) and the record of a RUN that holds it
  (the types of tools/measurectl/manifest.go): the contract that \<open>manifest begin\<close> freezes, the
  specifications in force for a RUN, and the inspection of profiles, snapshot recordings, access logs and
  the user-transition report against the load window.

  Parameters: the JSON decoders, the profile parser, the archive reader, what \<open>zstdcat\<close> prints, the clock,
  and the value of a JSON number and of an instant as floating-point seconds. Percentages are the exact
  quotients. The goroutines that inspect the artifacts each write their own artifact only, so the
  inspection is a map over the artifacts.
\<close>

section \<open>The record of a RUN\<close>

record run_roles =
  rr_additional :: "(string, string list) gomap"
  rr_app :: "string list"
  rr_app_traffic :: "string list"
  rr_nginx :: "string list"
  rr_entry :: string
  rr_mysql :: string

record manifest =
  mf_contract :: "artifact_spec list option"
  mf_profiles :: bool
  mf_required :: "string list"
  mf_collectors_disabled :: bool
  mf_version :: int
  mf_phase :: string
  mf_run_id :: string
  mf_started :: string
  mf_written :: string
  mf_finalized :: string
  mf_score :: "int option"
  mf_passed :: "bool option"
  mf_roles :: run_roles
  mf_commit :: string
  mf_branch :: string
  mf_artifacts :: "artifact list"
  mf_raw_bytes :: nat
  mf_clean :: bool
  mf_window :: load_window

section \<open>The contract\<close>

definition manifest_role_hosts :: "manifest \<Rightarrow> string \<Rightarrow> string list" where
  "manifest_role_hosts m role =
     (let rs = mf_roles m; one = (\<lambda>h. if h = [] then [] else [h]) in
      if role = ''app'' then rr_app rs
      else if role = ''app_traffic'' then rr_app_traffic rs
      else if role = ''nginx'' then rr_nginx rs
      else if role = ''entry'' then one (rr_entry rs)
      else if role = ''mysql'' then one (rr_mysql rs)
      else lookup_or [] (rr_additional rs) role)"

text \<open>\<open>strings.Replace\<close> of the first star.\<close>

fun replace_star :: "string \<Rightarrow> string \<Rightarrow> string" where
  "replace_star host [] = []"
| "replace_star host (c # s) = (if c = CHR ''*'' then host @ s else c # replace_star host s)"

definition expand_spec :: "manifest \<Rightarrow> artifact_spec \<Rightarrow> go_error + artifact_spec list" where
  "expand_spec m s =
     (if as_host_role s = [] then Inr [s]
      else
        (case manifest_role_hosts m (as_host_role s) of
           [] \<Rightarrow> Inl (Errorf ''the manifest has no hosts for the role of an artifact'' [as_pattern s, as_producer s, as_host_role s] [])
         | h # hs \<Rightarrow>
             Inr (map (\<lambda>host. s\<lparr>as_pattern := replace_star host (as_pattern s), as_host_role := []\<rparr>) (h # hs))))"

definition expand_per_host :: "artifact_spec list \<Rightarrow> manifest \<Rightarrow> go_error + artifact_spec list" where
  "expand_per_host specs m =
     (case map_res (expand_spec m) specs of Inl e \<Rightarrow> Inl e | Inr sss \<Rightarrow> Inr (concat sss))"

definition add_required :: "string \<Rightarrow> artifact_spec list \<times> string list \<Rightarrow> artifact_spec list \<times> string list" where
  "add_required name st =
     (case st of (specs, exact) \<Rightarrow>
        if name \<in> set exact then (specs, exact)
        else (specs @ [spec name ''RUN capture contract'' False], name # exact))"

definition append_capture_specs :: "artifact_spec list \<Rightarrow> manifest \<Rightarrow> artifact_spec list" where
  "append_capture_specs specs m =
     (let exact = map as_pattern (filter (\<lambda>s. \<not> as_optional s \<and> \<not> contains_any (as_pattern s) ''*?['') specs)
      in fst (fold add_required (mf_required m) (specs, exact)))"

definition optional_profiles :: "collect_config \<Rightarrow> artifact_spec list \<Rightarrow> artifact_spec list" where
  "optional_profiles cfg specs =
     (let producers = map (\<lambda>x. ''oneshot:'' @ os_name x) (filter (\<lambda>x. os_group x = ''profiles'') (cc_oneshots cfg))
      in map (\<lambda>s. if as_producer s \<in> set producers then s\<lparr>as_optional := True\<rparr> else s) specs)"

definition capture_contract :: "manifest \<Rightarrow> collect_config decl_file \<Rightarrow> digest_config decl_file \<Rightarrow> go_error + artifact_spec list" where
  "capture_contract m collectors digesters =
     (case load_artifact_specs collectors digesters of
        Inl e \<Rightarrow> Inl e
      | Inr specs0 \<Rightarrow>
          (case expand_per_host specs0 m of
             Inl e \<Rightarrow> Inl e
           | Inr specs1 \<Rightarrow>
               (case load_collect_config collectors of
                  Inl e \<Rightarrow> Inl e
                | Inr cfg \<Rightarrow>
                    (let specs2 = (if mf_profiles m then specs1 else optional_profiles cfg specs1)
                     in Inr (append_capture_specs (specs_for_collector_mode specs2 (mf_collectors_disabled m)) m)))))"

definition legacy_profiles :: "string list" where
  "legacy_profiles = [''fgprof'', ''go-cpu'', ''go-heap'', ''go-allocs'', ''go-goroutine'', ''go-snapshots'']"

definition legacy_optional :: "artifact_spec \<Rightarrow> artifact_spec" where
  "legacy_optional s =
     (if trim_prefix (as_producer s) ''oneshot:'' \<in> set legacy_profiles \<or> as_producer s = ''digester:user-transitions''
      then s\<lparr>as_optional := True\<rparr> else s)"

definition specs_for_run :: "artifact_spec list \<Rightarrow> manifest \<Rightarrow> artifact_spec list" where
  "specs_for_run current m =
     (case mf_contract m of
        Some contract \<Rightarrow> contract
      | None \<Rightarrow> append_capture_specs (map legacy_optional (specs_for_collector_mode current (mf_collectors_disabled m))) m)"

section \<open>The required captures\<close>

definition capture_roles :: "manifest \<Rightarrow> (string, string list) gomap" where
  "capture_roles m =
     (let rs = mf_roles m in
      AList.update ''entry'' [rr_entry rs] (AList.update ''mysql'' [rr_mysql rs]
        (AList.update ''nginx'' (rr_nginx rs) (AList.update ''app'' (rr_app rs) (rr_additional rs)))))"

definition host_names :: "(string, string list) gomap \<Rightarrow> string \<Rightarrow> go_error \<Rightarrow> (string \<Rightarrow> string) \<Rightarrow> go_error + string list" where
  "host_names roles role err name = (case lookup_or [] roles role of [] \<Rightarrow> Inl err | h # hs \<Rightarrow> Inr (map name (h # hs)))"

definition profile_names :: "(string, string list) gomap \<Rightarrow> oneshot \<Rightarrow> go_error + string list" where
  "profile_names roles x =
     host_names roles (os_hosts x) (Errorf ''profile has no hosts'' [os_name x] []) (\<lambda>h. replace_all ''{host}'' h (os_output x))"

definition source_name :: "source \<Rightarrow> string \<Rightarrow> string" where
  "source_name s host =
     replace_all ''{host}'' host (trim_prefix (so_local s) ''{run_dir}/'') @ (if so_compress s then ''.zst'' else [])"

definition source_names :: "(string, string list) gomap \<Rightarrow> source \<Rightarrow> go_error + string list" where
  "source_names roles s = host_names roles (so_role s) (Errorf ''source has no hosts'' [so_name s] []) (source_name s)"

definition capture_requirements :: "manifest \<Rightarrow> collect_config decl_file \<Rightarrow> digest_config decl_file \<Rightarrow> go_error + string list" where
  "capture_requirements m collectors digesters =
     (case load_collect_config collectors of Inl e \<Rightarrow> Inl e | Inr cfg \<Rightarrow>
     (case load_digest_config digesters of Inl e \<Rightarrow> Inl e | Inr dcfg \<Rightarrow>
       (let roles = capture_roles m in
        case (if mf_profiles m then
                (case enabled_in_group (cc_oneshots cfg) ''profiles'' of
                   Inl e \<Rightarrow> Inl e | Inr xs \<Rightarrow> map_res (profile_names roles) xs)
              else Inr []) of
          Inl e \<Rightarrow> Inl e
        | Inr profiles \<Rightarrow>
            (let reports = concat (map (\<lambda>d. map do_file (dg_outputs d))
                   (filter (\<lambda>d. dg_name d = ''user-transitions'' \<and> digester_enabled d) (dc_digesters dcfg)))
             in case map_res (source_names roles) (filter (\<lambda>s. has_prefix (so_local s) ''{run_dir}/'') (dc_sources dcfg)) of
                  Inl e \<Rightarrow> Inl e
                | Inr sources \<Rightarrow> Inr (sort (concat profiles @ reports @ concat sources))))))"

section \<open>Inspecting the captures\<close>

record transition_report =
  tr_version :: int
  tr_input_files :: int
  tr_api_requests :: int
  tr_classified :: int
  tr_identified :: int

record capture_env =
  cp_clock :: time_codec
  cp_read :: reader
  cp_report :: "string \<Rightarrow> go_error + transition_report"
  cp_series :: series_env
  cp_start_cat :: "string \<Rightarrow> go_error option"
  cp_cat :: "string \<Rightarrow> string \<times> go_error option"
  cp_object :: "string \<Rightarrow> go_error + (string, string) gomap"
  cp_seconds :: "string \<Rightarrow> go_error + rat"
  cp_float :: "int \<Rightarrow> rat"

definition fresh_quality :: "bool \<Rightarrow> artifact_quality" where
  "fresh_quality good = quality_of True ''invalid'' good"

definition inspect_transitions :: "capture_env \<Rightarrow> string \<Rightarrow> artifact_quality" where
  "inspect_transitions E path =
     (let q = fresh_quality False in
      case cp_read E path of
        Inl e \<Rightarrow> q\<lparr>aq_reason := error_text e\<rparr>
      | Inr body \<Rightarrow>
          (case cp_report E body of
             Inl e \<Rightarrow> q\<lparr>aq_reason := ''invalid user-transition report: '' @ error_text e\<rparr>
           | Inr s \<Rightarrow>
               (let q1 = q\<lparr>aq_rows := tr_classified s\<rparr> in
                if tr_version s \<noteq> 3 \<or> tr_input_files s \<le> 0 \<or> tr_api_requests s \<le> 0 \<or> tr_classified s \<le> 0
                then q1\<lparr>aq_reason := ''user-transition report has no valid classified API input; check collection and route adapter''\<rparr>
                else if tr_identified s \<le> 0
                then q1\<lparr>aq_reason := ''user-transition identity is missing; configure the access log identity field during setup''\<rparr>
                else q1\<lparr>aq_status := ''valid''\<rparr>)))"

definition expected_types :: "(string \<times> string) list" where
  "expected_types =
     [(''-go-cpu.pprof'', ''cpu''), (''-fgprof.pprof'', ''time''), (''-go-heap.pprof'', ''inuse_space''),
      (''-go-allocs.pprof'', ''alloc_space''), (''-go-goroutine.pprof'', ''goroutine'')]"

definition expected_type :: "string \<Rightarrow> string" where
  "expected_type path = (case find (\<lambda>(s, _). has_suffix path s) expected_types of None \<Rightarrow> [] | Some (_, t) \<Rightarrow> t)"

definition sampling_profile :: "string \<Rightarrow> bool" where
  "sampling_profile path \<longleftrightarrow> has_suffix path ''-go-cpu.pprof'' \<or> has_suffix path ''-fgprof.pprof''"

definition coverage :: "int \<Rightarrow> int \<Rightarrow> rat" where
  "coverage part whole = of_int (max 0 part) / of_int whole * 100"

definition ok_bounds :: "time_codec \<Rightarrow> load_window \<Rightarrow> (int \<times> int) option" where
  "ok_bounds T w = (if lw_status w = ''ok'' then window_bounds T w else None)"

definition judge_profile :: "time_codec \<Rightarrow> string \<Rightarrow> load_window \<Rightarrow> int \<Rightarrow> int \<Rightarrow> profile \<Rightarrow> artifact_quality \<Rightarrow> artifact_quality" where
  "judge_profile T path w s e p q =
     (let captured = pf_time p in
      if captured \<le> 0 then q\<lparr>aq_reason := ''profile capture timestamp is missing''\<rparr>
      else if sampling_profile path then
        (if pf_duration p \<le> 0 then q\<lparr>aq_reason := ''sampling profile duration is missing''\<rparr>
         else
           (let finished = captured + pf_duration p;
                q1 = q\<lparr>aq_coverage := coverage (time_sub (min e finished) (max s captured)) (time_sub e s)\<rparr> in
            if s < captured \<or> finished < e
            then q1\<lparr>aq_reason := ''profile '' @ tc_format T captured @ ''..'' @ tc_format T finished @
                   '' does not cover load window '' @ lw_start w @ ''..'' @ lw_end w\<rparr>
            else q1\<lparr>aq_status := ''valid''\<rparr>))
      else if captured < s \<or> e < captured then q\<lparr>aq_reason := ''snapshot is outside the load window''\<rparr>
      else q\<lparr>aq_status := ''valid''\<rparr>)"

definition inspect_profile :: "capture_env \<Rightarrow> string \<Rightarrow> load_window \<Rightarrow> artifact_quality" where
  "inspect_profile E path w =
     (let q = fresh_quality True in
      case cp_read E path of
        Inl e \<Rightarrow> q\<lparr>aq_reason := error_text e\<rparr>
      | Inr body \<Rightarrow>
          (case (case sn_profile (cp_series E) body of
                   Inl e \<Rightarrow> Inl e
                 | Inr p \<Rightarrow> (case sn_check (cp_series E) p of Some e \<Rightarrow> Inl e | None \<Rightarrow> Inr p)) of
             Inl e \<Rightarrow> q\<lparr>aq_reason := ''invalid profile: '' @ error_text e\<rparr>
           | Inr p \<Rightarrow>
               (let q1 = q\<lparr>aq_rows := int (pf_samples p)\<rparr> in
                if Some (expected_type path) \<notin> set (pf_types p)
                then q1\<lparr>aq_reason := ''profile does not contain expected sample type '' @ expected_type path\<rparr>
                else
                  (case ok_bounds (cp_clock E) w of
                     None \<Rightarrow> q1\<lparr>aq_reason := ''profile load window is unavailable''\<rparr>
                   | Some (s, e) \<Rightarrow> judge_profile (cp_clock E) path w s e p q1))))"


text \<open>Access logs: the lines of a \<open>bufio.Scanner\<close> with a buffer of 4 MiB, each a JSON object.\<close>

definition scan_limit :: int where
  "scan_limit = 4194304"

definition scanned_lines :: "string \<Rightarrow> string list \<times> bool" where
  "scanned_lines body = scan_lines scan_limit body"

definition access_fields :: "string list" where
  "access_fields =
     [''msec'', ''method'', ''uri'', ''status'', ''response_time'', ''body_bytes'', ''upstream_time'', ''upstream_addr'',
      ''upstream_status'', ''cache_status'']"

definition access_seconds :: "capture_env \<Rightarrow> string \<Rightarrow> go_error + rat" where
  "access_seconds E line =
     (case cp_object E line of
        Inl e \<Rightarrow> Inl e
      | Inr rec \<Rightarrow>
          (case find (\<lambda>f. f \<notin> set (keys rec)) access_fields of
             Some f \<Rightarrow> Inl (Errorf ''missing access log field'' [f] [])
           | None \<Rightarrow> cp_seconds E (lookup_or [] rec ''msec'')))"

fun scan_access :: "capture_env \<Rightarrow> rat \<Rightarrow> rat \<Rightarrow> string list \<Rightarrow> artifact_quality \<Rightarrow> go_error option \<times> artifact_quality" where
  "scan_access E s e [] q = (None, q)"
| "scan_access E s e (line # ls) q =
     (case access_seconds E line of
        Inl err \<Rightarrow> (Some err, q)
      | Inr t \<Rightarrow>
          scan_access E s e ls (q\<lparr>aq_rows := aq_rows q + 1, aq_in_window := aq_in_window q + (if s \<le> t \<and> t \<le> e then 1 else 0)\<rparr>))"

definition parse_or_zero :: "time_codec \<Rightarrow> string \<Rightarrow> int" where
  "parse_or_zero T s = (case tc_parse T s of None \<Rightarrow> zero_time | Some t \<Rightarrow> t)"

definition inspect_access_log :: "capture_env \<Rightarrow> string \<Rightarrow> load_window \<Rightarrow> artifact_quality" where
  "inspect_access_log E path w =
     (let q = fresh_quality True; sec = (\<lambda>x. cp_float E (unix_nano (parse_or_zero (cp_clock E) x))) in
      case cp_start_cat E path of
        Some e \<Rightarrow> q\<lparr>aq_reason := error_text e\<rparr>
      | None \<Rightarrow>
          (case scanned_lines (fst (cp_cat E path)) of (ls, too_long) \<Rightarrow>
             (case scan_access E (sec (lw_start w)) (sec (lw_end w)) ls q of
                (Some e, q1) \<Rightarrow> q1\<lparr>aq_reason := ''invalid access log: '' @ error_text e\<rparr>
              | (None, q1) \<Rightarrow>
                  if too_long then q1\<lparr>aq_reason := ''invalid access log: bufio.Scanner: token too long''\<rparr>
                  else (case snd (cp_cat E path) of
                      Some e \<Rightarrow> q1\<lparr>aq_reason := ''access decompression failed: '' @ error_text e\<rparr>
                    | None \<Rightarrow> q1\<lparr>aq_status := ''valid''\<rparr>))))"

text \<open>Snapshot recordings: the observations of one kind, with \<open>previous\<close> 0 before the first; then the two
  kinds one after the other, \<open>first\<close> being the later of their beginnings and \<open>last_seen\<close> the earlier of
  their ends.\<close>

fun scan_kind :: "int list \<Rightarrow> int \<Rightarrow> int \<Rightarrow> artifact_quality \<Rightarrow> int \<times> int \<times> artifact_quality" where
  "scan_kind [] previous first q = (previous, first, q)"
| "scan_kind (t # ts) previous first q =
     (let q1 = q\<lparr>aq_rows := aq_rows q + 1\<rparr> in
      if previous \<noteq> 0 then
        (let gap = wrap64 (t - previous) in
         scan_kind ts t first
           (q1\<lparr>aq_monotonic := aq_monotonic q \<and> 0 < gap, aq_max_gap := max (aq_max_gap q) (gap sdiv 1000000)\<rparr>))
      else scan_kind ts t (max first t) q1)"

fun scan_kinds :: "entry list \<Rightarrow> string list \<Rightarrow> int \<Rightarrow> int \<Rightarrow> artifact_quality \<Rightarrow> (int \<times> int) option \<times> artifact_quality" where
  "scan_kinds es [] first last_seen q = (Some (first, last_seen), q)"
| "scan_kinds es (k # ks) first last_seen q =
     (case scan_kind (kind_times k es) 0 first q of (previous, first1, q1) \<Rightarrow>
        (let last1 = (if last_seen = 0 \<or> previous < last_seen then previous else last_seen) in
         if length (kind_times k es) < 2
         then (None, q1\<lparr>aq_reason := ''snapshot recording has fewer than two observations per kind''\<rparr>)
         else scan_kinds es ks first1 last1 q1))"

definition judge_series :: "int \<Rightarrow> int \<Rightarrow> int \<Rightarrow> int \<Rightarrow> int \<Rightarrow> artifact_quality \<Rightarrow> artifact_quality" where
  "judge_series s e first last_seen interval q =
     (let sn = unix_nano s; en = unix_nano e;
          q1 = q\<lparr>aq_coverage := coverage (wrap64 (min en last_seen - max sn first)) (time_sub e s)\<rparr> in
      if \<not> aq_monotonic q \<or> sn < first \<or> last_seen < en \<or> wrap64 (3 * interval) sdiv 1000000 < aq_max_gap q
      then q1\<lparr>aq_reason := ''snapshot recording has missing coverage or excessive sampling gaps''\<rparr>
      else q1\<lparr>aq_status := ''valid''\<rparr>)"

definition inspect_series :: "capture_env \<Rightarrow> string \<Rightarrow> load_window \<Rightarrow> artifact_quality" where
  "inspect_series E path w =
     (let q = fresh_quality True in
      case fst (read_series (cp_series E) None (cp_read E path) ()) of
        Inl e \<Rightarrow> q\<lparr>aq_reason := error_text e\<rparr>
      | Inr ix \<Rightarrow>
          (case ok_bounds (cp_clock E) w of
             None \<Rightarrow> q\<lparr>aq_reason := ''snapshot load window unavailable''\<rparr>
           | Some (s, e) \<Rightarrow>
               (case scan_kinds (ix_entries ix) [''go-heap'', ''go-goroutine''] 0 0 q of
                  (None, q1) \<Rightarrow> q1
                | (Some (first, last_seen), q1) \<Rightarrow> judge_series s e first last_seen (ix_interval ix) q1)))"

section \<open>All captures\<close>

definition access_log_artifact :: "string \<Rightarrow> bool" where
  "access_log_artifact name \<longleftrightarrow> has_prefix name ''raw/access-'' \<and> has_suffix name ''.log.zst''"

definition inspected :: "manifest \<Rightarrow> artifact \<Rightarrow> bool" where
  "inspected m a \<longleftrightarrow>
     af_name a \<in> set (mf_required m) \<and>
     (af_name a = ''user-transitions.json'' \<or> has_suffix (af_name a) ''.pprof'' \<or> has_suffix (af_name a) ''-go-snapshots.tar'' \<or>
      access_log_artifact (af_name a))"

text \<open>An access log is counted when none of the cases before it applies.\<close>

definition access_inspected :: "manifest \<Rightarrow> artifact \<Rightarrow> bool" where
  "access_inspected m a \<longleftrightarrow>
     inspected m a \<and> af_name a \<noteq> ''user-transitions.json'' \<and> \<not> has_suffix (af_name a) ''.pprof'' \<and>
     \<not> has_suffix (af_name a) ''-go-snapshots.tar''"

definition inspect_capture :: "capture_env \<Rightarrow> string \<Rightarrow> load_window \<Rightarrow> string \<Rightarrow> artifact_quality" where
  "inspect_capture E dir w name =
     (let path = path_join [dir, name] in
      if name = ''user-transitions.json'' then inspect_transitions E path
      else if has_suffix name ''-go-snapshots.tar'' then inspect_series E path w
      else if has_suffix name ''.pprof'' then inspect_profile E path w
      else inspect_access_log E path w)"

definition demote :: "artifact \<Rightarrow> artifact" where
  "demote a =
     (if aq_status (af_quality a) = ''valid'' then a
      else a\<lparr>af_status := (if af_status a \<noteq> ''missing'' then ''failed'' else af_status a),
             af_reason := join_reasons [af_reason a, aq_reason (af_quality a)]\<rparr>)"

definition no_access_records :: string where
  "no_access_records = ''no nginx access records in the load window despite a passed benchmark''"

definition reject_access :: "artifact \<Rightarrow> artifact" where
  "reject_access a =
     a\<lparr>af_status := ''failed'', af_reason := no_access_records,
       af_quality := (af_quality a)\<lparr>aq_status := ''invalid'', aq_reason := no_access_records\<rparr>\<rparr>"

definition assess_capture :: "capture_env \<Rightarrow> string \<Rightarrow> manifest \<Rightarrow> artifact list \<Rightarrow> artifact list" where
  "assess_capture E dir m as =
     (let as1 = map (\<lambda>a. if inspected m a then a\<lparr>af_quality := inspect_capture E dir (mf_window m) (af_name a)\<rparr> else a) as;
          access_rows = sum_list (map (\<lambda>a. aq_in_window (af_quality a)) (filter (access_inspected m) as1));
          as2 = map (\<lambda>a. if inspected m a then demote a else a) as1
      in if mf_passed m = Some True \<and> list_ex (access_inspected m) as \<and> access_rows = 0
         then map (\<lambda>a. if access_inspected m a then reject_access a else a) as2
         else as2)"

end
