(* ===== verification/MeasureCommit.thy ===== *)
theory MeasureCommit
  imports MeasureCapture
begin

text \<open>
  The commits around a RUN (tools/measurectl/commit.go): git with retries, the snapshot of the worktree
  before a RUN starts, and the commit of the artifacts of a finished RUN. Also the version of the code that
  \<open>manifest begin\<close> records (\<open>gitSource\<close> of manifest.go).

  git is the executor, a parameter. So are the working directory, the resolution of symbolic links,
  reading a file and decoding a manifest. The wait between two attempts is not modelled.
\<close>

section \<open>git\<close>

definition git_retry_count :: nat where
  "git_retry_count = 3"

fun git_attempts :: "nat \<Rightarrow> 'w executor \<Rightarrow> string list \<Rightarrow> 'w sys \<Rightarrow> (string \<times> go_error option) \<times> 'w sys" where
  "git_attempts 0 ex args s = exec_run ex (Cmd ''git'' args []) s"
| "git_attempts (Suc k) ex args s =
     (case exec_run ex (Cmd ''git'' args []) s of
        ((out, None), s1) \<Rightarrow> ((out, None), s1)
      | ((out, Some e), s1) \<Rightarrow> git_attempts k ex args s1)"

definition run_git :: "'w executor \<Rightarrow> string \<Rightarrow> string list \<Rightarrow> 'w sys \<Rightarrow> (string \<times> go_error option) \<times> 'w sys" where
  "run_git ex command args s =
     (case git_attempts git_retry_count ex args s of
        ((out, None), s1) \<Rightarrow> ((out, None), s1)
      | ((out, Some e), s1) \<Rightarrow> ((out, Some (Errorf ''git'' [command, out] [e])), s1))"

definition commit_summary :: "string \<Rightarrow> string \<Rightarrow> string" where
  "commit_summary message names = ''commit: '' @ message @ '' ('' @ format_nat (length (str_fields names)) @ '' files)''"

section \<open>The worktree\<close>

definition git_in :: "'w executor \<Rightarrow> string \<Rightarrow> string list \<Rightarrow> 'w sys \<Rightarrow> (string \<times> go_error option) \<times> 'w sys" where
  "git_in ex repo args s =
     run_git ex (if hd args = ''-c'' \<and> 2 < length args then args ! 2 else hd args)
       ((if repo \<noteq> [] then [''-C'', repo] else []) @ args) s"

abbreviation status_args :: "string list" where
  "status_args \<equiv> [''status'', ''--porcelain=v1'', ''--untracked-files=all'']"

definition snapshot_message :: "string \<Rightarrow> string" where
  "snapshot_message run_id = ''Snapshot changes before benchmark '' @ run_id"

definition commit_working_tree :: "'w executor \<Rightarrow> string \<Rightarrow> 'w sys \<Rightarrow> (go_error option \<times> string list) \<times> 'w sys" where
  "commit_working_tree ex run_id s =
     (case git_in ex [] [''rev-parse'', ''--show-toplevel''] s of
        ((_, Some e), s1) \<Rightarrow> ((Some e, []), s1)
      | ((top_out, None), s1) \<Rightarrow>
     (let repo = trim_space top_out in
      case git_in ex repo status_args s1 of
        ((_, Some e), s2) \<Rightarrow> ((Some e, []), s2)
      | ((status, None), s2) \<Rightarrow>
          if status = [] then ((None, []), s2)
          else
     (case git_in ex repo [''add'', ''-A'', ''--'', ''.''] s2 of
        ((_, Some e), s3) \<Rightarrow> ((Some e, []), s3)
      | ((_, None), s3) \<Rightarrow>
     (case git_in ex repo [''diff'', ''--cached'', ''--name-only''] s3 of
        ((_, Some e), s4) \<Rightarrow> ((Some e, []), s4)
      | ((staged, None), s4) \<Rightarrow>
          if staged = [] then ((Some (Errorf ''changes that git add could not stage'' [status] []), []), s4)
          else
     (case git_in ex repo [''-c'', ''core.hooksPath=/dev/null'', ''commit'', ''-q'', ''-m'', snapshot_message run_id] s4 of
        ((_, Some e), s5) \<Rightarrow> ((Some e, []), s5)
      | ((_, None), s5) \<Rightarrow>
          (let summary = [commit_summary (snapshot_message run_id) staged] in
           case git_in ex repo status_args s5 of
             ((_, Some e), s6) \<Rightarrow> ((Some e, summary), s6)
           | ((after, None), s6) \<Rightarrow>
               ((if after \<noteq> [] then Some (Errorf ''changes remain after the snapshot'' [after] []) else None, summary), s6)))))))"

section \<open>The version of the code\<close>

definition git_source :: "'w executor \<Rightarrow> 'w sys \<Rightarrow> (go_error + string \<times> string) \<times> 'w sys" where
  "git_source ex s =
     (case run_git ex ''rev-parse'' [''rev-parse'', ''--verify'', ''HEAD''] s of
        ((_, Some e), s1) \<Rightarrow> (Inl e, s1)
      | ((commit, None), s1) \<Rightarrow>
          (case run_git ex ''rev-parse'' [''rev-parse'', ''--abbrev-ref'', ''HEAD''] s1 of
             ((_, Some e), s2) \<Rightarrow> (Inl e, s2)
           | ((branch, None), s2) \<Rightarrow> (Inr (trim_space commit, trim_space branch), s2)))"

section \<open>Paths\<close>

text \<open>\<open>filepath.Rel\<close> for an absolute target: the components below what both have in common.\<close>

fun strip_common :: "string list \<Rightarrow> string list \<Rightarrow> string list \<times> string list" where
  "strip_common (b # bs) (t # ts) = (if b = t then strip_common bs ts else (b # bs, t # ts))"
| "strip_common bs ts = (bs, ts)"

definition path_parts :: "string \<Rightarrow> string list" where
  "path_parts p = filter (\<lambda>c. c \<noteq> []) (split_char (CHR ''/'') (clean p))"

definition path_rel :: "string \<Rightarrow> string \<Rightarrow> go_error + string" where
  "path_rel base target =
     (if \<not> is_abs base then Inl (Errorf ''cannot make the path relative'' [target, base] [])
      else
        (case strip_common (path_parts base) (path_parts target) of
           ([], []) \<Rightarrow> Inr ''.''
         | (bs, ts) \<Rightarrow> Inr (join_with ''/'' (map (\<lambda>_. ''..'') bs @ ts))))"

record commit_env =
  ct_cwd :: "string option"
  ct_links :: "string \<Rightarrow> go_error + string"
  ct_read :: reader
  ct_decode :: "string \<Rightarrow> go_error + manifest"

definition outside_rel :: "string \<Rightarrow> bool" where
  "outside_rel rel \<longleftrightarrow> rel = ''..'' \<or> has_prefix rel ''../''"

definition validate_artifact :: "commit_env \<Rightarrow> string \<Rightarrow> string \<Rightarrow> go_error + string" where
  "validate_artifact E repo p =
     (case abs_path (ct_cwd E) p of
        None \<Rightarrow> Inl (Errorf ''no working directory'' [] [])
      | Some full \<Rightarrow>
          (case path_rel repo full of
             Inl e \<Rightarrow> Inl (Errorf ''artifact outside repository'' [p] [])
           | Inr rel \<Rightarrow>
               if outside_rel rel then Inl (Errorf ''artifact outside repository'' [p] [])
               else
                 (case ct_links E full of
                    Inl e \<Rightarrow> Inl e
                  | Inr resolved \<Rightarrow>
                      (case ct_links E repo of
                         Inl e \<Rightarrow> Inl e
                       | Inr resolved_repo \<Rightarrow>
                           if resolved \<noteq> path_join [resolved_repo, rel] then Inl (Errorf ''symlink artifact path'' [p] [])
                           else Inr full))))"

section \<open>The artifacts of a RUN\<close>

definition git_literal :: "'w executor \<Rightarrow> string list \<Rightarrow> 'w sys \<Rightarrow> (string \<times> go_error option) \<times> 'w sys" where
  "git_literal ex args s = run_git ex (hd args) ([''--literal-pathspecs'', ''-c'', ''core.hooksPath=/dev/null''] @ args) s"

definition staged_args :: "string list \<Rightarrow> string list" where
  "staged_args paths = [''diff'', ''--cached'', ''--name-only'', ''--''] @ paths"

definition artifacts_message :: "manifest \<Rightarrow> string" where
  "artifacts_message m = ''Record benchmark artifacts for '' @ mf_run_id m"

text \<open>What is committed: the directory of the RUN and, when it is given, the history next to it.\<close>

definition artifact_paths :: "commit_env \<Rightarrow> string \<Rightarrow> string \<Rightarrow> string \<Rightarrow> go_error + manifest \<times> string list" where
  "artifact_paths E repo run_dir0 scores =
     (case validate_artifact E repo run_dir0 of
        Inl e \<Rightarrow> Inl e
      | Inr run_dir \<Rightarrow>
     (case ct_read E (path_join [run_dir, ''run.json'']) of
        Inl e \<Rightarrow> Inl e
      | Inr body \<Rightarrow>
     (case ct_decode E body of
        Inl e \<Rightarrow> Inl e
      | Inr m \<Rightarrow>
          if mf_phase m \<noteq> ''finalized'' \<or> mf_run_id m \<noteq> path_base run_dir
          then Inl (Errorf ''RUN is not finalized or ID does not match'' [run_dir] [])
          else if scores = [] then Inr (m, [run_dir])
          else
            (case validate_artifact E repo scores of
               Inl e \<Rightarrow> Inl e
             | Inr p \<Rightarrow>
                 if p \<noteq> path_join [path_dir run_dir, ''scores.tsv''] then Inl (Errorf ''scores must be adjacent to RUN directory'' [] [])
                 else Inr (m, [run_dir, p])))))"

definition commit_paths :: "'w executor \<Rightarrow> manifest \<Rightarrow> string list \<Rightarrow> 'w sys \<Rightarrow> (go_error option \<times> string list) \<times> 'w sys" where
  "commit_paths ex m paths s =
     (case git_literal ex (staged_args paths) s of
        ((_, Some e), s1) \<Rightarrow> ((Some e, []), s1)
      | ((staged, None), s1) \<Rightarrow>
          if staged \<noteq> [] then ((Some (Errorf ''artifact paths already staged'' [staged] []), []), s1)
          else
     (case git_literal ex ([''add'', ''--''] @ paths) s1 of
        ((_, Some e), s2) \<Rightarrow> ((Some e, []), s2)
      | ((_, None), s2) \<Rightarrow>
     (case git_literal ex (staged_args paths) s2 of
        ((_, Some e), s3) \<Rightarrow> ((Some e, []), s3)
      | ((changed, None), s3) \<Rightarrow>
          if changed = [] then ((None, []), s3)
          else
     (case git_literal ex ([''commit'', ''-q'', ''--only'', ''-m'', artifacts_message m, ''--''] @ paths) s3 of
        ((_, Some e), s4) \<Rightarrow> ((Some e, []), s4)
      | ((_, None), s4) \<Rightarrow> ((None, [commit_summary (artifacts_message m) changed]), s4)))))"

definition commit_run_artifacts :: "'w executor \<Rightarrow> commit_env \<Rightarrow> string \<Rightarrow> string \<Rightarrow> 'w sys \<Rightarrow>
    (go_error option \<times> string list) \<times> 'w sys" where
  "commit_run_artifacts ex E run_dir scores s =
     (case git_literal ex [''rev-parse'', ''--show-toplevel''] s of
        ((_, Some e), s1) \<Rightarrow> ((Some e, []), s1)
      | ((top_out, None), s1) \<Rightarrow>
          (case artifact_paths E (trim_space top_out) run_dir scores of
             Inl e \<Rightarrow> ((Some e, []), s1)
           | Inr (m, paths) \<Rightarrow> commit_paths ex m paths s1))"

end
