(* ===== verification/MeasureManifest.thy ===== *)
theory MeasureManifest
  imports MeasureCommit
begin

text \<open>
  The manifest of a RUN (tools/measurectl/manifest.go): \<open>manifest begin\<close> and \<open>manifest finalize\<close>, the scan
  of the RUN's directory, score and verdict of the benchmark's log, the history of scores; and the command
  \<open>artifacts\<close> (tools/measurectl/artifacts.go) and the choice of the subcommand (tools/measurectl/main.go).

  The local files are a tree from paths to contents. Parameters: the JSON encoder and decoder of the
  manifest, the errors of the file operations, the clocks, the declarations found under a path, and the
  parsed command line. Texts are the bytes of their UTF-8 encoding.
\<close>

section \<open>The benchmark's log\<close>

text \<open>Matching without regard to case, as Go's regular expressions do it: besides its two cases the letter
  \<open>s\<close> has the long s, the letter \<open>k\<close> the Kelvin sign.\<close>

definition fold_variants :: "char \<Rightarrow> string list" where
  "fold_variants c =
     [[lower_char c], [upper_char c]] @
     (if lower_char c = CHR ''s'' then [[CHR 0xC5, CHR 0xBF]]
      else if lower_char c = CHR ''k'' then [[CHR 0xE2, CHR 0x84, CHR 0xAA]] else [])"

fun strip_fold :: "string \<Rightarrow> string \<Rightarrow> string option" where
  "strip_fold [] s = Some s"
| "strip_fold (c # cs) s =
     (case find (has_prefix s) (fold_variants c) of None \<Rightarrow> None | Some v \<Rightarrow> strip_fold cs (drop (length v) s))"

text \<open>The first of some texts that a string begins with, and what follows it.\<close>

fun strip_any :: "string list \<Rightarrow> string \<Rightarrow> string option" where
  "strip_any [] s = None"
| "strip_any (p # ps) s = (case strip_fold p s of Some t \<Rightarrow> Some t | None \<Rightarrow> strip_any ps s)"

abbreviation skip_space :: "string \<Rightarrow> string" where
  "skip_space \<equiv> dropWhile re_space"

definition score_word :: string where
  "score_word = [CHR 0xE3, CHR 0x82, CHR 0xB9, CHR 0xE3, CHR 0x82, CHR 0xB3, CHR 0xE3, CHR 0x82, CHR 0xA2]"

definition wide_colon :: string where
  "wide_colon = [CHR 0xEF, CHR 0xBC, CHR 0x9A]"

text \<open>The pattern of a score at the start of a text: the digits and what follows them.\<close>

definition score_here :: "string \<Rightarrow> (string \<times> string) option" where
  "score_here s =
     (case strip_any [score_word, ''score''] s of
        None \<Rightarrow> None
      | Some t \<Rightarrow>
          (case strip_any ['':'', wide_colon] (skip_space t) of
             None \<Rightarrow> None
           | Some u \<Rightarrow>
               (let v = skip_space u; ds = takeWhile is_digit v in
                if ds = [] then None else Some (ds, drop (length ds) v))))"

lemma strip_fold_shorter: "strip_fold p s = Some t \<Longrightarrow> length t \<le> length s"
  by (induction p s rule: strip_fold.induct) (auto split: option.splits dest: diff_le_self [THEN le_trans])

lemma strip_any_shorter: "strip_any ps s = Some t \<Longrightarrow> length t \<le> length s"
  by (induction ps) (auto split: option.splits dest: strip_fold_shorter)

lemma score_here_shorter: "score_here s = Some (ds, t) \<Longrightarrow> length t < length s"
proof -
  assume h: "score_here s = Some (ds, t)"
  then obtain a b where a: "strip_any [score_word, ''score''] s = Some a" "strip_any ['':'', wide_colon] (skip_space a) = Some b"
    and d: "ds = takeWhile is_digit (skip_space b)" "ds \<noteq> []" "t = drop (length ds) (skip_space b)"
    by (auto simp: score_here_def Let_def split: option.splits if_splits)
  have "length ds + length t = length (skip_space b)" using d by (simp add: length_takeWhile_le)
  moreover have "0 < length ds" using d(2) by simp
  ultimately show ?thesis
    using strip_any_shorter [OF a(1)] strip_any_shorter [OF a(2)] length_dropWhile_le [of re_space a] length_dropWhile_le [of re_space b]
    by linarith
qed

function score_matches :: "string \<Rightarrow> string list" where
  "score_matches s =
     (case score_here s of
        Some (ds, t) \<Rightarrow> ds # score_matches t
      | None \<Rightarrow> (case s of [] \<Rightarrow> [] | _ # u \<Rightarrow> score_matches u))"
  by pat_completeness auto
termination
  by (relation "measure length") (auto dest: score_here_shorter)

declare score_matches.simps [simp del]

definition resolve_score :: "string \<Rightarrow> string \<Rightarrow> int option" where
  "resolve_score explicit body =
     (let from_log = (case score_matches body of [] \<Rightarrow> None | ds # dss \<Rightarrow> parse_int64 (last (ds # dss))) in
      if explicit \<noteq> [] then (case parse_int64 explicit of Some n \<Rightarrow> Some n | None \<Rightarrow> from_log) else from_log)"

text \<open>The verdict: a pattern somewhere in the log.\<close>

definition json_pass :: "string \<Rightarrow> string \<Rightarrow> bool" where
  "json_pass value s =
     (case strip_fold ([CHR 0x22] @ ''pass'' @ [CHR 0x22]) s of
        None \<Rightarrow> False
      | Some t \<Rightarrow>
          (case skip_space t of
             [] \<Rightarrow> False
           | c # u \<Rightarrow> c = CHR '':'' \<and> strip_fold value (skip_space u) \<noteq> None))"

definition failed_check :: "string list" where
  "failed_check = [[CHR 0xE6, CHR 0x95, CHR 0xB4, CHR 0xE5, CHR 0x90, CHR 0x88, CHR 0xE6, CHR 0x80, CHR 0xA7, CHR 0xE3, CHR 0x83, CHR 0x81, CHR 0xE3, CHR 0x82, CHR 0xA7, CHR 0xE3, CHR 0x83, CHR 0x83, CHR 0xE3, CHR 0x82, CHR 0xAF, CHR 0xE3, CHR 0x81, CHR 0x8C, CHR 0xE5, CHR 0xA4, CHR 0xB1, CHR 0xE6, CHR 0x95, CHR 0x97, CHR 0xE3, CHR 0x81, CHR 0x97, CHR 0xE3, CHR 0x81, CHR 0xBE, CHR 0xE3, CHR 0x81, CHR 0x97, CHR 0xE3, CHR 0x81, CHR 0x9F], [CHR 0xE6, CHR 0x95, CHR 0xB4, CHR 0xE5, CHR 0x90, CHR 0x88, CHR 0xE6, CHR 0x80, CHR 0xA7, CHR 0xE3, CHR 0x83, CHR 0x81, CHR 0xE3, CHR 0x82, CHR 0xA7, CHR 0xE3, CHR 0x83, CHR 0x83, CHR 0xE3, CHR 0x82, CHR 0xAF, CHR 0xE3, CHR 0x81, CHR 0xAB, CHR 0xE5, CHR 0xA4, CHR 0xB1, CHR 0xE6, CHR 0x95, CHR 0x97, CHR 0xE3, CHR 0x81, CHR 0x97, CHR 0xE3, CHR 0x81, CHR 0xBE, CHR 0xE3, CHR 0x81, CHR 0x97, CHR 0xE3, CHR 0x81, CHR 0x9F], [CHR 0xE6, CHR 0x9C, CHR 0x80, CHR 0xE7, CHR 0xB5, CHR 0x82, CHR 0xE3, CHR 0x83, CHR 0x81, CHR 0xE3, CHR 0x82, CHR 0xA7, CHR 0xE3, CHR 0x83, CHR 0x83, CHR 0xE3, CHR 0x82, CHR 0xAF, CHR 0xE3, CHR 0x81, CHR 0x8C, CHR 0xE5, CHR 0xA4, CHR 0xB1, CHR 0xE6, CHR 0x95, CHR 0x97, CHR 0xE3, CHR 0x81, CHR 0x97, CHR 0xE3, CHR 0x81, CHR 0xBE, CHR 0xE3, CHR 0x81, CHR 0x97, CHR 0xE3, CHR 0x81, CHR 0x9F], [CHR 0xE6, CHR 0x9C, CHR 0x80, CHR 0xE7, CHR 0xB5, CHR 0x82, CHR 0xE3, CHR 0x83, CHR 0x81, CHR 0xE3, CHR 0x82, CHR 0xA7, CHR 0xE3, CHR 0x83, CHR 0x83, CHR 0xE3, CHR 0x82, CHR 0xAF, CHR 0xE3, CHR 0x81, CHR 0xAB, CHR 0xE5, CHR 0xA4, CHR 0xB1, CHR 0xE6, CHR 0x95, CHR 0x97, CHR 0xE3, CHR 0x81, CHR 0x97, CHR 0xE3, CHR 0x81, CHR 0xBE, CHR 0xE3, CHR 0x81, CHR 0x97, CHR 0xE3, CHR 0x81, CHR 0x9F]]"

definition passed_check :: string where
  "passed_check = [CHR 0xE6, CHR 0x9C, CHR 0x80, CHR 0xE7, CHR 0xB5, CHR 0x82, CHR 0xE3, CHR 0x83, CHR 0x81, CHR 0xE3, CHR 0x82, CHR 0xA7, CHR 0xE3, CHR 0x83, CHR 0x83, CHR 0xE3, CHR 0x82, CHR 0xAF, CHR 0xE3, CHR 0x81, CHR 0x8C, CHR 0xE6, CHR 0x88, CHR 0x90, CHR 0xE5, CHR 0x8A, CHR 0x9F, CHR 0xE3, CHR 0x81, CHR 0x97, CHR 0xE3, CHR 0x81, CHR 0xBE, CHR 0xE3, CHR 0x81, CHR 0x97, CHR 0xE3, CHR 0x81, CHR 0x9F]"

definition pass_false_here :: "string \<Rightarrow> bool" where
  "pass_false_here s \<longleftrightarrow> json_pass ''false'' s \<or> strip_any (''BENCHMARK_FAIL'' # failed_check) s \<noteq> None"

definition pass_true_here :: "string \<Rightarrow> bool" where
  "pass_true_here s \<longleftrightarrow> json_pass ''true'' s \<or> strip_any [''BENCHMARK_PASS'', passed_check] s \<noteq> None"

definition resolve_passed :: "string \<Rightarrow> bool option" where
  "resolve_passed body =
     (if list_ex pass_false_here (suffixes body) then Some False
      else if list_ex pass_true_here (suffixes body) then Some True else None)"

section \<open>Small conversions\<close>

definition split_hosts :: "string \<Rightarrow> string list" where
  "split_hosts s =
     (if trim_space s = [] then [] else filter (\<lambda>p. p \<noteq> []) (map trim_space (split_char (CHR '','') s)))"

definition format_score :: "int option \<Rightarrow> string" where
  "format_score score = (case score of None \<Rightarrow> ''unknown'' | Some n \<Rightarrow> format_int n)"


section \<open>Files and state\<close>

record manifest_env =
  me_encode :: "manifest \<Rightarrow> go_error + string"
  me_decode :: "string \<Rightarrow> go_error + manifest"
  me_collectors :: "string \<Rightarrow> collect_config decl_file"
  me_digesters :: "string \<Rightarrow> digest_config decl_file"
  me_clock :: time_codec
  me_now :: string
  me_run_time :: "string \<Rightarrow> string"
  me_capture :: capture_env
  me_stat_err :: "string \<Rightarrow> go_error option"
  me_read_err :: "string \<Rightarrow> go_error option"
  me_write_err :: "string \<Rightarrow> go_error option"
  me_append_err :: "string \<Rightarrow> go_error option"
  me_dir_err :: "string \<Rightarrow> go_error option"
  me_info_err :: "string \<Rightarrow> go_error option"
  me_temp :: "string \<Rightarrow> tree \<Rightarrow> go_error + string"
  me_temp_err :: "string \<Rightarrow> go_error option"
  me_rename :: "string \<Rightarrow> string \<Rightarrow> go_error option"

record 'w manifest_state =
  mn_files :: tree
  mn_out :: "string list"
  mn_sys :: "'w sys"

definition add_line :: "string \<Rightarrow> 'w manifest_state \<Rightarrow> 'w manifest_state" where
  "add_line line st = st\<lparr>mn_out := mn_out st @ [line]\<rparr>"

definition read_file :: "manifest_env \<Rightarrow> tree \<Rightarrow> reader" where
  "read_file E f p =
     (case me_read_err E p of
        Some e \<Rightarrow> Inl e
      | None \<Rightarrow> (case map_of f p of None \<Rightarrow> Inl (Errorf ''no such file or directory'' [p] []) | Some b \<Rightarrow> Inr b))"

definition put_file :: "manifest_env \<Rightarrow> string \<Rightarrow> string \<Rightarrow> 'w manifest_state \<Rightarrow> go_error option \<times> 'w manifest_state" where
  "put_file E p body st =
     (case me_write_err E p of
        Some e \<Rightarrow> (Some e, st) | None \<Rightarrow> (None, st\<lparr>mn_files := AList.update p body (mn_files st)\<rparr>))"

text \<open>\<open>writeManifestAtomic\<close>: a temporary file next to the target, renamed over it once it is complete;
  \<open>me_temp_err\<close> is what writing, syncing or closing it may fail with.\<close>

definition write_manifest :: "manifest_env \<Rightarrow> string \<Rightarrow> manifest \<Rightarrow> 'w manifest_state \<Rightarrow> go_error option \<times> 'w manifest_state" where
  "write_manifest E path m st =
     (case me_encode E m of
        Inl e \<Rightarrow> (Some e, st)
      | Inr body \<Rightarrow>
     (case me_temp E (path_dir path) (mn_files st) of
        Inl e \<Rightarrow> (Some e, st)
      | Inr tmp \<Rightarrow>
     (case me_temp_err E tmp of
        Some e \<Rightarrow> (Some e, st\<lparr>mn_files := AList.delete tmp (mn_files st)\<rparr>)
      | None \<Rightarrow>
          (case me_rename E tmp path of
             Some e \<Rightarrow> (Some e, st\<lparr>mn_files := AList.delete tmp (mn_files st)\<rparr>)
           | None \<Rightarrow> (None, st\<lparr>mn_files := AList.update path (body @ nl) (AList.delete tmp (mn_files st))\<rparr>)))))"

section \<open>The history of scores\<close>

definition scores_header :: string where
  "scores_header =
     join_with [tab_char] [''run_id'', ''score'', ''app'', ''nginx'', ''mysql'', ''app_traffic''] @ nl"

definition scores_line :: "manifest \<Rightarrow> string" where
  "scores_line m =
     join_with [tab_char]
       [mf_run_id m, (case mf_score m of None \<Rightarrow> [] | Some n \<Rightarrow> format_int n), join_with '','' (rr_app (mf_roles m)),
        join_with '','' (rr_nginx (mf_roles m)), rr_mysql (mf_roles m), join_with '','' (rr_app_traffic (mf_roles m))] @ nl"

definition append_scores :: "manifest_env \<Rightarrow> string \<Rightarrow> manifest \<Rightarrow> 'w manifest_state \<Rightarrow> go_error option \<times> 'w manifest_state" where
  "append_scores E path m st =
     (case (if map_of (mn_files st) path = None then put_file E path scores_header st else (None, st)) of
        (Some e, st1) \<Rightarrow> (Some e, st1)
      | (None, st1) \<Rightarrow>
          (case me_append_err E path of
             Some e \<Rightarrow> (Some e, st1)
           | None \<Rightarrow>
               (None, st1\<lparr>mn_files := AList.update path (lookup_or [] (mn_files st1) path @ scores_line m) (mn_files st1)\<rparr>)))"

section \<open>Scanning the directory\<close>

text \<open>The names of the files below a directory, relative to it and in their order.\<close>

definition dir_prefix :: "string \<Rightarrow> string" where
  "dir_prefix dir = butlast (path_join [dir, ''x''])"

definition names_below :: "string \<Rightarrow> tree \<Rightarrow> string list" where
  "names_below dir f =
     sort (remdups (map (\<lambda>p. drop (length (dir_prefix dir)) p) (filter (\<lambda>p. has_prefix p (dir_prefix dir)) (keys f))))"

definition top_name :: "string \<Rightarrow> bool" where
  "top_name n \<longleftrightarrow> CHR ''/'' \<notin> set n"

definition raw_name :: "string \<Rightarrow> bool" where
  "raw_name n \<longleftrightarrow> has_prefix n ''raw/''"

abbreviation in_dir :: "string \<Rightarrow> string \<Rightarrow> string" where
  "in_dir dir n \<equiv> dir_prefix dir @ n"

text \<open>The reasons of failure: the texts of the files with the suffix \<open>.stderr\<close>, by the name without it.\<close>

definition failure_reasons :: "manifest_env \<Rightarrow> string \<Rightarrow> tree \<Rightarrow> (string, string) gomap" where
  "failure_reasons E dir f =
     fold (\<lambda>n rs.
         case read_file E f (in_dir dir n) of
           Inl _ \<Rightarrow> rs
         | Inr body \<Rightarrow> if trim_space body = [] then rs else AList.update (trim_suffix n ''.stderr'') (trim_space body) rs)
       (filter (\<lambda>n. top_name n \<and> has_suffix n ''.stderr'') (names_below dir f)) []"

definition plain_artifact :: "string \<Rightarrow> nat \<Rightarrow> artifact" where
  "plain_artifact name bytes =
     \<lparr>af_name = name, af_bytes = bytes, af_status = (if bytes = 0 then ''empty'' else ''ok''), af_reason = [],
      af_quality = quality_of False [] False\<rparr>"

definition top_artifact :: "(string, string) gomap \<Rightarrow> string \<Rightarrow> nat \<Rightarrow> artifact" where
  "top_artifact reasons name bytes =
     (case map_of reasons (trim_suffix name (path_ext name)) of
        Some reason \<Rightarrow> (plain_artifact name bytes)\<lparr>af_status := ''failed'', af_reason := reason\<rparr>
      | None \<Rightarrow> plain_artifact name bytes)"

definition listed_name :: "string \<Rightarrow> bool" where
  "listed_name n \<longleftrightarrow> top_name n \<and> \<not> has_suffix n ''.stderr'' \<and> n \<noteq> ''run.json''"

definition size_of :: "string \<Rightarrow> tree \<Rightarrow> string \<Rightarrow> nat" where
  "size_of dir f n = length (lookup_or [] f (in_dir dir n))"

definition readable_name :: "manifest_env \<Rightarrow> string \<Rightarrow> string \<Rightarrow> bool" where
  "readable_name E dir n \<longleftrightarrow> me_info_err E (in_dir dir n) = None"

definition dir_size :: "manifest_env \<Rightarrow> string \<Rightarrow> tree \<Rightarrow> nat" where
  "dir_size E dir f =
     sum_list (map (size_of dir f) (filter (readable_name E dir) (filter raw_name (names_below dir f))))"

text \<open>\<open>scanArtifacts\<close>. The directory \<open>raw\<close> exists when a file is below it; an error of the walk through it
  ends the scan, while a file on the first level that cannot be examined is left out.\<close>

definition scan_artifacts :: "manifest_env \<Rightarrow> string \<Rightarrow> tree \<Rightarrow> go_error + artifact list \<times> nat" where
  "scan_artifacts E dir f =
     (case me_dir_err E dir of
        Some e \<Rightarrow> Inl e
      | None \<Rightarrow>
          (let names = names_below dir f; raws = filter raw_name names;
               tops = filter (readable_name E dir) (filter listed_name names);
               reasons = failure_reasons E dir f in
           case (if raws = [] then None
                 else (case me_dir_err E (in_dir dir ''raw'') of
                     Some e \<Rightarrow> Some e | None \<Rightarrow> first_error (\<lambda>n. me_info_err E (in_dir dir n)) raws)) of
             Some e \<Rightarrow> Inl e
           | None \<Rightarrow>
               Inr (sort_key af_name
                   (map (\<lambda>n. top_artifact reasons n (size_of dir f n)) tops @
                    map (\<lambda>n. plain_artifact n (size_of dir f n)) raws),
                 dir_size E dir f)))"


section \<open>Begin\<close>

record begin_flags =
  bg_dir :: string
  bg_app :: string
  bg_app_traffic :: string
  bg_nginx :: string
  bg_mysql :: string
  bg_entry :: string
  bg_roles :: "(string, string list) gomap"
  bg_collectors_disabled :: bool
  bg_clean :: bool
  bg_profiles :: bool
  bg_contract :: bool
  bg_collectors :: string
  bg_digesters :: string

definition run_id_of :: "string \<Rightarrow> string" where
  "run_id_of dir = path_base (trim_suffix dir ''/'')"

definition started_manifest :: "manifest_env \<Rightarrow> begin_flags \<Rightarrow> string \<times> string \<Rightarrow> manifest" where
  "started_manifest E f src =
     \<lparr>mf_contract = None, mf_profiles = bg_profiles f, mf_required = [], mf_collectors_disabled = bg_collectors_disabled f,
      mf_version = 4, mf_phase = ''started'', mf_run_id = run_id_of (bg_dir f),
      mf_started = me_run_time E (run_id_of (bg_dir f)), mf_written = [], mf_finalized = [], mf_score = None, mf_passed = None,
      mf_roles = \<lparr>rr_additional = bg_roles f, rr_app = split_hosts (bg_app f), rr_app_traffic = split_hosts (bg_app_traffic f),
        rr_nginx = split_hosts (bg_nginx f), rr_entry = bg_entry f, rr_mysql = bg_mysql f\<rparr>,
      mf_commit = fst src, mf_branch = snd src, mf_artifacts = [], mf_raw_bytes = 0, mf_clean = bg_clean f,
      mf_window = no_window\<lparr>lw_status := ''pending''\<rparr>\<rparr>"

definition freeze_contract :: "manifest_env \<Rightarrow> begin_flags \<Rightarrow> manifest \<Rightarrow> go_error + manifest" where
  "freeze_contract E f m =
     (if bg_contract f then
        (case capture_requirements m (me_collectors E (bg_collectors f)) (me_digesters E (bg_digesters f)) of
           Inl e \<Rightarrow> Inl e
         | Inr required \<Rightarrow>
             (let m1 = m\<lparr>mf_required := required\<rparr> in
              case capture_contract m1 (me_collectors E (bg_collectors f)) (me_digesters E (bg_digesters f)) of
                Inl e \<Rightarrow> Inl e
              | Inr contract \<Rightarrow> Inr (m1\<lparr>mf_contract := Some contract\<rparr>)))
      else Inr m)"

definition manifest_begin :: "'w executor \<Rightarrow> manifest_env \<Rightarrow> (string list \<Rightarrow> go_error + begin_flags) \<Rightarrow> string list \<Rightarrow>
    'w manifest_state \<Rightarrow> go_error option \<times> 'w manifest_state" where
  "manifest_begin ex E parse args st =
     (case parse args of
        Inl e \<Rightarrow> (Some e, st)
      | Inr f \<Rightarrow>
          if bg_dir f = [] then (Some (Errorf ''-dir is required'' [] []), st)
          else
     (case me_stat_err E (bg_dir f) of
        Some e \<Rightarrow> (Some (Errorf ''cannot read the RUN directory'' [] [e]), st)
      | None \<Rightarrow>
     (case git_source ex (mn_sys st) of (src, sys1) \<Rightarrow>
        (let st1 = st\<lparr>mn_sys := sys1\<rparr> in
         case src of
           Inl e \<Rightarrow> (Some e, st1)
         | Inr cb \<Rightarrow>
     (case freeze_contract E f (started_manifest E f cb) of
        Inl e \<Rightarrow> (Some e, st1)
      | Inr m \<Rightarrow>
          (case write_manifest E (path_join [bg_dir f, ''run.json'']) m st1 of
             (Some e, st2) \<Rightarrow> (Some e, st2)
           | (None, st2) \<Rightarrow> (None, add_line (bg_dir f @ ''/run.json (phase=started)'') st2)))))))"

section \<open>Finalize\<close>

record finalize_flags =
  ff_dir :: string
  ff_score :: string
  ff_scores :: string
  ff_collectors :: string
  ff_digesters :: string

text \<open>The log written for a score that comes from the portal.\<close>

definition portal_log :: "string \<Rightarrow> string" where
  "portal_log score = [CHR 0xE6, CHR 0x9C, CHR 0xAC, CHR 0xE7, CHR 0x95, CHR 0xAA, CHR 0xE3, CHR 0x83, CHR 0x9D, CHR 0xE3, CHR 0x83, CHR 0xBC, CHR 0xE3, CHR 0x82, CHR 0xBF, CHR 0xE3, CHR 0x83, CHR 0xAB, CHR 0xE3, CHR 0x81, CHR 0x8B, CHR 0xE3, CHR 0x82, CHR 0x89, CHR 0xE5, CHR 0xAE, CHR 0x9F, CHR 0xE8, CHR 0xA1, CHR 0x8C] @ nl @ score_word @ '': '' @ score @ nl"

definition portal_score :: "manifest_env \<Rightarrow> string \<Rightarrow> string \<Rightarrow> 'w manifest_state \<Rightarrow> go_error option \<times> 'w manifest_state" where
  "portal_score E dir score st =
     (if score = [] then (None, st)
      else if parse_int64 score = None \<or> has_prefix score ''-''
      then (Some (Errorf ''-score must be an integer that is not negative'' [score] []), st)
      else
        (let bench = path_join [dir, ''bench.log''] in
         case me_stat_err E bench of
           Some e \<Rightarrow> (Some e, st)
         | None \<Rightarrow>
             if lookup_or [] (mn_files st) bench = [] then put_file E bench (portal_log score) st else (None, st)))"

definition bench_log :: "manifest_env \<Rightarrow> tree \<Rightarrow> string \<Rightarrow> string" where
  "bench_log E f dir = (case read_file E f (path_join [dir, ''bench.log'']) of Inl _ \<Rightarrow> [] | Inr b \<Rightarrow> b)"

definition started_record :: "manifest \<Rightarrow> bool" where
  "started_record m \<longleftrightarrow> mf_version m = 4 \<and> (mf_phase m = ''started'' \<or> mf_phase m = ''finalized'')"

definition read_manifest :: "manifest_env \<Rightarrow> tree \<Rightarrow> string \<Rightarrow> go_error + manifest" where
  "read_manifest E f path =
     (case read_file E f path of
        Inl e \<Rightarrow> Inl (Errorf ''cannot read run.json'' [] [e])
      | Inr body \<Rightarrow>
          (case me_decode E body of
             Inl e \<Rightarrow> Inl (Errorf ''run.json is invalid'' [] [e])
           | Inr m \<Rightarrow> if started_record m then Inr m else Inl (Errorf ''run.json was not made by manifest begin'' [] [])))"

text \<open>The artifacts of the finished RUN with their quality.\<close>

definition final_artifacts :: "manifest_env \<Rightarrow> finalize_flags \<Rightarrow> manifest \<Rightarrow> tree \<Rightarrow> go_error + artifact list \<times> nat" where
  "final_artifacts E f m files =
     (case scan_artifacts E (ff_dir f) files of
        Inl e \<Rightarrow> Inl e
      | Inr (found, raw_bytes) \<Rightarrow>
     (case load_artifact_specs (me_collectors E (ff_collectors f)) (me_digesters E (ff_digesters f)) of
        Inl e \<Rightarrow> Inl e
      | Inr specs \<Rightarrow>
     (case append_missing files (ff_dir f) found (specs_for_run specs m) of
        Inl e \<Rightarrow> Inl e
      | Inr all \<Rightarrow>
          Inr (assess_capture ((me_capture E)\<lparr>cp_read := read_file E files\<rparr>) (ff_dir f) m
              (assess_quality (me_clock E) (read_file E files) (ff_dir f) (mf_window m) all), raw_bytes))))"

definition finalized_manifest :: "manifest_env \<Rightarrow> finalize_flags \<Rightarrow> string \<Rightarrow> manifest \<Rightarrow> manifest" where
  "finalized_manifest E f body m =
     m\<lparr>mf_score := resolve_score (ff_score f) body, mf_passed := resolve_passed body,
       mf_window := resolve_load_window (me_clock E) body\<rparr>"

definition closed_manifest :: "manifest_env \<Rightarrow> artifact list \<Rightarrow> nat \<Rightarrow> manifest \<Rightarrow> manifest" where
  "closed_manifest E as raw_bytes m =
     m\<lparr>mf_artifacts := as, mf_raw_bytes := raw_bytes, mf_phase := ''finalized'', mf_finalized := me_now E, mf_written := me_now E\<rparr>"

definition final_line :: "string \<Rightarrow> manifest \<Rightarrow> string" where
  "final_line path m =
     (let ok = length (filter (\<lambda>a. af_status a = ''ok'') (mf_artifacts m)) in
      path @ '' ('' @ format_nat ok @ '' artifacts, '' @ format_nat (length (mf_artifacts m) - ok) @ '' to be checked, score='' @
      format_score (mf_score m) @ '')'')"

definition record_scores :: "manifest_env \<Rightarrow> string \<Rightarrow> manifest \<Rightarrow> 'w manifest_state \<Rightarrow> go_error option \<times> 'w manifest_state" where
  "record_scores E scores m st =
     (if scores = [] then (None, st)
      else
        (case append_scores E scores m st of
           (Some e, st1) \<Rightarrow> (Some e, st1)
         | (None, st1) \<Rightarrow> (None, add_line (''score '' @ format_score (mf_score m) @ '' appended to '' @ scores) st1)))"

definition finalize_record :: "manifest_env \<Rightarrow> finalize_flags \<Rightarrow> 'w manifest_state \<Rightarrow> go_error option \<times> 'w manifest_state" where
  "finalize_record E f st =
     (let path = path_join [ff_dir f, ''run.json''] in
      case read_manifest E (mn_files st) path of
        Inl e \<Rightarrow> (Some e, st)
      | Inr m0 \<Rightarrow>
     (case portal_score E (ff_dir f) (ff_score f) st of
        (Some e, st1) \<Rightarrow> (Some e, st1)
      | (None, st1) \<Rightarrow>
          (let m1 = finalized_manifest E f (bench_log E (mn_files st1) (ff_dir f)) m0 in
           case final_artifacts E f m1 (mn_files st1) of
             Inl e \<Rightarrow> (Some e, st1)
           | Inr (as, raw_bytes) \<Rightarrow>
               (let m2 = closed_manifest E as raw_bytes m1 in
                case write_manifest E path m2 st1 of
                  (Some e, st2) \<Rightarrow> (Some e, st2)
                | (None, st2) \<Rightarrow> record_scores E (ff_scores f) m2 (add_line (final_line path m2) st2)))))"

definition manifest_finalize :: "manifest_env \<Rightarrow> (string list \<Rightarrow> go_error + finalize_flags) \<Rightarrow> string list \<Rightarrow>
    'w manifest_state \<Rightarrow> go_error option \<times> 'w manifest_state" where
  "manifest_finalize E parse args st =
     (case parse args of
        Inl e \<Rightarrow> (Some e, st)
      | Inr f \<Rightarrow> if ff_dir f = [] then (Some (Errorf ''-dir is required'' [] []), st) else finalize_record E f st)"

definition run_manifest :: "'w executor \<Rightarrow> manifest_env \<Rightarrow> (string list \<Rightarrow> go_error + begin_flags) \<Rightarrow>
    (string list \<Rightarrow> go_error + finalize_flags) \<Rightarrow> string list \<Rightarrow> 'w manifest_state \<Rightarrow> go_error option \<times> 'w manifest_state" where
  "run_manifest ex E parse_begin parse_finalize args st =
     (case args of
        [] \<Rightarrow> (Some (Errorf ''manifest requires begin or finalize'' [] []), st)
      | c # rest \<Rightarrow>
          if c = ''begin'' then manifest_begin ex E parse_begin rest st
          else if c = ''finalize'' then manifest_finalize E parse_finalize rest st
          else (Some (Errorf ''unknown manifest command'' [c] []), st))"

section \<open>The command artifacts\<close>

record artifact_flags =
  at_collectors :: string
  at_digesters :: string
  at_run_dir :: string
  at_check :: bool
  at_recorded :: bool

definition bad_artifact :: "artifact \<Rightarrow> bool" where
  "bad_artifact a \<longleftrightarrow> aq_expected (af_quality a) \<and> aq_status (af_quality a) \<noteq> ''valid''"

definition check_run :: "manifest_env \<Rightarrow> artifact_flags \<Rightarrow> artifact_spec list \<Rightarrow> tree \<Rightarrow> go_error option \<times> string list" where
  "check_run E f specs files =
     (case read_file E files (path_join [at_run_dir f, ''run.json'']) of
        Inl e \<Rightarrow> (Some e, [])
      | Inr body \<Rightarrow>
     (case me_decode E body of
        Inl e \<Rightarrow> (Some e, [])
      | Inr m \<Rightarrow>
     (case check_run_dir files (at_run_dir f) (specs_for_run specs m) of
        (Some e, out) \<Rightarrow> (Some e, out)
      | (None, out) \<Rightarrow>
     (case (if at_recorded f then Inr (mf_artifacts m)
            else (case scan_artifacts E (at_run_dir f) files of
                Inl e \<Rightarrow> Inl e
              | Inr (found, _) \<Rightarrow>
                  Inr (assess_capture ((me_capture E)\<lparr>cp_read := read_file E files\<rparr>) (at_run_dir f) m found))) of
        Inl e \<Rightarrow> (Some e, out)
      | Inr as \<Rightarrow>
          (case find bad_artifact as of
             Some a \<Rightarrow> (Some (Errorf ''artifact'' [af_name a, aq_reason (af_quality a)] []), out)
           | None \<Rightarrow> (None, out @ [at_run_dir f @ '': all declared artifacts are there and the required captures are valid''])))))) "

definition list_specs :: "artifact_spec list \<Rightarrow> string list" where
  "list_specs specs =
     map (\<lambda>s. pad_right 34 (as_pattern s) @ '' '' @ as_producer s @ (if as_optional s then ''  (optional)'' else [])) specs"

definition run_artifacts :: "manifest_env \<Rightarrow> (string list \<Rightarrow> go_error + artifact_flags) \<Rightarrow> string list \<Rightarrow> tree \<Rightarrow>
    go_error option \<times> string list" where
  "run_artifacts E parse args files =
     (case parse args of
        Inl e \<Rightarrow> (Some e, [])
      | Inr f \<Rightarrow>
          (case load_artifact_specs (me_collectors E (at_collectors f)) (me_digesters E (at_digesters f)) of
             Inl e \<Rightarrow> (Some e, [])
           | Inr specs \<Rightarrow>
               if at_run_dir f \<noteq> [] then check_run E f specs files
               else if at_check f then check_readers files (read_file E files) specs
               else (None, list_specs specs)))"


section \<open>The choice of the subcommand\<close>

text \<open>The subcommands act on a common state; the result is the exit status. What the usage says is not
  modelled, nor is the text of an error.\<close>

record 's subcommands =
  sm_run :: "string list \<Rightarrow> 's \<Rightarrow> go_error option \<times> 's"
  sm_manifest :: "string list \<Rightarrow> 's \<Rightarrow> go_error option \<times> 's"
  sm_collect :: "string list \<Rightarrow> 's \<Rightarrow> go_error option \<times> 's"
  sm_digest :: "string list \<Rightarrow> 's \<Rightarrow> go_error option \<times> 's"
  sm_artifacts :: "string list \<Rightarrow> 's \<Rightarrow> go_error option \<times> 's"

definition subcommand :: "'s subcommands \<Rightarrow> string \<Rightarrow> (string list \<Rightarrow> 's \<Rightarrow> go_error option \<times> 's) option" where
  "subcommand S name =
     map_of [(''run'', sm_run S), (''manifest'', sm_manifest S), (''collect'', sm_collect S), (''digest'', sm_digest S),
       (''artifacts'', sm_artifacts S)] name"

definition measurectl_main :: "'s subcommands \<Rightarrow> string list \<Rightarrow> 's \<Rightarrow> nat \<times> 's" where
  "measurectl_main S args s =
     (case args of
        [] \<Rightarrow> (2, s)
      | name # rest \<Rightarrow>
          (case subcommand S name of
             Some f \<Rightarrow> (case f rest s of (None, s1) \<Rightarrow> (0, s1) | (Some e, s1) \<Rightarrow> (1, s1))
           | None \<Rightarrow> if name \<in> set [''-h'', ''--help'', ''help''] then (0, s) else (2, s)))"

end
