(* ===== verification/MeasureManifestProperties.thy ===== *)
theory MeasureManifestProperties
  imports MeasureManifest MeasureQualityProperties MeasureSeriesProperties
begin

text \<open>
  The properties of the manifest (tools/measurectl/manifest.go, artifacts.go and capture_artifacts.go): the
  scan lists what is in the RUN's directory, what is missing is recorded, the contract of a RUN stays what
  it was at its begin, a RUN that failed to capture is not reported as good, and run.json is replaced as a
  whole.
\<close>

section \<open>An example\<close>

definition demo_capture :: capture_env where
  "demo_capture =
     \<lparr>cp_clock = demo_clock, cp_read = (\<lambda>_. Inr []), cp_report = (\<lambda>_. Inr \<lparr>tr_version = 3, tr_input_files = 1, tr_api_requests = 1, tr_classified = 1, tr_identified = 1\<rparr>),
      cp_series = demo_series, cp_start_cat = (\<lambda>_. None), cp_cat = (\<lambda>_. ([], None)), cp_object = (\<lambda>_. Inr []),
      cp_seconds = (\<lambda>_. Inr 0), cp_float = (\<lambda>_. 0)\<rparr>"

definition demo_collectors :: collect_config where
  "demo_collectors =
     \<lparr>cc_prepare = [], cc_collectors = [\<lparr>cr_name = ''proc'', cr_label = [], cr_enabled = None, cr_hosts = ''app'', cr_binary = ''b'',
        cr_root = ''/tmp/c'', cr_stdout = [], cr_args = [], cr_outputs = [(''out.tsv'', ''{host}-proc-metrics.tsv'')], cr_stderr = ''{host}-proc.stderr''\<rparr>],
      cc_oneshots = []\<rparr>"

definition demo_digest_config :: digest_config where
  "demo_digest_config =
     \<lparr>dc_sources = [\<lparr>so_name = ''access'', so_role = ''nginx'', so_remote = ''/var/log/access.log'', so_local = ''{run_dir}/raw/access-{host}.log'',
        so_compress = True, so_delay = 0\<rparr>],
      dc_digesters = [\<lparr>dg_per_host = False, dg_enabled = None, dg_name = ''user-transitions'', dg_label = [], dg_source = ''access'', dg_remote = None,
        dg_stderr = ''ut.stderr'', dg_stdin = [], dg_timeout = [], dg_hint = [],
        dg_outputs = [\<lparr>do_file = ''user-transitions.json'', do_run = ''x'', do_header = [], do_on_error = [], do_on_skip = [], do_on_empty = []\<rparr>]\<rparr>]\<rparr>"

definition demo_begin :: begin_flags where
  "demo_begin =
     \<lparr>bg_dir = ''runs/7'', bg_app = ''a1, a2'', bg_app_traffic = [], bg_nginx = ''w'', bg_mysql = ''d'', bg_entry = ''w'', bg_roles = [],
      bg_collectors_disabled = False, bg_clean = True, bg_profiles = False, bg_contract = True, bg_collectors = ''c'', bg_digesters = ''d''\<rparr>"

definition demo_manifest_env :: manifest_env where
  "demo_manifest_env =
     \<lparr>me_encode = (\<lambda>m. Inr (mf_phase m)), me_decode = (\<lambda>_. Inl (Errorf ''no JSON'' [] [])), me_collectors = (\<lambda>_. Declared demo_collectors),
      me_digesters = (\<lambda>_. Declared demo_digest_config), me_clock = demo_clock, me_now = ''now'', me_run_time = (\<lambda>_. []),
      me_capture = demo_capture, me_stat_err = (\<lambda>_. None), me_read_err = (\<lambda>_. None), me_write_err = (\<lambda>_. None),
      me_append_err = (\<lambda>_. None), me_dir_err = (\<lambda>_. None), me_info_err = (\<lambda>_. None), me_temp = (\<lambda>_ _. Inr ''tmp''),
      me_temp_err = (\<lambda>_. None), me_rename = (\<lambda>_ _. None)\<rparr>"

definition demo_run_files :: tree where
  "demo_run_files = [(''runs/7/raw/a'', ''xy''), (''runs/7/bench.log'', ''x''), (''runs/7/run.json'', ''{}''), (''runs/8/b'', ''z'')]"

section \<open>The scan\<close>

lemma names_below_distinct [simp]: "distinct (names_below dir f)"
  by (simp add: names_below_def)

lemma raw_name_not_top: "raw_name n \<Longrightarrow> \<not> top_name n"
  by (auto simp: raw_name_def top_name_def prefix_def)

lemma top_artifact_simps [simp]:
  "af_name (top_artifact rs n k) = n" "af_bytes (top_artifact rs n k) = k"
  by (simp_all add: top_artifact_def plain_artifact_def split: option.splits)

lemma plain_artifact_simps [simp]:
  "af_name (plain_artifact n k) = n" "af_bytes (plain_artifact n k) = k"
  "af_status (plain_artifact n k) = (if k = 0 then ''empty'' else ''ok'')"
  by (simp_all add: plain_artifact_def)

lemma distinct_sort_key: "distinct (map f (sort_key f xs)) \<longleftrightarrow> distinct (map f xs)"
  by (metis mset_map mset_sort mset_eq_imp_distinct_iff)

lemma sum_filter_sort: "sum_list (map g (filter P (sort_key k xs))) = (sum_list (map g (filter P xs)) :: nat)"
proof -
  have "mset (map g (filter P (sort_key k xs))) = mset (map g (filter P xs))" by simp
  then show ?thesis by (metis sum_mset_sum_list)
qed

definition scanned_name :: "manifest_env \<Rightarrow> string \<Rightarrow> string \<Rightarrow> bool" where
  "scanned_name E dir n \<longleftrightarrow> raw_name n \<or> listed_name n \<and> readable_name E dir n"

text \<open>
  The scan of a RUN's directory lists every file exactly once, those of the first level other than the
  manifest and the error texts, and all below \<open>raw\<close>, with its size; a file is reported as good only when it
  has some content, and on the first level only when no error text of the same name is there. The total is
  the sum of the sizes below \<open>raw\<close>.
\<close>

theorem scan_complete:
  assumes "scan_artifacts E dir f = Inr (as, raw_sum)"
  shows "distinct (map af_name as) \<and>
    set (map af_name as) = {n. n \<in> set (names_below dir f) \<and> scanned_name E dir n} \<and>
    (\<forall>a \<in> set as. af_bytes a = size_of dir f (af_name a) \<and>
       (af_status a = ''ok'' \<longleftrightarrow>
          0 < af_bytes a \<and>
          (raw_name (af_name a) \<or>
           trim_suffix (af_name a) (path_ext (af_name a)) \<notin> set (keys (failure_reasons E dir f))))) \<and>
    raw_sum = sum_list (map af_bytes (filter (\<lambda>a. raw_name (af_name a)) as))"
proof -
  define names where "names = names_below dir f"
  define rs where "rs = failure_reasons E dir f"
  define tops where "tops = filter (readable_name E dir) (filter listed_name names)"
  define raws where "raws = filter raw_name names"
  define ts where "ts = map (\<lambda>n. top_artifact rs n (size_of dir f n)) tops"
  define ws where "ws = map (\<lambda>n. plain_artifact n (size_of dir f n)) raws"
  have as: "as = sort_key af_name (ts @ ws)" and raw_sum: "raw_sum = dir_size E dir f"
    and readable: "raws = [] \<or> (\<forall>n \<in> set raws. me_info_err E (in_dir dir n) = None)"
    using assms by (auto simp: scan_artifacts_def Let_def ts_def ws_def tops_def raws_def names_def rs_def res_iff
        split: option.splits if_splits)
  have n: "map af_name (ts @ ws) = tops @ raws" by (simp add: ts_def ws_def comp_def)
  have apart: "set tops \<inter> set raws = {}" by (auto simp: tops_def raws_def listed_name_def dest: raw_name_not_top)
  have d: "distinct (map af_name as)"
    unfolding as distinct_sort_key n distinct_append using apart by (simp add: tops_def raws_def names_def)
  have s: "set (map af_name as) = {n. n \<in> set names \<and> scanned_name E dir n}"
    using arg_cong [OF n, of set] by (auto simp: as tops_def raws_def scanned_name_def)
  have each: "af_bytes a = size_of dir f (af_name a) \<and>
      (af_status a = ''ok'' \<longleftrightarrow> 0 < af_bytes a \<and>
        (raw_name (af_name a) \<or> trim_suffix (af_name a) (path_ext (af_name a)) \<notin> set (keys rs)))"
    if "a \<in> set as" for a
  proof -
    from that consider n where "n \<in> set tops" "a = top_artifact rs n (size_of dir f n)" | n where "n \<in> set raws" "a = plain_artifact n (size_of dir f n)"
      by (auto simp: as ts_def ws_def)
    then show ?thesis
    proof cases
      case (1 n)
      then have "\<not> raw_name n" using apart by (auto simp: raws_def tops_def)
      with 1 show ?thesis
        by (cases "map_of rs (trim_suffix n (path_ext n))")
          (auto simp: top_artifact_def map_of_eq_None_iff dest: map_of_Some_in_keys)
    next
      case (2 n)
      then show ?thesis by (simp add: raws_def)
    qed
  qed
  have "raw_sum = sum_list (map (size_of dir f) raws)"
  proof -
    have "filter (readable_name E dir) raws = raws" using readable by (auto simp: filter_id_conv readable_name_def)
    then show ?thesis by (simp add: raw_sum dir_size_def raws_def names_def)
  qed
  also have "\<dots> = sum_list (map af_bytes ws)" by (simp add: ws_def comp_def)
  also have "ws = filter (\<lambda>a. raw_name (af_name a)) (ts @ ws)"
    using apart by (auto simp: ts_def ws_def filter_map comp_def raws_def tops_def filter_empty_conv)
  also have "sum_list (map af_bytes (filter (\<lambda>a. raw_name (af_name a)) (ts @ ws))) =
      sum_list (map af_bytes (filter (\<lambda>a. raw_name (af_name a)) as))"
    unfolding as by (rule sum_filter_sort [symmetric])
  finally show ?thesis using d s each unfolding names_def rs_def by blast
qed

theorem scan_complete_witness:
  "case scan_artifacts demo_manifest_env ''runs/7'' demo_run_files of
     Inl _ \<Rightarrow> False
   | Inr (as, n) \<Rightarrow> map af_name as = [''bench.log'', ''raw/a''] \<and> distinct (map af_name as) \<and> n = 2"
proof -
  obtain as n where r: "scan_artifacts demo_manifest_env ''runs/7'' demo_run_files = Inr (as, n)"
      and as: "map af_name as = [''bench.log'', ''raw/a'']" and n: "n = 2"
  proof -
    have "case scan_artifacts demo_manifest_env ''runs/7'' demo_run_files of Inl _ \<Rightarrow> False
        | Inr (as, n) \<Rightarrow> map af_name as = [''bench.log'', ''raw/a''] \<and> n = 2" by code_simp
    then show ?thesis using that by (auto split: sum.splits)
  qed
  then show ?thesis using scan_complete [OF r] by simp
qed

section \<open>What is missing\<close>

lemma missing_specs_iff:
  "missing_specs f dir ss = Inr ms \<Longrightarrow>
   ms = filter (\<lambda>s. \<not> as_optional s \<and> glob_result (path_join [dir, as_pattern s]) f = Inr []) ss \<and>
   (\<forall>s \<in> set ss. as_optional s \<or> (\<exists>found. glob_result (path_join [dir, as_pattern s]) f = Inr found))"
  by (induction ss arbitrary: ms) (auto split: if_splits sum.splits)

text \<open>
  Nothing that is required goes missing unnoticed: when the artifacts have been completed, every
  required specification has a matching file, or an artifact with the status of a missing one is listed
  under its pattern; and these are the only additions.
\<close>

theorem missing_recorded:
  assumes "append_missing f dir as specs = Inr full" and "s \<in> set specs" and "\<not> as_optional s" and "as_pattern s \<noteq> ''run.json''"
  shows "((\<exists>p. p \<in> set (keys f) \<and> glob (path_join [dir, as_pattern s]) p) \<or>
      (\<exists>a \<in> set full. af_name a = as_pattern s \<and> af_status a = ''missing'')) \<and>
    set as \<subseteq> set full \<and> (\<forall>a \<in> set full - set as. af_status a = ''missing'')"
proof -
  define req where "req = filter (\<lambda>s. as_pattern s \<noteq> ''run.json'') specs"
  from assms(1) obtain ms where ms: "missing_specs f dir req = Inr ms" and full: "full = sort_key af_name (as @ map missing_artifact ms)"
    by (auto simp: append_missing_def req_def split: sum.splits)
  note m = missing_specs_iff [OF ms]
  have s: "s \<in> set req" using assms by (simp add: req_def)
  then obtain found where g: "glob_result (path_join [dir, as_pattern s]) f = Inr found" using m assms(3) by blast
  have "(\<exists>p. p \<in> set (keys f) \<and> glob (path_join [dir, as_pattern s]) p) \<or> s \<in> set ms"
  proof (cases found)
    case Nil
    then show ?thesis using m g s assms(3) by simp
  next
    case (Cons x xs)
    then have "sort (remdups (filter (glob (path_join [dir, as_pattern s])) (keys f))) = x # xs"
      using g by (auto simp: glob_result_def split: if_splits)
    then have "x \<in> set (filter (glob (path_join [dir, as_pattern s])) (keys f))"
      by (metis list.set_intros(1) set_sort set_remdups)
    then have "x \<in> set (keys f) \<and> glob (path_join [dir, as_pattern s]) x" by (simp only: set_filter mem_Collect_eq)
    then show ?thesis by blast
  qed
  moreover have "missing_artifact s \<in> set full" if "s \<in> set ms" using that by (simp add: full)
  moreover have "af_name (missing_artifact s) = as_pattern s" "af_status (missing_artifact s) = ''missing''"
    by (simp_all add: missing_artifact_def)
  moreover have "set as \<subseteq> set full \<and> (\<forall>a \<in> set full - set as. af_status a = ''missing'')"
    by (auto simp: full missing_artifact_def)
  ultimately show ?thesis by blast
qed

theorem missing_recorded_witness:
  "case append_missing demo_run_files ''runs/7'' [] [spec ''run.json'' ''m'' False, spec ''x.tsv'' ''c'' False] of
     Inl _ \<Rightarrow> False | Inr full \<Rightarrow> list_ex (\<lambda>a. af_name a = ''x.tsv'' \<and> af_status a = ''missing'') full"
proof -
  define specs where "specs = [spec ''run.json'' ''m'' False, spec ''x.tsv'' ''c'' False]"
  obtain full where r: "append_missing demo_run_files ''runs/7'' [] specs = Inr full"
  proof -
    have "case append_missing demo_run_files ''runs/7'' [] specs of Inl _ \<Rightarrow> False | Inr _ \<Rightarrow> True" unfolding specs_def by code_simp
    then show ?thesis using that by (auto split: sum.splits)
  qed
  have "\<not> (\<exists>p. p \<in> set (keys demo_run_files) \<and> glob (path_join [''runs/7'', ''x.tsv'']) p)"
  proof -
    have "list_all (\<lambda>p. \<not> glob (path_join [''runs/7'', ''x.tsv'']) p) (keys demo_run_files)" by code_simp
    then show ?thesis unfolding list_all_iff by blast
  qed
  moreover have "spec ''x.tsv'' ''c'' False \<in> set specs" by (simp add: specs_def)
  ultimately have "\<exists>a \<in> set full. af_name a = ''x.tsv'' \<and> af_status a = ''missing''"
    using missing_recorded [OF r, of "spec ''x.tsv'' ''c'' False"] by auto
  then show ?thesis unfolding specs_def [symmetric] r by (simp add: list_ex_iff)
qed

section \<open>The contract\<close>







text \<open>
  The requirements and the contract do not see the same hosts: the requirements do not know the role
  \<open>app_traffic\<close>, so a source of that role is refused whatever hosts it has, and a role \<open>mysql\<close> (or \<open>entry\<close>)
  without a host counts as one with an empty name, for which a capture is then required.
\<close>

lemma app_traffic_source_refused:
  assumes "so_role s = ''app_traffic''" and "map_of (rr_additional (mf_roles m)) ''app_traffic'' = None"
  shows "manifest_role_hosts m ''app_traffic'' = rr_app_traffic (mf_roles m) \<and> (\<exists>e. source_names (capture_roles m) s = Inl e)"
  using assms by (simp add: manifest_role_hosts_def capture_roles_def source_names_def host_names_def lookup_or_def update_conv' Let_def)

lemma no_mysql_host_required:
  assumes "so_role s = ''mysql''" and "rr_mysql (mf_roles m) = []"
  shows "manifest_role_hosts m ''mysql'' = [] \<and> source_names (capture_roles m) s = Inr [source_name s []]"
  using assms by (simp add: manifest_role_hosts_def capture_roles_def source_names_def host_names_def lookup_or_def update_conv' Let_def)

section \<open>The captures\<close>

lemma demote_simps [simp]:
  "af_name (demote a) = af_name a" "af_quality (demote a) = af_quality a"
  by (simp_all add: demote_def)

lemma reject_access_simps [simp]:
  "af_name (reject_access a) = af_name a" "af_status (reject_access a) = ''failed''"
  "aq_in_window (af_quality (reject_access a)) = aq_in_window (af_quality a)"
  by (simp_all add: reject_access_def)

lemma inspected_name: "af_name a = af_name b \<Longrightarrow> inspected m a = inspected m b"
  by (simp add: inspected_def)






section \<open>The score of the portal\<close>

lemma strip_score_word: "strip_any [score_word, ''score''] (score_word @ t) = Some t"
  by (simp add: score_word_def fold_variants_def lower_char_def upper_char_def less_eq_char_def)

lemma fold_variants_eval:
  "fold_variants (CHR ''s'') = [''s'', ''S'', [CHR 0xC5, CHR 0xBF]]" "fold_variants (CHR 0xE3) = [[CHR 0xE3], [CHR 0xE3]]"
  "fold_variants (CHR 0x82) = [[CHR 0x82], [CHR 0x82]]" "fold_variants (CHR 0xB9) = [[CHR 0xB9], [CHR 0xB9]]"
  by code_simp+

lemma strip_any_None: "strip_any [p, q] s = None \<longleftrightarrow> strip_fold p s = None \<and> strip_fold q s = None"
  by (simp split: option.splits)

lemma not_score:
  assumes "strip_fold score_word s = None" and "strip_fold ''score'' s = None"
  shows "score_here s = None"
  using assms unfolding score_here_def strip_any_None [THEN iffD2, OF conjI [OF assms]] by simp

lemma score_matches_skip: "score_here (c # s) = None \<Longrightarrow> score_matches (c # s) = score_matches s"
  by (subst score_matches.simps) simp

lemma score_matches_here: "score_here s = Some (ds, t) \<Longrightarrow> score_matches s = ds # score_matches t"
  by (subst score_matches.simps) simp

text \<open>The pattern can only begin with the first byte of one of its two words.\<close>

lemma score_here_first:
  assumes "c \<notin> {CHR 0xE3, CHR ''s'', CHR ''S'', CHR 0xC5}"
  shows "score_here (c # s) = None"
proof (rule not_score)
  show "strip_fold score_word (c # s) = None" using assms by (auto simp: score_word_def fold_variants_eval)
  show "strip_fold ''score'' (c # s) = None" using assms by (auto simp: fold_variants_eval)
qed

lemma score_here_kana:
  assumes "\<not> has_prefix s [CHR 0x82, CHR 0xB9]"
  shows "score_here (CHR 0xE3 # s) = None"
proof (rule not_score)
  show "strip_fold score_word (CHR 0xE3 # s) = None"
    using assms by (cases s; cases "tl s") (auto simp: score_word_def fold_variants_eval)
  show "strip_fold ''score'' (CHR 0xE3 # s) = None" by (simp add: fold_variants_eval)
qed

lemma score_matches_nl: "score_matches nl = []"
proof -
  have "score_matches [] = []" by (subst score_matches.simps) (simp add: not_score score_word_def fold_variants_eval)
  then show ?thesis using score_matches_skip [OF score_here_first [of newline_char "[]"]] by simp
qed

lemma re_space_digit: "is_digit c \<Longrightarrow> \<not> re_space c"
  by (auto simp: re_space_def is_digit_iff)

lemma dropWhile_here: "s \<noteq> [] \<Longrightarrow> \<not> P (hd s) \<Longrightarrow> dropWhile P (s @ t) = s @ t"
  by (cases s) simp_all

lemma score_here_portal:
  assumes "s \<noteq> []" and "list_all is_digit s"
  shows "score_here (score_word @ '': '' @ s @ nl) = Some (s, nl)"
proof -
  have sk: "skip_space (s @ nl) = s @ nl"
    using assms by (intro dropWhile_here) (cases s; simp add: re_space_digit)+
  have t: "takeWhile is_digit (s @ nl) = s"
  proof -
    have "takeWhile is_digit (s @ nl) = s @ takeWhile is_digit nl"
      using assms(2) by (intro takeWhile_append2) (simp add: list_all_iff)
    then show ?thesis by (simp add: is_digit_def less_eq_char_def)
  qed
  have c: "strip_any ['':'', wide_colon] (CHR '':'' # u) = Some u" for u
    by (simp add: fold_variants_def lower_char_def upper_char_def less_eq_char_def)
  have "\<not> re_space (CHR '':'')" "re_space (CHR '' '')" by code_simp+
  then show ?thesis
    using assms(1) c sk t unfolding score_here_def strip_score_word by (simp add: Let_def)
qed

lemma score_matches_plain: "c \<notin> {CHR 0xE3, CHR ''s'', CHR ''S'', CHR 0xC5} \<Longrightarrow> score_matches (c # u) = score_matches u"
  by (rule score_matches_skip [OF score_here_first])

lemma score_matches_kana: "\<not> has_prefix u [CHR 0x82, CHR 0xB9] \<Longrightarrow> score_matches (CHR 0xE3 # u) = score_matches u"
  by (rule score_matches_skip [OF score_here_kana])

lemma score_matches_portal_log: "score_matches (portal_log s) = score_matches (score_word @ '': '' @ s @ nl)"
proof -
  define rest where "rest = score_word @ '': '' @ s @ nl"
  show ?thesis unfolding portal_log_def rest_def [symmetric] by (simp add: score_matches_plain score_matches_kana)
qed

lemma score_matches_portal:
  assumes "s \<noteq> []" and "list_all is_digit s"
  shows "score_matches (portal_log s) = [s]"
  using score_matches_here [OF score_here_portal [OF assms]] score_matches_nl unfolding score_matches_portal_log by simp

lemma path_join_last:
  assumes "normal_comp x" and "x \<noteq> ''..''"
  shows "last (split_char (CHR ''/'') (path_join [d, x])) = x"
proof -
  have x: "split_char (CHR ''/'') x = [x]" using assms(1) by (intro split_char_no_sep) (simp add: normal_comp_def)
  have ne: "x \<noteq> []" using assms(1) by (simp add: normal_comp_def)
  have comps: "\<exists>cs. clean_comps r (d @ CHR ''/'' # x) = cs @ [x] \<and> list_all normal_comp cs" for r
  proof -
    have "clean_comps r (d @ CHR ''/'' # x) = clean_comps r d @ [x]"
      using assms ne by (simp add: clean_comps_def fold_clean_split_slash x clean_step_def normal_comp_def)
    then show ?thesis using clean_comps_normal [of _ r d] by (auto simp: list_all_iff)
  qed
  have single: "clean_comps r x = [x]" for r
    using assms ne by (simp add: clean_comps_def x clean_step_def normal_comp_def)
  have l: "last (split_char (CHR ''/'') (join_with ''/'' (cs @ [x]))) = x" if "list_all normal_comp cs" for cs
  proof -
    have "\<forall>c \<in> set (cs @ [x]). CHR ''/'' \<notin> set c" using that assms(1) by (auto simp: list_all_iff normal_comp_def)
    then show ?thesis using split_by_join_comps [of "cs @ [x]"] by simp
  qed
  have l': "last (split_char (CHR ''/'') (CHR ''/'' # join_with ''/'' (cs @ [x]))) = x" if "list_all normal_comp cs" for cs
    using l [OF that] by simp
  have c: "last (split_char (CHR ''/'') (clean q)) = x" if "\<And>r. \<exists>cs. clean_comps r q = cs @ [x] \<and> list_all normal_comp cs" for q
    using that [of True] that [of False] l l' unfolding clean_def by auto
  have "path_join [d, x] = clean (if d = [] then x else d @ CHR ''/'' # x)" using ne by (simp add: path_join_def)
  then show ?thesis using c [of x] c [of "d @ CHR ''/'' # x"] comps single by (auto split: if_splits)
qed

lemma path_join_differ: "normal_comp x \<Longrightarrow> normal_comp y \<Longrightarrow> x \<noteq> ''..'' \<Longrightarrow> y \<noteq> ''..'' \<Longrightarrow> x \<noteq> y \<Longrightarrow> path_join [d, x] \<noteq> path_join [d, y]"
  using path_join_last [of x d] path_join_last [of y d] by auto

lemma run_json_not_bench [simp]: "path_join [d, ''run.json''] \<noteq> path_join [d, ''bench.log'']"
  by (rule path_join_differ) (simp_all add: normal_comp_def)

text \<open>
  A score that was taken from the portal and given on the command line is not lost: the log written
  for it is read back, by a later \<open>finalize\<close> without the option too, as this very score.
\<close>

theorem portal_score_kept:
  assumes "portal_score E dir score st = (None, st')" and "score \<noteq> []" and "list_all is_digit score"
    and "lookup_or [] (mn_files st) (path_join [dir, ''bench.log'']) = []"
    and "me_read_err E (path_join [dir, ''bench.log'']) = None"
  shows "resolve_score [] (bench_log E (mn_files st') dir) = parse_int64 score \<and> parse_int64 score \<noteq> None \<and>
    resolve_score score (bench_log E (mn_files st') dir) = parse_int64 score"
proof -
  define bench where "bench = path_join [dir, ''bench.log'']"
  from assms have n: "parse_int64 score \<noteq> None" and w: "put_file E bench (portal_log score) st = (None, st')"
    by (auto simp: portal_score_def Let_def bench_def split: if_splits option.splits)
  from w have "map_of (mn_files st') bench = Some (portal_log score)"
    by (auto simp: put_file_def update_conv' split: option.splits)
  then have "bench_log E (mn_files st') dir = portal_log score"
    using assms(5) by (simp add: bench_log_def read_file_def bench_def)
  then show ?thesis using n score_matches_portal [OF assms(2,3)] assms(2) by (auto simp: resolve_score_def)
qed

theorem portal_score_kept_witness:
  "case portal_score demo_manifest_env ''runs/7'' ''42'' \<lparr>mn_files = [], mn_out = [], mn_sys = \<lparr>sys_trace = [], sys_world = ()\<rparr>\<rparr> of
     (e, st) \<Rightarrow> e = None \<and> resolve_score [] (bench_log demo_manifest_env (mn_files st) ''runs/7'') = Some 42"
proof -
  define st0 where "st0 = \<lparr>mn_files = ([] :: tree), mn_out = [], mn_sys = \<lparr>sys_trace = [], sys_world = ()\<rparr>\<rparr>"
  have n: "parse_int64 ''42'' = Some 42"
  proof -
    have "parse_digits ''42'' = Some 42" by code_simp
    then show ?thesis by (simp add: parse_int64_def)
  qed
  obtain st where r: "portal_score demo_manifest_env ''runs/7'' ''42'' st0 = (None, st)"
    by (simp add: portal_score_def n demo_manifest_env_def put_file_def st0_def Let_def)
  have "list_all is_digit ''42''" by code_simp
  moreover have "lookup_or [] (mn_files st0) (path_join [''runs/7'', ''bench.log'']) = []" by (simp add: st0_def)
  moreover have "me_read_err demo_manifest_env (path_join [''runs/7'', ''bench.log'']) = None" by (simp add: demo_manifest_env_def)
  ultimately show ?thesis
    using portal_score_kept [OF r] n unfolding st0_def [symmetric] r by simp
qed

text \<open>
  A score with a sign passes the check of the option, but the log written for it has no score: a later
  \<open>finalize\<close> without the option finds none.
\<close>

lemma signed_score_lost:
  "parse_int64 ''+5'' = Some 5 \<and> \<not> has_prefix ''+5'' ''-'' \<and> resolve_score [] (portal_log ''+5'') = None"
proof -
  have "parse_digits ''5'' = Some 5" by code_simp
  then have n: "parse_int64 ''+5'' = Some 5" by (simp add: parse_int64_def)
  have h: "score_here (score_word @ '': '' @ ''+5'' @ nl) = None" by code_simp
  have "score_matches (score_word @ '': '' @ ''+5'' @ nl) = []"
    using score_matches_nl score_matches_skip [OF h [unfolded score_word_def append_Cons append_Nil]]
    by (simp add: score_word_def score_matches_plain score_matches_kana)
  then show ?thesis using n by (simp add: resolve_score_def score_matches_portal_log)
qed

section \<open>Replacing run.json\<close>

abbreviation content :: "'w manifest_state \<Rightarrow> string \<Rightarrow> string option" where
  "content st \<equiv> map_of (mn_files st)"

lemma content_add_line [simp]: "mn_files (add_line l st) = mn_files st"
  by (simp add: add_line_def)

lemma content_put_file: "put_file E p body st = (e, st') \<Longrightarrow> content st' = content st \<or> content st' = (content st)(p \<mapsto> body)"
  by (auto simp: put_file_def update_conv' split: option.splits)

lemma delete_fresh: "k \<notin> set (keys f) \<Longrightarrow> map_of (AList.delete k f) = map_of f"
  by (auto simp: delete_conv' map_of_eq_None_iff intro!: fun_upd_idem)

lemma write_manifest_all_or_nothing:
  assumes w: "write_manifest E path m st = (e, st')"
    and fresh: "\<And>tmp. me_temp E (path_dir path) (mn_files st) = Inr tmp \<Longrightarrow> tmp \<notin> set (keys (mn_files st))"
  shows "(e \<noteq> None \<longrightarrow> content st' = content st) \<and>
    (e = None \<longrightarrow> (\<exists>body. me_encode E m = Inr body \<and> content st' = (content st)(path \<mapsto> body @ nl)))"
proof (cases "me_temp E (path_dir path) (mn_files st)")
  case (Inl x)
  then show ?thesis using w by (auto simp: write_manifest_def split: sum.splits)
next
  case (Inr tmp)
  from fresh [OF Inr] have d: "map_of (AList.delete tmp (mn_files st)) = content st" by (rule delete_fresh)
  then show ?thesis using w Inr by (auto simp: write_manifest_def update_conv' split: sum.splits option.splits)
qed

lemma portal_score_content:
  "portal_score E dir score st = (e, st') \<Longrightarrow>
   content st' = content st \<or> (\<exists>body. content st' = (content st)(path_join [dir, ''bench.log''] \<mapsto> body))"
  by (auto simp: portal_score_def Let_def split: if_splits option.splits dest: content_put_file)

lemma append_scores_content:
  assumes "append_scores E p m st = (e, st')"
  shows "\<forall>q. q \<noteq> p \<longrightarrow> content st' q = content st q" and "e = None \<Longrightarrow> \<exists>old. content st' p = Some (old @ scores_line m)"
  using assms by (auto simp: append_scores_def update_conv' put_file_def split: if_splits option.splits prod.splits)

lemma record_scores_content:
  assumes "record_scores E p m st = (e, st')"
  shows "\<forall>q. q \<noteq> p \<longrightarrow> content st' q = content st q" and "e = None \<Longrightarrow> p \<noteq> [] \<Longrightarrow> \<exists>old. content st' p = Some (old @ scores_line m)"
  using assms append_scores_content by (fastforce simp: record_scores_def split: if_splits option.splits prod.splits)+

definition same_run :: "manifest \<Rightarrow> manifest \<Rightarrow> bool" where
  "same_run m m0 \<longleftrightarrow>
     mf_run_id m = mf_run_id m0 \<and> mf_started m = mf_started m0 \<and> mf_roles m = mf_roles m0 \<and> mf_commit m = mf_commit m0 \<and>
     mf_branch m = mf_branch m0 \<and> mf_contract m = mf_contract m0 \<and> mf_required m = mf_required m0 \<and>
     mf_version m = mf_version m0 \<and> mf_clean m = mf_clean m0"

text \<open>
  C10. Finalizing replaces the record of a RUN as a whole: whatever fails, \<open>run.json\<close> is either what it was,
  and then an error is reported, or the complete text of a finalized record of the same RUN, begun with the
  same contract on the same version of the code. No file is changed besides it, the benchmark's log and the
  history of scores, which gets the line of this record when all went well.
\<close>

theorem finalize_atomic:
  assumes run: "finalize_record E f st = (e, st')"
    and path: "path = path_join [ff_dir f, ''run.json'']"
    and before: "read_manifest E (mn_files st) path = Inr m0"
    and fresh: "\<And>files tmp. me_temp E (path_dir path) files = Inr tmp \<Longrightarrow> tmp \<notin> set (keys files)"
    and scores: "ff_scores f \<noteq> path"
  shows "(e \<noteq> None \<and> content st' path = content st path \<or>
      (\<exists>m body. me_encode E m = Inr body \<and> content st' path = Some (body @ nl) \<and> mf_phase m = ''finalized'' \<and> same_run m m0 \<and>
         (e = None \<and> ff_scores f \<noteq> [] \<longrightarrow> (\<exists>old. content st' (ff_scores f) = Some (old @ scores_line m))))) \<and>
    (\<forall>p. p \<noteq> path \<and> p \<noteq> path_join [ff_dir f, ''bench.log''] \<and> p \<noteq> ff_scores f \<longrightarrow> content st' p = content st p)"
proof -
  obtain e1 st1 where s1: "portal_score E (ff_dir f) (ff_score f) st = (e1, st1)" by fastforce
  have c1: "content st1 p = content st p" if "p \<noteq> path_join [ff_dir f, ''bench.log'']" for p
    using portal_score_content [OF s1] that by auto
  have keep: "content st1 path = content st path" using c1 path by simp
  define m1 where "m1 = finalized_manifest E f (bench_log E (mn_files st1) (ff_dir f)) m0"
  consider (early) "e \<noteq> None" "content st' = content st1"
    | (late) as raw_bytes e2 st2 where "e1 = None" "write_manifest E path (closed_manifest E as raw_bytes m1) st1 = (e2, st2)"
      "e2 = e \<and> e \<noteq> None \<and> st' = st2 \<or>
       e2 = None \<and> record_scores E (ff_scores f) (closed_manifest E as raw_bytes m1)
         (add_line (final_line path (closed_manifest E as raw_bytes m1)) st2) = (e, st')"
    using run before s1 unfolding finalize_record_def Let_def path [symmetric] m1_def
    by (auto split: option.splits sum.splits prod.splits)
  then show ?thesis
  proof cases
    case early
    then show ?thesis using c1 keep by auto
  next
    case (late as raw_bytes e2 st2)
    define m2 where "m2 = closed_manifest E as raw_bytes m1"
    note w = write_manifest_all_or_nothing [OF late(2) fresh, folded m2_def]
    show ?thesis
    proof (cases e2)
      case (Some x)
      then have "e \<noteq> None \<and> content st' = content st1" using late(3) w by auto
      then show ?thesis using c1 keep by auto
    next
      case None
      then obtain body where b: "me_encode E m2 = Inr body" "content st2 = (content st1)(path \<mapsto> body @ nl)" using w by blast
      have "record_scores E (ff_scores f) m2 (add_line (final_line path m2) st2) = (e, st')"
        using late(3) None by (auto simp: m2_def)
      note r = record_scores_content [OF this]
      have "mf_phase m2 = ''finalized'' \<and> same_run m2 m0"
        by (simp add: m2_def m1_def closed_manifest_def finalized_manifest_def same_run_def)
      moreover have "content st' path = Some (body @ nl)" using r(1) b(2) scores by simp
      moreover have "content st' p = content st p" if "p \<noteq> path" "p \<noteq> path_join [ff_dir f, ''bench.log'']" "p \<noteq> ff_scores f" for p
        using r(1) b(2) c1 that by simp
      ultimately show ?thesis using b(1) r(2) by blast
    qed
  qed
qed

definition demo_temp :: "tree \<Rightarrow> string" where
  "demo_temp files = CHR ''t'' # concat (keys files)"

lemma key_shorter: "k \<in> set (keys files) \<Longrightarrow> length k \<le> length (concat (keys files))"
  by (induction files) (auto simp: image_iff intro: le_trans [OF _ le_add2])

lemma record_temp_fresh: "demo_temp files \<notin> set (keys files)"
  using key_shorter [of "demo_temp files" files] by (auto simp: demo_temp_def)

definition demo_begun_record :: manifest where
  "demo_begun_record = started_manifest demo_manifest_env demo_begin (''c'', ''b'')"

definition demo_final_env :: manifest_env where
  "demo_final_env = demo_manifest_env\<lparr>me_decode := (\<lambda>_. Inr demo_begun_record), me_temp := (\<lambda>_ files. Inr (demo_temp files))\<rparr>"

definition demo_final_flags :: finalize_flags where
  "demo_final_flags = \<lparr>ff_dir = ''runs/7'', ff_score = [], ff_scores = ''runs/scores.tsv'', ff_collectors = ''c'', ff_digesters = ''d''\<rparr>"

definition demo_record_state :: "unit manifest_state" where
  "demo_record_state = \<lparr>mn_files = demo_run_files, mn_out = [], mn_sys = \<lparr>sys_trace = [], sys_world = ()\<rparr>\<rparr>"

theorem finalize_atomic_witness:
  "case finalize_record demo_final_env demo_final_flags demo_record_state of
     (e, st) \<Rightarrow> e = None \<and> content st ''runs/7/run.json'' = Some (''finalized'' @ nl) \<and> content st ''runs/8/b'' = Some ''z''"
proof -
  obtain e st where r: "finalize_record demo_final_env demo_final_flags demo_record_state = (e, st)" by fastforce
  have p: "''runs/7/run.json'' = path_join [ff_dir demo_final_flags, ''run.json'']" by code_simp
  have e: "fst (finalize_record demo_final_env demo_final_flags demo_record_state) = None" by code_simp
  have rm: "read_manifest demo_final_env (mn_files demo_record_state) ''runs/7/run.json'' = Inr demo_begun_record"
  proof -
    have "started_record demo_begun_record" by code_simp
    then show ?thesis
      by (simp add: read_manifest_def read_file_def demo_final_env_def demo_manifest_env_def demo_record_state_def demo_run_files_def)
  qed
  have fresh: "me_temp demo_final_env (path_dir ''runs/7/run.json'') files = Inr tmp \<Longrightarrow> tmp \<notin> set (keys files)" for files tmp
    using record_temp_fresh by (auto simp: demo_final_env_def)
  have enc: "me_encode demo_final_env m = Inr (mf_phase m)" for m by (simp add: demo_final_env_def demo_manifest_env_def)
  have "path_join [ff_dir demo_final_flags, ''bench.log''] \<noteq> ''runs/8/b''" by code_simp
  moreover have sc: "ff_scores demo_final_flags \<noteq> ''runs/7/run.json''" by (simp add: demo_final_flags_def)
  ultimately have kept: "content st ''runs/8/b'' = content demo_record_state ''runs/8/b''"
    using finalize_atomic [OF r p rm fresh sc] by (auto simp: demo_final_flags_def)
  have "e = None" using e r by simp
  then have "content st ''runs/7/run.json'' = Some (''finalized'' @ nl)"
    using finalize_atomic [OF r p rm fresh sc] enc by auto
  then show ?thesis using kept \<open>e = None\<close> unfolding r by (simp add: demo_record_state_def demo_run_files_def)
qed

end
