(* ===== verification/MeasureCommitProperties.thy ===== *)
theory MeasureCommitProperties
  imports MeasureCommit
begin

text \<open>
  The properties of the commits around a RUN (tools/measurectl/commit.go): how often git is tried, that the
  snapshot of the worktree ends clean, and that the commit of the artifacts touches nothing but the RUN's
  directory and the history next to it.
\<close>

section \<open>git\<close>

abbreviation git_cmd :: "string list \<Rightarrow> cmd" where
  "git_cmd args \<equiv> Cmd ''git'' args []"

lemma git_attempts_trace:
  "git_attempts k ex args s = ((out, e), s') \<Longrightarrow>
   \<exists>n. 1 \<le> n \<and> n \<le> k + 1 \<and> sys_trace s' = sys_trace s @ replicate n (git_cmd args) \<and> (e = None \<or> n = k + 1)"
proof (induction k arbitrary: s)
  case 0
  then show ?case using exec_run_trace [of ex "git_cmd args" s] by (auto intro!: exI [of _ 1])
next
  case (Suc k)
  obtain out1 e1 s1 where r: "exec_run ex (git_cmd args) s = ((out1, e1), s1)" by (metis prod.collapse)
  then have t: "sys_trace s1 = sys_trace s @ [git_cmd args]" using exec_run_trace [of ex "git_cmd args" s] by simp
  show ?case
  proof (cases e1)
    case None
    then show ?thesis using Suc.prems r t by (auto intro!: exI [of _ 1])
  next
    case (Some x)
    then have "git_attempts k ex args s1 = ((out, e), s')" using Suc.prems r by simp
    from Suc.IH [OF this] obtain n
      where n: "1 \<le> n" "n \<le> k + 1" "sys_trace s' = sys_trace s1 @ replicate n (git_cmd args)" "e = None \<or> n = k + 1" by blast
    then show ?thesis using t by (intro exI [of _ "Suc n"]) auto
  qed
qed

lemma run_git_trace:
  assumes "run_git ex c args s = ((out, e), s')"
  shows "\<exists>n. 1 \<le> n \<and> n \<le> 4 \<and> sys_trace s' = sys_trace s @ replicate n (git_cmd args) \<and> (e = None \<or> n = 4)"
proof -
  obtain out1 e1 s1 where r: "git_attempts git_retry_count ex args s = ((out1, e1), s1)" by (metis prod.collapse)
  then have "s1 = s'" "e = None \<longleftrightarrow> e1 = None" using assms by (auto simp: run_git_def split: option.splits)
  then show ?thesis using git_attempts_trace [OF r] by (auto simp: git_retry_count_def)
qed

text \<open>
  One call of git is tried at least once and at most four times, always with the same arguments, and it
  is given up only after the fourth attempt.
\<close>

theorem git_tries_bounded:
  "\<exists>n. 1 \<le> n \<and> n \<le> 4 \<and> sys_trace (snd (run_git ex command args s)) = sys_trace s @ replicate n (git_cmd args) \<and>
    (snd (fst (run_git ex command args s)) = None \<or> n = 4)"
proof -
  obtain out e s' where r: "run_git ex command args s = ((out, e), s')" by (metis prod.collapse)
  show ?thesis using run_git_trace [OF r] unfolding r by simp
qed

section \<open>An example\<close>

text \<open>A git whose worktree has one change, until it has been committed: the state says whether it is
  unstaged (0), staged (1) or committed (2).\<close>

definition demo_git :: "nat executor" where
  "demo_git c w =
     (let a = cmd_args c in
      if ''rev-parse'' \<in> set a then ((''/repo'' @ nl, None), w)
      else if ''status'' \<in> set a then ((if w = 2 then [] else '' M x'', None), w)
      else if ''diff'' \<in> set a then ((if w = 1 then ''x'' else [], None), w)
      else if ''add'' \<in> set a then (([], None), 1)
      else if ''commit'' \<in> set a then (([], None), 2)
      else (([], Some (Errorf ''unknown'' [] [])), w))"

definition demo_git_state :: "nat sys" where
  "demo_git_state = \<lparr>sys_trace = [], sys_world = 0\<rparr>"



section \<open>The snapshot of the worktree\<close>

text \<open>
  A snapshot that reports no error leaves a clean worktree: the last thing it did is a successful
  \<open>git status\<close>, untracked files included, that printed nothing; and a commit is reported only after
  something had been staged.
\<close>

theorem snapshot_clean:
  assumes "commit_working_tree ex run_id s = ((None, out), s')"
  shows "\<exists>repo t. git_in ex repo status_args t = (([], None), s') \<and>
    (out = [] \<or> (\<exists>staged u. staged \<noteq> [] \<and> fst (git_in ex repo [''diff'', ''--cached'', ''--name-only''] u) = (staged, None) \<and>
       out = [commit_summary (snapshot_message run_id) staged]))"
proof -
  obtain top s1 where 1: "git_in ex [] [''rev-parse'', ''--show-toplevel''] s = ((top, None), s1)"
    using assms by (auto simp: commit_working_tree_def split: prod.splits option.splits)
  define repo where "repo = trim_space top"
  obtain status s2 where 2: "git_in ex repo status_args s1 = ((status, None), s2)"
    using assms 1 by (auto simp: commit_working_tree_def repo_def Let_def split: prod.splits option.splits)
  show ?thesis
  proof (cases "status = []")
    case True
    then have "s' = s2 \<and> out = []" using assms 1 2 by (simp add: commit_working_tree_def repo_def [symmetric] Let_def)
    then show ?thesis using 2 True by blast
  next
    case False
    obtain s3 x where 3: "git_in ex repo [''add'', ''-A'', ''--'', ''.''] s2 = ((x, None), s3)"
      using assms 1 2 False by (auto simp: commit_working_tree_def repo_def [symmetric] Let_def split: prod.splits option.splits)
    obtain staged s4 where 4: "git_in ex repo [''diff'', ''--cached'', ''--name-only''] s3 = ((staged, None), s4)" "staged \<noteq> []"
      using assms 1 2 3 False
      by (auto simp: commit_working_tree_def repo_def [symmetric] Let_def split: prod.splits option.splits if_splits)
    obtain y s5 where 5: "git_in ex repo [''-c'', ''core.hooksPath=/dev/null'', ''commit'', ''-q'', ''-m'', snapshot_message run_id] s4 = ((y, None), s5)"
      using assms 1 2 3 4 False
      by (auto simp: commit_working_tree_def repo_def [symmetric] Let_def split: prod.splits option.splits)
    have "git_in ex repo status_args s5 = (([], None), s') \<and> out = [commit_summary (snapshot_message run_id) staged]"
      using assms 1 2 3 4 5 False
      by (auto simp: commit_working_tree_def repo_def [symmetric] Let_def split: prod.splits option.splits if_splits)
    then show ?thesis using 4 by (intro exI [of _ repo] exI [of _ s5]) (auto intro!: exI [of _ s3])
  qed
qed

theorem snapshot_clean_witness:
  "case commit_working_tree demo_git ''7'' demo_git_state of
     ((e, out), s') \<Rightarrow> e = None \<and> out = [commit_summary (snapshot_message ''7'') ''x''] \<and>
       (\<exists>repo t. git_in demo_git repo status_args t = (([], None), s'))"
proof -
  have v: "fst (commit_working_tree demo_git ''7'' demo_git_state) = (None, [commit_summary (snapshot_message ''7'') ''x''])"
    by code_simp
  then obtain s' where r: "commit_working_tree demo_git ''7'' demo_git_state = ((None, [commit_summary (snapshot_message ''7'') ''x'']), s')"
    by (metis prod.collapse)
  from snapshot_clean [OF r] show ?thesis unfolding r by auto
qed

section \<open>The artifacts\<close>













end
