(* ===== verification/BenchOutput.thy ===== *)
theory BenchOutput
  imports GoExec
begin

text \<open>
  The output of the benchmark (tools/bench-output/main.go): the patterns of a contest's log, the writer that
  passes the output on and looks for results in its lines, and the markers that the rest of the tools read.

  Parameters: the regular expressions (\<open>regexp.Compile\<close> and what a compiled expression finds), the
  declaration as the JSON decoder reads it, the writers, the parsed command line, and the process that is
  run: the chunks in which its output arrives and how it ends. That signals are passed on to the process is
  not modelled.
\<close>

section \<open>Patterns\<close>

record pattern_declaration =
  pd_score :: string
  pd_pass :: string
  pd_fail :: string

text \<open>A compiled expression: the number of its groups, and its first match with the texts of the groups.\<close>

record pattern =
  pt_groups :: nat
  pt_find :: "string \<Rightarrow> string list option"

record patterns =
  ps_score :: "pattern option"
  ps_pass :: "pattern option"
  ps_fail :: "pattern option"

type_synonym regex_compiler = "string \<Rightarrow> go_error + pattern"

definition compile_pattern :: "regex_compiler \<Rightarrow> string \<Rightarrow> string \<Rightarrow> nat \<Rightarrow> go_error + pattern option" where
  "compile_pattern rc name expression captures =
     (if expression = [] then Inr None
      else
        (case rc expression of
           Inl e \<Rightarrow> Inl (Errorf ''pattern'' [name] [e])
         | Inr p \<Rightarrow>
             if pt_groups p < captures then Inl (Errorf ''pattern requires capture groups'' [name, format_nat captures] [])
             else Inr (Some p)))"

datatype declaration_file = NoDeclaration go_error | BadDeclaration go_error | Declaration pattern_declaration

definition load_patterns :: "regex_compiler \<Rightarrow> declaration_file \<Rightarrow> go_error + patterns" where
  "load_patterns rc f =
     (case f of
        NoDeclaration e \<Rightarrow> Inl (Errorf ''cannot read benchmark log format'' [] [e])
      | BadDeclaration e \<Rightarrow> Inl (Errorf ''cannot parse benchmark log format'' [] [e])
      | Declaration d \<Rightarrow>
          (case compile_pattern rc ''score'' (pd_score d) 1 of
             Inl e \<Rightarrow> Inl e
           | Inr s \<Rightarrow>
          (case compile_pattern rc ''pass'' (pd_pass d) 0 of
             Inl e \<Rightarrow> Inl e
           | Inr p \<Rightarrow>
          (case compile_pattern rc ''fail'' (pd_fail d) 0 of
             Inl e \<Rightarrow> Inl e
           | Inr f \<Rightarrow> Inr \<lparr>ps_score = s, ps_pass = p, ps_fail = f\<rparr>))))"

section \<open>The writer\<close>

text \<open>A writer takes a text and says how much of it was written.\<close>

type_synonym 'o writer = "string \<Rightarrow> 'o \<Rightarrow> (nat \<times> go_error option) \<times> 'o"

record result_writer =
  rw_line :: string
  rw_oversized :: bool
  rw_score :: string
  rw_passed :: bool
  rw_failed :: bool

definition line_limit :: nat where
  "line_limit = 64 * 1024"

definition pattern_match :: "pattern option \<Rightarrow> string \<Rightarrow> bool" where
  "pattern_match p line \<longleftrightarrow> (case p of None \<Rightarrow> False | Some q \<Rightarrow> pt_find q line \<noteq> None)"

definition read_line :: "patterns \<Rightarrow> string \<Rightarrow> result_writer \<Rightarrow> result_writer" where
  "read_line P line w =
     (let w1 =
        (case ps_score P of
           None \<Rightarrow> w
         | Some q \<Rightarrow> (case pt_find q line of None \<Rightarrow> w | Some groups \<Rightarrow> w\<lparr>rw_score := groups ! 1\<rparr>))
      in if pattern_match (ps_fail P) line then w1\<lparr>rw_failed := True\<rparr>
         else if pattern_match (ps_pass P) line then w1\<lparr>rw_passed := True\<rparr> else w1)"

definition finish_line :: "patterns \<Rightarrow> result_writer \<Rightarrow> result_writer" where
  "finish_line P w =
     (if rw_oversized w then w else read_line P (rw_line w) w)\<lparr>rw_line := [], rw_oversized := False\<rparr>"

definition take_byte :: "patterns \<Rightarrow> char \<Rightarrow> result_writer \<Rightarrow> result_writer" where
  "take_byte P b w =
     (if b = CHR 0x0A then finish_line P w
      else if rw_oversized w then w
      else if length (rw_line w) = line_limit then w\<lparr>rw_oversized := True, rw_line := []\<rparr>
      else w\<lparr>rw_line := rw_line w @ [b]\<rparr>)"

definition write_result :: "patterns \<Rightarrow> 'o writer \<Rightarrow> string \<Rightarrow> result_writer \<times> 'o \<Rightarrow> (nat \<times> go_error option) \<times> (result_writer \<times> 'o)" where
  "write_result P out p st =
     (case st of (w, s) \<Rightarrow> (case out p s of ((n, e), s1) \<Rightarrow> ((n, e), (fold (take_byte P) (take n p) w, s1))))"

definition fresh_writer :: result_writer where
  "fresh_writer = \<lparr>rw_line = [], rw_oversized = False, rw_score = [], rw_passed = False, rw_failed = False\<rparr>"

definition marker_text :: "result_writer \<Rightarrow> string" where
  "marker_text w =
     (if rw_score w \<noteq> [] then ''SCORE: '' @ rw_score w @ nl else []) @
     (if rw_failed w then ''BENCHMARK_FAIL'' @ nl else if rw_passed w then ''BENCHMARK_PASS'' @ nl else [])"

definition markers :: "patterns \<Rightarrow> result_writer \<Rightarrow> string" where
  "markers P w = marker_text (finish_line P w)"

section \<open>Running\<close>

text \<open>\<open>io.Copy\<close> of chunks; a short write without an error is an error of its own.\<close>

fun copy_chunks :: "patterns \<Rightarrow> 'o writer \<Rightarrow> string list \<Rightarrow> result_writer \<times> 'o \<Rightarrow> go_error option \<times> (result_writer \<times> 'o)" where
  "copy_chunks P out [] st = (None, st)"
| "copy_chunks P out (c # cs) st =
     (case write_result P out c st of
        ((n, Some e), st1) \<Rightarrow> (Some e, st1)
      | ((n, None), st1) \<Rightarrow>
          if n \<noteq> length c then (Some (Errorf ''short write'' [] []), st1) else copy_chunks P out cs st1)"

text \<open>How a process ends: with a status, by a signal, or with an error of waiting for it.\<close>

datatype wait_end = Exited int | Signaled int | WaitFailed go_error

record process =
  pc_start_err :: "go_error option"
  pc_chunks :: "string list"
  pc_end :: wait_end

record input_file =
  if_open_err :: "go_error option"
  if_chunks :: "string list"
  if_read_err :: "go_error option"

record bench_flags =
  bf_patterns :: string
  bf_input :: string
  bf_command :: "string list"

record bench_env =
  be_parse :: "string list \<Rightarrow> bench_flags option"
  be_compile :: regex_compiler
  be_declared :: "string \<Rightarrow> declaration_file"
  be_open :: "string \<Rightarrow> input_file"
  be_process :: "string list \<Rightarrow> process"

text \<open>\<open>io.Discard\<close>.\<close>

definition discard :: "unit writer" where
  "discard p s = ((length p, None), ())"

definition convert_log :: "bench_env \<Rightarrow> patterns \<Rightarrow> string \<Rightarrow> 'o writer \<Rightarrow> 'o \<Rightarrow> int \<times> 'o" where
  "convert_log E P path out s =
     (let f = be_open E path in
      if if_open_err f \<noteq> None then (1, s)
      else
        (case copy_chunks P discard (if_chunks f) (fresh_writer, ()) of
           (Some e, _) \<Rightarrow> (1, s)
         | (None, (w, _)) \<Rightarrow>
             if if_read_err f \<noteq> None then (1, s)
             else (case out (markers P w) s of ((n, e), s1) \<Rightarrow> (if e \<noteq> None then 1 else 0, s1))))"

text \<open>The status that \<open>Wait\<close> gives: an exit with status 0 leaves the error of copying the output.\<close>

definition exit_status :: "wait_end \<Rightarrow> go_error option \<Rightarrow> int" where
  "exit_status fin copy_err =
     (case fin of
        Exited c \<Rightarrow> if c = 0 then (if copy_err \<noteq> None then 1 else 0) else c
      | Signaled sig \<Rightarrow> 128 + sig
      | WaitFailed _ \<Rightarrow> 1)"

definition finish_command :: "patterns \<Rightarrow> 'o writer \<Rightarrow> wait_end \<Rightarrow> go_error option \<times> (result_writer \<times> 'o) \<Rightarrow> int \<times> 'o" where
  "finish_command P out fin copied =
     (case copied of
        (copy_err, (w, s)) \<Rightarrow>
          (let ms = markers P w; status = exit_status fin copy_err in
           if ms = [] then (status, s)
           else (case out (nl @ ms) s of ((n, e), s1) \<Rightarrow> (if e \<noteq> None then 1 else status, s1))))"

definition run_command :: "bench_env \<Rightarrow> patterns \<Rightarrow> string list \<Rightarrow> 'o writer \<Rightarrow> 'o \<Rightarrow> int \<times> 'o" where
  "run_command E P command out s =
     (let p = be_process E command in
      if pc_start_err p \<noteq> None then (127, s)
      else finish_command P out (pc_end p) (copy_chunks P out (pc_chunks p) (fresh_writer, s)))"

definition run_bench_output :: "bench_env \<Rightarrow> string list \<Rightarrow> 'o writer \<Rightarrow> 'o \<Rightarrow> int \<times> 'o" where
  "run_bench_output E args out s =
     (case be_parse E args of
        None \<Rightarrow> (2, s)
      | Some f \<Rightarrow>
          if (bf_command f = [] \<and> bf_input f = []) \<or> (bf_command f \<noteq> [] \<and> bf_input f \<noteq> []) then (2, s)
          else
            (case load_patterns (be_compile E) (be_declared E (bf_patterns f)) of
               Inl e \<Rightarrow> (2, s)
             | Inr P \<Rightarrow>
                 if bf_input f \<noteq> [] then convert_log E P (bf_input f) out s
                 else run_command E P (bf_command f) out s))"

end
