(* ===== verification/BenchOutputProperties.thy ===== *)
theory BenchOutputProperties
  imports BenchOutput MeasureManifestProperties
begin

text \<open>
  The properties of the reading of the benchmark's output (tools/bench-output/main.go): the markers are those
  of the lines of the output, in whatever chunks it arrives, the output itself is passed on unchanged, and
  the markers are what \<open>measurectl run finalize\<close> reads back from the log they are appended to.
\<close>

section \<open>The lines of the output\<close>

definition short_line :: "string \<Rightarrow> bool" where
  "short_line l \<longleftrightarrow> length l \<le> line_limit"

definition line_step :: "patterns \<Rightarrow> string \<Rightarrow> result_writer \<Rightarrow> result_writer" where
  "line_step P l w = (if short_line l then read_line P l w else w)"

text \<open>The writer in the middle of a line.\<close>

definition mid_line :: "result_writer \<Rightarrow> string \<Rightarrow> result_writer" where
  "mid_line w l = w\<lparr>rw_line := (if short_line l then l else []), rw_oversized := \<not> short_line l\<rparr>"

lemma read_line_buffer [simp]:
  "read_line P l (w\<lparr>rw_line := a, rw_oversized := b\<rparr>) = (read_line P l w)\<lparr>rw_line := a, rw_oversized := b\<rparr>"
  by (simp add: read_line_def Let_def split: option.splits)

lemma finish_mid_line: "finish_line P (mid_line w l) = mid_line (line_step P l w) []"
  by (simp add: finish_line_def mid_line_def line_step_def short_line_def)

lemma take_byte_mid: "b \<noteq> CHR 0x0A \<Longrightarrow> take_byte P b (mid_line w l) = mid_line w (l @ [b])"
  by (auto simp: take_byte_def mid_line_def short_line_def)

lemma take_bytes_mid:
  "CHR 0x0A \<notin> set l \<Longrightarrow>
   fold (take_byte P) s (mid_line w l) =
     (let ls = split_char (CHR 0x0A) (l @ s) in mid_line (fold (line_step P) (butlast ls) w) (last ls))"
proof (induction s arbitrary: l w)
  case Nil
  then show ?case by (simp add: split_char_no_sep Let_def)
next
  case (Cons b s)
  show ?case
  proof (cases "b = CHR 0x0A")
    case True
    have "fold (take_byte P) (b # s) (mid_line w l) = fold (take_byte P) s (mid_line (line_step P l w) [])"
      using True by (simp add: take_byte_def finish_mid_line)
    then show ?thesis using Cons True by (simp add: split_char_append Let_def)
  next
    case False
    then show ?thesis using Cons.IH [of "l @ [b]" w] Cons.prems by (simp add: take_byte_mid)
  qed
qed

lemma fresh_mid_line: "fresh_writer = mid_line fresh_writer []"
  by (simp add: fresh_writer_def mid_line_def short_line_def)

definition read_output :: "patterns \<Rightarrow> string \<Rightarrow> result_writer" where
  "read_output P body = fold (line_step P) (split_char (CHR 0x0A) body) fresh_writer"

lemma finish_output:
  "finish_line P (fold (take_byte P) body fresh_writer) = mid_line (read_output P body) []"
proof -
  have "fold (line_step P) (butlast ls @ [last ls]) w = line_step P (last ls) (fold (line_step P) (butlast ls) w)" for ls w
    by simp
  from this [of "split_char (CHR 0x0A) body" fresh_writer]
  have "read_output P body = line_step P (last (split_char (CHR 0x0A) body)) (fold (line_step P) (butlast (split_char (CHR 0x0A) body)) fresh_writer)"
    by (simp add: read_output_def)
  then show ?thesis
    using take_bytes_mid [of "[]" P body fresh_writer] by (simp add: fresh_mid_line [symmetric] Let_def finish_mid_line)
qed

lemma marker_text_mid [simp]: "marker_text (mid_line w l) = marker_text w"
  by (simp add: marker_text_def mid_line_def)

text \<open>What the lines say, without a writer.\<close>

definition fails :: "patterns \<Rightarrow> string \<Rightarrow> bool" where
  "fails P l \<longleftrightarrow> short_line l \<and> pattern_match (ps_fail P) l"

definition passes :: "patterns \<Rightarrow> string \<Rightarrow> bool" where
  "passes P l \<longleftrightarrow> short_line l \<and> \<not> pattern_match (ps_fail P) l \<and> pattern_match (ps_pass P) l"

definition line_scores :: "patterns \<Rightarrow> string \<Rightarrow> string list" where
  "line_scores P l =
     (if short_line l then
        (case ps_score P of None \<Rightarrow> [] | Some q \<Rightarrow> (case pt_find q l of None \<Rightarrow> [] | Some groups \<Rightarrow> [groups ! 1])) else [])"

lemma line_step_fields:
  "rw_failed (line_step P l w) \<longleftrightarrow> rw_failed w \<or> fails P l"
  "rw_passed (line_step P l w) \<longleftrightarrow> rw_passed w \<or> passes P l"
  "rw_score (line_step P l w) = last (rw_score w # line_scores P l)"
  by (simp_all add: line_step_def read_line_def Let_def fails_def passes_def line_scores_def split: option.splits)

lemma fold_line_step:
  "rw_failed (fold (line_step P) ls w) \<longleftrightarrow> rw_failed w \<or> list_ex (fails P) ls"
  "rw_passed (fold (line_step P) ls w) \<longleftrightarrow> rw_passed w \<or> list_ex (passes P) ls"
  "rw_score (fold (line_step P) ls w) = last (rw_score w # concat (map (line_scores P) ls))"
proof (induction ls arbitrary: w)
  case (Cons l ls)
  { case 1 then show ?case by (simp add: Cons.IH line_step_fields) }
  { case 2 then show ?case by (simp add: Cons.IH line_step_fields) }
  { case 3 then show ?case by (simp add: Cons.IH line_step_fields) }
qed simp_all

definition output_verdict :: "patterns \<Rightarrow> string \<Rightarrow> string" where
  "output_verdict P body =
     (let ls = split_char (CHR 0x0A) body; score = last ([] # concat (map (line_scores P) ls)) in
      (if score \<noteq> [] then ''SCORE: '' @ score @ nl else []) @
      (if list_ex (fails P) ls then ''BENCHMARK_FAIL'' @ nl else if list_ex (passes P) ls then ''BENCHMARK_PASS'' @ nl else []))"

lemma marker_text_output: "marker_text (read_output P body) = output_verdict P body"
  by (simp add: marker_text_def read_output_def fold_line_step fresh_writer_def output_verdict_def Let_def)

lemma markers_output: "markers P (fold (take_byte P) body fresh_writer) = output_verdict P body"
  by (simp add: markers_def finish_output marker_text_output)

section \<open>Chunks\<close>

lemma copy_chunks_taken:
  "copy_chunks P out cs (w, s) = (None, (w', s')) \<Longrightarrow> w' = fold (take_byte P) (concat cs) w"
  by (induction cs arbitrary: w s) (auto simp: write_result_def split: prod.splits option.splits if_splits)

text \<open>
  The markers do not depend on the chunks in which the output arrives: they are those of the lines of
  the whole output, the last of the captured scores, and a failure when any line is one, whatever lines
  report a success; lines of more than 64 KiB are left out.
\<close>

theorem markers_of_lines:
  assumes "copy_chunks P out cs (fresh_writer, s) = (None, (w, s'))"
  shows "markers P w = output_verdict P (concat cs)"
  using copy_chunks_taken [OF assms] by (simp add: markers_output)

section \<open>An example\<close>

text \<open>Lines of the form \<open>s<digits>\<close>, \<open>ok\<close> and \<open>ng\<close>.\<close>

definition demo_patterns :: patterns where
  "demo_patterns =
     \<lparr>ps_score = Some \<lparr>pt_groups = 1, pt_find = (\<lambda>l. if has_prefix l ''s'' then Some [l, drop 1 l] else None)\<rparr>,
      ps_pass = Some \<lparr>pt_groups = 0, pt_find = (\<lambda>l. if l = ''ok'' then Some [l] else None)\<rparr>,
      ps_fail = Some \<lparr>pt_groups = 0, pt_find = (\<lambda>l. if l = ''ng'' then Some [l] else None)\<rparr>\<rparr>"

definition text_writer :: "string writer" where
  "text_writer p s = ((length p, None), s @ p)"

definition demo_chunks :: "string list" where
  "demo_chunks = [''s1'' @ nl @ ''n'', ''g'' @ nl @ ''s4'', ''2'' @ nl @ ''ok'']"

lemma short_lines: "length l \<le> 100 \<Longrightarrow> short_line l"
  by (simp add: short_line_def line_limit_def)

lemma demo_verdict: "output_verdict demo_patterns (concat demo_chunks) = ''SCORE: 42'' @ nl @ ''BENCHMARK_FAIL'' @ nl"
proof -
  have "split_char (CHR 0x0A) (concat demo_chunks) = [''s1'', ''ng'', ''s42'', ''ok'']" by code_simp
  then show ?thesis
    by (simp add: output_verdict_def line_scores_def fails_def passes_def short_lines demo_patterns_def pattern_match_def)
qed

lemma copy_chunks_text: "copy_chunks P text_writer cs (w, s) = (None, (fold (take_byte P) (concat cs) w, s @ concat cs))"
  by (induction cs arbitrary: w s) (simp_all add: write_result_def text_writer_def)

theorem markers_of_lines_witness:
  "markers demo_patterns (fst (snd (copy_chunks demo_patterns text_writer demo_chunks (fresh_writer, [])))) =
   ''SCORE: 42'' @ nl @ ''BENCHMARK_FAIL'' @ nl"
  using markers_of_lines [OF copy_chunks_text] demo_verdict by (simp add: copy_chunks_text)

section \<open>The command\<close>

text \<open>
  A command behaves under \<open>bench-output\<close> as on its own: into a writer that takes everything, all of its
  output is passed on, in order, followed by the markers when there are any, and the status is that of the
  command, 128 more than the signal when one ended it.
\<close>

theorem command_passed_through:
  assumes "pc_start_err (be_process E command) = None"
  shows "run_command E P command text_writer s =
    (exit_status (pc_end (be_process E command)) None,
     s @ concat (pc_chunks (be_process E command)) @
     (let ms = output_verdict P (concat (pc_chunks (be_process E command))) in if ms = [] then [] else nl @ ms))"
  using assms by (simp add: run_command_def finish_command_def copy_chunks_text markers_output Let_def) (simp add: text_writer_def)

definition demo_bench :: bench_env where
  "demo_bench =
     \<lparr>be_parse = (\<lambda>args. Some \<lparr>bf_patterns = ''p'', bf_input = [], bf_command = args\<rparr>),
      be_compile = (\<lambda>_. Inl (Errorf ''no'' [] [])), be_declared = (\<lambda>_. NoDeclaration (Errorf ''no'' [] [])),
      be_open = (\<lambda>_. \<lparr>if_open_err = None, if_chunks = [], if_read_err = None\<rparr>),
      be_process = (\<lambda>_. \<lparr>pc_start_err = None, pc_chunks = demo_chunks, pc_end = Exited 7\<rparr>)\<rparr>"

theorem command_passed_through_witness:
  "run_command demo_bench demo_patterns [''bench''] text_writer [] =
   (7, concat demo_chunks @ nl @ ''SCORE: 42'' @ nl @ ''BENCHMARK_FAIL'' @ nl)"
proof -
  have p: "be_process demo_bench [''bench''] = \<lparr>pc_start_err = None, pc_chunks = demo_chunks, pc_end = Exited 7\<rparr>"
    by (simp add: demo_bench_def)
  then have "pc_start_err (be_process demo_bench [''bench'']) = None" by simp
  from command_passed_through [OF this, of demo_patterns "[]"] show ?thesis
    by (simp add: p demo_verdict exit_status_def del: concat.simps)
qed

section \<open>Reading the markers back\<close>

text \<open>A capital S stops every match that begins before it.\<close>

lemma prefix_before:
  "prefix v (a @ x # t) \<Longrightarrow> x \<notin> set v \<Longrightarrow> \<exists>a'. a = v @ a'"
proof (induction v arbitrary: a)
  case (Cons y v)
  then show ?case by (cases a) auto
qed simp

definition free_of :: "char \<Rightarrow> string \<Rightarrow> bool" where
  "free_of x cs \<longleftrightarrow> list_all (\<lambda>c. list_all (\<lambda>v. x \<notin> set v) (fold_variants c)) cs"

lemma strip_fold_before:
  "strip_fold cs (a @ x # t) = Some r \<Longrightarrow> free_of x cs \<Longrightarrow> \<exists>a'. r = a' @ x # t \<and> length a' \<le> length a"
proof (induction cs arbitrary: a)
  case (Cons c cs)
  from Cons.prems(1) obtain v where f: "find (has_prefix (a @ x # t)) (fold_variants c) = Some v"
    and r: "strip_fold cs (drop (length v) (a @ x # t)) = Some r"
    by (auto split: option.splits)
  have v: "v \<in> set (fold_variants c)" "has_prefix (a @ x # t) v" using f by (auto simp: find_Some_iff)
  then obtain a' where a: "a = v @ a'" using prefix_before [of v a x t] Cons.prems(2) by (auto simp: free_of_def list_all_iff)
  then have "strip_fold cs (a' @ x # t) = Some r" using r by simp
  moreover have "free_of x cs" using Cons.prems(2) by (simp add: free_of_def)
  ultimately obtain b where "r = b @ x # t \<and> length b \<le> length a'" using Cons.IH by blast
  then show ?case using a by auto
qed auto

lemma strip_any_before:
  "strip_any ps (a @ x # t) = Some r \<Longrightarrow> list_all (free_of x) ps \<Longrightarrow> \<exists>a'. r = a' @ x # t \<and> length a' \<le> length a"
proof (induction ps)
  case (Cons p ps)
  then show ?case by (cases "strip_fold p (a @ x # t)") (auto dest: strip_fold_before)
qed simp

lemma dropWhile_before: "\<not> P x \<Longrightarrow> \<exists>a'. dropWhile P (a @ x # t) = a' @ x # t \<and> length a' \<le> length a"
  by (induction a) (auto intro: exI [of _ "_ # _"])

lemma S_free: "free_of (CHR ''S'') score_word" "free_of (CHR ''S'') ''core''" "list_all (free_of (CHR ''S'')) ['':'', wide_colon]"
  by code_simp+

lemma score_word_before:
  assumes "strip_any [score_word, ''score''] (a @ CHR ''S'' # t) = Some r" and "a \<noteq> []"
  shows "\<exists>a'. r = a' @ CHR ''S'' # t \<and> length a' \<le> length a"
proof (cases "strip_fold score_word (a @ CHR ''S'' # t)")
  case (Some u)
  then have "strip_fold score_word (a @ CHR ''S'' # t) = Some r" using assms(1) by (simp del: strip_fold.simps)
  from strip_fold_before [OF this S_free(1)] show ?thesis .
next
  case None
  then have "strip_fold ''score'' (a @ CHR ''S'' # t) = Some r"
    using assms(1) by (simp del: strip_fold.simps split: option.splits)
  then have s: "(case find (has_prefix (a @ CHR ''S'' # t)) (fold_variants (CHR ''s'')) of None \<Rightarrow> None
      | Some v \<Rightarrow> strip_fold ''core'' (drop (length v) (a @ CHR ''S'' # t))) = Some r"
    by (subst (asm) strip_fold.simps(2))
  obtain y a0 where a: "a = y # a0" using assms(2) by (cases a) auto
  have "\<exists>a1. length a1 \<le> length a0 \<and> strip_fold ''core'' (a1 @ CHR ''S'' # t) = Some r"
  proof (cases "y = CHR ''s'' \<or> y = CHR ''S''")
    case True
    then have "strip_fold ''core'' (a0 @ CHR ''S'' # t) = Some r" using s by (auto simp: a fold_variants_eval simp del: strip_fold.simps)
    then show ?thesis by blast
  next
    case False
    then have "has_prefix (a0 @ CHR ''S'' # t) [CHR 0xBF]" "strip_fold ''core'' (drop 1 (a0 @ CHR ''S'' # t)) = Some r"
      using s by (auto simp: a fold_variants_eval simp del: strip_fold.simps split: if_splits)
    then obtain a1 where "a0 = CHR 0xBF # a1" "strip_fold ''core'' (drop 1 (a0 @ CHR ''S'' # t)) = Some r" by (cases a0) auto
    then show ?thesis by (intro exI [of _ a1]) simp
  qed
  then obtain a1 where a1: "length a1 \<le> length a0" "strip_fold ''core'' (a1 @ CHR ''S'' # t) = Some r" by blast
  from strip_fold_before [OF a1(2) S_free(2)] a1(1) show ?thesis by (auto simp: a)
qed

lemma score_here_before:
  assumes "score_here (a @ CHR ''S'' # t) = Some (ds, u)" and "a \<noteq> []"
  shows "\<exists>a'. u = a' @ CHR ''S'' # t \<and> length a' < length a"
proof -
  let ?S = "CHR ''S''"
  have sp: "\<not> re_space ?S" and dg: "\<not> is_digit ?S" by code_simp+
  from assms(1) obtain r q where r: "strip_any [score_word, ''score''] (a @ ?S # t) = Some r"
    and q: "strip_any ['':'', wide_colon] (skip_space r) = Some q"
    and d: "ds = takeWhile is_digit (skip_space q)" "ds \<noteq> []" "u = drop (length ds) (skip_space q)"
    by (auto simp: score_here_def Let_def simp del: strip_any.simps split: option.splits if_splits)
  from score_word_before [OF r assms(2)] obtain a1 where a1: "r = a1 @ ?S # t" "length a1 \<le> length a" by blast
  obtain a2 where a2: "skip_space r = a2 @ ?S # t" "length a2 \<le> length a1"
    using dropWhile_before [of re_space, OF sp, of a1 t] a1(1) by blast
  obtain a3 where a3: "q = a3 @ ?S # t" "length a3 \<le> length a2"
    using strip_any_before [OF q [unfolded a2(1)] S_free(3)] by blast
  obtain a4 where a4: "skip_space q = a4 @ ?S # t" "length a4 \<le> length a3"
    using dropWhile_before [of re_space, OF sp, of a3 t] a3(1) by blast
  have ds: "ds = takeWhile is_digit a4" using d(1) a4(1) dg by (simp add: takeWhile_tail)
  then have "length ds \<le> length a4" by (simp add: length_takeWhile_le)
  then have "u = drop (length ds) a4 @ ?S # t" using d(3) a4(1) by simp
  moreover have "0 < length ds" using d(2) by simp
  then have "length a4 - length ds < length a"
    using \<open>length ds \<le> length a4\<close> a1(2) a2(2) a3(2) a4(2) by linarith
  ultimately show ?thesis by (intro exI [of _ "drop (length ds) a4"]) simp
qed

lemma score_matches_before: "\<exists>ms. score_matches (a @ CHR ''S'' # t) = ms @ score_matches (CHR ''S'' # t)"
proof (induction a rule: length_induct)
  case (1 a)
  show ?case
  proof (cases a)
    case Nil
    then show ?thesis by (intro exI [of _ "[]"]) simp
  next
    case (Cons c b)
    show ?thesis
    proof (cases "score_here (a @ CHR ''S'' # t)")
      case None
      then have "score_matches (a @ CHR ''S'' # t) = score_matches (b @ CHR ''S'' # t)"
        using Cons by (simp add: score_matches_skip)
      then show ?thesis using 1 Cons by auto
    next
      case (Some x)
      obtain ds u where x: "x = (ds, u)" by fastforce
      from score_here_before [OF Some [unfolded x]] Cons obtain a' where u: "u = a' @ CHR ''S'' # t" "length a' < length a" by auto
      with 1 obtain ms where "score_matches u = ms @ score_matches (CHR ''S'' # t)" by blast
      then show ?thesis using score_matches_here [OF Some [unfolded x]] by (intro exI [of _ "ds # ms"]) simp
    qed
  qed
qed

lemma fold_variants_core:
  "fold_variants (CHR ''c'') = [''c'', ''C'']" "fold_variants (CHR ''o'') = [''o'', ''O'']"
  "fold_variants (CHR ''r'') = [''r'', ''R'']" "fold_variants (CHR ''e'') = [''e'', ''E'']"
  by code_simp+

lemma score_line_read:
  assumes "ds \<noteq> []" and "list_all is_digit ds"
  shows "score_matches (''SCORE: '' @ ds @ nl @ rest) = ds # score_matches (nl @ rest)"
proof -
  have w: "strip_any [score_word, ''score''] (''SCORE: '' @ u) = Some ('': '' @ u)" for u
    by (simp add: score_word_def fold_variants_eval fold_variants_core)
  have c: "strip_any ['':'', wide_colon] (CHR '':'' # u) = Some u" for u
    by (simp add: fold_variants_def lower_char_def upper_char_def less_eq_char_def)
  have sp: "\<not> re_space (CHR '':'')" "re_space (CHR '' '')" by code_simp+
  have sk: "skip_space (ds @ nl @ rest) = ds @ nl @ rest"
    using assms by (intro dropWhile_here) (cases ds; simp add: re_space_digit)+
  have t: "takeWhile is_digit (ds @ nl @ rest) = ds"
  proof -
    have "takeWhile is_digit (ds @ nl @ rest) = ds @ takeWhile is_digit (nl @ rest)"
      using assms(2) by (intro takeWhile_append2) (simp add: list_all_iff)
    then show ?thesis by (simp add: is_digit_def less_eq_char_def)
  qed
  have "score_here (''SCORE: '' @ ds @ nl @ rest) = Some (ds, nl @ rest)"
    unfolding score_here_def w using assms(1) c sk t sp by (simp add: Let_def)
  from score_matches_here [OF this] show ?thesis .
qed

lemma no_score_in_verdicts:
  "score_matches nl = []" "score_matches (nl @ ''BENCHMARK_FAIL'' @ nl) = []" "score_matches (nl @ ''BENCHMARK_PASS'' @ nl) = []"
  by code_simp+

lemma contains_suffix: "body = a @ p @ q \<Longrightarrow> P (p @ q) \<Longrightarrow> list_ex P (suffixes body)"
  by (auto simp: list_ex_iff suffix_def)

lemma one_case: "lower_char c = c \<or> upper_char c = c"
  by (auto simp: lower_char_def upper_char_def less_eq_char_def)

lemma strip_fold_self: "strip_fold p (p @ u) = Some u"
proof (induction p)
  case (Cons c p)
  have "find (has_prefix ((c # p) @ u)) (fold_variants c) = Some [c]"
    using one_case [of c] by (auto simp: fold_variants_def)
  then show ?case using Cons.IH by simp
qed simp

lemma verdict_here:
  "pass_false_here (''BENCHMARK_FAIL'' @ u)" "pass_true_here (''BENCHMARK_PASS'' @ u)"
  unfolding pass_false_here_def pass_true_here_def strip_any.simps strip_fold_self by simp_all

text \<open>
  C20. What \<open>bench-output\<close> says is what \<open>measurectl run finalize\<close> records: when its markers are appended to a
  log, as the task that ends a benchmark does, a failure is read back as a failure whatever the log says, a
  success as a success unless the log itself says otherwise, and a score of digits as this score, whatever
  other scores are in the log.
\<close>

theorem markers_read_back:
  fixes log w defines "body \<equiv> log @ nl @ marker_text w"
  shows "(rw_failed w \<longrightarrow> resolve_passed body = Some False) \<and>
    (rw_passed w \<and> \<not> list_ex pass_false_here (suffixes body) \<longrightarrow> resolve_passed body = Some True) \<and>
    (rw_score w \<noteq> [] \<and> list_all is_digit (rw_score w) \<longrightarrow> resolve_score [] body = parse_int64 (rw_score w))"
proof (intro conjI impI)
  let ?v = "if rw_failed w then ''BENCHMARK_FAIL'' @ nl else if rw_passed w then ''BENCHMARK_PASS'' @ nl else []"
  let ?s = "if rw_score w \<noteq> [] then ''SCORE: '' @ rw_score w @ nl else []"
  have b: "body = (log @ nl @ ?s) @ ?v" by (simp add: body_def marker_text_def)
  have f: "list_ex pass_false_here (suffixes body)" if "rw_failed w"
    by (rule contains_suffix [of body "log @ nl @ ?s" "''BENCHMARK_FAIL''" nl pass_false_here, OF _ verdict_here(1) [of nl]]) (use that in \<open>simp add: b\<close>)
  show "resolve_passed body = Some False" if "rw_failed w" using f [OF that] by (simp add: resolve_passed_def)
  show "resolve_passed body = Some True" if p: "rw_passed w \<and> \<not> list_ex pass_false_here (suffixes body)"
  proof -
    have "\<not> rw_failed w" using f p by blast
    then have "list_ex pass_true_here (suffixes body)"
      by (intro contains_suffix [of body "log @ nl @ ?s" "''BENCHMARK_PASS''" nl pass_true_here, OF _ verdict_here(2) [of nl]]) (use p in \<open>simp add: b\<close>)
    then show ?thesis using p by (simp add: resolve_passed_def)
  qed
  show "resolve_score [] body = parse_int64 (rw_score w)" if s: "rw_score w \<noteq> [] \<and> list_all is_digit (rw_score w)"
  proof -
    have "score_matches (nl @ ?v) = []" using no_score_in_verdicts by simp
    then have m: "score_matches (''SCORE: '' @ rw_score w @ nl @ ?v) = [rw_score w]" using score_line_read s by simp
    have "body = (log @ nl) @ CHR ''S'' # ''CORE: '' @ rw_score w @ nl @ ?v" using s by (simp add: b)
    then obtain ms where "score_matches body = ms @ [rw_score w]"
      using score_matches_before [of "log @ nl" "''CORE: '' @ rw_score w @ nl @ ?v"] m by auto
    then show ?thesis by (cases ms) (simp_all add: resolve_score_def)
  qed
qed

theorem markers_read_back_witness:
  "let body = ''SCORE: 7'' @ nl @ marker_text (read_output demo_patterns (concat demo_chunks)) in
   resolve_passed body = Some False \<and> resolve_score [] body = Some 42"
proof -
  define w where "w = read_output demo_patterns (concat demo_chunks)"
  have "split_char (CHR 0x0A) (concat demo_chunks) = [''s1'', ''ng'', ''s42'', ''ok'']" by code_simp
  then have w: "rw_failed w" "rw_score w = ''42''"
    unfolding w_def read_output_def fold_line_step
    by (simp_all add: fresh_writer_def fails_def line_scores_def short_lines demo_patterns_def pattern_match_def)
  have d: "list_all is_digit ''42''" by code_simp
  have "parse_digits ''42'' = Some 42" by code_simp
  then have n: "parse_int64 ''42'' = Some 42" by (simp add: parse_int64_def)
  show ?thesis
    using markers_read_back [of w "''SCORE: 7''"] w d n unfolding w_def [symmetric] Let_def by simp
qed

end
