(* ===== verification/TrafficWindow.thy ===== *)
theory TrafficWindow
  imports MeasureQuality GoInput GoMatch
begin

text \<open>
  The window of a RUN that is analysed (tools/analysisctl/traffic_window.go): the window of the collection,
  a load phase declared by patterns, and the window found from the number of requests per second.

  An instant is a number of nanoseconds since 1970. Floating-point numbers are rationals; the share of a
  rate that ends the load is one twentieth. Parameters: what a time string and a number denote, the regular
  expressions, the JSON decoder, the local files, and what opening an access log gives.
\<close>

section \<open>Windows\<close>

record collection_window =
  cw_start :: int
  cw_end :: int

record analysis_window =
  aw_start :: int
  aw_end :: int
  aw_source :: string
  aw_status :: string
  aw_reason :: string
  aw_requests :: int
  aw_active :: int
  aw_start_threshold :: int
  aw_start_consecutive :: int
  aw_end_threshold :: int
  aw_end_consecutive :: int

abbreviation second :: int where
  "second \<equiv> 1000000000"

text \<open>\<open>Time.Unix\<close>, and the instant of a second.\<close>

abbreviation unix :: "int \<Rightarrow> int" where
  "unix t \<equiv> t div second"

abbreviation at_second :: "int \<Rightarrow> int" where
  "at_second s \<equiv> s * second"

definition start_requests :: int where
  "start_requests = 10"

definition start_consecutives :: nat where
  "start_consecutives = 2"

definition end_requests :: int where
  "end_requests = 5"

definition end_consecutives :: nat where
  "end_consecutives = 3"

definition end_boundary_seconds :: rat where
  "end_boundary_seconds = 1 / 2"

section \<open>Counting requests\<close>

type_synonym buckets = "(int, int) gomap"

abbreviation bucket :: "buckets \<Rightarrow> int \<Rightarrow> int" where
  "bucket bs s \<equiv> lookup_or 0 bs s"

definition window_request_stats :: "buckets \<Rightarrow> int \<Rightarrow> int \<Rightarrow> int \<times> int" where
  "window_request_stats bs s e =
     fold (\<lambda>(sec, count) (requests, active).
         if at_second sec < s \<or> \<not> at_second sec < e then (requests, active)
         else (requests + count, if start_requests \<le> count then active + 1 else active))
       bs (0, 0)"

definition bucket_coverage :: "collection_window \<Rightarrow> int \<Rightarrow> rat" where
  "bucket_coverage w sec = (if sec = unix (cw_end w) then of_int (cw_end w mod second) / of_int second else 1)"

text \<open>The ceiling of a twentieth of a positive rate.\<close>

definition relative_threshold :: "int \<Rightarrow> int" where
  "relative_threshold rate = (rate + 19) div 20"

definition traffic_end_threshold :: "collection_window \<Rightarrow> buckets \<Rightarrow> int" where
  "traffic_end_threshold w bs =
     (let rates = map (bucket bs)
        (filter (\<lambda>sec. bucket_coverage w sec = 1 \<and> start_requests \<le> bucket bs sec) [unix (cw_start w) .. unix (cw_end w)])
      in if rates = [] then end_requests
         else (let t = relative_threshold (sort rates ! (length rates div 2)) in if t < end_requests then end_requests else t))"

section \<open>One interval of traffic\<close>

definition last_bucket_sec :: "collection_window \<Rightarrow> int" where
  "last_bucket_sec w = (if cw_end w mod second = 0 then unix (cw_end w) - 1 else unix (cw_end w))"

definition busy_from :: "buckets \<Rightarrow> int \<Rightarrow> bool" where
  "busy_from bs sec \<longleftrightarrow> list_all (\<lambda>k. start_requests \<le> bucket bs (sec + int k)) [0..<start_consecutives]"

definition start_candidate :: "buckets \<Rightarrow> int \<Rightarrow> int \<Rightarrow> int" where
  "start_candidate bs first last_sec =
     (case find (busy_from bs) [first .. last_sec - (int start_consecutives - 1)] of None \<Rightarrow> -1 | Some sec \<Rightarrow> sec)"

text \<open>The seconds from the start on, with the first second of the current quiet run (-1 outside of one) and
  its length: an end, or the run at the end of the collection.\<close>

fun quiet_end :: "collection_window \<Rightarrow> buckets \<Rightarrow> int \<Rightarrow> int \<Rightarrow> int list \<Rightarrow> int \<Rightarrow> rat \<Rightarrow> int + int \<times> rat" where
  "quiet_end w bs threshold s [] low_start low_seconds = Inr (low_start, low_seconds)"
| "quiet_end w bs threshold s (sec # secs) low_start low_seconds =
     (let coverage = bucket_coverage w sec in
      if of_int (bucket bs sec) < of_int threshold * coverage then
        (case (if low_start < 0 then (sec, 0) else (low_start, low_seconds)) of (ls, q) \<Rightarrow>
           if int end_consecutives \<le> sec - ls + 1 \<and> s < at_second ls then Inl (at_second ls)
           else quiet_end w bs threshold s secs ls (q + coverage))
      else quiet_end w bs threshold s secs (-1) low_seconds)"

definition detect_traffic_interval ::
    "collection_window \<Rightarrow> buckets \<Rightarrow> int \<Rightarrow> int \<Rightarrow> string + int \<times> int \<times> string" where
  "detect_traffic_interval w bs earliest threshold =
     (let last_sec = last_bucket_sec w in
      if last_sec < earliest then Inl ''collection window is shorter than one second''
      else
        (let candidate = start_candidate bs earliest last_sec in
         if candidate < 0 then Inl ''request rate never reached the start threshold for two consecutive seconds''
         else
           (let s = (if at_second candidate < cw_start w then cw_start w else at_second candidate) in
            case quiet_end w bs threshold s [candidate .. last_sec] (-1) 0 of
              Inl e \<Rightarrow> Inr (s, e, ''traffic threshold window detected'')
            | Inr (low_start, low_seconds) \<Rightarrow>
                if 0 \<le> low_start \<and> end_boundary_seconds \<le> low_seconds \<and> s < at_second low_start
                then Inr (s, at_second low_start, ''traffic end detected at the collection end'')
                else if s < cw_end w
                then Inr (s, cw_end w, ''traffic start detected; collection end used because the end threshold was not observed'')
                else Inl ''detected traffic start is not before collection end'')))"

section \<open>An interval lies in the collection\<close>

lemma find_SomeD: "find P xs = Some x \<Longrightarrow> x \<in> set xs \<and> P x"
  by (induction xs) (auto split: if_splits)

lemma start_candidate_cases:
  "start_candidate bs first last_sec = -1 \<or>
   (first \<le> start_candidate bs first last_sec \<and> start_candidate bs first last_sec < last_sec \<and>
    busy_from bs (start_candidate bs first last_sec))"
  by (auto simp: start_candidate_def start_consecutives_def split: option.splits dest: find_SomeD)

lemma quiet_end_Inl:
  "quiet_end w bs threshold s secs ls q = Inl e \<Longrightarrow> ls < 0 \<or> ls \<le> m \<Longrightarrow> (\<And>sec. sec \<in> set secs \<Longrightarrow> sec \<le> m) \<Longrightarrow>
   \<exists>sec. e = at_second sec \<and> s < e \<and> sec \<le> m"
proof (induction w bs threshold s secs ls q rule: quiet_end.induct)
  case (2 w bs threshold s sec secs ls q)
  show ?case
  proof (cases "of_int (bucket bs sec) < of_int threshold * bucket_coverage w sec")
    case True
    obtain ls' q' where c: "(if ls < 0 then (sec, 0) else (ls, q)) = (ls', q')" by fastforce
    then have m: "ls' \<le> m" using 2(4,5) by (auto split: if_splits)
    show ?thesis
    proof (cases "int end_consecutives \<le> sec - ls' + 1 \<and> s < at_second ls'")
      case True': True
      then have "e = at_second ls'" using 2(3) True c by (simp add: Let_def)
      then show ?thesis using m True' by blast
    next
      case False
      then have "quiet_end w bs threshold s secs ls' (q' + bucket_coverage w sec) = Inl e"
        using 2(3) True c by (auto simp: Let_def split: if_splits)
      then show ?thesis using 2(1) [OF refl True c [symmetric] False] m 2(5) by auto
    qed
  next
    case False
    then have "quiet_end w bs threshold s secs (-1) q = Inl e" using 2(3) by (simp add: Let_def)
    then show ?thesis using 2(2) [OF refl False] 2(5) by auto
  qed
qed simp

lemma quiet_end_Inr:
  "quiet_end w bs threshold s secs ls q = Inr (ls', q') \<Longrightarrow> ls < 0 \<or> ls \<le> m \<Longrightarrow> (\<And>sec. sec \<in> set secs \<Longrightarrow> sec \<le> m) \<Longrightarrow>
   ls' < 0 \<or> ls' \<le> m"
  by (induction w bs threshold s secs ls q rule: quiet_end.induct) (fastforce simp: Let_def split: if_splits prod.splits)+

lemma last_bucket_before_end: "sec \<le> last_bucket_sec w \<Longrightarrow> at_second sec < cw_end w"
proof -
  define q r where "q = unix (cw_end w)" and "r = cw_end w mod second"
  have "cw_end w = q * second + r" "0 \<le> r" by (simp_all add: q_def r_def)
  moreover assume "sec \<le> last_bucket_sec w"
  then have "r = 0 \<and> sec \<le> q - 1 \<or> r \<noteq> 0 \<and> sec \<le> q"
    by (auto simp: last_bucket_sec_def q_def r_def split: if_splits)
  ultimately show ?thesis by linarith
qed

text \<open>What a found interval is made of.\<close>

lemma detect_interval_cases:
  assumes "detect_traffic_interval w bs earliest threshold = Inr (s, e, reason)"
  defines "c \<equiv> start_candidate bs earliest (last_bucket_sec w)"
  defines "q \<equiv> quiet_end w bs threshold s [c .. last_bucket_sec w] (-1) 0"
  shows "0 \<le> c \<and> s = max (cw_start w) (at_second c) \<and>
    (q = Inl e \<or> (\<exists>ls l. q = Inr (ls, l) \<and> 0 \<le> ls \<and> s < at_second ls \<and> e = at_second ls) \<or> s < cw_end w \<and> e = cw_end w)"
proof -
  define s' where "s' = (if at_second c < cw_start w then cw_start w else at_second c)"
  have c: "0 \<le> c" using assms(1) by (auto simp: detect_traffic_interval_def Let_def c_def split: if_splits)
  then have r: "(case quiet_end w bs threshold s' [c .. last_bucket_sec w] (-1) 0 of
      Inl e \<Rightarrow> Inr (s', e, ''traffic threshold window detected'')
    | Inr (ls, l) \<Rightarrow>
        if 0 \<le> ls \<and> end_boundary_seconds \<le> l \<and> s' < at_second ls
        then Inr (s', at_second ls, ''traffic end detected at the collection end'')
        else if s' < cw_end w
        then Inr (s', cw_end w, ''traffic start detected; collection end used because the end threshold was not observed'')
        else Inl ''detected traffic start is not before collection end'') = Inr (s, e, reason)"
    using assms(1) unfolding detect_traffic_interval_def Let_def c_def [symmetric] s'_def [symmetric] by (auto split: if_splits)
  then have "s = s'" by (auto split: sum.splits prod.splits if_splits)
  then show ?thesis using r c unfolding q_def by (auto simp: s'_def split: sum.splits prod.splits if_splits)
qed

lemma detect_interval_inside:
  assumes "detect_traffic_interval w bs earliest threshold = Inr (s, e, reason)"
  shows "s < e \<and> e \<le> cw_end w \<and> cw_start w \<le> s \<and> at_second earliest \<le> s \<and>
    (e = cw_end w \<or> (\<exists>sec. e = at_second sec))"
proof -
  define c where "c = start_candidate bs earliest (last_bucket_sec w)"
  define q where "q = quiet_end w bs threshold s [c .. last_bucket_sec w] (-1) 0"
  have c: "0 \<le> c" "s = max (cw_start w) (at_second c)"
    and r: "q = Inl e \<or> (\<exists>ls l. q = Inr (ls, l) \<and> 0 \<le> ls \<and> s < at_second ls \<and> e = at_second ls) \<or> s < cw_end w \<and> e = cw_end w"
    using detect_interval_cases [OF assms] unfolding c_def q_def by blast+
  have "earliest \<le> c" using start_candidate_cases [of bs earliest "last_bucket_sec w"] c(1) by (auto simp: c_def)
  then have s: "cw_start w \<le> s" "at_second earliest \<le> s" using c(2) by (auto simp: le_max_iff_disj)
  have m: "sec \<in> set [c .. last_bucket_sec w] \<Longrightarrow> sec \<le> last_bucket_sec w" for sec by simp
  from r show ?thesis
  proof (elim disjE exE conjE)
    assume "q = Inl e"
    then obtain sec where "e = at_second sec" "s < e" "sec \<le> last_bucket_sec w"
      using quiet_end_Inl [of w bs threshold s "[c .. last_bucket_sec w]" "-1" 0 e "last_bucket_sec w", OF _ _ m] unfolding q_def by auto
    then show ?thesis using last_bucket_before_end [of sec w] s by auto
  next
    fix ls l
    assume l: "q = Inr (ls, l)" "0 \<le> ls" "s < at_second ls" "e = at_second ls"
    then have "ls \<le> last_bucket_sec w"
      using quiet_end_Inr [of w bs threshold s "[c .. last_bucket_sec w]" "-1" 0 ls l "last_bucket_sec w", OF _ _ m] unfolding q_def by auto
    then show ?thesis using last_bucket_before_end [of ls w] s l by auto
  next
    assume "s < cw_end w" "e = cw_end w"
    then show ?thesis using s by auto
  qed
qed

lemma detect_interval_later:
  assumes "detect_traffic_interval w bs earliest threshold = Inr (s, e, reason)" and "e < cw_end w"
  shows "earliest < unix e \<and> unix e \<le> unix (cw_end w)"
proof -
  from detect_interval_inside [OF assms(1)] assms(2) obtain sec where sec: "e = at_second sec" "s < e" "at_second earliest \<le> s" by auto
  then have "earliest < sec" by auto
  moreover have "unix e \<le> unix (cw_end w)" using assms(2) by (intro zdiv_mono1) auto
  ultimately show ?thesis using sec(1) by simp
qed

section \<open>The busiest interval\<close>

text \<open>The search goes on behind the end of each interval and keeps the first of those with the most requests,
  with their number (-1 while there is none).\<close>

function detect_traffic_from ::
    "collection_window \<Rightarrow> buckets \<Rightarrow> int \<Rightarrow> int \<Rightarrow> (int \<times> int \<times> string) \<times> int \<Rightarrow> string + int \<times> int \<times> string" where
  "detect_traffic_from w bs threshold earliest best =
     (case detect_traffic_interval w bs earliest threshold of
        Inl reason \<Rightarrow> if snd best < 0 then Inl reason else Inr (fst best)
      | Inr (s, e, reason) \<Rightarrow>
          (let count = fst (window_request_stats bs s e);
               best1 = (if snd best < count then ((s, e, reason), count) else best)
           in if \<not> e < cw_end w then Inr (fst best1) else detect_traffic_from w bs threshold (unix e) best1))"
  by pat_completeness auto
termination
  by (relation "measure (\<lambda>(w, bs, threshold, earliest, best). nat (unix (cw_end w) - earliest))")
    (auto dest: detect_interval_later)

declare detect_traffic_from.simps [simp del]

definition detect_traffic_window :: "collection_window \<Rightarrow> buckets \<Rightarrow> string + int \<times> int \<times> string" where
  "detect_traffic_window w bs =
     detect_traffic_from w bs (traffic_end_threshold w bs) (unix (cw_start w)) ((zero_time, zero_time, []), -1)"

section \<open>Numbers of the access logs\<close>

record access_sample =
  ac_msec :: "json option"
  ac_response_time :: "json option"

text \<open>The largest 64-bit number, as the nearest floating-point number.\<close>

definition max_seconds :: rat where
  "max_seconds = 2 ^ 63 / 1000000000"

definition request_start :: "float_parser \<Rightarrow> access_sample \<Rightarrow> int option" where
  "request_start pf a =
     (case json_float pf (ac_msec a) of
        Some (Fin msec) \<Rightarrow>
          if msec < 0 then None
          else
            (let response = (case json_float pf (ac_response_time a) of Some (Fin r) \<Rightarrow> (if r < 0 then 0 else r) | _ \<Rightarrow> 0);
                 s = msec - response
             in if s < 0 \<or> max_seconds \<le> s then None else Some (go_round (s * 1000000000)))
      | _ \<Rightarrow> None)"

definition count_request :: "float_parser \<Rightarrow> collection_window \<Rightarrow> access_sample \<Rightarrow> buckets \<Rightarrow> buckets" where
  "count_request pf w a bs =
     (case request_start pf a of
        None \<Rightarrow> bs
      | Some t \<Rightarrow>
          if t < cw_start w \<or> \<not> t < cw_end w then bs else AList.update (unix t) (bucket bs (unix t) + 1) bs)"

record window_env =
  we_clock :: time_codec
  we_float :: float_parser
  we_files :: tree
  we_read :: reader
  we_open :: opener
  we_sample :: "string \<Rightarrow> access_sample option"
  we_manifest :: "string \<Rightarrow> (string \<times> string) option"

definition access_limit :: int where
  "access_limit = 4 * 1024 * 1024"

text \<open>\<open>scanAccessLog\<close>: the samples that are visited, and the error at the end. The line that is too long, or
  cannot be read, goes before the error of the command.\<close>

definition scan_access_log :: "window_env \<Rightarrow> string \<Rightarrow> access_sample list \<times> go_error option" where
  "scan_access_log E path =
     (case we_open E path of
        Inl e \<Rightarrow> ([], Some e)
      | Inr f \<Rightarrow>
          (List.map_filter (we_sample E) (fst (scan_lines access_limit (in_body f))),
           case scan_error access_limit f of
             Some e \<Rightarrow> Some e
           | None \<Rightarrow>
               if has_suffix path ''.zst'' then map_option (\<lambda>e. Errorf ''decompression failed'' [] [e]) (in_close_err f) else None))"

definition request_start_buckets :: "window_env \<Rightarrow> string list \<Rightarrow> collection_window \<Rightarrow> go_error + buckets" where
  "request_start_buckets E paths w =
     fold_res (\<lambda>path bs.
         case scan_access_log E path of
           (samples, err) \<Rightarrow>
             (case err of
                Some e \<Rightarrow> Inl (Errorf ''path'' [path] [e])
              | None \<Rightarrow> Inr (fold (count_request (we_float E) w) samples bs)))
       paths []"

definition access_log_files :: "window_env \<Rightarrow> string \<Rightarrow> string list" where
  "access_log_files E run_dir =
     (let found = (\<lambda>pattern. case glob_result (path_join [run_dir, ''raw'', pattern]) (we_files E) of Inl _ \<Rightarrow> [] | Inr ps \<Rightarrow> ps);
          plain = found ''access-*.log''; zstd = found ''access-*.log.zst''
      in sort (plain @ filter (\<lambda>p. trim_suffix p ''.zst'' \<notin> set plain) zstd))"

section \<open>The window of the collection\<close>

definition bench_marker :: "time_codec \<Rightarrow> string \<Rightarrow> int \<times> int \<Rightarrow> int \<times> int" where
  "bench_marker T line w =
     (let fields = str_fields line in
      if length fields < 2 then w
      else (case tc_parse T (hd fields) of
          None \<Rightarrow> w
        | Some t \<Rightarrow>
            (let message = join_with '' '' (tl fields) in
             if contains_str message ''BENCHMARK_START'' then (t, snd w)
             else if contains_str message ''BENCHMARK_END'' then (fst w, t)
             else w)))"

definition parse_bench_markers :: "time_codec \<Rightarrow> string \<Rightarrow> collection_window option" where
  "parse_bench_markers T body =
     (case fold (bench_marker T) (split_char newline_char body) (zero_time, zero_time) of
        (s, e) \<Rightarrow>
          if s = zero_time \<or> e = zero_time \<or> \<not> s < e then None else Some \<lparr>cw_start = s, cw_end = e\<rparr>)"

definition manifest_window :: "window_env \<Rightarrow> string \<Rightarrow> collection_window option" where
  "manifest_window E run_dir =
     (case we_read E (path_join [run_dir, ''run.json'']) of
        Inl _ \<Rightarrow> None
      | Inr body \<Rightarrow>
          (case we_manifest E body of
             None \<Rightarrow> None
           | Some (s, e) \<Rightarrow>
               (case (tc_parse (we_clock E) s, tc_parse (we_clock E) e) of
                  (Some a, Some b) \<Rightarrow> if a < b then Some \<lparr>cw_start = a, cw_end = b\<rparr> else None
                | _ \<Rightarrow> None)))"

definition resolve_collection_window :: "window_env \<Rightarrow> string \<Rightarrow> string + collection_window" where
  "resolve_collection_window E run_dir =
     (case (case we_read E (path_join [run_dir, ''bench.log'']) of
              Inl _ \<Rightarrow> None | Inr body \<Rightarrow> parse_bench_markers (we_clock E) body) of
        Some w \<Rightarrow> Inr w
      | None \<Rightarrow>
          (case manifest_window E run_dir of
             Some w \<Rightarrow> Inr w
           | None \<Rightarrow> Inl ''bench.log and run.json do not contain a valid collection window''))"

section \<open>A declared load phase\<close>

type_synonym matcher = "string \<Rightarrow> bool"

record load_phase =
  lp_start_pattern :: string
  lp_end_pattern :: string
  lp_start :: "matcher option"
  lp_end :: "matcher option"

definition compile_load_phase :: "(string \<Rightarrow> go_error + matcher) \<Rightarrow> load_phase \<Rightarrow> go_error option \<times> load_phase" where
  "compile_load_phase rc p =
     (if lp_start_pattern p = [] \<and> lp_end_pattern p = [] then (None, p)
      else if lp_start_pattern p = [] \<or> lp_end_pattern p = []
      then (Some (Errorf ''load_phase requires both start_pattern and end_pattern'' [] []), p)
      else
        (case rc (lp_start_pattern p) of
           Inl e \<Rightarrow> (Some (Errorf ''load_phase.start_pattern'' [] [e]), p)
         | Inr a \<Rightarrow>
             (case rc (lp_end_pattern p) of
                Inl e \<Rightarrow> (Some (Errorf ''load_phase.end_pattern'' [] [e]), p\<lparr>lp_start := Some a\<rparr>)
              | Inr b \<Rightarrow> (None, p\<lparr>lp_start := Some a, lp_end := Some b\<rparr>))))"

text \<open>The instants of the lines that match, in their order.\<close>

definition phase_times :: "time_codec \<Rightarrow> matcher \<Rightarrow> string \<Rightarrow> int list" where
  "phase_times T matches body =
     List.map_filter (\<lambda>line.
         let fields = str_fields line in
         if length fields < 2 then None
         else (case tc_parse T (hd fields) of None \<Rightarrow> None | Some t \<Rightarrow> if matches line then Some t else None))
       (split_char newline_char body)"

definition resolve_load_phase :: "window_env \<Rightarrow> load_phase \<Rightarrow> string \<Rightarrow> collection_window \<Rightarrow> collection_window option" where
  "resolve_load_phase E p run_dir w =
     (case (lp_start p, lp_end p) of
        (Some a, Some b) \<Rightarrow>
          (case we_read E (path_join [run_dir, ''bench.log'']) of
             Inl _ \<Rightarrow> None
           | Inr body \<Rightarrow>
               (case (phase_times (we_clock E) a body, phase_times (we_clock E) b body) of
                  ([s], [e]) \<Rightarrow>
                    if \<not> s < e \<or> s < cw_start w \<or> cw_end w < e then None else Some \<lparr>cw_start = s, cw_end = e\<rparr>
                | _ \<Rightarrow> None))
      | _ \<Rightarrow> None)"

section \<open>The window that is analysed\<close>

definition base_window :: "string \<Rightarrow> analysis_window" where
  "base_window reason =
     \<lparr>aw_start = zero_time, aw_end = zero_time, aw_source = ''traffic-threshold'', aw_status = ''unavailable'', aw_reason = reason,
      aw_requests = 0, aw_active = 0, aw_start_threshold = start_requests, aw_start_consecutive = int start_consecutives,
      aw_end_threshold = end_requests, aw_end_consecutive = int end_consecutives\<rparr>"

definition declared_window :: "collection_window \<Rightarrow> analysis_window" where
  "declared_window w =
     \<lparr>aw_start = cw_start w, aw_end = cw_end w, aw_source = ''bench.log-load-phase'', aw_status = ''ok'', aw_reason = [],
      aw_requests = 0, aw_active = 0, aw_start_threshold = 0, aw_start_consecutive = 0, aw_end_threshold = 0, aw_end_consecutive = 0\<rparr>"

definition fallback_window :: "analysis_window \<Rightarrow> collection_window \<Rightarrow> string \<Rightarrow> analysis_window" where
  "fallback_window base w reason =
     base\<lparr>aw_start := cw_start w, aw_end := cw_end w, aw_source := ''collection-window-fallback'', aw_status := ''ok'', aw_reason := reason\<rparr>"

definition measured_window :: "collection_window \<Rightarrow> buckets \<Rightarrow> analysis_window" where
  "measured_window w bs =
     (case detect_traffic_window w bs of
        Inl reason \<Rightarrow> fallback_window (base_window ''collection window is unavailable'') w reason
      | Inr (s, e, reason) \<Rightarrow>
          (case window_request_stats bs s e of
             (requests, active) \<Rightarrow>
               (base_window ''collection window is unavailable'')\<lparr>aw_start := s, aw_end := e, aw_status := ''ok'', aw_reason := reason,
                 aw_end_threshold := traffic_end_threshold w bs, aw_requests := requests, aw_active := active\<rparr>))"

definition phase_window :: "collection_window \<Rightarrow> buckets \<Rightarrow> analysis_window" where
  "phase_window w bs =
     (case window_request_stats bs (at_second (unix (cw_start w))) (cw_end w) of
        (requests, active) \<Rightarrow> (declared_window w)\<lparr>aw_requests := requests, aw_active := active\<rparr>)"

definition resolve_analysis_window :: "window_env \<Rightarrow> string \<Rightarrow> load_phase \<Rightarrow> analysis_window" where
  "resolve_analysis_window E run_dir phase =
     (case resolve_collection_window E run_dir of
        Inl reason \<Rightarrow> base_window reason
      | Inr w \<Rightarrow>
          (let paths = access_log_files E run_dir in
           case resolve_load_phase E phase run_dir w of
             Some d \<Rightarrow>
               if paths = [] then (declared_window d)\<lparr>aw_reason := ''load phase declared; access logs are unavailable''\<rparr>
               else (case request_start_buckets E paths d of
                   Inl e \<Rightarrow> (declared_window d)\<lparr>aw_reason := ''load phase declared; access log parsing failed: '' @ error_text e\<rparr>
                 | Inr bs \<Rightarrow> phase_window d bs)
           | None \<Rightarrow>
               (let base = base_window ''collection window is unavailable'' in
                if paths = [] then fallback_window base w ''access logs are unavailable''
                else (case request_start_buckets E paths w of
                    Inl e \<Rightarrow> fallback_window base w (''access log parsing failed: '' @ error_text e)
                  | Inr bs \<Rightarrow> measured_window w bs))))"

definition resolve_analysis_windows :: "window_env \<Rightarrow> string list \<Rightarrow> string list \<Rightarrow> load_phase \<Rightarrow> (string, analysis_window) gomap" where
  "resolve_analysis_windows E dirs run_ids phase =
     fold (\<lambda>(index, run_id) ws.
         let dir = (if index < length dirs then dirs ! index else []);
             run_dir = (if dir = [] then path_join [''runs'', run_id] else dir)
         in AList.update run_id (resolve_analysis_window E run_dir phase) ws)
       (enumerate 0 run_ids) []"

end
