(* ===== verification/TrafficWindowProperties.thy ===== *)
theory TrafficWindowProperties
  imports TrafficWindow MeasureQualityProperties GoExec
begin

text \<open>
  The properties of the window that is analysed (tools/analysisctl/traffic_window.go): it lies in the window
  of the collection, it is the busiest of the intervals that the search passes, it begins with sustained
  traffic and ends where traffic has become quiet, and the requests are counted by the second in which they
  began.
\<close>

section \<open>The interval that is chosen\<close>

text \<open>The intervals that the search passes.\<close>

function traffic_intervals :: "collection_window \<Rightarrow> buckets \<Rightarrow> int \<Rightarrow> int \<Rightarrow> (int \<times> int \<times> string) list" where
  "traffic_intervals w bs threshold earliest =
     (case detect_traffic_interval w bs earliest threshold of
        Inl reason \<Rightarrow> []
      | Inr (s, e, reason) \<Rightarrow> (s, e, reason) # (if \<not> e < cw_end w then [] else traffic_intervals w bs threshold (unix e)))"
  by pat_completeness auto
termination
  by (relation "measure (\<lambda>(w, bs, threshold, earliest). nat (unix (cw_end w) - earliest))")
    (auto dest: detect_interval_later)

declare traffic_intervals.simps [simp del]

definition requests_in :: "buckets \<Rightarrow> int \<times> int \<times> string \<Rightarrow> int" where
  "requests_in bs i = fst (window_request_stats bs (fst i) (fst (snd i)))"

definition better :: "buckets \<Rightarrow> int \<times> int \<times> string \<Rightarrow> (int \<times> int \<times> string) \<times> int \<Rightarrow> (int \<times> int \<times> string) \<times> int" where
  "better bs i best = (if snd best < requests_in bs i then (i, requests_in bs i) else best)"

definition counted :: "buckets \<Rightarrow> bool" where
  "counted bs \<longleftrightarrow> list_all (\<lambda>(sec, n). 0 \<le> n) bs"

lemma stats_fold:
  "fold (\<lambda>(sec, count) (requests, active).
      if at_second sec < s \<or> \<not> at_second sec < e then (requests, active)
      else (requests + count, if start_requests \<le> count then active + 1 else active)) bs (r, a) =
   (r + sum_list (map snd (filter (\<lambda>(sec, n). s \<le> at_second sec \<and> at_second sec < e) bs)),
    a + int (length (filter (\<lambda>(sec, n). s \<le> at_second sec \<and> at_second sec < e \<and> start_requests \<le> n) bs)))"
proof (induction bs arbitrary: r a)
  case (Cons x bs)
  obtain sec n where x: "x = (sec, n)" by fastforce
  show ?case
    by (cases "at_second sec < s \<or> \<not> at_second sec < e") (auto simp: x Cons.IH)
qed simp

lemma window_request_stats_sum:
  "window_request_stats bs s e =
   (sum_list (map snd (filter (\<lambda>(sec, n). s \<le> at_second sec \<and> at_second sec < e) bs)),
    int (length (filter (\<lambda>(sec, n). s \<le> at_second sec \<and> at_second sec < e \<and> start_requests \<le> n) bs)))"
  by (simp add: window_request_stats_def stats_fold)

lemma requests_in_nonneg: "counted bs \<Longrightarrow> 0 \<le> requests_in bs i"
  by (fastforce simp: requests_in_def window_request_stats_sum counted_def list_all_iff intro!: sum_list_nonneg)

lemma detect_traffic_from_intervals:
  assumes "counted bs"
  shows "detect_traffic_from w bs threshold earliest best =
    (case traffic_intervals w bs threshold earliest of
       [] \<Rightarrow>
         (case detect_traffic_interval w bs earliest threshold of
            Inl reason \<Rightarrow> if snd best < 0 then Inl reason else Inr (fst best) | Inr i \<Rightarrow> Inr i)
     | i # is \<Rightarrow> Inr (fst (fold (better bs) (i # is) best)))"
  using assms
proof (induction w bs threshold earliest best rule: detect_traffic_from.induct)
  case (1 w bs threshold earliest best)
  show ?case
  proof (cases "detect_traffic_interval w bs earliest threshold")
    case (Inl reason)
    have "traffic_intervals w bs threshold earliest = []" by (subst traffic_intervals.simps) (simp add: Inl)
    moreover have "detect_traffic_from w bs threshold earliest best = (if snd best < 0 then Inl reason else Inr (fst best))"
      by (subst detect_traffic_from.simps) (simp add: Inl)
    ultimately show ?thesis using Inl by simp
  next
    case (Inr i)
    obtain s e reason where i: "i = (s, e, reason)" by (metis prod_cases3)
    define best1 where "best1 = better bs i best"
    have b: "(if snd best < fst (window_request_stats bs s e) then ((s, e, reason), fst (window_request_stats bs s e)) else best) = best1"
      by (simp add: better_def requests_in_def i best1_def)
    have pos: "0 \<le> snd best1" using requests_in_nonneg [OF "1.prems", of i] by (auto simp: best1_def better_def)
    show ?thesis
    proof (cases "e < cw_end w")
      case False
      have "traffic_intervals w bs threshold earliest = [i]" by (subst traffic_intervals.simps) (simp add: Inr i False)
      moreover have "detect_traffic_from w bs threshold earliest best = Inr (fst best1)"
        by (subst detect_traffic_from.simps) (simp add: Inr i False Let_def b)
      ultimately show ?thesis by (simp add: best1_def)
    next
      case True
      have t: "traffic_intervals w bs threshold earliest = i # traffic_intervals w bs threshold (unix e)"
        by (subst traffic_intervals.simps) (simp add: Inr i True)
      have d: "detect_traffic_from w bs threshold earliest best = detect_traffic_from w bs threshold (unix e) best1"
        by (subst detect_traffic_from.simps) (simp add: Inr i True Let_def b)
      have ih: "detect_traffic_from w bs threshold (unix e) best1 =
        (case traffic_intervals w bs threshold (unix e) of
           [] \<Rightarrow>
             (case detect_traffic_interval w bs (unix e) threshold of
                Inl reason \<Rightarrow> if snd best1 < 0 then Inl reason else Inr (fst best1) | Inr i \<Rightarrow> Inr i)
         | i # is \<Rightarrow> Inr (fst (fold (better bs) (i # is) best1)))"
        using "1.IH" [OF Inr i [symmetric] refl refl b [symmetric] _ "1.prems"] True by simp
      have none: "traffic_intervals w bs threshold (unix e) = [] \<Longrightarrow> \<exists>r. detect_traffic_interval w bs (unix e) threshold = Inl r"
        by (subst (asm) traffic_intervals.simps) (auto split: sum.splits)
      show ?thesis
        using ih none pos by (cases "traffic_intervals w bs threshold (unix e)") (auto simp: t d best1_def)
    qed
  qed
qed

lemma fold_better:
  "let r = fold (better bs) is best in
   snd best \<le> snd r \<and> (\<forall>j \<in> set is. requests_in bs j \<le> snd r) \<and> (r = best \<or> fst r \<in> set is \<and> snd r = requests_in bs (fst r))"
proof (induction "is" arbitrary: best)
  case (Cons i "is")
  have "snd best \<le> snd (better bs i best) \<and> requests_in bs i \<le> snd (better bs i best) \<and>
    (better bs i best = best \<or> better bs i best = (i, requests_in bs i))"
    by (simp add: better_def)
  then show ?case using Cons.IH [of "better bs i best"] by (auto simp: Let_def)
qed simp

lemma traffic_intervals_cases:
  assumes "i \<in> set (traffic_intervals w bs threshold earliest)"
  obtains s e reason where "detect_traffic_interval w bs earliest threshold = Inr (s, e, reason)"
    and "i = (s, e, reason) \<or> e < cw_end w \<and> i \<in> set (traffic_intervals w bs threshold (unix e))"
proof (cases "detect_traffic_interval w bs earliest threshold")
  case (Inl reason)
  then have "traffic_intervals w bs threshold earliest = []" by (subst traffic_intervals.simps) simp
  then show ?thesis using assms by simp
next
  case (Inr x)
  obtain s e reason where x: "x = (s, e, reason)" by (metis prod_cases3)
  then have "traffic_intervals w bs threshold earliest =
      (s, e, reason) # (if \<not> e < cw_end w then [] else traffic_intervals w bs threshold (unix e))"
    by (subst traffic_intervals.simps) (simp add: Inr)
  then show ?thesis using assms that [OF Inr [unfolded x]] by (auto split: if_splits)
qed

text \<open>The intervals follow each other, each behind the end of the one before.\<close>

lemma traffic_intervals_inside:
  "i \<in> set (traffic_intervals w bs threshold earliest) \<Longrightarrow>
   fst i < fst (snd i) \<and> fst (snd i) \<le> cw_end w \<and> cw_start w \<le> fst i \<and> at_second earliest \<le> fst i"
proof (induction w bs threshold earliest rule: traffic_intervals.induct)
  case (1 w bs threshold earliest)
  from "1.prems" obtain s e reason where d: "detect_traffic_interval w bs earliest threshold = Inr (s, e, reason)"
    and m: "i = (s, e, reason) \<or> e < cw_end w \<and> i \<in> set (traffic_intervals w bs threshold (unix e))"
    by (rule traffic_intervals_cases)
  note in1 = detect_interval_inside [OF d]
  from m show ?case
  proof
    assume "i = (s, e, reason)"
    then show ?thesis using in1 by simp
  next
    assume r: "e < cw_end w \<and> i \<in> set (traffic_intervals w bs threshold (unix e))"
    then have "at_second earliest \<le> at_second (unix e)" using detect_interval_later [OF d] by simp
    then show ?thesis using "1.IH" [OF d refl refl] r by auto
  qed
qed

section \<open>Sustained traffic\<close>

definition quiet :: "collection_window \<Rightarrow> buckets \<Rightarrow> int \<Rightarrow> int \<Rightarrow> bool" where
  "quiet w bs threshold sec \<longleftrightarrow> of_int (bucket bs sec) < of_int threshold * bucket_coverage w sec"

lemma quiet_end_quiet:
  "quiet_end w bs threshold s secs ls q = Inl e \<Longrightarrow> ls < 0 \<or> quiet w bs threshold ls \<Longrightarrow> quiet w bs threshold (unix e)"
proof (induction w bs threshold s secs ls q rule: quiet_end.induct)
  case (2 w bs threshold s sec secs ls q)
  show ?case
  proof (cases "of_int (bucket bs sec) < of_int threshold * bucket_coverage w sec")
    case True
    obtain ls' q' where c: "(if ls < 0 then (sec, 0) else (ls, q)) = (ls', q')" by fastforce
    then have l: "ls' < 0 \<or> quiet w bs threshold ls'" "quiet w bs threshold ls'"
      using 2(4) True by (auto simp: quiet_def split: if_splits)
    show ?thesis
    proof (cases "int end_consecutives \<le> sec - ls' + 1 \<and> s < at_second ls'")
      case True': True
      then have "e = at_second ls'" using 2(3) True c by (simp add: Let_def)
      then show ?thesis using l by simp
    next
      case False
      then have "quiet_end w bs threshold s secs ls' (q' + bucket_coverage w sec) = Inl e"
        using 2(3) True c by (auto simp: Let_def split: if_splits)
      then show ?thesis using 2(1) [OF refl True c [symmetric] False] l(1) by auto
    qed
  next
    case False
    then have "quiet_end w bs threshold s secs (-1) q = Inl e" using 2(3) by (simp add: Let_def)
    then show ?thesis using 2(2) [OF refl False] by auto
  qed
qed simp

lemma quiet_end_Inr_quiet:
  "quiet_end w bs threshold s secs ls q = Inr (ls', q') \<Longrightarrow> ls < 0 \<or> quiet w bs threshold ls \<Longrightarrow> ls' < 0 \<or> quiet w bs threshold ls'"
  by (induction w bs threshold s secs ls q rule: quiet_end.induct) (fastforce simp: Let_def quiet_def split: if_splits prod.splits)+

lemma detect_interval_sustained:
  assumes "detect_traffic_interval w bs earliest threshold = Inr (s, e, reason)" and "unix (cw_start w) \<le> earliest"
  shows "busy_from bs (unix s) \<and> (e = cw_end w \<or> quiet w bs threshold (unix e))"
proof -
  define c where "c = start_candidate bs earliest (last_bucket_sec w)"
  define q where "q = quiet_end w bs threshold s [c .. last_bucket_sec w] (-1) 0"
  have c: "0 \<le> c" "s = max (cw_start w) (at_second c)"
    and r: "q = Inl e \<or> (\<exists>ls l. q = Inr (ls, l) \<and> 0 \<le> ls \<and> s < at_second ls \<and> e = at_second ls) \<or> s < cw_end w \<and> e = cw_end w"
    using detect_interval_cases [OF assms(1)] unfolding c_def q_def by blast+
  have b: "earliest \<le> c" "busy_from bs c"
    using start_candidate_cases [of bs earliest "last_bucket_sec w"] c(1) by (auto simp: c_def)
  have "unix s = c"
  proof (cases "cw_start w \<le> at_second c")
    case True
    then show ?thesis using c(2) by simp
  next
    case False
    then have "c \<le> unix (cw_start w)" using zdiv_mono1 [of "at_second c" "cw_start w" second] by simp
    then show ?thesis using False c(2) b(1) assms(2) by simp
  qed
  moreover have "e = cw_end w \<or> quiet w bs threshold (unix e)"
    using r quiet_end_quiet [of w bs threshold s "[c .. last_bucket_sec w]" "-1" 0 e]
      quiet_end_Inr_quiet [of w bs threshold s "[c .. last_bucket_sec w]" "-1" 0] unfolding q_def by auto
  ultimately show ?thesis using b(2) by simp
qed

lemma traffic_intervals_sustained:
  "i \<in> set (traffic_intervals w bs threshold earliest) \<Longrightarrow> unix (cw_start w) \<le> earliest \<Longrightarrow>
   busy_from bs (unix (fst i)) \<and> (fst (snd i) = cw_end w \<or> quiet w bs threshold (unix (fst (snd i))))"
proof (induction w bs threshold earliest rule: traffic_intervals.induct)
  case (1 w bs threshold earliest)
  from "1.prems"(1) obtain s e reason where d: "detect_traffic_interval w bs earliest threshold = Inr (s, e, reason)"
    and m: "i = (s, e, reason) \<or> e < cw_end w \<and> i \<in> set (traffic_intervals w bs threshold (unix e))"
    by (rule traffic_intervals_cases)
  from m show ?case
  proof
    assume "i = (s, e, reason)"
    then show ?thesis using detect_interval_sustained [OF d "1.prems"(2)] by simp
  next
    assume r: "e < cw_end w \<and> i \<in> set (traffic_intervals w bs threshold (unix e))"
    then have "unix (cw_start w) \<le> unix e" using detect_interval_later [OF d] "1.prems"(2) by simp
    then show ?thesis using "1.IH" [OF d refl refl] r by auto
  qed
qed

lemma detect_window_facts:
  assumes "counted bs"
  shows "(case detect_traffic_window w bs of
       Inl reason \<Rightarrow> traffic_intervals w bs (traffic_end_threshold w bs) (unix (cw_start w)) = [] \<and> reason \<noteq> []
     | Inr (s, e, reason) \<Rightarrow>
         cw_start w \<le> s \<and> s < e \<and> e \<le> cw_end w \<and> busy_from bs (unix s) \<and>
         (e = cw_end w \<or> quiet w bs (traffic_end_threshold w bs) (unix e)) \<and>
         list_all (\<lambda>i. requests_in bs i \<le> fst (window_request_stats bs s e))
           (traffic_intervals w bs (traffic_end_threshold w bs) (unix (cw_start w))))"
proof -
  define threshold where "threshold = traffic_end_threshold w bs"
  define ivs where "ivs = traffic_intervals w bs threshold (unix (cw_start w))"
  note d = detect_traffic_from_intervals [OF assms, of w threshold "unix (cw_start w)" "((zero_time, zero_time, []), -1)",
    folded detect_traffic_window_def [of w bs, folded threshold_def] ivs_def]
  show ?thesis
  proof (cases ivs)
    case Nil
    then obtain reason where r: "detect_traffic_interval w bs (unix (cw_start w)) threshold = Inl reason"
      unfolding ivs_def by (cases "detect_traffic_interval w bs (unix (cw_start w)) threshold")
        (auto simp: traffic_intervals.simps [of w bs threshold "unix (cw_start w)"])
    then have "reason \<noteq> []"
      by (auto simp: detect_traffic_interval_def Let_def split: if_splits sum.splits prod.splits)
    then show ?thesis using d Nil r unfolding ivs_def threshold_def by simp
  next
    case (Cons i rest)
    define r where "r = fold (better bs) ivs ((zero_time, zero_time, []), -1)"
    obtain s e reason where se: "fst r = (s, e, reason)" by (metis prod_cases3)
    have D: "detect_traffic_window w bs = Inr (s, e, reason)" using d se Cons unfolding r_def by simp
    have m: "list_all (\<lambda>j. requests_in bs j \<le> snd r) ivs" "r = ((zero_time, zero_time, []), -1) \<or> fst r \<in> set ivs \<and> snd r = requests_in bs (fst r)"
      using fold_better [of bs ivs "((zero_time, zero_time, []), -1)"] unfolding r_def [symmetric] Let_def list_all_iff by blast+
    have "0 \<le> snd r" using m(1) requests_in_nonneg [OF assms, of i] Cons by (auto simp: list_all_iff)
    then have f: "fst r \<in> set ivs" "snd r = requests_in bs (fst r)" using m(2) by auto
    from traffic_intervals_inside [OF f(1) [unfolded ivs_def]] traffic_intervals_sustained [OF f(1) [unfolded ivs_def]]
    have "cw_start w \<le> s \<and> s < e \<and> e \<le> cw_end w \<and> busy_from bs (unix s) \<and> (e = cw_end w \<or> quiet w bs threshold (unix e))"
      by (simp add: se)
    moreover have "snd r = fst (window_request_stats bs s e)" using f(2) by (simp add: se requests_in_def)
    ultimately show ?thesis using D m(1) unfolding ivs_def threshold_def by simp
  qed
qed

text \<open>
  C21. The window that is found lies in the collection, begins with two consecutive seconds of sustained
  traffic, and ends where traffic has fallen below the threshold or with the collection; of all intervals
  that the search passes none has more requests; and the search says why when it finds none.
\<close>

theorem busiest_window:
  assumes "counted bs"
  shows "(case detect_traffic_window w bs of
       Inl reason \<Rightarrow> traffic_intervals w bs (traffic_end_threshold w bs) (unix (cw_start w)) = [] \<and> reason \<noteq> []
     | Inr (s, e, reason) \<Rightarrow>
         cw_start w \<le> s \<and> s < e \<and> e \<le> cw_end w \<and> busy_from bs (unix s) \<and>
         (e = cw_end w \<or> quiet w bs (traffic_end_threshold w bs) (unix e)) \<and>
         list_all (\<lambda>i. requests_in bs i \<le> fst (window_request_stats bs s e))
           (traffic_intervals w bs (traffic_end_threshold w bs) (unix (cw_start w))))"
  using assms by (rule detect_window_facts)

definition demo_window :: collection_window where
  "demo_window = \<lparr>cw_start = 500000000, cw_end = 14500000000\<rparr>"

definition demo_buckets :: buckets where
  "demo_buckets = [(1, 20), (2, 30), (7, 50), (8, 60), (9, 70), (3, 1), (10, 2)]"

theorem busiest_window_witness:
  "case detect_traffic_window demo_window demo_buckets of
     Inl _ \<Rightarrow> False | Inr (s, e, _) \<Rightarrow> s = 7000000000 \<and> e = 10000000000 \<and> busy_from demo_buckets (unix s)"
proof -
  have c: "counted demo_buckets" by code_simp
  have "case detect_traffic_window demo_window demo_buckets of Inl _ \<Rightarrow> False | Inr (s, e, _) \<Rightarrow> s = 7000000000 \<and> e = 10000000000"
    by code_simp
  then show ?thesis using busiest_window [OF c, of demo_window] by (auto split: sum.splits prod.splits)
qed

section \<open>Counting the requests\<close>

definition in_collection :: "collection_window \<Rightarrow> int \<Rightarrow> bool" where
  "in_collection w t \<longleftrightarrow> cw_start w \<le> t \<and> t < cw_end w"

definition request_starts :: "window_env \<Rightarrow> collection_window \<Rightarrow> string list \<Rightarrow> int list" where
  "request_starts E w paths =
     filter (in_collection w) (concat (map (\<lambda>p. List.map_filter (request_start (we_float E)) (fst (scan_access_log E p))) paths))"

definition counts :: "int list \<Rightarrow> buckets \<Rightarrow> bool" where
  "counts ts bs \<longleftrightarrow> distinct (keys bs) \<and> (\<forall>sec. bucket bs sec = int (length (filter (\<lambda>t. unix t = sec) ts)))"

lemma count_request_counts:
  "counts ts bs \<Longrightarrow>
   counts (ts @ (case request_start pf a of None \<Rightarrow> [] | Some t \<Rightarrow> if in_collection w t then [t] else [])) (count_request pf w a bs)"
  by (auto simp: count_request_def counts_def in_collection_def lookup_or_def update_conv' distinct_update split: option.splits)

lemma count_requests_counts:
  "counts ts bs \<Longrightarrow>
   counts (ts @ filter (in_collection w) (List.map_filter (request_start pf) as)) (fold (count_request pf w) as bs)"
proof (induction as arbitrary: ts bs)
  case (Cons a as)
  from Cons.IH [OF count_request_counts [OF Cons.prems, of w pf a]] show ?case
    by (auto simp: List.map_filter_simps split: option.splits if_splits)
qed (simp add: List.map_filter_simps)

lemma buckets_counts:
  "fold_res (\<lambda>path bs.
       case scan_access_log E path of
         (samples, err) \<Rightarrow>
           (case err of
              Some e \<Rightarrow> Inl (Errorf ''path'' [path] [e])
            | None \<Rightarrow> Inr (fold (count_request (we_float E) w) samples bs))) paths bs0 = Inr bs \<Longrightarrow>
   counts ts bs0 \<Longrightarrow> counts (ts @ request_starts E w paths) bs \<and> list_all (\<lambda>p. snd (scan_access_log E p) = None) paths"
proof (induction paths arbitrary: ts bs0)
  case (Cons p paths)
  from Cons.prems(1) obtain samples where p: "scan_access_log E p = (samples, None)"
    and r: "fold_res (\<lambda>path bs.
       case scan_access_log E path of
         (samples, err) \<Rightarrow>
           (case err of
              Some e \<Rightarrow> Inl (Errorf ''path'' [path] [e])
            | None \<Rightarrow> Inr (fold (count_request (we_float E) w) samples bs))) paths (fold (count_request (we_float E) w) samples bs0) = Inr bs"
    by (auto split: prod.splits option.splits)
  from Cons.IH [OF r count_requests_counts [OF Cons.prems(2)]] p show ?case by (simp add: request_starts_def)
qed (simp add: request_starts_def)

lemma request_bucket_counts:
  assumes "request_start_buckets E paths w = Inr bs"
  shows "distinct (keys bs) \<and> list_all (\<lambda>p. snd (scan_access_log E p) = None) paths \<and>
    bucket bs sec = int (length (filter (\<lambda>t. unix t = sec) (request_starts E w paths)))"
proof -
  have "counts [] []" by (simp add: counts_def)
  from buckets_counts [OF assms [unfolded request_start_buckets_def] this] show ?thesis by (simp add: counts_def)
qed

text \<open>
  The requests are counted by the second in which they began: when the access logs could all be read,
  every second has exactly the number of requests that began in it within the window, from whichever log
  and in whatever order; a log that cannot be read to its end is never counted in part.
\<close>

theorem requests_counted:
  assumes "request_start_buckets E paths w = Inr bs"
  shows "distinct (keys bs) \<and> list_all (\<lambda>p. snd (scan_access_log E p) = None) paths \<and>
    bucket bs sec = int (length (filter (\<lambda>t. unix t = sec) (request_starts E w paths)))"
  using assms by (rule request_bucket_counts)

definition demo_float :: float_parser where
  "demo_float s = map_option (\<lambda>n. Fin (of_nat n)) (parse_digits s)"

text \<open>A log with one request per line, its end in seconds.\<close>

definition demo_logs :: window_env where
  "demo_logs =
     \<lparr>we_clock = demo_clock, we_float = demo_float, we_files = [], we_read = (\<lambda>_. Inl (Errorf ''no'' [] [])),
      we_open = (\<lambda>p. Inr \<lparr>in_body = ''3'' @ nl @ ''5'' @ nl @ ''3'' @ nl, in_read_err = None, in_close_err = None\<rparr>),
      we_sample = (\<lambda>l. Some \<lparr>ac_msec = Some (JNum l), ac_response_time = None\<rparr>), we_manifest = (\<lambda>_. None)\<rparr>"

theorem requests_counted_witness:
  "case request_start_buckets demo_logs [''a'', ''b''] demo_window of
     Inl _ \<Rightarrow> False | Inr bs \<Rightarrow> bucket bs 3 = 4 \<and> bucket bs 5 = 2 \<and> distinct (keys bs)"
proof -
  have "scan_lines access_limit (''3'' @ nl @ ''5'' @ nl @ ''3'' @ nl) = ([''3'', ''5'', ''3''], False)"
  proof -
    have "split_char newline_char (''3'' @ nl @ ''5'' @ nl @ ''3'' @ nl) = [''3'', ''5'', ''3'', []]" by code_simp
    moreover have "trim_suffix ''3'' [CHR 0x0D] = ''3''" "trim_suffix ''5'' [CHR 0x0D] = ''5''" by code_simp+
    ultimately show ?thesis by (simp add: scan_lines_def access_limit_def)
  qed
  then have s: "scan_access_log demo_logs p =
      (map (\<lambda>l. \<lparr>ac_msec = Some (JNum l), ac_response_time = None\<rparr>) [''3'', ''5'', ''3''], None)" for p
    by (simp add: scan_access_log_def scan_error_def demo_logs_def List.map_filter_simps)
  have f: "json_float demo_float (Some (JNum ''3'')) = Some (Fin 3)" "json_float demo_float (Some (JNum ''5'')) = Some (Fin 5)"
    "json_float demo_float None = None"
  proof -
    have "parse_digits ''3'' = Some 3" "parse_digits ''5'' = Some 5" by code_simp+
    then show "json_float demo_float (Some (JNum ''3'')) = Some (Fin 3)" "json_float demo_float (Some (JNum ''5'')) = Some (Fin 5)"
      "json_float demo_float None = None" by (simp_all add: json_float_def demo_float_def)
  qed
  have l: "we_float demo_logs = demo_float" by (simp add: demo_logs_def)
  have r3: "go_round 3000000000 = 3000000000" and r5: "go_round 5000000000 = 5000000000"
    using go_round_of_int [of 3000000000] go_round_of_int [of 5000000000] by simp_all
  have t: "request_start demo_float \<lparr>ac_msec = Some (JNum ''3''), ac_response_time = None\<rparr> = Some 3000000000"
    "request_start demo_float \<lparr>ac_msec = Some (JNum ''5''), ac_response_time = None\<rparr> = Some 5000000000"
    by (simp_all add: request_start_def f max_seconds_def r3 r5)
  have starts: "request_starts demo_logs demo_window [''a'', ''b''] = [3000000000, 5000000000, 3000000000, 3000000000, 5000000000, 3000000000]"
    by (simp add: request_starts_def s l t List.map_filter_simps in_collection_def demo_window_def)
  obtain bs where r: "request_start_buckets demo_logs [''a'', ''b''] demo_window = Inr bs"
    by (simp add: request_start_buckets_def s)
  show ?thesis using requests_counted [OF r, of 3] requests_counted [OF r, of 5] by (simp add: r starts)
qed

section \<open>The window of a RUN\<close>

lemma collection_ordered: "resolve_collection_window E run_dir = Inr w \<Longrightarrow> cw_start w < cw_end w"
  by (auto simp: resolve_collection_window_def manifest_window_def parse_bench_markers_def
      split: option.splits sum.splits prod.splits if_splits)

lemma load_phase_inside:
  "resolve_load_phase E p run_dir w = Some d \<Longrightarrow> cw_start w \<le> cw_start d \<and> cw_start d < cw_end d \<and> cw_end d \<le> cw_end w"
  by (auto simp: resolve_load_phase_def split: option.splits sum.splits list.splits if_splits)

lemma buckets_counted: "request_start_buckets E paths w = Inr bs \<Longrightarrow> counted bs"
proof -
  assume r: "request_start_buckets E paths w = Inr bs"
  have "0 \<le> n" if m: "(sec, n) \<in> set bs" for sec n
  proof -
    have "map_of bs sec = Some n" using request_bucket_counts [OF r, of sec] m by (intro map_of_is_SomeI) auto
    then have "n = bucket bs sec" by (simp add: lookup_or_def)
    then show ?thesis using request_bucket_counts [OF r, of sec] by simp
  qed
  then show ?thesis by (auto simp: counted_def list_all_iff)
qed

lemma active_bound: "counted bs \<Longrightarrow> start_requests * snd (window_request_stats bs s e) \<le> fst (window_request_stats bs s e)"
proof (induction bs)
  case (Cons x bs)
  obtain sec n where x: "x = (sec, n)" by fastforce
  from Cons.prems have n: "0 \<le> n" "counted bs" by (auto simp: counted_def x)
  from Cons.IH [OF n(2)] n(1) show ?case by (auto simp: x window_request_stats_sum start_requests_def algebra_simps)
qed (simp add: window_request_stats_sum)

definition window_fits :: "collection_window \<Rightarrow> analysis_window \<Rightarrow> bool" where
  "window_fits w a \<longleftrightarrow>
     aw_status a = ''ok'' \<and> cw_start w \<le> aw_start a \<and> aw_start a < aw_end a \<and> aw_end a \<le> cw_end w \<and>
     start_requests * aw_active a \<le> aw_requests a"

lemma fallback_fits: "cw_start w < cw_end w \<Longrightarrow> window_fits w (fallback_window (base_window r) w reason)"
  by (simp add: window_fits_def fallback_window_def base_window_def)

lemma measured_fits:
  assumes "counted bs" and "cw_start w < cw_end w"
  shows "window_fits w (measured_window w bs)"
proof (cases "detect_traffic_window w bs")
  case (Inl reason)
  then show ?thesis using fallback_fits [OF assms(2)] by (simp add: measured_window_def)
next
  case (Inr x)
  obtain s e reason where x: "x = (s, e, reason)" by (metis prod_cases3)
  from detect_window_facts [OF assms(1), of w] have "cw_start w \<le> s \<and> s < e \<and> e \<le> cw_end w" by (simp add: Inr x)
  then show ?thesis using active_bound [OF assms(1), of s e]
    by (cases "window_request_stats bs s e") (simp add: measured_window_def Inr x window_fits_def base_window_def)
qed

lemma phase_fits: "counted bs \<Longrightarrow> cw_start d < cw_end d \<Longrightarrow> window_fits d (phase_window d bs)"
  using active_bound [of bs "at_second (unix (cw_start d))" "cw_end d"]
  by (cases "window_request_stats bs (at_second (unix (cw_start d))) (cw_end d)")
    (simp add: phase_window_def window_fits_def declared_window_def)

lemma declared_fits: "cw_start d < cw_end d \<Longrightarrow> window_fits d ((declared_window d)\<lparr>aw_reason := reason\<rparr>)"
  by (simp add: window_fits_def declared_window_def)

lemma window_fits_mono: "window_fits d a \<Longrightarrow> cw_start w \<le> cw_start d \<Longrightarrow> cw_end d \<le> cw_end w \<Longrightarrow> window_fits w a"
  by (auto simp: window_fits_def)

text \<open>
  C22. A RUN whose collection has a window always gets a window for its analysis, inside of it and not empty,
  whatever is missing or broken among its access logs and load phase; a second counts as active only with
  its share of the requests. Without a window of the collection there is none, and the reason is kept.
\<close>

theorem analysis_window_fits:
  "case resolve_collection_window E run_dir of
     Inl reason \<Rightarrow> aw_status (resolve_analysis_window E run_dir p) = ''unavailable'' \<and> aw_reason (resolve_analysis_window E run_dir p) = reason
   | Inr w \<Rightarrow> window_fits w (resolve_analysis_window E run_dir p)"
proof (cases "resolve_collection_window E run_dir")
  case (Inl reason)
  then show ?thesis by (simp add: resolve_analysis_window_def base_window_def)
next
  case (Inr w)
  note w = collection_ordered [OF Inr]
  have "window_fits w (resolve_analysis_window E run_dir p)"
  proof (cases "resolve_load_phase E p run_dir w")
    case None
    then show ?thesis
      using fallback_fits [OF w] measured_fits [OF buckets_counted w]
      by (auto simp: resolve_analysis_window_def Inr Let_def split: sum.splits)
  next
    case (Some d)
    note d = load_phase_inside [OF Some]
    have "window_fits d (resolve_analysis_window E run_dir p)"
      using declared_fits phase_fits buckets_counted d by (auto simp: resolve_analysis_window_def Inr Some Let_def split: sum.splits)
    then show ?thesis using d window_fits_mono by blast
  qed
  then show ?thesis by (simp add: Inr)
qed

end
