(* ===== verification/GoGroup.thy ===== *)
theory GoGroup
  imports GoPrelude
begin

text \<open>
  Grouping in a map: a loop that looks up the group of an item, makes an empty one where there is none, and
  adds the item to it. The group of a key then holds the items of the key in their order, whatever else the
  loop saw, and the groups depend on the order of the items only as far as adding them does.
\<close>

definition put_group :: "('c \<Rightarrow> 'v \<Rightarrow> 'v) \<Rightarrow> 'v \<Rightarrow> 'k \<times> 'c \<Rightarrow> ('k, 'v) gomap \<Rightarrow> ('k, 'v) gomap" where
  "put_group f d x m = AList.update (fst x) (f (snd x) (lookup_or d m (fst x))) m"

definition group_all :: "('c \<Rightarrow> 'v \<Rightarrow> 'v) \<Rightarrow> 'v \<Rightarrow> ('k \<times> 'c) list \<Rightarrow> ('k, 'v) gomap" where
  "group_all f d xs = fold (put_group f d) xs []"

text \<open>The items of a key.\<close>

definition items_of :: "'k \<Rightarrow> ('k \<times> 'c) list \<Rightarrow> 'c list" where
  "items_of k xs = map snd (filter (\<lambda>x. fst x = k) xs)"

lemma items_of_Nil [simp]: "items_of k [] = []"
  by (simp add: items_of_def)

lemma items_of_append [simp]: "items_of k (xs @ ys) = items_of k xs @ items_of k ys"
  by (simp add: items_of_def)

lemma items_of_Cons: "items_of k (x # xs) = (if fst x = k then [snd x] else []) @ items_of k xs"
  by (simp add: items_of_def)

lemma items_of_empty_iff: "items_of k xs = [] \<longleftrightarrow> k \<notin> fst ` set xs"
  by (auto simp: items_of_def filter_empty_conv)

lemma items_of_mset: "mset xs = mset ys \<Longrightarrow> mset (items_of k xs) = mset (items_of k ys)"
  by (simp add: items_of_def)

lemma group_all_snoc: "group_all f d (xs @ [x]) = put_group f d x (group_all f d xs)"
  by (simp add: group_all_def)

lemma map_of_group:
  "map_of (group_all f d xs) k = (if items_of k xs = [] then None else Some (fold f (items_of k xs) d))"
proof (induction xs rule: rev_induct)
  case (snoc x xs)
  have "lookup_or d (group_all f d xs) k = fold f (items_of k xs) d"
    using snoc by (simp add: lookup_or_def)
  then show ?case
    using snoc by (auto simp: group_all_snoc put_group_def AList.update_conv' items_of_Cons)
qed (simp add: group_all_def)

lemma group_lookup: "lookup_or d (group_all f d xs) k = fold f (items_of k xs) d"
  by (simp add: lookup_or_def map_of_group)

lemma group_keys: "set (keys (group_all f d xs)) = fst ` set xs"
proof (rule set_eqI)
  fix k
  have "k \<in> set (keys (group_all f d xs)) \<longleftrightarrow> items_of k xs \<noteq> []"
    using map_of_group [of f d xs k] by (metis in_keys_map_of map_of_Some_in_keys not_Some_eq)
  then show "k \<in> set (keys (group_all f d xs)) \<longleftrightarrow> k \<in> fst ` set xs" by (simp add: items_of_empty_iff)
qed

lemma group_distinct: "distinct (keys (group_all f d xs))"
  by (induction xs rule: rev_induct) (simp_all add: group_all_def put_group_def distinct_update)

text \<open>The pairs of a map without duplicate keys are its keys with what they map to.\<close>

lemma gomap_pairs: "distinct (keys m) \<Longrightarrow> m = map (\<lambda>k. (k, lookup_or d m k)) (keys m)"
proof (induction m)
  case (Cons x m)
  have "lookup_or d (x # m) k = lookup_or d m k" if "k \<in> set (keys m)" for k using Cons.prems that by (cases x) auto
  then have "map (\<lambda>k. (k, lookup_or d (x # m) k)) (keys m) = map (\<lambda>k. (k, lookup_or d m k)) (keys m)"
    by (simp cong: map_cong)
  moreover have "(fst x, lookup_or d (x # m) (fst x)) = x" by (cases x) simp
  moreover have "map (\<lambda>k. (k, lookup_or d m k)) (keys m) = m" using Cons by simp
  ultimately show ?case by (simp only: list.map)
qed simp

lemma group_pairs: "group_all f d xs = map (\<lambda>k. (k, fold f (items_of k xs) d)) (keys (group_all f d xs))"
  using gomap_pairs [OF group_distinct, of f d xs d] by (simp only: group_lookup)

text \<open>The keys of two permuted loops are the same, in another order.\<close>

lemma group_keys_mset: "mset xs = mset ys \<Longrightarrow> mset (keys (group_all f d xs)) = mset (keys (group_all g e ys))"
  by (rule set_eq_iff_mset_eq_distinct [THEN iffD1])
    (simp_all only: group_distinct group_keys, auto dest: mset_eq_setD)

text \<open>When adding two items commutes in what \<open>g\<close> sees of a group, permuted loops give the same pairs under
  \<open>g\<close>.\<close>

lemma group_pairs_mset:
  assumes "mset xs = mset ys"
    and "\<And>k. k \<in> fst ` set xs \<Longrightarrow> g k (fold f (items_of k xs) d) = g k (fold f (items_of k ys) d)"
  shows "mset (map (\<lambda>(k, v). g k v) (group_all f d xs)) = mset (map (\<lambda>(k, v). g k v) (group_all f d ys))"
proof -
  have p: "map (\<lambda>(k, v). g k v) (group_all f d zs) = map (\<lambda>k. g k (fold f (items_of k zs) d)) (keys (group_all f d zs))" for zs
    by (subst group_pairs) simp
  have "map (\<lambda>k. g k (fold f (items_of k xs) d)) (keys (group_all f d xs)) =
      map (\<lambda>k. g k (fold f (items_of k ys) d)) (keys (group_all f d xs))"
    by (rule map_cong [OF refl], rule assms(2)) (simp only: group_keys)
  moreover have "mset (map h (keys (group_all f d xs))) = mset (map h (keys (group_all f d ys)))" for h
    using arg_cong [OF group_keys_mset [OF assms(1), of f d f d], of "image_mset h"] by (simp only: mset_map)
  ultimately show ?thesis unfolding p by (simp only:)
qed

lemma sort_key_Nil [simp]: "sort_key f xs = [] \<longleftrightarrow> xs = []"
  by (metis length_0_conv length_sort)

text \<open>Sorting by a key that tells the items apart depends on the items only.\<close>

lemma sort_key_unique:
  assumes "mset xs = mset ys" and "inj_on f (set xs)"
  shows "sort_key f xs = sort_key f ys"
proof (rule map_inj_on [of f])
  have s: "sort (map f zs) = map f (sort_key f zs)" for zs by (rule properties_for_sort) simp_all
  have "sort (map f xs) = sort (map f ys)" using assms(1) by (intro properties_for_sort) simp_all
  then show "map f (sort_key f xs) = map f (sort_key f ys)" by (simp only: s)
  show "inj_on f (set (sort_key f xs) \<union> set (sort_key f ys))" using assms mset_eq_setD [OF assms(1)] by simp
qed

lemma concat_map_mset: "mset xs = mset ys \<Longrightarrow> mset (concat (map f xs)) = mset (concat (map f ys))"
  by (metis mset_concat mset_map sum_mset_sum_list)

section \<open>Counting by a key\<close>

text \<open>The sums over the groups add up to the sum over all items.\<close>

lemma sum_items_of:
  fixes g :: "'c \<Rightarrow> 'n :: comm_monoid_add"
  assumes "finite K" and "fst ` set xs \<subseteq> K"
  shows "(\<Sum>k \<in> K. sum_list (map g (items_of k xs))) = (\<Sum>x \<leftarrow> xs. g (snd x))"
  using assms(2)
proof (induction xs)
  case (Cons x xs)
  have "(\<Sum>k \<in> K. sum_list (map g (items_of k (x # xs)))) =
      (\<Sum>k \<in> K. (if fst x = k then g (snd x) else 0) + sum_list (map g (items_of k xs)))"
    by (rule sum.cong) (auto simp: items_of_Cons)
  also have "\<dots> = g (snd x) + (\<Sum>x \<leftarrow> xs. g (snd x))" using Cons assms(1) by (simp add: sum.distrib)
  finally show ?case by simp
qed simp

lemma sum_groups:
  fixes g :: "'c \<Rightarrow> 'n :: comm_monoid_add"
  assumes "\<And>us. h (fold f us d) = sum_list (map g us)"
  shows "(\<Sum>(k, v) \<leftarrow> group_all f d xs. h v) = (\<Sum>x \<leftarrow> xs. g (snd x))"
proof -
  have "(\<Sum>(k, v) \<leftarrow> group_all f d xs. h v) = (\<Sum>k \<leftarrow> keys (group_all f d xs). sum_list (map g (items_of k xs)))"
    by (subst group_pairs) (simp add: assms o_def)
  also have "\<dots> = (\<Sum>k \<in> set (keys (group_all f d xs)). sum_list (map g (items_of k xs)))"
    by (rule sum_list_distinct_conv_sum_set [OF group_distinct])
  also have "\<dots> = (\<Sum>x \<leftarrow> xs. g (snd x))" by (rule sum_items_of) (simp_all only: group_keys, simp_all)
  finally show ?thesis .
qed

text \<open>The same for the groups whose keys satisfy a predicate.\<close>

lemma sum_groups_where:
  fixes g :: "'c \<Rightarrow> 'n :: comm_monoid_add"
  assumes "\<And>us. h (fold f us d) = sum_list (map g us)"
  shows "(\<Sum>(k, v) \<leftarrow> group_all f d xs. if Q k then h v else 0) = (\<Sum>x \<leftarrow> filter (\<lambda>x. Q (fst x)) xs. g (snd x))"
proof -
  let ?K = "set (keys (group_all f d xs))"
  have i: "items_of k (filter (\<lambda>x. Q (fst x)) xs) = (if Q k then items_of k xs else [])" for k
    by (cases "Q k") (auto simp: items_of_def filter_empty_conv intro!: arg_cong [of _ _ "map snd"] filter_cong)
  have "(\<Sum>(k, v) \<leftarrow> group_all f d xs. if Q k then h v else 0) =
      (\<Sum>k \<leftarrow> keys (group_all f d xs). sum_list (map g (items_of k (filter (\<lambda>x. Q (fst x)) xs))))"
    unfolding i by (subst group_pairs) (simp add: assms o_def if_distrib cong: if_cong)
  also have "\<dots> = (\<Sum>k \<in> ?K. sum_list (map g (items_of k (filter (\<lambda>x. Q (fst x)) xs))))"
    by (rule sum_list_distinct_conv_sum_set [OF group_distinct])
  also have "\<dots> = (\<Sum>x \<leftarrow> filter (\<lambda>x. Q (fst x)) xs. g (snd x))" by (rule sum_items_of) (simp, auto simp only: group_keys set_filter)
  finally show ?thesis .
qed

end
