(* ===== verification/NginxReport.thy ===== *)
theory NginxReport
  imports GoInput GoPath GoTime GoGroup
begin

text \<open>
  The report of the upstreams of a RUN (tools/nginx-backend-report/main.go): the access logs are read line by
  line, the requests are counted and their times added up per upstream, and the groups are written as a TSV.

  A counter is a natural number (the source counts in 64 bits), a floating-point number a rational or an
  infinity. Parameters: the decoder of a line, what a text denotes as a number, the sources of the logs and
  the output.
\<close>

section \<open>Records and groups\<close>

record access_record =
  ar_status :: "json option"
  ar_response_time :: rat
  ar_upstream_time :: string
  ar_upstream_addr :: string
  ar_upstream_status :: string
  ar_cache_status :: string

record group_key =
  gk_ingress_host :: string
  gk_upstream_addr :: string
  gk_upstream_status :: string
  gk_cache_status :: string

record aggregate =
  ag_requests :: nat
  ag_2xx :: nat
  ag_3xx :: nat
  ag_4xx :: nat
  ag_5xx :: nat
  ag_other :: nat
  ag_response :: rat
  ag_upstream :: fval

type_synonym groups = "(group_key, aggregate) gomap"

record report_env =
  re_decode :: "string \<Rightarrow> access_record option"
  re_float :: float_parser
  re_logs :: log_sources
  re_create :: "string \<Rightarrow> go_error option"

section \<open>The values of a line\<close>

text \<open>The status as a number or as a text, 0 when it is neither.\<close>

definition parse_status :: "json option \<Rightarrow> int" where
  "parse_status raw =
     (case raw of
        Some (JNum s) \<Rightarrow> (case parse_int64 s of Some n \<Rightarrow> n | None \<Rightarrow> 0)
      | Some (JStr s) \<Rightarrow> (case parse_int64 s of Some n \<Rightarrow> n | None \<Rightarrow> 0)
      | _ \<Rightarrow> 0)"

definition normalize_field :: "string \<Rightarrow> string \<Rightarrow> string" where
  "normalize_field value none =
     (let v = trim_space value in if v = [] \<or> v = ''-'' then none else v)"

text \<open>The times of the upstreams that a request went through, separated by commas.\<close>

definition duration_part :: "float_parser \<Rightarrow> string \<Rightarrow> fval \<Rightarrow> fval" where
  "duration_part pf part acc =
     (let p = trim_space part in
      if p = [] \<or> p = ''-'' then acc
      else (case pf p of None \<Rightarrow> acc | Some x \<Rightarrow> if fnonneg x then fadd acc x else acc))"

definition parse_duration_sum :: "float_parser \<Rightarrow> string \<Rightarrow> fval" where
  "parse_duration_sum pf value = fold (duration_part pf) (split_char (CHR '','') value) (Fin 0)"

definition record_key :: "string \<Rightarrow> access_record \<Rightarrow> group_key" where
  "record_key host r =
     \<lparr>gk_ingress_host = host,
      gk_upstream_addr = normalize_field (ar_upstream_addr r) ''NONE'',
      gk_upstream_status = normalize_field (ar_upstream_status r) ''NONE'',
      gk_cache_status = normalize_field (ar_cache_status r) ''NONE''\<rparr>"

definition empty_aggregate :: aggregate where
  "empty_aggregate =
     \<lparr>ag_requests = 0, ag_2xx = 0, ag_3xx = 0, ag_4xx = 0, ag_5xx = 0, ag_other = 0, ag_response = 0, ag_upstream = Fin 0\<rparr>"

definition count_class :: "int \<Rightarrow> aggregate \<Rightarrow> aggregate" where
  "count_class c a =
     (if c = 2 then a\<lparr>ag_2xx := Suc (ag_2xx a)\<rparr>
      else if c = 3 then a\<lparr>ag_3xx := Suc (ag_3xx a)\<rparr>
      else if c = 4 then a\<lparr>ag_4xx := Suc (ag_4xx a)\<rparr>
      else if c = 5 then a\<lparr>ag_5xx := Suc (ag_5xx a)\<rparr>
      else a\<lparr>ag_other := Suc (ag_other a)\<rparr>)"

definition add_request :: "float_parser \<Rightarrow> access_record \<Rightarrow> aggregate \<Rightarrow> aggregate" where
  "add_request pf r a =
     count_class (parse_status (ar_status r) sdiv 100)
       (a\<lparr>ag_requests := Suc (ag_requests a),
          ag_response := ag_response a + ar_response_time r,
          ag_upstream := fadd (ag_upstream a) (parse_duration_sum pf (ar_upstream_time r))\<rparr>)"

definition add_record :: "float_parser \<Rightarrow> string \<Rightarrow> access_record \<Rightarrow> groups \<Rightarrow> groups" where
  "add_record pf host r gs =
     put_group (add_request pf) empty_aggregate (record_key host r, r) gs"

section \<open>Reading the logs\<close>

definition report_limit :: int where
  "report_limit = 2 * 1024 * 1024"

text \<open>One line: blank ones are skipped, those that cannot be decoded are counted.\<close>

definition scan_line :: "report_env \<Rightarrow> string \<Rightarrow> string \<Rightarrow> nat \<times> groups \<Rightarrow> nat \<times> groups" where
  "scan_line E host raw st =
     (let line = trim_space raw in
      if line = [] then st
      else (case re_decode E line of
          None \<Rightarrow> (Suc (fst st), snd st)
        | Some r \<Rightarrow> (fst st, add_record (re_float E) host r (snd st))))"

definition scan_with_ingress :: "report_env \<Rightarrow> stream \<Rightarrow> string \<Rightarrow> groups \<Rightarrow> (nat \<times> go_error option) \<times> groups" where
  "scan_with_ingress E f host gs =
     (case fold (scan_line E host) (fst (scan_lines report_limit (in_body f))) (0, gs) of
        (malformed, gs1) \<Rightarrow> ((malformed, scan_error report_limit f), gs1))"

text \<open>Closing the output of a command waits for the command when closing the pipe worked.\<close>

definition close_command :: "stream \<Rightarrow> go_error option \<Rightarrow> go_error option" where
  "close_command pipe wait = (case in_close_err pipe of Some e \<Rightarrow> Some e | None \<Rightarrow> wait)"

definition open_access_log :: "log_sources \<Rightarrow> string \<Rightarrow> go_error + stream" where
  "open_access_log L path =
     (if path = ''-'' then Inr ((lg_stdin L)\<lparr>in_close_err := None\<rparr>)
      else if has_suffix path ''.zst'' then
        (case lg_zstd L path of
           Inl e \<Rightarrow> Inl e
         | Inr (pipe, wait) \<Rightarrow> Inr (pipe\<lparr>in_close_err := close_command pipe wait\<rparr>))
      else lg_file L path)"

definition ingress_host_from_path :: "string \<Rightarrow> go_error + string" where
  "ingress_host_from_path path =
     (let base = trim_suffix (path_base path) ''.zst'';
          err = Errorf ''cannot derive ingress host from access log path'' [path] [] in
      if \<not> has_prefix base ''access-'' \<or> \<not> has_suffix base ''.log'' then Inl err
      else (let host = trim_suffix (trim_prefix base ''access-'') ''.log'' in if host = [] then Inl err else Inr host))"

definition read_log :: "report_env \<Rightarrow> bool \<Rightarrow> string \<Rightarrow> nat \<times> groups \<Rightarrow> go_error + nat \<times> groups" where
  "read_log E by_ingress path st =
     (case open_access_log (re_logs E) path of
        Inl e \<Rightarrow> Inl (Errorf ''open access log'' [path] [e])
      | Inr f \<Rightarrow>
          (case (if by_ingress then ingress_host_from_path path else Inr []) of
             Inl e \<Rightarrow> Inl e
           | Inr host \<Rightarrow>
               (case scan_with_ingress E f host (snd st) of
                  ((skipped, err), gs) \<Rightarrow>
                    (case err of
                       Some e \<Rightarrow> Inl (Errorf ''read access log'' [path] [e])
                     | None \<Rightarrow>
                         (case in_close_err f of
                            Some e \<Rightarrow> Inl (Errorf ''close access log'' [path] [e])
                          | None \<Rightarrow> Inr (fst st + skipped, gs))))))"

section \<open>The report\<close>

definition key_order :: "group_key \<Rightarrow> string list" where
  "key_order k = [gk_ingress_host k, gk_upstream_addr k, gk_upstream_status k, gk_cache_status k]"

definition report_header :: "bool \<Rightarrow> string list" where
  "report_header by_ingress =
     (if by_ingress then [''ingress_host''] else []) @
     [''upstream_addr'', ''upstream_status'', ''cache_status'', ''requests'', ''status_2xx'', ''status_3xx'', ''status_4xx'',
      ''status_5xx'', ''status_other'', ''response_time_sum_ms'', ''response_time_avg_ms'', ''upstream_time_sum_ms'',
      ''upstream_time_avg_ms'']"

definition average_of :: "nat \<Rightarrow> fval \<Rightarrow> fval" where
  "average_of n x = (if n = 0 then Fin 0 else fscale (1 / of_nat n) x)"

definition report_row :: "bool \<Rightarrow> group_key \<Rightarrow> aggregate \<Rightarrow> string list" where
  "report_row by_ingress k a =
     (let response = Fin (ag_response a * 1000); upstream = fscale 1000 (ag_upstream a) in
      (if by_ingress then [gk_ingress_host k] else []) @
      [gk_upstream_addr k, gk_upstream_status k, gk_cache_status k,
       format_nat (ag_requests a), format_nat (ag_2xx a), format_nat (ag_3xx a), format_nat (ag_4xx a),
       format_nat (ag_5xx a), format_nat (ag_other a),
       format_fixed3 response, format_fixed3 (average_of (ag_requests a) response),
       format_fixed3 upstream, format_fixed3 (average_of (ag_requests a) upstream)])"

definition report_rows :: "groups \<Rightarrow> bool \<Rightarrow> string list list" where
  "report_rows gs by_ingress =
     report_header by_ingress #
       map (\<lambda>k. report_row by_ingress k (lookup_or empty_aggregate gs k)) (sort_key key_order (keys gs))"

text \<open>What a writer takes of a text, and its error.\<close>

definition write_report_with_ingress ::
    "(string \<Rightarrow> string \<times> go_error option) \<Rightarrow> groups \<Rightarrow> bool \<Rightarrow> string \<times> go_error option" where
  "write_report_with_ingress out gs by_ingress = out (csv_write (report_rows gs by_ingress))"

section \<open>The command\<close>

record report_flags =
  rf_output :: string
  rf_by_ingress :: bool
  rf_paths :: "string list"

text \<open>The status of the process, its messages, and what reached the output.\<close>

definition finish_report ::
    "report_env \<Rightarrow> (string \<Rightarrow> string \<times> go_error option) \<Rightarrow> report_flags \<Rightarrow> nat \<Rightarrow> groups \<Rightarrow>
     int \<times> go_error list \<times> string" where
  "finish_report E out f malformed gs =
     (let notes = (if 0 < malformed then [Errorf ''ignored malformed access log lines'' [format_nat malformed] []] else []) in
      case (if rf_output f \<noteq> ''-'' then re_create E (rf_output f) else None) of
        Some e \<Rightarrow> (1, notes @ [Errorf ''open output'' [] [e]], [])
      | None \<Rightarrow>
          (case write_report_with_ingress out gs (rf_by_ingress f) of
             (written, Some e) \<Rightarrow> (1, notes @ [Errorf ''write upstream report'' [] [e]], written)
           | (written, None) \<Rightarrow> (0, notes, written)))"

definition run_report ::
    "report_env \<Rightarrow> (string \<Rightarrow> string \<times> go_error option) \<Rightarrow> report_flags \<Rightarrow> int \<times> go_error list \<times> string" where
  "run_report E out f =
     (if rf_paths f = [] then (2, [Errorf ''at least one access log path is required'' [] []], [])
      else
        (case fold_res (read_log E (rf_by_ingress f)) (rf_paths f) (0, []) of
           Inl e \<Rightarrow> (1, [e], [])
         | Inr (malformed, gs) \<Rightarrow> finish_report E out f malformed gs))"

end
