(* ===== verification/NginxReportProperties.thy ===== *)
theory NginxReportProperties
  imports NginxReport
begin

text \<open>
  What the report of the upstreams says: every request of the logs is counted once, in the group of its
  upstream and in one class of statuses; the report is the same in whatever order the logs are given; it is
  read back as one row per group, in the order of the keys.
\<close>

section \<open>The records of a log\<close>

definition line_record :: "report_env \<Rightarrow> string \<Rightarrow> access_record option" where
  "line_record E raw = (if trim_space raw = [] then None else re_decode E (trim_space raw))"

definition line_malformed :: "report_env \<Rightarrow> string \<Rightarrow> bool" where
  "line_malformed E raw \<longleftrightarrow> trim_space raw \<noteq> [] \<and> re_decode E (trim_space raw) = None"

definition log_records :: "report_env \<Rightarrow> bool \<Rightarrow> string \<Rightarrow> (string \<times> access_record) list" where
  "log_records E by_ingress path =
     (case (open_access_log (re_logs E) path, if by_ingress then ingress_host_from_path path else Inr []) of
        (Inr f, Inr host) \<Rightarrow>
          map (Pair host) (List.map_filter (line_record E) (fst (scan_lines report_limit (in_body f))))
      | _ \<Rightarrow> [])"

definition log_malformed :: "report_env \<Rightarrow> string \<Rightarrow> nat" where
  "log_malformed E path =
     (case open_access_log (re_logs E) path of
        Inr f \<Rightarrow> length (filter (line_malformed E) (fst (scan_lines report_limit (in_body f))))
      | Inl _ \<Rightarrow> 0)"

definition group_records :: "float_parser \<Rightarrow> (string \<times> access_record) list \<Rightarrow> groups" where
  "group_records pf recs = fold (\<lambda>(h, r). add_record pf h r) recs []"

lemma fold_scan_line:
  "fold (scan_line E host) ls (n, gs) =
     (n + length (filter (line_malformed E) ls),
      fold (\<lambda>(h, r). add_record (re_float E) h r) (map (Pair host) (List.map_filter (line_record E) ls)) gs)"
  by (induction ls arbitrary: n gs)
    (auto simp: scan_line_def line_record_def line_malformed_def Let_def List.map_filter_def split: option.splits)

definition log_ok :: "report_env \<Rightarrow> bool \<Rightarrow> string \<Rightarrow> bool" where
  "log_ok E by_ingress path \<longleftrightarrow>
     (case (open_access_log (re_logs E) path, if by_ingress then ingress_host_from_path path else Inr []) of
        (Inr f, Inr host) \<Rightarrow> scan_error report_limit f = None \<and> in_close_err f = None
      | _ \<Rightarrow> False)"

lemma read_log_eq:
  "log_ok E by path \<Longrightarrow>
     read_log E by path (n, gs) =
       Inr (n + log_malformed E path, fold (\<lambda>(h, r). add_record (re_float E) h r) (log_records E by path) gs)"
  by (auto simp: log_ok_def read_log_def log_malformed_def log_records_def scan_with_ingress_def fold_scan_line split: sum.splits)

lemma read_log_ok: "read_log E by path st = Inr st1 \<Longrightarrow> log_ok E by path"
  by (auto simp: log_ok_def read_log_def scan_with_ingress_def split: sum.splits prod.splits option.splits)

lemma read_logs_eq:
  "list_all (log_ok E by) paths \<Longrightarrow>
     fold_res (read_log E by) paths (n, gs) =
       Inr (n + sum_list (map (log_malformed E) paths),
            fold (\<lambda>(h, r). add_record (re_float E) h r) (concat (map (log_records E by) paths)) gs)"
  by (induction paths arbitrary: n gs) (simp_all add: read_log_eq)

lemma read_logs_ok: "fold_res (read_log E by) paths st = Inr st1 \<Longrightarrow> list_all (log_ok E by) paths"
  by (induction paths arbitrary: st) (auto split: sum.splits dest: read_log_ok)

lemma read_logs:
  assumes "fold_res (read_log E by) paths (0, []) = Inr (m, gs)"
  shows "m = sum_list (map (log_malformed E) paths) \<and>
     gs = group_records (re_float E) (concat (map (log_records E by) paths)) \<and> list_all (log_ok E by) paths"
  using read_logs_eq [OF read_logs_ok [OF assms], of 0 "[]"] read_logs_ok [OF assms] assms by (simp add: group_records_def)

section \<open>The groups\<close>

definition keyed :: "(string \<times> access_record) list \<Rightarrow> (group_key \<times> access_record) list" where
  "keyed recs = map (\<lambda>(h, r). (record_key h r, r)) recs"

lemma keyed_keys: "fst ` set (keyed recs) = (\<lambda>(h, r). record_key h r) ` set recs"
  by (force simp: keyed_def)

definition agg_of :: "float_parser \<Rightarrow> access_record list \<Rightarrow> aggregate" where
  "agg_of pf rs = fold (add_request pf) rs empty_aggregate"

text \<open>The decoded lines of a key.\<close>

definition of_key :: "group_key \<Rightarrow> (string \<times> access_record) list \<Rightarrow> access_record list" where
  "of_key k recs = items_of k (keyed recs)"

lemma group_records_all: "group_records pf recs = group_all (add_request pf) empty_aggregate (keyed recs)"
proof -
  have "(\<lambda>(h, r). add_record pf h r) = put_group (add_request pf) empty_aggregate \<circ> (\<lambda>(h, r). (record_key h r, r))"
    by (auto simp: fun_eq_iff add_record_def)
  then show ?thesis by (simp add: group_records_def group_all_def keyed_def fold_map)
qed

lemma group_or: "lookup_or empty_aggregate (group_records pf recs) k = agg_of pf (of_key k recs)"
  by (simp add: group_records_all group_lookup agg_of_def of_key_def)

lemma records_keys: "set (keys (group_records pf recs)) = (\<lambda>(h, r). record_key h r) ` set recs"
  by (simp only: group_records_all group_keys keyed_keys)

lemma records_distinct: "distinct (keys (group_records pf recs))"
  by (simp only: group_records_all group_distinct)

lemma count_class_fields [simp]:
  "ag_requests (count_class c a) = ag_requests a"
  "ag_response (count_class c a) = ag_response a"
  "ag_upstream (count_class c a) = ag_upstream a"
  by (simp_all add: count_class_def)

definition class_total :: "aggregate \<Rightarrow> nat" where
  "class_total a = ag_2xx a + ag_3xx a + ag_4xx a + ag_5xx a + ag_other a"

lemma class_total_count [simp]: "class_total (count_class c a) = Suc (class_total a)"
  by (simp add: class_total_def count_class_def)

lemma agg_requests: "ag_requests (agg_of pf rs) = length rs \<and> class_total (agg_of pf rs) = length rs"
proof (induction rs rule: rev_induct)
  case (snoc r rs)
  then show ?case
    by (simp add: agg_of_def add_request_def class_total_def [of "empty_aggregate\<lparr>ag_requests := _\<rparr>"], simp add: class_total_def)
qed (simp add: agg_of_def empty_aggregate_def class_total_def)

lemma records_total:
  "(\<Sum>(k, a) \<leftarrow> group_records pf recs. ag_requests a) = length recs"
proof -
  have "ag_requests (fold (add_request pf) rs empty_aggregate) = (\<Sum>r \<leftarrow> rs. 1)" for rs
    using agg_requests [of pf rs] by (simp add: agg_of_def sum_list_triv)
  from sum_groups [of ag_requests, OF this, of "keyed recs"] show ?thesis
    by (simp add: group_records_all sum_list_triv) (simp add: keyed_def)
qed

section \<open>The order of the logs\<close>

lemma count_class_update:
  "count_class c (a\<lparr>ag_requests := n, ag_response := x, ag_upstream := y\<rparr>) =
     (count_class c a)\<lparr>ag_requests := n, ag_response := x, ag_upstream := y\<rparr>"
  by (simp add: count_class_def)

lemma count_class_counters:
  "ag_2xx (count_class c a) = (if c = 2 then Suc (ag_2xx a) else ag_2xx a)"
  "ag_3xx (count_class c a) = (if c = 3 then Suc (ag_3xx a) else ag_3xx a)"
  "ag_4xx (count_class c a) = (if c = 4 then Suc (ag_4xx a) else ag_4xx a)"
  "ag_5xx (count_class c a) = (if c = 5 then Suc (ag_5xx a) else ag_5xx a)"
  "ag_other (count_class c a) = (if c \<in> {2, 3, 4, 5} then ag_other a else Suc (ag_other a))"
  by (simp_all add: count_class_def)

lemma count_class_commute: "count_class c (count_class d a) = count_class d (count_class c a)"
  by (rule aggregate.equality) (simp_all add: count_class_counters)

lemma add_request_commute: "add_request pf r (add_request pf q a) = add_request pf q (add_request pf r a)"
proof -
  have "add_request pf r (add_request pf q a) =
      (count_class (parse_status (ar_status r) sdiv 100) (count_class (parse_status (ar_status q) sdiv 100) a))
        \<lparr>ag_requests := Suc (Suc (ag_requests a)), ag_response := ag_response a + (ar_response_time q + ar_response_time r),
         ag_upstream := fadd (fadd (ag_upstream a) (parse_duration_sum pf (ar_upstream_time q))) (parse_duration_sum pf (ar_upstream_time r))\<rparr>"
    for r q by (simp add: add_request_def count_class_update add.assoc)
  then show ?thesis
    by (simp only: count_class_commute add.commute [of "ar_response_time q"]) (metis fadd_commute fadd_left_commute)
qed

lemma agg_of_mset: "mset rs = mset rs' \<Longrightarrow> agg_of pf rs = agg_of pf rs'"
  unfolding agg_of_def by (rule fold_multiset_equiv [THEN fun_cong]) (auto simp: add_request_commute fun_eq_iff)

lemma of_key_mset: "mset recs = mset recs' \<Longrightarrow> mset (of_key k recs) = mset (of_key k recs')"
  unfolding of_key_def keyed_def by (intro items_of_mset) simp

lemma key_order_inj: "inj key_order"
  by (auto simp: inj_def key_order_def intro: group_key.equality)

lemma report_rows_mset:
  assumes "mset recs = mset recs'"
  shows "report_rows (group_records pf recs) by = report_rows (group_records pf recs') by"
proof -
  have "mset (keyed recs) = mset (keyed recs')" using assms by (simp add: keyed_def)
  then have "sort_key key_order (keys (group_records pf recs)) = sort_key key_order (keys (group_records pf recs'))"
    unfolding group_records_all by (intro sort_key_unique group_keys_mset inj_on_subset [OF key_order_inj]) simp_all
  moreover have "agg_of pf (of_key k recs) = agg_of pf (of_key k recs')" for k
    by (rule agg_of_mset [OF of_key_mset [OF assms]])
  ultimately show ?thesis by (simp add: report_rows_def group_or)
qed

section \<open>The rows\<close>

definition key_columns :: "bool \<Rightarrow> group_key \<Rightarrow> string list" where
  "key_columns by_ingress k =
     (if by_ingress then [gk_ingress_host k] else []) @ [gk_upstream_addr k, gk_upstream_status k, gk_cache_status k]"

lemma report_row_columns: "take (length (key_columns by k)) (report_row by k a) = key_columns by k"
  by (simp add: report_row_def key_columns_def Let_def)

lemma report_rows_group:
  "report_rows (group_records pf recs) by =
     report_header by #
       map (\<lambda>k. report_row by k (agg_of pf (of_key k recs))) (sort_key key_order (keys (group_records pf recs)))"
  by (simp add: report_rows_def group_or)

section \<open>The classes of the statuses\<close>

lemma sdiv_class: "1 \<le> c \<Longrightarrow> x sdiv 100 = c \<longleftrightarrow> 100 * c \<le> x \<and> x < 100 * c + (100 :: int)"
  by (cases "0 \<le> x") (auto simp: signed_divide_int_def sgn_if)

definition with_status :: "int \<Rightarrow> access_record list \<Rightarrow> access_record list" where
  "with_status c rs = filter (\<lambda>r. 100 * c \<le> parse_status (ar_status r) \<and> parse_status (ar_status r) < 100 * c + 100) rs"

lemma agg_classes:
  "ag_2xx (agg_of pf rs) = length (with_status 2 rs) \<and> ag_3xx (agg_of pf rs) = length (with_status 3 rs) \<and>
   ag_4xx (agg_of pf rs) = length (with_status 4 rs) \<and> ag_5xx (agg_of pf rs) = length (with_status 5 rs)"
proof (induction rs rule: rev_induct)
  case (snoc r rs)
  then show ?case by (simp add: agg_of_def add_request_def count_class_counters with_status_def sdiv_class)
qed (simp add: agg_of_def empty_aggregate_def with_status_def)

lemma agg_response: "ag_response (agg_of pf rs) = (\<Sum>r \<leftarrow> rs. ar_response_time r)"
  by (induction rs rule: rev_induct) (simp_all add: agg_of_def add_request_def empty_aggregate_def)

section \<open>A written report\<close>

definition clean_record :: "access_record \<Rightarrow> bool" where
  "clean_record r \<longleftrightarrow>
     clean_cell (ar_upstream_addr r) \<and> clean_cell (ar_upstream_status r) \<and> clean_cell (ar_cache_status r)"

lemma return_not_digit: "\<not> is_digit (CHR 0x0D)"
  by code_simp

lemma clean_format_nat: "clean_cell (format_nat n)"
  using format_nat_digits [of n] return_not_digit by (auto simp: clean_cell_def list_all_iff)

lemma clean_digit: "d < 10 \<Longrightarrow> CHR 0x0D \<noteq> digit_char d"
  using is_digit_digit_char [of d] return_not_digit by metis

lemma clean_format_fixed3: "clean_cell (format_fixed3 x)"
proof -
  have "n mod 1000 div 100 < 10" "n mod 100 div 10 < 10" "n mod 10 < 10" for n :: int
    using zdiv_mono1 [of "n mod 1000" 999 100] zdiv_mono1 [of "n mod 100" 99 10] by simp_all
  then have d: "nat (n mod 1000 div 100) < 10" "nat (n mod 100 div 10) < 10" "nat (n mod 10) < 10" for n :: int
    by (simp_all add: nat_less_iff)
  have "clean_cell (format_millis n)" for n
    using clean_format_nat clean_digit [OF d(1)] clean_digit [OF d(2)] clean_digit [OF d(3)]
    by (auto simp: format_millis_def format_int_def clean_cell_def)
  then show ?thesis by (cases x) (auto simp: format_fixed3_def clean_cell_def)
qed

lemma clean_normalize: "clean_cell s \<Longrightarrow> clean_cell (normalize_field s ''NONE'')"
  using set_trim_space [of s] by (auto simp: normalize_field_def clean_cell_def Let_def)

lemma clean_report_row: "list_all clean_cell (key_columns by k) \<Longrightarrow> list_all clean_cell (report_row by k a)"
  by (simp add: report_row_def key_columns_def Let_def clean_format_nat clean_format_fixed3 split: if_splits)

lemma clean_record_key: "clean_cell h \<Longrightarrow> clean_record r \<Longrightarrow> list_all clean_cell (key_columns by (record_key h r))"
  by (simp add: key_columns_def record_key_def clean_record_def clean_normalize)

lemma clean_header: "list_all clean_cell (report_header by)"
proof -
  have "list_all clean_cell (report_header True)" "list_all clean_cell (report_header False)" by code_simp+
  then show ?thesis by (cases "by") simp_all
qed

lemma written_report_rows:
  assumes "list_all (\<lambda>(h, r). clean_cell h \<and> clean_record r) recs"
  shows "list_all written_row (report_rows (group_records pf recs) by)"
proof -
  have "written_row (report_header by)" using clean_header by (simp add: written_row_def report_header_def)
  moreover have "written_row (report_row by k a)" if "k \<in> set (keys (group_records pf recs))" for k a
  proof -
    have "list_all clean_cell (key_columns by k)"
      using that assms unfolding records_keys by (auto simp: list_all_iff [of "\<lambda>(h, r). clean_cell h \<and> clean_record r"] intro: clean_record_key)
    from clean_report_row [OF this] show ?thesis by (simp add: written_row_def report_row_def Let_def)
  qed
  ultimately show ?thesis by (auto simp: report_rows_def list_all_iff)
qed

text \<open>The columns of the keys are in strict order.\<close>

lemma key_columns_sorted:
  assumes "list_all (\<lambda>k. by \<or> gk_ingress_host k = []) ks" and "distinct ks"
  shows "sorted_wrt (<) (map (key_columns by) (sort_key key_order ks))"
proof -
  have c: "key_columns b k = (if b then key_order k else tl (key_order k))" for b k
    by (simp add: key_columns_def key_order_def)
  have s: "sorted_wrt (<) (map key_order (sort_key key_order ks))"
    using assms(2) by (simp add: strict_sorted_iff distinct_map inj_on_subset [OF key_order_inj])
  have "key_columns by k < key_columns by k'"
    if "k \<in> set ks" "k' \<in> set ks" "key_order k < key_order k'" for k k'
    using that assms(1) by (cases "by") (auto simp: c key_order_def list_all_iff)
  with s show ?thesis
    by (auto simp: sorted_wrt_map intro: sorted_wrt_mono_rel [rotated])
qed

section \<open>The host of a log\<close>

lemma trim_suffix_Some: "trim_suffix s p = (if suffix p s then take (length s - length p) s else s)"
  by (simp add: trim_suffix_def)

lemma access_log_name:
  "has_prefix b ''access-'' \<and> has_suffix b ''.log'' \<and> trim_suffix (trim_prefix b ''access-'') ''.log'' = h \<and> h \<noteq> [] \<longleftrightarrow>
   h \<noteq> [] \<and> b = ''access-'' @ h @ ''.log''"
proof
  assume l: "has_prefix b ''access-'' \<and> has_suffix b ''.log'' \<and> trim_suffix (trim_prefix b ''access-'') ''.log'' = h \<and> h \<noteq> []"
  then obtain t where t: "b = ''access-'' @ t" by (auto simp: prefix_def)
  show "h \<noteq> [] \<and> b = ''access-'' @ h @ ''.log''"
  proof (cases "suffix ''.log'' t")
    case True
    then obtain u where "t = u @ ''.log''" by (auto simp: suffix_def)
    then show ?thesis using l t trim_prefix_append [of "''access-''" t] by simp
  next
    case False
    from l obtain u where "b = u @ ''.log''" by (auto simp: suffix_def)
    with t have "''access-'' @ t = u @ ''.log''" by simp
    then obtain us where us: "''access-'' = u @ us" "us @ t = ''.log''"
      using False unfolding append_eq_append_conv2 suffix_def by blast
    with False have "us \<noteq> []" by auto
    then have "last us = last (u @ us)" and "last us \<in> set (us @ t)" by simp_all
    then show ?thesis unfolding us(2) us(1) [symmetric] by simp
  qed
next
  assume "h \<noteq> [] \<and> b = ''access-'' @ h @ ''.log''"
  then show "has_prefix b ''access-'' \<and> has_suffix b ''.log'' \<and> trim_suffix (trim_prefix b ''access-'') ''.log'' = h \<and> h \<noteq> []"
    using trim_prefix_append [of "''access-''" "h @ ''.log''"] by (auto simp: prefix_def suffix_def)
qed

text \<open>
  The host that a log stands for is what its name says: \<open>access-HOST.log\<close>, compressed or not, with a
  non-empty host; every other name is refused.
\<close>

theorem ingress_host_of_name:
  "ingress_host_from_path path = Inr h \<longleftrightarrow>
     h \<noteq> [] \<and> path_base path \<in> {''access-'' @ h @ ''.log'', ''access-'' @ h @ ''.log.zst''}"
proof -
  have h: "ingress_host_from_path path = Inr h \<longleftrightarrow> h \<noteq> [] \<and> trim_suffix (path_base path) ''.zst'' = ''access-'' @ h @ ''.log''"
    unfolding access_log_name [symmetric] by (auto simp: ingress_host_from_path_def Let_def)
  have "trim_suffix b ''.zst'' = ''access-'' @ h @ ''.log'' \<longleftrightarrow> b = ''access-'' @ h @ ''.log'' \<or> b = ''access-'' @ h @ ''.log.zst''" for b
  proof
    assume t: "trim_suffix b ''.zst'' = ''access-'' @ h @ ''.log''"
    show "b = ''access-'' @ h @ ''.log'' \<or> b = ''access-'' @ h @ ''.log.zst''"
    proof (cases "suffix ''.zst'' b")
      case True
      then obtain u where "b = u @ ''.zst''" by (auto simp: suffix_def)
      then show ?thesis using t trim_suffix_append [of u "''.zst''"] by simp
    next
      case False
      then show ?thesis using t by (simp add: trim_suffix_id)
    qed
  next
    assume "b = ''access-'' @ h @ ''.log'' \<or> b = ''access-'' @ h @ ''.log.zst''"
    moreover have "trim_suffix (''access-'' @ h @ ''.log.zst'') ''.zst'' = ''access-'' @ h @ ''.log''"
      using trim_suffix_append [of "''access-'' @ h @ ''.log''" "''.zst''"] by simp
    moreover have "\<not> suffix ''.zst'' (''access-'' @ h @ ''.log'')"
    proof
      assume "suffix ''.zst'' (''access-'' @ h @ ''.log'')"
      then obtain u where "''access-'' @ h @ ''.log'' = u @ ''.zst''" by (auto simp: suffix_def)
      from arg_cong [OF this, of last] show False by simp
    qed
    ultimately show "trim_suffix b ''.zst'' = ''access-'' @ h @ ''.log''" by (auto simp: trim_suffix_id)
  qed
  then show ?thesis by (auto simp: h)
qed

section \<open>The report\<close>

lemma run_report_ok:
  assumes "run_report E out f = (0, msgs, written)"
  obtains m gs where "rf_paths f \<noteq> []" "fold_res (read_log E (rf_by_ingress f)) (rf_paths f) (0, []) = Inr (m, gs)"
    "finish_report E out f m gs = (0, msgs, written)"
  using assms by (auto simp: run_report_def split: if_splits sum.splits)

lemma finish_report_rows:
  "report_rows gs (rf_by_ingress f) = report_rows gs' (rf_by_ingress f) \<Longrightarrow>
     finish_report E out (f\<lparr>rf_paths := paths\<rparr>) m gs = finish_report E out f m gs'"
  by (cases f) (simp add: finish_report_def write_report_with_ingress_def cong: option.case_cong)

text \<open>
  C23. Every request is counted once: when all logs were read, a group holds exactly the decoded lines of its
  key, its counters of the classes are the numbers of its statuses in the hundreds, they add up to its
  requests, its time is the sum of theirs, the groups together hold every decoded line, and the other
  lines that are not blank are counted as malformed.
\<close>

theorem requests_grouped:
  assumes "fold_res (read_log E by) paths (0, []) = Inr (m, gs)"
    and "recs = concat (map (log_records E by) paths)"
  shows "m = sum_list (map (log_malformed E) paths) \<and>
     (let a = lookup_or empty_aggregate gs k; own = of_key k recs in
      ag_requests a = length own \<and> class_total a = length own \<and>
      ag_2xx a = length (with_status 2 own) \<and> ag_3xx a = length (with_status 3 own) \<and>
      ag_4xx a = length (with_status 4 own) \<and> ag_5xx a = length (with_status 5 own) \<and>
      ag_response a = (\<Sum>r \<leftarrow> own. ar_response_time r)) \<and>
     (\<Sum>(k, a) \<leftarrow> gs. ag_requests a) = length recs"
proof -
  from read_logs [OF assms(1)] assms(2)
  have "m = sum_list (map (log_malformed E) paths)" and gs: "gs = group_records (re_float E) recs" by simp_all
  then show ?thesis
    unfolding Let_def gs by (simp only: records_total simp_thms) (simp add: group_or agg_requests agg_classes agg_response)
qed

text \<open>
  The order of the logs does not matter: the command gives the same status, messages and report for its
  logs in any order, when it succeeds for one.
\<close>

theorem report_order_independent:
  assumes "run_report E out f = (0, msgs, written)" and "mset paths = mset (rf_paths f)"
  shows "run_report E out (f\<lparr>rf_paths := paths\<rparr>) = (0, msgs, written)"
proof -
  let ?by = "rf_by_ingress f"
  from assms(1) obtain m gs where ne: "rf_paths f \<noteq> []"
    and r: "fold_res (read_log E ?by) (rf_paths f) (0, []) = Inr (m, gs)"
    and fin: "finish_report E out f m gs = (0, msgs, written)"
    by (rule run_report_ok)
  have "paths \<noteq> []" using ne assms(2) by auto
  note l = read_logs [OF r]
  have ok: "list_all (log_ok E ?by) paths" using l mset_eq_setD [OF assms(2)] by (simp add: list_all_iff)
  have m: "sum_list (map (log_malformed E) paths) = m"
    using l arg_cong [OF assms(2), of "\<lambda>M. sum_mset (image_mset (log_malformed E) M)"] by (simp flip: mset_map add: sum_mset_sum_list)
  have "report_rows (group_records (re_float E) (concat (map (log_records E ?by) paths))) ?by = report_rows gs ?by"
    using l report_rows_mset [OF concat_map_mset [OF assms(2)]] by simp
  then have "finish_report E out (f\<lparr>rf_paths := paths\<rparr>) m (group_records (re_float E) (concat (map (log_records E ?by) paths))) =
      (0, msgs, written)"
    using finish_report_rows fin by metis
  then show ?thesis
    using \<open>paths \<noteq> []\<close> read_logs_eq [OF ok, of 0 "[]"] by (simp add: run_report_def m flip: group_records_def)
qed

text \<open>
  C24. A report that was written completely is read back as its header and one row per group, with the columns
  of the keys in strict order: the keys of the decoded lines, none twice. The names hold no carriage return.
\<close>

theorem report_read_back:
  assumes "run_report E (\<lambda>s. (s, None)) f = (0, msgs, written)"
    and "recs = concat (map (log_records E (rf_by_ingress f)) (rf_paths f))"
    and "list_all (\<lambda>(h, r). clean_cell h \<and> clean_record r) recs"
  shows "case csv_parse written of
       (header # rows, bad) \<Rightarrow>
         \<not> bad \<and> header = report_header (rf_by_ingress f) \<and>
         (let cols = map (take (if rf_by_ingress f then 4 else 3)) rows in
          sorted_wrt (<) cols \<and> set cols = (\<lambda>(h, r). key_columns (rf_by_ingress f) (record_key h r)) ` set recs)
     | _ \<Rightarrow> False"
proof -
  let ?by = "rf_by_ingress f"
  define gs where "gs = group_records (re_float E) recs"
  from assms(1) obtain m gs' where r: "fold_res (read_log E ?by) (rf_paths f) (0, []) = Inr (m, gs')"
    and fin: "finish_report E (\<lambda>s. (s, None)) f m gs' = (0, msgs, written)"
    by (rule run_report_ok)
  have "gs' = gs" using read_logs [OF r] assms(2) by (simp add: gs_def)
  with fin have w: "written = csv_write (report_rows gs ?by)"
    by (auto simp: finish_report_def write_report_with_ingress_def Let_def split: if_splits option.splits)
  define ks where "ks = sort_key key_order (keys gs)"
  define rows where "rows = map (\<lambda>k. report_row ?by k (lookup_or empty_aggregate gs k)) ks"
  have "csv_parse written = (report_rows gs ?by, False)"
    unfolding w gs_def by (rule csv_parse_write [OF written_report_rows [OF assms(3)]])
  then have p: "csv_parse written = (report_header ?by # rows, False)" by (simp add: report_rows_def rows_def ks_def)
  have ks: "set ks = (\<lambda>(h, r). record_key h r) ` set recs" using records_keys [of "re_float E" recs] by (simp add: ks_def gs_def)
  have n: "length (key_columns ?by k) = (if ?by then 4 else 3)" for k by (simp add: key_columns_def)
  have c: "map (take (if ?by then 4 else 3)) rows = map (key_columns ?by) ks"
    unfolding rows_def map_map comp_def using report_row_columns [of ?by] unfolding n by (simp only:)
  have "list_all (\<lambda>k. ?by \<or> gk_ingress_host k = []) ks"
  proof (cases ?by)
    case False
    then have "h = []" if "(h, r) \<in> set recs" for h r
      using that by (auto simp: assms(2) log_records_def split: sum.splits)
    then show ?thesis by (auto simp: list_all_iff ks record_key_def)
  qed (simp add: list_all_iff)
  then have "sorted_wrt (<) (map (key_columns ?by) ks)"
    unfolding ks_def by (intro key_columns_sorted) (simp_all add: list_all_iff gs_def records_distinct)
  moreover have "set (map (key_columns ?by) ks) = (\<lambda>(h, r). key_columns ?by (record_key h r)) ` set recs"
    unfolding set_map ks image_image case_prod_beta' ..
  ultimately show ?thesis unfolding p prod.case list.case Let_def c by (intro conjI refl) simp_all
qed

section \<open>An example\<close>

definition demo_access :: "string \<Rightarrow> access_record option" where
  "demo_access l =
     (if l = ''a'' then Some \<lparr>ar_status = Some (JNum ''200''), ar_response_time = 1 / 4, ar_upstream_time = ''1, -'',
        ar_upstream_addr = '' app:80'', ar_upstream_status = ''200'', ar_cache_status = []\<rparr>
      else if l = ''b'' then Some \<lparr>ar_status = Some (JStr ''502''), ar_response_time = 1, ar_upstream_time = ''-'',
        ar_upstream_addr = ''-'', ar_upstream_status = [], ar_cache_status = []\<rparr>
      else None)"

definition demo_report_env :: report_env where
  "demo_report_env =
     \<lparr>re_decode = demo_access,
      re_float = (\<lambda>s. if s = ''1'' then Some (Fin 1) else None),
      re_logs = \<lparr>lg_stdin = \<lparr>in_body = [], in_read_err = None, in_close_err = None\<rparr>,
        lg_file = (\<lambda>p. Inr \<lparr>in_body = (if p = ''access-x.log'' then ''a'' @ [newline_char] @ ''b'' @ [newline_char] @ ''a'' @ [newline_char] else ''z'' @ [newline_char] @ ''a''),
          in_read_err = None, in_close_err = None\<rparr>),
        lg_zstd = (\<lambda>p. Inl (Errorf ''zstd'' [] []))\<rparr>,
      re_create = (\<lambda>p. None)\<rparr>"

definition demo_report_flags :: report_flags where
  "demo_report_flags = \<lparr>rf_output = ''-'', rf_by_ingress = True, rf_paths = [''access-x.log'', ''access-y.log'']\<rparr>"

lemma demo_reads:
  obtains gs where "fold_res (read_log demo_report_env True) [''access-x.log'', ''access-y.log''] (0, []) = Inr (1, gs)"
proof -
  have "case fold_res (read_log demo_report_env True) [''access-x.log'', ''access-y.log''] (0, []) of
      Inr (m, gs) \<Rightarrow> m = 1 | Inl _ \<Rightarrow> False" by code_simp
  then show ?thesis by (auto intro: that split: sum.splits)
qed

lemma demo_run:
  obtains msgs written where "run_report demo_report_env (\<lambda>s. (s, None)) demo_report_flags = (0, msgs, written)"
proof -
  obtain gs where r: "fold_res (read_log demo_report_env True) [''access-x.log'', ''access-y.log''] (0, []) = Inr (1, gs)"
    by (rule demo_reads)
  have f: "rf_output demo_report_flags = ''-''" "rf_by_ingress demo_report_flags = True"
    "rf_paths demo_report_flags = [''access-x.log'', ''access-y.log'']" by (simp_all add: demo_report_flags_def)
  show ?thesis
    by (rule that, unfold run_report_def finish_report_def write_report_with_ingress_def f r Let_def) simp
qed

lemma demo_records:
  "map (\<lambda>(h, r). key_order (record_key h r)) (concat (map (log_records demo_report_env True) [''access-x.log'', ''access-y.log''])) =
     [[''x'', ''app:80'', ''200'', ''NONE''], [''x'', ''NONE'', ''NONE'', ''NONE''], [''x'', ''app:80'', ''200'', ''NONE''],
      [''y'', ''app:80'', ''200'', ''NONE'']]"
  by code_simp

theorem requests_grouped_witness:
  "case fold_res (read_log demo_report_env True) [''access-x.log'', ''access-y.log''] (0, []) of
     Inl _ \<Rightarrow> False
   | Inr (m, gs) \<Rightarrow>
       m = 1 \<and> (\<Sum>(k, a) \<leftarrow> gs. ag_requests a) = 4 \<and>
       ag_5xx (lookup_or empty_aggregate gs
         \<lparr>gk_ingress_host = ''x'', gk_upstream_addr = ''NONE'', gk_upstream_status = ''NONE'', gk_cache_status = ''NONE''\<rparr>) = 1"
proof -
  obtain gs where r: "fold_res (read_log demo_report_env True) [''access-x.log'', ''access-y.log''] (0, []) = Inr (1, gs)"
    by (rule demo_reads)
  let ?k = "\<lparr>gk_ingress_host = ''x'', gk_upstream_addr = ''NONE'', gk_upstream_status = ''NONE'', gk_cache_status = ''NONE''\<rparr>"
  have "length (concat (map (log_records demo_report_env True) [''access-x.log'', ''access-y.log''])) = 4" by code_simp
  moreover have "length (with_status 5 (of_key ?k (concat (map (log_records demo_report_env True) [''access-x.log'', ''access-y.log''])))) = 1"
    by code_simp
  ultimately show ?thesis using requests_grouped [OF r refl, of ?k] unfolding r Let_def sum.case prod.case by simp
qed

theorem report_order_independent_witness:
  "fst (run_report demo_report_env (\<lambda>s. (s, None)) demo_report_flags) = 0 \<and>
   run_report demo_report_env (\<lambda>s. (s, None)) (demo_report_flags\<lparr>rf_paths := [''access-y.log'', ''access-x.log'']\<rparr>) =
     run_report demo_report_env (\<lambda>s. (s, None)) demo_report_flags"
proof -
  obtain msgs written where r: "run_report demo_report_env (\<lambda>s. (s, None)) demo_report_flags = (0, msgs, written)"
    by (rule demo_run)
  have "mset [''access-y.log'', ''access-x.log''] = mset (rf_paths demo_report_flags)" by (simp add: demo_report_flags_def)
  from report_order_independent [OF r this] show ?thesis unfolding r by simp
qed

theorem report_read_back_witness:
  "case csv_parse (snd (snd (run_report demo_report_env (\<lambda>s. (s, None)) demo_report_flags))) of
     (header # rows, bad) \<Rightarrow>
       \<not> bad \<and> header = report_header True \<and>
       set (map (take 4) rows) =
         {[''x'', ''NONE'', ''NONE'', ''NONE''], [''x'', ''app:80'', ''200'', ''NONE''], [''y'', ''app:80'', ''200'', ''NONE'']}
   | _ \<Rightarrow> False"
proof -
  obtain msgs written where r: "run_report demo_report_env (\<lambda>s. (s, None)) demo_report_flags = (0, msgs, written)"
    by (rule demo_run)
  define recs where "recs = concat (map (log_records demo_report_env True) [''access-x.log'', ''access-y.log''])"
  have f: "rf_by_ingress demo_report_flags = True" "rf_paths demo_report_flags = [''access-x.log'', ''access-y.log'']"
    by (simp_all add: demo_report_flags_def)
  have c: "list_all (\<lambda>(h, r). clean_cell h \<and> clean_record r) recs" unfolding recs_def by code_simp
  have "(\<lambda>(h, r). key_columns True (record_key h r)) ` set recs = set (map (\<lambda>(h, r). key_order (record_key h r)) recs)"
    by (simp add: key_columns_def key_order_def case_prod_beta')
  also have "\<dots> = {[''x'', ''NONE'', ''NONE'', ''NONE''], [''x'', ''app:80'', ''200'', ''NONE''], [''y'', ''app:80'', ''200'', ''NONE'']}"
    unfolding recs_def demo_records by auto
  finally have k: "(\<lambda>(h, r). key_columns True (record_key h r)) ` set recs = \<dots>" .
  have "recs = concat (map (log_records demo_report_env (rf_by_ingress demo_report_flags)) (rf_paths demo_report_flags))"
    unfolding f recs_def ..
  from report_read_back [OF r this c] show ?thesis
    unfolding r snd_conv f Let_def if_True k by (auto split: list.splits prod.splits)
qed

end
