(* ===== verification/UserTransitions.thy ===== *)
theory UserTransitions
  imports GoInput GoPath GoTime GoGroup "HOL-Library.Product_Lexorder"
begin

text \<open>
  The transitions of the users of a RUN (tools/user-transition-metrics/main.go): the access logs are read line
  by line, the requests of the API are put into the session of their identity, and the report counts the
  consecutive requests of the sessions, in total and per scenario (the set of requests that a session made).

  Times are whole microseconds (64 bits in the source, unbounded here), counters natural numbers, other
  numbers rationals. Texts are ASCII where their case is changed. The sessions and the groups are maps in
  the order in which their keys first came. Parameters: the decoders of the configuration and of a line, the
  regular expressions, the path of a URI, SHA-256, the encoder of the report, the files.
\<close>

section \<open>The configuration\<close>

record route_config =
  rt_name :: string
  rt_pattern :: string

record user_config =
  uc_cookie_field :: string
  uc_api_prefix :: string
  uc_routes :: "route_config list"

type_synonym route = "string \<times> (string \<Rightarrow> bool)"

definition max_routes :: nat where
  "max_routes = 256"

text \<open>The routes from the index \<open>i\<close> on, with the names before it.\<close>

fun compile_routes :: "(string \<Rightarrow> go_error + (string \<Rightarrow> bool)) \<Rightarrow> nat \<Rightarrow> string list \<Rightarrow> route_config list \<Rightarrow> go_error + route list" where
  "compile_routes rc i seen [] = Inr []"
| "compile_routes rc i seen (r # rs) =
     (if rt_name r = [] \<or> rt_pattern r = [] then Inl (Errorf ''route requires name and pattern'' [format_nat i] [])
      else if rt_name r \<in> set seen then Inl (Errorf ''duplicate route name'' [rt_name r] [])
      else
        (case rc (rt_pattern r) of
           Inl e \<Rightarrow> Inl (Errorf ''route'' [rt_name r] [e])
         | Inr m \<Rightarrow>
             (case compile_routes rc (Suc i) (rt_name r # seen) rs of
                Inl e \<Rightarrow> Inl e
              | Inr ms \<Rightarrow> Inr ((rt_name r, m) # ms))))"

section \<open>The state\<close>

record transition_line =
  tl_msec :: "json option"
  tl_method :: string
  tl_uri :: string
  tl_status :: "json option"
  tl_response_time :: fval
  tl_fields :: "(string, json) gomap"

record event =
  ev_start :: int
  ev_end :: int
  ev_method :: string
  ev_route :: string
  ev_status :: int
  ev_ordinal :: nat

record line_counts =
  lc_files :: nat
  lc_lines :: nat
  lc_malformed :: nat
  lc_invalid_time :: nat
  lc_api :: nat
  lc_classified :: nat
  lc_unmatched :: nat
  lc_identified :: nat
  lc_missing :: nat
  lc_start_ms :: int
  lc_end_ms :: int

type_synonym sessions = "(string, event list) gomap"

record aggregator =
  ut_counts :: line_counts
  ut_sessions :: sessions
  ut_ordinal :: nat

record transition_env =
  te_read :: "string \<Rightarrow> go_error + string"
  te_config :: "string \<Rightarrow> go_error + user_config"
  te_compile :: "string \<Rightarrow> go_error + (string \<Rightarrow> bool)"
  te_logs :: log_sources
  te_decode :: "string \<Rightarrow> transition_line option"
  te_uri_path :: "string \<Rightarrow> string option"
  te_float :: float_parser
  te_sha256 :: "string \<Rightarrow> string"
  te_write :: "string \<Rightarrow> string \<Rightarrow> go_error option"

definition load_user_config :: "transition_env \<Rightarrow> string \<Rightarrow> go_error + user_config \<times> route list" where
  "load_user_config E path =
     (case te_read E path of
        Inl e \<Rightarrow> Inl (Errorf ''read config'' [] [e])
      | Inr body \<Rightarrow>
          (case te_config E body of
             Inl e \<Rightarrow> Inl (Errorf ''parse config'' [] [e])
           | Inr cfg \<Rightarrow>
               if uc_cookie_field cfg = [] \<or> uc_api_prefix cfg = []
               then Inl (Errorf ''cookie_field and api_prefix are required'' [] [])
               else if uc_routes cfg = [] \<or> max_routes < length (uc_routes cfg)
               then Inl (Errorf ''routes must contain 1..256 entries'' [] [])
               else
                 (case compile_routes (te_compile E) 0 [] (uc_routes cfg) of
                    Inl e \<Rightarrow> Inl e
                  | Inr rs \<Rightarrow> Inr (cfg, rs))))"

definition no_counts :: line_counts where
  "no_counts =
     \<lparr>lc_files = 0, lc_lines = 0, lc_malformed = 0, lc_invalid_time = 0, lc_api = 0, lc_classified = 0, lc_unmatched = 0,
      lc_identified = 0, lc_missing = 0, lc_start_ms = 0, lc_end_ms = 0\<rparr>"

definition new_aggregator :: aggregator where
  "new_aggregator = \<lparr>ut_counts = no_counts, ut_sessions = [], ut_ordinal = 0\<rparr>"

section \<open>The values of a line\<close>

definition normalize_path :: "transition_env \<Rightarrow> string \<Rightarrow> string" where
  "normalize_path E raw =
     (case te_uri_path E raw of Some p \<Rightarrow> p | None \<Rightarrow> (case cut_char (CHR ''?'') raw of Some (p, _) \<Rightarrow> p | None \<Rightarrow> raw))"

definition known_methods :: "string list" where
  "known_methods = [''GET'', ''POST'', ''PUT'', ''PATCH'', ''DELETE'', ''HEAD'', ''OPTIONS'']"

definition normalize_method :: "string \<Rightarrow> string" where
  "normalize_method m = (let u = map upper_char (trim_space m) in if u \<in> set known_methods then u else ''OTHER'')"

definition raw_string :: "json option \<Rightarrow> string" where
  "raw_string v = (case v of Some (JStr s) \<Rightarrow> s | _ \<Rightarrow> [])"

text \<open>Positive seconds as microseconds.\<close>

definition micros :: "rat \<Rightarrow> int" where
  "micros x = go_round (x * 1000000)"

definition raw_seconds_us :: "float_parser \<Rightarrow> json option \<Rightarrow> int option" where
  "raw_seconds_us pf v = (case json_float pf v of Some (Fin x) \<Rightarrow> (if 0 < x then Some (micros x) else None) | _ \<Rightarrow> None)"

text \<open>What \<open>strconv.Atoi\<close> returns besides its error: the nearest bound of a number out of range, otherwise 0.\<close>

definition atoi_value :: "string \<Rightarrow> int" where
  "atoi_value s =
     (case parse_int64 s of
        Some n \<Rightarrow> n
      | None \<Rightarrow>
          (case s of
             [] \<Rightarrow> 0
           | c # t \<Rightarrow>
               if c = CHR ''-'' then (if parse_digits t \<noteq> None then - 9223372036854775808 else 0)
               else if parse_digits (if c = CHR ''+'' then t else s) \<noteq> None then 9223372036854775807 else 0))"

definition raw_int :: "json option \<Rightarrow> int" where
  "raw_int v =
     (case v of
        Some (JNum s) \<Rightarrow> (case parse_int64 s of Some n \<Rightarrow> n | None \<Rightarrow> 0)
      | Some (JStr s) \<Rightarrow> atoi_value s
      | _ \<Rightarrow> 0)"

definition classify_path :: "route list \<Rightarrow> string \<Rightarrow> string option" where
  "classify_path routes path = map_option fst (find (\<lambda>(name, matches). matches path) routes)"

section \<open>Reading the logs\<close>

text \<open>The time of a response in microseconds, when it is a finite number that is not negative.\<close>

definition response_us :: "fval \<Rightarrow> int option" where
  "response_us x = (case x of Fin r \<Rightarrow> (if r < 0 then None else Some (micros r)) | _ \<Rightarrow> None)"

text \<open>The window of the events in milliseconds, from 0 while there are none.\<close>

definition widen_window :: "int \<Rightarrow> int \<Rightarrow> line_counts \<Rightarrow> line_counts" where
  "widen_window s e c =
     c\<lparr>lc_start_ms := (if lc_start_ms c = 0 \<or> s sdiv 1000 < lc_start_ms c then s sdiv 1000 else lc_start_ms c),
       lc_end_ms := (if lc_end_ms c < e sdiv 1000 then e sdiv 1000 else lc_end_ms c)\<rparr>"

definition add_event :: "transition_env \<Rightarrow> transition_line \<Rightarrow> string \<Rightarrow> string \<Rightarrow> int \<Rightarrow> int \<Rightarrow> aggregator \<Rightarrow> aggregator" where
  "add_event E l identity route e response a =
     (let s = e - response; c = ut_counts a; ordinal = Suc (ut_ordinal a);
          ev = \<lparr>ev_start = s, ev_end = e, ev_method = normalize_method (tl_method l), ev_route = route,
                ev_status = raw_int (tl_status l), ev_ordinal = ordinal\<rparr>
      in \<lparr>ut_counts = widen_window s e (c\<lparr>lc_identified := Suc (lc_identified c)\<rparr>),
          ut_sessions = put_group (\<lambda>x xs. xs @ [x]) [] (te_sha256 E identity, ev) (ut_sessions a),
          ut_ordinal = ordinal\<rparr>)"

text \<open>A request of the API with a route.\<close>

definition take_request :: "transition_env \<Rightarrow> user_config \<Rightarrow> int \<Rightarrow> transition_line \<Rightarrow> string \<Rightarrow> aggregator \<Rightarrow> go_error + aggregator" where
  "take_request E cfg max_events l route a =
     (let identity = raw_string (map_of (tl_fields l) (uc_cookie_field cfg)); c = ut_counts a in
      if identity = [] \<or> identity = ''-'' then Inr (a\<lparr>ut_counts := c\<lparr>lc_missing := Suc (lc_missing c)\<rparr>\<rparr>)
      else
        (case (raw_seconds_us (te_float E) (tl_msec l), response_us (tl_response_time l)) of
           (Some e, Some response) \<Rightarrow>
             if max_events \<le> int (lc_identified c)
             then Inl (Errorf ''classified events exceed -max-events'' [format_int max_events] [])
             else Inr (add_event E l identity route e response a)
         | _ \<Rightarrow> Inr (a\<lparr>ut_counts := c\<lparr>lc_invalid_time := Suc (lc_invalid_time c)\<rparr>\<rparr>)))"

definition scan_transition_line ::
    "transition_env \<Rightarrow> user_config \<Rightarrow> route list \<Rightarrow> int \<Rightarrow> string \<Rightarrow> aggregator \<Rightarrow> go_error + aggregator" where
  "scan_transition_line E cfg routes max_events raw a0 =
     (let c0 = ut_counts a0; c = c0\<lparr>lc_lines := Suc (lc_lines c0)\<rparr>; a = a0\<lparr>ut_counts := c\<rparr>; line = trim_space raw in
      if line = [] then Inr a
      else
        (case te_decode E line of
           None \<Rightarrow> Inr (a\<lparr>ut_counts := c\<lparr>lc_malformed := Suc (lc_malformed c)\<rparr>\<rparr>)
         | Some l \<Rightarrow>
             (let path = normalize_path E (tl_uri l) in
              if \<not> has_prefix path (uc_api_prefix cfg) then Inr a
              else
                (let c1 = c\<lparr>lc_api := Suc (lc_api c)\<rparr> in
                 case classify_path routes path of
                   None \<Rightarrow> Inr (a\<lparr>ut_counts := c1\<lparr>lc_unmatched := Suc (lc_unmatched c1)\<rparr>\<rparr>)
                 | Some route \<Rightarrow>
                     take_request E cfg max_events l route (a\<lparr>ut_counts := c1\<lparr>lc_classified := Suc (lc_classified c1)\<rparr>\<rparr>)))))"

definition transition_limit :: int where
  "transition_limit = 4 * 1024 * 1024"

text \<open>Closing the output of a command joins the errors of closing and of waiting.\<close>

definition close_joined :: "stream \<Rightarrow> go_error option \<Rightarrow> go_error option" where
  "close_joined pipe wait = errors_join (List.map_filter id [in_close_err pipe, wait])"

definition open_transition_log :: "log_sources \<Rightarrow> string \<Rightarrow> go_error + stream" where
  "open_transition_log L path =
     (if path = ''-'' then Inr ((lg_stdin L)\<lparr>in_close_err := None\<rparr>)
      else if has_suffix path ''.zst'' then
        (case lg_zstd L path of
           Inl e \<Rightarrow> Inl e
         | Inr (pipe, wait) \<Rightarrow> Inr (pipe\<lparr>in_close_err := close_joined pipe wait\<rparr>))
      else lg_file L path)"

text \<open>An error in the middle of a log ends the command, so that the state is not kept.\<close>

definition scan_path ::
    "transition_env \<Rightarrow> user_config \<Rightarrow> route list \<Rightarrow> int \<Rightarrow> string \<Rightarrow> aggregator \<Rightarrow> go_error + aggregator" where
  "scan_path E cfg routes max_events path a =
     (case open_transition_log (te_logs E) path of
        Inl e \<Rightarrow> Inl (Errorf ''open'' [path] [e])
      | Inr f \<Rightarrow>
          (let c = ut_counts a;
               r = fold_res (scan_transition_line E cfg routes max_events) (fst (scan_lines transition_limit (in_body f)))
                     (a\<lparr>ut_counts := c\<lparr>lc_files := Suc (lc_files c)\<rparr>\<rparr>);
               scan_err = (case r of Inl e \<Rightarrow> Some e | Inr _ \<Rightarrow> scan_error transition_limit f)
           in case (errors_join (List.map_filter id [scan_err, in_close_err f]), r) of
                (None, Inr a1) \<Rightarrow> Inr a1
              | (Some e, _) \<Rightarrow> Inl e
              | (None, Inl e) \<Rightarrow> Inl e))"

section \<open>Sequences of requests\<close>

definition event_order :: "event \<Rightarrow> int \<times> int \<times> nat" where
  "event_order e = (ev_start e, ev_end e, ev_ordinal e)"

definition sort_events :: "event list \<Rightarrow> event list" where
  "sort_events es = sort_key event_order es"

record edge_key =
  ek_from_method :: string
  ek_from_route :: string
  ek_to_method :: string
  ek_to_route :: string

record edge_aggregate =
  ea_count :: nat
  ea_sessions :: nat
  ea_overlap :: nat
  ea_ambiguous :: nat
  ea_from_statuses :: "nat list"
  ea_to_statuses :: "nat list"
  ea_start_gaps :: "rat list"
  ea_idle_sum :: rat

definition empty_edge :: edge_aggregate where
  "empty_edge =
     \<lparr>ea_count = 0, ea_sessions = 0, ea_overlap = 0, ea_ambiguous = 0, ea_from_statuses = replicate 6 0,
      ea_to_statuses = replicate 6 0, ea_start_gaps = [], ea_idle_sum = 0\<rparr>"

definition status_bucket :: "int \<Rightarrow> nat" where
  "status_bucket status = (let b = status sdiv 100 in if b < 1 \<or> 5 < b then 0 else nat b)"

abbreviation ms_of :: "int \<Rightarrow> rat" where
  "ms_of us \<equiv> of_int us / 1000"

definition bump :: "nat \<Rightarrow> nat list \<Rightarrow> nat list" where
  "bump i xs = xs[i := Suc (xs ! i)]"

definition overlapping :: "event \<Rightarrow> event \<Rightarrow> bool" where
  "overlapping a b \<longleftrightarrow> ev_start b - ev_end a < 0"

text \<open>One transition, the first one of its edge in the session or not.\<close>

definition add_transition :: "bool \<times> event \<times> event \<Rightarrow> edge_aggregate \<Rightarrow> edge_aggregate" where
  "add_transition t g =
     (case t of
        (first, a, b) \<Rightarrow>
          g\<lparr>ea_count := Suc (ea_count g),
            ea_sessions := (if first then Suc (ea_sessions g) else ea_sessions g),
            ea_start_gaps := ea_start_gaps g @ [ms_of (ev_start b - ev_start a)],
            ea_overlap := (if overlapping a b then Suc (ea_overlap g) else ea_overlap g),
            ea_ambiguous := (if ev_start b = ev_start a then Suc (ea_ambiguous g) else ea_ambiguous g),
            ea_idle_sum := ea_idle_sum g + ms_of (if overlapping a b then 0 else ev_start b - ev_end a),
            ea_from_statuses := bump (status_bucket (ev_status a)) (ea_from_statuses g),
            ea_to_statuses := bump (status_bucket (ev_status b)) (ea_to_statuses g)\<rparr>)"

type_synonym edge_map = "(edge_key, edge_aggregate) gomap"

definition edge_of :: "event \<Rightarrow> event \<Rightarrow> edge_key" where
  "edge_of a b =
     \<lparr>ek_from_method = ev_method a, ek_from_route = ev_route a, ek_to_method = ev_method b, ek_to_route = ev_route b\<rparr>"

text \<open>The state of the loop: the edges, those seen in this session, the overlapping and the ambiguous
  transitions of it.\<close>

definition sequence_step :: "event \<times> event \<Rightarrow> edge_map \<times> edge_key list \<times> nat \<times> nat \<Rightarrow> edge_map \<times> edge_key list \<times> nat \<times> nat" where
  "sequence_step ab st =
     (case (ab, st) of
        ((a, b), (es, seen, overlaps, ambiguous)) \<Rightarrow>
          (let k = edge_of a b in
           (put_group add_transition empty_edge (k, (k \<notin> set seen, a, b)) es,
            (if k \<in> set seen then seen else k # seen),
            (if overlapping a b then Suc overlaps else overlaps),
            (if ev_start b = ev_start a then Suc ambiguous else ambiguous))))"

definition add_sequence :: "event list \<Rightarrow> edge_map \<Rightarrow> edge_map \<times> nat \<times> nat" where
  "add_sequence events es =
     (case fold sequence_step (zip events (tl events)) (es, [], 0, 0) of
        (es1, _, overlaps, ambiguous) \<Rightarrow> (es1, overlaps, ambiguous))"

section \<open>The reports of edges\<close>

definition average_ms :: "rat list \<Rightarrow> rat" where
  "average_ms xs = (if xs = [] then 0 else sum_list xs / of_nat (length xs))"

definition percentile_index :: "nat \<Rightarrow> rat \<Rightarrow> nat" where
  "percentile_index n q =
     (let i = \<lceil>q * of_nat n\<rceil> - 1 in if i < 0 then 0 else if int n \<le> i then n - 1 else nat i)"

definition percentile :: "rat list \<Rightarrow> rat \<Rightarrow> rat" where
  "percentile xs q = (if xs = [] then 0 else xs ! percentile_index (length xs) q)"

record edge_report =
  er_key :: edge_key
  er_transitions :: nat
  er_sessions :: nat
  er_overlap :: nat
  er_ambiguous :: nat
  er_gap_avg :: rat
  er_gap_p50 :: rat
  er_gap_p95 :: rat
  er_idle_avg :: rat
  er_from :: "nat list"
  er_to :: "nat list"

text \<open>The counters of the statuses in the order 2xx, 3xx, 4xx, 5xx, other.\<close>

definition status_columns :: "nat list \<Rightarrow> nat list" where
  "status_columns xs = [xs ! 2, xs ! 3, xs ! 4, xs ! 5, xs ! 0 + xs ! 1]"

definition edge_report_of :: "edge_key \<Rightarrow> edge_aggregate \<Rightarrow> edge_report" where
  "edge_report_of k g =
     (let gaps = sort (ea_start_gaps g) in
      \<lparr>er_key = k, er_transitions = ea_count g, er_sessions = ea_sessions g, er_overlap = ea_overlap g,
       er_ambiguous = ea_ambiguous g, er_gap_avg = average_ms gaps, er_gap_p50 = percentile gaps (1 / 2),
       er_gap_p95 = percentile gaps (95 / 100), er_idle_avg = ea_idle_sum g / of_nat (ea_count g),
       er_from = status_columns (ea_from_statuses g), er_to = status_columns (ea_to_statuses g)\<rparr>)"

definition edge_label :: "edge_key \<Rightarrow> string" where
  "edge_label k =
     ek_from_method k @ '' '' @ ek_from_route k @ [CHR 0x00] @ ek_to_method k @ '' '' @ ek_to_route k"

definition edge_order :: "edge_report \<Rightarrow> int \<times> string" where
  "edge_order r = (- int (er_transitions r), edge_label (er_key r))"

definition edge_reports :: "edge_map \<Rightarrow> edge_report list" where
  "edge_reports es = sort_key edge_order (map (\<lambda>(k, g). edge_report_of k g) es)"

section \<open>Scenarios\<close>

definition node_id :: "event \<Rightarrow> string" where
  "node_id e = ev_method e @ '' '' @ ev_route e"

definition scenario_signature :: "event list \<Rightarrow> string list" where
  "scenario_signature es = sort (remdups (map node_id es))"

record node_aggregate =
  na_method :: string
  na_route :: string
  na_requests :: nat
  na_sessions :: nat
  na_first :: nat
  na_last :: nat
  na_position_sum :: rat
  na_offset_sum :: rat

type_synonym nodes = "(string, node_aggregate) gomap"

record scenario_aggregate =
  sa_signature :: "string list"
  sa_sessions :: nat
  sa_requests :: nat
  sa_transitions :: nat
  sa_overlaps :: nat
  sa_ambiguous :: nat
  sa_durations :: "rat list"
  sa_nodes :: nodes
  sa_edges :: edge_map

definition empty_scenario :: "string list \<Rightarrow> scenario_aggregate" where
  "empty_scenario sig =
     \<lparr>sa_signature = sig, sa_sessions = 0, sa_requests = 0, sa_transitions = 0, sa_overlaps = 0, sa_ambiguous = 0,
      sa_durations = [], sa_nodes = [], sa_edges = []\<rparr>"

text \<open>One request of a session: its event, whether its node is new in the session, and the values that it
  adds when it is; whether it is the first and the last one.\<close>

record node_visit =
  nv_event :: event
  nv_new :: bool
  nv_position :: rat
  nv_offset :: rat
  nv_first :: bool
  nv_last :: bool

definition empty_node :: node_aggregate where
  "empty_node =
     \<lparr>na_method = [], na_route = [], na_requests = 0, na_sessions = 0, na_first = 0, na_last = 0,
      na_position_sum = 0, na_offset_sum = 0\<rparr>"

text \<open>A node gets its method and route when it is made, with its first request.\<close>

definition add_visit :: "node_visit \<Rightarrow> node_aggregate \<Rightarrow> node_aggregate" where
  "add_visit v n0 =
     (let n = (if na_requests n0 = 0
               then n0\<lparr>na_method := ev_method (nv_event v), na_route := ev_route (nv_event v)\<rparr> else n0) in
      n\<lparr>na_requests := Suc (na_requests n),
        na_sessions := (if nv_new v then Suc (na_sessions n) else na_sessions n),
        na_position_sum := (if nv_new v then na_position_sum n + nv_position v else na_position_sum n),
        na_offset_sum := (if nv_new v then na_offset_sum n + nv_offset v else na_offset_sum n),
        na_first := (if nv_first v then Suc (na_first n) else na_first n),
        na_last := (if nv_last v then Suc (na_last n) else na_last n)\<rparr>)"

definition visits :: "event list \<Rightarrow> node_visit list" where
  "visits es =
     map (\<lambda>i. \<lparr>nv_event = es ! i,
                nv_new = (node_id (es ! i) \<notin> set (map node_id (take i es))),
                nv_position = (if 1 < length es then of_nat i / of_nat (length es - 1) else 0),
                nv_offset = ms_of (ev_start (es ! i) - ev_start (es ! 0)),
                nv_first = (i = 0),
                nv_last = (i = length es - 1)\<rparr>)
       [0..<length es]"

definition keyed_visits :: "event list \<Rightarrow> (string \<times> node_visit) list" where
  "keyed_visits es = map (\<lambda>v. (node_id (nv_event v), v)) (visits es)"

definition add_session :: "event list \<Rightarrow> scenario_aggregate \<Rightarrow> scenario_aggregate" where
  "add_session es s =
     (if es = [] then s
      else
        (case add_sequence es (sa_edges s) of
           (es1, overlaps, ambiguous) \<Rightarrow>
             s\<lparr>sa_sessions := Suc (sa_sessions s),
               sa_requests := sa_requests s + length es,
               sa_transitions := sa_transitions s + (length es - 1),
               sa_edges := es1,
               sa_overlaps := sa_overlaps s + overlaps,
               sa_ambiguous := sa_ambiguous s + ambiguous,
               sa_durations := sa_durations s @ [ms_of (ev_end (last es) - ev_start (hd es))],
               sa_nodes := fold (put_group add_visit empty_node) (keyed_visits es) (sa_nodes s)\<rparr>))"

record node_report =
  nr_method :: string
  nr_route :: string
  nr_requests :: nat
  nr_sessions :: nat
  nr_first :: nat
  nr_last :: nat
  nr_position_avg :: rat
  nr_offset_avg :: rat

record scenario_report =
  sr_id :: string
  sr_signature :: "string list"
  sr_sessions :: nat
  sr_requests :: nat
  sr_transitions :: nat
  sr_overlap :: nat
  sr_ambiguous :: nat
  sr_requests_avg :: rat
  sr_duration_p50 :: rat
  sr_duration_p95 :: rat
  sr_nodes :: "node_report list"
  sr_edges :: "edge_report list"

definition node_report_of :: "node_aggregate \<Rightarrow> node_report" where
  "node_report_of n =
     \<lparr>nr_method = na_method n, nr_route = na_route n, nr_requests = na_requests n, nr_sessions = na_sessions n,
      nr_first = na_first n, nr_last = na_last n,
      nr_position_avg = (if na_sessions n = 0 then 0 else na_position_sum n / of_nat (na_sessions n)),
      nr_offset_avg = (if na_sessions n = 0 then 0 else na_offset_sum n / of_nat (na_sessions n))\<rparr>"

definition node_order :: "node_report \<Rightarrow> int \<times> string" where
  "node_order n = (- int (nr_requests n), nr_method n @ '' '' @ nr_route n)"

definition hex_byte :: "char \<Rightarrow> string" where
  "hex_byte c =
     (let n = of_char c :: nat; digit = (\<lambda>d. if d < 10 then digit_char d else char_of (d + 87)) in
      [digit (n div 16), digit (n mod 16)])"

definition scenario_id :: "(string \<Rightarrow> string) \<Rightarrow> string list \<Rightarrow> string" where
  "scenario_id sha sig = ''scenario-'' @ concat (map hex_byte (take 6 (sha (join_with [newline_char] sig))))"

definition scenario_report_of :: "(string \<Rightarrow> string) \<Rightarrow> scenario_aggregate \<Rightarrow> scenario_report" where
  "scenario_report_of sha s =
     (let durations = sort (sa_durations s) in
      \<lparr>sr_id = scenario_id sha (sa_signature s), sr_signature = sa_signature s, sr_sessions = sa_sessions s,
       sr_requests = sa_requests s, sr_transitions = sa_transitions s, sr_overlap = sa_overlaps s,
       sr_ambiguous = sa_ambiguous s, sr_requests_avg = of_nat (sa_requests s) / of_nat (sa_sessions s),
       sr_duration_p50 = percentile durations (1 / 2), sr_duration_p95 = percentile durations (95 / 100),
       sr_nodes = sort_key node_order (map (\<lambda>(k, n). node_report_of n) (sa_nodes s)),
       sr_edges = edge_reports (sa_edges s)\<rparr>)"

section \<open>The report\<close>

record session_totals =
  st_sessions :: nat
  st_transitions :: nat
  st_overlapping :: nat
  st_ambiguous :: nat
  st_groups :: nat
  st_emitted :: nat
  st_omitted :: nat

record user_report =
  tr_identity_field :: string
  tr_counts :: line_counts
  tr_totals :: session_totals
  tr_edges :: "edge_report list"
  tr_scenarios :: "scenario_report list"

text \<open>The state of the loop over the sessions: the edges, the groups, and the three sums.\<close>

type_synonym groups_state = "edge_map \<times> (string, scenario_aggregate) gomap \<times> nat \<times> nat \<times> nat"

text \<open>A group gets its signature when it is made, with its first session.\<close>

definition join_scenario :: "event list \<Rightarrow> scenario_aggregate \<Rightarrow> scenario_aggregate" where
  "join_scenario es g = add_session es (if sa_sessions g = 0 then empty_scenario (scenario_signature es) else g)"

definition scenario_key :: "event list \<Rightarrow> string" where
  "scenario_key es = join_with [CHR 0x00] (scenario_signature es)"

definition report_session :: "event list \<Rightarrow> groups_state \<Rightarrow> groups_state" where
  "report_session es0 st =
     (case st of
        (edges, groups, transitions, overlapped, ambiguous) \<Rightarrow>
          (let es = sort_events es0 in
           case add_sequence es edges of
             (edges1, o1, a1) \<Rightarrow>
               (edges1, put_group join_scenario (empty_scenario []) (scenario_key es, es) groups,
                transitions + (length es - 1), overlapped + o1, ambiguous + a1)))"

definition scenario_order :: "scenario_report \<Rightarrow> int \<times> int \<times> string" where
  "scenario_order s = (- int (sr_sessions s), - int (sr_requests s), sr_id s)"

definition build_report :: "(string \<Rightarrow> string) \<Rightarrow> user_config \<Rightarrow> nat \<Rightarrow> aggregator \<Rightarrow> user_report" where
  "build_report sha cfg max_scenarios a =
     (case fold report_session (map snd (ut_sessions a)) ([], [], 0, 0, 0) of
        (edges, groups, transitions, overlapped, ambiguous) \<Rightarrow>
          (let scenarios = sort_key scenario_order (map (\<lambda>(k, g). scenario_report_of sha g) groups);
               emitted = take max_scenarios scenarios
           in \<lparr>tr_identity_field = uc_cookie_field cfg,
               tr_counts = ut_counts a,
               tr_totals =
                 \<lparr>st_sessions = length (ut_sessions a), st_transitions = transitions, st_overlapping = overlapped,
                  st_ambiguous = ambiguous, st_groups = length scenarios, st_emitted = length emitted,
                  st_omitted = sum_list (map sr_sessions (drop max_scenarios scenarios))\<rparr>,
               tr_edges = edge_reports edges,
               tr_scenarios = emitted\<rparr>))"

section \<open>The command\<close>

record transition_flags =
  tf_config :: string
  tf_output :: string
  tf_max_events :: int
  tf_max_scenarios :: int
  tf_max_output :: int
  tf_paths :: "string list"

text \<open>The text of the report, or the error that ends the command with status 1; what is written goes to the
  output through \<open>te_write\<close>.\<close>

definition run_transitions ::
    "transition_env \<Rightarrow> (user_report \<Rightarrow> go_error + string) \<Rightarrow> transition_flags \<Rightarrow> go_error + string" where
  "run_transitions E encode f =
     (if tf_paths f = [] then Inl (Errorf ''at least one access log path is required'' [] [])
      else if tf_max_events f \<le> 0 \<or> tf_max_scenarios f \<le> 0 \<or> tf_max_output f \<le> 0
      then Inl (Errorf ''limits must be positive'' [] [])
      else
        (case load_user_config E (tf_config f) of
           Inl e \<Rightarrow> Inl e
         | Inr (cfg, routes) \<Rightarrow>
             (case fold_res (scan_path E cfg routes (tf_max_events f)) (tf_paths f) new_aggregator of
                Inl e \<Rightarrow> Inl e
              | Inr a \<Rightarrow>
                  (case encode (build_report (te_sha256 E) cfg (nat (tf_max_scenarios f)) a) of
                     Inl e \<Rightarrow> Inl (Errorf ''encode report'' [] [e])
                   | Inr text0 \<Rightarrow>
                       (let body = text0 @ [newline_char] in
                        if tf_max_output f < int (length body)
                        then Inl (Errorf ''report is too large'' [format_int (int (length body)), format_int (tf_max_output f)] [])
                        else
                          (case te_write E (tf_output f) body of
                             Some e \<Rightarrow> Inl (Errorf ''write report'' [] [e])
                           | None \<Rightarrow> Inr body))))))"

end
