(* ===== verification/UserTransitionsProperties.thy ===== *)
theory UserTransitionsProperties
  imports UserTransitions
begin

text \<open>
  What the report of the transitions says: every request of the API that can be used is one event, every pair
  of consecutive events of a session is counted once on its edge, every session in one scenario; the report
  does not depend on the identities, nor on the order in which the sessions are visited; a percentile is a
  value that was measured, at its rank.
\<close>

section \<open>The transitions of a session\<close>

text \<open>The pairs of consecutive events with their edge, and whether it is the first of its edge.\<close>

fun marked :: "edge_key list \<Rightarrow> (event \<times> event) list \<Rightarrow> (edge_key \<times> bool \<times> event \<times> event) list" where
  "marked seen [] = []"
| "marked seen ((a, b) # ps) =
     (edge_of a b, edge_of a b \<notin> set seen, a, b) #
       marked (if edge_of a b \<in> set seen then seen else edge_of a b # seen) ps"

abbreviation pairs_of :: "event list \<Rightarrow> (event \<times> event) list" where
  "pairs_of es \<equiv> zip es (tl es)"

definition contribs :: "event list \<Rightarrow> (edge_key \<times> bool \<times> event \<times> event) list" where
  "contribs es = marked [] (pairs_of es)"

definition overlaps_in :: "event list \<Rightarrow> nat" where
  "overlaps_in es = length (filter (\<lambda>(a, b). overlapping a b) (pairs_of es))"

definition ambiguous_in :: "event list \<Rightarrow> nat" where
  "ambiguous_in es = length (filter (\<lambda>(a, b). ev_start b = ev_start a) (pairs_of es))"

lemma fold_sequence_step:
  "\<exists>seen'. fold sequence_step ps (es, seen, n, m) =
     (fold (put_group add_transition empty_edge) (marked seen ps) es, seen',
      n + length (filter (\<lambda>(a, b). overlapping a b) ps), m + length (filter (\<lambda>(a, b). ev_start b = ev_start a) ps))"
proof (induction seen ps arbitrary: es n m rule: marked.induct)
  case (2 seen a b ps)
  define n1 where "n1 = (if overlapping a b then Suc n else n)"
  define m1 where "m1 = (if ev_start b = ev_start a then Suc m else m)"
  have "sequence_step (a, b) (es, seen, n, m) =
      (put_group add_transition empty_edge (edge_of a b, edge_of a b \<notin> set seen, a, b) es,
       (if edge_of a b \<in> set seen then seen else edge_of a b # seen), n1, m1)"
    by (simp add: sequence_step_def Let_def n1_def m1_def)
  moreover have "n + length (filter (\<lambda>(a, b). overlapping a b) ((a, b) # ps)) = n1 + length (filter (\<lambda>(a, b). overlapping a b) ps)"
    and "m + length (filter (\<lambda>(a, b). ev_start b = ev_start a) ((a, b) # ps)) = m1 + length (filter (\<lambda>(a, b). ev_start b = ev_start a) ps)"
    by (simp_all add: n1_def m1_def)
  ultimately show ?case
    using 2 [of "put_group add_transition empty_edge (edge_of a b, edge_of a b \<notin> set seen, a, b) es" n1 m1]
    by (simp only: fold.simps marked.simps comp_apply)
qed simp

lemma add_sequence_eq:
  "add_sequence es edges =
     (fold (put_group add_transition empty_edge) (contribs es) edges, overlaps_in es, ambiguous_in es)"
  using fold_sequence_step [of "pairs_of es" edges "[]" 0 0]
  by (auto simp: add_sequence_def contribs_def overlaps_in_def ambiguous_in_def)

lemma marked_pairs: "map (\<lambda>(k, f, a, b). (a, b)) (marked seen ps) = ps"
  by (induction seen ps rule: marked.induct) simp_all

lemma marked_keys: "map fst (marked seen ps) = map (\<lambda>(a, b). edge_of a b) ps"
  by (induction seen ps rule: marked.induct) simp_all

lemma length_marked [simp]: "length (marked seen ps) = length ps"
  by (induction seen ps rule: marked.induct) simp_all

lemma length_contribs: "length (contribs es) = length es - 1"
  by (simp add: contribs_def)

text \<open>A session marks the first transition of each of its edges.\<close>

lemma marked_first:
  "length (filter (\<lambda>(first, a, b). first) (items_of k (marked seen ps))) =
     (if k \<notin> set seen \<and> k \<in> (\<lambda>(a, b). edge_of a b) ` set ps then 1 else 0)"
proof (induction seen ps rule: marked.induct)
  case (2 seen a b ps)
  then show ?case by (cases "edge_of a b = k") (auto simp: items_of_Cons)
qed simp

section \<open>The counters of an edge\<close>

definition gap_of :: "bool \<times> event \<times> event \<Rightarrow> rat" where
  "gap_of t = (case t of (f, a, b) \<Rightarrow> ms_of (ev_start b - ev_start a))"

definition idle_of :: "bool \<times> event \<times> event \<Rightarrow> rat" where
  "idle_of t = (case t of (f, a, b) \<Rightarrow> ms_of (if overlapping a b then 0 else ev_start b - ev_end a))"

definition edge_sum :: "(bool \<times> event \<times> event) list \<Rightarrow> edge_aggregate" where
  "edge_sum ts = fold add_transition ts empty_edge"

lemma status_bucket_less: "status_bucket s < 6"
  by (auto simp: status_bucket_def Let_def)

text \<open>How many items have each bucket.\<close>

definition bucket_counts :: "('a \<Rightarrow> nat) \<Rightarrow> 'a list \<Rightarrow> nat list" where
  "bucket_counts f ts = map (\<lambda>i. length (filter (\<lambda>t. f t = i) ts)) [0..<6]"

lemma bump_counts: "f t < 6 \<Longrightarrow> bump (f t) (bucket_counts f ts) = bucket_counts f (ts @ [t])"
  by (rule nth_equalityI) (auto simp: bucket_counts_def bump_def nth_list_update simp del: upt_Suc)

lemma bucket_counts_Nil: "bucket_counts f [] = replicate 6 0"
  by (simp add: bucket_counts_def map_replicate_const)

lemma edge_sum_snoc: "edge_sum (ts @ [t]) = add_transition t (edge_sum ts)"
  by (simp add: edge_sum_def)

lemma edge_sum_Nil: "edge_sum [] = empty_edge"
  by (simp add: edge_sum_def)

lemma edge_sum_counts:
  "ea_count (edge_sum ts) = length ts"
  "ea_sessions (edge_sum ts) = length (filter (\<lambda>(f, a, b). f) ts)"
  "ea_overlap (edge_sum ts) = length (filter (\<lambda>(f, a, b). overlapping a b) ts)"
  "ea_ambiguous (edge_sum ts) = length (filter (\<lambda>(f, a, b). ev_start b = ev_start a) ts)"
  by (induction ts rule: rev_induct) (auto simp: edge_sum_snoc edge_sum_Nil add_transition_def empty_edge_def split: prod.splits)

lemma edge_sum_times:
  "ea_start_gaps (edge_sum ts) = map gap_of ts" "ea_idle_sum (edge_sum ts) = sum_list (map idle_of ts)"
  by (induction ts rule: rev_induct)
    (auto simp: edge_sum_snoc edge_sum_Nil add_transition_def empty_edge_def gap_of_def idle_of_def split: prod.splits)

definition from_bucket :: "bool \<times> event \<times> event \<Rightarrow> nat" where
  "from_bucket t = status_bucket (ev_status (fst (snd t)))"

definition to_bucket :: "bool \<times> event \<times> event \<Rightarrow> nat" where
  "to_bucket t = status_bucket (ev_status (snd (snd t)))"

lemma edge_buckets [simp]:
  "from_bucket (f, a, b) = status_bucket (ev_status a)" "to_bucket (f, a, b) = status_bucket (ev_status b)"
  by (simp_all add: from_bucket_def to_bucket_def)

lemma edge_sum_statuses:
  "ea_from_statuses (edge_sum ts) = bucket_counts from_bucket ts"
  "ea_to_statuses (edge_sum ts) = bucket_counts to_bucket ts"
proof (induction ts rule: rev_induct)
  case (snoc t ts)
  case 1
  show ?case using snoc(1) bump_counts [of from_bucket t ts]
    by (cases t) (simp add: edge_sum_snoc add_transition_def status_bucket_less)
  case 2
  show ?case using snoc(2) bump_counts [of to_bucket t ts]
    by (cases t) (simp add: edge_sum_snoc add_transition_def status_bucket_less)
qed (simp_all add: edge_sum_Nil empty_edge_def bucket_counts_Nil)

text \<open>The report of an edge does not depend on the order of its transitions.\<close>

lemma filter_mset_length: "mset xs = mset ys \<Longrightarrow> length (filter P xs) = length (filter P ys)"
  by (metis mset_filter size_mset)

lemma bucket_counts_mset: "mset xs = mset ys \<Longrightarrow> bucket_counts f xs = bucket_counts f ys"
  unfolding bucket_counts_def by (rule map_cong [OF refl], rule filter_mset_length)

lemma edge_report_mset:
  assumes "mset us = mset vs"
  shows "edge_report_of k (edge_sum us) = edge_report_of k (edge_sum vs)"
proof -
  have "length us = length vs" by (rule mset_eq_length [OF assms])
  moreover have "sort (map gap_of us) = sort (map gap_of vs)"
    by (intro properties_for_sort) (simp_all add: assms)
  moreover have "sum_list (map idle_of us) = sum_list (map idle_of vs)"
    using assms by (metis mset_map sum_mset_sum_list)
  ultimately show ?thesis
    by (simp only: edge_report_of_def edge_sum_counts edge_sum_times edge_sum_statuses filter_mset_length [OF assms]
      bucket_counts_mset [OF assms])
qed

section \<open>The loop over the sessions\<close>

text \<open>The sessions as the report sees them.\<close>

definition sorted_sessions :: "aggregator \<Rightarrow> event list list" where
  "sorted_sessions a = map (\<lambda>(k, es). sort_events es) (ut_sessions a)"

definition all_edges :: "event list list \<Rightarrow> edge_map" where
  "all_edges ss = group_all add_transition empty_edge (concat (map contribs ss))"

definition all_scenarios :: "event list list \<Rightarrow> (string, scenario_aggregate) gomap" where
  "all_scenarios ss = group_all join_scenario (empty_scenario []) (map (\<lambda>es. (scenario_key es, es)) ss)"

lemma fold_report_session:
  "fold report_session ls (es, gs, n, m, q) =
     (fold (put_group add_transition empty_edge) (concat (map (contribs \<circ> sort_events) ls)) es,
      fold (put_group join_scenario (empty_scenario [])) (map (\<lambda>l. (scenario_key (sort_events l), sort_events l)) ls) gs,
      n + (\<Sum>l \<leftarrow> ls. length (sort_events l) - 1), m + (\<Sum>l \<leftarrow> ls. overlaps_in (sort_events l)),
      q + (\<Sum>l \<leftarrow> ls. ambiguous_in (sort_events l)))"
  by (induction ls arbitrary: es gs n m q) (simp_all add: report_session_def add_sequence_eq Let_def)

lemma report_loop:
  "fold report_session (map snd (ut_sessions a)) ([], [], 0, 0, 0) =
     (all_edges (sorted_sessions a), all_scenarios (sorted_sessions a),
      (\<Sum>l \<leftarrow> sorted_sessions a. length l - 1), (\<Sum>l \<leftarrow> sorted_sessions a. overlaps_in l),
      (\<Sum>l \<leftarrow> sorted_sessions a. ambiguous_in l))"
  by (simp add: fold_report_session all_edges_def all_scenarios_def sorted_sessions_def group_all_def comp_def case_prod_beta')

definition scenarios_of :: "(string \<Rightarrow> string) \<Rightarrow> aggregator \<Rightarrow> scenario_report list" where
  "scenarios_of sha a =
     sort_key scenario_order (map (\<lambda>(k, g). scenario_report_of sha g) (all_scenarios (sorted_sessions a)))"

lemma build_report_fields:
  "tr_identity_field (build_report sha cfg n a) = uc_cookie_field cfg"
  "tr_counts (build_report sha cfg n a) = ut_counts a"
  "tr_edges (build_report sha cfg n a) = edge_reports (all_edges (sorted_sessions a))"
  "tr_scenarios (build_report sha cfg n a) = take n (scenarios_of sha a)"
  "tr_totals (build_report sha cfg n a) =
     \<lparr>st_sessions = length (sorted_sessions a), st_transitions = (\<Sum>l \<leftarrow> sorted_sessions a. length l - 1),
      st_overlapping = (\<Sum>l \<leftarrow> sorted_sessions a. overlaps_in l),
      st_ambiguous = (\<Sum>l \<leftarrow> sorted_sessions a. ambiguous_in l),
      st_groups = length (scenarios_of sha a), st_emitted = length (take n (scenarios_of sha a)),
      st_omitted = sum_list (map sr_sessions (drop n (scenarios_of sha a)))\<rparr>"
  by (simp_all add: build_report_def report_loop Let_def scenarios_of_def sorted_sessions_def)

lemma sum_list_sort_key: "sum_list (map f (sort_key g xs)) = (sum_list (map f xs) :: nat)"
  by (metis mset_map mset_sort sum_mset_sum_list)

lemma sum_edge_reports: "sum_list (map f (edge_reports es)) = (\<Sum>(k, g) \<leftarrow> es. f (edge_report_of k g) :: nat)"
  by (simp add: edge_reports_def sum_list_sort_key comp_def case_prod_beta')

lemma edge_total:
  assumes "\<And>k us. f (edge_report_of k (edge_sum us)) = (\<Sum>u \<leftarrow> us. g u)"
    and "\<And>k k' v. f (edge_report_of k v) = f (edge_report_of k' v)"
  shows "sum_list (map f (edge_reports (all_edges ss))) = (\<Sum>c \<leftarrow> concat (map contribs ss). g (snd c) :: nat)"
proof -
  let ?h = "\<lambda>v. f (edge_report_of undefined v)"
  have "(\<lambda>(k, v). f (edge_report_of k v)) = (\<lambda>(k, v). ?h v)" using assms(2) by (auto simp: fun_eq_iff)
  then show ?thesis
    unfolding sum_edge_reports all_edges_def
    using sum_groups [of ?h add_transition empty_edge g "concat (map contribs ss)"] assms(1) by (simp add: edge_sum_def)
qed

definition hit :: "(event \<Rightarrow> event \<Rightarrow> bool) \<Rightarrow> bool \<times> event \<times> event \<Rightarrow> nat" where
  "hit P t = (case t of (f, a, b) \<Rightarrow> if P a b then 1 else 0)"

lemma sum_contribs:
  "(\<Sum>c \<leftarrow> concat (map contribs ss). hit P (snd c)) = (\<Sum>l \<leftarrow> ss. length (filter (\<lambda>(a, b). P a b) (pairs_of l)))"
proof -
  have "(\<Sum>c \<leftarrow> marked seen ps. hit P (snd c)) = length (filter (\<lambda>(a, b). P a b) ps)" for seen ps
    by (induction seen ps rule: marked.induct) (auto simp: hit_def)
  then show ?thesis by (induction ss) (simp_all add: contribs_def)
qed

lemma filter_hit: "length (filter (\<lambda>(f, a, b). P a b) us) = (\<Sum>u \<leftarrow> us. hit P u)"
  by (induction us) (auto simp: hit_def)

lemma edge_totals:
  "sum_list (map er_transitions (edge_reports (all_edges ss))) = (\<Sum>l \<leftarrow> ss. length l - 1)"
  "sum_list (map er_overlap (edge_reports (all_edges ss))) = (\<Sum>l \<leftarrow> ss. overlaps_in l)"
  "sum_list (map er_ambiguous (edge_reports (all_edges ss))) = (\<Sum>l \<leftarrow> ss. ambiguous_in l)"
proof -
  have "length us = (\<Sum>u \<leftarrow> us. hit (\<lambda>a b. True) u)" for us
    using filter_hit [of "\<lambda>a b. True" us] by simp
  then have "sum_list (map er_transitions (edge_reports (all_edges ss))) =
      (\<Sum>c \<leftarrow> concat (map contribs ss). hit (\<lambda>a b. True) (snd c))"
    by (intro edge_total) (simp_all only: edge_report_of_def Let_def edge_report.simps edge_sum_counts)
  then show "sum_list (map er_transitions (edge_reports (all_edges ss))) = (\<Sum>l \<leftarrow> ss. length l - 1)"
    by (simp only: sum_contribs) simp
  have "sum_list (map er_overlap (edge_reports (all_edges ss))) = (\<Sum>c \<leftarrow> concat (map contribs ss). hit overlapping (snd c))"
    by (intro edge_total) (simp_all only: edge_report_of_def Let_def edge_report.simps edge_sum_counts filter_hit)
  then show "sum_list (map er_overlap (edge_reports (all_edges ss))) = (\<Sum>l \<leftarrow> ss. overlaps_in l)"
    by (simp only: sum_contribs overlaps_in_def)
  have "sum_list (map er_ambiguous (edge_reports (all_edges ss))) =
      (\<Sum>c \<leftarrow> concat (map contribs ss). hit (\<lambda>a b. ev_start b = ev_start a) (snd c))"
    by (intro edge_total) (simp_all only: edge_report_of_def Let_def edge_report.simps edge_sum_counts filter_hit)
  then show "sum_list (map er_ambiguous (edge_reports (all_edges ss))) = (\<Sum>l \<leftarrow> ss. ambiguous_in l)"
    by (simp only: sum_contribs ambiguous_in_def)
qed

lemma join_scenario_sessions:
  "sa_sessions (fold join_scenario us (empty_scenario sig)) = (\<Sum>es \<leftarrow> us. if es = [] then 0 else 1)"
proof (induction us rule: rev_induct)
  case (snoc es us)
  then show ?case
    by (auto simp: join_scenario_def add_session_def empty_scenario_def split: prod.splits)
qed (simp add: empty_scenario_def)

lemma scenario_totals:
  assumes "[] \<notin> set (sorted_sessions a)"
  shows "sum_list (map sr_sessions (scenarios_of sha a)) = length (sorted_sessions a)"
proof -
  have "sum_list (map sr_sessions (scenarios_of sha a)) = (\<Sum>(k, g) \<leftarrow> all_scenarios (sorted_sessions a). sa_sessions g)"
    by (simp add: scenarios_of_def sum_list_sort_key comp_def case_prod_beta' scenario_report_of_def Let_def)
  also have "\<dots> = (\<Sum>x \<leftarrow> map (\<lambda>es. (scenario_key es, es)) (sorted_sessions a). if snd x = [] then 0 else 1)"
    unfolding all_scenarios_def by (rule sum_groups) (rule join_scenario_sessions)
  also have "\<dots> = (\<Sum>es \<leftarrow> sorted_sessions a. if es = [] then 0 else 1)" by (simp add: comp_def)
  also have "\<dots> = (\<Sum>es \<leftarrow> sorted_sessions a. 1)" using assms by (intro arg_cong [of _ _ sum_list] map_cong) auto
  finally show ?thesis by (simp add: sum_list_triv)
qed

section \<open>The state of the reading\<close>

text \<open>What every line keeps: each request is accounted for, and the events are those in the sessions.\<close>

definition accounted :: "line_counts \<Rightarrow> bool" where
  "accounted c \<longleftrightarrow>
     lc_malformed c + lc_api c \<le> lc_lines c \<and>
     lc_api c = lc_classified c + lc_unmatched c \<and>
     lc_classified c = lc_identified c + lc_missing c + lc_invalid_time c"

definition session_events :: "aggregator \<Rightarrow> event list" where
  "session_events a = concat (map snd (ut_sessions a))"

definition consistent :: "int \<Rightarrow> aggregator \<Rightarrow> bool" where
  "consistent max_events a \<longleftrightarrow>
     accounted (ut_counts a) \<and> int (lc_identified (ut_counts a)) \<le> max_events \<and> ut_ordinal a = lc_identified (ut_counts a) \<and>
     distinct (keys (ut_sessions a)) \<and> list_all (\<lambda>(k, es). es \<noteq> []) (ut_sessions a) \<and>
     mset (map ev_ordinal (session_events a)) = mset [1..<Suc (lc_identified (ut_counts a))]"

lemma put_events:
  "distinct (keys m) \<Longrightarrow>
     mset (concat (map snd (put_group (\<lambda>x xs. xs @ [x]) [] (k, e) m))) = mset (concat (map snd m)) + {#e#}"
  by (induction m) (auto simp: put_group_def lookup_or_absent)

lemma put_nonempty:
  "list_all (\<lambda>(k, es). es \<noteq> []) m \<Longrightarrow> list_all (\<lambda>(k, es). es \<noteq> []) (put_group (\<lambda>x xs. xs @ [x]) [] (k, e) m)"
  by (induction m) (auto simp: put_group_def)

lemma widen_counts [simp]:
  "accounted (widen_window s e c) = accounted c" "lc_identified (widen_window s e c) = lc_identified c"
  by (simp_all add: widen_window_def accounted_def)

lemma put_distinct: "distinct (keys m) \<Longrightarrow> distinct (keys (put_group f d x m))"
  by (simp add: put_group_def distinct_update)

lemma add_event_events:
  assumes "distinct (keys (ut_sessions a))"
  shows "\<exists>ev. mset (session_events (add_event E l identity route e response a)) = mset (session_events a) + {#ev#} \<and>
     ev_ordinal ev = Suc (ut_ordinal a)"
  using put_events [OF assms] by (auto simp: add_event_def Let_def session_events_def simp del: mset_concat)

lemma add_event_fields:
  "ut_ordinal (add_event E l identity route e response a) = Suc (ut_ordinal a)"
  "lc_identified (ut_counts (add_event E l identity route e response a)) = Suc (lc_identified (ut_counts a))"
  "accounted (ut_counts (add_event E l identity route e response a)) =
     accounted ((ut_counts a)\<lparr>lc_identified := Suc (lc_identified (ut_counts a))\<rparr>)"
  "distinct (keys (ut_sessions a)) \<Longrightarrow> distinct (keys (ut_sessions (add_event E l identity route e response a)))"
  "list_all (\<lambda>(k, es). es \<noteq> []) (ut_sessions a) \<Longrightarrow>
     list_all (\<lambda>(k, es). es \<noteq> []) (ut_sessions (add_event E l identity route e response a))"
  by (simp_all only: add_event_def Let_def aggregator.simps put_distinct put_nonempty widen_counts) simp_all

lemma consistent_event:
  assumes "consistent M a" and "int (lc_identified (ut_counts a)) < M"
    and "c = ut_counts a" and "c1 = c\<lparr>lc_lines := Suc (lc_lines c), lc_api := Suc (lc_api c), lc_classified := Suc (lc_classified c)\<rparr>"
  shows "consistent M (add_event E l identity route e response (a\<lparr>ut_counts := c1\<rparr>))"
proof -
  let ?b = "a\<lparr>ut_counts := c1\<rparr>"
  have d: "distinct (keys (ut_sessions ?b))" using assms(1) by (simp add: consistent_def)
  obtain ev where ev: "mset (session_events (add_event E l identity route e response ?b)) = mset (session_events ?b) + {#ev#}"
    "ev_ordinal ev = Suc (ut_ordinal ?b)" using add_event_events [OF d] by blast
  have n: "lc_identified c1 = lc_identified c" "session_events ?b = session_events a" by (simp_all add: assms(4) session_events_def)
  have "mset (map ev_ordinal (session_events (add_event E l identity route e response ?b))) =
      mset ([1..<Suc (lc_identified c)] @ [Suc (lc_identified c)])"
    using ev assms(1,3) n by (simp add: consistent_def del: upt_Suc)
  moreover have "accounted (c1\<lparr>lc_identified := Suc (lc_identified c1)\<rparr>)"
    using assms(1,3) by (simp add: consistent_def accounted_def assms(4))
  ultimately show ?thesis
    using assms(1,2,3) by (simp add: consistent_def add_event_fields n)
qed

lemma consistent_counts:
  "consistent M a \<Longrightarrow> accounted c \<Longrightarrow> lc_identified c = lc_identified (ut_counts a) \<Longrightarrow> consistent M (a\<lparr>ut_counts := c\<rparr>)"
  by (simp add: consistent_def session_events_def)

lemma scan_line_consistent:
  assumes "scan_transition_line E cfg routes M raw a = Inr a1" and "consistent M a"
  shows "consistent M a1"
proof -
  define c where "c = ut_counts a"
  have acc: "accounted c" using assms(2) by (simp add: consistent_def c_def)
  note k = consistent_counts [OF assms(2)]
  let ?line = "trim_space raw"
  consider "?line = []" | "?line \<noteq> []" "te_decode E ?line = None"
    | l where "?line \<noteq> []" "te_decode E ?line = Some l" "\<not> has_prefix (normalize_path E (tl_uri l)) (uc_api_prefix cfg)"
    | l where "?line \<noteq> []" "te_decode E ?line = Some l" "has_prefix (normalize_path E (tl_uri l)) (uc_api_prefix cfg)"
      "classify_path routes (normalize_path E (tl_uri l)) = None"
    | l route where "?line \<noteq> []" "te_decode E ?line = Some l" "has_prefix (normalize_path E (tl_uri l)) (uc_api_prefix cfg)"
      "classify_path routes (normalize_path E (tl_uri l)) = Some route"
    by (cases "te_decode E ?line"; fastforce)
  then show ?thesis
  proof cases
    case (5 l route)
    define c1 where "c1 = c\<lparr>lc_lines := Suc (lc_lines c), lc_api := Suc (lc_api c), lc_classified := Suc (lc_classified c)\<rparr>"
    have r: "take_request E cfg M l route (a\<lparr>ut_counts := c1\<rparr>) = Inr a1"
      using 5 assms(1) by (simp add: scan_transition_line_def Let_def c1_def c_def)
    have n: "lc_identified c1 = lc_identified c" by (simp add: c1_def)
    show ?thesis
    proof (cases "\<exists>id e resp. a1 = add_event E l id route e resp (a\<lparr>ut_counts := c1\<rparr>) \<and> int (lc_identified c) < M")
      case True
      then show ?thesis using consistent_event [OF assms(2) _ c_def c1_def] by (auto simp: c_def)
    next
      case False
      with r n have "a1 = a\<lparr>ut_counts := c1\<lparr>lc_missing := Suc (lc_missing c1)\<rparr>\<rparr> \<or>
          a1 = a\<lparr>ut_counts := c1\<lparr>lc_invalid_time := Suc (lc_invalid_time c1)\<rparr>\<rparr>"
        by (auto simp: take_request_def Let_def not_le split: if_splits option.splits)
      then show ?thesis using acc by (auto intro!: k simp: c1_def c_def accounted_def)
    qed
  qed (use assms(1) acc in \<open>auto intro!: k simp: scan_transition_line_def Let_def accounted_def c_def\<close>)
qed

lemma scan_path_consistent:
  assumes "scan_path E cfg routes M path a = Inr a1" and "consistent M a"
  shows "consistent M a1"
proof -
  obtain f where f: "open_transition_log (te_logs E) path = Inr f"
    using assms(1) by (auto simp: scan_path_def split: sum.splits)
  define b where "b = a\<lparr>ut_counts := (ut_counts a)\<lparr>lc_files := Suc (lc_files (ut_counts a))\<rparr>\<rparr>"
  have "fold_res (scan_transition_line E cfg routes M) (fst (scan_lines transition_limit (in_body f))) b = Inr a1"
    using assms(1) f by (auto simp: scan_path_def b_def Let_def split: option.splits sum.splits)
  moreover have "consistent M b"
    using assms(2) unfolding b_def by (intro consistent_counts) (auto simp: consistent_def accounted_def)
  ultimately show ?thesis by (rule fold_res_invariant) (rule scan_line_consistent)
qed

lemma read_consistent:
  assumes "fold_res (scan_path E cfg routes M) paths new_aggregator = Inr a" and "0 \<le> M"
  shows "consistent M a"
proof -
  have "consistent M new_aggregator"
    using assms(2) by (simp add: consistent_def new_aggregator_def no_counts_def accounted_def session_events_def)
  with assms(1) show ?thesis by (rule fold_res_invariant) (rule scan_path_consistent)
qed

text \<open>
  C25. Reading the logs accounts for every request: the requests of the API are those without a route and the
  classified ones, and each of these is an event, has no identity, or has no valid time; the events are
  numbered from 1 without a gap, there are at most as many as allowed, and the sessions hold exactly them,
  no session being empty.
\<close>

theorem requests_accounted:
  assumes "fold_res (scan_path E cfg routes M) paths new_aggregator = Inr a" and "0 < M"
  shows "let c = ut_counts a in
     lc_malformed c + lc_api c \<le> lc_lines c \<and>
     lc_api c = lc_unmatched c + lc_identified c + lc_missing c + lc_invalid_time c \<and>
     int (lc_identified c) \<le> M \<and>
     mset (map ev_ordinal (concat (map snd (ut_sessions a)))) = mset [1..<Suc (lc_identified c)] \<and>
     distinct (keys (ut_sessions a)) \<and> [] \<notin> set (map snd (ut_sessions a))"
proof -
  have "consistent M a" by (rule read_consistent [OF assms(1)]) (use assms(2) in simp)
  then show ?thesis
    by (auto simp: consistent_def accounted_def session_events_def Let_def list_all_iff simp del: upt_Suc)
qed

section \<open>The totals of the report\<close>

lemma sorted_nonempty: "consistent M a \<Longrightarrow> [] \<notin> set (sorted_sessions a)"
  by (fastforce simp: consistent_def sorted_sessions_def sort_events_def list_all_iff dest: arg_cong [of "[]" _ length])

lemma sessions_length:
  assumes "consistent M a"
  shows "(\<Sum>l \<leftarrow> sorted_sessions a. length l) = lc_identified (ut_counts a)"
proof -
  have "(\<Sum>l \<leftarrow> sorted_sessions a. length l) = length (session_events a)"
    by (simp add: sorted_sessions_def session_events_def length_concat sort_events_def comp_def case_prod_beta')
  also have "\<dots> = length (map ev_ordinal (session_events a))" by simp
  also have "\<dots> = length [1..<Suc (lc_identified (ut_counts a))]"
    using assms by (intro mset_eq_length) (simp add: consistent_def)
  finally show ?thesis by simp
qed

lemma sum_pred: "[] \<notin> set xs \<Longrightarrow> (\<Sum>l \<leftarrow> xs. length l - 1) + length xs = (\<Sum>l \<leftarrow> xs. length l)"
proof (induction xs)
  case (Cons l xs)
  then show ?case by (cases l) simp_all
qed simp

text \<open>
  C26. The report loses no transition and no session: the transitions of its edges add up to the total, which
  is the number of events less that of the sessions; so do the overlapping and the ambiguous ones; the
  sessions of the scenarios that are written and those omitted add up to all sessions.
\<close>

theorem totals_conserved:
  assumes "fold_res (scan_path E cfg routes M) paths new_aggregator = Inr a" and "0 < M"
    and "rep = build_report sha cfg n a"
  shows "let t = tr_totals rep in
     sum_list (map er_transitions (tr_edges rep)) = st_transitions t \<and>
     st_transitions t + st_sessions t = lc_identified (tr_counts rep) \<and>
     sum_list (map er_overlap (tr_edges rep)) = st_overlapping t \<and>
     sum_list (map er_ambiguous (tr_edges rep)) = st_ambiguous t \<and>
     sum_list (map sr_sessions (tr_scenarios rep)) + st_omitted t = st_sessions t \<and>
     length (tr_scenarios rep) = min n (st_groups t)"
proof -
  have c: "consistent M a" by (rule read_consistent [OF assms(1)]) (use assms(2) in simp)
  have "sum_list (map sr_sessions (take n (scenarios_of sha a))) + sum_list (map sr_sessions (drop n (scenarios_of sha a))) =
      sum_list (map sr_sessions (scenarios_of sha a))"
    by (metis append_take_drop_id map_append sum_list_append)
  also have "\<dots> = length (sorted_sessions a)" by (rule scenario_totals [OF sorted_nonempty [OF c]])
  finally show ?thesis
    using sum_pred [OF sorted_nonempty [OF c]] sessions_length [OF c]
    by (simp add: assms(3) build_report_fields edge_totals Let_def min.commute)
qed

section \<open>The edges\<close>

lemma contribs_items: "fst ` set (concat (map contribs ss)) = (\<lambda>(a, b). edge_of a b) ` set (concat (map pairs_of ss))"
proof -
  have "fst ` set (contribs l) = (\<lambda>(a, b). edge_of a b) ` set (pairs_of l)" for l
    using arg_cong [OF marked_keys [of "[]" "pairs_of l"], of set] unfolding contribs_def set_map .
  then show ?thesis by (simp add: image_UN)
qed

lemma items_contribs_length:
  "length (items_of k (concat (map contribs ss))) = (\<Sum>l \<leftarrow> ss. length (filter (\<lambda>(a, b). edge_of a b = k) (pairs_of l)))"
proof -
  have "length (items_of k (marked seen ps)) = length (filter (\<lambda>(a, b). edge_of a b = k) ps)" for seen ps
    by (induction seen ps rule: marked.induct) (auto simp: items_of_Cons)
  then show ?thesis by (induction ss) (simp_all add: contribs_def)
qed

lemma items_contribs_first:
  "length (filter (\<lambda>(first, a, b). first) (items_of k (concat (map contribs ss)))) =
     length (filter (\<lambda>l. k \<in> (\<lambda>(a, b). edge_of a b) ` set (pairs_of l)) ss)"
proof (induction ss)
  case (Cons l ss)
  have "length (filter (\<lambda>(first, a, b). first) (items_of k (contribs l))) =
      (if k \<in> (\<lambda>(a, b). edge_of a b) ` set (pairs_of l) then 1 else 0)"
    unfolding contribs_def marked_first by simp
  then show ?case
    using Cons by (simp only: list.map concat.simps items_of_append filter_append length_append filter.simps) simp
qed simp

lemma map_edge_reports: "map er_key (map (\<lambda>(k, g). edge_report_of k g) es) = keys es"
  by (simp add: edge_report_of_def Let_def comp_def case_prod_beta')

text \<open>
  An edge is reported exactly when two consecutive events of a session make it, once, with the number of
  such pairs and the number of the sessions that have one; the edges are in falling order of their
  transitions.
\<close>

theorem edges_exact:
  "let ss = sorted_sessions a; es = tr_edges (build_report sha cfg n a) in
   distinct (map er_key es) \<and>
   set (map er_key es) = (\<lambda>(x, y). edge_of x y) ` set (concat (map pairs_of ss)) \<and>
   list_all (\<lambda>r.
     er_transitions r = (\<Sum>l \<leftarrow> ss. length (filter (\<lambda>(x, y). edge_of x y = er_key r) (pairs_of l))) \<and>
     er_sessions r = length (filter (\<lambda>l. er_key r \<in> (\<lambda>(x, y). edge_of x y) ` set (pairs_of l)) ss)) es \<and>
   sorted_wrt (\<ge>) (map er_transitions es)"
proof -
  define ss where "ss = sorted_sessions a"
  define raw where "raw = map (\<lambda>(k, g). edge_report_of k g) (all_edges ss)"
  have es: "tr_edges (build_report sha cfg n a) = sort_key edge_order raw"
    by (simp add: build_report_fields edge_reports_def raw_def ss_def)
  have keys_raw: "map er_key raw = keys (all_edges ss)" unfolding raw_def by (rule map_edge_reports)
  have "distinct (map er_key (sort_key edge_order raw))"
    using group_distinct [of add_transition empty_edge "concat (map contribs ss)"] keys_raw
    by (metis all_edges_def mset_eq_imp_distinct_iff mset_map mset_sort)
  moreover have "set (map er_key (sort_key edge_order raw)) = (\<lambda>(x, y). edge_of x y) ` set (concat (map pairs_of ss))"
    using group_keys [of add_transition empty_edge "concat (map contribs ss)"] contribs_items [of ss] keys_raw
    by (metis all_edges_def set_map set_sort)
  moreover have "er_transitions r = (\<Sum>l \<leftarrow> ss. length (filter (\<lambda>(x, y). edge_of x y = er_key r) (pairs_of l))) \<and>
      er_sessions r = length (filter (\<lambda>l. er_key r \<in> (\<lambda>(x, y). edge_of x y) ` set (pairs_of l)) ss)"
    if "r \<in> set raw" for r
  proof -
    from that obtain k where r: "r = edge_report_of k (edge_sum (items_of k (concat (map contribs ss))))"
      unfolding raw_def all_edges_def by (subst (asm) group_pairs) (auto simp: edge_sum_def)
    then have "er_key r = k" by (simp add: edge_report_of_def Let_def)
    then show ?thesis
      using r by (simp add: edge_report_of_def Let_def edge_sum_counts items_contribs_length items_contribs_first)
  qed
  moreover have "sorted_wrt (\<ge>) (map er_transitions (sort_key edge_order raw))"
  proof -
    have "sorted_wrt (\<lambda>x y. edge_order x \<le> edge_order y) (sort_key edge_order raw)"
      using sorted_sort_key [of edge_order raw] by (simp add: sorted_map)
    then have "sorted_wrt (\<lambda>x y. er_transitions y \<le> er_transitions x) (sort_key edge_order raw)"
      by (rule sorted_wrt_mono_rel [rotated]) (auto simp: edge_order_def less_eq_prod_def)
    then show ?thesis by (simp add: sorted_wrt_map)
  qed
  ultimately show ?thesis unfolding es Let_def ss_def [symmetric] list_all_iff by simp
qed

section \<open>Names that can be told apart\<close>

abbreviation nul_char :: char where
  "nul_char \<equiv> CHR 0x00"

definition plain_event :: "event \<Rightarrow> bool" where
  "plain_event e \<longleftrightarrow>
     CHR '' '' \<notin> set (ev_method e) \<and> nul_char \<notin> set (ev_method e) \<and> nul_char \<notin> set (ev_route e)"

lemma first_separator:
  fixes c :: char
  shows "x @ c # y = x' @ c # y' \<Longrightarrow> c \<notin> set x \<Longrightarrow> c \<notin> set x' \<Longrightarrow> x = x' \<and> y = y'"
  using cut_char_Some_iff [of c "x @ c # y" x y] cut_char_Some_iff [of c "x @ c # y" x' y'] by auto

lemma node_id_inj:
  "plain_event e \<Longrightarrow> plain_event f \<Longrightarrow> node_id e = node_id f \<Longrightarrow> ev_method e = ev_method f \<and> ev_route e = ev_route f"
  using first_separator [of "ev_method e" "CHR '' ''" "ev_route e" "ev_method f" "ev_route f"]
  by (simp add: node_id_def plain_event_def)

lemma edge_label_inj:
  assumes "plain_event a" "plain_event b" "plain_event a'" "plain_event b'"
    and "edge_label (edge_of a b) = edge_label (edge_of a' b')"
  shows "edge_of a b = edge_of a' b'"
proof -
  have l: "edge_label (edge_of x y) = node_id x @ nul_char # node_id y" for x y
    by (simp add: edge_label_def edge_of_def node_id_def)
  have n: "nul_char \<notin> set (node_id x)" if "plain_event x" for x using that by (simp add: node_id_def plain_event_def)
  have "node_id a @ nul_char # node_id b = node_id a' @ nul_char # node_id b'" using assms(5) unfolding l .
  from first_separator [OF this n [OF assms(1)] n [OF assms(3)]]
  have "node_id a = node_id a'" "node_id b = node_id b'" by (rule conjunct1, rule conjunct2)
  from node_id_inj [OF assms(1,3) this(1)] node_id_inj [OF assms(2,4) this(2)] show ?thesis
    unfolding edge_of_def by (simp only:)
qed

lemma node_id_plain: "plain_event e \<Longrightarrow> nul_char \<notin> set (node_id e) \<and> node_id e \<noteq> []"
  by (simp add: node_id_def plain_event_def)

lemma scenario_key_inj:
  assumes "list_all plain_event es" "list_all plain_event fs" "es \<noteq> []" "fs \<noteq> []" "scenario_key es = scenario_key fs"
  shows "scenario_signature es = scenario_signature fs"
proof -
  have "split_char nul_char (scenario_key xs) = scenario_signature xs" if "list_all plain_event xs" "xs \<noteq> []" for xs
    unfolding scenario_key_def
  proof (rule split_join)
    show "scenario_signature xs \<noteq> []" using that(2) by (cases xs) (auto simp: scenario_signature_def dest: arg_cong [of _ _ set])
    show "nul_char \<notin> set x" if "x \<in> set (scenario_signature xs)" for x
      using that \<open>list_all plain_event xs\<close> by (auto simp: scenario_signature_def list_all_iff dest: node_id_plain)
  qed
  from this [OF assms(1,3)] this [OF assms(2,4)] assms(5) show ?thesis by simp
qed

section \<open>The report as a function of the sessions\<close>

definition plain_sessions :: "event list list \<Rightarrow> bool" where
  "plain_sessions ss \<longleftrightarrow> list_all (\<lambda>es. es \<noteq> [] \<and> list_all plain_event es) ss"

lemma set_tl_subset: "set (tl l) \<subseteq> set l"
  by (cases l) auto

lemma edge_reports_mset:
  assumes "mset ss = mset ss'" and "plain_sessions ss"
  shows "edge_reports (all_edges ss) = edge_reports (all_edges ss')"
proof -
  let ?r = "\<lambda>ss. map (\<lambda>(k, g). edge_report_of k g) (all_edges ss)"
  have m: "mset (concat (map contribs ss)) = mset (concat (map contribs ss'))" by (rule concat_map_mset [OF assms(1)])
  have "mset (?r ss) = mset (?r ss')"
    unfolding all_edges_def
    by (rule group_pairs_mset [OF m]) (use edge_report_mset [OF items_of_mset [OF m]] in \<open>simp add: edge_sum_def\<close>)
  moreover have "inj_on edge_order (set (?r ss))"
  proof (rule inj_onI)
    fix r r' assume r: "r \<in> set (?r ss)" "r' \<in> set (?r ss)" and o: "edge_order r = edge_order r'"
    have plain: "plain_event x \<and> plain_event y" if "(x, y) \<in> set (concat (map pairs_of ss))" for x y
    proof -
      from that obtain l where "l \<in> set ss" "(x, y) \<in> set (pairs_of l)" by auto
      moreover from this(2) have "x \<in> set l" by (rule set_zip_leftD)
      moreover from \<open>(x, y) \<in> set (pairs_of l)\<close> have "y \<in> set (tl l)" by (rule set_zip_rightD)
      then have "y \<in> set l" by (rule subsetD [OF set_tl_subset])
      ultimately show ?thesis using assms(2) by (auto simp: plain_sessions_def list_all_iff)
    qed
    have keys: "er_key ` set (?r ss) = (\<lambda>(x, y). edge_of x y) ` set (concat (map pairs_of ss))"
      using arg_cong [OF map_edge_reports [of "all_edges ss"], of set] group_keys [of add_transition empty_edge "concat (map contribs ss)"]
      unfolding all_edges_def contribs_items set_map [of er_key] by (simp only:)
    have "\<exists>x y. er_key q = edge_of x y \<and> plain_event x \<and> plain_event y" if "q \<in> set (?r ss)" for q
    proof -
      have "er_key q \<in> (\<lambda>(x, y). edge_of x y) ` set (concat (map pairs_of ss))"
        using imageI [OF that, of er_key] unfolding keys .
      then obtain z where "er_key q = (\<lambda>(x, y). edge_of x y) z" "z \<in> set (concat (map pairs_of ss))" by (rule imageE)
      then show ?thesis using plain [of "fst z" "snd z"] by (cases z) auto
    qed
    from this [OF r(1)] this [OF r(2)] obtain a b a' b' where k: "er_key r = edge_of a b" "er_key r' = edge_of a' b'"
      "plain_event a" "plain_event b" "plain_event a'" "plain_event b'" by blast
    have "edge_label (er_key r) = edge_label (er_key r')" using o by (simp add: edge_order_def)
    then have "er_key r = er_key r'" using edge_label_inj [OF k(3-6)] k(1,2) by simp
    moreover have "inj_on er_key (set (?r ss))"
      using group_distinct [of add_transition empty_edge "concat (map contribs ss)"]
      unfolding all_edges_def [symmetric] map_edge_reports [symmetric] by (rule distinct_map [THEN iffD1, THEN conjunct2])
    ultimately show "r = r'" using r by (meson inj_onD)
  qed
  ultimately show ?thesis unfolding edge_reports_def by (rule sort_key_unique)
qed

text \<open>A node.\<close>

definition node_sum :: "node_visit list \<Rightarrow> node_aggregate" where
  "node_sum vs = fold add_visit vs empty_node"

lemma node_sum_snoc: "node_sum (vs @ [v]) = add_visit v (node_sum vs)"
  by (simp add: node_sum_def)

lemma node_sum_Nil: "node_sum [] = empty_node"
  by (simp add: node_sum_def)

lemma node_sum_counts:
  "na_requests (node_sum vs) = length vs"
  "na_sessions (node_sum vs) = length (filter nv_new vs)"
  "na_first (node_sum vs) = length (filter nv_first vs)"
  "na_last (node_sum vs) = length (filter nv_last vs)"
  by (induction vs rule: rev_induct) (simp_all add: node_sum_snoc node_sum_Nil add_visit_def Let_def empty_node_def)

lemma node_sum_sums:
  "na_position_sum (node_sum vs) = sum_list (map nv_position (filter nv_new vs))"
  "na_offset_sum (node_sum vs) = sum_list (map nv_offset (filter nv_new vs))"
  by (induction vs rule: rev_induct) (simp_all add: node_sum_snoc node_sum_Nil add_visit_def Let_def empty_node_def)

lemma node_sum_names:
  "na_method (node_sum vs) = (if vs = [] then [] else ev_method (nv_event (hd vs)))"
  "na_route (node_sum vs) = (if vs = [] then [] else ev_route (nv_event (hd vs)))"
proof (induction vs rule: rev_induct)
  case (snoc v vs)
  case 1
  show ?case using snoc node_sum_counts(1) [of vs] by (simp add: node_sum_snoc add_visit_def Let_def)
  case 2
  show ?case using snoc node_sum_counts(1) [of vs] by (simp add: node_sum_snoc add_visit_def Let_def)
qed (simp_all add: node_sum_Nil empty_node_def)

lemma sum_list_filter_mset:
  "mset us = mset vs \<Longrightarrow> sum_list (map f (filter P us)) = (sum_list (map f (filter P vs)) :: rat)"
  by (metis mset_filter mset_map sum_mset_sum_list)

definition of_node :: "string \<Rightarrow> node_visit list \<Rightarrow> bool" where
  "of_node k vs \<longleftrightarrow> list_all (\<lambda>v. plain_event (nv_event v) \<and> node_id (nv_event v) = k) vs"

lemma node_report_mset:
  assumes "mset us = mset vs" and "of_node k us"
  shows "node_report_of (node_sum us) = node_report_of (node_sum vs)"
proof -
  have s: "set us = set vs" using assms(1) by (rule mset_eq_setD)
  have "na_method (node_sum us) = na_method (node_sum vs) \<and> na_route (node_sum us) = na_route (node_sum vs)"
  proof (cases "us = []")
    case False
    then have "vs \<noteq> []" using s by auto
    with False have "hd us \<in> set us" "hd vs \<in> set us" unfolding s by (metis list.set_sel(1) s)+
    then have "ev_method (nv_event (hd us)) = ev_method (nv_event (hd vs)) \<and> ev_route (nv_event (hd us)) = ev_route (nv_event (hd vs))"
      using assms(2) by (intro node_id_inj) (auto simp: of_node_def list_all_iff)
    then show ?thesis using False \<open>vs \<noteq> []\<close> by (simp add: node_sum_names)
  qed (use assms(1) in simp)
  moreover have "length us = length vs" using assms(1) by (rule mset_eq_length)
  ultimately show ?thesis
    by (simp only: node_report_of_def node_sum_counts node_sum_sums filter_mset_length [OF assms(1)] sum_list_filter_mset [OF assms(1)])
qed

definition all_nodes :: "event list list \<Rightarrow> nodes" where
  "all_nodes ss = group_all add_visit empty_node (concat (map keyed_visits ss))"

definition node_reports :: "event list list \<Rightarrow> node_report list" where
  "node_reports ss = sort_key node_order (map (\<lambda>(k, n). node_report_of n) (all_nodes ss))"

lemma keyed_visits_plain:
  assumes "(k, v) \<in> set (concat (map keyed_visits ss))" and "plain_sessions ss"
  shows "plain_event (nv_event v) \<and> node_id (nv_event v) = k"
proof -
  obtain l where l: "l \<in> set ss" "(k, v) \<in> set (keyed_visits l)" using assms(1) by auto
  then have "nv_event v \<in> set l" "node_id (nv_event v) = k" by (auto simp: keyed_visits_def visits_def)
  then show ?thesis using l(1) assms(2) by (auto simp: plain_sessions_def list_all_iff)
qed

lemma items_of_node: "plain_sessions ss \<Longrightarrow> of_node k (items_of k (concat (map keyed_visits ss)))"
  using keyed_visits_plain by (fastforce simp: of_node_def items_of_def list_all_iff)

lemma node_reports_mset:
  assumes "mset ss = mset ss'" and "plain_sessions ss"
  shows "node_reports ss = node_reports ss'"
proof -
  let ?r = "\<lambda>ss. map (\<lambda>(k, n). node_report_of n) (all_nodes ss)"
  have m: "mset (concat (map keyed_visits ss)) = mset (concat (map keyed_visits ss'))" by (rule concat_map_mset [OF assms(1)])
  have "mset (?r ss) = mset (?r ss')"
    unfolding all_nodes_def
    by (rule group_pairs_mset [OF m])
      (use node_report_mset [OF items_of_mset [OF m] items_of_node [OF assms(2)]] in \<open>simp add: node_sum_def\<close>)
  moreover have "inj_on node_order (set (?r ss))"
  proof -
    have "nr_method (node_report_of n) @ '' '' @ nr_route (node_report_of n) = k" if "(k, n) \<in> set (all_nodes ss)" for k n
    proof -
      have "k \<in> set (keys (all_nodes ss))" using that by force
      then have "items_of k (concat (map keyed_visits ss)) \<noteq> []"
        unfolding all_nodes_def group_keys by (simp add: items_of_empty_iff)
      moreover have "n = node_sum (items_of k (concat (map keyed_visits ss)))"
        using that unfolding all_nodes_def by (subst (asm) group_pairs) (auto simp: node_sum_def)
      ultimately show ?thesis
        using items_of_node [OF assms(2), of k]
        by (cases "items_of k (concat (map keyed_visits ss))") (auto simp: node_report_of_def node_sum_names of_node_def node_id_def)
    qed
    then have k: "snd (node_order (node_report_of (snd x))) = fst x" if "x \<in> set (all_nodes ss)" for x
      using that by (cases x) (simp add: node_order_def)
    have "inj_on fst (set (all_nodes ss))"
      using group_distinct [of add_visit empty_node "concat (map keyed_visits ss)"] by (simp add: all_nodes_def distinct_map)
    then show ?thesis
      by (auto simp: inj_on_def case_prod_beta') (metis k fst_conv snd_conv)
  qed
  ultimately show ?thesis unfolding node_reports_def by (rule sort_key_unique)
qed

text \<open>A scenario.\<close>

definition scenario_sum :: "event list list \<Rightarrow> scenario_aggregate" where
  "scenario_sum ss = fold join_scenario ss (empty_scenario [])"

definition duration_of :: "event list \<Rightarrow> rat" where
  "duration_of es = ms_of (ev_end (last es) - ev_start (hd es))"

lemma scenario_sum_fields:
  assumes "[] \<notin> set ss"
  shows "scenario_sum ss =
     \<lparr>sa_signature = (if ss = [] then [] else scenario_signature (hd ss)), sa_sessions = length ss,
      sa_requests = (\<Sum>l \<leftarrow> ss. length l), sa_transitions = (\<Sum>l \<leftarrow> ss. length l - 1),
      sa_overlaps = (\<Sum>l \<leftarrow> ss. overlaps_in l), sa_ambiguous = (\<Sum>l \<leftarrow> ss. ambiguous_in l),
      sa_durations = map duration_of ss, sa_nodes = all_nodes ss, sa_edges = all_edges ss\<rparr>"
  using assms
proof (induction ss rule: rev_induct)
  case Nil
  show ?case by (simp add: scenario_sum_def empty_scenario_def all_nodes_def all_edges_def group_all_def)
next
  case (snoc es ss)
  define g where "g = (if ss = [] then empty_scenario (scenario_signature es) else scenario_sum ss)"
  have "scenario_sum (ss @ [es]) = join_scenario es (scenario_sum ss)" by (simp add: scenario_sum_def)
  also have "\<dots> = add_session es g"
    using snoc by (simp add: join_scenario_def g_def)
  finally have s: "scenario_sum (ss @ [es]) = add_session es g" .
  have g: "g = \<lparr>sa_signature = scenario_signature (hd (ss @ [es])), sa_sessions = length ss,
      sa_requests = (\<Sum>l \<leftarrow> ss. length l), sa_transitions = (\<Sum>l \<leftarrow> ss. length l - 1),
      sa_overlaps = (\<Sum>l \<leftarrow> ss. overlaps_in l), sa_ambiguous = (\<Sum>l \<leftarrow> ss. ambiguous_in l),
      sa_durations = map duration_of ss, sa_nodes = all_nodes ss, sa_edges = all_edges ss\<rparr>"
    using snoc by (simp add: g_def empty_scenario_def all_nodes_def all_edges_def group_all_def)
  have "es \<noteq> []" using snoc.prems by auto
  then show ?case
    unfolding s g by (simp add: add_session_def add_sequence_eq duration_of_def all_nodes_def all_edges_def group_all_def)
qed

definition same_signature :: "event list list \<Rightarrow> bool" where
  "same_signature ss \<longleftrightarrow> list_all (\<lambda>es. scenario_signature es = scenario_signature (hd ss)) ss"

lemma sum_list_nat_mset: "mset xs = mset ys \<Longrightarrow> sum_list (map f xs) = (sum_list (map f ys) :: nat)"
  by (metis mset_map sum_mset_sum_list)

lemma plain_sessions_nonempty: "plain_sessions ss \<Longrightarrow> [] \<notin> set ss"
  by (auto simp: plain_sessions_def list_all_iff)

lemma plain_sessions_mset: "mset ss = mset ss' \<Longrightarrow> plain_sessions ss = plain_sessions ss'"
  unfolding plain_sessions_def list_all_iff by (metis mset_eq_setD)

lemma scenario_report_mset:
  assumes "mset us = mset vs" and "plain_sessions us" and "same_signature us"
  shows "scenario_report_of sha (scenario_sum us) = scenario_report_of sha (scenario_sum vs)"
proof -
  have p: "plain_sessions vs" using assms plain_sessions_mset by blast
  have s: "set vs = set us" using mset_eq_setD [OF assms(1)] ..
  have "(if us = [] then [] else scenario_signature (hd us)) = (if vs = [] then [] else scenario_signature (hd vs))"
  proof (cases "vs = []")
    case False
    then have "hd vs \<in> set us" unfolding s [symmetric] by simp
    then have "scenario_signature (hd vs) = scenario_signature (hd us)"
      using assms(3) unfolding same_signature_def list_all_iff by blast
    moreover have "us \<noteq> []" using False assms(1) by auto
    ultimately show ?thesis using False by simp
  qed (use assms(1) in simp)
  moreover have "sort (map duration_of us) = sort (map duration_of vs)"
    by (intro properties_for_sort) (simp_all add: assms(1))
  moreover have "length us = length vs" using assms(1) by (rule mset_eq_length)
  moreover note edge_reports_mset [OF assms(1,2)]
  moreover have "node_reports us = node_reports vs" by (rule node_reports_mset [OF assms(1,2)])
  ultimately show ?thesis
    unfolding scenario_sum_fields [OF plain_sessions_nonempty [OF assms(2)]] scenario_sum_fields [OF plain_sessions_nonempty [OF p]]
    by (simp only: scenario_report_of_def scenario_aggregate.simps Let_def sum_list_nat_mset [OF assms(1)] node_reports_def)
qed

definition keyed_sessions :: "event list list \<Rightarrow> (string \<times> event list) list" where
  "keyed_sessions ss = map (\<lambda>es. (scenario_key es, es)) ss"

lemma all_scenarios_pairs:
  "(k, g) \<in> set (all_scenarios ss) \<Longrightarrow> g = scenario_sum (items_of k (keyed_sessions ss)) \<and> items_of k (keyed_sessions ss) \<noteq> []"
proof -
  assume kg: "(k, g) \<in> set (all_scenarios ss)"
  then have "k \<in> set (keys (all_scenarios ss))" by force
  then have "items_of k (keyed_sessions ss) \<noteq> []"
    unfolding all_scenarios_def group_keys keyed_sessions_def [symmetric] by (simp add: items_of_empty_iff)
  moreover have "g = scenario_sum (items_of k (keyed_sessions ss))"
    using kg unfolding all_scenarios_def keyed_sessions_def [symmetric] by (subst (asm) group_pairs) (auto simp: scenario_sum_def)
  ultimately show ?thesis by simp
qed

lemma items_of_sessions: "es \<in> set (items_of k (keyed_sessions ss)) \<Longrightarrow> es \<in> set ss \<and> scenario_key es = k"
  by (auto simp: items_of_def keyed_sessions_def)

lemma items_plain: "plain_sessions ss \<Longrightarrow> plain_sessions (items_of k (keyed_sessions ss))"
  by (auto simp: plain_sessions_def list_all_iff dest: items_of_sessions)

lemma items_same_signature: "plain_sessions ss \<Longrightarrow> same_signature (items_of k (keyed_sessions ss))"
proof -
  assume p: "plain_sessions ss"
  let ?i = "items_of k (keyed_sessions ss)"
  have "scenario_signature es = scenario_signature (hd ?i)" if "es \<in> set ?i" for es
  proof (rule scenario_key_inj)
    have "hd ?i \<in> set ?i" using that by (cases ?i) auto
    then show "list_all plain_event es" "list_all plain_event (hd ?i)" "es \<noteq> []" "hd ?i \<noteq> []"
      using items_plain [OF p] that by (auto simp: plain_sessions_def list_all_iff)
    show "scenario_key es = scenario_key (hd ?i)" using items_of_sessions that \<open>hd ?i \<in> set ?i\<close> by metis
  qed
  then show ?thesis by (simp add: same_signature_def list_all_iff)
qed

lemma scenarios_of_mset:
  assumes "mset (sorted_sessions a) = mset (sorted_sessions b)" and "plain_sessions (sorted_sessions a)"
    and "inj_on (scenario_id sha) (set (map scenario_signature (sorted_sessions a)))"
  shows "scenarios_of sha a = scenarios_of sha b"
proof -
  let ?r = "\<lambda>ss. map (\<lambda>(k, g). scenario_report_of sha g) (all_scenarios ss)"
  define ss where "ss = sorted_sessions a"
  have p: "plain_sessions ss" using assms(2) by (simp add: ss_def)
  have m: "mset (keyed_sessions ss) = mset (keyed_sessions (sorted_sessions b))"
    using assms(1) by (simp add: keyed_sessions_def ss_def)
  have "mset (?r ss) = mset (?r (sorted_sessions b))"
    unfolding all_scenarios_def keyed_sessions_def [symmetric]
    by (rule group_pairs_mset [OF m])
      (use scenario_report_mset [OF items_of_mset [OF m] items_plain [OF p] items_same_signature [OF p]] in \<open>simp add: scenario_sum_def\<close>)
  moreover have "inj_on scenario_order (set (?r ss))"
  proof (rule inj_onI)
    fix r r' assume r: "r \<in> set (?r ss)" "r' \<in> set (?r ss)" and o: "scenario_order r = scenario_order r'"
    have sig: "\<exists>k es. r = scenario_report_of sha (scenario_sum (items_of k (keyed_sessions ss))) \<and> es \<in> set ss \<and>
        scenario_key es = k \<and> sr_id r = scenario_id sha (scenario_signature es)" if q: "r \<in> set (?r ss)" for r
    proof -
      obtain k g where g: "r = scenario_report_of sha g" "(k, g) \<in> set (all_scenarios ss)" using q by auto
      note i = all_scenarios_pairs [OF g(2)]
      then have h: "hd (items_of k (keyed_sessions ss)) \<in> set (items_of k (keyed_sessions ss))" by simp
      have "sr_id r = scenario_id sha (scenario_signature (hd (items_of k (keyed_sessions ss))))"
        using i by (simp add: g scenario_report_of_def Let_def scenario_sum_fields [OF plain_sessions_nonempty [OF items_plain [OF p]]])
      then show ?thesis using i items_of_sessions [OF h] g(1) by blast
    qed
    from sig [OF r(1)] sig [OF r(2)] obtain es es' where
      e: "r = scenario_report_of sha (scenario_sum (items_of (scenario_key es) (keyed_sessions ss)))" "es \<in> set ss"
         "sr_id r = scenario_id sha (scenario_signature es)"
      and e': "r' = scenario_report_of sha (scenario_sum (items_of (scenario_key es') (keyed_sessions ss)))" "es' \<in> set ss"
         "sr_id r' = scenario_id sha (scenario_signature es')" by blast
    have "scenario_id sha (scenario_signature es) = scenario_id sha (scenario_signature es')"
      using o e(3) e'(3) by (simp add: scenario_order_def)
    then have "scenario_signature es = scenario_signature es'"
      using assms(3) e(2) e'(2) unfolding ss_def [symmetric] by (auto dest: inj_onD)
    then show "r = r'" using e(1) e'(1) by (simp add: scenario_key_def)
  qed
  ultimately show ?thesis unfolding scenarios_of_def ss_def [symmetric] by (rule sort_key_unique)
qed

text \<open>
  The report is a function of the sessions alone: neither the identities (or their digests) nor the order
  in which the map of the sessions is visited reaches it, when names hold no separator, no session is empty
  and no two scenarios share an id.
\<close>

theorem report_of_sessions:
  assumes "plain_sessions (map snd (ut_sessions a))" and "mset (map snd (ut_sessions b)) = mset (map snd (ut_sessions a))"
    and "ut_counts b = ut_counts a"
    and "inj_on (scenario_id sha) (set (map scenario_signature (sorted_sessions a)))"
  shows "build_report sha cfg n b = build_report sha cfg n a"
proof -
  have s: "sorted_sessions x = map sort_events (map snd (ut_sessions x))" for x
    by (simp add: sorted_sessions_def case_prod_beta')
  have m: "mset (sorted_sessions a) = mset (sorted_sessions b)" unfolding s using assms(2) by (metis mset_map)
  have p: "plain_sessions (sorted_sessions a)"
    using assms(1) unfolding s plain_sessions_def list_all_iff
    by (auto simp: sort_events_def list_all_iff dest: arg_cong [of _ "[]" length])
  have "tr_edges (build_report sha cfg n b) = tr_edges (build_report sha cfg n a)"
    using edge_reports_mset [OF m p] by (simp add: build_report_fields)
  moreover have sc: "scenarios_of sha b = scenarios_of sha a" using scenarios_of_mset [OF m p assms(4)] by simp
  moreover have "length (sorted_sessions b) = length (sorted_sessions a)" using m by (metis mset_eq_length)
  ultimately show ?thesis
    by (intro user_report.equality)
      (simp_all only: build_report_fields assms(3) sum_list_nat_mset [OF m], simp_all)
qed

section \<open>Percentiles\<close>

lemma percentile_index_bounds:
  assumes "0 < n" and "0 < q" and "q \<le> 1"
  shows "percentile_index n q < n" "of_nat (percentile_index n q) < q * of_nat n" "q * of_nat n \<le> of_nat (Suc (percentile_index n q))"
proof -
  let ?c = "\<lceil>q * of_nat n\<rceil>"
  have pos: "0 < q * of_nat n" using assms by simp
  then have "1 \<le> ?c" by (simp add: one_le_ceiling)
  have "q * of_nat n \<le> of_nat n" using assms by (simp add: mult_le_cancel_right1)
  then have "?c \<le> int n" by (simp add: ceiling_le_iff)
  with \<open>1 \<le> ?c\<close> have i: "int (percentile_index n q) = ?c - 1" by (simp add: percentile_index_def Let_def)
  then show "percentile_index n q < n" using \<open>?c \<le> int n\<close> by linarith
  have "of_int (?c - 1) < q * of_nat n" by linarith
  then show "of_nat (percentile_index n q) < q * of_nat n" using i by (metis of_int_of_nat_eq)
  have "q * of_nat n \<le> of_int (?c - 1) + 1" by linarith
  then show "q * of_nat n \<le> of_nat (Suc (percentile_index n q))" using i by (metis of_int_of_nat_eq of_nat_Suc add.commute)
qed

text \<open>
  A percentile is one of the values, and it is at its rank: the share \<open>q\<close> of the values is at most
  it, and fewer values than that share are smaller.
\<close>

theorem percentile_rank:
  assumes "xs \<noteq> []" and "0 < q" and "q \<le> 1"
  shows "let p = percentile (sort xs) q in
     p \<in> set xs \<and> q * of_nat (length xs) \<le> of_nat (length (filter (\<lambda>x. x \<le> p) xs)) \<and>
     of_nat (length (filter (\<lambda>x. x < p) xs)) < q * of_nat (length xs)"
proof -
  define ys where "ys = sort xs"
  define i where "i = percentile_index (length ys) q"
  have l: "length ys = length xs" "sorted ys" "set ys = set xs" by (simp_all add: ys_def)
  have i: "i < length ys" "of_nat i < q * of_nat (length xs)" "q * of_nat (length xs) \<le> of_nat (Suc i)"
    using percentile_index_bounds [of "length ys" q] assms l(1) by (simp_all add: i_def)
  have p: "percentile (sort xs) q = ys ! i" using assms(1) l(1) by (auto simp: percentile_def i_def ys_def)
  have c: "length (filter P xs) = length (filter P ys)" for P by (rule filter_mset_length) (simp add: ys_def)
  have up: "Suc i \<le> length (filter (\<lambda>x. x \<le> ys ! i) ys)"
  proof -
    have "filter (\<lambda>x. x \<le> ys ! i) (take (Suc i) ys) = take (Suc i) ys"
      using l(2) i(1) by (auto simp: filter_id_conv in_set_conv_nth sorted_nth_mono)
    then have "length (filter (\<lambda>x. x \<le> ys ! i) (take (Suc i) ys)) = Suc i" using i(1) by simp
    moreover have "length (filter (\<lambda>x. x \<le> ys ! i) (take (Suc i) ys)) \<le> length (filter (\<lambda>x. x \<le> ys ! i) ys)"
      by (metis append_take_drop_id filter_append length_append le_add1)
    ultimately show ?thesis by simp
  qed
  have down: "length (filter (\<lambda>x. x < ys ! i) ys) \<le> i"
  proof -
    have "filter (\<lambda>x. x < ys ! i) (drop i ys) = []"
      using l(2) i(1) by (auto simp: filter_empty_conv in_set_conv_nth not_less sorted_nth_mono)
    then have "filter (\<lambda>x. x < ys ! i) ys = filter (\<lambda>x. x < ys ! i) (take i ys)"
      by (metis append_take_drop_id append_Nil2 filter_append)
    then show ?thesis using length_filter_le [of "\<lambda>x. x < ys ! i" "take i ys"] i(1) by simp
  qed
  have "ys ! i \<in> set xs" using nth_mem [OF i(1)] unfolding l(3) .
  moreover have "q * of_nat (length xs) \<le> of_nat (length (filter (\<lambda>x. x \<le> ys ! i) ys))"
    by (rule order_trans [OF i(3)]) (simp only: of_nat_le_iff up)
  moreover have "of_nat (length (filter (\<lambda>x. x < ys ! i) ys)) < q * of_nat (length xs)"
    by (rule le_less_trans [OF _ i(2)]) (simp only: of_nat_le_iff down)
  ultimately show ?thesis unfolding p Let_def c by (intro conjI)
qed

section \<open>An example\<close>

definition demo_line :: "string \<Rightarrow> string \<Rightarrow> string \<Rightarrow> transition_line" where
  "demo_line user uri t =
     \<lparr>tl_msec = Some (JNum t), tl_method = ''get'', tl_uri = uri, tl_status = Some (JNum ''200''), tl_response_time = Fin (1 / 4),
      tl_fields = [(''session'', JStr user)]\<rparr>"

definition demo_decode :: "string \<Rightarrow> transition_line option" where
  "demo_decode l =
     (if l = ''a'' then Some (demo_line ''u'' ''/api/x?q'' ''1'')
      else if l = ''b'' then Some (demo_line ''v'' ''/api/y'' ''1'')
      else if l = ''c'' then Some (demo_line ''u'' ''/api/y'' ''2'')
      else if l = ''d'' then Some (demo_line ''-'' ''/api/x'' ''2'')
      else if l = ''e'' then Some (demo_line ''u'' ''/api/z'' ''2'')
      else None)"

definition demo_transition_env :: transition_env where
  "demo_transition_env =
     \<lparr>te_read = (\<lambda>p. Inr []), te_config = (\<lambda>b. Inl (Errorf ''config'' [] [])), te_compile = (\<lambda>p. Inl (Errorf ''regexp'' [] [])),
      te_logs = \<lparr>lg_stdin = \<lparr>in_body = [], in_read_err = None, in_close_err = None\<rparr>,
        lg_file = (\<lambda>p. Inr \<lparr>in_body = ''a'' @ [newline_char] @ ''b'' @ [newline_char] @ ''d'' @ [newline_char] @ [newline_char] @
            ''f'' @ [newline_char] @ ''e'' @ [newline_char] @ ''c'' @ [newline_char], in_read_err = None, in_close_err = None\<rparr>),
        lg_zstd = (\<lambda>p. Inl (Errorf ''zstd'' [] []))\<rparr>,
      te_decode = demo_decode, te_uri_path = (\<lambda>u. None),
      te_float = (\<lambda>s. if s = ''1'' then Some (Fin 1) else if s = ''2'' then Some (Fin 2) else None),
      te_sha256 = (\<lambda>s. s @ ''......''), te_write = (\<lambda>p b. None)\<rparr>"

definition demo_user_config :: user_config where
  "demo_user_config = \<lparr>uc_cookie_field = ''session'', uc_api_prefix = ''/api/'', uc_routes = []\<rparr>"

definition demo_routes :: "route list" where
  "demo_routes = [(''X'', \<lambda>p. p = ''/api/x''), (''Y'', \<lambda>p. p = ''/api/y'')]"

definition demo_events :: "event list \<times> event list" where
  "demo_events =
     ([\<lparr>ev_start = 750000, ev_end = 1000000, ev_method = ''GET'', ev_route = ''X'', ev_status = 200, ev_ordinal = 1\<rparr>,
       \<lparr>ev_start = 1750000, ev_end = 2000000, ev_method = ''GET'', ev_route = ''Y'', ev_status = 200, ev_ordinal = 3\<rparr>],
      [\<lparr>ev_start = 750000, ev_end = 1000000, ev_method = ''GET'', ev_route = ''Y'', ev_status = 200, ev_ordinal = 2\<rparr>])"

definition demo_reading :: "go_error + aggregator" where
  "demo_reading = fold_res (scan_path demo_transition_env demo_user_config demo_routes 10) [''log''] new_aggregator"

lemma demo_read:
  obtains a where "demo_reading = Inr a"
    and "ut_sessions a = [(''u......'', fst demo_events), (''v......'', snd demo_events)]"
    and "lc_identified (ut_counts a) = 3" "lc_missing (ut_counts a) = 1" "lc_unmatched (ut_counts a) = 1" "lc_malformed (ut_counts a) = 1"
proof -
  have "case demo_reading of
      Inl _ \<Rightarrow> False
    | Inr a \<Rightarrow> ut_sessions a = [(''u......'', fst demo_events), (''v......'', snd demo_events)] \<and>
        lc_identified (ut_counts a) = 3 \<and> lc_missing (ut_counts a) = 1 \<and> lc_unmatched (ut_counts a) = 1 \<and> lc_malformed (ut_counts a) = 1"
    by code_simp
  then show ?thesis by (auto intro: that split: sum.splits)
qed

theorem requests_accounted_witness:
  "case demo_reading of
     Inl _ \<Rightarrow> False
   | Inr a \<Rightarrow> lc_api (ut_counts a) = 5 \<and> mset (map ev_ordinal (concat (map snd (ut_sessions a)))) = {#1, 2, 3#}"
proof -
  obtain a where r: "demo_reading = Inr a"
    and n: "lc_identified (ut_counts a) = 3" "lc_missing (ut_counts a) = 1" "lc_unmatched (ut_counts a) = 1"
    by (rule demo_read)
  have "case demo_reading of
      Inl _ \<Rightarrow> False | Inr a \<Rightarrow> lc_invalid_time (ut_counts a) = 0" by code_simp
  then show ?thesis using requests_accounted [OF r [unfolded demo_reading_def]] n by (simp add: r Let_def upt_rec numeral_2_eq_2 numeral_3_eq_3)
qed

theorem totals_conserved_witness:
  "case demo_reading of
     Inl _ \<Rightarrow> False
   | Inr a \<Rightarrow>
       (let rep = build_report id demo_user_config 1 a in
        sum_list (map er_transitions (tr_edges rep)) + st_sessions (tr_totals rep) = 3 \<and>
        sum_list (map sr_sessions (tr_scenarios rep)) + st_omitted (tr_totals rep) = st_sessions (tr_totals rep))"
proof -
  obtain a where r: "demo_reading = Inr a"
    and n: "lc_identified (ut_counts a) = 3"
    by (rule demo_read)
  then show ?thesis
    using totals_conserved [OF r [unfolded demo_reading_def] _ refl, where sha = id and n = 1]
    by (simp add: r Let_def build_report_fields)
qed

definition demo_aggregator :: "bool \<Rightarrow> aggregator" where
  "demo_aggregator renamed =
     \<lparr>ut_counts = no_counts,
      ut_sessions = (if renamed then [(''p'', snd demo_events), (''q'', fst demo_events)]
        else [(''u'', fst demo_events), (''v'', snd demo_events)]),
      ut_ordinal = 3\<rparr>"

theorem report_of_sessions_witness:
  "build_report (\<lambda>s. rev s) demo_user_config 5 (demo_aggregator True) = build_report (\<lambda>s. rev s) demo_user_config 5 (demo_aggregator False)"
proof (rule report_of_sessions)
  show "plain_sessions (map snd (ut_sessions (demo_aggregator False)))" by code_simp
  show "mset (map snd (ut_sessions (demo_aggregator True))) = mset (map snd (ut_sessions (demo_aggregator False)))"
    by (simp add: demo_aggregator_def)
  show "ut_counts (demo_aggregator True) = ut_counts (demo_aggregator False)" by (simp add: demo_aggregator_def)
  have "distinct (map (scenario_id (\<lambda>s. rev s)) (map scenario_signature (sorted_sessions (demo_aggregator False))))" by code_simp
  then show "inj_on (scenario_id (\<lambda>s. rev s)) (set (map scenario_signature (sorted_sessions (demo_aggregator False))))"
    by (simp only: distinct_map)
qed

theorem percentile_rank_witness: "percentile (sort [3, 1, 2, 4]) (1 / 2) \<in> {1, 2, 3, 4}"
  using percentile_rank [of "[3, 1, 2, 4]" "1 / 2"] by (auto simp add: Let_def)

end
