(* ===== verification/AnalysisSql.thy ===== *)
theory AnalysisSql
  imports TrafficWindow GoExec
begin

text \<open>
  The SQL that \<open>analysisctl\<close> makes (tools/analysisctl/main.go): literals, the schema of the sources that have
  data, and the script that imports RUNs into the index in one transaction.

  The script is the list of its statements, each as the text that is written. How an instant is written in UTC
  is the parameter of the clock (\<open>tc_format\<close>).
\<close>

section \<open>Literals\<close>

text \<open>\<open>strings.ReplaceAll\<close> of one quote by two.\<close>

fun double_quotes :: "string \<Rightarrow> string" where
  "double_quotes [] = []"
| "double_quotes (c # s) = (if c = CHR 0x27 then CHR 0x27 # CHR 0x27 # double_quotes s else c # double_quotes s)"

definition sql_string :: "string \<Rightarrow> string" where
  "sql_string value = CHR 0x27 # double_quotes value @ [CHR 0x27]"

definition sql_timestamp :: "time_codec \<Rightarrow> int \<Rightarrow> string" where
  "sql_timestamp T value = (if value = zero_time then ''NULL'' else ''TIMESTAMPTZ '' @ sql_string (tc_format T value))"

text \<open>How SQL reads a literal after its opening quote: its value and what follows the closing quote.\<close>

fun literal_rest :: "string \<Rightarrow> (string \<times> string) option" where
  "literal_rest [] = None"
| "literal_rest (c # s) =
     (if c = CHR 0x27 then
        (case s of
           d # t \<Rightarrow> if d = CHR 0x27 then map_option (\<lambda>(v, r). (CHR 0x27 # v, r)) (literal_rest t) else Some ([], s)
         | [] \<Rightarrow> Some ([], []))
      else map_option (\<lambda>(v, r). (c # v, r)) (literal_rest s))"

definition sql_literal :: "string \<Rightarrow> (string \<times> string) option" where
  "sql_literal s = (case s of c # t \<Rightarrow> if c = CHR 0x27 then literal_rest t else None | [] \<Rightarrow> None)"

section \<open>Declarations\<close>

record source_config =
  so_scope :: string
  so_table :: string
  so_schema :: string
  so_match :: string
  so_view :: string
  so_windowed :: bool
  so_window_column :: string

record profile_config =
  pf_series_match :: string
  pf_match :: string
  pf_schema :: string
  pf_tables :: "string list"

record report_config =
  rp_bottleneck :: string
  rp_compare_runs :: string
  rp_compare_contest :: string

record analysis_config =
  an_version :: int
  an_base_schema :: string
  an_semantic_schemas :: "string list"
  an_reports :: report_config
  an_load_phase_file :: string
  an_profiles :: profile_config
  an_sources :: "source_config list"
  an_base_dir :: string
  an_load_phase :: load_phase

definition config_path :: "analysis_config \<Rightarrow> string \<Rightarrow> string" where
  "config_path c path = (if is_abs path then path else path_join [an_base_dir c, path])"

text \<open>The errors of a declaration that was decoded, in the order in which they are looked for.\<close>

definition check_source_config :: "nat \<times> source_config \<Rightarrow> go_error option" where
  "check_source_config x =
     (case x of
        (i, s) \<Rightarrow>
          if so_scope s \<noteq> [] \<and> so_scope s \<noteq> ''collection'' then Some (Errorf ''invalid source scope'' [so_scope s] [])
          else if so_table s = [] \<or> so_schema s = [] \<or> so_match s = [] \<or> so_view s = []
          then Some (Errorf ''source requires table, schema, match, and view'' [format_nat i] [])
          else None)"

definition check_analysis_config :: "analysis_config \<Rightarrow> go_error option" where
  "check_analysis_config c =
     (if an_base_schema c = [] \<or> an_sources c = [] then Some (Errorf ''base_schema and sources are required'' [] [])
      else
        (case first_error check_source_config (enumerate 0 (an_sources c)) of
           Some e \<Rightarrow> Some e
         | None \<Rightarrow>
             if (pf_schema (an_profiles c) = []) \<noteq> (pf_tables (an_profiles c) = [])
             then Some (Errorf ''profiles.schema and profiles.tables must be specified together'' [] [])
             else if rp_bottleneck (an_reports c) = [] then Some (Errorf ''reports.bottleneck_profile is required'' [] [])
             else None))"

record config_env =
  ce_read :: reader
  ce_decode :: "string \<Rightarrow> go_error + analysis_config"
  ce_decode_phase :: "string \<Rightarrow> go_error + load_phase"
  ce_compile :: "string \<Rightarrow> go_error + matcher"

definition load_analysis_config :: "config_env \<Rightarrow> string \<Rightarrow> go_error + analysis_config" where
  "load_analysis_config E path =
     (case ce_read E path of
        Inl e \<Rightarrow> Inl (Errorf ''open config'' [] [e])
      | Inr body \<Rightarrow>
          (case ce_decode E body of
             Inl e \<Rightarrow> Inl (Errorf ''decode config'' [] [e])
           | Inr c0 \<Rightarrow>
               (let c = c0\<lparr>an_base_dir := path_dir path\<rparr> in
                if an_version c \<noteq> 1 then Inl (Errorf ''unsupported config version'' [format_int (an_version c)] [])
                else
                  (case (if an_load_phase_file c = [] then Inr (an_load_phase c)
                         else (case ce_read E (config_path c (an_load_phase_file c)) of
                             Inl e \<Rightarrow> Inl (Errorf ''read load_phase'' [] [e])
                           | Inr b \<Rightarrow> (case ce_decode_phase E b of
                               Inl e \<Rightarrow> Inl (Errorf ''decode load_phase'' [] [e]) | Inr p \<Rightarrow> Inr p))) of
                     Inl e \<Rightarrow> Inl e
                   | Inr p \<Rightarrow>
                       (case compile_load_phase (ce_compile E) p of
                          (Some e, _) \<Rightarrow> Inl e
                        | (None, p1) \<Rightarrow>
                            (case check_analysis_config c of Some e \<Rightarrow> Inl e | None \<Rightarrow> Inr (c\<lparr>an_load_phase := p1\<rparr>)))))))"

section \<open>The schema\<close>

fun schema_paths :: "analysis_config \<Rightarrow> string list \<Rightarrow> source_config list \<Rightarrow> string list" where
  "schema_paths c seen [] = []"
| "schema_paths c seen (s # ss) =
     (let p = config_path c (so_schema s) in
      if p \<in> set seen then schema_paths c seen ss else p # schema_paths c (p # seen) ss)"

definition build_schema :: "reader \<Rightarrow> analysis_config \<Rightarrow> source_config list \<Rightarrow> go_error + string" where
  "build_schema read c active =
     (let paths = config_path c (an_base_schema c) # schema_paths c [] active @
            (if pf_schema (an_profiles c) \<noteq> [] then [config_path c (pf_schema (an_profiles c))] else [])
      in case map_res (\<lambda>p. case read p of Inl e \<Rightarrow> Inl (Errorf ''read schema'' [p] [e]) | Inr b \<Rightarrow> Inr (b @ nl)) paths of
           Inl e \<Rightarrow> Inl e
         | Inr bs \<Rightarrow> Inr (concat bs))"

section \<open>The import\<close>

definition import_schema_version :: string where
  "import_schema_version = ''17''"

definition windows_table :: string where
  "windows_table =
     script_lines
      [''create table if not exists db.analysis_windows ('', ''    run_id varchar primary key,'', ''    started_at timestamptz,'',
       ''    ended_at timestamptz,'', ''    source varchar not null,'', ''    status varchar not null,'', ''    reason varchar not null,'',
       ''    request_count bigint not null,'', ''    active_seconds bigint not null,'', ''    start_threshold bigint not null,'',
       ''    start_consecutive bigint not null,'', ''    end_threshold bigint not null,'', ''    end_consecutive bigint not null'', '');'']"

definition unresolved_window :: analysis_window where
  "unresolved_window =
     \<lparr>aw_start = zero_time, aw_end = zero_time, aw_source = ''unavailable'', aw_status = ''unavailable'',
      aw_reason = ''analysis window was not resolved'', aw_requests = 0, aw_active = 0, aw_start_threshold = start_requests,
      aw_start_consecutive = int start_consecutives, aw_end_threshold = end_requests, aw_end_consecutive = int end_consecutives\<rparr>"

definition window_statement :: "time_codec \<Rightarrow> string \<Rightarrow> analysis_window \<Rightarrow> string" where
  "window_statement T run_id w =
     ''insert or replace into db.analysis_windows values ('' @
       join_with '', ''
         [sql_string run_id, sql_timestamp T (aw_start w), sql_timestamp T (aw_end w), sql_string (aw_source w),
          sql_string (aw_status w), sql_string (aw_reason w), format_int (aw_requests w), format_int (aw_active w),
          format_int (aw_start_threshold w), format_int (aw_start_consecutive w), format_int (aw_end_threshold w),
          format_int (aw_end_consecutive w)] @ '');'' @ nl"

definition excluded_statement :: "source_config \<Rightarrow> string \<Rightarrow> string" where
  "excluded_statement s run_id =
     ''insert into db.measurement_sources values ('' @ sql_string run_id @ '','' @ sql_string (so_table s) @ '','' @
       sql_string (so_view s) @
       '',''  @ sql_string ''excluded'' @ '','' @
       sql_string ''whole-lifecycle aggregate has no separable load window; retained as RUN artifact'' @ '');'' @ nl"

definition source_statements :: "string list \<Rightarrow> source_config \<Rightarrow> string list" where
  "source_statements run_ids s =
     (let create = ''create table if not exists db.'' @ so_table s @ '' as select * from '' @ so_view s @ '' limit 0;'' @ nl;
          column = (if so_window_column s = [] then ''ts'' else so_window_column s)
      in if so_scope s = ''collection'' then map (excluded_statement s) run_ids @ [create]
         else if so_windowed s then
           [create,
            ''insert into db.'' @ so_table s @ '' select s.* from '' @ so_view s @
            '' s join db.analysis_windows w on w.run_id = s.run_id where w.status = '' @ sql_string ''ok'' @ '' and s.'' @ column @
            '' >= w.started_at and s.'' @ column @ '' < w.ended_at;'' @ nl]
         else
           [create,
            ''insert into db.'' @ so_table s @ '' select s.* from '' @ so_view s @ '' s join db.import_runs i using (run_id);'' @ nl])"

definition profile_statements :: "string \<Rightarrow> string list" where
  "profile_statements t =
     [''create table if not exists db.'' @ t @ '' as select * from '' @ t @ ''_raw limit 0;'' @ nl,
      ''insert into db.'' @ t @ '' select * from '' @ t @ ''_raw'' @
        (if has_prefix t ''pprof_''
         then '' where not (profile_type = '' @ sql_string ''go-heap'' @ '' and sample_type in ('' @ sql_string ''alloc_space'' @ '','' @
           sql_string ''alloc_objects'' @ ''))''
         else []) @ '';'' @ nl]"

definition mark_statement :: "string \<Rightarrow> string" where
  "mark_statement run_id = ''insert or ignore into db.ingested values ('' @ sql_string run_id @ '');'' @ nl"

definition attach_statement :: "string \<Rightarrow> string" where
  "attach_statement db = ''attach '' @ sql_string db @ '' as db;'' @ nl"

text \<open>The statements between the begin and the commit that import the data.\<close>

definition import_body ::
    "time_codec \<Rightarrow> string list \<Rightarrow> source_config list \<Rightarrow> string list \<Rightarrow> (string, analysis_window) gomap \<Rightarrow> string list" where
  "import_body T tables active run_ids windows =
     [''create or replace table db.import_runs (run_id varchar primary key);'' @ nl] @
     map (\<lambda>r. ''insert into db.import_runs values ('' @ sql_string r @ '');'' @ nl) run_ids @
     [''create or replace table db.runs as select * from runs;'' @ nl, windows_table] @
     map (\<lambda>r. window_statement T r (lookup_or unresolved_window windows r)) run_ids @
     [''create table if not exists db.analysis_metadata (key varchar primary key, value varchar not null);'' @ nl,
      ''insert or replace into db.analysis_metadata values ('' @ sql_string ''import_schema_version'' @ '', '' @
        sql_string import_schema_version @ '');'' @ nl,
      ''create table if not exists db.ingested (run_id varchar primary key);'' @ nl,
      ''create table if not exists db.measurement_sources(run_id varchar, table_name varchar, view_name varchar, status varchar, reason varchar);'' @ nl] @
     concat (map (source_statements run_ids) active) @
     concat (map profile_statements tables)"

definition import_statements ::
    "time_codec \<Rightarrow> string \<Rightarrow> string list \<Rightarrow> source_config list \<Rightarrow> string list \<Rightarrow> (string, analysis_window) gomap \<Rightarrow> string list" where
  "import_statements T db tables active run_ids windows =
     [attach_statement db, ''begin transaction;'' @ nl] @ import_body T tables active run_ids windows @
     map mark_statement run_ids @ [''commit;'' @ nl]"

definition build_import_sql ::
    "time_codec \<Rightarrow> string \<Rightarrow> string list \<Rightarrow> source_config list \<Rightarrow> string list \<Rightarrow> (string, analysis_window) gomap \<Rightarrow> string" where
  "build_import_sql T db tables active run_ids windows = concat (import_statements T db tables active run_ids windows)"

end
