(* ===== verification/AnalysisIndex.thy ===== *)
theory AnalysisIndex
  imports AnalysisSql
begin

text \<open>
  The index of \<open>analysisctl\<close> (tools/analysisctl/main.go and compare.go): the RUNs that were finalized, the calls
  of the DuckDB command line with their wait for a lock, the import of the RUNs that are missing, the rebuild
  of the whole index beside the old one, the status, and the two reports.

  The state is the databases by their path, the clock, the calls of DuckDB and the printed lines. What DuckDB
  does is the parameter \<open>engine\<close>: the output and the error of a call, how long it takes, and the databases
  after it. The RUN directories do not change while the command runs. Parameters besides: the decoder of
  run.json, the preparation of the logs and profiles, the errors of file operations.
\<close>

section \<open>DuckDB\<close>

record duck_call =
  dc_env :: "(string \<times> string) list"
  dc_args :: "string list"
  dc_stdin :: string
  dc_files :: "(string \<times> string) list"

type_synonym 'd databases = "string \<Rightarrow> 'd option"

type_synonym 'd engine =
  "duck_call \<Rightarrow> int \<Rightarrow> 'd databases \<Rightarrow> (string \<times> go_error option) \<times> nat \<times> 'd databases"

record 'd index_state =
  ix_dbs :: "'d databases"
  ix_now :: int
  ix_calls :: "duck_call list"
  ix_lines :: "string list"

definition lock_conflict :: "string \<Rightarrow> bool" where
  "lock_conflict message \<longleftrightarrow>
     contains_str message ''Could not set lock on file '' \<and> contains_str message ''Conflicting lock is held''"

definition lock_retry :: int where
  "lock_retry = 250000000"

definition duck_failure :: "duck_call \<Rightarrow> go_error \<Rightarrow> string \<Rightarrow> go_error" where
  "duck_failure call e message = Errorf ''duckdb'' (dc_args call @ [message]) [e]"

text \<open>One attempt: its output and error.\<close>

definition duck_attempt :: "'d engine \<Rightarrow> duck_call \<Rightarrow> 'd index_state \<Rightarrow> (string \<times> go_error option) \<times> 'd index_state" where
  "duck_attempt run call st =
     (case run call (ix_now st) (ix_dbs st) of
        (result, elapsed, dbs) \<Rightarrow>
          (result, st\<lparr>ix_dbs := dbs, ix_now := ix_now st + int elapsed, ix_calls := ix_calls st @ [call]\<rparr>))"

text \<open>The loop that waits for the lock; time passes in the attempts and while it sleeps.\<close>

function duck_wait :: "'d engine \<Rightarrow> duck_call \<Rightarrow> int \<Rightarrow> int \<Rightarrow> bool \<Rightarrow> 'd index_state \<Rightarrow> (go_error + string) \<times> 'd index_state" where
  "duck_wait run call lock_wait deadline waiting st =
     (case duck_attempt run call st of
        ((output, None), st1) \<Rightarrow> (Inr output, st1)
      | ((output, Some e), st1) \<Rightarrow>
          (let message = trim_space output; failure = duck_failure call e message; remaining = deadline - ix_now st1 in
           if \<not> lock_conflict message then (Inl failure, st1)
           else if remaining \<le> 0 then
             (Inl (if waiting then Errorf ''DuckDB lock wait timed out'' [format_int lock_wait] [failure] else failure), st1)
           else
             duck_wait run call lock_wait deadline True (st1\<lparr>ix_now := ix_now st1 + min lock_retry remaining\<rparr>)))"
  by pat_completeness auto
termination
  by (relation "measure (\<lambda>(run, call, lock_wait, deadline, waiting, st). nat (deadline - ix_now st))")
    (auto simp: duck_attempt_def lock_retry_def split: prod.splits)

declare duck_wait.simps [simp del]

definition duckdb_output :: "'d engine \<Rightarrow> int \<Rightarrow> duck_call \<Rightarrow> 'd index_state \<Rightarrow> (go_error + string) \<times> 'd index_state" where
  "duckdb_output run lock_wait call st = duck_wait run call lock_wait (ix_now st + lock_wait) False st"

section \<open>The environment\<close>

datatype manifest_file = NoManifest | BadManifest go_error | ManifestBody string

datatype file_info = BadInfo go_error | IsDir | IsFile nat

record 'd analysis_env =
  ae_engine :: "'d engine"
  ae_lock_wait :: int
  ae_db :: string
  ae_results :: string
  ae_config :: analysis_config
  ae_entries :: "go_error + (string \<times> bool) list"
  ae_manifest :: "string \<Rightarrow> manifest_file"
  ae_phase :: "string \<Rightarrow> string option"
  ae_files :: "(string, file_info) gomap"
  ae_read :: reader
  ae_window :: window_env
  ae_temp_dir :: "go_error + string"
  ae_prepare_logs :: "string \<Rightarrow> string \<Rightarrow> string list \<Rightarrow> go_error + string"
  ae_prepare_profiles :: "string \<Rightarrow> string list \<Rightarrow> (string, analysis_window) gomap \<Rightarrow> go_error option"
  ae_encode_windows :: "(string \<times> int \<times> int \<times> string) list \<Rightarrow> string"
  ae_write :: "string \<Rightarrow> go_error option"
  ae_environ :: "(string \<times> string) list"
  ae_mkdir :: "string \<Rightarrow> go_error option"
  ae_temp_db :: "go_error + string"
  ae_release :: "string \<Rightarrow> go_error option"
  ae_rename :: "go_error option"
  ae_stat_db :: "go_error option"

section \<open>The finalized RUNs\<close>

text \<open>One entry of the results: a finalized RUN, something else, or an error.\<close>

definition finalized_entry :: "'d analysis_env \<Rightarrow> string \<times> bool \<Rightarrow> go_error + bool" where
  "finalized_entry E x =
     (case x of
        (name, is_dir) \<Rightarrow>
          if \<not> is_dir then Inr False
          else
            (case ae_manifest E (path_join [path_join [ae_results E, name], ''run.json'']) of
               NoManifest \<Rightarrow> Inr False
             | BadManifest e \<Rightarrow> Inl (Errorf ''read run.json'' [name] [e])
             | ManifestBody body \<Rightarrow> Inr (ae_phase E body = Some ''finalized'')))"

definition discover_runs :: "'d analysis_env \<Rightarrow> go_error + string list" where
  "discover_runs E =
     (case ae_entries E of
        Inl e \<Rightarrow> Inl (Errorf ''read results'' [] [e])
      | Inr entries \<Rightarrow>
          (case map_res (\<lambda>x. case finalized_entry E x of Inl e \<Rightarrow> Inl e | Inr b \<Rightarrow> Inr (if b then [fst x] else [])) entries of
             Inl e \<Rightarrow> Inl e
           | Inr names \<Rightarrow> Inr (sort (concat names))))"

section \<open>The sources that have data\<close>

text \<open>Whether a match is a file that is not empty; looking at the matches ends with the first.\<close>

fun some_data :: "'d analysis_env \<Rightarrow> string list \<Rightarrow> go_error + bool" where
  "some_data E [] = Inr False"
| "some_data E (p # ps) =
     (case lookup_or (BadInfo (Errorf ''file does not exist'' [] [])) (ae_files E) p of
        BadInfo e \<Rightarrow> Inl (Errorf ''stat source artifact'' [p] [e])
      | IsDir \<Rightarrow> some_data E ps
      | IsFile n \<Rightarrow> if 0 < n then Inr True else some_data E ps)"

fun source_found :: "'d analysis_env \<Rightarrow> source_config \<Rightarrow> string list \<Rightarrow> go_error + bool" where
  "source_found E s [] = Inr False"
| "source_found E s (d # ds) =
     (case glob_result (path_join [d, so_match s]) (ae_files E) of
        Inl e \<Rightarrow> Inl (Errorf ''invalid source match'' [so_match s] [e])
      | Inr ps \<Rightarrow>
          (case some_data E ps of Inl e \<Rightarrow> Inl e | Inr True \<Rightarrow> Inr True | Inr False \<Rightarrow> source_found E s ds))"

fun active_sources :: "'d analysis_env \<Rightarrow> string list \<Rightarrow> source_config list \<Rightarrow> go_error + source_config list" where
  "active_sources E dirs [] = Inr []"
| "active_sources E dirs (s # ss) =
     (case source_found E s dirs of
        Inl e \<Rightarrow> Inl e
      | Inr found \<Rightarrow>
          (case active_sources E dirs ss of Inl e \<Rightarrow> Inl e | Inr rest \<Rightarrow> Inr (if found then s # rest else rest)))"

section \<open>Importing\<close>

text \<open>A window that was taken over from the collection does not select a load.\<close>

definition load_only :: "analysis_window \<Rightarrow> analysis_window" where
  "load_only w =
     (if aw_source w = ''collection-window-fallback''
      then w\<lparr>aw_status := ''unavailable'', aw_reason := ''load-only import unavailable: '' @ aw_reason w\<rparr> else w)"

definition import_windows :: "'d analysis_env \<Rightarrow> string list \<Rightarrow> string list \<Rightarrow> (string, analysis_window) gomap" where
  "import_windows E dirs run_ids =
     map (\<lambda>(k, w). (k, load_only w)) (resolve_analysis_windows (ae_window E) dirs run_ids (an_load_phase (ae_config E)))"

text \<open>The zero value of a window, for a RUN without one.\<close>

definition zero_window :: analysis_window where
  "zero_window =
     \<lparr>aw_start = zero_time, aw_end = zero_time, aw_source = [], aw_status = [], aw_reason = [], aw_requests = 0, aw_active = 0,
      aw_start_threshold = 0, aw_start_consecutive = 0, aw_end_threshold = 0, aw_end_consecutive = 0\<rparr>"

definition declared_windows :: "(string, analysis_window) gomap \<Rightarrow> string list \<Rightarrow> (string \<times> int \<times> int \<times> string) list" where
  "declared_windows ws run_ids =
     map (\<lambda>r. let w = lookup_or zero_window ws r in (r, aw_start w, aw_end w, aw_status w)) run_ids"

definition import_call :: "'d analysis_env \<Rightarrow> string \<Rightarrow> string \<Rightarrow> string \<Rightarrow> string \<Rightarrow> duck_call" where
  "import_call E temp run_glob schema sql =
     (let schema_path = path_join [temp, ''schema.sql'']; sql_path = path_join [temp, ''import.sql''] in
      \<lparr>dc_env = ae_environ E @ [(''ISUCON_RUN_GLOB'', run_glob), (''ISUCON_PROFILE_DIR'', path_join [temp, ''profiles''])],
       dc_args = [''-init'', schema_path, ''-c'', ''.read '' @ sql_path], dc_stdin = [],
       dc_files = [(schema_path, schema), (sql_path, sql)]\<rparr>)"

text \<open>Everything up to the call of DuckDB: the call, or the error.\<close>

definition prepare_import ::
    "'d analysis_env \<Rightarrow> string \<Rightarrow> string \<Rightarrow> string list \<Rightarrow> string list \<Rightarrow> go_error + duck_call" where
  "prepare_import E db run_glob dirs run_ids =
     (case active_sources E dirs (an_sources (ae_config E)) of
        Inl e \<Rightarrow> Inl e
      | Inr active \<Rightarrow>
          (let ws = import_windows E dirs run_ids; tables = pf_tables (an_profiles (ae_config E)) in
           case ae_temp_dir E of
             Inl e \<Rightarrow> Inl e
           | Inr temp \<Rightarrow>
               (case ae_prepare_logs E temp run_glob dirs of
                  Inl e \<Rightarrow> Inl e
                | Inr staged \<Rightarrow>
                    (case ae_mkdir E (path_join [temp, ''profiles'']) of
                       Some e \<Rightarrow> Inl e
                     | None \<Rightarrow>
                         (case (if tables = [] then None else ae_prepare_profiles E (path_join [temp, ''profiles'']) dirs ws) of
                            Some e \<Rightarrow> Inl e
                          | None \<Rightarrow>
                              (case build_schema (ae_read E) (ae_config E) active of
                                 Inl e \<Rightarrow> Inl e
                               | Inr schema \<Rightarrow>
                                   (let declared = ''set variable analysis_windows = '' @
                                          sql_string (ae_encode_windows E (declared_windows ws run_ids)) @ '';'' @ nl in
                                    case first_error (ae_write E) [path_join [temp, ''schema.sql''], path_join [temp, ''import.sql'']] of
                                      Some e \<Rightarrow> Inl e
                                    | None \<Rightarrow>
                                        Inr (import_call E temp staged (declared @ schema)
                                          (build_import_sql (we_clock (ae_window E)) db tables active run_ids ws)))))))))"

definition run_duck :: "'d analysis_env \<Rightarrow> duck_call \<Rightarrow> 'd index_state \<Rightarrow> go_error option \<times> 'd index_state" where
  "run_duck E call st =
     (case duckdb_output (ae_engine E) (ae_lock_wait E) call st of
        (Inl e, st1) \<Rightarrow> (Some e, st1) | (Inr _, st1) \<Rightarrow> (None, st1))"

definition sync_selection ::
    "'d analysis_env \<Rightarrow> string \<Rightarrow> string \<Rightarrow> string list \<Rightarrow> string list \<Rightarrow> 'd index_state \<Rightarrow> go_error option \<times> 'd index_state" where
  "sync_selection E db run_glob dirs run_ids st =
     (case prepare_import E db run_glob dirs run_ids of Inl e \<Rightarrow> (Some e, st) | Inr call \<Rightarrow> run_duck E call st)"

definition sql_call :: "string \<Rightarrow> string \<Rightarrow> duck_call" where
  "sql_call db script = \<lparr>dc_env = [], dc_args = [db, ''-c'', script], dc_stdin = [], dc_files = []\<rparr>"

fun apply_semantic_schemas :: "'d analysis_env \<Rightarrow> string \<Rightarrow> string list \<Rightarrow> 'd index_state \<Rightarrow> go_error option \<times> 'd index_state" where
  "apply_semantic_schemas E db [] st = (None, st)"
| "apply_semantic_schemas E db (p # ps) st =
     (case ae_read E (config_path (ae_config E) p) of
        Inl e \<Rightarrow> (Some (Errorf ''read semantic schema'' [] [e]), st)
      | Inr body \<Rightarrow>
          (case run_duck E (sql_call db body) st of
             (Some e, st1) \<Rightarrow> (Some (Errorf ''apply'' [p] [e]), st1)
           | (None, st1) \<Rightarrow> apply_semantic_schemas E db ps st1))"

definition print_to :: "string \<Rightarrow> 'd index_state \<Rightarrow> 'd index_state" where
  "print_to l st = st\<lparr>ix_lines := ix_lines st @ [l]\<rparr>"

section \<open>Rebuilding\<close>

text \<open>The directories of RUNs.\<close>

definition run_dirs :: "'d analysis_env \<Rightarrow> string list \<Rightarrow> string list" where
  "run_dirs E runs = map (\<lambda>r. path_join [ae_results E, r]) runs"

text \<open>The temporary file is closed and removed, so that only its name is used (\<open>ae_release\<close>); the new index is built at \<open>temp\<close>.\<close>

definition build_index :: "'d analysis_env \<Rightarrow> string \<Rightarrow> string list \<Rightarrow> 'd index_state \<Rightarrow> go_error option \<times> 'd index_state" where
  "build_index E temp runs st =
     (case sync_selection E temp (path_join [ae_results E, ''*'']) (run_dirs E runs) runs st of
        (Some e, st1) \<Rightarrow> (Some e, st1)
      | (None, st1) \<Rightarrow> apply_semantic_schemas E temp (an_semantic_schemas (ae_config E)) st1)"

text \<open>\<open>os.Rename\<close>, which needs its source; what is left at \<open>temp\<close> is removed in any case.\<close>

definition replace_index :: "'d analysis_env \<Rightarrow> string \<Rightarrow> go_error option \<times> 'd index_state \<Rightarrow> go_error option \<times> 'd index_state" where
  "replace_index E temp built =
     (let remove = (\<lambda>st. st\<lparr>ix_dbs := (ix_dbs st)(temp := None)\<rparr>) in
      case built of
        (Some e, st) \<Rightarrow> (Some e, remove st)
      | (None, st) \<Rightarrow>
          (case (if ix_dbs st temp = None then Some (Errorf ''no such file or directory'' [] []) else ae_rename E) of
             Some e \<Rightarrow> (Some (Errorf ''replace index'' [] [e]), remove st)
           | None \<Rightarrow>
               (None, print_to (ae_db E @ '' built'') (remove (st\<lparr>ix_dbs := (ix_dbs st)(ae_db E := ix_dbs st temp)\<rparr>)))))"

definition rebuild_runs :: "'d analysis_env \<Rightarrow> string list \<Rightarrow> 'd index_state \<Rightarrow> go_error option \<times> 'd index_state" where
  "rebuild_runs E runs st =
     (case ae_mkdir E (path_dir (ae_db E)) of
        Some e \<Rightarrow> (Some e, st)
      | None \<Rightarrow>
          (case ae_temp_db E of
             Inl e \<Rightarrow> (Some (Errorf ''create rebuild database'' [] [e]), st)
           | Inr temp \<Rightarrow>
               (case ae_release E temp of
                  Some e \<Rightarrow> (Some e, st)
                | None \<Rightarrow> replace_index E temp (build_index E temp runs (print_to (''building '' @ ae_db E) st)))))"

definition rebuild :: "'d analysis_env \<Rightarrow> 'd index_state \<Rightarrow> go_error option \<times> 'd index_state" where
  "rebuild E st = (case discover_runs E of Inl e \<Rightarrow> (Some e, st) | Inr runs \<Rightarrow> rebuild_runs E runs st)"

section \<open>Asking the index\<close>

definition query_call :: "string \<Rightarrow> string \<Rightarrow> duck_call" where
  "query_call db query =
     \<lparr>dc_env = [], dc_args = [''-readonly'', ''-noheader'', ''-list'', db, ''-c'', query], dc_stdin = [], dc_files = []\<rparr>"

definition ask :: "'d analysis_env \<Rightarrow> string \<Rightarrow> 'd index_state \<Rightarrow> (go_error + string) \<times> 'd index_state" where
  "ask E query st = duckdb_output (ae_engine E) (ae_lock_wait E) (query_call (ae_db E) query) st"

text \<open>\<open>fmt.Sscan\<close> of a decimal number: an optional sign, and the digits that follow.\<close>

definition sscan_int :: "string \<Rightarrow> int option" where
  "sscan_int s =
     (case s of
        [] \<Rightarrow> None
      | c # t \<Rightarrow>
          (let signed = (c = CHR ''-'' \<or> c = CHR ''+''); digits = takeWhile is_digit (if signed then t else s)
           in parse_int64 ((if signed then [c] else []) @ digits)))"

definition query_count :: "'d analysis_env \<Rightarrow> string \<Rightarrow> 'd index_state \<Rightarrow> (go_error + int) \<times> 'd index_state" where
  "query_count E query st =
     (case ask E query st of
        (Inl e, st1) \<Rightarrow> (Inl e, st1)
      | (Inr output, st1) \<Rightarrow>
          ((case sscan_int (trim_space output) of
              None \<Rightarrow> Inl (Errorf ''parse DuckDB count'' [trim_space output] []) | Some n \<Rightarrow> Inr n), st1))"

definition output_lines :: "string \<Rightarrow> string list" where
  "output_lines output = split_char newline_char (trim_space output)"

definition indexed_query :: string where
  "indexed_query = ''select run_id from ingested order by run_id''"

definition indexed_runs :: "'d analysis_env \<Rightarrow> 'd index_state \<Rightarrow> (go_error + string list) \<times> 'd index_state" where
  "indexed_runs E st =
     (case ask E indexed_query st of
        (Inl e, st1) \<Rightarrow> (Inl e, st1)
      | (Inr output, st1) \<Rightarrow> (Inr (remdups (filter (\<lambda>l. l \<noteq> []) (output_lines output))), st1))"

definition import_schema_current :: "'d analysis_env \<Rightarrow> 'd index_state \<Rightarrow> (go_error + bool) \<times> 'd index_state" where
  "import_schema_current E st =
     (case query_count E (''select count(*) from information_schema.tables where table_name = '' @ sql_string ''analysis_metadata'') st of
        (Inl e, st1) \<Rightarrow> (Inl e, st1)
      | (Inr n, st1) \<Rightarrow>
          if n = 0 then (Inr False, st1)
          else
            (case ask E (''select value from analysis_metadata where key = '' @ sql_string ''import_schema_version'') st1 of
               (Inl e, st2) \<Rightarrow> (Inl e, st2)
             | (Inr output, st2) \<Rightarrow> (Inr (trim_space output = import_schema_version), st2)))"

definition wanted_tables :: "'d analysis_env \<Rightarrow> source_config list \<Rightarrow> string list" where
  "wanted_tables E active = sort (remdups (map so_table active @ pf_tables (an_profiles (ae_config E))))"

definition tables_query :: "string list \<Rightarrow> string" where
  "tables_query tables =
     ''select table_name from information_schema.tables where table_name in ('' @ join_with '','' (map sql_string tables) @ '')''"

definition missing_tables ::
    "'d analysis_env \<Rightarrow> source_config list \<Rightarrow> 'd index_state \<Rightarrow> (go_error + string list) \<times> 'd index_state" where
  "missing_tables E active st =
     (let tables = wanted_tables E active in
      if tables = [] then (Inr [], st)
      else
        (case ask E (tables_query tables) st of
           (Inl e, st1) \<Rightarrow> (Inl e, st1)
         | (Inr output, st1) \<Rightarrow> (Inr (filter (\<lambda>t. t \<notin> set (output_lines output)) tables), st1)))"

section \<open>Synchronizing\<close>

text \<open>The loop over the RUNs: each one that is not in the index is imported alone.\<close>

fun import_missing :: "'d analysis_env \<Rightarrow> string list \<Rightarrow> string list \<Rightarrow> 'd index_state \<Rightarrow> (go_error + nat) \<times> 'd index_state" where
  "import_missing E indexed [] st = (Inr 0, st)"
| "import_missing E indexed (r # rs) st =
     (if r \<in> set indexed then import_missing E indexed rs st
      else
        (let dir = path_join [ae_results E, r] in
         case sync_selection E (ae_db E) dir [dir] [r] st of
           (Some e, st1) \<Rightarrow> (Inl (Errorf ''import'' [r] [e]), st1)
         | (None, st1) \<Rightarrow>
             (case import_missing E indexed rs (print_to (r @ '' imported into '' @ ae_db E) st1) of
                (Inl e, st2) \<Rightarrow> (Inl e, st2) | (Inr n, st2) \<Rightarrow> (Inr (Suc n), st2))))"

definition extend_index :: "'d analysis_env \<Rightarrow> string list \<Rightarrow> 'd index_state \<Rightarrow> go_error option \<times> 'd index_state" where
  "extend_index E runs st =
     (case indexed_runs E st of
        (Inl e, st1) \<Rightarrow> (Some e, st1)
      | (Inr indexed, st1) \<Rightarrow>
          (case import_missing E indexed runs st1 of
             (Inl e, st2) \<Rightarrow> (Some e, st2)
           | (Inr added, st2) \<Rightarrow>
               (case apply_semantic_schemas E (ae_db E) (an_semantic_schemas (ae_config E)) st2 of
                  (Some e, st3) \<Rightarrow> (Some e, st3)
                | (None, st3) \<Rightarrow> (None, if added = 0 then print_to (ae_db E @ '' is current'') st3 else st3))))"

definition sync_runs :: "'d analysis_env \<Rightarrow> string list \<Rightarrow> 'd index_state \<Rightarrow> go_error option \<times> 'd index_state" where
  "sync_runs E runs st =
     (case active_sources E (run_dirs E runs) (an_sources (ae_config E)) of
        Inl e \<Rightarrow> (Some e, st)
      | Inr active \<Rightarrow>
          (case import_schema_current E st of
             (Inl e, st1) \<Rightarrow> (Some e, st1)
           | (Inr current, st1) \<Rightarrow>
               if \<not> current then rebuild_runs E runs (print_to (ae_db E @ '': import schema version is old'') st1)
               else
                 (case missing_tables E active st1 of
                    (Inl e, st2) \<Rightarrow> (Some e, st2)
                  | (Inr missing, st2) \<Rightarrow>
                      if missing \<noteq> [] then
                        rebuild_runs E runs (print_to (ae_db E @ '': import schema is old: '' @ join_with '' '' missing) st2)
                      else extend_index E runs st2)))"

definition sync_index :: "'d analysis_env \<Rightarrow> 'd index_state \<Rightarrow> go_error option \<times> 'd index_state" where
  "sync_index E st =
     (case discover_runs E of
        Inl e \<Rightarrow> (Some e, st)
      | Inr runs \<Rightarrow>
          if ix_dbs st (ae_db E) = None then rebuild_runs E runs st
          else (case ae_stat_db E of Some e \<Rightarrow> (Some e, st) | None \<Rightarrow> sync_runs E runs st))"

definition index_status :: "'d analysis_env \<Rightarrow> 'd index_state \<Rightarrow> go_error option \<times> 'd index_state" where
  "index_status E st =
     (case discover_runs E of
        Inl e \<Rightarrow> (Some e, st)
      | Inr runs \<Rightarrow>
          (let say = (\<lambda>db n i p st. fold print_to
                 [''database: '' @ db, ''runs: '' @ format_nat n, ''indexed: '' @ format_nat i, ''pending: '' @ format_nat p] st)
           in if ix_dbs st (ae_db E) = None then (None, say ''missing'' (length runs) 0 (length runs) st)
              else
                (case ae_stat_db E of
                   Some e \<Rightarrow> (Some e, st)
                 | None \<Rightarrow>
                     (case indexed_runs E st of
                        (Inl e, st1) \<Rightarrow> (Some e, st1)
                      | (Inr indexed, st1) \<Rightarrow>
                          (None, say (ae_db E) (length runs) (length indexed)
                             (length (filter (\<lambda>r. r \<notin> set indexed) runs)) st1)))))"

section \<open>Reports\<close>

text \<open>The pattern of a RUN id, \<open>^[0-9]{8}-[0-9]{6}$\<close>, and that of a host.\<close>

definition run_id_ok :: "string \<Rightarrow> bool" where
  "run_id_ok s \<longleftrightarrow>
     length s = 15 \<and> list_all is_digit (take 8 s) \<and> s ! 8 = CHR ''-'' \<and> list_all is_digit (drop 9 s)"

definition host_ok :: "string \<Rightarrow> bool" where
  "host_ok s \<longleftrightarrow>
     s \<noteq> [] \<and> list_all (\<lambda>c. is_digit c \<or> (CHR ''A'' \<le> c \<and> c \<le> CHR ''Z'') \<or> (CHR ''a'' \<le> c \<and> c \<le> CHR ''z'') \<or> c \<in> set ''._-'') s"

definition report_script :: "(string \<times> string) list \<Rightarrow> string \<Rightarrow> string" where
  "report_script variables body =
     concat (map (\<lambda>(k, v). ''set variable '' @ k @ '' = '' @ sql_string v @ '';'' @ nl) (sort_key fst variables)) @ body"

text \<open>A report is not retried.\<close>

definition run_index_report ::
    "'d analysis_env \<Rightarrow> string \<Rightarrow> (string \<times> string) list \<Rightarrow> 'd index_state \<Rightarrow> go_error option \<times> 'd index_state" where
  "run_index_report E path variables st =
     (case ae_read E (config_path (ae_config E) path) of
        Inl e \<Rightarrow> (Some (Errorf ''read report'' [path] [e]), st)
      | Inr body \<Rightarrow>
          (case duck_attempt (ae_engine E)
             \<lparr>dc_env = [], dc_args = [''-readonly'', ae_db E], dc_stdin = report_script variables body, dc_files = []\<rparr> st of
             ((output, err), st1) \<Rightarrow> (map_option (\<lambda>e. Errorf ''run report'' [path] [e]) err, print_to output st1)))"

definition require_database :: "'d analysis_env \<Rightarrow> 'd index_state \<Rightarrow> go_error option" where
  "require_database E st =
     (if ix_dbs st (ae_db E) = None then Some (Errorf ''analysis DB not found'' [ae_db E] []) else ae_stat_db E)"

definition profile_query :: "string \<Rightarrow> string \<Rightarrow> string" where
  "profile_query run_id host =
     ''select count(*) from profile_metadata where run_id = '' @ sql_string run_id @ '' and host = '' @ sql_string host"

definition profile_report :: "'d analysis_env \<Rightarrow> string \<Rightarrow> string \<Rightarrow> string \<Rightarrow> 'd index_state \<Rightarrow> go_error option \<times> 'd index_state" where
  "profile_report E run_id host pattern st =
     (if \<not> run_id_ok run_id then (Some (Errorf ''invalid RUN ID'' [run_id] []), st)
      else if \<not> host_ok host then (Some (Errorf ''invalid host'' [host] []), st)
      else if pattern = [] then (Some (Errorf ''symbol pattern is required'' [] []), st)
      else
        (case require_database E st of
           Some e \<Rightarrow> (Some e, st)
         | None \<Rightarrow>
             (case query_count E (profile_query run_id host) st of
                (Inl e, st1) \<Rightarrow> (Some e, st1)
              | (Inr n, st1) \<Rightarrow>
                  if n \<noteq> 1 then (Some (Errorf ''fgprof profile not found in analysis DB'' [run_id, host] []), st1)
                  else
                    run_index_report E (rp_bottleneck (an_reports (ae_config E)))
                      [(''host_name'', host), (''run_id'', run_id), (''symbol_pattern'', pattern)]
                      (print_to (''== FOCUSED TOP: '' @ host @ '' / '' @ pattern @ '' =='') st1))))"

text \<open>The checks of the two RUNs of a comparison, each on both before the next.\<close>

definition check_compared :: "'d analysis_env \<Rightarrow> string \<Rightarrow> go_error option" where
  "check_compared E r =
     (if \<not> run_id_ok r then Some (Errorf ''invalid RUN ID'' [r] [])
      else
        (case ae_manifest E (path_join [ae_results E, r, ''run.json'']) of
           NoManifest \<Rightarrow> Some (Errorf ''read RUN'' [r] [Errorf ''file does not exist'' [] []])
         | BadManifest e \<Rightarrow> Some (Errorf ''read RUN'' [r] [e])
         | ManifestBody body \<Rightarrow>
             (case ae_phase E body of
                None \<Rightarrow> Some (Errorf ''decode RUN'' [r] [])
              | Some phase \<Rightarrow> if phase \<noteq> ''finalized'' then Some (Errorf ''RUN is not finalized'' [r] []) else None)))"

definition indexed_count_query :: "string \<Rightarrow> string" where
  "indexed_count_query r =
     ''select count(*) from manifests m join ingested i using (run_id) where m.run_id = '' @ sql_string r"

fun check_indexed :: "'d analysis_env \<Rightarrow> string list \<Rightarrow> 'd index_state \<Rightarrow> go_error option \<times> 'd index_state" where
  "check_indexed E [] st = (None, st)"
| "check_indexed E (r # rs) st =
     (case query_count E (indexed_count_query r) st of
        (Inl e, st1) \<Rightarrow> (Some e, st1)
      | (Inr n, st1) \<Rightarrow>
          if n \<noteq> 1 then (Some (Errorf ''RUN is not indexed'' [r] []), st1) else check_indexed E rs st1)"

definition compare_runs :: "'d analysis_env \<Rightarrow> bool \<Rightarrow> string \<Rightarrow> string \<Rightarrow> 'd index_state \<Rightarrow> go_error option \<times> 'd index_state" where
  "compare_runs E check_only b n st =
     (let reports = an_reports (ae_config E); vars = [(''base_run'', b), (''new_run'', n)] in
      if rp_compare_runs reports = [] then (Some (Errorf ''reports.compare_runs is not configured'' [] []), st)
      else
        (case first_error (check_compared E) [b, n] of
           Some e \<Rightarrow> (Some e, st)
         | None \<Rightarrow>
             (case require_database E st of
                Some e \<Rightarrow> (Some e, st)
              | None \<Rightarrow>
                  (case check_indexed E [b, n] st of
                     (Some e, st1) \<Rightarrow> (Some e, st1)
                   | (None, st1) \<Rightarrow>
                       if check_only then (None, st1)
                       else
                         (case run_index_report E (rp_compare_runs reports) vars
                            (print_to (''== RUN comparison: '' @ b @ '' -> '' @ n @ '' =='') st1) of
                            (Some e, st2) \<Rightarrow> (Some e, st2)
                          | (None, st2) \<Rightarrow>
                              if rp_compare_contest reports = [] then (None, st2)
                              else run_index_report E (rp_compare_contest reports) vars
                                     (print_to ''== Contest aggregates =='' st2))))))"

section \<open>The command line\<close>

text \<open>The flags of a subcommand and its arguments; \<open>None\<close> is an error of the flag package. The commands that
  change the index hold its lock file: what making and taking it gives is \<open>af_lock\<close>.\<close>

record analysis_flags =
  af_lock_wait :: int
  af_check_only :: bool
  af_args :: "string list"
  af_mkdir :: "go_error option"
  af_lock :: "go_error option"

definition with_lock ::
    "analysis_flags \<Rightarrow> ('d index_state \<Rightarrow> go_error option \<times> 'd index_state) \<Rightarrow> 'd index_state \<Rightarrow> go_error option \<times> 'd index_state" where
  "with_lock f action st =
     (case af_mkdir f of
        Some e \<Rightarrow> (Some e, st)
      | None \<Rightarrow> (case af_lock f of Some e \<Rightarrow> (Some (Errorf ''lock index'' [] [e]), st) | None \<Rightarrow> action st))"

definition run_analysis ::
    "(string list \<Rightarrow> go_error + analysis_flags) \<Rightarrow> (analysis_flags \<Rightarrow> go_error + 'd analysis_env) \<Rightarrow> string list \<Rightarrow> 'd index_state \<Rightarrow>
     go_error option \<times> 'd index_state" where
  "run_analysis parse load args st =
     (case args of
        [] \<Rightarrow> (Some (Errorf ''usage: analysisctl <sync|rebuild|status|profile|compare> [flags] [arguments]'' [] []), st)
      | command # rest \<Rightarrow>
          (case parse rest of
             Inl e \<Rightarrow> (Some e, st)
           | Inr f \<Rightarrow>
               if af_lock_wait f < 0 then (Some (Errorf ''lock-wait must not be negative'' [] []), st)
               else
                 (case load f of
                    Inl e \<Rightarrow> (Some e, st)
                  | Inr E0 \<Rightarrow>
                      (let E = E0\<lparr>ae_lock_wait := af_lock_wait f\<rparr>; as = af_args f;
                           unexpected = Errorf ''unexpected arguments'' as [] in
                       if command = ''sync'' then (if as \<noteq> [] then (Some unexpected, st) else with_lock f (sync_index E) st)
                       else if command = ''rebuild'' then (if as \<noteq> [] then (Some unexpected, st) else with_lock f (rebuild E) st)
                       else if command = ''status'' then (if as \<noteq> [] then (Some unexpected, st) else index_status E st)
                       else if command = ''compare'' then
                         (case as of
                            [b, n] \<Rightarrow> compare_runs E (af_check_only f) b n st
                          | _ \<Rightarrow> (Some (Errorf ''usage: analysisctl compare [flags] BASE_RUN NEW_RUN'' [] []), st))
                       else if command = ''profile'' then
                         (case as of
                            [r, h, p] \<Rightarrow> profile_report E r h p st
                          | _ \<Rightarrow> (Some (Errorf ''usage: analysisctl profile [flags] RUN_ID HOST SYMBOL_PATTERN'' [] []), st))
                       else (Some (Errorf ''unknown command'' [command] []), st)))))"

end
