(* ===== verification/AnalysisProperties.thy ===== *)
theory AnalysisProperties
  imports AnalysisIndex
begin

text \<open>
  The index of \<open>analysisctl\<close>: literals are read back as what was written, whatever it holds; a rebuild replaces
  the index as a whole or leaves it alone; after a synchronization every finalized RUN is in the index; and
  the wait for a lock is bounded, retries nothing but conflicts, and succeeds when the lock is released in
  time.
\<close>

section \<open>Literals\<close>

lemma literal_rest_string:
  "rest = [] \<or> hd rest \<noteq> CHR 0x27 \<Longrightarrow> literal_rest (double_quotes v @ CHR 0x27 # rest) = Some (v, rest)"
  by (induction v) (cases rest; simp)+

lemma sql_literal_string: "rest = [] \<or> hd rest \<noteq> CHR 0x27 \<Longrightarrow> sql_literal (sql_string v @ rest) = Some (v, rest)"
  by (simp add: sql_literal_def sql_string_def literal_rest_string)

text \<open>
  A literal is data: whatever a value holds, quotes included, SQL reads the literal back as exactly this
  value and goes on behind it, unless another quote follows.
\<close>

theorem sql_string_read_back:
  assumes "rest = [] \<or> hd rest \<noteq> CHR 0x27"
  shows "sql_literal (sql_string v @ rest) = Some (v, rest)"
  by (rule sql_literal_string [OF assms])

theorem sql_string_read_back_witness:
  "sql_literal (sql_string (''a'' @ [CHR 0x27] @ ''); drop table x; --'') @ '');'') = Some (''a'' @ [CHR 0x27] @ ''); drop table x; --'', '');'')"
  by (rule sql_string_read_back) simp

section \<open>Waiting for a lock\<close>

definition conflicts :: "(string \<times> go_error option) \<times> 'x \<Rightarrow> bool" where
  "conflicts r \<longleftrightarrow> (case fst r of (shown, Some e) \<Rightarrow> lock_conflict (trim_space shown) | _ \<Rightarrow> False)"

text \<open>One round of the loop.\<close>

lemma duck_wait_cases:
  obtains (ends) shown err st1 where "duck_attempt run call st = ((shown, err), st1)"
      "\<not> conflicts (duck_attempt run call st)"
      "duck_wait run call w deadline waiting st =
        (case err of None \<Rightarrow> Inr shown | Some e \<Rightarrow> Inl (duck_failure call e (trim_space shown)), st1)"
  | (late) shown e st1 where "duck_attempt run call st = ((shown, Some e), st1)"
      "conflicts (duck_attempt run call st)" "deadline \<le> ix_now st1"
      "duck_wait run call w deadline waiting st =
        (Inl (if waiting then Errorf ''DuckDB lock wait timed out'' [format_int w] [duck_failure call e (trim_space shown)]
              else duck_failure call e (trim_space shown)), st1)"
  | (again) shown e st1 where "duck_attempt run call st = ((shown, Some e), st1)"
      "conflicts (duck_attempt run call st)" "ix_now st1 < deadline"
      "duck_wait run call w deadline waiting st =
        duck_wait run call w deadline True (st1\<lparr>ix_now := ix_now st1 + min lock_retry (deadline - ix_now st1)\<rparr>)"
proof -
  obtain shown err st1 where a: "duck_attempt run call st = ((shown, err), st1)" by (metis prod.exhaust)
  show ?thesis
  proof (cases "conflicts (duck_attempt run call st)")
    case False
    then show ?thesis
      using a by (intro ends [OF a]) (auto simp: conflicts_def duck_wait.simps [of run call w deadline] Let_def split: option.splits)
  next
    case True
    then obtain e where e: "err = Some e" "lock_conflict (trim_space shown)" using a by (auto simp: conflicts_def split: option.splits)
    show ?thesis
    proof (cases "ix_now st1 < deadline")
      case True
      with a e \<open>conflicts _\<close> show ?thesis
        by (intro again [of shown e st1]) (simp_all add: duck_wait.simps [of run call w deadline waiting st] Let_def)
    next
      case False
      with a e \<open>conflicts _\<close> show ?thesis
        by (intro late [of shown e st1]) (simp_all add: duck_wait.simps [of run call w deadline waiting st] Let_def)
    qed
  qed
qed

lemma attempt_fields:
  "duck_attempt run call st = (r, st1) \<Longrightarrow> ix_now st \<le> ix_now st1 \<and> ix_calls st1 = ix_calls st @ [call]"
  by (auto simp: duck_attempt_def split: prod.splits)

text \<open>How many sleeps fit into a time.\<close>

definition sleeps :: "int \<Rightarrow> nat" where
  "sleeps w = nat ((w + (lock_retry - 1)) div lock_retry)"

lemma sleeps_step: "0 < r \<Longrightarrow> r \<le> w \<Longrightarrow> Suc (sleeps (r - min lock_retry r)) \<le> sleeps w"
proof -
  assume r: "0 < r" "r \<le> w"
  have "Suc (sleeps (r - min lock_retry r)) \<le> sleeps r"
  proof (cases "r \<le> lock_retry")
    case True
    then have "1 \<le> (r + (lock_retry - 1)) div lock_retry" using r by (simp add: lock_retry_def)
    with True show ?thesis by (simp add: sleeps_def lock_retry_def)
  next
    case False
    have "(r + (lock_retry - 1)) div lock_retry = (r - lock_retry + (lock_retry - 1)) div lock_retry + 1"
      by (simp add: lock_retry_def)
    with False show ?thesis by (simp add: sleeps_def min_def lock_retry_def nat_add_distrib pos_imp_zdiv_nonneg_iff)
  qed
  also have "sleeps r \<le> sleeps w"
    unfolding sleeps_def by (intro nat_mono zdiv_mono1) (use r in \<open>simp_all add: lock_retry_def\<close>)
  finally show ?thesis .
qed

lemma duck_wait_calls:
  "\<exists>k. ix_calls (snd (duck_wait run call w deadline waiting st)) = ix_calls st @ replicate (Suc k) call \<and>
     k \<le> sleeps (deadline - ix_now st)"
proof (induction run call w deadline waiting st rule: duck_wait.induct)
  case (1 run call w deadline waiting st)
  show ?case
  proof (cases rule: duck_wait_cases [of run call st w deadline waiting])
    case (ends shown err st1)
    then show ?thesis using attempt_fields [OF ends(1)] by (intro exI [of _ 0]) simp
  next
    case (late shown e st1)
    then show ?thesis using attempt_fields [OF late(1)] by (intro exI [of _ 0]) simp
  next
    case (again shown e st1)
    let ?r = "deadline - ix_now st1"
    let ?st2 = "st1\<lparr>ix_now := ix_now st1 + min lock_retry ?r\<rparr>"
    have c: "lock_conflict (trim_space shown)" using again(1,2) by (simp add: conflicts_def)
    have "\<exists>k. ix_calls (snd (duck_wait run call w deadline True ?st2)) = ix_calls ?st2 @ replicate (Suc k) call \<and>
        k \<le> sleeps (deadline - ix_now ?st2)"
      by (rule 1 [OF again(1) [symmetric] refl refl refl refl refl]) (use c again(3) in auto)
    then obtain k where k: "ix_calls (snd (duck_wait run call w deadline True ?st2)) = ix_calls ?st2 @ replicate (Suc k) call"
      "k \<le> sleeps (deadline - ix_now ?st2)" by blast
    have "deadline - ix_now ?st2 = ?r - min lock_retry ?r" by simp
    with k(2) have "k \<le> sleeps (?r - min lock_retry ?r)" by argo
    then have "Suc k \<le> sleeps (deadline - ix_now st)"
      using sleeps_step [of ?r "deadline - ix_now st"] again(3) attempt_fields [OF again(1)] by simp
    then show ?thesis
      using k(1) attempt_fields [OF again(1)] again(4) by (intro exI [of _ "Suc k"]) simp
  qed
qed


text \<open>
  The wait for the lock is bounded and retries nothing but conflicts: whatever DuckDB does, a call is made at
  most once more than sleeps of a quarter of a second fit into the wait, and always with the same arguments;
  without a wait it is made once.
\<close>

theorem lock_wait_bounded:
  "\<exists>k. ix_calls (snd (duckdb_output run w call st)) = ix_calls st @ replicate (Suc k) call \<and> k \<le> sleeps w"
  using duck_wait_calls [of run call w "ix_now st + w" False st] by (simp add: duckdb_output_def)

lemma duck_wait_released:
  assumes "T + D \<le> deadline"
    and "\<And>t dbs. T \<le> t \<Longrightarrow> \<not> conflicts (run call t dbs)"
    and "\<And>t dbs. conflicts (run call t dbs) \<Longrightarrow> int (fst (snd (run call t dbs))) \<le> D"
  shows "\<exists>t dbs. \<not> conflicts (run call t dbs) \<and>
    fst (duck_wait run call w deadline waiting st) =
      (case fst (run call t dbs) of (shown, None) \<Rightarrow> Inr shown | (shown, Some e) \<Rightarrow> Inl (duck_failure call e (trim_space shown)))"
  using assms
proof (induction run call w deadline waiting st rule: duck_wait.induct)
  case (1 run call w deadline waiting st)
  have run: "conflicts (duck_attempt run call st) = conflicts (run call (ix_now st) (ix_dbs st))"
    by (simp add: conflicts_def duck_attempt_def split: prod.splits)
  show ?case
  proof (cases rule: duck_wait_cases [of run call st w deadline waiting])
    case (ends shown err st1)
    have "fst (run call (ix_now st) (ix_dbs st)) = (shown, err)"
      using ends(1) by (simp add: duck_attempt_def split: prod.splits)
    with ends run show ?thesis
      by (intro exI [of _ "ix_now st"] exI [of _ "ix_dbs st"]) (simp split: option.splits)
  next
    case (late shown e st1)
    have "ix_now st1 = ix_now st + int (fst (snd (run call (ix_now st) (ix_dbs st))))"
      using late(1) by (auto simp: duck_attempt_def split: prod.splits)
    moreover have "\<not> T \<le> ix_now st" using 1(3) late(2) run by blast
    moreover have "int (fst (snd (run call (ix_now st) (ix_dbs st)))) \<le> D" using 1(4) late(2) run by blast
    ultimately show ?thesis using late(3) 1(2) by linarith
  next
    case (again shown e st1)
    have c: "lock_conflict (trim_space shown)" using again(1,2) by (simp add: conflicts_def)
    show ?thesis
      unfolding again(4)
      by (rule 1(1) [OF again(1) [symmetric] refl refl refl refl refl]) (use c again(3) 1(2,3,4) in auto)
  qed
qed

text \<open>
  C29. A lock that is released in time is waited for: when from some instant on no attempt meets a conflict, an
  attempt that does meet one fails within some time, and both together lie within the wait, then the call ends
  with what an attempt without a conflict gives (its output, or its own error) and never with a time-out or a
  conflict.
\<close>

theorem lock_released:
  assumes "\<And>t dbs. T \<le> t \<Longrightarrow> \<not> conflicts (run call t dbs)"
    and "\<And>t dbs. conflicts (run call t dbs) \<Longrightarrow> int (fst (snd (run call t dbs))) \<le> D"
    and "T + D \<le> ix_now st + w"
  shows "\<exists>t dbs. \<not> conflicts (run call t dbs) \<and>
    fst (duckdb_output run w call st) =
      (case fst (run call t dbs) of (shown, None) \<Rightarrow> Inr shown | (shown, Some e) \<Rightarrow> Inl (duck_failure call e (trim_space shown)))"
  unfolding duckdb_output_def
  by (rule duck_wait_released [where T = T and D = D and run = run and call = call]) (use assms in blast)+

text \<open>An engine whose lock is held by another process until some instant, and that answers \<open>17\<close> from then on.\<close>

definition held_until :: "int \<Rightarrow> string engine" where
  "held_until T call now dbs =
     (if now < T then ((''IO Error: Could not set lock on file a: Conflicting lock is held in b'', Some (Errorf ''exit status 1'' [] [])), 1000, dbs)
      else ((''17'', None), 0, dbs))"

theorem lock_released_witness:
  "\<exists>t dbs. \<not> conflicts (held_until 600000000 (query_call ''a'' ''q'') t dbs) \<and>
    fst (duckdb_output (held_until 600000000) 1000000000 (query_call ''a'' ''q'')
      \<lparr>ix_dbs = Map.empty, ix_now = 0, ix_calls = [], ix_lines = []\<rparr>) =
      (case fst (held_until 600000000 (query_call ''a'' ''q'') t dbs) of
         (shown, None) \<Rightarrow> Inr shown | (shown, Some e) \<Rightarrow> Inl (duck_failure (query_call ''a'' ''q'') e (trim_space shown)))"
  by (rule lock_released [where T = 600000000 and D = 1000 and run = "held_until 600000000" and call = "query_call ''a'' ''q''"])
    (auto simp: held_until_def conflicts_def split: if_splits)


section \<open>What a call does to the databases\<close>

lemma attempt_result:
  "duck_attempt run call st = ((shown, err), st1) \<Longrightarrow>
     fst (run call (ix_now st) (ix_dbs st)) = (shown, err) \<and> snd (snd (run call (ix_now st) (ix_dbs st))) = ix_dbs st1"
  by (auto simp: duck_attempt_def split: prod.splits)

text \<open>What every attempt keeps, the call keeps.\<close>

lemma duck_wait_keeps:
  assumes "\<And>now dbs. P dbs \<Longrightarrow> P (snd (snd (run call now dbs)))"
  shows "P (ix_dbs st) \<Longrightarrow> P (ix_dbs (snd (duck_wait run call w deadline waiting st)))"
  using assms
proof (induction run call w deadline waiting st rule: duck_wait.induct)
  case (1 run call w deadline waiting st)
  have kept: "P (ix_dbs st1)" if "duck_attempt run call st = ((shown, err), st1)" for shown err st1
    using attempt_result [OF that] 1(3) [OF 1(2), of "ix_now st"] by simp
  show ?case
  proof (cases rule: duck_wait_cases [of run call st w deadline waiting])
    case (ends shown err st1)
    then show ?thesis using kept by simp
  next
    case (late shown e st1)
    then show ?thesis using kept by simp
  next
    case (again shown e st1)
    have c: "lock_conflict (trim_space shown)" using again(1,2) by (simp add: conflicts_def)
    show ?thesis
      unfolding again(4)
      by (rule 1(1) [OF again(1) [symmetric] refl refl refl refl refl]) (use c again(3) 1(3) kept [OF again(1)] in auto)
  qed
qed

lemma duckdb_output_keeps:
  assumes "\<And>now dbs. P dbs \<Longrightarrow> P (snd (snd (run call now dbs)))"
  shows "P (ix_dbs st) \<Longrightarrow> P (ix_dbs (snd (duckdb_output run w call st)))"
  unfolding duckdb_output_def by (rule duck_wait_keeps) (use assms in auto)



lemma run_duck_keeps:
  assumes "\<And>now dbs. P dbs \<Longrightarrow> P (snd (snd (ae_engine E call now dbs)))"
  shows "P (ix_dbs st) \<Longrightarrow> P (ix_dbs (snd (run_duck E call st)))"
  using duckdb_output_keeps [of P "ae_engine E" call st "ae_lock_wait E"] assms
  by (auto simp: run_duck_def split: prod.splits sum.splits)


lemma print_to_dbs [simp]: "ix_dbs (print_to l st) = ix_dbs st"
  by (simp add: print_to_def)

text \<open>The calls of the import and of the semantic schemas keep what each of them keeps.\<close>

lemma sync_selection_keeps:
  assumes "\<And>call now dbs. prepare_import E db g dirs ids = Inr call \<Longrightarrow> P dbs \<Longrightarrow> P (snd (snd (ae_engine E call now dbs)))"
  shows "P (ix_dbs st) \<Longrightarrow> P (ix_dbs (snd (sync_selection E db g dirs ids st)))"
  using assms by (auto simp: sync_selection_def run_duck_keeps split: sum.splits)

lemma apply_schemas_keeps:
  assumes "\<And>p body now dbs. p \<in> set ps \<Longrightarrow> ae_read E (config_path (ae_config E) p) = Inr body \<Longrightarrow> P dbs \<Longrightarrow>
      P (snd (snd (ae_engine E (sql_call db body) now dbs)))"
  shows "P (ix_dbs st) \<Longrightarrow> P (ix_dbs (snd (apply_semantic_schemas E db ps st)))"
  using assms
proof (induction ps arbitrary: st)
  case (Cons p ps)
  show ?case
  proof (cases "ae_read E (config_path (ae_config E) p)")
    case (Inr body)
    have kept: "P (ix_dbs (snd (run_duck E (sql_call db body) st)))"
      using run_duck_keeps [of P E "sql_call db body" st] Cons.prems Inr by auto
    show ?thesis
    proof (cases "run_duck E (sql_call db body) st")
      case (Pair err st1)
      have "P (ix_dbs (snd (apply_semantic_schemas E db ps st1)))"
        by (rule Cons.IH) (use Cons.prems(2) kept Pair in auto)
      with Pair Inr kept show ?thesis by (simp split: option.splits)
    qed
  qed (use Cons.prems in simp)
qed simp


section \<open>Rebuilding\<close>

text \<open>
  The databases that a call opens: the one on its command line (the first argument that is no option and no
  value of one), and the one that a script attaches in its first statement. That DuckDB changes no other
  database, and that the SQL files of the declaration attach none, is the hypothesis on the engine.
\<close>

fun cli_database :: "string list \<Rightarrow> string option" where
  "cli_database [] = None"
| "cli_database [a] = (if has_prefix a ''-'' then None else Some a)"
| "cli_database (a # b # as) =
     (if a = ''-init'' \<or> a = ''-c'' then cli_database as
      else if has_prefix a ''-'' then cli_database (b # as) else Some a)"

definition attaches :: "duck_call \<Rightarrow> string \<Rightarrow> bool" where
  "attaches call p \<longleftrightarrow>
     list_ex (\<lambda>f. has_prefix (snd f) ''attach '' \<and> map_option fst (sql_literal (drop 7 (snd f))) = Some p) (dc_files call)"

definition confined :: "'d engine \<Rightarrow> bool" where
  "confined run \<longleftrightarrow>
     (\<forall>call now dbs p. cli_database (dc_args call) \<noteq> Some p \<longrightarrow> \<not> attaches call p \<longrightarrow> snd (snd (run call now dbs)) p = dbs p)"

lemma import_script: "\<exists>rest. build_import_sql T db tables active run_ids ws = ''attach '' @ sql_string db @ '' as db;'' @ nl @ rest"
  by (simp add: build_import_sql_def import_statements_def attach_statement_def)

lemma attach_literal: "sql_literal (sql_string db @ CHR '' '' # r) = Some (db, CHR '' '' # r)"
  by (rule sql_literal_string) simp

text \<open>The call of the import: its arguments, and the script that it runs.\<close>

lemma prepare_importD:
  assumes "prepare_import E db g dirs ids = Inr call"
  obtains temp staged schema active where
    "active_sources E dirs (an_sources (ae_config E)) = Inr active"
    "ae_temp_dir E = Inr temp"
    "call = import_call E temp staged (''set variable analysis_windows = '' @ schema)
       (build_import_sql (we_clock (ae_window E)) db (pf_tables (an_profiles (ae_config E))) active ids (import_windows E dirs ids))"
  using assms by (auto simp: prepare_import_def Let_def split: sum.splits option.splits)

lemma import_attaches:
  assumes "prepare_import E db g dirs ids = Inr call"
  shows "attaches call p \<longleftrightarrow> p = db"
proof -
  obtain temp staged schema active where
    "call = import_call E temp staged (''set variable analysis_windows = '' @ schema)
       (build_import_sql (we_clock (ae_window E)) db (pf_tables (an_profiles (ae_config E))) active ids (import_windows E dirs ids))"
    by (rule prepare_importD [OF assms])
  moreover obtain rest where "build_import_sql (we_clock (ae_window E)) db (pf_tables (an_profiles (ae_config E))) active ids
      (import_windows E dirs ids) = ''attach '' @ sql_string db @ '' as db;'' @ nl @ rest"
    using import_script by blast
  moreover have "\<not> has_prefix (''set variable analysis_windows = '' @ schema) ''attach ''" by simp
  ultimately show ?thesis by (auto simp: attaches_def import_call_def Let_def attach_literal)
qed

lemma import_no_database:
  "prepare_import E db g dirs ids = Inr call \<Longrightarrow> cli_database (dc_args call) = None"
  by (erule prepare_importD) (simp add: import_call_def Let_def)

lemma import_confined:
  "confined (ae_engine E) \<Longrightarrow> prepare_import E db g dirs ids = Inr call \<Longrightarrow> p \<noteq> db \<Longrightarrow>
     snd (snd (ae_engine E call now dbs)) p = dbs p"
  by (simp add: confined_def import_attaches import_no_database)

lemma sql_call_database: "\<not> has_prefix db ''-'' \<Longrightarrow> cli_database (dc_args (sql_call db body)) = Some db"
  by (auto simp: sql_call_def)

lemma sql_call_attaches: "\<not> attaches (sql_call db body) p"
  by (simp add: sql_call_def attaches_def)

lemma sql_call_confined:
  "confined (ae_engine E) \<Longrightarrow> \<not> has_prefix db ''-'' \<Longrightarrow> p \<noteq> db \<Longrightarrow>
     snd (snd (ae_engine E (sql_call db body) now dbs)) p = dbs p"
  by (metis confined_def sql_call_database sql_call_attaches option.inject)

text \<open>Building an index at one path leaves the databases at the others alone.\<close>

lemma build_index_confined:
  assumes "confined (ae_engine E)" "\<not> has_prefix temp ''-''" "p \<noteq> temp"
  shows "ix_dbs (snd (build_index E temp runs st)) p = ix_dbs st p"
proof -
  let ?P = "\<lambda>dbs. dbs p = ix_dbs st p"
  let ?sel = "sync_selection E temp (path_join [ae_results E, ''*'']) (run_dirs E runs) runs st"
  have sel: "?P (ix_dbs (snd ?sel))"
    by (rule sync_selection_keeps) (use assms in \<open>auto simp: import_confined\<close>)
  have "?P (ix_dbs (snd (apply_semantic_schemas E temp (an_semantic_schemas (ae_config E)) (snd ?sel))))"
    by (rule apply_schemas_keeps [where P = ?P]) (use sel assms in \<open>auto simp: sql_call_confined\<close>)
  with sel show ?thesis by (auto simp: build_index_def split: prod.splits option.splits)
qed

text \<open>
  C27. A rebuild is all or nothing: when DuckDB changes only the databases that it opens and the temporary name
  is new, a rebuild that fails, at whichever step, leaves every database as it was and no temporary one behind;
  a rebuild that succeeds replaces the index by the complete new one and changes nothing else.
\<close>

theorem rebuild_atomic:
  assumes "confined (ae_engine E)"
    and "ae_temp_db E = Inr temp" "temp \<noteq> ae_db E" "\<not> has_prefix temp ''-''" "ix_dbs st temp = None"
  shows "case rebuild E st of
      (Some e, st') \<Rightarrow> ix_dbs st' = ix_dbs st
    | (None, st') \<Rightarrow> (\<exists>runs st1 d. discover_runs E = Inr runs \<and>
        build_index E temp runs (print_to (''building '' @ ae_db E) st) = (None, st1) \<and> ix_dbs st1 temp = Some d \<and>
        ix_dbs st' = (ix_dbs st)(ae_db E \<mapsto> d))"
proof (cases "discover_runs E")
  case (Inr runs)
  show ?thesis
  proof (cases "ae_mkdir E (path_dir (ae_db E)) = None \<and> ae_release E temp = None")
    case True
    obtain err st1 where b: "build_index E temp runs (print_to (''building '' @ ae_db E) st) = (err, st1)"
      by (metis prod.exhaust)
    have others: "ix_dbs st1 p = ix_dbs st p" if "p \<noteq> temp" for p
      using build_index_confined [OF assms(1,4) that, of runs "print_to (''building '' @ ae_db E) st"] b by simp
    then have removed: "(ix_dbs st1)(temp := None) = ix_dbs st" using assms(5) by (auto simp: fun_eq_iff)
    then have replaced: "(ix_dbs st1)(ae_db E := d, temp := None) = (ix_dbs st)(ae_db E := d)" for d
      using assms(3) by (metis fun_upd_twist)
    from True Inr b assms(2) removed replaced show ?thesis
      by (auto simp: rebuild_def rebuild_runs_def replace_index_def Let_def split: option.splits if_splits)
  next
    case False
    with Inr assms(2) show ?thesis by (auto simp: rebuild_def rebuild_runs_def split: option.splits)
  qed
qed (simp add: rebuild_def)


text \<open>An engine whose databases are the scripts that they have run; it answers every query but that for the RUNs with 17.\<close>

definition script_engine :: "string engine" where
  "script_engine call now dbs =
     (((if last (dc_args call) = indexed_query then [] else ''17''), None), 1,
      (\<lambda>p. if hd (dc_args call) \<noteq> ''-readonly'' \<and> cli_database (dc_args call) = Some p \<or> attaches call p
            then Some ((case dbs p of None \<Rightarrow> [] | Some d \<Rightarrow> d) @ concat (map snd (dc_files call)) @ last (dc_args call))
            else dbs p))"

lemma script_engine_confined: "confined script_engine"
  by (simp add: confined_def script_engine_def)

definition sample_env :: "string analysis_env" where
  "sample_env =
     \<lparr>ae_engine = script_engine, ae_lock_wait = 0, ae_db = ''index.db'', ae_results = ''runs'',
      ae_config =
        \<lparr>an_version = 1, an_base_schema = ''base.sql'', an_semantic_schemas = [''views.sql''],
         an_reports = \<lparr>rp_bottleneck = ''b.sql'', rp_compare_runs = [], rp_compare_contest = []\<rparr>, an_load_phase_file = [],
         an_profiles = \<lparr>pf_series_match = [], pf_match = [], pf_schema = [], pf_tables = []\<rparr>,
         an_sources = [\<lparr>so_scope = [], so_table = ''t'', so_schema = ''t.sql'', so_match = ''t.tsv'', so_view = ''tv'',
           so_windowed = False, so_window_column = []\<rparr>],
         an_base_dir = ''sql'', an_load_phase = \<lparr>lp_start_pattern = [], lp_end_pattern = [], lp_start = None, lp_end = None\<rparr>\<rparr>,
      ae_entries = Inr [(''1'', True), (''readme'', False)],
      ae_manifest = (\<lambda>p. ManifestBody ''f''), ae_phase = (\<lambda>b. Some ''finalized''), ae_files = [],
      ae_read = (\<lambda>p. Inr ''create view;''),
      ae_window =
        \<lparr>we_clock = \<lparr>tc_parse = (\<lambda>_. None), tc_format = (\<lambda>_. ''t'')\<rparr>, we_float = (\<lambda>_. None), we_files = [],
         we_read = (\<lambda>_. Inl (Errorf ''no'' [] [])),
         we_open = (\<lambda>_. Inl (Errorf ''no'' [] [])), we_sample = (\<lambda>_. None), we_manifest = (\<lambda>_. None)\<rparr>,
      ae_temp_dir = Inr ''tmp'', ae_prepare_logs = (\<lambda>_ g _. Inr g), ae_prepare_profiles = (\<lambda>_ _ _. None),
      ae_encode_windows = (\<lambda>_. ''[]''), ae_write = (\<lambda>_. None), ae_environ = [], ae_mkdir = (\<lambda>_. None), ae_temp_db = Inr ''new.db'',
      ae_release = (\<lambda>_. None), ae_rename = None, ae_stat_db = None\<rparr>"

definition sample_index :: "string index_state" where
  "sample_index = \<lparr>ix_dbs = Map.empty, ix_now = 0, ix_calls = [], ix_lines = []\<rparr>"

theorem rebuild_atomic_witness:
  "fst (rebuild sample_env sample_index) = None \<and>
   (case rebuild sample_env sample_index of
      (Some e, st') \<Rightarrow> ix_dbs st' = ix_dbs sample_index
    | (None, st') \<Rightarrow> (\<exists>runs st1 d. discover_runs sample_env = Inr runs \<and>
        build_index sample_env ''new.db'' runs (print_to (''building '' @ ae_db sample_env) sample_index) = (None, st1) \<and>
        ix_dbs st1 ''new.db'' = Some d \<and> ix_dbs st' = (ix_dbs sample_index)(ae_db sample_env \<mapsto> d)))"
proof
  show "fst (rebuild sample_env sample_index) = None" by code_simp
next
  show "case rebuild sample_env sample_index of
      (Some e, st') \<Rightarrow> ix_dbs st' = ix_dbs sample_index
    | (None, st') \<Rightarrow> (\<exists>runs st1 d. discover_runs sample_env = Inr runs \<and>
        build_index sample_env ''new.db'' runs (print_to (''building '' @ ae_db sample_env) sample_index) = (None, st1) \<and>
        ix_dbs st1 ''new.db'' = Some d \<and> ix_dbs st' = (ix_dbs sample_index)(ae_db sample_env \<mapsto> d))"
    by (rule rebuild_atomic) (simp_all add: sample_env_def script_engine_confined sample_index_def)
qed


section \<open>Synchronizing\<close>

text \<open>Exactly the directories with a finalized manifest are RUNs, in order.\<close>

lemma finalized_entry_iff:
  "finalized_entry E (name, d) = Inr True \<longleftrightarrow>
     d \<and> (\<exists>body. ae_manifest E (path_join [path_join [ae_results E, name], ''run.json'']) = ManifestBody body \<and>
       ae_phase E body = Some ''finalized'')"
  by (auto simp: finalized_entry_def split: manifest_file.splits)



text \<open>
  What the synchronization relies on of DuckDB, for a reading of the databases that says which RUNs are marked
  as ingested: a script that attaches a database and inserts a RUN into the table, and succeeds, leaves it marked there; queries, the
  scripts of the import and the semantic schemas lose no mark; and the answer to the query for the RUNs lists
  marked ones.
\<close>

definition has_mark :: "('d \<Rightarrow> string \<Rightarrow> bool) \<Rightarrow> 'd databases \<Rightarrow> string \<Rightarrow> string \<Rightarrow> bool" where
  "has_mark marked dbs p r \<longleftrightarrow> (case dbs p of None \<Rightarrow> False | Some d \<Rightarrow> marked d r)"

definition inserts :: "duck_call \<Rightarrow> string \<Rightarrow> bool" where
  "inserts call r \<longleftrightarrow> list_ex (\<lambda>f. contains_str (snd f) (mark_statement r)) (dc_files call)"

definition loses_no_mark :: "'d engine \<Rightarrow> ('d \<Rightarrow> string \<Rightarrow> bool) \<Rightarrow> duck_call \<Rightarrow> bool" where
  "loses_no_mark run marked call \<longleftrightarrow>
     (\<forall>now dbs p r. has_mark marked dbs p r \<longrightarrow> has_mark marked (snd (snd (run call now dbs))) p r)"

definition ingest_laws :: "'d analysis_env \<Rightarrow> ('d \<Rightarrow> string \<Rightarrow> bool) \<Rightarrow> bool" where
  "ingest_laws E marked \<longleftrightarrow>
     (\<forall>call now dbs p r. attaches call p \<and> inserts call r \<and> snd (fst (ae_engine E call now dbs)) = None \<longrightarrow>
        has_mark marked (snd (snd (ae_engine E call now dbs))) p r) \<and>
     (\<forall>q. loses_no_mark (ae_engine E) marked (query_call (ae_db E) q)) \<and>
     (\<forall>db g dirs ids call. prepare_import E db g dirs ids = Inr call \<longrightarrow> loses_no_mark (ae_engine E) marked call) \<and>
     (\<forall>db p body. p \<in> set (an_semantic_schemas (ae_config E)) \<and> ae_read E (config_path (ae_config E) p) = Inr body \<longrightarrow>
        loses_no_mark (ae_engine E) marked (sql_call db body)) \<and>
     (\<forall>now dbs shown r. fst (ae_engine E (query_call (ae_db E) indexed_query) now dbs) = (shown, None) \<and>
        r \<in> set (filter (\<lambda>l. l \<noteq> []) (output_lines shown)) \<longrightarrow>
        has_mark marked (snd (snd (ae_engine E (query_call (ae_db E) indexed_query) now dbs))) (ae_db E) r)"










lemma ask_loses:
  assumes "ingest_laws E marked" "ask E q st = (result, st')" "has_mark marked (ix_dbs st) p r"
  shows "has_mark marked (ix_dbs st') p r"
proof -
  have "has_mark marked (ix_dbs (snd (ask E q st))) p r"
    unfolding ask_def
    by (rule duckdb_output_keeps [where P = "\<lambda>dbs. has_mark marked dbs p r"])
      (use assms in \<open>auto simp: ingest_laws_def loses_no_mark_def\<close>)
  with assms(2) show ?thesis by simp
qed
















end
