(* ===== verification/ProcParse.thy ===== *)
theory ProcParse
  imports GoInput GoPath GoTime "HOL-Library.Word"
begin

text \<open>
  The samples of \<open>proc-metrics\<close> (tools/measurement/cmd/proc-metrics): the counters of the kernel, as the files
  under /proc give them, and the parsers of these files.

  A counter is a 64-bit word; its sums and multiples wrap around as in the source. A file is an opener's
  stream. What a text denotes as a floating-point number is a parameter.
\<close>

type_synonym u64 = "64 word"

section \<open>Counters\<close>

record cpu_counters =
  cc_user :: u64
  cc_system :: u64
  cc_idle :: u64
  cc_iowait :: u64
  cc_steal :: u64

definition cpu_total :: "cpu_counters \<Rightarrow> u64" where
  "cpu_total c = cc_user c + cc_system c + cc_idle c + cc_iowait c + cc_steal c"

record net_counters =
  nc_rx_bytes :: u64
  nc_tx_bytes :: u64
  nc_rx_packets :: u64
  nc_tx_packets :: u64
  nc_rx_errors :: u64
  nc_tx_errors :: u64
  nc_rx_drops :: u64
  nc_tx_drops :: u64

record disk_counters =
  dk_reads :: u64
  dk_reads_merged :: u64
  dk_read_bytes :: u64
  dk_read_ms :: u64
  dk_writes :: u64
  dk_writes_merged :: u64
  dk_write_bytes :: u64
  dk_write_ms :: u64
  dk_in_progress :: u64
  dk_io_ms :: u64
  dk_weighted_ms :: u64
  dk_discards :: u64
  dk_discards_merged :: u64
  dk_discard_bytes :: u64
  dk_discard_ms :: u64
  dk_flushes :: u64
  dk_flush_ms :: u64

record pressure =
  pr_some :: fval
  pr_full :: fval

record snapshot =
  sn_at :: int
  sn_cpu :: cpu_counters
  sn_ctxt :: u64
  sn_intr :: u64
  sn_running :: u64
  sn_blocked :: u64
  sn_mem_total :: u64
  sn_mem_available :: u64
  sn_mem_free :: u64
  sn_buffers :: u64
  sn_cached :: u64
  sn_swap_total :: u64
  sn_swap_free :: u64
  sn_swap_in :: u64
  sn_swap_out :: u64
  sn_load1 :: fval
  sn_load5 :: fval
  sn_load15 :: fval
  sn_disk :: disk_counters
  sn_disks :: "(string, disk_counters) gomap"
  sn_net :: net_counters
  sn_cpu_pressure :: pressure
  sn_memory_pressure :: pressure
  sn_io_pressure :: pressure

section \<open>Fields\<close>

definition parse_error :: "string \<Rightarrow> go_error" where
  "parse_error s = Errorf ''strconv.ParseUint'' [s] []"

definition parse_word :: "string \<Rightarrow> go_error + u64" where
  "parse_word s = (case parse_uint64 s of None \<Rightarrow> Inl (parse_error s) | Some n \<Rightarrow> Inr (word_of_nat n))"

definition parse_uint_fields :: "string list \<Rightarrow> go_error + u64 list" where
  "parse_uint_fields fs = map_res parse_word fs"

definition value_at :: "u64 list \<Rightarrow> nat \<Rightarrow> u64" where
  "value_at values i = (if length values \<le> i then 0 else values ! i)"

section \<open>/proc/stat\<close>

record proc_stat =
  ps_cpu :: cpu_counters
  ps_ctxt :: u64
  ps_intr :: u64
  ps_running :: u64
  ps_blocked :: u64
  ps_seen :: bool

definition empty_stat :: proc_stat where
  "empty_stat =
     \<lparr>ps_cpu = \<lparr>cc_user = 0, cc_system = 0, cc_idle = 0, cc_iowait = 0, cc_steal = 0\<rparr>,
      ps_ctxt = 0, ps_intr = 0, ps_running = 0, ps_blocked = 0, ps_seen = False\<rparr>"

text \<open>The times of a guest are part of the user's; interrupts count for the system.\<close>

definition cpu_of :: "u64 list \<Rightarrow> cpu_counters" where
  "cpu_of vs =
     \<lparr>cc_user = vs ! 0 + value_at vs 1, cc_system = value_at vs 2 + value_at vs 5 + value_at vs 6,
      cc_idle = value_at vs 3, cc_iowait = value_at vs 4, cc_steal = value_at vs 7\<rparr>"

definition stat_line :: "string \<Rightarrow> proc_stat \<Rightarrow> go_error + proc_stat" where
  "stat_line line st =
     (let fs = str_fields line; name = fs ! 0;
          put = (\<lambda>upd. case parse_word (fs ! 1) of Inl e \<Rightarrow> Inl e | Inr v \<Rightarrow> Inr (upd v)) in
      if length fs < 2 then Inr st
      else if name = ''cpu'' then
        (if length fs < 6 then Inl (Errorf ''invalid cpu line'' [] [])
         else
           (case parse_uint_fields (drop 1 fs) of
              Inl e \<Rightarrow> Inl e | Inr vs \<Rightarrow> Inr (st\<lparr>ps_cpu := cpu_of vs, ps_seen := True\<rparr>)))
      else if name = ''ctxt'' then put (\<lambda>v. st\<lparr>ps_ctxt := v\<rparr>)
      else if name = ''intr'' then put (\<lambda>v. st\<lparr>ps_intr := v\<rparr>)
      else if name = ''procs_running'' then put (\<lambda>v. st\<lparr>ps_running := v\<rparr>)
      else if name = ''procs_blocked'' then put (\<lambda>v. st\<lparr>ps_blocked := v\<rparr>)
      else Inr st)"

definition stat_limit :: int where
  "stat_limit = 1024 * 1024"

definition parse_proc_stat :: "stream \<Rightarrow> go_error + proc_stat" where
  "parse_proc_stat src =
     (case scan_fold stat_limit stat_line src empty_stat of
        Inl e \<Rightarrow> Inl e
      | Inr st \<Rightarrow> if ps_seen st then Inr st else Inl (Errorf ''cpu line not found'' [] []))"

section \<open>/proc/meminfo and /proc/vmstat\<close>

definition scaled :: "string list \<Rightarrow> u64 \<Rightarrow> u64" where
  "scaled fs v =
     (if length fs < 3 then v
      else if fs ! 2 = ''kB'' then v * 1024
      else if fs ! 2 = ''mB'' then v * (1024 * 1024)
      else v)"

definition meminfo_line :: "string \<Rightarrow> (string, u64) gomap \<Rightarrow> go_error + (string, u64) gomap" where
  "meminfo_line line m =
     (let fs = str_fields line in
      if length fs < 2 then Inr m
      else
        (case parse_word (fs ! 1) of
           Inl e \<Rightarrow> Inl e
         | Inr v \<Rightarrow> Inr (AList.update (trim_suffix (fs ! 0) '':'') (scaled fs v) m)))"

definition parse_meminfo :: "stream \<Rightarrow> go_error + (string, u64) gomap" where
  "parse_meminfo src = scan_fold token_limit meminfo_line src []"

definition vmstat_line :: "string \<Rightarrow> (string, u64) gomap \<Rightarrow> go_error + (string, u64) gomap" where
  "vmstat_line line m =
     (let fs = str_fields line in
      if length fs \<noteq> 2 then Inr m
      else
        (case parse_word (fs ! 1) of
           Inl e \<Rightarrow> Inl e
         | Inr v \<Rightarrow>
             Inr (if fs ! 0 = ''pswpin'' \<or> fs ! 0 = ''pswpout'' then AList.update (fs ! 0) v m else m)))"

definition read_vmstat :: "opener \<Rightarrow> go_error + (string, u64) gomap" where
  "read_vmstat op = (case op ''/proc/vmstat'' of Inl e \<Rightarrow> Inl e | Inr src \<Rightarrow> scan_fold token_limit vmstat_line src [])"

section \<open>/proc/loadavg\<close>

definition parse_float :: "float_parser \<Rightarrow> string \<Rightarrow> go_error + fval" where
  "parse_float pf s = (case pf s of None \<Rightarrow> Inl (Errorf ''strconv.ParseFloat'' [s] []) | Some x \<Rightarrow> Inr x)"

definition running_count :: "string \<Rightarrow> go_error + u64" where
  "running_count s =
     (case split_char (CHR ''/'') s of
        [n, _] \<Rightarrow> parse_word n
      | _ \<Rightarrow> Inl (Errorf ''invalid running process count'' [] []))"

definition read_loadavg :: "float_parser \<Rightarrow> opener \<Rightarrow> go_error + (fval \<times> fval \<times> fval \<times> u64)" where
  "read_loadavg pf op =
     (case read_all op ''/proc/loadavg'' of
        Inl e \<Rightarrow> Inl e
      | Inr body \<Rightarrow>
          (let fs = str_fields body in
           if length fs < 4 then Inl (Errorf ''invalid loadavg'' [] [])
           else
             (case map_res (parse_float pf) (take 3 fs) of
                Inl e \<Rightarrow> Inl e
              | Inr loads \<Rightarrow>
                  (case running_count (fs ! 3) of
                     Inl e \<Rightarrow> Inl e
                   | Inr n \<Rightarrow> Inr (loads ! 0, loads ! 1, loads ! 2, n)))))"

section \<open>/proc/net/dev\<close>

definition no_traffic :: net_counters where
  "no_traffic =
     \<lparr>nc_rx_bytes = 0, nc_tx_bytes = 0, nc_rx_packets = 0, nc_tx_packets = 0, nc_rx_errors = 0, nc_tx_errors = 0,
      nc_rx_drops = 0, nc_tx_drops = 0\<rparr>"

definition add_interface :: "u64 list \<Rightarrow> net_counters \<Rightarrow> net_counters" where
  "add_interface vs n =
     \<lparr>nc_rx_bytes = nc_rx_bytes n + vs ! 0, nc_tx_bytes = nc_tx_bytes n + vs ! 8,
      nc_rx_packets = nc_rx_packets n + vs ! 1, nc_tx_packets = nc_tx_packets n + vs ! 9,
      nc_rx_errors = nc_rx_errors n + vs ! 2, nc_tx_errors = nc_tx_errors n + vs ! 10,
      nc_rx_drops = nc_rx_drops n + vs ! 3, nc_tx_drops = nc_tx_drops n + vs ! 11\<rparr>"

definition net_line :: "string \<Rightarrow> net_counters \<Rightarrow> go_error + net_counters" where
  "net_line line n =
     (case cut_char (CHR '':'') line of
        None \<Rightarrow> Inr n
      | Some (_, values) \<Rightarrow>
          (let fs = str_fields values in
           if length fs < 16 then Inl (Errorf ''invalid network statistics'' [] [])
           else (case parse_uint_fields fs of Inl e \<Rightarrow> Inl e | Inr vs \<Rightarrow> Inr (add_interface vs n))))"

definition parse_net_dev :: "stream \<Rightarrow> go_error + net_counters" where
  "parse_net_dev src = scan_fold token_limit net_line src no_traffic"

section \<open>/proc/diskstats\<close>

definition no_disk :: disk_counters where
  "no_disk =
     \<lparr>dk_reads = 0, dk_reads_merged = 0, dk_read_bytes = 0, dk_read_ms = 0, dk_writes = 0, dk_writes_merged = 0,
      dk_write_bytes = 0, dk_write_ms = 0, dk_in_progress = 0, dk_io_ms = 0, dk_weighted_ms = 0, dk_discards = 0,
      dk_discards_merged = 0, dk_discard_bytes = 0, dk_discard_ms = 0, dk_flushes = 0, dk_flush_ms = 0\<rparr>"

definition add_disk_counters :: "disk_counters \<Rightarrow> disk_counters \<Rightarrow> disk_counters" where
  "add_disk_counters t v =
     \<lparr>dk_reads = dk_reads t + dk_reads v, dk_reads_merged = dk_reads_merged t + dk_reads_merged v,
      dk_read_bytes = dk_read_bytes t + dk_read_bytes v, dk_read_ms = dk_read_ms t + dk_read_ms v,
      dk_writes = dk_writes t + dk_writes v, dk_writes_merged = dk_writes_merged t + dk_writes_merged v,
      dk_write_bytes = dk_write_bytes t + dk_write_bytes v, dk_write_ms = dk_write_ms t + dk_write_ms v,
      dk_in_progress = dk_in_progress t + dk_in_progress v, dk_io_ms = dk_io_ms t + dk_io_ms v,
      dk_weighted_ms = dk_weighted_ms t + dk_weighted_ms v, dk_discards = dk_discards t + dk_discards v,
      dk_discards_merged = dk_discards_merged t + dk_discards_merged v, dk_discard_bytes = dk_discard_bytes t + dk_discard_bytes v,
      dk_discard_ms = dk_discard_ms t + dk_discard_ms v, dk_flushes = dk_flushes t + dk_flushes v,
      dk_flush_ms = dk_flush_ms t + dk_flush_ms v\<rparr>"

definition sector_size :: u64 where
  "sector_size = 512"

text \<open>Kernels before 4.18 have no numbers of discards, those before 5.5 none of flushes.\<close>

definition device_counters :: "u64 list \<Rightarrow> disk_counters" where
  "device_counters vs =
     (let basic = no_disk\<lparr>dk_reads := vs ! 0, dk_reads_merged := vs ! 1, dk_read_bytes := vs ! 2 * sector_size, dk_read_ms := vs ! 3,
            dk_writes := vs ! 4, dk_writes_merged := vs ! 5, dk_write_bytes := vs ! 6 * sector_size, dk_write_ms := vs ! 7,
            dk_in_progress := vs ! 8, dk_io_ms := vs ! 9, dk_weighted_ms := vs ! 10\<rparr>;
          with_discards = (if 15 \<le> length vs
            then basic\<lparr>dk_discards := vs ! 11, dk_discards_merged := vs ! 12, dk_discard_bytes := vs ! 13 * sector_size,
              dk_discard_ms := vs ! 14\<rparr> else basic)
      in if 17 \<le> length vs then with_discards\<lparr>dk_flushes := vs ! 15, dk_flush_ms := vs ! 16\<rparr> else with_discards)"

type_synonym disk_table = "disk_counters \<times> (string, disk_counters) gomap"

definition disk_line :: "string list \<Rightarrow> string \<Rightarrow> disk_table \<Rightarrow> go_error + disk_table" where
  "disk_line devices line t =
     (let fs = str_fields line in
      if length fs < 14 then Inr t
      else if devices \<noteq> [] \<and> fs ! 2 \<notin> set devices then Inr t
      else
        (case parse_uint_fields (drop 3 fs) of
           Inl e \<Rightarrow> Inl e
         | Inr vs \<Rightarrow>
             Inr (add_disk_counters (fst t) (device_counters vs), AList.update (fs ! 2) (device_counters vs) (snd t))))"

definition parse_diskstats :: "string list \<Rightarrow> stream \<Rightarrow> go_error + disk_table" where
  "parse_diskstats devices src = scan_fold token_limit (disk_line devices) src (no_disk, [])"

section \<open>Pressure\<close>

definition no_pressure :: pressure where
  "no_pressure = \<lparr>pr_some = Fin 0, pr_full = Fin 0\<rparr>"

text \<open>The last field \<open>avg10\<close> that is a number counts.\<close>

definition avg10 :: "float_parser \<Rightarrow> string list \<Rightarrow> fval \<Rightarrow> fval" where
  "avg10 pf fs old =
     fold (\<lambda>field x.
         case cut_char (CHR ''='') field of
           Some (key, value) \<Rightarrow> if key = ''avg10'' then (case pf value of Some y \<Rightarrow> y | None \<Rightarrow> x) else x
         | None \<Rightarrow> x) fs old"

definition pressure_line :: "float_parser \<Rightarrow> string \<Rightarrow> pressure \<Rightarrow> pressure" where
  "pressure_line pf line p =
     (case str_fields line of
        [] \<Rightarrow> p
      | name # fs \<Rightarrow>
          if name = ''some'' then p\<lparr>pr_some := avg10 pf fs (pr_some p)\<rparr>
          else if name = ''full'' then p\<lparr>pr_full := avg10 pf fs (pr_full p)\<rparr>
          else p)"

text \<open>An error of the scanner is not looked at.\<close>

definition parse_pressure :: "float_parser \<Rightarrow> stream \<Rightarrow> pressure" where
  "parse_pressure pf src = fold (pressure_line pf) (fst (scan_lines token_limit (in_body src))) no_pressure"

definition read_pressure :: "float_parser \<Rightarrow> opener \<Rightarrow> string \<Rightarrow> pressure" where
  "read_pressure pf op path = (case op path of Inl _ \<Rightarrow> no_pressure | Inr src \<Rightarrow> parse_pressure pf src)"

section \<open>Snapshots\<close>

definition with_file :: "opener \<Rightarrow> string \<Rightarrow> (stream \<Rightarrow> go_error + 'a) \<Rightarrow> go_error + 'a" where
  "with_file op path f = (case op path of Inl e \<Rightarrow> Inl e | Inr src \<Rightarrow> f src)"

definition read_proc_snapshot ::
    "float_parser \<Rightarrow> u64 \<Rightarrow> opener \<Rightarrow> int \<Rightarrow> string list \<Rightarrow> go_error + snapshot" where
  "read_proc_snapshot pf page op now devices =
     (case with_file op ''/proc/stat'' parse_proc_stat of
        Inl e \<Rightarrow> Inl e
      | Inr st \<Rightarrow>
     (case with_file op ''/proc/meminfo'' parse_meminfo of
        Inl e \<Rightarrow> Inl e
      | Inr mem \<Rightarrow>
     (case read_vmstat op of
        Inl e \<Rightarrow> Inl e
      | Inr vm \<Rightarrow>
     (case read_loadavg pf op of
        Inl e \<Rightarrow> Inl e
      | Inr (l1, l5, l15, running) \<Rightarrow>
     (case with_file op ''/proc/net/dev'' parse_net_dev of
        Inl e \<Rightarrow> Inl e
      | Inr net \<Rightarrow>
     (case with_file op ''/proc/diskstats'' (parse_diskstats devices) of
        Inl e \<Rightarrow> Inl e
      | Inr (disk, disks) \<Rightarrow>
          Inr
            \<lparr>sn_at = now, sn_cpu = ps_cpu st, sn_ctxt = ps_ctxt st, sn_intr = ps_intr st, sn_running = running,
             sn_blocked = ps_blocked st, sn_mem_total = lookup_or 0 mem ''MemTotal'',
             sn_mem_available = lookup_or 0 mem ''MemAvailable'', sn_mem_free = lookup_or 0 mem ''MemFree'',
             sn_buffers = lookup_or 0 mem ''Buffers'', sn_cached = lookup_or 0 mem ''Cached'',
             sn_swap_total = lookup_or 0 mem ''SwapTotal'', sn_swap_free = lookup_or 0 mem ''SwapFree'',
             sn_swap_in = lookup_or 0 vm ''pswpin'' * page, sn_swap_out = lookup_or 0 vm ''pswpout'' * page,
             sn_load1 = l1, sn_load5 = l5, sn_load15 = l15, sn_disk = disk, sn_disks = disks, sn_net = net,
             sn_cpu_pressure = read_pressure pf op ''/proc/pressure/cpu'',
             sn_memory_pressure = read_pressure pf op ''/proc/pressure/memory'',
             sn_io_pressure = read_pressure pf op ''/proc/pressure/io''\<rparr>))))))"

end
