(* ===== verification/ProcRows.thy ===== *)
theory ProcRows
  imports ProcParse
begin

text \<open>
  The rows of \<open>proc-metrics\<close> (tools/measurement/cmd/proc-metrics): percentages of the processor, rates of the
  counters between two samples, the row of the host, and the rows of the disks.

  A rate is a rational number, written with six digits; the rounding of 64-bit floating-point numbers before that
  is not modelled.
\<close>

section \<open>Numbers\<close>

definition of_u64 :: "u64 \<Rightarrow> rat" where
  "of_u64 w = of_nat (unat w)"

definition format_u64 :: "u64 \<Rightarrow> string" where
  "format_u64 w = format_nat (unat w)"

definition format_float :: "rat \<Rightarrow> string" where
  "format_float x = format_decimals 6 x"

text \<open>A number that was read may be infinite or no number at all.\<close>

definition format_fval :: "fval \<Rightarrow> string" where
  "format_fval x = (case x of Fin a \<Rightarrow> format_float a | _ \<Rightarrow> ''0'')"

definition seconds_between :: "int \<Rightarrow> int \<Rightarrow> rat" where
  "seconds_between a b = of_int (time_sub a b) / 1000000000"

definition moved_backwards :: go_error where
  "moved_backwards = Errorf ''snapshot timestamp moved backwards'' [] []"

section \<open>The processor\<close>

record cpu_percent =
  cp_busy :: rat
  cp_non_idle :: rat
  cp_user :: rat
  cp_system :: rat
  cp_iowait :: rat
  cp_steal :: rat
  cp_idle :: rat

definition no_percent :: cpu_percent where
  "no_percent =
     \<lparr>cp_busy = 0, cp_non_idle = 0, cp_user = 0, cp_system = 0, cp_iowait = 0, cp_steal = 0, cp_idle = 0\<rparr>"

definition percent_of :: "u64 \<Rightarrow> u64 \<Rightarrow> rat" where
  "percent_of total_delta value = of_u64 value * 100 / of_u64 total_delta"

definition cpu_percentages :: "cpu_counters \<Rightarrow> snapshot option \<Rightarrow> cpu_percent" where
  "cpu_percentages c prev =
     (case prev of
        None \<Rightarrow> no_percent
      | Some s \<Rightarrow>
          (let p = sn_cpu s; total_delta = cpu_total c - cpu_total p in
           if cpu_total c < cpu_total p \<or> total_delta = 0 then no_percent
           else
             (let percent = percent_of total_delta;
                  user = cc_user c - cc_user p; system = cc_system c - cc_system p; iowait = cc_iowait c - cc_iowait p;
                  steal = cc_steal c - cc_steal p; idle = cc_idle c - cc_idle p in
              \<lparr>cp_busy = percent (user + system + steal), cp_non_idle = percent (user + system + iowait + steal),
               cp_user = percent user, cp_system = percent system, cp_iowait = percent iowait, cp_steal = percent steal,
               cp_idle = percent idle\<rparr>)))"

section \<open>Rates\<close>

definition counter_rate :: "u64 \<Rightarrow> u64 \<Rightarrow> rat \<Rightarrow> rat" where
  "counter_rate c p seconds = (if c < p \<or> seconds \<le> 0 then 0 else of_u64 (c - p) / seconds)"

record rates =
  rt_ctxt :: rat
  rt_intr :: rat
  rt_swap_in :: rat
  rt_swap_out :: rat
  rt_disk_read :: rat
  rt_disk_write :: rat
  rt_disk_io_ms :: rat
  rt_rx_bytes :: rat
  rt_tx_bytes :: rat
  rt_rx_packets :: rat
  rt_tx_packets :: rat
  rt_rx_errors :: rat
  rt_tx_errors :: rat
  rt_rx_drops :: rat
  rt_tx_drops :: rat

definition no_rates :: rates where
  "no_rates =
     \<lparr>rt_ctxt = 0, rt_intr = 0, rt_swap_in = 0, rt_swap_out = 0, rt_disk_read = 0, rt_disk_write = 0, rt_disk_io_ms = 0,
      rt_rx_bytes = 0, rt_tx_bytes = 0, rt_rx_packets = 0, rt_tx_packets = 0, rt_rx_errors = 0, rt_tx_errors = 0,
      rt_rx_drops = 0, rt_tx_drops = 0\<rparr>"

definition counter_rates :: "snapshot \<Rightarrow> snapshot option \<Rightarrow> rates" where
  "counter_rates c prev =
     (case prev of
        None \<Rightarrow> no_rates
      | Some p \<Rightarrow>
          (let seconds = seconds_between (sn_at c) (sn_at p);
               rate = (\<lambda>f :: snapshot \<Rightarrow> u64. counter_rate (f c) (f p) seconds);
               net = (\<lambda>f :: net_counters \<Rightarrow> u64. counter_rate (f (sn_net c)) (f (sn_net p)) seconds);
               disk = (\<lambda>f :: disk_counters \<Rightarrow> u64. counter_rate (f (sn_disk c)) (f (sn_disk p)) seconds) in
           if seconds \<le> 0 then no_rates
           else
             \<lparr>rt_ctxt = rate sn_ctxt, rt_intr = rate sn_intr, rt_swap_in = rate sn_swap_in, rt_swap_out = rate sn_swap_out,
              rt_disk_read = disk dk_read_bytes, rt_disk_write = disk dk_write_bytes, rt_disk_io_ms = disk dk_io_ms,
              rt_rx_bytes = net nc_rx_bytes, rt_tx_bytes = net nc_tx_bytes, rt_rx_packets = net nc_rx_packets,
              rt_tx_packets = net nc_tx_packets, rt_rx_errors = net nc_rx_errors, rt_tx_errors = net nc_tx_errors,
              rt_rx_drops = net nc_rx_drops, rt_tx_drops = net nc_tx_drops\<rparr>))"

section \<open>The row of the host\<close>

definition host_header :: "string list" where
  "host_header =
     [''sample'', ''timestamp'', ''elapsed_ms'', ''cpu_count'', ''cpu_busy_pct'', ''cpu_nonidle_pct'', ''cpu_user_pct'',
      ''cpu_system_pct'', ''cpu_iowait_pct'', ''cpu_steal_pct'', ''cpu_idle_pct'', ''load1'', ''load5'', ''load15'',
      ''procs_running'', ''procs_blocked'', ''context_switches_per_sec'', ''interrupts_per_sec'', ''mem_total_bytes'',
      ''mem_used_bytes'', ''mem_available_bytes'', ''mem_free_bytes'', ''buffers_bytes'', ''cached_bytes'', ''swap_total_bytes'',
      ''swap_used_bytes'', ''swap_in_bytes_per_sec'', ''swap_out_bytes_per_sec'', ''disk_read_bytes_per_sec'',
      ''disk_write_bytes_per_sec'', ''disk_io_in_progress'', ''disk_io_time_millis_per_sec'', ''net_rx_bytes_per_sec'',
      ''net_tx_bytes_per_sec'', ''net_rx_packets_per_sec'', ''net_tx_packets_per_sec'', ''net_rx_errors_per_sec'',
      ''net_tx_errors_per_sec'', ''net_rx_drops_per_sec'', ''net_tx_drops_per_sec'', ''cpu_pressure_some_avg10'',
      ''memory_pressure_some_avg10'', ''memory_pressure_full_avg10'', ''io_pressure_some_avg10'', ''io_pressure_full_avg10'']"

text \<open>What is in use, when the part that is free is known to be smaller.\<close>

definition used :: "u64 \<Rightarrow> u64 \<Rightarrow> u64" where
  "used t free = (if free < t then t - free else 0)"

definition sample_fields :: "time_codec \<Rightarrow> nat \<Rightarrow> int \<Rightarrow> int \<Rightarrow> string list" where
  "sample_fields T index start now = [format_nat index, tc_format T now, format_int (millis (time_sub now start))]"

definition host_row :: "time_codec \<Rightarrow> nat \<Rightarrow> nat \<Rightarrow> int \<Rightarrow> snapshot \<Rightarrow> snapshot option \<Rightarrow> string list" where
  "host_row T cpus index start c prev =
     (let cpu = cpu_percentages (sn_cpu c) prev; r = counter_rates c prev in
      sample_fields T index start (sn_at c) @
      [format_nat cpus, format_float (cp_busy cpu), format_float (cp_non_idle cpu), format_float (cp_user cpu),
       format_float (cp_system cpu), format_float (cp_iowait cpu), format_float (cp_steal cpu), format_float (cp_idle cpu),
       format_fval (sn_load1 c), format_fval (sn_load5 c), format_fval (sn_load15 c), format_u64 (sn_running c),
       format_u64 (sn_blocked c), format_float (rt_ctxt r), format_float (rt_intr r), format_u64 (sn_mem_total c),
       format_u64 (used (sn_mem_total c) (sn_mem_available c)), format_u64 (sn_mem_available c), format_u64 (sn_mem_free c),
       format_u64 (sn_buffers c), format_u64 (sn_cached c), format_u64 (sn_swap_total c),
       format_u64 (used (sn_swap_total c) (sn_swap_free c)), format_float (rt_swap_in r), format_float (rt_swap_out r),
       format_float (rt_disk_read r), format_float (rt_disk_write r), format_u64 (dk_in_progress (sn_disk c)),
       format_float (rt_disk_io_ms r), format_float (rt_rx_bytes r), format_float (rt_tx_bytes r), format_float (rt_rx_packets r),
       format_float (rt_tx_packets r), format_float (rt_rx_errors r), format_float (rt_tx_errors r), format_float (rt_rx_drops r),
       format_float (rt_tx_drops r), format_fval (pr_some (sn_cpu_pressure c)), format_fval (pr_some (sn_memory_pressure c)),
       format_fval (pr_full (sn_memory_pressure c)), format_fval (pr_some (sn_io_pressure c)), format_fval (pr_full (sn_io_pressure c))])"

text \<open>The seconds since the sample before; a clock that went back is an error.\<close>

definition check_interval :: "snapshot \<Rightarrow> snapshot option \<Rightarrow> go_error + rat" where
  "check_interval c prev =
     (case prev of
        None \<Rightarrow> Inr 0
      | Some p \<Rightarrow>
          (let seconds = seconds_between (sn_at c) (sn_at p) in if seconds < 0 then Inl moved_backwards else Inr seconds))"

definition host_rows :: "time_codec \<Rightarrow> nat \<Rightarrow> nat \<Rightarrow> int \<Rightarrow> snapshot \<Rightarrow> snapshot option \<Rightarrow> go_error + string list list" where
  "host_rows T cpus index start c prev =
     (case check_interval c prev of Inl e \<Rightarrow> Inl e | Inr _ \<Rightarrow> Inr [host_row T cpus index start c prev])"

section \<open>The rows of the disks\<close>

definition disk_header :: "string list" where
  "disk_header =
     [''sample'', ''timestamp'', ''elapsed_ms'', ''device'', ''read_iops'', ''write_iops'', ''discard_iops'', ''flush_iops'',
      ''read_merged_per_sec'', ''write_merged_per_sec'', ''discard_merged_per_sec'', ''read_bytes_per_sec'',
      ''write_bytes_per_sec'', ''discard_bytes_per_sec'', ''read_await_ms'', ''write_await_ms'', ''discard_await_ms'',
      ''flush_await_ms'', ''avg_read_request_bytes'', ''avg_write_request_bytes'', ''avg_discard_request_bytes'',
      ''io_in_progress'', ''io_util_pct'', ''avg_queue_size'']"

record disk_metrics =
  dm_read_iops :: rat
  dm_write_iops :: rat
  dm_discard_iops :: rat
  dm_flush_iops :: rat
  dm_read_merged :: rat
  dm_write_merged :: rat
  dm_discard_merged :: rat
  dm_read_bytes :: rat
  dm_write_bytes :: rat
  dm_discard_bytes :: rat
  dm_read_await :: rat
  dm_write_await :: rat
  dm_discard_await :: rat
  dm_flush_await :: rat
  dm_read_size :: rat
  dm_write_size :: rat
  dm_discard_size :: rat
  dm_util :: rat
  dm_queue :: rat

definition no_disk_metrics :: disk_metrics where
  "no_disk_metrics =
     \<lparr>dm_read_iops = 0, dm_write_iops = 0, dm_discard_iops = 0, dm_flush_iops = 0, dm_read_merged = 0, dm_write_merged = 0,
      dm_discard_merged = 0, dm_read_bytes = 0, dm_write_bytes = 0, dm_discard_bytes = 0, dm_read_await = 0,
      dm_write_await = 0, dm_discard_await = 0, dm_flush_await = 0, dm_read_size = 0, dm_write_size = 0, dm_discard_size = 0,
      dm_util = 0, dm_queue = 0\<rparr>"

definition counter_delta :: "u64 \<Rightarrow> u64 \<Rightarrow> u64" where
  "counter_delta c p = (if c < p then 0 else c - p)"

definition per_operation :: "u64 \<Rightarrow> u64 \<Rightarrow> rat" where
  "per_operation value operations = (if operations = 0 then 0 else of_u64 value / of_u64 operations)"

definition disk_device_metrics :: "disk_counters \<Rightarrow> disk_counters option \<Rightarrow> rat \<Rightarrow> disk_metrics" where
  "disk_device_metrics c prev seconds =
     (case prev of
        None \<Rightarrow> no_disk_metrics
      | Some p \<Rightarrow>
          if seconds \<le> 0 then no_disk_metrics
          else
            (let delta = (\<lambda>f :: disk_counters \<Rightarrow> u64. counter_delta (f c) (f p));
                 per_second = (\<lambda>f. of_u64 (delta f) / seconds);
                 per = (\<lambda>f g. per_operation (delta f) (delta g));
                 elapsed = seconds * 1000 in
             \<lparr>dm_read_iops = per_second dk_reads, dm_write_iops = per_second dk_writes, dm_discard_iops = per_second dk_discards,
              dm_flush_iops = per_second dk_flushes, dm_read_merged = per_second dk_reads_merged,
              dm_write_merged = per_second dk_writes_merged, dm_discard_merged = per_second dk_discards_merged,
              dm_read_bytes = per_second dk_read_bytes, dm_write_bytes = per_second dk_write_bytes,
              dm_discard_bytes = per_second dk_discard_bytes, dm_read_await = per dk_read_ms dk_reads,
              dm_write_await = per dk_write_ms dk_writes, dm_discard_await = per dk_discard_ms dk_discards,
              dm_flush_await = per dk_flush_ms dk_flushes, dm_read_size = per dk_read_bytes dk_reads,
              dm_write_size = per dk_write_bytes dk_writes, dm_discard_size = per dk_discard_bytes dk_discards,
              dm_util = of_u64 (delta dk_io_ms) * 100 / elapsed, dm_queue = of_u64 (delta dk_weighted_ms) / elapsed\<rparr>))"

definition disk_row :: "time_codec \<Rightarrow> nat \<Rightarrow> int \<Rightarrow> snapshot \<Rightarrow> string \<Rightarrow> disk_counters \<Rightarrow> disk_metrics \<Rightarrow> string list" where
  "disk_row T index start c device cur m =
     sample_fields T index start (sn_at c) @
     [device, format_float (dm_read_iops m), format_float (dm_write_iops m), format_float (dm_discard_iops m),
      format_float (dm_flush_iops m), format_float (dm_read_merged m), format_float (dm_write_merged m),
      format_float (dm_discard_merged m), format_float (dm_read_bytes m), format_float (dm_write_bytes m),
      format_float (dm_discard_bytes m), format_float (dm_read_await m), format_float (dm_write_await m),
      format_float (dm_discard_await m), format_float (dm_flush_await m), format_float (dm_read_size m),
      format_float (dm_write_size m), format_float (dm_discard_size m), format_u64 (dk_in_progress cur), format_float (dm_util m),
      format_float (dm_queue m)]"

definition disk_rows :: "time_codec \<Rightarrow> nat \<Rightarrow> int \<Rightarrow> snapshot \<Rightarrow> snapshot option \<Rightarrow> go_error + string list list" where
  "disk_rows T index start c prev =
     (case check_interval c prev of
        Inl e \<Rightarrow> Inl e
      | Inr seconds \<Rightarrow>
          Inr (map (\<lambda>device.
              let cur = lookup_or no_disk (sn_disks c) device;
                  old = (case prev of None \<Rightarrow> None | Some p \<Rightarrow> map_of (sn_disks p) device) in
              disk_row T index start c device cur (disk_device_metrics cur old seconds))
            (sort (keys (sn_disks c)))))"

end
