(* ===== verification/ProcCollect.thy ===== *)
theory ProcCollect
  imports ProcRows
begin

text \<open>
  The services of \<open>proc-metrics\<close> and its loop (tools/measurement/cmd/proc-metrics): the control groups of the
  services, found below the root and remembered until reading them fails, and the sampler, which writes the rows
  of the host, of the disks and of the services at every tick.

  The ticks are the list of what the machine shows at each of them; the end of the list is the signal that ends
  the sampler. The errors of the outputs, by the number of rows written, are a parameter.
\<close>

section \<open>Names\<close>

definition normalize_service_name :: "string \<Rightarrow> string" where
  "normalize_service_name name =
     (let n = trim_space name in if n = [] then [] else if has_suffix n ''.service'' then n else n @ ''.service'')"

text \<open>The names that are not empty, each once, in the order of their first occurrence.\<close>

fun first_names :: "string list \<Rightarrow> string list \<Rightarrow> string list" where
  "first_names seen [] = []"
| "first_names seen (x # xs) =
     (let n = normalize_service_name x in
      if n = [] \<or> n \<in> set seen then first_names seen xs else n # first_names (n # seen) xs)"

definition parse_service_names :: "string \<Rightarrow> string list" where
  "parse_service_names value = first_names [] (str_fields (replace_all '','' '' '' value))"

definition service_targets :: "string list \<Rightarrow> string list" where
  "service_targets names = first_names [] names"

section \<open>Control groups\<close>

text \<open>A directory with the directories in it, in the order of their names; the root is the list of those in it.\<close>

datatype cgroup = CDir (cg_name: string) (cg_dirs: "cgroup list")

text \<open>The walk stops below a directory of the name.\<close>

fun find_dirs :: "string \<Rightarrow> string list \<Rightarrow> cgroup \<Rightarrow> string list list" where
  "find_dirs name up (CDir n ds) =
     (if n = name then [up @ [n]] else concat (map (find_dirs name (up @ [n])) ds))"

definition cgroup_candidates :: "cgroup list \<Rightarrow> string \<Rightarrow> string list list" where
  "cgroup_candidates ds name = concat (map (find_dirs name []) ds)"

definition in_system_slice :: "string list \<Rightarrow> bool" where
  "in_system_slice p \<longleftrightarrow> (case p of first # _ # _ \<Rightarrow> first = ''system.slice'' | _ \<Rightarrow> False)"

definition find_cgroup_path :: "cgroup list option \<Rightarrow> string \<Rightarrow> string list option" where
  "find_cgroup_path top_dir name =
     (case top_dir of
        None \<Rightarrow> None
      | Some ds \<Rightarrow>
          (case filter in_system_slice (cgroup_candidates ds name) of
             p # _ \<Rightarrow> Some p
           | [] \<Rightarrow> (case cgroup_candidates ds name of p # _ \<Rightarrow> Some p | [] \<Rightarrow> None)))"

fun has_dir :: "string list \<Rightarrow> cgroup list \<Rightarrow> bool" where
  "has_dir [] ds = True"
| "has_dir (n # p) ds = list_ex (\<lambda>d. cg_name d = n \<and> has_dir p (cg_dirs d)) ds"

definition is_directory :: "cgroup list option \<Rightarrow> string list \<Rightarrow> bool" where
  "is_directory top_dir p \<longleftrightarrow> (case top_dir of None \<Rightarrow> False | Some ds \<Rightarrow> has_dir p ds)"

section \<open>The files of a service\<close>

record service_cpu =
  sc_usage :: u64
  sc_user :: u64
  sc_system :: u64

record service_io =
  si_read :: u64
  si_write :: u64

record service_snapshot =
  ss_available :: bool
  ss_cpu :: service_cpu
  ss_memory :: u64
  ss_peak :: u64
  ss_io :: service_io
  ss_tasks :: u64

definition no_io :: service_io where
  "no_io = \<lparr>si_read = 0, si_write = 0\<rparr>"

definition no_service :: service_snapshot where
  "no_service =
     \<lparr>ss_available = False, ss_cpu = \<lparr>sc_usage = 0, sc_user = 0, sc_system = 0\<rparr>, ss_memory = 0, ss_peak = 0, ss_io = no_io,
      ss_tasks = 0\<rparr>"

definition cpu_stat_line :: "string \<Rightarrow> service_cpu \<times> bool \<Rightarrow> go_error + service_cpu \<times> bool" where
  "cpu_stat_line line st =
     (case str_fields line of
        [name, value] \<Rightarrow>
          (case parse_word value of
             Inl e \<Rightarrow> Inl e
           | Inr v \<Rightarrow>
               Inr (if name = ''usage_usec'' then ((fst st)\<lparr>sc_usage := v\<rparr>, True)
                    else if name = ''user_usec'' then ((fst st)\<lparr>sc_user := v\<rparr>, snd st)
                    else if name = ''system_usec'' then ((fst st)\<lparr>sc_system := v\<rparr>, snd st)
                    else st))
      | _ \<Rightarrow> Inr st)"

definition parse_service_cpu :: "stream \<Rightarrow> go_error + service_cpu" where
  "parse_service_cpu src =
     (case scan_fold token_limit cpu_stat_line src (ss_cpu no_service, False) of
        Inl e \<Rightarrow> Inl e
      | Inr (c, seen) \<Rightarrow> if seen then Inr c else Inl (Errorf ''usage_usec not found in cpu.stat'' [] []))"

definition read_uint_file :: "opener \<Rightarrow> string \<Rightarrow> go_error + u64" where
  "read_uint_file op path = (case read_all op path of Inl e \<Rightarrow> Inl e | Inr body \<Rightarrow> parse_word (trim_space body))"

definition read_optional_uint :: "opener \<Rightarrow> string \<Rightarrow> u64" where
  "read_optional_uint op path = (case read_uint_file op path of Inl _ \<Rightarrow> 0 | Inr v \<Rightarrow> v)"

text \<open>The fields of a line of io.stat behind the name of the device. \<open>Inl None\<close> is a panic: a line without any
  field has no first one to leave out.\<close>

definition io_field :: "string \<Rightarrow> service_io \<Rightarrow> go_error option + service_io" where
  "io_field field io =
     (case cut_char (CHR ''='') field of
        None \<Rightarrow> Inr io
      | Some (key, value) \<Rightarrow>
          if key \<noteq> ''rbytes'' \<and> key \<noteq> ''wbytes'' then Inr io
          else
            (case parse_word value of
               Inl e \<Rightarrow> Inl (Some e)
             | Inr v \<Rightarrow>
                 Inr (if key = ''rbytes'' then io\<lparr>si_read := si_read io + v\<rparr> else io\<lparr>si_write := si_write io + v\<rparr>)))"

definition io_line :: "string \<Rightarrow> service_io \<Rightarrow> go_error option + service_io" where
  "io_line line io = (case str_fields line of [] \<Rightarrow> Inl None | _ # fs \<Rightarrow> fold_res io_field fs io)"

definition parse_service_io :: "stream \<Rightarrow> go_error option + service_io" where
  "parse_service_io src =
     (case fold_res io_line (fst (scan_lines token_limit (in_body src))) no_io of
        Inl e \<Rightarrow> Inl e
      | Inr io \<Rightarrow> (case scan_error token_limit src of Some e \<Rightarrow> Inl (Some e) | None \<Rightarrow> Inr io))"

text \<open>\<open>None\<close> is the panic.\<close>

definition read_service_io :: "opener \<Rightarrow> string \<Rightarrow> service_io option" where
  "read_service_io op path =
     (case op path of
        Inl _ \<Rightarrow> Some no_io
      | Inr src \<Rightarrow>
          (case parse_service_io src of Inl None \<Rightarrow> None | Inl (Some _) \<Rightarrow> Some no_io | Inr io \<Rightarrow> Some io))"

definition read_service_cgroup :: "opener \<Rightarrow> string \<Rightarrow> (go_error + service_snapshot) option" where
  "read_service_cgroup op path =
     (let file = (\<lambda>name. path_join [path, name]) in
      case with_file op (file ''cpu.stat'') parse_service_cpu of
        Inl e \<Rightarrow> Some (Inl e)
      | Inr cpu \<Rightarrow>
          (case read_uint_file op (file ''memory.current'') of
             Inl e \<Rightarrow> Some (Inl e)
           | Inr memory \<Rightarrow>
               map_option (\<lambda>io. Inr
                 \<lparr>ss_available = True, ss_cpu = cpu, ss_memory = memory, ss_peak = read_optional_uint op (file ''memory.peak''),
                  ss_io = io, ss_tasks = read_optional_uint op (file ''pids.current'')\<rparr>)
                 (read_service_io op (file ''io.stat''))))"

section \<open>The collector of services\<close>

record proc_tick =
  tk_now :: int
  tk_open :: opener
  tk_cgroups :: "cgroup list option"

type_synonym proc_targets = "(string \<times> string list option) list"

text \<open>One service: its path is looked for when there is none or it is gone, and forgotten when reading fails.\<close>

definition target_path :: "proc_tick \<Rightarrow> string \<times> string list option \<Rightarrow> string list option" where
  "target_path t target =
     (case snd target of
        None \<Rightarrow> find_cgroup_path (tk_cgroups t) (fst target)
      | Some p \<Rightarrow> if is_directory (tk_cgroups t) p then Some p else find_cgroup_path (tk_cgroups t) (fst target))"

definition read_target ::
    "string \<Rightarrow> proc_tick \<Rightarrow> string \<times> string list option \<Rightarrow> ((string \<times> string list option) \<times> service_snapshot) option" where
  "read_target top_dir t target =
     (case target_path t target of
        None \<Rightarrow> Some ((fst target, None), no_service)
      | Some p \<Rightarrow>
          (case read_service_cgroup (tk_open t) (path_join (top_dir # p)) of
             None \<Rightarrow> None
           | Some (Inl _) \<Rightarrow> Some ((fst target, None), no_service)
           | Some (Inr v) \<Rightarrow> Some ((fst target, Some p), v)))"

fun read_targets :: "string \<Rightarrow> proc_tick \<Rightarrow> proc_targets \<Rightarrow> (proc_targets \<times> (string, service_snapshot) gomap) option" where
  "read_targets top_dir t [] = Some ([], [])"
| "read_targets top_dir t (x # xs) =
     (case read_target top_dir t x of
        None \<Rightarrow> None
      | Some (y, v) \<Rightarrow>
          (case read_targets top_dir t xs of None \<Rightarrow> None | Some (ys, vs) \<Rightarrow> Some (y # ys, (fst y, v) # vs)))"

section \<open>The rows of the services\<close>

record service_rates =
  sr_cpu :: rat
  sr_host :: rat
  sr_user :: rat
  sr_system :: rat
  sr_read :: rat
  sr_write :: rat

definition no_service_rates :: service_rates where
  "no_service_rates = \<lparr>sr_cpu = 0, sr_host = 0, sr_user = 0, sr_system = 0, sr_read = 0, sr_write = 0\<rparr>"

definition service_counter_rates :: "nat \<Rightarrow> service_snapshot \<Rightarrow> service_snapshot option \<Rightarrow> rat \<Rightarrow> service_rates" where
  "service_counter_rates cpus c prev seconds =
     (case prev of
        None \<Rightarrow> no_service_rates
      | Some p \<Rightarrow>
          if \<not> ss_available c \<or> \<not> ss_available p \<or> seconds \<le> 0 then no_service_rates
          else
            (let percent = (\<lambda>f :: service_cpu \<Rightarrow> u64. counter_rate (f (ss_cpu c)) (f (ss_cpu p)) seconds / 10000) in
             \<lparr>sr_cpu = percent sc_usage, sr_host = percent sc_usage / of_nat cpus, sr_user = percent sc_user,
              sr_system = percent sc_system, sr_read = counter_rate (si_read (ss_io c)) (si_read (ss_io p)) seconds,
              sr_write = counter_rate (si_write (ss_io c)) (si_write (ss_io p)) seconds\<rparr>))"

definition service_header :: "string list" where
  "service_header =
     [''sample'', ''timestamp'', ''elapsed_ms'', ''service'', ''available'', ''cpu_pct'', ''cpu_host_pct'', ''cpu_user_pct'',
      ''cpu_system_pct'', ''memory_current_bytes'', ''memory_pct_of_host'', ''memory_peak_bytes'', ''io_read_bytes_per_sec'',
      ''io_write_bytes_per_sec'', ''tasks_current'']"

definition memory_percent :: "u64 \<Rightarrow> u64 \<Rightarrow> rat" where
  "memory_percent t m = (if 0 < t then of_u64 m * 100 / of_u64 t else 0)"

definition service_row ::
    "time_codec \<Rightarrow> nat \<Rightarrow> int \<Rightarrow> snapshot \<Rightarrow> string \<Rightarrow> service_snapshot \<Rightarrow> service_rates \<Rightarrow> string list" where
  "service_row T index start c name s r =
     sample_fields T index start (sn_at c) @
     [name, if ss_available s then ''1'' else ''0'', format_float (sr_cpu r), format_float (sr_host r), format_float (sr_user r),
      format_float (sr_system r), format_u64 (ss_memory s), format_float (memory_percent (sn_mem_total c) (ss_memory s)),
      format_u64 (ss_peak s), format_float (sr_read r), format_float (sr_write r), format_u64 (ss_tasks s)]"

definition service_rows ::
    "time_codec \<Rightarrow> nat \<Rightarrow> nat \<Rightarrow> int \<Rightarrow> snapshot \<Rightarrow> snapshot option \<Rightarrow> (string, service_snapshot) gomap \<Rightarrow>
     (string, service_snapshot) gomap \<Rightarrow> string list \<Rightarrow> go_error + string list list" where
  "service_rows T cpus index start c prev services before names =
     (case check_interval c prev of
        Inl e \<Rightarrow> Inl e
      | Inr seconds \<Rightarrow>
          Inr (map (\<lambda>name.
              let s = lookup_or no_service services name;
                  old = (case prev of None \<Rightarrow> None | Some _ \<Rightarrow> Some (lookup_or no_service before name)) in
              service_row T index start c name s (service_counter_rates cpus s old seconds)) names))"

section \<open>The sampler\<close>

datatype channel = HostRows | DiskRows | ServiceRows

record proc_env =
  pe_clock :: time_codec
  pe_float :: float_parser
  pe_page :: u64
  pe_cpus :: nat
  pe_devices :: "string list"
  pe_root :: string
  pe_disk :: bool
  pe_services :: "string list option"
  pe_sink :: "channel \<Rightarrow> nat \<Rightarrow> go_error option"

record proc_out =
  po_host :: "string list list"
  po_disk :: "string list list"
  po_service :: "string list list"

datatype proc_outcome = Finished | Failed go_error | Panicked

text \<open>Rows go to the writer, which is flushed behind them.\<close>

definition write_rows :: "proc_env \<Rightarrow> channel \<Rightarrow> string list list \<Rightarrow> proc_out \<Rightarrow> go_error option \<times> proc_out" where
  "write_rows E ch rows out1 =
     (case ch of
        HostRows \<Rightarrow> (let all = po_host out1 @ rows in (pe_sink E ch (length all), out1\<lparr>po_host := all\<rparr>))
      | DiskRows \<Rightarrow> (let all = po_disk out1 @ rows in (pe_sink E ch (length all), out1\<lparr>po_disk := all\<rparr>))
      | ServiceRows \<Rightarrow> (let all = po_service out1 @ rows in (pe_sink E ch (length all), out1\<lparr>po_service := all\<rparr>)))"

text \<open>The rows of one output, unless computing them fails.\<close>

definition emit :: "proc_env \<Rightarrow> channel \<Rightarrow> go_error + string list list \<Rightarrow> proc_out \<Rightarrow> go_error option \<times> proc_out" where
  "emit E ch rows out1 = (case rows of Inl e \<Rightarrow> (Some e, out1) | Inr rs \<Rightarrow> write_rows E ch rs out1)"

text \<open>What a sample leaves: the targets and the services that were read.\<close>

definition write_services ::
    "proc_env \<Rightarrow> int \<Rightarrow> nat \<Rightarrow> proc_tick \<Rightarrow> snapshot \<Rightarrow> snapshot option \<Rightarrow> (string, service_snapshot) gomap \<Rightarrow> proc_targets \<Rightarrow>
     proc_out \<Rightarrow> (proc_outcome + proc_targets \<times> (string, service_snapshot) gomap) \<times> proc_out" where
  "write_services E start index t c prev before ts out1 =
     (if pe_services E = None then (Inr (ts, []), out1)
      else
        (case read_targets (pe_root E) t ts of
           None \<Rightarrow> (Inl Panicked, out1)
         | Some (ts1, services) \<Rightarrow>
             (case emit E ServiceRows (service_rows (pe_clock E) (pe_cpus E) index start c prev services before (map fst ts)) out1 of
                (Some e, out2) \<Rightarrow> (Inl (Failed e), out2) | (None, out2) \<Rightarrow> (Inr (ts1, services), out2))))"

definition write_sample ::
    "proc_env \<Rightarrow> int \<Rightarrow> nat \<Rightarrow> proc_tick \<Rightarrow> snapshot \<Rightarrow> snapshot option \<Rightarrow> (string, service_snapshot) gomap \<Rightarrow> proc_targets \<Rightarrow>
     proc_out \<Rightarrow> (proc_outcome + proc_targets \<times> (string, service_snapshot) gomap) \<times> proc_out" where
  "write_sample E start index t c prev before ts out1 =
     (case emit E HostRows (host_rows (pe_clock E) (pe_cpus E) index start c prev) out1 of
        (Some e, out2) \<Rightarrow> (Inl (Failed e), out2)
      | (None, out2) \<Rightarrow>
          (case (if pe_disk E then emit E DiskRows (disk_rows (pe_clock E) index start c prev) out2 else (None, out2)) of
             (Some e, out3) \<Rightarrow> (Inl (Failed e), out3)
           | (None, out3) \<Rightarrow> write_services E start index t c prev before ts out3))"

text \<open>The samples behind the first.\<close>

fun collect_ticks ::
    "proc_env \<Rightarrow> int \<Rightarrow> nat \<Rightarrow> snapshot \<Rightarrow> (string, service_snapshot) gomap \<Rightarrow> proc_targets \<Rightarrow> proc_tick list \<Rightarrow> proc_out \<Rightarrow>
     proc_outcome \<times> proc_out" where
  "collect_ticks E start index prev before ts [] out1 = (Finished, out1)"
| "collect_ticks E start index prev before ts (t # rest) out1 =
     (case read_proc_snapshot (pe_float E) (pe_page E) (tk_open t) (tk_now t) (pe_devices E) of
        Inl e \<Rightarrow> (Failed e, out1)
      | Inr c \<Rightarrow>
          (case write_sample E start (Suc index) t c (Some prev) before ts out1 of
             (Inl stop, out2) \<Rightarrow> (stop, out2)
           | (Inr (ts1, services), out2) \<Rightarrow> collect_ticks E start (Suc index) c services ts1 rest out2))"

definition write_headers :: "proc_env \<Rightarrow> go_error option \<times> proc_out" where
  "write_headers E =
     (case write_rows E HostRows [host_header] \<lparr>po_host = [], po_disk = [], po_service = []\<rparr> of
        (Some e, out1) \<Rightarrow> (Some e, out1)
      | (None, out1) \<Rightarrow>
          (case (if pe_services E \<noteq> None then write_rows E ServiceRows [service_header] out1 else (None, out1)) of
             (Some e, out2) \<Rightarrow> (Some e, out2)
           | (None, out2) \<Rightarrow> (if pe_disk E then write_rows E DiskRows [disk_header] out2 else (None, out2))))"

definition first_targets :: "proc_env \<Rightarrow> proc_targets" where
  "first_targets E =
     (case pe_services E of None \<Rightarrow> [] | Some names \<Rightarrow> map (\<lambda>n. (n, None)) (service_targets names))"

definition collect :: "proc_env \<Rightarrow> proc_tick \<Rightarrow> proc_tick list \<Rightarrow> proc_outcome \<times> proc_out" where
  "collect E t ticks =
     (case write_headers E of
        (Some e, out1) \<Rightarrow> (Failed e, out1)
      | (None, out1) \<Rightarrow>
          (case read_proc_snapshot (pe_float E) (pe_page E) (tk_open t) (tk_now t) (pe_devices E) of
             Inl e \<Rightarrow> (Failed e, out1)
           | Inr c \<Rightarrow>
               (case write_sample E (tk_now t) 0 t c None [] (first_targets E) out1 of
                  (Inl stop, out2) \<Rightarrow> (stop, out2)
                | (Inr (ts, services), out2) \<Rightarrow> collect_ticks E (tk_now t) 0 c services ts ticks out2)))"

end
