(* ===== verification/ProcTasks.thy ===== *)
theory ProcTasks
  imports ProcCollect GoMatch
begin

text \<open>
  The blocked tasks of \<open>proc-metrics\<close> (tools/measurement/cmd/proc-metrics/task_state.go): the tasks in the state
  D below /proc, one row each, or one row with a dash when there is none; and the command as a whole (main.go),
  which runs both samplers next to each other. They share nothing but the signal that ends them.
\<close>

record blocked_task =
  bt_pid :: int
  bt_tid :: int
  bt_comm :: string
  bt_state :: string
  bt_wchan :: string
  bt_cgroup :: string

section \<open>Fields\<close>

definition sanitize_task_field :: "string \<Rightarrow> string" where
  "sanitize_task_field value =
     (let v = map (\<lambda>c. if c \<in> {CHR 0x09, CHR 0x0A, CHR 0x0D} then CHR '' '' else c) (trim_space value)
      in if v = [] then ''-'' else v)"

text \<open>The last place where a closing parenthesis is followed by a blank: what is before and behind it.\<close>

fun last_close :: "string \<Rightarrow> (string \<times> string) option" where
  "last_close (a # b # s) =
     (case last_close (b # s) of
        Some (x, y) \<Rightarrow> Some (a # x, y)
      | None \<Rightarrow> if a = CHR '')'' \<and> b = CHR '' '' then Some ([], s) else None)"
| "last_close s = None"

text \<open>The name is between the first opening parenthesis and that place, the state is the word behind it.\<close>

definition parse_task_stat :: "string \<Rightarrow> (string \<times> string) option" where
  "parse_task_stat raw =
     (case (cut_char (CHR ''('') raw, last_close raw) of
        (Some (pre, _), Some (before, rest)) \<Rightarrow>
          if length before \<le> length pre \<or> rest = [] then None
          else
            (case cut_char (CHR '' '') rest of
               None \<Rightarrow> None
             | Some (state, _) \<Rightarrow> if state = [] then None else Some (drop (Suc (length pre)) before, state))
      | _ \<Rightarrow> None)"

definition parse_unified_cgroup :: "string \<Rightarrow> string" where
  "parse_unified_cgroup raw =
     (case filter (\<lambda>l. has_prefix l ''0::'') (split_char newline_char raw) of
        l # _ \<Rightarrow> sanitize_task_field (trim_prefix l ''0::'')
      | [] \<Rightarrow> sanitize_task_field raw)"

section \<open>The tasks\<close>

record task_tree =
  tt_paths :: "(string, unit) gomap"
  tt_read :: "string \<Rightarrow> go_error + string"

definition body_or_empty :: "go_error + string \<Rightarrow> string" where
  "body_or_empty r = (case r of Inl _ \<Rightarrow> [] | Inr b \<Rightarrow> b)"

definition read_task :: "task_tree \<Rightarrow> string \<Rightarrow> blocked_task option" where
  "read_task t path =
     (case (parse_int64 (path_base (path_dir (path_dir path))), parse_int64 (path_base path), tt_read t (path_join [path, ''stat''])) of
        (Some pid, Some tid, Inr stat) \<Rightarrow>
          (case parse_task_stat stat of
             None \<Rightarrow> None
           | Some (comm, state) \<Rightarrow>
               if state \<noteq> ''D'' then None
               else
                 Some \<lparr>bt_pid = pid, bt_tid = tid, bt_comm = sanitize_task_field comm, bt_state = state,
                   bt_wchan = sanitize_task_field (body_or_empty (tt_read t (path_join [path, ''wchan'']))),
                   bt_cgroup = parse_unified_cgroup (body_or_empty (tt_read t (path_join [path, ''cgroup''])))\<rparr>)
      | _ \<Rightarrow> None)"

definition task_key :: "blocked_task \<Rightarrow> int list" where
  "task_key t = [bt_pid t, bt_tid t]"

definition read_blocked_tasks :: "string \<Rightarrow> task_tree \<Rightarrow> go_error + blocked_task list" where
  "read_blocked_tasks proc_dir t =
     (case glob_result (path_join [proc_dir, ''[0-9]*'', ''task'', ''[0-9]*'']) (tt_paths t) of
        Inl e \<Rightarrow> Inl e
      | Inr paths \<Rightarrow> Inr (sort_key task_key (List.map_filter (read_task t) paths)))"

section \<open>The rows\<close>

definition task_header :: "string list" where
  "task_header =
     [''sample'', ''timestamp'', ''elapsed_ms'', ''blocked_tasks'', ''pid'', ''tid'', ''comm'', ''state'', ''wchan'', ''cgroup'']"

definition no_task :: blocked_task where
  "no_task = \<lparr>bt_pid = 0, bt_tid = 0, bt_comm = [], bt_state = ''-'', bt_wchan = [], bt_cgroup = []\<rparr>"

definition count_tasks :: "blocked_task list \<Rightarrow> nat" where
  "count_tasks tasks = (if length tasks = 1 \<and> bt_pid (hd tasks) = 0 then 0 else length tasks)"

definition task_rows :: "time_codec \<Rightarrow> nat \<Rightarrow> int \<Rightarrow> int \<Rightarrow> blocked_task list \<Rightarrow> string list list" where
  "task_rows T index start now found =
     (let tasks = (if found = [] then [no_task] else found) in
      map (\<lambda>t. sample_fields T index start now @
         [format_nat (count_tasks tasks), format_int (bt_pid t), format_int (bt_tid t), bt_comm t, bt_state t, bt_wchan t, bt_cgroup t])
        tasks)"

text \<open>The polls, each with its time and the tasks that the machine shows; they end with the list.\<close>

fun poll_tasks ::
    "time_codec \<Rightarrow> string \<Rightarrow> (nat \<Rightarrow> go_error option) \<Rightarrow> int \<Rightarrow> nat \<Rightarrow> (int \<times> task_tree) list \<Rightarrow> string list list \<Rightarrow>
     go_error option \<times> string list list" where
  "poll_tasks T proc_dir sink start index [] rows = (None, rows)"
| "poll_tasks T proc_dir sink start index ((now, t) # rest) rows =
     (case read_blocked_tasks proc_dir t of
        Inl e \<Rightarrow> (Some e, rows)
      | Inr tasks \<Rightarrow>
          (let all = rows @ task_rows T index start now tasks in
           case sink (length all) of
             Some e \<Rightarrow> (Some e, all)
           | None \<Rightarrow> poll_tasks T proc_dir sink start (Suc index) rest all))"

definition collect_blocked_tasks ::
    "time_codec \<Rightarrow> string \<Rightarrow> (nat \<Rightarrow> go_error option) \<Rightarrow> int \<Rightarrow> (int \<times> task_tree) list \<Rightarrow> go_error option \<times> string list list" where
  "collect_blocked_tasks T proc_dir sink start polls =
     (case sink 1 of Some e \<Rightarrow> (Some e, [task_header]) | None \<Rightarrow> poll_tasks T proc_dir sink start 0 polls [task_header])"


section \<open>The command\<close>

record proc_flags =
  fl_interval :: int
  fl_task_interval :: int
  fl_output :: string
  fl_service_output :: string
  fl_disk_output :: string
  fl_task_output :: string
  fl_services :: string
  fl_cgroup_root :: string

text \<open>The outputs that are made, in order; \<open>-\<close> is the standard output.\<close>

definition created_outputs :: "proc_flags \<Rightarrow> string list" where
  "created_outputs F =
     (if fl_output F = ''-'' then [] else [fl_output F]) @
     filter (\<lambda>p. p \<noteq> []) [fl_service_output F, fl_disk_output F, fl_task_output F]"

definition flag_env :: "proc_flags \<Rightarrow> proc_env \<Rightarrow> proc_env" where
  "flag_env F E =
     E\<lparr>pe_root := fl_cgroup_root F, pe_disk := (fl_disk_output F \<noteq> []),
       pe_services := (if fl_service_output F = [] then None else Some (parse_service_names (fl_services F)))\<rparr>"

text \<open>The status of the process with what is said on the standard error; a panic ends it with 2. The error of
  the tasks is looked at only when there is none of the other sampler.\<close>

definition proc_main ::
    "proc_flags \<Rightarrow> (string \<Rightarrow> go_error option) \<Rightarrow> proc_env \<Rightarrow> proc_tick \<Rightarrow> proc_tick list \<Rightarrow> go_error option \<Rightarrow> int \<times> go_error option" where
  "proc_main F create E t ticks task_err =
     (if fl_interval F \<le> 0 then (2, Some (Errorf ''interval must be greater than zero'' [] []))
      else if fl_task_interval F \<le> 0 then (2, Some (Errorf ''task-interval must be greater than zero'' [] []))
      else
        (case first_error create (created_outputs F) of
           Some e \<Rightarrow> (1, Some (Errorf ''open output'' [] [e]))
         | None \<Rightarrow>
             (case fst (collect (flag_env F E) t ticks) of
                Panicked \<Rightarrow> (2, Some (Errorf ''panic'' [] []))
              | Failed e \<Rightarrow> (1, Some (Errorf ''collect proc metrics'' [] [e]))
              | Finished \<Rightarrow>
                  (case (if fl_task_output F = [] then None else task_err) of
                     Some e \<Rightarrow> (1, Some (Errorf ''collect blocked tasks'' [] [e]))
                   | None \<Rightarrow> (0, None)))))"

end
