(* ===== verification/ProcProperties.thy ===== *)
theory ProcProperties
  imports ProcTasks
begin

text \<open>
  The sampler \<open>proc-metrics\<close>: its percentages add up as long as no counter goes back, its tables are complete and
  rectangular, an error ends it with the samples before it intact, and the name of a task is read back whatever it
  holds.
\<close>

section \<open>Percentages\<close>

lemma unat_add_fits: "unat a + unat b < 2 ^ 64 \<Longrightarrow> unat (a + b :: u64) = unat a + unat b"
  by (simp add: unat_word_ariths)

lemma of_u64_nonneg [simp]: "0 \<le> of_u64 w"
  unfolding of_u64_def by (rule of_nat_0_le_iff)

lemma of_u64_mono: "unat v \<le> unat d \<Longrightarrow> of_u64 v \<le> of_u64 d"
  unfolding of_u64_def by (rule of_nat_mono)

lemma of_u64_pos: "0 < unat d \<Longrightarrow> 0 < of_u64 d"
  unfolding of_u64_def by (simp only: of_nat_0_less_iff)

lemma of_u64_sub: "p \<le> c \<Longrightarrow> of_u64 (c - p) = of_u64 c - of_u64 p"
  by (simp add: of_u64_def unat_sub word_le_nat_alt of_nat_diff)

lemma of_u64_add: "unat a + unat b < 2 ^ 64 \<Longrightarrow> of_u64 (a + b) = of_u64 a + of_u64 b"
  by (simp add: of_u64_def unat_add_fits)

text \<open>The sum of the counters, in numbers without a bound.\<close>

definition cpu_sum :: "cpu_counters \<Rightarrow> nat" where
  "cpu_sum c = unat (cc_user c) + unat (cc_system c) + unat (cc_idle c) + unat (cc_iowait c) + unat (cc_steal c)"

lemma cpu_total_fits: "cpu_sum c < 2 ^ 64 \<Longrightarrow> unat (cpu_total c) = cpu_sum c"
  by (simp add: cpu_total_def cpu_sum_def unat_add_fits)

definition cpu_advances :: "cpu_counters \<Rightarrow> cpu_counters \<Rightarrow> bool" where
  "cpu_advances p c \<longleftrightarrow>
     cc_user p \<le> cc_user c \<and> cc_system p \<le> cc_system c \<and> cc_idle p \<le> cc_idle c \<and> cc_iowait p \<le> cc_iowait c \<and>
     cc_steal p \<le> cc_steal c \<and> cpu_sum p < cpu_sum c"

text \<open>The five differences add up to the difference of the totals.\<close>

lemma cpu_deltas:
  assumes "cpu_sum c < 2 ^ 64" "cpu_advances p c"
  defines "u \<equiv> cc_user c - cc_user p" and "s \<equiv> cc_system c - cc_system p" and "i \<equiv> cc_idle c - cc_idle p"
    and "w \<equiv> cc_iowait c - cc_iowait p" and "t \<equiv> cc_steal c - cc_steal p"
  shows "unat u + unat s + unat i + unat w + unat t = unat (cpu_total c - cpu_total p)"
    and "cpu_total p < cpu_total c"
proof -
  have le: "unat (cc_user p) \<le> unat (cc_user c)" "unat (cc_system p) \<le> unat (cc_system c)" "unat (cc_idle p) \<le> unat (cc_idle c)"
    "unat (cc_iowait p) \<le> unat (cc_iowait c)" "unat (cc_steal p) \<le> unat (cc_steal c)" "cpu_sum p < cpu_sum c"
    using assms(2) by (simp_all add: cpu_advances_def word_le_nat_alt)
  have totals: "unat (cpu_total c) = cpu_sum c" "unat (cpu_total p) = cpu_sum p"
    using assms(1) le(6) by (simp_all add: cpu_total_fits)
  with le(6) show less: "cpu_total p < cpu_total c" by (simp add: word_less_nat_alt)
  have "unat (cpu_total c - cpu_total p) = cpu_sum c - cpu_sum p"
    using less totals by (simp add: unat_sub)
  moreover have "unat u = unat (cc_user c) - unat (cc_user p)" "unat s = unat (cc_system c) - unat (cc_system p)"
    "unat i = unat (cc_idle c) - unat (cc_idle p)" "unat w = unat (cc_iowait c) - unat (cc_iowait p)"
    "unat t = unat (cc_steal c) - unat (cc_steal p)"
    using assms(2) by (simp_all add: u_def s_def i_def w_def t_def unat_sub cpu_advances_def)
  ultimately show "unat u + unat s + unat i + unat w + unat t = unat (cpu_total c - cpu_total p)"
    using le(1-5) by (simp add: cpu_sum_def)
qed

lemma percent_bounds:
  "unat v \<le> unat d \<Longrightarrow> 0 < unat d \<Longrightarrow> 0 \<le> percent_of d v \<and> percent_of d v \<le> 100"
  using of_u64_mono [of v d] of_u64_pos [of d] by (simp add: percent_of_def field_simps)

lemma percent_add: "unat a + unat b < 2 ^ 64 \<Longrightarrow> percent_of d (a + b) = percent_of d a + percent_of d b"
  by (simp add: percent_of_def of_u64_add add_divide_distrib distrib_right)

text \<open>
  C32. The percentages of the processor account for the whole interval: when no counter went back, they did not all
  stand still, and their sum fits into 64 bits, then user, system, waiting, stolen and idle time add up to exactly 100, busy
  is all but waiting and idle, not idle all but idle, and every one lies between 0 and 100.
\<close>

theorem percentages_add_up:
  assumes "cpu_sum c < 2 ^ 64" and "cpu_advances (sn_cpu s) c"
  shows "let r = cpu_percentages c (Some s) in
     cp_user r + cp_system r + cp_iowait r + cp_steal r + cp_idle r = 100 \<and>
     cp_busy r = 100 - cp_idle r - cp_iowait r \<and> cp_non_idle r = 100 - cp_idle r \<and>
     list_all (\<lambda>x. 0 \<le> x \<and> x \<le> 100)
       [cp_busy r, cp_non_idle r, cp_user r, cp_system r, cp_iowait r, cp_steal r, cp_idle r]"
proof -
  let ?p = "sn_cpu s" and ?d = "cpu_total c - cpu_total (sn_cpu s)"
  let ?u = "cc_user c - cc_user ?p" and ?s = "cc_system c - cc_system ?p" and ?i = "cc_idle c - cc_idle ?p"
    and ?w = "cc_iowait c - cc_iowait ?p" and ?t = "cc_steal c - cc_steal ?p"
  note sum = cpu_deltas(1) [OF assms] and less = cpu_deltas(2) [OF assms]
  have d: "0 < unat ?d" using less by (auto simp: unat_gt_0)
  have d64: "unat ?d < 2 ^ 64" using unsigned_less [of ?d] by simp
  have fits: "unat (?u + ?s) = unat ?u + unat ?s" "unat (?u + ?s + ?t) = unat ?u + unat ?s + unat ?t"
    "unat (?u + ?s + ?w) = unat ?u + unat ?s + unat ?w" "unat (?u + ?s + ?w + ?t) = unat ?u + unat ?s + unat ?w + unat ?t"
    using sum d64 by (simp_all add: unat_add_fits)
  let ?P = "percent_of ?d"
  have all: "?P ?u + ?P ?s + ?P ?i + ?P ?w + ?P ?t = 100"
  proof -
    have "of_u64 ?u + of_u64 ?s + of_u64 ?i + of_u64 ?w + of_u64 ?t = of_u64 ?d"
      unfolding of_u64_def using sum by (metis of_nat_add)
    then have "(of_u64 ?u + of_u64 ?s + of_u64 ?i + of_u64 ?w + of_u64 ?t) * 100 / of_u64 ?d = 100"
      using of_u64_pos [OF d] by simp
    then show ?thesis by (simp add: percent_of_def add_divide_distrib distrib_right)
  qed
  have sums: "?P (?u + ?s + ?t) = ?P ?u + ?P ?s + ?P ?t" "?P (?u + ?s + ?w + ?t) = ?P ?u + ?P ?s + ?P ?w + ?P ?t"
    using sum d64 fits by (simp_all add: percent_add)
  have r: "cpu_percentages c (Some s) =
      \<lparr>cp_busy = ?P (?u + ?s + ?t), cp_non_idle = ?P (?u + ?s + ?w + ?t), cp_user = ?P ?u, cp_system = ?P ?s, cp_iowait = ?P ?w,
       cp_steal = ?P ?t, cp_idle = ?P ?i\<rparr>"
    using less by (auto simp: cpu_percentages_def Let_def)
  have bounds: "0 \<le> ?P v \<and> ?P v \<le> 100" if "v \<in> {?u, ?s, ?i, ?w, ?t, ?u + ?s + ?t, ?u + ?s + ?w + ?t}" for v
    by (rule percent_bounds) (use that sum d fits in auto)
  then have b: "list_all (\<lambda>x. 0 \<le> x \<and> x \<le> 100) [?P (?u + ?s + ?t), ?P (?u + ?s + ?w + ?t), ?P ?u, ?P ?s, ?P ?w, ?P ?t, ?P ?i]"
    by (simp only: list.pred_inject) simp
  show ?thesis
    unfolding Let_def
  proof (intro conjI)
    let ?r = "cpu_percentages c (Some s)"
    show "list_all (\<lambda>x. 0 \<le> x \<and> x \<le> 100)
        [cp_busy ?r, cp_non_idle ?r, cp_user ?r, cp_system ?r, cp_iowait ?r, cp_steal ?r, cp_idle ?r]"
      using b by (simp only: r cpu_percent.simps)
  qed (use all sums in \<open>simp_all add: r\<close>)
qed

definition cpu_at :: "u64 \<Rightarrow> u64 \<Rightarrow> u64 \<Rightarrow> u64 \<Rightarrow> u64 \<Rightarrow> cpu_counters" where
  "cpu_at u s i w t = \<lparr>cc_user = u, cc_system = s, cc_idle = i, cc_iowait = w, cc_steal = t\<rparr>"

definition proc_snapshot_at :: "int \<Rightarrow> cpu_counters \<Rightarrow> snapshot" where
  "proc_snapshot_at now c =
     \<lparr>sn_at = now, sn_cpu = c, sn_ctxt = 0, sn_intr = 0, sn_running = 0, sn_blocked = 0, sn_mem_total = 0, sn_mem_available = 0,
      sn_mem_free = 0, sn_buffers = 0, sn_cached = 0, sn_swap_total = 0, sn_swap_free = 0, sn_swap_in = 0, sn_swap_out = 0,
      sn_load1 = Fin 0, sn_load5 = Fin 0, sn_load15 = Fin 0, sn_disk = no_disk, sn_disks = [], sn_net = no_traffic,
      sn_cpu_pressure = no_pressure, sn_memory_pressure = no_pressure, sn_io_pressure = no_pressure\<rparr>"

theorem percentages_add_up_witness:
  "let r = cpu_percentages (cpu_at 130 50 800 20 0) (Some (proc_snapshot_at 0 (cpu_at 100 40 750 10 0))) in
     cp_user r = 30 \<and> cp_idle r = 50 \<and> cp_user r + cp_system r + cp_iowait r + cp_steal r + cp_idle r = 100 \<and>
     cp_busy r = 100 - cp_idle r - cp_iowait r"
proof -
  have c: "cpu_sum (cpu_at 130 50 800 20 0) < 2 ^ 64" "cpu_advances (sn_cpu (proc_snapshot_at 0 (cpu_at 100 40 750 10 0))) (cpu_at 130 50 800 20 0)"
    by (simp_all add: cpu_sum_def cpu_at_def cpu_advances_def proc_snapshot_at_def)
  have "cp_user (cpu_percentages (cpu_at 130 50 800 20 0) (Some (proc_snapshot_at 0 (cpu_at 100 40 750 10 0)))) = 30"
    "cp_idle (cpu_percentages (cpu_at 130 50 800 20 0) (Some (proc_snapshot_at 0 (cpu_at 100 40 750 10 0)))) = 50"
    by (simp_all add: cpu_percentages_def cpu_at_def proc_snapshot_at_def cpu_total_def percent_of_def of_u64_def Let_def)
  with percentages_add_up [OF c] show ?thesis by (simp add: Let_def)
qed

text \<open>Only the total is compared: the time of waiting may go back, and its percentage is astronomical then.\<close>

lemma iowait_went_back:
  "cp_iowait (cpu_percentages (cpu_at 200 0 0 9 0) (Some (proc_snapshot_at 0 (cpu_at 100 0 0 10 0)))) > 10 ^ 19"
  by (simp add: cpu_percentages_def cpu_at_def proc_snapshot_at_def cpu_total_def percent_of_def of_u64_def Let_def unsigned_minus_1_eq_mask mask_eq_exp_minus_1 del: of_nat_unat)


section \<open>The tables\<close>

lemma sample_fields_simps [simp]:
  "length (sample_fields T i start now) = 3"
  "sample_fields T i start now @ x # xs =
     format_nat i # tc_format T now # format_int (millis (time_sub now start)) # x # xs"
  by (simp_all add: sample_fields_def)

lemma row_widths:
  "length (host_row T cpus i start c prev) = length host_header"
  "length (disk_row T i start c device cur m) = length disk_header"
  "length (service_row T i start c name s r) = length service_header"
  by (simp_all add: host_row_def host_header_def disk_row_def disk_header_def service_row_def service_header_def Let_def)

lemma row_labels:
  "take 2 (host_row T cpus i start c prev) = [format_nat i, tc_format T (sn_at c)]"
  "service_row T i start c name s r ! 0 = format_nat i" "service_row T i start c name s r ! 3 = name"
  by (simp_all add: host_row_def service_row_def Let_def numeral_2_eq_2 numeral_3_eq_3)

lemma emit_ok:
  "emit E ch rows out1 = (None, out2) \<longleftrightarrow> (\<exists>rs. rows = Inr rs \<and> write_rows E ch rs out1 = (None, out2))"
  by (auto simp: emit_def split: sum.splits)

lemma host_rows_ok: "host_rows T cpus i start c prev = Inr rs \<Longrightarrow> rs = [host_row T cpus i start c prev]"
  by (auto simp: host_rows_def split: sum.splits)

lemma service_rows_ok:
  "service_rows T cpus i start c prev services before names = Inr rs \<Longrightarrow>
     map (\<lambda>r. (r ! 0, r ! 3)) rs = map (\<lambda>n. (format_nat i, n)) names \<and> list_all (\<lambda>r. length r = length service_header) rs"
  by (auto simp: service_rows_def Let_def row_labels row_widths list_all_iff split: sum.splits)

lemma disk_rows_ok: "disk_rows T i start c prev = Inr rs \<Longrightarrow> list_all (\<lambda>r. length r = length disk_header) rs"
  by (auto simp: disk_rows_def Let_def row_widths list_all_iff split: sum.splits)

lemma read_targets_names: "read_targets top_dir t ts = Some (ts1, vs) \<Longrightarrow> map fst ts1 = map fst ts"
proof (induction ts arbitrary: ts1 vs)
  case (Cons x xs)
  then show ?case
    by (cases x) (auto simp: read_target_def Let_def split: option.splits sum.splits)
qed simp

lemmas write_rows_simps = write_rows_def channel.case Let_def prod.inject

text \<open>What a sample that is written adds to the three outputs.\<close>

definition extended ::
    "proc_env \<Rightarrow> int \<Rightarrow> nat \<Rightarrow> proc_tick \<Rightarrow> string list \<Rightarrow> proc_out \<Rightarrow> proc_out \<Rightarrow> bool" where
  "extended E start i t names out1 out2 \<longleftrightarrow>
     (\<exists>h d s. po_host out2 = po_host out1 @ [h] \<and> take 2 h = [format_nat i, tc_format (pe_clock E) (tk_now t)] \<and>
        length h = length host_header \<and> po_disk out2 = po_disk out1 @ d \<and> list_all (\<lambda>r. length r = length disk_header) d \<and>
        (\<not> pe_disk E \<longrightarrow> d = []) \<and> po_service out2 = po_service out1 @ s \<and> list_all (\<lambda>r. length r = length service_header) s \<and>
        map (\<lambda>r. (r ! 0, r ! 3)) s = (if pe_services E = None then [] else map (\<lambda>n. (format_nat i, n)) names))"

lemma write_services_ok:
  assumes "write_services E start i t c prev before ts out1 = (Inr (ts1, sv), out2)"
  obtains s where "po_host out2 = po_host out1" "po_disk out2 = po_disk out1" "po_service out2 = po_service out1 @ s"
    "list_all (\<lambda>r. length r = length service_header) s" "map fst ts1 = map fst ts"
    "map (\<lambda>r. (r ! 0, r ! 3)) s = (if pe_services E = None then [] else map (\<lambda>n. (format_nat i, n)) (map fst ts))"
proof (cases "pe_services E = None")
  case True
  with assms show ?thesis by (intro that [of "[]"]) (auto simp: write_services_def)
next
  case False
  with assms obtain services rs where w: "read_targets (pe_root E) t ts = Some (ts1, services)"
    "service_rows (pe_clock E) (pe_cpus E) i start c prev services before (map fst ts) = Inr rs"
    "write_rows E ServiceRows rs out1 = (None, out2)"
    by (auto simp: write_services_def emit_ok split: option.splits prod.splits)
  with service_rows_ok [OF w(2)] read_targets_names [OF w(1)] False show ?thesis
    by (intro that [of rs]) (auto simp: write_rows_def Let_def)
qed

lemma write_sample_ok:
  assumes "write_sample E start i t c prev before ts out1 = (Inr (ts1, sv), out2)" and "sn_at c = tk_now t"
  shows "extended E start i t (map fst ts) out1 out2 \<and> map fst ts1 = map fst ts"
proof -
  obtain hs outa outb where h: "host_rows (pe_clock E) (pe_cpus E) i start c prev = Inr hs"
    "write_rows E HostRows hs out1 = (None, outa)"
    and d: "(if pe_disk E then emit E DiskRows (disk_rows (pe_clock E) i start c prev) outa else (None, outa)) = (None, outb)"
    and s: "write_services E start i t c prev before ts outb = (Inr (ts1, sv), out2)"
    using assms(1) by (auto simp: write_sample_def emit_ok split: option.splits prod.splits)
  obtain ds where ds: "po_disk outb = po_disk outa @ ds" "list_all (\<lambda>r. length r = length disk_header) ds" "\<not> pe_disk E \<longrightarrow> ds = []"
    "po_host outb = po_host outa" "po_service outb = po_service outa"
  proof (cases "pe_disk E")
    case True
    with d obtain rs where "disk_rows (pe_clock E) i start c prev = Inr rs" "write_rows E DiskRows rs outa = (None, outb)"
      by (auto simp: emit_ok)
    with True disk_rows_ok show ?thesis by (intro that [of rs]) (auto simp: write_rows_def Let_def)
  qed (use d that [of "[]"] in auto)
  from s obtain ss where "po_host out2 = po_host outb" "po_disk out2 = po_disk outb" "po_service out2 = po_service outb @ ss"
    "list_all (\<lambda>r. length r = length service_header) ss" "map fst ts1 = map fst ts"
    "map (\<lambda>r. (r ! 0, r ! 3)) ss = (if pe_services E = None then [] else map (\<lambda>n. (format_nat i, n)) (map fst ts))"
    by (rule write_services_ok)
  moreover have "po_host outa = po_host out1 @ [host_row (pe_clock E) (pe_cpus E) i start c prev]" "po_disk outa = po_disk out1"
    "po_service outa = po_service out1"
    using h host_rows_ok [OF h(1)] by (auto simp: write_rows_def Let_def)
  ultimately show ?thesis
    using ds assms(2) unfolding extended_def by (auto simp: row_labels row_widths)
qed

lemma sample_stops: "write_sample E start i t c prev before ts out1 \<noteq> (Inl Finished, out2)"
  by (auto simp: write_sample_def write_services_def split: option.splits prod.splits)

lemma snapshot_time: "read_proc_snapshot pf page op now devices = Inr c \<Longrightarrow> sn_at c = now"
  by (auto simp: read_proc_snapshot_def split: sum.splits)

text \<open>The labels of the rows that are expected of a list of ticks, from an index on.\<close>

definition host_labels :: "proc_env \<Rightarrow> nat \<Rightarrow> proc_tick list \<Rightarrow> string list list" where
  "host_labels E i ts = map (\<lambda>(k, t). [format_nat k, tc_format (pe_clock E) (tk_now t)]) (enumerate i ts)"

definition service_labels :: "proc_env \<Rightarrow> nat \<Rightarrow> proc_tick list \<Rightarrow> (string \<times> string) list" where
  "service_labels E i ts =
     (case pe_services E of
        None \<Rightarrow> []
      | Some names \<Rightarrow> concat (map (\<lambda>(k, t). map (\<lambda>n. (format_nat k, n)) (service_targets names)) (enumerate i ts)))"

definition tabular :: "proc_out \<Rightarrow> bool" where
  "tabular out1 \<longleftrightarrow>
     list_all (\<lambda>r. length r = length host_header) (po_host out1) \<and> list_all (\<lambda>r. length r = length disk_header) (po_disk out1) \<and>
     list_all (\<lambda>r. length r = length service_header) (po_service out1)"

lemma extended_labels:
  assumes "extended E start i t names out1 out2" and "\<And>ns. pe_services E = Some ns \<Longrightarrow> names = service_targets ns"
  shows "map (take 2) (po_host out2) = map (take 2) (po_host out1) @ host_labels E i [t] \<and>
    map (\<lambda>r. (r ! 0, r ! 3)) (po_service out2) = map (\<lambda>r. (r ! 0, r ! 3)) (po_service out1) @ service_labels E i [t] \<and>
    (tabular out1 \<longrightarrow> tabular out2) \<and> (\<not> pe_disk E \<longrightarrow> po_disk out2 = po_disk out1)"
  using assms by (auto simp: extended_def host_labels_def service_labels_def tabular_def split: option.splits)

lemma labels_Cons:
  "host_labels E i (t # ts) = host_labels E i [t] @ host_labels E (Suc i) ts"
  "service_labels E i (t # ts) = service_labels E i [t] @ service_labels E (Suc i) ts"
  by (auto simp: host_labels_def service_labels_def split: option.splits)

lemma collect_ticks_labels:
  assumes "\<And>ns. pe_services E = Some ns \<Longrightarrow> map fst ts = service_targets ns"
  shows "collect_ticks E start i prev before ts ticks out1 = (Finished, out2) \<Longrightarrow>
    map (take 2) (po_host out2) = map (take 2) (po_host out1) @ host_labels E (Suc i) ticks \<and>
    map (\<lambda>r. (r ! 0, r ! 3)) (po_service out2) = map (\<lambda>r. (r ! 0, r ! 3)) (po_service out1) @ service_labels E (Suc i) ticks \<and>
    (tabular out1 \<longrightarrow> tabular out2) \<and> (\<not> pe_disk E \<longrightarrow> po_disk out2 = po_disk out1)"
  using assms
proof (induction ticks arbitrary: i prev before ts out1)
  case Nil
  then show ?case by (auto simp: host_labels_def service_labels_def split: option.splits)
next
  case (Cons t ticks)
  from Cons.prems(1) obtain c sv ts1 outa where s: "read_proc_snapshot (pe_float E) (pe_page E) (tk_open t) (tk_now t) (pe_devices E) = Inr c"
    "write_sample E start (Suc i) t c (Some prev) before ts out1 = (Inr (ts1, sv), outa)"
    "collect_ticks E start (Suc i) c sv ts1 ticks outa = (Finished, out2)"
    by (auto simp: sample_stops split: sum.splits prod.splits)
  note w = write_sample_ok [OF s(2) snapshot_time [OF s(1)]]
  from w have e: "extended E start (Suc i) t (map fst ts) out1 outa" and names: "map fst ts1 = map fst ts" by simp_all
  have IH: "map (take 2) (po_host out2) = map (take 2) (po_host outa) @ host_labels E (Suc (Suc i)) ticks \<and>
    map (\<lambda>r. (r ! 0, r ! 3)) (po_service out2) = map (\<lambda>r. (r ! 0, r ! 3)) (po_service outa) @ service_labels E (Suc (Suc i)) ticks \<and>
    (tabular outa \<longrightarrow> tabular out2) \<and> (\<not> pe_disk E \<longrightarrow> po_disk out2 = po_disk outa)"
    by (rule Cons.IH [OF s(3)]) (use names Cons.prems(2) in simp)
  from extended_labels [OF e Cons.prems(2)] IH show ?case
    unfolding labels_Cons [of E "Suc i" t ticks] by simp
qed


lemma headers_ok:
  "write_headers E = (None, out1) \<Longrightarrow>
     po_host out1 = [host_header] \<and> po_disk out1 = (if pe_disk E then [disk_header] else []) \<and>
     po_service out1 = (if pe_services E = None then [] else [service_header])"
  by (auto simp: write_headers_def write_rows_def Let_def split: option.splits prod.splits if_splits)

lemma collect_first:
  assumes "collect E t ticks = (Finished, out1)"
  obtains c ts sv outa outb where "write_headers E = (None, outa)" "sn_at c = tk_now t"
    "write_sample E (tk_now t) 0 t c None [] (first_targets E) outa = (Inr (ts, sv), outb)"
    "collect_ticks E (tk_now t) 0 c sv ts ticks outb = (Finished, out1)"
proof -
  from assms obtain outa c where h: "write_headers E = (None, outa)"
    "read_proc_snapshot (pe_float E) (pe_page E) (tk_open t) (tk_now t) (pe_devices E) = Inr c"
    by (auto simp: collect_def split: option.splits prod.splits sum.splits)
  with assms show ?thesis
    using that [OF h(1) snapshot_time [OF h(2)]] by (auto simp: collect_def sample_stops split: prod.splits sum.splits)
qed

lemma first_targets_names: "pe_services E = Some ns \<Longrightarrow> map fst (first_targets E) = service_targets ns"
  by (simp add: first_targets_def comp_def)

text \<open>
  C30. A run of the sampler that ends without an error is complete: below its header the table of the host has exactly one
  row per tick, numbered from 0 and stamped with the time of the tick; the table of the services has, for every
  tick, one row per declared service, in order; no disk is written unless it was asked for; and every row has the width of its header.
\<close>

theorem samples_complete:
  assumes "collect E t ticks = (Finished, out1)"
  shows "map (take 2) (tl (po_host out1)) = host_labels E 0 (t # ticks) \<and>
     map (\<lambda>r. (r ! 0, r ! 3)) (tl (po_service out1)) = service_labels E 0 (t # ticks) \<and>
     tabular out1 \<and> (\<not> pe_disk E \<longrightarrow> po_disk out1 = [])"
proof -
  from assms obtain c ts sv outa outb where s: "write_headers E = (None, outa)" "sn_at c = tk_now t"
    "write_sample E (tk_now t) 0 t c None [] (first_targets E) outa = (Inr (ts, sv), outb)"
    "collect_ticks E (tk_now t) 0 c sv ts ticks outb = (Finished, out1)"
    by (rule collect_first)
  note h = headers_ok [OF s(1)]
  from write_sample_ok [OF s(3,2)] have e: "extended E (tk_now t) 0 t (map fst (first_targets E)) outa outb"
    and names: "map fst ts = map fst (first_targets E)" by simp_all
  note first = extended_labels [OF e first_targets_names]
  have rest: "map (take 2) (po_host out1) = map (take 2) (po_host outb) @ host_labels E 1 ticks \<and>
    map (\<lambda>r. (r ! 0, r ! 3)) (po_service out1) = map (\<lambda>r. (r ! 0, r ! 3)) (po_service outb) @ service_labels E 1 ticks \<and>
    (tabular outb \<longrightarrow> tabular out1) \<and> (\<not> pe_disk E \<longrightarrow> po_disk out1 = po_disk outb)"
    using collect_ticks_labels [OF _ s(4)] names first_targets_names by simp
  have "tabular outa" using h by (simp add: tabular_def)
  moreover have "map (take 2) (po_host out1) = take 2 host_header # host_labels E 0 (t # ticks)"
    using first rest h labels_Cons(1) [of E 0 t ticks] by simp
  moreover have "pe_services E \<noteq> None \<Longrightarrow>
      map (\<lambda>r. (r ! 0, r ! 3)) (po_service out1) = (service_header ! 0, service_header ! 3) # service_labels E 0 (t # ticks)"
    using first rest h labels_Cons(2) [of E 0 t ticks] by simp
  moreover have "pe_services E = None \<Longrightarrow> po_service out1 = [] \<and> service_labels E 0 (t # ticks) = []"
    using first rest h labels_Cons(2) [of E 0 t ticks] by (simp add: service_labels_def)
  ultimately show ?thesis
    using first rest h by (cases "pe_services E = None") (auto simp: map_tl)
qed

lemma collect_ticks_append:
  "collect_ticks E start i prev before ts xs out1 = (Finished, out2) \<Longrightarrow>
     \<exists>i' prev' before' ts'. \<forall>ys. collect_ticks E start i prev before ts (xs @ ys) out1 =
       collect_ticks E start i' prev' before' ts' ys out2"
proof (induction xs arbitrary: i prev before ts out1)
  case Nil
  then show ?case by auto
next
  case (Cons t xs)
  from Cons.prems obtain c sv ts1 outa where s: "read_proc_snapshot (pe_float E) (pe_page E) (tk_open t) (tk_now t) (pe_devices E) = Inr c"
    "write_sample E start (Suc i) t c (Some prev) before ts out1 = (Inr (ts1, sv), outa)"
    "collect_ticks E start (Suc i) c sv ts1 xs outa = (Finished, out2)"
    by (auto simp: sample_stops split: sum.splits prod.splits)
  with Cons.IH [OF s(3)] show ?case by simp
qed

lemma collect_append:
  assumes "collect E t xs = (Finished, out2)"
  shows "\<exists>i' prev' before' ts'. \<forall>ys. collect E t (xs @ ys) = collect_ticks E (tk_now t) i' prev' before' ts' ys out2"
proof -
  from assms obtain outa c where h: "write_headers E = (None, outa)"
    "read_proc_snapshot (pe_float E) (pe_page E) (tk_open t) (tk_now t) (pe_devices E) = Inr c"
    by (auto simp: collect_def split: option.splits prod.splits sum.splits)
  with assms obtain ts sv outb where s: "write_sample E (tk_now t) 0 t c None [] (first_targets E) outa = (Inr (ts, sv), outb)"
    "collect_ticks E (tk_now t) 0 c sv ts xs outb = (Finished, out2)"
    by (auto simp: collect_def sample_stops split: prod.splits sum.splits)
  show ?thesis
    using collect_ticks_append [OF s(2)] h s(1) by (simp add: collect_def)
qed

text \<open>
  C31. An error ends the sampler at once and costs no sample: when the files of a tick cannot be read or parsed,
  the run fails with exactly this error, whatever comes behind, and its tables are those of the run that ended
  before this tick.
\<close>

theorem failed_sample:
  assumes "collect E t earlier = (Finished, out1)"
    and "read_proc_snapshot (pe_float E) (pe_page E) (tk_open bad) (tk_now bad) (pe_devices E) = Inl e"
  shows "collect E t (earlier @ bad # later) = (Failed e, out1)"
  using collect_append [OF assms(1)] assms(2) by auto


text \<open>A machine with one disk and one service.\<close>

definition file_of :: "string \<Rightarrow> go_error + stream" where
  "file_of body = Inr \<lparr>in_body = body, in_read_err = None, in_close_err = None\<rparr>"

definition demo_contents :: "string \<Rightarrow> (string \<times> string) list" where
  "demo_contents user =
     [(''/proc/stat'', ''cpu '' @ user @ '' 0 4 50 6'' @ [newline_char]), (''/proc/meminfo'', ''MemTotal: 8 kB'' @ [newline_char]),
      (''/proc/vmstat'', []), (''/proc/loadavg'', ''1 2 3 1/9 7''), (''/proc/net/dev'', []),
      (''/proc/diskstats'', ''8 0 a 1 2 3 4 5 6 7 8 9 10 11'' @ [newline_char]),
      (''/c/b.service/cpu.stat'', ''usage_usec 7'' @ [newline_char]), (''/c/b.service/memory.current'', ''4096'' @ [newline_char]),
      (''/c/b.service/io.stat'', ''8:0 rbytes=9 wbytes=5'' @ [newline_char])]"

definition demo_files :: "string \<Rightarrow> opener" where
  "demo_files user path =
     (case map_of (demo_contents user) path of
        None \<Rightarrow> Inl (Errorf ''file does not exist'' [path] []) | Some body \<Rightarrow> file_of body)"

definition demo_tick :: "int \<Rightarrow> string \<Rightarrow> proc_tick" where
  "demo_tick now user =
     \<lparr>tk_now = now, tk_open = demo_files user, tk_cgroups = Some [CDir ''b.service'' []]\<rparr>"

definition demo_proc :: proc_env where
  "demo_proc =
     \<lparr>pe_clock = \<lparr>tc_parse = (\<lambda>_. None), tc_format = (\<lambda>t. format_int (t div 1000000000))\<rparr>, pe_float = (\<lambda>s. map_option (\<lambda>n. Fin (of_nat n)) (parse_digits s)),
      pe_page = 4096, pe_cpus = 2, pe_devices = [''a''], pe_root = ''/c'', pe_disk = True, pe_services = Some [''b'', ''b.service''],
      pe_sink = (\<lambda>_ _. None)\<rparr>"

text \<open>A sampler does not fail on its own: it ends without an error when its files can be read, the clock does not go
  back, and the outputs take what is written.\<close>

definition tick_readable :: "proc_env \<Rightarrow> proc_tick \<Rightarrow> bool" where
  "tick_readable E t \<longleftrightarrow>
     (\<exists>c. read_proc_snapshot (pe_float E) (pe_page E) (tk_open t) (tk_now t) (pe_devices E) = Inr c) \<and>
     (\<forall>p. read_service_io (tk_open t) p \<noteq> None)"

lemma read_targets_total: "(\<And>p. read_service_io (tk_open t) p \<noteq> None) \<Longrightarrow> read_targets top_dir t ts \<noteq> None"
proof (induction ts)
  case (Cons x ts)
  have "read_service_cgroup (tk_open t) p \<noteq> None" for p
    using Cons.prems by (auto simp: read_service_cgroup_def Let_def split: sum.splits)
  then have "read_target top_dir t x \<noteq> None"
    by (auto simp: read_target_def split: option.split sum.split) (metis option.distinct(1))
  with Cons show ?case by (auto split: option.splits)
qed simp

lemma emit_total:
  assumes "\<And>ch n. pe_sink E ch n = None"
  shows "emit E ch (Inr rs) out1 = (None, snd (emit E ch (Inr rs) out1))"
  using assms by (cases ch) (simp_all add: emit_def write_rows_def Let_def)

lemma interval_total: "(\<And>p. prev = Some p \<Longrightarrow> sn_at p \<le> sn_at c) \<Longrightarrow> \<exists>x. check_interval c prev = Inr x"
proof -
  assume "\<And>p. prev = Some p \<Longrightarrow> sn_at p \<le> sn_at c"
  moreover have "sn_at p \<le> sn_at c \<Longrightarrow> 0 \<le> seconds_between (sn_at c) (sn_at p)" for p
    using time_sub_nonneg by (simp add: seconds_between_def)
  ultimately show ?thesis by (cases prev) (force simp: check_interval_def Let_def)+
qed

lemma write_sample_total:
  assumes "\<And>ch n. pe_sink E ch n = None" "\<And>p. read_service_io (tk_open t) p \<noteq> None"
    and "\<And>p. prev = Some p \<Longrightarrow> sn_at p \<le> sn_at c"
  shows "\<exists>r out2. write_sample E start i t c prev before ts out1 = (Inr r, out2)"
proof -
  obtain x where x: "check_interval c prev = Inr x" using interval_total assms(3) by blast
  obtain outa where h: "emit E HostRows (host_rows (pe_clock E) (pe_cpus E) i start c prev) out1 = (None, outa)"
    using emit_total [OF assms(1)] by (simp add: host_rows_def x) blast
  obtain outb where d: "(if pe_disk E then emit E DiskRows (disk_rows (pe_clock E) i start c prev) outa else (None, outa)) = (None, outb)"
    using emit_total [OF assms(1)] by (cases "pe_disk E") (simp_all add: disk_rows_def x, blast)
  obtain r where t: "read_targets (pe_root E) t ts = Some r" using read_targets_total [OF assms(2)] by blast
  obtain ts1 sv where r: "r = (ts1, sv)" by (cases r)
  obtain rows where rows: "service_rows (pe_clock E) (pe_cpus E) i start c prev sv before (map fst ts) = Inr rows"
    by (simp add: service_rows_def x)
  obtain outc where s: "emit E ServiceRows (Inr rows) outb = (None, outc)" using emit_total [OF assms(1)] by blast
  have "\<exists>r out2. write_services E start i t c prev before ts outb = (Inr r, out2)"
    by (cases "pe_services E = None") (simp_all add: write_services_def t r rows s)
  with h d show ?thesis by (simp add: write_sample_def)
qed

lemma collect_ticks_total:
  assumes "\<And>ch n. pe_sink E ch n = None"
  shows "list_all (tick_readable E) ticks \<Longrightarrow> sorted_wrt (\<le>) (sn_at prev # map tk_now ticks) \<Longrightarrow>
    fst (collect_ticks E start i prev before ts ticks out1) = Finished"
proof (induction ticks arbitrary: i prev before ts out1)
  case (Cons t ticks)
  from Cons.prems(1) obtain c where c: "read_proc_snapshot (pe_float E) (pe_page E) (tk_open t) (tk_now t) (pe_devices E) = Inr c"
    and io: "\<And>p. read_service_io (tk_open t) p \<noteq> None" by (auto simp: tick_readable_def)
  note at = snapshot_time [OF c]
  obtain ts1 sv outa where w: "write_sample E start (Suc i) t c (Some prev) before ts out1 = (Inr (ts1, sv), outa)"
    using write_sample_total [OF assms io, of "Some prev" c] Cons.prems(2) at by fastforce
  show ?case
    using Cons.IH [of c] Cons.prems by (simp add: c w at)
qed simp

lemma collect_total:
  assumes "\<And>ch n. pe_sink E ch n = None" and "list_all (tick_readable E) (t # ticks)" and "sorted_wrt (\<le>) (map tk_now (t # ticks))"
  shows "collect E t ticks = (Finished, snd (collect E t ticks))"
proof -
  from assms(2) obtain c where c: "read_proc_snapshot (pe_float E) (pe_page E) (tk_open t) (tk_now t) (pe_devices E) = Inr c"
    and io: "\<And>p. read_service_io (tk_open t) p \<noteq> None" by (auto simp: tick_readable_def)
  obtain outh where h: "write_headers E = (None, outh)"
    using assms(1) by (cases "pe_disk E"; cases "pe_services E") (auto simp: write_headers_def write_rows_def Let_def)
  obtain ts sv outa where w: "write_sample E (tk_now t) 0 t c None [] (first_targets E) outh = (Inr (ts, sv), outa)"
    using write_sample_total [OF assms(1) io, of None c] by fastforce
  have "fst (collect E t ticks) = Finished"
    using collect_ticks_total [OF assms(1), of ticks c] assms(2,3) snapshot_time [OF c]
    by (simp add: collect_def h c w)
  then show ?thesis by (metis prod.collapse)
qed

lemma proc_demo_reads:
  "list_all (\<lambda>u. case read_proc_snapshot (pe_float demo_proc) (pe_page demo_proc) (demo_files u) 0 [''a''] of Inr c \<Rightarrow> True | Inl _ \<Rightarrow> False)
     [''3'', ''4'']"
  by code_simp

lemma demo_io:
  "list_all (\<lambda>u. list_all (\<lambda>(p, body). case parse_service_io \<lparr>in_body = body, in_read_err = None, in_close_err = None\<rparr> of
     Inl None \<Rightarrow> False | _ \<Rightarrow> True) (demo_contents u)) [''3'', ''4'']"
  by code_simp


lemma demo_readable:
  assumes "u \<in> set [''3'', ''4'']"
  shows "tick_readable demo_proc (demo_tick now u)"
proof -
  have "\<exists>c. read_proc_snapshot (pe_float demo_proc) (pe_page demo_proc) (demo_files u) 0 [''a''] = Inr c"
    using proc_demo_reads assms by (auto split: sum.splits)
  then have "\<exists>c. read_proc_snapshot (pe_float demo_proc) (pe_page demo_proc) (demo_files u) now [''a''] = Inr c"
    by (auto simp: read_proc_snapshot_def split: sum.splits)
  moreover have "read_service_io (demo_files u) p \<noteq> None" for p
  proof (cases "map_of (demo_contents u) p")
    case (Some body)
    then have "(p, body) \<in> set (demo_contents u)" by (rule map_of_SomeD)
    with demo_io assms have "parse_service_io \<lparr>in_body = body, in_read_err = None, in_close_err = None\<rparr> \<noteq> Inl None"
      unfolding list_all_iff by fastforce
    with Some show ?thesis by (auto simp: read_service_io_def demo_files_def file_of_def split: sum.splits option.splits)
  qed (simp add: read_service_io_def demo_files_def)
  ultimately show ?thesis by (simp add: tick_readable_def demo_tick_def demo_proc_def)
qed

lemma demo_finished:
  "collect demo_proc (demo_tick 0 ''3'') [demo_tick 1000000000 ''4''] =
     (Finished, snd (collect demo_proc (demo_tick 0 ''3'') [demo_tick 1000000000 ''4'']))"
  by (rule collect_total) (simp_all add: demo_readable, simp_all add: demo_proc_def demo_tick_def)

theorem samples_complete_witness:
  "map (take 2) (tl (po_host (snd (collect demo_proc (demo_tick 0 ''3'') [demo_tick 1000000000 ''4''])))) =
     [[''0'', ''0''], [''1'', ''1'']] \<and>
   map (\<lambda>r. (r ! 0, r ! 3)) (tl (po_service (snd (collect demo_proc (demo_tick 0 ''3'') [demo_tick 1000000000 ''4''])))) =
     [(''0'', ''b.service''), (''1'', ''b.service'')]"
proof -
  have "host_labels demo_proc 0 [demo_tick 0 ''3'', demo_tick 1000000000 ''4''] = [[''0'', ''0''], [''1'', ''1'']]"
    by code_simp
  moreover have "service_labels demo_proc 0 [demo_tick 0 ''3'', demo_tick 1000000000 ''4''] = [(''0'', ''b.service''), (''1'', ''b.service'')]"
    by code_simp
  ultimately show ?thesis using samples_complete [OF demo_finished] by simp
qed

definition broken_tick :: proc_tick where
  "broken_tick = (demo_tick 2000000000 ''4'')\<lparr>tk_open := (\<lambda>path. Inl (Errorf ''too many open files'' [path] []))\<rparr>"

theorem failed_sample_witness:
  "collect demo_proc (demo_tick 0 ''3'') [demo_tick 1000000000 ''4'', broken_tick, demo_tick 3000000000 ''4''] =
     (Failed (Errorf ''too many open files'' [''/proc/stat''] []), snd (collect demo_proc (demo_tick 0 ''3'') [demo_tick 1000000000 ''4'']))"
  using failed_sample [OF demo_finished, of broken_tick "Errorf ''too many open files'' [''/proc/stat''] []" "[demo_tick 3000000000 ''4'']"]
  by (simp add: read_proc_snapshot_def with_file_def broken_tick_def)

text \<open>A blank line in io.stat ends the whole sampler with a panic, although errors in this file are meant to be ignored.\<close>

lemma blank_io_line:
  "read_service_io (\<lambda>_. file_of [newline_char]) p = None"
  by code_simp


section \<open>Disks\<close>

text \<open>The devices that are counted_disk, in the order of their lines.\<close>

definition counted_disk :: "string list \<Rightarrow> string \<Rightarrow> bool" where
  "counted_disk devices line \<longleftrightarrow> 14 \<le> length (str_fields line) \<and> (devices = [] \<or> str_fields line ! 2 \<in> set devices)"

definition counted_names :: "string list \<Rightarrow> string list \<Rightarrow> string list" where
  "counted_names devices ls = map (\<lambda>l. str_fields l ! 2) (filter (counted_disk devices) ls)"

definition sum_disks :: "disk_counters list \<Rightarrow> disk_counters" where
  "sum_disks ds = fold (\<lambda>d t. add_disk_counters t d) ds no_disk"

lemma sum_disks_snoc: "sum_disks (ds @ [d]) = add_disk_counters (sum_disks ds) d"
  by (simp add: sum_disks_def)

lemma update_new: "k \<notin> set (keys m) \<Longrightarrow> AList.update k v m = m @ [(k, v)]"
  by (induction m) auto

lemma disk_lines_sum:
  "fold_res (disk_line devices) ls (t, m) = Inr (t', m') \<Longrightarrow> t = sum_disks (map snd m) \<Longrightarrow>
     distinct (keys m @ counted_names devices ls) \<Longrightarrow>
     t' = sum_disks (map snd m') \<and> keys m' = keys m @ counted_names devices ls"
proof (induction ls arbitrary: t m)
  case (Cons l ls)
  show ?case
  proof (cases "counted_disk devices l")
    case True
    with Cons.prems(1) obtain vs where l: "disk_line devices l (t, m) =
        Inr (add_disk_counters t (device_counters vs), AList.update (str_fields l ! 2) (device_counters vs) m)"
      by (auto simp: disk_line_def counted_disk_def Let_def split: sum.splits if_splits)
    have names: "counted_names devices (l # ls) = str_fields l ! 2 # counted_names devices ls"
      using True by (simp add: counted_names_def)
    with Cons.prems(3) have "str_fields l ! 2 \<notin> set (keys m)" by auto
    then have u: "AList.update (str_fields l ! 2) (device_counters vs) m = m @ [(str_fields l ! 2, device_counters vs)]"
      by (rule update_new)
    have rest: "fold_res (disk_line devices) ls (add_disk_counters t (device_counters vs), m @ [(str_fields l ! 2, device_counters vs)]) =
        Inr (t', m')"
      using Cons.prems(1) l u by simp
    show ?thesis
      using Cons.IH [OF rest] Cons.prems names by (simp add: sum_disks_snoc)
  next
    case False
    then have "disk_line devices l (t, m) = Inr (t, m)" by (auto simp: disk_line_def counted_disk_def Let_def)
    with False Cons show ?thesis by (simp add: counted_names_def)
  qed
qed (simp add: counted_names_def)

text \<open>
  The totals of the disks are the sums of what the table says of the devices, modulo 64 bits: when no device has two
  lines, every counted device is in the table once, in the order of the file, and the totals add up exactly these
  entries.
\<close>

theorem disk_totals:
  assumes "parse_diskstats devices src = Inr (t, table)"
    and "distinct (counted_names devices (fst (scan_lines token_limit (in_body src))))"
  shows "t = sum_disks (map snd table) \<and> keys table = counted_names devices (fst (scan_lines token_limit (in_body src)))"
  using disk_lines_sum [of devices "fst (scan_lines token_limit (in_body src))" no_disk "[]" t table]
    scan_foldD [of token_limit "disk_line devices" src "(no_disk, [])" "(t, table)"] assms
  by (simp add: parse_diskstats_def sum_disks_def)

definition demo_disks :: stream where
  "demo_disks =
     \<lparr>in_body = ''8 0 a 1 2 3 4 5 6 7 8 9 10 11'' @ [newline_char] @ ''8 16 b 1 1 1 1 1 1 1 1 1 1 1'' @ [newline_char] @
        ''7 0 loop 1 1 1 1 1 1 1 1 1 1 1'' @ [newline_char], in_read_err = None, in_close_err = None\<rparr>"

theorem disk_totals_witness:
  "case parse_diskstats [''a'', ''b''] demo_disks of
     Inl _ \<Rightarrow> False | Inr (t, table) \<Rightarrow> t = sum_disks (map snd table) \<and> keys table = [''a'', ''b'']"
proof -
  have names: "counted_names [''a'', ''b''] (fst (scan_lines token_limit (in_body demo_disks))) = [''a'', ''b'']" by code_simp
  have "(case parse_diskstats [''a'', ''b''] demo_disks of Inl _ \<Rightarrow> False | Inr _ \<Rightarrow> True) = True" by code_simp
  then obtain t table where p: "parse_diskstats [''a'', ''b''] demo_disks = Inr (t, table)" by (auto split: sum.splits)
  show ?thesis using disk_totals [OF p] by (simp add: p names)
qed

section \<open>Control groups\<close>

lemma find_dirs_sound:
  "p \<in> set (find_dirs name up d) \<Longrightarrow> \<exists>q. p = up @ cg_name d # q \<and> has_dir q (cg_dirs d) \<and> last (cg_name d # q) = name"
proof (induction name up d arbitrary: p rule: find_dirs.induct)
  case (1 name up n ds)
  show ?case
  proof (cases "n = name")
    case False
    with "1.prems" obtain d where d: "d \<in> set ds" "p \<in> set (find_dirs name (up @ [n]) d)" by auto
    from "1.IH" [OF False d] obtain q where "p = (up @ [n]) @ cg_name d # q" "has_dir q (cg_dirs d)" "last (cg_name d # q) = name"
      by blast
    with d(1) show ?thesis by (intro exI [of _ "cg_name d # q"]) (auto simp: list_ex_iff)
  qed (use "1.prems" in auto)
qed

lemma find_dirs_complete:
  "has_dir (q @ [name]) [d] \<Longrightarrow> find_dirs name up d \<noteq> []"
proof (induction name up d arbitrary: q rule: find_dirs.induct)
  case (1 name up n ds)
  show ?case
  proof (cases "n = name")
    case False
    with "1.prems" obtain m q' where q: "q = m # q'" by (cases q) auto
    with "1.prems" have "has_dir (q' @ [name]) ds" by simp
    then obtain d where d: "d \<in> set ds" "has_dir (q' @ [name]) [d]" by (cases q') (auto simp: list_ex_iff)
    from "1.IH" [OF False d] d(1) False show ?thesis by auto
  qed simp
qed

lemma has_dir_in: "has_dir (n # p) ds \<longleftrightarrow> (\<exists>d \<in> set ds. cg_name d = n \<and> has_dir (n # p) [d])"
  by (auto simp: list_ex_iff)

lemma candidates_sound:
  assumes "p \<in> set (cgroup_candidates ds name)"
  shows "has_dir p ds \<and> p \<noteq> [] \<and> last p = name"
proof -
  from assms obtain d where d: "d \<in> set ds" "p \<in> set (find_dirs name [] d)" by (auto simp: cgroup_candidates_def)
  from find_dirs_sound [OF d(2)] obtain q where "p = cg_name d # q" "has_dir q (cg_dirs d)" "last (cg_name d # q) = name" by auto
  with d(1) show ?thesis by (auto simp: list_ex_iff)
qed

lemma candidate_below:
  assumes "has_dir (m # q @ [name]) ds" "m \<noteq> name"
  shows "\<exists>p \<in> set (cgroup_candidates ds name). \<exists>n r. p = m # n # r"
proof -
  from assms(1) obtain d where d: "d \<in> set ds" "cg_name d = m" "has_dir ((m # q) @ [name]) [d]"
    using has_dir_in [of m "q @ [name]" ds] by auto
  from find_dirs_complete [OF d(3)] obtain p where p: "p \<in> set (find_dirs name [] d)" by (metis last_in_set)
  from find_dirs_sound [OF p] d(2) assms(2) obtain n r where "p = m # n # r" by (metis append_Nil last.simps neq_Nil_conv)
  with p d(1) show ?thesis by (auto simp: cgroup_candidates_def)
qed

lemma candidate_exists:
  assumes "has_dir (q @ [name]) ds"
  shows "cgroup_candidates ds name \<noteq> []"
proof -
  obtain m r where q: "q @ [name] = m # r" by (cases q) auto
  with assms obtain d where "d \<in> set ds" "has_dir (q @ [name]) [d]" using has_dir_in [of m r ds] by auto
  with find_dirs_complete show ?thesis by (fastforce simp: cgroup_candidates_def)
qed

text \<open>
  The search for the control group of a service is exact: it finds nothing exactly when no directory below the
  root, however deep, has the name; what it finds is a directory of the tree with this name; and this is one
  below system.slice exactly when there is one.
\<close>

theorem cgroup_search:
  assumes "name \<noteq> ''system.slice''"
  shows "case find_cgroup_path (Some ds) name of
      None \<Rightarrow> (\<forall>q. \<not> has_dir (q @ [name]) ds)
    | Some p \<Rightarrow> has_dir p ds \<and> p \<noteq> [] \<and> last p = name \<and>
        in_system_slice p = (\<exists>q. has_dir (''system.slice'' # q @ [name]) ds)"
proof (cases "find_cgroup_path (Some ds) name")
  case None
  then have "cgroup_candidates ds name = []" by (auto simp: find_cgroup_path_def split: list.splits)
  with candidate_exists None show ?thesis by auto
next
  case (Some p)
  then have p: "p \<in> set (cgroup_candidates ds name)"
    and slice: "\<And>q. q \<in> set (cgroup_candidates ds name) \<Longrightarrow> in_system_slice q \<Longrightarrow> in_system_slice p"
    by (auto simp: find_cgroup_path_def filter_empty_conv dest!: filter_eq_ConsD split: list.splits)
  note sound = candidates_sound [OF p]
  have "in_system_slice p" if "has_dir (''system.slice'' # q @ [name]) ds" for q
  proof -
    from candidate_below [OF that] assms obtain r where "r \<in> set (cgroup_candidates ds name)" "\<exists>n s. r = ''system.slice'' # n # s"
      by auto
    then show ?thesis using slice by (auto simp: in_system_slice_def)
  qed
  moreover have "\<exists>q. has_dir (''system.slice'' # q @ [name]) ds" if "in_system_slice p"
  proof -
    from that obtain n r where "p = ''system.slice'' # n # r" by (auto simp: in_system_slice_def split: list.splits)
    with sound have "has_dir (''system.slice'' # butlast (n # r) @ [name]) ds" by (metis append_butlast_last_id last_ConsR list.distinct(1))
    then show ?thesis by blast
  qed
  ultimately show ?thesis using Some sound by auto
qed

theorem cgroup_search_witness:
  "find_cgroup_path (Some [CDir ''a'' [CDir ''b.service'' []], CDir ''system.slice'' [CDir ''b.service'' []]]) ''b.service'' =
     Some [''system.slice'', ''b.service''] \<and>
   in_system_slice [''system.slice'', ''b.service'']"
proof -
  have "find_cgroup_path (Some [CDir ''a'' [CDir ''b.service'' []], CDir ''system.slice'' [CDir ''b.service'' []]]) ''b.service'' =
     Some [''system.slice'', ''b.service'']" by code_simp
  with cgroup_search [of "''b.service''" "[CDir ''a'' [CDir ''b.service'' []], CDir ''system.slice'' [CDir ''b.service'' []]]"]
  show ?thesis by (auto simp: in_system_slice_def)
qed

section \<open>Tasks\<close>

lemma last_close_None: "last_close s = None \<longleftrightarrow> \<not> contains_str s '') ''"
  by (induction s rule: last_close.induct) (auto simp: sublist_Cons_right prefix_Cons split: option.splits)

lemma last_close_append:
  "last_close x = None \<Longrightarrow> last_close (p @ '') '' @ x) = Some (p, x)"
proof (induction p)
  case Nil
  have "last_close (CHR '' '' # x) = None" using Nil by (cases x) auto
  then show ?case by simp
next
  case (Cons a p)
  then obtain b q where "p @ '') '' @ x = b # q" by (cases p) auto
  with Cons show ?case by simp
qed

text \<open>
  The name of a task is read back whatever it holds, parentheses and blanks included: from a line of /proc that
  puts it between an opening and a closing parenthesis, with no parenthesis before and no closing one
  followed by a blank behind, exactly this name and the word behind it are taken.
\<close>

theorem task_stat_read_back:
  assumes "CHR ''('' \<notin> set pid" and "state \<noteq> []" and "CHR '' '' \<notin> set state"
    and "\<not> contains_str (state @ '' '' @ rest) '') ''"
  shows "parse_task_stat (pid @ ''('' @ comm @ '') '' @ state @ '' '' @ rest) = Some (comm, state)"
proof -
  have "last_close ((pid @ ''('' @ comm) @ '') '' @ (state @ '' '' @ rest)) = Some (pid @ ''('' @ comm, state @ '' '' @ rest)"
    using assms(4) by (intro last_close_append) (simp only: last_close_None not_False_eq_True)
  moreover have "cut_char (CHR ''('') (pid @ ''('' @ comm @ '') '' @ state @ '' '' @ rest) =
      Some (pid, comm @ '') '' @ state @ '' '' @ rest)"
    using assms(1) by (simp add: cut_char_Some_iff)
  moreover have "cut_char (CHR '' '') (state @ '' '' @ rest) = Some (state, rest)"
    using assms(3) by (simp add: cut_char_Some_iff)
  ultimately show ?thesis using assms(2) by (simp add: parse_task_stat_def)
qed

theorem task_stat_read_back_witness:
  "parse_task_stat (''7 '' @ ''('' @ ''a) D (b'' @ '') '' @ ''S'' @ '' '' @ ''1 2'') = Some (''a) D (b'', ''S'')"
  by (rule task_stat_read_back) code_simp+

end
