(* ===== verification/TopologyScreen.thy ===== *)
theory TopologyScreen
  imports GoInput GoPath GoMatch GoGroup GoTime "HOL-Library.Word" "HOL-Library.Product_Lexorder"
begin

unbundle bit_operations_syntax

text \<open>
  The screening of shard assignments (tools/topology-screen/main.go): saved access logs are replayed through the
  buckets of a hash, for several numbers of shards, and the requests and times are added up per bucket and
  per route.

  The hashes FNV-1, FNV-1a and CRC-32 are computed; SHA-256 is a parameter, as are regular expressions other than the
  default rules, the JSON decoder, what a text denotes as a number, and the sources of the logs. Counters are
  integers without a bound (the source counts in 64 bits), times rationals, infinities or not a number.
\<close>

section \<open>Hashes\<close>

type_synonym u32 = "32 word"

definition byte_word :: "char \<Rightarrow> u32" where
  "byte_word c = word_of_nat (of_char c)"

definition fnv_prime :: u32 where
  "fnv_prime = 16777619"

definition fnv_offset :: u32 where
  "fnv_offset = 2166136261"

definition fnv1a :: "string \<Rightarrow> u32" where
  "fnv1a s = fold (\<lambda>c h. (h XOR byte_word c) * fnv_prime) s fnv_offset"

definition fnv1 :: "string \<Rightarrow> u32" where
  "fnv1 s = fold (\<lambda>c h. (h * fnv_prime) XOR byte_word c) s fnv_offset"

text \<open>CRC-32 with the reversed IEEE polynomial, bit by bit.\<close>

definition crc_bit :: "u32 \<Rightarrow> u32" where
  "crc_bit c = (if c AND 1 = 1 then drop_bit 1 c XOR 0xEDB88320 else drop_bit 1 c)"

definition crc32 :: "string \<Rightarrow> u32" where
  "crc32 s = NOT (fold (\<lambda>b c. (crc_bit ^^ 8) (c XOR byte_word b)) s (NOT 0))"

definition hasher_for :: "(string \<Rightarrow> u32) \<Rightarrow> string \<Rightarrow> go_error + (string \<Rightarrow> u32)" where
  "hasher_for sha name =
     (let n = map lower_char (trim_space name) in
      if n = ''fnv1a'' then Inr fnv1a
      else if n = ''fnv1'' then Inr fnv1
      else if n = ''crc32'' then Inr crc32
      else if n = ''sha256'' then Inr sha
      else Inl (Errorf ''unsupported -hash'' [name] []))"

section \<open>Routes\<close>

text \<open>The default rules replace a segment that is a UUID, a hash of 32 hexadecimal digits, or a number. A match is
  the slash before the segment, the segment, and the slash behind it unless the path ends there; what follows
  the segment is kept.\<close>

definition is_hex :: "char \<Rightarrow> bool" where
  "is_hex c \<longleftrightarrow> is_digit c \<or> (CHR ''a'' \<le> c \<and> c \<le> CHR ''f'') \<or> (CHR ''A'' \<le> c \<and> c \<le> CHR ''F'')"

text \<open>A segment, up to the next slash.\<close>

definition segment_of :: "string \<Rightarrow> string" where
  "segment_of s = takeWhile (\<lambda>c. c \<noteq> CHR ''/'') s"

definition segment_len :: "(string \<Rightarrow> bool) \<Rightarrow> string \<Rightarrow> nat" where
  "segment_len P s =
     (case s of
        [] \<Rightarrow> 0
      | c # t \<Rightarrow>
          if c = CHR ''/'' \<and> P (segment_of t)
          then Suc (length (segment_of t)) + (if length (segment_of t) < length t then 1 else 0)
          else 0)"

definition rewrite_segments :: "(string \<Rightarrow> bool) \<Rightarrow> string \<Rightarrow> string \<Rightarrow> string" where
  "rewrite_segments P name =
     replace_matches (segment_len P)
       (\<lambda>x. CHR ''/'' # name @ (if 1 < length x \<and> last x = CHR ''/'' then ''/'' else []))"

definition all_digits :: "string \<Rightarrow> bool" where
  "all_digits s \<longleftrightarrow> s \<noteq> [] \<and> list_all is_digit s"

definition is_hash32 :: "string \<Rightarrow> bool" where
  "is_hash32 s \<longleftrightarrow> length s = 32 \<and> list_all is_hex s"

definition is_uuid :: "string \<Rightarrow> bool" where
  "is_uuid s \<longleftrightarrow>
     map length (split_char (CHR ''-'') s) = [8, 4, 4, 4, 12] \<and> list_all (\<lambda>c. is_hex c \<or> c = CHR ''-'') s"

type_synonym rewriter = "string \<Rightarrow> string"

definition default_rules :: "rewriter list" where
  "default_rules = [rewrite_segments is_uuid '':uuid'', rewrite_segments is_hash32 '':hash'', rewrite_segments all_digits '':id'']"

text \<open>A rule is applied until it changes nothing, ten times at most.\<close>

fun rewrite_fixed :: "nat \<Rightarrow> rewriter \<Rightarrow> string \<Rightarrow> string" where
  "rewrite_fixed 0 f path = path"
| "rewrite_fixed (Suc n) f path = (if f path = path then path else rewrite_fixed n f (f path))"

definition normalize_route :: "rewriter list \<Rightarrow> string \<Rightarrow> string" where
  "normalize_route rules uri = fold (rewrite_fixed 10) rules (hd (split_char (CHR ''?'') uri))"

fun cut_str :: "string \<Rightarrow> string \<Rightarrow> (string \<times> string) option" where
  "cut_str sep [] = None"
| "cut_str sep (c # s) =
     (if has_prefix (c # s) sep then Some ([], drop (length sep) (c # s))
      else map_option (\<lambda>(a, b). (c # a, b)) (cut_str sep s))"

section \<open>Options\<close>

text \<open>Regular expressions: whether one matches, the group that it extracts with the number of its groups, and
  the replacement of all its matches.\<close>

record regex_env =
  rx_match :: "string \<Rightarrow> go_error + (string \<Rightarrow> bool)"
  rx_group :: "string \<Rightarrow> go_error + nat \<times> (string \<Rightarrow> string option)"
  rx_rewrite :: "string \<Rightarrow> go_error + (string \<Rightarrow> rewriter)"

record field_names =
  fn_key :: string
  fn_method :: string
  fn_uri :: string
  fn_status :: string
  fn_response_time :: string
  fn_upstream_time :: string
  fn_body_bytes :: string

record screener =
  sc_fields :: field_names
  sc_key :: "string \<Rightarrow> string option"
  sc_exclude :: "(string \<Rightarrow> bool) option"
  sc_lower :: bool
  sc_strip_port :: bool
  sc_route :: "string \<Rightarrow> bool"
  sc_rules :: "rewriter list"
  sc_moduli :: "u32 list"
  sc_hash :: "string \<Rightarrow> u32"
  sc_shard :: "u32 list"

record screener_options =
  op_fields :: field_names
  op_key_pattern :: string
  op_key_exclude :: string
  op_key_lower :: bool
  op_strip_port :: bool
  op_route_pattern :: string
  op_rules :: "string list"
  op_moduli :: string
  op_hash_name :: string
  op_shard :: string

definition parse_u32 :: "string \<Rightarrow> u32 option" where
  "parse_u32 s = (case parse_digits s of None \<Rightarrow> None | Some n \<Rightarrow> if int n < 4294967296 then Some (word_of_nat n) else None)"

definition parse_rule :: "regex_env \<Rightarrow> string \<Rightarrow> go_error + rewriter" where
  "parse_rule R value =
     (case cut_str ''=>'' value of
        None \<Rightarrow> Inl (Errorf ''invalid -normalize'' [value] [])
      | Some (pattern, replacement) \<Rightarrow>
          (case rx_rewrite R pattern of
             Inl e \<Rightarrow> Inl (Errorf ''invalid -normalize pattern'' [pattern] [e])
           | Inr f \<Rightarrow> Inr (f replacement)))"

definition parse_rules :: "regex_env \<Rightarrow> string list \<Rightarrow> go_error + rewriter list" where
  "parse_rules R raw = (if raw = [] then Inr default_rules else map_res (parse_rule R) raw)"

definition parse_modulus :: "string \<Rightarrow> go_error + u32" where
  "parse_modulus value =
     (case parse_u32 (trim_space value) of
        None \<Rightarrow> Inl (Errorf ''invalid modulus'' [value] [])
      | Some n \<Rightarrow> if n < 2 then Inl (Errorf ''invalid modulus'' [value] []) else Inr n)"

definition parse_moduli :: "string \<Rightarrow> go_error + u32 list" where
  "parse_moduli raw =
     (case map_res parse_modulus (split_char (CHR '','') raw) of
        Inl e \<Rightarrow> Inl e
      | Inr ns \<Rightarrow> if ns = [] then Inl (Errorf ''at least one modulus is required'' [] []) else Inr (sort (remdups ns)))"

definition parse_bucket :: "string \<Rightarrow> go_error + u32" where
  "parse_bucket value =
     (case parse_u32 (trim_space value) of
        None \<Rightarrow> Inl (Errorf ''invalid -shard-buckets entry'' [value] []) | Some n \<Rightarrow> Inr n)"

text \<open>Every number of shards needs a bucket outside of the shard, and the shard buckets that exist.\<close>

definition check_modulus :: "u32 list \<Rightarrow> u32 \<Rightarrow> go_error option" where
  "check_modulus buckets m =
     (if unat m \<le> length buckets then Some (Errorf ''-shard-buckets leaves no primary placement'' [format_nat (unat m)] [])
      else first_error (\<lambda>b. if m \<le> b then Some (Errorf ''shard bucket does not exist'' [format_nat (unat b)] []) else None) buckets)"

definition parse_buckets :: "string \<Rightarrow> u32 list \<Rightarrow> go_error + u32 list" where
  "parse_buckets raw moduli =
     (case map_res parse_bucket (split_char (CHR '','') raw) of
        Inl e \<Rightarrow> Inl e
      | Inr ns \<Rightarrow>
          (let buckets = remdups ns in
           if buckets = [] then Inl (Errorf ''-shard-buckets requires at least one bucket'' [] [])
           else (case first_error (check_modulus buckets) moduli of Some e \<Rightarrow> Inl e | None \<Rightarrow> Inr buckets)))"

definition missing_field :: "field_names \<Rightarrow> go_error option" where
  "missing_field F =
     first_error (\<lambda>(name, value). if trim_space value = [] then Some (Errorf ''must name a log field'' [name] []) else None)
       [(''-key-field'', fn_key F), (''-field-method'', fn_method F), (''-field-uri'', fn_uri F), (''-field-status'', fn_status F)]"

text \<open>The regular expressions are compiled in order; then the other options are parsed.\<close>

definition compile_key :: "regex_env \<Rightarrow> string \<Rightarrow> go_error + (string \<Rightarrow> string option)" where
  "compile_key R pattern =
     (case rx_group R pattern of
        Inl e \<Rightarrow> Inl (Errorf ''invalid -key-regex'' [] [e])
      | Inr (n, f) \<Rightarrow>
          if n \<noteq> 1 then Inl (Errorf ''-key-regex must have exactly one capture group'' [format_nat n] []) else Inr f)"

definition compile_exclude :: "regex_env \<Rightarrow> string \<Rightarrow> go_error + (string \<Rightarrow> bool) option" where
  "compile_exclude R pattern =
     (if trim_space pattern = [] then Inr None
      else (case rx_match R pattern of Inl e \<Rightarrow> Inl (Errorf ''invalid -key-exclude'' [] [e]) | Inr f \<Rightarrow> Inr (Some f)))"

definition new_screener :: "regex_env \<Rightarrow> (string \<Rightarrow> u32) \<Rightarrow> screener_options \<Rightarrow> go_error + screener" where
  "new_screener R sha P =
     (case missing_field (op_fields P) of
        Some e \<Rightarrow> Inl e
      | None \<Rightarrow>
     (case compile_key R (op_key_pattern P) of
        Inl e \<Rightarrow> Inl e
      | Inr key \<Rightarrow>
     (case compile_exclude R (op_key_exclude P) of
        Inl e \<Rightarrow> Inl e
      | Inr exclude \<Rightarrow>
     (case rx_match R (op_route_pattern P) of
        Inl e \<Rightarrow> Inl (Errorf ''invalid -route-regex'' [] [e])
      | Inr route \<Rightarrow>
     (case parse_rules R (op_rules P) of
        Inl e \<Rightarrow> Inl e
      | Inr rules \<Rightarrow>
     (case parse_moduli (op_moduli P) of
        Inl e \<Rightarrow> Inl e
      | Inr moduli \<Rightarrow>
     (case hasher_for sha (op_hash_name P) of
        Inl e \<Rightarrow> Inl e
      | Inr h \<Rightarrow>
     (case parse_buckets (op_shard P) moduli of
        Inl e \<Rightarrow> Inl e
      | Inr shard \<Rightarrow>
          Inr \<lparr>sc_fields = op_fields P, sc_key = key, sc_exclude = exclude, sc_lower = op_key_lower P, sc_strip_port = op_strip_port P,
            sc_route = route, sc_rules = rules, sc_moduli = moduli, sc_hash = h, sc_shard = shard\<rparr>))))))))"

section \<open>Records\<close>

type_synonym log_record = "(string, string) gomap"

text \<open>A JSON object: its scalar members as texts.\<close>

definition scalar_field :: "json \<Rightarrow> string option" where
  "scalar_field v =
     (case v of
        JNull \<Rightarrow> Some [] | JStr s \<Rightarrow> Some s | JNum s \<Rightarrow> Some s | JBool b \<Rightarrow> Some (if b then ''true'' else ''false'') | _ \<Rightarrow> None)"

definition parse_json_line :: "(string \<Rightarrow> go_error + (string, json) gomap) \<Rightarrow> string \<Rightarrow> go_error + log_record" where
  "parse_json_line decode line =
     (case decode line of
        Inl e \<Rightarrow> Inl e
      | Inr raw \<Rightarrow> Inr (List.map_filter (\<lambda>(name, v). map_option (Pair name) (scalar_field v)) raw))"

definition ltsv_column :: "string \<Rightarrow> log_record \<Rightarrow> go_error + log_record" where
  "ltsv_column column r =
     (if column = [] then Inr r
      else
        (case cut_char (CHR '':'') column of
           None \<Rightarrow> Inl (Errorf ''LTSV column has no label separator'' [column] [])
         | Some (name, value) \<Rightarrow> Inr (AList.update name value r)))"

definition parse_ltsv_line :: "string \<Rightarrow> go_error + log_record" where
  "parse_ltsv_line line =
     (case fold_res ltsv_column (split_char (CHR 0x09) line) [] of
        Inl e \<Rightarrow> Inl e
      | Inr r \<Rightarrow> if r = [] then Inl (Errorf ''no labeled columns'' [] []) else Inr r)"

type_synonym line_parser = "string \<Rightarrow> go_error + log_record"

definition line_parser_for :: "(string \<Rightarrow> go_error + (string, json) gomap) \<Rightarrow> string \<Rightarrow> go_error + line_parser" where
  "line_parser_for decode format =
     (let f = map lower_char (trim_space format) in
      if f = ''json'' then Inr (parse_json_line decode)
      else if f = ''ltsv'' then Inr parse_ltsv_line
      else Inl (Errorf ''unsupported -format'' [format] []))"

definition required_field :: "log_record \<Rightarrow> string \<Rightarrow> go_error + string" where
  "required_field r name = (case map_of r name of None \<Rightarrow> Inl (Errorf ''field is missing'' [name] []) | Some v \<Rightarrow> Inr v)"

definition status_class :: "string \<Rightarrow> go_error + string" where
  "status_class raw =
     (case parse_int64 (trim_space raw) of
        None \<Rightarrow> Inl (Errorf ''invalid HTTP status'' [raw] [])
      | Some n \<Rightarrow>
          if n < 100 \<or> 999 < n then Inl (Errorf ''invalid HTTP status'' [raw] [])
          else Inr (format_int (n div 100) @ ''xx''))"

text \<open>The durations of a list are added up; each one has to be a number that is not less than 0.\<close>

definition duration_token :: "float_parser \<Rightarrow> string \<Rightarrow> fval \<Rightarrow> go_error + fval" where
  "duration_token pf token acc =
     (if token = ''-'' then Inr acc
      else
        (case pf token of
           None \<Rightarrow> Inl (Errorf ''invalid duration'' [token] [])
         | Some x \<Rightarrow>
             if (case x of Fin a \<Rightarrow> a < 0 | Infinite p \<Rightarrow> \<not> p | Nan \<Rightarrow> False) then Inl (Errorf ''invalid duration'' [token] [])
             else Inr (fadd acc x)))"

definition parse_duration :: "float_parser \<Rightarrow> string \<Rightarrow> go_error + fval" where
  "parse_duration pf raw =
     (let r = trim_space raw in
      if r = [] \<or> r = ''-'' then Inr (Fin 0)
      else fold_res (duration_token pf) (filter (\<lambda>t. t \<noteq> []) (split_by (\<lambda>c. c \<in> {CHR '','', CHR '':'', CHR '' ''}) r)) (Fin 0))"

definition optional_duration :: "float_parser \<Rightarrow> log_record \<Rightarrow> string \<Rightarrow> go_error + fval" where
  "optional_duration pf r name =
     (if trim_space name = [] then Inr (Fin 0)
      else (case required_field r name of Inl e \<Rightarrow> Inl e | Inr raw \<Rightarrow> parse_duration pf raw))"

definition optional_bytes :: "log_record \<Rightarrow> string \<Rightarrow> go_error + int" where
  "optional_bytes r name =
     (if trim_space name = [] then Inr 0
      else
        (case required_field r name of
           Inl e \<Rightarrow> Inl e
         | Inr value \<Rightarrow>
             (let raw = trim_space value in
              if raw = [] \<or> raw = ''-'' then Inr 0
              else
                (case parse_int64 raw of
                   None \<Rightarrow> Inl (Errorf ''invalid byte count'' [raw] [])
                 | Some n \<Rightarrow> if n < 0 then Inl (Errorf ''invalid byte count'' [raw] []) else Inr n))))"

section \<open>Keys\<close>

definition strip_port :: "string \<Rightarrow> string" where
  "strip_port key = (case cut_char (CHR '':'') key of Some (host, port) \<Rightarrow> if all_digits port then host else key | None \<Rightarrow> key)"

definition shard_key :: "screener \<Rightarrow> string \<Rightarrow> string option" where
  "shard_key S raw =
     (let k1 = trim_space raw; k2 = (if sc_strip_port S then strip_port k1 else k1); k3 = (if sc_lower S then map lower_char k2 else k2) in
      case sc_key S k3 of
        None \<Rightarrow> None
      | Some m \<Rightarrow>
          if m = [] then None
          else (case sc_exclude S of Some f \<Rightarrow> if f m then None else Some m | None \<Rightarrow> Some m))"

section \<open>Observing\<close>

record load =
  ld_requests :: nat
  ld_response :: fval
  ld_upstream :: fval
  ld_bytes :: int

definition no_load :: load where
  "no_load = \<lparr>ld_requests = 0, ld_response = Fin 0, ld_upstream = Fin 0, ld_bytes = 0\<rparr>"

definition add_load :: "load \<Rightarrow> load \<Rightarrow> load" where
  "add_load v t =
     \<lparr>ld_requests = ld_requests t + ld_requests v, ld_response = fadd (ld_response t) (ld_response v),
      ld_upstream = fadd (ld_upstream t) (ld_upstream v), ld_bytes = ld_bytes t + ld_bytes v\<rparr>"

record load_key =
  lk_modulus :: u32
  lk_method :: string
  lk_route :: string
  lk_class :: string
  lk_bucket :: u32

definition placement_key :: "u32 \<Rightarrow> u32 \<Rightarrow> load_key" where
  "placement_key m b = \<lparr>lk_modulus = m, lk_method = ''ALL'', lk_route = ''ALL'', lk_class = ''all'', lk_bucket = b\<rparr>"

text \<open>What is taken from a record: the key of its shard, its method, route and class, and its load.\<close>

record log_request =
  rq_key :: string
  rq_method :: string
  rq_route :: string
  rq_class :: string
  rq_load :: load

datatype observation = SkippedRoute | SkippedKey | Matched log_request

definition in_request :: "string \<Rightarrow> string \<Rightarrow> string \<Rightarrow> go_error \<Rightarrow> go_error" where
  "in_request method uri what e = Errorf what [method, uri] [e]"

definition request_load :: "screener \<Rightarrow> float_parser \<Rightarrow> log_record \<Rightarrow> string \<Rightarrow> string \<Rightarrow> go_error + load" where
  "request_load S pf r method uri =
     (case optional_duration pf r (fn_response_time (sc_fields S)) of
        Inl e \<Rightarrow> Inl (in_request method uri ''response time'' e)
      | Inr response \<Rightarrow>
     (case optional_duration pf r (fn_upstream_time (sc_fields S)) of
        Inl e \<Rightarrow> Inl (in_request method uri ''upstream time'' e)
      | Inr upstream \<Rightarrow>
     (case optional_bytes r (fn_body_bytes (sc_fields S)) of
        Inl e \<Rightarrow> Inl (in_request method uri ''body bytes'' e)
      | Inr bytes \<Rightarrow> Inr \<lparr>ld_requests = 1, ld_response = response, ld_upstream = upstream, ld_bytes = bytes\<rparr>)))"

definition read_request :: "screener \<Rightarrow> float_parser \<Rightarrow> log_record \<Rightarrow> string \<Rightarrow> string \<Rightarrow> go_error + observation" where
  "read_request S pf r uri key =
     (case required_field r (fn_method (sc_fields S)) of
        Inl e \<Rightarrow> Inl e
      | Inr raw_method \<Rightarrow>
          (let method = map upper_char (trim_space raw_method) in
           if method = [] then Inl (Errorf ''record has an empty method'' [uri] [])
           else
             (case required_field r (fn_status (sc_fields S)) of
                Inl e \<Rightarrow> Inl e
              | Inr raw_status \<Rightarrow>
                  (case status_class raw_status of
                     Inl e \<Rightarrow> Inl (in_request method uri [] e)
                   | Inr class \<Rightarrow>
                       (case request_load S pf r method uri of
                          Inl e \<Rightarrow> Inl e
                        | Inr v \<Rightarrow>
                            Inr (Matched \<lparr>rq_key = key, rq_method = method, rq_route = normalize_route (sc_rules S) uri,
                              rq_class = class, rq_load = v\<rparr>))))))"

definition observe_record :: "screener \<Rightarrow> float_parser \<Rightarrow> log_record \<Rightarrow> go_error + observation" where
  "observe_record S pf r =
     (case required_field r (fn_uri (sc_fields S)) of
        Inl e \<Rightarrow> Inl e
      | Inr uri \<Rightarrow>
          if \<not> sc_route S uri then Inr SkippedRoute
          else
            (case required_field r (fn_key (sc_fields S)) of
               Inl e \<Rightarrow> Inl e
             | Inr raw_key \<Rightarrow> (case shard_key S raw_key of None \<Rightarrow> Inr SkippedKey | Some key \<Rightarrow> read_request S pf r uri key)))"

record screening =
  sg_loads :: "(load_key, load) gomap"
  sg_totals :: "(u32, load) gomap"
  sg_keys :: "(load_key, string list) gomap"
  sg_files :: nat
  sg_lines :: nat
  sg_matched :: nat
  sg_skipped_route :: nat
  sg_skipped_key :: nat
  sg_all_keys :: "string list"

definition new_screening :: screening where
  "new_screening =
     \<lparr>sg_loads = [], sg_totals = [], sg_keys = [], sg_files = 0, sg_lines = 0, sg_matched = 0, sg_skipped_route = 0,
      sg_skipped_key = 0, sg_all_keys = []\<rparr>"

definition insert_key :: "string \<Rightarrow> string list \<Rightarrow> string list" where
  "insert_key k ks = (if k \<in> set ks then ks else k # ks)"

definition bucket_of :: "screener \<Rightarrow> string \<Rightarrow> u32 \<Rightarrow> u32" where
  "bucket_of S key m = sc_hash S key mod m"

definition detail_key :: "log_request \<Rightarrow> u32 \<Rightarrow> u32 \<Rightarrow> load_key" where
  "detail_key q m b =
     \<lparr>lk_modulus = m, lk_method = rq_method q, lk_route = rq_route q, lk_class = rq_class q, lk_bucket = b\<rparr>"

text \<open>A request counts once in its placement and once in its detail, for every number of shards.\<close>

definition place_request :: "screener \<Rightarrow> log_request \<Rightarrow> u32 \<Rightarrow> screening \<Rightarrow> screening" where
  "place_request S q m g =
     (let b = bucket_of S (rq_key q) m in
      g\<lparr>sg_loads := put_group add_load no_load (detail_key q m b, rq_load q)
           (put_group add_load no_load (placement_key m b, rq_load q) (sg_loads g)),
        sg_keys := put_group insert_key [] (placement_key m b, rq_key q) (sg_keys g),
        sg_totals := put_group add_load no_load (m, rq_load q) (sg_totals g)\<rparr>)"

definition count_observation :: "screener \<Rightarrow> observation \<Rightarrow> screening \<Rightarrow> screening" where
  "count_observation S ob g =
     (case ob of
        SkippedRoute \<Rightarrow> g\<lparr>sg_skipped_route := Suc (sg_skipped_route g)\<rparr>
      | SkippedKey \<Rightarrow> g\<lparr>sg_skipped_key := Suc (sg_skipped_key g)\<rparr>
      | Matched q \<Rightarrow>
          fold (place_request S q) (sc_moduli S)
            (g\<lparr>sg_matched := Suc (sg_matched g), sg_all_keys := insert_key (rq_key q) (sg_all_keys g)\<rparr>))"

section \<open>Reading the logs\<close>

record screen_env =
  sv_float :: float_parser
  sv_file :: opener
  sv_zstd :: opener
  sv_gzip :: opener
  sv_files :: "(string, unit) gomap"
  sv_json :: "string \<Rightarrow> go_error + (string, json) gomap"
  sv_regex :: regex_env
  sv_sha :: "string \<Rightarrow> u32"
  sv_sink :: "nat \<Rightarrow> go_error option"

definition screen_limit :: int where
  "screen_limit = 4 * 1024 * 1024"

definition screen_line :: "screener \<Rightarrow> float_parser \<Rightarrow> line_parser \<Rightarrow> string \<Rightarrow> screening \<Rightarrow> go_error + screening" where
  "screen_line S pf parse raw g =
     (let line = trim_space raw; g1 = g\<lparr>sg_lines := Suc (sg_lines g)\<rparr>;
          failed = (\<lambda>e. Errorf ''line'' [format_nat (sg_lines g1)] [e]) in
      if line = [] then Inr g
      else
        (case parse line of
           Inl e \<Rightarrow> Inl (failed e)
         | Inr r \<Rightarrow> (case observe_record S pf r of Inl e \<Rightarrow> Inl (failed e) | Inr ob \<Rightarrow> Inr (count_observation S ob g1))))"

definition open_log :: "screen_env \<Rightarrow> string \<Rightarrow> go_error + stream" where
  "open_log E path =
     (let ext = map lower_char (path_ext path) in
      if ext = ''.zst'' \<or> ext = ''.zstd'' then sv_zstd E path
      else if ext = ''.gz'' then sv_gzip E path
      else sv_file E path)"

definition scan_log :: "screen_env \<Rightarrow> screener \<Rightarrow> line_parser \<Rightarrow> string \<Rightarrow> screening \<Rightarrow> go_error + screening" where
  "scan_log E S parse path g =
     (case open_log E path of
        Inl e \<Rightarrow> Inl e
      | Inr src \<Rightarrow>
          (case scan_fold screen_limit (screen_line S (sv_float E) parse) src g of
             Inl e \<Rightarrow> Inl (Errorf path [] [e])
           | Inr g1 \<Rightarrow> (case in_close_err src of Some e \<Rightarrow> Inl (Errorf path [] [e]) | None \<Rightarrow> Inr (g1\<lparr>sg_files := Suc (sg_files g1)\<rparr>))))"

section \<open>The table\<close>

definition table_header :: string where
  "table_header =
     join_with [CHR 0x09] [''modulus'', ''method'', ''route'', ''status_class'', ''bucket'', ''placement'', ''requests'', ''request_fraction'',
       ''response_time_s'', ''response_fraction'', ''upstream_time_s'', ''body_bytes'', ''distinct_keys'']"

definition load_order :: "load_key \<Rightarrow> u32 \<times> string \<times> string \<times> string \<times> u32" where
  "load_order k = (lk_modulus k, lk_route k, lk_method k, lk_class k, lk_bucket k)"

definition request_fraction :: "load \<Rightarrow> load \<Rightarrow> rat" where
  "request_fraction v t = (if 0 < ld_requests t then of_nat (ld_requests v) / of_nat (ld_requests t) else 0)"

definition response_fraction :: "load \<Rightarrow> load \<Rightarrow> fval" where
  "response_fraction v t = (if fpositive (ld_response t) then fdiv (ld_response v) (ld_response t) else Fin 0)"

definition table_row :: "screener \<Rightarrow> screening \<Rightarrow> load_key \<Rightarrow> string list" where
  "table_row S g k =
     (let v = lookup_or no_load (sg_loads g) k; t = lookup_or no_load (sg_totals g) (lk_modulus k) in
      [format_nat (unat (lk_modulus k)), lk_method k, lk_route k, lk_class k, format_nat (unat (lk_bucket k)),
       if lk_bucket k \<in> set (sc_shard S) then ''shard'' else ''primary'',
       format_nat (ld_requests v), format_decimals 9 (request_fraction v t), format_fixed 6 (ld_response v),
       format_fixed 9 (response_fraction v t), format_fixed 6 (ld_upstream v), format_int (ld_bytes v),
       case map_of (sg_keys g) k of None \<Rightarrow> ''-'' | Some ks \<Rightarrow> format_nat (length ks)])"

definition table_rows :: "screener \<Rightarrow> screening \<Rightarrow> string list" where
  "table_rows S g = map (\<lambda>k. join_with [CHR 0x09] (table_row S g k)) (sort_key load_order (keys (sg_loads g)))"

text \<open>The lines that were written, and the error of the output.\<close>

definition write_table :: "screen_env \<Rightarrow> screener \<Rightarrow> screening \<Rightarrow> go_error option \<times> string list" where
  "write_table E S g =
     (let ls = table_header # table_rows S g in
      case first_error (sv_sink E) [0..<length ls] of
        None \<Rightarrow> (None, ls)
      | Some e \<Rightarrow> (Some e, take (length (takeWhile (\<lambda>n. sv_sink E n = None) [0..<length ls])) ls))"

definition summary_line :: "screener \<Rightarrow> string \<Rightarrow> screening \<Rightarrow> string list" where
  "summary_line S hash_name g =
     [format_nat (sg_files g), format_nat (sg_lines g), format_nat (sg_matched g), format_nat (sg_skipped_route g),
      format_nat (sg_skipped_key g), format_nat (length (sg_all_keys g)), hash_name,
      join_with '','' (sort (map (\<lambda>b. format_nat (unat b)) (sc_shard S)))]"

section \<open>The command\<close>

record screen_flags =
  sf_run_dir :: string
  sf_input_glob :: string
  sf_inputs :: string
  sf_format :: string
  sf_quiet :: bool
  sf_options :: screener_options

definition input_patterns :: "string \<Rightarrow> string \<Rightarrow> string \<Rightarrow> go_error + string list" where
  "input_patterns run_dir input_glob inputs =
     (if trim_space inputs \<noteq> [] then Inr (filter (\<lambda>p. p \<noteq> []) (map trim_space (split_char (CHR '','') inputs)))
      else if trim_space run_dir \<noteq> [] then Inr [path_join [run_dir, input_glob]]
      else Inl (Errorf ''-run-dir or -input is required'' [] []))"

definition resolve_inputs :: "screen_env \<Rightarrow> string \<Rightarrow> string \<Rightarrow> string \<Rightarrow> go_error + string list" where
  "resolve_inputs E run_dir input_glob inputs =
     (case input_patterns run_dir input_glob inputs of
        Inl e \<Rightarrow> Inl e
      | Inr ps \<Rightarrow>
          (case map_res (\<lambda>p. case glob_result p (sv_files E) of Inl e \<Rightarrow> Inl (Errorf ''invalid input pattern'' [p] [e]) | Inr fs \<Rightarrow> Inr fs) ps of
             Inl e \<Rightarrow> Inl e
           | Inr fss \<Rightarrow>
               (let paths = remdups (concat fss) in
                if paths = [] then Inl (Errorf ''no access logs matched'' ps []) else Inr (sort paths))))"

definition screen_logs :: "screen_env \<Rightarrow> screener \<Rightarrow> line_parser \<Rightarrow> string list \<Rightarrow> go_error + screening" where
  "screen_logs E S parse paths = fold_res (scan_log E S parse) paths new_screening"

text \<open>The error, the summary and the lines of the table.\<close>

definition run_screen :: "screen_env \<Rightarrow> screen_flags \<Rightarrow> go_error option \<times> string list \<times> string list" where
  "run_screen E F =
     (case resolve_inputs E (sf_run_dir F) (sf_input_glob F) (sf_inputs F) of
        Inl e \<Rightarrow> (Some e, [], [])
      | Inr paths \<Rightarrow>
     (case line_parser_for (sv_json E) (sf_format F) of
        Inl e \<Rightarrow> (Some e, [], [])
      | Inr parse \<Rightarrow>
     (case new_screener (sv_regex E) (sv_sha E) (sf_options F) of
        Inl e \<Rightarrow> (Some e, [], [])
      | Inr S \<Rightarrow>
     (case screen_logs E S parse paths of
        Inl e \<Rightarrow> (Some e, [], [])
      | Inr g \<Rightarrow>
          if sg_matched g = 0 then (Some (Errorf ''no records matched'' [format_nat (length paths)] []), [], [])
          else
            (case write_table E S g of
               (err, ls) \<Rightarrow> (err, if sf_quiet F then [] else summary_line S (op_hash_name (sf_options F)) g, ls))))))"

end
