(* ===== verification/TopologyScreenProperties.thy ===== *)
theory TopologyScreenProperties
  imports TopologyScreen
begin

text \<open>
  What the screening of shard assignments promises: the requests of a run are counted once for every number of
  shards, over the buckets and over the routes; the options leave both placements with a bucket; the default rules
  bring a route to a normal form, well within the bound of ten passes; and the hashes are the standard ones.
\<close>

section \<open>Routes\<close>

text \<open>One pass of a default rule on the segments after the first slash: a segment behind a rewritten one is
  skipped, since its slash is taken.\<close>

fun rewrite_list :: "(string \<Rightarrow> bool) \<Rightarrow> string \<Rightarrow> string list \<Rightarrow> string list" where
  "rewrite_list P name [] = []"
| "rewrite_list P name [t] = [if P t then name else t]"
| "rewrite_list P name (t # u # us) = (if P t then name # u # rewrite_list P name us else t # rewrite_list P name (u # us))"

lemma rewrite_list_skip [simp]: "\<not> P t \<Longrightarrow> rewrite_list P name (t # ts) = t # rewrite_list P name ts"
  by (cases ts) auto

lemma rewrite_list_Nil [simp]: "rewrite_list P name ts = [] \<longleftrightarrow> ts = []"
  by (induction P name ts rule: rewrite_list.induct) auto

lemma rewrite_list_set: "set (rewrite_list P name ts) \<subseteq> insert name (set ts)"
  by (induction P name ts rule: rewrite_list.induct) auto

lemma rewrite_list_id: "(\<And>t. t \<in> set ts \<Longrightarrow> \<not> P t) \<Longrightarrow> rewrite_list P name ts = ts"
  by (induction P name ts rule: rewrite_list.induct) auto

lemma rewrite_list_hd: "\<not> P name \<Longrightarrow> rewrite_list P name ts = v # vs \<Longrightarrow> \<not> P v"
  by (induction P name ts rule: rewrite_list.induct) (auto split: if_splits)

text \<open>The second pass rewrites what the first one skipped.\<close>

lemma rewrite_list_twice:
  assumes "\<not> P name" and "t \<in> set (rewrite_list P name (rewrite_list P name ts))"
  shows "\<not> P t"
  using assms
proof (induction P name ts rule: rewrite_list.induct)
  case (3 P name s u us)
  consider "\<not> P s" | "P s" "\<not> P u" | "P s" "P u" by blast
  then show ?case
  proof cases
    case 1
    with 3 show ?thesis by auto
  next
    case 2
    with 3 show ?thesis by auto
  next
    case p: 3
    show ?thesis
    proof (cases "rewrite_list P name us")
      case Nil
      with p 3 show ?thesis by simp
    next
      case (Cons v vs)
      have "\<not> P v" using "3.prems"(1) Cons by (rule rewrite_list_hd)
      then have "set (rewrite_list P name (rewrite_list P name (s # u # us))) \<subseteq>
          insert name (set (rewrite_list P name (rewrite_list P name us)))"
        using p "3.prems"(1) by (auto simp: Cons)
      with "3.prems" "3.IH"(1) [OF p(1)] show ?thesis by blast
    qed
  qed
qed (auto split: if_splits)

text \<open>What a rule does to a path is what it does to its segments.\<close>

lemma replace_no_slash:
  "CHR ''/'' \<notin> set s \<Longrightarrow> replace_matches (segment_len P) f (s @ r) = s @ replace_matches (segment_len P) f r"
  by (induction s) (auto simp: segment_len_def)

lemma segment_of_append: "CHR ''/'' \<notin> set t \<Longrightarrow> segment_of (t @ r) = t @ segment_of r"
  by (auto simp: segment_of_def takeWhile_append)

lemma segment_of_self: "CHR ''/'' \<notin> set t \<Longrightarrow> segment_of t = t"
  using segment_of_append [of t "[]"] by (simp add: segment_of_def)

lemma segment_of_slash [simp]: "segment_of (CHR ''/'' # r) = []" "segment_of [] = []"
  by (simp_all add: segment_of_def)

abbreviation slashed :: "string list \<Rightarrow> string" where
  "slashed \<equiv> join_with ''/''"

lemma replace_segment:
  assumes "CHR ''/'' \<notin> set t" and "r = [] \<or> hd r = CHR ''/''" and "P t" and "t \<noteq> []"
  shows "rewrite_segments P name (CHR ''/'' # t @ r) = CHR ''/'' # name @ (if r = [] then [] else CHR ''/'' # rewrite_segments P name (tl r))"
proof (cases r)
  case Nil
  have "last t \<noteq> CHR ''/''" using assms(1,4) last_in_set by metis
  with Nil assms show ?thesis by (simp add: rewrite_segments_def segment_len_def segment_of_self)
next
  case (Cons c r')
  then have c: "c = CHR ''/''" using assms(2) by simp
  have "segment_len P (CHR ''/'' # t @ r) = Suc (Suc (length t))"
    using assms(1,3) by (simp add: segment_len_def segment_of_append Cons c)
  then show ?thesis using assms(4) by (simp add: rewrite_segments_def Cons c)
qed

lemma replace_other:
  assumes "CHR ''/'' \<notin> set t" and "r = [] \<or> hd r = CHR ''/''" and "\<not> P t"
  shows "rewrite_segments P name (CHR ''/'' # t @ r) = CHR ''/'' # rewrite_segments P name (t @ r)"
proof -
  have "segment_of (t @ r) = t" using assms(1,2) by (cases r) (simp_all add: segment_of_append segment_of_self)
  with assms(3) show ?thesis by (simp add: rewrite_segments_def segment_len_def)
qed

lemma slashed_rest: "slashed (t # ts) = t @ (if ts = [] then [] else CHR ''/'' # slashed ts)"
  by (cases ts) simp_all

lemma rewrite_no_slash:
  "CHR ''/'' \<notin> set s \<Longrightarrow> rewrite_segments P name (s @ r) = s @ rewrite_segments P name r"
  by (simp add: rewrite_segments_def replace_no_slash)

lemma rewrite_empty [simp]: "rewrite_segments P name [] = []"
  by (simp add: rewrite_segments_def)

lemma rewrite_slashed:
  assumes "\<not> P []" and "\<And>t. t \<in> set (s # ts) \<Longrightarrow> CHR ''/'' \<notin> set t"
  shows "rewrite_segments P name (slashed (s # ts)) = slashed (s # rewrite_list P name ts)"
  using assms
proof (induction P name ts arbitrary: s rule: rewrite_list.induct)
  case (1 P name)
  then show ?case using rewrite_no_slash [of s P name "[]"] by simp
next
  case (2 P name t)
  then have n: "CHR ''/'' \<notin> set s" "CHR ''/'' \<notin> set t" by auto
  show ?case
  proof (cases "P t")
    case True
    then have "t \<noteq> []" using 2 by auto
    with True n replace_segment [of t "[]" P name] show ?thesis by (simp add: rewrite_no_slash)
  next
    case False
    with n replace_other [of t "[]" P name] rewrite_no_slash [of t P name "[]"] show ?thesis by (simp add: rewrite_no_slash)
  qed
next
  case (3 P name t u us)
  then have n: "CHR ''/'' \<notin> set s" "CHR ''/'' \<notin> set t" "\<And>x. x \<in> set (u # us) \<Longrightarrow> CHR ''/'' \<notin> set x" by auto
  let ?r = "CHR ''/'' # slashed (u # us)"
  have e: "slashed (s # t # u # us) = s @ CHR ''/'' # t @ ?r" by simp
  show ?case
  proof (cases "P t")
    case True
    then have "t \<noteq> []" using 3 by auto
    then have "rewrite_segments P name (CHR ''/'' # t @ ?r) = CHR ''/'' # name @ CHR ''/'' # rewrite_segments P name (slashed (u # us))"
      using True n(2) replace_segment [of t ?r P name] by simp
    with True 3 n show ?thesis unfolding e by (simp add: rewrite_no_slash)
  next
    case False
    then have "rewrite_segments P name (CHR ''/'' # t @ ?r) = CHR ''/'' # rewrite_segments P name (slashed (t # u # us))"
      using n(2) replace_other [of t ?r P name] by simp
    moreover have "rewrite_segments P name (slashed (t # u # us)) = slashed (t # rewrite_list P name (u # us))"
      by (rule "3.IH"(2)) (use False 3 in auto)
    ultimately show ?thesis using n(1) False unfolding e by (simp add: rewrite_no_slash join_with_Cons)
  qed
qed

definition unslashed :: "string list \<Rightarrow> bool" where
  "unslashed ts \<longleftrightarrow> (\<forall>t \<in> set ts. CHR ''/'' \<notin> set t)"

lemma unslashed_Cons [simp]: "unslashed (t # ts) \<longleftrightarrow> CHR ''/'' \<notin> set t \<and> unslashed ts"
  by (simp add: unslashed_def)

lemma unslashed_within: "unslashed us \<Longrightarrow> set ts \<subseteq> insert name (set us) \<Longrightarrow> CHR ''/'' \<notin> set name \<Longrightarrow> unslashed ts"
  by (auto simp: unslashed_def)

lemma rewrite_unslashed:
  "\<not> P [] \<Longrightarrow> unslashed (s # ts) \<Longrightarrow> rewrite_segments P name (slashed (s # ts)) = slashed (s # rewrite_list P name ts)"
  by (rule rewrite_slashed) (auto simp: unslashed_def)

text \<open>Two passes are enough: the loop ends with a text that the rule leaves as it is.\<close>

lemma rewrite_fixed_twice: "f (f (f p)) = f (f p) \<Longrightarrow> rewrite_fixed (Suc (Suc n)) f p = f (f p)"
  by (cases n) auto

lemma rewrite_fixed_slashed:
  assumes "\<not> P []" and "\<not> P name" and "CHR ''/'' \<notin> set name" and "unslashed (s # ts)"
  shows "rewrite_fixed (Suc (Suc n)) (rewrite_segments P name) (slashed (s # ts)) =
    slashed (s # rewrite_list P name (rewrite_list P name ts))"
proof -
  define us where "us = rewrite_list P name ts"
  define vs where "vs = rewrite_list P name us"
  have u: "unslashed (s # us)"
    using assms(3,4) unslashed_within [OF _ rewrite_list_set, of ts name P] by (simp add: us_def)
  have v: "unslashed (s # vs)"
    using assms(3) u unslashed_within [OF _ rewrite_list_set, of us name P] by (simp add: vs_def)
  have "rewrite_list P name vs = vs"
    by (rule rewrite_list_id, unfold vs_def us_def, rule rewrite_list_twice [of P name], rule assms(2))
  then show ?thesis
    using rewrite_unslashed [of P s ts name] rewrite_unslashed [of P s us name] rewrite_unslashed [of P s vs name] assms u v
    by (subst rewrite_fixed_twice) (simp_all only: simp_thms us_def [symmetric] vs_def [symmetric])
qed

text \<open>Two passes over the segments, for a rule with its name.\<close>

definition rewrite_twice :: "(string \<Rightarrow> bool) \<Rightarrow> string \<Rightarrow> string list \<Rightarrow> string list" where
  "rewrite_twice P name ts = rewrite_list P name (rewrite_list P name ts)"

lemma rewrite_twice_set: "set (rewrite_twice P name ts) \<subseteq> insert name (set ts)"
  using rewrite_list_set [of P name ts] rewrite_list_set [of P name "rewrite_list P name ts"] by (auto simp: rewrite_twice_def)

lemma rewrite_twice_none: "\<not> P name \<Longrightarrow> t \<in> set (rewrite_twice P name ts) \<Longrightarrow> \<not> P t"
  unfolding rewrite_twice_def by (rule rewrite_list_twice)

lemma rewrite_twice_id: "(\<And>t. t \<in> set ts \<Longrightarrow> \<not> P t) \<Longrightarrow> rewrite_twice P name ts = ts"
  by (simp add: rewrite_twice_def rewrite_list_id)

definition rewrite_all :: "string list \<Rightarrow> string list" where
  "rewrite_all ts = rewrite_twice all_digits '':id'' (rewrite_twice is_hash32 '':hash'' (rewrite_twice is_uuid '':uuid'' ts))"

definition plain_segment :: "string \<Rightarrow> bool" where
  "plain_segment t \<longleftrightarrow> \<not> is_uuid t \<and> \<not> is_hash32 t \<and> \<not> all_digits t"

lemma names_plain: "plain_segment '':uuid''" "plain_segment '':hash''" "plain_segment '':id''" "plain_segment []"
  by code_simp+

lemma rewrite_all_plain: "t \<in> set (rewrite_all ts) \<Longrightarrow> plain_segment t"
proof -
  assume t: "t \<in> set (rewrite_all ts)"
  let ?a = "rewrite_twice is_uuid '':uuid'' ts"
  let ?b = "rewrite_twice is_hash32 '':hash'' ?a"
  have n: "plain_segment '':uuid''" "plain_segment '':hash''" "plain_segment '':id''" by (fact names_plain)+
  have a: "\<And>t. t \<in> set ?a \<Longrightarrow> \<not> is_uuid t" using rewrite_twice_none [of is_uuid] n by (auto simp: plain_segment_def)
  have b: "\<And>t. t \<in> set ?b \<Longrightarrow> \<not> is_uuid t \<and> \<not> is_hash32 t"
    using a rewrite_twice_set [of is_hash32 _ ?a] rewrite_twice_none [of is_hash32 _ _ ?a] n by (auto simp: plain_segment_def)
  show ?thesis
    using t b rewrite_twice_set [of all_digits _ ?b] rewrite_twice_none [of all_digits _ _ ?b] n
    by (auto simp: plain_segment_def rewrite_all_def)
qed

lemma rewrite_all_id: "(\<And>t. t \<in> set ts \<Longrightarrow> plain_segment t) \<Longrightarrow> rewrite_all ts = ts"
  by (simp add: rewrite_all_def rewrite_twice_id plain_segment_def)

lemma rewrite_all_set: "set (rewrite_all ts) \<subseteq> {'':uuid'', '':hash'', '':id''} \<union> set ts"
  unfolding rewrite_all_def by (blast dest: subsetD [OF rewrite_twice_set])


text \<open>The rules of the source, on the segments of a path without a query.\<close>

lemma normalize_slashed:
  assumes "unslashed (s # ts)"
  shows "fold (rewrite_fixed 10) default_rules (slashed (s # ts)) = slashed (s # rewrite_all ts)"
proof -
  let ?a = "rewrite_twice is_uuid '':uuid'' ts"
  let ?b = "rewrite_twice is_hash32 '':hash'' ?a"
  have n: "\<not> is_uuid '':uuid''" "\<not> is_hash32 '':hash''" "\<not> all_digits '':id''" "\<not> is_uuid []" "\<not> is_hash32 []" "\<not> all_digits []"
    using names_plain by (simp_all add: plain_segment_def)
  have a: "unslashed (s # ?a)" using assms unslashed_within [OF _ rewrite_twice_set, of ts "'':uuid''" is_uuid] by simp
  have b: "unslashed (s # ?b)" using a unslashed_within [OF _ rewrite_twice_set, of ?a "'':hash''" is_hash32] by simp
  have ten: "(10 :: nat) = Suc (Suc 8)" by simp
  have 1: "rewrite_fixed 10 (rewrite_segments is_uuid '':uuid'') (slashed (s # ts)) = slashed (s # ?a)"
    unfolding rewrite_twice_def ten by (rule rewrite_fixed_slashed [OF n(4,1) _ assms]) simp
  have 2: "rewrite_fixed 10 (rewrite_segments is_hash32 '':hash'') (slashed (s # ?a)) = slashed (s # ?b)"
    unfolding rewrite_twice_def [of is_hash32] ten by (rule rewrite_fixed_slashed [OF n(5,2) _ a]) simp
  have 3: "rewrite_fixed 10 (rewrite_segments all_digits '':id'') (slashed (s # ?b)) = slashed (s # rewrite_all ts)"
    unfolding rewrite_all_def rewrite_twice_def [of all_digits] ten by (rule rewrite_fixed_slashed [OF n(6,3) _ b]) simp
  show ?thesis by (simp only: default_rules_def fold_simps comp_apply 1 2 3)
qed

lemma normalize_segments:
  assumes "split_char (CHR ''/'') (hd (split_char (CHR ''?'') uri)) = s # ts"
  shows "normalize_route default_rules uri = slashed (s # rewrite_all ts)"
proof -
  have "hd (split_char (CHR ''?'') uri) = slashed (s # ts)" by (simp only: join_split flip: assms)
  moreover have "unslashed (s # ts)" unfolding assms [symmetric] unslashed_def using split_char_parts by blast
  ultimately show ?thesis unfolding normalize_route_def by (simp only: normalize_slashed)
qed

lemma slashed_char: "c \<in> set (slashed ts) \<Longrightarrow> c = CHR ''/'' \<or> (\<exists>t \<in> set ts. c \<in> set t)"
  using set_join_with [of "''/''" ts] by auto

text \<open>
  C34. A route under the default rules (normalizeRoute of tools/topology-screen): no segment behind a slash is
  a UUID, a hash of 32 hexadecimal digits or a number any more, although one pass of a rule misses a segment behind a
  rewritten one and the loop stops after ten passes; and normalising a route again leaves it as it is.\<close>

theorem route_normal_form:
  "list_all plain_segment (tl (split_char (CHR ''/'') (normalize_route default_rules uri))) \<and>
   normalize_route default_rules (normalize_route default_rules uri) = normalize_route default_rules uri"
proof -
  let ?p = "hd (split_char (CHR ''?'') uri)"
  obtain s ts where e: "split_char (CHR ''/'') ?p = s # ts" by (cases "split_char (CHR ''/'') ?p") simp_all
  have r: "normalize_route default_rules uri = slashed (s # rewrite_all ts)" by (rule normalize_segments [OF e])
  have parts: "CHR ''/'' \<notin> set t \<and> CHR ''?'' \<notin> set t" if "t \<in> set (s # ts)" for t
  proof -
    have "t \<in> set (split_char (CHR ''/'') ?p)" using that by (simp only: e)
    moreover have "?p \<in> set (split_char (CHR ''?'') uri)" by simp
    ultimately show ?thesis using split_by_parts [of t _ ?p] split_char_parts by metis
  qed
  have new: "CHR ''/'' \<notin> set t \<and> CHR ''?'' \<notin> set t" if t: "t \<in> set (s # rewrite_all ts)" for t
  proof (cases "t \<in> set (s # ts)")
    case False
    then have "t \<in> set (rewrite_all ts)" using t by simp
    then have "t \<in> {'':uuid'', '':hash'', '':id''}" using subsetD [OF rewrite_all_set, of t ts] False by simp
    then show ?thesis by (elim insertE emptyE) simp_all
  qed (rule parts)
  have split: "split_char (CHR ''/'') (slashed (s # rewrite_all ts)) = s # rewrite_all ts"
    by (rule split_join) (use new in auto)
  have "CHR ''?'' \<notin> set (slashed (s # rewrite_all ts))" using slashed_char [of _ "s # rewrite_all ts"] new by fastforce
  then have "split_char (CHR ''?'') (slashed (s # rewrite_all ts)) = [slashed (s # rewrite_all ts)]" by (rule split_char_no_sep)
  then have query: "hd (split_char (CHR ''?'') (slashed (s # rewrite_all ts))) = slashed (s # rewrite_all ts)"
    by (simp only: list.sel)
  have "normalize_route default_rules (slashed (s # rewrite_all ts)) = slashed (s # rewrite_all (rewrite_all ts))"
    by (rule normalize_segments) (simp only: query split)
  moreover have "rewrite_all (rewrite_all ts) = rewrite_all ts" by (rule rewrite_all_id) (rule rewrite_all_plain)
  moreover have "list_all plain_segment (rewrite_all ts)" using rewrite_all_plain by (auto simp: list_all_iff)
  ultimately show ?thesis unfolding r split by (simp only: list.sel simp_thms)
qed


section \<open>Counting\<close>

text \<open>What a request adds: its load to the placement and to the detail of every number of shards, its load to
  their totals, its key to their placements.\<close>

definition placement_item :: "screener \<Rightarrow> log_request \<Rightarrow> u32 \<Rightarrow> load_key \<times> load" where
  "placement_item S q m = (placement_key m (bucket_of S (rq_key q) m), rq_load q)"

definition detail_item :: "screener \<Rightarrow> log_request \<Rightarrow> u32 \<Rightarrow> load_key \<times> load" where
  "detail_item S q m = (detail_key q m (bucket_of S (rq_key q) m), rq_load q)"

definition load_items :: "screener \<Rightarrow> log_request \<Rightarrow> (load_key \<times> load) list" where
  "load_items S q = concat (map (\<lambda>m. [placement_item S q m, detail_item S q m]) (sc_moduli S))"

definition total_items :: "screener \<Rightarrow> log_request \<Rightarrow> (u32 \<times> load) list" where
  "total_items S q = map (\<lambda>m. (m, rq_load q)) (sc_moduli S)"

definition key_items :: "screener \<Rightarrow> log_request \<Rightarrow> (load_key \<times> string) list" where
  "key_items S q = map (\<lambda>m. (placement_key m (bucket_of S (rq_key q) m), rq_key q)) (sc_moduli S)"

lemma place_all:
  "fold (place_request S q) ms g =
     g\<lparr>sg_loads := fold (put_group add_load no_load) (concat (map (\<lambda>m. [placement_item S q m, detail_item S q m]) ms)) (sg_loads g),
       sg_totals := fold (put_group add_load no_load) (map (\<lambda>m. (m, rq_load q)) ms) (sg_totals g),
       sg_keys := fold (put_group insert_key []) (map (\<lambda>m. (placement_key m (bucket_of S (rq_key q) m), rq_key q)) ms) (sg_keys g)\<rparr>"
  by (induction ms arbitrary: g) (simp_all add: place_request_def Let_def placement_item_def detail_item_def)

text \<open>The screening of a list of requests.\<close>

definition screened :: "screener \<Rightarrow> log_request list \<Rightarrow> screening \<Rightarrow> bool" where
  "screened S qs g \<longleftrightarrow>
     sg_loads g = group_all add_load no_load (concat (map (load_items S) qs)) \<and>
     sg_totals g = group_all add_load no_load (concat (map (total_items S) qs)) \<and>
     sg_keys g = group_all insert_key [] (concat (map (key_items S) qs)) \<and>
     sg_all_keys g = fold insert_key (map rq_key qs) [] \<and> sg_matched g = length qs \<and>
     sg_lines g = sg_matched g + sg_skipped_route g + sg_skipped_key g \<and>
     (\<forall>q \<in> set qs. ld_requests (rq_load q) = 1 \<and> rq_class q \<noteq> ''all'')"

lemma screened_new: "screened S [] new_screening"
  by (simp add: screened_def new_screening_def group_all_def)

lemma status_class_form: "status_class raw = Inr c \<Longrightarrow> c \<noteq> ''all''"
  by (auto simp: status_class_def split: option.splits if_splits dest!: arg_cong [of _ _ last])

lemma observed_request:
  assumes "observe_record S pf r = Inr (Matched q)"
  shows "ld_requests (rq_load q) = 1" and "rq_class q \<noteq> ''all''"
  using assms status_class_form
  by (auto simp: observe_record_def read_request_def request_load_def Let_def split: sum.splits option.splits if_splits)

lemma screened_matched:
  assumes "screened S qs g" and "ld_requests (rq_load q) = 1" and "rq_class q \<noteq> ''all''"
  shows "screened S (qs @ [q]) (count_observation S (Matched q) (g\<lparr>sg_lines := Suc (sg_lines g)\<rparr>))"
  using assms
  by (simp add: screened_def count_observation_def place_all group_all_def load_items_def total_items_def key_items_def)

lemma screened_line:
  assumes "screen_line S pf parse raw g = Inr g'" and "\<exists>qs. screened S qs g"
  shows "\<exists>qs. screened S qs g'"
proof -
  obtain qs where i: "screened S qs g" using assms(2) by blast
  have "g' = g \<or> (\<exists>r ob. observe_record S pf r = Inr ob \<and> g' = count_observation S ob (g\<lparr>sg_lines := Suc (sg_lines g)\<rparr>))"
    using assms(1) by (auto simp: screen_line_def Let_def split: sum.splits if_splits)
  then consider "g' = g" | r ob where "observe_record S pf r = Inr ob" "g' = count_observation S ob (g\<lparr>sg_lines := Suc (sg_lines g)\<rparr>)"
    by blast
  then show ?thesis
  proof cases
    case 1
    with i show ?thesis by blast
  next
    case 2
    show ?thesis
    proof (cases ob)
      case (Matched q)
      with 2 i show ?thesis by (metis screened_matched observed_request)
    qed (use 2 i in \<open>auto simp: screened_def count_observation_def\<close>)
  qed
qed

lemma screened_logs:
  assumes "screen_logs E S parse paths = Inr g"
  shows "\<exists>qs. screened S qs g"
proof -
  have scan: "\<exists>qs. screened S qs t" if l: "scan_log E S parse path s = Inr t" and s: "\<exists>qs. screened S qs s" for path s t
  proof -
    obtain src u where "scan_fold screen_limit (screen_line S (sv_float E) parse) src s = Inr u"
      and t: "t = u\<lparr>sg_files := Suc (sg_files u)\<rparr>"
      using l by (auto simp: scan_log_def split: sum.splits option.splits)
    then have "fold_res (screen_line S (sv_float E) parse) (fst (scan_lines screen_limit (in_body src))) s = Inr u"
      by (auto dest: scan_foldD)
    then have "\<exists>qs. screened S qs u"
      by (rule fold_res_invariant [where P = "\<lambda>g. \<exists>qs. screened S qs g"]) (use s screened_line in blast)+
    then show ?thesis by (simp add: t screened_def)
  qed
  show ?thesis
    using assms unfolding screen_logs_def
    by (rule fold_res_invariant [where P = "\<lambda>g. \<exists>qs. screened S qs g"]) (use screened_new scan in blast)+
qed


text \<open>The sum of a measure over the loads whose key satisfies a predicate.\<close>

definition load_sum :: "(load \<Rightarrow> 'n :: comm_monoid_add) \<Rightarrow> (load_key \<Rightarrow> bool) \<Rightarrow> screening \<Rightarrow> 'n" where
  "load_sum h Q g = (\<Sum>(k, v) \<leftarrow> sg_loads g. if Q k then h v else 0)"

definition is_placement :: "u32 \<Rightarrow> load_key \<Rightarrow> bool" where
  "is_placement m k \<longleftrightarrow> lk_modulus k = m \<and> lk_class k = ''all''"

definition is_detail :: "u32 \<Rightarrow> load_key \<Rightarrow> bool" where
  "is_detail m k \<longleftrightarrow> lk_modulus k = m \<and> lk_class k \<noteq> ''all''"

definition key_count :: "u32 \<Rightarrow> screening \<Rightarrow> nat" where
  "key_count m g = (\<Sum>(k, ks) \<leftarrow> sg_keys g. if lk_modulus k = m then length ks else 0)"

lemma sum_loads:
  "ld_requests (fold add_load us no_load) = sum_list (map ld_requests us)"
  "ld_bytes (fold add_load us no_load) = sum_list (map ld_bytes us)"
  by (induction us rule: rev_induct) (simp_all add: no_load_def add_load_def)

lemma only_one: "distinct ms \<Longrightarrow> m \<in> set ms \<Longrightarrow> concat (map (\<lambda>x. if x = m then ys else []) ms) = ys"
proof (induction ms)
  case (Cons x ms)
  then show ?case by (cases "x = m") (auto intro: concat_map_nil)
qed simp

lemma sum_filter_concat:
  "(\<Sum>x \<leftarrow> filter Q (concat (map f qs)). g x) = (\<Sum>q \<leftarrow> qs. \<Sum>x \<leftarrow> filter Q (f q). (g x :: 'n :: comm_monoid_add))"
  by (induction qs) simp_all

lemma filter_items:
  assumes "distinct ms" and "m \<in> set ms" and "\<And>x. filter Q (f x) = (if x = m then ys else [])"
  shows "filter Q (concat (map f ms)) = ys"
  using only_one [OF assms(1,2), of ys] by (simp add: filter_concat o_def assms(3))

lemma item_keys [simp]:
  "is_placement m (fst (placement_item S q x)) \<longleftrightarrow> x = m"
  "is_detail m (fst (placement_item S q x)) \<longleftrightarrow> False"
  "is_placement m (fst (detail_item S q x)) \<longleftrightarrow> x = m \<and> rq_class q = ''all''"
  "is_detail m (fst (detail_item S q x)) \<longleftrightarrow> x = m \<and> rq_class q \<noteq> ''all''"
  "snd (placement_item S q x) = rq_load q" "snd (detail_item S q x) = rq_load q"
  by (simp_all add: is_placement_def is_detail_def placement_item_def detail_item_def placement_key_def detail_key_def)

lemma filter_loads:
  assumes "distinct (sc_moduli S)" and "m \<in> set (sc_moduli S)" and "rq_class q \<noteq> ''all''"
  shows "filter (\<lambda>x. is_placement m (fst x)) (load_items S q) = [placement_item S q m]"
    and "filter (\<lambda>x. is_detail m (fst x)) (load_items S q) = [detail_item S q m]"
  unfolding load_items_def by (rule filter_items [OF assms(1,2)]; use assms(3) in simp)+

lemma items_total:
  assumes "distinct (sc_moduli S)" and "m \<in> set (sc_moduli S)"
  shows "items_of m (concat (map (total_items S) qs)) = map rq_load qs"
proof -
  have "filter (\<lambda>x. fst x = m) (total_items S q) = [(m, rq_load q)]" for q
  proof -
    have "total_items S q = concat (map (\<lambda>m. [(m, rq_load q)]) (sc_moduli S))" by (induction "sc_moduli S") (simp_all add: total_items_def)
    then show ?thesis by (simp only:) (rule filter_items [OF assms], simp)
  qed
  then show ?thesis by (simp add: items_of_def filter_concat map_concat o_def)
qed

text \<open>Every measure of the loads that adds up sums to the same over the placements, over the details and in the
  total of a number of shards.\<close>

lemma screened_sums:
  fixes h :: "load \<Rightarrow> 'n :: comm_monoid_add"
  assumes "\<And>us. h (fold add_load us no_load) = sum_list (map h us)"
    and "screened S qs g" and "distinct (sc_moduli S)" and "m \<in> set (sc_moduli S)"
  shows "load_sum h (is_placement m) g = (\<Sum>q \<leftarrow> qs. h (rq_load q))"
    and "load_sum h (is_detail m) g = (\<Sum>q \<leftarrow> qs. h (rq_load q))"
    and "h (lookup_or no_load (sg_totals g) m) = (\<Sum>q \<leftarrow> qs. h (rq_load q))"
proof -
  have s: "load_sum h Q g = (\<Sum>q \<leftarrow> qs. \<Sum>x \<leftarrow> filter (\<lambda>x. Q (fst x)) (load_items S q). h (snd x))" for Q
    using assms(2) by (simp add: load_sum_def screened_def sum_groups_where [OF assms(1)] sum_filter_concat)
  have c: "q \<in> set qs \<Longrightarrow> rq_class q \<noteq> ''all''" for q using assms(2) by (simp add: screened_def)
  show "load_sum h (is_placement m) g = (\<Sum>q \<leftarrow> qs. h (rq_load q))"
    unfolding s by (rule arg_cong [of _ _ sum_list], rule map_cong) (simp_all add: filter_loads [OF assms(3,4) c])
  show "load_sum h (is_detail m) g = (\<Sum>q \<leftarrow> qs. h (rq_load q))"
    unfolding s by (rule arg_cong [of _ _ sum_list], rule map_cong) (simp_all add: filter_loads [OF assms(3,4) c])
  show "h (lookup_or no_load (sg_totals g) m) = (\<Sum>q \<leftarrow> qs. h (rq_load q))"
    using assms(2) by (simp add: screened_def group_lookup items_total [OF assms(3,4)] assms(1) o_def)
qed

text \<open>The keys of the buckets of a number of shards are disjoint and together all keys.\<close>

lemma insert_keys [simp]: "set (fold insert_key us ks) = set us \<union> set ks"
  by (induction us arbitrary: ks) (auto simp: insert_key_def)

lemma insert_keys_distinct: "distinct ks \<Longrightarrow> distinct (fold insert_key us ks)"
  by (induction us arbitrary: ks) (simp_all add: insert_key_def)

lemma length_keys: "length (fold insert_key us []) = card (set us)"
  using distinct_card [OF insert_keys_distinct [of "[]" us]] by simp

lemma key_items_iff:
  "(k, key) \<in> set (concat (map (key_items S) qs)) \<longleftrightarrow>
     key \<in> rq_key ` set qs \<and> (\<exists>m \<in> set (sc_moduli S). k = placement_key m (bucket_of S key m))"
  by (auto simp: key_items_def)

lemma screened_keys:
  assumes "screened S qs g" and "m \<in> set (sc_moduli S)"
  shows "key_count m g = length (sg_all_keys g)"
proof -
  let ?xs = "concat (map (key_items S) qs)"
  let ?G = "group_all insert_key [] ?xs"
  let ?K = "{k \<in> set (keys ?G). lk_modulus k = m}"
  have it: "set (items_of k ?xs) = {key. (k, key) \<in> set ?xs}" for k by (force simp: items_of_def)
  have at: "set (items_of k ?xs) = {key \<in> rq_key ` set qs. k = placement_key m (bucket_of S key m)}" if "lk_modulus k = m" for k
    unfolding it key_items_iff using that assms(2) by (auto simp: placement_key_def)
  have "key_count m g = (\<Sum>k \<leftarrow> keys ?G. if lk_modulus k = m then card (set (items_of k ?xs)) else 0)"
    using assms(1) unfolding key_count_def screened_def
    by (simp only:) (subst group_pairs, simp add: length_keys o_def cong: if_cong)
  also have "\<dots> = (\<Sum>k \<in> set (keys ?G). if lk_modulus k = m then card (set (items_of k ?xs)) else 0)"
    by (rule sum_list_distinct_conv_sum_set [OF group_distinct])
  also have "\<dots> = (\<Sum>k \<in> ?K. card (set (items_of k ?xs)))" by (rule sum.inter_filter [symmetric]) simp
  also have "\<dots> = card (\<Union>k \<in> ?K. set (items_of k ?xs))"
    by (rule card_UN_disjoint [symmetric]) (auto simp: at)
  also have "(\<Union>k \<in> ?K. set (items_of k ?xs)) = rq_key ` set qs"
  proof (rule set_eqI, rule iffI)
    fix key assume "key \<in> rq_key ` set qs"
    then have i: "(placement_key m (bucket_of S key m), key) \<in> set ?xs" using assms(2) by (simp only: key_items_iff) blast
    then have "placement_key m (bucket_of S key m) \<in> ?K"
      unfolding group_keys by (simp add: placement_key_def image_iff del: set_concat) (metis fst_conv)
    with i it show "key \<in> (\<Union>k \<in> ?K. set (items_of k ?xs))" by blast
  qed (auto simp: at)
  also have "card (rq_key ` set qs) = length (sg_all_keys g)" using assms(1) by (simp add: screened_def length_keys)
  finally show ?thesis .
qed


section \<open>Options\<close>

lemma parse_moduliD:
  assumes "parse_moduli raw = Inr ms"
  shows "distinct ms" and "\<And>m. m \<in> set ms \<Longrightarrow> 2 \<le> m" and "ms \<noteq> []"
proof -
  obtain ns where ns: "map_res parse_modulus (split_char (CHR '','') raw) = Inr ns" "ns \<noteq> []" "ms = sort (remdups ns)"
    using assms by (auto simp: parse_moduli_def split: sum.splits if_splits)
  have "2 \<le> n" if "parse_modulus v = Inr n" for v n
    using that by (auto simp: parse_modulus_def not_less split: option.splits if_splits)
  then show "\<And>m. m \<in> set ms \<Longrightarrow> 2 \<le> m" using ns by (auto simp: map_res_Inr_iff list_all2_conv_all_nth in_set_conv_nth)
  show "distinct ms" "ms \<noteq> []" using ns by simp_all
qed

lemma parse_bucketsD:
  assumes "parse_buckets raw ms = Inr bs"
  shows "distinct bs" and "bs \<noteq> []" and "m \<in> set ms \<Longrightarrow> length bs < unat m \<and> (\<forall>b \<in> set bs. b < m)"
  using assms by (auto simp: parse_buckets_def check_modulus_def Let_def first_error_None_iff not_le split: sum.splits option.splits if_splits)

lemma new_screenerD:
  assumes "new_screener R sha P = Inr S"
  shows "parse_moduli (op_moduli P) = Inr (sc_moduli S)" and "parse_buckets (op_shard P) (sc_moduli S) = Inr (sc_shard S)"
  using assms by (auto simp: new_screener_def split: option.splits sum.splits)

text \<open>
  C33. The replay of the access logs (observe, scan and scanFile of tools/topology-screen): after all logs were
  read, for every number of shards, the requests of the buckets, the requests of the routes and the total are the
  matched records, their body bytes agree, the distinct keys of the buckets add up to the distinct keys of the run,
  and every record that was read is matched or counted as skipped.\<close>

theorem screening_conserved:
  assumes "new_screener R sha P = Inr S" and "screen_logs E S parse paths = Inr g" and "m \<in> set (sc_moduli S)"
  shows "load_sum ld_requests (is_placement m) g = sg_matched g \<and>
    load_sum ld_requests (is_detail m) g = sg_matched g \<and>
    ld_requests (lookup_or no_load (sg_totals g) m) = sg_matched g \<and>
    load_sum ld_bytes (is_placement m) g = ld_bytes (lookup_or no_load (sg_totals g) m) \<and>
    load_sum ld_bytes (is_detail m) g = ld_bytes (lookup_or no_load (sg_totals g) m) \<and>
    key_count m g = length (sg_all_keys g) \<and>
    sg_lines g = sg_matched g + sg_skipped_route g + sg_skipped_key g"
proof -
  obtain qs where i: "screened S qs g" using screened_logs [OF assms(2)] by blast
  have d: "distinct (sc_moduli S)" using assms(1) by (blast dest: new_screenerD parse_moduliD)
  have "(\<Sum>q \<leftarrow> qs. ld_requests (rq_load q)) = length qs"
    using i by (simp add: screened_def sum_list_triv cong: map_cong)
  moreover have "sg_matched g = length qs" and "sg_lines g = sg_matched g + sg_skipped_route g + sg_skipped_key g"
    using i by (simp_all add: screened_def)
  ultimately show ?thesis
    using screened_sums [of ld_requests, OF sum_loads(1) i d assms(3)] screened_sums [of ld_bytes, OF sum_loads(2) i d assms(3)]
      screened_keys [OF i assms(3)] by simp
qed

lemma card_words_below: "card {b :: u32. b < m} = unat m"
proof -
  have "unat ` {b. b < m} = {..<unat m}"
  proof (rule set_eqI, rule iffI)
    fix n assume n: "n \<in> {..<unat m}"
    moreover have "unat m < 2 ^ LENGTH(32)" by (rule unsigned_less)
    ultimately have "n < 2 ^ 32" by simp
    then have u: "unat (word_of_nat n :: u32) = n" by (simp add: unat_of_nat take_bit_nat_eq_self)
    have "word_of_nat n \<in> {b. b < m}" using n u by (simp add: word_less_nat_alt)
    with u show "n \<in> unat ` {b. b < m}" by (metis image_eqI)
  qed (auto simp: word_less_nat_alt)
  moreover have "inj_on unat {b. b < m}" by (rule inj_onI) (simp add: word_unat_eq_iff)
  ultimately show ?thesis by (metis card_image card_lessThan)
qed

text \<open>
  The options of the screening (parseModuli, parseBuckets and newScreener): a screener that was built has
  a number of shards, each of at least two; all shard buckets exist for every one of them; and every one of them has
  a bucket outside of the shard, so that both placements are there.\<close>

theorem placements_possible:
  assumes "new_screener R sha P = Inr S" and "m \<in> set (sc_moduli S)"
  shows "2 \<le> m \<and> sc_shard S \<noteq> [] \<and> list_all (\<lambda>b. b < m) (sc_shard S) \<and> (\<exists>b < m. b \<notin> set (sc_shard S))"
proof -
  note b = parse_bucketsD [OF new_screenerD(2) [OF assms(1)]]
  have "2 \<le> m" using new_screenerD(1) [OF assms(1)] assms(2) by (blast dest: parse_moduliD)
  moreover have "\<exists>b < m. b \<notin> set (sc_shard S)"
  proof (rule ccontr)
    assume "\<not> ?thesis"
    then have "{b. b < m} \<subseteq> set (sc_shard S)" by blast
    then have "card {b. b < m} \<le> length (sc_shard S)" using card_mono card_length le_trans by (metis List.finite_set)
    moreover have "card {b. b < m} = unat m" by (rule card_words_below)
    ultimately show False using b(3) [OF assms(2)] by simp
  qed
  ultimately show ?thesis using b assms(2) by (simp add: list_all_iff)
qed


section \<open>A run\<close>

definition demo_screen_options :: screener_options where
  "demo_screen_options =
     \<lparr>op_fields = \<lparr>fn_key = ''vhost'', fn_method = ''method'', fn_uri = ''uri'', fn_status = ''status'', fn_response_time = ''rt'',
        fn_upstream_time = [], fn_body_bytes = ''bytes''\<rparr>,
      op_key_pattern = ''.+'', op_key_exclude = [], op_key_lower = True, op_strip_port = True, op_route_pattern = ''/api/'',
      op_rules = [], op_moduli = ''3,2'', op_hash_name = ''sha256'', op_shard = ''0''\<rparr>"

definition demo_regex :: regex_env where
  "demo_regex =
     \<lparr>rx_match = (\<lambda>p. Inr (\<lambda>s. has_prefix s p)), rx_group = (\<lambda>p. Inr (1, \<lambda>s. if s = [] then None else Some s)),
      rx_rewrite = (\<lambda>p. Inl (Errorf ''missing'' [] []))\<rparr>"

definition demo_sha :: "string \<Rightarrow> u32" where
  "demo_sha s = word_of_nat (length s)"

definition ltsv_line :: "(string \<times> string) list \<Rightarrow> string" where
  "ltsv_line r = join_with [CHR 0x09] (map (\<lambda>(n, v). n @ '':'' @ v) r) @ [CHR 0x0A]"

definition demo_access_log :: string where
  "demo_access_log =
     ltsv_line [(''vhost'', ''A:80''), (''method'', ''get''), (''uri'', ''/api/1/2''), (''status'', ''200''), (''rt'', ''1''), (''bytes'', ''5'')] @
     ltsv_line [(''vhost'', ''bc''), (''method'', ''get''), (''uri'', ''/api/x''), (''status'', ''404''), (''rt'', ''-''), (''bytes'', ''-'')] @
     ltsv_line [(''uri'', ''/'')]"

definition demo_screen_env :: screen_env where
  "demo_screen_env =
     \<lparr>sv_float = (\<lambda>s. map_option (\<lambda>n. Fin (of_int n)) (parse_int64 s)),
      sv_file = (\<lambda>p. Inr \<lparr>in_body = demo_access_log, in_read_err = None, in_close_err = None\<rparr>),
      sv_zstd = (\<lambda>p. Inl (Errorf ''missing'' [] [])), sv_gzip = (\<lambda>p. Inl (Errorf ''missing'' [] [])),
      sv_files = [(''a.log'', ())], sv_json = (\<lambda>s. Inl (Errorf ''missing'' [] [])), sv_regex = demo_regex, sv_sha = demo_sha,
      sv_sink = (\<lambda>n. None)\<rparr>"

definition demo_screening :: "go_error + screener \<times> screening" where
  "demo_screening =
     (case new_screener demo_regex demo_sha demo_screen_options of
        Inl e \<Rightarrow> Inl e
      | Inr S \<Rightarrow> (case screen_logs demo_screen_env S parse_ltsv_line [''a.log''] of Inl e \<Rightarrow> Inl e | Inr g \<Rightarrow> Inr (S, g)))"

lemma demo_moduli: "case new_screener demo_regex demo_sha demo_screen_options of Inl e \<Rightarrow> False | Inr S \<Rightarrow> sc_moduli S = [2, 3] \<and> sc_shard S = [0]"
  by code_simp

lemma demo_counts:
  "case demo_screening of Inl e \<Rightarrow> False | Inr (S, g) \<Rightarrow> sg_matched g = 2 \<and> sg_lines g = 3 \<and> length (sg_all_keys g) = 2"
  by code_simp


theorem screening_conserved_witness:
  "case demo_screening of
     Inl e \<Rightarrow> False
   | Inr (S, g) \<Rightarrow>
       load_sum ld_requests (is_placement 2) g = 2 \<and> load_sum ld_requests (is_detail 2) g = 2 \<and> key_count 2 g = 2 \<and>
       sg_skipped_route g + sg_skipped_key g = 1"
proof -
  obtain S where S: "new_screener demo_regex demo_sha demo_screen_options = Inr S" "2 \<in> set (sc_moduli S)"
    using demo_moduli by (auto split: sum.splits)
  with demo_counts obtain g where g: "screen_logs demo_screen_env S parse_ltsv_line [''a.log''] = Inr g"
    "sg_matched g = 2" "sg_lines g = 3" "length (sg_all_keys g) = 2"
    by (auto simp: demo_screening_def split: sum.splits)
  have d: "demo_screening = Inr (S, g)" using S g by (simp add: demo_screening_def)
  show ?thesis unfolding d using screening_conserved [OF S(1) g(1) S(2)] g by (simp only: sum.case prod.case) simp
qed

theorem placements_possible_witness:
  "case new_screener demo_regex demo_sha demo_screen_options of
     Inl e \<Rightarrow> False | Inr S \<Rightarrow> list_all (\<lambda>b. b < 3) (sc_shard S) \<and> (\<exists>b < 3. b \<notin> set (sc_shard S))"
proof -
  obtain S where S: "new_screener demo_regex demo_sha demo_screen_options = Inr S" "3 \<in> set (sc_moduli S)"
    using demo_moduli by (auto split: sum.splits)
  then show ?thesis using placements_possible [OF S] by simp
qed

text \<open>The published check values of the hashes.\<close>

lemma fnv_check_values: "fnv1a ''a'' = 0xE40C292C" "fnv1 ''a'' = 0x050C5D7E"
  by (simp_all add: fnv1a_def fnv1_def byte_word_def fnv_prime_def fnv_offset_def)

lemma crc_check_value: "crc32 ''a'' = 0xE8B7BE43"
proof -
  have "(NOT 0 :: u32) XOR byte_word (CHR ''a'') = 0xFFFFFF9E" by (simp add: byte_word_def)
  moreover have "(f ^^ 8) x = f (f (f (f (f (f (f (f x)))))))" for f :: "u32 \<Rightarrow> u32" and x by (simp add: eval_nat_numeral)
  moreover have "crc_bit (crc_bit (crc_bit (crc_bit (crc_bit (crc_bit (crc_bit (crc_bit 0xFFFFFF9E))))))) = 0x174841BC"
    by (simp add: crc_bit_def [of "numeral n" for n])
  ultimately show ?thesis by (simp add: crc32_def)
qed

text \<open>A duration that is not a number is accepted where it denotes a float, and spoils every sum that it enters.\<close>

lemma not_a_number_accepted:
  "pf ''NaN'' = Some Nan \<Longrightarrow> parse_duration pf ''NaN'' = Inr Nan" "fadd Nan x = Nan"
  by (simp_all add: parse_duration_def trim_space_def trim_left_def trim_right_def is_space_def duration_token_def)

end
