(* ===== verification/GoBuffer.thy ===== *)
theory GoBuffer
  imports GoCsv
begin

text \<open>
  A CSV writer on a buffered writer (\<open>bufio.Writer\<close>, 4096 bytes) on a writer that stops after a number of bytes,
  as the samplers stack them. An error stays: nothing is written behind it.
\<close>

section \<open>Writers\<close>

text \<open>What the file below does with a text, given what it has: how many bytes it takes, and its error.\<close>

type_synonym sink = "string \<Rightarrow> string \<Rightarrow> nat \<times> go_error option"

record csv_out =
  co_written :: string
  co_buffer :: string
  co_err :: "go_error option"

definition new_out :: csv_out where
  "new_out = \<lparr>co_written = [], co_buffer = [], co_err = None\<rparr>"

text \<open>A writer that counts what it has written and refuses a text that does not fit.\<close>

definition limited :: "int \<Rightarrow> sink \<Rightarrow> sink" where
  "limited limit w done s =
     (if limit - int (length done) < int (length s) then (0, Some (Errorf ''output exceeds its limit'' [format_int limit] []))
      else w done s)"

definition buffer_size :: int where
  "buffer_size = 4096"

text \<open>Flushing the buffer: what was taken leaves it, and a write that took too little is an error.\<close>

definition flush :: "sink \<Rightarrow> csv_out \<Rightarrow> csv_out" where
  "flush w b =
     (if co_err b \<noteq> None \<or> co_buffer b = [] then b
      else
        (case w (co_written b) (co_buffer b) of
           (n, e) \<Rightarrow>
             b\<lparr>co_written := co_written b @ take n (co_buffer b), co_buffer := drop n (co_buffer b),
               co_err := (if e = None \<and> n < length (co_buffer b) then Some (Errorf ''short write'' [] []) else e)\<rparr>))"

definition make_room :: "sink \<Rightarrow> csv_out \<Rightarrow> csv_out" where
  "make_room w b = (if int (length (co_buffer b)) = buffer_size then flush w b else b)"

text \<open>A text goes to the buffer byte by byte; a full buffer is flushed in front of the next byte.\<close>

fun put_string :: "sink \<Rightarrow> string \<Rightarrow> csv_out \<Rightarrow> csv_out" where
  "put_string w [] b = b"
| "put_string w (c # s) b =
     (if co_err b \<noteq> None then b
      else
        (let b1 = make_room w b in
         if co_err b1 \<noteq> None then b1 else put_string w s (b1\<lparr>co_buffer := co_buffer b1 @ [c]\<rparr>)))"

definition put_row :: "sink \<Rightarrow> string list \<Rightarrow> csv_out \<Rightarrow> csv_out" where
  "put_row w row b = put_string w (csv_row row) b"

text \<open>The rows of a loop that returns at the first error.\<close>

definition put_rows :: "sink \<Rightarrow> string list list \<Rightarrow> csv_out \<Rightarrow> csv_out" where
  "put_rows w rows b = fold (put_row w) rows b"

section \<open>What arrives\<close>

text \<open>The bytes that have arrived and those in the buffer.\<close>

definition in_flight :: "csv_out \<Rightarrow> string" where
  "in_flight b = co_written b @ co_buffer b"

lemma in_flight_new [simp]: "in_flight new_out = []" "co_err new_out = None" "co_written new_out = []"
  by (simp_all add: in_flight_def new_out_def)

lemma flush_in_flight [simp]: "in_flight (flush w b) = in_flight b"
  by (auto simp: in_flight_def flush_def split: prod.splits)

lemma flush_sticky [simp]: "co_err b \<noteq> None \<Longrightarrow> flush w b = b"
  by (simp add: flush_def)

lemma flush_ok: "co_err (flush w b) = None \<Longrightarrow> co_buffer (flush w b) = [] \<and> co_written (flush w b) = in_flight b"
  by (auto simp: flush_def in_flight_def split: prod.splits if_splits)

lemma make_room_in_flight [simp]: "in_flight (make_room w b) = in_flight b"
  by (simp add: make_room_def)

lemma make_room_sticky [simp]: "co_err b \<noteq> None \<Longrightarrow> make_room w b = b"
  by (simp add: make_room_def)

lemma flush_err: "co_err (flush w b) = None \<Longrightarrow> co_err b = None"
  by (metis flush_sticky)

lemma put_string_sticky [simp]: "co_err b \<noteq> None \<Longrightarrow> put_string w s b = b"
  by (cases s) simp_all

lemma put_string_err: "co_err (put_string w s b) = None \<Longrightarrow> co_err b = None"
  by (metis put_string_sticky)

lemma put_string_ok: "co_err (put_string w s b) = None \<Longrightarrow> in_flight (put_string w s b) = in_flight b @ s"
proof (induction w s b rule: put_string.induct)
  case (2 w c s b)
  let ?b = "make_room w b"
  have e: "co_err b = None" "co_err ?b = None" using "2.prems" by (auto simp: Let_def split: if_splits)
  have "in_flight (?b\<lparr>co_buffer := co_buffer ?b @ [c]\<rparr>) = in_flight b @ [c]"
    using make_room_in_flight [of w b] by (simp add: in_flight_def)
  with 2 e show ?case by (simp add: Let_def)
qed simp

lemma put_string_prefix: "prefix (in_flight (put_string w s b)) (in_flight b @ s)"
proof (induction w s b rule: put_string.induct)
  case (2 w c s b)
  let ?b = "make_room w b"
  have "in_flight (?b\<lparr>co_buffer := co_buffer ?b @ [c]\<rparr>) = in_flight b @ [c]"
    using make_room_in_flight [of w b] by (simp add: in_flight_def)
  with 2 show ?case by (simp add: Let_def)
qed simp

lemma put_string_extends: "prefix (in_flight b) (in_flight (put_string w s b))"
proof (induction w s b rule: put_string.induct)
  case (2 w c s b)
  let ?b = "make_room w b"
  have "in_flight (?b\<lparr>co_buffer := co_buffer ?b @ [c]\<rparr>) = in_flight b @ [c]"
    using make_room_in_flight [of w b] by (simp add: in_flight_def)
  with 2 show ?case by (auto simp: Let_def intro: prefix_order.trans append_prefixD)
qed simp

text \<open>A text that fits into the buffer goes there at once.\<close>

lemma put_string_room:
  "co_err b = None \<Longrightarrow> int (length (co_buffer b)) + int (length s) \<le> buffer_size \<Longrightarrow> put_string w s b = b\<lparr>co_buffer := co_buffer b @ s\<rparr>"
  by (induction w s b rule: put_string.induct) (simp_all add: make_room_def Let_def)

lemma put_string_code [code]:
  "put_string w s b =
     (if co_err b = None \<and> int (length (co_buffer b)) + int (length s) \<le> buffer_size then b\<lparr>co_buffer := co_buffer b @ s\<rparr>
      else
        (case s of
           [] \<Rightarrow> b
         | c # t \<Rightarrow>
             if co_err b \<noteq> None then b
             else
               (let b1 = make_room w b in
                if co_err b1 \<noteq> None then b1 else put_string w t (b1\<lparr>co_buffer := co_buffer b1 @ [c]\<rparr>))))"
proof (cases "co_err b = None \<and> int (length (co_buffer b)) + int (length s) \<le> buffer_size")
  case True
  then show ?thesis by (simp add: put_string_room)
next
  case False
  then show ?thesis by (cases s) auto
qed

text \<open>Rows.\<close>

lemma put_rows_Cons: "put_rows w (r # rs) b = put_rows w rs (put_row w r b)"
  by (simp add: put_rows_def)

lemma put_rows_string: "put_rows w rs b = put_string w (csv_write rs) b"
proof -
  have a: "put_string w (s @ t) b = put_string w t (put_string w s b)" for s t and b :: csv_out
  proof (induction w s b rule: put_string.induct)
    case (2 w c s b)
    then show ?case by (cases "co_err b"; cases "co_err (make_room w b)") (simp_all add: Let_def)
  qed simp
  show ?thesis by (induction rs arbitrary: b) (simp_all add: put_rows_def put_row_def csv_write_def a)
qed

lemmas put_rows_ok = put_string_ok [of w "csv_write rs" for w rs, folded put_rows_string]
lemmas put_rows_prefix = put_string_prefix [of w "csv_write rs" for w rs, folded put_rows_string]
lemmas put_rows_extends = put_string_extends [of _ w "csv_write rs" for w rs, folded put_rows_string]
lemmas put_rows_err = put_string_err [of w "csv_write rs" for w rs, folded put_rows_string]
lemmas put_rows_sticky = put_string_sticky [of _ w "csv_write rs" for w rs, folded put_rows_string]

lemma csv_write_append [simp]: "csv_write (rs @ qs) = csv_write rs @ csv_write qs"
  by (simp add: csv_write_def)

lemma csv_write_Nil [simp]: "csv_write [] = []"
  by (simp add: csv_write_def)

section \<open>The limit\<close>

definition in_limit :: "int \<Rightarrow> csv_out \<Rightarrow> bool" where
  "in_limit limit b \<longleftrightarrow> int (length (co_written b)) \<le> limit"

lemma flush_within: "in_limit limit b \<Longrightarrow> in_limit limit (flush (limited limit w) b)"
  by (auto simp: in_limit_def flush_def limited_def min_def split: prod.splits if_splits)

lemma put_string_within: "in_limit limit b \<Longrightarrow> in_limit limit (put_string (limited limit w) s b)"
proof (induction "limited limit w" s b rule: put_string.induct)
  case (2 c s b)
  have "in_limit limit (make_room (limited limit w) b)" using "2.prems" flush_within by (simp add: make_room_def)
  with 2 show ?case by (simp add: Let_def in_limit_def)
qed simp

lemmas put_rows_within = put_string_within [of _ _ w "csv_write rs" for w rs, folded put_rows_string]

section \<open>A file that takes everything\<close>

definition accept :: sink where
  "accept d s = (length s, None)"

lemma flush_accept:
  "co_err b = None \<Longrightarrow> int (length (in_flight b)) \<le> limit \<Longrightarrow> co_err (flush (limited limit accept) b) = None"
  by (simp add: flush_def limited_def accept_def in_flight_def)

lemma put_string_accept:
  "co_err b = None \<Longrightarrow> int (length (in_flight b)) + int (length s) \<le> limit \<Longrightarrow> co_err (put_string (limited limit accept) s b) = None"
proof (induction "limited limit accept" s b rule: put_string.induct)
  case (2 c s b)
  let ?b = "make_room (limited limit accept) b"
  have e: "co_err ?b = None" using flush_accept [of b limit] "2.prems" by (simp add: make_room_def)
  have "in_flight (?b\<lparr>co_buffer := co_buffer ?b @ [c]\<rparr>) = in_flight b @ [c]"
    using make_room_in_flight [of "limited limit accept" b] by (simp add: in_flight_def)
  with "2.hyps" [OF _ refl] "2.prems" e show ?case by (simp add: Let_def)
qed simp

lemmas put_rows_accept = put_string_accept [of _ "csv_write rs" for rs, folded put_rows_string]

text \<open>Without a limit it never fails.\<close>

lemma flush_accept_all: "co_err b = None \<Longrightarrow> co_err (flush accept b) = None"
  by (simp add: flush_def accept_def)

lemma put_string_accept_all: "co_err b = None \<Longrightarrow> co_err (put_string accept s b) = None"
proof (induction accept s b rule: put_string.induct)
  case (2 c s b)
  then show ?case by (simp add: Let_def make_room_def flush_accept_all)
qed simp

lemmas put_rows_accept_all = put_string_accept_all [of _ "csv_write rs" for rs, folded put_rows_string]

end
