(* ===== verification/GoHttp.thy ===== *)
theory GoHttp
  imports GoInput GoTime
begin

text \<open>
  Replies to HTTP requests, as the collectors read them, and the labels that they accept. The client is a parameter:
  a request gives an error, or a status and a body that may fail while it is read.
\<close>

section \<open>Replies\<close>

record api_reply =
  hr_status :: int
  hr_body :: stream

type_synonym http_result = "go_error + api_reply"

text \<open>The body of a reply, as far as it is read.\<close>

definition limited_body :: "int \<Rightarrow> stream \<Rightarrow> go_error + string" where
  "limited_body max_bytes f =
     (let n = wrap64 (max_bytes + 1) in
      if int (length (in_body f)) < n then (case in_read_err f of Some e \<Rightarrow> Inl e | None \<Rightarrow> Inr (in_body f))
      else Inr (take (nat n) (in_body f)))"

definition read_reply :: "int \<Rightarrow> http_result \<Rightarrow> go_error + string" where
  "read_reply max_bytes r =
     (case r of
        Inl e \<Rightarrow> Inl e
      | Inr reply \<Rightarrow>
          if hr_status reply \<noteq> 200 then Inl (Errorf ''endpoint returned HTTP'' [format_int (hr_status reply)] [])
          else
            (case limited_body max_bytes (hr_body reply) of
               Inl e \<Rightarrow> Inl e
             | Inr body \<Rightarrow>
                 if max_bytes < int (length body) then Inl (Errorf ''response exceeds its limit'' [format_int max_bytes] []) else Inr body))"

section \<open>Labels\<close>

text \<open>A lower case letter, then at most so many lower case letters, digits and underscores.\<close>

definition lower_letter :: "char \<Rightarrow> bool" where
  "lower_letter c \<longleftrightarrow> CHR ''a'' \<le> c \<and> c \<le> CHR ''z''"

definition label_matches :: "nat \<Rightarrow> string \<Rightarrow> bool" where
  "label_matches n s =
     (case s of
        [] \<Rightarrow> False
      | c # t \<Rightarrow> lower_letter c \<and> length t \<le> n \<and> list_all (\<lambda>x. lower_letter x \<or> is_digit x \<or> x = CHR ''_'') t)"

end
