(* ===== verification/JsonMetrics.thy ===== *)
theory JsonMetrics
  imports GoBuffer GoHttp "HOL-Library.Word"
begin

text \<open>
  The collector of the metrics of an application (tools/measurement/cmd/json-metrics-collector): it enables them,
  takes a snapshot at every tick, which renews the lease, disables them at the end and writes the last snapshot.

  The HTTP client, the decoder of the snapshots, the formatting of an instant, the ticks and the file below the output
  are parameters; so is the moment at which a signal ends the ticks, which is where their list ends. A request that the
  signal interrupts is one that fails.
\<close>

section \<open>Snapshots\<close>

record json_metric =
  jm_scope :: string
  jm_entity :: int
  jm_group :: int
  jm_window :: int
  jm_name :: string
  jm_value :: int

record json_snapshot =
  js_version :: int
  js_generation :: "64 word"
  js_enabled :: bool
  js_started :: int
  js_captured :: int
  js_max_entities :: int
  js_entity_entries :: int
  js_metrics :: "json_metric list"

definition invalid_label :: "json_metric \<Rightarrow> bool" where
  "invalid_label m \<longleftrightarrow> \<not> label_matches 31 (jm_scope m) \<or> \<not> label_matches 63 (jm_name m) \<or> jm_value m < 0 \<or> jm_window m < 0"

definition check_metric :: "json_metric \<Rightarrow> go_error option" where
  "check_metric m =
     (if invalid_label m then Some (Errorf ''invalid metric label or value'' [jm_scope m, jm_name m] [])
      else if jm_scope m = ''global'' \<and> (jm_entity m \<noteq> 0 \<or> jm_group m \<noteq> 0)
      then Some (Errorf ''global metric has entity identifiers'' [jm_name m] [])
      else if jm_scope m \<noteq> ''global'' \<and> (jm_entity m \<le> 0 \<or> jm_group m \<le> 0)
      then Some (Errorf ''entity metric lacks bounded identifiers'' [jm_name m] [])
      else None)"

definition validate_snapshot :: "json_snapshot \<Rightarrow> int \<Rightarrow> int \<Rightarrow> go_error option" where
  "validate_snapshot s max_bytes len =
     (if max_bytes < len then Some (Errorf ''response exceeds its limit'' [format_int max_bytes] [])
      else if js_version s \<noteq> 1 \<or> js_generation s = 0 \<or> js_started s \<le> 0 \<or> js_captured s < js_started s
      then Some (Errorf ''invalid snapshot metadata'' [] [])
      else if js_max_entities s \<le> 0 \<or> js_entity_entries s < 0 \<or> js_max_entities s < js_entity_entries s
      then Some (Errorf ''invalid snapshot cardinality'' [] [])
      else first_error check_metric (js_metrics s))"

section \<open>Requests\<close>

record json_env =
  je_decode :: "string \<Rightarrow> go_error + json_snapshot"
  je_time :: "int \<Rightarrow> string"
  je_max_bytes :: int
  je_limit :: int
  je_sink :: sink

definition fetch_snapshot :: "json_env \<Rightarrow> http_result \<Rightarrow> go_error + json_snapshot" where
  "fetch_snapshot E r =
     (case read_reply (je_max_bytes E) r of
        Inl e \<Rightarrow> Inl e
      | Inr body \<Rightarrow>
          (case je_decode E body of
             Inl e \<Rightarrow> Inl e
           | Inr s \<Rightarrow>
               (case validate_snapshot s (je_max_bytes E) (int (length body)) of Some e \<Rightarrow> Inl e | None \<Rightarrow> Inr s)))"

section \<open>The rows of a snapshot\<close>

definition json_header :: "string list" where
  "json_header =
     [''sample'', ''timestamp'', ''elapsed_ms'', ''generation'', ''final'', ''scope'', ''entity_id'', ''group_id'', ''window_start_ms'',
      ''metric'', ''value'']"

definition metric_row :: "json_env \<Rightarrow> nat \<Rightarrow> bool \<Rightarrow> json_snapshot \<Rightarrow> json_metric \<Rightarrow> string list" where
  "metric_row E sample final s m =
     [format_nat sample, je_time E (js_captured s * 1000000), format_int (js_captured s - js_started s),
      format_nat (unat (js_generation s)), if final then ''true'' else ''false'', jm_scope m, format_int (jm_entity m),
      format_int (jm_group m), format_int (jm_window m), jm_name m, format_int (jm_value m)]"

section \<open>Collecting\<close>

text \<open>The requests that were sent are kept to state in which order they come.\<close>

datatype json_request = EnableMetrics | TakeSnapshot | DisableMetrics

record json_state =
  jt_out :: csv_out
  jt_sample :: nat
  jt_generation :: "64 word"
  jt_requests :: "json_request list"

definition sent :: "json_request \<Rightarrow> json_state \<Rightarrow> json_state" where
  "sent r st = st\<lparr>jt_requests := jt_requests st @ [r]\<rparr>"

definition json_sink :: "json_env \<Rightarrow> sink" where
  "json_sink E = limited (je_limit E) (je_sink E)"

text \<open>Writing a snapshot returns the first error of a row, or of the flush behind them.\<close>

definition write_snapshot :: "json_env \<Rightarrow> json_snapshot \<Rightarrow> bool \<Rightarrow> json_state \<Rightarrow> go_error option \<times> json_state" where
  "write_snapshot E s final st =
     (if jt_generation st \<noteq> 0 \<and> js_generation s \<noteq> jt_generation st
      then (Some (Errorf ''snapshot generation changed''
              [format_nat (unat (jt_generation st)), format_nat (unat (js_generation s))] []), st)
      else
        (let b1 = put_rows (json_sink E) (map (metric_row E (jt_sample st) final s) (js_metrics s)) (jt_out st);
             b2 = flush (json_sink E) b1; st1 = st\<lparr>jt_generation := js_generation s\<rparr> in
         if co_err b1 \<noteq> None then (co_err b1, st1\<lparr>jt_out := b1\<rparr>)
         else if co_err b2 \<noteq> None then (co_err b2, st1\<lparr>jt_out := b2\<rparr>)
         else (None, st1\<lparr>jt_out := b2, jt_sample := Suc (jt_sample st)\<rparr>)))"

text \<open>The ticks, each with the reply to its request.\<close>

fun poll_snapshots :: "json_env \<Rightarrow> http_result list \<Rightarrow> json_state \<Rightarrow> go_error option \<times> json_state" where
  "poll_snapshots E [] st = (None, st)"
| "poll_snapshots E (r # rs) st =
     (let st1 = sent TakeSnapshot st in
      case fetch_snapshot E r of
        Inl e \<Rightarrow> (Some (Errorf ''snapshot'' [] [e]), st1)
      | Inr s \<Rightarrow>
          if \<not> js_enabled s then (Some (Errorf ''snapshot lease expired while collector was active'' [] []), st1)
          else
            (case write_snapshot E s False st1 of
               (Some e, st2) \<Rightarrow> (Some e, st2)
             | (None, st2) \<Rightarrow> poll_snapshots E rs st2))"

text \<open>The end, whatever the ticks returned; their error is the one that is reported.\<close>

definition disable_metrics :: "json_env \<Rightarrow> http_result \<Rightarrow> json_state \<Rightarrow> go_error option \<times> json_state" where
  "disable_metrics E r st =
     (let st1 = sent DisableMetrics st in
      case fetch_snapshot E r of
        Inl e \<Rightarrow> (Some e, st1)
      | Inr s \<Rightarrow>
          if js_enabled s then (Some (Errorf ''disable endpoint returned enabled snapshot'' [] []), st1)
          else write_snapshot E s True st1)"

definition finish_metrics :: "json_env \<Rightarrow> http_result \<Rightarrow> go_error option \<times> json_state \<Rightarrow> go_error option \<times> json_state" where
  "finish_metrics E r polled =
     (case polled of
        (result, st) \<Rightarrow>
          (case disable_metrics E r st of
             (err, st1) \<Rightarrow>
               (let result1 = (if result = None then map_option (\<lambda>e. Errorf ''disable'' [] [e]) err else result);
                    b = flush (json_sink E) (jt_out st1) in
                (if result1 = None then co_err b else result1, st1\<lparr>jt_out := b\<rparr>))))"

definition new_json_state :: "csv_out \<Rightarrow> json_state" where
  "new_json_state b = \<lparr>jt_out = b, jt_sample = 0, jt_generation = 0, jt_requests = []\<rparr>"

definition collect_json ::
    "json_env \<Rightarrow> http_result \<Rightarrow> http_result list \<Rightarrow> http_result \<Rightarrow> go_error option \<times> json_state" where
  "collect_json E enable ticks disable =
     (let b1 = put_row (json_sink E) json_header new_out; b2 = flush (json_sink E) b1 in
      if co_err b1 \<noteq> None then (co_err b1, new_json_state b1)
      else if co_err b2 \<noteq> None then (co_err b2, new_json_state b2)
      else
        (let st = sent EnableMetrics (new_json_state b2) in
         case fetch_snapshot E enable of
           Inl e \<Rightarrow> (Some (Errorf ''enable'' [] [e]), st)
         | Inr s \<Rightarrow>
             if \<not> js_enabled s then (Some (Errorf ''enable endpoint returned disabled snapshot'' [] []), st)
             else
               (case write_snapshot E s False (st\<lparr>jt_generation := js_generation s\<rparr>) of
                  (Some e, st1) \<Rightarrow> (Some e, st1)
                | (None, st1) \<Rightarrow> finish_metrics E disable (poll_snapshots E ticks st1))))"

section \<open>The command\<close>

record json_flags =
  jf_enable :: string
  jf_snapshot :: string
  jf_disable :: string
  jf_interval :: int
  jf_timeout :: int
  jf_max_output :: int
  jf_max_response :: int

text \<open>\<open>url.Parse\<close>: the scheme and the host, where the text is a URL.\<close>

type_synonym url_parser = "string \<Rightarrow> (string \<times> string) option"

definition bad_endpoint :: "url_parser \<Rightarrow> string \<Rightarrow> bool" where
  "bad_endpoint url s = (case url s of None \<Rightarrow> True | Some (scheme, host) \<Rightarrow> scheme = [] \<or> host = [])"

definition check_json_flags :: "url_parser \<Rightarrow> json_flags \<Rightarrow> go_error option" where
  "check_json_flags url F =
     (if jf_enable F = [] \<or> jf_snapshot F = [] \<or> jf_disable F = []
      then Some (Errorf ''enable-endpoint, snapshot-endpoint, and disable-endpoint are required'' [] [])
      else if jf_interval F \<le> 0 \<or> jf_timeout F \<le> 0 \<or> jf_max_output F \<le> 0 \<or> jf_max_response F \<le> 0
      then Some (Errorf ''interval, timeout, and byte limits must be greater than zero'' [] [])
      else
        first_error (\<lambda>s. if bad_endpoint url s then Some (Errorf ''invalid endpoint'' [s] []) else None)
          [jf_enable F, jf_snapshot F, jf_disable F])"

text \<open>The exit status, and what was collected. The output is created in front of the collection.\<close>

definition json_main ::
    "url_parser \<Rightarrow> json_flags \<Rightarrow> json_env \<Rightarrow> go_error option \<Rightarrow> http_result \<Rightarrow> http_result list \<Rightarrow> http_result \<Rightarrow>
     nat \<times> json_state option" where
  "json_main url F E created enable ticks disable =
     (case check_json_flags url F of
        Some e \<Rightarrow> (2, None)
      | None \<Rightarrow>
          if created \<noteq> None then (1, None)
          else
            (case collect_json (E\<lparr>je_max_bytes := jf_max_response F, je_limit := jf_max_output F\<rparr>) enable ticks disable of
               (err, st) \<Rightarrow> (if err = None then 0 else 1, Some st)))"

end
