(* ===== verification/JsonMetricsProperties.thy ===== *)
theory JsonMetricsProperties
  imports JsonMetrics
begin

text \<open>
  What the collector of application metrics promises: a run without an error has written every snapshot, completely,
  in order and of one generation; the output never exceeds its limit; and once the metrics are enabled and their first
  snapshot is written, the last request of the run disables them.
\<close>

section \<open>Snapshots that were written\<close>

text \<open>The rows of snapshots, numbered from a sample on; each is marked when it is the final one.\<close>

fun numbered_rows :: "json_env \<Rightarrow> nat \<Rightarrow> (bool \<times> json_snapshot) list \<Rightarrow> string list list" where
  "numbered_rows E n [] = []"
| "numbered_rows E n ((final, s) # xs) = map (metric_row E n final s) (js_metrics s) @ numbered_rows E (Suc n) xs"

lemma numbered_rows_append: "numbered_rows E n (xs @ ys) = numbered_rows E n xs @ numbered_rows E (n + length xs) ys"
  by (induction E n xs rule: numbered_rows.induct) simp_all

definition snapshots_written :: "json_env \<Rightarrow> json_state \<Rightarrow> (bool \<times> json_snapshot) list \<Rightarrow> bool" where
  "snapshots_written E st xs \<longleftrightarrow>
     co_err (jt_out st) = None \<and> co_buffer (jt_out st) = [] \<and>
     co_written (jt_out st) = csv_write (json_header # numbered_rows E 0 xs) \<and> jt_sample st = length xs \<and>
     (\<forall>x \<in> set xs. js_generation (snd x) = jt_generation st) \<and> jt_generation st \<noteq> 0"

lemma snapshots_written_sent [simp]: "snapshots_written E (sent r st) xs = snapshots_written E st xs"
  by (simp add: snapshots_written_def sent_def)

lemma write_snapshot_ok:
  assumes "write_snapshot E s final st = (None, st')" and "snapshots_written E st xs"
  shows "snapshots_written E st' (xs @ [(final, s)])" and "jt_requests st' = jt_requests st"
proof -
  define rows where "rows = map (metric_row E (jt_sample st) final s) (js_metrics s)"
  define b where "b = put_rows (json_sink E) rows (jt_out st)"
  define b2 where "b2 = flush (json_sink E) b"
  have g: "js_generation s = jt_generation st" and e: "co_err b = None" "co_err b2 = None"
    and st': "st' = st\<lparr>jt_generation := js_generation s, jt_out := b2, jt_sample := Suc (jt_sample st)\<rparr>"
    using assms unfolding snapshots_written_def
    by (auto simp: write_snapshot_def Let_def rows_def b_def b2_def split: if_splits)
  have "in_flight b = in_flight (jt_out st) @ csv_write rows" using e(1) unfolding b_def by (rule put_rows_ok)
  moreover have "co_buffer b2 = [] \<and> co_written b2 = in_flight b" using e(2) unfolding b2_def by (rule flush_ok)
  ultimately show "snapshots_written E st' (xs @ [(final, s)])"
    using assms(2) e g by (auto simp: snapshots_written_def st' numbered_rows_append rows_def in_flight_def csv_write_def)
  show "jt_requests st' = jt_requests st" by (simp add: st')
qed

lemma poll_snapshots_ok:
  "poll_snapshots E rs st = (None, st') \<Longrightarrow> snapshots_written E st xs \<Longrightarrow>
     \<exists>ss. map (fetch_snapshot E) rs = map Inr ss \<and> list_all js_enabled ss \<and>
       snapshots_written E st' (xs @ map (Pair False) ss) \<and> jt_requests st' = jt_requests st @ replicate (length rs) TakeSnapshot"
proof (induction E rs st arbitrary: xs rule: poll_snapshots.induct)
  case (2 E r rs st)
  let ?st = "sent TakeSnapshot st"
  obtain s st2 where s: "fetch_snapshot E r = Inr s" "js_enabled s" and w: "write_snapshot E s False ?st = (None, st2)"
    and p: "poll_snapshots E rs st2 = (None, st')"
    using "2.prems"(1) by (auto simp: Let_def split: sum.splits if_splits prod.splits option.splits)
  note w' = write_snapshot_ok [OF w, of xs, simplified, OF "2.prems"(2)]
  obtain ss where ss: "map (fetch_snapshot E) rs = map Inr ss" "list_all js_enabled ss"
    "snapshots_written E st' ((xs @ [(False, s)]) @ map (Pair False) ss)"
    "jt_requests st' = jt_requests st2 @ replicate (length rs) TakeSnapshot"
    using "2.IH" [OF refl s(1) _ w [symmetric] refl p w'(1)] s(2) by auto
  show ?case
    by (rule exI [of _ "s # ss"]) (use ss s w'(2) in \<open>simp add: sent_def\<close>)
qed auto

text \<open>
  C35. A run of the collector without an error (collect of json-metrics-collector): every request was answered by a
  valid snapshot, enabled up to the final one, which is disabled, and all of one generation; the output is the header
  and the rows of all of them, numbered in order and the final ones marked; and the requests are one to enable, one per
  tick, and one to disable.\<close>

theorem json_run_complete:
  assumes "collect_json E enable ticks disable = (None, st)"
  shows "\<exists>s ss f. fetch_snapshot E enable = Inr s \<and> map (fetch_snapshot E) ticks = map Inr ss \<and>
    fetch_snapshot E disable = Inr f \<and> list_all js_enabled (s # ss) \<and> \<not> js_enabled f \<and>
    list_all (\<lambda>x. js_generation x = js_generation f) (s # ss) \<and>
    co_written (jt_out st) = csv_write (json_header # numbered_rows E 0 (map (Pair False) (s # ss) @ [(True, f)])) \<and>
    jt_requests st = EnableMetrics # replicate (length ticks) TakeSnapshot @ [DisableMetrics]"
proof -
  define b1 where "b1 = put_row (json_sink E) json_header new_out"
  define b2 where "b2 = flush (json_sink E) b1"
  define st0 where "st0 = sent EnableMetrics (new_json_state b2)"
  obtain s st1 where e: "co_err b1 = None" "co_err b2 = None" and s: "fetch_snapshot E enable = Inr s" "js_enabled s"
    and w: "write_snapshot E s False (st0\<lparr>jt_generation := js_generation s\<rparr>) = (None, st1)"
    and f: "finish_metrics E disable (poll_snapshots E ticks st1) = (None, st)"
    using assms unfolding collect_json_def b1_def [symmetric]
    by (auto simp: Let_def st0_def b2_def split: if_splits sum.splits prod.splits option.splits)
  have "in_flight b1 = csv_row json_header" using put_string_ok [of "json_sink E" "csv_row json_header" new_out] e(1)
    by (simp add: b1_def put_row_def)
  then have b: "co_buffer b2 = []" "co_written b2 = csv_row json_header" using flush_ok [of "json_sink E" b1] e(2) by (simp_all add: b2_def)
  have g: "js_generation s \<noteq> 0"
    using s(1) by (auto simp: fetch_snapshot_def validate_snapshot_def split: sum.splits option.splits if_splits)
  have "snapshots_written E (st0\<lparr>jt_generation := js_generation s\<rparr>) []"
    using e b g by (simp add: snapshots_written_def st0_def sent_def new_json_state_def csv_write_def)
  note w1 = write_snapshot_ok [OF w this]
  obtain st2 st3 where p: "poll_snapshots E ticks st1 = (None, st2)" and d: "disable_metrics E disable st2 = (None, st3)"
    and st: "st = st3\<lparr>jt_out := flush (json_sink E) (jt_out st3)\<rparr>" and ef: "co_err (jt_out st) = None"
    using f by (auto simp: finish_metrics_def Let_def split: prod.splits if_splits option.splits)
  obtain ss where ss: "map (fetch_snapshot E) ticks = map Inr ss" "list_all js_enabled ss"
    "snapshots_written E st2 ([(False, s)] @ map (Pair False) ss)"
    "jt_requests st2 = jt_requests st1 @ replicate (length ticks) TakeSnapshot"
    using poll_snapshots_ok [OF p, of "[(False, s)]"] w1(1) by auto
  obtain fs where fs: "fetch_snapshot E disable = Inr fs" "\<not> js_enabled fs" "write_snapshot E fs True (sent DisableMetrics st2) = (None, st3)"
    using d by (auto simp: disable_metrics_def Let_def split: sum.splits if_splits)
  note w3 = write_snapshot_ok [OF fs(3), of "[(False, s)] @ map (Pair False) ss", simplified snapshots_written_sent, OF ss(3)]
  have "flush (json_sink E) (jt_out st3) = jt_out st3" using w3(1) by (simp add: snapshots_written_def flush_def)
  then have "snapshots_written E st (map (Pair False) (s # ss) @ [(True, fs)])" using w3(1) by (simp add: st)
  moreover have "jt_requests st = EnableMetrics # replicate (length ticks) TakeSnapshot @ [DisableMetrics]"
    using w1(2) ss(4) w3(2) by (simp add: st st0_def sent_def new_json_state_def)
  ultimately show ?thesis
    using s ss(1,2) fs(1,2)
    by (intro exI [of _ s] exI [of _ ss] exI [of _ fs]) (auto simp: snapshots_written_def list_all_iff)
qed


section \<open>Every run\<close>

lemma write_snapshot_within:
  assumes "in_limit (je_limit E) (jt_out st)"
  shows "in_limit (je_limit E) (jt_out (snd (write_snapshot E s final st)))"
  using assms flush_within put_rows_within by (auto simp: write_snapshot_def json_sink_def Let_def)

lemma write_snapshot_requests [simp]: "jt_requests (snd (write_snapshot E s final st)) = jt_requests st"
  by (simp add: write_snapshot_def Let_def)

lemma write_snapshot_sample: "jt_sample st \<le> jt_sample (snd (write_snapshot E s final st))"
  by (simp add: write_snapshot_def Let_def)

lemma sent_simps [simp]: "jt_out (sent r st) = jt_out st" "jt_sample (sent r st) = jt_sample st"
  "jt_requests (sent r st) = jt_requests st @ [r]"
  by (simp_all add: sent_def)

text \<open>What the ticks keep, whether they end with an error or not.\<close>

lemma poll_snapshots_keeps:
  assumes "in_limit (je_limit E) (jt_out st)"
  shows "in_limit (je_limit E) (jt_out (snd (poll_snapshots E rs st))) \<and> jt_sample st \<le> jt_sample (snd (poll_snapshots E rs st)) \<and>
    (\<exists>n \<le> length rs. jt_requests (snd (poll_snapshots E rs st)) = jt_requests st @ replicate n TakeSnapshot)"
  using assms
proof (induction E rs st rule: poll_snapshots.induct)
  case (2 E r rs st)
  let ?st = "sent TakeSnapshot st"
  have one: "\<exists>n \<le> length (r # rs). jt_requests st @ [TakeSnapshot] = jt_requests st @ replicate n TakeSnapshot"
    by (rule exI [of _ 1]) simp
  show ?case
  proof (cases "\<exists>s st2. fetch_snapshot E r = Inr s \<and> js_enabled s \<and> write_snapshot E s False ?st = (None, st2)")
    case True
    then obtain s st2 where s: "fetch_snapshot E r = Inr s" "js_enabled s" "write_snapshot E s False ?st = (None, st2)" by blast
    have k: "in_limit (je_limit E) (jt_out st2)" "jt_sample st \<le> jt_sample st2" "jt_requests st2 = jt_requests st @ [TakeSnapshot]"
      using write_snapshot_within [of E ?st s False] write_snapshot_sample [of ?st E s False]
        write_snapshot_requests [of E s False ?st] "2.prems" s(3) by simp_all
    from "2.IH" [OF refl s(1) _ s(3) [symmetric] refl k(1)] s(2) obtain n where
      n: "in_limit (je_limit E) (jt_out (snd (poll_snapshots E rs st2)))" "jt_sample st2 \<le> jt_sample (snd (poll_snapshots E rs st2))"
      "n \<le> length rs" "jt_requests (snd (poll_snapshots E rs st2)) = jt_requests st2 @ replicate n TakeSnapshot" by auto
    have p: "poll_snapshots E (r # rs) st = poll_snapshots E rs st2" using s by (simp add: Let_def)
    show ?thesis unfolding p by (intro conjI exI [of _ "Suc n"]) (use n k in auto)
  next
    case False
    then have "snd (poll_snapshots E (r # rs) st) = ?st \<or> (\<exists>s. snd (poll_snapshots E (r # rs) st) = snd (write_snapshot E s False ?st))"
      by (auto simp: Let_def split: sum.splits prod.splits option.splits) (metis snd_conv)+
    then show ?thesis
    proof (elim disjE exE)
      fix s assume p: "snd (poll_snapshots E (r # rs) st) = snd (write_snapshot E s False ?st)"
      show ?thesis
        unfolding p using write_snapshot_within [of E ?st s False] write_snapshot_sample [of ?st E s False] "2.prems" one by simp
    qed (use "2.prems" one in simp)
  qed
qed auto

lemma finish_metrics_keeps:
  assumes "in_limit (je_limit E) (jt_out st)"
  shows "in_limit (je_limit E) (jt_out (snd (finish_metrics E r (e, st)))) \<and> jt_sample st \<le> jt_sample (snd (finish_metrics E r (e, st))) \<and>
    jt_requests (snd (finish_metrics E r (e, st))) = jt_requests st @ [DisableMetrics]"
proof -
  let ?st = "sent DisableMetrics st"
  let ?d = "snd (disable_metrics E r st)"
  have "?d = ?st \<or> (\<exists>s. ?d = snd (write_snapshot E s True ?st))"
    by (auto simp: disable_metrics_def Let_def split: sum.splits)
  then have "in_limit (je_limit E) (jt_out ?d) \<and> jt_sample st \<le> jt_sample ?d \<and> jt_requests ?d = jt_requests st @ [DisableMetrics]"
  proof (elim disjE exE)
    fix s assume d: "?d = snd (write_snapshot E s True ?st)"
    show ?thesis unfolding d using write_snapshot_within [of E ?st s True] write_snapshot_sample [of ?st E s True] assms by simp
  qed (use assms in simp)
  then show ?thesis
    using flush_within by (auto simp: finish_metrics_def Let_def json_sink_def split: prod.splits)
qed

definition lease_kept :: "nat \<Rightarrow> json_state \<Rightarrow> bool" where
  "lease_kept ticks st \<longleftrightarrow>
     (jt_sample st = 0 \<and> jt_requests st \<in> {[], [EnableMetrics]}) \<or>
     (1 \<le> jt_sample st \<and> (\<exists>n \<le> ticks. jt_requests st = EnableMetrics # replicate n TakeSnapshot @ [DisableMetrics]))"

lemma collect_json_keeps:
  assumes "0 \<le> je_limit E"
  shows "in_limit (je_limit E) (jt_out (snd (collect_json E enable ticks disable))) \<and>
    lease_kept (length ticks) (snd (collect_json E enable ticks disable))"
proof -
  define b1 where "b1 = put_row (json_sink E) json_header new_out"
  define b2 where "b2 = flush (json_sink E) b1"
  define st0 where "st0 = sent EnableMetrics (new_json_state b2)"
  have w0: "in_limit (je_limit E) new_out" using assms by (simp add: in_limit_def)
  have w1: "in_limit (je_limit E) b1" unfolding b1_def put_row_def json_sink_def by (rule put_string_within [OF w0])
  then have w2: "in_limit (je_limit E) b2" unfolding b2_def json_sink_def by (rule flush_within)
  let ?c = "collect_json E enable ticks disable"
  have st0: "in_limit (je_limit E) (jt_out st0)" "jt_sample st0 = 0" "jt_requests st0 = [EnableMetrics]"
    using w2 by (simp_all add: st0_def new_json_state_def)
  have simple: ?thesis if "snd ?c \<in> {new_json_state b1, new_json_state b2, st0}"
    using that w1 w2 st0 by (auto simp: lease_kept_def new_json_state_def)
  show ?thesis
  proof (cases "\<exists>s. co_err b1 = None \<and> co_err b2 = None \<and> fetch_snapshot E enable = Inr s \<and> js_enabled s")
    case False
    then have "snd ?c \<in> {new_json_state b1, new_json_state b2, st0}"
      unfolding collect_json_def Let_def b1_def [symmetric] b2_def [symmetric] st0_def [symmetric] by (auto split: sum.splits)
    then show ?thesis by (rule simple)
  next
    case True
    then obtain s where s: "co_err b1 = None" "co_err b2 = None" "fetch_snapshot E enable = Inr s" "js_enabled s" by blast
    let ?st = "st0\<lparr>jt_generation := js_generation s\<rparr>"
    have c: "?c = (case write_snapshot E s False ?st of (Some e, st1) \<Rightarrow> (Some e, st1) | (None, st1) \<Rightarrow> finish_metrics E disable (poll_snapshots E ticks st1))"
      unfolding collect_json_def Let_def b1_def [symmetric] b2_def [symmetric] st0_def [symmetric] using s by simp
    have first: "in_limit (je_limit E) (jt_out (snd (write_snapshot E s False ?st)))" "jt_requests (snd (write_snapshot E s False ?st)) = [EnableMetrics]"
      using write_snapshot_within [of E ?st s False] st0 by simp_all
    show ?thesis
    proof (cases "write_snapshot E s False ?st")
      case (Pair e st1)
      show ?thesis
      proof (cases e)
        case (Some x)
        then have "jt_sample st1 = 0" using Pair st0(2) by (auto simp: write_snapshot_def Let_def split: if_splits)
        with Pair Some first show ?thesis by (simp add: c lease_kept_def)
      next
        case None
        then have "jt_sample st1 = 1" using Pair st0(2) by (auto simp: write_snapshot_def Let_def split: if_splits)
        moreover obtain e2 st2 where p: "poll_snapshots E ticks st1 = (e2, st2)" by fastforce
        ultimately show ?thesis
          using poll_snapshots_keeps [of E st1 ticks] finish_metrics_keeps [of E st2 disable e2] first Pair None
          by (auto simp: c p lease_kept_def)
      qed
    qed
  qed
qed

text \<open>
  C36. The command with its flags (main and collect of json-metrics-collector), whatever fails: the output never has
  more bytes than -max-output-bytes; and once the first snapshot is written, the requests are one to enable, at most one
  per tick, and as the last one the one to disable.\<close>

theorem json_run_guarded:
  assumes "json_main url F E created enable ticks disable = (status, Some st)"
  shows "int (length (co_written (jt_out st))) \<le> jf_max_output F \<and> lease_kept (length ticks) st"
proof -
  let ?E = "E\<lparr>je_max_bytes := jf_max_response F, je_limit := jf_max_output F\<rparr>"
  have f: "check_json_flags url F = None" and c: "st = snd (collect_json ?E enable ticks disable)"
    using assms by (auto simp: json_main_def split: option.splits if_splits prod.splits)
  have "0 \<le> je_limit ?E" using f by (auto simp: check_json_flags_def split: if_splits)
  then show ?thesis using collect_json_keeps [of ?E enable ticks disable] by (simp add: c in_limit_def)
qed


section \<open>A run\<close>

definition demo_metric :: json_metric where
  "demo_metric = \<lparr>jm_scope = ''global'', jm_entity = 0, jm_group = 0, jm_window = 0, jm_name = ''requests'', jm_value = 3\<rparr>"

definition demo_snapshot :: "bool \<Rightarrow> json_snapshot" where
  "demo_snapshot enabled =
     \<lparr>js_version = 1, js_generation = 5, js_enabled = enabled, js_started = 1, js_captured = 2, js_max_entities = 1,
      js_entity_entries = 0, js_metrics = [demo_metric]\<rparr>"

definition demo_reply :: "string \<Rightarrow> http_result" where
  "demo_reply body = Inr \<lparr>hr_status = 200, hr_body = \<lparr>in_body = body, in_read_err = None, in_close_err = None\<rparr>\<rparr>"

definition demo_json_env :: "int \<Rightarrow> json_env" where
  "demo_json_env limit =
     \<lparr>je_decode = (\<lambda>s. if s = ''on'' then Inr (demo_snapshot True) else if s = ''off'' then Inr (demo_snapshot False)
        else Inl (Errorf ''syntax'' [] [])),
      je_time = (\<lambda>t. ''T''), je_max_bytes = 9, je_limit = limit, je_sink = (\<lambda>d s. (length s, None))\<rparr>"

lemma demo_collect:
  "map_prod id jt_requests (collect_json (demo_json_env 400) (demo_reply ''on'') [demo_reply ''on''] (demo_reply ''off'')) =
     (None, [EnableMetrics, TakeSnapshot, DisableMetrics])"
  by code_simp

theorem json_run_complete_witness:
  "case collect_json (demo_json_env 400) (demo_reply ''on'') [demo_reply ''on''] (demo_reply ''off'') of
     (err, st) \<Rightarrow> co_written (jt_out st) = csv_write (json_header # numbered_rows (demo_json_env 400) 0
       [(False, demo_snapshot True), (False, demo_snapshot True), (True, demo_snapshot False)])"
proof -
  obtain st where st: "collect_json (demo_json_env 400) (demo_reply ''on'') [demo_reply ''on''] (demo_reply ''off'') = (None, st)"
    using demo_collect by (cases "collect_json (demo_json_env 400) (demo_reply ''on'') [demo_reply ''on''] (demo_reply ''off'')") simp
  have f: "fetch_snapshot (demo_json_env 400) (demo_reply ''on'') = Inr (demo_snapshot True)"
    "fetch_snapshot (demo_json_env 400) (demo_reply ''off'') = Inr (demo_snapshot False)"
    by code_simp+
  show ?thesis unfolding st using json_run_complete [OF st] f by auto
qed

definition demo_json_flags :: "int \<Rightarrow> json_flags" where
  "demo_json_flags limit =
     \<lparr>jf_enable = ''a'', jf_snapshot = ''b'', jf_disable = ''c'', jf_interval = 1, jf_timeout = 1, jf_max_output = limit, jf_max_response = 9\<rparr>"

text \<open>An output that is too small for the third snapshot: the metrics are still disabled.\<close>

lemma demo_json_main:
  "case json_main (\<lambda>s. Some (''http'', s)) (demo_json_flags 175) (demo_json_env 0) None (demo_reply ''on'')
       [demo_reply ''on'', demo_reply ''on''] (demo_reply ''off'') of
     (status, None) \<Rightarrow> False
   | (status, Some st) \<Rightarrow> status = 1 \<and> jt_sample st = 2 \<and> jt_requests st = [EnableMetrics, TakeSnapshot, TakeSnapshot, DisableMetrics]"
  by code_simp

theorem json_run_guarded_witness:
  "case json_main (\<lambda>s. Some (''http'', s)) (demo_json_flags 175) (demo_json_env 0) None (demo_reply ''on'')
       [demo_reply ''on'', demo_reply ''on''] (demo_reply ''off'') of
     (status, None) \<Rightarrow> False
   | (status, Some st) \<Rightarrow> status = 1 \<and> int (length (co_written (jt_out st))) \<le> 175 \<and> last (jt_requests st) = DisableMetrics"
proof -
  let ?m = "json_main (\<lambda>s. Some (''http'', s)) (demo_json_flags 175) (demo_json_env 0) None (demo_reply ''on'')
       [demo_reply ''on'', demo_reply ''on''] (demo_reply ''off'')"
  obtain st where m: "?m = (1, Some st)" and r: "last (jt_requests st) = DisableMetrics"
    using demo_json_main by (auto split: prod.splits option.splits)
  from json_run_guarded [OF m] have "int (length (co_written (jt_out st))) \<le> 175" by (simp add: demo_json_flags_def)
  with r show ?thesis unfolding m by simp
qed

text \<open>A signal that arrives while a snapshot is requested cancels the request, and the run then ends with an error
  although it was only asked to stop.\<close>

lemma interrupted_request: "fst (poll_snapshots E [Inl cancelled] st) = Some (Errorf ''snapshot'' [] [cancelled])"
  by (simp add: fetch_snapshot_def read_reply_def Let_def)

text \<open>When the first snapshot cannot be written, the metrics stay enabled until their lease ends.\<close>

lemma enabled_and_left:
  "map_prod (\<lambda>e. e \<noteq> None) jt_requests
     (collect_json (demo_json_env 100) (demo_reply ''on'') [] (demo_reply ''off'')) = (True, [EnableMetrics])"
  by code_simp

end
