(* ===== verification/SqlPool.thy ===== *)
theory SqlPool
  imports GoBuffer GoHttp
begin

text \<open>
  The collector of the connection pools of an application (tools/measurement/cmd/sql-pool-metrics): every tick takes a
  snapshot of the counters; a row per pool and metric gives them and their rates since the last snapshot that had the
  pool. A tick that fails is reported and passed over.

  The HTTP client, the decoder, the formatting of an instant, the ticks and the file below the output are parameters.
  Numbers are rationals, where the source has 64-bit integers and floating-point numbers.
\<close>

section \<open>Snapshots\<close>

record db_pool =
  dp_host :: string
  dp_name :: string
  dp_role :: string
  dp_shard :: int
  dp_max_open :: int
  dp_open :: int
  dp_in_use :: int
  dp_idle :: int
  dp_wait_count :: int
  dp_wait_ns :: int
  dp_max_idle_closed :: int
  dp_max_idle_time_closed :: int
  dp_max_lifetime_closed :: int

record pool_snapshot =
  pn_version :: int
  pn_started :: int
  pn_captured :: int
  pn_pools :: "db_pool list"
  pn_metrics :: "(string, fval) gomap"

definition host_char :: "char \<Rightarrow> bool" where
  "host_char c \<longleftrightarrow>
     lower_letter c \<or> (CHR ''A'' \<le> c \<and> c \<le> CHR ''Z'') \<or> is_digit c \<or> c \<in> {CHR ''_'', CHR ''.'', CHR '':'', CHR ''['', CHR '']'', CHR ''-''}"

definition host_matches :: "string \<Rightarrow> bool" where
  "host_matches s \<longleftrightarrow> s \<noteq> [] \<and> int (length s) \<le> 128 \<and> list_all host_char s"

definition pool_key :: "db_pool \<Rightarrow> string" where
  "pool_key p = dp_host p @ ''/'' @ dp_role p @ ''/'' @ dp_name p @ ''/'' @ format_int (dp_shard p)"

definition negative_pool :: "db_pool \<Rightarrow> bool" where
  "negative_pool p \<longleftrightarrow>
     dp_max_open p < 0 \<or> dp_open p < 0 \<or> dp_in_use p < 0 \<or> dp_idle p < 0 \<or> dp_wait_count p < 0 \<or> dp_wait_ns p < 0 \<or>
     dp_max_idle_closed p < 0 \<or> dp_max_idle_time_closed p < 0 \<or> dp_max_lifetime_closed p < 0"

text \<open>The keys of the pools that were checked.\<close>

definition check_db_pool :: "db_pool \<Rightarrow> string list \<Rightarrow> go_error + string list" where
  "check_db_pool p seen =
     (if \<not> label_matches 31 (dp_name p) \<or> \<not> label_matches 31 (dp_role p) \<or> dp_shard p < -1
      then Inl (Errorf ''invalid pool label'' [dp_name p] [])
      else if \<not> host_matches (dp_host p) then Inl (Errorf ''invalid database host'' [dp_host p] [])
      else if pool_key p \<in> set seen then Inl (Errorf ''duplicate pool'' [pool_key p] [])
      else if negative_pool p then Inl (Errorf ''negative pool metric'' [dp_name p] [])
      else if dp_open p < dp_in_use p \<or> dp_open p < dp_idle p
      then Inl (Errorf ''pool usage exceeds open connections'' [dp_name p] [])
      else Inr (pool_key p # seen))"

definition invalid_app_metric :: "string \<times> fval \<Rightarrow> bool" where
  "invalid_app_metric m \<longleftrightarrow>
     (case m of (name, v) \<Rightarrow> \<not> label_matches 31 name \<or> (case v of Fin x \<Rightarrow> False | Infinite p \<Rightarrow> True | Nan \<Rightarrow> True))"

definition validate_pools :: "pool_snapshot \<Rightarrow> int \<Rightarrow> int \<Rightarrow> int \<Rightarrow> go_error option" where
  "validate_pools s max_pools max_metrics len =
     (if len < 0 then Some (Errorf ''negative content length'' [] [])
      else if pn_version s \<noteq> 1 \<or> pn_started s \<le> 0 \<or> pn_captured s < pn_started s
      then Some (Errorf ''invalid snapshot metadata'' [] [])
      else if (pn_pools s = [] \<and> pn_metrics s = []) \<or> max_pools < int (length (pn_pools s))
      then Some (Errorf ''invalid pool count'' [format_nat (length (pn_pools s))] [])
      else if max_metrics < int (length (pn_metrics s)) then Some (Errorf ''too many snapshot metrics'' [] [])
      else if list_ex invalid_app_metric (pn_metrics s) then Some (Errorf ''invalid snapshot metric'' [] [])
      else (case fold_res check_db_pool (pn_pools s) [] of Inl e \<Rightarrow> Some e | Inr seen \<Rightarrow> None))"

section \<open>Rows\<close>

record pool_env =
  pl_decode :: "string \<Rightarrow> go_error + pool_snapshot"
  pl_time :: "int \<Rightarrow> string"
  pl_sink :: sink
  pl_max_pools :: int
  pl_max_metrics :: int
  pl_max_response :: int
  pl_limit :: int

definition fetch_pools :: "pool_env \<Rightarrow> http_result \<Rightarrow> go_error + pool_snapshot" where
  "fetch_pools E r =
     (case read_reply (pl_max_response E) r of
        Inl e \<Rightarrow> Inl e
      | Inr body \<Rightarrow>
          (case pl_decode E body of
             Inl e \<Rightarrow> Inl e
           | Inr s \<Rightarrow>
               (case validate_pools s (pl_max_pools E) (pl_max_metrics E) (int (length body)) of Some e \<Rightarrow> Inl e | None \<Rightarrow> Inr s)))"

definition pool_header :: "string list" where
  "pool_header =
     [''sample'', ''timestamp'', ''elapsed_ms'', ''database_host'', ''pool'', ''role'', ''shard'', ''metric'', ''value'']"

text \<open>The last snapshot of a pool: the time at which it was captured, and its counters.\<close>

type_synonym previous_pool = "int \<times> db_pool"

text \<open>The rates of the waits and of their duration, and the average wait.\<close>

definition wait_rates :: "int \<Rightarrow> db_pool \<Rightarrow> previous_pool option \<Rightarrow> rat \<times> rat \<times> rat" where
  "wait_rates now p prev =
     (case prev of
        None \<Rightarrow> (0, 0, 0)
      | Some (before, q) \<Rightarrow>
          (let seconds = (if before < now then of_int (now - before) / 1000 else 0);
               count = dp_wait_count p - dp_wait_count q; duration = dp_wait_ns p - dp_wait_ns q in
           if 0 < seconds \<and> dp_wait_count q \<le> dp_wait_count p \<and> dp_wait_ns q \<le> dp_wait_ns p
           then (of_int count / seconds, of_int duration / 1000000 / seconds,
             if 0 < count then of_int duration / 1000000 / of_int count else 0)
           else (0, 0, 0)))"

definition pool_metrics :: "int \<Rightarrow> db_pool \<Rightarrow> previous_pool option \<Rightarrow> (string \<times> rat) list" where
  "pool_metrics now p prev =
     (case wait_rates now p prev of
        (count_rate, duration_rate, average) \<Rightarrow>
          [(''max_open_connections'', of_int (dp_max_open p)), (''open_connections'', of_int (dp_open p)), (''in_use'', of_int (dp_in_use p)),
           (''idle'', of_int (dp_idle p)),
           (''pool_utilization_pct'', if 0 < dp_max_open p then of_int (dp_in_use p) * 100 / of_int (dp_max_open p) else 0),
           (''wait_count_total'', of_int (dp_wait_count p)), (''wait_duration_ms_total'', of_int (dp_wait_ns p) / 1000000),
           (''max_idle_closed_total'', of_int (dp_max_idle_closed p)), (''max_idle_time_closed_total'', of_int (dp_max_idle_time_closed p)),
           (''max_lifetime_closed_total'', of_int (dp_max_lifetime_closed p)), (''wait_count_per_sec'', count_rate),
           (''wait_duration_ms_per_sec'', duration_rate), (''average_wait_ms'', average)])"

definition sample_cells :: "pool_env \<Rightarrow> nat \<Rightarrow> pool_snapshot \<Rightarrow> string list" where
  "sample_cells E sample s =
     [format_nat sample, pl_time E (pn_captured s * 1000000), format_int (pn_captured s - pn_started s)]"

definition pool_rows :: "pool_env \<Rightarrow> nat \<Rightarrow> pool_snapshot \<Rightarrow> db_pool \<Rightarrow> previous_pool option \<Rightarrow> string list list" where
  "pool_rows E sample s p prev =
     map (\<lambda>(name, x). sample_cells E sample s @ [dp_host p, dp_name p, dp_role p, format_int (dp_shard p), name, format_decimals 6 x])
       (pool_metrics (pn_captured s) p prev)"

definition app_metric_rows :: "pool_env \<Rightarrow> nat \<Rightarrow> pool_snapshot \<Rightarrow> string list list" where
  "app_metric_rows E sample s =
     map (\<lambda>(name, v). sample_cells E sample s @ [''local'', ''snapshot'', ''metrics'', ''0'', name, format_fixed 6 v]) (pn_metrics s)"

section \<open>Collecting\<close>

record pool_state =
  pt_out :: csv_out
  pt_sample :: nat
  pt_previous :: "(string, previous_pool) gomap"

definition pool_sink :: "pool_env \<Rightarrow> sink" where
  "pool_sink E = limited (pl_limit E) (pl_sink E)"

text \<open>The rows of a pool; behind them it becomes the previous one.\<close>

fun write_pools :: "pool_env \<Rightarrow> pool_snapshot \<Rightarrow> db_pool list \<Rightarrow> pool_state \<Rightarrow> go_error option \<times> pool_state" where
  "write_pools E s [] st = (None, st)"
| "write_pools E s (p # ps) st =
     (let b = put_rows (pool_sink E) (pool_rows E (pt_sample st) s p (map_of (pt_previous st) (pool_key p))) (pt_out st);
          st1 = st\<lparr>pt_out := b\<rparr> in
      if co_err b \<noteq> None then (co_err b, st1)
      else write_pools E s ps (st1\<lparr>pt_previous := AList.update (pool_key p) (pn_captured s, p) (pt_previous st)\<rparr>))"

definition write_pool_snapshot :: "pool_env \<Rightarrow> pool_snapshot \<Rightarrow> pool_state \<Rightarrow> go_error option \<times> pool_state" where
  "write_pool_snapshot E s st =
     (case write_pools E s (pn_pools s) st of
        (Some e, st1) \<Rightarrow> (Some e, st1)
      | (None, st1) \<Rightarrow>
          (let b1 = put_rows (pool_sink E) (app_metric_rows E (pt_sample st1) s) (pt_out st1); b2 = flush (pool_sink E) b1 in
           if co_err b1 \<noteq> None then (co_err b1, st1\<lparr>pt_out := b1\<rparr>)
           else if co_err b2 \<noteq> None then (co_err b2, st1\<lparr>pt_out := b2\<rparr>)
           else (None, st1\<lparr>pt_out := b2, pt_sample := Suc (pt_sample st1)\<rparr>)))"

text \<open>A tick; its errors are only printed.\<close>

definition poll_pools :: "pool_env \<Rightarrow> http_result \<Rightarrow> pool_state \<Rightarrow> pool_state" where
  "poll_pools E r st =
     (case fetch_pools E r of
        Inl e \<Rightarrow> st
      | Inr s \<Rightarrow> snd (write_pool_snapshot E s st))"

definition collect_pools :: "pool_env \<Rightarrow> http_result \<Rightarrow> http_result list \<Rightarrow> go_error option \<times> pool_state" where
  "collect_pools E first ticks =
     (let b1 = put_row (pool_sink E) pool_header new_out; b2 = flush (pool_sink E) b1;
          start = (\<lambda>b. \<lparr>pt_out = b, pt_sample = 0, pt_previous = []\<rparr>) in
      if co_err b1 \<noteq> None then (co_err b1, start b1)
      else if co_err b2 \<noteq> None then (co_err b2, start b2)
      else
        (let st = fold (poll_pools E) (first # ticks) (start b2); b = flush (pool_sink E) (pt_out st) in
         (co_err b, st\<lparr>pt_out := b\<rparr>)))"

section \<open>The command\<close>

record pool_flags =
  pf_endpoint :: string
  pf_interval :: int
  pf_timeout :: int
  pf_max_pools :: int
  pf_max_metrics :: int
  pf_max_response :: int
  pf_max_output :: int

definition check_pool_flags :: "pool_flags \<Rightarrow> go_error option" where
  "check_pool_flags F =
     (if pf_interval F \<le> 0 \<or> pf_timeout F \<le> 0 \<or> pf_max_pools F \<le> 0 \<or> pf_max_metrics F \<le> 0 \<or> pf_max_response F \<le> 0 \<or> pf_max_output F \<le> 0
      then Some (Errorf ''interval, timeout, pool, metric, and byte limits must be greater than zero'' [] [])
      else if trim_space (pf_endpoint F) = [] then Some (Errorf ''endpoint must not be empty'' [] [])
      else None)"

definition pool_main ::
    "pool_flags \<Rightarrow> pool_env \<Rightarrow> go_error option \<Rightarrow> http_result \<Rightarrow> http_result list \<Rightarrow> nat \<times> pool_state option" where
  "pool_main F E created first ticks =
     (case check_pool_flags F of
        Some e \<Rightarrow> (2, None)
      | None \<Rightarrow>
          if created \<noteq> None then (1, None)
          else
            (case collect_pools
                (E\<lparr>pl_max_pools := pf_max_pools F, pl_max_metrics := pf_max_metrics F, pl_max_response := pf_max_response F,
                   pl_limit := pf_max_output F\<rparr>) first ticks of
               (err, st) \<Rightarrow> (if err = None then 0 else 1, Some st)))"

end
