(* ===== verification/SqlPoolProperties.thy ===== *)
theory SqlPoolProperties
  imports SqlPool
begin

text \<open>
  What the collector of the connection pools promises: the output is a function of the snapshots that were accepted,
  where every rate is taken against the last accepted snapshot that had the pool, whatever failed in between; rates are
  never negative; and the output never exceeds its limit.
\<close>

section \<open>The output of a list of snapshots\<close>

definition captured_pool :: "string \<Rightarrow> pool_snapshot \<Rightarrow> previous_pool option" where
  "captured_pool k s = map_of (map (\<lambda>p. (pool_key p, (pn_captured s, p))) (pn_pools s)) k"

text \<open>The pool in the last of the snapshots that has it; the newest one comes first.\<close>

fun last_pool :: "string \<Rightarrow> pool_snapshot list \<Rightarrow> previous_pool option" where
  "last_pool k [] = None"
| "last_pool k (s # before) = (case captured_pool k s of Some x \<Rightarrow> Some x | None \<Rightarrow> last_pool k before)"

definition snapshot_rows :: "pool_env \<Rightarrow> pool_snapshot list \<Rightarrow> pool_snapshot \<Rightarrow> string list list" where
  "snapshot_rows E before s =
     concat (map (\<lambda>p. pool_rows E (length before) s p (last_pool (pool_key p) before)) (pn_pools s)) @
     app_metric_rows E (length before) s"

fun all_rows :: "pool_env \<Rightarrow> pool_snapshot list \<Rightarrow> pool_snapshot list \<Rightarrow> string list list" where
  "all_rows E before [] = []"
| "all_rows E before (s # ss) = snapshot_rows E before s @ all_rows E (s # before) ss"

definition accepted :: "pool_env \<Rightarrow> http_result list \<Rightarrow> pool_snapshot list" where
  "accepted E rs = List.map_filter (\<lambda>r. case fetch_pools E r of Inl e \<Rightarrow> None | Inr s \<Rightarrow> Some s) rs"

text \<open>A snapshot that is accepted has no pool twice.\<close>

lemma check_db_pools_distinct:
  "fold_res check_db_pool ps seen = Inr seen' \<Longrightarrow>
     distinct (map pool_key ps) \<and> set (map pool_key ps) \<inter> set seen = {} \<and>
     list_all (\<lambda>p. \<not> negative_pool p \<and> dp_in_use p \<le> dp_open p \<and> dp_idle p \<le> dp_open p) ps"
proof (induction ps arbitrary: seen)
  case (Cons p ps)
  then obtain seen1 where c: "check_db_pool p seen = Inr seen1" and f: "fold_res check_db_pool ps seen1 = Inr seen'"
    by (auto split: sum.splits)
  have "seen1 = pool_key p # seen" using c by (auto simp: check_db_pool_def split: if_splits)
  with Cons.IH [OF f] c show ?case by (auto simp: check_db_pool_def split: if_splits)
qed simp

lemma fetched_pools_distinct: "fetch_pools E r = Inr s \<Longrightarrow> distinct (map pool_key (pn_pools s))"
  by (auto simp: fetch_pools_def validate_pools_def split: sum.splits option.splits if_splits dest: check_db_pools_distinct)

section \<open>Writing them\<close>

lemma write_pools_ok:
  assumes "write_pools E s ps st = (None, st')" and "distinct (map pool_key ps)"
  shows "in_flight (pt_out st') = in_flight (pt_out st) @
      csv_write (concat (map (\<lambda>p. pool_rows E (pt_sample st) s p (map_of (pt_previous st) (pool_key p))) ps)) \<and>
    (co_err (pt_out st) = None \<longrightarrow> co_err (pt_out st') = None) \<and> pt_sample st' = pt_sample st \<and>
    (\<forall>k. map_of (pt_previous st') k =
      (case map_of (map (\<lambda>p. (pool_key p, (pn_captured s, p))) ps) k of Some x \<Rightarrow> Some x | None \<Rightarrow> map_of (pt_previous st) k))"
  using assms
proof (induction E s ps st rule: write_pools.induct)
  case (2 E s p ps st)
  define b where "b = put_rows (pool_sink E) (pool_rows E (pt_sample st) s p (map_of (pt_previous st) (pool_key p))) (pt_out st)"
  define st2 where "st2 = st\<lparr>pt_out := b, pt_previous := AList.update (pool_key p) (pn_captured s, p) (pt_previous st)\<rparr>"
  have e: "co_err b = None" and w: "write_pools E s ps st2 = (None, st')"
    using "2.prems"(1) by (auto simp: Let_def b_def st2_def split: if_splits)
  have f: "in_flight b = in_flight (pt_out st) @ csv_write (pool_rows E (pt_sample st) s p (map_of (pt_previous st) (pool_key p)))"
    using e unfolding b_def by (rule put_rows_ok)
  have same: "map_of (pt_previous st2) (pool_key q) = map_of (pt_previous st) (pool_key q)" if "q \<in> set ps" for q
  proof -
    have "pool_key q \<in> pool_key ` set ps" using that by blast
    then have "pool_key q \<noteq> pool_key p" using "2.prems"(2) by auto
    then show ?thesis by (simp add: st2_def update_conv')
  qed
  have "in_flight (pt_out st') = in_flight (pt_out st2) @
      csv_write (concat (map (\<lambda>p. pool_rows E (pt_sample st2) s p (map_of (pt_previous st2) (pool_key p))) ps)) \<and>
    (co_err (pt_out st2) = None \<longrightarrow> co_err (pt_out st') = None) \<and> pt_sample st' = pt_sample st2 \<and>
    (\<forall>k. map_of (pt_previous st') k =
      (case map_of (map (\<lambda>p. (pool_key p, (pn_captured s, p))) ps) k of Some x \<Rightarrow> Some x | None \<Rightarrow> map_of (pt_previous st2) k))"
    using "2.IH" [OF refl refl] e w "2.prems"(2) unfolding b_def st2_def by simp
  moreover have "map_of (map (\<lambda>p. (pool_key p, (pn_captured s, p))) ps) (pool_key p) = None"
    using "2.prems"(2) by (force simp: map_of_eq_None_iff)
  moreover have "concat (map (\<lambda>p. pool_rows E (pt_sample st2) s p (map_of (pt_previous st2) (pool_key p))) ps) =
      concat (map (\<lambda>p. pool_rows E (pt_sample st) s p (map_of (pt_previous st) (pool_key p))) ps)"
    by (rule arg_cong [of _ _ concat], rule map_cong) (simp_all only: same, simp_all add: st2_def)
  ultimately show ?case using f e by (auto simp: st2_def update_conv' split: option.splits)
qed simp

definition pools_written :: "pool_env \<Rightarrow> pool_state \<Rightarrow> string \<Rightarrow> pool_snapshot list \<Rightarrow> bool" where
  "pools_written E st out before \<longleftrightarrow>
     co_err (pt_out st) = None \<and> co_buffer (pt_out st) = [] \<and> co_written (pt_out st) = out \<and>
     pt_sample st = length before \<and> (\<forall>k. map_of (pt_previous st) k = last_pool k before)"

lemma write_pools_sticky: "co_err (pt_out st) \<noteq> None \<Longrightarrow> co_err (pt_out (snd (write_pools E s ps st))) \<noteq> None"
proof (induction E s ps st rule: write_pools.induct)
  case (2 E s p ps st)
  then show ?case by (auto simp: Let_def put_rows_sticky)
qed simp

lemma write_pools_result: "write_pools E s ps st = (e, st') \<Longrightarrow> co_err (pt_out st) = None \<Longrightarrow> co_err (pt_out st') = e"
proof (induction E s ps st rule: write_pools.induct)
  case (2 E s p ps st)
  then show ?case by (auto simp: Let_def split: if_splits)
qed simp

lemma write_pool_snapshot_sticky: "co_err (pt_out st) \<noteq> None \<Longrightarrow> co_err (pt_out (snd (write_pool_snapshot E s st))) \<noteq> None"
  using write_pools_sticky [of st E s "pn_pools s"]
  by (auto simp: write_pool_snapshot_def Let_def put_rows_sticky split: prod.splits option.splits)

lemma poll_pools_sticky: "co_err (pt_out st) \<noteq> None \<Longrightarrow> co_err (pt_out (poll_pools E r st)) \<noteq> None"
  using write_pool_snapshot_sticky by (simp add: poll_pools_def split: sum.splits)

lemma fold_poll_sticky: "co_err (pt_out st) \<noteq> None \<Longrightarrow> co_err (pt_out (fold (poll_pools E) rs st)) \<noteq> None"
proof (induction rs arbitrary: st)
  case (Cons r rs)
  show ?case unfolding fold_simps comp_apply by (rule Cons.IH) (rule poll_pools_sticky [OF Cons.prems])
qed simp

lemma write_pool_snapshot_ok:
  assumes "co_err (pt_out (snd (write_pool_snapshot E s st))) = None" and "pools_written E st out before"
    and "distinct (map pool_key (pn_pools s))"
  shows "pools_written E (snd (write_pool_snapshot E s st)) (out @ csv_write (snapshot_rows E before s)) (s # before)"
proof -
  obtain e st1 where w: "write_pools E s (pn_pools s) st = (e, st1)" by fastforce
  have i: "co_err (pt_out st) = None" "in_flight (pt_out st) = out" "pt_sample st = length before"
    "\<And>k. map_of (pt_previous st) k = last_pool k before"
    using assms(2) by (simp_all add: pools_written_def in_flight_def)
  have e: "co_err (pt_out st1) = e" using w i(1) by (rule write_pools_result)
  then have "e = None" using assms(1) w by (cases e) (simp_all add: write_pool_snapshot_def)
  note k = write_pools_ok [OF w [unfolded this] assms(3)]
  define b1 where "b1 = put_rows (pool_sink E) (app_metric_rows E (pt_sample st1) s) (pt_out st1)"
  define b2 where "b2 = flush (pool_sink E) b1"
  have e2: "co_err b2 = None" "snd (write_pool_snapshot E s st) = st1\<lparr>pt_out := b2, pt_sample := Suc (pt_sample st1)\<rparr>"
    using assms(1) w \<open>e = None\<close> by (auto simp: write_pool_snapshot_def Let_def b1_def b2_def split: if_splits)
  have e1: "co_err b1 = None" using e2(1) unfolding b2_def by (rule flush_err)
  have "in_flight b1 = in_flight (pt_out st1) @ csv_write (app_metric_rows E (pt_sample st1) s)"
    using e1 unfolding b1_def by (rule put_rows_ok)
  then have "co_buffer b2 = [] \<and> co_written b2 = out @ csv_write (snapshot_rows E before s)"
    using flush_ok [OF e2(1) [unfolded b2_def]] k i by (simp add: b2_def snapshot_rows_def)
  moreover have "\<forall>k. map_of (pt_previous st1) k = last_pool k (s # before)"
    using k i(4) by (simp add: captured_pool_def option.case_eq_if)
  ultimately show ?thesis using k i(3) e2 by (simp add: pools_written_def)
qed

lemma fold_poll_ok:
  assumes "co_err (pt_out (fold (poll_pools E) rs st)) = None" and "pools_written E st out before"
  shows "\<exists>before'. pools_written E (fold (poll_pools E) rs st) (out @ csv_write (all_rows E before (accepted E rs))) before'"
  using assms
proof (induction rs arbitrary: st out before)
  case (Cons r rs)
  have e: "co_err (pt_out (poll_pools E r st)) = None" using Cons.prems(1) fold_poll_sticky [of "poll_pools E r st" E rs]
    by (cases "co_err (pt_out (poll_pools E r st))") auto
  show ?case
  proof (cases "fetch_pools E r")
    case (Inl x)
    with Cons show ?thesis by (simp add: accepted_def poll_pools_def map_filter_simps)
  next
    case (Inr s)
    with e have "pools_written E (poll_pools E r st) (out @ csv_write (snapshot_rows E before s)) (s # before)"
      using write_pool_snapshot_ok [OF _ Cons.prems(2) fetched_pools_distinct] by (simp add: poll_pools_def)
    from Cons.IH [OF _ this] Cons.prems(1) Inr show ?thesis by (simp add: accepted_def map_filter_simps)
  qed
qed (auto simp: accepted_def map_filter_simps)

text \<open>
  C37. A run of the collector whose output takes everything (collect, poll and write of sql-pool-metrics): the output
  is the header and the rows of exactly the snapshots that were fetched and valid, numbered without gaps; the rates of a
  pool are taken against the last of these snapshots that has the pool, however many ticks failed or lacked it in
  between.\<close>

theorem pools_from_accepted:
  assumes "collect_pools E first ticks = (None, st)"
  shows "co_written (pt_out st) = csv_write (pool_header # all_rows E [] (accepted E (first # ticks)))"
proof -
  define b1 where "b1 = put_row (pool_sink E) pool_header new_out"
  define b2 where "b2 = flush (pool_sink E) b1"
  define st0 where "st0 = \<lparr>pt_out = b2, pt_sample = 0, pt_previous = []\<rparr>"
  define st1 where "st1 = fold (poll_pools E) (first # ticks) st0"
  have e: "co_err b1 = None" "co_err b2 = None" and f: "co_err (flush (pool_sink E) (pt_out st1)) = None"
    and st: "st = st1\<lparr>pt_out := flush (pool_sink E) (pt_out st1)\<rparr>"
    using assms unfolding collect_pools_def b1_def [symmetric]
    by (auto simp: Let_def b2_def st0_def st1_def split: if_splits)
  have "in_flight b1 = csv_row pool_header"
    using put_string_ok [of "pool_sink E" "csv_row pool_header" new_out] e(1) by (simp add: b1_def put_row_def)
  then have "co_buffer b2 = []" "co_written b2 = csv_row pool_header" using flush_ok [of "pool_sink E" b1] e(2) by (simp_all add: b2_def)
  then have "pools_written E st0 (csv_row pool_header) []" using e by (simp add: pools_written_def st0_def)
  with flush_err [OF f] obtain before where "pools_written E st1 (csv_row pool_header @ csv_write (all_rows E [] (accepted E (first # ticks)))) before"
    using fold_poll_ok [of E "first # ticks" st0] unfolding st1_def by blast
  then show ?thesis by (simp add: pools_written_def st flush_def csv_write_def)
qed


section \<open>Enough room\<close>

lemma write_pools_accept:
  assumes "pl_sink E = accept" and "co_err (pt_out st) = None" and "distinct (map pool_key ps)"
    and "int (length (in_flight (pt_out st))) +
      int (length (csv_write (concat (map (\<lambda>p. pool_rows E (pt_sample st) s p (map_of (pt_previous st) (pool_key p))) ps)))) \<le> pl_limit E"
  shows "fst (write_pools E s ps st) = None"
  using assms
proof (induction E s ps st rule: write_pools.induct)
  case (2 E s p ps st)
  define rows where "rows = pool_rows E (pt_sample st) s p (map_of (pt_previous st) (pool_key p))"
  define b where "b = put_rows (pool_sink E) rows (pt_out st)"
  define st2 where "st2 = st\<lparr>pt_out := b, pt_previous := AList.update (pool_key p) (pn_captured s, p) (pt_previous st)\<rparr>"
  have k: "map_of (pt_previous st2) (pool_key q) = map_of (pt_previous st) (pool_key q)" if "q \<in> set ps" for q
  proof -
    have "pool_key q \<in> pool_key ` set ps" using that by blast
    then have "pool_key q \<noteq> pool_key p" using "2.prems"(3) by auto
    then show ?thesis by (simp add: st2_def update_conv')
  qed
  have same: "concat (map (\<lambda>p. pool_rows E (pt_sample st2) s p (map_of (pt_previous st2) (pool_key p))) ps) =
      concat (map (\<lambda>p. pool_rows E (pt_sample st) s p (map_of (pt_previous st) (pool_key p))) ps)"
    by (rule arg_cong [of _ _ concat], rule map_cong) (simp_all only: k, simp_all add: st2_def)
  have room: "int (length (in_flight (pt_out st))) + int (length (csv_write rows)) +
      int (length (csv_write (concat (map (\<lambda>p. pool_rows E (pt_sample st) s p (map_of (pt_previous st) (pool_key p))) ps)))) \<le> pl_limit E"
    using "2.prems"(4) by (simp add: rows_def)
  have e: "co_err b = None"
    unfolding b_def pool_sink_def "2.prems"(1) by (rule put_rows_accept) (use "2.prems"(2) room in simp_all)
  have "in_flight b = in_flight (pt_out st) @ csv_write rows" using e unfolding b_def by (rule put_rows_ok)
  then have "fst (write_pools E s ps st2) = None"
    using "2.IH" [OF refl refl _ "2.prems"(1)] e "2.prems"(3) same room unfolding b_def st2_def rows_def by simp
  then show ?case using e by (simp add: Let_def b_def st2_def rows_def)
qed simp

lemma write_pool_snapshot_accept:
  assumes "pl_sink E = accept" and "pools_written E st out before" and "distinct (map pool_key (pn_pools s))"
    and "int (length (out @ csv_write (snapshot_rows E before s))) \<le> pl_limit E"
  shows "co_err (pt_out (snd (write_pool_snapshot E s st))) = None"
proof -
  have i: "co_err (pt_out st) = None" "in_flight (pt_out st) = out" "pt_sample st = length before"
    "\<And>k. map_of (pt_previous st) k = last_pool k before"
    using assms(2) by (simp_all add: pools_written_def in_flight_def)
  obtain e st1 where w: "write_pools E s (pn_pools s) st = (e, st1)" by fastforce
  have "e = None" using write_pools_accept [OF assms(1) i(1) assms(3), of s] assms(4) w i by (simp add: snapshot_rows_def)
  note k = write_pools_ok [OF w [unfolded this] assms(3)]
  define b1 where "b1 = put_rows (pool_sink E) (app_metric_rows E (pt_sample st1) s) (pt_out st1)"
  have r: "int (length (in_flight (pt_out st1))) + int (length (csv_write (app_metric_rows E (pt_sample st1) s))) \<le> pl_limit E"
    using k i assms(4) by (simp add: snapshot_rows_def)
  have e1: "co_err b1 = None"
    unfolding b1_def pool_sink_def assms(1) by (rule put_rows_accept) (use k i r in simp_all)
  have "in_flight b1 = in_flight (pt_out st1) @ csv_write (app_metric_rows E (pt_sample st1) s)"
    using e1 unfolding b1_def by (rule put_rows_ok)
  then have "co_err (flush (pool_sink E) b1) = None"
    unfolding pool_sink_def assms(1) by (intro flush_accept e1) (use r in simp)
  then show ?thesis using w \<open>e = None\<close> e1 by (simp add: write_pool_snapshot_def Let_def b1_def)
qed

lemma fold_poll_accept:
  assumes "pl_sink E = accept" and "pools_written E st out before"
    and "int (length (out @ csv_write (all_rows E before (accepted E rs)))) \<le> pl_limit E"
  shows "co_err (pt_out (fold (poll_pools E) rs st)) = None"
  using assms(2,3)
proof (induction rs arbitrary: st out before)
  case Nil
  then show ?case by (simp add: pools_written_def)
next
  case (Cons r rs)
  show ?case
  proof (cases "fetch_pools E r")
    case (Inl x)
    with Cons show ?thesis by (simp add: accepted_def poll_pools_def map_filter_simps)
  next
    case (Inr s)
    then have p: "poll_pools E r st = snd (write_pool_snapshot E s st)" by (simp add: poll_pools_def)
    have l: "int (length (out @ csv_write (snapshot_rows E before s) @ csv_write (all_rows E (s # before) (accepted E rs)))) \<le> pl_limit E"
      using Cons.prems(2) Inr by (simp add: accepted_def map_filter_simps)
    have e: "co_err (pt_out (poll_pools E r st)) = None"
      unfolding p by (rule write_pool_snapshot_accept [OF assms(1) Cons.prems(1) fetched_pools_distinct [OF Inr]]) (use l in simp)
    have "pools_written E (poll_pools E r st) (out @ csv_write (snapshot_rows E before s)) (s # before)"
      using write_pool_snapshot_ok [OF e [unfolded p] Cons.prems(1) fetched_pools_distinct [OF Inr]] unfolding p .
    from Cons.IH [OF this] l show ?thesis by simp
  qed
qed

lemma collect_pools_accept:
  assumes "pl_sink E = accept" and "int (length (csv_write (pool_header # all_rows E [] (accepted E (first # ticks))))) \<le> pl_limit E"
  shows "fst (collect_pools E first ticks) = None"
proof -
  define b1 where "b1 = put_row (pool_sink E) pool_header new_out"
  define b2 where "b2 = flush (pool_sink E) b1"
  define st0 where "st0 = \<lparr>pt_out = b2, pt_sample = 0, pt_previous = []\<rparr>"
  have r: "int (length (csv_row pool_header)) \<le> pl_limit E" using assms(2) by (simp add: csv_write_def)
  have e1: "co_err b1 = None"
    unfolding b1_def put_row_def pool_sink_def assms(1) by (rule put_string_accept) (use r in simp_all)
  have f1: "in_flight b1 = csv_row pool_header"
    using put_string_ok [of "pool_sink E" "csv_row pool_header" new_out] e1 by (simp add: b1_def put_row_def)
  have e2: "co_err b2 = None" unfolding b2_def pool_sink_def assms(1) by (intro flush_accept e1) (use r f1 in simp)
  have "pools_written E st0 (csv_row pool_header) []"
    using flush_ok [OF e2 [unfolded b2_def]] f1 e2 by (simp add: pools_written_def st0_def b2_def)
  note w = this
  have e: "co_err (pt_out (fold (poll_pools E) (first # ticks) st0)) = None"
    by (rule fold_poll_accept [OF assms(1) w]) (use assms(2) in \<open>simp add: csv_write_def\<close>)
  with fold_poll_ok [OF e w] have "co_err (flush (pool_sink E) (pt_out (fold (poll_pools E) (first # ticks) st0))) = None"
    by (auto simp: pools_written_def flush_def)
  then show ?thesis using e1 e2 unfolding collect_pools_def Let_def b1_def [symmetric] b2_def [symmetric] by (simp add: st0_def)
qed

section \<open>Rates\<close>

text \<open>Rates and the average are never negative, even when the application was restarted, and they agree with each
  other.\<close>

lemma wait_rates_sound:
  "case wait_rates now p prev of (count_rate, duration_rate, average) \<Rightarrow>
     0 \<le> count_rate \<and> 0 \<le> duration_rate \<and> 0 \<le> average \<and> (count_rate = 0 \<or> average * count_rate = duration_rate)"
proof (cases prev)
  case (Some x)
  obtain before q where x: "x = (before, q)" by fastforce
  show ?thesis by (simp add: Some x wait_rates_def Let_def field_simps)
qed (simp add: wait_rates_def)

section \<open>The limit\<close>

lemma write_pools_in_limit: "in_limit (pl_limit E) (pt_out st) \<Longrightarrow> in_limit (pl_limit E) (pt_out (snd (write_pools E s ps st)))"
proof (induction E s ps st rule: write_pools.induct)
  case (2 E s p ps st)
  then show ?case using put_rows_within by (simp add: Let_def pool_sink_def)
qed simp

lemma poll_pools_in_limit:
  assumes "in_limit (pl_limit E) (pt_out st)"
  shows "in_limit (pl_limit E) (pt_out (poll_pools E r st))"
proof (cases "fetch_pools E r")
  case (Inr s)
  obtain e st1 where w: "write_pools E s (pn_pools s) st = (e, st1)" by fastforce
  then have "in_limit (pl_limit E) (pt_out st1)" using write_pools_in_limit [OF assms, of s "pn_pools s"] by simp
  then show ?thesis
    using flush_within put_rows_within
    by (auto simp: poll_pools_def Inr write_pool_snapshot_def w Let_def pool_sink_def split: option.splits)
qed (use assms in \<open>simp add: poll_pools_def\<close>)

lemma fold_poll_in_limit: "in_limit (pl_limit E) (pt_out st) \<Longrightarrow> in_limit (pl_limit E) (pt_out (fold (poll_pools E) rs st))"
  by (induction rs arbitrary: st) (simp_all add: poll_pools_in_limit)

text \<open>Whatever happens, the output has at most as many bytes as the flag allows.\<close>

lemma pool_output_bounded:
  assumes "pool_main F E created first ticks = (status, Some st)"
  shows "int (length (co_written (pt_out st))) \<le> pf_max_output F"
proof -
  let ?E = "E\<lparr>pl_max_pools := pf_max_pools F, pl_max_metrics := pf_max_metrics F, pl_max_response := pf_max_response F,
    pl_limit := pf_max_output F\<rparr>"
  have f: "check_pool_flags F = None" and c: "st = snd (collect_pools ?E first ticks)"
    using assms by (auto simp: pool_main_def split: option.splits if_splits prod.splits)
  define b1 where "b1 = put_row (pool_sink ?E) pool_header new_out"
  define b2 where "b2 = flush (pool_sink ?E) b1"
  have "in_limit (pl_limit ?E) new_out" using f by (auto simp: check_pool_flags_def in_limit_def split: if_splits)
  then have 1: "in_limit (pl_limit ?E) b1" unfolding b1_def put_row_def pool_sink_def by (rule put_string_within)
  then have 2: "in_limit (pl_limit ?E) b2" unfolding b2_def pool_sink_def by (rule flush_within)
  have 3: "in_limit (pl_limit ?E) (flush (pool_sink ?E) (pt_out (fold (poll_pools ?E) rs \<lparr>pt_out = b2, pt_sample = 0, pt_previous = []\<rparr>)))" for rs
    using fold_poll_in_limit [of ?E "\<lparr>pt_out = b2, pt_sample = 0, pt_previous = []\<rparr>" rs] 2 flush_within by (simp add: pool_sink_def)
  have "in_limit (pl_limit ?E) (pt_out st)"
    unfolding c collect_pools_def Let_def b1_def [symmetric] b2_def [symmetric] using 1 2 3 [of "first # ticks"] by simp
  then show ?thesis by (simp add: in_limit_def)
qed

section \<open>A run\<close>

definition demo_pool :: "int \<Rightarrow> db_pool" where
  "demo_pool n =
     \<lparr>dp_host = ''h'', dp_name = ''main'', dp_role = ''rw'', dp_shard = 0, dp_max_open = 4, dp_open = 2, dp_in_use = 1, dp_idle = 1,
      dp_wait_count = n, dp_wait_ns = 0, dp_max_idle_closed = 0, dp_max_idle_time_closed = 0, dp_max_lifetime_closed = 0\<rparr>"

definition demo_pools :: "int \<Rightarrow> pool_snapshot" where
  "demo_pools n = \<lparr>pn_version = 1, pn_started = 1, pn_captured = n, pn_pools = [demo_pool n], pn_metrics = []\<rparr>"

definition demo_pool_env :: pool_env where
  "demo_pool_env =
     \<lparr>pl_decode = (\<lambda>s. case parse_int64 s of None \<Rightarrow> Inl (Errorf ''syntax'' [] []) | Some n \<Rightarrow> Inr (demo_pools n)),
      pl_time = (\<lambda>t. ''T''), pl_sink = accept, pl_max_pools = 2, pl_max_metrics = 2, pl_max_response = 9,
      pl_limit = 5000\<rparr>"

definition demo_body :: "string \<Rightarrow> http_result" where
  "demo_body body = Inr \<lparr>hr_status = 200, hr_body = \<lparr>in_body = body, in_read_err = None, in_close_err = None\<rparr>\<rparr>"

lemma demo_accepted: "accepted demo_pool_env [demo_body ''2'', demo_body ''?'', demo_body ''4''] = [demo_pools 2, demo_pools 4]"
  by code_simp

lemma demo_pool_run: "fst (collect_pools demo_pool_env (demo_body ''2'') [demo_body ''?'', demo_body ''4'']) = None"
proof (rule collect_pools_accept)
  have "int (length (csv_write (pool_header # all_rows demo_pool_env [] [demo_pools 2, demo_pools 4]))) \<le> 5000" by code_simp
  then show "int (length (csv_write (pool_header # all_rows demo_pool_env []
      (accepted demo_pool_env (demo_body ''2'' # [demo_body ''?'', demo_body ''4'']))))) \<le> pl_limit demo_pool_env"
    unfolding demo_accepted by (simp add: demo_pool_env_def)
qed (simp add: demo_pool_env_def)

text \<open>The second tick fails; the rates of the third one are taken against the first one: two waits in two
  milliseconds.\<close>

theorem pools_from_accepted_witness:
  "co_written (pt_out (snd (collect_pools demo_pool_env (demo_body ''2'') [demo_body ''?'', demo_body ''4'']))) =
     csv_write (pool_header # all_rows demo_pool_env [] [demo_pools 2, demo_pools 4]) \<and>
   wait_rates 4 (demo_pool 4) (last_pool (pool_key (demo_pool 4)) [demo_pools 2]) = (1000, 0, 0)"
proof -
  obtain st where st: "collect_pools demo_pool_env (demo_body ''2'') [demo_body ''?'', demo_body ''4''] = (None, st)"
    using demo_pool_run by (cases "collect_pools demo_pool_env (demo_body ''2'') [demo_body ''?'', demo_body ''4'']") simp
  have "wait_rates 4 (demo_pool 4) (last_pool (pool_key (demo_pool 4)) [demo_pools 2]) = (1000, 0, 0)" by code_simp
  then show ?thesis using pools_from_accepted [OF st] by (simp add: st demo_accepted)
qed

end
