(* ===== verification/MysqlMetrics.thy ===== *)
theory MysqlMetrics
  imports GoBuffer GoInput GoTime "HOL-Library.Word"
begin

text \<open>
  The collector of the status of MySQL (tools/measurement/cmd/mysql-metrics): a row of counters and rates per tick
  (main.go), and beside it the waits for row locks (lock_waits.go).

  The database, the clock, the formatting of an instant, the ticks and the files of the outputs are parameters. Counters
  are 64-bit words, rates rationals. The two collectors run beside each other and share nothing but the signal that ends
  them.
\<close>

section \<open>The status\<close>

type_synonym counter = "64 word"

definition counter_rat :: "counter \<Rightarrow> rat" where
  "counter_rat w = of_nat (unat w)"

definition format_counter :: "counter \<Rightarrow> string" where
  "format_counter w = format_int (int (unat w))"

record status_snapshot =
  mq_at :: int
  mq_rows :: nat
  mq_max :: counter
  mq_values :: "(string, counter) gomap"

text \<open>The answer to a poll: the rows of the status with the error behind them and the error of closing them, the
  limit of the connections, and the time.\<close>

record mysql_reply =
  mr_rows :: "go_error + (go_error + string \<times> string) list \<times> go_error option \<times> go_error option"
  mr_max :: "go_error + string"
  mr_now :: int

definition parse_counter :: "string \<Rightarrow> counter option" where
  "parse_counter s = map_option word_of_nat (parse_uint64 s)"

definition status_row :: "go_error + string \<times> string \<Rightarrow> (string, counter) gomap \<times> nat \<Rightarrow> go_error + (string, counter) gomap \<times> nat" where
  "status_row r acc =
     (case r of
        Inl e \<Rightarrow> Inl e
      | Inr (name, raw) \<Rightarrow>
          (case parse_counter raw of
             None \<Rightarrow> Inl (Errorf ''parse'' [name, raw] [])
           | Some v \<Rightarrow> Inr (AList.update name v (fst acc), Suc (snd acc))))"

definition query_status :: "mysql_reply \<Rightarrow> go_error + status_snapshot" where
  "query_status r =
     (case mr_rows r of
        Inl e \<Rightarrow> Inl e
      | Inr (rows, rows_err, close_err) \<Rightarrow>
          (case fold_res status_row rows ([], 0) of
             Inl e \<Rightarrow> Inl e
           | Inr (values, n) \<Rightarrow>
               (case rows_err of
                  Some e \<Rightarrow> Inl e
                | None \<Rightarrow>
               (case close_err of
                  Some e \<Rightarrow> Inl e
                | None \<Rightarrow>
               (case mr_max r of
                  Inl e \<Rightarrow> Inl (Errorf ''query max_connections'' [] [e])
                | Inr raw \<Rightarrow>
                    (case parse_counter raw of
                       None \<Rightarrow> Inl (Errorf ''parse max_connections'' [raw] [])
                     | Some m \<Rightarrow> Inr \<lparr>mq_at = mr_now r, mq_rows = n, mq_max = m, mq_values = values\<rparr>))))))"

section \<open>A row\<close>

definition counter_difference :: "counter \<Rightarrow> counter \<Rightarrow> counter" where
  "counter_difference current before = (if current < before then current else current - before)"

definition format_rate :: "counter \<Rightarrow> rat \<Rightarrow> string" where
  "format_rate v seconds = (if seconds \<le> 0 then ''0.000'' else format_decimals 3 (counter_rat v / seconds))"

definition hit_percent :: "counter \<Rightarrow> counter \<Rightarrow> rat" where
  "hit_percent requests reads = counter_rat (requests - (if requests < reads then requests else reads)) * 100 / counter_rat requests"

definition format_hit_rate :: "counter \<Rightarrow> counter \<Rightarrow> rat \<Rightarrow> string" where
  "format_hit_rate requests reads seconds =
     (if seconds \<le> 0 \<or> requests = 0 then ''0.000'' else format_decimals 3 (hit_percent requests reads))"

definition format_ratio :: "counter \<Rightarrow> counter \<Rightarrow> string" where
  "format_ratio numerator denominator =
     (if denominator = 0 then ''0.000'' else format_decimals 3 (counter_rat numerator * 100 / counter_rat denominator))"

definition status_header :: "string list" where
  "status_header =
     [''sample'', ''timestamp'', ''elapsed_ms'', ''status_rows'', ''max_connections'', ''threads_connected'', ''threads_running'',
      ''threads_cached'', ''threads_created_total'', ''threads_created_per_sec'', ''connections_total'', ''connections_per_sec'',
      ''questions_total'', ''questions_per_sec'', ''com_select_total'', ''com_select_per_sec'', ''com_insert_total'',
      ''com_insert_per_sec'', ''com_update_total'', ''com_update_per_sec'', ''com_delete_total'', ''com_delete_per_sec'',
      ''bytes_received_total'', ''bytes_received_per_sec'', ''bytes_sent_total'', ''bytes_sent_per_sec'', ''buffer_pool_pages_total'',
      ''buffer_pool_pages_free'', ''buffer_pool_pages_dirty'', ''buffer_pool_read_requests_total'',
      ''buffer_pool_read_requests_per_sec'', ''buffer_pool_reads_total'', ''buffer_pool_reads_per_sec'', ''buffer_pool_hit_pct'',
      ''row_lock_current_waits'', ''row_lock_waits_total'', ''row_lock_waits_per_sec'', ''row_lock_time_ms_total'',
      ''row_lock_time_ms_per_sec'', ''innodb_log_waits_total'', ''innodb_log_waits_per_sec'', ''created_tmp_tables_total'',
      ''created_tmp_tables_per_sec'', ''created_tmp_disk_tables_total'', ''created_tmp_disk_tables_per_sec'', ''tmp_disk_ratio_pct'',
      ''aborted_connects_total'', ''aborted_connects_per_sec'', ''max_used_connections'',
      ''connection_errors_max_connections_total'', ''connection_errors_max_connections_per_sec'']"

text \<open>The seconds since the last row; a clock that did not advance counts as one interval.\<close>

definition row_seconds :: "int \<Rightarrow> status_snapshot \<Rightarrow> status_snapshot option \<Rightarrow> rat" where
  "row_seconds interval c prev =
     (case prev of
        None \<Rightarrow> 0
      | Some p \<Rightarrow>
          (let d = time_sub (mq_at c) (mq_at p) in
           if d \<le> 0 then of_int interval / 1000000000 else of_int d / 1000000000))"

definition value_of :: "status_snapshot \<Rightarrow> string \<Rightarrow> counter" where
  "value_of c name = lookup_or 0 (mq_values c) name"

definition previous_value :: "status_snapshot option \<Rightarrow> string \<Rightarrow> counter" where
  "previous_value prev name = (case prev of None \<Rightarrow> 0 | Some p \<Rightarrow> value_of p name)"

definition delta_of :: "status_snapshot \<Rightarrow> status_snapshot option \<Rightarrow> string \<Rightarrow> counter" where
  "delta_of c prev name = counter_difference (value_of c name) (previous_value prev name)"

definition status_values :: "(int \<Rightarrow> string) \<Rightarrow> int \<Rightarrow> nat \<Rightarrow> int \<Rightarrow> status_snapshot \<Rightarrow> status_snapshot option \<Rightarrow> string list" where
  "status_values time interval sample start c prev =
     (let seconds = row_seconds interval c prev;
          total = (\<lambda>name. format_counter (value_of c name));
          rate = (\<lambda>name. format_rate (delta_of c prev name) seconds);
          requests = delta_of c prev ''Innodb_buffer_pool_read_requests''; reads = delta_of c prev ''Innodb_buffer_pool_reads'' in
      [format_nat sample, time (mq_at c), format_int (millis (time_sub (mq_at c) start)), format_nat (mq_rows c), format_counter (mq_max c),
       total ''Threads_connected'', total ''Threads_running'', total ''Threads_cached'', total ''Threads_created'', rate ''Threads_created'',
       total ''Connections'', rate ''Connections'', total ''Questions'', rate ''Questions'', total ''Com_select'', rate ''Com_select'',
       total ''Com_insert'', rate ''Com_insert'', total ''Com_update'', rate ''Com_update'', total ''Com_delete'', rate ''Com_delete'',
       total ''Bytes_received'', rate ''Bytes_received'', total ''Bytes_sent'', rate ''Bytes_sent'',
       total ''Innodb_buffer_pool_pages_total'', total ''Innodb_buffer_pool_pages_free'', total ''Innodb_buffer_pool_pages_dirty'',
       total ''Innodb_buffer_pool_read_requests'', format_rate requests seconds, total ''Innodb_buffer_pool_reads'',
       format_rate reads seconds, format_hit_rate requests reads seconds, total ''Innodb_row_lock_current_waits'',
       total ''Innodb_row_lock_waits'', rate ''Innodb_row_lock_waits'', total ''Innodb_row_lock_time'', rate ''Innodb_row_lock_time'',
       total ''Innodb_log_waits'', rate ''Innodb_log_waits'', total ''Created_tmp_tables'', rate ''Created_tmp_tables'',
       total ''Created_tmp_disk_tables'', rate ''Created_tmp_disk_tables'',
       if 0 < seconds then format_ratio (delta_of c prev ''Created_tmp_disk_tables'') (delta_of c prev ''Created_tmp_tables'') else ''0.000'',
       total ''Aborted_connects'', rate ''Aborted_connects'', total ''Max_used_connections'',
       total ''Connection_errors_max_connections'', rate ''Connection_errors_max_connections''])"

section \<open>Collecting the status\<close>

record mysql_env =
  me_time :: "int \<Rightarrow> string"
  me_interval :: int
  me_sink :: sink
  me_lock_sink :: sink

record mysql_state =
  mt_out :: csv_out
  mt_start :: int
  mt_previous :: "status_snapshot option"
  mt_sample :: nat

definition write_status :: "mysql_env \<Rightarrow> status_snapshot \<Rightarrow> mysql_state \<Rightarrow> go_error option \<times> csv_out" where
  "write_status E c st =
     (if mq_at c = zero_time then (Some (Errorf ''MySQL status timestamp is missing'' [] []), mt_out st)
      else
        (let row = status_values (me_time E) (me_interval E) (mt_sample st) (mt_start st) c (mt_previous st) in
         if length row \<noteq> length status_header
         then (Some (Errorf ''MySQL metrics row width'' [format_nat (length row), format_nat (length status_header)] []), mt_out st)
         else
           (let b1 = put_row (me_sink E) row (mt_out st); b2 = flush (me_sink E) b1 in
            if co_err b1 \<noteq> None then (co_err b1, b1) else (co_err b2, b2))))"

text \<open>A poll; its errors are at most printed.\<close>

definition poll_status :: "mysql_env \<Rightarrow> mysql_reply \<Rightarrow> mysql_state \<Rightarrow> mysql_state" where
  "poll_status E r st =
     (case query_status r of
        Inl e \<Rightarrow> st
      | Inr c \<Rightarrow>
          (let st1 = (if mt_start st = zero_time then st\<lparr>mt_start := mq_at c\<rparr> else st) in
           case write_status E c st1 of
             (Some e, b) \<Rightarrow> st1\<lparr>mt_out := b\<rparr>
           | (None, b) \<Rightarrow> st1\<lparr>mt_out := b, mt_previous := Some c, mt_sample := Suc (mt_sample st1)\<rparr>))"

definition new_mysql_state :: "csv_out \<Rightarrow> mysql_state" where
  "new_mysql_state b = \<lparr>mt_out = b, mt_start = zero_time, mt_previous = None, mt_sample = 0\<rparr>"

definition collect_status :: "mysql_env \<Rightarrow> mysql_reply \<Rightarrow> mysql_reply list \<Rightarrow> go_error option \<times> mysql_state" where
  "collect_status E first ticks =
     (let b1 = put_row (me_sink E) status_header new_out; b2 = flush (me_sink E) b1 in
      if co_err b1 \<noteq> None then (co_err b1, new_mysql_state b1)
      else if co_err b2 \<noteq> None then (co_err b2, new_mysql_state b2)
      else (None, fold (poll_status E) (first # ticks) (new_mysql_state b2)))"

section \<open>Lock waits\<close>

text \<open>A wait is a row of 18 cells, the first one its key; a cell may be \<open>NULL\<close>, which reads as the empty text.\<close>

definition space_for :: "char list \<Rightarrow> char \<Rightarrow> char" where
  "space_for cs c = (if c \<in> set cs then CHR '' '' else c)"

definition sanitize_lock_field :: "string \<Rightarrow> string" where
  "sanitize_lock_field s = take 4096 (map (space_for [CHR 0x09, CHR 0x0A, CHR 0x0D]) (trim_space s))"

lemma sanitize_lock_field_code [code]:
  "sanitize_lock_field s =
     (let t = map (space_for [CHR 0x09, CHR 0x0A, CHR 0x0D]) (trim_space s) in if int (length t) \<le> 4096 then t else take 4096 t)"
  by (simp add: sanitize_lock_field_def Let_def)

record lock_reply =
  lr_rows :: "go_error + (go_error + string option list) list \<times> go_error option"
  lr_now :: int

definition lock_cells :: nat where
  "lock_cells = 18"

definition lock_row :: "string option list \<Rightarrow> string list" where
  "lock_row cells = map (\<lambda>c. sanitize_lock_field (case c of None \<Rightarrow> [] | Some s \<Rightarrow> s)) cells"

text \<open>The rows, and the error. A row that cannot be scanned ends the query without rows.\<close>

definition scan_lock_row :: "go_error + string option list \<Rightarrow> go_error + string list" where
  "scan_lock_row r =
     (case r of
        Inl e \<Rightarrow> Inl e
      | Inr cells \<Rightarrow> if length cells = lock_cells then Inr (lock_row cells) else Inl (Errorf ''wrong number of columns'' [] []))"

definition query_lock_waits :: "lock_reply \<Rightarrow> string list list \<times> go_error option" where
  "query_lock_waits r =
     (case lr_rows r of
        Inl e \<Rightarrow> ([], Some e)
      | Inr (rows, err) \<Rightarrow> (case map_res scan_lock_row rows of Inl e \<Rightarrow> ([], Some e) | Inr ls \<Rightarrow> (ls, err)))"

definition lock_wait_header :: "string list" where
  "lock_wait_header =
     [''sample'', ''timestamp'', ''elapsed_ms'', ''captured_waits'', ''capture_error'', ''wait_key'', ''requesting_trx_id'',
      ''blocking_trx_id'', ''object_schema'', ''object_table'', ''object_index'', ''request_lock_type'', ''request_lock_mode'',
      ''request_lock_data'', ''blocking_lock_type'', ''blocking_lock_mode'', ''blocking_lock_data'', ''requesting_thread_id'',
      ''requesting_processlist_id'', ''requesting_sql'', ''blocking_thread_id'', ''blocking_processlist_id'', ''blocking_sql'']"

definition no_wait :: "string list" where
  "no_wait = replicate lock_cells []"

definition tick_waits :: "lock_reply \<Rightarrow> string list list" where
  "tick_waits r = (let rows = fst (query_lock_waits r) in if rows = [] then [no_wait] else rows)"

definition captured_waits :: "string list list \<Rightarrow> nat" where
  "captured_waits rows = (if length rows = 1 \<and> hd (hd rows) = [] then 0 else length rows)"

definition lock_rows :: "(int \<Rightarrow> string) \<Rightarrow> nat \<Rightarrow> int \<Rightarrow> lock_reply \<Rightarrow> string list list" where
  "lock_rows time sample start r =
     (let err = (case snd (query_lock_waits r) of None \<Rightarrow> [] | Some e \<Rightarrow> sanitize_lock_field (error_text e)) in
      map (\<lambda>row.
          [format_nat sample, time (lr_now r), format_int (millis (time_sub (lr_now r) start)),
           format_nat (captured_waits (tick_waits r)), err] @ row)
        (tick_waits r))"

fun poll_locks :: "mysql_env \<Rightarrow> int \<Rightarrow> nat \<Rightarrow> lock_reply list \<Rightarrow> csv_out \<Rightarrow> go_error option \<times> csv_out" where
  "poll_locks E start sample [] b = (None, b)"
| "poll_locks E start sample (r # rs) b =
     (let b1 = put_rows (me_lock_sink E) (lock_rows (me_time E) sample start r) b; b2 = flush (me_lock_sink E) b1 in
      if co_err b1 \<noteq> None then (co_err b1, b1)
      else if co_err b2 \<noteq> None then (co_err b2, b2)
      else poll_locks E start (Suc sample) rs b2)"

definition collect_lock_waits :: "mysql_env \<Rightarrow> int \<Rightarrow> lock_reply \<Rightarrow> lock_reply list \<Rightarrow> go_error option \<times> csv_out" where
  "collect_lock_waits E start first ticks =
     (let b1 = put_row (me_lock_sink E) lock_wait_header new_out; b2 = flush (me_lock_sink E) b1 in
      if co_err b1 \<noteq> None then (co_err b1, b1)
      else if co_err b2 \<noteq> None then (co_err b2, b2)
      else poll_locks E start 0 (first # ticks) b2)"

section \<open>The command\<close>

record mysql_flags =
  mf_dsn :: string
  mf_interval :: int
  mf_query_timeout :: int
  mf_lock_output :: string
  mf_lock_interval :: int
  mf_lock_query_timeout :: int

definition check_mysql_flags :: "mysql_flags \<Rightarrow> go_error option" where
  "check_mysql_flags F =
     (if trim_space (mf_dsn F) = [] then Some (Errorf ''dsn is required'' [] [])
      else if mf_interval F \<le> 0 then Some (Errorf ''interval must be greater than zero'' [] [])
      else if mf_query_timeout F \<le> 0 then Some (Errorf ''query-timeout must be greater than zero'' [] [])
      else if mf_lock_interval F \<le> 0 \<or> mf_lock_query_timeout F \<le> 0 then Some (Errorf ''lock intervals must be greater than zero'' [] [])
      else None)"

text \<open>The exit status, and what both collectors wrote. The errors of opening the databases and of creating the outputs
  come first; the error of the status ends the command before that of the locks.\<close>

definition mysql_main ::
    "mysql_flags \<Rightarrow> mysql_env \<Rightarrow> go_error option \<Rightarrow> go_error option \<Rightarrow> mysql_reply \<Rightarrow> mysql_reply list \<Rightarrow> int \<Rightarrow> lock_reply \<Rightarrow>
     lock_reply list \<Rightarrow> nat \<times> (mysql_state \<times> csv_out option) option" where
  "mysql_main F E opened lock_opened first ticks start lock_first lock_ticks =
     (if check_mysql_flags F \<noteq> None then (2, None)
      else if opened \<noteq> None then (1, None)
      else if mf_lock_output F \<noteq> [] \<and> lock_opened \<noteq> None then (1, None)
      else
        (let status = collect_status (E\<lparr>me_interval := mf_interval F\<rparr>) first ticks;
             locks = (if mf_lock_output F = [] then None else Some (collect_lock_waits E start lock_first lock_ticks)) in
         (if fst status \<noteq> None \<or> (case locks of None \<Rightarrow> False | Some (e, b) \<Rightarrow> e \<noteq> None) then 1 else 0,
          Some (snd status, map_option snd locks))))"

end
