(* ===== verification/MysqlMetricsProperties.thy ===== *)
theory MysqlMetricsProperties
  imports MysqlMetrics
begin

text \<open>
  What the collectors of MySQL promise: the rows of the status are those of the polls that succeeded, each with its
  rates against the last of them, and as wide as the header; the percentage of the buffer pool lies between 0 and 100; and
  the lock waits that were written are read back tick by tick, whatever the statements contain.
\<close>

section \<open>The status\<close>

lemma status_width: "length (status_values time interval sample start c prev) = length status_header"
  by (simp add: status_values_def status_header_def Let_def)

lemma counter_rat_le: "v \<le> w \<Longrightarrow> counter_rat v \<le> counter_rat w"
  by (simp add: counter_rat_def word_le_nat_alt del: of_nat_unat)

lemma counter_rat_nonneg [simp]: "0 \<le> counter_rat w"
  by (simp add: counter_rat_def del: of_nat_unat)

text \<open>More reads than requests, which the two counters can show since they are not read at once, give 0.\<close>

lemma hit_percent_bounds: "0 \<le> hit_percent requests reads" "hit_percent requests reads \<le> 100"
proof -
  define d where "d = requests - (if requests < reads then requests else reads)"
  have "d \<le> requests" by (cases "requests < reads") (simp_all add: d_def not_less word_sub_le)
  then have "counter_rat d \<le> counter_rat requests" by (rule counter_rat_le)
  then have "counter_rat d * 100 / counter_rat requests \<le> 100"
    by (cases "counter_rat requests = 0") (simp_all add: pos_divide_le_eq less_le)
  then show "hit_percent requests reads \<le> 100" by (simp only: hit_percent_def d_def [symmetric])
  show "0 \<le> hit_percent requests reads" unfolding hit_percent_def d_def [symmetric] by simp
qed

text \<open>The rows of snapshots, each against the one before.\<close>

fun status_rows :: "mysql_env \<Rightarrow> nat \<Rightarrow> int \<Rightarrow> status_snapshot option \<Rightarrow> status_snapshot list \<Rightarrow> string list list" where
  "status_rows E n start prev [] = []"
| "status_rows E n start prev (c # cs) =
     status_values (me_time E) (me_interval E) n start c prev # status_rows E (Suc n) start (Some c) cs"

definition good_polls :: "mysql_reply list \<Rightarrow> status_snapshot list" where
  "good_polls rs =
     List.map_filter (\<lambda>r. case query_status r of Inl e \<Rightarrow> None | Inr c \<Rightarrow> if mq_at c = zero_time then None else Some c) rs"

text \<open>All rows of a run.\<close>

definition run_rows :: "mysql_env \<Rightarrow> mysql_reply list \<Rightarrow> string list list" where
  "run_rows E rs = (case good_polls rs of [] \<Rightarrow> [] | c # cs \<Rightarrow> status_rows E 0 (mq_at c) None (c # cs))"

lemma write_status_sticky: "co_err (mt_out st) \<noteq> None \<Longrightarrow> co_err (snd (write_status E c st)) \<noteq> None"
  by (auto simp: write_status_def Let_def put_row_def)

lemma poll_status_out:
  "mt_out (poll_status E r st) =
     (case query_status r of
        Inl e \<Rightarrow> mt_out st
      | Inr c \<Rightarrow> snd (write_status E c (if mt_start st = zero_time then st\<lparr>mt_start := mq_at c\<rparr> else st)))"
  by (auto simp: poll_status_def Let_def split: sum.splits prod.splits option.splits)

lemma poll_status_sticky: "co_err (mt_out st) \<noteq> None \<Longrightarrow> co_err (mt_out (poll_status E r st)) \<noteq> None"
  unfolding poll_status_out
  by (cases "query_status r") (simp, simp only: sum.case, rule write_status_sticky, simp)

lemma fold_status_sticky: "co_err (mt_out st) \<noteq> None \<Longrightarrow> co_err (mt_out (fold (poll_status E) rs st)) \<noteq> None"
proof (induction rs arbitrary: st)
  case (Cons r rs)
  show ?case unfolding fold_simps comp_apply by (rule Cons.IH) (rule poll_status_sticky [OF Cons.prems])
qed simp

text \<open>What has been written after some polls.\<close>

definition status_written :: "mysql_state \<Rightarrow> string \<Rightarrow> bool" where
  "status_written st out \<longleftrightarrow> co_err (mt_out st) = None \<and> co_buffer (mt_out st) = [] \<and> co_written (mt_out st) = out"

lemma write_status_ok:
  assumes "co_err (snd (write_status E c st)) = None" and "status_written st out" and "mq_at c \<noteq> zero_time"
  shows "write_status E c st = (None, snd (write_status E c st)) \<and>
    co_buffer (snd (write_status E c st)) = [] \<and>
    co_written (snd (write_status E c st)) =
      out @ csv_row (status_values (me_time E) (me_interval E) (mt_sample st) (mt_start st) c (mt_previous st))"
proof -
  define row where "row = status_values (me_time E) (me_interval E) (mt_sample st) (mt_start st) c (mt_previous st)"
  define b1 where "b1 = put_row (me_sink E) row (mt_out st)"
  have w: "write_status E c st = (if co_err b1 \<noteq> None then (co_err b1, b1) else (co_err (flush (me_sink E) b1), flush (me_sink E) b1))"
    unfolding write_status_def Let_def row_def [symmetric] b1_def [symmetric]
    using assms(3) by (simp add: row_def status_width)
  have e1: "co_err b1 = None" and e2: "co_err (flush (me_sink E) b1) = None"
    using assms(1) unfolding w by (auto split: if_splits)
  have "in_flight b1 = out @ csv_row row"
    using put_string_ok [of "me_sink E" "csv_row row" "mt_out st"] e1 assms(2) by (simp add: b1_def put_row_def status_written_def in_flight_def)
  with flush_ok [OF e2] e1 e2 show ?thesis unfolding w row_def [symmetric] by simp
qed

lemma good_polls_Cons:
  "good_polls (r # rs) =
     (case query_status r of Inl e \<Rightarrow> [] | Inr c \<Rightarrow> if mq_at c = zero_time then [] else [c]) @ good_polls rs"
  by (simp add: good_polls_def map_filter_simps split: sum.splits)

text \<open>The polls after the first good one, and those from the beginning.\<close>

lemma fold_status_later:
  "co_err (mt_out (fold (poll_status E) rs st)) = None \<Longrightarrow> status_written st out \<Longrightarrow> mt_start st \<noteq> zero_time \<Longrightarrow>
     status_written (fold (poll_status E) rs st)
       (out @ csv_write (status_rows E (mt_sample st) (mt_start st) (mt_previous st) (good_polls rs)))"
proof (induction rs arbitrary: st out)
  case Nil
  then show ?case by (simp add: good_polls_def map_filter_simps)
next
  case (Cons r rs)
  have e: "co_err (mt_out (poll_status E r st)) = None"
    using Cons.prems(1) fold_status_sticky [of "poll_status E r st" E rs] by (cases "co_err (mt_out (poll_status E r st))") auto
  show ?case
  proof (cases "query_status r")
    case (Inl x)
    with Cons show ?thesis by (simp add: good_polls_Cons poll_status_def)
  next
    case (Inr c)
    show ?thesis
    proof (cases "mq_at c = zero_time")
      case True
      then have "poll_status E r st = st" using Cons.prems(3) by (simp add: poll_status_def Inr write_status_def)
      with Cons Inr True show ?thesis by (simp add: good_polls_Cons)
    next
      case False
      have "co_err (snd (write_status E c st)) = None" using e Cons.prems(3) by (simp add: poll_status_out Inr)
      note w = write_status_ok [OF this Cons.prems(2) False]
      define st' where "st' = st\<lparr>mt_out := snd (write_status E c st), mt_previous := Some c, mt_sample := Suc (mt_sample st)\<rparr>"
      have p: "poll_status E r st = st'"
        using w Cons.prems(3) by (auto simp: poll_status_def Inr st'_def Let_def split: prod.splits option.splits)
      have "status_written st' (out @ csv_row (status_values (me_time E) (me_interval E) (mt_sample st) (mt_start st) c (mt_previous st)))"
        using w e p by (simp add: status_written_def st'_def)
      from Cons.IH [OF _ this] Cons.prems(1,3) p Inr False show ?thesis
        by (simp add: good_polls_Cons st'_def csv_write_def)
    qed
  qed
qed

lemma fold_status_first:
  "co_err (mt_out (fold (poll_status E) rs st)) = None \<Longrightarrow> status_written st out \<Longrightarrow>
     mt_start st = zero_time \<Longrightarrow> mt_sample st = 0 \<Longrightarrow> mt_previous st = None \<Longrightarrow>
     status_written (fold (poll_status E) rs st) (out @ csv_write (run_rows E rs))"
proof (induction rs arbitrary: st)
  case Nil
  then show ?case by (simp add: run_rows_def good_polls_def map_filter_simps)
next
  case (Cons r rs)
  show ?case
  proof (cases "query_status r")
    case (Inl x)
    with Cons show ?thesis by (simp add: run_rows_def good_polls_Cons poll_status_def)
  next
    case (Inr c)
    show ?thesis
    proof (cases "mq_at c = zero_time")
      case True
      then have "poll_status E r st = st" using Cons.prems(3) by (simp add: poll_status_def Inr write_status_def)
      with Cons Inr True show ?thesis by (simp add: run_rows_def good_polls_Cons)
    next
      case False
      let ?st = "st\<lparr>mt_start := mq_at c\<rparr>"
      have p: "poll_status E r st = poll_status E r ?st" using Cons.prems(3) False by (simp add: poll_status_def Inr Let_def)
      have "status_written (fold (poll_status E) (r # rs) ?st) (out @ csv_write (status_rows E (mt_sample ?st) (mt_start ?st) (mt_previous ?st) (good_polls (r # rs))))"
        by (rule fold_status_later) (use Cons.prems p False in \<open>simp_all add: status_written_def\<close>)
      with Cons.prems p Inr False show ?thesis by (simp add: run_rows_def good_polls_Cons)
    qed
  qed
qed

text \<open>
  The collector of the status of MySQL (collect, poll, queryStatus and write of mysql-metrics): as long as its
  output takes everything, it consists of the header and one row for each poll that succeeded, numbered in order, its
  rates against the poll before that succeeded and its time against the first one, however many polls failed in
  between; and every row is as wide as the header.\<close>

theorem status_rows_complete:
  assumes "collect_status E first ticks = (None, st)" and "co_err (mt_out st) = None"
  shows "co_written (mt_out st) = csv_write (status_header # run_rows E (first # ticks)) \<and>
    list_all (\<lambda>row. length row = length status_header) (run_rows E (first # ticks))"
proof -
  define b1 where "b1 = put_row (me_sink E) status_header new_out"
  define b2 where "b2 = flush (me_sink E) b1"
  have e: "co_err b1 = None" "co_err b2 = None" and st: "st = fold (poll_status E) (first # ticks) (new_mysql_state b2)"
    using assms(1) unfolding collect_status_def b1_def [symmetric]
    by (auto simp: Let_def b2_def split: if_splits)
  have "in_flight b1 = csv_row status_header"
    using put_string_ok [of "me_sink E" "csv_row status_header" new_out] e(1) by (simp add: b1_def put_row_def)
  then have "status_written (new_mysql_state b2) (csv_row status_header)"
    using flush_ok [of "me_sink E" b1] e(2) by (simp add: status_written_def new_mysql_state_def b2_def)
  then have "status_written st (csv_row status_header @ csv_write (run_rows E (first # ticks)))"
    unfolding st by (rule fold_status_first [rotated]) (use assms(2) in \<open>simp_all add: st new_mysql_state_def\<close>)
  moreover have "list_all (\<lambda>row. length row = length status_header) (status_rows E n t prev cs)" for n t prev cs
    by (induction E n t prev cs rule: status_rows.induct) (simp_all add: status_width)
  ultimately show ?thesis by (auto simp: status_written_def csv_write_def run_rows_def status_width split: list.splits)
qed

section \<open>Lock waits\<close>

definition no_return :: "string \<Rightarrow> bool" where
  "no_return s \<longleftrightarrow> CHR 0x0D \<notin> set s"

lemma sanitized_clean: "clean_cell (sanitize_lock_field s)"
  by (auto simp: clean_cell_def sanitize_lock_field_def space_for_def dest!: in_set_takeD)

lemma digits_clean: "clean_cell (format_nat n)" "clean_cell (format_int i)"
proof -
  have n: "CHR 0x0D \<notin> set (format_nat n)" for n using format_nat_digits [of n] by (auto simp: list_all_iff is_digit_def)
  then show "clean_cell (format_nat n)" by (simp add: clean_cell_def)
  show "clean_cell (format_int i)" using n by (simp add: clean_cell_def format_int_def)
qed

lemma tick_waits_cells: "row \<in> set (tick_waits r) \<Longrightarrow> length row = lock_cells \<and> list_all clean_cell row"
proof -
  assume a: "row \<in> set (tick_waits r)"
  have l: "length y = lock_cells \<and> list_all clean_cell y" if "scan_lock_row x = Inr y" for x y
    using that by (auto simp: scan_lock_row_def lock_row_def list_all_iff sanitized_clean split: sum.splits if_splits)
  have q: "length x = lock_cells \<and> list_all clean_cell x" if "x \<in> set (fst (query_lock_waits r))" for x
  proof -
    from that obtain rows err ls where "map_res scan_lock_row rows = Inr ls" "x \<in> set ls"
      by (auto simp: query_lock_waits_def split: sum.splits)
    then obtain y where "scan_lock_row y = Inr x" by (auto simp: map_res_Inr_iff list_all2_conv_all_nth in_set_conv_nth)
    then show ?thesis by (rule l)
  qed
  show ?thesis
    using a q by (auto simp: tick_waits_def Let_def no_wait_def clean_cell_def list_all_iff split: if_splits)
qed

lemma lock_rows_written:
  assumes "\<And>t. clean_cell (time t)"
  shows "list_all written_row (lock_rows time n start r)" and "list_all (\<lambda>row. length row = length lock_wait_header) (lock_rows time n start r)"
  using tick_waits_cells assms
  by (auto simp: lock_rows_def Let_def list_all_iff written_row_def digits_clean sanitized_clean lock_wait_header_def lock_cells_def split: option.splits)
    (auto simp: clean_cell_def)

fun all_lock_rows :: "mysql_env \<Rightarrow> int \<Rightarrow> nat \<Rightarrow> lock_reply list \<Rightarrow> string list list" where
  "all_lock_rows E start n [] = []"
| "all_lock_rows E start n (r # rs) = lock_rows (me_time E) n start r @ all_lock_rows E start (Suc n) rs"

lemma poll_locks_ok:
  "poll_locks E start n rs b = (None, b') \<Longrightarrow> co_err b = None \<Longrightarrow> co_buffer b = [] \<Longrightarrow>
     co_buffer b' = [] \<and> co_written b' = co_written b @ csv_write (all_lock_rows E start n rs)"
proof (induction E start n rs b rule: poll_locks.induct)
  case (2 E start n r rs b)
  define b1 where "b1 = put_rows (me_lock_sink E) (lock_rows (me_time E) n start r) b"
  define b2 where "b2 = flush (me_lock_sink E) b1"
  have e: "co_err b1 = None" "co_err b2 = None" and p: "poll_locks E start (Suc n) rs b2 = (None, b')"
    using "2.prems"(1) by (auto simp: Let_def b1_def b2_def split: if_splits)
  have "in_flight b1 = in_flight b @ csv_write (lock_rows (me_time E) n start r)" using e(1) unfolding b1_def by (rule put_rows_ok)
  then have f: "co_buffer b2 = []" "co_written b2 = co_written b @ csv_write (lock_rows (me_time E) n start r)"
    using flush_ok [of "me_lock_sink E" b1] e(2) "2.prems"(3) by (simp_all add: b2_def in_flight_def)
  have "co_buffer b' = [] \<and> co_written b' = co_written b2 @ csv_write (all_lock_rows E start (Suc n) rs)"
    using "2.IH" [of b1 b2] e p f unfolding b1_def b2_def by simp
  with f show ?case by simp
qed simp

text \<open>
  C38. The collector of the lock waits (collectLockWaits and queryLockWaits of mysql-metrics): when it ends without an
  error, its output is read back by the CSV reader as the header and, tick by tick, one row per wait, or one empty row
  with the error of the query, all as wide as the header, whatever the statements and keys of the waits contain.\<close>

theorem lock_waits_read_back:
  assumes "collect_lock_waits E start first ticks = (None, b)" and "\<And>t. clean_cell (me_time E t)"
  shows "csv_parse (co_written b) = (lock_wait_header # all_lock_rows E start 0 (first # ticks), False) \<and>
    list_all (\<lambda>row. length row = length lock_wait_header) (all_lock_rows E start 0 (first # ticks))"
proof -
  define b1 where "b1 = put_row (me_lock_sink E) lock_wait_header new_out"
  define b2 where "b2 = flush (me_lock_sink E) b1"
  have e: "co_err b1 = None" "co_err b2 = None" and p: "poll_locks E start 0 (first # ticks) b2 = (None, b)"
    using assms(1) unfolding collect_lock_waits_def b1_def [symmetric]
    by (auto simp: Let_def b2_def simp del: poll_locks.simps split: if_splits)
  have "in_flight b1 = csv_row lock_wait_header"
    using put_string_ok [of "me_lock_sink E" "csv_row lock_wait_header" new_out] e(1) by (simp add: b1_def put_row_def)
  then have "co_buffer b2 = []" "co_written b2 = csv_row lock_wait_header"
    using flush_ok [of "me_lock_sink E" b1] e(2) by (simp_all add: b2_def)
  then have w: "co_written b = csv_write (lock_wait_header # all_lock_rows E start 0 (first # ticks))"
    using poll_locks_ok [OF p e(2)] by (simp add: csv_write_def)
  have rows: "list_all written_row (all_lock_rows E start n rs) \<and> list_all (\<lambda>row. length row = length lock_wait_header) (all_lock_rows E start n rs)"
    for n rs using lock_rows_written [OF assms(2)] by (induction E start n rs rule: all_lock_rows.induct) simp_all
  have "written_row lock_wait_header" by code_simp
  with rows show ?thesis unfolding w by (simp only: csv_parse_write list.pred_inject simp_thms)
qed


section \<open>A run\<close>

lemma write_status_accept:
  "me_sink E = accept \<Longrightarrow> co_err (mt_out st) = None \<Longrightarrow> co_err (snd (write_status E c st)) = None"
  by (simp add: write_status_def Let_def put_row_def put_string_accept_all flush_accept_all)

lemma collect_status_accept:
  assumes "me_sink E = accept"
  shows "fst (collect_status E first ticks) = None \<and> co_err (mt_out (snd (collect_status E first ticks))) = None"
proof -
  have p: "co_err (mt_out st) = None \<Longrightarrow> co_err (mt_out (poll_status E r st)) = None" for r st
    by (simp add: poll_status_out write_status_accept assms split: sum.splits)
  have "co_err (mt_out st) = None \<Longrightarrow> co_err (mt_out (fold (poll_status E) rs st)) = None" for rs st
    by (induction rs arbitrary: st) (simp_all add: p)
  then show ?thesis
    by (simp add: collect_status_def Let_def put_row_def assms put_string_accept_all flush_accept_all new_mysql_state_def p)
qed

lemma collect_locks_accept: "me_lock_sink E = accept \<Longrightarrow> fst (collect_lock_waits E start first ticks) = None"
proof -
  assume a: "me_lock_sink E = accept"
  have "co_err b = None \<Longrightarrow> fst (poll_locks E start n rs b) = None" for n rs b
    using a by (induction E start n rs b rule: poll_locks.induct) (simp_all add: Let_def put_rows_accept_all flush_accept_all)
  then show ?thesis
    by (simp add: collect_lock_waits_def Let_def put_row_def a put_string_accept_all flush_accept_all del: poll_locks.simps)
qed

definition demo_mysql_env :: mysql_env where
  "demo_mysql_env = \<lparr>me_time = (\<lambda>t. ''T''), me_interval = 1000000000, me_sink = accept, me_lock_sink = accept\<rparr>"

definition demo_status :: "int \<Rightarrow> string \<Rightarrow> mysql_reply" where
  "demo_status now n = \<lparr>mr_rows = Inr ([Inr (''Questions'', n)], None, None), mr_max = Inr ''9'', mr_now = now\<rparr>"

definition demo_polls :: "mysql_reply list" where
  "demo_polls = [demo_status 1 ''2'', demo_status 2 ''x'', demo_status 1000000001 ''7'']"

lemma demo_good: "map (\<lambda>c. (mq_at c, value_of c ''Questions'')) (good_polls demo_polls) = [(1, 2), (1000000001, 7)]"
  by code_simp

text \<open>The poll in the middle fails; the row of the last one has the rate of five questions in one second.\<close>

theorem status_rows_complete_witness:
  "case collect_status demo_mysql_env (hd demo_polls) (tl demo_polls) of
     (err, st) \<Rightarrow>
       co_written (mt_out st) = csv_write (status_header # run_rows demo_mysql_env demo_polls) \<and>
       map (\<lambda>row. (row ! 0, row ! 12, row ! 13)) (run_rows demo_mysql_env demo_polls) = [(''0'', ''2'', ''0.000''), (''1'', ''7'', ''5.000'')]"
proof -
  let ?c = "collect_status demo_mysql_env (hd demo_polls) (tl demo_polls)"
  have "fst ?c = None \<and> co_err (mt_out (snd ?c)) = None" by (rule collect_status_accept) (simp add: demo_mysql_env_def)
  then obtain st where st: "?c = (None, st)" "co_err (mt_out st) = None" by (cases ?c) simp
  have d: "hd demo_polls # tl demo_polls = demo_polls" by (simp add: demo_polls_def)
  have "map (\<lambda>row. (row ! 0, row ! 12, row ! 13)) (run_rows demo_mysql_env demo_polls) = [(''0'', ''2'', ''0.000''), (''1'', ''7'', ''5.000'')]"
    by code_simp
  with status_rows_complete [OF st] show ?thesis unfolding st d by simp
qed

definition demo_locks :: "string \<Rightarrow> lock_reply" where
  "demo_locks sql =
     \<lparr>lr_rows = Inr ([Inr (Some ''k'' # replicate 16 None @ [Some sql])], None), lr_now = 5\<rparr>"

theorem lock_waits_read_back_witness:
  "case collect_lock_waits demo_mysql_env 5 (demo_locks (''SELECT'' @ [CHR 0x0A, CHR 0x22] @ ''1'' @ [CHR 0x22])) [] of
     (err, b) \<Rightarrow> csv_parse (co_written b) =
       (lock_wait_header # [[''0'', ''T'', ''0'', ''1'', [], ''k''] @ replicate 16 [] @ [''SELECT '' @ [CHR 0x22] @ ''1'' @ [CHR 0x22]]], False)"
proof -
  let ?r = "demo_locks (''SELECT'' @ [CHR 0x0A, CHR 0x22] @ ''1'' @ [CHR 0x22])"
  let ?c = "collect_lock_waits demo_mysql_env 5 ?r []"
  have "fst ?c = None" by (rule collect_locks_accept) (simp add: demo_mysql_env_def)
  then obtain b where c: "?c = (None, b)" by (cases ?c) simp
  have t: "clean_cell (me_time demo_mysql_env t)" for t by (simp add: demo_mysql_env_def clean_cell_def)
  have "all_lock_rows demo_mysql_env 5 0 [?r] =
      [[''0'', ''T'', ''0'', ''1'', [], ''k''] @ replicate 16 [] @ [''SELECT '' @ [CHR 0x22] @ ''1'' @ [CHR 0x22]]]"
    by code_simp
  with lock_waits_read_back [OF c t] show ?thesis unfolding c by simp
qed

end
