(* ===== verification/PerfProfile.thy ===== *)
theory PerfProfile
  imports GoInput GoPath GoTime
begin

text \<open>
  The profiler of nginx workers (tools/measurement/cmd/nginx-oncpu-profiler/main.go): it samples the workers with perf,
  folds the printed stacks, and writes them with a description of the capture.

  What ps, perf and readelf do, the files of /proc, the sizes of files, the errors of file operations, the clock and the
  signals are parameters.
\<close>

section \<open>Workers\<close>

record perf_worker =
  wk_pid :: int
  wk_start :: string
  wk_exe :: string
  wk_build :: string

record perf_host =
  ph_ps :: "go_error + string"
  ph_stat :: "int \<Rightarrow> go_error + string"
  ph_exe :: "int \<Rightarrow> go_error + string"
  ph_readelf :: "string \<Rightarrow> go_error + string"

fun first_build_id :: "string list \<Rightarrow> string" where
  "first_build_id [] = []"
| "first_build_id (l # ls) =
     (case cut_char (CHR '':'') (trim_space l) of
        Some (before, after) \<Rightarrow> if before = ''Build ID'' then trim_space after else first_build_id ls
      | None \<Rightarrow> first_build_id ls)"

definition read_build_id :: "perf_host \<Rightarrow> string \<Rightarrow> string" where
  "read_build_id H exe = (case ph_readelf H exe of Inl e \<Rightarrow> [] | Inr out \<Rightarrow> first_build_id (split_char (CHR 0x0A) out))"

text \<open>The fields of a stat file behind the last closing parenthesis.\<close>

definition start_time :: "string \<Rightarrow> string" where
  "start_time stat =
     (if CHR '')'' \<notin> set stat then []
      else (let fs = str_fields (rev (takeWhile (\<lambda>c. c \<noteq> CHR '')'') (rev stat))) in if 19 < length fs then fs ! 19 else []))"

definition inspect_worker :: "perf_host \<Rightarrow> int \<Rightarrow> perf_worker" where
  "inspect_worker H pid =
     (let start = (case ph_stat H pid of Inl e \<Rightarrow> [] | Inr stat \<Rightarrow> start_time stat) in
      case ph_exe H pid of
        Inl e \<Rightarrow> \<lparr>wk_pid = pid, wk_start = start, wk_exe = [], wk_build = []\<rparr>
      | Inr exe \<Rightarrow> \<lparr>wk_pid = pid, wk_start = start, wk_exe = exe, wk_build = read_build_id H exe\<rparr>)"

definition worker_pid :: "string \<Rightarrow> int option" where
  "worker_pid line =
     (case str_fields line of
        f # g # fs \<Rightarrow> if contains_str (join_with '' '' (g # fs)) ''nginx: worker process'' then parse_int64 f else None
      | _ \<Rightarrow> None)"

definition find_workers :: "perf_host \<Rightarrow> int \<Rightarrow> go_error + perf_worker list" where
  "find_workers H limit =
     (case ph_ps H of
        Inl e \<Rightarrow> Inl (Errorf ''list processes'' [] [e])
      | Inr out \<Rightarrow>
          (let ws = sort_key wk_pid (map (inspect_worker H) (List.map_filter worker_pid (split_char (CHR 0x0A) out))) in
           if ws = [] then Inl (Errorf ''no nginx worker processes found'' [] []) else Inr (take (nat limit) ws)))"

section \<open>Capturing\<close>

text \<open>How perf ended: with a status, by a signal, or in a way that cannot be told.\<close>

datatype wait_result = Waited | ExitStatus int | Signalled nat | WaitFailed go_error

definition sigint :: nat where
  "sigint = 2"

definition expected_interrupt :: "wait_result \<Rightarrow> bool" where
  "expected_interrupt w = (case w of Waited \<Rightarrow> False | ExitStatus n \<Rightarrow> n = 130 | Signalled s \<Rightarrow> s = sigint | WaitFailed e \<Rightarrow> False)"

record perf_record =
  pr_start :: "go_error option"
  pr_cancelled :: bool
  pr_kill :: "go_error option"
  pr_wait :: wait_result
  pr_stderr :: string

definition capture_perf :: "perf_record \<Rightarrow> string \<times> go_error option" where
  "capture_perf r =
     (case pr_start r of
        Some e \<Rightarrow> ([], Some (Errorf ''start perf record'' [] [e]))
      | None \<Rightarrow>
          (pr_stderr r,
           case pr_kill r of
             Some e \<Rightarrow> Some (Errorf ''stop perf record'' [] [e])
           | None \<Rightarrow>
               if pr_cancelled r then Some (Errorf ''capture canceled'' [] [])
               else if pr_wait r \<noteq> Waited \<and> \<not> expected_interrupt (pr_wait r)
               then Some (Errorf ''perf record'' [trim_space (pr_stderr r)] [])
               else None))"

text \<open>The samples that perf says it has lost; letters match in either case, and \<open>s\<close> also as the long s.\<close>

fun strip_word :: "string \<Rightarrow> string \<Rightarrow> string option" where
  "strip_word [] s = Some s"
| "strip_word (c # w) s =
     (case s of
        [] \<Rightarrow> None
      | x # t \<Rightarrow>
          if lower_char x = c then strip_word w t
          else if c = CHR ''s'' \<and> has_prefix s [CHR 0xC5, CHR 0xBF] then strip_word w (drop 2 s)
          else None)"

definition lost_match :: "string \<Rightarrow> (string \<times> string) option" where
  "lost_match s =
     (case strip_word ''lost'' s of
        None \<Rightarrow> None
      | Some r \<Rightarrow>
          (let r1 = dropWhile re_space r; digits = takeWhile is_digit r1; r2 = dropWhile is_digit r1; r3 = dropWhile re_space r2 in
           if r1 = r \<or> digits = [] \<or> r3 = r2 then None
           else
             (case strip_word ''sample'' r3 of
                None \<Rightarrow> None
              | Some r4 \<Rightarrow> Some (digits, case strip_word ''s'' r4 of Some r5 \<Rightarrow> r5 | None \<Rightarrow> r4))))"

lemma strip_word_shorter: "strip_word w s = Some r \<Longrightarrow> length r + length w \<le> length s"
proof (induction w s rule: strip_word.induct)
  case (2 c w s)
  then show ?case by (fastforce split: list.splits if_splits)
qed simp

lemma lost_match_shorter:
  assumes "lost_match s = Some (d, r)"
  shows "length r < length s"
proof -
  obtain r0 where r0: "strip_word ''lost'' s = Some r0" using assms by (auto simp: lost_match_def simp del: strip_word.simps split: option.splits)
  define r3 where "r3 = dropWhile re_space (dropWhile is_digit (dropWhile re_space r0))"
  obtain r4 where r4: "strip_word ''sample'' r3 = Some r4" and r: "r = r4 \<or> strip_word ''s'' r4 = Some r"
    using assms r0 by (auto simp: lost_match_def Let_def r3_def simp del: strip_word.simps split: option.splits if_splits)
  have "length r3 \<le> length r0" unfolding r3_def by (meson length_dropWhile_le order_trans)
  moreover have "length r \<le> length r4" using r strip_word_shorter [of "''s''" r4 r] by (auto simp del: strip_word.simps)
  ultimately show ?thesis using strip_word_shorter [OF r0] strip_word_shorter [OF r4] by simp
qed

function lost_counts :: "string \<Rightarrow> string list" where
  "lost_counts [] = []"
| "lost_counts (c # s) =
     (case lost_match (c # s) of None \<Rightarrow> lost_counts s | Some (digits, rest) \<Rightarrow> digits # lost_counts rest)"
  by pat_completeness auto
termination by (relation "measure length") (auto dest: lost_match_shorter)

definition lost_samples :: "string \<Rightarrow> int" where
  "lost_samples stderr = fold (\<lambda>d total. case parse_int64 d of None \<Rightarrow> total | Some n \<Rightarrow> wrap64 (total + n)) (lost_counts stderr) 0"

section \<open>Folding stacks\<close>

definition hex_char :: "char \<Rightarrow> bool" where
  "hex_char c \<longleftrightarrow> is_digit c \<or> (CHR ''a'' \<le> c \<and> c \<le> CHR ''f'') \<or> (CHR ''A'' \<le> c \<and> c \<le> CHR ''F'')"

definition looks_like_address :: "string \<Rightarrow> bool" where
  "looks_like_address v = (let s = trim_prefix v ''0x'' in s \<noteq> [] \<and> list_all hex_char s)"

definition sanitize_frame :: "string \<Rightarrow> string" where
  "sanitize_frame frame =
     (let s = map (\<lambda>c. if c = CHR '';'' then CHR '':'' else c) (trim_space frame) in if s = [] then ''unknown'' else s)"

definition unknown_frame :: "string \<Rightarrow> bool" where
  "unknown_frame f \<longleftrightarrow> f = ''unknown'' \<or> contains_str f ''[unknown]''"

text \<open>The state of the parser: the profile, the command of the sample, and its frames, the last one first, which is
  the outermost one.\<close>

record folding =
  fo_stacks :: "(string, nat) gomap"
  fo_samples :: nat
  fo_unknown :: nat
  fo_command :: string
  fo_frames :: "string list"

definition no_folding :: folding where
  "no_folding = \<lparr>fo_stacks = [], fo_samples = 0, fo_unknown = 0, fo_command = [], fo_frames = []\<rparr>"

definition count_stack :: "string \<Rightarrow> (string, nat) gomap \<Rightarrow> (string, nat) gomap" where
  "count_stack k m = AList.update k (Suc (lookup_or 0 m k)) m"

definition fold_stack :: "string \<Rightarrow> string list \<Rightarrow> string" where
  "fold_stack command frames = join_with '';'' (sanitize_frame command # map sanitize_frame frames)"

definition flush_sample :: "int \<Rightarrow> folding \<Rightarrow> go_error + folding" where
  "flush_sample max_samples p =
     (if fo_command p = [] then Inr (p\<lparr>fo_frames := []\<rparr>)
      else if max_samples < int (Suc (fo_samples p)) then Inl (Errorf ''sample limit exceeded'' [format_int max_samples] [])
      else Inr \<lparr>fo_stacks = count_stack (fold_stack (fo_command p) (fo_frames p)) (fo_stacks p), fo_samples = Suc (fo_samples p),
        fo_unknown = (if list_ex (\<lambda>f. unknown_frame (sanitize_frame f)) (fo_frames p) then Suc (fo_unknown p) else fo_unknown p),
        fo_command = [], fo_frames = []\<rparr>)"

definition script_line :: "int \<Rightarrow> string \<Rightarrow> folding \<Rightarrow> go_error + folding" where
  "script_line max_samples line p =
     (case str_fields line of
        [] \<Rightarrow> flush_sample max_samples p
      | f # fs \<Rightarrow>
          if \<not> looks_like_address f
          then (case flush_sample max_samples p of Inl e \<Rightarrow> Inl e | Inr q \<Rightarrow> Inr (q\<lparr>fo_command := f\<rparr>))
          else Inr (p\<lparr>fo_frames := (case fs of [] \<Rightarrow> ''unknown'' | g # gs \<Rightarrow> g) # fo_frames p\<rparr>))"

definition script_limit :: int where
  "script_limit = 1048576"

definition parse_script :: "int \<Rightarrow> stream \<Rightarrow> go_error + folding" where
  "parse_script max_samples src =
     (case scan_fold script_limit (script_line max_samples) src no_folding of
        Inl e \<Rightarrow> Inl e
      | Inr p \<Rightarrow> flush_sample max_samples p)"

record perf_script =
  sp_start :: "go_error option"
  sp_output :: stream
  sp_wait :: "go_error option"
  sp_stderr :: string

definition read_script :: "perf_script \<Rightarrow> int \<Rightarrow> go_error + folding" where
  "read_script s max_samples =
     (case sp_start s of
        Some e \<Rightarrow> Inl (Errorf ''start perf script'' [] [e])
      | None \<Rightarrow>
          (case parse_script max_samples (sp_output s) of
             Inl e \<Rightarrow> Inl e
           | Inr p \<Rightarrow>
               (case sp_wait s of Some e \<Rightarrow> Inl (Errorf ''perf script'' [trim_space (sp_stderr s)] [e]) | None \<Rightarrow> Inr p)))"

section \<open>Writing\<close>

definition folded_line :: "(string, nat) gomap \<Rightarrow> string \<Rightarrow> string" where
  "folded_line m k = k @ '' '' @ format_nat (lookup_or 0 m k) @ [CHR 0x0A]"

definition add_folded :: "int \<Rightarrow> (string, nat) gomap \<Rightarrow> string \<Rightarrow> string \<Rightarrow> go_error + string" where
  "add_folded limit m k b =
     (let b1 = b @ folded_line m k in
      if limit < int (length b1) then Inl (Errorf ''folded output exceeds its limit'' [format_int limit] []) else Inr b1)"

text \<open>The outcomes of creating the directory of a file and of writing it.\<close>

record file_ops =
  fp_mkdir :: "string \<Rightarrow> go_error option"
  fp_write :: "string \<Rightarrow> go_error option"

definition write_in_dir :: "file_ops \<Rightarrow> string \<Rightarrow> go_error option" where
  "write_in_dir F path =
     (case fp_mkdir F (path_dir path) of
        Some e \<Rightarrow> if path_dir path \<noteq> ''.'' then Some e else fp_write F path
      | None \<Rightarrow> fp_write F path)"

definition write_folded :: "file_ops \<Rightarrow> string \<Rightarrow> (string, nat) gomap \<Rightarrow> int \<Rightarrow> go_error + string" where
  "write_folded F path m limit =
     (case fold_res (add_folded limit m) (sort (keys m)) [] of
        Inl e \<Rightarrow> Inl e
      | Inr body \<Rightarrow> (case write_in_dir F path of Some e \<Rightarrow> Inl e | None \<Rightarrow> Inr body))"

section \<open>The command\<close>

record perf_options =
  po_delay :: int
  po_duration :: int
  po_frequency :: int
  po_max_workers :: int
  po_max_samples :: int
  po_max_output :: int
  po_call_graph :: string
  po_folded :: string
  po_metadata :: string
  po_raw :: string

record perf_metadata =
  pm_valid :: bool
  pm_error :: "go_error option"
  pm_started :: int
  pm_ended :: int
  pm_elapsed :: rat
  pm_options :: perf_options
  pm_workers :: "perf_worker list"
  pm_samples :: nat
  pm_unknown :: nat
  pm_lost :: int
  pm_raw :: int
  pm_folded :: nat

record perf_env =
  pv_started :: int
  pv_ended :: int
  pv_delay_signal :: "string option"
  pv_host :: perf_host
  pv_record :: perf_record
  pv_raw_size :: "go_error + int"
  pv_script :: perf_script
  pv_files :: file_ops

definition validate_perf_options :: "perf_options \<Rightarrow> go_error option" where
  "validate_perf_options P =
     (if po_delay P < 0 \<or> po_duration P \<le> 0 then Some (Errorf ''delay must be non-negative and duration must be positive'' [] [])
      else if po_frequency P \<le> 0 \<or> po_max_workers P \<le> 0 \<or> po_max_samples P \<le> 0 \<or> po_max_output P \<le> 0
      then Some (Errorf ''frequency and safety limits must be positive'' [] [])
      else if po_call_graph P = [] \<or> po_folded P = [] \<or> po_metadata P = [] \<or> po_raw P = []
      then Some (Errorf ''all output paths are required'' [] [])
      else None)"

definition bounded_size :: "go_error + int \<Rightarrow> int \<Rightarrow> int \<times> go_error option" where
  "bounded_size raw limit =
     (case raw of
        Inl e \<Rightarrow> (0, Some e)
      | Inr n \<Rightarrow> if limit < n then (0, Some (Errorf ''raw output exceeds its limit'' [format_int n, format_int limit] [])) else (n, None))"

definition start_metadata :: "perf_env \<Rightarrow> perf_options \<Rightarrow> perf_metadata" where
  "start_metadata E P =
     \<lparr>pm_valid = False, pm_error = None, pm_started = pv_started E, pm_ended = pv_ended E,
      pm_elapsed = of_int (time_sub (pv_ended E) (pv_started E)) / 1000000000, pm_options = P, pm_workers = [], pm_samples = 0,
      pm_unknown = 0, pm_lost = 0, pm_raw = 0, pm_folded = 0\<rparr>"

text \<open>The steps from the samples to the folded output; then the whole run. The folded output is returned beside the
  description.\<close>

definition fold_capture ::
    "perf_env \<Rightarrow> perf_options \<Rightarrow> perf_metadata \<Rightarrow> perf_metadata \<times> (go_error + string)" where
  "fold_capture E P m =
     (case read_script (pv_script E) (po_max_samples P) of
        Inl e \<Rightarrow> (m, Inl e)
      | Inr p \<Rightarrow>
          (let m1 = m\<lparr>pm_samples := fo_samples p, pm_unknown := fo_unknown p\<rparr> in
           if fo_samples p = 0 then (m1, Inl (Errorf ''perf captured no stack samples'' [] []))
           else
             (case write_folded (pv_files E) (po_folded P) (fo_stacks p) (po_max_output P) of
                Inl e \<Rightarrow> (m1, Inl e)
              | Inr body \<Rightarrow> (m1\<lparr>pm_folded := length body\<rparr>, Inr body))))"

definition run_capture :: "perf_env \<Rightarrow> perf_options \<Rightarrow> perf_metadata \<Rightarrow> perf_metadata \<times> (go_error + string)" where
  "run_capture E P m =
     (case capture_perf (pv_record E) of
        (stderr, err) \<Rightarrow>
          (let m1 = m\<lparr>pm_lost := lost_samples stderr\<rparr> in
           case err of
             Some e \<Rightarrow> (m1, Inl e)
           | None \<Rightarrow>
               (case bounded_size (pv_raw_size E) (po_max_output P) of
                  (n, Some e) \<Rightarrow> (m1\<lparr>pm_raw := n\<rparr>, Inl e)
                | (n, None) \<Rightarrow> fold_capture E P (m1\<lparr>pm_raw := n\<rparr>))))"

definition run_profiler :: "perf_env \<Rightarrow> perf_options \<Rightarrow> perf_metadata \<times> (go_error + string)" where
  "run_profiler E P =
     (let m = start_metadata E P in
      case validate_perf_options P of
        Some e \<Rightarrow> (m, Inl e)
      | None \<Rightarrow>
          if 0 < po_delay P \<and> pv_delay_signal E \<noteq> None
          then (m, Inl (Errorf ''capture canceled during delay'' [the (pv_delay_signal E)] []))
          else
            (case find_workers (pv_host E) (po_max_workers P) of
               Inl e \<Rightarrow> (m, Inl e)
             | Inr ws \<Rightarrow> run_capture E P (m\<lparr>pm_workers := ws\<rparr>)))"

text \<open>The exit status, the description that was written, if it could be, and the folded output.\<close>

definition profiler_main :: "perf_env \<Rightarrow> perf_options \<Rightarrow> nat \<times> perf_metadata option \<times> string option" where
  "profiler_main E P =
     (case run_profiler E P of
        (m, r) \<Rightarrow>
          (let m1 = (case r of Inl e \<Rightarrow> m\<lparr>pm_error := Some e, pm_valid := False\<rparr> | Inr body \<Rightarrow> m\<lparr>pm_valid := True\<rparr>);
               out = (case r of Inl e \<Rightarrow> None | Inr body \<Rightarrow> Some body) in
           case write_in_dir (pv_files E) (po_metadata P) of
             Some e \<Rightarrow> (1, None, out)
           | None \<Rightarrow> (if pm_valid m1 then 0 else 1, Some m1, out)))"

end
