(* ===== verification/PerfProfileProperties.thy ===== *)
theory PerfProfileProperties
  imports PerfProfile GoGroup
begin

text \<open>
  What the profiler of nginx promises: the folded profile counts every printed sample once, under its stack; a
  capture that is called valid has samples, all of them in the folded output, and stays within its limits.
\<close>

section \<open>Counting stacks\<close>

text \<open>The profile of a list of stacks.\<close>

definition stacks_of :: "string list \<Rightarrow> (string, nat) gomap" where
  "stacks_of ks = group_all (\<lambda>u n. Suc n) 0 (map (\<lambda>k. (k, ())) ks)"

lemma stacks_of_snoc: "stacks_of (ks @ [k]) = count_stack k (stacks_of ks)"
  by (simp add: stacks_of_def group_all_snoc put_group_def count_stack_def)

lemma stacks_of_Nil [simp]: "stacks_of [] = []"
  by (simp add: stacks_of_def group_all_def)

lemma fold_Suc: "fold (\<lambda>u n. Suc n) us m = length us + m"
  by (induction us arbitrary: m) simp_all

lemma stacks_of_count: "lookup_or 0 (stacks_of ks) k = count_list ks k"
  by (induction ks) (simp_all add: stacks_of_def group_lookup items_of_def fold_Suc filter_map comp_def)

lemma stacks_of_keys: "set (keys (stacks_of ks)) = set ks" "distinct (keys (stacks_of ks))"
  by (simp_all only: stacks_of_def group_keys group_distinct) force

lemma stacks_of_total: "(\<Sum>(k, n) \<leftarrow> stacks_of ks. n) = length ks"
proof -
  have "(\<Sum>(k, n) \<leftarrow> stacks_of ks. n) = (\<Sum>x \<leftarrow> map (\<lambda>k. (k, ())) ks. (1 :: nat))"
    unfolding stacks_of_def by (rule sum_groups [where h = "\<lambda>n. n" and g = "\<lambda>u. 1"]) (simp add: fold_Suc sum_list_triv)
  then show ?thesis by (simp add: sum_list_triv o_def)
qed

section \<open>Parsing\<close>

text \<open>What has been folded: the stacks of the samples, in order; the limit is kept.\<close>

definition folded :: "int \<Rightarrow> folding \<Rightarrow> string list \<Rightarrow> bool" where
  "folded max_samples p ks \<longleftrightarrow>
     fo_stacks p = stacks_of ks \<and> fo_samples p = length ks \<and> fo_unknown p \<le> length ks \<and> (ks = [] \<or> int (length ks) \<le> max_samples)"

lemma flush_folded:
  "flush_sample max_samples p = Inr q \<Longrightarrow> folded max_samples p ks \<Longrightarrow>
     folded max_samples q (if fo_command p = [] then ks else ks @ [fold_stack (fo_command p) (fo_frames p)]) \<and>
     fo_command q = [] \<and> fo_frames q = []"
  by (auto simp: flush_sample_def folded_def stacks_of_snoc split: if_splits)

lemma folded_updates [simp]:
  "folded max_samples (p\<lparr>fo_command := c\<rparr>) ks = folded max_samples p ks"
  "folded max_samples (p\<lparr>fo_frames := fs\<rparr>) ks = folded max_samples p ks"
  by (simp_all add: folded_def)

lemma script_line_folded:
  assumes "script_line max_samples line p = Inr q" and "\<exists>ks. folded max_samples p ks"
  shows "\<exists>ks. folded max_samples q ks"
proof -
  have "(\<exists>r c. flush_sample max_samples p = Inr r \<and> (q = r \<or> q = r\<lparr>fo_command := c\<rparr>)) \<or> (\<exists>fs. q = p\<lparr>fo_frames := fs\<rparr>)"
    using assms(1) by (auto simp: script_line_def split: list.splits if_splits sum.splits)
  then show ?thesis using assms(2) flush_folded by (metis folded_updates)
qed

lemma parse_script_folded: "parse_script max_samples src = Inr p \<Longrightarrow> \<exists>ks. folded max_samples p ks"
proof -
  assume a: "parse_script max_samples src = Inr p"
  then obtain q where s: "fold_res (script_line max_samples) (fst (scan_lines script_limit (in_body src))) no_folding = Inr q"
    and f: "flush_sample max_samples q = Inr p"
    by (auto simp: parse_script_def dest: scan_foldD split: sum.splits)
  have "\<exists>ks. folded max_samples no_folding ks" by (rule exI [of _ "[]"]) (simp add: folded_def no_folding_def)
  with s have "\<exists>ks. folded max_samples q ks"
    by (rule fold_res_invariant [where P = "\<lambda>p. \<exists>ks. folded max_samples p ks"]) (blast intro: script_line_folded)
  with f show ?thesis by (blast dest: flush_folded)
qed

text \<open>The lines of a sample: the command, the frames from the innermost one on, a blank line.\<close>

type_synonym perf_sample = "string \<times> string list"

definition frame_line :: "string \<Rightarrow> string \<Rightarrow> bool" where
  "frame_line line symbol \<longleftrightarrow>
     (case str_fields line of
        [] \<Rightarrow> False
      | a # fs \<Rightarrow> looks_like_address a \<and> symbol = (case fs of [] \<Rightarrow> ''unknown'' | g # gs \<Rightarrow> g))"

definition sample_lines :: "string list \<Rightarrow> perf_sample \<Rightarrow> bool" where
  "sample_lines ls s \<longleftrightarrow>
     (\<exists>h frames blank. ls = h # frames @ [blank] \<and> (\<exists>fs. str_fields h = fst s # fs) \<and> \<not> looks_like_address (fst s) \<and> fst s \<noteq> [] \<and>
        list_all2 frame_line frames (snd s) \<and> str_fields blank = [])"

text \<open>Its stack: the command, then the frames from the outermost one on.\<close>

definition sample_stack :: "perf_sample \<Rightarrow> string" where
  "sample_stack s = fold_stack (fst s) (rev (snd s))"

lemma frames_folded:
  "list_all2 frame_line frames syms \<Longrightarrow>
     fold_res (script_line max_samples) frames p = Inr (p\<lparr>fo_frames := rev syms @ fo_frames p\<rparr>)"
proof (induction frames syms arbitrary: p rule: list_all2_induct)
  case (Cons l ls s ss)
  have "script_line max_samples l p = Inr (p\<lparr>fo_frames := s # fo_frames p\<rparr>)"
    using Cons(1) by (auto simp: frame_line_def script_line_def split: list.splits)
  with Cons(3) [of "p\<lparr>fo_frames := s # fo_frames p\<rparr>"] show ?case by simp
qed simp

lemma sample_folded:
  assumes "sample_lines ls s" and "folded max_samples p ks" and "fo_command p = []" and "int (length ks) < max_samples"
  shows "\<exists>q. fold_res (script_line max_samples) ls p = Inr q \<and> folded max_samples q (ks @ [sample_stack s]) \<and> fo_command q = []"
proof -
  obtain h frames blank fs where ls: "ls = h # frames @ [blank]" and h: "str_fields h = fst s # fs" "\<not> looks_like_address (fst s)" "fst s \<noteq> []"
    and f: "list_all2 frame_line frames (snd s)" and b: "str_fields blank = []"
    using assms(1) by (auto simp: sample_lines_def)
  define p1 where "p1 = p\<lparr>fo_frames := [], fo_command := fst s\<rparr>"
  define p2 where "p2 = p1\<lparr>fo_frames := rev (snd s)\<rparr>"
  have 1: "script_line max_samples h p = Inr p1"
    using h(1,2) assms(3) by (simp add: script_line_def flush_sample_def p1_def)
  have 2: "fold_res (script_line max_samples) frames p1 = Inr p2"
    using frames_folded [OF f, of max_samples p1] by (simp add: p2_def p1_def)
  have 3: "folded max_samples p2 ks" using assms(2) by (simp add: folded_def p2_def p1_def)
  obtain q where q: "flush_sample max_samples p2 = Inr q"
    using assms(4) 3 h(3) by (auto simp: flush_sample_def folded_def p2_def p1_def)
  then have "folded max_samples q (ks @ [sample_stack s]) \<and> fo_command q = []"
    using flush_folded [OF q 3] h(3) by (simp add: p2_def p1_def sample_stack_def)
  moreover have "script_line max_samples blank p2 = Inr q" using b q by (simp add: script_line_def)
  ultimately show ?thesis using 1 2 by (simp add: ls fold_res_append)
qed

lemma samples_folded:
  "list_all2 sample_lines lss ss \<Longrightarrow> folded max_samples p ks \<Longrightarrow> fo_command p = [] \<Longrightarrow> int (length ks + length ss) \<le> max_samples \<Longrightarrow>
     \<exists>q. fold_res (script_line max_samples) (concat lss) p = Inr q \<and> folded max_samples q (ks @ map sample_stack ss) \<and> fo_command q = []"
proof (induction lss ss arbitrary: p ks rule: list_all2_induct)
  case (Cons ls lss s ss)
  obtain q where q: "fold_res (script_line max_samples) ls p = Inr q" "folded max_samples q (ks @ [sample_stack s])" "fo_command q = []"
    using sample_folded [OF Cons(1) Cons.prems(1,2)] Cons.prems(3) by auto
  with Cons(3) [OF q(2,3)] Cons.prems(3) show ?case by (auto simp: fold_res_append)
qed auto

text \<open>
  C39. The text that perf prints for a list of samples (parsePerfScript and flush of nginx-oncpu-profiler): when the
  limit of the samples allows them, the folded profile has each stack as often as it was sampled, from the command to
  the innermost frame, and nothing else.\<close>

theorem samples_counted:
  assumes "fst (scan_lines script_limit (in_body src)) = concat lss" and "scan_error script_limit src = None"
    and "list_all2 sample_lines lss ss" and "int (length ss) \<le> max_samples"
  shows "case parse_script max_samples src of
      Inl e \<Rightarrow> False
    | Inr p \<Rightarrow> fo_samples p = length ss \<and> distinct (keys (fo_stacks p)) \<and> set (keys (fo_stacks p)) = set (map sample_stack ss) \<and>
        (\<forall>k. lookup_or 0 (fo_stacks p) k = count_list (map sample_stack ss) k)"
proof -
  have "folded max_samples no_folding []" "fo_command no_folding = []" by (simp_all add: folded_def no_folding_def)
  from samples_folded [OF assms(3) this] assms(4) obtain q where
    q: "fold_res (script_line max_samples) (concat lss) no_folding = Inr q" "folded max_samples q (map sample_stack ss)" "fo_command q = []"
    by auto
  have "parse_script max_samples src = Inr (q\<lparr>fo_frames := []\<rparr>)"
    using q assms(1,2) by (simp add: parse_script_def scan_fold_def flush_sample_def)
  then show ?thesis using q(2) stacks_of_keys by (simp add: folded_def stacks_of_count)
qed

section \<open>A capture\<close>

lemma add_folded_bounded:
  "fold_res (add_folded limit m) ks b = Inr b' \<Longrightarrow> b' = b @ concat (map (folded_line m) ks) \<and> (ks = [] \<or> int (length b') \<le> limit)"
proof (induction ks arbitrary: b)
  case (Cons k ks)
  then obtain b1 where b1: "add_folded limit m k b = Inr b1" and f: "fold_res (add_folded limit m) ks b1 = Inr b'"
    by (auto split: sum.splits)
  have "b1 = b @ folded_line m k" "int (length b1) \<le> limit" using b1 by (auto simp: add_folded_def Let_def split: if_splits)
  with Cons.IH [OF f] show ?case by auto
qed simp

text \<open>
  C40. A capture that ends without an error (run and main of nginx-oncpu-profiler): its description is valid and the
  exit status 0; it has at least one worker and at most as many as allowed, in the order of their process ids; it has at
  least one sample and at most as many as allowed, and the counts of the folded output, whose stacks are in strict order,
  add up to them; and neither the raw nor the folded output exceeds its limit.\<close>

theorem capture_bounded:
  assumes "profiler_main E P = (0, m, out)"
  shows "\<exists>d body p. m = Some d \<and> out = Some body \<and> pm_valid d \<and> pm_error d = None \<and>
    pm_workers d \<noteq> [] \<and> int (length (pm_workers d)) \<le> po_max_workers P \<and> sorted (map wk_pid (pm_workers d)) \<and>
    read_script (pv_script E) (po_max_samples P) = Inr p \<and> pm_samples d = fo_samples p \<and>
    1 \<le> pm_samples d \<and> int (pm_samples d) \<le> po_max_samples P \<and> pm_unknown d \<le> pm_samples d \<and>
    body = concat (map (folded_line (fo_stacks p)) (sort (keys (fo_stacks p)))) \<and> distinct (keys (fo_stacks p)) \<and>
    (\<Sum>(k, n) \<leftarrow> fo_stacks p. n) = pm_samples d \<and>
    pm_folded d = length body \<and> int (length body) \<le> po_max_output P \<and> pm_raw d \<le> po_max_output P"
proof -
  let ?m = "start_metadata E P"
  obtain d body where r: "run_profiler E P = (d, Inr body)" and m: "m = Some (d\<lparr>pm_valid := True\<rparr>)" "out = Some body"
    using assms by (auto simp: profiler_main_def Let_def split: prod.splits sum.splits option.splits if_splits)
  obtain ws where v: "validate_perf_options P = None" and w: "find_workers (pv_host E) (po_max_workers P) = Inr ws"
    and c: "run_capture E P (?m\<lparr>pm_workers := ws\<rparr>) = (d, Inr body)"
    using r by (auto simp: run_profiler_def Let_def split: option.splits if_splits sum.splits)
  obtain stderr n where b: "bounded_size (pv_raw_size E) (po_max_output P) = (n, None)"
    and f: "fold_capture E P (?m\<lparr>pm_workers := ws, pm_lost := lost_samples stderr, pm_raw := n\<rparr>) = (d, Inr body)"
    using c by (auto simp: run_capture_def Let_def split: prod.splits option.splits)
  obtain p where p: "read_script (pv_script E) (po_max_samples P) = Inr p" "fo_samples p \<noteq> 0"
    and wf: "write_folded (pv_files E) (po_folded P) (fo_stacks p) (po_max_output P) = Inr body"
    and d: "d = ?m\<lparr>pm_workers := ws, pm_lost := lost_samples stderr, pm_raw := n, pm_samples := fo_samples p, pm_unknown := fo_unknown p, pm_folded := length body\<rparr>"
    using f by (auto simp: fold_capture_def Let_def split: sum.splits if_splits)
  have "parse_script (po_max_samples P) (sp_output (pv_script E)) = Inr p"
    using p(1) by (auto simp: read_script_def split: option.splits sum.splits)
  then obtain ks where ks: "folded (po_max_samples P) p ks" using parse_script_folded by blast
  then have k: "ks \<noteq> []" using p(2) by (auto simp: folded_def)
  have "fold_res (add_folded (po_max_output P) (fo_stacks p)) (sort (keys (fo_stacks p))) [] = Inr body"
    using wf by (auto simp: write_folded_def split: sum.splits option.splits)
  then have body: "body = concat (map (folded_line (fo_stacks p)) (sort (keys (fo_stacks p))))"
    "sort (keys (fo_stacks p)) = [] \<or> int (length body) \<le> po_max_output P"
    unfolding atomize_conj by (rule add_folded_bounded [where b = "[]", unfolded append_Nil])
  have "set (keys (fo_stacks p)) \<noteq> {}" using ks k stacks_of_keys(1) [of ks] by (simp add: folded_def)
  then have "sort (keys (fo_stacks p)) \<noteq> []" by (metis list.set(1) set_sort)
  with body(2) have len: "int (length body) \<le> po_max_output P" by simp
  have pos: "0 < po_max_workers P" using v by (auto simp: validate_perf_options_def split: if_splits)
  have ws: "ws \<noteq> []" "int (length ws) \<le> po_max_workers P" "sorted (map wk_pid ws)"
    using w pos by (auto simp: find_workers_def Let_def take_map [symmetric] sorted_wrt_take split: sum.splits if_splits)
  have "n \<le> po_max_output P" using b by (auto simp: bounded_size_def split: sum.splits if_splits)
  moreover have "fo_samples p = length ks" "fo_unknown p \<le> length ks" "int (length ks) \<le> po_max_samples P" "fo_stacks p = stacks_of ks"
    using ks k by (auto simp: folded_def)
  moreover have "1 \<le> length ks" using k by (cases ks) simp_all
  ultimately show ?thesis
    using ws len body(1) p(1) stacks_of_total [of ks] stacks_of_keys(2) [of ks]
    by (intro exI [of _ "d\<lparr>pm_valid := True\<rparr>"] exI [of _ body] exI [of _ p]) (simp add: m d start_metadata_def)
qed

section \<open>A run\<close>

definition demo_sample :: "string list" where
  "demo_sample = [''nginx 12 1.0: cycles:'', [CHR 0x09] @ ''5f a;b'', [CHR 0x09] @ ''0x1 main'', []]"

definition demo_script :: stream where
  "demo_script = \<lparr>in_body = concat (map (\<lambda>l. l @ [CHR 0x0A]) (demo_sample @ demo_sample)), in_read_err = None, in_close_err = None\<rparr>"

lemma demo_sample_lines: "sample_lines demo_sample (''nginx'', [''a;b'', ''main''])"
proof -
  have "str_fields ''nginx 12 1.0: cycles:'' = [''nginx'', ''12'', ''1.0:'', ''cycles:'']" "\<not> looks_like_address ''nginx''"
    "list_all2 frame_line [[CHR 0x09] @ ''5f a;b'', [CHR 0x09] @ ''0x1 main''] [''a;b'', ''main'']" "str_fields [] = []"
    by code_simp+
  then show ?thesis
    unfolding sample_lines_def demo_sample_def
    by (intro exI [of _ "''nginx 12 1.0: cycles:''"] exI [of _ "[[CHR 0x09] @ ''5f a;b'', [CHR 0x09] @ ''0x1 main'']"] exI [of _ "[]"]) simp
qed

theorem samples_counted_witness:
  "case parse_script 2 demo_script of Inl e \<Rightarrow> False | Inr p \<Rightarrow> fo_samples p = 2 \<and> lookup_or 0 (fo_stacks p) ''nginx;main;a:b'' = 2"
proof -
  have l: "fst (scan_lines script_limit (in_body demo_script)) = concat [demo_sample, demo_sample]" "scan_error script_limit demo_script = None"
    by code_simp+
  have s: "list_all2 sample_lines [demo_sample, demo_sample] [(''nginx'', [''a;b'', ''main'']), (''nginx'', [''a;b'', ''main''])]"
    by (simp add: demo_sample_lines)
  have "sample_stack (''nginx'', [''a;b'', ''main'']) = ''nginx;main;a:b''" by code_simp
  with samples_counted [OF l s, of 2] show ?thesis by (simp split: sum.splits)
qed

definition demo_perf_env :: perf_env where
  "demo_perf_env =
     \<lparr>pv_started = 0, pv_ended = 5, pv_delay_signal = None,
      pv_host = \<lparr>ph_ps = Inr ('' 12 nginx: worker process'' @ [CHR 0x0A] @ ''7 sh''), ph_stat = (\<lambda>n. Inr ''12 (nginx) S 1''),
        ph_exe = (\<lambda>n. Inr ''/n''), ph_readelf = (\<lambda>e. Inr '' Build ID: ab'')\<rparr>,
      pv_record = \<lparr>pr_start = None, pr_cancelled = False, pr_kill = None, pr_wait = Signalled 2, pr_stderr = ''Lost 3 samples''\<rparr>,
      pv_raw_size = Inr 9, pv_script = \<lparr>sp_start = None, sp_output = demo_script, sp_wait = None, sp_stderr = []\<rparr>,
      pv_files = \<lparr>fp_mkdir = (\<lambda>d. None), fp_write = (\<lambda>f. None)\<rparr>\<rparr>"

definition demo_perf_options :: perf_options where
  "demo_perf_options =
     \<lparr>po_delay = 0, po_duration = 1, po_frequency = 49, po_max_workers = 1, po_max_samples = 2, po_max_output = 40, po_call_graph = ''fp'',
      po_folded = ''f'', po_metadata = ''m'', po_raw = ''r''\<rparr>"

lemma demo_profiler:
  "case profiler_main demo_perf_env demo_perf_options of
     (status, Some d, Some body) \<Rightarrow> status = 0 \<and> pm_lost d = 3 \<and> map wk_build (pm_workers d) = [''ab''] \<and> body = ''nginx;main;a:b 2'' @ [CHR 0x0A]
   | _ \<Rightarrow> False"
  by code_simp

theorem capture_bounded_witness:
  "case profiler_main demo_perf_env demo_perf_options of
     (status, Some d, Some body) \<Rightarrow> status = 0 \<and> pm_valid d \<and> pm_samples d = fo_samples (projr (read_script (pv_script demo_perf_env) 2)) \<and>
       length (pm_workers d) = 1 \<and> pm_raw d \<le> 40
   | _ \<Rightarrow> False"
proof -
  obtain d body where r: "profiler_main demo_perf_env demo_perf_options = (0, Some d, Some body)"
    using demo_profiler by (auto split: prod.splits option.splits)
  have o: "po_max_workers demo_perf_options = 1" "po_max_samples demo_perf_options = 2" "po_max_output demo_perf_options = 40"
    by (simp_all add: demo_perf_options_def)
  from capture_bounded [OF r] show ?thesis unfolding r o by (cases "pm_workers d") auto
qed

end
