(* ===== verification/Spec2Isabelle.thy ===== *)
theory Spec2Isabelle
  imports DeployProperties DeployCliProperties PortalProperties MeasureProperties MeasureCollectProperties MeasureDigestProperties MeasureQualityProperties MeasureSeriesProperties MeasureManifestProperties MeasureCommitProperties BenchOutputProperties TrafficWindowProperties NginxReportProperties UserTransitionsProperties AnalysisProperties ProcProperties TopologyScreenProperties JsonMetricsProperties SqlPoolProperties MysqlMetricsProperties PerfProfileProperties
begin

text \<open>
  Verification of the Go tools with which a team runs a performance contest (src/tools). The tools work
  together around one \<^emph>\<open>RUN\<close> of the benchmark:

  \<^item> \<open>deployctl\<close> brings a worktree to the hosts: it uploads files, guarded by a backup, activates them, runs
    plans of deployments in the order of their dependencies, and verifies by stamps what a host has.
  \<^item> \<open>portal-bench\<close> submits a job to the benchmark's portal and polls it until it has finished.
  \<^item> \<open>measurectl\<close> measures a RUN: \<open>run begin\<close> snapshots the worktree, writes the manifest and starts the
    collectors; \<open>run finalize\<close> stops them, saves their outputs, fetches and aggregates the logs, and closes
    the manifest, which is then committed. A marker file says which RUN is active; deployments are refused
    while there is one.
  \<^item> The samplers under \<open>measurement/cmd\<close> run on the hosts during a RUN, started and stopped by
    \<open>measurectl collect\<close>: \<open>proc-metrics\<close> reads /proc and the control groups, \<open>mysql-metrics\<close> the status and the
    lock waits of MySQL, \<open>sql-pool-metrics\<close> and \<open>json-metrics-collector\<close> poll HTTP endpoints of the application,
    \<open>nginx-oncpu-profiler\<close> samples the workers of nginx with perf.
    \<open>bench-output\<close> follows the output of the benchmark and marks its score in the log that finalize reads.
  \<^item> Reports are made of the recorded logs: \<open>nginx-backend-report\<close>, \<open>user-transition-metrics\<close> and
    \<open>topology-screen\<close>; \<open>analysisctl\<close> imports the RUNs into a DuckDB database and determines the window of a RUN
    to analyse.

  \<^bold>\<open>Theories and code.\<close> Each theory opens with the files it models.

  \<^item> \<open>GoPrelude\<close>, \<open>GoStrings\<close>, \<open>GoPath\<close>, \<open>GoMatch\<close>, \<open>GoCsv\<close>, \<open>GoTime\<close>, \<open>GoExec\<close>, \<open>GoPlaceholder\<close>: what the
    tools use of Go's standard library (maps with an arbitrary order of iteration, errors, strings, paths,
    patterns, CSV, durations) and the calls of external commands, recorded in a trace.
  \<^item> \<open>GoParallel\<close>: \<open>runParallel\<close> of deployctl/deploy.go as a step relation of goroutines with a semaphore, and
    the interfaces \<open>job_pool\<close> and \<open>error_pool\<close> that its callers rely on.
  \<^item> \<open>DeployConfig\<close> (deployctl/config.go), \<open>DeployRun\<close> (deploy.go), \<open>DeployPlan\<close> (plan.go), \<open>DeployStamp\<close>
    (stamp.go), \<open>DeployCli\<close> (main.go, check_roles.go). \<open>DeployRunFacts\<close> and \<open>DeployPlanFacts\<close> hold the shared
    lemmas, \<open>DeployProperties\<close> and \<open>DeployCliProperties\<close> the properties.
  \<^item> \<open>PortalConfig\<close> (portal-bench/config.go and main.go), \<open>PortalProto\<close> (decode.go), \<open>PortalRunner\<close> (runner.go),
    \<open>PortalProperties\<close>.
  \<^item> \<open>MeasureLifecycle\<close> (measurectl/lifecycle.go), \<open>MeasureConfig\<close> (config.go), \<open>MeasureCollect\<close> (collect.go),
    \<open>MeasureDigest\<close> (digest.go), \<open>MeasureQuality\<close> (quality.go), \<open>MeasureArtifacts\<close> (artifacts.go),
    \<open>MeasureSeries\<close> (measurement/profileseries/series.go), \<open>MeasureCapture\<close> (capture_artifacts.go),
    \<open>MeasureCommit\<close> (commit.go), \<open>MeasureManifest\<close> (manifest.go, main.go and the command of artifacts.go); the
    theories \<open>Measure...Facts\<close> and \<open>Measure...Properties\<close> hold their lemmas and properties.
  \<^item> \<open>GoInput\<close> (reading line by line, floating-point values as they are parsed and printed), \<open>GoGroup\<close> (grouping in
    a map), \<open>GoBuffer\<close> (a CSV writer on a buffered writer on a limited one), \<open>GoHttp\<close> (replies to requests) are
    shared by the tools below.
  \<^item> \<open>BenchOutput\<close> (bench-output/main.go), \<open>NginxReport\<close> (nginx-backend-report/main.go), \<open>UserTransitions\<close>
    (user-transition-metrics/main.go), \<open>TopologyScreen\<close> (topology-screen/main.go), each with its \<open>...Properties\<close>.
  \<^item> \<open>TrafficWindow\<close> (analysisctl/traffic_window.go) with \<open>TrafficWindowProperties\<close>; \<open>AnalysisSql\<close> and
    \<open>AnalysisIndex\<close> (analysisctl/main.go and compare.go: the statements, and the state of the index with its lock)
    with \<open>AnalysisProperties\<close>.
  \<^item> measurement/cmd/proc-metrics: \<open>ProcParse\<close> (the files of /proc and of the control groups), \<open>ProcRows\<close> (counters,
    rates, rows), \<open>ProcCollect\<close> (the services and the loop over the ticks), \<open>ProcTasks\<close> (blocked tasks and the
    command), \<open>ProcProperties\<close>. \<open>JsonMetrics\<close>, \<open>SqlPool\<close> and \<open>MysqlMetrics\<close> are the commands
    json-metrics-collector, sql-pool-metrics and mysql-metrics, \<open>PerfProfile\<close> is nginx-oncpu-profiler, each with its
    \<open>...Properties\<close>.

  \<^bold>\<open>State and effects.\<close> A struct is a record, a fallible function returns \<open>go_error + value\<close> or
  \<open>go_error option\<close>, and an error is a structured value: a name for the format string, the values it is
  formatted with, the errors it wraps. Operations thread a state record through: the trace of external
  commands with the state of the outside world (\<open>sys\<close>), the local files as an association list from paths
  to contents (\<open>tree\<close>), the printed lines. What an external command does (ssh, rsync, git, zstd, a shell) is
  the parameter \<open>executor\<close>, an arbitrary function, so the theorems hold however the commands fail. Decoders
  of YAML and JSON, templates, regular expressions and URLs of a configuration, SHA-256, clocks, the HTTP
  client, the profile parser and the flag package are parameters too, and so are the errors of file
  operations; a hypothesis on one of them is stated in the theorem that needs it, and a witness
  instantiates it.

  \<^bold>\<open>Interfaces.\<close> \<open>job_pool\<close> is what the deployment relies on of a pool of goroutines (every job is run once,
  its result is kept by its index), \<open>error_pool\<close> what the collectors and digests rely on (an error is
  reported exactly when some job failed); they are interpreted on the models of the two pools of the code.
  \<open>run_marker\<close> is what begin and finalize rely on of the file that marks the active RUN.

  \<^bold>\<open>Properties.\<close> \<open>DeployProperties\<close>: a plan succeeds exactly when every deployment has been activated, in the
  order of the dependencies and once; it ends; cycles are found exactly; a failed guarded upload keeps the
  previous configuration or its backup; paths stay in the repository and in the permitted directories.
  \<open>DeployCliProperties\<close>: a successful verification has compared every declared host, nothing is deployed
  during a RUN. \<open>PortalProperties\<close>: a benchmark ends, a job is submitted once, the protobuf encoder and
  selector are inverse. \<open>MeasureProperties\<close>: begin leaves a marker exactly when it succeeds. The collectors
  are stopped without loss: nothing is removed on a host before its outputs are local
  (\<open>MeasureCollectProperties\<close>). Digests: fetched logs are complete or absent, every output exists, no log is
  lost by compressing (\<open>MeasureDigestProperties\<close>). Quality, captures and profile series: what makes a
  recording valid (\<open>MeasureQualityProperties\<close>, \<open>MeasureSeriesProperties\<close>). The manifest: its contract is
  frozen at begin, the scan is complete, run.json is replaced as a whole (\<open>MeasureManifestProperties\<close>); the
  commits are scoped to the RUN (\<open>MeasureCommitProperties\<close>). Reports count everything once: the upstream report
  does not depend on the order of its logs and is read back (\<open>NginxReportProperties\<close>), sessions and transitions add
  up (\<open>UserTransitionsProperties\<close>), so do the loads of a screening, whose routes reach a normal form
  (\<open>TopologyScreenProperties\<close>). The markers of bench-output are what finalize reads (\<open>BenchOutputProperties\<close>). The
  window to analyse lies in the RUN and holds the busiest interval (\<open>TrafficWindowProperties\<close>). The index is
  rebuilt as a whole or kept, and a synchronization is complete (\<open>AnalysisProperties\<close>). The samplers write one
  complete row per tick that succeeded, with rates against the last such tick; percentages lie between their
  bounds; outputs stay within their limit; the lease of the metrics is ended; lock waits are read back; stacks are folded
  with their multiplicities (\<open>ProcProperties\<close>, \<open>JsonMetricsProperties\<close>, \<open>SqlPoolProperties\<close>,
  \<open>MysqlMetricsProperties\<close>, \<open>PerfProfileProperties\<close>).

  \<^bold>\<open>Bounds and fuel.\<close> The depth-first search for cycles has one level of recursion per name of the plan, and
  \<open>cycle_search_exact\<close> shows that it never needs more. The rounds of a plan are counted by the pending
  deployments, which every round decreases (\<open>plan_settles\<close>). The loop that polls the portal has one round of
  fuel per nanosecond of its timeout, of which every wait consumes at least one (\<open>run_portal_ends\<close>). Includes
  are followed with the list of open files, which a cycle would repeat. git is tried at most four times
  (\<open>git_tries_bounded\<close>). The wait for the lock of the index ends by the time that remains, the search for the traffic
  by the seconds that remain. The ten passes over a route are the bound of the code; \<open>route_normal_form\<close> shows
  that two are enough. A sampler runs over the list of its ticks, however long. Integers are unbounded where the code cannot leave their range and cut off or
  wrapped at 64 bits where it can (\<open>time_sub\<close>, \<open>wrap64\<close>, varints).

  \<^bold>\<open>Simplifications.\<close> The jobs of a parallel loop of measurectl are run in an arbitrary order, each as a
  whole; the goroutines of deployctl are interleaved. Floating-point numbers are rationals, infinities or not a
  number: no rounding is modelled but that of the printed decimals. The counters of proc-metrics and
  mysql-metrics are 64-bit words, with the wrap-around of their differences. Strings are the bytes of their
  UTF-8 encoding; texts of errors are structured values, messages in Japanese their arguments. Durations in
  messages and the usage texts are left out. A ticker is a list of ticks; the signal that ends a sampler is the
  end of the list.

  \<^bold>\<open>Not modelled.\<close> The dashboard server (an HTTP service that reads the files of the RUNs) and its web client,
  which is not Go; in analysisctl the staging of logs and profiles and the import of pprof profiles, which works on
  the structures of a third-party package; the handlers under measurement/app around
  runtime/pprof; the drivers of DuckDB and MySQL and the commands that the tools call; generated parts.
\<close>

end
